(* ===== verification/Rhi_Prelude.thy ===== *)
theory Rhi_Prelude
  imports Main "HOL-Library.Word" "HOL-Library.List_Lexorder"
begin

text \<open>
  Shared vocabulary of the development: Rust's \<open>Result\<close> and \<open>Option\<close> combinators over sums and
  options, the checked and saturating operations on unsigned 64-bit integers, the conversions
  between those integers and SQLite's signed ones, and byte strings.  The \<open>[simp]\<close> rules below
  reduce every \<open>?\<close>-chain of the code to the equations of its steps.
\<close>

named_theorems rhi_defs \<open>definitions unfolded by the component proofs\<close>

section \<open>Results\<close>

type_synonym ('e, 'a) result = "'e + 'a"

type_synonym bytes = "8 word list"

text \<open>\<open>and_then\<close> is the \<open>?\<close> operator: the first error ends the computation.\<close>

definition and_then :: "('e, 'a) result \<Rightarrow> ('a \<Rightarrow> ('e, 'b) result) \<Rightarrow> ('e, 'b) result" where
  "and_then m f = (case m of Inl e \<Rightarrow> Inl e | Inr a \<Rightarrow> f a)"

definition ok_or :: "'e \<Rightarrow> 'a option \<Rightarrow> ('e, 'a) result" where
  "ok_or e x = (case x of None \<Rightarrow> Inl e | Some a \<Rightarrow> Inr a)"

definition ensure :: "bool \<Rightarrow> 'e \<Rightarrow> ('e, unit) result" where
  "ensure b e = (if b then Inr () else Inl e)"

definition map_err :: "('e \<Rightarrow> 'f) \<Rightarrow> ('e, 'a) result \<Rightarrow> ('f, 'a) result" where
  "map_err g m = (case m of Inl e \<Rightarrow> Inl (g e) | Inr a \<Rightarrow> Inr a)"

definition is_ok :: "('e, 'a) result \<Rightarrow> bool" where
  "is_ok m = (case m of Inl _ \<Rightarrow> False | Inr _ \<Rightarrow> True)"

text \<open>\<open>Option::filter\<close>.\<close>

definition option_filter :: "('a \<Rightarrow> bool) \<Rightarrow> 'a option \<Rightarrow> 'a option" where
  "option_filter p x = (case x of None \<Rightarrow> None | Some a \<Rightarrow> if p a then Some a else None)"

text \<open>\<open>Option::transpose\<close>.\<close>

definition transpose :: "('e, 'a) result option \<Rightarrow> ('e, 'a option) result" where
  "transpose x = (case x of None \<Rightarrow> Inr None
     | Some (Inl e) \<Rightarrow> Inl e | Some (Inr a) \<Rightarrow> Inr (Some a))"

lemma and_then_simps [simp]:
  "and_then (Inl e) f = Inl e"
  "and_then (Inr a) f = f a"
  by (simp_all add: and_then_def)

lemma and_then_Inr_iff [simp]:
  "and_then m f = Inr b \<longleftrightarrow> (\<exists>a. m = Inr a \<and> f a = Inr b)"
  by (cases m) auto

lemma and_then_Inl_iff [simp]:
  "and_then m f = Inl e \<longleftrightarrow> m = Inl e \<or> (\<exists>a. m = Inr a \<and> f a = Inl e)"
  by (cases m) auto

lemma ok_or_simps [simp]:
  "ok_or e None = Inl e"
  "ok_or e (Some a) = Inr a"
  by (simp_all add: ok_or_def)

lemma ok_or_iff [simp]:
  "ok_or e x = Inr a \<longleftrightarrow> x = Some a"
  "ok_or e x = Inl e' \<longleftrightarrow> x = None \<and> e' = e"
  by (cases x; auto)+

lemma ensure_iff [simp]:
  "ensure b e = Inr u \<longleftrightarrow> b"
  "ensure b e = Inl e' \<longleftrightarrow> \<not> b \<and> e' = e"
  by (auto simp: ensure_def)

lemma ensure_simps [simp]:
  "ensure True e = Inr ()"
  "ensure False e = Inl e"
  by (simp_all add: ensure_def)

lemma map_err_simps [simp]:
  "map_err g (Inl e) = Inl (g e)"
  "map_err g (Inr a) = Inr a"
  by (simp_all add: map_err_def)

lemma map_err_iff [simp]:
  "map_err g m = Inr a \<longleftrightarrow> m = Inr a"
  "map_err g m = Inl f \<longleftrightarrow> (\<exists>e. m = Inl e \<and> f = g e)"
  by (cases m; auto)+

lemma is_ok_simps [simp]:
  "is_ok (Inl e) = False"
  "is_ok (Inr a) = True"
  by (simp_all add: is_ok_def)

lemma option_filter_iff [simp]:
  "option_filter p x = Some a \<longleftrightarrow> x = Some a \<and> p a"
  "option_filter p x = None \<longleftrightarrow> (\<forall>a. x = Some a \<longrightarrow> \<not> p a)"
  by (cases x; auto simp: option_filter_def)+

lemma option_filter_simps [simp]:
  "option_filter p None = None"
  "option_filter p (Some a) = (if p a then Some a else None)"
  by (simp_all add: option_filter_def)

lemma transpose_simps [simp]:
  "transpose None = Inr None"
  "transpose (Some (Inl e)) = Inl e"
  "transpose (Some (Inr a)) = Inr (Some a)"
  by (simp_all add: transpose_def)

text \<open>\<open>Iterator::collect\<close> into a result: the values, or the first error.\<close>

fun collect :: "('e, 'a) result list \<Rightarrow> ('e, 'a list) result" where
  "collect [] = Inr []"
| "collect (m # ms) = and_then m (\<lambda>a. and_then (collect ms) (\<lambda>rest. Inr (a # rest)))"

lemma collect_Inr_map:
  assumes "\<And>x. x \<in> set xs \<Longrightarrow> f x = Inr (g x)"
  shows "collect (map f xs) = Inr (map g xs)"
  using assms by (induction xs) auto

section \<open>Unsigned 64-bit arithmetic\<close>

text \<open>
  A \<open>u64\<close> is a natural number below \<open>2 ^ 64\<close>; every operation the code applies to one is checked or
  saturating, so the bound is written out in the operation.
\<close>

definition u64_max :: nat where
  "u64_max = 18446744073709551615"

definition i64_max :: nat where
  "i64_max = 9223372036854775807"

definition checked_add :: "nat \<Rightarrow> nat \<Rightarrow> nat option" where
  "checked_add a b = (if a + b \<le> u64_max then Some (a + b) else None)"

definition checked_mul :: "nat \<Rightarrow> nat \<Rightarrow> nat option" where
  "checked_mul a b = (if a * b \<le> u64_max then Some (a * b) else None)"

definition saturating_mul :: "nat \<Rightarrow> nat \<Rightarrow> nat" where
  "saturating_mul a b = min (a * b) u64_max"

definition saturating_sub :: "nat \<Rightarrow> nat \<Rightarrow> nat" where
  "saturating_sub a b = (if b \<le> a then a - b else 0)"

text \<open>\<open>1_u64.checked_shl(exponent)\<close>.\<close>

definition checked_shl_one :: "nat \<Rightarrow> nat option" where
  "checked_shl_one e = (if e < 64 then Some (2 ^ e) else None)"

lemma i64_max_eq: "i64_max = 2 ^ 63 - 1" and u64_max_eq: "u64_max = 2 ^ 64 - 1"
  by (simp_all add: i64_max_def u64_max_def)

lemma i64_max_less_u64_max: "i64_max < u64_max"
  by (simp add: i64_max_def u64_max_def)

lemma checked_add_iff [simp]:
  "checked_add a b = Some c \<longleftrightarrow> a + b \<le> u64_max \<and> c = a + b"
  by (auto simp: checked_add_def)

lemma checked_add_within:
  assumes "a + b \<le> i64_max"
  shows "checked_add a b = Some (a + b)"
  using assms i64_max_less_u64_max by simp

text \<open>\<open>i64::try_from\<close> and \<open>u64::try_from\<close>, the two directions of a bound integer column.\<close>

definition i64_of_u64 :: "'e \<Rightarrow> nat \<Rightarrow> ('e, int) result" where
  "i64_of_u64 e n = (if n \<le> i64_max then Inr (int n) else Inl e)"

definition u64_of_i64 :: "'e \<Rightarrow> int \<Rightarrow> ('e, nat) result" where
  "u64_of_i64 e i = (if 0 \<le> i then Inr (nat i) else Inl e)"

lemma i64_of_u64_iff [simp]:
  "i64_of_u64 e n = Inr i \<longleftrightarrow> n \<le> i64_max \<and> i = int n"
  "i64_of_u64 e n = Inl e' \<longleftrightarrow> i64_max < n \<and> e' = e"
  by (auto simp: i64_of_u64_def)

lemma u64_of_i64_iff [simp]:
  "u64_of_i64 e i = Inr n \<longleftrightarrow> 0 \<le> i \<and> n = nat i"
  "u64_of_i64 e i = Inl e' \<longleftrightarrow> i < 0 \<and> e' = e"
  by (auto simp: u64_of_i64_def)

text \<open>\<open>to_be_bytes\<close> of a fixed number of bytes.\<close>

definition to_be_bytes :: "nat \<Rightarrow> nat \<Rightarrow> bytes" where
  "to_be_bytes w n = map (\<lambda>i. word_of_nat (n div 256 ^ (w - Suc i))) [0..<w]"

lemma length_to_be_bytes [simp]: "length (to_be_bytes w n) = w"
  by (simp add: to_be_bytes_def)

end
