(* ===== verification/Sql_Table.thy ===== *)
theory Sql_Table
  imports Rhi_Prelude "HOL-Library.Option_ord" "HOL-Library.Product_Lexorder"
begin

text \<open>
  The SQL statements the repositories issue, over a table given as the list of its rows.  A table
  is governed: a \<open>BEFORE UPDATE\<close> trigger (a predicate on the old and the new row), a
  \<open>BEFORE INSERT\<close> trigger and the declared constraints (a predicate on the whole table) decide
  whether a statement runs or aborts, and an aborted statement returns \<^term>\<open>None\<close>.  The locale
  \<open>cas_table\<close> is the contract of the compare-and-swap tables: keys never change and the revision
  goes up by one at every update.  Transactions of the service-SQLite host are a parameter of the
  operations; \<open>atomic_txn\<close> states what the code relies on.
\<close>

text \<open>The largest INTEGER value.\<close>

abbreviation sql_i64_max :: int where
  "sql_i64_max \<equiv> 9223372036854775807"

section \<open>Three-valued logic\<close>

text \<open>
  A condition over nullable columns has three truth values, \<^term>\<open>None\<close> for NULL.  A
  \<open>CHECK\<close> rejects a row only when its condition is false; a \<open>WHERE\<close> or a trigger's \<open>WHEN\<close> holds
  only when its condition is true.
\<close>

definition sql_and :: "bool option \<Rightarrow> bool option \<Rightarrow> bool option" where
  "sql_and a b = (if a = Some False \<or> b = Some False then Some False
     else if a = None \<or> b = None then None else Some True)"

definition sql_or :: "bool option \<Rightarrow> bool option \<Rightarrow> bool option" where
  "sql_or a b = (if a = Some True \<or> b = Some True then Some True
     else if a = None \<or> b = None then None else Some False)"

definition sql_between :: "int option \<Rightarrow> int \<Rightarrow> int \<Rightarrow> bool option" where
  "sql_between x lo hi = map_option (\<lambda>v. lo \<le> v \<and> v \<le> hi) x"

definition sql_not :: "bool option \<Rightarrow> bool option" where
  "sql_not = map_option Not"

definition sql_length_is :: "'a list option \<Rightarrow> nat \<Rightarrow> bool option" where
  "sql_length_is x n = map_option (\<lambda>b. length b = n) x"

definition check_holds :: "bool option \<Rightarrow> bool" where
  "check_holds b \<longleftrightarrow> b \<noteq> Some False"

definition sql_true :: "bool option \<Rightarrow> bool" where
  "sql_true b \<longleftrightarrow> b = Some True"

text \<open>\<open>column <= ?\<close> and \<open>column > ?\<close> in a \<open>WHERE\<close>, on a nullable integer column.\<close>

definition sql_le :: "int option \<Rightarrow> int \<Rightarrow> bool" where
  "sql_le x n = (case x of None \<Rightarrow> False | Some v \<Rightarrow> v \<le> n)"

definition sql_gt :: "int option \<Rightarrow> int \<Rightarrow> bool" where
  "sql_gt x n = (case x of None \<Rightarrow> False | Some v \<Rightarrow> n < v)"

lemma sql_le_simps [simp]: "sql_le None n = False" "sql_le (Some v) n = (v \<le> n)"
  by (simp_all add: sql_le_def)

lemma sql_gt_simps [simp]: "sql_gt None n = False" "sql_gt (Some v) n = (n < v)"
  by (simp_all add: sql_gt_def)

lemmas sql_logic = sql_and_def sql_or_def sql_between_def sql_not_def sql_length_is_def
  check_holds_def sql_true_def

section \<open>Statements\<close>

text \<open>\<open>UPDATE t SET f WHERE p\<close>; the number is \<open>rows_affected\<close>.\<close>

definition sql_update ::
  "('r \<Rightarrow> 'r \<Rightarrow> bool) \<Rightarrow> ('r list \<Rightarrow> bool) \<Rightarrow> ('r \<Rightarrow> bool) \<Rightarrow> ('r \<Rightarrow> 'r) \<Rightarrow> 'r list \<Rightarrow> ('r list \<times> nat) option"
  where
  "sql_update guard valid p f rows =
     (let rows' = map (\<lambda>r. if p r then f r else r) rows
      in if list_all (\<lambda>r. p r \<longrightarrow> guard r (f r)) rows \<and> valid rows'
         then Some (rows', length (filter p rows)) else None)"

text \<open>\<open>INSERT INTO t VALUES r\<close>: the trigger sees the table before the insertion.\<close>

definition sql_insert ::
  "('r list \<Rightarrow> 'r \<Rightarrow> bool) \<Rightarrow> ('r list \<Rightarrow> bool) \<Rightarrow> 'r \<Rightarrow> 'r list \<Rightarrow> 'r list option" where
  "sql_insert guard valid r rows =
     (if guard rows r \<and> valid (rows @ [r]) then Some (rows @ [r]) else None)"

text \<open>\<open>SELECT ... WHERE key = k LIMIT 1\<close> on a primary key.\<close>

definition select_key :: "('r \<Rightarrow> 'k) \<Rightarrow> 'k \<Rightarrow> 'r list \<Rightarrow> 'r option" where
  "select_key key k rows = find (\<lambda>r. key r = k) rows"

text \<open>\<open>SELECT ... WHERE p ORDER BY ord LIMIT 1\<close>: the first row of least sort key.\<close>

fun select_min :: "('r \<Rightarrow> 'o::linorder) \<Rightarrow> 'r list \<Rightarrow> 'r option" where
  "select_min ord [] = None"
| "select_min ord (r # rows) =
     (case select_min ord rows of
        None \<Rightarrow> Some r
      | Some s \<Rightarrow> if ord r \<le> ord s then Some r else Some s)"

lemma sql_update_SomeD:
  assumes "sql_update guard valid p f rows = Some (rows', n)"
  shows "rows' = map (\<lambda>r. if p r then f r else r) rows"
    and "n = length (filter p rows)"
    and "valid rows'"
    and "\<And>r. r \<in> set rows \<Longrightarrow> p r \<Longrightarrow> guard r (f r)"
  using assms by (auto simp: sql_update_def Let_def list_all_iff split: if_splits)

lemma sql_insert_SomeD:
  assumes "sql_insert guard valid r rows = Some rows'"
  shows "rows' = rows @ [r]" and "guard rows r" and "valid rows'"
  using assms by (auto simp: sql_insert_def split: if_splits)

lemma select_key_SomeD:
  assumes "select_key key k rows = Some r"
  shows "r \<in> set rows" and "key r = k"
  using assms by (auto simp: select_key_def find_Some_iff)

lemma select_key_None_iff: "select_key key k rows = None \<longleftrightarrow> k \<notin> key ` set rows"
  by (auto simp: select_key_def find_None_iff)

lemma select_key_distinct:
  assumes "distinct (map key rows)" and "r \<in> set rows"
  shows "select_key key (key r) rows = Some r"
  using assms by (induction rows) (auto simp: select_key_def)

lemma select_key_append:
  "select_key key k (rows @ rows') =
     (case select_key key k rows of None \<Rightarrow> select_key key k rows' | Some r \<Rightarrow> Some r)"
  by (induction rows) (auto simp: select_key_def)

lemma select_key_snoc:
  "select_key key k (rows @ [r]) =
     (case select_key key k rows of
        None \<Rightarrow> if key r = k then Some r else None | Some x \<Rightarrow> Some x)"
  by (simp add: select_key_append select_key_def[of _ _ "[r]"] split: option.split)

lemma select_min_None_iff [simp]: "select_min ord rows = None \<longleftrightarrow> rows = []"
  by (cases rows) (auto split: option.splits)

lemma select_min_SomeD:
  assumes "select_min ord rows = Some r"
  shows "r \<in> set rows" and "\<And>s. s \<in> set rows \<Longrightarrow> ord r \<le> ord s"
proof -
  have "r \<in> set rows \<and> (\<forall>s \<in> set rows. ord r \<le> ord s)"
    using assms
  proof (induction rows arbitrary: r)
    case Nil
    then show ?case by simp
  next
    case (Cons x rows)
    show ?case
    proof (cases "select_min ord rows")
      case None
      with Cons.prems show ?thesis by simp
    next
      case (Some s)
      with Cons.IH have "s \<in> set rows" and "\<forall>t \<in> set rows. ord s \<le> ord t" by auto
      with Cons.prems Some show ?thesis by (auto split: if_splits)
    qed
  qed
  then show "r \<in> set rows" and "\<And>s. s \<in> set rows \<Longrightarrow> ord r \<le> ord s" by auto
qed

lemma length_filter_key_le_1:
  assumes "distinct (map key rows)" and "\<And>r. p r \<Longrightarrow> key r = k"
  shows "length (filter p rows) \<le> 1"
  using assms
proof (induction rows)
  case Nil
  then show ?case by simp
next
  case (Cons x rows)
  show ?case
  proof (cases "p x")
    case True
    with Cons.prems have "filter p rows = []"
      by (force simp: filter_empty_conv)
    then show ?thesis by simp
  next
    case False
    with Cons show ?thesis by simp
  qed
qed

text \<open>The table after a keyed update: the row of the same key is replaced.\<close>

definition replace_row :: "('r \<Rightarrow> 'k) \<Rightarrow> 'r \<Rightarrow> 'r list \<Rightarrow> 'r list" where
  "replace_row key r' rows = map (\<lambda>r. if key r = key r' then r' else r) rows"

lemma map_key_replace_row [simp]: "map key (replace_row key r' rows) = map key rows"
  by (auto simp: replace_row_def)

lemma select_key_replace_row:
  "select_key key k (replace_row key r' rows) =
     (if k = key r' \<and> k \<in> key ` set rows then Some r' else select_key key k rows)"
  by (induction rows) (auto simp: replace_row_def select_key_def)

lemma select_key_replace_row_None:
  "select_key key k rows = None \<Longrightarrow> select_key key k (replace_row key r' rows) = None"
  by (auto simp: select_key_replace_row select_key_None_iff)

lemma set_replace_row_subset: "set (replace_row key r' rows) \<subseteq> insert r' (set rows)"
  by (auto simp: replace_row_def)

lemma in_set_replace_row:
  "x \<in> set (replace_row key r' rows) \<longleftrightarrow>
     (x = r' \<and> key r' \<in> key ` set rows) \<or> (x \<in> set rows \<and> key x \<noteq> key r')"
  by (auto simp: replace_row_def image_iff) (metis)+

text \<open>A partial unique index survives a replacement that activates no row.\<close>

lemma distinct_filter_map:
  assumes "\<And>x. x \<in> set rows \<Longrightarrow> g (f x) = g x \<and> (act (f x) \<longrightarrow> act x)"
    and "distinct (map g (filter act rows))"
  shows "distinct (map g (filter act (map f rows)))"
proof -
  have "distinct (map g (filter act (map f rows))) \<and>
      g ` set (filter act (map f rows)) \<subseteq> g ` set (filter act rows)"
    using assms
  proof (induction rows)
    case Nil
    then show ?case by simp
  next
    case (Cons x rows)
    let ?rep = "filter act (map f rows)"
    have d: "distinct (map g (filter act rows))" using Cons.prems(2) by (simp split: if_splits)
    have "\<And>y. y \<in> set rows \<Longrightarrow> g (f y) = g y \<and> (act (f y) \<longrightarrow> act y)"
      using Cons.prems(1) by simp
    from Cons.IH[OF this d]
    have IH: "distinct (map g ?rep)" "g ` set ?rep \<subseteq> g ` set (filter act rows)" by simp_all
    have new: "g x \<notin> g ` set ?rep" if "act x" using that IH(2) Cons.prems(2) by auto
    have x: "g (f x) = g x" "act (f x) \<Longrightarrow> act x" using Cons.prems(1)[of x] by auto
    have sub: "g ` set ?rep \<subseteq> g ` set (filter act (x # rows))" using IH(2) by auto
    show ?case
    proof (cases "act (f x)")
      case True
      then have "filter act (map f (x # rows)) = f x # ?rep" by simp
      moreover have "g x \<in> g ` set (filter act (x # rows))" using x True by simp
      ultimately show ?thesis using IH(1) new x True sub by simp
    next
      case False
      then have "filter act (map f (x # rows)) = ?rep" by simp
      then show ?thesis using IH(1) sub by metis
    qed
  qed
  then show ?thesis ..
qed

lemma distinct_filter_replace_row:
  assumes "\<And>x. x \<in> set rows \<Longrightarrow> key x = key r' \<Longrightarrow> g r' = g x \<and> (act r' \<longrightarrow> act x)"
    and "distinct (map g (filter act rows))"
  shows "distinct (map g (filter act (replace_row key r' rows)))"
  unfolding replace_row_def by (rule distinct_filter_map) (use assms in auto)

lemma sql_update_keyed:
  assumes dist: "distinct (map key rows)" and r: "r \<in> set rows" "p r"
    and p: "\<And>x. p x \<Longrightarrow> key x = key r" and f: "key (f r) = key r"
    and g: "guard r (f r)" and v: "valid (replace_row key (f r) rows)"
  shows "sql_update guard valid p f rows = Some (replace_row key (f r) rows, 1)"
proof -
  have only: "p x \<longleftrightarrow> x = r" if "x \<in> set rows" for x
    using that dist r p by (metis distinct_map inj_onD)
  have "map (\<lambda>x. if p x then f x else x) rows = replace_row key (f r) rows"
    unfolding replace_row_def
    using only dist r f by (auto simp: distinct_map inj_on_def)
  moreover have "length (filter p rows) = 1"
  proof -
    have "length (filter p rows) \<le> 1"
      using length_filter_key_le_1[of key rows p "key r"] dist p by blast
    moreover have "filter p rows \<noteq> []" using r by (auto simp: filter_empty_conv)
    ultimately show ?thesis by (cases "filter p rows") auto
  qed
  ultimately show ?thesis
    using only g v by (auto simp: sql_update_def Let_def list_all_iff)
qed

lemma sql_update_none:
  assumes "\<And>x. x \<in> set rows \<Longrightarrow> \<not> p x" and "valid rows"
  shows "sql_update guard valid p f rows = Some (rows, 0)"
proof -
  have "map (\<lambda>r. if p r then f r else r) rows = rows"
    using assms(1) by (simp add: map_idI)
  moreover have "filter p rows = []" using assms(1) by (simp add: filter_empty_conv)
  ultimately show ?thesis
    using assms by (simp add: sql_update_def Let_def list_all_iff)
qed

lemma sql_update_one:
  assumes upd: "sql_update guard valid p f rows = Some (rows', 1)"
    and dist: "distinct (map key rows)" and p: "\<And>r. p r \<Longrightarrow> key r = k"
    and f: "\<And>r. guard r (f r) \<Longrightarrow> key (f r) = key r"
  obtains r where "r \<in> set rows" and "p r" and "key r = k" and "guard r (f r)"
    and "rows' = replace_row key (f r) rows"
proof -
  note U = sql_update_SomeD[OF upd]
  from U(2) obtain r where r: "r \<in> set rows" "p r"
    by (metis One_nat_def filter_empty_conv list.size(3) n_not_Suc_n)
  have g: "guard r (f r)" using U(4) r by blast
  have k: "key r = k" using p r(2) by blast
  have "x = r" if "x \<in> set rows" "key x = k" for x
    using that dist r(1) k by (metis distinct_map inj_onD)
  then have "(if key x = key (f r) then f r else x) = (if p x then f x else x)"
    if "x \<in> set rows" for x
    using that r(2) p[of x] f[OF g] k by auto
  then have "rows' = replace_row key (f r) rows"
    unfolding replace_row_def U(1) by (intro map_cong) auto
  with r k g show ?thesis by (intro that)
qed

section \<open>Compare-and-swap tables\<close>

locale cas_table =
  fixes key :: "'r \<Rightarrow> 'k"
    and rev :: "'r \<Rightarrow> int"
    and guard :: "'r \<Rightarrow> 'r \<Rightarrow> bool"
    and valid :: "'r list \<Rightarrow> bool"
  assumes guard_key: "guard r r' \<Longrightarrow> key r' = key r"
    and guard_rev: "guard r r' \<Longrightarrow> rev r' = rev r + 1"
    and valid_keys: "valid rows \<Longrightarrow> distinct (map key rows)"
begin

lemma update_keys:
  assumes "sql_update guard valid p f rows = Some (rows', n)"
  shows "map key rows' = map key rows"
  using sql_update_SomeD[OF assms] by (auto simp: guard_key)

lemma cas_affects_at_most_one:
  assumes "sql_update guard valid p f rows = Some (rows', n)"
    and "valid rows" and "\<And>r. p r \<Longrightarrow> key r = k"
  shows "n \<le> 1"
  using sql_update_SomeD(2)[OF assms(1)]
    length_filter_key_le_1[where p = p, OF valid_keys[OF assms(2)] assms(3)] by simp

text \<open>A successful compare-and-swap replaces exactly the row it names.\<close>

lemma cas_select:
  assumes upd: "sql_update guard valid p f rows = Some (rows', 1)"
    and valid: "valid rows" and p: "\<And>r. p r \<Longrightarrow> key r = k"
  obtains r where "select_key key k rows = Some r" and "p r" and "guard r (f r)"
    and "select_key key k rows' = Some (f r)"
    and "\<And>k'. k' \<noteq> k \<Longrightarrow> select_key key k' rows' = select_key key k' rows"
proof -
  note U = sql_update_SomeD[OF upd]
  from U(2) obtain r where r: "r \<in> set rows" "p r"
    by (metis One_nat_def filter_empty_conv list.size(3) n_not_Suc_n)
  have dist: "distinct (map key rows)" using valid by (rule valid_keys)
  have sel: "select_key key k rows = Some r"
    using select_key_distinct[OF dist r(1)] p[OF r(2)] by simp
  have g: "guard r (f r)" using U(4) r by blast
  have "f r \<in> set rows'" using r U(1) by force
  moreover have "distinct (map key rows')" using U(3) by (rule valid_keys)
  ultimately have sel': "select_key key k rows' = Some (f r)"
    using select_key_distinct[of key rows' "f r"] guard_key[OF g] p[OF r(2)] by simp
  have other: "select_key key k' rows' = select_key key k' rows" if "k' \<noteq> k" for k'
  proof -
    have "key (if p x then f x else x) = k' \<longleftrightarrow> key x = k'"
      and "key x = k' \<Longrightarrow> \<not> p x" if "x \<in> set rows" for x
      using p[of x] U(4)[OF that] guard_key[of x "f x"] \<open>k' \<noteq> k\<close> by auto
    then show ?thesis
      unfolding U(1) select_key_def by (induction rows) auto
  qed
  show ?thesis by (rule that[OF sel r(2) g sel' other])
qed

lemma cas_stale:
  assumes "valid rows" and "select_key key k rows = Some r" and "rev r \<noteq> v"
    and "\<And>r. q r \<Longrightarrow> key r = k \<and> rev r = v"
  shows "filter q rows = []"
proof (rule ccontr)
  assume "filter q rows \<noteq> []"
  then obtain x where x: "x \<in> set rows" "q x" by (auto simp: filter_empty_conv)
  with assms(4) have "key x = k" and "rev x = v" by blast+
  moreover have "select_key key (key x) rows = Some x"
    using valid_keys[OF assms(1)] x(1) by (rule select_key_distinct)
  ultimately show False using assms(2,3) by simp
qed

text \<open>
  Fencing: once one compare-and-swap of a key has succeeded at a revision, every other
  compare-and-swap prepared against the same revision affects no row.
\<close>

lemma cas_fences:
  assumes upd: "sql_update guard valid p f rows = Some (rows', 1)"
    and valid: "valid rows" and p: "\<And>r. p r \<Longrightarrow> key r = k \<and> rev r = v"
    and q: "\<And>r. q r \<Longrightarrow> key r = k \<and> rev r = v"
  shows "filter q rows' = []"
proof -
  have "\<And>r. p r \<Longrightarrow> key r = k" using p by blast
  from cas_select[OF upd valid this]
  obtain r where r: "p r" "guard r (f r)" "select_key key k rows' = Some (f r)" by blast
  then have "rev (f r) \<noteq> v" using p[OF r(1)] guard_rev[OF r(2)] by simp
  with cas_stale[OF sql_update_SomeD(3)[OF upd] r(3)] q show ?thesis by blast
qed

end

section \<open>Transactions\<close>

text \<open>
  \<open>ServiceSqliteHost::transaction\<close> belongs to the service-SQLite crate.  It runs a body that
  returns an operation error or a value with the new state, and answers with one of the error
  kinds the repositories distinguish: the body's own error, a failure of the host (a statement, the
  begin or the commit), or a commit whose outcome is not known.
\<close>

text \<open>\<open>RhiStateHostMode\<close>: how the state database was opened.\<close>

datatype state_host_mode = ReadWriteExisting | ReadOnlyInspection

datatype 'e tx_error = OperationFailed 'e | HostFailed | CommitOutcomeUnknown

type_synonym ('e, 'a, 's) txn =
  "('s \<Rightarrow> ('e, 'a \<times> 's) result) \<Rightarrow> 's \<Rightarrow> ('e tx_error, 'a) result \<times> 's"

text \<open>What the repositories rely on: a transaction is all or nothing.\<close>

definition atomic_txn :: "('e, 'a, 's) txn \<Rightarrow> bool" where
  "atomic_txn txn \<longleftrightarrow> (\<forall>body s.
     case txn body s of
       (Inr a, s') \<Rightarrow> body s = Inr (a, s')
     | (Inl (OperationFailed e), s') \<Rightarrow> body s = Inl e \<and> s' = s
     | (Inl HostFailed, s') \<Rightarrow> s' = s
     | (Inl CommitOutcomeUnknown, s') \<Rightarrow> s' = s \<or> (\<exists>a. body s = Inr (a, s')))"

lemma atomic_txnD:
  assumes "atomic_txn txn"
  shows "txn body s = (Inr a, s') \<Longrightarrow> body s = Inr (a, s')"
    and "txn body s = (Inl (OperationFailed e), s') \<Longrightarrow> body s = Inl e \<and> s' = s"
    and "txn body s = (Inl HostFailed, s') \<Longrightarrow> s' = s"
    and "txn body s = (Inl CommitOutcomeUnknown, s') \<Longrightarrow> s' = s \<or> (\<exists>a. body s = Inr (a, s'))"
  using assms unfolding atomic_txn_def
  by (fastforce dest: spec[of _ body] spec[of _ s])+

lemma atomic_txn_state:
  assumes "atomic_txn txn" and "txn body s = (r, s')"
  shows "s' = s \<or> (\<exists>a. body s = Inr (a, s'))"
proof (cases r)
  case (Inr a)
  with atomic_txnD(1)[OF assms(1)] assms(2) show ?thesis by blast
next
  case (Inl err)
  with assms atomic_txnD(2-4)[OF assms(1)] show ?thesis by (cases err) blast+
qed

lemma atomic_txn_rollback:
  assumes "atomic_txn txn" and "txn body s = (Inl err, s')" and "err \<noteq> CommitOutcomeUnknown"
  shows "s' = s"
  using assms atomic_txnD(2-4)[OF assms(1)] by (cases err) blast+

text \<open>A host that commits every body that succeeds.\<close>

definition committing_txn :: "('e, 'a, 's) txn" where
  "committing_txn body s = (case body s of
     Inl e \<Rightarrow> (Inl (OperationFailed e), s) | Inr (a, s') \<Rightarrow> (Inr a, s'))"

lemma committing_txn_atomic: "atomic_txn committing_txn"
  by (auto simp: atomic_txn_def committing_txn_def split: sum.splits)

end
