(* ===== verification/Catalog_Jobs.thy ===== *)
theory Catalog_Jobs
  imports Sql_Table
begin

text \<open>
  The tables \<open>trade_dirty_generations\<close> and \<open>reconciliation_jobs\<close> of the state catalog: their columns,
  \<open>CHECK\<close> constraints, unique index, foreign key and triggers, with \<open>NULL\<close> treated as SQLite does.
  \<open>jobs_governed\<close> is what the schema keeps true of the two tables at every moment.
\<close>

section \<open>Rows\<close>

record dirty_row =
  dg_trade_id :: bytes
  dg_generation :: int
  dg_evidence_policy_sha256 :: bytes
  dg_updated_at_unix_s :: int

record job_row =
  jr_job_id :: bytes
  jr_trade_id :: bytes
  jr_input_generation :: int
  jr_evidence_policy_sha256 :: bytes
  jr_state :: string
  jr_revision :: int
  jr_attempt_count :: int
  jr_failure_count :: int
  jr_max_attempts :: int
  jr_lease_duration_ms :: int
  jr_lease_renewal_ms :: int
  jr_initial_backoff_ms :: int
  jr_maximum_backoff_ms :: int
  jr_next_attempt_unix_ms :: "int option"
  jr_lease_owner :: "bytes option"
  jr_lease_expires_unix_ms :: "int option"
  jr_created_at_unix_ms :: int
  jr_updated_at_unix_ms :: int

section \<open>Dirty generations\<close>

definition dirty_row_check :: "dirty_row \<Rightarrow> bool" where
  "dirty_row_check r \<longleftrightarrow>
     length (dg_trade_id r) = 16
   \<and> 1 \<le> dg_generation r \<and> dg_generation r \<le> sql_i64_max
   \<and> length (dg_evidence_policy_sha256 r) = 32
   \<and> 0 \<le> dg_updated_at_unix_s r \<and> dg_updated_at_unix_s r \<le> sql_i64_max"

definition dirty_valid :: "dirty_row list \<Rightarrow> bool" where
  "dirty_valid rows \<longleftrightarrow> list_all dirty_row_check rows \<and> distinct (map dg_trade_id rows)"

text \<open>The trigger \<open>trade_dirty_generations_guard_update\<close> lets this update through.\<close>

definition dirty_guard :: "dirty_row \<Rightarrow> dirty_row \<Rightarrow> bool" where
  "dirty_guard old new \<longleftrightarrow>
     dg_trade_id new = dg_trade_id old
   \<and> dg_generation new = dg_generation old + 1
   \<and> dg_updated_at_unix_s old \<le> dg_updated_at_unix_s new"

section \<open>Reconciliation jobs\<close>

definition job_is_active :: "job_row \<Rightarrow> bool" where
  "job_is_active r \<longleftrightarrow> jr_state r = ''ready'' \<or> jr_state r = ''leased''"

definition job_is_terminal :: "job_row \<Rightarrow> bool" where
  "job_is_terminal r \<longleftrightarrow>
     jr_state r = ''exhausted'' \<or> jr_state r = ''superseded'' \<or> jr_state r = ''completed''"

text \<open>The last \<open>CHECK\<close> of the table: the columns that go with each state.\<close>

definition job_state_check :: "job_row \<Rightarrow> bool option" where
  "job_state_check r =
     sql_or (sql_or
       (sql_and (Some (jr_state r = ''ready'' \<and> jr_attempt_count r < jr_max_attempts r))
         (sql_and (sql_between (jr_next_attempt_unix_ms r) 0 sql_i64_max)
           (Some (jr_lease_owner r = None \<and> jr_lease_expires_unix_ms r = None))))
       (sql_and (Some (jr_state r = ''leased'' \<and> 1 \<le> jr_attempt_count r
             \<and> jr_attempt_count r \<le> jr_max_attempts r \<and> jr_next_attempt_unix_ms r = None))
         (sql_and (sql_length_is (jr_lease_owner r) 16)
           (sql_between (jr_lease_expires_unix_ms r) 1 sql_i64_max))))
       (Some (job_is_terminal r \<and> jr_next_attempt_unix_ms r = None
          \<and> jr_lease_owner r = None \<and> jr_lease_expires_unix_ms r = None))"

definition job_row_check :: "job_row \<Rightarrow> bool" where
  "job_row_check r \<longleftrightarrow>
     length (jr_job_id r) = 32
   \<and> length (jr_trade_id r) = 16
   \<and> 1 \<le> jr_input_generation r \<and> jr_input_generation r \<le> sql_i64_max
   \<and> length (jr_evidence_policy_sha256 r) = 32
   \<and> (job_is_active r \<or> job_is_terminal r)
   \<and> 1 \<le> jr_revision r \<and> jr_revision r \<le> sql_i64_max
   \<and> 0 \<le> jr_attempt_count r \<and> jr_attempt_count r \<le> 100
   \<and> 0 \<le> jr_failure_count r \<and> jr_failure_count r \<le> jr_attempt_count r
   \<and> 1 \<le> jr_max_attempts r \<and> jr_max_attempts r \<le> 100
   \<and> 1000 \<le> jr_lease_duration_ms r \<and> jr_lease_duration_ms r \<le> 300000
   \<and> 100 \<le> jr_lease_renewal_ms r \<and> jr_lease_renewal_ms r \<le> 150000
   \<and> 1 \<le> jr_initial_backoff_ms r \<and> jr_initial_backoff_ms r \<le> 60000
   \<and> 1 \<le> jr_maximum_backoff_ms r \<and> jr_maximum_backoff_ms r \<le> 3600000
   \<and> 0 \<le> jr_created_at_unix_ms r \<and> jr_created_at_unix_ms r \<le> sql_i64_max
   \<and> jr_created_at_unix_ms r \<le> jr_updated_at_unix_ms r \<and> jr_updated_at_unix_ms r \<le> sql_i64_max
   \<and> jr_lease_renewal_ms r < jr_lease_duration_ms r
   \<and> jr_initial_backoff_ms r \<le> jr_maximum_backoff_ms r
   \<and> check_holds (job_state_check r)"

text \<open>
  Primary key, the partial unique index \<open>reconciliation_jobs_one_active_per_trade\<close> and the foreign
  key into \<open>trade_dirty_generations\<close>.
\<close>

definition jobs_valid :: "dirty_row list \<Rightarrow> job_row list \<Rightarrow> bool" where
  "jobs_valid dirty rows \<longleftrightarrow>
     list_all job_row_check rows
   \<and> distinct (map jr_job_id rows)
   \<and> distinct (map jr_trade_id (filter job_is_active rows))
   \<and> list_all (\<lambda>r. jr_trade_id r \<in> set (map dg_trade_id dirty)) rows"

text \<open>The condition on which the triggers \<open>reconciliation_jobs_shape_guard_*\<close> abort.\<close>

definition job_shape_violation :: "job_row \<Rightarrow> bool" where
  "job_shape_violation r \<longleftrightarrow>
     (jr_state r = ''ready'' \<and>
        (jr_max_attempts r \<le> jr_attempt_count r
         \<or> jr_next_attempt_unix_ms r = None
         \<or> sql_true (sql_not (sql_between (jr_next_attempt_unix_ms r) 0 sql_i64_max))
         \<or> jr_lease_owner r \<noteq> None \<or> jr_lease_expires_unix_ms r \<noteq> None))
   \<or> (jr_state r = ''leased'' \<and>
        (\<not> (1 \<le> jr_attempt_count r \<and> jr_attempt_count r \<le> jr_max_attempts r)
         \<or> jr_next_attempt_unix_ms r \<noteq> None
         \<or> jr_lease_owner r = None
         \<or> sql_true (sql_not (sql_length_is (jr_lease_owner r) 16))
         \<or> jr_lease_expires_unix_ms r = None
         \<or> sql_true (sql_not (sql_between (jr_lease_expires_unix_ms r) 1 sql_i64_max))))
   \<or> (job_is_terminal r \<and>
        (jr_next_attempt_unix_ms r \<noteq> None
         \<or> jr_lease_owner r \<noteq> None \<or> jr_lease_expires_unix_ms r \<noteq> None))"

text \<open>The state changes \<open>reconciliation_jobs_guard_update\<close> allows.\<close>

definition job_transition :: "string \<Rightarrow> string \<Rightarrow> bool" where
  "job_transition old new \<longleftrightarrow>
     (old = ''ready'' \<and> (new = ''leased'' \<or> new = ''superseded''))
   \<or> (old = ''leased'' \<and> (new = ''leased'' \<or> new = ''ready'' \<or> new = ''exhausted''
        \<or> new = ''superseded'' \<or> new = ''completed''))
   \<or> (old = ''exhausted'' \<and> new = ''superseded'')"

definition job_guard_update :: "job_row \<Rightarrow> job_row \<Rightarrow> bool" where
  "job_guard_update old new \<longleftrightarrow>
     jr_job_id new = jr_job_id old
   \<and> jr_trade_id new = jr_trade_id old
   \<and> jr_input_generation new = jr_input_generation old
   \<and> jr_evidence_policy_sha256 new = jr_evidence_policy_sha256 old
   \<and> jr_max_attempts new = jr_max_attempts old
   \<and> jr_lease_duration_ms new = jr_lease_duration_ms old
   \<and> jr_lease_renewal_ms new = jr_lease_renewal_ms old
   \<and> jr_initial_backoff_ms new = jr_initial_backoff_ms old
   \<and> jr_maximum_backoff_ms new = jr_maximum_backoff_ms old
   \<and> jr_created_at_unix_ms new = jr_created_at_unix_ms old
   \<and> jr_revision new = jr_revision old + 1
   \<and> jr_updated_at_unix_ms old \<le> jr_updated_at_unix_ms new
   \<and> job_transition (jr_state old) (jr_state new)"

text \<open>Both update triggers together; an insertion meets the shape guard only.\<close>

definition job_guard :: "job_row \<Rightarrow> job_row \<Rightarrow> bool" where
  "job_guard old new \<longleftrightarrow> job_guard_update old new \<and> \<not> job_shape_violation new"

definition job_insert_guard :: "job_row list \<Rightarrow> job_row \<Rightarrow> bool" where
  "job_insert_guard rows new \<longleftrightarrow> \<not> job_shape_violation new"

text \<open>
  What the schema keeps true of the two tables.  The shape of every row is part of it since the
  migration to schema version 11 scans the existing rows and the two triggers guard the others.
\<close>

definition jobs_governed :: "dirty_row list \<Rightarrow> job_row list \<Rightarrow> bool" where
  "jobs_governed dirty rows \<longleftrightarrow>
     jobs_valid dirty rows \<and> list_all (\<lambda>r. \<not> job_shape_violation r) rows"

lemmas job_state_names = job_is_active_def job_is_terminal_def job_transition_def

lemma dirty_cas: "cas_table dg_trade_id dg_generation dirty_guard dirty_valid"
  by unfold_locales (auto simp: dirty_guard_def dirty_valid_def)

interpretation dirty: cas_table dg_trade_id dg_generation dirty_guard dirty_valid
  by (rule dirty_cas)

interpretation job: cas_table jr_job_id jr_revision job_guard "jobs_valid dirty" for dirty
  by unfold_locales (auto simp: job_guard_def job_guard_update_def jobs_valid_def)

section \<open>Row shapes\<close>

text \<open>The shape of a row of the table, spelled out by state.\<close>

lemma job_shape_ready:
  assumes "\<not> job_shape_violation r" and "jr_state r = ''ready''"
  shows "jr_attempt_count r < jr_max_attempts r"
    and "\<exists>v. jr_next_attempt_unix_ms r = Some v \<and> 0 \<le> v \<and> v \<le> sql_i64_max"
    and "jr_lease_owner r = None" and "jr_lease_expires_unix_ms r = None"
  using assms by (auto simp: job_shape_violation_def sql_logic)

lemma job_shape_leased:
  assumes "\<not> job_shape_violation r" and "jr_state r = ''leased''"
  shows "1 \<le> jr_attempt_count r" and "jr_attempt_count r \<le> jr_max_attempts r"
    and "jr_next_attempt_unix_ms r = None"
    and "\<exists>b. jr_lease_owner r = Some b \<and> length b = 16"
    and "\<exists>v. jr_lease_expires_unix_ms r = Some v \<and> 1 \<le> v \<and> v \<le> sql_i64_max"
  using assms by (auto simp: job_shape_violation_def sql_logic)

lemma job_shape_terminal:
  assumes "\<not> job_shape_violation r" and "job_is_terminal r"
  shows "jr_next_attempt_unix_ms r = None"
    and "jr_lease_owner r = None" and "jr_lease_expires_unix_ms r = None"
  using assms by (auto simp: job_shape_violation_def job_is_terminal_def)

lemma job_shape_cases:
  assumes "job_is_active r \<or> job_is_terminal r"
  obtains "jr_state r = ''ready''" | "jr_state r = ''leased''" | "job_is_terminal r"
  using assms by (auto simp: job_is_active_def)

lemma job_shape_implies_state_check:
  assumes "\<not> job_shape_violation r" and "job_is_active r \<or> job_is_terminal r"
  shows "check_holds (job_state_check r)"
  using assms(2)
proof (rule job_shape_cases)
  assume "jr_state r = ''ready''"
  with job_shape_ready[OF assms(1)] show ?thesis
    by (auto simp: job_state_check_def sql_logic)
next
  assume "jr_state r = ''leased''"
  with job_shape_leased[OF assms(1)] show ?thesis
    by (auto simp: job_state_check_def sql_logic)
next
  assume "job_is_terminal r"
  with job_shape_terminal[OF assms(1)] show ?thesis
    by (auto simp: job_state_check_def sql_logic)
qed

end
