(* ===== verification/Reconciliation_Job.thy ===== *)
theory Reconciliation_Job
  imports Catalog_Jobs
begin

text \<open>
  The durable reconciliation-job repository of \<open>src/src/reconciliation_job.rs\<close>: the scheduling
  policy, the decoding of rows, and the four transactional operations schedule, claim, renew and
  record-failure, over the tables of \<open>Catalog_Jobs\<close>.  SHA-256 is a parameter of every definition
  that derives or checks a job identity.
\<close>

section \<open>Data\<close>

datatype job_state = Ready | Leased | Exhausted | Superseded | Completed

fun job_state_code :: "job_state \<Rightarrow> string" where
  "job_state_code Ready = ''ready''"
| "job_state_code Leased = ''leased''"
| "job_state_code Exhausted = ''exhausted''"
| "job_state_code Superseded = ''superseded''"
| "job_state_code Completed = ''completed''"

datatype job_error_kind =
    InvalidMode | InvalidInput | QueueFull | DirtyGenerationConflict
  | LeaseLost | NotReady | Storage | CommitUnknown

fun job_error_code :: "job_error_kind \<Rightarrow> string" where
  "job_error_code InvalidMode = ''reconciliation_job_mode_invalid''"
| "job_error_code InvalidInput = ''reconciliation_job_input_invalid''"
| "job_error_code QueueFull = ''reconciliation_queue_full''"
| "job_error_code DirtyGenerationConflict = ''reconciliation_dirty_generation_conflict''"
| "job_error_code LeaseLost = ''reconciliation_lease_lost''"
| "job_error_code NotReady = ''reconciliation_job_not_ready''"
| "job_error_code Storage = ''reconciliation_job_storage_failed''"
| "job_error_code CommitUnknown = ''reconciliation_job_commit_outcome_unknown''"

text \<open>The private \<open>OperationError\<close> of the transaction bodies.\<close>

datatype operation_error =
  OpInvalidInput | OpQueueFull | OpDirtyGenerationConflict | OpLeaseLost | OpNotReady | OpStorage

record job_policy =
  queue_capacity :: nat
  lease_duration_ms :: nat
  lease_renewal_ms :: nat
  max_attempts :: nat
  initial_backoff_ms :: nat
  maximum_backoff_ms :: nat

record reconciliation_job =
  job_ident :: bytes
  job_trade_id :: bytes
  job_input_generation :: nat
  job_policy_digest :: bytes
  job_state :: job_state
  job_revision :: nat
  job_attempt_count :: nat
  job_failure_count :: nat
  job_policy :: job_policy
  job_next_attempt :: "nat option"
  job_lease_owner :: "bytes option"
  job_lease_expires :: "nat option"
  job_created_at :: nat
  job_updated_at :: nat

record job_lease =
  lease_job :: reconciliation_job
  lease_owner :: bytes
  lease_expires :: nat

record schedule_outcome =
  outcome_job :: reconciliation_job
  outcome_created :: bool

text \<open>The two tables the repository works on; other repositories extend the record.\<close>

record job_store =
  dirty_generations :: "dirty_row list"
  jobs :: "job_row list"

definition RHI_RECONCILIATION_JOB_MAX_ACTIVE :: nat where
  "RHI_RECONCILIATION_JOB_MAX_ACTIVE = 65536"

section \<open>Validated inputs\<close>

text \<open>\<open>RhiReconciliationJobPolicy::new\<close>.\<close>

definition job_policy_new ::
  "nat \<Rightarrow> nat \<Rightarrow> nat \<Rightarrow> nat \<Rightarrow> nat \<Rightarrow> nat \<Rightarrow> (job_error_kind, job_policy) result" where
  "job_policy_new capacity duration renewal attempts initial maximum =
     (if capacity = 0
        \<or> RHI_RECONCILIATION_JOB_MAX_ACTIVE < capacity
        \<or> \<not> (1000 \<le> duration \<and> duration \<le> 300000)
        \<or> \<not> (100 \<le> renewal \<and> renewal \<le> 150000)
        \<or> duration \<le> renewal
        \<or> attempts = 0
        \<or> 100 < attempts
        \<or> \<not> (1 \<le> initial \<and> initial \<le> 60000)
        \<or> \<not> (1 \<le> maximum \<and> maximum \<le> 3600000)
        \<or> maximum < initial
      then Inl InvalidInput
      else Inr \<lparr>queue_capacity = capacity, lease_duration_ms = duration,
        lease_renewal_ms = renewal, max_attempts = attempts,
        initial_backoff_ms = initial, maximum_backoff_ms = maximum\<rparr>)"

text \<open>
  \<open>from_configuration\<close>: the normalized document answers an unsigned integer for a JSON pointer, and
  the two narrow fields go through \<open>u32::try_from\<close> and \<open>u16::try_from\<close>.
\<close>

definition job_policy_from_configuration ::
  "(string \<Rightarrow> nat option) \<Rightarrow> (job_error_kind, job_policy) result" where
  "job_policy_from_configuration pointer =
     and_then (ok_or InvalidInput (pointer ''/reconciliation/queue_capacity'')) (\<lambda>capacity.
     and_then (ensure (capacity \<le> 4294967295) InvalidInput) (\<lambda>_.
     and_then (ok_or InvalidInput (pointer ''/reconciliation/lease_ms'')) (\<lambda>duration.
     and_then (ok_or InvalidInput (pointer ''/reconciliation/lease_renewal_ms'')) (\<lambda>renewal.
     and_then (ok_or InvalidInput (pointer ''/reconciliation/max_attempts'')) (\<lambda>attempts.
     and_then (ensure (attempts \<le> 65535) InvalidInput) (\<lambda>_.
     and_then (ok_or InvalidInput (pointer ''/reconciliation/initial_backoff_ms'')) (\<lambda>initial.
     and_then (ok_or InvalidInput (pointer ''/reconciliation/maximum_backoff_ms'')) (\<lambda>maximum.
       job_policy_new capacity duration renewal attempts initial maximum))))))))"

definition unix_milliseconds_new :: "nat \<Rightarrow> (job_error_kind, nat) result" where
  "unix_milliseconds_new v = (if i64_max < v then Inl InvalidInput else Inr v)"

definition retry_delay_new :: "nat \<Rightarrow> (job_error_kind, nat) result" where
  "retry_delay_new v = (if 3600000 < v then Inl InvalidInput else Inr v)"

definition lease_owner_from_bytes :: "bytes \<Rightarrow> (job_error_kind, bytes) result" where
  "lease_owner_from_bytes b = (if list_all (\<lambda>x. x = 0) b then Inl InvalidInput else Inr b)"

definition i64_value :: "nat \<Rightarrow> (operation_error, int) result" where
  "i64_value n = i64_of_u64 OpInvalidInput n"

section \<open>Identities, back-off, leases\<close>

text \<open>\<open>b"radroots.rhi.reconciliation_job.v1\0"\<close>.\<close>

definition JOB_ID_DOMAIN :: bytes where
  "JOB_ID_DOMAIN = map (\<lambda>c. word_of_nat (of_char c)) ''radroots.rhi.reconciliation_job.v1'' @ [0]"

definition job_id :: "(bytes \<Rightarrow> bytes) \<Rightarrow> bytes \<Rightarrow> nat \<Rightarrow> bytes \<Rightarrow> bytes" where
  "job_id sha256 trade generation policy =
     sha256 (JOB_ID_DOMAIN @ trade @ to_be_bytes 8 generation @ policy)"

definition retry_delay_upper_bound :: "job_policy \<Rightarrow> nat \<Rightarrow> nat" where
  "retry_delay_upper_bound policy failures =
     (let exponent = min failures 63
      in min (saturating_mul (initial_backoff_ms policy)
               (case checked_shl_one exponent of None \<Rightarrow> u64_max | Some v \<Rightarrow> v))
           (maximum_backoff_ms policy))"

definition lease_renewal_due :: "job_lease \<Rightarrow> nat" where
  "lease_renewal_due lease =
     saturating_sub (lease_expires lease) (lease_renewal_ms (job_policy (lease_job lease)))"

definition lease_retry_delay_upper_bound :: "job_lease \<Rightarrow> nat" where
  "lease_retry_delay_upper_bound lease =
     retry_delay_upper_bound (job_policy (lease_job lease)) (job_failure_count (lease_job lease))"

definition attempt_policy_matches :: "reconciliation_job \<Rightarrow> job_policy \<Rightarrow> bool" where
  "attempt_policy_matches job expected \<longleftrightarrow>
     lease_duration_ms (job_policy job) = lease_duration_ms expected
   \<and> lease_renewal_ms (job_policy job) = lease_renewal_ms expected
   \<and> max_attempts (job_policy job) = max_attempts expected
   \<and> initial_backoff_ms (job_policy job) = initial_backoff_ms expected
   \<and> maximum_backoff_ms (job_policy job) = maximum_backoff_ms expected"

section \<open>Decoding rows\<close>

text \<open>
  A column selected as \<open>(length(c), substr(c, 1, n + 1))\<close> is accepted when both have exactly the
  expected length.
\<close>

definition exact_bytes :: "nat \<Rightarrow> bytes \<Rightarrow> (operation_error, bytes) result" where
  "exact_bytes n column =
     (if length column \<noteq> n then Inl OpStorage
      else if length (take (n + 1) column) \<noteq> n then Inl OpStorage
      else Inr (take (n + 1) column))"

definition bounded_u64 :: "int \<Rightarrow> nat \<Rightarrow> nat \<Rightarrow> (operation_error, nat) result" where
  "bounded_u64 column minimum maximum =
     and_then (u64_of_i64 OpStorage column) (\<lambda>v.
       if minimum \<le> v \<and> v \<le> maximum then Inr v else Inl OpStorage)"

definition bounded_u16 :: "int \<Rightarrow> nat \<Rightarrow> nat \<Rightarrow> (operation_error, nat) result" where
  "bounded_u16 column minimum maximum =
     and_then (u64_of_i64 OpStorage column) (\<lambda>v.
       if v \<le> 65535 \<and> minimum \<le> v \<and> v \<le> maximum then Inr v else Inl OpStorage)"

definition positive_u64 :: "int \<Rightarrow> (operation_error, nat) result" where
  "positive_u64 column = bounded_u64 column 1 i64_max"

definition nonnegative_u64 :: "int \<Rightarrow> (operation_error, nat) result" where
  "nonnegative_u64 column = bounded_u64 column 0 i64_max"

definition optional_millis :: "int option \<Rightarrow> (operation_error, nat option) result" where
  "optional_millis column = transpose (map_option (u64_of_i64 OpStorage) column)"

definition optional_owner :: "bytes option \<Rightarrow> (operation_error, bytes option) result" where
  "optional_owner column =
     (case column of
        None \<Rightarrow> Inr None
      | Some b \<Rightarrow>
          if length b = 16 then
            (if length (take 17 b) \<noteq> 16 then Inl OpStorage
             else (case lease_owner_from_bytes (take 17 b) of
                     Inl _ \<Rightarrow> Inl OpStorage | Inr owner \<Rightarrow> Inr (Some owner)))
          else Inl OpStorage)"

definition bounded_text :: "string \<Rightarrow> nat \<Rightarrow> (operation_error, string) result" where
  "bounded_text column maximum =
     (if 0 < length column \<and> length column \<le> maximum
        \<and> length (take (maximum + 2) column) = length column
      then Inr (take (maximum + 2) column) else Inl OpStorage)"

definition decode_job_state :: "string \<Rightarrow> (operation_error, job_state) result" where
  "decode_job_state s =
     (if s = ''ready'' then Inr Ready
      else if s = ''leased'' then Inr Leased
      else if s = ''exhausted'' then Inr Exhausted
      else if s = ''superseded'' then Inr Superseded
      else if s = ''completed'' then Inr Completed
      else Inl OpStorage)"

definition valid_state_fields ::
  "job_state \<Rightarrow> nat \<Rightarrow> nat \<Rightarrow> nat option \<Rightarrow> bytes option \<Rightarrow> nat option \<Rightarrow> bool" where
  "valid_state_fields state attempts maximum next_attempt owner expires =
     (case state of
        Ready \<Rightarrow> attempts < maximum \<and> next_attempt \<noteq> None \<and> owner = None \<and> expires = None
      | Leased \<Rightarrow> 0 < attempts \<and> attempts \<le> maximum
          \<and> next_attempt = None \<and> owner \<noteq> None \<and> expires \<noteq> None
      | _ \<Rightarrow> next_attempt = None \<and> owner = None \<and> expires = None)"

definition decode_job :: "(bytes \<Rightarrow> bytes) \<Rightarrow> job_row \<Rightarrow> (operation_error, reconciliation_job) result"
  where
  "decode_job sha256 row =
     and_then (exact_bytes 32 (jr_job_id row)) (\<lambda>ident.
     and_then (exact_bytes 16 (jr_trade_id row)) (\<lambda>trade.
     and_then (positive_u64 (jr_input_generation row)) (\<lambda>generation.
     and_then (exact_bytes 32 (jr_evidence_policy_sha256 row)) (\<lambda>digest.
     and_then (and_then (bounded_text (jr_state row) 10) decode_job_state) (\<lambda>state.
     and_then (positive_u64 (jr_revision row)) (\<lambda>revision.
     and_then (bounded_u16 (jr_attempt_count row) 0 100) (\<lambda>attempts.
     and_then (bounded_u16 (jr_failure_count row) 0 attempts) (\<lambda>failures.
     and_then (bounded_u16 (jr_max_attempts row) 1 100) (\<lambda>maximum.
     and_then (bounded_u64 (jr_lease_duration_ms row) 1000 300000) (\<lambda>duration.
     and_then (bounded_u64 (jr_lease_renewal_ms row) 100 150000) (\<lambda>renewal.
     and_then (bounded_u64 (jr_initial_backoff_ms row) 1 60000) (\<lambda>initial_backoff.
     and_then (bounded_u64 (jr_maximum_backoff_ms row) 1 3600000) (\<lambda>maximum_backoff.
     and_then (map_err (\<lambda>_. OpStorage)
       (job_policy_new RHI_RECONCILIATION_JOB_MAX_ACTIVE duration renewal maximum
          initial_backoff maximum_backoff)) (\<lambda>policy.
     and_then (optional_millis (jr_next_attempt_unix_ms row)) (\<lambda>next_attempt.
     and_then (optional_millis (jr_lease_expires_unix_ms row)) (\<lambda>expires.
     and_then (optional_owner (jr_lease_owner row)) (\<lambda>owner.
     and_then (nonnegative_u64 (jr_created_at_unix_ms row)) (\<lambda>created.
     and_then (nonnegative_u64 (jr_updated_at_unix_ms row)) (\<lambda>updated.
       if updated < created \<or> attempts < failures
          \<or> job_id sha256 trade generation digest \<noteq> ident
          \<or> \<not> valid_state_fields state attempts maximum next_attempt owner expires
       then Inl OpStorage
       else Inr \<lparr>job_ident = ident, job_trade_id = trade, job_input_generation = generation,
         job_policy_digest = digest, job_state = state, job_revision = revision,
         job_attempt_count = attempts, job_failure_count = failures, job_policy = policy,
         job_next_attempt = next_attempt, job_lease_owner = owner, job_lease_expires = expires,
         job_created_at = created, job_updated_at = updated\<rparr>)))))))))))))))))))"

section \<open>Statements\<close>

text \<open>An aborted statement, whatever its reason, is \<open>OperationError::Storage\<close>.\<close>

definition update_jobs ::
  "(job_row \<Rightarrow> bool) \<Rightarrow> (job_row \<Rightarrow> job_row) \<Rightarrow> 'a job_store_scheme
     \<Rightarrow> (operation_error, 'a job_store_scheme \<times> nat) result" where
  "update_jobs p f s =
     (case sql_update job_guard (jobs_valid (dirty_generations s)) p f (jobs s) of
        None \<Rightarrow> Inl OpStorage
      | Some (rows, n) \<Rightarrow> Inr (s\<lparr>jobs := rows\<rparr>, n))"

definition insert_job ::
  "job_row \<Rightarrow> 'a job_store_scheme \<Rightarrow> (operation_error, 'a job_store_scheme) result" where
  "insert_job r s =
     (case sql_insert job_insert_guard (jobs_valid (dirty_generations s)) r (jobs s) of
        None \<Rightarrow> Inl OpStorage
      | Some rows \<Rightarrow> Inr (s\<lparr>jobs := rows\<rparr>))"

definition read_dirty ::
  "bytes \<Rightarrow> 'a job_store_scheme \<Rightarrow> (operation_error, nat \<times> bytes) result" where
  "read_dirty trade s =
     and_then (ok_or OpDirtyGenerationConflict
       (select_key dg_trade_id trade (dirty_generations s))) (\<lambda>row.
     and_then (positive_u64 (dg_generation row)) (\<lambda>generation.
     and_then (exact_bytes 32 (dg_evidence_policy_sha256 row)) (\<lambda>policy.
       Inr (generation, policy))))"

definition read_job ::
  "(bytes \<Rightarrow> bytes) \<Rightarrow> bytes \<Rightarrow> 'a job_store_scheme
     \<Rightarrow> (operation_error, reconciliation_job option) result" where
  "read_job sha256 ident s =
     transpose (map_option (decode_job sha256) (select_key jr_job_id ident (jobs s)))"

definition read_active_job ::
  "(bytes \<Rightarrow> bytes) \<Rightarrow> bytes \<Rightarrow> 'a job_store_scheme
     \<Rightarrow> (operation_error, reconciliation_job option) result" where
  "read_active_job sha256 trade s =
     (case take 2 (filter (\<lambda>r. jr_trade_id r = trade \<and> job_is_active r) (jobs s)) of
        [] \<Rightarrow> Inr None
      | [r] \<Rightarrow> and_then (decode_job sha256 r) (\<lambda>job. Inr (Some job))
      | _ \<Rightarrow> Inl OpStorage)"

definition active_job_count :: "'a job_store_scheme \<Rightarrow> nat" where
  "active_job_count s = length (filter job_is_active (jobs s))"

section \<open>Operations\<close>

subsection \<open>Schedule\<close>

definition supersede_where :: "bytes \<Rightarrow> int \<Rightarrow> job_row \<Rightarrow> bool" where
  "supersede_where ident revision r \<longleftrightarrow>
     jr_job_id r = ident \<and> jr_revision r = revision \<and> job_is_active r"

definition supersede_set :: "int \<Rightarrow> job_row \<Rightarrow> job_row" where
  "supersede_set now r = r\<lparr>jr_state := ''superseded'', jr_revision := jr_revision r + 1,
     jr_next_attempt_unix_ms := None, jr_lease_owner := None, jr_lease_expires_unix_ms := None,
     jr_updated_at_unix_ms := now\<rparr>"

definition new_job_row :: "bytes \<Rightarrow> bytes \<Rightarrow> int \<Rightarrow> bytes \<Rightarrow> job_policy \<Rightarrow> int \<Rightarrow> job_row" where
  "new_job_row ident trade generation digest policy now =
     \<lparr>jr_job_id = ident, jr_trade_id = trade, jr_input_generation = generation,
      jr_evidence_policy_sha256 = digest, jr_state = ''ready'', jr_revision = 1,
      jr_attempt_count = 0, jr_failure_count = 0, jr_max_attempts = int (max_attempts policy),
      jr_lease_duration_ms = int (lease_duration_ms policy),
      jr_lease_renewal_ms = int (lease_renewal_ms policy),
      jr_initial_backoff_ms = int (initial_backoff_ms policy),
      jr_maximum_backoff_ms = int (maximum_backoff_ms policy),
      jr_next_attempt_unix_ms = Some now, jr_lease_owner = None,
      jr_lease_expires_unix_ms = None, jr_created_at_unix_ms = now,
      jr_updated_at_unix_ms = now\<rparr>"

text \<open>An active job of an older generation is superseded, one of the same or a newer is a conflict.\<close>

definition supersede_active ::
  "reconciliation_job option \<Rightarrow> nat \<Rightarrow> nat \<Rightarrow> 'a job_store_scheme
     \<Rightarrow> (operation_error, 'a job_store_scheme) result" where
  "supersede_active active generation now s =
     (case active of
        None \<Rightarrow> Inr s
      | Some job \<Rightarrow>
          if generation \<le> job_input_generation job then Inl OpDirtyGenerationConflict
          else and_then (i64_value now) (\<lambda>now.
               and_then (i64_value (job_revision job)) (\<lambda>revision.
               and_then (update_jobs (supersede_where (job_ident job) revision)
                 (supersede_set now) s) (\<lambda>(s, n).
                 if n \<noteq> 1 then Inl OpDirtyGenerationConflict else Inr s))))"

text \<open>The policy's own fields fit SQLite's integers, so binding them is their conversion.\<close>

definition insert_scheduled ::
  "(bytes \<Rightarrow> bytes) \<Rightarrow> bytes \<Rightarrow> bytes \<Rightarrow> nat \<Rightarrow> bytes \<Rightarrow> job_policy \<Rightarrow> nat \<Rightarrow> 'a job_store_scheme
     \<Rightarrow> (operation_error, schedule_outcome \<times> 'a job_store_scheme) result" where
  "insert_scheduled sha256 ident trade generation digest policy now s =
     and_then (ensure (active_job_count s \<le> 4294967295) OpStorage) (\<lambda>_.
     and_then (ensure (active_job_count s < queue_capacity policy) OpQueueFull) (\<lambda>_.
     and_then (i64_value now) (\<lambda>now.
     and_then (i64_value generation) (\<lambda>generation.
     and_then (i64_value (lease_duration_ms policy)) (\<lambda>_.
     and_then (i64_value (lease_renewal_ms policy)) (\<lambda>_.
     and_then (i64_value (initial_backoff_ms policy)) (\<lambda>_.
     and_then (i64_value (maximum_backoff_ms policy)) (\<lambda>_.
     and_then (insert_job (new_job_row ident trade generation digest policy now) s) (\<lambda>s.
     and_then (read_job sha256 ident s) (\<lambda>found.
     and_then (ok_or OpStorage found) (\<lambda>job.
       Inr (\<lparr>outcome_job = job, outcome_created = True\<rparr>, s))))))))))))"

definition schedule ::
  "(bytes \<Rightarrow> bytes) \<Rightarrow> bytes \<Rightarrow> job_policy \<Rightarrow> nat \<Rightarrow> 'a job_store_scheme
     \<Rightarrow> (operation_error, schedule_outcome \<times> 'a job_store_scheme) result" where
  "schedule sha256 trade policy now s =
     and_then (read_dirty trade s) (\<lambda>(generation, digest).
     let ident = job_id sha256 trade generation digest in
     and_then (read_job sha256 ident s) (\<lambda>found.
     case found of
       Some job \<Rightarrow>
         if job_trade_id job \<noteq> trade \<or> job_input_generation job \<noteq> generation
            \<or> job_policy_digest job \<noteq> digest
         then Inl OpStorage
         else Inr (\<lparr>outcome_job = job, outcome_created = False\<rparr>, s)
     | None \<Rightarrow>
         and_then (read_active_job sha256 trade s) (\<lambda>active.
         and_then (supersede_active active generation now s) (\<lambda>s.
           insert_scheduled sha256 ident trade generation digest policy now s))))"

subsection \<open>Claim\<close>

definition expired_final_where :: "int \<Rightarrow> job_row \<Rightarrow> bool" where
  "expired_final_where now r \<longleftrightarrow>
     jr_state r = ''leased'' \<and> sql_le (jr_lease_expires_unix_ms r) now
   \<and> jr_max_attempts r \<le> jr_attempt_count r \<and> jr_updated_at_unix_ms r \<le> now"

definition expired_final_ids :: "int \<Rightarrow> job_row list \<Rightarrow> bytes list" where
  "expired_final_ids now rows =
     map jr_job_id (take 65536 (sort_key
       (\<lambda>r. (jr_lease_expires_unix_ms r, jr_created_at_unix_ms r, jr_job_id r))
       (filter (expired_final_where now) rows)))"

definition exhaust_expired_set :: "int \<Rightarrow> job_row \<Rightarrow> job_row" where
  "exhaust_expired_set now r = r\<lparr>jr_state := ''exhausted'', jr_revision := jr_revision r + 1,
     jr_failure_count := jr_attempt_count r, jr_lease_owner := None,
     jr_lease_expires_unix_ms := None, jr_updated_at_unix_ms := now\<rparr>"

definition exhaust_expired ::
  "int \<Rightarrow> 'a job_store_scheme \<Rightarrow> (operation_error, 'a job_store_scheme) result" where
  "exhaust_expired now s =
     (let ids = expired_final_ids now (jobs s)
      in and_then (update_jobs (\<lambda>r. jr_job_id r \<in> set ids) (exhaust_expired_set now) s)
           (\<lambda>(s, _). Inr s))"

definition claimable :: "int \<Rightarrow> job_row \<Rightarrow> bool" where
  "claimable now r \<longleftrightarrow>
     jr_attempt_count r < jr_max_attempts r \<and> jr_updated_at_unix_ms r \<le> now
   \<and> ((jr_state r = ''ready'' \<and> sql_le (jr_next_attempt_unix_ms r) now)
      \<or> (jr_state r = ''leased'' \<and> sql_le (jr_lease_expires_unix_ms r) now))"

definition claim_order :: "job_row \<Rightarrow> int option \<times> int \<times> bytes" where
  "claim_order r =
     (if jr_state r = ''ready'' then jr_next_attempt_unix_ms r else jr_lease_expires_unix_ms r,
      jr_created_at_unix_ms r, jr_job_id r)"

definition read_claimable :: "int \<Rightarrow> 'a job_store_scheme \<Rightarrow> job_row option" where
  "read_claimable now s = select_min claim_order (filter (claimable now) (jobs s))"

definition claim_where :: "bytes \<Rightarrow> int \<Rightarrow> int \<Rightarrow> job_row \<Rightarrow> bool" where
  "claim_where ident revision now r \<longleftrightarrow>
     jr_job_id r = ident \<and> jr_revision r = revision \<and> claimable now r"

definition claim_set :: "bytes \<Rightarrow> int \<Rightarrow> int \<Rightarrow> job_row \<Rightarrow> job_row" where
  "claim_set owner expires now r = r\<lparr>jr_state := ''leased'', jr_revision := jr_revision r + 1,
     jr_attempt_count := jr_attempt_count r + 1, jr_next_attempt_unix_ms := None,
     jr_lease_owner := Some owner, jr_lease_expires_unix_ms := Some expires,
     jr_updated_at_unix_ms := now\<rparr>"

text \<open>The job read back after a compare-and-swap must be leased and carry an expiry.\<close>

definition read_leased ::
  "(bytes \<Rightarrow> bytes) \<Rightarrow> bytes \<Rightarrow> bytes \<Rightarrow> 'a job_store_scheme \<Rightarrow> (operation_error, job_lease) result"
  where
  "read_leased sha256 ident owner s =
     and_then (read_job sha256 ident s) (\<lambda>found.
     and_then (ok_or OpStorage (option_filter (\<lambda>job. job_state job = Leased) found)) (\<lambda>job.
     and_then (ok_or OpStorage (job_lease_expires job)) (\<lambda>expires.
       Inr \<lparr>lease_job = job, lease_owner = owner, lease_expires = expires\<rparr>)))"

definition claim_candidate ::
  "(bytes \<Rightarrow> bytes) \<Rightarrow> bytes \<Rightarrow> nat \<Rightarrow> job_row \<Rightarrow> 'a job_store_scheme
     \<Rightarrow> (operation_error, job_lease \<times> 'a job_store_scheme) result" where
  "claim_candidate sha256 owner now row s =
     and_then (decode_job sha256 row) (\<lambda>candidate.
     and_then (ok_or OpInvalidInput (option_filter (\<lambda>v. v \<le> i64_max)
       (checked_add now (lease_duration_ms (job_policy candidate))))) (\<lambda>expires.
     and_then (i64_value now) (\<lambda>now_value.
     and_then (i64_value expires) (\<lambda>expires_value.
     and_then (i64_value (job_revision candidate)) (\<lambda>revision.
     and_then (update_jobs (claim_where (job_ident candidate) revision now_value)
       (claim_set owner expires_value now_value) s) (\<lambda>(s, n).
     and_then (ensure (n = 1) OpLeaseLost) (\<lambda>_.
     and_then (read_leased sha256 (job_ident candidate) owner s) (\<lambda>lease. Inr (lease, s)))))))))"

definition claim_next ::
  "(bytes \<Rightarrow> bytes) \<Rightarrow> bytes \<Rightarrow> nat \<Rightarrow> 'a job_store_scheme
     \<Rightarrow> (operation_error, job_lease option \<times> 'a job_store_scheme) result" where
  "claim_next sha256 owner now s =
     and_then (i64_value now) (\<lambda>now_value.
     and_then (exhaust_expired now_value s) (\<lambda>s.
     case read_claimable now_value s of
       None \<Rightarrow> Inr (None, s)
     | Some row \<Rightarrow>
         and_then (claim_candidate sha256 owner now row s) (\<lambda>(lease, s). Inr (Some lease, s))))"

subsection \<open>Renew\<close>

definition renew_where :: "bytes \<Rightarrow> int \<Rightarrow> bytes \<Rightarrow> int \<Rightarrow> int \<Rightarrow> job_row \<Rightarrow> bool" where
  "renew_where ident revision owner previous now r \<longleftrightarrow>
     jr_job_id r = ident \<and> jr_revision r = revision \<and> jr_state r = ''leased''
   \<and> jr_lease_owner r = Some owner \<and> jr_lease_expires_unix_ms r = Some previous
   \<and> sql_gt (jr_lease_expires_unix_ms r) now \<and> jr_updated_at_unix_ms r \<le> now"

definition renew_set :: "int \<Rightarrow> int \<Rightarrow> job_row \<Rightarrow> job_row" where
  "renew_set expires now r = r\<lparr>jr_revision := jr_revision r + 1,
     jr_lease_expires_unix_ms := Some expires, jr_updated_at_unix_ms := now\<rparr>"

definition renew ::
  "(bytes \<Rightarrow> bytes) \<Rightarrow> job_lease \<Rightarrow> nat \<Rightarrow> 'a job_store_scheme
     \<Rightarrow> (operation_error, job_lease \<times> 'a job_store_scheme) result" where
  "renew sha256 lease now s =
     (let previous = lease_expires lease; job = lease_job lease in
     and_then (ok_or OpNotReady (option_filter (\<lambda>v. previous < v \<and> v \<le> i64_max)
       (checked_add now (lease_duration_ms (job_policy job))))) (\<lambda>expires.
     and_then (i64_value expires) (\<lambda>expires_value.
     and_then (i64_value now) (\<lambda>now_value.
     and_then (i64_value (job_revision job)) (\<lambda>revision.
     and_then (i64_value previous) (\<lambda>previous_value.
     and_then (update_jobs (renew_where (job_ident job) revision (lease_owner lease)
         previous_value now_value) (renew_set expires_value now_value) s) (\<lambda>(s, n).
     and_then (ensure (n = 1) OpLeaseLost) (\<lambda>_.
     and_then (read_leased sha256 (job_ident job) (lease_owner lease) s)
       (\<lambda>renewed. Inr (renewed, s))))))))))"

subsection \<open>Record failure\<close>

definition held_where :: "bytes \<Rightarrow> int \<Rightarrow> bytes \<Rightarrow> int \<Rightarrow> int \<Rightarrow> job_row \<Rightarrow> bool" where
  "held_where ident revision owner expires now r \<longleftrightarrow>
     jr_job_id r = ident \<and> jr_revision r = revision \<and> jr_state r = ''leased''
   \<and> jr_lease_owner r = Some owner \<and> jr_lease_expires_unix_ms r = Some expires
   \<and> sql_gt (jr_lease_expires_unix_ms r) now"

definition retry_set :: "int \<Rightarrow> int \<Rightarrow> job_row \<Rightarrow> job_row" where
  "retry_set next_attempt now r = r\<lparr>jr_state := ''ready'', jr_revision := jr_revision r + 1,
     jr_failure_count := jr_failure_count r + 1, jr_next_attempt_unix_ms := Some next_attempt,
     jr_lease_owner := None, jr_lease_expires_unix_ms := None, jr_updated_at_unix_ms := now\<rparr>"

definition exhaust_set :: "int \<Rightarrow> job_row \<Rightarrow> job_row" where
  "exhaust_set now r = r\<lparr>jr_state := ''exhausted'', jr_revision := jr_revision r + 1,
     jr_failure_count := jr_failure_count r + 1, jr_next_attempt_unix_ms := None,
     jr_lease_owner := None, jr_lease_expires_unix_ms := None, jr_updated_at_unix_ms := now\<rparr>"

definition record_failure ::
  "(bytes \<Rightarrow> bytes) \<Rightarrow> job_lease \<Rightarrow> nat \<Rightarrow> nat \<Rightarrow> 'a job_store_scheme
     \<Rightarrow> (operation_error, reconciliation_job \<times> 'a job_store_scheme) result" where
  "record_failure sha256 lease now delay s =
     (let job = lease_job lease in
     and_then (i64_value now) (\<lambda>now_value.
     and_then
       (if max_attempts (job_policy job) \<le> job_attempt_count job then
          and_then (i64_value (job_revision job)) (\<lambda>revision.
          and_then (i64_value (lease_expires lease)) (\<lambda>expires.
            update_jobs
              (\<lambda>r. held_where (job_ident job) revision (lease_owner lease) expires now_value r
                 \<and> jr_max_attempts r \<le> jr_attempt_count r)
              (exhaust_set now_value) s))
        else
          and_then (ok_or OpInvalidInput (option_filter (\<lambda>v. v \<le> i64_max)
            (checked_add now delay))) (\<lambda>next_attempt.
          and_then (i64_value next_attempt) (\<lambda>next_value.
          and_then (i64_value (job_revision job)) (\<lambda>revision.
          and_then (i64_value (lease_expires lease)) (\<lambda>expires.
            update_jobs
              (\<lambda>r. held_where (job_ident job) revision (lease_owner lease) expires now_value r
                 \<and> jr_attempt_count r < jr_max_attempts r)
              (retry_set next_value now_value) s))))) (\<lambda>(s, n).
     and_then (ensure (n = 1) OpLeaseLost) (\<lambda>_.
     and_then (read_job sha256 (job_ident job) s) (\<lambda>found.
     and_then (ok_or OpStorage found) (\<lambda>updated. Inr (updated, s)))))))"

text \<open>\<open>validate_exact_lease\<close>, used by the commit transactions of the other repositories.\<close>

datatype lease_validation_error = ValidationLeaseLost | ValidationStorage

definition validate_exact_lease ::
  "(bytes \<Rightarrow> bytes) \<Rightarrow> job_lease \<Rightarrow> 'a job_store_scheme \<Rightarrow> (lease_validation_error, unit) result" where
  "validate_exact_lease sha256 lease s =
     (case read_job sha256 (job_ident (lease_job lease)) s of
        Inl _ \<Rightarrow> Inl ValidationStorage
      | Inr current \<Rightarrow>
          if current = Some (lease_job lease) \<and> job_state (lease_job lease) = Leased
             \<and> job_lease_expires (lease_job lease) = Some (lease_expires lease)
          then Inr () else Inl ValidationLeaseLost)"

section \<open>The repository\<close>

definition require_writable :: "state_host_mode \<Rightarrow> (job_error_kind, unit) result" where
  "require_writable mode = (if mode = ReadWriteExisting then Inr () else Inl InvalidMode)"

fun map_transaction_error :: "operation_error tx_error \<Rightarrow> job_error_kind" where
  "map_transaction_error CommitOutcomeUnknown = CommitUnknown"
| "map_transaction_error (OperationFailed OpInvalidInput) = InvalidInput"
| "map_transaction_error (OperationFailed OpQueueFull) = QueueFull"
| "map_transaction_error (OperationFailed OpDirtyGenerationConflict) = DirtyGenerationConflict"
| "map_transaction_error (OperationFailed OpLeaseLost) = LeaseLost"
| "map_transaction_error (OperationFailed OpNotReady) = NotReady"
| "map_transaction_error (OperationFailed OpStorage) = Storage"
| "map_transaction_error HostFailed = Storage"

definition run_job_txn ::
  "(operation_error, 'b, 's) txn \<Rightarrow> ('s \<Rightarrow> (operation_error, 'b \<times> 's) result) \<Rightarrow> 's
     \<Rightarrow> (job_error_kind, 'b) result \<times> 's" where
  "run_job_txn txn body s = (case txn body s of (r, s') \<Rightarrow> (map_err map_transaction_error r, s'))"

definition repository_schedule_trade where
  "repository_schedule_trade txn sha256 mode trade policy now s =
     (case require_writable mode of Inl e \<Rightarrow> (Inl e, s)
      | Inr _ \<Rightarrow> run_job_txn txn (schedule sha256 trade policy now) s)"

definition repository_claim_next where
  "repository_claim_next txn sha256 mode owner now s =
     (case require_writable mode of Inl e \<Rightarrow> (Inl e, s)
      | Inr _ \<Rightarrow> run_job_txn txn (claim_next sha256 owner now) s)"

definition repository_renew where
  "repository_renew txn sha256 mode lease now s =
     (case require_writable mode of Inl e \<Rightarrow> (Inl e, s)
      | Inr _ \<Rightarrow>
          if lease_expires lease \<le> now then (Inl LeaseLost, s)
          else if now < lease_renewal_due lease then (Inl NotReady, s)
          else run_job_txn txn (renew sha256 lease now) s)"

definition repository_record_failure where
  "repository_record_failure txn sha256 mode lease now delay s =
     (case require_writable mode of Inl e \<Rightarrow> (Inl e, s)
      | Inr _ \<Rightarrow>
          if lease_expires lease \<le> now then (Inl LeaseLost, s)
          else if lease_retry_delay_upper_bound lease < delay then (Inl InvalidInput, s)
          else run_job_txn txn (record_failure sha256 lease now delay) s)"

end
