(* ===== verification/Reconciliation_Job_Inv.thy ===== *)
theory Reconciliation_Job_Inv
  imports Reconciliation_Job
begin

text \<open>
  The invariant of the job store and what every statement and operation of the repository does to
  it.  \<open>job_of_row\<close> is the value a governed row decodes to; with it every read of the repository is
  total, and each successful compare-and-swap is a replacement of one row.
\<close>

section \<open>The invariant\<close>

definition job_row_authentic :: "(bytes \<Rightarrow> bytes) \<Rightarrow> job_row \<Rightarrow> bool" where
  "job_row_authentic sha256 r \<longleftrightarrow>
     jr_job_id r = job_id sha256 (jr_trade_id r) (nat (jr_input_generation r))
       (jr_evidence_policy_sha256 r)
   \<and> (\<forall>b. jr_lease_owner r = Some b \<longrightarrow> \<not> list_all (\<lambda>x. x = 0) b)"

definition job_store_inv :: "(bytes \<Rightarrow> bytes) \<Rightarrow> 'a job_store_scheme \<Rightarrow> bool" where
  "job_store_inv sha256 s \<longleftrightarrow>
     dirty_valid (dirty_generations s)
   \<and> jobs_governed (dirty_generations s) (jobs s)
   \<and> (\<forall>r \<in> set (jobs s). job_row_authentic sha256 r)"

definition row_policy :: "job_row \<Rightarrow> job_policy" where
  "row_policy r =
     \<lparr>queue_capacity = RHI_RECONCILIATION_JOB_MAX_ACTIVE,
      lease_duration_ms = nat (jr_lease_duration_ms r),
      lease_renewal_ms = nat (jr_lease_renewal_ms r),
      max_attempts = nat (jr_max_attempts r),
      initial_backoff_ms = nat (jr_initial_backoff_ms r),
      maximum_backoff_ms = nat (jr_maximum_backoff_ms r)\<rparr>"

definition job_state_of :: "string \<Rightarrow> job_state" where
  "job_state_of s =
     (if s = ''ready'' then Ready else if s = ''leased'' then Leased
      else if s = ''exhausted'' then Exhausted else if s = ''superseded'' then Superseded
      else Completed)"

definition job_of_row :: "job_row \<Rightarrow> reconciliation_job" where
  "job_of_row r =
     \<lparr>job_ident = jr_job_id r, job_trade_id = jr_trade_id r,
      job_input_generation = nat (jr_input_generation r),
      job_policy_digest = jr_evidence_policy_sha256 r, job_state = job_state_of (jr_state r),
      job_revision = nat (jr_revision r), job_attempt_count = nat (jr_attempt_count r),
      job_failure_count = nat (jr_failure_count r), job_policy = row_policy r,
      job_next_attempt = map_option nat (jr_next_attempt_unix_ms r),
      job_lease_owner = jr_lease_owner r,
      job_lease_expires = map_option nat (jr_lease_expires_unix_ms r),
      job_created_at = nat (jr_created_at_unix_ms r),
      job_updated_at = nat (jr_updated_at_unix_ms r)\<rparr>"

definition job_row_ok :: "(bytes \<Rightarrow> bytes) \<Rightarrow> job_row \<Rightarrow> bool" where
  "job_row_ok sha256 r \<longleftrightarrow>
     job_row_check r \<and> \<not> job_shape_violation r \<and> job_row_authentic sha256 r"

lemma job_store_inv_rows:
  assumes "job_store_inv sha256 s" and "r \<in> set (jobs s)"
  shows "job_row_ok sha256 r"
  using assms
  by (auto simp: job_store_inv_def jobs_governed_def jobs_valid_def job_row_ok_def list_all_iff)

lemma job_store_inv_alt:
  "job_store_inv sha256 s \<longleftrightarrow>
     dirty_valid (dirty_generations s) \<and> jobs_valid (dirty_generations s) (jobs s)
   \<and> (\<forall>r \<in> set (jobs s). job_row_ok sha256 r)"
  by (auto simp: job_store_inv_def jobs_governed_def jobs_valid_def job_row_ok_def list_all_iff)

lemma job_store_inv_valid: "job_store_inv sha256 s \<Longrightarrow> jobs_valid (dirty_generations s) (jobs s)"
  by (simp add: job_store_inv_alt)

lemma job_store_inv_distinct: "job_store_inv sha256 s \<Longrightarrow> distinct (map jr_job_id (jobs s))"
  by (simp add: job_store_inv_alt jobs_valid_def)

section \<open>Decoding governed rows\<close>

lemma exact_bytes_ok [simp]: "length b = n \<Longrightarrow> exact_bytes n b = Inr b"
  by (simp add: exact_bytes_def)

lemma bounded_u64_ok:
  "int lo \<le> i \<Longrightarrow> i \<le> int hi \<Longrightarrow> bounded_u64 i lo hi = Inr (nat i)"
  by (auto simp: bounded_u64_def u64_of_i64_def le_nat_iff)

lemma bounded_u16_ok:
  "int lo \<le> i \<Longrightarrow> i \<le> int hi \<Longrightarrow> hi \<le> 65535 \<Longrightarrow> bounded_u16 i lo hi = Inr (nat i)"
  by (auto simp: bounded_u16_def u64_of_i64_def le_nat_iff)

lemma positive_u64_ok: "1 \<le> i \<Longrightarrow> i \<le> sql_i64_max \<Longrightarrow> positive_u64 i = Inr (nat i)"
  unfolding positive_u64_def by (rule bounded_u64_ok) (simp_all add: i64_max_def)

lemma nonnegative_u64_ok: "0 \<le> i \<Longrightarrow> i \<le> sql_i64_max \<Longrightarrow> nonnegative_u64 i = Inr (nat i)"
  unfolding nonnegative_u64_def by (rule bounded_u64_ok) (simp_all add: i64_max_def)

lemma optional_millis_ok:
  "(\<And>v. c = Some v \<Longrightarrow> 0 \<le> v) \<Longrightarrow> optional_millis c = Inr (map_option nat c)"
  by (cases c) (auto simp: optional_millis_def u64_of_i64_def)

lemma optional_owner_ok:
  "(\<And>b. c = Some b \<Longrightarrow> length b = 16 \<and> \<not> list_all (\<lambda>x. x = 0) b) \<Longrightarrow> optional_owner c = Inr c"
  by (cases c) (auto simp: optional_owner_def lease_owner_from_bytes_def)

lemma decode_state_ok:
  "job_is_active r \<or> job_is_terminal r \<Longrightarrow>
   and_then (bounded_text (jr_state r) 10) decode_job_state = Inr (job_state_of (jr_state r))"
  by (auto simp: job_state_names bounded_text_def decode_job_state_def job_state_of_def)

lemma job_row_ok_nullable:
  assumes "job_row_ok sha256 r"
  shows "\<And>v. jr_next_attempt_unix_ms r = Some v \<Longrightarrow> 0 \<le> v \<and> v \<le> sql_i64_max"
    and "\<And>v. jr_lease_expires_unix_ms r = Some v \<Longrightarrow> 1 \<le> v \<and> v \<le> sql_i64_max"
    and "\<And>b. jr_lease_owner r = Some b \<Longrightarrow> length b = 16 \<and> \<not> list_all (\<lambda>x. x = 0) b"
proof -
  from assms have A: "\<not> job_shape_violation r" "job_is_active r \<or> job_is_terminal r"
    and N: "\<And>b. jr_lease_owner r = Some b \<Longrightarrow> \<not> list_all (\<lambda>x. x = 0) b"
    by (auto simp: job_row_ok_def job_row_check_def job_row_authentic_def)
  note S = job_shape_ready[OF A(1)] job_shape_leased[OF A(1)] job_shape_terminal[OF A(1)]
  show "0 \<le> v \<and> v \<le> sql_i64_max" if "jr_next_attempt_unix_ms r = Some v" for v
    using A(2) by (rule job_shape_cases) (use S that in auto)
  show "1 \<le> v \<and> v \<le> sql_i64_max" if "jr_lease_expires_unix_ms r = Some v" for v
    using A(2) by (rule job_shape_cases) (use S that in auto)
  show "length b = 16 \<and> \<not> list_all (\<lambda>x. x = 0) b" if "jr_lease_owner r = Some b" for b
    using A(2) by (rule job_shape_cases) (use S N that in auto)
qed

lemma job_row_ok_state_fields:
  assumes "job_row_ok sha256 r"
  shows "valid_state_fields (job_state_of (jr_state r)) (nat (jr_attempt_count r))
     (nat (jr_max_attempts r)) (map_option nat (jr_next_attempt_unix_ms r)) (jr_lease_owner r)
     (map_option nat (jr_lease_expires_unix_ms r))"
proof -
  from assms have A: "\<not> job_shape_violation r" "job_is_active r \<or> job_is_terminal r"
    by (auto simp: job_row_ok_def job_row_check_def)
  show ?thesis
    using A(2)
  proof (rule job_shape_cases)
    assume st: "jr_state r = ''ready''"
    with job_shape_ready[OF A(1) st] assms show ?thesis
      by (auto simp: valid_state_fields_def job_state_of_def job_row_ok_def job_row_check_def)
  next
    assume st: "jr_state r = ''leased''"
    with job_shape_leased[OF A(1) st] show ?thesis
      by (auto simp: valid_state_fields_def job_state_of_def)
  next
    assume st: "job_is_terminal r"
    with job_shape_terminal[OF A(1) st] show ?thesis
      by (auto simp: valid_state_fields_def job_state_of_def job_is_terminal_def)
  qed
qed

lemma job_policy_new_row:
  assumes "job_row_check r"
  shows "job_policy_new RHI_RECONCILIATION_JOB_MAX_ACTIVE (nat (jr_lease_duration_ms r))
     (nat (jr_lease_renewal_ms r)) (nat (jr_max_attempts r)) (nat (jr_initial_backoff_ms r))
     (nat (jr_maximum_backoff_ms r)) = Inr (row_policy r)"
  using assms
  by (auto simp: job_policy_new_def row_policy_def job_row_check_def le_nat_iff nat_le_iff
      zless_nat_eq_int_zless RHI_RECONCILIATION_JOB_MAX_ACTIVE_def)

lemma decode_job_row_ok:
  assumes "job_row_ok sha256 r"
  shows "decode_job sha256 r = Inr (job_of_row r)"
proof -
  from assms have c: "job_row_check r" and a: "job_row_authentic sha256 r"
    by (simp_all add: job_row_ok_def)
  note N = job_row_ok_nullable[OF assms]
  have T: "job_is_active r \<or> job_is_terminal r" using c by (simp add: job_row_check_def)
  from c have num:
    "exact_bytes 32 (jr_job_id r) = Inr (jr_job_id r)"
    "exact_bytes 16 (jr_trade_id r) = Inr (jr_trade_id r)"
    "exact_bytes 32 (jr_evidence_policy_sha256 r) = Inr (jr_evidence_policy_sha256 r)"
    "positive_u64 (jr_input_generation r) = Inr (nat (jr_input_generation r))"
    "positive_u64 (jr_revision r) = Inr (nat (jr_revision r))"
    "bounded_u16 (jr_attempt_count r) 0 100 = Inr (nat (jr_attempt_count r))"
    "bounded_u16 (jr_failure_count r) 0 (nat (jr_attempt_count r)) = Inr (nat (jr_failure_count r))"
    "bounded_u16 (jr_max_attempts r) 1 100 = Inr (nat (jr_max_attempts r))"
    "bounded_u64 (jr_lease_duration_ms r) 1000 300000 = Inr (nat (jr_lease_duration_ms r))"
    "bounded_u64 (jr_lease_renewal_ms r) 100 150000 = Inr (nat (jr_lease_renewal_ms r))"
    "bounded_u64 (jr_initial_backoff_ms r) 1 60000 = Inr (nat (jr_initial_backoff_ms r))"
    "bounded_u64 (jr_maximum_backoff_ms r) 1 3600000 = Inr (nat (jr_maximum_backoff_ms r))"
    "nonnegative_u64 (jr_created_at_unix_ms r) = Inr (nat (jr_created_at_unix_ms r))"
    "nonnegative_u64 (jr_updated_at_unix_ms r) = Inr (nat (jr_updated_at_unix_ms r))"
    by (simp_all add: job_row_check_def positive_u64_ok nonnegative_u64_ok
        bounded_u16_ok bounded_u64_ok nat_le_iff)
  have nullable:
    "optional_millis (jr_next_attempt_unix_ms r) = Inr (map_option nat (jr_next_attempt_unix_ms r))"
    "optional_millis (jr_lease_expires_unix_ms r) = Inr (map_option nat (jr_lease_expires_unix_ms r))"
    "optional_owner (jr_lease_owner r) = Inr (jr_lease_owner r)"
    using N by (force intro!: optional_millis_ok optional_owner_ok)+
  have order: "nat (jr_created_at_unix_ms r) \<le> nat (jr_updated_at_unix_ms r)"
    "nat (jr_failure_count r) \<le> nat (jr_attempt_count r)"
    using c by (auto simp: job_row_check_def intro: nat_mono)
  have ident: "job_id sha256 (jr_trade_id r) (nat (jr_input_generation r))
      (jr_evidence_policy_sha256 r) = jr_job_id r"
    using a by (simp add: job_row_authentic_def)
  show ?thesis
    unfolding decode_job_def num nullable decode_state_ok[OF T] job_policy_new_row[OF c]
      and_then_simps map_err_simps ident
    using order job_row_ok_state_fields[OF assms]
    by (simp add: not_less[symmetric] job_of_row_def)
qed

section \<open>Reads\<close>

lemma read_job_inv:
  assumes "job_store_inv sha256 s"
  shows "read_job sha256 k s = Inr (map_option job_of_row (select_key jr_job_id k (jobs s)))"
proof (cases "select_key jr_job_id k (jobs s)")
  case None
  then show ?thesis by (simp add: read_job_def)
next
  case (Some r)
  then have "decode_job sha256 r = Inr (job_of_row r)"
    using assms by (intro decode_job_row_ok job_store_inv_rows) (auto dest: select_key_SomeD)
  with Some show ?thesis by (simp add: read_job_def)
qed

lemma distinct_filter_take2:
  assumes "distinct (map key (filter p rows))"
  shows "filter (\<lambda>r. key r = k \<and> p r) rows =
     (case find (\<lambda>r. key r = k \<and> p r) rows of None \<Rightarrow> [] | Some r \<Rightarrow> [r])"
  using assms
proof (induction rows)
  case Nil
  then show ?case by simp
next
  case (Cons x rows)
  show ?case
  proof (cases "key x = k \<and> p x")
    case True
    with Cons.prems have "k \<notin> key ` {x \<in> set rows. p x}" by simp
    then have "filter (\<lambda>r. key r = k \<and> p r) rows = []"
      by (auto simp: filter_empty_conv)
    with True show ?thesis by simp
  next
    case False
    with Cons show ?thesis by (auto split: if_splits)
  qed
qed

lemma read_active_job_inv:
  assumes "job_store_inv sha256 s"
  shows "read_active_job sha256 trade s =
     Inr (map_option job_of_row (find (\<lambda>r. jr_trade_id r = trade \<and> job_is_active r) (jobs s)))"
proof -
  have "distinct (map jr_trade_id (filter job_is_active (jobs s)))"
    using assms by (simp add: job_store_inv_alt jobs_valid_def)
  note F = distinct_filter_take2[OF this, of trade]
  show ?thesis
  proof (cases "find (\<lambda>r. jr_trade_id r = trade \<and> job_is_active r) (jobs s)")
    case None
    with F show ?thesis by (simp add: read_active_job_def)
  next
    case (Some r)
    then have "r \<in> set (jobs s)" by (auto simp: find_Some_iff)
    then have "decode_job sha256 r = Inr (job_of_row r)"
      using assms by (intro decode_job_row_ok job_store_inv_rows)
    with F Some show ?thesis by (simp add: read_active_job_def)
  qed
qed

lemma read_leased_inv:
  assumes "job_store_inv sha256 s" and "select_key jr_job_id k (jobs s) = Some r"
    and "jr_state r = ''leased''"
  shows "read_leased sha256 k owner s = Inr \<lparr>lease_job = job_of_row r, lease_owner = owner,
     lease_expires = nat (the (jr_lease_expires_unix_ms r))\<rparr>"
proof -
  have "job_row_ok sha256 r"
    using assms(1) select_key_SomeD(1)[OF assms(2)] by (rule job_store_inv_rows)
  then obtain v where "jr_lease_expires_unix_ms r = Some v"
    using job_shape_leased(5)[OF _ assms(3)] by (auto simp: job_row_ok_def)
  then show ?thesis
    using assms by (simp add: read_leased_def read_job_inv job_of_row_def job_state_of_def)
qed

section \<open>Statements keep the invariant\<close>

lemma job_guardD:
  assumes "job_guard r r'"
  shows "jr_job_id r' = jr_job_id r" and "jr_trade_id r' = jr_trade_id r"
    and "jr_input_generation r' = jr_input_generation r"
    and "jr_evidence_policy_sha256 r' = jr_evidence_policy_sha256 r"
    and "jr_revision r' = jr_revision r + 1" and "jr_max_attempts r' = jr_max_attempts r"
    and "jr_updated_at_unix_ms r \<le> jr_updated_at_unix_ms r'"
    and "job_transition (jr_state r) (jr_state r')" and "\<not> job_shape_violation r'"
    and "row_policy r' = row_policy r"
  using assms by (auto simp: job_guard_def job_guard_update_def row_policy_def)

lemma update_jobs_InrD:
  assumes "update_jobs p f s = Inr (s', n)"
  shows "sql_update job_guard (jobs_valid (dirty_generations s)) p f (jobs s) = Some (jobs s', n)"
    and "s' = s\<lparr>jobs := jobs s'\<rparr>" and "dirty_generations s' = dirty_generations s"
  using assms by (auto simp: update_jobs_def split: option.splits)

text \<open>Any update that keeps lease owners authentic keeps the invariant: the schema does the rest.\<close>

lemma update_jobs_inv:
  assumes inv: "job_store_inv sha256 s" and upd: "update_jobs p f s = Inr (s', n)"
    and auth: "\<And>r b. r \<in> set (jobs s) \<Longrightarrow> p r \<Longrightarrow> jr_lease_owner (f r) = Some b \<Longrightarrow>
      \<not> list_all (\<lambda>x. x = 0) b"
  shows "job_store_inv sha256 s'"
proof -
  note S = update_jobs_InrD[OF upd]
  note U = sql_update_SomeD[OF S(1)]
  have "job_row_ok sha256 x" if "x \<in> set (jobs s')" for x
  proof -
    from that U(1) obtain r where r: "r \<in> set (jobs s)" "x = (if p r then f r else r)" by auto
    have ok: "job_row_ok sha256 r" using inv r(1) by (rule job_store_inv_rows)
    show ?thesis
    proof (cases "p r")
      case True
      then have g: "job_guard r x" using U(4) r by simp
      have "job_row_check x" using U(3) that by (simp add: jobs_valid_def list_all_iff)
      moreover have "job_row_authentic sha256 x"
        using ok job_guardD(1-4)[OF g] auth[OF r(1) True] r(2) True
        by (simp add: job_row_ok_def job_row_authentic_def)
      ultimately show ?thesis using job_guardD(9)[OF g] by (simp add: job_row_ok_def)
    next
      case False
      with ok r show ?thesis by simp
    qed
  qed
  with inv S(3) U(3) show ?thesis by (simp add: job_store_inv_alt)
qed

lemma update_jobs_one:
  assumes upd: "update_jobs p f s = Inr (s', 1)" and inv: "job_store_inv sha256 s"
    and p: "\<And>r. p r \<Longrightarrow> jr_job_id r = k"
  obtains r where "select_key jr_job_id k (jobs s) = Some r" and "p r" and "job_guard r (f r)"
    and "jobs s' = replace_row jr_job_id (f r) (jobs s)"
    and "select_key jr_job_id k (jobs s') = Some (f r)"
proof -
  note S = update_jobs_InrD[OF upd]
  have dist: "distinct (map jr_job_id (jobs s))" using inv by (rule job_store_inv_distinct)
  obtain r where r: "r \<in> set (jobs s)" "p r" "jr_job_id r = k" "job_guard r (f r)"
    "jobs s' = replace_row jr_job_id (f r) (jobs s)"
    using sql_update_one[OF S(1) dist p job_guardD(1)] by blast
  moreover have "select_key jr_job_id k (jobs s) = Some r"
    using select_key_distinct[OF dist r(1)] r(3) by simp
  moreover have "select_key jr_job_id k (jobs s') = Some (f r)"
    using r job_guardD(1)[OF r(4)] by (auto simp: r(5) select_key_replace_row)
  ultimately show ?thesis by (intro that)
qed

lemma replace_row_valid:
  assumes inv: "job_store_inv sha256 s" and r: "r \<in> set (jobs s)"
    and g: "job_guard r r'" and c: "job_row_check r'"
    and act: "job_is_active r' \<Longrightarrow> job_is_active r"
  shows "jobs_valid (dirty_generations s) (replace_row jr_job_id r' (jobs s))"
proof -
  have v: "jobs_valid (dirty_generations s) (jobs s)" using inv by (rule job_store_inv_valid)
  have "distinct (map jr_trade_id (filter job_is_active (replace_row jr_job_id r' (jobs s))))"
  proof (rule distinct_filter_replace_row)
    fix x
    assume "x \<in> set (jobs s)" and "jr_job_id x = jr_job_id r'"
    with v r job_guardD(1)[OF g] have "x = r"
      by (auto simp: jobs_valid_def distinct_map inj_on_def)
    then show "jr_trade_id r' = jr_trade_id x \<and> (job_is_active r' \<longrightarrow> job_is_active x)"
      using act job_guardD(2)[OF g] by simp
  qed (use v in \<open>simp add: jobs_valid_def\<close>)
  moreover have "list_all (\<lambda>x. jr_trade_id x \<in> set (map dg_trade_id (dirty_generations s)))
      (replace_row jr_job_id r' (jobs s))"
    using v r job_guardD(2)[OF g] set_replace_row_subset[of jr_job_id r' "jobs s"]
    by (auto simp: jobs_valid_def list_all_iff)
  ultimately show ?thesis
    using v c set_replace_row_subset[of jr_job_id r' "jobs s"]
    by (auto simp: jobs_valid_def list_all_iff)
qed

text \<open>A keyed update whose new row the schema accepts succeeds and touches that row only.\<close>

lemma update_jobs_keyed:
  assumes inv: "job_store_inv sha256 s" and sel: "select_key jr_job_id k (jobs s) = Some r"
    and p: "p r" "\<And>x. p x \<Longrightarrow> jr_job_id x = k"
    and g: "job_guard r (f r)" and c: "job_row_check (f r)"
    and act: "job_is_active (f r) \<Longrightarrow> job_is_active r"
  shows "update_jobs p f s = Inr (s\<lparr>jobs := replace_row jr_job_id (f r) (jobs s)\<rparr>, 1)"
proof -
  note r = select_key_SomeD[OF sel]
  have "sql_update job_guard (jobs_valid (dirty_generations s)) p f (jobs s) =
      Some (replace_row jr_job_id (f r) (jobs s), 1)"
    using job_store_inv_distinct[OF inv] r(1) p(1) _ job_guardD(1)[OF g] g
      replace_row_valid[OF inv r(1) g c act]
    by (rule sql_update_keyed) (use p(2) r(2) in simp)
  then show ?thesis by (simp add: update_jobs_def)
qed

lemma update_jobs_no_row:
  assumes "job_store_inv sha256 s" and "\<And>r. r \<in> set (jobs s) \<Longrightarrow> \<not> p r"
  shows "update_jobs p f s = Inr (s, 0)"
proof -
  have "sql_update job_guard (jobs_valid (dirty_generations s)) p f (jobs s) = Some (jobs s, 0)"
    using assms(2) job_store_inv_valid[OF assms(1)] by (rule sql_update_none)
  then show ?thesis by (simp add: update_jobs_def)
qed

end
