(* ===== verification/Reconciliation_Job_Ops.thy ===== *)
theory Reconciliation_Job_Ops
  imports Reconciliation_Job_Inv
begin

text \<open>
  What each operation of the job repository does, row by row: the rule forms of a successful
  schedule, claim, renew and record-failure, and that every one of them keeps the invariant.
\<close>

section \<open>Inputs the typed API admits\<close>

definition job_policy_ok :: "job_policy \<Rightarrow> bool" where
  "job_policy_ok p \<longleftrightarrow>
     job_policy_new (queue_capacity p) (lease_duration_ms p) (lease_renewal_ms p)
       (max_attempts p) (initial_backoff_ms p) (maximum_backoff_ms p) = Inr p"

definition lease_owner_ok :: "bytes \<Rightarrow> bool" where
  "lease_owner_ok owner \<longleftrightarrow> length owner = 16 \<and> lease_owner_from_bytes owner = Inr owner"

lemma job_policy_ok_bounds:
  "job_policy_ok p \<longleftrightarrow>
     0 < queue_capacity p \<and> queue_capacity p \<le> 65536
   \<and> 1000 \<le> lease_duration_ms p \<and> lease_duration_ms p \<le> 300000
   \<and> 100 \<le> lease_renewal_ms p \<and> lease_renewal_ms p \<le> 150000
   \<and> lease_renewal_ms p < lease_duration_ms p
   \<and> 0 < max_attempts p \<and> max_attempts p \<le> 100
   \<and> 1 \<le> initial_backoff_ms p \<and> initial_backoff_ms p \<le> 60000
   \<and> 1 \<le> maximum_backoff_ms p \<and> maximum_backoff_ms p \<le> 3600000
   \<and> initial_backoff_ms p \<le> maximum_backoff_ms p"
  by (auto simp: job_policy_ok_def job_policy_new_def RHI_RECONCILIATION_JOB_MAX_ACTIVE_def
      split: if_splits)

lemma lease_owner_ok_nonzero: "lease_owner_ok owner \<Longrightarrow> \<not> list_all (\<lambda>x. x = 0) owner"
  by (simp add: lease_owner_ok_def lease_owner_from_bytes_def split: if_splits)

lemma i64_value_iff [simp]:
  "i64_value n = Inr i \<longleftrightarrow> n \<le> i64_max \<and> i = int n"
  "i64_value n = Inl e \<longleftrightarrow> i64_max < n \<and> e = OpInvalidInput"
  by (auto simp: i64_value_def)

abbreviation job_at :: "bytes \<Rightarrow> 'a job_store_scheme \<Rightarrow> job_row option" where
  "job_at k s \<equiv> select_key jr_job_id k (jobs s)"

lemma job_at_ok:
  assumes "job_store_inv sha256 s" and "job_at k s = Some r"
  shows "job_row_ok sha256 r"
  using assms(1) select_key_SomeD(1)[OF assms(2)] by (rule job_store_inv_rows)

lemma job_of_row_simps [simp]:
  "job_ident (job_of_row r) = jr_job_id r"
  "job_trade_id (job_of_row r) = jr_trade_id r"
  "job_input_generation (job_of_row r) = nat (jr_input_generation r)"
  "job_policy_digest (job_of_row r) = jr_evidence_policy_sha256 r"
  "job_state (job_of_row r) = job_state_of (jr_state r)"
  "job_revision (job_of_row r) = nat (jr_revision r)"
  "job_attempt_count (job_of_row r) = nat (jr_attempt_count r)"
  "job_failure_count (job_of_row r) = nat (jr_failure_count r)"
  "job_policy (job_of_row r) = row_policy r"
  "job_lease_owner (job_of_row r) = jr_lease_owner r"
  "job_lease_expires (job_of_row r) = map_option nat (jr_lease_expires_unix_ms r)"
  "job_next_attempt (job_of_row r) = map_option nat (jr_next_attempt_unix_ms r)"
  by (simp_all add: job_of_row_def)

section \<open>Schedule\<close>

lemma supersede_active_InrD:
  assumes inv: "job_store_inv sha256 s"
    and sup: "supersede_active active generation now s = Inr s'"
    and act: "active = map_option job_of_row (find (\<lambda>r. jr_trade_id r = trade \<and> job_is_active r) (jobs s))"
  shows "job_store_inv sha256 s'" and "dirty_generations s' = dirty_generations s"
    and "\<And>k r. job_at k s = Some r \<Longrightarrow>
      job_at k s' = Some (if jr_trade_id r = trade \<and> job_is_active r
        then supersede_set (int now) r else r)"
    and "\<And>k. job_at k s = None \<Longrightarrow> job_at k s' = None"
    and "\<And>r. r \<in> set (jobs s') \<Longrightarrow> jr_trade_id r = trade \<Longrightarrow> \<not> job_is_active r"
proof -
  have uniq: "distinct (map jr_trade_id (filter job_is_active (jobs s)))"
    using inv by (simp add: job_store_inv_alt jobs_valid_def)
  have "job_store_inv sha256 s' \<and> dirty_generations s' = dirty_generations s
    \<and> (\<forall>k r. job_at k s = Some r \<longrightarrow> job_at k s' = Some (if jr_trade_id r = trade \<and> job_is_active r
         then supersede_set (int now) r else r))
    \<and> (\<forall>k. job_at k s = None \<longrightarrow> job_at k s' = None)
    \<and> (\<forall>r \<in> set (jobs s'). jr_trade_id r = trade \<longrightarrow> \<not> job_is_active r)"
  proof (cases "find (\<lambda>r. jr_trade_id r = trade \<and> job_is_active r) (jobs s)")
    case None
    then have "\<forall>r \<in> set (jobs s). jr_trade_id r = trade \<longrightarrow> \<not> job_is_active r"
      by (auto simp: find_None_iff)
    moreover have "s' = s" using sup None act by (simp add: supersede_active_def)
    ultimately show ?thesis using inv by (auto dest: select_key_SomeD)
  next
    case (Some a)
    then have a: "a \<in> set (jobs s)" "jr_trade_id a = trade" "job_is_active a"
      by (auto simp: find_Some_iff)
    have only: "x = a" if "x \<in> set (jobs s)" "jr_trade_id x = trade" "job_is_active x" for x
      using that a uniq by (auto simp: distinct_map inj_on_def)
    from sup Some act have upd: "update_jobs (supersede_where (jr_job_id a) (int (nat (jr_revision a))))
        (supersede_set (int now)) s = Inr (s', 1)"
      by (auto simp: supersede_active_def split: if_splits)
    then obtain r where r: "job_at (jr_job_id a) s = Some r"
      "job_guard r (supersede_set (int now) r)"
      "jobs s' = replace_row jr_job_id (supersede_set (int now) r) (jobs s)"
      using update_jobs_one[OF upd inv, of "jr_job_id a"] by (auto simp: supersede_where_def)
    have "r = a"
      using r(1) select_key_distinct[OF job_store_inv_distinct[OF inv] a(1)] by simp
    note r = r[unfolded \<open>r = a\<close>]
    have id: "jr_job_id (supersede_set (int now) a) = jr_job_id a" by (simp add: supersede_set_def)
    have "job_store_inv sha256 s'"
      using inv upd by (rule update_jobs_inv) (simp add: supersede_set_def)
    moreover have "job_at k s' = Some (if jr_trade_id x = trade \<and> job_is_active x
        then supersede_set (int now) x else x)" if "job_at k s = Some x" for k x
    proof -
      note x = select_key_SomeD[OF that]
      show ?thesis
      proof (cases "k = jr_job_id a")
        case True
        with that r(1) have "x = a" by simp
        with a x r id True show ?thesis by (auto simp: select_key_replace_row)
      next
        case False
        with x only have "\<not> (jr_trade_id x = trade \<and> job_is_active x)" by auto
        with False that r id show ?thesis by (auto simp: select_key_replace_row)
      qed
    qed
    moreover have "job_at k s' = None" if "job_at k s = None" for k
      using that a(1) id by (auto simp: r(3) select_key_replace_row select_key_None_iff)
    moreover have "\<not> job_is_active x" if "x \<in> set (jobs s')" "jr_trade_id x = trade" for x
    proof -
      from that(1) r(3) have "x = supersede_set (int now) a \<or> (x \<in> set (jobs s) \<and> x \<noteq> a)"
        using id by (auto simp: in_set_replace_row)
      with only that show ?thesis by (auto simp: supersede_set_def job_is_active_def)
    qed
    moreover have "dirty_generations s' = dirty_generations s"
      using update_jobs_InrD(3)[OF upd] .
    ultimately show ?thesis by blast
  qed
  then show "job_store_inv sha256 s'" and "dirty_generations s' = dirty_generations s"
    and "\<And>k r. job_at k s = Some r \<Longrightarrow>
      job_at k s' = Some (if jr_trade_id r = trade \<and> job_is_active r
        then supersede_set (int now) r else r)"
    and "\<And>k. job_at k s = None \<Longrightarrow> job_at k s' = None"
    and "\<And>r. r \<in> set (jobs s') \<Longrightarrow> jr_trade_id r = trade \<Longrightarrow> \<not> job_is_active r"
    by blast+
qed

lemma insert_job_InrD:
  assumes inv: "job_store_inv sha256 s" and ins: "insert_job r s = Inr s'"
    and auth: "job_row_authentic sha256 r"
  shows "job_store_inv sha256 s'" and "jobs s' = jobs s @ [r]"
    and "dirty_generations s' = dirty_generations s"
    and "job_at (jr_job_id r) s' = Some r"
    and "\<And>k. k \<noteq> jr_job_id r \<Longrightarrow> job_at k s' = job_at k s"
    and "job_at (jr_job_id r) s = None"
proof -
  from ins have I: "sql_insert job_insert_guard (jobs_valid (dirty_generations s)) r (jobs s)
      = Some (jobs s')" and d: "dirty_generations s' = dirty_generations s"
    by (auto simp: insert_job_def split: option.splits)
  note J = sql_insert_SomeD[OF I]
  have "job_row_ok sha256 r"
    using J auth by (simp add: job_row_ok_def job_insert_guard_def jobs_valid_def)
  then show inv': "job_store_inv sha256 s'"
    using inv J d by (auto simp: job_store_inv_alt)
  show "jobs s' = jobs s @ [r]" and "dirty_generations s' = dirty_generations s"
    by (fact J(1), fact d)
  have dist: "distinct (map jr_job_id (jobs s @ [r]))"
    using J(1) job_store_inv_distinct[OF inv'] by simp
  then show N: "job_at (jr_job_id r) s = None" by (auto simp: select_key_None_iff)
  show "job_at (jr_job_id r) s' = Some r"
    using N J(1) by (simp add: select_key_snoc)
  show "job_at k s' = job_at k s" if "k \<noteq> jr_job_id r" for k
    using that J(1) by (auto simp: select_key_snoc split: option.splits)
qed

lemma read_dirty_InrD:
  assumes "read_dirty trade s = Inr (generation, digest)"
  shows "0 < generation" and "length digest = 32" and "generation \<le> i64_max"
    and "\<exists>row. select_key dg_trade_id trade (dirty_generations s) = Some row
      \<and> generation = nat (dg_generation row) \<and> digest = dg_evidence_policy_sha256 row"
  using assms
  by (auto simp: read_dirty_def positive_u64_def bounded_u64_def exact_bytes_def split: if_splits)

lemma new_job_row_simps [simp]:
  "jr_job_id (new_job_row i t g d p n) = i"
  "jr_trade_id (new_job_row i t g d p n) = t"
  "jr_input_generation (new_job_row i t g d p n) = g"
  "jr_evidence_policy_sha256 (new_job_row i t g d p n) = d"
  "jr_state (new_job_row i t g d p n) = ''ready''"
  "jr_lease_owner (new_job_row i t g d p n) = None"
  "job_is_active (new_job_row i t g d p n)"
  by (simp_all add: new_job_row_def job_is_active_def)

text \<open>A scheduling that creates a job: what it found, superseded and inserted.\<close>

lemma schedule_createdE:
  assumes inv: "job_store_inv sha256 s"
    and sch: "schedule sha256 trade policy now s = Inr (out, s')" and new: "outcome_created out"
  obtains generation digest ident row s1 where
    "read_dirty trade s = Inr (generation, digest)"
    "ident = job_id sha256 trade generation digest"
    "job_at ident s = None"
    "supersede_active (map_option job_of_row
       (find (\<lambda>r. jr_trade_id r = trade \<and> job_is_active r) (jobs s))) generation now s = Inr s1"
    "row = new_job_row ident trade (int generation) digest policy (int now)"
    "active_job_count s1 < queue_capacity policy"
    "insert_job row s1 = Inr s'"
    "job_row_authentic sha256 row"
    "outcome_job out = job_of_row row"
proof -
  obtain generation digest where rd: "read_dirty trade s = Inr (generation, digest)"
    using sch by (auto simp: schedule_def)
  define ident where "ident = job_id sha256 trade generation digest"
  have none: "job_at ident s = None"
  proof (cases "job_at ident s")
    case (Some r)
    then show ?thesis using sch rd new
      by (auto simp: schedule_def Let_def ident_def[symmetric] read_job_inv[OF inv] split: if_splits)
  qed
  define row where "row = new_job_row ident trade (int generation) digest policy (int now)"
  from sch rd none obtain s1 where s1:
    "supersede_active (map_option job_of_row
       (find (\<lambda>r. jr_trade_id r = trade \<and> job_is_active r) (jobs s))) generation now s = Inr s1"
    "insert_scheduled sha256 ident trade generation digest policy now s1 = Inr (out, s')"
    by (auto simp: schedule_def Let_def ident_def[symmetric] read_job_inv[OF inv]
        read_active_job_inv[OF inv])
  have auth: "job_row_authentic sha256 row"
    by (simp add: job_row_authentic_def row_def ident_def)
  from s1(2) have ins: "insert_job row s1 = Inr s'" and cap: "active_job_count s1 < queue_capacity policy"
    and out: "\<exists>found. read_job sha256 ident s' = Inr (Some found) \<and> outcome_job out = found"
    by (auto simp: insert_scheduled_def row_def)
  have inv1: "job_store_inv sha256 s1"
    using supersede_active_InrD(1)[OF inv s1(1) refl] .
  note I = insert_job_InrD[OF inv1 ins auth]
  have "outcome_job out = job_of_row row"
    using out I(4) by (auto simp: read_job_inv[OF I(1)] row_def)
  then show ?thesis using that rd ident_def none s1(1) row_def cap ins auth by blast
qed

lemma schedule_existingE:
  assumes inv: "job_store_inv sha256 s"
    and sch: "schedule sha256 trade policy now s = Inr (out, s')" and old: "\<not> outcome_created out"
  obtains generation digest r where
    "read_dirty trade s = Inr (generation, digest)"
    "job_at (job_id sha256 trade generation digest) s = Some r"
    "jr_trade_id r = trade" "nat (jr_input_generation r) = generation"
    "jr_evidence_policy_sha256 r = digest"
    "outcome_job out = job_of_row r" "s' = s"
proof -
  obtain generation digest where rd: "read_dirty trade s = Inr (generation, digest)"
    using sch by (auto simp: schedule_def)
  show ?thesis
  proof (cases "job_at (job_id sha256 trade generation digest) s")
    case None
    then show ?thesis using sch rd old
      by (auto simp: schedule_def Let_def read_job_inv[OF inv] insert_scheduled_def)
  next
    case (Some r)
    with sch rd have "jr_trade_id r = trade" "nat (jr_input_generation r) = generation"
      "jr_evidence_policy_sha256 r = digest" "outcome_job out = job_of_row r" "s' = s"
      by (auto simp: schedule_def Let_def read_job_inv[OF inv] split: if_splits)
    with rd Some show ?thesis by (intro that)
  qed
qed

lemma schedule_inv:
  assumes "job_store_inv sha256 s" and "schedule sha256 trade policy now s = Inr (out, s')"
  shows "job_store_inv sha256 s'"
proof (cases "outcome_created out")
  case True
  then show ?thesis
    by (rule schedule_createdE[OF assms])
      (blast dest: supersede_active_InrD(1)[OF assms(1) _ refl] insert_job_InrD(1))
next
  case False
  then show ?thesis using schedule_existingE[OF assms] assms(1) by metis
qed

section \<open>Claim\<close>

lemma expired_final_ids_subset:
  "k \<in> set (expired_final_ids now rows) \<Longrightarrow> \<exists>r \<in> set rows. jr_job_id r = k \<and> expired_final_where now r"
  unfolding expired_final_ids_def by (auto dest!: in_set_takeD)

lemma expired_final_ids_all:
  assumes "length rows \<le> 65536" and "r \<in> set rows" and "expired_final_where now r"
  shows "jr_job_id r \<in> set (expired_final_ids now rows)"
proof -
  have "length (sort_key (\<lambda>r. (jr_lease_expires_unix_ms r, jr_created_at_unix_ms r, jr_job_id r))
      (filter (expired_final_where now) rows)) \<le> 65536"
    using order_trans[OF length_filter_le assms(1), of "expired_final_where now"] by simp
  with assms(2,3) show ?thesis by (simp add: expired_final_ids_def)
qed

lemma exhaust_expired_InrD:
  assumes inv: "job_store_inv sha256 s" and ex: "exhaust_expired now s = Inr s'"
  shows "job_store_inv sha256 s'" and "dirty_generations s' = dirty_generations s"
    and "\<And>k. job_at k s' = map_option (\<lambda>r. if k \<in> set (expired_final_ids now (jobs s))
      then exhaust_expired_set now r else r) (job_at k s)"
proof -
  let ?ids = "set (expired_final_ids now (jobs s))"
  from ex obtain n where upd:
    "update_jobs (\<lambda>r. jr_job_id r \<in> ?ids) (exhaust_expired_set now) s = Inr (s', n)"
    by (auto simp: exhaust_expired_def Let_def)
  show "job_store_inv sha256 s'"
    using inv upd by (rule update_jobs_inv) (simp add: exhaust_expired_set_def)
  show "dirty_generations s' = dirty_generations s" using update_jobs_InrD(3)[OF upd] .
  have rows: "jobs s' = map (\<lambda>r. if jr_job_id r \<in> ?ids then exhaust_expired_set now r else r) (jobs s)"
    using sql_update_SomeD(1)[OF update_jobs_InrD(1)[OF upd]] .
  show "job_at k s' = map_option (\<lambda>r. if k \<in> ?ids then exhaust_expired_set now r else r) (job_at k s)"
    for k
  proof -
    have "select_key jr_job_id k (map (\<lambda>r. if jr_job_id r \<in> ids then exhaust_expired_set now r else r) rs)
      = map_option (\<lambda>r. if k \<in> ids then exhaust_expired_set now r else r) (select_key jr_job_id k rs)"
      for ids rs
      by (induction rs) (auto simp: select_key_def exhaust_expired_set_def)
    then show ?thesis using rows by simp
  qed
qed

lemma expired_final_not_claimable: "expired_final_where now r \<Longrightarrow> \<not> claimable now' r"
  by (auto simp: expired_final_where_def claimable_def)

lemma exhausted_row_inactive:
  "\<not> claimable now' (exhaust_expired_set now r)" "\<not> job_is_active (exhaust_expired_set now r)"
  by (simp_all add: exhaust_expired_set_def claimable_def job_is_active_def)

text \<open>A row named by the expiry sweep is an expired final lease.\<close>

lemma expired_final_ids_row:
  assumes "job_store_inv sha256 s" and "job_at k s = Some r"
    and "k \<in> set (expired_final_ids now (jobs s))"
  shows "expired_final_where now r"
proof -
  obtain x where x: "x \<in> set (jobs s)" "jr_job_id x = k" "expired_final_where now x"
    using expired_final_ids_subset[OF assms(3)] by blast
  then have "job_at k s = Some x"
    using select_key_distinct[OF job_store_inv_distinct[OF assms(1)]] by blast
  with assms(2) x show ?thesis by simp
qed

definition claim_expiry :: "nat \<Rightarrow> job_row \<Rightarrow> int" where
  "claim_expiry now r = int now + jr_lease_duration_ms r"

lemma claim_candidateE:
  assumes inv: "job_store_inv sha256 s" and row: "job_at k s = Some row"
    and claim: "claim_candidate sha256 owner now row s = Inr (lease, s')"
    and owner: "\<not> list_all (\<lambda>x. x = 0) owner"
  obtains row' where "row' = claim_set owner (claim_expiry now row) (int now) row"
    "claimable (int now) row" "job_store_inv sha256 s'"
    "dirty_generations s' = dirty_generations s"
    "jobs s' = replace_row jr_job_id row' (jobs s)" "jr_job_id row' = k"
    "lease = \<lparr>lease_job = job_of_row row', lease_owner = owner,
       lease_expires = nat (claim_expiry now row)\<rparr>"
    "nat (claim_expiry now row) \<le> i64_max"
proof -
  note ok = job_at_ok[OF inv row]
  have k: "jr_job_id row = k" using select_key_SomeD(2)[OF row] .
  have pos: "1 \<le> jr_lease_duration_ms row" "1 \<le> jr_revision row"
    using ok by (simp_all add: job_row_ok_def job_row_check_def)
  have dur: "lease_duration_ms (row_policy row) = nat (jr_lease_duration_ms row)"
    by (simp add: row_policy_def)
  define row' where "row' = claim_set owner (claim_expiry now row) (int now) row"
  from claim obtain expires where e: "expires = now + nat (jr_lease_duration_ms row)"
    "expires \<le> i64_max"
    and upd: "update_jobs (claim_where k (int (nat (jr_revision row))) (int now))
      (claim_set owner (int expires) (int now)) s = Inr (s', 1)"
    and lease: "read_leased sha256 k owner s' = Inr lease"
    by (auto simp: claim_candidate_def decode_job_row_ok[OF ok] dur k)
  obtain r where r: "job_at k s = Some r" "claim_where k (int (nat (jr_revision row))) (int now) r"
    "jobs s' = replace_row jr_job_id (claim_set owner (int expires) (int now) r) (jobs s)"
    "job_at k s' = Some (claim_set owner (int expires) (int now) r)"
    by (rule update_jobs_one[OF upd inv, of k]) (auto simp: claim_where_def)
  have [simp]: "r = row" using r(1) row by simp
  have E: "int expires = claim_expiry now row" using e pos by (simp add: claim_expiry_def)
  have inv': "job_store_inv sha256 s'"
    using inv upd by (rule update_jobs_inv) (use owner in \<open>auto simp: claim_set_def\<close>)
  have "lease = \<lparr>lease_job = job_of_row row', lease_owner = owner,
      lease_expires = nat (claim_expiry now row)\<rparr>"
    using lease read_leased_inv[OF inv' r(4), of owner]
    by (simp add: row'_def claim_set_def E)
  moreover have "nat (claim_expiry now row) \<le> i64_max" using e(2) E[symmetric] by simp
  moreover have "claimable (int now) row" using r(2) by (simp add: claim_where_def)
  moreover have "jr_job_id row' = k" by (simp add: row'_def claim_set_def k)
  ultimately show ?thesis
    using that[of row'] inv' r(3) update_jobs_InrD(3)[OF upd] by (simp add: row'_def E)
qed

lemma claim_nextE:
  assumes inv: "job_store_inv sha256 s"
    and claim: "claim_next sha256 owner now s = Inr (res, s')"
    and owner: "lease_owner_ok owner"
  obtains (none) s1 where "exhaust_expired (int now) s = Inr s1" "res = None" "s' = s1"
      "now \<le> i64_max" "filter (claimable (int now)) (jobs s1) = []"
  | (some) s1 row row' where "exhaust_expired (int now) s = Inr s1" "now \<le> i64_max"
      "read_claimable (int now) s1 = Some row" "job_at (jr_job_id row) s1 = Some row"
      "row' = claim_set owner (claim_expiry now row) (int now) row"
      "claimable (int now) row" "job_store_inv sha256 s'"
      "dirty_generations s' = dirty_generations s1"
      "jobs s' = replace_row jr_job_id row' (jobs s1)" "jr_job_id row' = jr_job_id row"
      "res = Some \<lparr>lease_job = job_of_row row', lease_owner = owner,
         lease_expires = nat (claim_expiry now row)\<rparr>"
proof -
  from claim obtain s1 where now: "now \<le> i64_max" and ex: "exhaust_expired (int now) s = Inr s1"
    and rest: "(case read_claimable (int now) s1 of None \<Rightarrow> Inr (None, s1)
      | Some row \<Rightarrow> and_then (claim_candidate sha256 owner now row s1)
          (\<lambda>(lease, s). Inr (Some lease, s))) = Inr (res, s')"
    by (auto simp: claim_next_def)
  note inv1 = exhaust_expired_InrD(1)[OF inv ex]
  show ?thesis
  proof (cases "read_claimable (int now) s1")
    case None
    with rest ex now show ?thesis by (intro none) (simp_all add: read_claimable_def)
  next
    case (Some row)
    then have "row \<in> set (jobs s1)"
      using select_min_SomeD(1) by (fastforce simp: read_claimable_def)
    then have at: "job_at (jr_job_id row) s1 = Some row"
      using select_key_distinct[OF job_store_inv_distinct[OF inv1]] by blast
    from rest Some obtain lease where
      c: "claim_candidate sha256 owner now row s1 = Inr (lease, s')" "res = Some lease"
      by auto
    show ?thesis
      by (rule claim_candidateE[OF inv1 at c(1) lease_owner_ok_nonzero[OF owner]])
        (use some[OF ex now Some at] c(2) in simp)
  qed
qed

lemma claim_next_inv:
  assumes "job_store_inv sha256 s" and "claim_next sha256 owner now s = Inr (res, s')"
    and "lease_owner_ok owner"
  shows "job_store_inv sha256 s'"
  by (rule claim_nextE[OF assms]) (auto dest: exhaust_expired_InrD(1)[OF assms(1)])

section \<open>Renew\<close>

lemma renewE:
  assumes inv: "job_store_inv sha256 s" and ren: "renew sha256 lease now s = Inr (lease', s')"
  obtains r r' where "job_at (job_ident (lease_job lease)) s = Some r"
    "renew_where (job_ident (lease_job lease)) (int (job_revision (lease_job lease)))
       (lease_owner lease) (int (lease_expires lease)) (int now) r"
    "r' = renew_set (int (now + lease_duration_ms (job_policy (lease_job lease)))) (int now) r"
    "job_store_inv sha256 s'" "dirty_generations s' = dirty_generations s"
    "jobs s' = replace_row jr_job_id r' (jobs s)" "jr_job_id r' = job_ident (lease_job lease)"
    "job_at (job_ident (lease_job lease)) s' = Some r'"
    "lease_expires lease < now + lease_duration_ms (job_policy (lease_job lease))"
    "now + lease_duration_ms (job_policy (lease_job lease)) \<le> i64_max"
    "lease' = \<lparr>lease_job = job_of_row r', lease_owner = lease_owner lease,
       lease_expires = now + lease_duration_ms (job_policy (lease_job lease))\<rparr>"
proof -
  let ?k = "job_ident (lease_job lease)"
  let ?e = "now + lease_duration_ms (job_policy (lease_job lease))"
  from ren have e: "lease_expires lease < ?e" "?e \<le> i64_max"
    and upd: "update_jobs (renew_where ?k (int (job_revision (lease_job lease)))
      (lease_owner lease) (int (lease_expires lease)) (int now))
      (renew_set (int ?e) (int now)) s = Inr (s', 1)"
    and rl: "read_leased sha256 ?k (lease_owner lease) s' = Inr lease'"
    by (auto simp: renew_def Let_def)
  obtain r where r: "job_at ?k s = Some r" "renew_where ?k (int (job_revision (lease_job lease)))
      (lease_owner lease) (int (lease_expires lease)) (int now) r"
    "jobs s' = replace_row jr_job_id (renew_set (int ?e) (int now) r) (jobs s)"
    "job_at ?k s' = Some (renew_set (int ?e) (int now) r)"
    by (rule update_jobs_one[OF upd inv, of ?k]) (auto simp: renew_where_def)
  have ok: "job_row_ok sha256 r" using job_at_ok[OF inv r(1)] .
  have inv': "job_store_inv sha256 s'"
    using inv upd
  proof (rule update_jobs_inv)
    fix x b
    assume "x \<in> set (jobs s)" "jr_lease_owner (renew_set (int ?e) (int now) x) = Some b"
    then show "\<not> list_all (\<lambda>x. x = 0) b"
      using job_store_inv_rows[OF inv] by (auto simp: renew_set_def job_row_ok_def job_row_authentic_def)
  qed
  have "lease' = \<lparr>lease_job = job_of_row (renew_set (int ?e) (int now) r),
      lease_owner = lease_owner lease, lease_expires = ?e\<rparr>"
    using rl read_leased_inv[OF inv' r(4), of "lease_owner lease"] r(2)
    by (simp add: renew_set_def renew_where_def)
  moreover have "jr_job_id (renew_set (int ?e) (int now) r) = ?k"
    using r(2) by (simp add: renew_set_def renew_where_def)
  ultimately show ?thesis
    using that[OF r(1,2) refl inv' update_jobs_InrD(3)[OF upd] r(3) _ r(4) e] by blast
qed

section \<open>Record failure\<close>

lemma record_failureE:
  assumes inv: "job_store_inv sha256 s"
    and rec: "record_failure sha256 lease now delay s = Inr (job, s')"
  obtains r r' where "job_at (job_ident (lease_job lease)) s = Some r"
    "held_where (job_ident (lease_job lease)) (int (job_revision (lease_job lease)))
       (lease_owner lease) (int (lease_expires lease)) (int now) r"
    "r' = (if jr_max_attempts r \<le> jr_attempt_count r then exhaust_set (int now) r
       else retry_set (int (now + delay)) (int now) r)"
    "job_store_inv sha256 s'" "dirty_generations s' = dirty_generations s"
    "jobs s' = replace_row jr_job_id r' (jobs s)" "jr_job_id r' = job_ident (lease_job lease)"
    "job_at (job_ident (lease_job lease)) s' = Some r'"
    "job = job_of_row r'"
    "jr_max_attempts r \<le> jr_attempt_count r
       \<longleftrightarrow> max_attempts (job_policy (lease_job lease)) \<le> job_attempt_count (lease_job lease)"
    "jr_attempt_count r < jr_max_attempts r \<Longrightarrow> now + delay \<le> i64_max"
proof -
  let ?k = "job_ident (lease_job lease)"
  let ?final = "max_attempts (job_policy (lease_job lease)) \<le> job_attempt_count (lease_job lease)"
  let ?held = "held_where ?k (int (job_revision (lease_job lease)))
      (lease_owner lease) (int (lease_expires lease)) (int now)"
  let ?f = "if ?final then exhaust_set (int now) else retry_set (int (now + delay)) (int now)"
  from rec have upd: "update_jobs (\<lambda>r. ?held r \<and> (if ?final then jr_max_attempts r \<le> jr_attempt_count r
        else jr_attempt_count r < jr_max_attempts r)) ?f s = Inr (s', 1)"
    and lim: "\<not> ?final \<Longrightarrow> now + delay \<le> i64_max"
    and job: "\<exists>found. read_job sha256 ?k s' = Inr (Some found) \<and> job = found"
    by (auto simp: record_failure_def Let_def split: if_splits)
  obtain r where r: "job_at ?k s = Some r" "?held r"
    "if ?final then jr_max_attempts r \<le> jr_attempt_count r
     else jr_attempt_count r < jr_max_attempts r"
    "jobs s' = replace_row jr_job_id (?f r) (jobs s)" "job_at ?k s' = Some (?f r)"
    by (rule update_jobs_one[OF upd inv, of ?k]) (auto simp: held_where_def)
  have final: "jr_max_attempts r \<le> jr_attempt_count r \<longleftrightarrow> ?final"
    using r(3) by (simp split: if_splits)
  have inv': "job_store_inv sha256 s'"
    using inv upd by (rule update_jobs_inv) (auto simp: exhaust_set_def retry_set_def split: if_splits)
  have f: "?f r = (if jr_max_attempts r \<le> jr_attempt_count r then exhaust_set (int now) r
      else retry_set (int (now + delay)) (int now) r)"
    using final by simp
  have k: "jr_job_id (?f r) = ?k"
    using r(2) by (simp add: held_where_def exhaust_set_def retry_set_def)
  have j: "job = job_of_row (?f r)" using job r(5) by (simp add: read_job_inv[OF inv'])
  have l: "jr_attempt_count r < jr_max_attempts r \<Longrightarrow> now + delay \<le> i64_max"
    using lim final by linarith
  show ?thesis
    using that[OF r(1,2) f inv' update_jobs_InrD(3)[OF upd] r(4) k r(5) j final l] .
qed

end
