(* ===== verification/Reconciliation_Job_Machine.thy ===== *)
theory Reconciliation_Job_Machine
  imports Reconciliation_Job_Ops
begin

text \<open>
  The job repository as a state machine.  \<open>job_step\<close> is one committed transaction of the repository,
  or an advance of the dirty generations by ingestion; \<open>row_change\<close> is the life of a single job as
  the contract describes it.  The refinement lemma \<open>job_step_refines\<close> shows that every committed
  transaction moves every job along \<open>row_change\<close>; the run-level lemmas follow from it by induction
  over runs.
\<close>

section \<open>Completion\<close>

text \<open>
  The last statement of the finalization commit (\<open>COMPLETE_JOB_SQL\<close> of
  \<open>src/src/reconciliation_finalization_commit.rs\<close>), which ends the job whose attestation was committed.
\<close>

definition complete_where :: "bytes \<Rightarrow> int \<Rightarrow> bytes \<Rightarrow> int \<Rightarrow> int \<Rightarrow> job_row \<Rightarrow> bool" where
  "complete_where ident revision owner expires now r \<longleftrightarrow>
     jr_job_id r = ident \<and> jr_state r = ''leased'' \<and> jr_revision r = revision
   \<and> jr_lease_owner r = Some owner \<and> jr_lease_expires_unix_ms r = Some expires
   \<and> jr_updated_at_unix_ms r \<le> now"

definition complete_set :: "int \<Rightarrow> job_row \<Rightarrow> job_row" where
  "complete_set now r = r\<lparr>jr_state := ''completed'', jr_revision := jr_revision r + 1,
     jr_next_attempt_unix_ms := None, jr_lease_owner := None, jr_lease_expires_unix_ms := None,
     jr_updated_at_unix_ms := now\<rparr>"

definition complete_job ::
  "bytes \<Rightarrow> job_lease \<Rightarrow> nat \<Rightarrow> 'a job_store_scheme \<Rightarrow> (operation_error, 'a job_store_scheme) result" where
  "complete_job ident lease now s =
     (let job = lease_job lease in
     and_then (i64_value now) (\<lambda>now_value.
     and_then (i64_value (job_revision job)) (\<lambda>revision.
     and_then (i64_value (lease_expires lease)) (\<lambda>expires.
     and_then (update_jobs (complete_where ident revision (lease_owner lease) expires now_value)
         (complete_set now_value) s) (\<lambda>(s, n).
     and_then (ensure (n = 1) OpLeaseLost) (\<lambda>_. Inr s))))))"

lemma complete_jobE:
  assumes inv: "job_store_inv sha256 s" and run: "complete_job (job_ident (lease_job lease)) lease now s = Inr s'"
  obtains r where "job_at (job_ident (lease_job lease)) s = Some r"
    "complete_where (job_ident (lease_job lease)) (int (job_revision (lease_job lease)))
       (lease_owner lease) (int (lease_expires lease)) (int now) r"
    "job_store_inv sha256 s'" "s' = s\<lparr>jobs := replace_row jr_job_id (complete_set (int now) r) (jobs s)\<rparr>"
    "job_at (job_ident (lease_job lease)) s' = Some (complete_set (int now) r)"
proof -
  let ?k = "job_ident (lease_job lease)"
  from run have upd: "update_jobs (complete_where ?k (int (job_revision (lease_job lease)))
      (lease_owner lease) (int (lease_expires lease)) (int now)) (complete_set (int now)) s = Inr (s', 1)"
    by (auto simp: complete_job_def Let_def)
  obtain r where r: "job_at ?k s = Some r" "complete_where ?k (int (job_revision (lease_job lease)))
      (lease_owner lease) (int (lease_expires lease)) (int now) r"
    "jobs s' = replace_row jr_job_id (complete_set (int now) r) (jobs s)"
    "job_at ?k s' = Some (complete_set (int now) r)"
    by (rule update_jobs_one[OF upd inv, of ?k]) (auto simp: complete_where_def)
  have inv': "job_store_inv sha256 s'" using inv upd by (rule update_jobs_inv) (simp add: complete_set_def)
  show ?thesis using that[OF r(1,2) inv' _ r(4)] update_jobs_InrD(2)[OF upd] r(3) by metis
qed

section \<open>Committed transactions\<close>

datatype job_event =
    Scheduled bytes job_policy nat
  | Claimed bytes nat "job_lease option"
  | Renewed job_lease nat
  | Failed job_lease nat nat
  | Finished job_lease nat
  | DirtyAdvanced

text \<open>What ingestion may do to the dirty generations: existing trades stay, the table stays valid.\<close>

definition dirty_advance :: "dirty_row list \<Rightarrow> dirty_row list \<Rightarrow> bool" where
  "dirty_advance d d' \<longleftrightarrow> dirty_valid d' \<and> set (map dg_trade_id d) \<subseteq> set (map dg_trade_id d')"

inductive job_step ::
  "(bytes \<Rightarrow> bytes) \<Rightarrow> 'a job_store_scheme \<Rightarrow> job_event \<Rightarrow> 'a job_store_scheme \<Rightarrow> bool"
  for sha256 where
  step_schedule: "schedule sha256 trade policy now s = Inr (out, s') \<Longrightarrow>
     job_step sha256 s (Scheduled trade policy now) s'"
| step_claim: "lease_owner_ok owner \<Longrightarrow> claim_next sha256 owner now s = Inr (res, s') \<Longrightarrow>
     job_step sha256 s (Claimed owner now res) s'"
| step_renew: "renew sha256 lease now s = Inr (lease', s') \<Longrightarrow>
     job_step sha256 s (Renewed lease now) s'"
| step_fail: "record_failure sha256 lease now delay s = Inr (job, s') \<Longrightarrow>
     job_step sha256 s (Failed lease now delay) s'"
| step_complete: "complete_job (job_ident (lease_job lease)) lease now s = Inr s' \<Longrightarrow> job_step sha256 s (Finished lease now) s'"
| step_dirty: "dirty_advance (dirty_generations s) d \<Longrightarrow>
     job_step sha256 s DirtyAdvanced (s\<lparr>dirty_generations := d\<rparr>)"

inductive_cases job_step_scheduledE: "job_step sha256 s (Scheduled trade policy now) s'"
inductive_cases job_step_claimedE: "job_step sha256 s (Claimed owner now res) s'"
inductive_cases job_step_renewedE: "job_step sha256 s (Renewed lease now) s'"
inductive_cases job_step_failedE: "job_step sha256 s (Failed lease now delay) s'"

inductive job_run ::
  "(bytes \<Rightarrow> bytes) \<Rightarrow> 'a job_store_scheme \<Rightarrow> job_event list \<Rightarrow> 'a job_store_scheme \<Rightarrow> bool"
  for sha256 where
  run_nil: "job_run sha256 s [] s"
| run_cons: "job_step sha256 s ev s' \<Longrightarrow> job_run sha256 s' evs s'' \<Longrightarrow>
     job_run sha256 s (ev # evs) s''"

inductive_cases job_run_nilE [elim!]: "job_run sha256 s [] s'"
inductive_cases job_run_consE: "job_run sha256 s (ev # evs) s'"

lemma dirty_advance_inv:
  assumes "job_store_inv sha256 s" and "dirty_advance (dirty_generations s) d"
  shows "job_store_inv sha256 (s\<lparr>dirty_generations := d\<rparr>)"
  using assms
  by (auto simp: job_store_inv_alt dirty_advance_def jobs_valid_def list_all_iff)

lemma job_step_inv:
  assumes "job_step sha256 s ev s'" and "job_store_inv sha256 s"
  shows "job_store_inv sha256 s'"
  using assms
proof (induction rule: job_step.induct)
  case (step_renew lease now s lease' s')
  then show ?case by (blast elim: renewE)
next
  case (step_fail lease now delay s job s')
  then show ?case by (blast elim: record_failureE)
next
  case (step_complete lease now s s')
  then show ?case by (blast elim: complete_jobE)
qed (auto intro: schedule_inv claim_next_inv dirty_advance_inv)

lemma job_run_inv: "job_run sha256 s evs s' \<Longrightarrow> job_store_inv sha256 s \<Longrightarrow> job_store_inv sha256 s'"
  by (induction rule: job_run.induct) (auto dest: job_step_inv)

section \<open>The life of one job\<close>

inductive row_change :: "job_event \<Rightarrow> job_row \<Rightarrow> job_row \<Rightarrow> bool" where
  row_keep: "row_change ev r r"
| row_superseded: "job_is_active r \<Longrightarrow>
     row_change (Scheduled trade policy now) r (supersede_set (int now) r)"
| row_swept: "expired_final_where (int now) r \<Longrightarrow>
     row_change (Claimed owner now res) r (exhaust_expired_set (int now) r)"
| row_claimed: "claimable (int now) r \<Longrightarrow> job_ident (lease_job lease) = jr_job_id r \<Longrightarrow>
     lease_expires lease = nat (claim_expiry now r) \<Longrightarrow>
     row_change (Claimed owner now (Some lease)) r
       (claim_set owner (claim_expiry now r) (int now) r)"
| row_renewed: "renew_where (job_ident (lease_job lease)) (int (job_revision (lease_job lease)))
       (lease_owner lease) (int (lease_expires lease)) (int now) r \<Longrightarrow>
     lease_expires lease < now + lease_duration_ms (job_policy (lease_job lease)) \<Longrightarrow>
     row_change (Renewed lease now) r
       (renew_set (int (now + lease_duration_ms (job_policy (lease_job lease)))) (int now) r)"
| row_retried: "held_where (job_ident (lease_job lease)) (int (job_revision (lease_job lease)))
       (lease_owner lease) (int (lease_expires lease)) (int now) r \<Longrightarrow>
     jr_attempt_count r < jr_max_attempts r \<Longrightarrow>
     row_change (Failed lease now delay) r (retry_set (int (now + delay)) (int now) r)"
| row_exhausted: "held_where (job_ident (lease_job lease)) (int (job_revision (lease_job lease)))
       (lease_owner lease) (int (lease_expires lease)) (int now) r \<Longrightarrow>
     jr_max_attempts r \<le> jr_attempt_count r \<Longrightarrow>
     row_change (Failed lease now delay) r (exhaust_set (int now) r)"
| row_completed: "complete_where (job_ident (lease_job lease)) (int (job_revision (lease_job lease)))
       (lease_owner lease) (int (lease_expires lease)) (int now) r \<Longrightarrow>
     row_change (Finished lease now) r (complete_set (int now) r)"

fun claims_job :: "bytes \<Rightarrow> job_event \<Rightarrow> bool" where
  "claims_job k (Claimed owner now (Some lease)) = (job_ident (lease_job lease) = k)"
| "claims_job k _ = False"

lemma schedule_row_change:
  assumes inv: "job_store_inv sha256 s" and sch: "schedule sha256 trade policy now s = Inr (out, s')"
    and at: "job_at k s = Some r"
  shows "\<exists>r'. job_at k s' = Some r' \<and> row_change (Scheduled trade policy now) r r'"
proof (cases "outcome_created out")
  case True
  with inv sch show ?thesis
  proof (rule schedule_createdE)
    fix generation digest ident row s1
    assume none: "job_at ident s = None"
      and sup: "supersede_active (map_option job_of_row
         (find (\<lambda>r. jr_trade_id r = trade \<and> job_is_active r) (jobs s))) generation now s = Inr s1"
      and row: "row = new_job_row ident trade (int generation) digest policy (int now)"
      and ins: "insert_job row s1 = Inr s'" and auth: "job_row_authentic sha256 row"
    note S = supersede_active_InrD[OF inv sup refl]
    note I = insert_job_InrD[OF S(1) ins auth]
    have "k \<noteq> jr_job_id row" using none at row by auto
    then have "job_at k s' = Some (if jr_trade_id r = trade \<and> job_is_active r
        then supersede_set (int now) r else r)"
      using I(5) S(3)[OF at] by simp
    then show ?thesis using row_superseded row_keep by auto
  qed
next
  case False
  with inv sch show ?thesis
    by (rule schedule_existingE) (use at row_keep in auto)
qed

lemma claim_row_change:
  assumes inv: "job_store_inv sha256 s" and claim: "claim_next sha256 owner now s = Inr (res, s')"
    and owner: "lease_owner_ok owner" and at: "job_at k s = Some r"
  shows "\<exists>r'. job_at k s' = Some r' \<and> row_change (Claimed owner now res) r r'
    \<and> jr_attempt_count r' = jr_attempt_count r + (if claims_job k (Claimed owner now res) then 1 else 0)"
proof -
  obtain s1 where ex: "exhaust_expired (int now) s = Inr s1"
    using claim by (auto simp: claim_next_def)
  note X = exhaust_expired_InrD[OF inv ex]
  define r1 where "r1 = (if k \<in> set (expired_final_ids (int now) (jobs s))
      then exhaust_expired_set (int now) r else r)"
  have at1: "job_at k s1 = Some r1" using X(3)[of k] at by (simp add: r1_def)
  have swept: "row_change (Claimed owner now res) r r1" "jr_attempt_count r1 = jr_attempt_count r" for res
    using expired_final_ids_row[OF inv at] row_swept row_keep
    by (auto simp: r1_def exhaust_expired_set_def)
  from inv claim owner show ?thesis
  proof (cases rule: claim_nextE)
    case (none s2)
    then show ?thesis using ex at1 swept by auto
  next
    case (some s2 row row')
    then have [simp]: "s2 = s1" using ex by simp
    show ?thesis
    proof (cases "k = jr_job_id row")
      case True
      then have "row = r1" using some(4) at1 by simp
      then have "r1 = r"
        using some(6) exhausted_row_inactive(1) by (auto simp: r1_def split: if_splits)
      then have r: "row = r" using \<open>row = r1\<close> by simp
      have "job_at k s' = Some row'"
        using some True at1 by (auto simp: select_key_replace_row dest: select_key_SomeD)
      moreover have "row_change (Claimed owner now res) r row'"
        unfolding some(5,11) r
        by (rule row_claimed) (use some r in \<open>auto simp: claim_set_def\<close>)
      moreover have "jr_attempt_count row' = jr_attempt_count r + 1" "claims_job k (Claimed owner now res)"
        using some r True by (simp_all add: claim_set_def)
      ultimately show ?thesis by auto
    next
      case False
      then have "job_at k s' = Some r1" using some at1 by (auto simp: select_key_replace_row)
      moreover have "\<not> claims_job k (Claimed owner now res)" using some False by simp
      ultimately show ?thesis using swept by auto
    qed
  qed
qed

lemma row_change_attempts:
  assumes "row_change ev r r'" and "\<And>owner now res. ev \<noteq> Claimed owner now res"
  shows "jr_attempt_count r' = jr_attempt_count r"
  using assms
  by cases (auto simp: supersede_set_def renew_set_def retry_set_def exhaust_set_def complete_set_def)

text \<open>
  Refinement: a committed transaction moves every stored job one step along \<open>row_change\<close>; no job
  is ever lost, and the attempt counter moves exactly with the claims of that job.
\<close>

lemma job_step_refines:
  assumes "job_step sha256 s ev s'" and "job_store_inv sha256 s" and "job_at k s = Some r"
  shows "\<exists>r'. job_at k s' = Some r' \<and> row_change ev r r'
    \<and> jr_attempt_count r' = jr_attempt_count r + (if claims_job k ev then 1 else 0)"
  using assms
proof (cases rule: job_step.cases)
  case (step_schedule trade policy now out)
  then show ?thesis
    using schedule_row_change[OF assms(2) _ assms(3)] row_change_attempts by fastforce
next
  case (step_claim owner now res)
  then show ?thesis using claim_row_change[OF assms(2) _ _ assms(3)] by blast
next
  case (step_renew lease now lease')
  from assms(2) step_renew(2) show ?thesis
  proof (rule renewE)
    fix x x'
    assume x: "job_at (job_ident (lease_job lease)) s = Some x"
      "renew_where (job_ident (lease_job lease)) (int (job_revision (lease_job lease)))
         (lease_owner lease) (int (lease_expires lease)) (int now) x"
      "x' = renew_set (int (now + lease_duration_ms (job_policy (lease_job lease)))) (int now) x"
      "jobs s' = replace_row jr_job_id x' (jobs s)" "jr_job_id x' = job_ident (lease_job lease)"
      "job_at (job_ident (lease_job lease)) s' = Some x'"
      "lease_expires lease < now + lease_duration_ms (job_policy (lease_job lease))"
    show ?thesis
    proof (cases "k = job_ident (lease_job lease)")
      case True
      with x assms(3) have "x = r" "job_at k s' = Some x'" by simp_all
      then show ?thesis
        using x step_renew(1) row_renewed by (auto simp: renew_set_def)
    next
      case False
      then show ?thesis
        using x assms(3) step_renew(1) row_keep by (auto simp: select_key_replace_row)
    qed
  qed
next
  case (step_fail lease now delay job)
  from assms(2) step_fail(2) show ?thesis
  proof (rule record_failureE)
    fix x x'
    assume x: "job_at (job_ident (lease_job lease)) s = Some x"
      "held_where (job_ident (lease_job lease)) (int (job_revision (lease_job lease)))
         (lease_owner lease) (int (lease_expires lease)) (int now) x"
      "x' = (if jr_max_attempts x \<le> jr_attempt_count x then exhaust_set (int now) x
         else retry_set (int (now + delay)) (int now) x)"
      "jobs s' = replace_row jr_job_id x' (jobs s)" "jr_job_id x' = job_ident (lease_job lease)"
      "job_at (job_ident (lease_job lease)) s' = Some x'"
    show ?thesis
    proof (cases "k = job_ident (lease_job lease)")
      case True
      with x assms(3) have [simp]: "x = r" and "job_at k s' = Some x'" by simp_all
      moreover have "row_change ev r x'"
        using x(2,3) step_fail(1) row_retried row_exhausted by (auto split: if_splits)
      moreover have "jr_attempt_count x' = jr_attempt_count r"
        using x(3) by (simp add: exhaust_set_def retry_set_def)
      ultimately show ?thesis using step_fail(1) by simp
    next
      case False
      then show ?thesis
        using x assms(3) step_fail(1) row_keep by (auto simp: select_key_replace_row)
    qed
  qed
next
  case (step_complete lease now)
  from assms(2) step_complete(2) show ?thesis
  proof (rule complete_jobE)
    fix x
    assume x: "job_at (job_ident (lease_job lease)) s = Some x"
      "complete_where (job_ident (lease_job lease)) (int (job_revision (lease_job lease)))
         (lease_owner lease) (int (lease_expires lease)) (int now) x"
      "s' = s\<lparr>jobs := replace_row jr_job_id (complete_set (int now) x) (jobs s)\<rparr>"
      "job_at (job_ident (lease_job lease)) s' = Some (complete_set (int now) x)"
    show ?thesis
    proof (cases "k = job_ident (lease_job lease)")
      case True
      with x assms(3) step_complete(1) row_completed show ?thesis by (auto simp: complete_set_def)
    next
      case False
      moreover have "jr_job_id (complete_set (int now) x) = job_ident (lease_job lease)"
        using x(2) by (simp add: complete_where_def complete_set_def)
      ultimately show ?thesis
        using x(3) assms(3) step_complete(1) row_keep by (auto simp: select_key_replace_row)
    qed
  qed
next
  case (step_dirty d)
  then show ?thesis using assms(3) row_keep by auto
qed

section \<open>Along a run\<close>

lemma row_change_key: "row_change ev r r' \<Longrightarrow> jr_job_id r' = jr_job_id r"
  by (induction rule: row_change.induct)
    (simp_all add: supersede_set_def exhaust_expired_set_def claim_set_def renew_set_def
      retry_set_def exhaust_set_def complete_set_def)

lemma row_change_max_attempts: "row_change ev r r' \<Longrightarrow> jr_max_attempts r' = jr_max_attempts r"
  by (induction rule: row_change.induct)
    (simp_all add: supersede_set_def exhaust_expired_set_def claim_set_def renew_set_def
      retry_set_def exhaust_set_def complete_set_def)

lemma row_change_revision: "row_change ev r r' \<Longrightarrow> r' = r \<or> jr_revision r' = jr_revision r + 1"
  by (induction rule: row_change.induct)
    (simp_all add: supersede_set_def exhaust_expired_set_def claim_set_def renew_set_def
      retry_set_def exhaust_set_def complete_set_def)

lemma row_change_attempts_le_max:
  "row_change ev r r' \<Longrightarrow> jr_attempt_count r \<le> jr_max_attempts r \<Longrightarrow>
   jr_attempt_count r' \<le> jr_max_attempts r'"
  by (induction rule: row_change.induct)
    (simp_all add: supersede_set_def exhaust_expired_set_def claim_set_def renew_set_def
      retry_set_def exhaust_set_def complete_set_def claimable_def)

text \<open>A finished job never changes again.\<close>

lemma row_change_terminal: "row_change ev r r' \<Longrightarrow> job_is_terminal r \<Longrightarrow> r' = r"
  by (induction rule: row_change.induct)
    (auto simp: job_state_names expired_final_where_def claimable_def renew_where_def held_where_def
      complete_where_def)

lemma job_step_fresh:
  assumes "job_step sha256 s ev s'" and "job_store_inv sha256 s" and "job_at k s = None"
    and "job_at k s' = Some r"
  shows "jr_attempt_count r = 0" and "1 \<le> jr_max_attempts r"
proof -
  from assms have "jr_attempt_count r = 0 \<and> 1 \<le> jr_max_attempts r"
  proof (cases rule: job_step.cases)
    case (step_schedule trade policy now out)
    show ?thesis
    proof (cases "outcome_created out")
      case True
      with assms(2) step_schedule(2) show ?thesis
      proof (rule schedule_createdE)
        fix generation digest ident row s1
        assume sup: "supersede_active (map_option job_of_row
             (find (\<lambda>r. jr_trade_id r = trade \<and> job_is_active r) (jobs s))) generation now s = Inr s1"
          and row: "row = new_job_row ident trade (int generation) digest policy (int now)"
          and ins: "insert_job row s1 = Inr s'" and auth: "job_row_authentic sha256 row"
        note S = supersede_active_InrD[OF assms(2) sup refl]
        note I = insert_job_InrD[OF S(1) ins auth]
        have "r = row"
          using assms(3,4) S(4) I(4,5) by (cases "k = jr_job_id row") auto
        moreover have "job_row_ok sha256 row" using job_at_ok[OF I(1,4)] .
        ultimately show ?thesis
          by (simp add: row new_job_row_def job_row_ok_def job_row_check_def)
      qed
    next
      case False
      with assms(2) step_schedule(2) show ?thesis
        by (rule schedule_existingE) (use assms in simp)
    qed
  next
    case (step_claim owner now res)
    from assms(2) step_claim(3,2) show ?thesis
    proof (cases rule: claim_nextE)
      case (none s1)
      then show ?thesis using assms exhaust_expired_InrD(3)[OF assms(2), of "int now" s1 k] by simp
    next
      case (some s1 row row')
      have "job_at k s1 = None" using assms(3) exhaust_expired_InrD(3)[OF assms(2) some(1)] by simp
      then have "job_at k s' = None" unfolding some(9) by (rule select_key_replace_row_None)
      then show ?thesis using assms(4) by simp
    qed
  next
    case (step_renew lease now lease')
    from assms(2) step_renew(2) show ?thesis
      by (rule renewE) (use assms select_key_replace_row_None in fastforce)
  next
    case (step_fail lease now delay job)
    from assms(2) step_fail(2) show ?thesis
      by (rule record_failureE) (use assms select_key_replace_row_None in fastforce)
  next
    case (step_complete lease now)
    from assms(2) step_complete(2) show ?thesis
      by (rule complete_jobE) (use assms select_key_replace_row_None in fastforce)
  next
    case (step_dirty d)
    then show ?thesis using assms by simp
  qed
  then show "jr_attempt_count r = 0" and "1 \<le> jr_max_attempts r" by simp_all
qed

lemma job_step_claims_stored:
  assumes "job_step sha256 s ev s'" and "job_store_inv sha256 s" and "claims_job k ev"
  shows "job_at k s \<noteq> None"
proof -
  from assms(3) obtain owner now lease where ev: "ev = Claimed owner now (Some lease)"
    and k: "job_ident (lease_job lease) = k"
    by (cases "(k, ev)" rule: claims_job.cases) auto
  from assms(1) obtain c: "lease_owner_ok owner" "claim_next sha256 owner now s = Inr (Some lease, s')"
    unfolding ev by (rule job_step_claimedE) blast
  from assms(2) c(2,1) show ?thesis
  proof (cases rule: claim_nextE)
    case (some s1 row row')
    have "job_at (jr_job_id row) s \<noteq> None"
      using exhaust_expired_InrD(3)[OF assms(2) some(1), of "jr_job_id row"] some(4)
      by (cases "job_at (jr_job_id row) s") auto
    then show ?thesis using some k by simp
  qed simp
qed

definition attempts_of :: "bytes \<Rightarrow> 'a job_store_scheme \<Rightarrow> int" where
  "attempts_of k s = (case job_at k s of None \<Rightarrow> 0 | Some r \<Rightarrow> jr_attempt_count r)"

definition within_attempts :: "bytes \<Rightarrow> 'a job_store_scheme \<Rightarrow> bool" where
  "within_attempts k s \<longleftrightarrow> (\<forall>r. job_at k s = Some r \<longrightarrow> jr_attempt_count r \<le> jr_max_attempts r)"

lemma job_step_attempts:
  assumes "job_step sha256 s ev s'" and "job_store_inv sha256 s" and "within_attempts k s"
  shows "attempts_of k s' = attempts_of k s + (if claims_job k ev then 1 else 0)"
    and "within_attempts k s'"
proof -
  have "attempts_of k s' = attempts_of k s + (if claims_job k ev then 1 else 0) \<and> within_attempts k s'"
  proof (cases "job_at k s")
    case None
    then have "\<not> claims_job k ev" using job_step_claims_stored[OF assms(1,2)] by blast
    then show ?thesis
      using None job_step_fresh[OF assms(1,2) None]
      by (auto simp: attempts_of_def within_attempts_def split: option.split)
  next
    case (Some r)
    obtain r' where r': "job_at k s' = Some r'" "row_change ev r r'"
      "jr_attempt_count r' = jr_attempt_count r + (if claims_job k ev then 1 else 0)"
      using job_step_refines[OF assms(1,2) Some] by blast
    moreover have "jr_attempt_count r' \<le> jr_max_attempts r'"
      using row_change_attempts_le_max[OF r'(2)] assms(3) Some by (simp add: within_attempts_def)
    ultimately show ?thesis using Some by (simp add: attempts_of_def within_attempts_def)
  qed
  then show "attempts_of k s' = attempts_of k s + (if claims_job k ev then 1 else 0)"
    and "within_attempts k s'" by simp_all
qed

lemma job_run_attempts:
  assumes "job_run sha256 s evs s'" and "job_store_inv sha256 s" and "within_attempts k s"
  shows "attempts_of k s' = attempts_of k s + int (length (filter (claims_job k) evs))
    \<and> within_attempts k s'"
  using assms
proof (induction rule: job_run.induct)
  case (run_nil s)
  then show ?case by simp
next
  case (run_cons s ev s' evs s'')
  from run_cons.hyps(1) run_cons.prems(1) have "job_store_inv sha256 s'" by (rule job_step_inv)
  with run_cons.IH job_step_attempts[OF run_cons.hyps(1) run_cons.prems] show ?case by auto
qed

lemma job_run_row:
  assumes "job_run sha256 s evs s'" and "job_store_inv sha256 s" and "job_at k s = Some r"
  shows "\<exists>r'. job_at k s' = Some r' \<and> (r' = r \<or> jr_revision r < jr_revision r')"
  using assms
proof (induction arbitrary: r rule: job_run.induct)
  case (run_nil s)
  then show ?case by simp
next
  case (run_cons s ev s' evs s'')
  obtain r1 where r1: "job_at k s' = Some r1" "row_change ev r r1"
    using job_step_refines[OF run_cons.hyps(1) run_cons.prems] by blast
  moreover have "job_store_inv sha256 s'"
    using run_cons.hyps(1) run_cons.prems(1) by (rule job_step_inv)
  ultimately obtain r2 where "job_at k s'' = Some r2" "r2 = r1 \<or> jr_revision r1 < jr_revision r2"
    using run_cons.IH by blast
  with row_change_revision[OF r1(2)] show ?case by auto
qed

section \<open>Leases in force\<close>

definition same_lease :: "job_lease \<Rightarrow> job_lease \<Rightarrow> bool" where
  "same_lease l l' \<longleftrightarrow>
     job_ident (lease_job l) = job_ident (lease_job l')
   \<and> job_revision (lease_job l) = job_revision (lease_job l')
   \<and> lease_owner l = lease_owner l' \<and> lease_expires l = lease_expires l'"

text \<open>An event of somebody else, before the lease expires.\<close>

fun foreign_event :: "job_lease \<Rightarrow> job_event \<Rightarrow> bool" where
  "foreign_event l (Claimed owner now res) = (now < lease_expires l)"
| "foreign_event l (Renewed l' now) = (\<not> same_lease l' l)"
| "foreign_event l (Failed l' now delay) = (\<not> same_lease l' l)"
| "foreign_event l (Finished l' now) = (\<not> same_lease l' l)"
| "foreign_event l _ = True"

definition holds_lease :: "job_lease \<Rightarrow> job_row \<Rightarrow> bool" where
  "holds_lease l r \<longleftrightarrow>
     jr_job_id r = job_ident (lease_job l) \<and> jr_state r = ''leased''
   \<and> jr_revision r = int (job_revision (lease_job l))
   \<and> jr_lease_owner r = Some (lease_owner l)
   \<and> jr_lease_expires_unix_ms r = Some (int (lease_expires l))"

lemma row_change_holds_lease:
  assumes "row_change ev r r'" and "holds_lease l r" and "foreign_event l ev"
  shows "r' = r \<or> jr_state r' = ''superseded''"
  using assms
  by (induction rule: row_change.induct)
    (auto simp: holds_lease_def supersede_set_def expired_final_where_def claimable_def
      renew_where_def held_where_def complete_where_def same_lease_def)

lemma job_run_terminal:
  assumes "job_run sha256 s evs s'" and "job_store_inv sha256 s" and "job_at k s = Some r"
    and "job_is_terminal r"
  shows "job_at k s' = Some r"
  using assms
proof (induction rule: job_run.induct)
  case (run_nil s)
  then show ?case by simp
next
  case (run_cons s ev s' evs s'')
  obtain r1 where r1: "job_at k s' = Some r1" "row_change ev r r1"
    using job_step_refines[OF run_cons.hyps(1) run_cons.prems(1,2)] by blast
  then have "r1 = r" using row_change_terminal run_cons.prems(3) by blast
  with r1 show ?case
    using run_cons.IH[OF job_step_inv[OF run_cons.hyps(1) run_cons.prems(1)]] run_cons.prems(3) by simp
qed

lemma job_run_terminal_unclaimed:
  assumes "job_run sha256 s evs s'" and "job_store_inv sha256 s" and "job_at k s = Some r"
    and "job_is_terminal r" and "ev \<in> set evs"
  shows "\<not> claims_job k ev"
  using assms
proof (induction rule: job_run.induct)
  case (run_nil s)
  then show ?case by simp
next
  case (run_cons s e s' evs s'')
  obtain r1 where r1: "job_at k s' = Some r1" "row_change e r r1"
    "jr_attempt_count r1 = jr_attempt_count r + (if claims_job k e then 1 else 0)"
    using job_step_refines[OF run_cons.hyps(1) run_cons.prems(1,2)] by blast
  then have "r1 = r" using row_change_terminal run_cons.prems(3) by blast
  with r1 have "\<not> claims_job k e" by (auto split: if_splits)
  with r1 \<open>r1 = r\<close> show ?case
    using run_cons.IH[OF job_step_inv[OF run_cons.hyps(1) run_cons.prems(1)]] run_cons.prems by auto
qed

lemma job_run_holds_lease:
  assumes "job_run sha256 s evs s'" and "job_store_inv sha256 s"
    and "job_at (job_ident (lease_job l)) s = Some r" and "holds_lease l r"
    and "\<forall>ev \<in> set evs. foreign_event l ev"
  shows "\<exists>r'. job_at (job_ident (lease_job l)) s' = Some r' \<and> (r' = r \<or> jr_state r' = ''superseded'')"
  using assms
proof (induction rule: job_run.induct)
  case (run_nil s)
  then show ?case by simp
next
  case (run_cons s ev s' evs s'')
  obtain r1 where r1: "job_at (job_ident (lease_job l)) s' = Some r1" "row_change ev r r1"
    using job_step_refines[OF run_cons.hyps(1) run_cons.prems(1,2)] by blast
  have inv': "job_store_inv sha256 s'"
    using run_cons.hyps(1) run_cons.prems(1) by (rule job_step_inv)
  from row_change_holds_lease[OF r1(2) run_cons.prems(3)] run_cons.prems(4)
  consider "r1 = r" | "jr_state r1 = ''superseded''" by auto
  then show ?case
  proof cases
    case 1
    with r1 inv' run_cons.prems show ?thesis by (intro run_cons.IH) auto
  next
    case 2
    then have "job_at (job_ident (lease_job l)) s'' = Some r1"
      using job_run_terminal[OF run_cons.hyps(2) inv' r1(1)] by (simp add: job_is_terminal_def)
    with 2 show ?thesis by blast
  qed
qed

lemma claimable_survives_sweep:
  assumes inv: "job_store_inv sha256 s" and ex: "exhaust_expired now s = Inr s1"
  shows "x \<in> set (jobs s1) \<and> claimable now x \<longleftrightarrow> x \<in> set (jobs s) \<and> claimable now x"
proof -
  note X = exhaust_expired_InrD[OF inv ex]
  have at: "y \<in> set (jobs t) \<longleftrightarrow> job_at (jr_job_id y) t = Some y" if "job_store_inv sha256 t" for y t
    using select_key_distinct[OF job_store_inv_distinct[OF that]] select_key_SomeD(1) by metis
  have "job_at (jr_job_id x) s1 = Some x \<longleftrightarrow> job_at (jr_job_id x) s = Some x" if "claimable now x"
  proof -
    have "\<not> jr_job_id x \<in> set (expired_final_ids now (jobs s))" if "job_at (jr_job_id x) s = Some x"
      using expired_final_ids_row[OF inv that] expired_final_not_claimable \<open>claimable now x\<close> by blast
    then show ?thesis
      using X(3)[of "jr_job_id x"] exhausted_row_inactive(1) \<open>claimable now x\<close>
      by (auto split: if_splits)
  qed
  with at[OF inv] at[OF X(1)] show ?thesis by blast
qed

lemma job_run_lease_unclaimed:
  assumes "job_run sha256 s evs s'" and "job_store_inv sha256 s"
    and "job_at (job_ident (lease_job l)) s = Some r" and "holds_lease l r"
    and "\<forall>ev \<in> set evs. foreign_event l ev"
  shows "\<forall>ev \<in> set evs. \<not> claims_job (job_ident (lease_job l)) ev"
  using assms
proof (induction rule: job_run.induct)
  case (run_nil s)
  then show ?case by simp
next
  case (run_cons s ev s' evs s'')
  let ?k = "job_ident (lease_job l)"
  have inv': "job_store_inv sha256 s'"
    using run_cons.hyps(1) run_cons.prems(1) by (rule job_step_inv)
  obtain r1 where r1: "job_at ?k s' = Some r1" "row_change ev r r1"
    "jr_attempt_count r1 = jr_attempt_count r + (if claims_job ?k ev then 1 else 0)"
    using job_step_refines[OF run_cons.hyps(1) run_cons.prems(1,2)] by blast
  have "r1 = r \<or> jr_state r1 = ''superseded''"
    using row_change_holds_lease[OF r1(2) run_cons.prems(3)] run_cons.prems(4) by auto
  then show ?case
  proof
    assume "r1 = r"
    with r1 have "\<not> claims_job ?k ev" by (auto split: if_splits)
    moreover have "\<forall>ev \<in> set evs. \<not> claims_job ?k ev"
      using r1(1) \<open>r1 = r\<close> inv' run_cons.prems by (intro run_cons.IH) auto
    ultimately show ?thesis by simp
  next
    assume st: "jr_state r1 = ''superseded''"
    have "jr_attempt_count r1 = jr_attempt_count r"
      using r1(2) st by (cases rule: row_change.cases)
        (auto simp: supersede_set_def exhaust_expired_set_def claim_set_def renew_set_def
          retry_set_def exhaust_set_def complete_set_def)
    with r1(3) have "\<not> claims_job ?k ev" by (auto split: if_splits)
    moreover have "\<not> claims_job ?k e" if "e \<in> set evs" for e
      using job_run_terminal_unclaimed[OF run_cons.hyps(2) inv' r1(1)] st that
      by (simp add: job_is_terminal_def)
    ultimately show ?thesis by simp
  qed
qed

end
