(* ===== verification/Reconciliation_Job_Props.thy ===== *)
theory Reconciliation_Job_Props
  imports Reconciliation_Job_Machine
begin

text \<open>
  The properties of the durable reconciliation-job repository: idempotent scheduling, one active
  job per trade, exclusive and bounded leases, fencing of stale leases, progress of claims, the
  bounded exponential back-off, and atomicity of the repository's public operations.
\<close>

section \<open>Statements that succeed\<close>

lemma supersede_row_accepted:
  assumes "job_row_ok sha256 r" and "job_is_active r" and "jr_updated_at_unix_ms r \<le> now"
    and "now \<le> sql_i64_max" and "jr_revision r < sql_i64_max"
  shows "job_guard r (supersede_set now r)" and "job_row_check (supersede_set now r)"
    and "\<not> job_is_active (supersede_set now r)"
proof -
  have shape: "\<not> job_shape_violation (supersede_set now r)"
    by (simp add: job_shape_violation_def supersede_set_def job_is_terminal_def)
  then have "check_holds (job_state_check (supersede_set now r))"
    by (rule job_shape_implies_state_check) (simp add: supersede_set_def job_is_terminal_def)
  then show "job_row_check (supersede_set now r)"
    using assms by (auto simp: job_row_ok_def job_row_check_def supersede_set_def job_is_terminal_def)
  show "job_guard r (supersede_set now r)"
    using shape assms
    by (auto simp: job_guard_def job_guard_update_def supersede_set_def job_state_names)
  show "\<not> job_is_active (supersede_set now r)" by (simp add: supersede_set_def job_is_active_def)
qed

lemma claim_row_accepted:
  assumes ok: "job_row_ok sha256 r" and c: "claimable now r" and e: "now < e" "e \<le> sql_i64_max"
    and owner: "length owner = 16" and rev: "jr_revision r < sql_i64_max" and "0 \<le> now"
  shows "job_guard r (claim_set owner e now r)" and "job_row_check (claim_set owner e now r)"
    and "job_is_active r"
proof -
  have A: "0 \<le> jr_attempt_count r" using ok by (simp add: job_row_ok_def job_row_check_def)
  have shape: "\<not> job_shape_violation (claim_set owner e now r)"
    using c e A owner \<open>0 \<le> now\<close>
    by (auto simp: job_shape_violation_def claim_set_def claimable_def job_is_terminal_def sql_logic)
  then have "check_holds (job_state_check (claim_set owner e now r))"
    by (rule job_shape_implies_state_check) (simp add: claim_set_def job_is_active_def)
  then show "job_row_check (claim_set owner e now r)"
    using ok c rev e
    by (auto simp: job_row_ok_def job_row_check_def claim_set_def claimable_def job_is_active_def)
  show "job_guard r (claim_set owner e now r)"
    using shape c
    by (auto simp: job_guard_def job_guard_update_def claim_set_def job_transition_def claimable_def)
  show "job_is_active r" using c by (auto simp: claimable_def job_is_active_def)
qed

lemma renew_row_accepted:
  assumes ok: "job_row_ok sha256 r" and st: "jr_state r = ''leased''"
    and "jr_updated_at_unix_ms r \<le> now" and e: "now < e" "e \<le> sql_i64_max" and "0 \<le> now"
    and "jr_revision r < sql_i64_max"
  shows "job_guard r (renew_set e now r)" and "job_row_check (renew_set e now r)"
proof -
  have "\<not> job_shape_violation r" using ok by (simp add: job_row_ok_def)
  note L = job_shape_leased[OF this st]
  have shape: "\<not> job_shape_violation (renew_set e now r)"
    using L st e \<open>0 \<le> now\<close>
    by (auto simp: job_shape_violation_def renew_set_def job_is_terminal_def sql_logic)
  then have "check_holds (job_state_check (renew_set e now r))"
    by (rule job_shape_implies_state_check) (simp add: renew_set_def job_is_active_def st)
  then show "job_row_check (renew_set e now r)"
    using assms by (auto simp: job_row_ok_def job_row_check_def renew_set_def job_is_active_def)
  show "job_guard r (renew_set e now r)"
    using shape assms
    by (auto simp: job_guard_def job_guard_update_def renew_set_def job_transition_def)
qed

lemma sweep_row_accepted:
  assumes ok: "job_row_ok sha256 r" and x: "expired_final_where now r"
    and "now \<le> sql_i64_max" and "jr_revision r < sql_i64_max"
  shows "job_guard r (exhaust_expired_set now r)" and "job_row_check (exhaust_expired_set now r)"
proof -
  have st: "jr_state r = ''leased''" using x by (simp add: expired_final_where_def)
  have "jr_next_attempt_unix_ms r = None" using job_shape_leased(3)[OF _ st] ok
    by (simp add: job_row_ok_def)
  then have shape: "\<not> job_shape_violation (exhaust_expired_set now r)"
    by (simp add: job_shape_violation_def exhaust_expired_set_def)
  then have "check_holds (job_state_check (exhaust_expired_set now r))"
    by (rule job_shape_implies_state_check) (simp add: exhaust_expired_set_def job_is_terminal_def)
  then show "job_row_check (exhaust_expired_set now r)"
    using assms
    by (auto simp: job_row_ok_def job_row_check_def exhaust_expired_set_def job_is_terminal_def
        expired_final_where_def)
  show "job_guard r (exhaust_expired_set now r)"
    using shape x
    by (auto simp: job_guard_def job_guard_update_def exhaust_expired_set_def job_transition_def
        expired_final_where_def)
qed

text \<open>No job has used up its 63-bit revision counter.\<close>

definition revision_headroom :: "'a job_store_scheme \<Rightarrow> bool" where
  "revision_headroom s \<longleftrightarrow> (\<forall>r \<in> set (jobs s). jr_revision r < sql_i64_max)"

lemma exhaust_expired_succeeds:
  assumes inv: "job_store_inv sha256 s" and now: "now \<le> sql_i64_max" and head: "revision_headroom s"
  shows "\<exists>s'. exhaust_expired now s = Inr s'"
proof -
  let ?p = "\<lambda>r. jr_job_id r \<in> set (expired_final_ids now (jobs s))"
  let ?f = "\<lambda>r. if ?p r then exhaust_expired_set now r else r"
  have x: "expired_final_where now r" if "r \<in> set (jobs s)" "?p r" for r
    using expired_final_ids_row[OF inv _ that(2)]
      select_key_distinct[OF job_store_inv_distinct[OF inv] that(1)] by blast
  have acc: "job_guard r (exhaust_expired_set now r) \<and> job_row_check (exhaust_expired_set now r)"
    if "r \<in> set (jobs s)" "?p r" for r
    using sweep_row_accepted[OF job_store_inv_rows[OF inv that(1)] x[OF that] now] head that(1)
    by (auto simp: revision_headroom_def)
  note v = job_store_inv_valid[OF inv]
  have keys: "jr_job_id (exhaust_expired_set now r) = jr_job_id r"
    "jr_trade_id (exhaust_expired_set now r) = jr_trade_id r" for r
    by (simp_all add: exhaust_expired_set_def)
  have active: "distinct (map jr_trade_id (filter job_is_active (map ?f (jobs s))))"
    by (rule distinct_filter_map)
      (use v exhausted_row_inactive keys in \<open>auto simp: jobs_valid_def split: if_splits\<close>)
  have "map jr_job_id (map ?f (jobs s)) = map jr_job_id (jobs s)" by (simp add: keys)
  then have ids: "distinct (map jr_job_id (map ?f (jobs s)))" using v by (simp only: jobs_valid_def)
  have "job_row_check x \<and> jr_trade_id x \<in> set (map dg_trade_id (dirty_generations s))"
    if "x \<in> set (map ?f (jobs s))" for x
    using that v acc keys by (auto simp: jobs_valid_def list_all_iff)
  with active ids have "jobs_valid (dirty_generations s) (map ?f (jobs s))"
    unfolding jobs_valid_def list_all_iff by blast
  with acc show ?thesis
    by (simp add: exhaust_expired_def update_jobs_def sql_update_def Let_def list_all_iff)
qed

section \<open>Scheduling\<close>

text \<open>
  Scheduling is idempotent: scheduling the same trade again, with any policy and at any time,
  while its dirty generation stands, returns the same job, reports that nothing was created and
  leaves the store as it is.
\<close>

theorem schedule_idempotent:
  assumes inv: "job_store_inv sha256 s"
    and sch: "schedule sha256 trade policy now s = Inr (out, s')"
  shows "schedule sha256 trade policy' now' s' =
    Inr (\<lparr>outcome_job = outcome_job out, outcome_created = False\<rparr>, s')"
proof (cases "outcome_created out")
  case True
  with inv sch show ?thesis
  proof (rule schedule_createdE)
    fix generation digest ident row s1
    assume rd: "read_dirty trade s = Inr (generation, digest)"
      and ident: "ident = job_id sha256 trade generation digest"
      and sup: "supersede_active (map_option job_of_row
         (find (\<lambda>r. jr_trade_id r = trade \<and> job_is_active r) (jobs s))) generation now s = Inr s1"
      and row: "row = new_job_row ident trade (int generation) digest policy (int now)"
      and ins: "insert_job row s1 = Inr s'" and auth: "job_row_authentic sha256 row"
      and out: "outcome_job out = job_of_row row"
    note S = supersede_active_InrD[OF inv sup refl]
    note I = insert_job_InrD[OF S(1) ins auth]
    have "read_dirty trade s' = Inr (generation, digest)"
      using rd S(2) I(3) by (simp add: read_dirty_def)
    moreover have "read_job sha256 ident s' = Inr (Some (job_of_row row))"
      using I(4) row by (simp add: read_job_inv[OF I(1)])
    ultimately show ?thesis
      using row out ident by (simp add: schedule_def)
  qed
next
  case False
  with inv sch show ?thesis
    by (rule schedule_existingE) (simp add: schedule_def read_job_inv[OF inv])
qed

text \<open>
  A scheduling that creates a job leaves exactly one active job for the trade, the new one:
  ready, at its first attempt, due now, for the trade's current generation and policy digest.  The
  trade's previous active job, if it had one, is superseded, no other job is touched, and the
  number of active jobs stays within the configured capacity.
\<close>

theorem schedule_created_effect:
  assumes inv: "job_store_inv sha256 s"
    and sch: "schedule sha256 trade policy now s = Inr (out, s')" and new: "outcome_created out"
  shows "(\<exists>generation digest. read_dirty trade s = Inr (generation, digest)
      \<and> job_ident (outcome_job out) = job_id sha256 trade generation digest
      \<and> job_input_generation (outcome_job out) = generation
      \<and> job_policy_digest (outcome_job out) = digest)
    \<and> job_state (outcome_job out) = Ready \<and> job_attempt_count (outcome_job out) = 0
    \<and> job_next_attempt (outcome_job out) = Some now
    \<and> filter (\<lambda>r. jr_trade_id r = trade \<and> job_is_active r) (jobs s') =
        [the (job_at (job_ident (outcome_job out)) s')]
    \<and> active_job_count s' \<le> queue_capacity policy
    \<and> (\<forall>k r. job_at k s = Some r \<longrightarrow> job_at k s' =
         Some (if jr_trade_id r = trade \<and> job_is_active r then supersede_set (int now) r else r))"
  using inv sch new
proof (rule schedule_createdE)
  fix generation digest ident row s1
  assume rd: "read_dirty trade s = Inr (generation, digest)"
    and ident: "ident = job_id sha256 trade generation digest"
    and none: "job_at ident s = None"
    and sup: "supersede_active (map_option job_of_row
       (find (\<lambda>r. jr_trade_id r = trade \<and> job_is_active r) (jobs s))) generation now s = Inr s1"
    and row: "row = new_job_row ident trade (int generation) digest policy (int now)"
    and cap: "active_job_count s1 < queue_capacity policy"
    and ins: "insert_job row s1 = Inr s'" and auth: "job_row_authentic sha256 row"
    and out: "outcome_job out = job_of_row row"
  note S = supersede_active_InrD[OF inv sup refl]
  note I = insert_job_InrD[OF S(1) ins auth]
  have "filter (\<lambda>r. jr_trade_id r = trade \<and> job_is_active r) (jobs s1) = []"
    using S(5) by (auto simp: filter_empty_conv)
  then have "filter (\<lambda>r. jr_trade_id r = trade \<and> job_is_active r) (jobs s') = [row]"
    using I(2) row by simp
  moreover have "job_at (job_ident (outcome_job out)) s' = Some row" using I(4) out row by simp
  moreover have "active_job_count s' \<le> queue_capacity policy"
    using cap I(2) row by (simp add: active_job_count_def)
  moreover have "job_at k s' = Some (if jr_trade_id r = trade \<and> job_is_active r
      then supersede_set (int now) r else r)" if "job_at k s = Some r" for k r
  proof -
    have "k \<noteq> jr_job_id row" using that none row by auto
    then show ?thesis using I(5) S(3)[OF that] by simp
  qed
  ultimately show ?thesis
    using rd ident out row by (simp add: job_of_row_def new_job_row_def job_state_of_def)
qed

lemma supersede_active_count:
  assumes "job_store_inv sha256 s" and "supersede_active active generation now s = Inr s'"
  shows "active_job_count s' \<le> active_job_count s"
proof (cases active)
  case None
  then show ?thesis using assms(2) by (simp add: supersede_active_def)
next
  case (Some job)
  with assms(2) obtain rev where upd: "update_jobs (supersede_where (job_ident job) rev)
      (supersede_set (int now)) s = Inr (s', 1)"
    by (auto simp: supersede_active_def split: if_splits)
  have "jobs s' = map (\<lambda>r. if supersede_where (job_ident job) rev r
      then supersede_set (int now) r else r) (jobs s)"
    using sql_update_SomeD(1)[OF update_jobs_InrD(1)[OF upd]] .
  moreover have "length (filter job_is_active (map (\<lambda>r. if p r then supersede_set (int now) r else r) rs))
      \<le> length (filter job_is_active rs)" for p rs
    by (induction rs) (auto simp: supersede_set_def job_is_active_def)
  ultimately show ?thesis by (simp add: active_job_count_def)
qed

lemma new_job_row_accepted:
  assumes "job_policy_ok policy" and "length ident = 32" and "length trade = 16"
    and "length digest = 32" and "0 < generation" and "generation \<le> i64_max" and "now \<le> i64_max"
  shows "job_row_check (new_job_row ident trade (int generation) digest policy (int now))"
    and "\<not> job_shape_violation (new_job_row ident trade (int generation) digest policy (int now))"
proof -
  let ?row = "new_job_row ident trade (int generation) digest policy (int now)"
  show shape: "\<not> job_shape_violation ?row"
    using assms(1,7)
    by (auto simp: new_job_row_def job_shape_violation_def sql_logic job_policy_ok_bounds
        job_is_terminal_def i64_max_def)
  have "check_holds (job_state_check ?row)"
    using shape by (rule job_shape_implies_state_check) simp
  then show "job_row_check ?row"
    using assms by (simp add: job_row_check_def new_job_row_def job_policy_ok_bounds i64_max_def
        job_is_active_def)
qed

lemma schedule_creates:
  assumes sha: "\<And>b. length (sha256 b) = 32"
    and inv: "job_store_inv sha256 s" and policy: "job_policy_ok policy" and now: "now \<le> i64_max"
    and rd: "read_dirty trade s = Inr (generation, digest)"
    and fresh: "job_at (job_id sha256 trade generation digest) s = None"
    and older: "\<And>r. r \<in> set (jobs s) \<Longrightarrow> jr_trade_id r = trade \<Longrightarrow> job_is_active r \<Longrightarrow>
      nat (jr_input_generation r) < generation \<and> jr_updated_at_unix_ms r \<le> int now
      \<and> jr_revision r < sql_i64_max"
    and room: "active_job_count s < queue_capacity policy"
  obtains s1 row where "supersede_active (map_option job_of_row
       (find (\<lambda>r. jr_trade_id r = trade \<and> job_is_active r) (jobs s))) generation now s = Inr s1"
    and "row = new_job_row (job_id sha256 trade generation digest) trade (int generation) digest
       policy (int now)"
    and "schedule sha256 trade policy now s =
       Inr (\<lparr>outcome_job = job_of_row row, outcome_created = True\<rparr>, s1\<lparr>jobs := jobs s1 @ [row]\<rparr>)"
proof -
  let ?find = "find (\<lambda>r. jr_trade_id r = trade \<and> job_is_active r) (jobs s)"
  define ident where "ident = job_id sha256 trade generation digest"
  note D = read_dirty_InrD[OF rd]
  obtain drow where drow: "drow \<in> set (dirty_generations s)" "dg_trade_id drow = trade"
    using D(4) by (auto dest: select_key_SomeD)
  obtain s1 where s1: "supersede_active (map_option job_of_row ?find) generation now s = Inr s1"
  proof (cases ?find)
    case None
    then show ?thesis using that by (simp add: supersede_active_def)
  next
    case (Some a)
    then have a: "a \<in> set (jobs s)" "jr_trade_id a = trade" "job_is_active a"
      by (auto simp: find_Some_iff)
    note ok = job_store_inv_rows[OF inv a(1)]
    have rev: "1 \<le> jr_revision a" "jr_revision a \<le> sql_i64_max"
      using ok by (simp_all add: job_row_ok_def job_row_check_def)
    have bounds: "jr_updated_at_unix_ms a \<le> int now" "int now \<le> sql_i64_max"
      "jr_revision a < sql_i64_max" "nat (jr_input_generation a) < generation"
      using older[OF a] now by (auto simp: i64_max_def)
    note acc = supersede_row_accepted[OF ok a(3) bounds(1-3)]
    have "update_jobs (supersede_where (jr_job_id a) (jr_revision a)) (supersede_set (int now)) s =
        Inr (s\<lparr>jobs := replace_row jr_job_id (supersede_set (int now) a) (jobs s)\<rparr>, 1)"
      using inv select_key_distinct[OF job_store_inv_distinct[OF inv] a(1)] _ _ acc(1,2)
      by (rule update_jobs_keyed) (use a acc(3) in \<open>auto simp: supersede_where_def\<close>)
    then show ?thesis
      using that Some bounds rev now by (simp add: supersede_active_def i64_value_def i64_of_u64_def
          nat_le_iff i64_max_def)
  qed
  note S = supersede_active_InrD[OF inv s1 refl]
  let ?row = "new_job_row ident trade (int generation) digest policy (int now)"
  have tl: "length trade = 16"
    using inv drow by (auto simp: job_store_inv_alt dirty_valid_def list_all_iff dirty_row_check_def)
  have "job_row_check ?row" "\<not> job_shape_violation ?row"
    using new_job_row_accepted[OF policy _ tl D(2,1,3) now] sha by (simp_all add: ident_def job_id_def)
  moreover have "jr_job_id ?row \<notin> jr_job_id ` set (jobs s1)"
    using S(4)[OF fresh] by (simp add: select_key_None_iff ident_def)
  moreover have "\<forall>r \<in> set (jobs s1). jr_trade_id r = trade \<longrightarrow> \<not> job_is_active r" using S(5) by blast
  moreover have "trade \<in> dg_trade_id ` set (dirty_generations s1)" using drow S(2) by auto
  ultimately have "jobs_valid (dirty_generations s1) (jobs s1 @ [?row])"
    using job_store_inv_valid[OF S(1)] by (auto simp: jobs_valid_def list_all_iff)
  then have ins: "insert_job ?row s1 = Inr (s1\<lparr>jobs := jobs s1 @ [?row]\<rparr>)"
    using \<open>\<not> job_shape_violation ?row\<close> by (simp add: insert_job_def sql_insert_def job_insert_guard_def)
  note I = insert_job_InrD[OF S(1) ins]
  have auth: "job_row_authentic sha256 ?row" by (simp add: job_row_authentic_def ident_def)
  have cap: "active_job_count s1 < queue_capacity policy"
    using supersede_active_count[OF inv s1] room by simp
  have "queue_capacity policy \<le> 65536" "lease_duration_ms policy \<le> i64_max"
    "lease_renewal_ms policy \<le> i64_max" "initial_backoff_ms policy \<le> i64_max"
    "maximum_backoff_ms policy \<le> i64_max"
    using policy by (auto simp: job_policy_ok_bounds i64_max_def)
  then have "insert_scheduled sha256 ident trade generation digest policy now s1 =
      Inr (\<lparr>outcome_job = job_of_row ?row, outcome_created = True\<rparr>, s1\<lparr>jobs := jobs s1 @ [?row]\<rparr>)"
    using cap now D ins I(4)[OF auth] read_job_inv[OF I(1)[OF auth]]
    by (simp add: insert_scheduled_def i64_value_def i64_of_u64_def)
  then have "schedule sha256 trade policy now s =
      Inr (\<lparr>outcome_job = job_of_row ?row, outcome_created = True\<rparr>, s1\<lparr>jobs := jobs s1 @ [?row]\<rparr>)"
    using rd fresh s1 read_job_inv[OF inv] read_active_job_inv[OF inv]
    by (simp add: schedule_def ident_def Let_def)
  with s1 show ?thesis by (rule that[OF _ refl, folded ident_def])
qed

text \<open>
  Scheduling makes progress: for a trade whose dirty generation has no job yet, with a valid
  policy, room in the queue and a clock that has not gone back behind the job being superseded, the
  new job is created.  SHA-256 is assumed to give 32 bytes.
\<close>

theorem schedule_new_generation:
  assumes "\<And>b. length (sha256 b) = 32"
    and "job_store_inv sha256 s" and "job_policy_ok policy" and "now \<le> i64_max"
    and "read_dirty trade s = Inr (generation, digest)"
    and "job_at (job_id sha256 trade generation digest) s = None"
    and "\<And>r. r \<in> set (jobs s) \<Longrightarrow> jr_trade_id r = trade \<Longrightarrow> job_is_active r \<Longrightarrow>
      nat (jr_input_generation r) < generation \<and> jr_updated_at_unix_ms r \<le> int now
      \<and> jr_revision r < sql_i64_max"
    and "active_job_count s < queue_capacity policy"
  shows "\<exists>out s'. schedule sha256 trade policy now s = Inr (out, s') \<and> outcome_created out"
  by (rule schedule_creates[OF assms]) auto

section \<open>Leases\<close>

text \<open>
  C1.  A lease is exclusive while it is in force.  After a claim, whatever the other workers commit
  before the lease expires (claims, schedulings, ingestion, and renewals, failures or completions
  under any other lease), the holder's exact lease still validates, unless a newer dirty generation has
  superseded the job; and none of those claims was given the same job.
\<close>

theorem live_lease_exclusive:
  assumes inv: "job_store_inv sha256 s" and owner: "lease_owner_ok owner"
    and claim: "claim_next sha256 owner now s = Inr (Some lease, s1)"
    and run: "job_run sha256 s1 evs s2"
    and foreign: "\<forall>ev \<in> set evs. foreign_event lease ev"
  shows "(validate_exact_lease sha256 lease s2 = Inr ()
      \<or> (\<exists>job. read_job sha256 (job_ident (lease_job lease)) s2 = Inr (Some job)
           \<and> job_state job = Superseded))
    \<and> (\<forall>ev \<in> set evs. \<not> claims_job (job_ident (lease_job lease)) ev)"
  using inv claim owner
proof (cases rule: claim_nextE)
  case (some s0 row row')
  let ?k = "job_ident (lease_job lease)"
  note inv1 = claim_next_inv[OF inv claim owner]
  note inv2 = job_run_inv[OF run inv1]
  have lease: "lease = \<lparr>lease_job = job_of_row row', lease_owner = owner,
      lease_expires = nat (claim_expiry now row)\<rparr>" using some(11) by simp
  have at1: "job_at ?k s1 = Some row'"
    using some select_key_SomeD[OF some(4)] by (auto simp: lease select_key_replace_row)
  note ok1 = job_at_ok[OF inv1 at1]
  have ok0: "job_row_ok sha256 row" using job_at_ok[OF exhaust_expired_InrD(1)[OF inv some(1)] some(4)] .
  have "0 \<le> claim_expiry now row"
    using ok0 by (simp add: claim_expiry_def job_row_ok_def job_row_check_def)
  moreover have "1 \<le> jr_revision row'" using ok1 by (simp add: job_row_ok_def job_row_check_def)
  ultimately have holds: "holds_lease lease row'"
    using some(5) by (simp add: holds_lease_def lease claim_set_def)
  obtain r2 where r2: "job_at ?k s2 = Some r2" "r2 = row' \<or> jr_state r2 = ''superseded''"
    using job_run_holds_lease[OF run inv1 at1 holds foreign] by blast
  have valid: "validate_exact_lease sha256 lease s2 = Inr ()" if "r2 = row'"
    using that r2(1) read_job_inv[OF inv2] some(5)
    by (simp add: validate_exact_lease_def lease claim_set_def job_state_of_def)
  have sup: "read_job sha256 ?k s2 = Inr (Some (job_of_row r2)) \<and> job_state (job_of_row r2) = Superseded"
    if "jr_state r2 = ''superseded''"
    using that r2(1) read_job_inv[OF inv2] by (simp add: job_state_of_def)
  have noclaim: "\<forall>ev \<in> set evs. \<not> claims_job ?k ev"
    using run inv1 at1 holds foreign
    by (rule job_run_lease_unclaimed)
  show ?thesis using r2(2) valid sup noclaim by blast
qed simp

text \<open>
  C3.  Every job is claimed a bounded number of times: along any run from a store in which it has
  not been claimed beyond its limit (in particular one in which it does not exist yet), the
  attempts counter counts the claims of the job exactly and never passes its maximum, at most 100.
\<close>

theorem job_claims_bounded:
  assumes inv: "job_store_inv sha256 s" and run: "job_run sha256 s evs s'"
    and start: "within_attempts k s"
  shows "attempts_of k s' = attempts_of k s + int (length (filter (claims_job k) evs))
    \<and> (\<forall>r. job_at k s' = Some r \<longrightarrow> attempts_of k s' \<le> jr_max_attempts r)
    \<and> attempts_of k s' \<le> 100"
proof -
  note A = job_run_attempts[OF run inv start]
  have "attempts_of k s' \<le> 100"
  proof (cases "job_at k s'")
    case (Some r)
    then have "job_row_ok sha256 r" using job_at_ok[OF job_run_inv[OF run inv]] by blast
    then show ?thesis using Some by (simp add: attempts_of_def job_row_ok_def job_row_check_def)
  qed (simp add: attempts_of_def)
  with A show ?thesis by (auto simp: attempts_of_def within_attempts_def)
qed

lemma claim_next_eligible:
  assumes inv: "job_store_inv sha256 s" and owner: "lease_owner_ok owner"
    and head: "revision_headroom s" and now: "now + 300000 \<le> i64_max"
    and eligible: "r \<in> set (jobs s)" "claimable (int now) r"
  obtains row e row' s1 where "row \<in> set (jobs s)" and "claimable (int now) row"
    and "\<And>x. x \<in> set (jobs s) \<Longrightarrow> claimable (int now) x \<Longrightarrow> claim_order row \<le> claim_order x"
    and "e = now + nat (jr_lease_duration_ms row)"
    and "row' = claim_set owner (int e) (int now) row"
    and "exhaust_expired (int now) s = Inr s1"
    and "claim_next sha256 owner now s =
       Inr (Some \<lparr>lease_job = job_of_row row', lease_owner = owner, lease_expires = e\<rparr>,
            s1\<lparr>jobs := replace_row jr_job_id row' (jobs s1)\<rparr>)"
    and "nat (jr_attempt_count row') = nat (jr_attempt_count row) + 1"
proof -
  have now': "int now \<le> sql_i64_max" using now by (simp add: i64_max_def)
  obtain s1 where ex: "exhaust_expired (int now) s = Inr s1"
    using exhaust_expired_succeeds[OF inv now' head] by blast
  note X = exhaust_expired_InrD[OF inv ex]
  have same: "x \<in> set (jobs s1) \<and> claimable (int now) x \<longleftrightarrow> x \<in> set (jobs s) \<and> claimable (int now) x" for x
    using claimable_survives_sweep[OF inv ex] .
  obtain row where row: "read_claimable (int now) s1 = Some row"
    using eligible same by (cases "read_claimable (int now) s1")
      (auto simp: read_claimable_def filter_empty_conv)
  note M = select_min_SomeD[OF row[unfolded read_claimable_def]]
  have row': "row \<in> set (jobs s)" "row \<in> set (jobs s1)" "claimable (int now) row"
    using M(1) same by auto
  have at1: "job_at (jr_job_id row) s1 = Some row"
    using select_key_distinct[OF job_store_inv_distinct[OF X(1)] row'(2)] .
  have ok: "job_row_ok sha256 row" using inv row'(1) by (rule job_store_inv_rows)
  then have dur: "1000 \<le> jr_lease_duration_ms row" "jr_lease_duration_ms row \<le> 300000"
    and rev: "1 \<le> jr_revision row" and att: "0 \<le> jr_attempt_count row"
    by (simp_all add: job_row_ok_def job_row_check_def)
  define e where "e = now + nat (jr_lease_duration_ms row)"
  have e: "now < e" "e \<le> i64_max" using dur now by (simp_all add: e_def)
  let ?new = "claim_set owner (int e) (int now) row"
  have "int now < int e" "int e \<le> sql_i64_max" using e by (simp_all add: i64_max_def)
  note acc = claim_row_accepted[OF ok row'(3) this]
  have head': "jr_revision row < sql_i64_max" using head row'(1) by (simp add: revision_headroom_def)
  let ?s2 = "s1\<lparr>jobs := replace_row jr_job_id ?new (jobs s1)\<rparr>"
  have upd: "update_jobs (claim_where (jr_job_id row) (jr_revision row) (int now))
      (claim_set owner (int e) (int now)) s1 = Inr (?s2, 1)"
    using X(1) at1
    by (rule update_jobs_keyed)
      (use acc head' owner row'(3) in \<open>auto simp: claim_where_def lease_owner_ok_def\<close>)
  have inv2: "job_store_inv sha256 ?s2"
    using X(1) upd by (rule update_jobs_inv)
      (use lease_owner_ok_nonzero[OF owner] in \<open>auto simp: claim_set_def\<close>)
  have at2: "job_at (jr_job_id row) ?s2 = Some ?new"
    using row'(2) by (auto simp: select_key_replace_row claim_set_def)
  let ?lease = "\<lparr>lease_job = job_of_row ?new, lease_owner = owner, lease_expires = e\<rparr>"
  have "read_leased sha256 (jr_job_id row) owner ?s2 = Inr ?lease"
    using read_leased_inv[OF inv2 at2, of owner] by (simp add: claim_set_def)
  then have "claim_next sha256 owner now s = Inr (Some ?lease, ?s2)"
    using ex row upd e now rev head'
    by (simp add: claim_next_def claim_candidate_def decode_job_row_ok[OF ok] row_policy_def
        i64_value_def i64_of_u64_def checked_add_within e_def[symmetric] nat_le_iff i64_max_def)
  moreover have "nat (jr_attempt_count ?new) = nat (jr_attempt_count row) + 1"
    using att by (simp add: claim_set_def nat_add_distrib)
  moreover have "claim_order row \<le> claim_order x" if "x \<in> set (jobs s)" "claimable (int now) x" for x
    using M(2)[of x] same[of x] that by simp
  ultimately show ?thesis using row' ex by (intro that[OF _ _ _ e_def refl ex]) auto
qed

text \<open>
  C4.  Claims make progress and are fair to the oldest job: when some job is eligible at this time,
  the claim returns a lease on an eligible job of least schedule key (due time, creation time,
  identity), for exactly the job's lease duration, and counts one more attempt.  The lease is persisted: the row of the
  job carries the owner, the expiry, the new attempt and the next revision, and every other row is as it was, save final
  leases that had expired, which are exhausted.
\<close>

theorem claim_next_progress:
  assumes "job_store_inv sha256 s" and "lease_owner_ok owner"
    and "revision_headroom s" and "now + 300000 \<le> i64_max"
    and "r \<in> set (jobs s)" and "claimable (int now) r"
  shows "\<exists>row lease s'. claim_next sha256 owner now s = Inr (Some lease, s')
    \<and> row \<in> set (jobs s) \<and> claimable (int now) row \<and> job_ident (lease_job lease) = jr_job_id row
    \<and> (\<forall>x \<in> set (jobs s). claimable (int now) x \<longrightarrow> claim_order row \<le> claim_order x)
    \<and> job_attempt_count (lease_job lease) = nat (jr_attempt_count row) + 1
    \<and> lease_expires lease = now + nat (jr_lease_duration_ms row) \<and> lease_owner lease = owner
    \<and> job_revision (lease_job lease) = nat (jr_revision row + 1)
    \<and> job_at (jr_job_id row) s' = Some (row\<lparr>jr_state := ''leased'', jr_revision := jr_revision row + 1,
        jr_attempt_count := jr_attempt_count row + 1, jr_next_attempt_unix_ms := None, jr_lease_owner := Some owner,
        jr_lease_expires_unix_ms := Some (int (lease_expires lease)), jr_updated_at_unix_ms := int now\<rparr>)
    \<and> (\<forall>k. k \<noteq> jr_job_id row \<longrightarrow> job_at k s' = job_at k s
        \<or> (\<exists>x. job_at k s = Some x \<and> jr_state x = ''leased'' \<and> sql_le (jr_lease_expires_unix_ms x) (int now)
            \<and> jr_max_attempts x \<le> jr_attempt_count x
            \<and> job_at k s' = Some (x\<lparr>jr_state := ''exhausted'', jr_revision := jr_revision x + 1,
                jr_failure_count := jr_attempt_count x, jr_lease_owner := None, jr_lease_expires_unix_ms := None,
                jr_updated_at_unix_ms := int now\<rparr>)))
    \<and> dirty_generations s' = dirty_generations s"
proof (rule claim_next_eligible[OF assms])
  fix row e row' s1
  assume row: "row \<in> set (jobs s)" "claimable (int now) row"
    and least: "\<And>x. x \<in> set (jobs s) \<Longrightarrow> claimable (int now) x \<Longrightarrow> claim_order row \<le> claim_order x"
    and e: "e = now + nat (jr_lease_duration_ms row)" and row': "row' = claim_set owner (int e) (int now) row"
    and ex: "exhaust_expired (int now) s = Inr s1"
    and claim: "claim_next sha256 owner now s = Inr (Some \<lparr>lease_job = job_of_row row', lease_owner = owner, lease_expires = e\<rparr>,
       s1\<lparr>jobs := replace_row jr_job_id row' (jobs s1)\<rparr>)"
    and count: "nat (jr_attempt_count row') = nat (jr_attempt_count row) + 1"
  define s' where "s' = s1\<lparr>jobs := replace_row jr_job_id row' (jobs s1)\<rparr>"
  note X = exhaust_expired_InrD[OF assms(1) ex]
  have id: "jr_job_id row' = jr_job_id row" by (simp add: row' claim_set_def)
  have "row \<in> set (jobs s1)" using claimable_survives_sweep[OF assms(1) ex] row by blast
  then have at: "job_at (jr_job_id row) s' = Some row'" by (auto simp: s'_def select_key_replace_row id)
  have others: "job_at k s' = job_at k s1" if "k \<noteq> jr_job_id row" for k
    using that by (simp add: s'_def select_key_replace_row id)
  have sweep: "job_at k s' = job_at k s \<or> (\<exists>x. job_at k s = Some x \<and> expired_final_where (int now) x
      \<and> job_at k s' = Some (exhaust_expired_set (int now) x))" if "k \<noteq> jr_job_id row" for k
    using X(3)[of k] others[OF that] expired_final_ids_row[OF assms(1)] by (cases "job_at k s") auto
  let ?lease = "\<lparr>lease_job = job_of_row row', lease_owner = owner, lease_expires = e\<rparr>"
  have "dirty_generations s' = dirty_generations s" using X(2) by (simp add: s'_def)
  moreover have "claim_next sha256 owner now s = Inr (Some ?lease, s')" using claim by (simp add: s'_def)
  ultimately show ?thesis
    using row least at sweep count id
    unfolding exhaust_expired_set_def expired_final_where_def
    by (intro exI[of _ row] exI[of _ ?lease] exI[of _ s'] conjI) (simp_all add: e[symmetric] row' claim_set_def, blast)
qed

text \<open>The row of a lease that has lost its revision matches no compare-and-swap of that lease.\<close>

lemma stale_lease_no_row:
  assumes inv: "job_store_inv sha256 s" and at: "job_at (job_ident (lease_job l)) s = Some r"
    and rev: "int (job_revision (lease_job l)) \<noteq> jr_revision r"
    and p: "\<And>x. p x \<Longrightarrow> jr_job_id x = job_ident (lease_job l)
      \<and> jr_revision x = int (job_revision (lease_job l))"
  shows "update_jobs p f s = Inr (s, 0)"
proof -
  have "filter p (jobs s) = []"
    using job.cas_stale[OF job_store_inv_valid[OF inv] at rev[symmetric]] p by blast
  then show ?thesis using update_jobs_no_row[OF inv] by (simp add: filter_empty_conv)
qed

text \<open>
  C2.  A lost lease stays lost.  Once any committed transaction of a run has changed the job's row,
  a lease taken on the earlier row can neither be renewed nor be used to record a failure or to
  complete the job: all three answer that the lease is lost, and the lease no longer validates.
\<close>

theorem stale_lease_rejected:
  assumes inv: "job_store_inv sha256 s" and run: "job_run sha256 s evs s'"
    and held: "job_at (job_ident (lease_job lease)) s = Some r" "holds_lease lease r"
    and changed: "job_at (job_ident (lease_job lease)) s' \<noteq> Some r"
    and rng: "lease_expires lease \<le> i64_max" "job_revision (lease_job lease) \<le> i64_max"
      "now + delay \<le> i64_max" "now + lease_duration_ms (job_policy (lease_job lease)) \<le> i64_max"
    and later: "lease_expires lease < now + lease_duration_ms (job_policy (lease_job lease))"
  shows "renew sha256 lease now s' = Inl OpLeaseLost
    \<and> record_failure sha256 lease now delay s' = Inl OpLeaseLost
    \<and> complete_job (job_ident (lease_job lease)) lease now s' = Inl OpLeaseLost
    \<and> (lease_job lease = job_of_row r \<longrightarrow> validate_exact_lease sha256 lease s' = Inl ValidationLeaseLost)"
proof -
  let ?k = "job_ident (lease_job lease)"
  note inv' = job_run_inv[OF run inv]
  obtain r' where r': "job_at ?k s' = Some r'" "jr_revision r < jr_revision r'"
    using job_run_row[OF run inv held(1)] changed by auto
  have rev: "int (job_revision (lease_job lease)) \<noteq> jr_revision r'"
    using held(2) r'(2) by (simp add: holds_lease_def)
  note none = stale_lease_no_row[OF inv' r'(1) rev]
  have "update_jobs (renew_where ?k (int (job_revision (lease_job lease))) (lease_owner lease)
      (int (lease_expires lease)) (int now)) f s' = Inr (s', 0)" for f
    by (rule none) (simp add: renew_where_def)
  then have renew: "renew sha256 lease now s' = Inl OpLeaseLost"
    using rng later checked_add_within[OF rng(4)]
    by (simp add: renew_def Let_def i64_value_def i64_of_u64_def)
  have "update_jobs (\<lambda>x. held_where ?k (int (job_revision (lease_job lease))) (lease_owner lease)
      (int (lease_expires lease)) (int now) x \<and> q x) f s' = Inr (s', 0)" for f q
    by (rule none) (simp add: held_where_def)
  then have fail: "record_failure sha256 lease now delay s' = Inl OpLeaseLost"
    using rng checked_add_within[OF rng(3)]
    by (simp add: record_failure_def Let_def i64_value_def i64_of_u64_def)
  have "update_jobs (complete_where ?k (int (job_revision (lease_job lease))) (lease_owner lease)
      (int (lease_expires lease)) (int now)) f s' = Inr (s', 0)" for f
    by (rule none) (simp add: complete_where_def)
  then have complete: "complete_job (job_ident (lease_job lease)) lease now s' = Inl OpLeaseLost"
    using rng by (simp add: complete_job_def Let_def i64_value_def i64_of_u64_def)
  have "job_of_row r' \<noteq> job_of_row r"
  proof
    assume "job_of_row r' = job_of_row r"
    then have "nat (jr_revision r') = nat (jr_revision r)" by (metis job_of_row_simps(6))
    moreover have "1 \<le> jr_revision r'"
      using job_at_ok[OF inv' r'(1)] by (simp add: job_row_ok_def job_row_check_def)
    ultimately show False using r'(2) by linarith
  qed
  then have "validate_exact_lease sha256 lease s' = Inl ValidationLeaseLost"
    if "lease_job lease = job_of_row r"
    using that r'(1) read_job_inv[OF inv', of "jr_job_id r"] held(2)
    by (simp add: validate_exact_lease_def holds_lease_def)
  with renew fail complete show ?thesis by blast
qed

text \<open>
  The holder of a current lease can always renew it: in the renewal window, with a clock that
  has not gone back, renewal succeeds, moves the expiry to one full lease duration from now, keeps
  the owner and the attempt count, and the renewed lease validates.
\<close>

theorem renew_current_lease:
  assumes inv: "job_store_inv sha256 s" and cur: "validate_exact_lease sha256 lease s = Inr ()"
    and owner: "job_lease_owner (lease_job lease) = Some (lease_owner lease)"
    and time: "job_updated_at (lease_job lease) \<le> now" "now < lease_expires lease"
      "lease_expires lease < now + lease_duration_ms (job_policy (lease_job lease))"
    and rng: "now + 300000 \<le> i64_max" "job_revision (lease_job lease) < i64_max"
  shows "\<exists>lease' s'. renew sha256 lease now s = Inr (lease', s')
    \<and> lease_expires lease' = now + lease_duration_ms (job_policy (lease_job lease))
    \<and> lease_owner lease' = lease_owner lease
    \<and> job_attempt_count (lease_job lease') = job_attempt_count (lease_job lease)
    \<and> validate_exact_lease sha256 lease' s' = Inr ()"
proof -
  let ?k = "job_ident (lease_job lease)"
  from cur obtain r where at: "job_at ?k s = Some r" and job: "lease_job lease = job_of_row r"
    and st: "job_state_of (jr_state r) = Leased"
    and exp: "map_option nat (jr_lease_expires_unix_ms r) = Some (lease_expires lease)"
  proof -
    have j: "job_state (lease_job lease) = Leased"
      "job_lease_expires (lease_job lease) = Some (lease_expires lease)"
      and "read_job sha256 ?k s = Inr (Some (lease_job lease))"
      using cur by (auto simp: validate_exact_lease_def split: if_splits sum.splits)
    then have "\<exists>r. job_at ?k s = Some r \<and> job_of_row r = lease_job lease"
      by (simp add: read_job_inv[OF inv])
    then obtain r where "job_at ?k s = Some r" "job_of_row r = lease_job lease" by blast
    then show ?thesis using that[of r] j by (metis job_of_row_simps(5,11))
  qed
  note ok = job_at_ok[OF inv at]
  have leased: "jr_state r = ''leased''"
    using st ok by (auto simp: job_state_of_def split: if_splits)
  have B: "1 \<le> jr_revision r" "1000 \<le> jr_lease_duration_ms r" "jr_lease_duration_ms r \<le> 300000"
    "0 \<le> jr_created_at_unix_ms r" "jr_created_at_unix_ms r \<le> jr_updated_at_unix_ms r"
    using ok by (auto simp: job_row_ok_def job_row_check_def)
  obtain v where v: "jr_lease_expires_unix_ms r = Some v" "v = int (lease_expires lease)"
    using exp job_row_ok_nullable(2)[OF ok] by (cases "jr_lease_expires_unix_ms r") fastforce+
  define e where "e = now + lease_duration_ms (job_policy (lease_job lease))"
  have dur: "lease_duration_ms (job_policy (lease_job lease)) = nat (jr_lease_duration_ms r)"
    by (simp add: job row_policy_def)
  have e: "now < e" "e \<le> i64_max" using B dur rng by (simp_all add: e_def)
  have T: "jr_updated_at_unix_ms r \<le> int now"
    using time(1) B by (simp add: job job_of_row_def)
  have rev: "jr_revision r < sql_i64_max" using rng(2) B by (simp add: job i64_max_def)
  have acc: "job_guard r (renew_set (int e) (int now) r)" "job_row_check (renew_set (int e) (int now) r)"
    by (rule renew_row_accepted[OF ok leased T]; use e rev in \<open>simp add: i64_max_def\<close>)+
  have k: "jr_job_id r = ?k" by (simp add: job)
  let ?r' = "renew_set (int e) (int now) r"
  let ?s' = "s\<lparr>jobs := replace_row jr_job_id ?r' (jobs s)\<rparr>"
  have "renew_where ?k (jr_revision r) (lease_owner lease) (int (lease_expires lease)) (int now) r"
    using k leased owner v T time(2) by (simp add: renew_where_def job)
  then have upd: "update_jobs (renew_where ?k (jr_revision r) (lease_owner lease)
      (int (lease_expires lease)) (int now)) (renew_set (int e) (int now)) s = Inr (?s', 1)"
    using acc leased time(2)
    by (intro update_jobs_keyed[OF inv at]) (simp_all add: renew_where_def job_is_active_def)
  have inv': "job_store_inv sha256 ?s'"
    using inv upd by (rule update_jobs_inv)
      (use job_store_inv_rows[OF inv] in \<open>auto simp: renew_set_def job_row_ok_def job_row_authentic_def\<close>)
  have at': "job_at ?k ?s' = Some ?r'"
    using select_key_SomeD[OF at] by (auto simp: select_key_replace_row renew_set_def image_iff)
  let ?lease = "\<lparr>lease_job = job_of_row ?r', lease_owner = lease_owner lease, lease_expires = e\<rparr>"
  have rl: "read_leased sha256 ?k (lease_owner lease) ?s' = Inr ?lease"
    using read_leased_inv[OF inv' at', of "lease_owner lease"] leased by (simp add: renew_set_def)
  have add: "checked_add now (lease_duration_ms (row_policy r)) = Some e"
    using checked_add_within[of now "lease_duration_ms (job_policy (lease_job lease))"] e
    by (simp add: e_def job)
  have "lease_expires lease < e" using time(3) by (simp add: e_def)
  then have "renew sha256 lease now s = Inr (?lease, ?s')"
    using upd rl time(1,2) e rng B
    by (simp add: renew_def Let_def add i64_value_def i64_of_u64_def job)
  moreover have "validate_exact_lease sha256 ?lease ?s' = Inr ()"
    using read_job_inv[OF inv'] at' leased k
    by (simp add: validate_exact_lease_def renew_set_def job_state_of_def)
  ultimately show ?thesis by (auto simp: e_def job renew_set_def)
qed

text \<open>
  Recording a failure is exact on both branches: a failure before the last attempt makes the
  job ready again, due after the given delay; a failure of the last attempt exhausts it; either way
  the lease is released, the failure is counted and no other job changes.
\<close>

theorem record_failure_effect:
  assumes inv: "job_store_inv sha256 s"
    and rec: "record_failure sha256 lease now delay s = Inr (job, s')"
  shows "job_lease_owner job = None \<and> job_lease_expires job = None
    \<and> job_ident job = job_ident (lease_job lease)
    \<and> (\<exists>r. job_at (job_ident job) s = Some r
         \<and> job_failure_count job = nat (jr_failure_count r) + 1
         \<and> job_attempt_count job = nat (jr_attempt_count r))
    \<and> (if max_attempts (job_policy (lease_job lease)) \<le> job_attempt_count (lease_job lease)
       then job_state job = Exhausted \<and> job_next_attempt job = None
       else job_state job = Ready \<and> job_next_attempt job = Some (now + delay))
    \<and> read_job sha256 (job_ident job) s' = Inr (Some job)
    \<and> (\<forall>k. k \<noteq> job_ident job \<longrightarrow> job_at k s' = job_at k s)"
  using inv rec
proof (rule record_failureE)
  fix r r'
  assume at: "job_at (job_ident (lease_job lease)) s = Some r"
    and r': "r' = (if jr_max_attempts r \<le> jr_attempt_count r then exhaust_set (int now) r
       else retry_set (int (now + delay)) (int now) r)"
    and inv': "job_store_inv sha256 s'"
    and rows: "jobs s' = replace_row jr_job_id r' (jobs s)"
    and k: "jr_job_id r' = job_ident (lease_job lease)"
    and at': "job_at (job_ident (lease_job lease)) s' = Some r'"
    and job: "job = job_of_row r'"
    and final: "jr_max_attempts r \<le> jr_attempt_count r
       \<longleftrightarrow> max_attempts (job_policy (lease_job lease)) \<le> job_attempt_count (lease_job lease)"
  have "0 \<le> jr_failure_count r"
    using job_at_ok[OF inv at] by (simp add: job_row_ok_def job_row_check_def)
  then have count: "nat (jr_failure_count r') = nat (jr_failure_count r) + 1"
    "nat (jr_attempt_count r') = nat (jr_attempt_count r)"
    by (simp_all add: r' exhaust_set_def retry_set_def nat_add_distrib)
  have "jr_lease_owner r' = None" "jr_lease_expires_unix_ms r' = None"
    by (simp_all add: r' exhaust_set_def retry_set_def)
  moreover have "if jr_max_attempts r \<le> jr_attempt_count r
      then job_state_of (jr_state r') = Exhausted \<and> jr_next_attempt_unix_ms r' = None
      else job_state_of (jr_state r') = Ready \<and> jr_next_attempt_unix_ms r' = Some (int (now + delay))"
    by (simp add: r' exhaust_set_def retry_set_def job_state_of_def)
  moreover have "job_at k s' = job_at k s" if "k \<noteq> job_ident job" for k
    using that k job by (simp add: rows select_key_replace_row)
  ultimately show ?thesis
    using at at' k job final count read_job_inv[OF inv']
    by (auto split: if_splits)
qed

section \<open>Back-off\<close>

text \<open>
  The retry bound is exponential back-off with a ceiling: for every policy the code admits and
  every failure count a row can hold, the saturating shift and multiplication compute exactly the
  minimum of the initial delay doubled once per failure and the maximum delay.
\<close>

theorem retry_delay_upper_bound_exact:
  assumes "job_policy_ok policy" and "failures \<le> 100"
  shows "retry_delay_upper_bound policy failures =
    min (initial_backoff_ms policy * 2 ^ failures) (maximum_backoff_ms policy)"
proof -
  have B: "1 \<le> initial_backoff_ms policy" "initial_backoff_ms policy \<le> 60000"
    "maximum_backoff_ms policy \<le> 3600000"
    using assms(1) by (simp_all add: job_policy_ok_bounds)
  have M: "maximum_backoff_ms policy \<le> u64_max" using B by (simp add: u64_max_def)
  have bound: "retry_delay_upper_bound policy failures =
      min (initial_backoff_ms policy * 2 ^ min failures 63) (maximum_backoff_ms policy)"
  proof -
    have "min failures 63 < 64" by simp
    then show ?thesis
      using M by (simp add: retry_delay_upper_bound_def Let_def checked_shl_one_def
          saturating_mul_def min.assoc)
  qed
  show ?thesis
  proof (cases "failures \<le> 63")
    case True
    then show ?thesis using bound by (simp add: min_def)
  next
    case False
    have "(2::nat) ^ 63 \<le> 2 ^ failures" using False by (intro power_increasing) auto
    then have "2 ^ 63 \<le> initial_backoff_ms policy * 2 ^ failures"
      using B(1) by (metis mult_le_mono nat_mult_1 one_le_numeral)
    moreover have "2 ^ 63 \<le> initial_backoff_ms policy * 2 ^ 63" using B(1) by simp
    ultimately show ?thesis using bound False B(3) by (simp add: min_def)
  qed
qed

section \<open>Atomicity of the repository\<close>

text \<open>
  An answered operation is settled when the store still satisfies the invariant and every error,
  an unknown commit outcome apart, has left the store as it was.
\<close>

definition settled ::
  "(bytes \<Rightarrow> bytes) \<Rightarrow> 'a job_store_scheme \<Rightarrow> (job_error_kind, 'b) result \<times> 'a job_store_scheme \<Rightarrow> bool"
  where
  "settled sha256 s answer \<longleftrightarrow>
     job_store_inv sha256 (snd answer)
   \<and> (\<forall>e. fst answer = Inl e \<and> e \<noteq> CommitUnknown \<longrightarrow> snd answer = s)"

lemma settled_unchanged: "job_store_inv sha256 s \<Longrightarrow> settled sha256 s (r, s)"
  by (simp add: settled_def)

lemma run_job_txn_settled:
  assumes txn: "atomic_txn txn" and inv: "job_store_inv sha256 s"
    and body: "\<And>a s'. body s = Inr (a, s') \<Longrightarrow> job_store_inv sha256 s'"
  shows "settled sha256 s (run_job_txn txn body s)"
proof -
  obtain r s' where r: "txn body s = (r, s')" by (cases "txn body s")
  from atomic_txn_state[OF txn r] inv body have "job_store_inv sha256 s'" by auto
  moreover have "s' = s" if "r = Inl err" "map_transaction_error err \<noteq> CommitUnknown" for err
    using atomic_txn_rollback[OF txn r[unfolded that(1)]] that(2)
    by (cases "err = CommitOutcomeUnknown") auto
  ultimately show ?thesis
    using r by (auto simp: settled_def run_job_txn_def)
qed

text \<open>
  C5.  The repository's public operations are atomic and keep the store sound.  Over any
  all-or-nothing transaction host, each of the four operations is settled, whatever lease, time or
  policy it is given: its errors change nothing, and in every case, an unknown commit outcome
  included, the store afterwards satisfies the invariant again.  On a read-only host every
  operation is refused.
\<close>

theorem repository_atomic:
  assumes "atomic_txn txn1" and "atomic_txn txn2" and "atomic_txn txn3" and "atomic_txn txn4"
    and inv: "job_store_inv sha256 s" and owner: "lease_owner_ok owner"
  shows "settled sha256 s (repository_schedule_trade txn1 sha256 mode trade policy now s)
    \<and> settled sha256 s (repository_claim_next txn2 sha256 mode owner now s)
    \<and> settled sha256 s (repository_renew txn3 sha256 mode lease now s)
    \<and> settled sha256 s (repository_record_failure txn4 sha256 mode lease now delay s)
    \<and> repository_schedule_trade txn1 sha256 ReadOnlyInspection trade policy now s = (Inl InvalidMode, s)
    \<and> repository_claim_next txn2 sha256 ReadOnlyInspection owner now s = (Inl InvalidMode, s)
    \<and> repository_renew txn3 sha256 ReadOnlyInspection lease now s = (Inl InvalidMode, s)
    \<and> repository_record_failure txn4 sha256 ReadOnlyInspection lease now delay s = (Inl InvalidMode, s)"
proof -
  have sch: "settled sha256 s (run_job_txn txn1 (schedule sha256 trade policy now) s)"
    by (rule run_job_txn_settled[OF assms(1) inv]) (auto intro: schedule_inv[OF inv])
  have cl: "settled sha256 s (run_job_txn txn2 (claim_next sha256 owner now) s)"
    by (rule run_job_txn_settled[OF assms(2) inv]) (auto intro: claim_next_inv[OF inv _ owner])
  have re: "settled sha256 s (run_job_txn txn3 (renew sha256 lease now) s)"
    by (rule run_job_txn_settled[OF assms(3) inv]) (auto elim: renewE[OF inv])
  have rf: "settled sha256 s (run_job_txn txn4 (record_failure sha256 lease now delay) s)"
    by (rule run_job_txn_settled[OF assms(4) inv]) (auto elim: record_failureE[OF inv])
  show ?thesis
    using sch cl re rf
    by (cases mode) (simp_all add: settled_unchanged[OF inv] repository_schedule_trade_def repository_claim_next_def
        repository_renew_def repository_record_failure_def require_writable_def)
qed

text \<open>
  The shape triggers of schema version 11 are what makes stored jobs readable.  A row that
  passes the table's constraints and the triggers, with the identity the code derives, always
  decodes; the table's own state constraint, read with SQL's three truth values, also lets in a
  ready row without a next-attempt time, which the code cannot decode.
\<close>

theorem job_rows_decode:
  assumes "job_row_check r" and "\<not> job_shape_violation r" and "job_row_authentic sha256 r"
  shows "(\<exists>job. decode_job sha256 r = Inr job \<and> job_ident job = jr_job_id r
      \<and> job_state_code (job_state job) = jr_state r)
    \<and> (jr_state r = ''ready'' \<longrightarrow>
         job_row_check (r\<lparr>jr_next_attempt_unix_ms := None\<rparr>)
       \<and> decode_job sha256 (r\<lparr>jr_next_attempt_unix_ms := None\<rparr>) = Inl OpStorage)"
proof -
  have ok: "job_row_ok sha256 r" using assms by (simp add: job_row_ok_def)
  note dec = decode_job_row_ok[OF ok]
  have "job_state_code (job_state (job_of_row r)) = jr_state r"
    using assms(1) by (auto simp: job_row_check_def job_state_names job_state_of_def)
  moreover have "job_row_check (r\<lparr>jr_next_attempt_unix_ms := None\<rparr>)" if st: "jr_state r = ''ready''"
    using assms(1) st job_shape_ready[OF assms(2) st]
    by (simp add: job_row_check_def job_state_check_def job_state_names sql_logic)
  moreover have "decode_job sha256 (r\<lparr>jr_next_attempt_unix_ms := None\<rparr>) = Inl OpStorage"
    if st: "jr_state r = ''ready''"
  proof -
    obtain v where v: "jr_next_attempt_unix_ms r = Some v" using job_shape_ready(2)[OF assms(2) st] by blast
    have "optional_millis None = Inr None" by (simp add: optional_millis_def)
    then show ?thesis
      using dec st by (auto simp: decode_job_def valid_state_fields_def bounded_text_def
          decode_job_state_def split: if_splits)
  qed
  ultimately show ?thesis using dec by auto
qed

end
