(* ===== verification/Reconciliation_Job_Witness.thy ===== *)
theory Reconciliation_Job_Witness
  imports Reconciliation_Job_Props
begin

text \<open>
  Concrete stores at which the hypotheses of the job properties hold: a trade at dirty generation 3
  with no job yet, the store after its job was scheduled at 1000 ms, and the store after a worker
  claimed it at 2000 ms.  The hash is a fixed 32-byte string, which is enough for one job.
\<close>

definition wit_ident :: bytes where "wit_ident = replicate 32 1"
definition wit_trade :: bytes where "wit_trade = replicate 16 7"
definition wit_digest :: bytes where "wit_digest = replicate 32 9"
definition wit_owner :: bytes where "wit_owner = replicate 16 5"
definition wit_hash :: "bytes \<Rightarrow> bytes" where "wit_hash b = wit_ident"

definition wit_policy :: job_policy where
  "wit_policy = \<lparr>queue_capacity = 8, lease_duration_ms = 30000, lease_renewal_ms = 10000,
     max_attempts = 2, initial_backoff_ms = 250, maximum_backoff_ms = 30000\<rparr>"

definition wit_dirty :: "dirty_row list" where
  "wit_dirty = [\<lparr>dg_trade_id = wit_trade, dg_generation = 3,
     dg_evidence_policy_sha256 = wit_digest, dg_updated_at_unix_s = 10\<rparr>]"

definition wit_empty :: job_store where
  "wit_empty = \<lparr>dirty_generations = wit_dirty, jobs = []\<rparr>"

definition wit_row :: job_row where
  "wit_row = new_job_row wit_ident wit_trade 3 wit_digest wit_policy 1000"

definition wit_scheduled :: job_store where
  "wit_scheduled = \<lparr>dirty_generations = wit_dirty, jobs = [wit_row]\<rparr>"

definition wit_leased_row :: job_row where
  "wit_leased_row = claim_set wit_owner 32000 2000 wit_row"

definition wit_claimed :: job_store where
  "wit_claimed = \<lparr>dirty_generations = wit_dirty, jobs = [wit_leased_row]\<rparr>"

definition wit_lease :: job_lease where
  "wit_lease = \<lparr>lease_job = job_of_row wit_leased_row, lease_owner = wit_owner, lease_expires = 32000\<rparr>"

lemma wit_lengths [simp]:
  "length wit_ident = 32" "length wit_trade = 16" "length wit_digest = 32" "length wit_owner = 16"
  by (simp_all add: wit_ident_def wit_trade_def wit_digest_def wit_owner_def)

lemma wit_job_id [simp]: "job_id wit_hash t g d = wit_ident"
  by (simp add: job_id_def wit_hash_def)

lemma wit_policy_ok: "job_policy_ok wit_policy"
  by (simp add: job_policy_ok_bounds wit_policy_def)

lemma wit_owner_ok: "lease_owner_ok wit_owner"
  by (simp add: lease_owner_ok_def lease_owner_from_bytes_def wit_owner_def list_all_iff set_replicate_conv_if)

lemma wit_empty_inv: "job_store_inv wit_hash wit_empty"
  by (simp add: job_store_inv_def wit_empty_def wit_dirty_def dirty_valid_def dirty_row_check_def
      jobs_governed_def jobs_valid_def)

lemma wit_read_dirty: "read_dirty wit_trade wit_empty = Inr (3, wit_digest)"
  by (simp add: read_dirty_def select_key_def wit_empty_def wit_dirty_def positive_u64_ok)

lemma wit_schedule:
  "schedule wit_hash wit_trade wit_policy 1000 wit_empty =
     Inr (\<lparr>outcome_job = job_of_row wit_row, outcome_created = True\<rparr>, wit_scheduled)"
proof -
  have none: "job_at (job_id wit_hash wit_trade 3 wit_digest) wit_empty = None"
    by (simp add: wit_empty_def select_key_def)
  have sha: "length (wit_hash b) = 32" for b by (simp add: wit_hash_def)
  have now: "1000 \<le> i64_max" by (simp add: i64_max_def)
  have room: "active_job_count wit_empty < queue_capacity wit_policy"
    by (simp add: active_job_count_def wit_empty_def wit_policy_def)
  have older: "nat (jr_input_generation r) < 3 \<and> jr_updated_at_unix_ms r \<le> int 1000
      \<and> jr_revision r < sql_i64_max" if "r \<in> set (jobs wit_empty)" for r
    using that by (simp add: wit_empty_def)
  obtain s1 row where s1: "supersede_active (map_option job_of_row
       (find (\<lambda>r. jr_trade_id r = wit_trade \<and> job_is_active r) (jobs wit_empty))) 3 1000 wit_empty = Inr s1"
    and row: "row = new_job_row (job_id wit_hash wit_trade 3 wit_digest) wit_trade (int 3) wit_digest
       wit_policy (int 1000)"
    and sch: "schedule wit_hash wit_trade wit_policy 1000 wit_empty =
       Inr (\<lparr>outcome_job = job_of_row row, outcome_created = True\<rparr>, s1\<lparr>jobs := jobs s1 @ [row]\<rparr>)"
    by (rule schedule_creates[OF sha wit_empty_inv wit_policy_ok now wit_read_dirty none older room])
  have "s1 = wit_empty" using s1 by (simp add: supersede_active_def wit_empty_def)
  with sch row show ?thesis by (simp add: wit_row_def wit_scheduled_def wit_empty_def)
qed

lemma wit_scheduled_inv: "job_store_inv wit_hash wit_scheduled"
  using schedule_inv[OF wit_empty_inv wit_schedule] .

lemma wit_claim:
  "claim_next wit_hash wit_owner 2000 wit_scheduled = Inr (Some wit_lease, wit_claimed)"
proof -
  have c: "wit_row \<in> set (jobs wit_scheduled)" "claimable (int 2000) wit_row"
    by (simp_all add: wit_scheduled_def wit_row_def new_job_row_def claimable_def wit_policy_def)
  have h: "revision_headroom wit_scheduled"
    by (simp add: revision_headroom_def wit_scheduled_def wit_row_def new_job_row_def)
  show ?thesis
  proof (rule claim_next_eligible[OF wit_scheduled_inv wit_owner_ok h _ c])
    show "2000 + 300000 \<le> i64_max" by (simp add: i64_max_def)
    fix row e row' s1
    assume r: "row \<in> set (jobs wit_scheduled)" "e = 2000 + nat (jr_lease_duration_ms row)"
      "row' = claim_set wit_owner (int e) (int 2000) row"
      and ex: "exhaust_expired (int 2000) wit_scheduled = Inr s1"
      and cl: "claim_next wit_hash wit_owner 2000 wit_scheduled =
        Inr (Some \<lparr>lease_job = job_of_row row', lease_owner = wit_owner, lease_expires = e\<rparr>,
          s1\<lparr>jobs := replace_row jr_job_id row' (jobs s1)\<rparr>)"
    have "row = wit_row" using r(1) by (simp add: wit_scheduled_def)
    moreover have "e = 32000" using r(2) \<open>row = wit_row\<close>
      by (simp add: wit_row_def new_job_row_def wit_policy_def)
    moreover have "s1 = wit_scheduled"
      using ex update_jobs_no_row[OF wit_scheduled_inv, of "\<lambda>r. False"]
      by (simp add: exhaust_expired_def expired_final_ids_def wit_scheduled_def expired_final_where_def
          wit_row_def new_job_row_def)
    ultimately show ?thesis
      using cl r(3)
      by (simp add: wit_lease_def wit_claimed_def wit_leased_row_def wit_scheduled_def replace_row_def
          claim_set_def)
  qed
qed

lemma wit_claimed_inv: "job_store_inv wit_hash wit_claimed"
  using claim_next_inv[OF wit_scheduled_inv wit_claim wit_owner_ok] .

lemma wit_claimed_at: "job_at wit_ident wit_claimed = Some wit_leased_row"
  by (simp add: wit_claimed_def select_key_def wit_leased_row_def claim_set_def wit_row_def)

lemma wit_holds: "holds_lease wit_lease wit_leased_row"
  by (simp add: holds_lease_def wit_lease_def wit_leased_row_def claim_set_def wit_row_def new_job_row_def)

lemma wit_validates: "validate_exact_lease wit_hash wit_lease wit_claimed = Inr ()"
  using wit_claimed_at
  by (simp add: validate_exact_lease_def read_job_inv[OF wit_claimed_inv] wit_lease_def
      wit_leased_row_def claim_set_def wit_row_def job_state_of_def)

lemma wit_leased_fields:
  "jr_state wit_leased_row = ''leased''" "jr_attempt_count wit_leased_row = 1"
  "jr_max_attempts wit_leased_row = 2" "jr_revision wit_leased_row = 2"
  "jr_updated_at_unix_ms wit_leased_row = 2000" "jr_job_id wit_leased_row = wit_ident"
  "jr_failure_count wit_leased_row = 0" "jr_created_at_unix_ms wit_leased_row = 1000"
  by (simp_all add: wit_leased_row_def claim_set_def wit_row_def new_job_row_def wit_policy_def)

lemma wit_record_failure:
  obtains s' where "record_failure wit_hash wit_lease 3000 100 wit_claimed =
      Inr (job_of_row (retry_set 3100 3000 wit_leased_row), s')"
    and "job_at wit_ident s' = Some (retry_set 3100 3000 wit_leased_row)"
proof -
  let ?r' = "retry_set 3100 3000 wit_leased_row"
  let ?s' = "wit_claimed\<lparr>jobs := replace_row jr_job_id ?r' (jobs wit_claimed)\<rparr>"
  note st = wit_leased_fields
  have ok: "job_row_ok wit_hash wit_leased_row" using job_at_ok[OF wit_claimed_inv wit_claimed_at] .
  have shape: "\<not> job_shape_violation ?r'"
    by (simp add: job_shape_violation_def retry_set_def st sql_logic job_is_terminal_def)
  have "check_holds (job_state_check ?r')"
    using shape by (rule job_shape_implies_state_check) (simp add: retry_set_def job_is_active_def)
  then have check: "job_row_check ?r'"
    using ok by (simp add: job_row_ok_def job_row_check_def retry_set_def st job_is_active_def)
  have guard: "job_guard wit_leased_row ?r'"
    using shape by (simp add: job_guard_def job_guard_update_def retry_set_def st job_transition_def)
  have p: "held_where wit_ident 2 wit_owner 32000 3000 wit_leased_row"
    using wit_holds st by (simp add: holds_lease_def held_where_def wit_lease_def)
  have upd: "update_jobs (\<lambda>r. held_where wit_ident 2 wit_owner 32000 3000 r
      \<and> jr_attempt_count r < jr_max_attempts r) (retry_set 3100 3000) wit_claimed = Inr (?s', 1)"
    using wit_claimed_inv wit_claimed_at
    by (rule update_jobs_keyed) (use p st guard check in \<open>auto simp: held_where_def job_is_active_def\<close>)
  have inv': "job_store_inv wit_hash ?s'"
    using wit_claimed_inv upd by (rule update_jobs_inv) (simp add: retry_set_def)
  have at': "job_at wit_ident ?s' = Some ?r'"
    using wit_claimed_at st by (simp add: select_key_replace_row retry_set_def wit_claimed_def)
  have rec: "record_failure wit_hash wit_lease 3000 100 wit_claimed = Inr (job_of_row ?r', ?s')"
    using upd at' read_job_inv[OF inv']
    by (simp add: record_failure_def Let_def wit_lease_def st row_policy_def i64_value_def
        i64_of_u64_def i64_max_def checked_add_def u64_max_def)
  show ?thesis using that[OF rec at'] .
qed

section \<open>Witnesses\<close>

theorem schedule_idempotent_witness:
  "schedule wit_hash wit_trade wit_policy 9000 wit_scheduled =
     Inr (\<lparr>outcome_job = job_of_row wit_row, outcome_created = False\<rparr>, wit_scheduled)"
  using schedule_idempotent[OF wit_empty_inv wit_schedule, of wit_policy 9000] by simp

theorem schedule_created_effect_witness:
  "active_job_count wit_scheduled \<le> 8
   \<and> filter (\<lambda>r. jr_trade_id r = wit_trade \<and> job_is_active r) (jobs wit_scheduled) = [wit_row]"
  using schedule_created_effect[OF wit_empty_inv wit_schedule]
  by (simp add: wit_policy_def wit_scheduled_def wit_row_def)

theorem schedule_new_generation_witness:
  "\<exists>out s'. schedule wit_hash wit_trade wit_policy 1000 wit_empty = Inr (out, s') \<and> outcome_created out"
  by (rule schedule_new_generation[OF _ wit_empty_inv wit_policy_ok _ wit_read_dirty])
    (simp_all add: wit_hash_def i64_max_def wit_empty_def active_job_count_def wit_policy_def select_key_def)

theorem live_lease_exclusive_witness:
  "job_run wit_hash wit_claimed [Scheduled wit_trade wit_policy 9000] wit_claimed
   \<and> validate_exact_lease wit_hash wit_lease wit_claimed = Inr ()"
proof -
  have rd: "read_dirty wit_trade wit_claimed = Inr (3, wit_digest)"
    using wit_read_dirty by (simp add: read_dirty_def wit_claimed_def wit_empty_def)
  have f: "jr_trade_id wit_leased_row = wit_trade" "jr_input_generation wit_leased_row = 3"
    "jr_evidence_policy_sha256 wit_leased_row = wit_digest"
    by (simp_all add: wit_leased_row_def claim_set_def wit_row_def new_job_row_def)
  have "schedule wit_hash wit_trade wit_policy 9000 wit_claimed =
      Inr (\<lparr>outcome_job = job_of_row wit_leased_row, outcome_created = False\<rparr>, wit_claimed)"
    using rd wit_claimed_at f by (simp add: schedule_def Let_def read_job_inv[OF wit_claimed_inv])
  then have run: "job_run wit_hash wit_claimed [Scheduled wit_trade wit_policy 9000] wit_claimed"
    by (blast intro: run_cons run_nil step_schedule)
  have "read_job wit_hash wit_ident wit_claimed = Inr (Some (job_of_row wit_leased_row))"
    using wit_claimed_at by (simp add: read_job_inv[OF wit_claimed_inv])
  then show ?thesis
    using run live_lease_exclusive[OF wit_scheduled_inv wit_owner_ok wit_claim run]
    by (simp add: wit_lease_def wit_leased_row_def claim_set_def wit_row_def job_state_of_def)
qed

theorem job_claims_bounded_witness:
  "attempts_of wit_ident wit_claimed = 1
   \<and> attempts_of wit_ident wit_claimed \<le> jr_max_attempts wit_leased_row"
proof -
  have run: "job_run wit_hash wit_scheduled [Claimed wit_owner 2000 (Some wit_lease)] wit_claimed"
    using wit_claim wit_owner_ok by (blast intro: run_cons run_nil step_claim)
  have "job_at wit_ident wit_scheduled = Some wit_row"
    by (simp add: wit_scheduled_def select_key_def wit_row_def)
  then have w: "within_attempts wit_ident wit_scheduled" "attempts_of wit_ident wit_scheduled = 0"
    by (simp_all add: within_attempts_def attempts_of_def wit_row_def new_job_row_def wit_policy_def)
  show ?thesis
    using job_claims_bounded[OF wit_scheduled_inv run w(1)] w(2) wit_claimed_at
    by (simp add: wit_lease_def wit_leased_row_def claim_set_def wit_row_def)
qed

theorem claim_next_progress_witness:
  "\<exists>lease s'. claim_next wit_hash wit_owner 2000 wit_scheduled = Inr (Some lease, s')
     \<and> lease_expires lease = 32000
     \<and> (\<exists>row. job_at (job_ident (lease_job lease)) s' = Some row \<and> jr_lease_owner row = Some wit_owner)"
proof -
  have c: "wit_row \<in> set (jobs wit_scheduled)" "claimable (int 2000) wit_row"
    "revision_headroom wit_scheduled" "2000 + 300000 \<le> i64_max"
    by (simp_all add: wit_scheduled_def wit_row_def new_job_row_def claimable_def wit_policy_def
        revision_headroom_def i64_max_def)
  from claim_next_progress[OF wit_scheduled_inv wit_owner_ok c(3,4,1,2)]
  show ?thesis by (fastforce simp: wit_scheduled_def wit_row_def new_job_row_def wit_policy_def)
qed

theorem stale_lease_rejected_witness:
  "\<exists>job s'. record_failure wit_hash wit_lease 3000 100 wit_claimed = Inr (job, s')
     \<and> record_failure wit_hash wit_lease 3001 100 s' = Inl OpLeaseLost"
proof -
  obtain s' where rec: "record_failure wit_hash wit_lease 3000 100 wit_claimed =
      Inr (job_of_row (retry_set 3100 3000 wit_leased_row), s')"
    and at': "job_at wit_ident s' = Some (retry_set 3100 3000 wit_leased_row)"
    by (rule wit_record_failure)
  from rec have run: "job_run wit_hash wit_claimed [Failed wit_lease 3000 100] s'"
    by (blast intro: run_cons run_nil step_fail)
  have k: "job_ident (lease_job wit_lease) = wit_ident" by (simp add: wit_lease_def wit_leased_fields)
  have changed: "job_at wit_ident s' \<noteq> Some wit_leased_row"
    using at' wit_leased_fields by (auto simp: retry_set_def dest: arg_cong[of _ _ jr_revision])
  have "record_failure wit_hash wit_lease 3001 100 s' = Inl OpLeaseLost"
    using stale_lease_rejected[OF wit_claimed_inv run wit_claimed_at[folded k] wit_holds,
        of 3001 100] changed k
    by (simp add: wit_lease_def i64_max_def row_policy_def wit_leased_row_def claim_set_def
        wit_row_def new_job_row_def wit_policy_def)
  with rec show ?thesis by blast
qed

theorem renew_current_lease_witness:
  "\<exists>lease' s'. renew wit_hash wit_lease 25000 wit_claimed = Inr (lease', s')
     \<and> lease_expires lease' = 55000"
proof -
  have f: "job_updated_at (lease_job wit_lease) = 2000" "job_revision (lease_job wit_lease) = 2"
    "lease_duration_ms (job_policy (lease_job wit_lease)) = 30000"
    "job_lease_owner (lease_job wit_lease) = Some (lease_owner wit_lease)"
    "lease_expires wit_lease = 32000"
    by (simp_all add: wit_lease_def wit_leased_row_def claim_set_def wit_row_def new_job_row_def
        wit_policy_def row_policy_def job_of_row_def)
  show ?thesis
    using renew_current_lease[OF wit_claimed_inv wit_validates f(4), of 25000]
    by (auto simp: f i64_max_def)
qed

theorem retry_delay_upper_bound_exact_witness:
  "job_policy_ok wit_policy \<and> retry_delay_upper_bound wit_policy 5 = 8000"
  using wit_policy_ok retry_delay_upper_bound_exact[OF wit_policy_ok, of 5]
  by (simp add: wit_policy_def)

theorem repository_atomic_witness:
  "settled wit_hash wit_scheduled
     (repository_claim_next committing_txn wit_hash ReadWriteExisting wit_owner 2000 wit_scheduled)
   \<and> fst (repository_claim_next committing_txn wit_hash ReadWriteExisting wit_owner 2000 wit_scheduled) =
       Inr (Some wit_lease)"
  using repository_atomic[OF committing_txn_atomic committing_txn_atomic committing_txn_atomic
      committing_txn_atomic wit_scheduled_inv wit_owner_ok, where mode = ReadWriteExisting and now = 2000]
  by (simp add: repository_claim_next_def require_writable_def run_job_txn_def committing_txn_def wit_claim)

theorem job_rows_decode_witness:
  "jr_state wit_row = ''ready'' \<and> job_row_check (wit_row\<lparr>jr_next_attempt_unix_ms := None\<rparr>)
   \<and> decode_job wit_hash (wit_row\<lparr>jr_next_attempt_unix_ms := None\<rparr>) = Inl OpStorage"
proof -
  have "job_row_ok wit_hash wit_row"
    using job_store_inv_rows[OF wit_scheduled_inv] by (simp add: wit_scheduled_def)
  then show ?thesis
    using job_rows_decode[of wit_row wit_hash] by (simp add: job_row_ok_def wit_row_def)
qed

theorem record_failure_effect_witness:
  "\<exists>job s'. record_failure wit_hash wit_lease 3000 100 wit_claimed = Inr (job, s')
     \<and> job_state job = Ready \<and> job_next_attempt job = Some 3100"
proof -
  obtain s' where rec: "record_failure wit_hash wit_lease 3000 100 wit_claimed =
      Inr (job_of_row (retry_set 3100 3000 wit_leased_row), s')"
    by (rule wit_record_failure)
  from record_failure_effect[OF wit_claimed_inv rec] rec
  show ?thesis
    by (simp add: wit_lease_def wit_leased_row_def claim_set_def wit_row_def new_job_row_def
        wit_policy_def row_policy_def)
qed

end
