(* ===== verification/Runtime_Adapters.thy ===== *)
theory Runtime_Adapters
  imports Rhi_Prelude
begin

unbundle bit_operations_syntax

text \<open>
  The time and entropy adapters of \<open>src/src/runtime_adapters.rs\<close>: the millisecond clock, the
  ordered credential-then-identity access, and the full-jitter sampler, which multiplies a 64-bit
  draw by the size of the range, keeps the high half of the 128-bit product and rejects the draws
  that would make some results more likely than others.  The clock, the entropy source and the two
  accessors are injected in the code and are parameters here.
\<close>

section \<open>Data and operations\<close>

datatype runtime_adapter_error =
    InvalidJitterBound | EntropyUnavailable | WallClockUnavailable
  | MonotonicDeadlineInvalid | CredentialAccess | IdentityAccess

fun runtime_adapter_error_code :: "runtime_adapter_error \<Rightarrow> string" where
  "runtime_adapter_error_code InvalidJitterBound = ''runtime_jitter_bound_invalid''"
| "runtime_adapter_error_code EntropyUnavailable = ''runtime_entropy_unavailable''"
| "runtime_adapter_error_code WallClockUnavailable = ''runtime_wall_clock_unavailable''"
| "runtime_adapter_error_code MonotonicDeadlineInvalid = ''runtime_monotonic_deadline_invalid''"
| "runtime_adapter_error_code CredentialAccess = ''runtime_credential_access_failed''"
| "runtime_adapter_error_code IdentityAccess = ''runtime_identity_access_failed''"

definition RHI_RUNTIME_JITTER_MAX_MILLISECONDS :: "64 word" where
  "RHI_RUNTIME_JITTER_MAX_MILLISECONDS = 3600000"

definition RHI_RUNTIME_JITTER_MAX_ENTROPY_DRAWS :: nat where
  "RHI_RUNTIME_JITTER_MAX_ENTROPY_DRAWS = 16"

definition jitter_bound_new :: "64 word \<Rightarrow> (runtime_adapter_error, 64 word) result" where
  "jitter_bound_new milliseconds =
     (if RHI_RUNTIME_JITTER_MAX_MILLISECONDS < milliseconds then Inl InvalidJitterBound
      else Inr milliseconds)"

text \<open>The wall clock answers whole seconds, or fails.\<close>

definition now_utc :: "nat option \<Rightarrow> (runtime_adapter_error, nat) result" where
  "now_utc wall = ok_or WallClockUnavailable wall"

definition now_utc_milliseconds :: "nat option \<Rightarrow> (runtime_adapter_error, nat) result" where
  "now_utc_milliseconds wall =
     and_then (now_utc wall) (\<lambda>seconds.
       ok_or WallClockUnavailable
         (option_filter (\<lambda>value. value \<le> i64_max) (checked_mul seconds 1000)))"

definition deadline_after :: "('d \<Rightarrow> 'm option) \<Rightarrow> 'd \<Rightarrow> (runtime_adapter_error, 'm) result" where
  "deadline_after monotonic duration = ok_or MonotonicDeadlineInvalid (monotonic duration)"

definition identity_open_existing ::
  "('r \<Rightarrow> 'b \<Rightarrow> 'c option) \<Rightarrow> ('b \<Rightarrow> 'c \<Rightarrow> 'i option) \<Rightarrow> 'r \<Rightarrow> 'b
     \<Rightarrow> (runtime_adapter_error, 'i) result" where
  "identity_open_existing resolve_existing open_existing runtime binding =
     and_then (ok_or CredentialAccess (resolve_existing runtime binding)) (\<lambda>credential.
       ok_or IdentityAccess (open_existing binding credential))"

text \<open>\<open>u64::from_be_bytes\<close>.\<close>

definition u64_from_be_bytes :: "bytes \<Rightarrow> 64 word" where
  "u64_from_be_bytes b = foldl (\<lambda>acc x. acc * 256 + ucast x) 0 b"

definition rejection_threshold :: "64 word \<Rightarrow> 64 word" where
  "rejection_threshold rng = (- rng) mod rng"

text \<open>One turn of the sampling loop: the accepted value, or nothing.\<close>

definition jitter_draw :: "64 word \<Rightarrow> 64 word \<Rightarrow> 64 word option" where
  "jitter_draw rng draw =
     (let product = ucast draw * ucast rng :: 128 word;
          low = ucast (product AND ucast (- 1 :: 64 word)) :: 64 word
      in if rejection_threshold rng \<le> low then Some (ucast (drop_bit 64 product)) else None)"

text \<open>
  The loop, with the number of turns left.  The source answers eight bytes or fails, and is left in
  a new state either way.
\<close>

fun sample_loop ::
  "('s \<Rightarrow> bytes option \<times> 's) \<Rightarrow> 64 word \<Rightarrow> nat \<Rightarrow> 's \<Rightarrow> (runtime_adapter_error, 64 word) result \<times> 's"
  where
  "sample_loop fill_bytes rng 0 s = (Inl EntropyUnavailable, s)"
| "sample_loop fill_bytes rng (Suc turns) s =
     (case fill_bytes s of
        (None, s') \<Rightarrow> (Inl EntropyUnavailable, s')
      | (Some b, s') \<Rightarrow>
          (case jitter_draw rng (u64_from_be_bytes b) of
             Some sampled \<Rightarrow> (Inr sampled, s')
           | None \<Rightarrow> sample_loop fill_bytes rng turns s'))"

definition sample_full_jitter ::
  "('s \<Rightarrow> bytes option \<times> 's) \<Rightarrow> 64 word \<Rightarrow> 's \<Rightarrow> (runtime_adapter_error, 64 word) result \<times> 's"
  where
  "sample_full_jitter fill_bytes maximum s =
     sample_loop fill_bytes (maximum + 1) RHI_RUNTIME_JITTER_MAX_ENTROPY_DRAWS s"

section \<open>Multiply-high with rejection\<close>

text \<open>In an interval of \<open>q\<close> periods there are exactly \<open>q\<close> multiples.\<close>

lemma multiples_in_interval:
  fixes R a q :: nat
  assumes "0 < R"
  shows "card {d. a \<le> d * R \<and> d * R < a + q * R} = q"
proof -
  define c where "c = (a + (R - 1)) div R"
  have low: "a \<le> d * R \<longleftrightarrow> c \<le> d" for d
  proof -
    have "c \<le> d \<longleftrightarrow> (a + (R - 1)) div R < Suc d" by (simp add: c_def less_Suc_eq_le)
    also have "\<dots> \<longleftrightarrow> a + (R - 1) < Suc d * R" using assms by (simp add: div_less_iff_less_mult)
    also have "\<dots> \<longleftrightarrow> a \<le> d * R" using assms by (simp add: add.commute) linarith
    finally show ?thesis ..
  qed
  have high: "d * R < a + q * R \<longleftrightarrow> d < c + q" for d
  proof (cases "q \<le> d")
    case True
    then obtain e where e: "d = q + e" using le_Suc_ex by blast
    have "d * R < a + q * R \<longleftrightarrow> \<not> a \<le> e * R" by (simp add: e algebra_simps not_le)
    also have "\<dots> \<longleftrightarrow> d < c + q" by (simp add: low e not_le)
    finally show ?thesis .
  next
    case False
    then have "d * R < q * R" using assms by simp
    then have "d * R < a + q * R" by linarith
    with False show ?thesis by simp
  qed
  have "{d. a \<le> d * R \<and> d * R < a + q * R} = {c..<c + q}" using low high by auto
  then show ?thesis by simp
qed

lemma u64_less: "unat (x :: 64 word) < 2 ^ 64"
  using unsigned_less[of x, where ?'a = nat] by simp

lemma rejection_threshold_eq:
  assumes "rng \<noteq> 0"
  shows "unat (rejection_threshold rng) = 2 ^ 64 mod unat rng"
proof -
  have "unat (- rng) = 2 ^ 64 - unat rng"
    using assms unat_sub_if_size[of 0 rng] by (simp add: word_size unat_eq_zero)
  moreover have "(2 ^ 64 - unat rng) mod unat rng = 2 ^ 64 mod unat rng"
    using u64_less[of rng] le_mod_geq[of "unat rng" "2 ^ 64"] by simp
  ultimately show ?thesis by (simp only: rejection_threshold_def unat_mod)
qed

lemma jitter_draw_eq:
  "jitter_draw rng draw =
     (if unat (rejection_threshold rng) \<le> (unat draw * unat rng) mod 2 ^ 64
      then Some (word_of_nat ((unat draw * unat rng) div 2 ^ 64)) else None)"
proof -
  define product where "product = (ucast draw * ucast rng :: 128 word)"
  have up: "unat (ucast x :: 128 word) = unat x" for x :: "64 word"
    using u64_less[of x] by (simp add: unsigned_ucast_eq take_bit_nat_eq_self)
  have "unat draw * unat rng < 2 ^ 64 * 2 ^ 64"
    using u64_less[of draw] u64_less[of rng] by (rule mult_strict_mono) simp_all
  then have "unat (ucast draw :: 128 word) * unat (ucast rng :: 128 word) < 2 ^ LENGTH(128)"
    by (simp add: up)
  then have p: "unat product = unat draw * unat rng"
    using unat_mult_lem[of "ucast draw :: 128 word" "ucast rng"] by (simp add: product_def up)
  have "product AND ucast (- 1 :: 64 word) = take_bit 64 product"
    by (rule bit_eqI) (auto simp: bit_simps)
  then have low: "unat (ucast (product AND ucast (- 1 :: 64 word)) :: 64 word) = unat product mod 2 ^ 64"
    by (simp only: unsigned_ucast_eq unsigned_take_bit_eq) (simp add: take_bit_eq_mod)
  have "take_bit LENGTH(128) (unat product) = unat product"
    by (rule take_bit_nat_eq_self) (rule unsigned_less)
  then have "unat (drop_bit 64 product) = unat product div 2 ^ 64"
    by (simp only: unsigned_drop_bit_eq) (simp only: drop_bit_eq_div)
  then have high: "(ucast (drop_bit 64 product) :: 64 word) = word_of_nat (unat product div 2 ^ 64)"
    by (simp only: word_unat_eq_iff unsigned_ucast_eq unsigned_of_nat of_nat_id)
  show ?thesis
    unfolding jitter_draw_def Let_def product_def[symmetric] high word_le_nat_alt low p ..
qed

lemma div_mod_interval:
  fixes M p v t :: nat
  assumes "t < M"
  shows "p div M = v \<and> t \<le> p mod M \<longleftrightarrow> v * M + t \<le> p \<and> p < (v + 1) * M"
proof
  assume "p div M = v \<and> t \<le> p mod M"
  moreover have "p = p div M * M + p mod M" "p mod M < M" using assms by simp_all
  ultimately show "v * M + t \<le> p \<and> p < (v + 1) * M" by (metis add_le_mono1 add.commute
    mult_Suc_right mult.commute nat_add_left_cancel_le nat_add_left_cancel_less Suc_eq_plus1 mult_Suc)
next
  assume a: "v * M + t \<le> p \<and> p < (v + 1) * M"
  then have "p div M = v" using assms by (intro div_nat_eqI) (simp_all add: algebra_simps)
  moreover have "p = p div M * M + p mod M" by simp
  ultimately show "p div M = v \<and> t \<le> p mod M" using a by (metis nat_add_left_cancel_le)
qed

lemma jitter_high_less:
  fixes draw rng :: "64 word"
  assumes "rng \<noteq> 0"
  shows "(unat draw * unat rng) div 2 ^ 64 < unat rng"
proof -
  have "unat draw * unat rng < 2 ^ 64 * unat rng"
    using u64_less[of draw] assms by (simp add: unat_gt_0)
  then show ?thesis by (simp add: div_less_iff_less_mult mult.commute)
qed

lemma jitter_draw_bound:
  assumes "rng \<noteq> 0" and "jitter_draw rng draw = Some v"
  shows "v < rng"
proof -
  have "(unat draw * unat rng) div 2 ^ 64 < 2 ^ 64"
    using jitter_high_less[OF assms(1), of draw] u64_less[of rng] by (rule less_trans)
  then have "unat v = (unat draw * unat rng) div 2 ^ 64"
    using assms(2) by (auto simp: jitter_draw_eq unat_of_nat split: if_splits)
  then show ?thesis using jitter_high_less[OF assms(1), of draw] by (simp add: word_less_nat_alt)
qed

lemma jitter_draw_iff:
  assumes "rng \<noteq> 0" and "v < rng"
  shows "jitter_draw rng draw = Some v \<longleftrightarrow>
    unat v * 2 ^ 64 + 2 ^ 64 mod unat rng \<le> unat draw * unat rng
    \<and> unat draw * unat rng < (unat v + 1) * 2 ^ 64"
proof -
  let ?p = "unat draw * unat rng" and ?t = "2 ^ 64 mod unat rng"
  have "?p div 2 ^ 64 < 2 ^ 64"
    using jitter_high_less[OF assms(1), of draw] u64_less[of rng] by (rule less_trans)
  then have "word_of_nat (?p div 2 ^ 64) = v \<longleftrightarrow> ?p div 2 ^ 64 = unat v"
    by (auto simp: word_unat_eq_iff unat_of_nat)
  then have "jitter_draw rng draw = Some v \<longleftrightarrow> ?p div 2 ^ 64 = unat v \<and> ?t \<le> ?p mod 2 ^ 64"
    unfolding jitter_draw_eq rejection_threshold_eq[OF assms(1)] by auto
  moreover have "?t < 2 ^ 64"
  proof -
    have "?t < unat rng" using assms(1) by (simp add: unat_gt_0)
    then show ?thesis using u64_less[of rng] by (rule less_trans)
  qed
  ultimately show ?thesis using div_mod_interval[of ?t "2 ^ 64" ?p "unat v"] by blast
qed

lemma card_jitter_draws:
  assumes "rng \<noteq> 0" and "v < rng"
  shows "card {draw. jitter_draw rng draw = Some v} = 2 ^ 64 div unat rng"
proof -
  let ?R = "unat rng" and ?a = "unat v * 2 ^ 64 + 2 ^ 64 mod unat rng" and ?q = "2 ^ 64 div unat rng"
  let ?N = "{d. ?a \<le> d * ?R \<and> d * ?R < ?a + ?q * ?R}"
  have top: "?a + ?q * ?R = (unat v + 1) * 2 ^ 64"
    using mod_div_mult_eq[of "2 ^ 64" ?R] by simp
  have v: "unat v + 1 \<le> ?R" using assms(2) by (simp add: word_less_nat_alt)
  have pos: "0 < ?R" using assms(1) by (simp add: unat_gt_0)
  have "unat ` {draw. jitter_draw rng draw = Some v} = ?N"
  proof (intro equalityI subsetI)
    fix d assume "d \<in> ?N"
    then have d: "?a \<le> d * ?R" "d * ?R < (unat v + 1) * 2 ^ 64" by (simp_all only: top mem_Collect_eq)
    have "(unat v + 1) * 2 ^ 64 \<le> ?R * 2 ^ 64" using v by (rule mult_right_mono) simp
    with d(2) have "d * ?R < ?R * 2 ^ 64" by (rule less_le_trans)
    then have "d < 2 ^ 64" by (metis mult.commute mult_less_cancel2)
    then have u: "unat (word_of_nat d :: 64 word) = d" by (simp add: unat_of_nat)
    then have "jitter_draw rng (word_of_nat d) = Some v"
      unfolding jitter_draw_iff[OF assms] using d by simp
    then show "d \<in> unat ` {draw. jitter_draw rng draw = Some v}" using u by force
  next
    fix d assume "d \<in> unat ` {draw. jitter_draw rng draw = Some v}"
    then obtain w where "d = unat w" "jitter_draw rng w = Some v" by blast
    then show "d \<in> ?N" unfolding mem_Collect_eq top jitter_draw_iff[OF assms] by simp
  qed
  moreover have "inj_on unat {draw. jitter_draw rng draw = Some v}"
    by (rule inj_onI) (simp add: word_unat_eq_iff)
  ultimately have "card {draw. jitter_draw rng draw = Some v} = card ?N"
    using card_image[of unat "{draw. jitter_draw rng draw = Some v}"] by (simp only:)
  also have "\<dots> = ?q" using pos by (rule multiples_in_interval)
  finally show ?thesis .
qed

lemma card_words_less: "card {v :: 64 word. v < rng} = unat rng"
proof -
  have "unat ` {v. v < rng} = {..<unat rng}"
  proof (intro equalityI subsetI)
    fix n assume "n \<in> {..<unat rng}"
    then have n: "n < unat rng" by simp
    then have "n < 2 ^ 64" using u64_less[of rng] by (rule less_trans)
    then have "unat (word_of_nat n :: 64 word) = n" by (simp add: unat_of_nat)
    then show "n \<in> unat ` {v. v < rng}"
      using n by (intro image_eqI[of _ _ "word_of_nat n"]) (simp_all add: word_less_nat_alt)
  qed (auto simp: word_less_nat_alt)
  moreover have "inj_on unat {v. v < rng}" by (rule inj_onI) (simp add: word_unat_eq_iff)
  ultimately show ?thesis using card_image[of unat "{v. v < rng}"] by simp
qed

lemma card_jitter_rejected:
  assumes "rng \<noteq> 0"
  shows "card {draw. jitter_draw rng draw = None} = 2 ^ 64 mod unat rng"
proof -
  let ?acc = "\<lambda>v. {draw. jitter_draw rng draw = Some v}"
  let ?rej = "{draw. jitter_draw rng draw = None}"
  have "(\<Sum>v \<in> {v. v < rng}. card (?acc v)) = unat rng * (2 ^ 64 div unat rng)"
    using card_jitter_draws[OF assms] by (simp add: card_words_less)
  then have acc: "card (\<Union>v \<in> {v. v < rng}. ?acc v) = unat rng * (2 ^ 64 div unat rng)"
    by (subst card_UN_disjoint) auto
  have "(UNIV :: 64 word set) = ?rej \<union> (\<Union>v \<in> {v. v < rng}. ?acc v)"
  proof (intro equalityI subsetI)
    fix w :: "64 word"
    show "w \<in> ?rej \<union> (\<Union>v \<in> {v. v < rng}. ?acc v)"
      using jitter_draw_bound[OF assms, of w] by (cases "jitter_draw rng w") auto
  qed simp
  moreover have "card (?rej \<union> (\<Union>v \<in> {v. v < rng}. ?acc v)) = card ?rej + card (\<Union>v \<in> {v. v < rng}. ?acc v)"
    by (rule card_Un_disjoint) auto
  ultimately have "card (UNIV :: 64 word set) = card ?rej + unat rng * (2 ^ 64 div unat rng)"
    using acc by simp
  then have "2 ^ 64 = card ?rej + unat rng * (2 ^ 64 div unat rng)"
    using card_word[where ?'a = 64] by simp
  moreover have "(2 :: nat) ^ 64 = 2 ^ 64 mod unat rng + unat rng * (2 ^ 64 div unat rng)" by simp
  ultimately show ?thesis by linarith
qed

section \<open>Draws as byte strings\<close>

definition be_nat :: "bytes \<Rightarrow> nat" where
  "be_nat b = foldl (\<lambda>acc x. acc * 256 + unat x) 0 b"

lemma byte_less: "unat (x :: 8 word) < 256"
  using unsigned_less[of x, where ?'a = nat] by simp

lemma be_nat_snoc: "be_nat (b @ [x]) = be_nat b * 256 + unat x"
  by (simp add: be_nat_def)

lemma be_nat_less: "be_nat b < 256 ^ length b"
proof (induction b rule: rev_induct)
  case (snoc x b)
  have "be_nat b * 256 + unat x < (be_nat b + 1) * 256" using byte_less[of x] by simp
  also have "\<dots> \<le> 256 ^ length b * 256" using snoc by (intro mult_right_mono) simp_all
  finally show ?case by (simp add: be_nat_snoc)
qed (simp add: be_nat_def)

lemma be_nat_inj: "length b = length c \<Longrightarrow> be_nat b = be_nat c \<Longrightarrow> b = c"
proof (induction b arbitrary: c rule: rev_induct)
  case (snoc x b)
  from snoc.prems(1) obtain d y where c: "c = d @ [y]" "length b = length d"
    by (cases c rule: rev_exhaust) auto
  from snoc.prems(2) c have e: "be_nat b * 256 + unat x = be_nat d * 256 + unat y"
    by (simp add: be_nat_snoc)
  have "unat x = unat y" "be_nat b = be_nat d"
    using arg_cong[OF e, of "\<lambda>n. n mod 256"] arg_cong[OF e, of "\<lambda>n. n div 256"]
      byte_less[of x] byte_less[of y] by simp_all
  with snoc.IH[OF c(2)] c(1) show ?case by (simp add: word_unat_eq_iff)
qed simp

lemma u64_from_be_bytes_be_nat: "u64_from_be_bytes b = word_of_nat (be_nat b)"
  unfolding u64_from_be_bytes_def be_nat_def
proof (induction b rule: rev_induct)
  case (snoc x b)
  have "(word_of_nat (unat x) :: 64 word) = ucast x"
    by (simp add: word_unat_eq_iff unat_of_nat unsigned_ucast_eq take_bit_eq_mod)
  with snoc show ?case by simp
qed simp

lemma unat_u64_from_be_bytes: "length b = 8 \<Longrightarrow> unat (u64_from_be_bytes b) = be_nat b"
  using be_nat_less[of b] by (simp add: u64_from_be_bytes_be_nat unat_of_nat)

definition draw_bytes :: "bytes set" where
  "draw_bytes = {b. length b = 8}"

lemma card_draw_bytes: "finite draw_bytes" "card draw_bytes = 2 ^ 64"
proof -
  have "draw_bytes = {xs. set xs \<subseteq> (UNIV :: 8 word set) \<and> length xs = 8}"
    by (simp add: draw_bytes_def)
  then show "finite draw_bytes" "card draw_bytes = 2 ^ 64"
    using finite_lists_length_eq[of "UNIV :: 8 word set" 8]
      card_lists_length_eq[of "UNIV :: 8 word set" 8] card_word[where ?'a = 8] by simp_all
qed

text \<open>Eight bytes name every draw exactly once.\<close>

lemma bij_u64_from_be_bytes: "bij_betw u64_from_be_bytes draw_bytes UNIV"
proof -
  have inj: "inj_on u64_from_be_bytes draw_bytes"
  proof (rule inj_onI)
    fix b c assume "b \<in> draw_bytes" "c \<in> draw_bytes" "u64_from_be_bytes b = u64_from_be_bytes c"
    then show "b = c"
      using unat_u64_from_be_bytes[of b] unat_u64_from_be_bytes[of c]
      by (intro be_nat_inj) (simp_all add: draw_bytes_def)
  qed
  then have "card (u64_from_be_bytes ` draw_bytes) = card (UNIV :: 64 word set)"
    using card_draw_bytes(2) card_word[where ?'a = 64] by (simp only: card_image) simp
  then have "u64_from_be_bytes ` draw_bytes = UNIV" by (intro card_subset_eq) simp_all
  with inj show ?thesis by (simp add: bij_betw_def)
qed

lemma card_draws:
  "card {b \<in> draw_bytes. P (u64_from_be_bytes b)} = card {w. P w}"
proof -
  have "bij_betw u64_from_be_bytes {b \<in> draw_bytes. P (u64_from_be_bytes b)} {w. P w}"
    using bij_u64_from_be_bytes unfolding bij_betw_def by (auto intro: inj_on_subset)
  then show ?thesis by (rule bij_betw_same_card)
qed

section \<open>Sequences of draws\<close>

text \<open>An entropy source that answers a given sequence of draws.\<close>

fun listed_draws :: "bytes list \<Rightarrow> bytes option \<times> bytes list" where
  "listed_draws [] = (None, [])"
| "listed_draws (b # bs) = (Some b, bs)"

definition draw_sequences :: "nat \<Rightarrow> bytes list set" where
  "draw_sequences n = {bs. set bs \<subseteq> draw_bytes \<and> length bs = n}"

definition sequences_giving :: "64 word \<Rightarrow> nat \<Rightarrow> 64 word \<Rightarrow> bytes list set" where
  "sequences_giving rng n v =
     {bs \<in> draw_sequences n. fst (sample_loop listed_draws rng n bs) = Inr v}"

lemma card_draw_sequences:
  "finite (draw_sequences n)" "card (draw_sequences n) = (2 ^ 64) ^ n"
  unfolding draw_sequences_def
  using finite_lists_length_eq[OF card_draw_bytes(1), of n]
    card_lists_length_eq[OF card_draw_bytes(1), of n] card_draw_bytes(2) by simp_all

lemma sequences_giving_Suc:
  "sequences_giving rng (Suc n) v =
     (\<lambda>(b, bs). b # bs) ` ({b \<in> draw_bytes. jitter_draw rng (u64_from_be_bytes b) = Some v} \<times> draw_sequences n)
   \<union> (\<lambda>(b, bs). b # bs) ` ({b \<in> draw_bytes. jitter_draw rng (u64_from_be_bytes b) = None} \<times> sequences_giving rng n v)"
  (is "?L = ?A \<union> ?B")
proof (intro equalityI subsetI)
  fix xs assume "xs \<in> ?L"
  then obtain b bs where "xs = b # bs" "b \<in> draw_bytes" "bs \<in> draw_sequences n"
    "fst (sample_loop listed_draws rng (Suc n) (b # bs)) = Inr v"
    by (cases xs) (auto simp: sequences_giving_def draw_sequences_def)
  then show "xs \<in> ?A \<union> ?B"
    by (auto simp: sequences_giving_def image_iff split: option.splits)
qed (auto simp: sequences_giving_def draw_sequences_def)

lemma card_sequences_giving:
  assumes "rng \<noteq> 0" and "v < rng"
  shows "card (sequences_giving rng n v) =
    (2 ^ 64 div unat rng) * (\<Sum>i < n. (2 ^ 64 mod unat rng) ^ i * (2 ^ 64) ^ (n - Suc i))"
proof (induction n)
  case 0
  then show ?case by (simp add: sequences_giving_def)
next
  case (Suc n)
  let ?q = "2 ^ 64 div unat rng" and ?t = "2 ^ 64 mod unat rng"
  let ?acc = "{b \<in> draw_bytes. jitter_draw rng (u64_from_be_bytes b) = Some v}"
  let ?rej = "{b \<in> draw_bytes. jitter_draw rng (u64_from_be_bytes b) = None}"
  have fin: "finite ?acc" "finite ?rej" "finite (draw_sequences n)" "finite (sequences_giving rng n v)"
    using card_draw_bytes(1) card_draw_sequences(1)[of n] by (auto simp: sequences_giving_def)
  have inj: "inj_on (\<lambda>(b, bs). b # bs) X" for X :: "(bytes \<times> bytes list) set"
    by (auto intro: inj_onI)
  have "card ?acc = ?q" using card_draws[of "\<lambda>w. jitter_draw rng w = Some v"] card_jitter_draws[OF assms]
    by (simp only:)
  moreover have "card ?rej = ?t"
    using card_draws[of "\<lambda>w. jitter_draw rng w = None"] card_jitter_rejected[OF assms(1)] by (simp only:)
  moreover have "card (sequences_giving rng (Suc n) v) =
      card ?acc * card (draw_sequences n) + card ?rej * card (sequences_giving rng n v)"
    unfolding sequences_giving_Suc
    by (subst card_Un_disjoint) (use fin in \<open>auto simp: card_image[OF inj] card_cartesian_product\<close>)
  ultimately have "card (sequences_giving rng (Suc n) v) =
      ?q * (2 ^ 64) ^ n + ?t * (?q * (\<Sum>i < n. ?t ^ i * (2 ^ 64) ^ (n - Suc i)))"
    by (simp only: card_draw_sequences(2) Suc.IH)
  also have "\<dots> = ?q * (\<Sum>i < Suc n. ?t ^ i * (2 ^ 64) ^ (Suc n - Suc i))"
    by (simp only: sum.lessThan_Suc_shift sum_distrib_left distrib_left) (simp only: mult_ac power_Suc diff_Suc_Suc power_0 mult_1_left mult_1_right diff_zero)
  finally show ?case .
qed

lemma now_utc_milliseconds_iff:
  "now_utc_milliseconds wall = Inr ms \<longleftrightarrow>
     (\<exists>seconds. wall = Some seconds \<and> ms = seconds * 1000 \<and> ms \<le> i64_max)"
proof -
  have "option_filter (\<lambda>v. v \<le> i64_max) (checked_mul n 1000) = Some ms \<longleftrightarrow>
      ms = n * 1000 \<and> ms \<le> i64_max" for n
    using i64_max_less_u64_max unfolding checked_mul_def option_filter_iff by (cases "n * 1000 \<le> u64_max") auto
  then show ?thesis by (simp add: now_utc_milliseconds_def now_utc_def)
qed

section \<open>Properties\<close>

text \<open>The state of the source after a number of draws, and the value a draw gives.\<close>

fun after_draws :: "('s \<Rightarrow> bytes option \<times> 's) \<Rightarrow> nat \<Rightarrow> 's \<Rightarrow> 's" where
  "after_draws fill 0 s = s"
| "after_draws fill (Suc n) s = after_draws fill n (snd (fill s))"

definition drawn :: "('s \<Rightarrow> bytes option \<times> 's) \<Rightarrow> 64 word \<Rightarrow> nat \<Rightarrow> 's \<Rightarrow> 64 word option option" where
  "drawn fill rng i s =
     map_option (\<lambda>b. jitter_draw rng (u64_from_be_bytes b)) (fst (fill (after_draws fill i s)))"

lemma drawn_simps:
  "drawn fill rng (Suc i) s = drawn fill rng i (snd (fill s))"
  by (simp add: drawn_def)

definition sampled_after ::
  "('s \<Rightarrow> bytes option \<times> 's) \<Rightarrow> 64 word \<Rightarrow> nat \<Rightarrow> 's \<Rightarrow> nat
     \<Rightarrow> (runtime_adapter_error, 64 word) result \<Rightarrow> 's \<Rightarrow> bool" where
  "sampled_after fill rng turns s n r s' \<longleftrightarrow>
     n \<le> turns \<and> s' = after_draws fill n s
   \<and> (\<forall>i. Suc i < n \<longrightarrow> drawn fill rng i s = Some None)
   \<and> (case r of
        Inr v \<Rightarrow> 0 < n \<and> drawn fill rng (n - 1) s = Some (Some v)
      | Inl e \<Rightarrow> e = EntropyUnavailable
          \<and> (n = turns \<and> (0 < n \<longrightarrow> drawn fill rng (n - 1) s = Some None)
             \<or> 0 < n \<and> drawn fill rng (n - 1) s = None))"

lemma sampled_after_step:
  assumes "sampled_after fill rng turns (snd (fill s)) n r s'" and "drawn fill rng 0 s = Some None"
  shows "sampled_after fill rng (Suc turns) s (Suc n) r s'"
proof -
  have "drawn fill rng i s = Some None" if "Suc i < Suc n" for i
    using that assms by (cases i) (auto simp: sampled_after_def drawn_simps)
  with assms show ?thesis
    by (cases n) (auto simp: sampled_after_def drawn_simps split: sum.splits)
qed

lemma sample_loop_draws: "\<exists>n. sampled_after fill rng turns s n (fst (sample_loop fill rng turns s))
   (snd (sample_loop fill rng turns s))"
proof (induction turns arbitrary: s)
  case 0
  show ?case by (auto simp: sampled_after_def)
next
  case (Suc turns)
  obtain a s1 where f: "fill s = (a, s1)" by fastforce
  show ?case
  proof (cases "drawn fill rng 0 s = Some None")
    case True
    then obtain b where "a = Some b" "jitter_draw rng (u64_from_be_bytes b) = None"
      by (auto simp: drawn_def f)
    moreover obtain n where "sampled_after fill rng turns (snd (fill s)) n
        (fst (sample_loop fill rng turns s1)) (snd (sample_loop fill rng turns s1))"
      using Suc.IH[of s1] f by auto
    ultimately show ?thesis
      using sampled_after_step[OF _ True] by (intro exI[of _ "Suc n"]) (simp add: f)
  next
    case False
    then have "sampled_after fill rng (Suc turns) s 1 (fst (sample_loop fill rng (Suc turns) s))
        (snd (sample_loop fill rng (Suc turns) s))"
      by (auto simp: drawn_def f sampled_after_def split: option.splits)
    then show ?thesis ..
  qed
qed

lemma jitter_range_nonzero:
  assumes "maximum \<le> RHI_RUNTIME_JITTER_MAX_MILLISECONDS"
  shows "maximum + 1 \<noteq> 0" and "unat (maximum + 1) = unat maximum + 1"
    and "v < maximum + 1 \<longleftrightarrow> v \<le> maximum"
proof -
  have m: "unat maximum \<le> 3600000"
    using assms by (simp add: RHI_RUNTIME_JITTER_MAX_MILLISECONDS_def word_le_nat_alt)
  then have "unat maximum + unat (1 :: 64 word) < 2 ^ LENGTH(64)" by simp
  then show u: "unat (maximum + 1) = unat maximum + 1" using unat_add_lem[of maximum 1] by simp
  then show "maximum + 1 \<noteq> 0" by auto
  show "v < maximum + 1 \<longleftrightarrow> v \<le> maximum"
    using u by (simp add: word_less_nat_alt word_le_nat_alt less_Suc_eq_le)
qed

text \<open>
  C6.  Full jitter is unbiased.  Of all sequences of sixteen eight-byte draws, each value from 0 to
  the maximum inclusive is produced by the same number of sequences, which depends on the maximum
  only: every value has \<open>2^64 div (maximum + 1)\<close> accepted draws and \<open>2^64 mod (maximum + 1)\<close> draws
  are rejected.
\<close>

theorem full_jitter_uniform:
  assumes "maximum \<le> RHI_RUNTIME_JITTER_MAX_MILLISECONDS" and "v \<le> maximum"
  shows "card {bs. set bs \<subseteq> draw_bytes \<and> length bs = RHI_RUNTIME_JITTER_MAX_ENTROPY_DRAWS
      \<and> fst (sample_full_jitter listed_draws maximum bs) = Inr v} =
    (2 ^ 64 div (unat maximum + 1))
      * (\<Sum>i < 16. (2 ^ 64 mod (unat maximum + 1)) ^ i * (2 ^ 64) ^ (16 - Suc i))"
proof -
  note r = jitter_range_nonzero[OF assms(1)]
  have "{bs. set bs \<subseteq> draw_bytes \<and> length bs = RHI_RUNTIME_JITTER_MAX_ENTROPY_DRAWS
      \<and> fst (sample_full_jitter listed_draws maximum bs) = Inr v} = sequences_giving (maximum + 1) 16 v"
    by (auto simp: sequences_giving_def draw_sequences_def sample_full_jitter_def
        RHI_RUNTIME_JITTER_MAX_ENTROPY_DRAWS_def)
  moreover have "v < maximum + 1" using r(3) assms(2) by blast
  ultimately show ?thesis
    using card_sequences_giving[OF r(1), of v 16] by (simp only: r(2))
qed

text \<open>
  Sampling ends within sixteen draws whatever the entropy source answers.  It returns the value
  of the first accepted draw, which never exceeds the maximum, and it fails only when a draw failed
  or when all sixteen were rejected; no draw is taken after the one that decides.
\<close>

theorem full_jitter_first_accepted:
  assumes "maximum \<le> RHI_RUNTIME_JITTER_MAX_MILLISECONDS"
  shows "(\<exists>n. sampled_after fill (maximum + 1) 16 s n (fst (sample_full_jitter fill maximum s))
        (snd (sample_full_jitter fill maximum s)))
    \<and> (\<forall>v. fst (sample_full_jitter fill maximum s) = Inr v \<longrightarrow> v \<le> maximum)"
proof -
  note r = jitter_range_nonzero[OF assms]
  obtain n where n: "sampled_after fill (maximum + 1) 16 s n (fst (sample_full_jitter fill maximum s))
      (snd (sample_full_jitter fill maximum s))"
    using sample_loop_draws[of fill "maximum + 1" 16 s]
    by (auto simp: sample_full_jitter_def RHI_RUNTIME_JITTER_MAX_ENTROPY_DRAWS_def)
  have "v \<le> maximum" if "fst (sample_full_jitter fill maximum s) = Inr v" for v
    using n that jitter_draw_bound[OF r(1), of _ v] r(3)[of v]
    by (auto simp: sampled_after_def drawn_def)
  with n show ?thesis by blast
qed

theorem full_jitter_uniform_witness:
  "card {bs. set bs \<subseteq> draw_bytes \<and> length bs = RHI_RUNTIME_JITTER_MAX_ENTROPY_DRAWS
      \<and> fst (sample_full_jitter listed_draws 2 bs) = Inr 1} =
    (2 ^ 64 div 3) * (\<Sum>i < 16. (2 ^ 64 mod 3) ^ i * (2 ^ 64) ^ (16 - Suc i))"
proof -
  have "(2 :: 64 word) \<le> RHI_RUNTIME_JITTER_MAX_MILLISECONDS" "(1 :: 64 word) \<le> 2"
    by (simp_all add: RHI_RUNTIME_JITTER_MAX_MILLISECONDS_def word_le_nat_alt)
  moreover have "unat (2 :: 64 word) + 1 = 3" by simp
  ultimately show ?thesis using full_jitter_uniform[of 2 1] by (simp only:)
qed

theorem full_jitter_first_accepted_witness:
  "fst (sample_full_jitter listed_draws 0 [[0, 0, 0, 0, 0, 0, 0, 9]]) = Inr 0"
proof -
  have "(0 :: 64 word) \<le> RHI_RUNTIME_JITTER_MAX_MILLISECONDS"
    by (simp add: RHI_RUNTIME_JITTER_MAX_MILLISECONDS_def)
  note B = full_jitter_first_accepted[OF this, of listed_draws "[[0, 0, 0, 0, 0, 0, 0, 9]]"]
  have "rejection_threshold 1 = 0" by (simp add: rejection_threshold_def)
  then have "jitter_draw 1 (u64_from_be_bytes [0, 0, 0, 0, 0, 0, 0, 9]) \<noteq> None"
    by (simp add: jitter_draw_def Let_def)
  then obtain v where "fst (sample_full_jitter listed_draws 0 [[0, 0, 0, 0, 0, 0, 0, 9]]) = Inr v"
    by (auto simp: sample_full_jitter_def RHI_RUNTIME_JITTER_MAX_ENTROPY_DRAWS_def eval_nat_numeral)
  with B show ?thesis by auto
qed

end
