(* ===== verification/Catalog_Publication.thy ===== *)
theory Catalog_Publication
  imports Sql_Table
begin

text \<open>
  The tables \<open>signed_attestation_events\<close>, \<open>publication_outbox\<close>, \<open>publication_targets\<close> and
  \<open>publication_attempts\<close> of the state catalog: columns, constraints, foreign keys and update
  triggers.  Events and attempts are append-only.  The outbox and its targets are compare-and-swap
  tables.
\<close>

section \<open>Rows\<close>

record event_row =
  se_event_id :: bytes
  se_statement_sha256 :: bytes
  se_event_sha256 :: bytes
  se_issuer_public_key :: bytes
  se_authored_at_unix_s :: int
  se_canonical_event_json :: bytes

record outbox_row =
  ob_outbox_id :: bytes
  ob_event_id :: bytes
  ob_event_sha256 :: bytes
  ob_publication_authority_sha256 :: bytes
  ob_target_set_sha256 :: bytes
  ob_target_count :: int
  ob_required_target_count :: int
  ob_max_attempts :: int
  ob_initial_backoff_ms :: int
  ob_maximum_backoff_ms :: int
  ob_attempt_deadline_ms :: int
  ob_state :: string
  ob_revision :: int
  ob_next_attempt_unix_ms :: "int option"
  ob_lease_owner :: "bytes option"
  ob_lease_expires_unix_ms :: "int option"
  ob_created_at_unix_ms :: int
  ob_updated_at_unix_ms :: int

record target_row =
  tg_outbox_id :: bytes
  tg_target_ordinal :: int
  tg_relay_id :: string
  tg_required :: int
  tg_state :: string
  tg_revision :: int
  tg_attempt_count :: int
  tg_next_attempt_unix_ms :: "int option"
  tg_last_attempt_id :: "bytes option"
  tg_updated_at_unix_ms :: int

record attempt_row =
  at_attempt_id :: bytes
  at_outbox_id :: bytes
  at_target_ordinal :: int
  at_attempt_number :: int
  at_event_sha256 :: bytes
  at_lease_owner :: bytes
  at_started_at_unix_ms :: int
  at_finished_at_unix_ms :: int
  at_outcome :: string
  at_result_code :: string

section \<open>Signed events\<close>

definition event_row_check :: "event_row \<Rightarrow> bool" where
  "event_row_check r \<longleftrightarrow>
     length (se_event_id r) = 32
   \<and> length (se_statement_sha256 r) = 32
   \<and> length (se_event_sha256 r) = 32
   \<and> length (se_issuer_public_key r) = 32
   \<and> 0 \<le> se_authored_at_unix_s r \<and> se_authored_at_unix_s r \<le> sql_i64_max
   \<and> 1 \<le> length (se_canonical_event_json r) \<and> length (se_canonical_event_json r) \<le> 32768"

definition events_valid :: "event_row list \<Rightarrow> bool" where
  "events_valid rows \<longleftrightarrow>
     list_all event_row_check rows
   \<and> distinct (map se_event_id rows)
   \<and> distinct (map se_statement_sha256 rows)
   \<and> distinct (map se_event_sha256 rows)"

section \<open>The outbox\<close>

text \<open>
  The last \<open>CHECK\<close>.  Every nullable operand stands behind an \<open>IS NULL\<close> or \<open>IS NOT NULL\<close>, so the
  condition is two-valued.
\<close>

definition outbox_state_check :: "outbox_row \<Rightarrow> bool" where
  "outbox_state_check r \<longleftrightarrow>
     (ob_state r = ''pending''
        \<and> (\<exists>v \<in> set_option (ob_next_attempt_unix_ms r). 0 \<le> v \<and> v \<le> sql_i64_max)
        \<and> ob_lease_owner r = None \<and> ob_lease_expires_unix_ms r = None)
   \<or> (ob_state r = ''leased''
        \<and> ob_next_attempt_unix_ms r = None
        \<and> (\<exists>b \<in> set_option (ob_lease_owner r). length b = 16)
        \<and> (\<exists>v \<in> set_option (ob_lease_expires_unix_ms r). 1 \<le> v \<and> v \<le> sql_i64_max))
   \<or> ((ob_state r = ''complete'' \<or> ob_state r = ''blocked'')
        \<and> ob_next_attempt_unix_ms r = None
        \<and> ob_lease_owner r = None \<and> ob_lease_expires_unix_ms r = None)"

definition outbox_row_check :: "outbox_row \<Rightarrow> bool" where
  "outbox_row_check r \<longleftrightarrow>
     length (ob_outbox_id r) = 32
   \<and> length (ob_event_id r) = 32
   \<and> length (ob_event_sha256 r) = 32
   \<and> length (ob_publication_authority_sha256 r) = 32
   \<and> length (ob_target_set_sha256 r) = 32
   \<and> 1 \<le> ob_target_count r \<and> ob_target_count r \<le> 32
   \<and> 0 \<le> ob_required_target_count r \<and> ob_required_target_count r \<le> ob_target_count r
   \<and> 1 \<le> ob_max_attempts r \<and> ob_max_attempts r \<le> 100
   \<and> 1 \<le> ob_initial_backoff_ms r \<and> ob_initial_backoff_ms r \<le> 60000
   \<and> 1 \<le> ob_maximum_backoff_ms r \<and> ob_maximum_backoff_ms r \<le> 3600000
   \<and> 100 \<le> ob_attempt_deadline_ms r \<and> ob_attempt_deadline_ms r \<le> 30000
   \<and> ob_state r \<in> {''pending'', ''leased'', ''complete'', ''blocked''}
   \<and> 1 \<le> ob_revision r \<and> ob_revision r \<le> sql_i64_max
   \<and> 0 \<le> ob_created_at_unix_ms r \<and> ob_created_at_unix_ms r \<le> sql_i64_max
   \<and> ob_created_at_unix_ms r \<le> ob_updated_at_unix_ms r \<and> ob_updated_at_unix_ms r \<le> sql_i64_max
   \<and> ob_initial_backoff_ms r \<le> ob_maximum_backoff_ms r
   \<and> outbox_state_check r"

definition outboxes_valid :: "event_row list \<Rightarrow> outbox_row list \<Rightarrow> bool" where
  "outboxes_valid events rows \<longleftrightarrow>
     list_all outbox_row_check rows
   \<and> distinct (map ob_outbox_id rows)
   \<and> distinct (map ob_event_id rows)
   \<and> list_all (\<lambda>r. ob_event_id r \<in> set (map se_event_id events)) rows"

definition outbox_transition :: "string \<Rightarrow> string \<Rightarrow> bool" where
  "outbox_transition old new \<longleftrightarrow>
     (old = ''pending'' \<and> (new = ''leased'' \<or> new = ''blocked''))
   \<or> (old = ''leased'' \<and>
        (new = ''leased'' \<or> new = ''pending'' \<or> new = ''complete'' \<or> new = ''blocked''))
   \<or> (old = ''blocked'' \<and> new = ''pending'')"

text \<open>The trigger \<open>publication_outbox_guard_update\<close> lets this update through.\<close>

definition outbox_guard :: "outbox_row \<Rightarrow> outbox_row \<Rightarrow> bool" where
  "outbox_guard old new \<longleftrightarrow>
     ob_outbox_id new = ob_outbox_id old
   \<and> ob_event_id new = ob_event_id old
   \<and> ob_event_sha256 new = ob_event_sha256 old
   \<and> ob_publication_authority_sha256 new = ob_publication_authority_sha256 old
   \<and> ob_target_set_sha256 new = ob_target_set_sha256 old
   \<and> ob_target_count new = ob_target_count old
   \<and> ob_required_target_count new = ob_required_target_count old
   \<and> ob_max_attempts new = ob_max_attempts old
   \<and> ob_initial_backoff_ms new = ob_initial_backoff_ms old
   \<and> ob_maximum_backoff_ms new = ob_maximum_backoff_ms old
   \<and> ob_attempt_deadline_ms new = ob_attempt_deadline_ms old
   \<and> ob_created_at_unix_ms new = ob_created_at_unix_ms old
   \<and> ob_revision new = ob_revision old + 1
   \<and> ob_updated_at_unix_ms old \<le> ob_updated_at_unix_ms new
   \<and> outbox_transition (ob_state old) (ob_state new)"

section \<open>Targets\<close>

definition relay_id_char :: "char \<Rightarrow> bool" where
  "relay_id_char c \<longleftrightarrow>
     c \<in> set ''abcdefghijklmnopqrstuvwxyz0123456789_-''"

definition target_row_check :: "target_row \<Rightarrow> bool" where
  "target_row_check r \<longleftrightarrow>
     length (tg_outbox_id r) = 32
   \<and> 0 \<le> tg_target_ordinal r \<and> tg_target_ordinal r \<le> 31
   \<and> 1 \<le> length (tg_relay_id r) \<and> length (tg_relay_id r) \<le> 64
   \<and> list_all relay_id_char (tg_relay_id r)
   \<and> list_all (\<lambda>c. c \<in> set ''abcdefghijklmnopqrstuvwxyz'') (take 1 (tg_relay_id r))
   \<and> (tg_required r = 0 \<or> tg_required r = 1)
   \<and> tg_state r \<in> {''pending'', ''submitted'', ''accepted'', ''rejected'', ''rate_limited'',
        ''auth_required'', ''failed'', ''unknown''}
   \<and> 1 \<le> tg_revision r \<and> tg_revision r \<le> sql_i64_max
   \<and> 0 \<le> tg_attempt_count r \<and> tg_attempt_count r \<le> 100
   \<and> check_holds (sql_between (tg_next_attempt_unix_ms r) 0 sql_i64_max)
   \<and> check_holds (sql_length_is (tg_last_attempt_id r) 32)
   \<and> 0 \<le> tg_updated_at_unix_ms r \<and> tg_updated_at_unix_ms r \<le> sql_i64_max
   \<and> (tg_attempt_count r = 0) = (tg_last_attempt_id r = None)"

definition target_key :: "target_row \<Rightarrow> bytes \<times> int" where
  "target_key r = (tg_outbox_id r, tg_target_ordinal r)"

definition targets_valid :: "outbox_row list \<Rightarrow> target_row list \<Rightarrow> bool" where
  "targets_valid outboxes rows \<longleftrightarrow>
     list_all target_row_check rows
   \<and> distinct (map target_key rows)
   \<and> distinct (map (\<lambda>r. (tg_outbox_id r, tg_relay_id r)) rows)
   \<and> list_all (\<lambda>r. tg_outbox_id r \<in> set (map ob_outbox_id outboxes)) rows"

text \<open>The trigger \<open>publication_targets_guard_update\<close> lets this update through.\<close>

definition target_guard :: "target_row \<Rightarrow> target_row \<Rightarrow> bool" where
  "target_guard old new \<longleftrightarrow>
     tg_outbox_id new = tg_outbox_id old
   \<and> tg_target_ordinal new = tg_target_ordinal old
   \<and> tg_relay_id new = tg_relay_id old
   \<and> tg_required new = tg_required old
   \<and> tg_revision new = tg_revision old + 1
   \<and> tg_attempt_count old \<le> tg_attempt_count new
   \<and> tg_attempt_count new \<le> tg_attempt_count old + 1
   \<and> tg_updated_at_unix_ms old \<le> tg_updated_at_unix_ms new
   \<and> tg_state old \<noteq> ''accepted''"

section \<open>Attempts\<close>

definition result_code_char :: "char \<Rightarrow> bool" where
  "result_code_char c \<longleftrightarrow> c \<in> set ''abcdefghijklmnopqrstuvwxyz0123456789_''"

definition attempt_row_check :: "attempt_row \<Rightarrow> bool" where
  "attempt_row_check r \<longleftrightarrow>
     length (at_attempt_id r) = 32
   \<and> length (at_outbox_id r) = 32
   \<and> 0 \<le> at_target_ordinal r \<and> at_target_ordinal r \<le> 31
   \<and> 1 \<le> at_attempt_number r \<and> at_attempt_number r \<le> 100
   \<and> length (at_event_sha256 r) = 32
   \<and> length (at_lease_owner r) = 16
   \<and> 0 \<le> at_started_at_unix_ms r \<and> at_started_at_unix_ms r \<le> sql_i64_max
   \<and> at_started_at_unix_ms r \<le> at_finished_at_unix_ms r \<and> at_finished_at_unix_ms r \<le> sql_i64_max
   \<and> at_outcome r \<in> {''submitted'', ''accepted'', ''rejected'', ''rate_limited'',
        ''auth_required'', ''failed'', ''unknown''}
   \<and> 1 \<le> length (at_result_code r) \<and> length (at_result_code r) \<le> 64
   \<and> list_all result_code_char (at_result_code r)
   \<and> list_all (\<lambda>c. c \<in> set ''abcdefghijklmnopqrstuvwxyz'') (take 1 (at_result_code r))"

definition attempts_valid :: "target_row list \<Rightarrow> attempt_row list \<Rightarrow> bool" where
  "attempts_valid targets rows \<longleftrightarrow>
     list_all attempt_row_check rows
   \<and> distinct (map at_attempt_id rows)
   \<and> distinct (map (\<lambda>r. (at_outbox_id r, at_target_ordinal r, at_attempt_number r)) rows)
   \<and> list_all (\<lambda>r. (at_outbox_id r, at_target_ordinal r) \<in> set (map target_key targets)) rows"

text \<open>What the schema keeps true of the four tables.\<close>

definition publication_governed ::
  "event_row list \<Rightarrow> outbox_row list \<Rightarrow> target_row list \<Rightarrow> attempt_row list \<Rightarrow> bool" where
  "publication_governed events outboxes targets attempts \<longleftrightarrow>
     events_valid events \<and> outboxes_valid events outboxes
   \<and> targets_valid outboxes targets \<and> attempts_valid targets attempts"

interpretation outbox: cas_table ob_outbox_id ob_revision outbox_guard "outboxes_valid events"
  for events
  by unfold_locales (auto simp: outbox_guard_def outboxes_valid_def)

interpretation target: cas_table target_key tg_revision target_guard "targets_valid outboxes"
  for outboxes
  by unfold_locales (auto simp: target_guard_def targets_valid_def target_key_def)

end
