(* ===== verification/Publication_Submission.thy ===== *)
theory Publication_Submission
  imports Catalog_Publication
begin

text \<open>
  Reading the exact committed bytes of one outbox (\<open>src/src/publication_submission.rs\<close>), and the
  closed target states, attempt outcomes and attempt evidence of \<open>src/src/publication_attempt.rs\<close>.
\<close>

section \<open>The committed publication\<close>

record pub_store =
  signed_events :: "event_row list"
  outboxes :: "outbox_row list"
  targets :: "target_row list"
  attempts :: "attempt_row list"

record committed_publication =
  cp_outbox_id :: bytes
  cp_event_id :: bytes
  cp_event_sha256 :: bytes
  cp_exact_signed_event_bytes :: bytes

datatype submission_error_kind = SubmissionNotFound | SubmissionBinding | SubmissionStorage

fun submission_error_code :: "submission_error_kind \<Rightarrow> string" where
  "submission_error_code SubmissionNotFound = ''publication_submission_not_found''"
| "submission_error_code SubmissionBinding = ''publication_submission_binding_invalid''"
| "submission_error_code SubmissionStorage = ''publication_submission_storage_failed''"

datatype read_error = ReadNotFound | ReadBinding | ReadStorage

definition SIGNED_EVENT_BYTES_MAXIMUM :: nat where
  "SIGNED_EVENT_BYTES_MAXIMUM = 32768"

text \<open>\<open>READ_COMMITTED_PUBLICATION_SQL\<close>: the outbox joined with its signed event, two rows at most.\<close>

definition committed_rows :: "bytes \<Rightarrow> pub_store \<Rightarrow> (outbox_row \<times> event_row option) list" where
  "committed_rows outbox_id s =
     take 2 (concat (map (\<lambda>ob.
       (case filter (\<lambda>e. se_event_id e = ob_event_id ob) (signed_events s) of
          [] \<Rightarrow> [(ob, None)]
        | es \<Rightarrow> map (\<lambda>e. (ob, Some e)) es))
       (filter (\<lambda>ob. ob_outbox_id ob = outbox_id) (outboxes s))))"

text \<open>A column selected as \<open>CASE WHEN length(c) = 32 THEN c ELSE NULL END\<close> and read by \<open>blob32\<close>.\<close>

definition blob32 :: "bytes option \<Rightarrow> (read_error, bytes) result" where
  "blob32 column = ok_or ReadBinding (option_filter (\<lambda>b. length b = 32) column)"

definition read_committed ::
  "(bytes \<Rightarrow> bytes) \<Rightarrow> bytes \<Rightarrow> pub_store \<Rightarrow> (read_error, committed_publication) result" where
  "read_committed sha256 requested s =
     (case committed_rows requested s of
        [] \<Rightarrow> Inl ReadNotFound
      | [(ob, e)] \<Rightarrow>
          and_then (blob32 (Some (ob_outbox_id ob))) (\<lambda>outbox_id.
          and_then (blob32 (Some (ob_event_id ob))) (\<lambda>outbox_event_id.
          and_then (blob32 (Some (ob_event_sha256 ob))) (\<lambda>outbox_event_sha256.
          and_then (blob32 (map_option se_event_id e)) (\<lambda>event_id.
          and_then (blob32 (map_option se_event_sha256 e)) (\<lambda>event_sha256.
          and_then (ok_or ReadBinding
            (option_filter (\<lambda>b. 1 \<le> length b \<and> length b \<le> 32768)
              (map_option se_canonical_event_json e))) (\<lambda>exact.
            if outbox_id \<noteq> requested
               \<or> outbox_event_id \<noteq> event_id
               \<or> outbox_event_sha256 \<noteq> event_sha256
               \<or> exact = []
               \<or> SIGNED_EVENT_BYTES_MAXIMUM < length exact
               \<or> sha256 exact \<noteq> event_sha256
            then Inl ReadBinding
            else Inr \<lparr>cp_outbox_id = outbox_id, cp_event_id = event_id,
              cp_event_sha256 = event_sha256, cp_exact_signed_event_bytes = exact\<rparr>))))))
      | _ \<Rightarrow> Inl ReadBinding)"

fun map_submission_error :: "read_error tx_error \<Rightarrow> submission_error_kind" where
  "map_submission_error (OperationFailed ReadNotFound) = SubmissionNotFound"
| "map_submission_error (OperationFailed ReadBinding) = SubmissionBinding"
| "map_submission_error (OperationFailed ReadStorage) = SubmissionStorage"
| "map_submission_error HostFailed = SubmissionStorage"
| "map_submission_error CommitOutcomeUnknown = SubmissionStorage"

definition read_committed_publication ::
  "(read_error, committed_publication, pub_store) txn \<Rightarrow> (bytes \<Rightarrow> bytes) \<Rightarrow> bytes \<Rightarrow> pub_store
     \<Rightarrow> (submission_error_kind, committed_publication) result \<times> pub_store" where
  "read_committed_publication txn sha256 outbox_id s =
     (case txn (\<lambda>s. and_then (read_committed sha256 outbox_id s) (\<lambda>p. Inr (p, s))) s of
        (r, s') \<Rightarrow> (map_err map_submission_error r, s'))"

section \<open>Target states and outcomes\<close>

datatype target_state =
    TargetPending | TargetSubmitted | TargetAccepted | TargetRejected
  | TargetRateLimited | TargetAuthRequired | TargetFailed | TargetUnknown

fun target_state_code :: "target_state \<Rightarrow> string" where
  "target_state_code TargetPending = ''pending''"
| "target_state_code TargetSubmitted = ''submitted''"
| "target_state_code TargetAccepted = ''accepted''"
| "target_state_code TargetRejected = ''rejected''"
| "target_state_code TargetRateLimited = ''rate_limited''"
| "target_state_code TargetAuthRequired = ''auth_required''"
| "target_state_code TargetFailed = ''failed''"
| "target_state_code TargetUnknown = ''unknown''"

datatype attempt_outcome =
    OutcomeSubmitted | OutcomeAccepted | OutcomeRejected | OutcomeRateLimited
  | OutcomeAuthRequired | OutcomeFailed | OutcomeUnknown

fun outcome_target_state :: "attempt_outcome \<Rightarrow> target_state" where
  "outcome_target_state OutcomeSubmitted = TargetSubmitted"
| "outcome_target_state OutcomeAccepted = TargetAccepted"
| "outcome_target_state OutcomeRejected = TargetRejected"
| "outcome_target_state OutcomeRateLimited = TargetRateLimited"
| "outcome_target_state OutcomeAuthRequired = TargetAuthRequired"
| "outcome_target_state OutcomeFailed = TargetFailed"
| "outcome_target_state OutcomeUnknown = TargetUnknown"

fun outcome_code :: "attempt_outcome \<Rightarrow> string" where
  "outcome_code OutcomeSubmitted = ''submitted''"
| "outcome_code OutcomeAccepted = ''accepted''"
| "outcome_code OutcomeRejected = ''rejected''"
| "outcome_code OutcomeRateLimited = ''rate_limited''"
| "outcome_code OutcomeAuthRequired = ''auth_required''"
| "outcome_code OutcomeFailed = ''failed''"
| "outcome_code OutcomeUnknown = ''unknown''"

section \<open>Attempt evidence\<close>

datatype evidence_error = InvalidTargetOrdinal | InvalidAttemptNumber | InvalidTime

fun evidence_error_code :: "evidence_error \<Rightarrow> string" where
  "evidence_error_code InvalidTargetOrdinal = ''publication_attempt_target_ordinal_invalid''"
| "evidence_error_code InvalidAttemptNumber = ''publication_attempt_number_invalid''"
| "evidence_error_code InvalidTime = ''publication_attempt_time_invalid''"

definition RHI_PUBLICATION_TARGET_ORDINAL_MAXIMUM :: nat where
  "RHI_PUBLICATION_TARGET_ORDINAL_MAXIMUM = 31"

definition RHI_PUBLICATION_ATTEMPT_NUMBER_MAXIMUM :: nat where
  "RHI_PUBLICATION_ATTEMPT_NUMBER_MAXIMUM = 100"

definition publication_unix_ms_new :: "nat \<Rightarrow> (evidence_error, nat) result" where
  "publication_unix_ms_new v = (if i64_max < v then Inl InvalidTime else Inr v)"

text \<open>\<open>b"radroots.rhi.publication_attempt.v1\0"\<close>.\<close>

definition ATTEMPT_ID_DOMAIN :: bytes where
  "ATTEMPT_ID_DOMAIN = map (\<lambda>c. word_of_nat (of_char c)) ''radroots.rhi.publication_attempt.v1'' @ [0]"

definition attempt_preimage :: "bytes \<Rightarrow> bytes \<Rightarrow> nat \<Rightarrow> nat \<Rightarrow> bytes" where
  "attempt_preimage outbox_id event_sha256 target_ordinal attempt_number =
     ATTEMPT_ID_DOMAIN @ outbox_id @ event_sha256
       @ to_be_bytes 4 target_ordinal @ to_be_bytes 4 attempt_number"

definition derive_attempt_id ::
  "(bytes \<Rightarrow> bytes) \<Rightarrow> bytes \<Rightarrow> bytes \<Rightarrow> nat \<Rightarrow> nat \<Rightarrow> bytes" where
  "derive_attempt_id sha256 outbox_id event_sha256 target_ordinal attempt_number =
     sha256 (attempt_preimage outbox_id event_sha256 target_ordinal attempt_number)"

record attempt_evidence =
  ev_id :: bytes
  ev_outbox_id :: bytes
  ev_event_sha256 :: bytes
  ev_target_ordinal :: nat
  ev_attempt_number :: nat
  ev_started_at :: nat
  ev_finished_at :: nat
  ev_outcome :: attempt_outcome

definition attempt_evidence_new ::
  "(bytes \<Rightarrow> bytes) \<Rightarrow> committed_publication \<Rightarrow> nat \<Rightarrow> nat \<Rightarrow> nat \<Rightarrow> nat \<Rightarrow> attempt_outcome
     \<Rightarrow> (evidence_error, attempt_evidence) result" where
  "attempt_evidence_new sha256 publication target_ordinal attempt_number started_at finished_at outcome =
     (if \<not> (target_ordinal \<le> 255 \<and> target_ordinal \<le> RHI_PUBLICATION_TARGET_ORDINAL_MAXIMUM)
      then Inl InvalidTargetOrdinal
      else if \<not> (1 \<le> attempt_number \<and> attempt_number \<le> RHI_PUBLICATION_ATTEMPT_NUMBER_MAXIMUM)
      then Inl InvalidAttemptNumber
      else if finished_at < started_at then Inl InvalidTime
      else Inr \<lparr>ev_id = derive_attempt_id sha256 (cp_outbox_id publication)
          (cp_event_sha256 publication) target_ordinal attempt_number,
        ev_outbox_id = cp_outbox_id publication, ev_event_sha256 = cp_event_sha256 publication,
        ev_target_ordinal = target_ordinal, ev_attempt_number = attempt_number,
        ev_started_at = started_at, ev_finished_at = finished_at, ev_outcome = outcome\<rparr>)"

end
