(* ===== verification/Publication_Authority.thy ===== *)
theory Publication_Authority
  imports Rhi_Prelude
begin

text \<open>
  The publication authority of \<open>src/src/publication.rs\<close>: the mode, the ordered target inventory, the
  retry policy and the two domain-separated identities derived from one validated configuration.
  The JSON document belongs to \<open>serde_json\<close>; the accessors the code calls on it are the fields of
  \<open>json_view\<close>.  SHA-256 and the configuration digest are parameters.
\<close>

section \<open>Data\<close>

datatype publication_mode = PublicationRequired | PublicationDisabled

fun publication_mode_code :: "publication_mode \<Rightarrow> string" where
  "publication_mode_code PublicationRequired = ''required''"
| "publication_mode_code PublicationDisabled = ''disabled''"

record publication_retry_policy =
  rp_maximum_attempts :: nat
  rp_initial_backoff_ms :: nat
  rp_maximum_backoff_ms :: nat
  rp_attempt_deadline_ms :: nat

record publication_target =
  pt_ordinal :: nat
  pt_relay_id :: string
  pt_required :: bool

record publication_authority =
  pa_configuration_sha256 :: bytes
  pa_mode :: publication_mode
  pa_targets :: "publication_target list"
  pa_retry :: "publication_retry_policy option"
  pa_queue_capacity :: nat
  pa_target_set_sha256 :: bytes
  pa_authority_sha256 :: bytes

text \<open>\<open>PartialEq for RhiPublicationAuthority\<close>: the configuration digest does not take part.\<close>

definition same_authority :: "publication_authority \<Rightarrow> publication_authority \<Rightarrow> bool" where
  "same_authority a b \<longleftrightarrow>
     pa_mode a = pa_mode b \<and> pa_targets a = pa_targets b \<and> pa_retry a = pa_retry b
   \<and> pa_queue_capacity a = pa_queue_capacity b
   \<and> pa_target_set_sha256 a = pa_target_set_sha256 b
   \<and> pa_authority_sha256 a = pa_authority_sha256 b"

datatype publication_error = InvalidConfiguration | TargetInventory

fun publication_error_code :: "publication_error \<Rightarrow> string" where
  "publication_error_code InvalidConfiguration = ''publication_configuration_invalid''"
| "publication_error_code TargetInventory = ''publication_target_inventory_invalid''"

definition RHI_PUBLICATION_MAX_TARGETS :: nat where
  "RHI_PUBLICATION_MAX_TARGETS = 32"

definition RHI_PUBLICATION_MAX_ATTEMPTS :: nat where
  "RHI_PUBLICATION_MAX_ATTEMPTS = 100"

record 'v json_view =
  jv_pointer :: "'v \<Rightarrow> string \<Rightarrow> 'v option"
  jv_as_str :: "'v \<Rightarrow> string option"
  jv_as_u64 :: "'v \<Rightarrow> nat option"
  jv_as_bool :: "'v \<Rightarrow> bool option"
  jv_as_array :: "'v \<Rightarrow> 'v list option"

section \<open>Identities\<close>

definition ascii_bytes :: "string \<Rightarrow> bytes" where
  "ascii_bytes = map (\<lambda>c. word_of_nat (of_char c))"

text \<open>The two domains, each ended by a zero byte.\<close>

definition AUTHORITY_DOMAIN :: bytes where
  "AUTHORITY_DOMAIN = ascii_bytes ''radroots.rhi.publication_authority.v1'' @ [0]"

definition TARGET_SET_DOMAIN :: bytes where
  "TARGET_SET_DOMAIN = ascii_bytes ''radroots.rhi.publication_target_set.v1'' @ [0]"

definition target_bytes :: "nat \<Rightarrow> string \<Rightarrow> bool \<Rightarrow> bytes" where
  "target_bytes ordinal relay_id required =
     to_be_bytes 4 ordinal @ to_be_bytes 8 (length relay_id) @ ascii_bytes relay_id
       @ [if required then 1 else 0]"

definition target_set_preimage :: "nat \<Rightarrow> (nat \<times> string \<times> bool) list \<Rightarrow> bytes" where
  "target_set_preimage count ts =
     TARGET_SET_DOMAIN @ to_be_bytes 4 count
       @ concat (map (\<lambda>(ordinal, relay_id, required). target_bytes ordinal relay_id required) ts)"

definition target_triple :: "publication_target \<Rightarrow> nat \<times> string \<times> bool" where
  "target_triple t = (pt_ordinal t, pt_relay_id t, pt_required t)"

definition target_set_digest :: "(bytes \<Rightarrow> bytes) \<Rightarrow> publication_target list \<Rightarrow> (publication_error, bytes) result"
  where
  "target_set_digest sha256 ts =
     and_then (ensure (length ts \<le> 4294967295) TargetInventory) (\<lambda>_.
     and_then (ensure (list_all (\<lambda>t. length (pt_relay_id t) \<le> u64_max) ts) TargetInventory) (\<lambda>_.
       Inr (sha256 (target_set_preimage (length ts) (map target_triple ts)))))"

definition retry_bytes :: "publication_retry_policy option \<Rightarrow> bytes" where
  "retry_bytes retry =
     (case retry of
        None \<Rightarrow> [0]
      | Some r \<Rightarrow> [1] @ to_be_bytes 2 (rp_maximum_attempts r)
          @ to_be_bytes 8 (rp_initial_backoff_ms r)
          @ to_be_bytes 8 (rp_maximum_backoff_ms r)
          @ to_be_bytes 8 (rp_attempt_deadline_ms r))"

definition authority_preimage ::
  "publication_mode \<Rightarrow> bytes \<Rightarrow> nat \<Rightarrow> publication_retry_policy option \<Rightarrow> nat \<Rightarrow> bytes" where
  "authority_preimage mode target_set target_count retry queue_capacity =
     AUTHORITY_DOMAIN
       @ [case mode of PublicationDisabled \<Rightarrow> 0 | PublicationRequired \<Rightarrow> 1]
       @ to_be_bytes 4 target_count @ target_set @ retry_bytes retry
       @ to_be_bytes 4 queue_capacity"

definition authority_digest ::
  "(bytes \<Rightarrow> bytes) \<Rightarrow> publication_mode \<Rightarrow> bytes \<Rightarrow> nat \<Rightarrow> publication_retry_policy option \<Rightarrow> nat
     \<Rightarrow> (publication_error, bytes) result" where
  "authority_digest sha256 mode target_set target_count retry queue_capacity =
     and_then (ensure (target_count \<le> 4294967295) TargetInventory) (\<lambda>_.
       Inr (sha256 (authority_preimage mode target_set target_count retry queue_capacity)))"

section \<open>Derivation\<close>

definition json_string :: "'v json_view \<Rightarrow> 'v \<Rightarrow> string \<Rightarrow> (publication_error, string) result" where
  "json_string jv document pointer =
     ok_or InvalidConfiguration (Option.bind (jv_pointer jv document pointer) (jv_as_str jv))"

definition json_integer :: "'v json_view \<Rightarrow> 'v \<Rightarrow> string \<Rightarrow> (publication_error, nat) result" where
  "json_integer jv document pointer =
     ok_or InvalidConfiguration (Option.bind (jv_pointer jv document pointer) (jv_as_u64 jv))"

definition is_ascii_lowercase :: "char \<Rightarrow> bool" where
  "is_ascii_lowercase c \<longleftrightarrow> (97 :: nat) \<le> of_char c \<and> of_char c \<le> (122 :: nat)"

definition is_ascii_digit :: "char \<Rightarrow> bool" where
  "is_ascii_digit c \<longleftrightarrow> (48 :: nat) \<le> of_char c \<and> of_char c \<le> (57 :: nat)"

definition relay_id_byte :: "char \<Rightarrow> bool" where
  "relay_id_byte c \<longleftrightarrow> is_ascii_lowercase c \<or> is_ascii_digit c \<or> c = CHR ''_'' \<or> c = CHR ''-''"

definition valid_relay_id :: "string \<Rightarrow> bool" where
  "valid_relay_id v \<longleftrightarrow>
     v \<noteq> [] \<and> length v \<le> 64 \<and> is_ascii_lowercase (hd v) \<and> list_all relay_id_byte v"

definition derive_target ::
  "'v json_view \<Rightarrow> 'v list \<Rightarrow> publication_target list \<Rightarrow> nat \<Rightarrow> 'v \<Rightarrow> (publication_error, publication_target) result"
  where
  "derive_target jv relays ts ordinal target_id =
     and_then (ok_or TargetInventory (option_filter valid_relay_id (jv_as_str jv target_id))) (\<lambda>relay_id.
     and_then (ensure (\<not> list_ex (\<lambda>t. pt_relay_id t = relay_id) ts) TargetInventory) (\<lambda>_.
     and_then (ok_or TargetInventory
       (find (\<lambda>relay. Option.bind (jv_pointer jv relay ''/id'') (jv_as_str jv) = Some relay_id) relays)) (\<lambda>relay.
     and_then (ensure (Option.bind (jv_pointer jv relay ''/write'') (jv_as_bool jv) = Some True) TargetInventory) (\<lambda>_.
     and_then (ensure (ordinal \<le> 255) TargetInventory) (\<lambda>_.
     and_then (ok_or TargetInventory (Option.bind (jv_pointer jv relay ''/required'') (jv_as_bool jv))) (\<lambda>required.
       Inr \<lparr>pt_ordinal = ordinal, pt_relay_id = relay_id, pt_required = required\<rparr>))))))"

text \<open>The loop over the enumerated target identifiers.\<close>

fun derive_targets ::
  "'v json_view \<Rightarrow> 'v list \<Rightarrow> publication_target list \<Rightarrow> nat \<Rightarrow> 'v list
     \<Rightarrow> (publication_error, publication_target list) result" where
  "derive_targets jv relays ts ordinal [] = Inr ts"
| "derive_targets jv relays ts ordinal (target_id # rest) =
     and_then (derive_target jv relays ts ordinal target_id) (\<lambda>t.
       derive_targets jv relays (ts @ [t]) (ordinal + 1) rest)"

definition derive_retry :: "'v json_view \<Rightarrow> 'v \<Rightarrow> (publication_error, publication_retry_policy) result" where
  "derive_retry jv document =
     and_then (json_integer jv document ''/publication/retry/max_attempts'') (\<lambda>attempts.
     and_then (ensure (attempts \<le> 65535) InvalidConfiguration) (\<lambda>_.
     and_then (json_integer jv document ''/publication/retry/initial_backoff_ms'') (\<lambda>initial.
     and_then (json_integer jv document ''/publication/retry/maximum_backoff_ms'') (\<lambda>maximum.
     and_then (json_integer jv document ''/publication/retry/attempt_deadline_ms'') (\<lambda>deadline.
       if attempts = 0 \<or> RHI_PUBLICATION_MAX_ATTEMPTS < attempts
          \<or> initial = 0 \<or> maximum < initial \<or> 3600000 < maximum
          \<or> \<not> (100 \<le> deadline \<and> deadline \<le> 30000)
       then Inl InvalidConfiguration
       else Inr \<lparr>rp_maximum_attempts = attempts, rp_initial_backoff_ms = initial,
         rp_maximum_backoff_ms = maximum, rp_attempt_deadline_ms = deadline\<rparr>)))))"

definition derive_required ::
  "'v json_view \<Rightarrow> 'v \<Rightarrow> (publication_error, publication_target list \<times> publication_retry_policy option) result"
  where
  "derive_required jv document =
     and_then (ok_or TargetInventory
       (Option.bind (jv_pointer jv document ''/publication/target_relay_ids'') (jv_as_array jv))) (\<lambda>ids.
     and_then (ensure (ids \<noteq> [] \<and> length ids \<le> RHI_PUBLICATION_MAX_TARGETS) TargetInventory) (\<lambda>_.
     and_then (ok_or TargetInventory
       (Option.bind (jv_pointer jv document ''/relays'') (jv_as_array jv))) (\<lambda>relays.
     and_then (derive_targets jv relays [] 0 ids) (\<lambda>ts.
     and_then (derive_retry jv document) (\<lambda>retry. Inr (ts, Some retry))))))"

definition derive_disabled ::
  "'v json_view \<Rightarrow> 'v \<Rightarrow> (publication_error, publication_target list \<times> publication_retry_policy option) result"
  where
  "derive_disabled jv document =
     (if jv_pointer jv document ''/publication/target_relay_ids'' \<noteq> None
         \<or> jv_pointer jv document ''/publication/retry'' \<noteq> None
      then Inl InvalidConfiguration else Inr ([], None))"

definition derive_authority ::
  "(bytes \<Rightarrow> bytes) \<Rightarrow> ('p \<Rightarrow> 'v \<Rightarrow> bytes option) \<Rightarrow> 'v json_view \<Rightarrow> 'p \<Rightarrow> 'v
     \<Rightarrow> (publication_error, publication_authority) result" where
  "derive_authority sha256 config_digest jv profile document =
     and_then (ok_or InvalidConfiguration (config_digest profile document)) (\<lambda>configuration.
     and_then (json_string jv document ''/publication/mode'') (\<lambda>spelling.
     and_then (if spelling = ''required'' then Inr PublicationRequired
       else if spelling = ''disabled'' then Inr PublicationDisabled
       else Inl InvalidConfiguration) (\<lambda>mode.
     and_then (json_integer jv document ''/resource_limits/queues/publication'') (\<lambda>capacity.
     and_then (ensure (capacity \<le> 4294967295) InvalidConfiguration) (\<lambda>_.
     and_then (ensure (\<not> (capacity = 0 \<or> 65536 < capacity)) InvalidConfiguration) (\<lambda>_.
     and_then (case mode of PublicationDisabled \<Rightarrow> derive_disabled jv document
       | PublicationRequired \<Rightarrow> derive_required jv document) (\<lambda>(ts, retry).
     and_then (target_set_digest sha256 ts) (\<lambda>target_set.
     and_then (authority_digest sha256 mode target_set (length ts) retry capacity) (\<lambda>authority.
       Inr \<lparr>pa_configuration_sha256 = configuration, pa_mode = mode, pa_targets = ts,
         pa_retry = retry, pa_queue_capacity = capacity, pa_target_set_sha256 = target_set,
         pa_authority_sha256 = authority\<rparr>)))))))))"

end
