(* ===== verification/Publication_Execution.thy ===== *)
theory Publication_Execution
  imports Publication_Submission Publication_Authority Runtime_Adapters
begin

text \<open>
  The durable publication executor of \<open>src/src/publication_execution.rs\<close>: claiming the oldest due
  outbox, preparing one target by persisting \<open>submitted\<close> before any relay is contacted, recording
  one closed outcome, and recovering an expired lease.  SHA-256, the transaction host, the clock,
  the entropy source and the relay sink are parameters.
\<close>

section \<open>Data\<close>

datatype outbox_state = OutboxPending | OutboxLeased | OutboxComplete | OutboxBlocked

fun outbox_state_code :: "outbox_state \<Rightarrow> string" where
  "outbox_state_code OutboxPending = ''pending''"
| "outbox_state_code OutboxLeased = ''leased''"
| "outbox_state_code OutboxComplete = ''complete''"
| "outbox_state_code OutboxBlocked = ''blocked''"

datatype execution_error_kind =
    ExecInvalidMode | ExecInvalidInput | ExecNotReady | ExecLeaseLost | ExecInvariant
  | ExecClockUnavailable | ExecEntropyUnavailable | ExecStorage | ExecCommitOutcomeUnknown

fun execution_error_code :: "execution_error_kind \<Rightarrow> string" where
  "execution_error_code ExecInvalidMode = ''publication_execution_mode_invalid''"
| "execution_error_code ExecInvalidInput = ''publication_execution_input_invalid''"
| "execution_error_code ExecNotReady = ''publication_execution_not_ready''"
| "execution_error_code ExecLeaseLost = ''publication_execution_lease_lost''"
| "execution_error_code ExecInvariant = ''publication_execution_invariant_failed''"
| "execution_error_code ExecClockUnavailable = ''publication_execution_clock_unavailable''"
| "execution_error_code ExecEntropyUnavailable = ''publication_execution_entropy_unavailable''"
| "execution_error_code ExecStorage = ''publication_execution_storage_failed''"
| "execution_error_code ExecCommitOutcomeUnknown = ''publication_execution_commit_outcome_unknown''"

datatype pub_error = PubInvalidInput | PubNotReady | PubLeaseLost | PubInvariant | PubStorage

record outbox_record =
  ox_id :: bytes
  ox_event_sha256 :: bytes
  ox_authority_sha256 :: bytes
  ox_target_set_sha256 :: bytes
  ox_target_count :: nat
  ox_required_target_count :: nat
  ox_max_attempts :: nat
  ox_initial_backoff_ms :: nat
  ox_maximum_backoff_ms :: nat
  ox_attempt_deadline_ms :: nat
  ox_state :: outbox_state
  ox_revision :: nat
  ox_next_attempt :: "nat option"
  ox_lease_owner :: "bytes option"
  ox_lease_expires :: "nat option"
  ox_created_at :: nat
  ox_updated_at :: nat

record authority_binding =
  ab_authority_sha256 :: bytes
  ab_target_set_sha256 :: bytes
  ab_target_count :: nat
  ab_required_target_count :: nat
  ab_max_attempts :: nat
  ab_initial_backoff_ms :: nat
  ab_maximum_backoff_ms :: nat
  ab_attempt_deadline_ms :: nat

record target_record =
  tr_ordinal :: nat
  tr_relay_id :: string
  tr_required :: bool
  tr_state :: target_state
  tr_revision :: nat
  tr_attempt_count :: nat
  tr_next_attempt :: "nat option"
  tr_last_attempt_id :: "bytes option"
  tr_updated_at :: nat

record attempt_record =
  ar_attempt_id :: bytes
  ar_outbox_id :: bytes
  ar_target_ordinal :: nat
  ar_attempt_number :: nat
  ar_event_sha256 :: bytes
  ar_lease_owner :: bytes
  ar_started_at :: nat
  ar_finished_at :: nat
  ar_outcome :: attempt_outcome

record publication_lease =
  pl_outbox :: outbox_record
  pl_owner :: bytes
  pl_expires_at :: nat

record prepared_attempt =
  pp_lease :: publication_lease
  pp_target :: target_record
  pp_attempt_id :: bytes
  pp_started_at :: nat
  pp_deadline_at :: nat
  pp_publication :: committed_publication

record record_input =
  ri_lease :: publication_lease
  ri_target_ordinal :: nat
  ri_target_revision :: nat
  ri_attempt_number :: nat
  ri_attempt_id :: bytes
  ri_started_at :: nat
  ri_finished_at :: nat
  ri_outcome :: attempt_outcome
  ri_retry_delay :: nat

record attempt_commit =
  ac_outbox_id :: bytes
  ac_attempt_id :: bytes
  ac_target_ordinal :: nat
  ac_attempt_number :: nat
  ac_outcome :: attempt_outcome
  ac_target_state :: target_state
  ac_outbox_state :: outbox_state

record outbox_disposition =
  od_state :: outbox_state
  od_next_attempt :: "nat option"

record recovery_candidate =
  rc_outbox :: outbox_record
  rc_retry_upper_bound :: nat

section \<open>Validated inputs\<close>

definition pub_lease_owner_from_bytes :: "bytes \<Rightarrow> (execution_error_kind, bytes) result" where
  "pub_lease_owner_from_bytes b =
     (if list_all (\<lambda>x. x = 0) b then Inl ExecInvalidInput else Inr b)"

definition pub_retry_delay_new :: "nat \<Rightarrow> (execution_error_kind, nat) result" where
  "pub_retry_delay_new v = (if 3600000 < v then Inl ExecInvalidInput else Inr v)"

definition authority_binding_from :: "publication_authority \<Rightarrow> authority_binding option" where
  "authority_binding_from authority =
     (if pa_mode authority = PublicationDisabled then None
      else (case pa_retry authority of
          None \<Rightarrow> None
        | Some retry \<Rightarrow>
            if length (pa_targets authority) \<le> 255
               \<and> length (filter pt_required (pa_targets authority)) \<le> 255
            then Some \<lparr>ab_authority_sha256 = pa_authority_sha256 authority,
              ab_target_set_sha256 = pa_target_set_sha256 authority,
              ab_target_count = length (pa_targets authority),
              ab_required_target_count = length (filter pt_required (pa_targets authority)),
              ab_max_attempts = rp_maximum_attempts retry,
              ab_initial_backoff_ms = rp_initial_backoff_ms retry,
              ab_maximum_backoff_ms = rp_maximum_backoff_ms retry,
              ab_attempt_deadline_ms = rp_attempt_deadline_ms retry\<rparr>
            else None))"

definition pub_i64_value :: "nat \<Rightarrow> (pub_error, int) result" where
  "pub_i64_value n = i64_of_u64 PubInvalidInput n"

definition pub_optional_i64 :: "nat option \<Rightarrow> (pub_error, int option) result" where
  "pub_optional_i64 v = transpose (map_option pub_i64_value v)"

section \<open>Decoding rows\<close>

definition pub_blob :: "nat \<Rightarrow> bytes \<Rightarrow> (pub_error, bytes) result" where
  "pub_blob n column = (if length column = n then Inr column else Inl PubInvariant)"

definition pub_bounded_text :: "string \<Rightarrow> nat \<Rightarrow> (pub_error, string) result" where
  "pub_bounded_text column maximum =
     (if length column \<le> maximum \<and> length (take (maximum + 1) column) = length column
      then Inr (take (maximum + 1) column) else Inl PubInvariant)"

definition pub_bounded_u16 :: "int \<Rightarrow> nat \<Rightarrow> nat \<Rightarrow> (pub_error, nat) result" where
  "pub_bounded_u16 column minimum maximum =
     and_then (u64_of_i64 PubInvariant column) (\<lambda>v.
       if v \<le> 65535 \<and> minimum \<le> v \<and> v \<le> maximum then Inr v else Inl PubInvariant)"

definition pub_bounded_u64 :: "int \<Rightarrow> nat \<Rightarrow> nat \<Rightarrow> (pub_error, nat) result" where
  "pub_bounded_u64 column minimum maximum =
     and_then (u64_of_i64 PubInvariant column) (\<lambda>v.
       if minimum \<le> v \<and> v \<le> maximum then Inr v else Inl PubInvariant)"

definition pub_positive_u64 :: "int \<Rightarrow> (pub_error, nat) result" where
  "pub_positive_u64 column = pub_bounded_u64 column 1 i64_max"

definition pub_nonnegative_millis :: "int \<Rightarrow> (pub_error, nat) result" where
  "pub_nonnegative_millis column = pub_bounded_u64 column 0 i64_max"

definition pub_optional_millis :: "int option \<Rightarrow> (pub_error, nat option) result" where
  "pub_optional_millis column =
     transpose (map_option (\<lambda>v. and_then (u64_of_i64 PubInvariant v) (\<lambda>n.
       if n \<le> i64_max then Inr n else Inl PubInvariant)) column)"

definition pub_optional_owner :: "bytes option \<Rightarrow> (pub_error, bytes option) result" where
  "pub_optional_owner column =
     (case column of
        None \<Rightarrow> Inr None
      | Some b \<Rightarrow>
          if length b = 16 \<and> length (take 17 b) = 16
          then (case pub_lease_owner_from_bytes (take 17 b) of
                  Inl _ \<Rightarrow> Inl PubInvariant | Inr owner \<Rightarrow> Inr (Some owner))
          else Inl PubInvariant)"

definition pub_optional_attempt_id :: "bytes option \<Rightarrow> (pub_error, bytes option) result" where
  "pub_optional_attempt_id column =
     (case column of
        None \<Rightarrow> Inr None
      | Some b \<Rightarrow>
          if length b = 32 \<and> length (take 33 b) = 32 then Inr (Some (take 33 b))
          else Inl PubInvariant)"

definition decode_outbox_state :: "string \<Rightarrow> (pub_error, outbox_state) result" where
  "decode_outbox_state s =
     (if s = ''pending'' then Inr OutboxPending
      else if s = ''leased'' then Inr OutboxLeased
      else if s = ''complete'' then Inr OutboxComplete
      else if s = ''blocked'' then Inr OutboxBlocked
      else Inl PubInvariant)"

definition decode_target_state :: "string \<Rightarrow> (pub_error, target_state) result" where
  "decode_target_state s =
     (if s = ''pending'' then Inr TargetPending
      else if s = ''submitted'' then Inr TargetSubmitted
      else if s = ''accepted'' then Inr TargetAccepted
      else if s = ''rejected'' then Inr TargetRejected
      else if s = ''rate_limited'' then Inr TargetRateLimited
      else if s = ''auth_required'' then Inr TargetAuthRequired
      else if s = ''failed'' then Inr TargetFailed
      else if s = ''unknown'' then Inr TargetUnknown
      else Inl PubInvariant)"

definition decode_attempt_outcome :: "string \<Rightarrow> (pub_error, attempt_outcome) result" where
  "decode_attempt_outcome s =
     (if s = ''submitted'' then Inr OutcomeSubmitted
      else if s = ''accepted'' then Inr OutcomeAccepted
      else if s = ''rejected'' then Inr OutcomeRejected
      else if s = ''rate_limited'' then Inr OutcomeRateLimited
      else if s = ''auth_required'' then Inr OutcomeAuthRequired
      else if s = ''failed'' then Inr OutcomeFailed
      else if s = ''unknown'' then Inr OutcomeUnknown
      else Inl PubInvariant)"

fun valid_outbox_shape ::
  "outbox_state \<Rightarrow> nat option \<Rightarrow> bytes option \<Rightarrow> nat option \<Rightarrow> bool" where
  "valid_outbox_shape OutboxPending next owner expires \<longleftrightarrow>
     next \<noteq> None \<and> owner = None \<and> expires = None"
| "valid_outbox_shape OutboxLeased next owner expires \<longleftrightarrow>
     next = None \<and> owner \<noteq> None \<and> (case expires of None \<Rightarrow> False | Some v \<Rightarrow> 0 < v)"
| "valid_outbox_shape OutboxComplete next owner expires \<longleftrightarrow>
     next = None \<and> owner = None \<and> expires = None"
| "valid_outbox_shape OutboxBlocked next owner expires \<longleftrightarrow>
     next = None \<and> owner = None \<and> expires = None"

definition decode_outbox :: "outbox_row \<Rightarrow> (pub_error, outbox_record) result" where
  "decode_outbox row =
     and_then (pub_blob 32 (ob_outbox_id row)) (\<lambda>ident.
     and_then (and_then (pub_bounded_text (ob_state row) 8) decode_outbox_state) (\<lambda>state.
     and_then (pub_bounded_u16 (ob_target_count row) 1 32) (\<lambda>target_count.
     and_then (pub_bounded_u16 (ob_required_target_count row) 0 target_count) (\<lambda>required_count.
     and_then (pub_bounded_u16 (ob_max_attempts row) 1 RHI_PUBLICATION_ATTEMPT_NUMBER_MAXIMUM) (\<lambda>attempts.
     and_then (pub_bounded_u64 (ob_initial_backoff_ms row) 1 60000) (\<lambda>initial.
     and_then (pub_bounded_u64 (ob_maximum_backoff_ms row) 1 3600000) (\<lambda>maximum.
     and_then (ensure (initial \<le> maximum) PubInvariant) (\<lambda>_.
     and_then (pub_bounded_u64 (ob_attempt_deadline_ms row) 100 30000) (\<lambda>deadline.
     and_then (pub_optional_owner (ob_lease_owner row)) (\<lambda>owner.
     and_then (pub_optional_millis (ob_lease_expires_unix_ms row)) (\<lambda>expires.
     and_then (pub_optional_millis (ob_next_attempt_unix_ms row)) (\<lambda>next_attempt.
     and_then (ensure (valid_outbox_shape state next_attempt owner expires) PubInvariant) (\<lambda>_.
     and_then (pub_blob 32 (ob_event_sha256 row)) (\<lambda>event_sha256.
     and_then (pub_blob 32 (ob_publication_authority_sha256 row)) (\<lambda>authority.
     and_then (pub_blob 32 (ob_target_set_sha256 row)) (\<lambda>target_set.
     and_then (pub_positive_u64 (ob_revision row)) (\<lambda>revision.
     and_then (pub_nonnegative_millis (ob_created_at_unix_ms row)) (\<lambda>created.
     and_then (pub_nonnegative_millis (ob_updated_at_unix_ms row)) (\<lambda>updated.
       Inr \<lparr>ox_id = ident, ox_event_sha256 = event_sha256, ox_authority_sha256 = authority,
         ox_target_set_sha256 = target_set, ox_target_count = target_count,
         ox_required_target_count = required_count, ox_max_attempts = attempts,
         ox_initial_backoff_ms = initial, ox_maximum_backoff_ms = maximum,
         ox_attempt_deadline_ms = deadline, ox_state = state, ox_revision = revision,
         ox_next_attempt = next_attempt, ox_lease_owner = owner, ox_lease_expires = expires,
         ox_created_at = created, ox_updated_at = updated\<rparr>)))))))))))))))))))"

definition decode_relay_id :: "string \<Rightarrow> (pub_error, string) result" where
  "decode_relay_id column =
     and_then (pub_bounded_text column 64) (\<lambda>relay_id.
       if relay_id = [] \<or> \<not> list_all relay_id_byte relay_id \<or> \<not> is_ascii_lowercase (hd relay_id)
       then Inl PubInvariant else Inr relay_id)"

definition decode_target :: "target_row \<Rightarrow> (pub_error, target_record) result" where
  "decode_target row =
     and_then (pub_bounded_u16 (tg_target_ordinal row) 0 RHI_PUBLICATION_TARGET_ORDINAL_MAXIMUM) (\<lambda>ordinal.
     and_then (decode_relay_id (tg_relay_id row)) (\<lambda>relay_id.
     and_then (if tg_required row = 0 then Inr False else if tg_required row = 1 then Inr True
       else Inl PubInvariant) (\<lambda>required.
     and_then (and_then (pub_bounded_text (tg_state row) 13) decode_target_state) (\<lambda>state.
     and_then (pub_bounded_u16 (tg_attempt_count row) 0 RHI_PUBLICATION_ATTEMPT_NUMBER_MAXIMUM) (\<lambda>attempt_count.
     and_then (pub_optional_attempt_id (tg_last_attempt_id row)) (\<lambda>last_attempt_id.
     and_then (ensure ((attempt_count = 0) = (last_attempt_id = None)) PubInvariant) (\<lambda>_.
     and_then (pub_positive_u64 (tg_revision row)) (\<lambda>revision.
     and_then (pub_optional_millis (tg_next_attempt_unix_ms row)) (\<lambda>next_attempt.
     and_then (pub_nonnegative_millis (tg_updated_at_unix_ms row)) (\<lambda>updated.
       Inr \<lparr>tr_ordinal = ordinal, tr_relay_id = relay_id, tr_required = required,
         tr_state = state, tr_revision = revision, tr_attempt_count = attempt_count,
         tr_next_attempt = next_attempt, tr_last_attempt_id = last_attempt_id,
         tr_updated_at = updated\<rparr>))))))))))"

definition decode_attempt :: "attempt_row \<Rightarrow> (pub_error, attempt_record) result" where
  "decode_attempt row =
     and_then (and_then (pub_bounded_text (at_outcome row) 13) decode_attempt_outcome) (\<lambda>outcome.
     and_then (pub_bounded_text (at_result_code row) 64) (\<lambda>result_code.
     and_then (ensure (result_code = outcome_code outcome) PubInvariant) (\<lambda>_.
     and_then (pub_blob 32 (at_attempt_id row)) (\<lambda>attempt_id.
     and_then (pub_blob 32 (at_outbox_id row)) (\<lambda>outbox_id.
     and_then (pub_bounded_u16 (at_target_ordinal row) 0 31) (\<lambda>ordinal.
     and_then (pub_bounded_u16 (at_attempt_number row) 1 100) (\<lambda>number.
     and_then (pub_blob 32 (at_event_sha256 row)) (\<lambda>event_sha256.
     and_then (pub_blob 16 (at_lease_owner row)) (\<lambda>owner.
     and_then (pub_nonnegative_millis (at_started_at_unix_ms row)) (\<lambda>started.
     and_then (pub_nonnegative_millis (at_finished_at_unix_ms row)) (\<lambda>finished.
       Inr \<lparr>ar_attempt_id = attempt_id, ar_outbox_id = outbox_id, ar_target_ordinal = ordinal,
         ar_attempt_number = number, ar_event_sha256 = event_sha256, ar_lease_owner = owner,
         ar_started_at = started, ar_finished_at = finished, ar_outcome = outcome\<rparr>)))))))))))"

end
