(* ===== verification/Publication_Operations.thy ===== *)
theory Publication_Operations
  imports Publication_Execution
begin

text \<open>
  The statements, the four transaction bodies and the public operations of
  \<open>src/src/publication_execution.rs\<close>.
\<close>

section \<open>Reads\<close>

definition exactly_zero_or_one :: "'r list \<Rightarrow> (pub_error, 'r option) result" where
  "exactly_zero_or_one rows =
     (case rows of [] \<Rightarrow> Inr None | [r] \<Rightarrow> Inr (Some r) | _ \<Rightarrow> Inl PubInvariant)"

definition read_outbox :: "bytes \<Rightarrow> pub_store \<Rightarrow> (pub_error, outbox_record option) result" where
  "read_outbox outbox_id s =
     and_then (exactly_zero_or_one (take 2 (filter (\<lambda>r. ob_outbox_id r = outbox_id) (outboxes s))))
       (\<lambda>row. transpose (map_option decode_outbox row))"

definition read_targets :: "bytes \<Rightarrow> pub_store \<Rightarrow> (pub_error, target_record list) result" where
  "read_targets outbox_id s =
     collect (map decode_target
       (take 33 (sort_key tg_target_ordinal (filter (\<lambda>r. tg_outbox_id r = outbox_id) (targets s)))))"

definition read_attempt :: "bytes \<Rightarrow> pub_store \<Rightarrow> (pub_error, attempt_record option) result" where
  "read_attempt attempt_id s =
     and_then (exactly_zero_or_one (take 2 (filter (\<lambda>r. at_attempt_id r = attempt_id) (attempts s))))
       (\<lambda>row. transpose (map_option decode_attempt row))"

text \<open>
  \<open>READ_CLAIMABLE_OUTBOX_SQL\<close> selects a constant NULL for the lease owner; \<open>READ_EXPIRED_OUTBOX_SQL\<close>
  selects the column.
\<close>

definition read_claimable_outbox :: "int \<Rightarrow> pub_store \<Rightarrow> outbox_row option" where
  "read_claimable_outbox now s =
     map_option (\<lambda>r. r\<lparr>ob_lease_owner := None\<rparr>)
       (select_min (\<lambda>r. (ob_next_attempt_unix_ms r, ob_created_at_unix_ms r, ob_outbox_id r))
         (filter (\<lambda>r. ob_state r = ''pending'' \<and> sql_le (ob_next_attempt_unix_ms r) now) (outboxes s)))"

definition read_expired_outbox :: "int \<Rightarrow> pub_store \<Rightarrow> outbox_row option" where
  "read_expired_outbox now s =
     select_min (\<lambda>r. (ob_lease_expires_unix_ms r, ob_created_at_unix_ms r, ob_outbox_id r))
       (filter (\<lambda>r. ob_state r = ''leased'' \<and> sql_le (ob_lease_expires_unix_ms r) now) (outboxes s))"

section \<open>Writes\<close>

definition update_outboxes ::
  "(outbox_row \<Rightarrow> bool) \<Rightarrow> (outbox_row \<Rightarrow> outbox_row) \<Rightarrow> pub_store \<Rightarrow> (pub_error, pub_store \<times> nat) result"
  where
  "update_outboxes p f s =
     (case sql_update outbox_guard (outboxes_valid (signed_events s)) p f (outboxes s) of
        None \<Rightarrow> Inl PubStorage
      | Some (rows, n) \<Rightarrow> Inr (s\<lparr>outboxes := rows\<rparr>, n))"

definition update_targets ::
  "(target_row \<Rightarrow> bool) \<Rightarrow> (target_row \<Rightarrow> target_row) \<Rightarrow> pub_store \<Rightarrow> (pub_error, pub_store \<times> nat) result"
  where
  "update_targets p f s =
     (case sql_update target_guard (targets_valid (outboxes s)) p f (targets s) of
        None \<Rightarrow> Inl PubStorage
      | Some (rows, n) \<Rightarrow> Inr (s\<lparr>targets := rows\<rparr>, n))"

definition claim_outbox_where :: "bytes \<Rightarrow> int \<Rightarrow> int \<Rightarrow> outbox_row \<Rightarrow> bool" where
  "claim_outbox_where outbox_id revision now r \<longleftrightarrow>
     ob_outbox_id r = outbox_id \<and> ob_revision r = revision \<and> ob_state r = ''pending''
   \<and> sql_le (ob_next_attempt_unix_ms r) now \<and> ob_updated_at_unix_ms r \<le> now"

definition claim_outbox_set :: "bytes \<Rightarrow> int \<Rightarrow> int \<Rightarrow> outbox_row \<Rightarrow> outbox_row" where
  "claim_outbox_set owner expires now r =
     r\<lparr>ob_state := ''leased'', ob_revision := ob_revision r + 1, ob_next_attempt_unix_ms := None,
       ob_lease_owner := Some owner, ob_lease_expires_unix_ms := Some expires,
       ob_updated_at_unix_ms := now\<rparr>"

definition prepare_target_where :: "bytes \<Rightarrow> int \<Rightarrow> int \<Rightarrow> int \<Rightarrow> int \<Rightarrow> target_row \<Rightarrow> bool" where
  "prepare_target_where outbox_id ordinal revision max_attempts started r \<longleftrightarrow>
     tg_outbox_id r = outbox_id \<and> tg_target_ordinal r = ordinal \<and> tg_revision r = revision
   \<and> tg_state r \<in> {''pending'', ''failed'', ''rate_limited'', ''unknown''}
   \<and> tg_attempt_count r < max_attempts \<and> sql_le (tg_next_attempt_unix_ms r) started
   \<and> tg_updated_at_unix_ms r \<le> started"

definition prepare_target_set :: "bytes \<Rightarrow> int \<Rightarrow> target_row \<Rightarrow> target_row" where
  "prepare_target_set attempt_id started r =
     r\<lparr>tg_state := ''submitted'', tg_revision := tg_revision r + 1,
       tg_attempt_count := tg_attempt_count r + 1, tg_next_attempt_unix_ms := None,
       tg_last_attempt_id := Some attempt_id, tg_updated_at_unix_ms := started\<rparr>"

definition target_outcome_where :: "bytes \<Rightarrow> int \<Rightarrow> int \<Rightarrow> int \<Rightarrow> bytes \<Rightarrow> target_row \<Rightarrow> bool" where
  "target_outcome_where outbox_id ordinal revision attempt_count attempt_id r \<longleftrightarrow>
     tg_outbox_id r = outbox_id \<and> tg_target_ordinal r = ordinal \<and> tg_revision r = revision
   \<and> tg_state r = ''submitted'' \<and> tg_attempt_count r = attempt_count
   \<and> tg_last_attempt_id r = Some attempt_id"

definition target_outcome_set :: "string \<Rightarrow> int option \<Rightarrow> int \<Rightarrow> target_row \<Rightarrow> target_row" where
  "target_outcome_set state next finished r =
     r\<lparr>tg_state := state, tg_revision := tg_revision r + 1, tg_next_attempt_unix_ms := next,
       tg_updated_at_unix_ms := finished\<rparr>"

text \<open>
  \<open>UPDATE_OUTBOX_AFTER_ATTEMPT_SQL\<close> and \<open>UPDATE_OUTBOX_RECOVERY_SQL\<close> set the same columns; the first
  requires the lease to be in force, the second that it has expired.
\<close>

definition leased_outbox_where :: "bytes \<Rightarrow> int \<Rightarrow> bytes \<Rightarrow> int \<Rightarrow> int \<Rightarrow> outbox_row \<Rightarrow> bool" where
  "leased_outbox_where outbox_id revision owner expires now r \<longleftrightarrow>
     ob_outbox_id r = outbox_id \<and> ob_revision r = revision \<and> ob_state r = ''leased''
   \<and> ob_lease_owner r = Some owner \<and> ob_lease_expires_unix_ms r = Some expires
   \<and> ob_updated_at_unix_ms r \<le> now"

definition after_attempt_where :: "bytes \<Rightarrow> int \<Rightarrow> bytes \<Rightarrow> int \<Rightarrow> int \<Rightarrow> outbox_row \<Rightarrow> bool" where
  "after_attempt_where outbox_id revision owner expires now r \<longleftrightarrow>
     leased_outbox_where outbox_id revision owner expires now r
   \<and> sql_gt (ob_lease_expires_unix_ms r) now"

definition recovery_where :: "bytes \<Rightarrow> int \<Rightarrow> bytes \<Rightarrow> int \<Rightarrow> int \<Rightarrow> outbox_row \<Rightarrow> bool" where
  "recovery_where outbox_id revision owner expires now r \<longleftrightarrow>
     leased_outbox_where outbox_id revision owner expires now r
   \<and> sql_le (ob_lease_expires_unix_ms r) now"

definition release_outbox_set :: "string \<Rightarrow> int option \<Rightarrow> int \<Rightarrow> outbox_row \<Rightarrow> outbox_row" where
  "release_outbox_set state next now r =
     r\<lparr>ob_state := state, ob_revision := ob_revision r + 1, ob_next_attempt_unix_ms := next,
       ob_lease_owner := None, ob_lease_expires_unix_ms := None, ob_updated_at_unix_ms := now\<rparr>"

definition insert_attempt :: "record_input \<Rightarrow> pub_store \<Rightarrow> (pub_error, pub_store) result" where
  "insert_attempt input s =
     and_then (pub_i64_value (ri_started_at input)) (\<lambda>started.
     and_then (pub_i64_value (ri_finished_at input)) (\<lambda>finished.
       case sql_insert (\<lambda>_ _. True) (attempts_valid (targets s))
          \<lparr>at_attempt_id = ri_attempt_id input, at_outbox_id = ox_id (pl_outbox (ri_lease input)),
            at_target_ordinal = int (ri_target_ordinal input),
            at_attempt_number = int (ri_attempt_number input),
            at_event_sha256 = ox_event_sha256 (pl_outbox (ri_lease input)),
            at_lease_owner = pl_owner (ri_lease input), at_started_at_unix_ms = started,
            at_finished_at_unix_ms = finished, at_outcome = outcome_code (ri_outcome input),
            at_result_code = outcome_code (ri_outcome input)\<rparr> (attempts s) of
         None \<Rightarrow> Inl PubStorage
       | Some rows \<Rightarrow> Inr (s\<lparr>attempts := rows\<rparr>)))"

section \<open>Inventory, authority, schedule\<close>

fun duplicate_relay :: "target_record list \<Rightarrow> bool" where
  "duplicate_relay [] = False"
| "duplicate_relay (t # ts) \<longleftrightarrow> list_ex (\<lambda>u. tr_relay_id u = tr_relay_id t) ts \<or> duplicate_relay ts"

definition record_triple :: "target_record \<Rightarrow> nat \<times> string \<times> bool" where
  "record_triple t = (tr_ordinal t, tr_relay_id t, tr_required t)"

definition validate_targets ::
  "(bytes \<Rightarrow> bytes) \<Rightarrow> outbox_record \<Rightarrow> target_record list \<Rightarrow> (pub_error, unit) result" where
  "validate_targets sha256 outbox ts =
     (if length ts \<noteq> ox_target_count outbox
         \<or> RHI_PUBLICATION_TARGET_ORDINAL_MAXIMUM + 1 < length ts
         \<or> map tr_ordinal ts \<noteq> [0..<length ts]
         \<or> length (filter tr_required ts) \<noteq> ox_required_target_count outbox
      then Inl PubInvariant
      else if duplicate_relay ts then Inl PubInvariant
      else if sha256 (target_set_preimage (ox_target_count outbox) (map record_triple ts))
                \<noteq> ox_target_set_sha256 outbox
      then Inl PubInvariant
      else Inr ())"

definition validate_target_inventory ::
  "(bytes \<Rightarrow> bytes) \<Rightarrow> outbox_record \<Rightarrow> pub_store \<Rightarrow> (pub_error, unit) result" where
  "validate_target_inventory sha256 outbox s =
     and_then (read_targets (ox_id outbox) s) (validate_targets sha256 outbox)"

definition validate_authority :: "outbox_record \<Rightarrow> authority_binding \<Rightarrow> (pub_error, unit) result" where
  "validate_authority outbox authority =
     (if ox_authority_sha256 outbox \<noteq> ab_authority_sha256 authority
         \<or> ox_target_set_sha256 outbox \<noteq> ab_target_set_sha256 authority
         \<or> ox_target_count outbox \<noteq> ab_target_count authority
         \<or> ox_required_target_count outbox \<noteq> ab_required_target_count authority
         \<or> ox_max_attempts outbox \<noteq> ab_max_attempts authority
         \<or> ox_initial_backoff_ms outbox \<noteq> ab_initial_backoff_ms authority
         \<or> ox_maximum_backoff_ms outbox \<noteq> ab_maximum_backoff_ms authority
         \<or> ox_attempt_deadline_ms outbox \<noteq> ab_attempt_deadline_ms authority
      then Inl PubInvariant else Inr ())"

fun retryable_state :: "target_state \<Rightarrow> bool" where
  "retryable_state TargetPending = True"
| "retryable_state TargetFailed = True"
| "retryable_state TargetRateLimited = True"
| "retryable_state TargetUnknown = True"
| "retryable_state _ = False"

fun retryable_outcome :: "attempt_outcome \<Rightarrow> bool" where
  "retryable_outcome OutcomeRateLimited = True"
| "retryable_outcome OutcomeFailed = True"
| "retryable_outcome OutcomeUnknown = True"
| "retryable_outcome _ = False"

definition target_is_blocking :: "nat \<Rightarrow> target_record \<Rightarrow> bool" where
  "target_is_blocking max_attempts t \<longleftrightarrow>
     tr_state t = TargetRejected \<or> tr_state t = TargetAuthRequired
   \<or> (retryable_state (tr_state t) \<and> max_attempts \<le> tr_attempt_count t \<and> tr_next_attempt t = None)"

definition target_is_due :: "nat \<Rightarrow> nat \<Rightarrow> target_record \<Rightarrow> bool" where
  "target_is_due max_attempts now t \<longleftrightarrow>
     retryable_state (tr_state t) \<and> tr_attempt_count t < max_attempts
   \<and> (case tr_next_attempt t of None \<Rightarrow> False | Some next \<Rightarrow> next \<le> now)"

definition disposition ::
  "(bytes \<Rightarrow> bytes) \<Rightarrow> outbox_record \<Rightarrow> target_record list \<Rightarrow> (pub_error, outbox_disposition) result"
  where
  "disposition sha256 outbox ts =
     and_then (validate_targets sha256 outbox ts) (\<lambda>_.
       let required = filter tr_required ts in
       if list_all (\<lambda>t. tr_state t = TargetAccepted) required
       then Inr \<lparr>od_state = OutboxComplete, od_next_attempt = None\<rparr>
       else if list_ex (target_is_blocking (ox_max_attempts outbox)) required
       then Inr \<lparr>od_state = OutboxBlocked, od_next_attempt = None\<rparr>
       else and_then (ok_or PubInvariant (select_min id (List.map_filter tr_next_attempt required)))
         (\<lambda>next. Inr \<lparr>od_state = OutboxPending, od_next_attempt = Some next\<rparr>))"

fun retry_bound_loop :: "nat \<Rightarrow> nat \<Rightarrow> nat \<Rightarrow> nat" where
  "retry_bound_loop maximum bound 0 = bound"
| "retry_bound_loop maximum bound (Suc turns) =
     retry_bound_loop maximum (min (saturating_mul bound 2) maximum) turns"

definition retry_upper_bound :: "outbox_record \<Rightarrow> nat \<Rightarrow> nat" where
  "retry_upper_bound outbox attempt_number =
     min (retry_bound_loop (ox_maximum_backoff_ms outbox) (ox_initial_backoff_ms outbox)
            (attempt_number - 1))
       (ox_maximum_backoff_ms outbox)"

definition target_outcome_schedule ::
  "record_input \<Rightarrow> (pub_error, target_state \<times> nat option) result" where
  "target_outcome_schedule input =
     (let outbox = pl_outbox (ri_lease input) in
      if ri_outcome input = OutcomeSubmitted then Inl PubInvalidInput
      else if retryable_outcome (ri_outcome input) \<and> ri_attempt_number input < ox_max_attempts outbox
      then if retry_upper_bound outbox (ri_attempt_number input) < ri_retry_delay input
           then Inl PubInvalidInput
           else and_then (ok_or PubInvalidInput (option_filter (\<lambda>v. v \<le> i64_max)
                  (checked_add (ri_finished_at input) (ri_retry_delay input))))
                (\<lambda>next. Inr (outcome_target_state (ri_outcome input), Some next))
      else if ri_retry_delay input \<noteq> 0 then Inl PubInvalidInput
      else Inr (outcome_target_state (ri_outcome input), None))"

section \<open>Transaction bodies\<close>

definition claim_next_outbox ::
  "(bytes \<Rightarrow> bytes) \<Rightarrow> bytes \<Rightarrow> nat \<Rightarrow> authority_binding \<Rightarrow> pub_store
     \<Rightarrow> (pub_error, publication_lease option \<times> pub_store) result" where
  "claim_next_outbox sha256 owner now authority s =
     and_then (pub_i64_value now) (\<lambda>now_ms.
     case read_claimable_outbox now_ms s of
       None \<Rightarrow> Inr (None, s)
     | Some row \<Rightarrow>
         and_then (decode_outbox row) (\<lambda>outbox.
         and_then (validate_authority outbox authority) (\<lambda>_.
         and_then (validate_target_inventory sha256 outbox s) (\<lambda>_.
         and_then (ok_or PubInvalidInput (option_filter (\<lambda>v. v \<le> i64_max)
           (checked_add now (ox_attempt_deadline_ms outbox)))) (\<lambda>expires.
         and_then (pub_i64_value expires) (\<lambda>expires_ms.
         and_then (pub_i64_value (ox_revision outbox)) (\<lambda>revision.
         and_then (update_outboxes (claim_outbox_where (ox_id outbox) revision now_ms)
           (claim_outbox_set owner expires_ms now_ms) s) (\<lambda>(s, n).
           if n \<noteq> 1 then Inl PubLeaseLost
           else and_then (read_outbox (ox_id outbox) s) (\<lambda>found.
             and_then (ok_or PubInvariant (option_filter (\<lambda>r. ox_state r = OutboxLeased
               \<and> ox_lease_owner r = Some owner \<and> ox_lease_expires r = Some expires) found)) (\<lambda>leased.
               Inr (Some \<lparr>pl_outbox = leased, pl_owner = owner, pl_expires_at = expires\<rparr>, s)))))))))))"

definition pub_validate_lease ::
  "publication_lease \<Rightarrow> nat \<Rightarrow> bool \<Rightarrow> pub_store \<Rightarrow> (pub_error, unit) result" where
  "pub_validate_lease lease now require_unexpired s =
     and_then (read_outbox (ox_id (pl_outbox lease)) s) (\<lambda>found.
     and_then (ok_or PubLeaseLost (option_filter (\<lambda>current. current = pl_outbox lease) found)) (\<lambda>current.
       if ox_state current \<noteq> OutboxLeased
          \<or> ox_lease_owner current \<noteq> Some (pl_owner lease)
          \<or> ox_lease_expires current \<noteq> Some (pl_expires_at lease)
          \<or> (require_unexpired \<and> pl_expires_at lease \<le> now)
       then Inl PubLeaseLost else Inr ()))"

definition submission_read_error :: "read_error \<Rightarrow> pub_error" where
  "submission_read_error e = (case e of ReadStorage \<Rightarrow> PubStorage | _ \<Rightarrow> PubInvariant)"

definition submit_target ::
  "(bytes \<Rightarrow> bytes) \<Rightarrow> publication_lease \<Rightarrow> nat \<Rightarrow> target_record \<Rightarrow> nat \<Rightarrow> bytes \<Rightarrow> pub_store
     \<Rightarrow> (pub_error, target_record \<times> pub_store) result" where
  "submit_target sha256 lease started candidate attempt_number attempt_id s =
     and_then (pub_i64_value started) (\<lambda>started_ms.
     and_then (pub_i64_value (tr_revision candidate)) (\<lambda>revision.
     and_then (update_targets
       (prepare_target_where (ox_id (pl_outbox lease)) (int (tr_ordinal candidate)) revision
         (int (ox_max_attempts (pl_outbox lease))) started_ms)
       (prepare_target_set attempt_id started_ms) s) (\<lambda>(s, n).
       if n \<noteq> 1 then Inl PubLeaseLost
       else and_then (read_targets (ox_id (pl_outbox lease)) s) (\<lambda>ts.
         and_then (ok_or PubInvariant (option_filter (\<lambda>t. tr_state t = TargetSubmitted
           \<and> tr_attempt_count t = attempt_number \<and> tr_last_attempt_id t = Some attempt_id)
           (find (\<lambda>t. tr_ordinal t = tr_ordinal candidate) ts))) (\<lambda>t. Inr (t, s))))))"

definition prepare_next ::
  "(bytes \<Rightarrow> bytes) \<Rightarrow> publication_lease \<Rightarrow> nat \<Rightarrow> pub_store
     \<Rightarrow> (pub_error, prepared_attempt \<times> pub_store) result" where
  "prepare_next sha256 lease started s =
     and_then (pub_validate_lease lease started True s) (\<lambda>_.
     and_then (read_targets (ox_id (pl_outbox lease)) s) (\<lambda>ts.
     and_then (validate_targets sha256 (pl_outbox lease) ts) (\<lambda>_.
     and_then (ok_or PubNotReady
       (find (target_is_due (ox_max_attempts (pl_outbox lease)) started) ts)) (\<lambda>candidate.
     and_then (ok_or PubInvariant (option_filter (\<lambda>v. v \<le> ox_max_attempts (pl_outbox lease))
       (if tr_attempt_count candidate + 1 \<le> 65535 then Some (tr_attempt_count candidate + 1)
        else None))) (\<lambda>attempt_number.
     let attempt_id = derive_attempt_id sha256 (ox_id (pl_outbox lease))
           (ox_event_sha256 (pl_outbox lease)) (tr_ordinal candidate) attempt_number in
     and_then (submit_target sha256 lease started candidate attempt_number attempt_id s) (\<lambda>(target, s).
     and_then (map_err submission_read_error (read_committed sha256 (ox_id (pl_outbox lease)) s)) (\<lambda>publication.
       if cp_event_sha256 publication \<noteq> ox_event_sha256 (pl_outbox lease) then Inl PubInvariant
       else Inr (\<lparr>pp_lease = lease, pp_target = target, pp_attempt_id = attempt_id,
         pp_started_at = started, pp_deadline_at = pl_expires_at lease,
         pp_publication = publication\<rparr>, s))))))))"

definition attempt_record_from_input :: "record_input \<Rightarrow> attempt_record" where
  "attempt_record_from_input input =
     \<lparr>ar_attempt_id = ri_attempt_id input, ar_outbox_id = ox_id (pl_outbox (ri_lease input)),
       ar_target_ordinal = ri_target_ordinal input, ar_attempt_number = ri_attempt_number input,
       ar_event_sha256 = ox_event_sha256 (pl_outbox (ri_lease input)),
       ar_lease_owner = pl_owner (ri_lease input), ar_started_at = ri_started_at input,
       ar_finished_at = ri_finished_at input, ar_outcome = ri_outcome input\<rparr>"

definition same_outbox_identity :: "outbox_record \<Rightarrow> outbox_record \<Rightarrow> bool" where
  "same_outbox_identity current prior \<longleftrightarrow>
     ox_id current = ox_id prior
   \<and> ox_event_sha256 current = ox_event_sha256 prior
   \<and> ox_authority_sha256 current = ox_authority_sha256 prior
   \<and> ox_target_set_sha256 current = ox_target_set_sha256 prior
   \<and> ox_target_count current = ox_target_count prior
   \<and> ox_required_target_count current = ox_required_target_count prior
   \<and> ox_max_attempts current = ox_max_attempts prior
   \<and> ox_initial_backoff_ms current = ox_initial_backoff_ms prior
   \<and> ox_maximum_backoff_ms current = ox_maximum_backoff_ms prior
   \<and> ox_attempt_deadline_ms current = ox_attempt_deadline_ms prior
   \<and> ox_created_at current = ox_created_at prior"

definition commit_of_input :: "record_input \<Rightarrow> target_state \<Rightarrow> outbox_state \<Rightarrow> attempt_commit" where
  "commit_of_input input target_state outbox_state =
     \<lparr>ac_outbox_id = ox_id (pl_outbox (ri_lease input)), ac_attempt_id = ri_attempt_id input,
       ac_target_ordinal = ri_target_ordinal input, ac_attempt_number = ri_attempt_number input,
       ac_outcome = ri_outcome input, ac_target_state = target_state,
       ac_outbox_state = outbox_state\<rparr>"

definition reconcile_recorded ::
  "(bytes \<Rightarrow> bytes) \<Rightarrow> record_input \<Rightarrow> attempt_record \<Rightarrow> pub_store \<Rightarrow> (pub_error, attempt_commit) result"
  where
  "reconcile_recorded sha256 input existing s =
     and_then (ensure (existing = attempt_record_from_input input) PubInvariant) (\<lambda>_.
     and_then (read_outbox (ox_id (pl_outbox (ri_lease input))) s) (\<lambda>found.
     and_then (ok_or PubInvariant found) (\<lambda>outbox.
     and_then (ok_or PubInvariant (checked_add (ox_revision (pl_outbox (ri_lease input))) 1)) (\<lambda>revision.
     and_then (ensure (same_outbox_identity outbox (pl_outbox (ri_lease input))
         \<and> ox_revision outbox = revision
         \<and> ox_updated_at outbox = ri_finished_at input
         \<and> ox_lease_owner outbox = None
         \<and> ox_lease_expires outbox = None) PubInvariant) (\<lambda>_.
     and_then (read_targets (ox_id outbox) s) (\<lambda>ts.
     and_then (validate_targets sha256 outbox ts) (\<lambda>_.
     and_then (target_outcome_schedule input) (\<lambda>(expected_state, expected_schedule).
     and_then (ok_or PubInvariant (checked_add (ri_target_revision input) 1)) (\<lambda>target_revision.
     and_then (ok_or PubInvariant (option_filter (\<lambda>t. tr_revision t = target_revision
         \<and> tr_attempt_count t = ri_attempt_number input
         \<and> tr_last_attempt_id t = Some (ri_attempt_id input)
         \<and> tr_state t = expected_state \<and> tr_next_attempt t = expected_schedule
         \<and> tr_updated_at t = ri_finished_at input)
       (find (\<lambda>t. tr_ordinal t = ri_target_ordinal input) ts))) (\<lambda>target.
     and_then (disposition sha256 outbox ts) (\<lambda>expected.
       if ox_state outbox \<noteq> od_state expected \<or> ox_next_attempt outbox \<noteq> od_next_attempt expected
       then Inl PubInvariant
       else Inr \<lparr>ac_outbox_id = ox_id outbox, ac_attempt_id = ri_attempt_id input,
         ac_target_ordinal = ri_target_ordinal input, ac_attempt_number = ri_attempt_number input,
         ac_outcome = ri_outcome input, ac_target_state = tr_state target,
         ac_outbox_state = ox_state outbox\<rparr>)))))))))))"

text \<open>The evidence insertion and the target's compare-and-swap that recording and recovery share.\<close>

definition settle_target ::
  "record_input \<Rightarrow> pub_store \<Rightarrow> (pub_error, target_state \<times> pub_store) result" where
  "settle_target input s =
     and_then (insert_attempt input s) (\<lambda>s.
     and_then (target_outcome_schedule input) (\<lambda>(next_state, next_attempt).
     and_then (pub_optional_i64 next_attempt) (\<lambda>next_ms.
     and_then (pub_i64_value (ri_finished_at input)) (\<lambda>finished.
     and_then (pub_i64_value (ri_target_revision input)) (\<lambda>revision.
     and_then (update_targets
       (target_outcome_where (ox_id (pl_outbox (ri_lease input))) (int (ri_target_ordinal input))
         revision (int (ri_attempt_number input)) (ri_attempt_id input))
       (target_outcome_set (target_state_code next_state) next_ms finished) s) (\<lambda>(s, n).
       if n \<noteq> 1 then Inl PubLeaseLost else Inr (next_state, s)))))))"

definition release_outbox ::
  "(bytes \<Rightarrow> int \<Rightarrow> bytes \<Rightarrow> int \<Rightarrow> int \<Rightarrow> outbox_row \<Rightarrow> bool) \<Rightarrow> outbox_record \<Rightarrow> bytes \<Rightarrow> nat \<Rightarrow> nat
     \<Rightarrow> outbox_disposition \<Rightarrow> pub_store \<Rightarrow> (pub_error, pub_store) result" where
  "release_outbox released_where outbox owner expires now disp s =
     and_then (pub_optional_i64 (od_next_attempt disp)) (\<lambda>next_ms.
     and_then (pub_i64_value now) (\<lambda>now_ms.
     and_then (pub_i64_value (ox_revision outbox)) (\<lambda>revision.
     and_then (pub_i64_value expires) (\<lambda>expires_ms.
     and_then (update_outboxes (released_where (ox_id outbox) revision owner expires_ms now_ms)
       (release_outbox_set (outbox_state_code (od_state disp)) next_ms now_ms) s) (\<lambda>(s, n).
       if n \<noteq> 1 then Inl PubLeaseLost else Inr s)))))"

definition record_outcome ::
  "(bytes \<Rightarrow> bytes) \<Rightarrow> record_input \<Rightarrow> pub_store \<Rightarrow> (pub_error, attempt_commit \<times> pub_store) result"
  where
  "record_outcome sha256 input s =
     and_then (read_attempt (ri_attempt_id input) s) (\<lambda>recorded.
     case recorded of
       Some existing \<Rightarrow>
         and_then (reconcile_recorded sha256 input existing s) (\<lambda>commit. Inr (commit, s))
     | None \<Rightarrow>
         and_then (pub_validate_lease (ri_lease input) (ri_finished_at input) True s) (\<lambda>_.
         and_then (read_targets (ox_id (pl_outbox (ri_lease input))) s) (\<lambda>ts.
         and_then (ok_or PubInvariant
           (find (\<lambda>t. tr_ordinal t = ri_target_ordinal input) ts)) (\<lambda>target.
         and_then (ensure (tr_state target = TargetSubmitted
             \<and> tr_revision target = ri_target_revision input
             \<and> tr_attempt_count target = ri_attempt_number input
             \<and> tr_last_attempt_id target = Some (ri_attempt_id input)
             \<and> tr_updated_at target = ri_started_at input) PubLeaseLost) (\<lambda>_.
         and_then (settle_target input s) (\<lambda>(next_state, s).
         and_then (read_targets (ox_id (pl_outbox (ri_lease input))) s) (\<lambda>ts.
         and_then (disposition sha256 (pl_outbox (ri_lease input)) ts) (\<lambda>disp.
         and_then (release_outbox after_attempt_where (pl_outbox (ri_lease input))
           (pl_owner (ri_lease input)) (pl_expires_at (ri_lease input)) (ri_finished_at input)
           disp s) (\<lambda>s.
           Inr (commit_of_input input next_state (od_state disp), s))))))))))"

definition read_expired_candidate ::
  "(bytes \<Rightarrow> bytes) \<Rightarrow> nat \<Rightarrow> authority_binding \<Rightarrow> pub_store
     \<Rightarrow> (pub_error, recovery_candidate option) result" where
  "read_expired_candidate sha256 now authority s =
     and_then (pub_i64_value now) (\<lambda>now_ms.
     case read_expired_outbox now_ms s of
       None \<Rightarrow> Inr None
     | Some row \<Rightarrow>
         and_then (decode_outbox row) (\<lambda>outbox.
         and_then (validate_authority outbox authority) (\<lambda>_.
         and_then (read_targets (ox_id outbox) s) (\<lambda>ts.
         and_then (validate_targets sha256 outbox ts) (\<lambda>_.
         let submitted = map tr_attempt_count (filter (\<lambda>t. tr_state t = TargetSubmitted) ts) in
         if 1 < length submitted then Inl PubInvariant
         else Inr (Some \<lparr>rc_outbox = outbox, rc_retry_upper_bound =
           (case submitted of
              [] \<Rightarrow> 0
            | attempt # _ \<Rightarrow>
                if attempt < ox_max_attempts outbox then retry_upper_bound outbox attempt else 0)\<rparr>))))))"

definition recover_target ::
  "(bytes \<Rightarrow> bytes) \<Rightarrow> outbox_record \<Rightarrow> bytes \<Rightarrow> nat \<Rightarrow> nat \<Rightarrow> target_record \<Rightarrow> pub_store
     \<Rightarrow> (pub_error, pub_store) result" where
  "recover_target sha256 current owner now delay target s =
     and_then (ok_or PubInvariant (tr_last_attempt_id target)) (\<lambda>attempt_id.
     and_then (map_err submission_read_error (read_committed sha256 (ox_id current) s)) (\<lambda>publication.
     and_then (map_err (\<lambda>_. PubInvariant) (attempt_evidence_new sha256 publication (tr_ordinal target)
       (tr_attempt_count target) (tr_updated_at target) now OutcomeUnknown)) (\<lambda>evidence.
     and_then (read_attempt attempt_id s) (\<lambda>recorded.
     and_then (ensure (attempt_id = ev_id evidence \<and> recorded = None) PubInvariant) (\<lambda>_.
     and_then (ok_or PubInvariant (ox_lease_expires current)) (\<lambda>expires.
     and_then (settle_target
       \<lparr>ri_lease = \<lparr>pl_outbox = current, pl_owner = owner, pl_expires_at = expires\<rparr>,
         ri_target_ordinal = tr_ordinal target, ri_target_revision = tr_revision target,
         ri_attempt_number = tr_attempt_count target, ri_attempt_id = attempt_id,
         ri_started_at = tr_updated_at target, ri_finished_at = now,
         ri_outcome = OutcomeUnknown, ri_retry_delay = delay\<rparr> s) (\<lambda>(_, s). Inr s)))))))"

fun recover_targets ::
  "(bytes \<Rightarrow> bytes) \<Rightarrow> outbox_record \<Rightarrow> bytes \<Rightarrow> nat \<Rightarrow> nat \<Rightarrow> target_record list \<Rightarrow> pub_store
     \<Rightarrow> (pub_error, pub_store) result" where
  "recover_targets sha256 current owner now delay [] s = Inr s"
| "recover_targets sha256 current owner now delay (t # ts) s =
     and_then (recover_target sha256 current owner now delay t s) (\<lambda>s.
       recover_targets sha256 current owner now delay ts s)"

definition recover_expired ::
  "(bytes \<Rightarrow> bytes) \<Rightarrow> recovery_candidate \<Rightarrow> nat \<Rightarrow> nat \<Rightarrow> pub_store \<Rightarrow> (pub_error, bool \<times> pub_store) result"
  where
  "recover_expired sha256 candidate now delay s =
     and_then (read_outbox (ox_id (rc_outbox candidate)) s) (\<lambda>found.
     and_then (ok_or PubLeaseLost
       (option_filter (\<lambda>current. current = rc_outbox candidate) found)) (\<lambda>current.
     if ox_state current \<noteq> OutboxLeased
        \<or> (case ox_lease_expires current of None \<Rightarrow> True | Some expires \<Rightarrow> now < expires)
     then Inl PubLeaseLost
     else and_then (ok_or PubInvariant (ox_lease_owner current)) (\<lambda>owner.
       and_then (read_targets (ox_id current) s) (\<lambda>ts.
       and_then (validate_targets sha256 current ts) (\<lambda>_.
       and_then (recover_targets sha256 current owner now delay
         (filter (\<lambda>t. tr_state t = TargetSubmitted) ts) s) (\<lambda>s.
       and_then (read_targets (ox_id current) s) (\<lambda>ts.
       and_then (disposition sha256 current ts) (\<lambda>disp.
       and_then (ok_or PubInvariant (ox_lease_expires current)) (\<lambda>expires.
       and_then (release_outbox recovery_where current owner expires now disp s) (\<lambda>s.
         Inr (True, s)))))))))))"

section \<open>Public operations\<close>

definition pub_require_writable :: "state_host_mode \<Rightarrow> (execution_error_kind, unit) result" where
  "pub_require_writable mode =
     (if mode = ReadWriteExisting then Inr () else Inl ExecInvalidMode)"

fun map_pub_transaction_error :: "pub_error tx_error \<Rightarrow> execution_error_kind" where
  "map_pub_transaction_error CommitOutcomeUnknown = ExecCommitOutcomeUnknown"
| "map_pub_transaction_error (OperationFailed PubInvalidInput) = ExecInvalidInput"
| "map_pub_transaction_error (OperationFailed PubNotReady) = ExecNotReady"
| "map_pub_transaction_error (OperationFailed PubLeaseLost) = ExecLeaseLost"
| "map_pub_transaction_error (OperationFailed PubInvariant) = ExecInvariant"
| "map_pub_transaction_error (OperationFailed PubStorage) = ExecStorage"
| "map_pub_transaction_error HostFailed = ExecStorage"

text \<open>
  The host of the state database: its mode, and its transaction at each of the result types the
  executor uses.
\<close>

record pub_host =
  ph_mode :: state_host_mode
  ph_claim :: "(pub_error, publication_lease option, pub_store) txn"
  ph_prepare :: "(pub_error, prepared_attempt, pub_store) txn"
  ph_record :: "(pub_error, attempt_commit, pub_store) txn"
  ph_candidate :: "(pub_error, recovery_candidate option, pub_store) txn"
  ph_recover :: "(pub_error, bool, pub_store) txn"

definition run_pub_txn ::
  "state_host_mode \<Rightarrow> (pub_error, 'a, pub_store) txn \<Rightarrow> (pub_store \<Rightarrow> (pub_error, 'a \<times> pub_store) result)
     \<Rightarrow> pub_store \<Rightarrow> (execution_error_kind, 'a) result \<times> pub_store" where
  "run_pub_txn mode txn body s =
     (case pub_require_writable mode of
        Inl e \<Rightarrow> (Inl e, s)
      | Inr _ \<Rightarrow> (case txn body s of (r, s') \<Rightarrow> (map_err map_pub_transaction_error r, s')))"

definition claim_next_publication ::
  "pub_host \<Rightarrow> (bytes \<Rightarrow> bytes) \<Rightarrow> bytes \<Rightarrow> nat \<Rightarrow> publication_authority \<Rightarrow> pub_store
     \<Rightarrow> (execution_error_kind, publication_lease option) result \<times> pub_store" where
  "claim_next_publication host sha256 owner now authority s =
     (case pub_require_writable (ph_mode host) of
        Inl e \<Rightarrow> (Inl e, s)
      | Inr _ \<Rightarrow>
          (case authority_binding_from authority of
             None \<Rightarrow> (Inr None, s)
           | Some binding \<Rightarrow>
               run_pub_txn (ph_mode host) (ph_claim host) (claim_next_outbox sha256 owner now binding) s))"

definition prepare_next_publication_target ::
  "pub_host \<Rightarrow> (bytes \<Rightarrow> bytes) \<Rightarrow> publication_lease \<Rightarrow> nat \<Rightarrow> pub_store
     \<Rightarrow> (execution_error_kind, prepared_attempt) result \<times> pub_store" where
  "prepare_next_publication_target host sha256 lease started s =
     run_pub_txn (ph_mode host) (ph_prepare host) (prepare_next sha256 lease started) s"

text \<open>\<open>RecordInput::from_prepared\<close>.\<close>

definition record_input_from_prepared ::
  "(bytes \<Rightarrow> bytes) \<Rightarrow> prepared_attempt \<Rightarrow> nat \<Rightarrow> attempt_outcome \<Rightarrow> nat
     \<Rightarrow> (execution_error_kind, record_input) result" where
  "record_input_from_prepared sha256 prepared finished outcome delay =
     (if finished < pp_started_at prepared \<or> outcome = OutcomeSubmitted then Inl ExecInvalidInput
      else and_then (map_err (\<lambda>_. ExecInvalidInput)
        (attempt_evidence_new sha256 (pp_publication prepared) (tr_ordinal (pp_target prepared))
          (tr_attempt_count (pp_target prepared)) (pp_started_at prepared) finished outcome)) (\<lambda>evidence.
        if ev_id evidence \<noteq> pp_attempt_id prepared then Inl ExecInvariant
        else Inr \<lparr>ri_lease = pp_lease prepared, ri_target_ordinal = tr_ordinal (pp_target prepared),
          ri_target_revision = tr_revision (pp_target prepared),
          ri_attempt_number = tr_attempt_count (pp_target prepared),
          ri_attempt_id = pp_attempt_id prepared, ri_started_at = pp_started_at prepared,
          ri_finished_at = finished, ri_outcome = outcome, ri_retry_delay = delay\<rparr>))"

definition record_publication_outcome ::
  "pub_host \<Rightarrow> (bytes \<Rightarrow> bytes) \<Rightarrow> prepared_attempt \<Rightarrow> nat \<Rightarrow> attempt_outcome \<Rightarrow> nat \<Rightarrow> pub_store
     \<Rightarrow> (execution_error_kind, attempt_commit) result \<times> pub_store" where
  "record_publication_outcome host sha256 prepared finished outcome delay s =
     (case pub_require_writable (ph_mode host) of
        Inl e \<Rightarrow> (Inl e, s)
      | Inr _ \<Rightarrow>
          (case record_input_from_prepared sha256 prepared finished outcome delay of
             Inl e \<Rightarrow> (Inl e, s)
           | Inr input \<Rightarrow> run_pub_txn (ph_mode host) (ph_record host) (record_outcome sha256 input) s))"

section \<open>The executor\<close>

text \<open>
  The injected capabilities: a wall clock in whole seconds, an entropy source and the relay sink,
  each of which may change the state of the world.
\<close>

record 'w pub_world =
  pw_wall_clock :: "'w \<Rightarrow> nat option \<times> 'w"
  pw_fill_bytes :: "'w \<Rightarrow> bytes option \<times> 'w"
  pw_submit_exact :: "prepared_attempt \<Rightarrow> 'w \<Rightarrow> attempt_outcome \<times> 'w"

definition publication_now :: "nat option \<Rightarrow> (execution_error_kind, nat) result" where
  "publication_now wall =
     and_then (map_err (\<lambda>_. ExecClockUnavailable) (now_utc_milliseconds wall)) (\<lambda>v.
       map_err (\<lambda>_. ExecClockUnavailable) (publication_unix_ms_new v))"

definition sample_retry_delay ::
  "('w \<Rightarrow> bytes option \<times> 'w) \<Rightarrow> nat \<Rightarrow> 'w \<Rightarrow> (execution_error_kind, nat) result \<times> 'w" where
  "sample_retry_delay fill_bytes cap w =
     (if cap = 0 then (Inr 0, w)
      else (case jitter_bound_new (word_of_nat cap) of
          Inl _ \<Rightarrow> (Inl ExecInvalidInput, w)
        | Inr bound \<Rightarrow>
            (case sample_full_jitter fill_bytes bound w of
               (Inl _, w') \<Rightarrow> (Inl ExecEntropyUnavailable, w')
             | (Inr delay, w') \<Rightarrow> (Inr (unat delay), w'))))"

definition recover_one_expired_publication ::
  "pub_host \<Rightarrow> (bytes \<Rightarrow> bytes) \<Rightarrow> 'w pub_world \<Rightarrow> nat \<Rightarrow> publication_authority \<Rightarrow> pub_store \<times> 'w
     \<Rightarrow> (execution_error_kind, bool) result \<times> pub_store \<times> 'w" where
  "recover_one_expired_publication host sha256 world now authority sw =
     (case sw of (s, w) \<Rightarrow>
      (case pub_require_writable (ph_mode host) of
        Inl e \<Rightarrow> (Inl e, s, w)
      | Inr _ \<Rightarrow>
          (case authority_binding_from authority of
             None \<Rightarrow> (Inr False, s, w)
           | Some binding \<Rightarrow>
               (case run_pub_txn (ph_mode host) (ph_candidate host)
                  (\<lambda>s. and_then (read_expired_candidate sha256 now binding s) (\<lambda>c. Inr (c, s))) s of
                  (Inl e, s1) \<Rightarrow> (Inl e, s1, w)
                | (Inr None, s1) \<Rightarrow> (Inr False, s1, w)
                | (Inr (Some candidate), s1) \<Rightarrow>
                    (case sample_retry_delay (pw_fill_bytes world) (rc_retry_upper_bound candidate) w of
                       (Inl e, w1) \<Rightarrow> (Inl e, s1, w1)
                     | (Inr delay, w1) \<Rightarrow>
                         (case run_pub_txn (ph_mode host) (ph_recover host)
                            (recover_expired sha256 candidate now delay) s1 of
                            (r, s2) \<Rightarrow> (r, s2, w1)))))))"

definition observed_outcome :: "attempt_outcome \<Rightarrow> attempt_outcome" where
  "observed_outcome outcome = (if outcome = OutcomeSubmitted then OutcomeUnknown else outcome)"

definition prepared_retry_upper_bound :: "prepared_attempt \<Rightarrow> nat" where
  "prepared_retry_upper_bound prepared =
     retry_upper_bound (pl_outbox (pp_lease prepared)) (tr_attempt_count (pp_target prepared))"

text \<open>The part of \<open>execute_next_publication\<close> after a successful preparation.\<close>

definition submit_and_record ::
  "pub_host \<Rightarrow> (bytes \<Rightarrow> bytes) \<Rightarrow> 'w pub_world \<Rightarrow> prepared_attempt \<Rightarrow> pub_store \<times> 'w
     \<Rightarrow> (execution_error_kind, attempt_commit) result \<times> pub_store \<times> 'w" where
  "submit_and_record host sha256 world prepared sw =
     (case sw of (s, w) \<Rightarrow>
      (case pw_submit_exact world prepared w of (reply, w1) \<Rightarrow>
       let outcome = observed_outcome reply in
      (case pw_wall_clock world w1 of (wall, w2) \<Rightarrow>
      (case publication_now wall of
         Inl e \<Rightarrow> (Inl e, s, w2)
       | Inr finished \<Rightarrow>
           (case (if retryable_outcome outcome
                  then sample_retry_delay (pw_fill_bytes world) (prepared_retry_upper_bound prepared) w2
                  else (Inr 0, w2)) of
              (Inl e, w3) \<Rightarrow> (Inl e, s, w3)
            | (Inr delay, w3) \<Rightarrow>
                (case record_publication_outcome host sha256 prepared finished outcome delay s of
                   (r, s1) \<Rightarrow> (r, s1, w3)))))))"

definition execute_next_publication ::
  "pub_host \<Rightarrow> (bytes \<Rightarrow> bytes) \<Rightarrow> 'w pub_world \<Rightarrow> bytes \<Rightarrow> publication_authority \<Rightarrow> pub_store \<times> 'w
     \<Rightarrow> (execution_error_kind, attempt_commit option) result \<times> pub_store \<times> 'w" where
  "execute_next_publication host sha256 world owner authority sw =
     (case sw of (s, w) \<Rightarrow>
      (case pw_wall_clock world w of (wall, w1) \<Rightarrow>
      (case publication_now wall of
         Inl e \<Rightarrow> (Inl e, s, w1)
       | Inr now \<Rightarrow>
      (case recover_one_expired_publication host sha256 world now authority (s, w1) of
         (Inl e, s1, w2) \<Rightarrow> (Inl e, s1, w2)
       | (Inr _, s1, w2) \<Rightarrow>
      (case claim_next_publication host sha256 owner now authority s1 of
         (Inl e, s2) \<Rightarrow> (Inl e, s2, w2)
       | (Inr None, s2) \<Rightarrow> (Inr None, s2, w2)
       | (Inr (Some lease), s2) \<Rightarrow>
      (case prepare_next_publication_target host sha256 lease now s2 of
         (Inl e, s3) \<Rightarrow> (Inl e, s3, w2)
       | (Inr prepared, s3) \<Rightarrow>
           (case submit_and_record host sha256 world prepared (s3, w2) of
              (Inl e, s4, w3) \<Rightarrow> (Inl e, s4, w3)
            | (Inr commit, s4, w3) \<Rightarrow> (Inr (Some commit), s4, w3))))))))"

end
