(* ===== verification/Publication_Inv.thy ===== *)
theory Publication_Inv
  imports Publication_Operations
begin

text \<open>
  The invariant of the publication store: the schema's constraints, the authenticity of leases and
  evidence, the immutable target inventory of every outbox, and the schedule each target and outbox
  carries.  Every row of a store with this invariant decodes, so reads never fail.
\<close>

section \<open>Decoded rows\<close>

definition outbox_state_of :: "string \<Rightarrow> outbox_state" where
  "outbox_state_of s = (if s = ''pending'' then OutboxPending else if s = ''leased'' then OutboxLeased
     else if s = ''complete'' then OutboxComplete else OutboxBlocked)"

definition target_state_of :: "string \<Rightarrow> target_state" where
  "target_state_of s =
     (if s = ''pending'' then TargetPending else if s = ''submitted'' then TargetSubmitted
      else if s = ''accepted'' then TargetAccepted else if s = ''rejected'' then TargetRejected
      else if s = ''rate_limited'' then TargetRateLimited
      else if s = ''auth_required'' then TargetAuthRequired
      else if s = ''failed'' then TargetFailed else TargetUnknown)"

definition outcome_of :: "string \<Rightarrow> attempt_outcome" where
  "outcome_of s =
     (if s = ''submitted'' then OutcomeSubmitted else if s = ''accepted'' then OutcomeAccepted
      else if s = ''rejected'' then OutcomeRejected
      else if s = ''rate_limited'' then OutcomeRateLimited
      else if s = ''auth_required'' then OutcomeAuthRequired
      else if s = ''failed'' then OutcomeFailed else OutcomeUnknown)"

definition outbox_of_row :: "outbox_row \<Rightarrow> outbox_record" where
  "outbox_of_row r =
     \<lparr>ox_id = ob_outbox_id r, ox_event_sha256 = ob_event_sha256 r,
       ox_authority_sha256 = ob_publication_authority_sha256 r,
       ox_target_set_sha256 = ob_target_set_sha256 r, ox_target_count = nat (ob_target_count r),
       ox_required_target_count = nat (ob_required_target_count r),
       ox_max_attempts = nat (ob_max_attempts r),
       ox_initial_backoff_ms = nat (ob_initial_backoff_ms r),
       ox_maximum_backoff_ms = nat (ob_maximum_backoff_ms r),
       ox_attempt_deadline_ms = nat (ob_attempt_deadline_ms r),
       ox_state = outbox_state_of (ob_state r), ox_revision = nat (ob_revision r),
       ox_next_attempt = map_option nat (ob_next_attempt_unix_ms r),
       ox_lease_owner = ob_lease_owner r,
       ox_lease_expires = map_option nat (ob_lease_expires_unix_ms r),
       ox_created_at = nat (ob_created_at_unix_ms r), ox_updated_at = nat (ob_updated_at_unix_ms r)\<rparr>"

definition target_of_row :: "target_row \<Rightarrow> target_record" where
  "target_of_row r =
     \<lparr>tr_ordinal = nat (tg_target_ordinal r), tr_relay_id = tg_relay_id r,
       tr_required = (tg_required r = 1), tr_state = target_state_of (tg_state r),
       tr_revision = nat (tg_revision r), tr_attempt_count = nat (tg_attempt_count r),
       tr_next_attempt = map_option nat (tg_next_attempt_unix_ms r),
       tr_last_attempt_id = tg_last_attempt_id r, tr_updated_at = nat (tg_updated_at_unix_ms r)\<rparr>"

definition attempt_of_row :: "attempt_row \<Rightarrow> attempt_record" where
  "attempt_of_row r =
     \<lparr>ar_attempt_id = at_attempt_id r, ar_outbox_id = at_outbox_id r,
       ar_target_ordinal = nat (at_target_ordinal r), ar_attempt_number = nat (at_attempt_number r),
       ar_event_sha256 = at_event_sha256 r, ar_lease_owner = at_lease_owner r,
       ar_started_at = nat (at_started_at_unix_ms r), ar_finished_at = nat (at_finished_at_unix_ms r),
       ar_outcome = outcome_of (at_outcome r)\<rparr>"

lemma outbox_of_row_simps [simp]:
  "ox_id (outbox_of_row r) = ob_outbox_id r"
  "ox_event_sha256 (outbox_of_row r) = ob_event_sha256 r"
  "ox_authority_sha256 (outbox_of_row r) = ob_publication_authority_sha256 r"
  "ox_target_set_sha256 (outbox_of_row r) = ob_target_set_sha256 r"
  "ox_target_count (outbox_of_row r) = nat (ob_target_count r)"
  "ox_required_target_count (outbox_of_row r) = nat (ob_required_target_count r)"
  "ox_max_attempts (outbox_of_row r) = nat (ob_max_attempts r)"
  "ox_initial_backoff_ms (outbox_of_row r) = nat (ob_initial_backoff_ms r)"
  "ox_maximum_backoff_ms (outbox_of_row r) = nat (ob_maximum_backoff_ms r)"
  "ox_attempt_deadline_ms (outbox_of_row r) = nat (ob_attempt_deadline_ms r)"
  "ox_state (outbox_of_row r) = outbox_state_of (ob_state r)"
  "ox_revision (outbox_of_row r) = nat (ob_revision r)"
  "ox_next_attempt (outbox_of_row r) = map_option nat (ob_next_attempt_unix_ms r)"
  "ox_lease_owner (outbox_of_row r) = ob_lease_owner r"
  "ox_lease_expires (outbox_of_row r) = map_option nat (ob_lease_expires_unix_ms r)"
  "ox_created_at (outbox_of_row r) = nat (ob_created_at_unix_ms r)"
  "ox_updated_at (outbox_of_row r) = nat (ob_updated_at_unix_ms r)"
  by (simp_all add: outbox_of_row_def)

lemma target_of_row_simps [simp]:
  "tr_ordinal (target_of_row t) = nat (tg_target_ordinal t)"
  "tr_relay_id (target_of_row t) = tg_relay_id t"
  "tr_required (target_of_row t) = (tg_required t = 1)"
  "tr_state (target_of_row t) = target_state_of (tg_state t)"
  "tr_revision (target_of_row t) = nat (tg_revision t)"
  "tr_attempt_count (target_of_row t) = nat (tg_attempt_count t)"
  "tr_next_attempt (target_of_row t) = map_option nat (tg_next_attempt_unix_ms t)"
  "tr_last_attempt_id (target_of_row t) = tg_last_attempt_id t"
  "tr_updated_at (target_of_row t) = nat (tg_updated_at_unix_ms t)"
  by (simp_all add: target_of_row_def)

section \<open>Row invariants\<close>

definition outbox_row_ok :: "outbox_row \<Rightarrow> bool" where
  "outbox_row_ok r \<longleftrightarrow> outbox_row_check r
     \<and> (\<forall>b. ob_lease_owner r = Some b \<longrightarrow> \<not> list_all (\<lambda>x. x = 0) b)"

definition attempt_row_ok :: "attempt_row \<Rightarrow> bool" where
  "attempt_row_ok r \<longleftrightarrow> attempt_row_check r \<and> at_result_code r = at_outcome r"

lemmas outbox_state_names = outbox_state_check_def outbox_transition_def outbox_state_of_def

lemma outbox_row_cases:
  assumes "outbox_row_check r"
  obtains (pending) v where "ob_state r = ''pending''" "ob_next_attempt_unix_ms r = Some v" "0 \<le> v"
      "v \<le> sql_i64_max" "ob_lease_owner r = None" "ob_lease_expires_unix_ms r = None"
  | (leased) b v where "ob_state r = ''leased''" "ob_next_attempt_unix_ms r = None"
      "ob_lease_owner r = Some b" "length b = 16" "ob_lease_expires_unix_ms r = Some v" "1 \<le> v"
      "v \<le> sql_i64_max"
  | (settled) "ob_state r = ''complete'' \<or> ob_state r = ''blocked''" "ob_next_attempt_unix_ms r = None"
      "ob_lease_owner r = None" "ob_lease_expires_unix_ms r = None"
proof -
  have "outbox_state_check r" using assms by (simp add: outbox_row_check_def)
  then show ?thesis
    unfolding outbox_state_check_def using that by auto
qed

lemma pub_bounded_ok:
  "int m \<le> c \<Longrightarrow> c \<le> int n \<Longrightarrow> pub_bounded_u64 c m n = Inr (nat c)"
  "int m \<le> c \<Longrightarrow> c \<le> int n \<Longrightarrow> n \<le> 65535 \<Longrightarrow> pub_bounded_u16 c m n = Inr (nat c)"
  "1 \<le> c \<Longrightarrow> c \<le> sql_i64_max \<Longrightarrow> pub_positive_u64 c = Inr (nat c)"
  "0 \<le> c \<Longrightarrow> c \<le> sql_i64_max \<Longrightarrow> pub_nonnegative_millis c = Inr (nat c)"
  by (auto simp: pub_bounded_u64_def pub_bounded_u16_def pub_positive_u64_def
      pub_nonnegative_millis_def u64_of_i64_def i64_max_def le_nat_iff nat_le_iff)

lemma pub_optional_millis_ok:
  "(\<And>v. c = Some v \<Longrightarrow> 0 \<le> v \<and> v \<le> sql_i64_max) \<Longrightarrow> pub_optional_millis c = Inr (map_option nat c)"
  by (cases c) (auto simp: pub_optional_millis_def u64_of_i64_def i64_max_def nat_le_iff)

lemma pub_optional_owner_ok:
  "(\<And>b. c = Some b \<Longrightarrow> length b = 16 \<and> \<not> list_all (\<lambda>x. x = 0) b) \<Longrightarrow> pub_optional_owner c = Inr c"
  by (cases c) (auto simp: pub_optional_owner_def pub_lease_owner_from_bytes_def)

lemma pub_optional_attempt_id_ok:
  "(\<And>b. c = Some b \<Longrightarrow> length b = 32) \<Longrightarrow> pub_optional_attempt_id c = Inr c"
  by (cases c) (auto simp: pub_optional_attempt_id_def)

lemma decode_outbox_state_ok:
  "ob_state r \<in> {''pending'', ''leased'', ''complete'', ''blocked''} \<Longrightarrow>
   and_then (pub_bounded_text (ob_state r) 8) decode_outbox_state = Inr (outbox_state_of (ob_state r))"
  by (auto simp: pub_bounded_text_def decode_outbox_state_def outbox_state_of_def)

lemma decode_target_state_ok:
  "tg_state r \<in> {''pending'', ''submitted'', ''accepted'', ''rejected'', ''rate_limited'',
     ''auth_required'', ''failed'', ''unknown''} \<Longrightarrow>
   and_then (pub_bounded_text (tg_state r) 13) decode_target_state = Inr (target_state_of (tg_state r))"
  by (auto simp: pub_bounded_text_def decode_target_state_def target_state_of_def)

lemma decode_outcome_ok:
  "at_outcome r \<in> {''submitted'', ''accepted'', ''rejected'', ''rate_limited'', ''auth_required'',
     ''failed'', ''unknown''} \<Longrightarrow>
   and_then (pub_bounded_text (at_outcome r) 13) decode_attempt_outcome = Inr (outcome_of (at_outcome r))
   \<and> outcome_code (outcome_of (at_outcome r)) = at_outcome r"
  by (auto simp: pub_bounded_text_def decode_attempt_outcome_def outcome_of_def)

lemma target_state_code_roundtrip [simp]: "target_state_of (target_state_code t) = t"
  by (cases t) (simp_all add: target_state_of_def)

lemma outbox_state_code_roundtrip [simp]: "outbox_state_of (outbox_state_code b) = b"
  by (cases b) (simp_all add: outbox_state_of_def)

lemma outcome_code_roundtrip [simp]: "outcome_of (outcome_code c) = c"
  by (cases c) (simp_all add: outcome_of_def)

lemma relay_chars:
  "relay_id_char c \<Longrightarrow> relay_id_byte c"
  "c \<in> set ''abcdefghijklmnopqrstuvwxyz'' \<Longrightarrow> is_ascii_lowercase c"
proof -
  have "list_all relay_id_byte ''abcdefghijklmnopqrstuvwxyz0123456789_-''"
    "list_all is_ascii_lowercase ''abcdefghijklmnopqrstuvwxyz''"
    by (simp_all add: relay_id_byte_def is_ascii_lowercase_def is_ascii_digit_def)
  then show "relay_id_char c \<Longrightarrow> relay_id_byte c"
    "c \<in> set ''abcdefghijklmnopqrstuvwxyz'' \<Longrightarrow> is_ascii_lowercase c"
    unfolding relay_id_char_def list_all_iff by blast+
qed

lemma decode_relay_id_ok:
  assumes "target_row_check r"
  shows "decode_relay_id (tg_relay_id r) = Inr (tg_relay_id r)"
proof -
  obtain c cs where r: "tg_relay_id r = c # cs"
    using assms by (cases "tg_relay_id r") (auto simp: target_row_check_def)
  with assms have "length (c # cs) \<le> 64" "list_all relay_id_char (c # cs)"
    "c \<in> set ''abcdefghijklmnopqrstuvwxyz''" by (auto simp: target_row_check_def)
  then have "is_ascii_lowercase c" "list_all relay_id_byte (c # cs)"
    using relay_chars by (auto simp: list_all_iff)
  with \<open>length (c # cs) \<le> 64\<close> r show ?thesis
    by (simp add: decode_relay_id_def pub_bounded_text_def)
qed

lemma decode_outbox_row_ok:
  assumes "outbox_row_ok r"
  shows "decode_outbox r = Inr (outbox_of_row r)"
proof -
  from assms have c: "outbox_row_check r"
    and z: "\<And>b. ob_lease_owner r = Some b \<Longrightarrow> \<not> list_all (\<lambda>x. x = 0) b"
    by (auto simp: outbox_row_ok_def)
  from c have num:
    "pub_blob 32 (ob_outbox_id r) = Inr (ob_outbox_id r)"
    "pub_blob 32 (ob_event_sha256 r) = Inr (ob_event_sha256 r)"
    "pub_blob 32 (ob_publication_authority_sha256 r) = Inr (ob_publication_authority_sha256 r)"
    "pub_blob 32 (ob_target_set_sha256 r) = Inr (ob_target_set_sha256 r)"
    "pub_bounded_u16 (ob_target_count r) 1 32 = Inr (nat (ob_target_count r))"
    "pub_bounded_u16 (ob_required_target_count r) 0 (nat (ob_target_count r)) = Inr (nat (ob_required_target_count r))"
    "pub_bounded_u16 (ob_max_attempts r) 1 RHI_PUBLICATION_ATTEMPT_NUMBER_MAXIMUM = Inr (nat (ob_max_attempts r))"
    "pub_bounded_u64 (ob_initial_backoff_ms r) 1 60000 = Inr (nat (ob_initial_backoff_ms r))"
    "pub_bounded_u64 (ob_maximum_backoff_ms r) 1 3600000 = Inr (nat (ob_maximum_backoff_ms r))"
    "pub_bounded_u64 (ob_attempt_deadline_ms r) 100 30000 = Inr (nat (ob_attempt_deadline_ms r))"
    "pub_positive_u64 (ob_revision r) = Inr (nat (ob_revision r))"
    "pub_nonnegative_millis (ob_created_at_unix_ms r) = Inr (nat (ob_created_at_unix_ms r))"
    "pub_nonnegative_millis (ob_updated_at_unix_ms r) = Inr (nat (ob_updated_at_unix_ms r))"
    by (simp_all add: outbox_row_check_def pub_blob_def pub_bounded_ok nat_le_iff
        RHI_PUBLICATION_ATTEMPT_NUMBER_MAXIMUM_def)
  have st: "and_then (pub_bounded_text (ob_state r) 8) decode_outbox_state = Inr (outbox_state_of (ob_state r))"
    using c by (intro decode_outbox_state_ok) (simp add: outbox_row_check_def)
  have nullable:
    "pub_optional_owner (ob_lease_owner r) = Inr (ob_lease_owner r)"
    "pub_optional_millis (ob_lease_expires_unix_ms r) = Inr (map_option nat (ob_lease_expires_unix_ms r))"
    "pub_optional_millis (ob_next_attempt_unix_ms r) = Inr (map_option nat (ob_next_attempt_unix_ms r))"
    using c z by (auto elim!: outbox_row_cases intro!: pub_optional_owner_ok pub_optional_millis_ok)
  have shape: "valid_outbox_shape (outbox_state_of (ob_state r)) (map_option nat (ob_next_attempt_unix_ms r))
      (ob_lease_owner r) (map_option nat (ob_lease_expires_unix_ms r))"
    using c by (rule outbox_row_cases) (auto simp: outbox_state_of_def)
  have order: "nat (ob_initial_backoff_ms r) \<le> nat (ob_maximum_backoff_ms r)"
    using c by (auto simp: outbox_row_check_def intro: nat_mono)
  show ?thesis
    unfolding decode_outbox_def num nullable st and_then_simps
    using shape order by (simp add: outbox_of_row_def)
qed

lemma decode_target_row_ok:
  assumes "target_row_check r"
  shows "decode_target r = Inr (target_of_row r)"
proof -
  from assms have num:
    "pub_bounded_u16 (tg_target_ordinal r) 0 RHI_PUBLICATION_TARGET_ORDINAL_MAXIMUM = Inr (nat (tg_target_ordinal r))"
    "pub_bounded_u16 (tg_attempt_count r) 0 RHI_PUBLICATION_ATTEMPT_NUMBER_MAXIMUM = Inr (nat (tg_attempt_count r))"
    "pub_positive_u64 (tg_revision r) = Inr (nat (tg_revision r))"
    "pub_nonnegative_millis (tg_updated_at_unix_ms r) = Inr (nat (tg_updated_at_unix_ms r))"
    "pub_optional_attempt_id (tg_last_attempt_id r) = Inr (tg_last_attempt_id r)"
    "pub_optional_millis (tg_next_attempt_unix_ms r) = Inr (map_option nat (tg_next_attempt_unix_ms r))"
    by (auto simp: target_row_check_def pub_bounded_ok sql_logic RHI_PUBLICATION_TARGET_ORDINAL_MAXIMUM_def
        RHI_PUBLICATION_ATTEMPT_NUMBER_MAXIMUM_def intro!: pub_optional_attempt_id_ok pub_optional_millis_ok)
  have st: "and_then (pub_bounded_text (tg_state r) 13) decode_target_state = Inr (target_state_of (tg_state r))"
    using assms by (intro decode_target_state_ok) (simp add: target_row_check_def)
  have req: "(if tg_required r = 0 then Inr False else if tg_required r = 1 then Inr True
      else Inl PubInvariant) = Inr (tg_required r = 1)"
    using assms by (auto simp: target_row_check_def)
  have count: "(nat (tg_attempt_count r) = 0) = (tg_last_attempt_id r = None)"
    using assms by (auto simp: target_row_check_def)
  show ?thesis
    unfolding decode_target_def num st req decode_relay_id_ok[OF assms] and_then_simps
    using count by (simp add: target_of_row_def)
qed

lemma decode_attempt_row_ok:
  assumes "attempt_row_ok r"
  shows "decode_attempt r = Inr (attempt_of_row r)"
proof -
  from assms have c: "attempt_row_check r" and code: "at_result_code r = at_outcome r"
    by (simp_all add: attempt_row_ok_def)
  from c have num:
    "pub_blob 32 (at_attempt_id r) = Inr (at_attempt_id r)"
    "pub_blob 32 (at_outbox_id r) = Inr (at_outbox_id r)"
    "pub_blob 32 (at_event_sha256 r) = Inr (at_event_sha256 r)"
    "pub_blob 16 (at_lease_owner r) = Inr (at_lease_owner r)"
    "pub_bounded_u16 (at_target_ordinal r) 0 31 = Inr (nat (at_target_ordinal r))"
    "pub_bounded_u16 (at_attempt_number r) 1 100 = Inr (nat (at_attempt_number r))"
    "pub_nonnegative_millis (at_started_at_unix_ms r) = Inr (nat (at_started_at_unix_ms r))"
    "pub_nonnegative_millis (at_finished_at_unix_ms r) = Inr (nat (at_finished_at_unix_ms r))"
    by (simp_all add: attempt_row_check_def pub_blob_def pub_bounded_ok)
  have oc: "and_then (pub_bounded_text (at_outcome r) 13) decode_attempt_outcome = Inr (outcome_of (at_outcome r))"
    "outcome_code (outcome_of (at_outcome r)) = at_outcome r"
    using c decode_outcome_ok[of r] by (simp_all add: attempt_row_check_def)
  have rcode: "pub_bounded_text (at_result_code r) 64 = Inr (at_outcome r)"
    using c code by (simp add: attempt_row_check_def pub_bounded_text_def)
  show ?thesis
    unfolding decode_attempt_def num oc(1) rcode and_then_simps
    by (simp add: attempt_of_row_def oc(2))
qed

end
