(* ===== verification/Publication_Store.thy ===== *)
theory Publication_Store
  imports Publication_Inv
begin

text \<open>
  The structural invariant of the publication store and what reads and keyed writes do under it:
  every read of an outbox, of its targets and of an attempt succeeds with the decoded rows, the
  target inventory always validates, and a keyed write replaces exactly one row.
\<close>

section \<open>Rows of one outbox\<close>

lemma target_row_checkD:
  assumes "target_row_check t"
  shows "0 \<le> tg_target_ordinal t" "nat (tg_target_ordinal t) \<le> 31" "1 \<le> tg_revision t"
    "tg_revision t \<le> sql_i64_max" "0 \<le> tg_attempt_count t" "tg_attempt_count t \<le> 100"
    "0 \<le> tg_updated_at_unix_ms t" "tg_updated_at_unix_ms t \<le> sql_i64_max"
    "\<And>v. tg_next_attempt_unix_ms t = Some v \<Longrightarrow> 0 \<le> v \<and> v \<le> sql_i64_max"
    "\<And>b. tg_last_attempt_id t = Some b \<Longrightarrow> length b = 32"
    "(tg_attempt_count t = 0) = (tg_last_attempt_id t = None)" "length (tg_outbox_id t) = 32"
  using assms unfolding target_row_check_def by (auto simp: sql_logic nat_le_iff)

lemma outbox_row_okD:
  assumes "outbox_row_ok r"
  shows "1 \<le> ob_revision r" "ob_revision r \<le> sql_i64_max" "1 \<le> ob_max_attempts r"
    "ob_max_attempts r \<le> 100" "1 \<le> ob_initial_backoff_ms r" "ob_initial_backoff_ms r \<le> 60000"
    "ob_maximum_backoff_ms r \<le> 3600000" "ob_initial_backoff_ms r \<le> ob_maximum_backoff_ms r"
    "100 \<le> ob_attempt_deadline_ms r" "ob_attempt_deadline_ms r \<le> 30000"
    "0 \<le> ob_updated_at_unix_ms r" "ob_updated_at_unix_ms r \<le> sql_i64_max"
    "length (ob_outbox_id r) = 32" "length (ob_event_sha256 r) = 32"
    "0 \<le> ob_required_target_count r" "1 \<le> ob_target_count r" "0 \<le> ob_created_at_unix_ms r"
  using assms by (auto simp: outbox_row_ok_def outbox_row_check_def)

abbreviation outbox_at :: "bytes \<Rightarrow> pub_store \<Rightarrow> outbox_row option" where
  "outbox_at k s \<equiv> select_key ob_outbox_id k (outboxes s)"

abbreviation target_at :: "bytes \<Rightarrow> int \<Rightarrow> pub_store \<Rightarrow> target_row option" where
  "target_at k i s \<equiv> select_key target_key (k, i) (targets s)"

definition target_rows :: "bytes \<Rightarrow> pub_store \<Rightarrow> target_row list" where
  "target_rows k s = sort_key tg_target_ordinal (filter (\<lambda>t. tg_outbox_id t = k) (targets s))"

definition targets_of :: "bytes \<Rightarrow> pub_store \<Rightarrow> target_record list" where
  "targets_of k s = map target_of_row (target_rows k s)"

lemma sort_key_map:
  assumes "\<And>x. x \<in> set xs \<Longrightarrow> key (f x) = key x"
  shows "sort_key key (map f xs) = map f (sort_key key xs)"
proof -
  have ins: "insort_key key (f x) (map f ys) = map f (insort_key key x ys)"
    if "key (f x) = key x" "\<And>y. y \<in> set ys \<Longrightarrow> key (f y) = key y" for x ys
    using that by (induction ys) auto
  show ?thesis
    using assms
  proof (induction xs)
    case (Cons x xs)
    then have IH: "sort_key key (map f xs) = map f (sort_key key xs)" by simp
    show ?case using ins[of x "sort_key key xs"] Cons.prems IH by simp
  qed simp
qed

lemma replace_row_absent: "key t \<notin> key ` set rows \<Longrightarrow> replace_row key t rows = rows"
  unfolding replace_row_def by (rule map_idI) (metis image_eqI)

lemma set_target_rows [simp]: "set (target_rows k s) = {t \<in> set (targets s). tg_outbox_id t = k}"
  by (auto simp: target_rows_def)

lemma target_rows_replace:
  "target_rows k (s\<lparr>targets := replace_row target_key t (targets s)\<rparr>) =
     replace_row target_key t (target_rows k s)"
proof -
  let ?f = "\<lambda>r. if target_key r = target_key t then t else r"
  have "filter (\<lambda>r. tg_outbox_id r = k) (map ?f rs) = map ?f (filter (\<lambda>r. tg_outbox_id r = k) rs)" for rs
    by (induction rs) (auto simp: target_key_def)
  moreover have "sort_key tg_target_ordinal (map ?f rs) = map ?f (sort_key tg_target_ordinal rs)" for rs
    by (rule sort_key_map) (auto simp: target_key_def)
  ultimately show ?thesis by (simp add: target_rows_def replace_row_def)
qed

lemma target_rows_other:
  assumes "k \<noteq> tg_outbox_id t"
  shows "target_rows k (s\<lparr>targets := replace_row target_key t (targets s)\<rparr>) = target_rows k s"
  unfolding target_rows_replace using assms by (intro replace_row_absent) (auto simp: target_key_def)

lemma target_rows_update [simp]:
  "target_rows k (s\<lparr>outboxes := obs\<rparr>) = target_rows k s"
  "target_rows k (s\<lparr>attempts := ats\<rparr>) = target_rows k s"
  "targets_of k (s\<lparr>outboxes := obs\<rparr>) = targets_of k s"
  "targets_of k (s\<lparr>attempts := ats\<rparr>) = targets_of k s"
  by (simp_all add: target_rows_def targets_of_def)

section \<open>The structural invariant\<close>

text \<open>The immutable inventory an outbox was created with.\<close>

definition inventory_ok :: "(bytes \<Rightarrow> bytes) \<Rightarrow> outbox_row \<Rightarrow> target_record list \<Rightarrow> bool" where
  "inventory_ok sha256 r ts \<longleftrightarrow>
     validate_targets sha256 (outbox_of_row r) ts = Inr ()"

text \<open>The outbox names a committed event whose bytes have the digest the outbox carries.\<close>

definition event_bound :: "(bytes \<Rightarrow> bytes) \<Rightarrow> event_row list \<Rightarrow> outbox_row \<Rightarrow> bool" where
  "event_bound sha256 events r \<longleftrightarrow>
     (\<exists>e \<in> set events. se_event_id e = ob_event_id r \<and> se_event_sha256 e = ob_event_sha256 r
        \<and> sha256 (se_canonical_event_json e) = ob_event_sha256 r)"

definition pub_inv :: "(bytes \<Rightarrow> bytes) \<Rightarrow> pub_store \<Rightarrow> bool" where
  "pub_inv sha256 s \<longleftrightarrow>
     publication_governed (signed_events s) (outboxes s) (targets s) (attempts s)
   \<and> (\<forall>r \<in> set (outboxes s). outbox_row_ok r
        \<and> inventory_ok sha256 r (targets_of (ob_outbox_id r) s)
        \<and> event_bound sha256 (signed_events s) r)
   \<and> (\<forall>a \<in> set (attempts s). attempt_row_ok a)"

lemma pub_invD:
  assumes "pub_inv sha256 s"
  shows "events_valid (signed_events s)" "outboxes_valid (signed_events s) (outboxes s)"
    "targets_valid (outboxes s) (targets s)" "attempts_valid (targets s) (attempts s)"
    "distinct (map ob_outbox_id (outboxes s))" "distinct (map target_key (targets s))"
    "distinct (map at_attempt_id (attempts s))"
  using assms
  by (auto simp: pub_inv_def publication_governed_def outboxes_valid_def targets_valid_def
      attempts_valid_def)

lemma pub_inv_outbox:
  assumes "pub_inv sha256 s" and "outbox_at k s = Some r"
  shows "outbox_row_ok r" and "inventory_ok sha256 r (targets_of k s)"
    and "event_bound sha256 (signed_events s) r" and "ob_outbox_id r = k" and "r \<in> set (outboxes s)"
  using assms select_key_SomeD[OF assms(2)] by (auto simp: pub_inv_def)

lemma pub_inv_target:
  assumes "pub_inv sha256 s" and "t \<in> set (targets s)"
  shows "target_row_check t" and "target_at (tg_outbox_id t) (tg_target_ordinal t) s = Some t"
    and "\<exists>r. outbox_at (tg_outbox_id t) s = Some r"
proof -
  note v = pub_invD(3)[OF assms(1)]
  show "target_row_check t" using v assms(2) by (auto simp: targets_valid_def list_all_iff)
  show "target_at (tg_outbox_id t) (tg_target_ordinal t) s = Some t"
    using select_key_distinct[OF pub_invD(6)[OF assms(1)] assms(2)] by (simp add: target_key_def)
  have "tg_outbox_id t \<in> ob_outbox_id ` set (outboxes s)"
    using v assms(2) by (auto simp: targets_valid_def list_all_iff)
  then show "\<exists>r. outbox_at (tg_outbox_id t) s = Some r"
    by (metis not_None_eq select_key_None_iff)
qed

section \<open>Reads\<close>

lemma filter_select_key:
  assumes "distinct (map key rows)"
  shows "filter (\<lambda>r. key r = k) rows = (case select_key key k rows of None \<Rightarrow> [] | Some r \<Rightarrow> [r])"
  using assms
proof (induction rows)
  case (Cons x rows)
  show ?case
  proof (cases "key x = k")
    case True
    with Cons.prems have "filter (\<lambda>r. key r = k) rows = []" by (auto simp: filter_empty_conv) (metis image_eqI)
    with True show ?thesis by (simp add: select_key_def)
  next
    case False
    with Cons show ?thesis by (simp add: select_key_def)
  qed
qed (simp add: select_key_def)

lemma read_outbox_inv:
  assumes "pub_inv sha256 s"
  shows "read_outbox k s = Inr (map_option outbox_of_row (outbox_at k s))"
proof (cases "outbox_at k s")
  case None
  then show ?thesis
    by (simp add: read_outbox_def filter_select_key[OF pub_invD(5)[OF assms]] exactly_zero_or_one_def)
next
  case (Some r)
  with decode_outbox_row_ok[OF pub_inv_outbox(1)[OF assms Some]] show ?thesis
    by (simp add: read_outbox_def filter_select_key[OF pub_invD(5)[OF assms]] exactly_zero_or_one_def)
qed

lemma read_attempt_inv:
  assumes "pub_inv sha256 s"
  shows "read_attempt k s = Inr (map_option attempt_of_row (select_key at_attempt_id k (attempts s)))"
proof (cases "select_key at_attempt_id k (attempts s)")
  case None
  then show ?thesis
    by (simp add: read_attempt_def filter_select_key[OF pub_invD(7)[OF assms]] exactly_zero_or_one_def)
next
  case (Some a)
  then have "attempt_row_ok a" using assms select_key_SomeD(1) by (fastforce simp: pub_inv_def)
  with Some decode_attempt_row_ok show ?thesis
    by (simp add: read_attempt_def filter_select_key[OF pub_invD(7)[OF assms]] exactly_zero_or_one_def)
qed

lemma target_rows_length:
  assumes "pub_inv sha256 s"
  shows "length (target_rows k s) \<le> 32"
proof -
  let ?rows = "filter (\<lambda>t. tg_outbox_id t = k) (targets s)"
  have "inj_on tg_target_ordinal (set ?rows)"
    using pub_invD(6)[OF assms] by (auto simp: inj_on_def distinct_map target_key_def)
  moreover have "distinct ?rows" using pub_invD(6)[OF assms] by (simp add: distinct_map)
  ultimately have "length ?rows = card (tg_target_ordinal ` set ?rows)"
    using distinct_card[of ?rows] by (simp only: card_image)
  also have "\<dots> \<le> card {0 .. 31 :: int}"
    using pub_inv_target(1)[OF assms] by (intro card_mono) (auto simp: target_row_check_def)
  finally show ?thesis by (simp add: target_rows_def)
qed

lemma read_targets_inv:
  assumes "pub_inv sha256 s"
  shows "read_targets k s = Inr (targets_of k s)"
proof -
  have "take 33 (target_rows k s) = target_rows k s" using target_rows_length[OF assms, of k] by simp
  moreover have "decode_target t = Inr (target_of_row t)" if "t \<in> set (target_rows k s)" for t
    using that pub_inv_target(1)[OF assms] by (intro decode_target_row_ok) auto
  ultimately show ?thesis
    unfolding read_targets_def target_rows_def[symmetric] targets_of_def
    using collect_Inr_map[of "target_rows k s" decode_target target_of_row] by simp
qed

lemma read_committed_inv:
  assumes inv: "pub_inv sha256 s" and r: "outbox_at k s = Some r"
  obtains e where "e \<in> set (signed_events s)" "se_event_id e = ob_event_id r"
    "se_event_sha256 e = ob_event_sha256 r" "sha256 (se_canonical_event_json e) = ob_event_sha256 r"
    "read_committed sha256 k s = Inr \<lparr>cp_outbox_id = k, cp_event_id = ob_event_id r,
       cp_event_sha256 = ob_event_sha256 r, cp_exact_signed_event_bytes = se_canonical_event_json e\<rparr>"
proof -
  note R = pub_inv_outbox[OF inv r]
  obtain e where e: "e \<in> set (signed_events s)" "se_event_id e = ob_event_id r"
    "se_event_sha256 e = ob_event_sha256 r" "sha256 (se_canonical_event_json e) = ob_event_sha256 r"
    using R(3) by (auto simp: event_bound_def)
  have ev: "distinct (map se_event_id (signed_events s))" "event_row_check e"
    using pub_invD(1)[OF inv] e(1) by (auto simp: events_valid_def list_all_iff)
  have "filter (\<lambda>x. se_event_id x = ob_event_id r) (signed_events s) = [e]"
    using filter_select_key[OF ev(1), of "ob_event_id r"] select_key_distinct[OF ev(1) e(1)] e(2) by simp
  moreover have "filter (\<lambda>x. ob_outbox_id x = k) (outboxes s) = [r]"
    using filter_select_key[OF pub_invD(5)[OF inv], of k] r by simp
  ultimately have "committed_rows k s = [(r, Some e)]" by (simp add: committed_rows_def)
  moreover have "length (ob_outbox_id r) = 32" "length (ob_event_id r) = 32" "length (ob_event_sha256 r) = 32"
    using R(1) by (auto simp: outbox_row_ok_def outbox_row_check_def)
  ultimately have "read_committed sha256 k s = Inr \<lparr>cp_outbox_id = k, cp_event_id = ob_event_id r,
       cp_event_sha256 = ob_event_sha256 r, cp_exact_signed_event_bytes = se_canonical_event_json e\<rparr>"
    using e ev(2) R(4)
    by (auto simp: read_committed_def blob32_def event_row_check_def SIGNED_EVENT_BYTES_MAXIMUM_def)
  with e show ?thesis by (intro that)
qed

lemma find_target:
  assumes inv: "pub_inv sha256 s" and i: "i \<le> 31"
  shows "find (\<lambda>t. tr_ordinal t = i) (targets_of k s) = map_option target_of_row (target_at k (int i) s)"
proof -
  have key: "nat (tg_target_ordinal t) = i \<longleftrightarrow> target_key t = (k, int i)" if "t \<in> set (target_rows k s)" for t
    using that pub_inv_target(1)[OF inv] by (auto simp: target_key_def target_row_check_def)
  have f: "find (\<lambda>t. tr_ordinal t = i) (targets_of k s) =
      map_option target_of_row (find (\<lambda>t. target_key t = (k, int i)) (target_rows k s))"
  proof -
    have "find (\<lambda>t. tr_ordinal t = i) (map target_of_row rs) =
        map_option target_of_row (find (\<lambda>t. target_key t = (k, int i)) rs)"
      if "\<And>t. t \<in> set rs \<Longrightarrow> nat (tg_target_ordinal t) = i \<longleftrightarrow> target_key t = (k, int i)" for rs
      using that by (induction rs) auto
    from this[of "target_rows k s", OF key] show ?thesis by (simp add: targets_of_def)
  qed
  have "distinct (map target_key (target_rows k s))"
    using pub_invD(6)[OF inv] by (simp add: target_rows_def distinct_map inj_on_def)
  then have "find (\<lambda>t. target_key t = (k, int i)) (target_rows k s) = target_at k (int i) s"
  proof (cases "target_at k (int i) s")
    case None
    then have "(k, int i) \<notin> target_key ` set (targets s)" by (simp add: select_key_None_iff)
    then show ?thesis using None by (auto simp: find_None_iff image_iff)
  next
    case (Some t)
    then have "t \<in> set (target_rows k s)" "target_key t = (k, int i)"
      using select_key_SomeD[OF Some] by (auto simp: target_key_def)
    then show ?thesis
      using select_key_distinct[of target_key "target_rows k s" t] Some
        \<open>distinct (map target_key (target_rows k s))\<close> by (simp add: select_key_def)
  qed
  with f show ?thesis by simp
qed

section \<open>The inventory under writes\<close>

lemma duplicate_relay_iff: "duplicate_relay ts \<longleftrightarrow> \<not> distinct (map tr_relay_id ts)"
  by (induction ts) (auto simp: list_ex_iff image_iff, metis+)

text \<open>Validation looks at ordinals, relays and required flags only, and at three outbox columns.\<close>

lemma validate_targets_cong:
  assumes "map record_triple ts' = map record_triple ts"
    and "ox_target_count b' = ox_target_count b"
    and "ox_required_target_count b' = ox_required_target_count b"
    and "ox_target_set_sha256 b' = ox_target_set_sha256 b"
  shows "validate_targets sha256 b' ts' = validate_targets sha256 b ts"
proof -
  have proj: "map tr_ordinal us = map fst (map record_triple us)"
    "map tr_relay_id us = map (fst \<circ> snd) (map record_triple us)"
    "length (filter tr_required us) = length (filter (snd \<circ> snd) (map record_triple us))" for us
    by (simp_all add: record_triple_def comp_def filter_map)
  have "length ts' = length ts" using assms(1) by (metis length_map)
  moreover have "map tr_ordinal ts' = map tr_ordinal ts" "map tr_relay_id ts' = map tr_relay_id ts"
    "length (filter tr_required ts') = length (filter tr_required ts)"
    using assms(1) by (simp_all only: proj)
  ultimately show ?thesis using assms by (simp add: validate_targets_def duplicate_relay_iff)
qed

lemma outbox_guardD:
  assumes "outbox_guard r r'"
  shows "ob_outbox_id r' = ob_outbox_id r" "ob_event_id r' = ob_event_id r"
    "ob_event_sha256 r' = ob_event_sha256 r" "ob_revision r' = ob_revision r + 1"
    "ob_max_attempts r' = ob_max_attempts r" "ob_target_count r' = ob_target_count r"
    "ob_required_target_count r' = ob_required_target_count r"
    "ob_target_set_sha256 r' = ob_target_set_sha256 r"
    "ob_updated_at_unix_ms r \<le> ob_updated_at_unix_ms r'"
    "outbox_transition (ob_state r) (ob_state r')"
    "same_outbox_identity (outbox_of_row r') (outbox_of_row r)"
  using assms by (auto simp: outbox_guard_def same_outbox_identity_def)

lemma target_guardD:
  assumes "target_guard t t'"
  shows "target_key t' = target_key t" "tg_outbox_id t' = tg_outbox_id t"
    "tg_target_ordinal t' = tg_target_ordinal t" "tg_relay_id t' = tg_relay_id t"
    "tg_required t' = tg_required t" "tg_revision t' = tg_revision t + 1"
    "tg_updated_at_unix_ms t \<le> tg_updated_at_unix_ms t'" "tg_state t \<noteq> ''accepted''"
    "record_triple (target_of_row t') = record_triple (target_of_row t)"
  using assms by (auto simp: target_guard_def target_key_def record_triple_def)

section \<open>Outbox writes\<close>

lemma update_outboxes_InrD:
  assumes "update_outboxes p f s = Inr (s', n)"
  shows "sql_update outbox_guard (outboxes_valid (signed_events s)) p f (outboxes s) = Some (outboxes s', n)"
    and "s' = s\<lparr>outboxes := outboxes s'\<rparr>" and "signed_events s' = signed_events s"
    and "targets s' = targets s" and "attempts s' = attempts s"
  using assms by (auto simp: update_outboxes_def split: option.splits)

lemma targets_of_cong: "targets s' = targets s \<Longrightarrow> targets_of k s' = targets_of k s"
  by (simp add: targets_of_def target_rows_def)

lemma update_outboxes_inv:
  assumes inv: "pub_inv sha256 s" and upd: "update_outboxes p f s = Inr (s', n)"
    and owner: "\<And>r b. r \<in> set (outboxes s) \<Longrightarrow> p r \<Longrightarrow> ob_lease_owner (f r) = Some b \<Longrightarrow>
      \<not> list_all (\<lambda>x. x = 0) b"
  shows "pub_inv sha256 s'"
proof -
  note S = update_outboxes_InrD[OF upd]
  note U = sql_update_SomeD[OF S(1)]
  have ids: "map ob_outbox_id (outboxes s') = map ob_outbox_id (outboxes s)"
    using outbox.update_keys[OF S(1)] .
  have row: "outbox_row_ok x \<and> inventory_ok sha256 x (targets_of (ob_outbox_id x) s')
      \<and> event_bound sha256 (signed_events s') x" if "x \<in> set (outboxes s')" for x
  proof -
    from that U(1) obtain r where r: "r \<in> set (outboxes s)" "x = (if p r then f r else r)" by auto
    have old: "outbox_row_ok r" "inventory_ok sha256 r (targets_of (ob_outbox_id r) s)"
      "event_bound sha256 (signed_events s) r" using inv r(1) by (auto simp: pub_inv_def)
    show ?thesis
    proof (cases "p r")
      case True
      then have g: "outbox_guard r x" using U(4) r by simp
      have "outbox_row_check x" using U(3) that by (simp add: outboxes_valid_def list_all_iff)
      then have "outbox_row_ok x" using owner[OF r(1) True] r(2) True by (simp add: outbox_row_ok_def)
      moreover have "inventory_ok sha256 x (targets_of (ob_outbox_id x) s')"
        using old(2) validate_targets_cong[of "targets_of (ob_outbox_id r) s" "targets_of (ob_outbox_id r) s"
            "outbox_of_row x" "outbox_of_row r" sha256] outbox_guardD[OF g] S(4)
        by (simp add: inventory_ok_def targets_of_cong[OF S(4)])
      moreover have "event_bound sha256 (signed_events s') x"
        using old(3) outbox_guardD[OF g] S(3) by (simp add: event_bound_def)
      ultimately show ?thesis by blast
    next
      case False
      with old r S(3) show ?thesis by (simp add: targets_of_cong[OF S(4)])
    qed
  qed
  have "targets_valid (outboxes s') (targets s')"
    using pub_invD(3)[OF inv] S(4) ids by (simp add: targets_valid_def)
  then show ?thesis
    using inv U(3) S row by (simp add: pub_inv_def publication_governed_def)
qed

lemma update_outboxes_one:
  assumes upd: "update_outboxes p f s = Inr (s', 1)" and inv: "pub_inv sha256 s"
    and p: "\<And>r. p r \<Longrightarrow> ob_outbox_id r = k"
  obtains r where "outbox_at k s = Some r" and "p r" and "outbox_guard r (f r)"
    and "s' = s\<lparr>outboxes := replace_row ob_outbox_id (f r) (outboxes s)\<rparr>"
    and "outbox_at k s' = Some (f r)" and "\<And>k'. k' \<noteq> k \<Longrightarrow> outbox_at k' s' = outbox_at k' s"
proof -
  note S = update_outboxes_InrD[OF upd]
  note dist = pub_invD(5)[OF inv]
  obtain r where r: "r \<in> set (outboxes s)" "p r" "ob_outbox_id r = k" "outbox_guard r (f r)"
    "outboxes s' = replace_row ob_outbox_id (f r) (outboxes s)"
    using sql_update_one[OF S(1) dist p outbox_guardD(1)] by blast
  moreover have "outbox_at k s = Some r" using select_key_distinct[OF dist r(1)] r(3) by simp
  moreover have "outbox_at k s' = Some (f r)" "\<And>k'. k' \<noteq> k \<Longrightarrow> outbox_at k' s' = outbox_at k' s"
    using r outbox_guardD(1)[OF r(4)] by (auto simp: r(5) select_key_replace_row)
  ultimately show ?thesis using S(2) by (intro that) simp_all
qed

lemma update_outboxes_keyed:
  assumes inv: "pub_inv sha256 s" and sel: "outbox_at k s = Some r"
    and p: "p r" "\<And>x. p x \<Longrightarrow> ob_outbox_id x = k"
    and g: "outbox_guard r (f r)" and c: "outbox_row_check (f r)"
  shows "update_outboxes p f s = Inr (s\<lparr>outboxes := replace_row ob_outbox_id (f r) (outboxes s)\<rparr>, 1)"
proof -
  note R = pub_inv_outbox[OF inv sel]
  note v = pub_invD(2)[OF inv]
  have evs: "map ob_event_id (replace_row ob_outbox_id (f r) (outboxes s)) = map ob_event_id (outboxes s)"
    using pub_invD(5)[OF inv] R(5) outbox_guardD(1,2)[OF g]
    by (auto simp: replace_row_def distinct_map inj_on_def)
  have "x \<in> set (replace_row ob_outbox_id (f r) (outboxes s)) \<Longrightarrow> outbox_row_check x
      \<and> ob_event_id x \<in> set (map se_event_id (signed_events s))" for x
    using v c R(5) outbox_guardD(2)[OF g] set_replace_row_subset[of ob_outbox_id "f r" "outboxes s"]
    by (auto simp: outboxes_valid_def list_all_iff)
  then have "outboxes_valid (signed_events s) (replace_row ob_outbox_id (f r) (outboxes s))"
    using v evs by (simp add: outboxes_valid_def list_all_iff)
  then have "sql_update outbox_guard (outboxes_valid (signed_events s)) p f (outboxes s) =
      Some (replace_row ob_outbox_id (f r) (outboxes s), 1)"
    by (intro sql_update_keyed[where p = p, OF pub_invD(5)[OF inv] R(5) p(1)])
      (use p(2) R(4) outbox_guardD(1)[OF g] g in simp_all)
  then show ?thesis by (simp add: update_outboxes_def)
qed

section \<open>Target writes\<close>

lemma update_targets_InrD:
  assumes "update_targets p f s = Inr (s', n)"
  shows "sql_update target_guard (targets_valid (outboxes s)) p f (targets s) = Some (targets s', n)"
    and "s' = s\<lparr>targets := targets s'\<rparr>" and "signed_events s' = signed_events s"
    and "outboxes s' = outboxes s" and "attempts s' = attempts s"
  using assms by (auto simp: update_targets_def split: option.splits)

lemma update_targets_one:
  assumes upd: "update_targets p f s = Inr (s', 1)" and inv: "pub_inv sha256 s"
    and p: "\<And>t. p t \<Longrightarrow> target_key t = (k, i)"
  obtains t where "target_at k i s = Some t" and "p t" and "target_guard t (f t)"
    and "target_row_check (f t)"
    and "s' = s\<lparr>targets := replace_row target_key (f t) (targets s)\<rparr>"
    and "target_at k i s' = Some (f t)"
    and "\<And>k' i'. (k', i') \<noteq> (k, i) \<Longrightarrow> target_at k' i' s' = target_at k' i' s"
proof -
  note S = update_targets_InrD[OF upd]
  note dist = pub_invD(6)[OF inv]
  obtain t where t: "t \<in> set (targets s)" "p t" "target_key t = (k, i)" "target_guard t (f t)"
    "targets s' = replace_row target_key (f t) (targets s)"
    using sql_update_one[OF S(1) dist p target_guardD(1)] by blast
  have "target_at k i s = Some t" using select_key_distinct[OF dist t(1)] t(3) by simp
  moreover have at: "target_at k i s' = Some (f t)"
    "\<And>k' i'. (k', i') \<noteq> (k, i) \<Longrightarrow> target_at k' i' s' = target_at k' i' s"
    using t target_guardD(1)[OF t(4)] by (auto simp: t(5) select_key_replace_row) (metis image_eqI)+
  moreover have "target_row_check (f t)"
    using sql_update_SomeD(3)[OF S(1)] select_key_SomeD(1)[OF at(1)]
    by (simp add: targets_valid_def list_all_iff)
  ultimately show ?thesis using S(2) t by (intro that) simp_all
qed

lemma update_targets_inv:
  assumes inv: "pub_inv sha256 s" and upd: "update_targets p f s = Inr (s', n)"
  shows "pub_inv sha256 s'"
proof -
  note S = update_targets_InrD[OF upd]
  note U = sql_update_SomeD[OF S(1)]
  let ?f = "\<lambda>r. if p r then f r else r"
  have g: "target_key (?f r) = target_key r" "record_triple (target_of_row (?f r)) = record_triple (target_of_row r)"
    "tg_outbox_id (?f r) = tg_outbox_id r" "tg_target_ordinal (?f r) = tg_target_ordinal r"
    if "r \<in> set (targets s)" for r
    using U(4)[OF that] target_guardD(1,9,2,3)[of r "f r"] by auto
  have inventory: "map record_triple (targets_of k s') = map record_triple (targets_of k s)" for k
  proof -
    have "filter (\<lambda>r. tg_outbox_id r = k) (map ?f rs) = map ?f (filter (\<lambda>r. tg_outbox_id r = k) rs)"
      if "set rs \<subseteq> set (targets s)" for rs
      using that g(3) by (induction rs) auto
    then have "filter (\<lambda>r. tg_outbox_id r = k) (targets s') = map ?f (filter (\<lambda>r. tg_outbox_id r = k) (targets s))"
      using U(1) by simp
    moreover have "sort_key tg_target_ordinal (map ?f (filter (\<lambda>r. tg_outbox_id r = k) (targets s))) =
        map ?f (sort_key tg_target_ordinal (filter (\<lambda>r. tg_outbox_id r = k) (targets s)))"
      by (rule sort_key_map) (use g(4) in auto)
    ultimately have "target_rows k s' = map ?f (target_rows k s)" by (simp only: target_rows_def)
    then show ?thesis using g(2) by (simp add: targets_of_def)
  qed
  have keys: "set (map target_key (targets s')) = set (map target_key (targets s))"
    using target.update_keys[OF S(1)] by metis
  have "inventory_ok sha256 r (targets_of (ob_outbox_id r) s')" if "r \<in> set (outboxes s)" for r
    using inv that validate_targets_cong[OF inventory[of "ob_outbox_id r"] refl refl refl]
    by (simp add: pub_inv_def inventory_ok_def)
  moreover have "attempts_valid (targets s') (attempts s')"
    using pub_invD(4)[OF inv] S(5) keys by (simp add: attempts_valid_def)
  ultimately show ?thesis
    using inv U(3) S by (simp add: pub_inv_def publication_governed_def)
qed

lemma update_targets_keyed:
  assumes inv: "pub_inv sha256 s" and sel: "target_at k i s = Some t"
    and p: "p t" "\<And>x. p x \<Longrightarrow> target_key x = (k, i)"
    and g: "target_guard t (f t)" and c: "target_row_check (f t)"
  shows "update_targets p f s = Inr (s\<lparr>targets := replace_row target_key (f t) (targets s)\<rparr>, 1)"
proof -
  note T = select_key_SomeD[OF sel]
  note v = pub_invD(3)[OF inv]
  have only: "x = t" if "x \<in> set (targets s)" "target_key x = target_key t" for x
    using that pub_invD(6)[OF inv] T(1) by (auto simp: distinct_map inj_on_def)
  have relays: "map (\<lambda>x. (tg_outbox_id x, tg_relay_id x)) (replace_row target_key (f t) (targets s)) =
      map (\<lambda>x. (tg_outbox_id x, tg_relay_id x)) (targets s)"
    using only target_guardD(1,2,4)[OF g] by (auto simp: replace_row_def)
  have "x \<in> set (replace_row target_key (f t) (targets s)) \<Longrightarrow> target_row_check x
      \<and> tg_outbox_id x \<in> set (map ob_outbox_id (outboxes s))" for x
    using v c T(1) target_guardD(2)[OF g] set_replace_row_subset[of target_key "f t" "targets s"]
    by (auto simp: targets_valid_def list_all_iff)
  then have "targets_valid (outboxes s) (replace_row target_key (f t) (targets s))"
    using v relays by (simp add: targets_valid_def list_all_iff)
  then have "sql_update target_guard (targets_valid (outboxes s)) p f (targets s) =
      Some (replace_row target_key (f t) (targets s), 1)"
    by (intro sql_update_keyed[where p = p, OF pub_invD(6)[OF inv] T(1) p(1)])
      (use p(2) T(2) target_guardD(1)[OF g] g in simp_all)
  then show ?thesis by (simp add: update_targets_def)
qed

section \<open>Attempt writes\<close>

definition attempt_row_of_input :: "record_input \<Rightarrow> attempt_row" where
  "attempt_row_of_input input =
     \<lparr>at_attempt_id = ri_attempt_id input, at_outbox_id = ox_id (pl_outbox (ri_lease input)),
       at_target_ordinal = int (ri_target_ordinal input),
       at_attempt_number = int (ri_attempt_number input),
       at_event_sha256 = ox_event_sha256 (pl_outbox (ri_lease input)),
       at_lease_owner = pl_owner (ri_lease input),
       at_started_at_unix_ms = int (ri_started_at input),
       at_finished_at_unix_ms = int (ri_finished_at input),
       at_outcome = outcome_code (ri_outcome input), at_result_code = outcome_code (ri_outcome input)\<rparr>"

lemma attempt_of_row_of_input [simp]:
  "attempt_of_row (attempt_row_of_input input) = attempt_record_from_input input"
  by (simp add: attempt_of_row_def attempt_row_of_input_def attempt_record_from_input_def)

lemma insert_attempt_iff:
  "insert_attempt input s = Inr s' \<longleftrightarrow>
     ri_started_at input \<le> i64_max \<and> ri_finished_at input \<le> i64_max
   \<and> attempts_valid (targets s) (attempts s @ [attempt_row_of_input input])
   \<and> s' = s\<lparr>attempts := attempts s @ [attempt_row_of_input input]\<rparr>"
  by (auto simp: insert_attempt_def pub_i64_value_def sql_insert_def attempt_row_of_input_def)

lemma insert_attempt_inv:
  assumes inv: "pub_inv sha256 s" and ins: "insert_attempt input s = Inr s'"
  shows "pub_inv sha256 s'"
proof -
  from ins have v: "attempts_valid (targets s) (attempts s @ [attempt_row_of_input input])"
    and s': "s' = s\<lparr>attempts := attempts s @ [attempt_row_of_input input]\<rparr>"
    by (simp_all add: insert_attempt_iff)
  have "attempt_row_ok (attempt_row_of_input input)"
    using v by (simp add: attempts_valid_def attempt_row_ok_def attempt_row_of_input_def)
  with inv v s' show ?thesis by (auto simp: pub_inv_def publication_governed_def)
qed

end
