(* ===== verification/Publication_Rules.thy ===== *)
theory Publication_Rules
  imports Publication_Store
begin

text \<open>
  What each transaction body of the executor did when it succeeded: the row it found, the row it
  wrote, the state after, and that the structural invariant is kept.
\<close>

section \<open>Claim\<close>

definition pub_owner_ok :: "bytes \<Rightarrow> bool" where
  "pub_owner_ok owner \<longleftrightarrow> length owner = 16 \<and> pub_lease_owner_from_bytes owner = Inr owner"

lemma pub_owner_ok_nonzero: "pub_owner_ok owner \<Longrightarrow> \<not> list_all (\<lambda>x. x = 0) owner"
  by (auto simp: pub_owner_ok_def pub_lease_owner_from_bytes_def split: if_splits)

definition due_outbox :: "int \<Rightarrow> outbox_row \<Rightarrow> bool" where
  "due_outbox now r \<longleftrightarrow> ob_state r = ''pending'' \<and> sql_le (ob_next_attempt_unix_ms r) now"

definition outbox_order :: "outbox_row \<Rightarrow> int option \<times> int \<times> bytes" where
  "outbox_order r = (ob_next_attempt_unix_ms r, ob_created_at_unix_ms r, ob_outbox_id r)"

lemma read_claimable_outbox_alt:
  "read_claimable_outbox now s = map_option (\<lambda>r. r\<lparr>ob_lease_owner := None\<rparr>)
     (select_min outbox_order (filter (due_outbox now) (outboxes s)))"
  by (simp add: read_claimable_outbox_def outbox_order_def[abs_def] due_outbox_def[abs_def])

lemma claim_next_outboxE:
  assumes inv: "pub_inv sha256 s" and owner: "pub_owner_ok owner"
    and claim: "claim_next_outbox sha256 owner now authority s = Inr (res, s')"
  obtains (none) "res = None" "s' = s" "filter (due_outbox (int now)) (outboxes s) = []"
  | (some) r e r' where "outbox_at (ob_outbox_id r) s = Some r" "due_outbox (int now) r"
      "\<And>x. x \<in> set (outboxes s) \<Longrightarrow> due_outbox (int now) x \<Longrightarrow> outbox_order r \<le> outbox_order x"
      "validate_authority (outbox_of_row r) authority = Inr ()"
      "e = now + nat (ob_attempt_deadline_ms r)" "e \<le> i64_max"
      "r' = claim_outbox_set owner (int e) (int now) r" "outbox_guard r r'"
      "s' = s\<lparr>outboxes := replace_row ob_outbox_id r' (outboxes s)\<rparr>"
      "outbox_at (ob_outbox_id r) s' = Some r'" "ob_outbox_id r' = ob_outbox_id r"
      "pub_inv sha256 s'"
      "res = Some \<lparr>pl_outbox = outbox_of_row r', pl_owner = owner, pl_expires_at = e\<rparr>"
proof (cases "select_min outbox_order (filter (due_outbox (int now)) (outboxes s))")
  case None
  with claim none show ?thesis
    by (auto simp: claim_next_outbox_def pub_i64_value_def read_claimable_outbox_alt)
next
  case (Some r)
  note M = select_min_SomeD[OF Some]
  have mem: "r \<in> set (outboxes s)" and due: "due_outbox (int now) r" using M(1) by auto
  let ?k = "ob_outbox_id r"
  have at: "outbox_at ?k s = Some r" using select_key_distinct[OF pub_invD(5)[OF inv] mem] .
  note R = pub_inv_outbox[OF inv at]
  have "ob_lease_owner r = None"
    using due R(1) by (auto simp: due_outbox_def outbox_row_ok_def elim: outbox_row_cases)
  then have same: "r\<lparr>ob_lease_owner := None\<rparr> = r" by simp
  define e where "e = now + nat (ob_attempt_deadline_ms r)"
  from claim Some have e: "e \<le> i64_max"
    and auth: "validate_authority (outbox_of_row r) authority = Inr ()"
    and upd: "update_outboxes (claim_outbox_where ?k (int (nat (ob_revision r))) (int now))
       (claim_outbox_set owner (int e) (int now)) s = Inr (s', 1)"
    and read: "\<exists>leased. read_outbox ?k s' = Inr (Some leased)
       \<and> res = Some \<lparr>pl_outbox = leased, pl_owner = owner, pl_expires_at = e\<rparr>"
    by (auto simp: claim_next_outbox_def pub_i64_value_def read_claimable_outbox_alt same
        decode_outbox_row_ok[OF R(1)] e_def split: if_splits)
  obtain x where x: "outbox_at ?k s = Some x" "outbox_guard x (claim_outbox_set owner (int e) (int now) x)"
    "s' = s\<lparr>outboxes := replace_row ob_outbox_id (claim_outbox_set owner (int e) (int now) x) (outboxes s)\<rparr>"
    "outbox_at ?k s' = Some (claim_outbox_set owner (int e) (int now) x)"
    by (rule update_outboxes_one[OF upd inv, of ?k]) (auto simp: claim_outbox_where_def)
  have [simp]: "x = r" using x(1) at by simp
  have inv': "pub_inv sha256 s'"
    using inv upd by (rule update_outboxes_inv)
      (use pub_owner_ok_nonzero[OF owner] in \<open>auto simp: claim_outbox_set_def\<close>)
  have "res = Some \<lparr>pl_outbox = outbox_of_row (claim_outbox_set owner (int e) (int now) r),
      pl_owner = owner, pl_expires_at = e\<rparr>"
    using read x(4) by (simp add: read_outbox_inv[OF inv'])
  then show ?thesis
    using some[of r, OF at due _ auth e_def e refl] x inv' M(2) by (simp add: claim_outbox_set_def)
qed

section \<open>Leases\<close>

lemma pub_validate_lease_iff:
  assumes "pub_inv sha256 s"
  shows "pub_validate_lease lease now True s = Inr () \<longleftrightarrow>
     (\<exists>r. outbox_at (ox_id (pl_outbox lease)) s = Some r \<and> pl_outbox lease = outbox_of_row r
        \<and> ob_state r = ''leased'' \<and> ob_lease_owner r = Some (pl_owner lease)
        \<and> ob_lease_expires_unix_ms r = Some (int (pl_expires_at lease)) \<and> now < pl_expires_at lease)"
proof -
  have st: "outbox_state_of (ob_state r) = OutboxLeased \<longleftrightarrow> ob_state r = ''leased''" for r
    by (auto simp: outbox_state_of_def)
  have ex: "map_option nat (ob_lease_expires_unix_ms r) = Some e \<longleftrightarrow>
      ob_lease_expires_unix_ms r = Some (int e)"
    if "outbox_at k s = Some r" "ob_state r = ''leased''" for r e k
    using that pub_inv_outbox(1)[OF assms that(1)]
    by (auto simp: outbox_row_ok_def elim!: outbox_row_cases)
  show ?thesis
  proof (cases "outbox_at (ox_id (pl_outbox lease)) s")
    case None
    then show ?thesis by (simp add: pub_validate_lease_def read_outbox_inv[OF assms])
  next
    case (Some r)
    show ?thesis
    proof (cases "pl_outbox lease = outbox_of_row r")
      case True
      then have "outbox_at (ob_outbox_id r) s = Some r" using Some by simp
      with True show ?thesis
        by (auto simp: pub_validate_lease_def read_outbox_inv[OF assms] st ex)
    next
      case False
      with Some show ?thesis by (auto simp: pub_validate_lease_def read_outbox_inv[OF assms])
    qed
  qed
qed

lemma pub_validate_lease_cases:
  assumes "pub_inv sha256 s"
  shows "pub_validate_lease lease now b s = Inr () \<or> pub_validate_lease lease now b s = Inl PubLeaseLost"
  unfolding pub_validate_lease_def read_outbox_inv[OF assms]
  by (cases "outbox_at (ox_id (pl_outbox lease)) s") auto

section \<open>Prepare\<close>

definition due_target :: "outbox_row \<Rightarrow> int \<Rightarrow> target_row \<Rightarrow> bool" where
  "due_target r now t \<longleftrightarrow>
     retryable_state (target_state_of (tg_state t)) \<and> tg_attempt_count t < ob_max_attempts r
   \<and> sql_le (tg_next_attempt_unix_ms t) now"

lemma target_is_due_iff:
  assumes "outbox_row_ok r" and "target_row_check t"
  shows "target_is_due (nat (ob_max_attempts r)) now (target_of_row t) \<longleftrightarrow> due_target r (int now) t"
  using assms
  by (cases "tg_next_attempt_unix_ms t")
    (auto simp: target_is_due_def due_target_def target_row_check_def sql_logic nat_le_iff)

lemma retryable_state_names:
  assumes "target_row_check t"
  shows "retryable_state (target_state_of (tg_state t)) \<longleftrightarrow>
     tg_state t \<in> {''pending'', ''failed'', ''rate_limited'', ''unknown''}"
  using assms by (auto simp: target_row_check_def target_state_of_def)

lemma prepare_nextE:
  assumes inv: "pub_inv sha256 s" and prep: "prepare_next sha256 lease started s = Inr (p, s')"
  obtains r t t' n e where "outbox_at (ob_outbox_id r) s = Some r" "pl_outbox lease = outbox_of_row r"
    "ob_state r = ''leased''" "ob_lease_owner r = Some (pl_owner lease)"
    "ob_lease_expires_unix_ms r = Some (int (pl_expires_at lease))" "started < pl_expires_at lease"
    "t \<in> set (targets s)" "tg_outbox_id t = ob_outbox_id r" "due_target r (int started) t"
    "n = nat (tg_attempt_count t) + 1"
    "t' = prepare_target_set (derive_attempt_id sha256 (ob_outbox_id r) (ob_event_sha256 r)
       (nat (tg_target_ordinal t)) n) (int started) t"
    "target_guard t t'" "target_row_check t'"
    "s' = s\<lparr>targets := replace_row target_key t' (targets s)\<rparr>" "pub_inv sha256 s'"
    "target_at (ob_outbox_id r) (tg_target_ordinal t) s' = Some t'"
    "e \<in> set (signed_events s)" "se_event_id e = ob_event_id r"
    "p = \<lparr>pp_lease = lease, pp_target = target_of_row t', pp_attempt_id = derive_attempt_id sha256
       (ob_outbox_id r) (ob_event_sha256 r) (nat (tg_target_ordinal t)) n,
       pp_started_at = started, pp_deadline_at = pl_expires_at lease,
       pp_publication = \<lparr>cp_outbox_id = ob_outbox_id r, cp_event_id = ob_event_id r,
         cp_event_sha256 = ob_event_sha256 r, cp_exact_signed_event_bytes = se_canonical_event_json e\<rparr>\<rparr>"
    "sha256 (se_canonical_event_json e) = ob_event_sha256 r"
proof -
  let ?k = "ox_id (pl_outbox lease)"
  from prep have val: "pub_validate_lease lease started True s = Inr ()"
    by (auto simp: prepare_next_def)
  then obtain r where r: "outbox_at ?k s = Some r" "pl_outbox lease = outbox_of_row r"
    "ob_state r = ''leased''" "ob_lease_owner r = Some (pl_owner lease)"
    "ob_lease_expires_unix_ms r = Some (int (pl_expires_at lease))" "started < pl_expires_at lease"
    using pub_validate_lease_iff[OF inv] by blast
  note R = pub_inv_outbox[OF inv r(1)]
  have k: "?k = ob_outbox_id r" using R(4) by simp
  have m: "ox_max_attempts (pl_outbox lease) = nat (ob_max_attempts r)" by (simp add: r(2))
  obtain c where c: "find (target_is_due (nat (ob_max_attempts r)) started) (targets_of ?k s) = Some c"
    using prep by (auto simp: prepare_next_def read_targets_inv[OF inv] m)
  then have "c \<in> set (targets_of ?k s)" "target_is_due (nat (ob_max_attempts r)) started c"
    by (auto simp: find_Some_iff)
  then obtain t where t: "t \<in> set (targets s)" "tg_outbox_id t = ?k" "c = target_of_row t"
    by (auto simp: targets_of_def)
  have tc: "target_row_check t" using pub_inv_target(1)[OF inv t(1)] .
  have due: "due_target r (int started) t"
    using \<open>target_is_due _ started c\<close> target_is_due_iff[OF R(1) tc] t(3) by simp
  define n where "n = nat (tg_attempt_count t) + 1"
  define aid where "aid = derive_attempt_id sha256 (ob_outbox_id r) (ob_event_sha256 r)
    (nat (tg_target_ordinal t)) n"
  from prep obtain target where sub: "submit_target sha256 lease started c n aid s = Inr (target, s')"
    and pub: "\<exists>publication. map_err submission_read_error (read_committed sha256 ?k s') = Inr publication
      \<and> p = \<lparr>pp_lease = lease, pp_target = target, pp_attempt_id = aid, pp_started_at = started,
          pp_deadline_at = pl_expires_at lease, pp_publication = publication\<rparr>"
    unfolding n_def aid_def
    by (auto simp: prepare_next_def read_targets_inv[OF inv] m c[unfolded k] Let_def r(2) t(3) split: if_splits)
  let ?i = "tg_target_ordinal t"
  have i: "0 \<le> ?i" "0 \<le> tg_revision t" "0 \<le> ob_max_attempts r"
    using target_row_checkD(1,3)[OF tc] outbox_row_okD(3)[OF R(1)] by simp_all
  from sub have upd: "update_targets (prepare_target_where ?k ?i (tg_revision t)
      (ob_max_attempts r) (int started)) (prepare_target_set aid (int started)) s = Inr (s', 1)"
    and rd: "\<exists>ts. read_targets ?k s' = Inr ts \<and> find (\<lambda>u. tr_ordinal u = nat ?i) ts = Some target"
    by (auto simp: submit_target_def pub_i64_value_def t(3) m i split: if_splits)
  note inv' = update_targets_inv[OF inv upd]
  obtain x where x: "target_at ?k ?i s = Some x" "target_guard x (prepare_target_set aid (int started) x)"
    "target_row_check (prepare_target_set aid (int started) x)"
    "s' = s\<lparr>targets := replace_row target_key (prepare_target_set aid (int started) x) (targets s)\<rparr>"
    "target_at ?k ?i s' = Some (prepare_target_set aid (int started) x)"
    by (rule update_targets_one[OF upd inv, of ?k ?i]) (auto simp: prepare_target_where_def target_key_def)
  have xt: "x = t" using x(1) pub_inv_target(2)[OF inv t(1)] t(2) by simp
  from find_target[OF inv' target_row_checkD(2)[OF tc], of ?k] have tgt: "target = target_of_row (prepare_target_set aid (int started) t)"
    using rd x(5) i(1) by (auto simp: read_targets_inv[OF inv'] xt)
  have r': "outbox_at ?k s' = Some r" and ev': "signed_events s' = signed_events s"
    using r(1) update_targets_InrD(3,4)[OF upd] by simp_all
  obtain e where e: "e \<in> set (signed_events s')" "se_event_id e = ob_event_id r"
    "sha256 (se_canonical_event_json e) = ob_event_sha256 r"
    "read_committed sha256 ?k s' = Inr \<lparr>cp_outbox_id = ?k, cp_event_id = ob_event_id r,
       cp_event_sha256 = ob_event_sha256 r, cp_exact_signed_event_bytes = se_canonical_event_json e\<rparr>"
    by (rule read_committed_inv[OF inv' r'])
  let ?t' = "prepare_target_set aid (int started) t"
  have t': "?t' = prepare_target_set (derive_attempt_id sha256 (ob_outbox_id r) (ob_event_sha256 r)
      (nat ?i) n) (int started) t" by (simp only: aid_def)
  have p: "p = \<lparr>pp_lease = lease, pp_target = target_of_row ?t', pp_attempt_id = derive_attempt_id sha256
       (ob_outbox_id r) (ob_event_sha256 r) (nat ?i) n,
       pp_started_at = started, pp_deadline_at = pl_expires_at lease,
       pp_publication = \<lparr>cp_outbox_id = ob_outbox_id r, cp_event_id = ob_event_id r,
         cp_event_sha256 = ob_event_sha256 r, cp_exact_signed_event_bytes = se_canonical_event_json e\<rparr>\<rparr>"
    using pub e(4) tgt k by (simp add: aid_def[symmetric])
  show ?thesis
    by (rule that[OF r(1)[unfolded k] r(2-6) t(1) t(2)[unfolded k] due n_def t' x(2)[unfolded xt]
        x(3)[unfolded xt] x(4)[unfolded xt] inv' x(5)[unfolded k xt] e(1)[unfolded ev'] e(2)
        p e(3)])
qed

section \<open>Settling one target and releasing the outbox\<close>

text \<open>The target row of the outcome \<open>st\<close> with the next schedule \<open>nx\<close>.\<close>

definition settled_row :: "target_state \<Rightarrow> nat option \<Rightarrow> nat \<Rightarrow> target_row \<Rightarrow> target_row" where
  "settled_row st nx finished t =
     target_outcome_set (target_state_code st) (map_option int nx) (int finished) t"

lemma settled_row_simps [simp]:
  "target_key (settled_row st nx f t) = target_key t"
  "tg_outbox_id (settled_row st nx f t) = tg_outbox_id t"
  "tg_target_ordinal (settled_row st nx f t) = tg_target_ordinal t"
  "tg_relay_id (settled_row st nx f t) = tg_relay_id t"
  "tg_required (settled_row st nx f t) = tg_required t"
  "tg_state (settled_row st nx f t) = target_state_code st"
  "tg_revision (settled_row st nx f t) = tg_revision t + 1"
  "tg_attempt_count (settled_row st nx f t) = tg_attempt_count t"
  "tg_next_attempt_unix_ms (settled_row st nx f t) = map_option int nx"
  "tg_last_attempt_id (settled_row st nx f t) = tg_last_attempt_id t"
  "tg_updated_at_unix_ms (settled_row st nx f t) = int f"
  by (simp_all add: settled_row_def target_outcome_set_def target_key_def)

lemma pub_optional_i64_iff:
  "pub_optional_i64 v = Inr w \<longleftrightarrow> w = map_option int v \<and> (\<forall>n. v = Some n \<longrightarrow> n \<le> i64_max)"
  by (cases v) (auto simp: pub_optional_i64_def pub_i64_value_def i64_of_u64_def)

lemma settle_targetE:
  assumes inv: "pub_inv sha256 s" and settle: "settle_target input s = Inr (st, s')"
  obtains t nx where "target_at (ox_id (pl_outbox (ri_lease input))) (int (ri_target_ordinal input)) s = Some t"
    "tg_state t = ''submitted''" "tg_revision t = int (ri_target_revision input)"
    "tg_attempt_count t = int (ri_attempt_number input)"
    "tg_last_attempt_id t = Some (ri_attempt_id input)"
    "target_outcome_schedule input = Inr (st, nx)"
    "target_guard t (settled_row st nx (ri_finished_at input) t)"
    "target_row_check (settled_row st nx (ri_finished_at input) t)"
    "attempts_valid (targets s) (attempts s @ [attempt_row_of_input input])"
    "s' = s\<lparr>attempts := attempts s @ [attempt_row_of_input input],
       targets := replace_row target_key (settled_row st nx (ri_finished_at input) t) (targets s)\<rparr>"
    "pub_inv sha256 s'"
proof -
  let ?k = "ox_id (pl_outbox (ri_lease input))" and ?i = "int (ri_target_ordinal input)"
  from settle obtain s1 nx where ins: "insert_attempt input s = Inr s1"
    and sch: "target_outcome_schedule input = Inr (st, nx)"
    and upd: "update_targets (target_outcome_where ?k ?i (int (ri_target_revision input))
        (int (ri_attempt_number input)) (ri_attempt_id input))
      (settled_row st nx (ri_finished_at input)) s1 = Inr (s', 1)"
    by (auto simp: settle_target_def pub_i64_value_def pub_optional_i64_iff settled_row_def[abs_def]
        split: if_splits)
  note inv1 = insert_attempt_inv[OF inv ins]
  note I = ins[unfolded insert_attempt_iff]
  obtain t where t: "target_at ?k ?i s1 = Some t" "target_outcome_where ?k ?i (int (ri_target_revision input))
        (int (ri_attempt_number input)) (ri_attempt_id input) t"
    "target_guard t (settled_row st nx (ri_finished_at input) t)"
    "target_row_check (settled_row st nx (ri_finished_at input) t)"
    "s' = s1\<lparr>targets := replace_row target_key (settled_row st nx (ri_finished_at input) t) (targets s1)\<rparr>"
    by (rule update_targets_one[OF upd inv1, of ?k ?i]) (auto simp: target_outcome_where_def target_key_def)
  have "s' = s\<lparr>attempts := attempts s @ [attempt_row_of_input input],
       targets := replace_row target_key (settled_row st nx (ri_finished_at input) t) (targets s)\<rparr>"
    using t(5) I by simp
  with t I sch show ?thesis
    using that[of t nx] update_targets_inv[OF inv1 upd] by (simp add: target_outcome_where_def)
qed

definition released_row :: "outbox_disposition \<Rightarrow> nat \<Rightarrow> outbox_row \<Rightarrow> outbox_row" where
  "released_row disp now r =
     release_outbox_set (outbox_state_code (od_state disp)) (map_option int (od_next_attempt disp)) (int now) r"

lemma released_row_simps [simp]:
  "ob_outbox_id (released_row d n r) = ob_outbox_id r"
  "ob_event_id (released_row d n r) = ob_event_id r"
  "ob_event_sha256 (released_row d n r) = ob_event_sha256 r"
  "ob_max_attempts (released_row d n r) = ob_max_attempts r"
  "ob_state (released_row d n r) = outbox_state_code (od_state d)"
  "ob_revision (released_row d n r) = ob_revision r + 1"
  "ob_next_attempt_unix_ms (released_row d n r) = map_option int (od_next_attempt d)"
  "ob_lease_owner (released_row d n r) = None"
  "ob_lease_expires_unix_ms (released_row d n r) = None"
  "ob_updated_at_unix_ms (released_row d n r) = int n"
  by (simp_all add: released_row_def release_outbox_set_def)

lemma release_outboxE:
  assumes inv: "pub_inv sha256 s"
    and rel: "release_outbox w outbox owner expires now disp s = Inr s'"
    and w: "\<And>k v ow e n r. w k v ow e n r \<Longrightarrow> leased_outbox_where k v ow e n r"
  obtains r where "outbox_at (ox_id outbox) s = Some r"
    "w (ox_id outbox) (int (ox_revision outbox)) owner (int expires) (int now) r"
    "outbox_guard r (released_row disp now r)"
    "s' = s\<lparr>outboxes := replace_row ob_outbox_id (released_row disp now r) (outboxes s)\<rparr>"
    "outbox_at (ox_id outbox) s' = Some (released_row disp now r)" "pub_inv sha256 s'"
proof -
  from rel have upd: "update_outboxes (w (ox_id outbox) (int (ox_revision outbox)) owner (int expires) (int now))
      (released_row disp now) s = Inr (s', 1)"
    by (auto simp: release_outbox_def pub_i64_value_def pub_optional_i64_iff released_row_def[abs_def]
        split: if_splits)
  have inv': "pub_inv sha256 s'" using inv upd by (rule update_outboxes_inv) simp
  show ?thesis
    by (rule update_outboxes_one[OF upd inv, of "ox_id outbox"])
      (use that inv' w in \<open>auto simp: leased_outbox_where_def\<close>)
qed

section \<open>Record\<close>

lemma record_outcomeE:
  assumes inv: "pub_inv sha256 s" and rec: "record_outcome sha256 input s = Inr (commit, s')"
  obtains (existing) a where "select_key at_attempt_id (ri_attempt_id input) (attempts s) = Some a"
      "attempt_of_row a = attempt_record_from_input input"
      "reconcile_recorded sha256 input (attempt_record_from_input input) s = Inr commit" "s' = s"
  | (fresh) r t st nx s1 disp where
      "select_key at_attempt_id (ri_attempt_id input) (attempts s) = None"
      "outbox_at (ob_outbox_id r) s = Some r" "pl_outbox (ri_lease input) = outbox_of_row r"
      "ob_state r = ''leased''" "ob_lease_owner r = Some (pl_owner (ri_lease input))"
      "ob_lease_expires_unix_ms r = Some (int (pl_expires_at (ri_lease input)))"
      "ri_finished_at input < pl_expires_at (ri_lease input)"
      "target_at (ob_outbox_id r) (int (ri_target_ordinal input)) s = Some t"
      "tg_state t = ''submitted''" "tg_revision t = int (ri_target_revision input)"
      "tg_attempt_count t = int (ri_attempt_number input)"
      "tg_last_attempt_id t = Some (ri_attempt_id input)"
      "tg_updated_at_unix_ms t = int (ri_started_at input)"
      "target_outcome_schedule input = Inr (st, nx)"
      "target_guard t (settled_row st nx (ri_finished_at input) t)"
      "target_row_check (settled_row st nx (ri_finished_at input) t)"
      "attempts_valid (targets s) (attempts s @ [attempt_row_of_input input])"
      "s1 = s\<lparr>attempts := attempts s @ [attempt_row_of_input input],
        targets := replace_row target_key (settled_row st nx (ri_finished_at input) t) (targets s)\<rparr>"
      "disposition sha256 (outbox_of_row r) (targets_of (ob_outbox_id r) s1) = Inr disp"
      "outbox_guard r (released_row disp (ri_finished_at input) r)"
      "s' = s1\<lparr>outboxes := replace_row ob_outbox_id (released_row disp (ri_finished_at input) r) (outboxes s)\<rparr>"
      "commit = commit_of_input input st (od_state disp)"
      "pub_inv sha256 s1" "pub_inv sha256 s'"
proof (cases "select_key at_attempt_id (ri_attempt_id input) (attempts s)")
  case (Some a)
  with rec have rr: "reconcile_recorded sha256 input (attempt_of_row a) s = Inr commit" "s' = s"
    by (auto simp: record_outcome_def read_attempt_inv[OF inv])
  then have "attempt_of_row a = attempt_record_from_input input" by (auto simp: reconcile_recorded_def)
  with existing Some rr show ?thesis by metis
next
  case None
  let ?k = "ox_id (pl_outbox (ri_lease input))"
  from rec None have val: "pub_validate_lease (ri_lease input) (ri_finished_at input) True s = Inr ()"
    by (auto simp: record_outcome_def read_attempt_inv[OF inv])
  then obtain r where r: "outbox_at ?k s = Some r" "pl_outbox (ri_lease input) = outbox_of_row r"
    "ob_state r = ''leased''" "ob_lease_owner r = Some (pl_owner (ri_lease input))"
    "ob_lease_expires_unix_ms r = Some (int (pl_expires_at (ri_lease input)))"
    "ri_finished_at input < pl_expires_at (ri_lease input)"
    using pub_validate_lease_iff[OF inv] by blast
  have k: "?k = ob_outbox_id r" using r(2) by simp
  from rec None obtain c st s1 disp where
    c: "find (\<lambda>t. tr_ordinal t = ri_target_ordinal input) (targets_of ?k s) = Some c"
       "tr_updated_at c = ri_started_at input"
    and settle: "settle_target input s = Inr (st, s1)"
    and d: "and_then (read_targets ?k s1) (disposition sha256 (outbox_of_row r)) = Inr disp"
    and rel: "release_outbox after_attempt_where (outbox_of_row r)
       (pl_owner (ri_lease input)) (pl_expires_at (ri_lease input)) (ri_finished_at input) disp s1 = Inr s'"
    and com: "commit = commit_of_input input st (od_state disp)"
    by (auto simp: record_outcome_def read_attempt_inv[OF inv] read_targets_inv[OF inv] r(2))
  show ?thesis
  proof (rule settle_targetE[OF inv settle])
    fix t nx
    assume t: "target_at ?k (int (ri_target_ordinal input)) s = Some t" "tg_state t = ''submitted''"
      "tg_revision t = int (ri_target_revision input)" "tg_attempt_count t = int (ri_attempt_number input)"
      "tg_last_attempt_id t = Some (ri_attempt_id input)" "target_outcome_schedule input = Inr (st, nx)"
      "target_guard t (settled_row st nx (ri_finished_at input) t)"
      "target_row_check (settled_row st nx (ri_finished_at input) t)"
      "attempts_valid (targets s) (attempts s @ [attempt_row_of_input input])"
      "s1 = s\<lparr>attempts := attempts s @ [attempt_row_of_input input],
        targets := replace_row target_key (settled_row st nx (ri_finished_at input) t) (targets s)\<rparr>"
      and inv1: "pub_inv sha256 s1"
    note T = select_key_SomeD[OF t(1)]
    have tc: "target_row_check t" using pub_inv_target(1)[OF inv T(1)] .
    have "ri_target_ordinal input \<le> 31"
      using target_row_checkD(2)[OF tc] T(2) by (simp add: target_key_def)
    from find_target[OF inv this, of ?k] c t(1) have "c = target_of_row t" by simp
    then have upd: "tg_updated_at_unix_ms t = int (ri_started_at input)"
      using c(2) target_row_checkD(7)[OF tc] by simp
    have d': "disposition sha256 (outbox_of_row r) (targets_of (ob_outbox_id r) s1) = Inr disp"
      using d by (simp add: read_targets_inv[OF inv1] k)
    show ?thesis
    proof (rule release_outboxE[OF inv1 rel])
      show "leased_outbox_where k v ow e n x" if "after_attempt_where k v ow e n x" for k v ow e n x
        using that by (simp add: after_attempt_where_def)
      fix x
      assume x: "outbox_at (ox_id (outbox_of_row r)) s1 = Some x"
        "outbox_guard x (released_row disp (ri_finished_at input) x)"
        "s' = s1\<lparr>outboxes := replace_row ob_outbox_id (released_row disp (ri_finished_at input) x) (outboxes s1)\<rparr>"
        and inv': "pub_inv sha256 s'"
      have ob1: "outboxes s1 = outboxes s" by (simp add: t(10))
      have xr: "x = r" using x(1) r(1) k ob1 by simp
      show ?thesis
        by (rule fresh[OF None r(1)[unfolded k] r(2-6) t(1)[unfolded k] t(2-5) upd t(6-10) d'
            x(2)[unfolded xr] x(3)[unfolded xr ob1] com inv1 inv'])
    qed
  qed
qed

section \<open>Recover\<close>

text \<open>The record input of the unknown outcome recovery writes for a submitted target.\<close>

definition recovery_input :: "outbox_row \<Rightarrow> bytes \<Rightarrow> nat \<Rightarrow> nat \<Rightarrow> nat \<Rightarrow> target_row \<Rightarrow> record_input" where
  "recovery_input r owner expires now delay t =
     \<lparr>ri_lease = \<lparr>pl_outbox = outbox_of_row r, pl_owner = owner, pl_expires_at = expires\<rparr>,
       ri_target_ordinal = nat (tg_target_ordinal t), ri_target_revision = nat (tg_revision t),
       ri_attempt_number = nat (tg_attempt_count t), ri_attempt_id = the (tg_last_attempt_id t),
       ri_started_at = nat (tg_updated_at_unix_ms t), ri_finished_at = now,
       ri_outcome = OutcomeUnknown, ri_retry_delay = delay\<rparr>"

lemma recover_targetE:
  assumes "recover_target sha256 (outbox_of_row r) owner now delay (target_of_row t) s = Inr s'"
    and "ob_lease_expires_unix_ms r = Some e"
  obtains st where "settle_target (recovery_input r owner (nat e) now delay t) s = Inr (st, s')"
    and "read_attempt (the (tg_last_attempt_id t)) s = Inr None"
    and "tg_last_attempt_id t \<noteq> None" and "nat (tg_updated_at_unix_ms t) \<le> now"
    and "1 \<le> nat (tg_attempt_count t)"
  using assms
  by (auto simp: recover_target_def recovery_input_def attempt_evidence_new_def split: if_splits)

lemma recover_targets_frame:
  assumes "pub_inv sha256 s"
    and "recover_targets sha256 (outbox_of_row r) owner now delay (map target_of_row ts) s = Inr s'"
    and "ob_lease_expires_unix_ms r = Some e"
  shows "pub_inv sha256 s' \<and> outboxes s' = outboxes s \<and> signed_events s' = signed_events s"
  using assms
proof (induction ts arbitrary: s)
  case Nil
  then show ?case by simp
next
  case (Cons t ts)
  from Cons.prems(2) obtain s1 where
    one: "recover_target sha256 (outbox_of_row r) owner now delay (target_of_row t) s = Inr s1"
    and rest: "recover_targets sha256 (outbox_of_row r) owner now delay (map target_of_row ts) s1 = Inr s'"
    by auto
  obtain st where settle: "settle_target (recovery_input r owner (nat e) now delay t) s = Inr (st, s1)"
    by (rule recover_targetE[OF one Cons.prems(3)])
  have "pub_inv sha256 s1 \<and> outboxes s1 = outboxes s \<and> signed_events s1 = signed_events s"
    by (rule settle_targetE[OF Cons.prems(1) settle]) simp
  with Cons.IH[OF _ rest Cons.prems(3)] show ?case by simp
qed

lemma recover_expiredE:
  assumes inv: "pub_inv sha256 s"
    and rec: "recover_expired sha256 candidate now delay s = Inr (b, s')"
  obtains r owner e s1 disp where "outbox_at (ob_outbox_id r) s = Some r"
    "rc_outbox candidate = outbox_of_row r" "ob_state r = ''leased''" "ob_lease_owner r = Some owner"
    "ob_lease_expires_unix_ms r = Some e" "e \<le> int now" "0 \<le> e"
    "recover_targets sha256 (outbox_of_row r) owner now delay
       (map target_of_row (filter (\<lambda>t. tg_state t = ''submitted'') (target_rows (ob_outbox_id r) s))) s = Inr s1"
    "pub_inv sha256 s1" "outboxes s1 = outboxes s"
    "disposition sha256 (outbox_of_row r) (targets_of (ob_outbox_id r) s1) = Inr disp"
    "outbox_guard r (released_row disp now r)"
    "s' = s1\<lparr>outboxes := replace_row ob_outbox_id (released_row disp now r) (outboxes s)\<rparr>"
    "pub_inv sha256 s'" "b"
proof -
  let ?k = "ox_id (rc_outbox candidate)"
  from rec have "\<exists>r. outbox_at ?k s = Some r \<and> outbox_of_row r = rc_outbox candidate"
    by (auto simp: recover_expired_def read_outbox_inv[OF inv])
  then obtain r where r: "outbox_at ?k s = Some r" "rc_outbox candidate = outbox_of_row r" by metis
  have k: "?k = ob_outbox_id r" using r(2) by simp
  have at: "outbox_at (ob_outbox_id r) s = Some r" using r(1) k by simp
  note R = pub_inv_outbox[OF inv at]
  from rec have "outbox_state_of (ob_state r) = OutboxLeased"
    by (auto simp: recover_expired_def read_outbox_inv[OF inv] r(2) at split: if_splits)
  then have st: "ob_state r = ''leased''" by (simp add: outbox_state_of_def split: if_splits)
  obtain owner e where oe: "ob_lease_owner r = Some owner" "ob_lease_expires_unix_ms r = Some e" "1 \<le> e"
    using R(1) st by (auto simp: outbox_row_ok_def elim!: outbox_row_cases)
  let ?sub = "filter (\<lambda>t. tg_state t = ''submitted'') (target_rows (ob_outbox_id r) s)"
  have "target_state_of (tg_state t) = TargetSubmitted \<longleftrightarrow> tg_state t = ''submitted''" for t :: target_row
    by (simp add: target_state_of_def)
  then have "filter (\<lambda>t. tr_state t = TargetSubmitted) (targets_of (ob_outbox_id r) s) = map target_of_row ?sub"
    by (simp add: targets_of_def filter_map comp_def)
  with rec obtain s1 disp where ex: "nat e \<le> now" and
    rts: "recover_targets sha256 (outbox_of_row r) owner now delay (map target_of_row ?sub) s = Inr s1"
    and d: "and_then (read_targets (ob_outbox_id r) s1) (disposition sha256 (outbox_of_row r)) = Inr disp"
    and rel: "release_outbox recovery_where (outbox_of_row r) owner (nat e) now disp s1 = Inr s'" and b: "b"
    by (auto simp: recover_expired_def read_outbox_inv[OF inv] read_targets_inv[OF inv] r(2) at oe
        split: if_splits)
  note F = recover_targets_frame[OF inv rts oe(2)]
  have d': "disposition sha256 (outbox_of_row r) (targets_of (ob_outbox_id r) s1) = Inr disp"
    using d read_targets_inv[of sha256 s1] F by simp
  show ?thesis
  proof (rule release_outboxE[of sha256 s1, OF _ rel])
    show "pub_inv sha256 s1" using F by simp
    show "leased_outbox_where k v ow ex n x" if "recovery_where k v ow ex n x" for k v ow ex n x
      using that by (simp add: recovery_where_def)
    fix x
    assume x: "outbox_at (ox_id (outbox_of_row r)) s1 = Some x"
      "outbox_guard x (released_row disp now x)"
      "s' = s1\<lparr>outboxes := replace_row ob_outbox_id (released_row disp now x) (outboxes s1)\<rparr>"
      and inv': "pub_inv sha256 s'"
    have ob1: "outboxes s1 = outboxes s" using F by simp
    have xr: "x = r" using x(1) at ob1 by simp
    have e: "e \<le> int now" "0 \<le> e" using ex oe(3) by simp_all
    show ?thesis
      by (rule that[OF at r(2) st oe(1,2) e rts _ ob1 d' x(2)[unfolded xr] x(3)[unfolded xr ob1] inv' b])
        (use F in simp)
  qed
qed

end
