(* ===== verification/Publication_View.thy ===== *)
theory Publication_View
  imports Publication_Rules
begin

text \<open>
  One publication seen on its own: its outbox row, its target rows in order and its evidence.
  \<open>view_ok\<close> is its invariant, kept by every claim, preparation, recording and release:
  attempt numbers are accounted for, at most one target is in flight and only under a lease, and the
  state of the outbox agrees with its targets.
\<close>

section \<open>Views\<close>

definition evidence_rows :: "bytes \<Rightarrow> pub_store \<Rightarrow> attempt_row list" where
  "evidence_rows k s = filter (\<lambda>a. at_outbox_id a = k) (attempts s)"

definition is_submitted :: "target_row \<Rightarrow> bool" where
  "is_submitted t \<longleftrightarrow> tg_state t = ''submitted''"

definition row_retryable :: "target_row \<Rightarrow> bool" where
  "row_retryable t \<longleftrightarrow> retryable_state (target_state_of (tg_state t))"

definition row_blocking :: "outbox_row \<Rightarrow> target_row \<Rightarrow> bool" where
  "row_blocking r t \<longleftrightarrow>
     tg_state t = ''rejected'' \<or> tg_state t = ''auth_required''
   \<or> row_retryable t \<and> ob_max_attempts r \<le> tg_attempt_count t \<and> tg_next_attempt_unix_ms t = None"

definition attempt_id_of :: "(bytes \<Rightarrow> bytes) \<Rightarrow> outbox_row \<Rightarrow> int \<Rightarrow> int \<Rightarrow> bytes" where
  "attempt_id_of sha256 r i n =
     derive_attempt_id sha256 (ob_outbox_id r) (ob_event_sha256 r) (nat i) (nat n)"

definition target_sched :: "(bytes \<Rightarrow> bytes) \<Rightarrow> outbox_row \<Rightarrow> target_row \<Rightarrow> bool" where
  "target_sched sha256 r t \<longleftrightarrow>
     tg_attempt_count t \<le> ob_max_attempts r
   \<and> (row_retryable t \<longrightarrow> tg_next_attempt_unix_ms t = None \<longrightarrow> tg_attempt_count t = ob_max_attempts r)
   \<and> (\<not> row_retryable t \<longrightarrow> tg_next_attempt_unix_ms t = None)
   \<and> (is_submitted t \<longrightarrow>
        tg_last_attempt_id t = Some (attempt_id_of sha256 r (tg_target_ordinal t) (tg_attempt_count t)))"

text \<open>The attempt numbers for which there must be evidence: all but the one in flight.\<close>

definition settled_numbers :: "target_row \<Rightarrow> int set" where
  "settled_numbers t = (if is_submitted t then {1..<tg_attempt_count t} else {1..tg_attempt_count t})"

definition recorded_numbers :: "int \<Rightarrow> attempt_row list \<Rightarrow> int set" where
  "recorded_numbers i as = at_attempt_number ` {a \<in> set as. at_target_ordinal a = i}"

definition schedulable :: "target_row list \<Rightarrow> int \<Rightarrow> bool" where
  "schedulable ts v \<longleftrightarrow> (\<exists>t \<in> set ts. row_retryable t \<and> sql_le (tg_next_attempt_unix_ms t) v)"

definition outbox_sched :: "outbox_row \<Rightarrow> target_row list \<Rightarrow> bool" where
  "outbox_sched r ts \<longleftrightarrow>
     (ob_state r = ''complete'' \<longrightarrow> (\<forall>t \<in> set ts. tg_required t = 1 \<longrightarrow> tg_state t = ''accepted''))
   \<and> (ob_state r = ''blocked'' \<longrightarrow> (\<exists>t \<in> set ts. tg_required t = 1 \<and> row_blocking r t))
   \<and> (ob_state r = ''pending'' \<longrightarrow> (\<forall>v. ob_next_attempt_unix_ms r = Some v \<longrightarrow> schedulable ts v))
   \<and> (ob_state r = ''leased'' \<longrightarrow> (\<exists>t \<in> set ts. is_submitted t) \<or> schedulable ts (ob_updated_at_unix_ms r))
   \<and> (ob_state r \<noteq> ''leased'' \<longrightarrow> filter is_submitted ts = [])
   \<and> length (filter is_submitted ts) \<le> 1"

definition view_ok :: "(bytes \<Rightarrow> bytes) \<Rightarrow> outbox_row \<Rightarrow> target_row list \<Rightarrow> attempt_row list \<Rightarrow> bool" where
  "view_ok sha256 r ts as \<longleftrightarrow>
     (\<forall>t \<in> set ts. target_sched sha256 r t
        \<and> recorded_numbers (tg_target_ordinal t) as = settled_numbers t)
   \<and> (\<forall>a \<in> set as. at_attempt_id a = attempt_id_of sha256 r (at_target_ordinal a) (at_attempt_number a)
        \<and> at_event_sha256 a = ob_event_sha256 r)
   \<and> outbox_sched r ts"

text \<open>The view of one publication in the store; the invariant asks it of every outbox.\<close>

definition pub_sched :: "(bytes \<Rightarrow> bytes) \<Rightarrow> pub_store \<Rightarrow> bool" where
  "pub_sched sha256 s \<longleftrightarrow>
     (\<forall>k r. outbox_at k s = Some r \<longrightarrow> view_ok sha256 r (target_rows k s) (evidence_rows k s))"

section \<open>Steps of one publication\<close>

lemma replace_row_unique:
  assumes "distinct (map key rows)" and "t \<in> set rows" and "key t' = key t"
  shows "x \<in> set (replace_row key t' rows) \<longleftrightarrow> x = t' \<or> (x \<in> set rows \<and> x \<noteq> t)"
proof -
  have "key x = key t \<longleftrightarrow> x = t" if "x \<in> set rows" for x
    using that assms by (auto simp: distinct_map inj_on_def)
  with assms show ?thesis by (auto simp: in_set_replace_row)
qed

lemma filter_replace_row:
  assumes "distinct (map key rows)" and "t \<in> set rows" and "key t' = key t"
  shows "length (filter p (replace_row key t' rows)) + (if p t then 1 else 0) =
     length (filter p rows) + (if p t' then 1 else 0)"
  using assms
proof (induction rows)
  case (Cons x rows)
  show ?case
  proof (cases "x = t")
    case True
    with Cons.prems have "replace_row key t' rows = rows" by (intro replace_row_absent) simp
    then show ?thesis using True Cons.prems(3) by (simp add: replace_row_def)
  next
    case False
    with Cons.prems have "t \<in> set rows" "key x \<noteq> key t'" by auto
    with Cons show ?thesis by (simp add: replace_row_def)
  qed
qed simp

lemma view_ok_claim:
  assumes ok: "view_ok sha256 r ts as" and due: "due_outbox now r"
  shows "view_ok sha256 (claim_outbox_set owner e now r) ts as"
proof -
  obtain v where v: "ob_next_attempt_unix_ms r = Some v" "v \<le> now" "ob_state r = ''pending''"
    using due by (cases "ob_next_attempt_unix_ms r") (auto simp: due_outbox_def)
  with ok have "schedulable ts v" by (simp add: view_ok_def outbox_sched_def)
  then have "schedulable ts now"
    using v(2) by (fastforce simp: schedulable_def sql_le_def split: option.splits)
  then show ?thesis
    using ok v
    by (auto simp: view_ok_def outbox_sched_def claim_outbox_set_def target_sched_def attempt_id_of_def
        row_blocking_def)
qed

lemma view_ok_prepare:
  assumes ok: "view_ok sha256 r ts as" and leased: "ob_state r = ''leased''"
    and idle: "filter is_submitted ts = []"
    and dist: "distinct (map target_key ts)" and t: "t \<in> set ts" "due_target r now t" "0 \<le> tg_attempt_count t"
    and t': "t' = prepare_target_set (attempt_id_of sha256 r (tg_target_ordinal t) (tg_attempt_count t + 1)) now t"
  shows "view_ok sha256 r (replace_row target_key t' ts) as"
proof -
  have key: "target_key t' = target_key t" by (simp add: t' prepare_target_set_def target_key_def)
  note mem = replace_row_unique[OF dist t(1) key]
  have old: "\<And>x. x \<in> set ts \<Longrightarrow> target_sched sha256 r x \<and> recorded_numbers (tg_target_ordinal x) as = settled_numbers x"
    using ok by (simp add: view_ok_def)
  have sub: "is_submitted t'" "\<not> is_submitted t"
    using idle t(1) by (auto simp: t' is_submitted_def prepare_target_set_def filter_empty_conv)
  have f: "tg_attempt_count t' = tg_attempt_count t + 1" "tg_target_ordinal t' = tg_target_ordinal t"
    "tg_next_attempt_unix_ms t' = None" "\<not> row_retryable t'"
    by (simp_all add: t' prepare_target_set_def row_retryable_def target_state_of_def)
  have "target_sched sha256 r t'"
    using t(2) f by (auto simp: target_sched_def due_target_def t' prepare_target_set_def)
  moreover have "recorded_numbers (tg_target_ordinal t') as = settled_numbers t'"
  proof -
    have "{1..tg_attempt_count t} = {1..<tg_attempt_count t + 1}" by auto
    then show ?thesis using old[OF t(1)] sub f by (simp add: settled_numbers_def)
  qed
  moreover have "length (filter is_submitted (replace_row target_key t' ts)) = 1"
    using filter_replace_row[OF dist t(1) key, of is_submitted] sub idle by simp
  moreover have "\<exists>x \<in> set (replace_row target_key t' ts). is_submitted x" using mem sub(1) by blast
  ultimately show ?thesis
    using ok leased old mem by (auto simp: view_ok_def outbox_sched_def)
qed

text \<open>The meaning of the disposition of an outbox in terms of its required targets.\<close>

lemma disposition_cases:
  assumes disp: "disposition sha256 (outbox_of_row r) (map target_of_row ts) = Inr d"
    and ok: "outbox_row_ok r" and tc: "\<And>t. t \<in> set ts \<Longrightarrow> target_row_check t"
  obtains (complete) "od_state d = OutboxComplete" "od_next_attempt d = None"
      "\<And>t. t \<in> set ts \<Longrightarrow> tg_required t = 1 \<Longrightarrow> tg_state t = ''accepted''"
  | (blocked) t where "od_state d = OutboxBlocked" "od_next_attempt d = None" "t \<in> set ts"
      "tg_required t = 1" "row_blocking r t"
  | (pending) t v where "od_state d = OutboxPending" "od_next_attempt d = Some (nat v)" "t \<in> set ts"
      "tg_required t = 1" "tg_next_attempt_unix_ms t = Some v" "0 \<le> v"
      "\<And>x w. x \<in> set ts \<Longrightarrow> tg_required x = 1 \<Longrightarrow> tg_next_attempt_unix_ms x = Some w \<Longrightarrow> v \<le> w"
      "\<And>x. x \<in> set ts \<Longrightarrow> tg_required x = 1 \<Longrightarrow> \<not> row_blocking r x"
      "\<exists>x \<in> set ts. tg_required x = 1 \<and> tg_state x \<noteq> ''accepted''"
proof -
  have acc: "target_state_of (tg_state t) = TargetAccepted \<longleftrightarrow> tg_state t = ''accepted''" for t :: target_row
    by (simp add: target_state_of_def)
  have blk: "target_is_blocking (nat (ob_max_attempts r)) (target_of_row t) \<longleftrightarrow> row_blocking r t"
    if "t \<in> set ts" for t
    using target_row_checkD(5)[OF tc[OF that]] outbox_row_okD(3)[OF ok]
    by (auto simp: target_is_blocking_def row_blocking_def row_retryable_def target_state_of_def nat_le_eq_zle)
  let ?req = "filter (\<lambda>t. tg_required t = 1) ts"
  have req: "filter tr_required (map target_of_row ts) = map target_of_row ?req"
    by (simp add: filter_map comp_def)
  consider (c) "\<forall>t \<in> set ?req. tg_state t = ''accepted''"
    | (b) "\<not> (\<forall>t \<in> set ?req. tg_state t = ''accepted'')" "\<exists>t \<in> set ?req. row_blocking r t"
    | (p) "\<not> (\<forall>t \<in> set ?req. tg_state t = ''accepted'')" "\<not> (\<exists>t \<in> set ?req. row_blocking r t)" by blast
  then show ?thesis
  proof cases
    case c
    then have "list_all (\<lambda>t. tr_state t = TargetAccepted) (map target_of_row ?req)"
      by (simp add: list_all_iff acc target_state_of_def)
    with disp have "d = \<lparr>od_state = OutboxComplete, od_next_attempt = None\<rparr>"
      by (auto simp: disposition_def req Let_def)
    with c complete show ?thesis by simp
  next
    case b
    then have "\<not> list_all (\<lambda>t. tr_state t = TargetAccepted) (map target_of_row ?req)"
      "list_ex (target_is_blocking (nat (ob_max_attempts r))) (map target_of_row ?req)"
      by (auto simp: list_all_iff list_ex_iff acc blk)
    with disp have "d = \<lparr>od_state = OutboxBlocked, od_next_attempt = None\<rparr>"
      by (auto simp: disposition_def req Let_def)
    with b blocked show ?thesis by auto
  next
    case p
    let ?nexts = "List.map_filter tr_next_attempt (map target_of_row ?req)"
    have "\<not> list_all (\<lambda>t. tr_state t = TargetAccepted) (map target_of_row ?req)"
      "\<not> list_ex (target_is_blocking (nat (ob_max_attempts r))) (map target_of_row ?req)"
      using p by (auto simp: list_all_iff list_ex_iff acc blk)
    with disp obtain n where
      n: "select_min id ?nexts = Some n" "d = \<lparr>od_state = OutboxPending, od_next_attempt = Some n\<rparr>"
      by (auto simp: disposition_def req Let_def)
    have nx: "x \<in> set ?nexts \<longleftrightarrow> (\<exists>t \<in> set ?req. map_option nat (tg_next_attempt_unix_ms t) = Some x)" for x
      by (force simp: List.map_filter_def)
    note M = select_min_SomeD[OF n(1)]
    obtain t v where t: "t \<in> set ?req" "tg_next_attempt_unix_ms t = Some v" "n = nat v"
      using M(1) nx[of n] by auto
    have nn: "0 \<le> w" if "x \<in> set ts" "tg_next_attempt_unix_ms x = Some w" for x w
      using target_row_checkD(9)[OF tc[OF that(1)] that(2)] by simp
    have low: "v \<le> w" if "x \<in> set ts" "tg_required x = 1" "tg_next_attempt_unix_ms x = Some w" for x w
    proof -
      have "nat w \<in> set ?nexts" using that nx[of "nat w"] by force
      then have "nat v \<le> nat w" using M(2)[of "nat w"] t(3) by simp
      then show ?thesis using nn[OF that(1,3)] by (simp add: nat_le_eq_zle)
    qed
    have "0 \<le> v" using nn t by auto
    then show ?thesis using pending[of v t] n t low p by (auto simp: disposition_def)
  qed
qed

lemma outbox_sched_released:
  assumes disp: "disposition sha256 (outbox_of_row r) (map target_of_row ts) = Inr d"
    and ok: "outbox_row_ok r" and tc: "\<And>t. t \<in> set ts \<Longrightarrow> target_row_check t"
    and sched: "\<And>t. t \<in> set ts \<Longrightarrow> target_sched sha256 r t"
    and none: "filter is_submitted ts = []"
  shows "outbox_sched (released_row d now r) ts"
proof (rule disposition_cases[OF disp ok tc])
  assume "od_state d = OutboxComplete" "\<And>t. t \<in> set ts \<Longrightarrow> tg_required t = 1 \<Longrightarrow> tg_state t = ''accepted''"
  then show ?thesis using none by (simp add: outbox_sched_def)
next
  fix t assume b: "od_state d = OutboxBlocked" "t \<in> set ts" "tg_required t = 1" "row_blocking r t"
  then have "row_blocking (released_row d now r) t" by (simp add: row_blocking_def)
  with b show ?thesis using none by (auto simp: outbox_sched_def)
next
  fix t v assume p: "od_state d = OutboxPending" "od_next_attempt d = Some (nat v)" "0 \<le> v"
    "t \<in> set ts" "tg_next_attempt_unix_ms t = Some v"
  have "row_retryable t" using sched[OF p(4)] p(5) by (auto simp: target_sched_def)
  then have "schedulable ts v" using p(4,5) by (auto simp: schedulable_def sql_le_def)
  with p show ?thesis using none by (simp add: outbox_sched_def)
qed

lemma target_outcome_scheduleD:
  assumes "target_outcome_schedule input = Inr (st, nx)"
  shows "st = outcome_target_state (ri_outcome input)" "ri_outcome input \<noteq> OutcomeSubmitted"
    "nx = (if retryable_outcome (ri_outcome input)
         \<and> ri_attempt_number input < ox_max_attempts (pl_outbox (ri_lease input))
       then Some (ri_finished_at input + ri_retry_delay input) else None)"
    "\<And>n. nx = Some n \<Longrightarrow> n \<le> i64_max"
    "ri_retry_delay input \<le> retry_upper_bound (pl_outbox (ri_lease input)) (ri_attempt_number input)
     \<or> ri_retry_delay input = 0"
  using assms by (auto simp: target_outcome_schedule_def Let_def split: if_splits)

lemma outcome_states [simp]:
  "retryable_state (outcome_target_state c) \<longleftrightarrow> retryable_outcome c"
  "target_state_code (outcome_target_state c) = ''submitted'' \<longleftrightarrow> c = OutcomeSubmitted"
  by (cases c; simp)+

lemma target_sched_released [simp]:
  "target_sched sha256 (released_row d n r) t = target_sched sha256 r t"
  "attempt_id_of sha256 (released_row d n r) i m = attempt_id_of sha256 r i m"
  by (simp_all add: target_sched_def attempt_id_of_def)

text \<open>Settling the target in flight and releasing the outbox: the common part of record and recovery.\<close>

lemma view_ok_settle:
  assumes ok: "view_ok sha256 r ts as" and rok: "outbox_row_ok r"
    and tc: "\<And>x. x \<in> set ts \<Longrightarrow> target_row_check x"
    and dist: "distinct (map target_key ts)" and ids: "\<And>x. x \<in> set ts \<Longrightarrow> tg_outbox_id x = k"
    and t: "t \<in> set ts" "is_submitted t"
    and lease: "pl_outbox (ri_lease input) = outbox_of_row r"
    and num: "tg_attempt_count t = int (ri_attempt_number input)"
      "tg_target_ordinal t = int (ri_target_ordinal input)" "tg_last_attempt_id t = Some (ri_attempt_id input)"
    and sch: "target_outcome_schedule input = Inr (st, nx)"
    and t': "t' = settled_row st nx (ri_finished_at input) t" "target_row_check t'"
    and disp: "disposition sha256 (outbox_of_row r) (map target_of_row (replace_row target_key t' ts)) = Inr d"
  shows "view_ok sha256 (released_row d now r) (replace_row target_key t' ts) (as @ [attempt_row_of_input input])"
proof -
  note O = target_outcome_scheduleD[OF sch]
  have key: "target_key t' = target_key t" by (simp add: t')
  note mem = replace_row_unique[OF dist t(1) key]
  have old: "\<And>x. x \<in> set ts \<Longrightarrow> target_sched sha256 r x \<and> recorded_numbers (tg_target_ordinal x) as = settled_numbers x"
    using ok by (simp add: view_ok_def)
  have one: "length (filter is_submitted ts) \<le> 1" using ok by (simp add: view_ok_def outbox_sched_def)
  have sub: "\<not> is_submitted t'" using O by (simp add: t' is_submitted_def)
  have max: "int (ox_max_attempts (pl_outbox (ri_lease input))) = ob_max_attempts r"
    using outbox_row_okD(3)[OF rok] by (simp add: lease)
  have sched: "target_sched sha256 r t'"
    using old[OF t(1)] O(1,3) sub num max
    by (auto simp: target_sched_def t' row_retryable_def is_submitted_def)
  have pos: "1 \<le> tg_attempt_count t"
    using target_row_checkD(5,11)[OF tc[OF t(1)]] num(3) by auto
  let ?a = "attempt_row_of_input input"
  have a: "at_target_ordinal ?a = tg_target_ordinal t" "at_attempt_number ?a = tg_attempt_count t"
    "at_attempt_id ?a = attempt_id_of sha256 r (tg_target_ordinal t) (tg_attempt_count t)"
    "at_event_sha256 ?a = ob_event_sha256 r"
    using old[OF t(1)] t(2) num by (simp_all add: attempt_row_of_input_def target_sched_def lease)
  have rec: "recorded_numbers i (as @ [?a]) =
      recorded_numbers i as \<union> (if i = tg_target_ordinal t then {tg_attempt_count t} else {})" for i
  proof -
    have "{x \<in> set (as @ [?a]). at_target_ordinal x = i} =
        {x \<in> set as. at_target_ordinal x = i} \<union> (if i = tg_target_ordinal t then {?a} else {})"
      using a(1) by auto
    then show ?thesis by (simp add: recorded_numbers_def a(2) image_Un)
  qed
  have "recorded_numbers (tg_target_ordinal t') (as @ [?a]) = settled_numbers t'"
  proof -
    have "{1..<tg_attempt_count t} \<union> {tg_attempt_count t} = {1..tg_attempt_count t}" using pos by auto
    then show ?thesis using rec old[OF t(1)] t(2) sub by (simp add: settled_numbers_def t' is_submitted_def)
  qed
  moreover have "recorded_numbers (tg_target_ordinal x) (as @ [?a]) = settled_numbers x"
    if "x \<in> set ts" "x \<noteq> t" for x
  proof -
    have "tg_target_ordinal x \<noteq> tg_target_ordinal t"
      using that t(1) dist ids by (auto simp: distinct_map inj_on_def target_key_def)
    then show ?thesis using rec old[OF that(1)] by simp
  qed
  moreover have none: "filter is_submitted (replace_row target_key t' ts) = []"
  proof -
    have "length (filter is_submitted (replace_row target_key t' ts)) + 1 = length (filter is_submitted ts)"
      using filter_replace_row[OF dist t(1) key, of is_submitted] sub t(2) by simp
    with one have "length (filter is_submitted (replace_row target_key t' ts)) = 0" by linarith
    then show ?thesis by simp
  qed
  moreover have "outbox_sched (released_row d now r) (replace_row target_key t' ts)"
    by (rule outbox_sched_released[OF disp rok _ _ none]) (use mem tc old sched t'(2) in auto)
  ultimately show ?thesis
    using ok old mem sched a by (auto simp: view_ok_def)
qed

end
