(* ===== verification/Publication_Queue.thy ===== *)
theory Publication_Queue
  imports Publication_Operations
begin

text \<open>
  The two writers of the publication queue outside the executor: the publication part of the
  finalization commit (\<open>src/src/reconciliation_finalization_commit.rs\<close>), which queues a signed event
  for its targets, and the administrator's retry of a blocked publication (\<open>publication_retry\<close> of
  \<open>src/src/runtime_admin.rs\<close>).
\<close>

section \<open>Queueing a signed event\<close>

datatype finalization_op_error =
    FinLeaseLost | FinGenerationConflict | FinAttemptUnavailable | FinQueueFull | FinConflict
  | FinStorage

record finalization_target =
  ft_ordinal :: nat
  ft_relay_id :: string
  ft_required :: bool

record required_publication =
  rq_outbox_id :: bytes
  rq_authority_sha256 :: bytes
  rq_target_set_sha256 :: bytes
  rq_queue_capacity :: nat
  rq_maximum_attempts :: nat
  rq_initial_backoff_ms :: nat
  rq_maximum_backoff_ms :: nat
  rq_attempt_deadline_ms :: nat
  rq_target_count :: nat
  rq_targets :: "finalization_target list"

text \<open>The columns of the signed event in \<open>FinalizationRecord\<close>.\<close>

record finalization_event =
  fe_event_id :: bytes
  fe_statement_sha256 :: bytes
  fe_event_sha256 :: bytes
  fe_issuer_public_key :: bytes
  fe_authored_at_unix_s :: nat
  fe_canonical_event_json :: bytes

definition OUTBOX_ID_DOMAIN :: bytes where
  "OUTBOX_ID_DOMAIN = ascii_bytes ''radroots.rhi.publication_outbox.v1'' @ [0]"

definition publication_outbox_id :: "(bytes \<Rightarrow> bytes) \<Rightarrow> bytes \<Rightarrow> bytes \<Rightarrow> bytes \<Rightarrow> bytes" where
  "publication_outbox_id sha256 event_id authority target_set =
     sha256 (OUTBOX_ID_DOMAIN @ event_id @ authority @ target_set)"

text \<open>The branch of \<open>FinalizationRecord::from_inputs\<close> for a required publication.\<close>

definition required_publication_from ::
  "(bytes \<Rightarrow> bytes) \<Rightarrow> bytes \<Rightarrow> publication_authority \<Rightarrow> required_publication option" where
  "required_publication_from sha256 event_id publication =
     Option.bind (pa_retry publication) (\<lambda>retry.
       let ts = map (\<lambda>t. \<lparr>ft_ordinal = pt_ordinal t, ft_relay_id = pt_relay_id t,
             ft_required = pt_required t\<rparr>) (pa_targets publication) in
       if ts = [] \<or> RHI_PUBLICATION_MAX_TARGETS < length ts
          \<or> list_ex (\<lambda>(ordinal, t). ft_ordinal t \<noteq> ordinal) (enumerate 0 ts)
       then None
       else if 255 < length ts then None
       else Some \<lparr>rq_outbox_id = publication_outbox_id sha256 event_id
             (pa_authority_sha256 publication) (pa_target_set_sha256 publication),
           rq_authority_sha256 = pa_authority_sha256 publication,
           rq_target_set_sha256 = pa_target_set_sha256 publication,
           rq_queue_capacity = pa_queue_capacity publication,
           rq_maximum_attempts = rp_maximum_attempts retry,
           rq_initial_backoff_ms = rp_initial_backoff_ms retry,
           rq_maximum_backoff_ms = rp_maximum_backoff_ms retry,
           rq_attempt_deadline_ms = rp_attempt_deadline_ms retry,
           rq_target_count = length ts, rq_targets = ts\<rparr>)"

definition fin_i64_value :: "nat \<Rightarrow> (finalization_op_error, int) result" where
  "fin_i64_value n = i64_of_u64 FinStorage n"

definition insert_signed_event ::
  "finalization_event \<Rightarrow> pub_store \<Rightarrow> (finalization_op_error, pub_store) result" where
  "insert_signed_event event s =
     and_then (fin_i64_value (fe_authored_at_unix_s event)) (\<lambda>authored.
       case sql_insert (\<lambda>_ _. True) events_valid
          \<lparr>se_event_id = fe_event_id event, se_statement_sha256 = fe_statement_sha256 event,
            se_event_sha256 = fe_event_sha256 event,
            se_issuer_public_key = fe_issuer_public_key event,
            se_authored_at_unix_s = authored,
            se_canonical_event_json = fe_canonical_event_json event\<rparr> (signed_events s) of
         None \<Rightarrow> Inl FinStorage
       | Some rows \<Rightarrow> Inr (s\<lparr>signed_events := rows\<rparr>))"

definition insert_outbox ::
  "finalization_event \<Rightarrow> required_publication \<Rightarrow> nat \<Rightarrow> pub_store
     \<Rightarrow> (finalization_op_error, pub_store) result" where
  "insert_outbox event required now s =
     and_then (fin_i64_value (rq_initial_backoff_ms required)) (\<lambda>initial.
     and_then (fin_i64_value (rq_maximum_backoff_ms required)) (\<lambda>maximum.
     and_then (fin_i64_value (rq_attempt_deadline_ms required)) (\<lambda>deadline.
     and_then (fin_i64_value now) (\<lambda>now_ms.
       case sql_insert (\<lambda>_ _. True) (outboxes_valid (signed_events s))
          \<lparr>ob_outbox_id = rq_outbox_id required, ob_event_id = fe_event_id event,
            ob_event_sha256 = fe_event_sha256 event,
            ob_publication_authority_sha256 = rq_authority_sha256 required,
            ob_target_set_sha256 = rq_target_set_sha256 required,
            ob_target_count = int (length (rq_targets required)),
            ob_required_target_count = int (length (filter ft_required (rq_targets required))),
            ob_max_attempts = int (rq_maximum_attempts required),
            ob_initial_backoff_ms = initial, ob_maximum_backoff_ms = maximum,
            ob_attempt_deadline_ms = deadline, ob_state = ''pending'', ob_revision = 1,
            ob_next_attempt_unix_ms = Some now_ms, ob_lease_owner = None,
            ob_lease_expires_unix_ms = None, ob_created_at_unix_ms = now_ms,
            ob_updated_at_unix_ms = now_ms\<rparr> (outboxes s) of
         None \<Rightarrow> Inl FinStorage
       | Some rows \<Rightarrow> Inr (s\<lparr>outboxes := rows\<rparr>)))))"

definition queued_target_row :: "bytes \<Rightarrow> int \<Rightarrow> finalization_target \<Rightarrow> target_row" where
  "queued_target_row outbox_id now t =
     \<lparr>tg_outbox_id = outbox_id, tg_target_ordinal = int (ft_ordinal t),
       tg_relay_id = ft_relay_id t, tg_required = (if ft_required t then 1 else 0),
       tg_state = ''pending'', tg_revision = 1, tg_attempt_count = 0,
       tg_next_attempt_unix_ms = Some now, tg_last_attempt_id = None,
       tg_updated_at_unix_ms = now\<rparr>"

fun insert_publication_targets ::
  "bytes \<Rightarrow> nat \<Rightarrow> finalization_target list \<Rightarrow> pub_store \<Rightarrow> (finalization_op_error, pub_store) result"
  where
  "insert_publication_targets outbox_id now [] s = Inr s"
| "insert_publication_targets outbox_id now (t # ts) s =
     and_then (fin_i64_value now) (\<lambda>now_ms.
       case sql_insert (\<lambda>_ _. True) (targets_valid (outboxes s))
          (queued_target_row outbox_id now_ms t) (targets s) of
         None \<Rightarrow> Inl FinStorage
       | Some rows \<Rightarrow> insert_publication_targets outbox_id now ts (s\<lparr>targets := rows\<rparr>))"

definition require_queue_capacity ::
  "required_publication \<Rightarrow> pub_store \<Rightarrow> (finalization_op_error, unit) result" where
  "require_queue_capacity required s =
     (if rq_queue_capacity required
           \<le> length (filter (\<lambda>r. ob_state r \<noteq> ''complete'') (outboxes s))
      then Inl FinQueueFull else Inr ())"

text \<open>The capacity check of \<open>commit\<close> and the last three statements of \<open>insert_finalization\<close>.\<close>

definition queue_publication ::
  "finalization_event \<Rightarrow> required_publication \<Rightarrow> nat \<Rightarrow> pub_store
     \<Rightarrow> (finalization_op_error, pub_store) result" where
  "queue_publication event required now s =
     and_then (require_queue_capacity required s) (\<lambda>_.
     and_then (insert_signed_event event s) (\<lambda>s.
     and_then (insert_outbox event required now s) (\<lambda>s.
       insert_publication_targets (rq_outbox_id required) now (rq_targets required) s)))"

section \<open>Retrying a blocked publication\<close>

datatype admin_op_error =
    AdminInvalidInput | AdminConflict | AdminOutcomeUnknown | AdminResourceExhausted | AdminBinding
  | AdminStorage

record retry_receipt =
  rr_exact_bytes_digest :: bytes
  rr_generation :: nat
  rr_target_count :: nat
  rr_workflow_id :: bytes

definition retry_target_where :: "bytes \<Rightarrow> target_row \<Rightarrow> bool" where
  "retry_target_where outbox_id t \<longleftrightarrow> tg_outbox_id t = outbox_id \<and> tg_state t \<noteq> ''accepted''"

definition retry_target_set :: "int \<Rightarrow> target_row \<Rightarrow> target_row" where
  "retry_target_set now t =
     t\<lparr>tg_state := ''pending'', tg_revision := tg_revision t + 1,
       tg_next_attempt_unix_ms := Some now, tg_updated_at_unix_ms := now\<rparr>"

definition retry_outbox_where :: "bytes \<Rightarrow> int \<Rightarrow> outbox_row \<Rightarrow> bool" where
  "retry_outbox_where outbox_id revision r \<longleftrightarrow>
     ob_outbox_id r = outbox_id \<and> ob_state r = ''blocked'' \<and> ob_revision r = revision"

definition retry_outbox_set :: "int \<Rightarrow> outbox_row \<Rightarrow> outbox_row" where
  "retry_outbox_set now r =
     r\<lparr>ob_state := ''pending'', ob_revision := ob_revision r + 1,
       ob_next_attempt_unix_ms := Some now, ob_updated_at_unix_ms := now\<rparr>"

definition admin_i64 :: "nat \<Rightarrow> (admin_op_error, int) result" where
  "admin_i64 n = i64_of_u64 AdminInvalidInput n"

definition publication_retry ::
  "bytes \<Rightarrow> nat \<Rightarrow> nat \<Rightarrow> nat \<Rightarrow> pub_store \<Rightarrow> (admin_op_error, retry_receipt \<times> pub_store) result" where
  "publication_retry workflow expected expected_target_count now s =
     (case take 2 (filter (\<lambda>r. ob_outbox_id r = workflow) (outboxes s)) of
        [] \<Rightarrow> Inl AdminConflict
      | [row] \<Rightarrow>
          and_then (u64_of_i64 AdminBinding (ob_revision row)) (\<lambda>revision.
          and_then (u64_of_i64 AdminBinding (ob_target_count row)) (\<lambda>target_count.
          and_then (ensure (length (ob_event_sha256 row) = 32) AdminBinding) (\<lambda>_.
          and_then (ensure (ob_state row = ''blocked'' \<and> revision = expected
            \<and> target_count = expected_target_count) AdminConflict) (\<lambda>_.
          and_then (admin_i64 now) (\<lambda>now_ms.
          case sql_update target_guard (targets_valid (outboxes s)) (retry_target_where workflow)
            (retry_target_set now_ms) (targets s) of
            None \<Rightarrow> Inl AdminStorage
          | Some (ts, _) \<Rightarrow>
              and_then (admin_i64 expected) (\<lambda>revision.
              case sql_update outbox_guard (outboxes_valid (signed_events s))
                (retry_outbox_where workflow revision) (retry_outbox_set now_ms) (outboxes s) of
                None \<Rightarrow> Inl AdminStorage
              | Some (obs, n) \<Rightarrow>
                  if n \<noteq> 1 then Inl AdminConflict
                  else and_then (ok_or AdminInvalidInput (checked_add expected 1)) (\<lambda>generation.
                    Inr (\<lparr>rr_exact_bytes_digest = ob_event_sha256 row, rr_generation = generation,
                      rr_target_count = target_count, rr_workflow_id = workflow\<rparr>,
                      s\<lparr>targets := ts, outboxes := obs\<rparr>))))))))
      | _ \<Rightarrow> Inl AdminBinding)"

end
