(* ===== verification/Publication_Sched.thy ===== *)
theory Publication_Sched
  imports Publication_View Publication_Queue
begin

text \<open>
  The schedule invariant \<open>pub_sched\<close> along the transaction bodies: each of them touches one
  publication only, and keeps the view of that publication well formed.
\<close>

section \<open>Framing\<close>

definition touches_only :: "bytes \<Rightarrow> pub_store \<Rightarrow> pub_store \<Rightarrow> bool" where
  "touches_only k s s' \<longleftrightarrow>
     (\<forall>k'. k' \<noteq> k \<longrightarrow> outbox_at k' s' = outbox_at k' s \<and> target_rows k' s' = target_rows k' s
        \<and> evidence_rows k' s' = evidence_rows k' s)"

lemma touches_only_refl [simp]: "touches_only k s s"
  by (simp add: touches_only_def)

lemma touches_only_trans: "touches_only k s s' \<Longrightarrow> touches_only k s' s'' \<Longrightarrow> touches_only k s s''"
  by (simp add: touches_only_def)

lemma evidence_rows_simps [simp]:
  "evidence_rows k (s\<lparr>outboxes := obs\<rparr>) = evidence_rows k s"
  "evidence_rows k (s\<lparr>targets := ts\<rparr>) = evidence_rows k s"
  "evidence_rows k (s\<lparr>attempts := attempts s @ [a]\<rparr>) =
     evidence_rows k s @ (if at_outbox_id a = k then [a] else [])"
  by (simp_all add: evidence_rows_def)

lemma touches_only_outbox:
  "touches_only (ob_outbox_id r) s (s\<lparr>outboxes := replace_row ob_outbox_id r (outboxes s)\<rparr>)"
  by (simp add: touches_only_def select_key_replace_row)

lemma touches_only_target:
  "touches_only (tg_outbox_id t) s (s\<lparr>targets := replace_row target_key t (targets s)\<rparr>)"
  by (simp add: touches_only_def target_rows_other)

lemma touches_only_attempt:
  "touches_only (at_outbox_id a) s (s\<lparr>attempts := attempts s @ [a]\<rparr>)"
  by (simp add: touches_only_def)

lemma pub_sched_touched:
  assumes "pub_sched sha256 s" and "touches_only k s s'"
    and "\<And>r. outbox_at k s' = Some r \<Longrightarrow> view_ok sha256 r (target_rows k s') (evidence_rows k s')"
  shows "pub_sched sha256 s'"
  unfolding pub_sched_def
proof (intro allI impI)
  fix k' r assume r: "outbox_at k' s' = Some r"
  show "view_ok sha256 r (target_rows k' s') (evidence_rows k' s')"
  proof (cases "k' = k")
    case True
    with assms(3) r show ?thesis by simp
  next
    case False
    with assms(2) have "outbox_at k' s' = outbox_at k' s" "target_rows k' s' = target_rows k' s"
      "evidence_rows k' s' = evidence_rows k' s" by (simp_all add: touches_only_def)
    with assms(1) r show ?thesis by (simp add: pub_sched_def)
  qed
qed

lemma target_rows_facts:
  assumes "pub_inv sha256 s"
  shows "distinct (map target_key (target_rows k s))"
    and "\<And>t. t \<in> set (target_rows k s) \<Longrightarrow> target_row_check t"
    and "\<And>t. t \<in> set (target_rows k s) \<Longrightarrow> tg_outbox_id t = k"
proof -
  show "distinct (map target_key (target_rows k s))"
    using pub_invD(6)[OF assms] by (simp add: target_rows_def distinct_map inj_on_def)
qed (use pub_inv_target(1)[OF assms] in auto)

text \<open>The outbox after its own row was replaced.\<close>

lemma outbox_at_replaced:
  assumes "outbox_at (ob_outbox_id r) s = Some r0"
  shows "outbox_at (ob_outbox_id r) (s\<lparr>outboxes := replace_row ob_outbox_id r (outboxes s)\<rparr>) = Some r"
  using select_key_SomeD[OF assms] by (auto simp: select_key_replace_row image_iff)

section \<open>Claim\<close>

lemma pub_sched_claim:
  assumes inv: "pub_inv sha256 s" and sch: "pub_sched sha256 s" and owner: "pub_owner_ok owner"
    and claim: "claim_next_outbox sha256 owner now authority s = Inr (res, s')"
  shows "pub_sched sha256 s'"
  using inv owner claim
proof (cases rule: claim_next_outboxE)
  case none
  with sch show ?thesis by simp
next
  case (some r e r')
  note S = this
  have ok: "view_ok sha256 r (target_rows (ob_outbox_id r) s) (evidence_rows (ob_outbox_id r) s)"
    using sch S(1) by (simp add: pub_sched_def)
  show ?thesis
  proof (rule pub_sched_touched[OF sch])
    show "touches_only (ob_outbox_id r) s s'"
      using touches_only_outbox[of r' s] S(9,11) by simp
    show "view_ok sha256 x (target_rows (ob_outbox_id r) s') (evidence_rows (ob_outbox_id r) s')"
      if "outbox_at (ob_outbox_id r) s' = Some x" for x
      using that S(7,9,10) view_ok_claim[OF ok S(2), of owner "int e"] by simp
  qed
qed

text \<open>After a claim nothing of the publication is in flight, and the lease is the claimed row.\<close>

definition idle :: "bytes \<Rightarrow> pub_store \<Rightarrow> bool" where
  "idle k s \<longleftrightarrow> filter is_submitted (target_rows k s) = []"

lemma claim_lease:
  assumes inv: "pub_inv sha256 s" and sch: "pub_sched sha256 s" and owner: "pub_owner_ok owner"
    and claim: "claim_next_outbox sha256 owner now authority s = Inr (Some lease, s')"
  obtains r r' where "outbox_at (ob_outbox_id r) s = Some r" "outbox_at (ob_outbox_id r) s' = Some r'"
    "pl_outbox lease = outbox_of_row r'" "ob_outbox_id r' = ob_outbox_id r" "ob_revision r' = ob_revision r + 1"
    "idle (ob_outbox_id r) s'" "touches_only (ob_outbox_id r) s s'" "pub_inv sha256 s'"
    "ob_state r = ''pending''" "ob_event_id r' = ob_event_id r" "ob_event_sha256 r' = ob_event_sha256 r"
    "signed_events s' = signed_events s"
  using inv owner claim
proof (cases rule: claim_next_outboxE)
  case (some r e r')
  note S = this
  have st: "ob_state r = ''pending''" using S(2) by (simp add: due_outbox_def)
  then have "idle (ob_outbox_id r) s'"
    using sch S(1,9) by (auto simp: pub_sched_def view_ok_def outbox_sched_def idle_def)
  moreover have "touches_only (ob_outbox_id r) s s'" using touches_only_outbox[of r' s] S(9,11) by simp
  moreover have "ob_revision r' = ob_revision r + 1" by (simp add: S(7) claim_outbox_set_def)
  moreover have "ob_event_id r' = ob_event_id r" "ob_event_sha256 r' = ob_event_sha256 r"
    using outbox_guardD(2,3)[OF S(8)] by simp_all
  ultimately show ?thesis using that[of r r'] S st by simp
next
  case none
  then show ?thesis by (simp only: option.distinct)
qed

section \<open>Prepare\<close>

lemma pub_sched_prepare:
  assumes inv: "pub_inv sha256 s" and sch: "pub_sched sha256 s"
    and quiet: "idle (ox_id (pl_outbox lease)) s"
    and prep: "prepare_next sha256 lease started s = Inr (p, s')"
  shows "pub_sched sha256 s'"
proof (rule prepare_nextE[OF inv prep])
  fix r t t' n e
  assume at: "outbox_at (ob_outbox_id r) s = Some r" and lease: "pl_outbox lease = outbox_of_row r"
    and leased: "ob_state r = ''leased''"
    and t: "t \<in> set (targets s)" "tg_outbox_id t = ob_outbox_id r" "due_target r (int started) t"
    and n: "n = nat (tg_attempt_count t) + 1"
    and t': "t' = prepare_target_set (derive_attempt_id sha256 (ob_outbox_id r) (ob_event_sha256 r)
       (nat (tg_target_ordinal t)) n) (int started) t"
    and s': "s' = s\<lparr>targets := replace_row target_key t' (targets s)\<rparr>"
  let ?k = "ob_outbox_id r"
  note F = target_rows_facts[OF inv, where k = ?k]
  have ok: "view_ok sha256 r (target_rows ?k s) (evidence_rows ?k s)"
    using sch at by (simp add: pub_sched_def)
  have mem: "t \<in> set (target_rows ?k s)" using t by simp
  have c: "0 \<le> tg_attempt_count t" using target_row_checkD(5)[OF F(2)[OF mem]] .
  have "nat (tg_attempt_count t + 1) = n" using c n by simp
  then have t'': "t' = prepare_target_set (attempt_id_of sha256 r (tg_target_ordinal t) (tg_attempt_count t + 1))
      (int started) t"
    by (simp add: t' attempt_id_of_def)
  have q: "filter is_submitted (target_rows ?k s) = []" using quiet lease by (simp add: idle_def)
  show ?thesis
  proof (rule pub_sched_touched[OF sch])
    have "tg_outbox_id t' = ?k" using t(2) by (simp add: t' prepare_target_set_def)
    then show "touches_only ?k s s'" using touches_only_target[of t' s] s' by simp
    show "view_ok sha256 x (target_rows ?k s') (evidence_rows ?k s')"
      if "outbox_at ?k s' = Some x" for x
      using that at view_ok_prepare[OF ok leased q F(1) mem t(3) c t'']
      by (simp add: s' target_rows_replace)
  qed
qed

section \<open>Record and recover\<close>

lemma target_rows_settled:
  "target_rows k (s\<lparr>attempts := as, targets := replace_row target_key t (targets s)\<rparr>) =
     replace_row target_key t (target_rows k s)"
  using target_rows_replace[where s = "s\<lparr>attempts := as\<rparr>" and t = t] by simp

text \<open>The publication after its target in flight was settled and its outbox released.\<close>

lemma pub_sched_settled:
  assumes inv: "pub_inv sha256 s" and sch: "pub_sched sha256 s"
    and at: "outbox_at (ob_outbox_id r) s = Some r"
    and lease: "pl_outbox (ri_lease input) = outbox_of_row r"
    and t: "target_at (ob_outbox_id r) (int (ri_target_ordinal input)) s = Some t"
      "tg_state t = ''submitted''" "tg_attempt_count t = int (ri_attempt_number input)"
      "tg_last_attempt_id t = Some (ri_attempt_id input)"
    and out: "target_outcome_schedule input = Inr (st, nx)"
    and chk: "target_row_check (settled_row st nx (ri_finished_at input) t)"
    and s1: "s1 = s\<lparr>attempts := attempts s @ [attempt_row_of_input input],
      targets := replace_row target_key (settled_row st nx (ri_finished_at input) t) (targets s)\<rparr>"
    and disp: "disposition sha256 (outbox_of_row r) (targets_of (ob_outbox_id r) s1) = Inr d"
    and s': "s' = s1\<lparr>outboxes := replace_row ob_outbox_id (released_row d now r) (outboxes s)\<rparr>"
  shows "pub_sched sha256 s'" "touches_only (ob_outbox_id r) s s'" "idle (ob_outbox_id r) s'"
    "outbox_at (ob_outbox_id r) s' = Some (released_row d now r)"
proof -
  let ?k = "ob_outbox_id r" and ?t' = "settled_row st nx (ri_finished_at input) t"
  note F = target_rows_facts[OF inv, where k = ?k]
  have key: "target_key t = (?k, int (ri_target_ordinal input))" and mem: "t \<in> set (target_rows ?k s)"
    using select_key_SomeD[OF t(1)] by (auto simp: target_key_def)
  have ok: "view_ok sha256 r (target_rows ?k s) (evidence_rows ?k s)"
    using sch at by (simp add: pub_sched_def)
  have rows: "target_rows ?k s' = replace_row target_key ?t' (target_rows ?k s)"
    by (simp add: s' s1 target_rows_settled)
  have d: "disposition sha256 (outbox_of_row r) (map target_of_row (replace_row target_key ?t' (target_rows ?k s))) = Inr d"
    using disp by (simp add: targets_of_def s1 target_rows_settled)
  have v: "view_ok sha256 (released_row d now r) (replace_row target_key ?t' (target_rows ?k s))
      (evidence_rows ?k s @ [attempt_row_of_input input])"
    by (rule view_ok_settle[OF ok pub_inv_outbox(1)[OF inv at] F(2) F(1) F(3) mem _ lease t(3) _ t(4) out refl chk d])
      (use t(2) key in \<open>simp_all add: is_submitted_def target_key_def\<close>)
  have ev: "evidence_rows ?k s' = evidence_rows ?k s @ [attempt_row_of_input input]"
    by (simp add: s' s1 attempt_row_of_input_def lease)
  have "outboxes s1 = outboxes s" by (simp add: s1)
  then show r': "outbox_at ?k s' = Some (released_row d now r)"
    using outbox_at_replaced[of "released_row d now r" s1 r] at s' by simp
  have "touches_only ?k s s1"
  proof -
    have "touches_only ?k s (s\<lparr>attempts := attempts s @ [attempt_row_of_input input]\<rparr>)"
      using touches_only_attempt[of "attempt_row_of_input input" s] by (simp add: attempt_row_of_input_def lease)
    moreover have "touches_only ?k (s\<lparr>attempts := attempts s @ [attempt_row_of_input input]\<rparr>) s1"
      using touches_only_target[of ?t' "s\<lparr>attempts := attempts s @ [attempt_row_of_input input]\<rparr>"] key
      by (simp add: s1 target_key_def)
    ultimately show ?thesis by (rule touches_only_trans)
  qed
  moreover have "touches_only ?k s1 s'"
    using touches_only_outbox[of "released_row d now r" s1] s' \<open>outboxes s1 = outboxes s\<close> by simp
  ultimately show tch: "touches_only ?k s s'" by (rule touches_only_trans)
  show "pub_sched sha256 s'"
    by (rule pub_sched_touched[OF sch tch]) (use r' v rows ev in simp)
  have one: "length (filter is_submitted (target_rows ?k s)) \<le> 1"
    using ok by (simp add: view_ok_def outbox_sched_def)
  have "\<not> is_submitted ?t'" using target_outcome_scheduleD(1,2)[OF out] by (simp add: is_submitted_def)
  then have "length (filter is_submitted (target_rows ?k s')) + 1 = length (filter is_submitted (target_rows ?k s))"
    using filter_replace_row[OF F(1) mem, of ?t' is_submitted] t(2) by (simp add: rows is_submitted_def)
  with one have "length (filter is_submitted (target_rows ?k s')) = 0" by linarith
  then show "idle ?k s'" by (simp add: idle_def)
qed

lemma pub_sched_record:
  assumes inv: "pub_inv sha256 s" and sch: "pub_sched sha256 s"
    and rec: "record_outcome sha256 input s = Inr (commit, s')"
  shows "pub_sched sha256 s'" and "touches_only (ox_id (pl_outbox (ri_lease input))) s s'"
proof -
  have "pub_sched sha256 s' \<and> touches_only (ox_id (pl_outbox (ri_lease input))) s s'"
  proof (rule record_outcomeE[OF inv rec])
    assume "s' = s"
    with sch show ?thesis by simp
  next
    fix r t st nx s1 disp
    assume at: "outbox_at (ob_outbox_id r) s = Some r" and lease: "pl_outbox (ri_lease input) = outbox_of_row r"
      and t: "target_at (ob_outbox_id r) (int (ri_target_ordinal input)) s = Some t"
        "tg_state t = ''submitted''" "tg_attempt_count t = int (ri_attempt_number input)"
        "tg_last_attempt_id t = Some (ri_attempt_id input)"
      and out: "target_outcome_schedule input = Inr (st, nx)"
      and chk: "target_row_check (settled_row st nx (ri_finished_at input) t)"
      and s1: "s1 = s\<lparr>attempts := attempts s @ [attempt_row_of_input input],
        targets := replace_row target_key (settled_row st nx (ri_finished_at input) t) (targets s)\<rparr>"
      and disp: "disposition sha256 (outbox_of_row r) (targets_of (ob_outbox_id r) s1) = Inr disp"
      and s': "s' = s1\<lparr>outboxes := replace_row ob_outbox_id (released_row disp (ri_finished_at input) r) (outboxes s)\<rparr>"
    show ?thesis
      using pub_sched_settled(1,2)[OF inv sch at lease t out chk s1 disp s'] lease by simp
  qed
  then show "pub_sched sha256 s'" "touches_only (ox_id (pl_outbox (ri_lease input))) s s'" by simp_all
qed

lemma view_ok_release_idle:
  assumes ok: "view_ok sha256 r ts as" and rok: "outbox_row_ok r"
    and tc: "\<And>t. t \<in> set ts \<Longrightarrow> target_row_check t" and none: "filter is_submitted ts = []"
    and disp: "disposition sha256 (outbox_of_row r) (map target_of_row ts) = Inr d"
  shows "view_ok sha256 (released_row d now r) ts as"
proof -
  have "\<And>t. t \<in> set ts \<Longrightarrow> target_sched sha256 r t" using ok by (simp add: view_ok_def)
  then have "outbox_sched (released_row d now r) ts"
    using outbox_sched_released[OF disp rok tc _ none] by blast
  with ok show ?thesis by (simp add: view_ok_def)
qed

lemma recover_one:
  assumes inv: "pub_inv sha256 s" and e: "ob_lease_expires_unix_ms r = Some e"
    and mem: "t \<in> set (target_rows (ob_outbox_id r) s)"
    and rec: "recover_targets sha256 (outbox_of_row r) owner now delay [target_of_row t] s = Inr s1"
  obtains st nx where
    "target_at (ob_outbox_id r) (int (ri_target_ordinal (recovery_input r owner (nat e) now delay t))) s = Some t"
    "tg_state t = ''submitted''"
    "tg_attempt_count t = int (ri_attempt_number (recovery_input r owner (nat e) now delay t))"
    "tg_last_attempt_id t = Some (ri_attempt_id (recovery_input r owner (nat e) now delay t))"
    "target_outcome_schedule (recovery_input r owner (nat e) now delay t) = Inr (st, nx)"
    "target_row_check (settled_row st nx now t)"
    "s1 = s\<lparr>attempts := attempts s @ [attempt_row_of_input (recovery_input r owner (nat e) now delay t)],
      targets := replace_row target_key (settled_row st nx now t) (targets s)\<rparr>"
proof -
  let ?in = "recovery_input r owner (nat e) now delay t"
  have one: "recover_target sha256 (outbox_of_row r) owner now delay (target_of_row t) s = Inr s1"
    using rec by simp
  obtain st where settle: "settle_target ?in s = Inr (st, s1)" by (rule recover_targetE[OF one e])
  have [simp]: "ox_id (pl_outbox (ri_lease ?in)) = ob_outbox_id r" "ri_finished_at ?in = now"
    by (simp_all add: recovery_input_def)
  have tc: "target_row_check t" "tg_outbox_id t = ob_outbox_id r"
    using mem target_rows_facts(2,3)[OF inv] by blast+
  have ord: "int (ri_target_ordinal ?in) = tg_target_ordinal t"
    using target_row_checkD(1)[OF tc(1)] by (simp add: recovery_input_def)
  show ?thesis
  proof (rule settle_targetE[OF inv settle])
    fix x nx
    assume x: "target_at (ox_id (pl_outbox (ri_lease ?in))) (int (ri_target_ordinal ?in)) s = Some x"
      "tg_state x = ''submitted''" "tg_attempt_count x = int (ri_attempt_number ?in)"
      "tg_last_attempt_id x = Some (ri_attempt_id ?in)"
      "target_outcome_schedule ?in = Inr (st, nx)"
      "target_row_check (settled_row st nx (ri_finished_at ?in) x)"
      "s1 = s\<lparr>attempts := attempts s @ [attempt_row_of_input ?in],
        targets := replace_row target_key (settled_row st nx (ri_finished_at ?in) x) (targets s)\<rparr>"
    have [simp]: "x = t"
      using x(1) pub_inv_target(2)[OF inv, of t] mem tc(2) ord by simp
    show ?thesis by (rule that[of st nx]) (use x in simp_all)
  qed
qed

lemma pub_sched_recover:
  assumes inv: "pub_inv sha256 s" and sch: "pub_sched sha256 s"
    and rec: "recover_expired sha256 candidate now delay s = Inr (b, s')"
  shows "pub_sched sha256 s'" and "touches_only (ox_id (rc_outbox candidate)) s s'"
    and "idle (ox_id (rc_outbox candidate)) s'"
proof -
  have "pub_sched sha256 s' \<and> touches_only (ox_id (rc_outbox candidate)) s s'
      \<and> idle (ox_id (rc_outbox candidate)) s'"
  proof (rule recover_expiredE[OF inv rec])
    fix r owner e s1 d
    assume at: "outbox_at (ob_outbox_id r) s = Some r" and cand: "rc_outbox candidate = outbox_of_row r"
      and e: "ob_lease_expires_unix_ms r = Some e"
      and rts: "recover_targets sha256 (outbox_of_row r) owner now delay
         (map target_of_row (filter (\<lambda>t. tg_state t = ''submitted'') (target_rows (ob_outbox_id r) s))) s = Inr s1"
      and disp: "disposition sha256 (outbox_of_row r) (targets_of (ob_outbox_id r) s1) = Inr d"
      and s': "s' = s1\<lparr>outboxes := replace_row ob_outbox_id (released_row d now r) (outboxes s)\<rparr>"
    let ?k = "ob_outbox_id r"
    have ok: "view_ok sha256 r (target_rows ?k s) (evidence_rows ?k s)"
      using sch at by (simp add: pub_sched_def)
    then have one: "length (filter is_submitted (target_rows ?k s)) \<le> 1"
      by (simp add: view_ok_def outbox_sched_def)
    have rts: "recover_targets sha256 (outbox_of_row r) owner now delay
         (map target_of_row (filter is_submitted (target_rows ?k s))) s = Inr s1"
      using rts by (simp add: is_submitted_def[abs_def])
    have id: "ox_id (rc_outbox candidate) = ?k" by (simp add: cand)
    show ?thesis
    proof (cases "filter is_submitted (target_rows ?k s)")
      case Nil
      then have [simp]: "s1 = s" using rts by simp
      have v: "view_ok sha256 (released_row d now r) (target_rows ?k s) (evidence_rows ?k s)"
        using view_ok_release_idle[OF ok pub_inv_outbox(1)[OF inv at] target_rows_facts(2)[OF inv] Nil] disp
        by (simp add: targets_of_def)
      have r': "outbox_at ?k s' = Some (released_row d now r)"
        using outbox_at_replaced[of "released_row d now r" s r] at s' by simp
      have tch: "touches_only ?k s s'" using touches_only_outbox[of "released_row d now r" s] s' by simp
      moreover have "pub_sched sha256 s'"
        by (rule pub_sched_touched[OF sch tch]) (use r' v s' in simp)
      ultimately show ?thesis using Nil s' by (simp add: id idle_def)
    next
      case (Cons t ts)
      then have "filter is_submitted (target_rows ?k s) = [t]" using one by simp
      with rts have r1: "recover_targets sha256 (outbox_of_row r) owner now delay [target_of_row t] s = Inr s1"
        by simp
      have mem: "t \<in> set (target_rows ?k s)" using Cons by (metis filter_is_subset list.set_intros(1) subsetD)
      show ?thesis
      proof (rule recover_one[OF inv e mem r1])
        fix st nx
        let ?in = "recovery_input r owner (nat e) now delay t"
        assume a: "target_at ?k (int (ri_target_ordinal ?in)) s = Some t" "tg_state t = ''submitted''"
          "tg_attempt_count t = int (ri_attempt_number ?in)" "tg_last_attempt_id t = Some (ri_attempt_id ?in)"
          "target_outcome_schedule ?in = Inr (st, nx)" "target_row_check (settled_row st nx now t)"
          "s1 = s\<lparr>attempts := attempts s @ [attempt_row_of_input ?in],
            targets := replace_row target_key (settled_row st nx now t) (targets s)\<rparr>"
        have f: "ri_finished_at ?in = now" "pl_outbox (ri_lease ?in) = outbox_of_row r"
          by (simp_all add: recovery_input_def)
        have c: "target_row_check (settled_row st nx (ri_finished_at ?in) t)"
          "s1 = s\<lparr>attempts := attempts s @ [attempt_row_of_input ?in],
            targets := replace_row target_key (settled_row st nx (ri_finished_at ?in) t) (targets s)\<rparr>"
          using a(6,7) f(1) by simp_all
        show ?thesis
          unfolding id using pub_sched_settled(1-3)[OF inv sch at f(2) a(1-5) c disp s'] by blast
      qed
    qed
  qed
  then show "pub_sched sha256 s'" "touches_only (ox_id (rc_outbox candidate)) s s'"
    "idle (ox_id (rc_outbox candidate)) s'" by simp_all
qed

end
