(* ===== verification/Publication_Writers.thy ===== *)
theory Publication_Writers
  imports Publication_Sched
begin

text \<open>
  The administrator's retry and the queueing of a new publication keep both invariants.
\<close>

section \<open>Retry\<close>

lemma target_rows_map:
  assumes "\<And>t. t \<in> set (targets s) \<Longrightarrow> tg_outbox_id (g t) = tg_outbox_id t \<and> tg_target_ordinal (g t) = tg_target_ordinal t"
  shows "target_rows k (s\<lparr>targets := map g (targets s)\<rparr>) = map g (target_rows k s)"
proof -
  have "filter (\<lambda>t. tg_outbox_id t = k) (map g rs) = map g (filter (\<lambda>t. tg_outbox_id t = k) rs)"
    if "set rs \<subseteq> set (targets s)" for rs
    using that assms by (induction rs) auto
  then show ?thesis
    using sort_key_map[of "filter (\<lambda>t. tg_outbox_id t = k) (targets s)" tg_target_ordinal g] assms
    by (simp add: target_rows_def)
qed

definition retried :: "int \<Rightarrow> target_row \<Rightarrow> target_row" where
  "retried now t = (if tg_state t \<noteq> ''accepted'' then retry_target_set now t else t)"

lemma retried_simps [simp]:
  "tg_outbox_id (retried now t) = tg_outbox_id t" "tg_target_ordinal (retried now t) = tg_target_ordinal t"
  "tg_required (retried now t) = tg_required t" "tg_attempt_count (retried now t) = tg_attempt_count t"
  "tg_last_attempt_id (retried now t) = tg_last_attempt_id t"
  by (simp_all add: retried_def retry_target_set_def)

lemma publication_retryE:
  assumes inv: "pub_inv sha256 s"
    and ret: "publication_retry k expected count now s = Inr (receipt, s')"
  obtains r where "outbox_at k s = Some r" "ob_state r = ''blocked''" "ob_revision r = int expected"
    "ob_target_count r = int count" "outbox_at k s' = Some (retry_outbox_set (int now) r)"
    "target_rows k s' = map (retried (int now)) (target_rows k s)"
    "evidence_rows k s' = evidence_rows k s" "touches_only k s s'" "pub_inv sha256 s'"
    "receipt = \<lparr>rr_exact_bytes_digest = ob_event_sha256 r, rr_generation = expected + 1,
       rr_target_count = count, rr_workflow_id = k\<rparr>"
    "signed_events s' = signed_events s" "attempts s' = attempts s"
    "outbox_guard r (retry_outbox_set (int now) r)"
    "outboxes s' = replace_row ob_outbox_id (retry_outbox_set (int now) r) (outboxes s)"
proof -
  have f: "filter (\<lambda>r. ob_outbox_id r = k) (outboxes s) = (case outbox_at k s of None \<Rightarrow> [] | Some r \<Rightarrow> [r])"
    using filter_select_key[OF pub_invD(5)[OF inv]] .
  from ret obtain r where at: "outbox_at k s = Some r"
    by (auto simp: publication_retry_def f split: option.splits)
  from ret obtain ts obs n where
    R: "ob_state r = ''blocked''" "ob_revision r = int expected" "ob_target_count r = int count"
    and u1: "sql_update target_guard (targets_valid (outboxes s)) (retry_target_where k) (retry_target_set (int now)) (targets s) = Some (ts, n)"
    and u2: "sql_update outbox_guard (outboxes_valid (signed_events s)) (retry_outbox_where k (int expected))
      (retry_outbox_set (int now)) (outboxes s) = Some (obs, 1)"
    and s': "s' = s\<lparr>targets := ts, outboxes := obs\<rparr>"
    and rc: "receipt = \<lparr>rr_exact_bytes_digest = ob_event_sha256 r, rr_generation = expected + 1,
       rr_target_count = count, rr_workflow_id = k\<rparr>"
    by (auto simp: publication_retry_def f at admin_i64_def split: option.splits if_splits)
  define s1 where "s1 = s\<lparr>targets := ts\<rparr>"
  have t1: "update_targets (retry_target_where k) (retry_target_set (int now)) s = Inr (s1, n)"
    using u1 by (simp add: update_targets_def s1_def)
  have t2: "update_outboxes (retry_outbox_where k (int expected)) (retry_outbox_set (int now)) s1 = Inr (s', 1)"
    using u2 by (simp add: update_outboxes_def s1_def s')
  note inv1 = update_targets_inv[OF inv t1]
  have lease: "ob_lease_owner x = None" if "x \<in> set (outboxes s)" "ob_state x = ''blocked''" for x
    using inv that by (auto simp: pub_inv_def outbox_row_ok_def elim!: outbox_row_cases)
  have inv': "pub_inv sha256 s'"
    using inv1 t2
    by (rule update_outboxes_inv)
      (use lease in \<open>auto simp: retry_outbox_where_def retry_outbox_set_def s1_def\<close>)
  obtain x where x: "outbox_at k s1 = Some x" "outbox_guard x (retry_outbox_set (int now) x)"
    "s' = s1\<lparr>outboxes := replace_row ob_outbox_id (retry_outbox_set (int now) x) (outboxes s1)\<rparr>"
    "outbox_at k s' = Some (retry_outbox_set (int now) x)"
    "\<And>k'. k' \<noteq> k \<Longrightarrow> outbox_at k' s' = outbox_at k' s1"
    by (rule update_outboxes_one[OF t2 inv1, of k]) (auto simp: retry_outbox_where_def)
  have xr: "x = r" using x(1) at by (simp add: s1_def)
  let ?g = "\<lambda>t. if retry_target_where k t then retry_target_set (int now) t else t"
  have ts: "ts = map ?g (targets s)" using sql_update_SomeD(1)[OF u1] .
  have rows: "target_rows k' s' = map ?g (target_rows k' s)" for k'
  proof -
    have "target_rows k' s' = target_rows k' (s\<lparr>targets := map ?g (targets s)\<rparr>)"
      by (simp add: s' ts)
    also have "\<dots> = map ?g (target_rows k' s)" by (rule target_rows_map) (simp add: retry_target_set_def)
    finally show ?thesis .
  qed
  have own: "target_rows k s' = map (retried (int now)) (target_rows k s)"
    unfolding rows by (rule map_cong) (auto simp: retried_def retry_target_where_def)
  have other: "target_rows k' s' = target_rows k' s" if "k' \<noteq> k" for k'
    unfolding rows by (rule map_idI) (use that in \<open>auto simp: retry_target_where_def\<close>)
  have ev: "evidence_rows k' s' = evidence_rows k' s" for k' by (simp add: s' evidence_rows_def)
  have "touches_only k s s'"
    using other ev x(5) by (simp add: touches_only_def s1_def)
  moreover have "outboxes s' = replace_row ob_outbox_id (retry_outbox_set (int now) r) (outboxes s)"
    using x(3) by (simp add: xr s1_def)
  moreover have "signed_events s' = signed_events s" "attempts s' = attempts s" by (simp_all add: s')
  ultimately show ?thesis
    by (intro that[OF at R x(4)[unfolded xr] own ev _ inv' rc _ _ x(2)[unfolded xr]])
qed

lemma view_ok_retry:
  assumes ok: "view_ok sha256 r ts as" and st: "ob_state r = ''blocked''"
  shows "view_ok sha256 (retry_outbox_set now r) (map (retried now) ts) as"
proof -
  have none: "filter is_submitted ts = []" using ok st by (auto simp: view_ok_def outbox_sched_def)
  have old: "target_sched sha256 r t" "recorded_numbers (tg_target_ordinal t) as = settled_numbers t"
    "\<not> is_submitted t" if "t \<in> set ts" for t
    using ok that none by (auto simp: view_ok_def filter_empty_conv)
  have sub: "\<not> is_submitted (retried now t)" if "t \<in> set ts" for t
    using old(3)[OF that] by (auto simp: is_submitted_def retried_def retry_target_set_def)
  have "target_sched sha256 (retry_outbox_set now r) (retried now t)" if "t \<in> set ts" for t
    using old(1)[OF that] sub[OF that]
    by (auto simp: target_sched_def retried_def retry_target_set_def retry_outbox_set_def row_retryable_def
        target_state_of_def attempt_id_of_def)
  moreover have "settled_numbers (retried now t) = settled_numbers t" if "t \<in> set ts" for t
    using old(3)[OF that] sub[OF that] by (simp add: settled_numbers_def)
  moreover have "schedulable (map (retried now) ts) now"
  proof -
    obtain t where t: "t \<in> set ts" "row_blocking r t"
      using ok st by (auto simp: view_ok_def outbox_sched_def)
    then have "tg_state t \<noteq> ''accepted''"
      by (auto simp: row_blocking_def row_retryable_def target_state_of_def)
    then have "row_retryable (retried now t)" "tg_next_attempt_unix_ms (retried now t) = Some now"
      by (simp_all add: retried_def retry_target_set_def row_retryable_def target_state_of_def)
    then show ?thesis using t(1) unfolding schedulable_def by (intro bexI[of _ "retried now t"]) auto
  qed
  moreover have "filter is_submitted (map (retried now) ts) = []" using sub by (simp add: filter_empty_conv)
  ultimately show ?thesis
    using ok old
    by (auto simp: view_ok_def outbox_sched_def retry_outbox_set_def attempt_id_of_def)
qed

lemma pub_sched_retry:
  assumes inv: "pub_inv sha256 s" and sch: "pub_sched sha256 s"
    and ret: "publication_retry k expected count now s = Inr (receipt, s')"
  shows "pub_sched sha256 s'"
proof (rule publication_retryE[OF inv ret])
  fix r assume r: "outbox_at k s = Some r" "ob_state r = ''blocked''"
    "outbox_at k s' = Some (retry_outbox_set (int now) r)"
    "target_rows k s' = map (retried (int now)) (target_rows k s)"
    "evidence_rows k s' = evidence_rows k s" "touches_only k s s'"
  have "view_ok sha256 r (target_rows k s) (evidence_rows k s)" using sch r(1) by (simp add: pub_sched_def)
  from view_ok_retry[OF this r(2)] show ?thesis
    using pub_sched_touched[OF sch r(6)] r(3-5) by simp
qed

section \<open>Queueing\<close>

text \<open>What the finalization record promises of the publication it queues.\<close>

definition queueable :: "(bytes \<Rightarrow> bytes) \<Rightarrow> finalization_event \<Rightarrow> required_publication \<Rightarrow> bool" where
  "queueable sha256 event required \<longleftrightarrow>
     fe_event_sha256 event = sha256 (fe_canonical_event_json event)
   \<and> map ft_ordinal (rq_targets required) = [0..<length (rq_targets required)]
   \<and> rq_target_set_sha256 required = sha256 (target_set_preimage (length (rq_targets required))
       (map (\<lambda>t. (ft_ordinal t, ft_relay_id t, ft_required t)) (rq_targets required)))"

lemma insert_publication_targetsD:
  assumes "insert_publication_targets k now ts s = Inr s'"
  shows "s' = s\<lparr>targets := targets s @ map (queued_target_row k (int now)) ts\<rparr>"
    "ts \<noteq> [] \<Longrightarrow> targets_valid (outboxes s) (targets s')" "ts \<noteq> [] \<Longrightarrow> now \<le> i64_max"
proof -
  have "s' = s\<lparr>targets := targets s @ map (queued_target_row k (int now)) ts\<rparr>
      \<and> (ts \<noteq> [] \<longrightarrow> targets_valid (outboxes s) (targets s') \<and> now \<le> i64_max)"
    using assms
  proof (induction ts arbitrary: s)
    case (Cons t ts)
    from Cons.prems obtain rows where n: "now \<le> i64_max"
      and ins: "sql_insert (\<lambda>_ _. True) (targets_valid (outboxes s)) (queued_target_row k (int now) t) (targets s) = Some rows"
      and rest: "insert_publication_targets k now ts (s\<lparr>targets := rows\<rparr>) = Inr s'"
      by (auto simp: fin_i64_value_def split: option.splits)
    note I = sql_insert_SomeD[OF ins]
    from Cons.IH[OF rest] n I show ?case by (cases ts) auto
  qed simp
  then show "s' = s\<lparr>targets := targets s @ map (queued_target_row k (int now)) ts\<rparr>"
    "ts \<noteq> [] \<Longrightarrow> targets_valid (outboxes s) (targets s')" "ts \<noteq> [] \<Longrightarrow> now \<le> i64_max" by blast+
qed

definition queued_outbox_row :: "finalization_event \<Rightarrow> required_publication \<Rightarrow> int \<Rightarrow> outbox_row" where
  "queued_outbox_row event required now =
     \<lparr>ob_outbox_id = rq_outbox_id required, ob_event_id = fe_event_id event,
       ob_event_sha256 = fe_event_sha256 event,
       ob_publication_authority_sha256 = rq_authority_sha256 required,
       ob_target_set_sha256 = rq_target_set_sha256 required,
       ob_target_count = int (length (rq_targets required)),
       ob_required_target_count = int (length (filter ft_required (rq_targets required))),
       ob_max_attempts = int (rq_maximum_attempts required),
       ob_initial_backoff_ms = int (rq_initial_backoff_ms required),
       ob_maximum_backoff_ms = int (rq_maximum_backoff_ms required),
       ob_attempt_deadline_ms = int (rq_attempt_deadline_ms required), ob_state = ''pending'', ob_revision = 1,
       ob_next_attempt_unix_ms = Some now, ob_lease_owner = None,
       ob_lease_expires_unix_ms = None, ob_created_at_unix_ms = now, ob_updated_at_unix_ms = now\<rparr>"

definition queued_event_row :: "finalization_event \<Rightarrow> event_row" where
  "queued_event_row event =
     \<lparr>se_event_id = fe_event_id event, se_statement_sha256 = fe_statement_sha256 event,
       se_event_sha256 = fe_event_sha256 event, se_issuer_public_key = fe_issuer_public_key event,
       se_authored_at_unix_s = int (fe_authored_at_unix_s event),
       se_canonical_event_json = fe_canonical_event_json event\<rparr>"

lemma queue_publicationE:
  assumes q: "queue_publication event required now s = Inr s'"
  shows "s' = s\<lparr>signed_events := signed_events s @ [queued_event_row event],
       outboxes := outboxes s @ [queued_outbox_row event required (int now)],
       targets := targets s @ map (queued_target_row (rq_outbox_id required) (int now)) (rq_targets required)\<rparr>"
    and "events_valid (signed_events s')" and "outboxes_valid (signed_events s') (outboxes s')"
    and "rq_targets required \<noteq> []" and "targets_valid (outboxes s') (targets s')"
    and "length (filter (\<lambda>r. ob_state r \<noteq> ''complete'') (outboxes s)) < rq_queue_capacity required"
proof -
  from q obtain s1 s2 where
    cap: "length (filter (\<lambda>r. ob_state r \<noteq> ''complete'') (outboxes s)) < rq_queue_capacity required"
    and s1: "insert_signed_event event s = Inr s1"
    and s2: "insert_outbox event required now s1 = Inr s2"
    and s3: "insert_publication_targets (rq_outbox_id required) now (rq_targets required) s2 = Inr s'"
    by (auto simp: queue_publication_def require_queue_capacity_def split: if_splits)
  have e1: "s1 = s\<lparr>signed_events := signed_events s @ [queued_event_row event]\<rparr>"
    "events_valid (signed_events s @ [queued_event_row event])"
    using s1 by (auto simp: insert_signed_event_def fin_i64_value_def queued_event_row_def
        sql_insert_def split: option.splits if_splits)
  have e2: "s2 = s1\<lparr>outboxes := outboxes s1 @ [queued_outbox_row event required (int now)]\<rparr>"
    "outboxes_valid (signed_events s1) (outboxes s1 @ [queued_outbox_row event required (int now)])"
    using s2 by (auto simp: insert_outbox_def fin_i64_value_def queued_outbox_row_def
        sql_insert_def split: option.splits if_splits)
  have "1 \<le> ob_target_count (queued_outbox_row event required (int now))"
    using e2(2) by (simp add: outboxes_valid_def outbox_row_check_def)
  then show ne: "rq_targets required \<noteq> []" by (auto simp: queued_outbox_row_def)
  note e3 = insert_publication_targetsD[OF s3]
  show "s' = s\<lparr>signed_events := signed_events s @ [queued_event_row event],
       outboxes := outboxes s @ [queued_outbox_row event required (int now)],
       targets := targets s @ map (queued_target_row (rq_outbox_id required) (int now)) (rq_targets required)\<rparr>"
    using e1(1) e2(1) e3(1) by simp
  show "events_valid (signed_events s')" "outboxes_valid (signed_events s') (outboxes s')"
    "targets_valid (outboxes s') (targets s')"
    using e1 e2 e3 ne by simp_all
  show "length (filter (\<lambda>r. ob_state r \<noteq> ''complete'') (outboxes s)) < rq_queue_capacity required"
    by (rule cap)
qed

text \<open>The new publication: its rows, and that no older row mentions it.\<close>

lemma sort_key_sorted: "sorted (map key xs) \<Longrightarrow> sort_key key xs = xs"
  by (simp add: sort_key_id_if_sorted)

lemma queued_view:
  assumes inv: "pub_inv sha256 s" and q: "queue_publication event required now s = Inr s'"
    and ord: "map ft_ordinal (rq_targets required) = [0..<length (rq_targets required)]"
  defines "k \<equiv> rq_outbox_id required"
  shows "outbox_at k s = None" "outbox_at k s' = Some (queued_outbox_row event required (int now))"
    "target_rows k s' = map (queued_target_row k (int now)) (rq_targets required)"
    "evidence_rows k s' = []" "touches_only k s s'"
proof -
  note Q = queue_publicationE[OF q]
  let ?r = "queued_outbox_row event required (int now)"
  have rk: "ob_outbox_id ?r = k" by (simp add: queued_outbox_row_def k_def)
  have "distinct (map ob_outbox_id (outboxes s @ [?r]))" using Q(1,3) by (simp add: outboxes_valid_def)
  then have fresh: "k \<notin> ob_outbox_id ` set (outboxes s)" using rk by simp
  then show none: "outbox_at k s = None" by (simp add: select_key_None_iff)
  show "outbox_at k s' = Some ?r" using none rk Q(1) by (simp add: select_key_snoc)
  have nt: "tg_outbox_id t \<noteq> k" if "t \<in> set (targets s)" for t
    using pub_invD(3)[OF inv] that fresh by (auto simp: targets_valid_def list_all_iff)
  have na: "at_outbox_id a \<noteq> k" if "a \<in> set (attempts s)" for a
  proof -
    have "(at_outbox_id a, at_target_ordinal a) \<in> target_key ` set (targets s)"
      using pub_invD(4)[OF inv] that by (auto simp: attempts_valid_def list_all_iff)
    then obtain t where "t \<in> set (targets s)" "tg_outbox_id t = at_outbox_id a" by (auto simp: target_key_def)
    with nt[of t] show ?thesis by simp
  qed
  have "map (tg_target_ordinal \<circ> queued_target_row k (int now)) (rq_targets required) =
      map int (map ft_ordinal (rq_targets required))"
    by (simp add: queued_target_row_def)
  also have "sorted \<dots>" unfolding ord by (simp add: sorted_iff_nth_mono)
  finally have srt: "sorted (map tg_target_ordinal (map (queued_target_row k (int now)) (rq_targets required)))"
    by simp
  have old: "filter (\<lambda>t. tg_outbox_id t = k) (targets s) = []" using nt by (auto simp: filter_empty_conv)
  have new: "filter (\<lambda>t. tg_outbox_id t = k') (map (queued_target_row k (int now)) ts) =
      (if k' = k then map (queued_target_row k (int now)) ts else [])" for k' ts
    by (induction ts) (auto simp: queued_target_row_def)
  show "target_rows k s' = map (queued_target_row k (int now)) (rq_targets required)"
    unfolding target_rows_def Q(1) using old new[of k] sort_key_sorted[OF srt] by (simp add: k_def[symmetric])
  show "evidence_rows k s' = []" using na by (auto simp: evidence_rows_def Q(1) filter_empty_conv)
  show "touches_only k s s'"
    using rk new by (auto simp: touches_only_def Q(1) target_rows_def evidence_rows_def k_def[symmetric]
        select_key_snoc split: option.splits)
qed

lemma queued_inventory:
  assumes inv: "pub_inv sha256 s" and q: "queue_publication event required now s = Inr s'"
    and ok: "queueable sha256 event required"
  shows "inventory_ok sha256 (queued_outbox_row event required (int now)) (targets_of (rq_outbox_id required) s')"
proof -
  let ?k = "rq_outbox_id required" and ?ts = "rq_targets required"
  let ?row = "queued_target_row ?k (int now)" and ?r = "queued_outbox_row event required (int now)"
  note Q = queue_publicationE[OF q]
  have ord: "map ft_ordinal ?ts = [0..<length ?ts]" using ok by (simp add: queueable_def)
  have rows: "targets_of ?k s' = map (\<lambda>t. target_of_row (?row t)) ?ts"
    using queued_view(3)[OF inv q ord] by (simp add: targets_of_def)
  have "outbox_row_check ?r" using Q(1,3) by (simp add: outboxes_valid_def)
  then have len: "length ?ts \<le> 32" by (simp add: outbox_row_check_def queued_outbox_row_def)
  have "distinct (map (\<lambda>t. (tg_outbox_id t, tg_relay_id t)) (map ?row ?ts))"
    using Q(1,5) by (simp add: targets_valid_def)
  then have "distinct (map ((\<lambda>x. (?k, x)) \<circ> ft_relay_id) ?ts)" by (simp add: queued_target_row_def comp_def)
  then have "distinct (map (\<lambda>x. (?k, x)) (map ft_relay_id ?ts))" by simp
  then have dup: "\<not> duplicate_relay (targets_of ?k s')"
    unfolding duplicate_relay_iff rows
    by (simp add: distinct_map comp_def inj_on_def queued_target_row_def)
  have "map record_triple (targets_of ?k s') = map (\<lambda>t. (ft_ordinal t, ft_relay_id t, ft_required t)) ?ts"
    by (simp add: rows record_triple_def queued_target_row_def)
  then have dig: "sha256 (target_set_preimage (length ?ts) (map record_triple (targets_of ?k s'))) =
      rq_target_set_sha256 required"
    using ok by (simp add: queueable_def)
  have shape: "length (targets_of ?k s') = length ?ts" "map tr_ordinal (targets_of ?k s') = [0..<length ?ts]"
    "length (filter tr_required (targets_of ?k s')) = length (filter ft_required ?ts)"
    using ord by (simp_all add: rows queued_target_row_def comp_def filter_map)
  show ?thesis
    unfolding inventory_ok_def validate_targets_def
    using dup dig shape len
    by (simp add: queued_outbox_row_def RHI_PUBLICATION_TARGET_ORDINAL_MAXIMUM_def)
qed

lemma pub_inv_queue:
  assumes inv: "pub_inv sha256 s" and q: "queue_publication event required now s = Inr s'"
    and ok: "queueable sha256 event required"
  shows "pub_inv sha256 s'"
proof -
  let ?k = "rq_outbox_id required" and ?r = "queued_outbox_row event required (int now)"
  note Q = queue_publicationE[OF q]
  have ord: "map ft_ordinal (rq_targets required) = [0..<length (rq_targets required)]"
    using ok by (simp add: queueable_def)
  note V = queued_view[OF inv q ord]
  have rid: "ob_outbox_id ?r = ?k" by (simp add: queued_outbox_row_def)
  have ev: "signed_events s' = signed_events s @ [queued_event_row event]" by (simp add: Q(1))
  have "outbox_row_ok ?r"
    using Q(1,3) by (simp add: outboxes_valid_def outbox_row_ok_def queued_outbox_row_def)
  moreover have "event_bound sha256 (signed_events s') ?r"
    using ok by (simp add: event_bound_def ev queued_outbox_row_def queued_event_row_def queueable_def)
  moreover have "outbox_row_ok r \<and> inventory_ok sha256 r (targets_of (ob_outbox_id r) s')
      \<and> event_bound sha256 (signed_events s') r" if "r \<in> set (outboxes s)" for r
  proof -
    have "ob_outbox_id r \<noteq> ?k" using V(1) that by (auto simp: select_key_None_iff image_iff)
    then have "targets_of (ob_outbox_id r) s' = targets_of (ob_outbox_id r) s"
      using V(5) by (simp add: touches_only_def targets_of_def)
    moreover have "outbox_row_ok r \<and> inventory_ok sha256 r (targets_of (ob_outbox_id r) s)
        \<and> event_bound sha256 (signed_events s) r"
      using inv that unfolding pub_inv_def by blast
    ultimately show ?thesis using ev by (auto simp: event_bound_def)
  qed
  moreover have "attempts_valid (targets s') (attempts s')"
  proof -
    have "attempts s' = attempts s" "set (targets s) \<subseteq> set (targets s')" by (simp_all add: Q(1))
    moreover from this have "target_key ` set (targets s) \<subseteq> target_key ` set (targets s')" by blast
    ultimately show ?thesis using pub_invD(4)[OF inv] by (fastforce simp: attempts_valid_def list_all_iff)
  qed
  moreover have "attempts s' = attempts s" "set (outboxes s') = insert ?r (set (outboxes s))" by (simp_all add: Q(1))
  ultimately show ?thesis
    using inv Q(2,3,5) queued_inventory[OF inv q ok] rid
    by (simp add: pub_inv_def publication_governed_def)
qed

lemma pub_sched_queue:
  assumes inv: "pub_inv sha256 s" and sch: "pub_sched sha256 s"
    and q: "queue_publication event required now s = Inr s'"
    and ok: "queueable sha256 event required"
  shows "pub_sched sha256 s'"
proof -
  let ?k = "rq_outbox_id required" and ?ts = "rq_targets required"
  have ord: "map ft_ordinal ?ts = [0..<length ?ts]" using ok by (simp add: queueable_def)
  note Q = queue_publicationE[OF q]
  note V = queued_view[OF inv q ord]
  have r1: "outbox_row_check (queued_outbox_row event required (int now))"
    using Q(1,3) by (simp add: outboxes_valid_def)
  let ?row = "queued_target_row ?k (int now)"
  have t: "row_retryable (?row t)" "\<not> is_submitted (?row t)" "tg_attempt_count (?row t) = 0"
    "tg_next_attempt_unix_ms (?row t) = Some (int now)" for t
    by (simp_all add: queued_target_row_def row_retryable_def target_state_of_def is_submitted_def)
  have "0 \<le> ob_max_attempts (queued_outbox_row event required (int now))"
    using r1 by (simp add: outbox_row_check_def)
  then have "view_ok sha256 (queued_outbox_row event required (int now)) (map ?row ?ts) []"
    using t Q(4)
    by (auto simp: view_ok_def target_sched_def recorded_numbers_def settled_numbers_def outbox_sched_def
        schedulable_def queued_outbox_row_def filter_empty_conv neq_Nil_conv filter_map comp_def)
  then show ?thesis
    using pub_sched_touched[OF sch V(5)] V(2-4) by simp
qed

end
