(* ===== verification/Publication_Machine.thy ===== *)
theory Publication_Machine
  imports Publication_Writers
begin

text \<open>
  The publication queue as a concurrent system.  Any number of executors share the store; each runs
  \<open>execute_next_publication\<close>, whose transactions (recover, claim, prepare, record) interleave freely
  with those of the others, with the finalization commit that queues publications and with the
  administrator's retry.  An executor may stop at any point and lose what it holds.  Clock readings,
  delays and relay outcomes are arbitrary.
\<close>

section \<open>The system\<close>

datatype pub_phase = WorkerIdle | WorkerHolding publication_lease | WorkerSubmitting prepared_attempt

record pub_system =
  ps_store :: pub_store
  ps_phase :: "nat \<Rightarrow> pub_phase"

text \<open>What \<open>derive_authority\<close> guarantees of an authority.\<close>

definition authority_ok :: "(bytes \<Rightarrow> bytes) \<Rightarrow> publication_authority \<Rightarrow> bool" where
  "authority_ok sha256 authority \<longleftrightarrow>
     pa_target_set_sha256 authority =
       sha256 (target_set_preimage (length (pa_targets authority)) (map target_triple (pa_targets authority)))
   \<and> pa_queue_capacity authority \<le> 65536"

inductive pub_step :: "(bytes \<Rightarrow> bytes) \<Rightarrow> pub_system \<Rightarrow> pub_system \<Rightarrow> bool" for sha256 where
  claim: "pub_step sha256 sys (sys\<lparr>ps_store := s', ps_phase := (ps_phase sys)(w := WorkerHolding lease)\<rparr>)"
    if "ps_phase sys w = WorkerIdle" "pub_owner_ok owner"
       "claim_next_outbox sha256 owner now authority (ps_store sys) = Inr (Some lease, s')"
| prepare: "pub_step sha256 sys (sys\<lparr>ps_store := s', ps_phase := (ps_phase sys)(w := WorkerSubmitting p)\<rparr>)"
    if "ps_phase sys w = WorkerHolding lease"
       "prepare_next sha256 lease started (ps_store sys) = Inr (p, s')"
| report: "pub_step sha256 sys (sys\<lparr>ps_store := s', ps_phase := (ps_phase sys)(w := WorkerIdle)\<rparr>)"
    if "ps_phase sys w = WorkerSubmitting p"
       "record_input_from_prepared sha256 p finished outcome delay = Inr input"
       "record_outcome sha256 input (ps_store sys) = Inr (commit, s')"
| recover: "pub_step sha256 sys (sys\<lparr>ps_store := s'\<rparr>)"
    if "recover_expired sha256 candidate now delay (ps_store sys) = Inr (b, s')"
| lose: "pub_step sha256 sys (sys\<lparr>ps_phase := (ps_phase sys)(w := WorkerIdle)\<rparr>)"
| retry: "pub_step sha256 sys (sys\<lparr>ps_store := s'\<rparr>)"
    if "publication_retry workflow expected count now (ps_store sys) = Inr (receipt, s')"
| queue: "pub_step sha256 sys (sys\<lparr>ps_store := s'\<rparr>)"
    if "authority_ok sha256 publication"
       "required_publication_from sha256 (fe_event_id event) publication = Some required"
       "fe_event_sha256 event = sha256 (fe_canonical_event_json event)"
       "queue_publication event required now (ps_store sys) = Inr s'"

inductive_cases pub_stepE: "pub_step sha256 sys sys'"

definition pub_start :: pub_system where
  "pub_start = \<lparr>ps_store = \<lparr>signed_events = [], outboxes = [], targets = [], attempts = []\<rparr>,
     ps_phase = (\<lambda>_. WorkerIdle)\<rparr>"

inductive pub_reach :: "(bytes \<Rightarrow> bytes) \<Rightarrow> pub_system \<Rightarrow> bool" for sha256 where
  start: "pub_reach sha256 pub_start"
| step: "pub_reach sha256 sys \<Longrightarrow> pub_step sha256 sys sys' \<Longrightarrow> pub_reach sha256 sys'"

lemma derive_authority_ok:
  assumes "derive_authority sha256 config_digest jv profile document = Inr authority"
  shows "authority_ok sha256 authority"
  using assms by (auto simp: derive_authority_def authority_ok_def target_set_digest_def)

lemma if_None_Some_iff:
  "((if c then None else x) = Some y) = (\<not> c \<and> x = Some y)"
  by simp

lemma required_publication_fromD:
  assumes "required_publication_from sha256 ev publication = Some required"
    and ts: "ts = map (\<lambda>t. \<lparr>ft_ordinal = pt_ordinal t, ft_relay_id = pt_relay_id t,
    ft_required = pt_required t\<rparr>) (pa_targets publication)"
  shows "rq_targets required = ts" "rq_target_set_sha256 required = pa_target_set_sha256 publication"
    "rq_queue_capacity required = pa_queue_capacity publication"
    "\<not> list_ex (\<lambda>(ordinal, t). ft_ordinal t \<noteq> ordinal) (enumerate 0 ts)"
proof -
  obtain retry where r: "pa_retry publication = Some retry"
    using assms(1) by (auto simp: required_publication_from_def bind_eq_Some_conv)
  note R = assms(1)[unfolded required_publication_from_def Let_def r Option.bind_lunit ts[symmetric]
      if_None_Some_iff de_Morgan_disj option.inject]
  show "rq_targets required = ts" "rq_target_set_sha256 required = pa_target_set_sha256 publication"
    "rq_queue_capacity required = pa_queue_capacity publication"
    by (metis R required_publication.select_convs)+
  show "\<not> list_ex (\<lambda>(ordinal, t). ft_ordinal t \<noteq> ordinal) (enumerate 0 ts)" using R by blast
qed

lemma required_publication_queueable:
  assumes "authority_ok sha256 publication"
    and "required_publication_from sha256 (fe_event_id event) publication = Some required"
    and "fe_event_sha256 event = sha256 (fe_canonical_event_json event)"
  shows "queueable sha256 event required" "rq_queue_capacity required \<le> 65536"
proof -
  define ts where "ts = map (\<lambda>t. \<lparr>ft_ordinal = pt_ordinal t, ft_relay_id = pt_relay_id t,
    ft_required = pt_required t\<rparr>) (pa_targets publication)"
  note rq = required_publication_fromD[OF assms(2) ts_def]
  have "ft_ordinal (ts ! i) = i" if "i < length ts" for i
  proof -
    have "enumerate 0 ts ! i \<in> set (enumerate 0 ts)" using that by (intro nth_mem) simp
    then have "(i, ts ! i) \<in> set (enumerate 0 ts)" using that by (simp add: nth_enumerate_eq)
    with rq(4) show ?thesis unfolding list_ex_iff by blast
  qed
  then have "map ft_ordinal ts = [0..<length ts]" by (intro nth_equalityI) simp_all
  moreover have "map (\<lambda>t. (ft_ordinal t, ft_relay_id t, ft_required t)) ts = map target_triple (pa_targets publication)"
    by (simp add: ts_def target_triple_def)
  ultimately show "queueable sha256 event required"
    using assms(1,3) by (simp add: queueable_def rq(1-3) authority_ok_def) (simp add: ts_def)
  show "rq_queue_capacity required \<le> 65536" using assms(1) rq(3) by (simp add: authority_ok_def)
qed

section \<open>The invariant\<close>

text \<open>
  A held lease names an outbox at a revision that is not in the future; while it is current nothing of
  the outbox is in flight, and no two executors hold the same revision.
\<close>

definition lease_key :: "publication_lease \<Rightarrow> bytes" where
  "lease_key lease = ox_id (pl_outbox lease)"

definition lease_revision :: "publication_lease \<Rightarrow> int" where
  "lease_revision lease = int (ox_revision (pl_outbox lease))"

definition lease_fresh :: "publication_lease \<Rightarrow> pub_store \<Rightarrow> bool" where
  "lease_fresh lease s \<longleftrightarrow>
     (\<exists>r. outbox_at (lease_key lease) s = Some r \<and> lease_revision lease \<le> ob_revision r
        \<and> (lease_revision lease = ob_revision r \<longrightarrow> idle (lease_key lease) s))"

definition leases_apart :: "(nat \<Rightarrow> pub_phase) \<Rightarrow> bool" where
  "leases_apart phase \<longleftrightarrow>
     (\<forall>w w' l l'. phase w = WorkerHolding l \<longrightarrow> phase w' = WorkerHolding l' \<longrightarrow> w \<noteq> w' \<longrightarrow>
        (lease_key l, lease_revision l) \<noteq> (lease_key l', lease_revision l'))"

text \<open>What an executor is submitting: the bytes of the event its outbox was queued for.\<close>

definition prepared_exact :: "(bytes \<Rightarrow> bytes) \<Rightarrow> prepared_attempt \<Rightarrow> pub_store \<Rightarrow> bool" where
  "prepared_exact sha256 p s \<longleftrightarrow>
     cp_outbox_id (pp_publication p) = ox_id (pl_outbox (pp_lease p))
   \<and> (\<exists>r e. outbox_at (cp_outbox_id (pp_publication p)) s = Some r \<and> e \<in> set (signed_events s)
        \<and> se_event_id e = ob_event_id r \<and> cp_event_id (pp_publication p) = ob_event_id r
        \<and> cp_event_sha256 (pp_publication p) = ob_event_sha256 r
        \<and> cp_exact_signed_event_bytes (pp_publication p) = se_canonical_event_json e
        \<and> sha256 (se_canonical_event_json e) = ob_event_sha256 r)"

definition pub_sys_inv :: "(bytes \<Rightarrow> bytes) \<Rightarrow> pub_system \<Rightarrow> bool" where
  "pub_sys_inv sha256 sys \<longleftrightarrow>
     pub_inv sha256 (ps_store sys) \<and> pub_sched sha256 (ps_store sys)
   \<and> (\<forall>w l. ps_phase sys w = WorkerHolding l \<longrightarrow> lease_fresh l (ps_store sys))
   \<and> leases_apart (ps_phase sys)
   \<and> (\<forall>w p. ps_phase sys w = WorkerSubmitting p \<longrightarrow> prepared_exact sha256 p (ps_store sys))"

text \<open>
  A write advances publication \<open>k\<close>: it touches no other publication, raises the revision, and keeps
  the identity of every outbox and all events.
\<close>

definition advances :: "bytes \<Rightarrow> pub_store \<Rightarrow> pub_store \<Rightarrow> bool" where
  "advances k s s' \<longleftrightarrow>
     touches_only k s s'
   \<and> (\<forall>r. outbox_at k s = Some r \<longrightarrow> (\<exists>r'. outbox_at k s' = Some r' \<and> ob_revision r < ob_revision r'
        \<and> ob_event_id r' = ob_event_id r \<and> ob_event_sha256 r' = ob_event_sha256 r))
   \<and> set (signed_events s) \<subseteq> set (signed_events s')"

lemma advances_fresh:
  assumes "advances k s s'" and "lease_fresh l s"
  shows "lease_fresh l s'"
proof (cases "lease_key l = k")
  case True
  with assms show ?thesis by (fastforce simp: advances_def lease_fresh_def)
next
  case False
  with assms show ?thesis by (simp add: advances_def lease_fresh_def touches_only_def idle_def)
qed

lemma advances_exact:
  assumes "advances k s s'" and "prepared_exact sha256 p s"
  shows "prepared_exact sha256 p s'"
proof -
  have ev: "set (signed_events s) \<subseteq> set (signed_events s')" using assms(1) by (simp add: advances_def)
  obtain r where r: "outbox_at (cp_outbox_id (pp_publication p)) s = Some r"
    using assms(2) by (auto simp: prepared_exact_def)
  then obtain r' where "outbox_at (cp_outbox_id (pp_publication p)) s' = Some r'"
    "ob_event_id r' = ob_event_id r" "ob_event_sha256 r' = ob_event_sha256 r"
    using assms(1) by (cases "cp_outbox_id (pp_publication p) = k") (auto simp: advances_def touches_only_def)
  with assms(2) r ev show ?thesis unfolding prepared_exact_def by (metis option.inject subsetD)
qed

text \<open>A step that writes one publication and changes no held lease keeps the system invariant.\<close>

lemma pub_sys_inv_advance:
  assumes inv: "pub_sys_inv sha256 sys" and adv: "advances k (ps_store sys) s'"
    and s': "pub_inv sha256 s'" "pub_sched sha256 s'"
    and ph: "\<And>w. phase w = ps_phase sys w \<or> phase w = WorkerIdle"
  shows "pub_sys_inv sha256 (sys\<lparr>ps_store := s', ps_phase := phase\<rparr>)"
proof -
  have "lease_fresh l s'" if "phase w = WorkerHolding l" for w l
    using inv that ph[of w] advances_fresh[OF adv] by (auto simp: pub_sys_inv_def)
  moreover have "prepared_exact sha256 p s'" if "phase w = WorkerSubmitting p" for w p
    using inv that ph[of w] advances_exact[OF adv] by (auto simp: pub_sys_inv_def)
  moreover have "leases_apart phase"
    using inv ph unfolding pub_sys_inv_def leases_apart_def by (metis pub_phase.distinct(1))
  ultimately show ?thesis using s' by (simp add: pub_sys_inv_def)
qed

section \<open>Every step keeps it\<close>

lemma released_advances:
  assumes tch: "touches_only (ob_outbox_id r) s s'" and at: "outbox_at (ob_outbox_id r) s = Some r"
    and at': "outbox_at (ob_outbox_id r) s' = Some (released_row d n r)"
    and ev: "signed_events s' = signed_events s"
  shows "advances (ob_outbox_id r) s s'"
  using assms by (simp add: advances_def)

lemma record_advances:
  assumes inv: "pub_inv sha256 s" and sch: "pub_sched sha256 s"
    and rec: "record_outcome sha256 input s = Inr (commit, s')"
  shows "s' = s \<or> advances (ox_id (pl_outbox (ri_lease input))) s s'" and "pub_inv sha256 s'"
proof -
  have "(s' = s \<or> advances (ox_id (pl_outbox (ri_lease input))) s s') \<and> pub_inv sha256 s'"
  proof (rule record_outcomeE[OF inv rec])
    assume "s' = s"
    with inv show ?thesis by simp
  next
    fix r t st nx s1 disp
    assume at: "outbox_at (ob_outbox_id r) s = Some r" and lease: "pl_outbox (ri_lease input) = outbox_of_row r"
      and s1: "s1 = s\<lparr>attempts := attempts s @ [attempt_row_of_input input],
        targets := replace_row target_key (settled_row st nx (ri_finished_at input) t) (targets s)\<rparr>"
      and s': "s' = s1\<lparr>outboxes := replace_row ob_outbox_id (released_row disp (ri_finished_at input) r) (outboxes s)\<rparr>"
      and inv': "pub_inv sha256 s'"
    have ob: "outboxes s1 = outboxes s" "signed_events s' = signed_events s" by (simp_all add: s1 s')
    have "outbox_at (ob_outbox_id r) s' = Some (released_row disp (ri_finished_at input) r)"
      using outbox_at_replaced[of "released_row disp (ri_finished_at input) r" s1 r] at ob s' by simp
    moreover have "touches_only (ob_outbox_id r) s s'" using pub_sched_record(2)[OF inv sch rec] lease by simp
    ultimately have "advances (ob_outbox_id r) s s'" using released_advances[OF _ at _ ob(2)] by blast
    with lease inv' show ?thesis by simp
  qed
  then show "s' = s \<or> advances (ox_id (pl_outbox (ri_lease input))) s s'" "pub_inv sha256 s'" by simp_all
qed

lemma recover_advances:
  assumes inv: "pub_inv sha256 s" and sch: "pub_sched sha256 s"
    and rec: "recover_expired sha256 candidate now delay s = Inr (b, s')"
  shows "advances (ox_id (rc_outbox candidate)) s s'" and "pub_inv sha256 s'"
proof -
  have "advances (ox_id (rc_outbox candidate)) s s' \<and> pub_inv sha256 s'"
  proof (rule recover_expiredE[OF inv rec])
    fix r owner e s1 d
    assume at: "outbox_at (ob_outbox_id r) s = Some r" and cand: "rc_outbox candidate = outbox_of_row r"
      and e: "ob_lease_expires_unix_ms r = Some e"
      and rts: "recover_targets sha256 (outbox_of_row r) owner now delay
         (map target_of_row (filter (\<lambda>t. tg_state t = ''submitted'') (target_rows (ob_outbox_id r) s))) s = Inr s1"
      and ob: "outboxes s1 = outboxes s"
      and s': "s' = s1\<lparr>outboxes := replace_row ob_outbox_id (released_row d now r) (outboxes s)\<rparr>"
      and inv': "pub_inv sha256 s'"
    have ev: "signed_events s' = signed_events s" using recover_targets_frame[OF inv rts e] s' by simp
    have "outbox_at (ob_outbox_id r) s' = Some (released_row d now r)"
      using outbox_at_replaced[of "released_row d now r" s1 r] at ob s' by simp
    moreover have "touches_only (ob_outbox_id r) s s'" using pub_sched_recover(2)[OF inv sch rec] cand by simp
    ultimately have "advances (ob_outbox_id r) s s'" using released_advances[OF _ at _ ev] by blast
    with cand inv' show ?thesis by simp
  qed
  then show "advances (ox_id (rc_outbox candidate)) s s'" "pub_inv sha256 s'" by simp_all
qed

lemma retry_advances:
  assumes inv: "pub_inv sha256 s" and ret: "publication_retry k expected count now s = Inr (receipt, s')"
  shows "advances k s s'" and "pub_inv sha256 s'"
proof -
  have "advances k s s' \<and> pub_inv sha256 s'"
    by (rule publication_retryE[OF inv ret]) (simp add: advances_def retry_outbox_set_def)
  then show "advances k s s'" "pub_inv sha256 s'" by simp_all
qed

lemma queue_advances:
  assumes inv: "pub_inv sha256 s" and q: "queue_publication event required now s = Inr s'"
    and ok: "queueable sha256 event required"
  shows "advances (rq_outbox_id required) s s'"
proof -
  have ord: "map ft_ordinal (rq_targets required) = [0..<length (rq_targets required)]"
    using ok by (simp add: queueable_def)
  note V = queued_view[OF inv q ord]
  have "set (signed_events s) \<subseteq> set (signed_events s')" using queue_publicationE(1)[OF q] by auto
  with V(1,5) show ?thesis by (simp add: advances_def)
qed

lemma leases_apart_insert:
  assumes "leases_apart phase"
    and "\<And>v l. phase v = WorkerHolding l \<Longrightarrow>
      (lease_key l, lease_revision l) \<noteq> (lease_key lease, lease_revision lease)"
  shows "leases_apart (phase(w := WorkerHolding lease))"
  unfolding leases_apart_def
proof (intro allI impI)
  fix v v' l l'
  assume p: "(phase(w := WorkerHolding lease)) v = WorkerHolding l"
    "(phase(w := WorkerHolding lease)) v' = WorkerHolding l'" and ne: "v \<noteq> v'"
  show "(lease_key l, lease_revision l) \<noteq> (lease_key l', lease_revision l')"
  proof (cases "v = w \<or> v' = w")
    case True
    then show ?thesis
    proof
      assume "v = w"
      with p ne have "l = lease" "phase v' = WorkerHolding l'" by simp_all
      with assms(2)[of v' l'] show ?thesis by metis
    next
      assume "v' = w"
      with p ne have "l' = lease" "phase v = WorkerHolding l" by simp_all
      with assms(2)[of v l] show ?thesis by metis
    qed
  next
    case False
    with p have "phase v = WorkerHolding l" "phase v' = WorkerHolding l'" by simp_all
    with assms(1) ne show ?thesis unfolding leases_apart_def by blast
  qed
qed

lemma leases_apart_drop:
  assumes "leases_apart phase" and "\<And>l. x \<noteq> WorkerHolding l"
  shows "leases_apart (phase(w := x))"
  unfolding leases_apart_def
proof (intro allI impI)
  fix v v' l l'
  assume "(phase(w := x)) v = WorkerHolding l" "(phase(w := x)) v' = WorkerHolding l'" "v \<noteq> v'"
  then have "phase v = WorkerHolding l" "phase v' = WorkerHolding l'"
    using assms(2) by (auto split: if_split_asm)
  with assms(1) \<open>v \<noteq> v'\<close> show "(lease_key l, lease_revision l) \<noteq> (lease_key l', lease_revision l')"
    unfolding leases_apart_def by blast
qed

lemma pub_sys_inv_claim:
  assumes inv: "pub_sys_inv sha256 sys" and owner: "pub_owner_ok owner"
    and claim: "claim_next_outbox sha256 owner now authority (ps_store sys) = Inr (Some lease, s')"
  shows "pub_sys_inv sha256 (sys\<lparr>ps_store := s', ps_phase := (ps_phase sys)(w := WorkerHolding lease)\<rparr>)"
proof -
  let ?s = "ps_store sys"
  have I: "pub_inv sha256 ?s" "pub_sched sha256 ?s" "leases_apart (ps_phase sys)"
    "\<And>v l. ps_phase sys v = WorkerHolding l \<Longrightarrow> lease_fresh l ?s"
    "\<And>v p. ps_phase sys v = WorkerSubmitting p \<Longrightarrow> prepared_exact sha256 p ?s"
    using inv by (auto simp: pub_sys_inv_def)
  have sch': "pub_sched sha256 s'" using pub_sched_claim[OF I(1,2) owner claim] .
  show ?thesis
  proof (rule claim_lease[OF I(1,2) owner claim])
    fix r r'
    assume r: "outbox_at (ob_outbox_id r) ?s = Some r" "outbox_at (ob_outbox_id r) s' = Some r'"
      "pl_outbox lease = outbox_of_row r'" "ob_outbox_id r' = ob_outbox_id r" "ob_revision r' = ob_revision r + 1"
      "idle (ob_outbox_id r) s'" "touches_only (ob_outbox_id r) ?s s'" and inv': "pub_inv sha256 s'"
      and same: "ob_event_id r' = ob_event_id r" "ob_event_sha256 r' = ob_event_sha256 r"
        "signed_events s' = signed_events ?s"
    have "outbox_row_ok r'" using pub_inv_outbox(1)[OF inv' r(2)] .
    then have key: "lease_key lease = ob_outbox_id r" "lease_revision lease = ob_revision r + 1"
      using r(3-5) outbox_row_okD(1)[of r'] by (simp_all add: lease_key_def lease_revision_def)
    have adv: "advances (ob_outbox_id r) ?s s'" using r same by (simp add: advances_def)
    have old: "(lease_key l, lease_revision l) \<noteq> (lease_key lease, lease_revision lease)"
      if "ps_phase sys v = WorkerHolding l" for v l
      using I(4)[OF that(1)] r(1) key by (auto simp: lease_fresh_def)
    have "lease_fresh lease s'" using r(2,5,6) key by (simp add: lease_fresh_def)
    moreover have "leases_apart ((ps_phase sys)(w := WorkerHolding lease))"
      using leases_apart_insert[OF I(3) old] .
    ultimately show ?thesis
      using inv' sch' advances_fresh[OF adv] advances_exact[OF adv] I(4,5)
      by (auto simp: pub_sys_inv_def)
  qed
qed

lemma pub_sys_inv_prepare:
  assumes inv: "pub_sys_inv sha256 sys" and hold: "ps_phase sys w = WorkerHolding lease"
    and prep: "prepare_next sha256 lease started (ps_store sys) = Inr (p, s')"
  shows "pub_sys_inv sha256 (sys\<lparr>ps_store := s', ps_phase := (ps_phase sys)(w := WorkerSubmitting p)\<rparr>)"
proof -
  let ?s = "ps_store sys"
  have I: "pub_inv sha256 ?s" "pub_sched sha256 ?s" "leases_apart (ps_phase sys)"
    "\<And>v l. ps_phase sys v = WorkerHolding l \<Longrightarrow> lease_fresh l ?s"
    "\<And>v p. ps_phase sys v = WorkerSubmitting p \<Longrightarrow> prepared_exact sha256 p ?s"
    using inv by (auto simp: pub_sys_inv_def)
  show ?thesis
  proof (rule prepare_nextE[OF I(1) prep])
    fix r t t' n e
    assume at: "outbox_at (ob_outbox_id r) ?s = Some r" and lease: "pl_outbox lease = outbox_of_row r"
      and t': "t' = prepare_target_set (derive_attempt_id sha256 (ob_outbox_id r) (ob_event_sha256 r)
         (nat (tg_target_ordinal t)) n) (int started) t" and t: "tg_outbox_id t = ob_outbox_id r"
      and s': "s' = ?s\<lparr>targets := replace_row target_key t' (targets ?s)\<rparr>" and inv': "pub_inv sha256 s'"
      and e: "e \<in> set (signed_events ?s)" "se_event_id e = ob_event_id r"
      and p: "p = \<lparr>pp_lease = lease, pp_target = target_of_row t', pp_attempt_id = derive_attempt_id sha256
         (ob_outbox_id r) (ob_event_sha256 r) (nat (tg_target_ordinal t)) n,
         pp_started_at = started, pp_deadline_at = pl_expires_at lease,
         pp_publication = \<lparr>cp_outbox_id = ob_outbox_id r, cp_event_id = ob_event_id r,
           cp_event_sha256 = ob_event_sha256 r, cp_exact_signed_event_bytes = se_canonical_event_json e\<rparr>\<rparr>"
      and h: "sha256 (se_canonical_event_json e) = ob_event_sha256 r"
    have key: "lease_key lease = ob_outbox_id r" "lease_revision lease = ob_revision r"
      using lease outbox_row_okD(1)[OF pub_inv_outbox(1)[OF I(1) at]]
      by (simp_all add: lease_key_def lease_revision_def)
    have quiet: "idle (ox_id (pl_outbox lease)) ?s"
      using I(4)[OF hold] at key by (auto simp: lease_fresh_def lease_key_def)
    have sch': "pub_sched sha256 s'" using pub_sched_prepare[OF I(1,2) quiet prep] .
    have tid: "tg_outbox_id t' = ob_outbox_id r" using t by (simp add: t' prepare_target_set_def)
    have tch: "touches_only (ob_outbox_id r) ?s s'" using touches_only_target[of t' ?s] tid s' by simp
    have "lease_fresh l s'" if l: "ps_phase sys v = WorkerHolding l" "v \<noteq> w" for v l
    proof (cases "lease_key l = ob_outbox_id r")
      case True
      then have "lease_revision l \<noteq> ob_revision r"
        using I(3) l hold key unfolding leases_apart_def by metis
      with True I(4)[OF l(1)] at show ?thesis by (auto simp: lease_fresh_def s')
    next
      case False
      with I(4)[OF l(1)] tch show ?thesis by (simp add: lease_fresh_def touches_only_def idle_def)
    qed
    moreover have "prepared_exact sha256 p s'"
      using at e h key(1) by (auto simp: prepared_exact_def p s' lease_key_def)
    moreover have "prepared_exact sha256 q s'" if "prepared_exact sha256 q ?s" for q
      using that by (auto simp: prepared_exact_def s')
    ultimately show ?thesis
      using inv' sch' leases_apart_drop[OF I(3), of "WorkerSubmitting p" w] I(5)
      by (auto simp: pub_sys_inv_def)
  qed
qed

lemma pub_sys_inv_step:
  assumes inv: "pub_sys_inv sha256 sys" and "pub_step sha256 sys sys'"
  shows "pub_sys_inv sha256 sys'"
  using assms(2)
proof cases
  case (claim w owner now authority lease s')
  then show ?thesis using pub_sys_inv_claim[OF inv] by simp
next
  case (prepare w lease started p s')
  then show ?thesis using pub_sys_inv_prepare[OF inv] by simp
next
  case (report w p finished outcome delay input commit s')
  have I: "pub_inv sha256 (ps_store sys)" "pub_sched sha256 (ps_store sys)"
    using inv by (simp_all add: pub_sys_inv_def)
  note A = record_advances[OF I report(4)] and S = pub_sched_record(1)[OF I report(4)]
  show ?thesis
  proof (cases "s' = ps_store sys")
    case True
    then show ?thesis
      using inv leases_apart_drop[of "ps_phase sys" WorkerIdle w] report(1) by (auto simp: pub_sys_inv_def)
  next
    case False
    with A(1) show ?thesis
      unfolding report(1) by (intro pub_sys_inv_advance[OF inv _ A(2) S]) auto
  qed
next
  case (recover candidate now delay b s')
  have I: "pub_inv sha256 (ps_store sys)" "pub_sched sha256 (ps_store sys)"
    using inv by (simp_all add: pub_sys_inv_def)
  note A = recover_advances[OF I recover(2)] and S = pub_sched_recover(1)[OF I recover(2)]
  show ?thesis using pub_sys_inv_advance[OF inv A S, of "ps_phase sys"] recover(1) by simp
next
  case (lose w)
  then show ?thesis
    using inv leases_apart_drop[of "ps_phase sys" WorkerIdle w] by (auto simp: pub_sys_inv_def)
next
  case (retry workflow expected count now receipt s')
  have I: "pub_inv sha256 (ps_store sys)" "pub_sched sha256 (ps_store sys)"
    using inv by (simp_all add: pub_sys_inv_def)
  show ?thesis
    using pub_sys_inv_advance[OF inv retry_advances[OF I(1) retry(2)] pub_sched_retry[OF I retry(2)],
        of "ps_phase sys"] retry(1) by simp
next
  case (queue publication event required now s')
  have I: "pub_inv sha256 (ps_store sys)" "pub_sched sha256 (ps_store sys)"
    using inv by (simp_all add: pub_sys_inv_def)
  note ok = required_publication_queueable(1)[OF queue(2,3,4)]
  show ?thesis
    using pub_sys_inv_advance[OF inv queue_advances[OF I(1) queue(5) ok] pub_inv_queue[OF I(1) queue(5) ok]
        pub_sched_queue[OF I queue(5) ok], of "ps_phase sys"] queue(1) by simp
qed

lemma pub_sys_inv_start: "pub_sys_inv sha256 pub_start"
  by (simp add: pub_sys_inv_def pub_start_def pub_inv_def publication_governed_def events_valid_def
      outboxes_valid_def targets_valid_def attempts_valid_def pub_sched_def select_key_def leases_apart_def)

lemma pub_reach_inv: "pub_reach sha256 sys \<Longrightarrow> pub_sys_inv sha256 sys"
  by (induction rule: pub_reach.induct) (auto intro: pub_sys_inv_start pub_sys_inv_step)

end
