(* ===== verification/Publication_Progress.thy ===== *)
theory Publication_Progress
  imports Publication_Machine
begin

text \<open>
  When the transaction bodies succeed, and with what: the converse of the rules of
  \<open>Publication_Rules\<close>, from the invariant and conditions on clocks and counters.
\<close>

lemmas run_simps = and_then_simps option.case option_filter_simps ok_or_simps prod.case simp_thms
  if_True if_False

section \<open>Claim\<close>

lemma claim_row_ok:
  assumes "outbox_row_check r" and "pub_owner_ok owner" and "ob_state r = ''pending''"
    and "ob_updated_at_unix_ms r \<le> int now" and "ob_revision r < sql_i64_max"
    and "1 \<le> e" and "e \<le> i64_max" and "now \<le> i64_max"
  shows "outbox_guard r (claim_outbox_set owner (int e) (int now) r)"
    and "outbox_row_check (claim_outbox_set owner (int e) (int now) r)"
  using assms
  by (auto simp: outbox_guard_def outbox_row_check_def claim_outbox_set_def outbox_transition_def
      outbox_state_check_def pub_owner_ok_def i64_max_def)

lemma claim_success:
  assumes inv: "pub_inv sha256 s" and owner: "pub_owner_ok owner"
    and sel: "select_min outbox_order (filter (due_outbox (int now)) (outboxes s)) = Some r"
    and auth: "validate_authority (outbox_of_row r) authority = Inr ()"
    and e: "e = now + nat (ob_attempt_deadline_ms r)" "e \<le> i64_max"
    and upd: "ob_updated_at_unix_ms r \<le> int now" and rev: "ob_revision r < sql_i64_max"
    and r': "r' = claim_outbox_set owner (int e) (int now) r"
  shows "claim_next_outbox sha256 owner now authority s =
     Inr (Some \<lparr>pl_outbox = outbox_of_row r', pl_owner = owner, pl_expires_at = e\<rparr>,
       s\<lparr>outboxes := replace_row ob_outbox_id r' (outboxes s)\<rparr>)"
proof -
  note M = select_min_SomeD(1)[OF sel]
  have mem: "r \<in> set (outboxes s)" and due: "due_outbox (int now) r" using M by auto
  let ?k = "ob_outbox_id r"
  have at: "outbox_at ?k s = Some r" using select_key_distinct[OF pub_invD(5)[OF inv] mem] .
  note R = pub_inv_outbox[OF inv at]
  have st: "ob_state r = ''pending''" using due by (simp add: due_outbox_def)
  have "ob_lease_owner r = None"
    using st R(1) by (auto simp: outbox_row_ok_def elim: outbox_row_cases)
  then have same: "r\<lparr>ob_lease_owner := None\<rparr> = r" by simp
  have now: "now \<le> i64_max" using e by simp
  have e1: "1 \<le> e" using outbox_row_okD(9)[OF R(1)] e(1) by simp
  have chk: "outbox_row_check r" using R(1) by (simp add: outbox_row_ok_def)
  note G = claim_row_ok[OF chk owner st upd rev e1 e(2) now]
  define s' where "s' = s\<lparr>outboxes := replace_row ob_outbox_id r' (outboxes s)\<rparr>"
  have w: "claim_outbox_where ?k (ob_revision r) (int now) r"
    using due upd by (simp add: claim_outbox_where_def due_outbox_def)
  have u: "update_outboxes (claim_outbox_where ?k (ob_revision r) (int now))
      (claim_outbox_set owner (int e) (int now)) s = Inr (s', 1)"
    unfolding s'_def r'
    by (rule update_outboxes_keyed[OF inv at]) (use w G in \<open>simp_all add: claim_outbox_where_def\<close>)
  have inv': "pub_inv sha256 s'"
    using inv u by (rule update_outboxes_inv)
      (use pub_owner_ok_nonzero[OF owner] in \<open>auto simp: claim_outbox_set_def\<close>)
  have at': "outbox_at ?k s' = Some r'"
    using outbox_at_replaced[of r' s r] at by (simp add: s'_def r' claim_outbox_set_def)
  have read: "read_outbox ?k s' = Inr (Some (outbox_of_row r'))"
    by (simp add: read_outbox_inv[OF inv'] at')
  have num: "pub_i64_value now = Inr (int now)" "pub_i64_value e = Inr (int e)"
    "pub_i64_value (ox_revision (outbox_of_row r)) = Inr (ob_revision r)"
    "checked_add now (ox_attempt_deadline_ms (outbox_of_row r)) = Some e"
    using now e outbox_row_okD(1,2)[OF R(1)] i64_max_less_u64_max
    by (simp_all add: pub_i64_value_def i64_of_u64_def checked_add_def i64_max_def nat_le_iff)
  have inventory: "validate_target_inventory sha256 (outbox_of_row r) s = Inr ()"
    using R(2) by (simp add: validate_target_inventory_def read_targets_inv[OF inv] inventory_ok_def)
  have leased: "ox_state (outbox_of_row r') = OutboxLeased" "ox_lease_owner (outbox_of_row r') = Some owner"
    "ox_lease_expires (outbox_of_row r') = Some e"
    by (simp_all add: r' claim_outbox_set_def outbox_state_of_def)
  have row: "read_claimable_outbox (int now) s = Some r"
    by (simp only: read_claimable_outbox_alt sel option.map same)
  show ?thesis
    unfolding s'_def[symmetric]
    using e(2)
    by (simp only: claim_next_outbox_def num row decode_outbox_row_ok[OF R(1)] auth inventory u read leased
        outbox_of_row_simps(1) run_simps)
qed

section \<open>Prepare\<close>

lemma prepare_row_ok:
  assumes "target_row_check t" and "tg_state t \<noteq> ''accepted''" and "tg_updated_at_unix_ms t \<le> int started"
    and "tg_revision t < sql_i64_max" and "tg_attempt_count t < 100" and "length aid = 32"
    and "started \<le> i64_max"
  shows "target_guard t (prepare_target_set aid (int started) t)"
    and "target_row_check (prepare_target_set aid (int started) t)"
  using assms
  by (auto simp: target_guard_def target_row_check_def prepare_target_set_def sql_logic i64_max_def)

lemma find_map: "find p (map f xs) = map_option f (find (p \<circ> f) xs)"
  by (induction xs) auto

lemma find_cong:
  assumes "\<And>x. x \<in> set xs \<Longrightarrow> p x = q x"
  shows "find p xs = find q xs"
  using assms by (induction xs) auto

text \<open>\<open>prepare_next\<close> takes the first due target.\<close>

lemma prepare_success:
  assumes inv: "pub_inv sha256 s" and at: "outbox_at (ob_outbox_id r) s = Some r"
    and lease: "pl_outbox lease = outbox_of_row r" "ob_state r = ''leased''"
      "ob_lease_owner r = Some (pl_owner lease)"
      "ob_lease_expires_unix_ms r = Some (int (pl_expires_at lease))" "started < pl_expires_at lease"
    and t: "find (due_target r (int started)) (target_rows (ob_outbox_id r) s) = Some t"
    and upd: "tg_updated_at_unix_ms t \<le> int started" and rev: "tg_revision t < sql_i64_max"
    and len: "\<And>b. length (sha256 b) = 32"
    and t': "t' = prepare_target_set (attempt_id_of sha256 r (tg_target_ordinal t) (tg_attempt_count t + 1)) (int started) t"
    and s': "s' = s\<lparr>targets := replace_row target_key t' (targets s)\<rparr>"
  shows "\<exists>p. prepare_next sha256 lease started s = Inr (p, s') \<and> pp_target p = target_of_row t'
     \<and> pp_lease p = lease \<and> pp_started_at p = started"
proof -
  let ?k = "ob_outbox_id r"
  note R = pub_inv_outbox[OF inv at]
  have mem: "t \<in> set (target_rows ?k s)" and due: "due_target r (int started) t"
    using t by (auto simp: find_Some_iff simp del: set_target_rows)
  note F = target_rows_facts[OF inv, where k = ?k]
  have tc: "target_row_check t" "tg_outbox_id t = ?k" using F(2,3)[OF mem] .
  have at_t: "target_at ?k (tg_target_ordinal t) s = Some t"
    using pub_inv_target(2)[OF inv, of t] mem tc(2) by simp
  define n where "n = nat (tg_attempt_count t) + 1"
  define aid where "aid = derive_attempt_id sha256 ?k (ob_event_sha256 r) (nat (tg_target_ordinal t)) n"
  have cnt: "0 \<le> tg_attempt_count t" "tg_attempt_count t < 100"
    using target_row_checkD(5)[OF tc(1)] due outbox_row_okD(4)[OF R(1)] by (auto simp: due_target_def)
  have "nat (tg_attempt_count t + 1) = n" using cnt by (simp add: n_def)
  then have t'a: "t' = prepare_target_set aid (int started) t" by (simp add: t' attempt_id_of_def aid_def)
  have st: "tg_state t \<in> {''pending'', ''failed'', ''rate_limited'', ''unknown''}"
    using due retryable_state_names[OF tc(1)] by (simp add: due_target_def)
  have exp: "int (pl_expires_at lease) \<le> sql_i64_max"
    using R(1) lease(2,4) by (auto simp: outbox_row_ok_def elim!: outbox_row_cases)
  then have started: "started \<le> i64_max" using lease(5) by (simp add: i64_max_def)
  have "length aid = 32" using len by (simp add: aid_def derive_attempt_id_def)
  with tc(1) st upd rev cnt started have G: "target_guard t t'" "target_row_check t'"
    unfolding t'a by (auto intro: prepare_row_ok)
  let ?w = "prepare_target_where ?k (tg_target_ordinal t) (tg_revision t) (ob_max_attempts r) (int started)"
  have u: "update_targets ?w (prepare_target_set aid (int started)) s = Inr (s', 1)"
    unfolding s' t'a
    by (rule update_targets_keyed[OF inv at_t])
      (use st due upd tc(2) G t'a in \<open>auto simp: prepare_target_where_def due_target_def target_key_def\<close>)
  have inv': "pub_inv sha256 s'" using update_targets_inv[OF inv u] .
  have at': "outbox_at ?k s' = Some r" using at by (simp add: s')
  have key: "target_key t' = (?k, tg_target_ordinal t)"
    using tc(2) by (simp add: t'a prepare_target_set_def target_key_def)
  have "target_key t \<in> target_key ` set (targets s)" using mem by auto
  then have att': "target_at ?k (tg_target_ordinal t) s' = Some t'"
    using key tc(2) by (simp add: s' select_key_replace_row target_key_def)
  have ord: "int (nat (tg_target_ordinal t)) = tg_target_ordinal t" "nat (tg_target_ordinal t) \<le> 31"
    using target_row_checkD(1,2)[OF tc(1)] by simp_all
  have fnd: "find (\<lambda>u. tr_ordinal u = tr_ordinal (target_of_row t)) (targets_of ?k s') = Some (target_of_row t')"
    using find_target[OF inv' ord(2), of ?k] att' ord(1) by simp
  have val: "pub_validate_lease lease started True s = Inr ()"
    using pub_validate_lease_iff[OF inv] at lease by auto
  have m: "ox_max_attempts (pl_outbox lease) = nat (ob_max_attempts r)" by (simp add: lease(1))
  have cand: "find (target_is_due (ox_max_attempts (pl_outbox lease)) started) (targets_of ?k s) = Some (target_of_row t)"
  proof -
    have "find (target_is_due (nat (ob_max_attempts r)) started \<circ> target_of_row) (target_rows ?k s) = Some t"
      unfolding t[symmetric]
      by (rule find_cong) (use target_is_due_iff[OF R(1) F(2)] in simp)
    then show ?thesis by (simp add: targets_of_def find_map m)
  qed
  have num: "pub_i64_value started = Inr (int started)"
    "pub_i64_value (tr_revision (target_of_row t)) = Inr (tg_revision t)"
    "int (tr_ordinal (target_of_row t)) = tg_target_ordinal t"
    "int (ox_max_attempts (pl_outbox lease)) = ob_max_attempts r"
    using started target_row_checkD(3,4)[OF tc(1)] ord outbox_row_okD(3)[OF R(1)]
    by (simp_all add: pub_i64_value_def i64_of_u64_def i64_max_def nat_le_iff m)
  have sub: "tr_state (target_of_row t') = TargetSubmitted" "tr_attempt_count (target_of_row t') = n"
    "tr_last_attempt_id (target_of_row t') = Some aid"
    using cnt by (simp_all add: t'a prepare_target_set_def target_state_of_def n_def)
  have one: "submit_target sha256 lease started (target_of_row t) n aid s = Inr (target_of_row t', s')"
    by (simp only: submit_target_def num lease(1) outbox_of_row_simps(1) u read_targets_inv[OF inv'] fnd sub run_simps
        num[unfolded lease(1)])
  obtain e :: event_row where com: "sha256 (se_canonical_event_json e) = ob_event_sha256 r"
    "read_committed sha256 ?k s' = Inr \<lparr>cp_outbox_id = ?k, cp_event_id = ob_event_id r,
       cp_event_sha256 = ob_event_sha256 r, cp_exact_signed_event_bytes = se_canonical_event_json e\<rparr>"
    by (rule read_committed_inv[OF inv' at'])
  have bound: "n \<le> nat (ob_max_attempts r)" "n \<le> 65535" "tr_attempt_count (target_of_row t) + 1 = n"
    using due cnt outbox_row_okD(3,4)[OF R(1)] by (auto simp: due_target_def n_def)
  have inventory: "validate_targets sha256 (outbox_of_row r) (targets_of ?k s) = Inr ()"
    using R(2) by (simp add: inventory_ok_def)
  show ?thesis
    unfolding prepare_next_def Let_def
    using val cand one com(2) bound inventory
    by (simp add: read_targets_inv[OF inv] lease(1) aid_def[symmetric] n_def[symmetric])
qed

section \<open>Settling and releasing\<close>

lemma disposition_total:
  assumes inv: "inventory_ok sha256 r (map target_of_row ts)"
    and tc: "\<And>t. t \<in> set ts \<Longrightarrow> target_row_check t" and rok: "outbox_row_ok r"
    and sched: "\<And>t. t \<in> set ts \<Longrightarrow> target_sched sha256 r t"
    and none: "filter is_submitted ts = []"
  shows "\<exists>d. disposition sha256 (outbox_of_row r) (map target_of_row ts) = Inr d"
proof (cases "list_all (\<lambda>t. tr_state t = TargetAccepted) (filter tr_required (map target_of_row ts))
    \<or> list_ex (target_is_blocking (nat (ob_max_attempts r))) (filter tr_required (map target_of_row ts))")
  case True
  then show ?thesis using inv by (auto simp: disposition_def inventory_ok_def Let_def)
next
  case False
  then obtain u where u: "u \<in> set (filter tr_required (map target_of_row ts))" "tr_state u \<noteq> TargetAccepted"
    "\<not> target_is_blocking (nat (ob_max_attempts r)) u"
    unfolding list_all_iff list_ex_iff by blast
  then obtain t where t: "t \<in> set ts" "tg_required t = 1" "target_state_of (tg_state t) \<noteq> TargetAccepted"
    "\<not> target_is_blocking (nat (ob_max_attempts r)) (target_of_row t)"
    by auto
  have ns: "tg_state t \<noteq> ''submitted''" using none t(1) by (auto simp: filter_empty_conv is_submitted_def)
  have names: "tg_state t \<in> {''pending'', ''submitted'', ''accepted'', ''rejected'', ''rate_limited'',
      ''auth_required'', ''failed'', ''unknown''}"
    using tc[OF t(1)] by (simp only: target_row_check_def)
  have other: "tg_state t \<noteq> ''rejected''" "tg_state t \<noteq> ''auth_required''" "tg_state t \<noteq> ''accepted''"
    using t(3,4) by (auto simp: target_is_blocking_def target_state_of_def)
  have "row_retryable t"
    using names ns other by (elim insertE) (simp_all add: row_retryable_def target_state_of_def)
  moreover have "tg_next_attempt_unix_ms t = None \<Longrightarrow> tg_attempt_count t = ob_max_attempts r"
    using sched[OF t(1)] calculation by (simp add: target_sched_def)
  ultimately obtain v where v: "tg_next_attempt_unix_ms t = Some v"
    using t(4) by (cases "tg_next_attempt_unix_ms t") (auto simp: target_is_blocking_def row_retryable_def)
  then have "nat v \<in> set (List.map_filter tr_next_attempt (filter tr_required (map target_of_row ts)))"
    using t(1,2) by (force simp: List.map_filter_def)
  then obtain m where "select_min id (List.map_filter tr_next_attempt (filter tr_required (map target_of_row ts))) = Some m"
    by (cases "select_min id (List.map_filter tr_next_attempt (filter tr_required (map target_of_row ts)))") auto
  with False inv show ?thesis by (simp add: disposition_def inventory_ok_def Let_def)
qed

lemma settled_row_ok:
  assumes "target_row_check t" and "tg_state t = ''submitted''" and "tg_updated_at_unix_ms t \<le> int finished"
    and "tg_revision t < sql_i64_max" and "finished \<le> i64_max" and "\<And>n. nx = Some n \<Longrightarrow> n \<le> i64_max"
  shows "target_guard t (settled_row st nx finished t)" and "target_row_check (settled_row st nx finished t)"
proof -
  show "target_guard t (settled_row st nx finished t)"
    using assms by (simp add: target_guard_def)
  have "target_state_code st \<in> {''pending'', ''submitted'', ''accepted'', ''rejected'', ''rate_limited'',
      ''auth_required'', ''failed'', ''unknown''}" by (cases st) simp_all
  moreover have "check_holds (sql_between (map_option int nx) 0 sql_i64_max)"
    using assms(6) by (cases nx) (auto simp: sql_logic i64_max_def)
  ultimately show "target_row_check (settled_row st nx finished t)"
    using assms(1,4,5) by (simp add: target_row_check_def i64_max_def)
qed

lemma attempt_row_of_input_ok:
  assumes "length (ri_attempt_id input) = 32" and "length (ox_id (pl_outbox (ri_lease input))) = 32"
    and "ri_target_ordinal input \<le> 31" and "1 \<le> ri_attempt_number input" and "ri_attempt_number input \<le> 100"
    and "length (ox_event_sha256 (pl_outbox (ri_lease input))) = 32" and "length (pl_owner (ri_lease input)) = 16"
    and "ri_started_at input \<le> ri_finished_at input" and "ri_finished_at input \<le> i64_max"
  shows "attempt_row_check (attempt_row_of_input input)"
proof -
  have code: "outcome_code c \<in> {''submitted'', ''accepted'', ''rejected'', ''rate_limited'',
        ''auth_required'', ''failed'', ''unknown''} \<and> 1 \<le> length (outcome_code c) \<and> length (outcome_code c) \<le> 64
      \<and> list_all result_code_char (outcome_code c)
      \<and> list_all (\<lambda>x. x \<in> set ''abcdefghijklmnopqrstuvwxyz'') (take 1 (outcome_code c))" for c
    by (cases c) (simp_all add: result_code_char_def)
  show ?thesis
    using assms code[of "ri_outcome input"] by (simp add: attempt_row_check_def attempt_row_of_input_def i64_max_def)
qed

lemma settle_success:
  assumes inv: "pub_inv sha256 s" and at: "outbox_at (ob_outbox_id r) s = Some r"
    and lease: "pl_outbox (ri_lease input) = outbox_of_row r" "length (pl_owner (ri_lease input)) = 16"
    and t: "target_at (ob_outbox_id r) (int (ri_target_ordinal input)) s = Some t" "tg_state t = ''submitted''"
      "tg_revision t = int (ri_target_revision input)" "tg_attempt_count t = int (ri_attempt_number input)"
      "tg_last_attempt_id t = Some (ri_attempt_id input)"
    and out: "target_outcome_schedule input = Inr (st, nx)"
    and time: "tg_updated_at_unix_ms t \<le> int (ri_finished_at input)" "ri_started_at input \<le> ri_finished_at input"
      "ri_finished_at input \<le> i64_max"
    and rev: "tg_revision t < sql_i64_max"
    and new: "select_key at_attempt_id (ri_attempt_id input) (attempts s) = None"
      "int (ri_attempt_number input) \<notin> recorded_numbers (int (ri_target_ordinal input)) (evidence_rows (ob_outbox_id r) s)"
    and s1: "s1 = s\<lparr>attempts := attempts s @ [attempt_row_of_input input],
      targets := replace_row target_key (settled_row st nx (ri_finished_at input) t) (targets s)\<rparr>"
  shows "settle_target input s = Inr (st, s1)" and "pub_inv sha256 s1"
proof -
  let ?k = "ob_outbox_id r" and ?i = "int (ri_target_ordinal input)" and ?a = "attempt_row_of_input input"
  note R = pub_inv_outbox[OF inv at]
  note T = select_key_SomeD[OF t(1)]
  have tc: "target_row_check t" using pub_inv_target(1)[OF inv T(1)] .
  have key: "target_key t = (?k, ?i)" using T(2) .
  have nx: "\<And>n. nx = Some n \<Longrightarrow> n \<le> i64_max" using target_outcome_scheduleD(4)[OF out] .
  have "attempt_row_check ?a"
    by (rule attempt_row_of_input_ok)
      (use target_row_checkD(2,5,6,10,11)[OF tc] t key lease outbox_row_okD(13,14)[OF R(1)] time
        in \<open>auto simp: target_key_def\<close>)
  moreover have "ri_attempt_id input \<notin> at_attempt_id ` set (attempts s)"
    using new(1) by (simp add: select_key_None_iff)
  moreover have "(?k, ?i, int (ri_attempt_number input)) \<notin>
      (\<lambda>a. (at_outbox_id a, at_target_ordinal a, at_attempt_number a)) ` set (attempts s)"
    using new(2) by (force simp: recorded_numbers_def evidence_rows_def)
  moreover have "(?k, ?i) \<in> target_key ` set (targets s)" using T key by force
  ultimately have av: "attempts_valid (targets s) (attempts s @ [?a])"
    using pub_invD(4)[OF inv] lease(1)
    by (simp add: attempts_valid_def attempt_row_of_input_def)
  define s0 where "s0 = s\<lparr>attempts := attempts s @ [?a]\<rparr>"
  have ins: "insert_attempt input s = Inr s0"
    using av time unfolding insert_attempt_iff s0_def by simp
  note inv0 = insert_attempt_inv[OF inv ins]
  have t0: "target_at ?k ?i s0 = Some t" using t(1) by (simp add: s0_def)
  let ?w = "target_outcome_where ?k ?i (int (ri_target_revision input)) (int (ri_attempt_number input)) (ri_attempt_id input)"
  have u: "update_targets ?w (settled_row st nx (ri_finished_at input)) s0 =
      Inr (s0\<lparr>targets := replace_row target_key (settled_row st nx (ri_finished_at input) t) (targets s0)\<rparr>, 1)"
    by (rule update_targets_keyed[OF inv0 t0])
      (use settled_row_ok[OF tc t(2) time(1) rev time(3) nx] t key in
        \<open>auto simp: target_outcome_where_def target_key_def\<close>)
  have s1': "s1 = s0\<lparr>targets := replace_row target_key (settled_row st nx (ri_finished_at input) t) (targets s0)\<rparr>"
    by (simp add: s1 s0_def)
  show "pub_inv sha256 s1" using update_targets_inv[OF inv0 u] s1' by simp
  have num: "pub_optional_i64 nx = Inr (map_option int nx)" "pub_i64_value (ri_finished_at input) = Inr (int (ri_finished_at input))"
    "pub_i64_value (ri_target_revision input) = Inr (int (ri_target_revision input))"
    using nx time(3) rev t(3) by (auto simp: pub_optional_i64_iff pub_i64_value_def i64_of_u64_def i64_max_def)
  show "settle_target input s = Inr (st, s1)"
    unfolding settle_target_def ins out and_then_simps prod.case num lease(1) outbox_of_row_simps(1)
    using u by (simp add: s1' settled_row_def[abs_def])
qed

lemma release_row_ok:
  assumes "outbox_row_check r" and "ob_state r = ''leased''" and "ob_updated_at_unix_ms r \<le> int now"
    and "ob_revision r < sql_i64_max" and "now \<le> i64_max"
    and "od_state d = OutboxPending \<and> (\<exists>v. od_next_attempt d = Some v \<and> v \<le> i64_max)
      \<or> (od_state d = OutboxComplete \<or> od_state d = OutboxBlocked) \<and> od_next_attempt d = None"
  shows "outbox_guard r (released_row d now r)" and "outbox_row_check (released_row d now r)"
proof -
  have st: "outbox_state_code (od_state d) \<in> {''pending'', ''complete'', ''blocked''}" using assms(6) by auto
  then show "outbox_guard r (released_row d now r)"
    using assms(2,3)
    by (auto simp: outbox_guard_def released_row_def release_outbox_set_def outbox_transition_def)
  have sc: "outbox_state_check (released_row d now r)"
    using assms(6) by (auto simp: outbox_state_check_def i64_max_def)
  have rest: "released_row d now r = r\<lparr>ob_state := outbox_state_code (od_state d), ob_revision := ob_revision r + 1,
      ob_next_attempt_unix_ms := map_option int (od_next_attempt d), ob_lease_owner := None,
      ob_lease_expires_unix_ms := None, ob_updated_at_unix_ms := int now\<rparr>"
    by (simp add: released_row_def release_outbox_set_def)
  have c: "ob_created_at_unix_ms r \<le> int now" "int now \<le> sql_i64_max" "1 \<le> ob_revision r"
    using assms(1,3,5) by (simp_all add: outbox_row_check_def i64_max_def)
  have "ob_state (released_row d now r) \<in> {''pending'', ''leased'', ''complete'', ''blocked''}"
    using st by auto
  then show "outbox_row_check (released_row d now r)"
    using assms(1,4) sc c unfolding outbox_row_check_def by (simp add: rest)
qed

lemma release_success:
  assumes inv: "pub_inv sha256 s" and at: "outbox_at (ob_outbox_id r) s = Some r"
    and st: "ob_state r = ''leased''" and e: "ob_lease_expires_unix_ms r = Some (int expires)"
    and w: "w (ob_outbox_id r) (ob_revision r) owner (int expires) (int now) r"
      "\<And>k v ow e n x. w k v ow e n x \<Longrightarrow> leased_outbox_where k v ow e n x"
    and upd: "ob_updated_at_unix_ms r \<le> int now" and rev: "ob_revision r < sql_i64_max" and now: "now \<le> i64_max"
    and d: "od_state d = OutboxPending \<and> (\<exists>v. od_next_attempt d = Some v \<and> v \<le> i64_max)
      \<or> (od_state d = OutboxComplete \<or> od_state d = OutboxBlocked) \<and> od_next_attempt d = None"
  shows "release_outbox w (outbox_of_row r) owner expires now d s =
     Inr (s\<lparr>outboxes := replace_row ob_outbox_id (released_row d now r) (outboxes s)\<rparr>)"
proof -
  note R = pub_inv_outbox[OF inv at]
  have chk: "outbox_row_check r" using R(1) by (simp add: outbox_row_ok_def)
  have ex: "int expires \<le> sql_i64_max" using chk st e by (auto elim!: outbox_row_cases)
  have u: "update_outboxes (w (ob_outbox_id r) (ob_revision r) owner (int expires) (int now)) (released_row d now) s =
      Inr (s\<lparr>outboxes := replace_row ob_outbox_id (released_row d now r) (outboxes s)\<rparr>, 1)"
  proof (rule update_outboxes_keyed[OF inv at])
    show "w (ob_outbox_id r) (ob_revision r) owner (int expires) (int now) r" by (rule w(1))
    fix x assume "w (ob_outbox_id r) (ob_revision r) owner (int expires) (int now) x"
    from w(2)[OF this] show "ob_outbox_id x = ob_outbox_id r" by (simp add: leased_outbox_where_def)
  qed (rule release_row_ok[OF chk st upd rev now d])+
  have num: "pub_optional_i64 (od_next_attempt d) = Inr (map_option int (od_next_attempt d))"
    "pub_i64_value now = Inr (int now)" "pub_i64_value (ox_revision (outbox_of_row r)) = Inr (ob_revision r)"
    "pub_i64_value expires = Inr (int expires)"
    using d now ex outbox_row_okD(1,2)[OF R(1)]
    by (auto simp: pub_optional_i64_iff pub_i64_value_def i64_of_u64_def i64_max_def nat_le_iff)
  show ?thesis
    unfolding release_outbox_def num and_then_simps outbox_of_row_simps(1)
    using u by (simp add: released_row_def[abs_def])
qed

section \<open>Record and recover\<close>

lemma disposition_shape:
  assumes disp: "disposition sha256 (outbox_of_row r) (map target_of_row ts) = Inr d"
    and ok: "outbox_row_ok r" and tc: "\<And>t. t \<in> set ts \<Longrightarrow> target_row_check t"
  shows "od_state d = OutboxPending \<and> (\<exists>v. od_next_attempt d = Some v \<and> v \<le> i64_max)
      \<or> (od_state d = OutboxComplete \<or> od_state d = OutboxBlocked) \<and> od_next_attempt d = None"
proof (rule disposition_cases[OF disp ok tc])
  fix t v
  assume p: "od_state d = OutboxPending" "od_next_attempt d = Some (nat v)" "t \<in> set ts"
    "tg_next_attempt_unix_ms t = Some v"
  have "0 \<le> v \<and> v \<le> sql_i64_max" using target_row_checkD(9)[OF tc[OF p(3)] p(4)] .
  with p show ?thesis by (simp add: i64_max_def nat_le_iff)
qed simp_all

lemma settled_disposition:
  assumes inv1: "pub_inv sha256 s1" and sch: "pub_sched sha256 s" and at: "outbox_at (ob_outbox_id r) s = Some r"
    and ob: "outboxes s1 = outboxes s"
    and rows: "target_rows (ob_outbox_id r) s1 = replace_row target_key t' (target_rows (ob_outbox_id r) s)"
    and t': "target_sched sha256 r t'"
    and none: "filter is_submitted (target_rows (ob_outbox_id r) s1) = []"
  shows "\<exists>d. disposition sha256 (outbox_of_row r) (targets_of (ob_outbox_id r) s1) = Inr d"
proof -
  have at1: "outbox_at (ob_outbox_id r) s1 = Some r" using at ob by simp
  note R = pub_inv_outbox[OF inv1 at1]
  have "target_sched sha256 r x" if "x \<in> set (target_rows (ob_outbox_id r) s1)" for x
    using that t' sch at set_replace_row_subset[of target_key t' "target_rows (ob_outbox_id r) s"]
    unfolding rows by (auto simp: pub_sched_def view_ok_def)
  then show ?thesis
    using disposition_total[OF _ target_rows_facts(2)[OF inv1] R(1) _ none] R(2) by (simp add: targets_of_def)
qed

text \<open>A settled target obeys the schedule.\<close>

lemma settled_target_sched:
  assumes t: "target_sched sha256 r t" and rok: "outbox_row_ok r"
    and lease: "pl_outbox (ri_lease input) = outbox_of_row r"
    and num: "tg_attempt_count t = int (ri_attempt_number input)"
    and out: "target_outcome_schedule input = Inr (st, nx)"
  shows "target_sched sha256 r (settled_row st nx f t)" "\<not> is_submitted (settled_row st nx f t)"
proof -
  note O = target_outcome_scheduleD[OF out]
  show ns: "\<not> is_submitted (settled_row st nx f t)" using O by (simp add: is_submitted_def)
  have max: "int (ox_max_attempts (pl_outbox (ri_lease input))) = ob_max_attempts r"
    using outbox_row_okD(3)[OF rok] by (simp add: lease)
  show "target_sched sha256 r (settled_row st nx f t)"
    using t O(1,3) ns num max by (auto simp: target_sched_def row_retryable_def is_submitted_def)
qed

text \<open>
  The part recording and recovery share: from the target in flight of a leased outbox to the released
  outbox.
\<close>

lemma settle_and_release:
  assumes inv: "pub_inv sha256 s" and sch: "pub_sched sha256 s"
    and at: "outbox_at (ob_outbox_id r) s = Some r" and st: "ob_state r = ''leased''"
    and lease: "pl_outbox (ri_lease input) = outbox_of_row r" "ob_lease_owner r = Some (pl_owner (ri_lease input))"
      "ob_lease_expires_unix_ms r = Some (int (pl_expires_at (ri_lease input)))"
    and t: "target_at (ob_outbox_id r) (int (ri_target_ordinal input)) s = Some t" "tg_state t = ''submitted''"
      "tg_revision t = int (ri_target_revision input)" "tg_attempt_count t = int (ri_attempt_number input)"
      "tg_last_attempt_id t = Some (ri_attempt_id input)"
    and out: "target_outcome_schedule input = Inr (nst, nx)"
    and time: "tg_updated_at_unix_ms t \<le> int (ri_finished_at input)" "ri_started_at input \<le> ri_finished_at input"
      "ri_finished_at input \<le> i64_max" "ob_updated_at_unix_ms r \<le> int (ri_finished_at input)"
    and rev: "tg_revision t < sql_i64_max" "ob_revision r < sql_i64_max"
    and new: "select_key at_attempt_id (ri_attempt_id input) (attempts s) = None"
    and w: "w (ob_outbox_id r) (ob_revision r) (pl_owner (ri_lease input)) (int (pl_expires_at (ri_lease input)))
        (int (ri_finished_at input)) r"
      "\<And>k v ow e n x. w k v ow e n x \<Longrightarrow> leased_outbox_where k v ow e n x"
  obtains s1 d where "settle_target input s = Inr (nst, s1)" "pub_inv sha256 s1"
    "read_targets (ob_outbox_id r) s1 = Inr (targets_of (ob_outbox_id r) s1)"
    "disposition sha256 (outbox_of_row r) (targets_of (ob_outbox_id r) s1) = Inr d"
    "release_outbox w (outbox_of_row r) (pl_owner (ri_lease input)) (pl_expires_at (ri_lease input))
       (ri_finished_at input) d s1 =
     Inr (s1\<lparr>outboxes := replace_row ob_outbox_id (released_row d (ri_finished_at input) r) (outboxes s1)\<rparr>)"
    "s1 = s\<lparr>attempts := attempts s @ [attempt_row_of_input input],
      targets := replace_row target_key (settled_row nst nx (ri_finished_at input) t) (targets s)\<rparr>"
proof -
  let ?k = "ob_outbox_id r" and ?t' = "settled_row nst nx (ri_finished_at input) t"
  note R = pub_inv_outbox[OF inv at]
  define s1 where "s1 = s\<lparr>attempts := attempts s @ [attempt_row_of_input input],
      targets := replace_row target_key ?t' (targets s)\<rparr>"
  have ok: "view_ok sha256 r (target_rows ?k s) (evidence_rows ?k s)" using sch at by (simp add: pub_sched_def)
  have key: "target_key t = (?k, int (ri_target_ordinal input))" and mem: "t \<in> set (target_rows ?k s)"
    using select_key_SomeD[OF t(1)] by (auto simp: target_key_def)
  have sub: "is_submitted t" using t(2) by (simp add: is_submitted_def)
  have ts: "target_sched sha256 r t" "recorded_numbers (tg_target_ordinal t) (evidence_rows ?k s) = {1..<tg_attempt_count t}"
    using ok mem sub by (auto simp: view_ok_def settled_numbers_def)
  have num: "int (ri_attempt_number input) \<notin> recorded_numbers (int (ri_target_ordinal input)) (evidence_rows ?k s)"
    using ts(2) key t(4) by (simp add: target_key_def)
  have owner: "length (pl_owner (ri_lease input)) = 16"
    using R(1) st lease(2) by (auto simp: outbox_row_ok_def elim!: outbox_row_cases)
  note S = settle_success[OF inv at lease(1) owner t out time(1-3) rev(1) new num s1_def]
  note T' = settled_target_sched[OF ts(1) R(1) lease(1) t(4) out]
  have rows: "target_rows ?k s1 = replace_row target_key ?t' (target_rows ?k s)"
    by (simp add: s1_def target_rows_settled)
  have one: "length (filter is_submitted (target_rows ?k s)) \<le> 1" using ok by (simp add: view_ok_def outbox_sched_def)
  have "length (filter is_submitted (target_rows ?k s1)) + 1 = length (filter is_submitted (target_rows ?k s))"
    using filter_replace_row[OF target_rows_facts(1)[OF inv] mem, of ?t' is_submitted] sub T'(2) by (simp add: rows)
  with one have "length (filter is_submitted (target_rows ?k s1)) = 0" by linarith
  then have none: "filter is_submitted (target_rows ?k s1) = []" by simp
  have ob: "outboxes s1 = outboxes s" by (simp add: s1_def)
  obtain d where d: "disposition sha256 (outbox_of_row r) (targets_of ?k s1) = Inr d"
    using settled_disposition[OF S(2) sch at ob rows T'(1) none] by blast
  have at1: "outbox_at ?k s1 = Some r" using at ob by simp
  have shape: "od_state d = OutboxPending \<and> (\<exists>v. od_next_attempt d = Some v \<and> v \<le> i64_max)
      \<or> (od_state d = OutboxComplete \<or> od_state d = OutboxBlocked) \<and> od_next_attempt d = None"
    using disposition_shape[OF d[unfolded targets_of_def] R(1) target_rows_facts(2)[OF S(2)]] .
  show ?thesis
    by (rule that[OF S read_targets_inv[OF S(2)] d
        release_success[where w = w, OF S(2) at1 st lease(3) w time(4) rev(2) time(3) shape] s1_def])
qed

lemma record_success:
  assumes inv: "pub_inv sha256 s" and sch: "pub_sched sha256 s"
    and at: "outbox_at (ob_outbox_id r) s = Some r" and st: "ob_state r = ''leased''"
    and lease: "pl_outbox (ri_lease input) = outbox_of_row r" "ob_lease_owner r = Some (pl_owner (ri_lease input))"
      "ob_lease_expires_unix_ms r = Some (int (pl_expires_at (ri_lease input)))"
      "ri_finished_at input < pl_expires_at (ri_lease input)"
    and t: "target_at (ob_outbox_id r) (int (ri_target_ordinal input)) s = Some t" "tg_state t = ''submitted''"
      "tg_revision t = int (ri_target_revision input)" "tg_attempt_count t = int (ri_attempt_number input)"
      "tg_last_attempt_id t = Some (ri_attempt_id input)" "tg_updated_at_unix_ms t = int (ri_started_at input)"
    and out: "target_outcome_schedule input = Inr (nst, nx)"
    and time: "ri_started_at input \<le> ri_finished_at input" "ob_updated_at_unix_ms r \<le> int (ri_finished_at input)"
    and rev: "tg_revision t < sql_i64_max" "ob_revision r < sql_i64_max"
    and new: "select_key at_attempt_id (ri_attempt_id input) (attempts s) = None"
  shows "\<exists>ost s'. record_outcome sha256 input s = Inr (commit_of_input input nst ost, s')"
proof -
  let ?k = "ob_outbox_id r"
  note R = pub_inv_outbox[OF inv at]
  have exp: "int (pl_expires_at (ri_lease input)) \<le> sql_i64_max"
    using R(1) st lease(3) by (auto simp: outbox_row_ok_def elim!: outbox_row_cases)
  then have fin: "ri_finished_at input \<le> i64_max" using lease(4) by (simp add: i64_max_def)
  have upd: "tg_updated_at_unix_ms t \<le> int (ri_finished_at input)" using t(6) time(1) by simp
  have w: "after_attempt_where ?k (ob_revision r) (pl_owner (ri_lease input)) (int (pl_expires_at (ri_lease input)))
      (int (ri_finished_at input)) r"
    using st lease time(2) by (simp add: after_attempt_where_def leased_outbox_where_def)
  have w2: "\<And>k v ow e n x. after_attempt_where k v ow e n x \<Longrightarrow> leased_outbox_where k v ow e n x"
    by (simp add: after_attempt_where_def)
  obtain s1 d where S: "settle_target input s = Inr (nst, s1)" "pub_inv sha256 s1"
    "read_targets ?k s1 = Inr (targets_of ?k s1)"
    "disposition sha256 (outbox_of_row r) (targets_of ?k s1) = Inr d"
    "release_outbox after_attempt_where (outbox_of_row r) (pl_owner (ri_lease input)) (pl_expires_at (ri_lease input))
       (ri_finished_at input) d s1 =
     Inr (s1\<lparr>outboxes := replace_row ob_outbox_id (released_row d (ri_finished_at input) r) (outboxes s1)\<rparr>)"
    by (rule settle_and_release[where w = after_attempt_where, OF inv sch at st lease(1-3) t(1-5) out upd time(1) fin
          time(2) rev new w w2])
  have val: "pub_validate_lease (ri_lease input) (ri_finished_at input) True s = Inr ()"
    using pub_validate_lease_iff[OF inv] at lease st by auto
  have tc: "target_row_check t" using pub_inv_target(1)[OF inv select_key_SomeD(1)[OF t(1)]] .
  have ord: "ri_target_ordinal input \<le> 31"
    using select_key_SomeD(2)[OF t(1)] target_row_checkD(2)[OF tc] by (simp add: target_key_def)
  have f: "find (\<lambda>t. tr_ordinal t = ri_target_ordinal input) (targets_of ?k s) = Some (target_of_row t)"
    using find_target[OF inv ord, of ?k] t(1) by simp
  have e: "ensure (tr_state (target_of_row t) = TargetSubmitted \<and> tr_revision (target_of_row t) = ri_target_revision input
      \<and> tr_attempt_count (target_of_row t) = ri_attempt_number input
      \<and> tr_last_attempt_id (target_of_row t) = Some (ri_attempt_id input)
      \<and> tr_updated_at (target_of_row t) = ri_started_at input) PubLeaseLost = Inr ()"
    using t by (simp add: target_state_of_def)
  have "record_outcome sha256 input s = Inr (commit_of_input input nst (od_state d),
      s1\<lparr>outboxes := replace_row ob_outbox_id (released_row d (ri_finished_at input) r) (outboxes s1)\<rparr>)"
    unfolding record_outcome_def read_attempt_inv[OF inv] new option.map and_then_simps option.case val
      lease(1) outbox_of_row_simps(1) read_targets_inv[OF inv] f ok_or_simps e S(1) prod.case S(3,4,5) ..
  then show ?thesis by blast
qed

text \<open>The condition under which the unknown outcome of recovery is scheduled.\<close>

lemma recovery_schedule:
  assumes "if nat (tg_attempt_count t) < nat (ob_max_attempts r)
      then delay \<le> retry_upper_bound (outbox_of_row r) (nat (tg_attempt_count t)) \<and> now + delay \<le> i64_max
      else delay = 0"
  shows "\<exists>nx. target_outcome_schedule (recovery_input r owner e now delay t) = Inr (TargetUnknown, nx)"
  using assms i64_max_less_u64_max
  by (auto simp: target_outcome_schedule_def recovery_input_def checked_add_def Let_def split: if_splits)

lemma recover_target_success:
  assumes inv: "pub_inv sha256 s" and at: "outbox_at (ob_outbox_id r) s = Some r" and tc: "target_row_check t"
    and last: "tg_last_attempt_id t = Some (attempt_id_of sha256 r (tg_target_ordinal t) (tg_attempt_count t))"
    and exp: "ob_lease_expires_unix_ms r = Some e" and time: "nat (tg_updated_at_unix_ms t) \<le> now"
    and new: "select_key at_attempt_id (the (tg_last_attempt_id t)) (attempts s) = None"
    and settle: "settle_target (recovery_input r owner (nat e) now delay t) s = Inr (st, s1)"
  shows "recover_target sha256 (outbox_of_row r) owner now delay (target_of_row t) s = Inr s1"
proof -
  obtain ev :: event_row where com: "read_committed sha256 (ob_outbox_id r) s = Inr \<lparr>cp_outbox_id = ob_outbox_id r,
     cp_event_id = ob_event_id r, cp_event_sha256 = ob_event_sha256 r,
     cp_exact_signed_event_bytes = se_canonical_event_json ev\<rparr>"
    by (rule read_committed_inv[OF inv at])
  have ra: "read_attempt (the (tg_last_attempt_id t)) s = Inr None" using new by (simp add: read_attempt_inv[OF inv])
  have cnt: "1 \<le> tg_attempt_count t" using target_row_checkD(5,11)[OF tc] last by auto
  have num: "Suc 0 \<le> nat (tg_attempt_count t)" "nat (tg_attempt_count t) \<le> 100"
    using cnt target_row_checkD(6)[OF tc] by linarith+
  have ev1: "attempt_evidence_new sha256 \<lparr>cp_outbox_id = ob_outbox_id r, cp_event_id = ob_event_id r,
     cp_event_sha256 = ob_event_sha256 r, cp_exact_signed_event_bytes = se_canonical_event_json ev\<rparr>
     (tr_ordinal (target_of_row t)) (tr_attempt_count (target_of_row t)) (tr_updated_at (target_of_row t)) now
     OutcomeUnknown = Inr (evi (the (tg_last_attempt_id t)))"
    if "evi = (\<lambda>i. \<lparr>ev_id = i, ev_outbox_id = ob_outbox_id r, ev_event_sha256 = ob_event_sha256 r,
      ev_target_ordinal = nat (tg_target_ordinal t), ev_attempt_number = nat (tg_attempt_count t),
      ev_started_at = nat (tg_updated_at_unix_ms t), ev_finished_at = now, ev_outcome = OutcomeUnknown\<rparr>)" for evi
    using that target_row_checkD(2)[OF tc] num time last
    by (simp add: attempt_evidence_new_def attempt_id_of_def RHI_PUBLICATION_TARGET_ORDINAL_MAXIMUM_def
        RHI_PUBLICATION_ATTEMPT_NUMBER_MAXIMUM_def)
  have last': "tr_last_attempt_id (target_of_row t) = Some (the (tg_last_attempt_id t))" using last by simp
  have ex1: "ox_lease_expires (outbox_of_row r) = Some (nat e)" using exp by simp
  have inp: "\<lparr>ri_lease = \<lparr>pl_outbox = outbox_of_row r, pl_owner = owner, pl_expires_at = nat e\<rparr>,
     ri_target_ordinal = tr_ordinal (target_of_row t), ri_target_revision = tr_revision (target_of_row t),
     ri_attempt_number = tr_attempt_count (target_of_row t), ri_attempt_id = the (tg_last_attempt_id t),
     ri_started_at = tr_updated_at (target_of_row t), ri_finished_at = now,
     ri_outcome = OutcomeUnknown, ri_retry_delay = delay\<rparr> = recovery_input r owner (nat e) now delay t"
    by (simp add: recovery_input_def)
  show ?thesis
    unfolding recover_target_def
    by (simp only: last' outbox_of_row_simps(1) com map_err_simps ev1[OF refl] attempt_evidence.select_convs
        ra ex1 inp settle run_simps ensure_simps refl)
qed

lemma recover_success:
  assumes inv: "pub_inv sha256 s" and sch: "pub_sched sha256 s"
    and at: "outbox_at (ob_outbox_id r) s = Some r" and st: "ob_state r = ''leased''"
    and cand: "rc_outbox candidate = outbox_of_row r"
    and exp: "ob_lease_expires_unix_ms r = Some e" "e \<le> int now"
    and time: "ob_updated_at_unix_ms r \<le> int now" "now \<le> i64_max" and rev: "ob_revision r < sql_i64_max"
    and sub: "\<And>t. t \<in> set (target_rows (ob_outbox_id r) s) \<Longrightarrow> is_submitted t \<Longrightarrow>
        tg_updated_at_unix_ms t \<le> int now \<and> tg_revision t < sql_i64_max
      \<and> select_key at_attempt_id (the (tg_last_attempt_id t)) (attempts s) = None
      \<and> (if nat (tg_attempt_count t) < nat (ob_max_attempts r)
         then delay \<le> retry_upper_bound (outbox_of_row r) (nat (tg_attempt_count t)) \<and> now + delay \<le> i64_max
         else delay = 0)"
  shows "\<exists>s'. recover_expired sha256 candidate now delay s = Inr (True, s')"
proof -
  let ?k = "ob_outbox_id r" and ?ts = "target_rows (ob_outbox_id r) s"
  note R = pub_inv_outbox[OF inv at]
  obtain owner where oe: "ob_lease_owner r = Some owner" "1 \<le> e" "length owner = 16"
    using R(1) st exp(1) by (auto simp: outbox_row_ok_def elim!: outbox_row_cases)
  have ok: "view_ok sha256 r ?ts (evidence_rows ?k s)" using sch at by (simp add: pub_sched_def)
  then have one: "length (filter is_submitted ?ts) \<le> 1" by (simp add: view_ok_def outbox_sched_def)
  have e: "int (nat e) = e" using oe(2) by simp
  have w: "recovery_where ?k (ob_revision r) owner (int (nat e)) (int now) r"
    using st oe exp time(1) by (simp add: recovery_where_def leased_outbox_where_def)
  have w2: "\<And>k v ow e n x. recovery_where k v ow e n x \<Longrightarrow> leased_outbox_where k v ow e n x"
    by (simp add: recovery_where_def)
  have inventory: "validate_targets sha256 (outbox_of_row r) (targets_of ?k s) = Inr ()"
    using R(2) by (simp add: inventory_ok_def)
  have flt: "filter (\<lambda>t. tr_state t = TargetSubmitted) (targets_of ?k s) = map target_of_row (filter is_submitted ?ts)"
  proof -
    have "target_state_of (tg_state t) = TargetSubmitted \<longleftrightarrow> is_submitted t" for t
      by (simp add: is_submitted_def target_state_of_def)
    then show ?thesis by (simp add: targets_of_def filter_map comp_def)
  qed
  have "\<exists>s1 d s2. recover_targets sha256 (outbox_of_row r) owner now delay (map target_of_row (filter is_submitted ?ts)) s = Inr s1
      \<and> read_targets ?k s1 = Inr (targets_of ?k s1)
      \<and> disposition sha256 (outbox_of_row r) (targets_of ?k s1) = Inr d
      \<and> release_outbox recovery_where (outbox_of_row r) owner (nat e) now d s1 = Inr s2"
  proof (cases "filter is_submitted ?ts")
    case Nil
    have sched: "\<And>t. t \<in> set ?ts \<Longrightarrow> target_sched sha256 r t" using ok by (simp add: view_ok_def)
    obtain d where d: "disposition sha256 (outbox_of_row r) (targets_of ?k s) = Inr d"
      using disposition_total[OF R(2)[unfolded targets_of_def] target_rows_facts(2)[OF inv, where k = ?k] R(1) sched Nil]
      by (auto simp: targets_of_def)
    note shape = disposition_shape[OF d[unfolded targets_of_def] R(1) target_rows_facts(2)[OF inv]]
    have "release_outbox recovery_where (outbox_of_row r) owner (nat e) now d s =
        Inr (s\<lparr>outboxes := replace_row ob_outbox_id (released_row d now r) (outboxes s)\<rparr>)"
      by (rule release_success[where w = recovery_where, OF inv at st _ w w2 time(1) rev time(2) shape])
        (use exp(1) e in simp)
    with Nil d read_targets_inv[OF inv] show ?thesis by auto
  next
    case (Cons t ts)
    then have l: "filter is_submitted ?ts = [t]" using one by simp
    have "t \<in> set (filter is_submitted ?ts)" unfolding l by simp
    then have mem: "t \<in> set ?ts" "is_submitted t" by (simp_all only: set_filter mem_Collect_eq)
    note S = sub[OF mem]
    have tc: "target_row_check t" "tg_outbox_id t = ?k" using target_rows_facts(2,3)[OF inv mem(1)] .
    have tsc: "target_sched sha256 r t" using ok mem(1) by (simp add: view_ok_def)
    let ?in = "recovery_input r owner (nat e) now delay t"
    obtain nx where out: "target_outcome_schedule ?in = Inr (TargetUnknown, nx)"
      using recovery_schedule S by blast
    have last: "tg_last_attempt_id t = Some (attempt_id_of sha256 r (tg_target_ordinal t) (tg_attempt_count t))"
      using tsc mem(2) by (simp add: target_sched_def)
    have cnt: "1 \<le> tg_attempt_count t" using target_row_checkD(5,11)[OF tc(1)] last by auto
    have f: "ri_lease ?in = \<lparr>pl_outbox = outbox_of_row r, pl_owner = owner, pl_expires_at = nat e\<rparr>"
      "int (ri_target_ordinal ?in) = tg_target_ordinal t" "int (ri_target_revision ?in) = tg_revision t"
      "int (ri_attempt_number ?in) = tg_attempt_count t" "ri_attempt_id ?in = the (tg_last_attempt_id t)"
      "ri_finished_at ?in = now" "ri_started_at ?in = nat (tg_updated_at_unix_ms t)"
      using target_row_checkD(1,3,5)[OF tc(1)] by (simp_all add: recovery_input_def)
    have at_t: "target_at ?k (tg_target_ordinal t) s = Some t"
      using pub_inv_target(2)[OF inv, of t] mem(1) tc(2) by simp
    have time2: "nat (tg_updated_at_unix_ms t) \<le> now" using S by linarith
    have pl: "pl_outbox (ri_lease ?in) = outbox_of_row r" "pl_owner (ri_lease ?in) = owner"
      "pl_expires_at (ri_lease ?in) = nat e" by (simp_all add: f(1))
    obtain s1 d where Q: "settle_target ?in s = Inr (TargetUnknown, s1)" "pub_inv sha256 s1"
      "read_targets ?k s1 = Inr (targets_of ?k s1)"
      "disposition sha256 (outbox_of_row r) (targets_of ?k s1) = Inr d"
      "release_outbox recovery_where (outbox_of_row r) (pl_owner (ri_lease ?in)) (pl_expires_at (ri_lease ?in))
         (ri_finished_at ?in) d s1 =
       Inr (s1\<lparr>outboxes := replace_row ob_outbox_id (released_row d (ri_finished_at ?in) r) (outboxes s1)\<rparr>)"
      by (rule settle_and_release[where w = recovery_where and input = ?in, OF inv sch at st pl(1)])
        (use oe exp e at_t mem(2) S last time time2 rev w w2 out f pl in \<open>auto simp: is_submitted_def\<close>)
    have "recover_target sha256 (outbox_of_row r) owner now delay (target_of_row t) s = Inr s1"
      by (rule recover_target_success[OF inv at tc(1) last exp(1) time2 _ Q(1)]) (use S in simp)
    then show ?thesis using l Q pl f(6) by auto
  qed
  then obtain s1 d s2 where Q: "recover_targets sha256 (outbox_of_row r) owner now delay (map target_of_row (filter is_submitted ?ts)) s = Inr s1"
      "read_targets ?k s1 = Inr (targets_of ?k s1)" "disposition sha256 (outbox_of_row r) (targets_of ?k s1) = Inr d"
      "release_outbox recovery_where (outbox_of_row r) owner (nat e) now d s1 = Inr s2" by blast
  have st': "ox_state (outbox_of_row r) = OutboxLeased" using st by (simp add: outbox_state_of_def)
  have ex': "ox_lease_expires (outbox_of_row r) = Some (nat e)" "\<not> now < nat e" using exp by simp_all
  show ?thesis
    unfolding recover_expired_def
    using Q inventory flt oe(1) st' ex' by (simp add: cand read_outbox_inv[OF inv] at read_targets_inv[OF inv] exp(1))
qed

end
