(* ===== verification/Publication_Facts.thy ===== *)
theory Publication_Facts
  imports Publication_Progress
begin

text \<open>
  Facts about single operations of the executor: recording is idempotent, the retry bound is the capped
  exponential, the digest inputs are injective, and the two places where an outcome or a retry is lost.
\<close>

section \<open>Recording twice\<close>

lemma validate_targets_identity:
  assumes "same_outbox_identity b' b"
  shows "validate_targets sha256 b' ts = validate_targets sha256 b ts"
  using assms by (intro validate_targets_cong) (simp_all add: same_outbox_identity_def)

lemma disposition_identity:
  assumes "same_outbox_identity b' b"
  shows "disposition sha256 b' ts = disposition sha256 b ts"
proof -
  have "ox_max_attempts b' = ox_max_attempts b" using assms by (simp add: same_outbox_identity_def)
  then show ?thesis by (simp only: disposition_def validate_targets_identity[OF assms])
qed

lemma reconcile_after_record:
  assumes inv': "pub_inv sha256 s'" and lease: "pl_outbox (ri_lease input) = outbox_of_row r"
    and at': "outbox_at (ob_outbox_id r) s' = Some (released_row d (ri_finished_at input) r)"
    and guard: "outbox_guard r (released_row d (ri_finished_at input) r)"
    and t: "target_at (ob_outbox_id r) (int (ri_target_ordinal input)) s' = Some (settled_row st nx (ri_finished_at input) t)"
      "tg_revision t = int (ri_target_revision input)" "tg_attempt_count t = int (ri_attempt_number input)"
      "tg_last_attempt_id t = Some (ri_attempt_id input)" "tg_revision t < sql_i64_max"
    and out: "target_outcome_schedule input = Inr (st, nx)"
    and disp: "disposition sha256 (outbox_of_row r) (targets_of (ob_outbox_id r) s') = Inr d"
    and rok: "outbox_row_ok r"
  shows "reconcile_recorded sha256 input (attempt_record_from_input input) s' =
    Inr (commit_of_input input st (od_state d))"
proof -
  let ?k = "ob_outbox_id r" and ?r' = "released_row d (ri_finished_at input) r"
  let ?t' = "settled_row st nx (ri_finished_at input) t"
  have same: "same_outbox_identity (outbox_of_row ?r') (outbox_of_row r)" using outbox_guardD(11)[OF guard] .
  have tc: "target_row_check ?t'" using pub_inv_target(1)[OF inv' select_key_SomeD(1)[OF t(1)]] .
  have ord: "ri_target_ordinal input \<le> 31"
    using select_key_SomeD(2)[OF t(1)] target_row_checkD(2)[OF tc] by (simp add: target_key_def)
  have f: "find (\<lambda>u. tr_ordinal u = ri_target_ordinal input) (targets_of ?k s') = Some (target_of_row ?t')"
    using find_target[OF inv' ord, of ?k] t(1) by simp
  have rev: "checked_add (ri_target_revision input) 1 = Some (ri_target_revision input + 1)"
    using t(2,5) by (simp add: checked_add_def u64_max_def)
  have orev: "checked_add (ox_revision (outbox_of_row r)) 1 = Some (ox_revision (outbox_of_row r) + 1)"
    using outbox_row_okD(1,2)[OF rok] by (simp add: checked_add_def u64_max_def nat_le_iff)
  have rev': "ox_revision (outbox_of_row ?r') = ox_revision (outbox_of_row r) + 1"
    using outbox_row_okD(1)[OF rok] by simp
  have row: "ox_updated_at (outbox_of_row ?r') = ri_finished_at input" "ox_lease_owner (outbox_of_row ?r') = None"
    "ox_lease_expires (outbox_of_row ?r') = None" "ox_state (outbox_of_row ?r') = od_state d"
    "ox_next_attempt (outbox_of_row ?r') = od_next_attempt d"
    by (simp_all add: option.map_comp comp_def option.map_ident)
  have tgt: "tr_revision (target_of_row ?t') = ri_target_revision input + 1"
    "tr_attempt_count (target_of_row ?t') = ri_attempt_number input"
    "tr_last_attempt_id (target_of_row ?t') = Some (ri_attempt_id input)"
    "tr_state (target_of_row ?t') = st" "tr_next_attempt (target_of_row ?t') = nx"
    "tr_updated_at (target_of_row ?t') = ri_finished_at input"
    using t(2-4) by (simp_all add: option.map_comp comp_def nat_add_distrib option.map_ident)
  have val: "validate_targets sha256 (outbox_of_row ?r') (targets_of ?k s') = Inr ()"
    using pub_inv_outbox(2)[OF inv' at'] by (simp add: inventory_ok_def)
  have d': "disposition sha256 (outbox_of_row ?r') (targets_of ?k s') = Inr d"
    using disposition_identity[OF same] disp by simp
  have id: "ox_id (outbox_of_row ?r') = ?k" by simp
  show ?thesis
    unfolding reconcile_recorded_def lease outbox_of_row_simps(1) read_outbox_inv[OF inv'] at' option.map
    by (simp only: orev same rev' row id read_targets_inv[OF inv'] val out rev f tgt d' run_simps ensure_simps
        refl commit_of_input_def lease outbox_of_row_simps(1) released_row_simps(1))
qed

lemma record_idempotent:
  assumes inv: "pub_inv sha256 s" and rec: "record_outcome sha256 input s = Inr (commit, s')"
  shows "record_outcome sha256 input s' = Inr (commit, s')"
proof (rule record_outcomeE[OF inv rec])
  assume "s' = s"
  with rec show ?thesis by simp
next
  fix r t st nx s1 d
  assume new: "select_key at_attempt_id (ri_attempt_id input) (attempts s) = None"
    and at: "outbox_at (ob_outbox_id r) s = Some r" and lease: "pl_outbox (ri_lease input) = outbox_of_row r"
    and t: "target_at (ob_outbox_id r) (int (ri_target_ordinal input)) s = Some t"
      "tg_revision t = int (ri_target_revision input)" "tg_attempt_count t = int (ri_attempt_number input)"
      "tg_last_attempt_id t = Some (ri_attempt_id input)"
    and out: "target_outcome_schedule input = Inr (st, nx)"
    and chk: "target_row_check (settled_row st nx (ri_finished_at input) t)"
    and s1: "s1 = s\<lparr>attempts := attempts s @ [attempt_row_of_input input],
      targets := replace_row target_key (settled_row st nx (ri_finished_at input) t) (targets s)\<rparr>"
    and disp: "disposition sha256 (outbox_of_row r) (targets_of (ob_outbox_id r) s1) = Inr d"
    and guard: "outbox_guard r (released_row d (ri_finished_at input) r)"
    and s': "s' = s1\<lparr>outboxes := replace_row ob_outbox_id (released_row d (ri_finished_at input) r) (outboxes s)\<rparr>"
    and c: "commit = commit_of_input input st (od_state d)" and inv': "pub_inv sha256 s'"
  let ?k = "ob_outbox_id r" and ?t' = "settled_row st nx (ri_finished_at input) t"
  have ob1: "outboxes s1 = outboxes s" by (simp add: s1)
  have at': "outbox_at ?k s' = Some (released_row d (ri_finished_at input) r)"
    using outbox_at_replaced[of "released_row d (ri_finished_at input) r" s1 r] at ob1 s' by simp
  note T = select_key_SomeD[OF t(1)]
  have att': "target_at ?k (int (ri_target_ordinal input)) s' = Some ?t'"
  proof -
    have "(?k, int (ri_target_ordinal input)) \<in> target_key ` set (targets s)" using T by force
    then show ?thesis using T(2) by (simp add: s' s1 select_key_replace_row)
  qed
  have disp': "disposition sha256 (outbox_of_row r) (targets_of ?k s') = Inr d" using disp by (simp add: s')
  have lt: "tg_revision t < sql_i64_max" using target_row_checkD(4)[OF chk] by simp
  have rec': "reconcile_recorded sha256 input (attempt_record_from_input input) s' = Inr commit"
    unfolding c
    by (rule reconcile_after_record[OF inv' lease at' guard att' t(2-4) lt out disp' pub_inv_outbox(1)[OF inv at]])
  have "select_key at_attempt_id (ri_attempt_id input) (attempts s') = Some (attempt_row_of_input input)"
    using new by (simp add: s' s1 select_key_snoc) (simp add: attempt_row_of_input_def)
  then show ?thesis
    using rec' by (simp add: record_outcome_def read_attempt_inv[OF inv'])
qed

section \<open>The retry bound\<close>

lemma retry_bound_loop_eq:
  assumes "b \<le> m" and "m \<le> 3600000"
  shows "retry_bound_loop m b n = min (b * 2 ^ n) m"
  using assms
proof (induction n arbitrary: b)
  case (Suc n)
  have "saturating_mul b 2 = b * 2"
    using Suc.prems by (simp add: saturating_mul_def u64_max_def)
  then have "retry_bound_loop m b (Suc n) = min (min (b * 2) m * 2 ^ n) m" using Suc by simp
  also have "\<dots> = min (b * 2 ^ Suc n) m"
  proof (cases "b * 2 \<le> m")
    case False
    have "m \<le> b * 2" using False by simp
    also have "b * 2 \<le> b * 2 * 2 ^ n" by simp
    finally have "min (b * 2 ^ Suc n) m = m" by (simp add: mult.assoc)
    moreover have "m \<le> m * 2 ^ n" by simp
    then have "min (m * 2 ^ n) m = m" by (rule min_absorb2)
    moreover have "min (b * 2) m = m" using False by simp
    ultimately show ?thesis by simp
  qed (simp add: mult.assoc)
  finally show ?case .
qed simp

lemma retry_upper_bound_eq:
  assumes "ox_initial_backoff_ms b \<le> ox_maximum_backoff_ms b" and "ox_maximum_backoff_ms b \<le> 3600000"
  shows "retry_upper_bound b n = min (ox_initial_backoff_ms b * 2 ^ (n - 1)) (ox_maximum_backoff_ms b)"
  using retry_bound_loop_eq[OF assms] by (simp add: retry_upper_bound_def)

section \<open>The last attempt\<close>

lemma last_attempt_schedule:
  assumes "ri_attempt_number input = ox_max_attempts (pl_outbox (ri_lease input))"
    and "ri_outcome input \<noteq> OutcomeSubmitted"
  shows "target_outcome_schedule input =
     (if ri_retry_delay input = 0 then Inr (outcome_target_state (ri_outcome input), None) else Inl PubInvalidInput)"
  using assms by (simp add: target_outcome_schedule_def Let_def)

lemma record_last_attempt_rejected:
  assumes inv: "pub_inv sha256 s" and new: "select_key at_attempt_id (ri_attempt_id input) (attempts s) = None"
    and last: "ri_attempt_number input = ox_max_attempts (pl_outbox (ri_lease input))" "ri_outcome input \<noteq> OutcomeSubmitted"
    and delay: "0 < ri_retry_delay input"
  shows "\<exists>e. record_outcome sha256 input s = Inl e"
proof (cases "record_outcome sha256 input s")
  case (Inr x)
  obtain commit s' where rec: "record_outcome sha256 input s = Inr (commit, s')" using Inr by (cases x) simp
  show ?thesis
    by (rule record_outcomeE[OF inv rec]) (use new last delay last_attempt_schedule[OF last] in auto)
qed blast

section \<open>Digest inputs\<close>

lemma to_be_bytes_Suc: "to_be_bytes (Suc w) n = word_of_nat (n div 256 ^ w) # to_be_bytes w n"
  by (simp add: to_be_bytes_def upt_conv_Cons map_Suc_upt[symmetric] comp_def del: upt_Suc)

lemma to_be_bytes_mod:
  "to_be_bytes w n = to_be_bytes w m \<Longrightarrow> n mod 256 ^ w = m mod 256 ^ w"
proof (induction w)
  case (Suc w)
  then have h: "(word_of_nat (n div 256 ^ w) :: 8 word) = word_of_nat (m div 256 ^ w)"
    and t: "n mod 256 ^ w = m mod 256 ^ w" by (simp_all add: to_be_bytes_Suc)
  from h have "n div 256 ^ w mod 256 = m div 256 ^ w mod 256"
  proof -
    have "unat (word_of_nat (n div 256 ^ w) :: 8 word) = unat (word_of_nat (m div 256 ^ w) :: 8 word)"
      by (simp only: h)
    then show ?thesis by (simp only: unat_of_nat) simp
  qed
  moreover have "x mod 256 ^ Suc w = 256 ^ w * (x div 256 ^ w mod 256) + x mod 256 ^ w" for x :: nat
    using mod_mult2_eq[of x "256 ^ w" 256] by (simp only: power_Suc mult.commute)
  ultimately show ?case using t by simp
qed simp

lemma to_be_bytes_inj:
  assumes "to_be_bytes w n = to_be_bytes w m" and "n < 256 ^ w" and "m < 256 ^ w"
  shows "n = m"
  using to_be_bytes_mod[OF assms(1)] assms(2,3) by simp

lemma ascii_bytes_inj:
  assumes "ascii_bytes x = ascii_bytes y"
  shows "x = y"
proof -
  have "inj (\<lambda>c :: char. (word_of_nat (of_char c) :: 8 word))"
  proof (rule injI)
    fix a b :: char assume "(word_of_nat (of_char a) :: 8 word) = word_of_nat (of_char b)"
    then have "unat (word_of_nat (of_char a) :: 8 word) = unat (word_of_nat (of_char b) :: 8 word)" by simp
    then have "(of_char a :: nat) mod 256 = of_char b mod 256" by (simp add: unat_of_nat)
    then have "(of_char a :: nat) = of_char b" by simp
    then show "a = b" by simp
  qed
  with assms show ?thesis by (simp add: ascii_bytes_def inj_map_eq_map)
qed

text \<open>One target's bytes are self-delimiting.\<close>

lemma target_bytes_prefix:
  assumes eq: "target_bytes n x b @ rest = target_bytes m y c @ rest'"
    and n: "n < 4294967296" "m < 4294967296" and len: "length x \<le> u64_max" "length y \<le> u64_max"
  shows "n = m \<and> x = y \<and> b = c \<and> rest = rest'"
proof -
  from eq have ord: "to_be_bytes 4 n = to_be_bytes 4 m"
    and eq1: "to_be_bytes 8 (length x) @ ascii_bytes x @ [if b then 1 else 0] @ rest =
      to_be_bytes 8 (length y) @ ascii_bytes y @ [if c then 1 else 0] @ rest'"
    by (simp_all add: target_bytes_def append_eq_append_conv)
  from eq1 have l: "to_be_bytes 8 (length x) = to_be_bytes 8 (length y)"
    and eq2: "ascii_bytes x @ [if b then 1 else 0] @ rest = ascii_bytes y @ [if c then 1 else 0] @ rest'"
    by (simp_all add: append_eq_append_conv)
  have "length x = length y" by (rule to_be_bytes_inj[OF l]) (use len in \<open>simp_all add: u64_max_def\<close>)
  then have "length (ascii_bytes x) = length (ascii_bytes y)" by (simp add: ascii_bytes_def)
  with eq2 have "ascii_bytes x = ascii_bytes y" "[if b then 1 else 0] @ rest = [if c then 1 else 0 :: 8 word] @ rest'"
    by (simp_all add: append_eq_append_conv)
  moreover have "n = m" by (rule to_be_bytes_inj[OF ord]) (use n in simp_all)
  ultimately show ?thesis using ascii_bytes_inj by (auto split: if_splits)
qed

lemma target_set_preimage_inj:
  assumes eq: "target_set_preimage (length ts) ts = target_set_preimage (length us) us"
    and len: "length ts < 4294967296" "length us < 4294967296"
    and ts: "\<And>n x b. (n, x, b) \<in> set ts \<Longrightarrow> n < 4294967296 \<and> length x \<le> u64_max"
    and us: "\<And>n x b. (n, x, b) \<in> set us \<Longrightarrow> n < 4294967296 \<and> length x \<le> u64_max"
  shows "ts = us"
proof -
  let ?f = "\<lambda>(ordinal, relay_id, required). target_bytes ordinal relay_id required"
  from eq have c: "to_be_bytes 4 (length ts) = to_be_bytes 4 (length us)"
    and body: "concat (map ?f ts) = concat (map ?f us)"
    by (simp_all add: target_set_preimage_def append_eq_append_conv)
  have "length ts = length us" by (rule to_be_bytes_inj[OF c]) (use len in simp_all)
  then show ?thesis
    using body ts us
  proof (induction ts us rule: list_induct2)
    case (Cons t ts u us)
    obtain n x b where t: "t = (n, x, b)" by (cases t)
    obtain m y d where u: "u = (m, y, d)" by (cases u)
    have "target_bytes n x b @ concat (map ?f ts) = target_bytes m y d @ concat (map ?f us)"
      using Cons.prems(1) by (simp add: t u)
    then have "n = m \<and> x = y \<and> b = d \<and> concat (map ?f ts) = concat (map ?f us)"
      using Cons.prems(2)[of n x b] Cons.prems(3)[of m y d] by (intro target_bytes_prefix) (simp_all add: t u)
    moreover from this have "ts = us" using Cons.IH Cons.prems(2,3) by (meson list.set_intros(2))
    ultimately show ?case by (simp add: t u)
  qed simp
qed

end
