(* ===== verification/Publication_Executor.thy ===== *)
theory Publication_Executor
  imports Publication_Facts
begin

text \<open>
  The executor runs the machine: over an all-or-nothing transaction host, one call of
  \<open>execute_next_publication\<close> is a sequence of machine steps of one executor, whatever it returns.
\<close>

definition atomic_pub_host :: "pub_host \<Rightarrow> bool" where
  "atomic_pub_host host \<longleftrightarrow>
     atomic_txn (ph_claim host) \<and> atomic_txn (ph_prepare host) \<and> atomic_txn (ph_record host)
   \<and> atomic_txn (ph_candidate host) \<and> atomic_txn (ph_recover host)"

lemma run_pub_txn_cases:
  assumes "atomic_txn txn" and "run_pub_txn mode txn body s = (res, s')"
  obtains (ok) a where "res = Inr a" "body s = Inr (a, s')"
  | (unchanged) e where "res = Inl e" "s' = s"
  | (unknown) a e where "res = Inl e" "body s = Inr (a, s')"
proof (cases "pub_require_writable mode")
  case (Inl e)
  with assms(2) have "res = Inl e" "s' = s" by (simp_all add: run_pub_txn_def)
  then show ?thesis by (rule unchanged)
next
  case (Inr u)
  obtain r s2 where t: "txn body s = (r, s2)" by (cases "txn body s")
  with assms(2) Inr have r: "res = map_err map_pub_transaction_error r" "s' = s2"
    by (simp_all add: run_pub_txn_def)
  show ?thesis
  proof (cases r)
    case (Inr a)
    with t r ok atomic_txnD(1)[OF assms(1)] show ?thesis by simp
  next
    case (Inl e)
    with atomic_txn_state[OF assms(1) t] r show ?thesis
      using unchanged unknown by auto
  qed
qed

text \<open>Steps of one executor between two of its idle moments.\<close>

definition executes :: "(bytes \<Rightarrow> bytes) \<Rightarrow> nat \<Rightarrow> pub_store \<Rightarrow> pub_phase \<Rightarrow> pub_store \<Rightarrow> pub_phase \<Rightarrow> bool" where
  "executes sha256 w s p s' p' \<longleftrightarrow>
     (\<forall>sys. ps_store sys = s \<longrightarrow> ps_phase sys w = p \<longrightarrow>
        (pub_step sha256)\<^sup>*\<^sup>* sys (sys\<lparr>ps_store := s', ps_phase := (ps_phase sys)(w := p')\<rparr>))"

lemma executes_refl [simp]: "executes sha256 w s p s p"
  unfolding executes_def
proof (intro allI impI)
  fix sys :: pub_system assume "ps_store sys = s" "ps_phase sys w = p"
  then have "sys\<lparr>ps_store := s, ps_phase := (ps_phase sys)(w := p)\<rparr> = sys" by (cases sys) auto
  then show "(pub_step sha256)\<^sup>*\<^sup>* sys (sys\<lparr>ps_store := s, ps_phase := (ps_phase sys)(w := p)\<rparr>)" by simp
qed

lemma executes_trans:
  assumes "executes sha256 w s p s' p'" and "executes sha256 w s' p' s'' p''"
  shows "executes sha256 w s p s'' p''"
  unfolding executes_def
proof (intro allI impI)
  fix sys :: pub_system assume s: "ps_store sys = s" "ps_phase sys w = p"
  let ?mid = "sys\<lparr>ps_store := s', ps_phase := (ps_phase sys)(w := p')\<rparr>"
  have "(pub_step sha256)\<^sup>*\<^sup>* sys ?mid" using assms(1) s by (simp add: executes_def)
  moreover have "(pub_step sha256)\<^sup>*\<^sup>* ?mid (?mid\<lparr>ps_store := s'', ps_phase := (ps_phase ?mid)(w := p'')\<rparr>)"
    using assms(2) unfolding executes_def by (elim allE[of _ ?mid]) simp
  ultimately show "(pub_step sha256)\<^sup>*\<^sup>* sys (sys\<lparr>ps_store := s'', ps_phase := (ps_phase sys)(w := p'')\<rparr>)" by simp
qed

lemma executes_lose: "executes sha256 w s p s WorkerIdle"
  unfolding executes_def
proof (intro allI impI)
  fix sys :: pub_system assume s: "ps_store sys = s"
  have "sys\<lparr>ps_store := s, ps_phase := (ps_phase sys)(w := WorkerIdle)\<rparr> =
      sys\<lparr>ps_phase := (ps_phase sys)(w := WorkerIdle)\<rparr>" using s by (cases sys) auto
  then have "pub_step sha256 sys (sys\<lparr>ps_store := s, ps_phase := (ps_phase sys)(w := WorkerIdle)\<rparr>)"
    using pub_step.lose[of sha256 sys w] by (simp only:)
  then show "(pub_step sha256)\<^sup>*\<^sup>* sys (sys\<lparr>ps_store := s, ps_phase := (ps_phase sys)(w := WorkerIdle)\<rparr>)" ..
qed

lemma executes_claim:
  assumes "pub_owner_ok owner" and "claim_next_outbox sha256 owner now authority s = Inr (Some lease, s')"
  shows "executes sha256 w s WorkerIdle s' (WorkerHolding lease)"
  unfolding executes_def using pub_step.claim[OF _ assms(1)] assms(2) by blast

lemma executes_prepare:
  assumes "prepare_next sha256 lease started s = Inr (p, s')"
  shows "executes sha256 w s (WorkerHolding lease) s' (WorkerSubmitting p)"
  unfolding executes_def using pub_step.prepare assms by blast

lemma executes_record:
  assumes "record_input_from_prepared sha256 p finished outcome delay = Inr input"
    and "record_outcome sha256 input s = Inr (commit, s')"
  shows "executes sha256 w s (WorkerSubmitting p) s' WorkerIdle"
  unfolding executes_def using pub_step.report[OF _ assms(1)] assms(2) by blast

lemma executes_recover:
  assumes "recover_expired sha256 candidate now delay s = Inr (b, s')"
  shows "executes sha256 w s p s' p"
  unfolding executes_def
proof (intro allI impI)
  fix sys :: pub_system assume s: "ps_store sys = s" "ps_phase sys w = p"
  then have "sys\<lparr>ps_store := s', ps_phase := (ps_phase sys)(w := p)\<rparr> = sys\<lparr>ps_store := s'\<rparr>"
    by (cases sys) auto
  moreover have "pub_step sha256 sys (sys\<lparr>ps_store := s'\<rparr>)"
    by (rule pub_step.recover) (use assms s in simp)
  ultimately have "pub_step sha256 sys (sys\<lparr>ps_store := s', ps_phase := (ps_phase sys)(w := p)\<rparr>)"
    by (simp only:)
  then show "(pub_step sha256)\<^sup>*\<^sup>* sys (sys\<lparr>ps_store := s', ps_phase := (ps_phase sys)(w := p)\<rparr>)" ..
qed

lemma recover_one_executes:
  assumes host: "atomic_pub_host host"
    and run: "recover_one_expired_publication host sha256 world now authority (s, v) = (res, s', v')"
  shows "executes sha256 w s p s' p"
proof (cases "pub_require_writable (ph_mode host)")
  case (Inl e)
  with run show ?thesis by (simp add: recover_one_expired_publication_def)
next
  case (Inr u)
  show ?thesis
  proof (cases "authority_binding_from authority")
    case None
    with run Inr show ?thesis by (simp add: recover_one_expired_publication_def)
  next
    case (Some binding)
    let ?read = "\<lambda>s. and_then (read_expired_candidate sha256 now binding s) (\<lambda>c. Inr (c, s))"
    obtain r1 s1 where t1: "run_pub_txn (ph_mode host) (ph_candidate host) ?read s = (r1, s1)"
      by (cases "run_pub_txn (ph_mode host) (ph_candidate host) ?read s")
    have c1: "atomic_txn (ph_candidate host)" "atomic_txn (ph_recover host)" using host by (simp_all add: atomic_pub_host_def)
    have s1: "s1 = s" using c1(1) t1 by (rule run_pub_txn_cases) auto
    show ?thesis
    proof (cases "\<exists>candidate delay v1. r1 = Inr (Some candidate)
        \<and> sample_retry_delay (pw_fill_bytes world) (rc_retry_upper_bound candidate) v = (Inr delay, v1)")
      case True
      then obtain candidate delay v1 where c: "r1 = Inr (Some candidate)"
        "sample_retry_delay (pw_fill_bytes world) (rc_retry_upper_bound candidate) v = (Inr delay, v1)" by blast
      obtain r2 s2 where t2: "run_pub_txn (ph_mode host) (ph_recover host) (recover_expired sha256 candidate now delay) s = (r2, s2)"
        by (cases "run_pub_txn (ph_mode host) (ph_recover host) (recover_expired sha256 candidate now delay) s")
      have "s' = s2" using run t1 t2 c s1 Some Inr by (simp add: recover_one_expired_publication_def)
      moreover have "executes sha256 w s p s2 p"
        using c1(2) t2 by (rule run_pub_txn_cases) (auto intro: executes_recover)
      ultimately show ?thesis by simp
    next
      case False
      then have "s' = s1"
        using run t1 Some Inr
        by (auto simp: recover_one_expired_publication_def split: sum.splits option.splits prod.splits)
      with s1 show ?thesis by simp
    qed
  qed
qed

text \<open>What became of one transaction of the executor: the store it left and whether its value was seen.\<close>

lemma claim_executes:
  assumes host: "atomic_pub_host host" and owner: "pub_owner_ok owner"
    and run: "claim_next_publication host sha256 owner now authority s = (res, s')"
  shows "case res of
      Inr (Some lease) \<Rightarrow> executes sha256 w s WorkerIdle s' (WorkerHolding lease)
    | _ \<Rightarrow> executes sha256 w s WorkerIdle s' WorkerIdle"
proof -
  have none: "s' = s" if "claim_next_outbox sha256 owner now b s = Inr (None, s')" for b
    using that by (auto simp: claim_next_outbox_def split: option.splits if_splits)
  have committed: "executes sha256 w s WorkerIdle s' WorkerIdle"
    if "claim_next_outbox sha256 owner now b s = Inr (a, s')" for a b
  proof (cases a)
    case None
    with none[of b] that have "s' = s" by simp
    then show ?thesis by simp
  next
    case (Some lease)
    with that executes_trans[OF executes_claim[OF owner] executes_lose] show ?thesis by blast
  qed
  show ?thesis
  proof (cases "pub_require_writable (ph_mode host)")
    case (Inl e)
    with run show ?thesis by (auto simp: claim_next_publication_def)
  next
    case (Inr u)
    show ?thesis
    proof (cases "authority_binding_from authority")
      case None
      with run Inr show ?thesis by (auto simp: claim_next_publication_def)
    next
      case (Some binding)
      have t: "run_pub_txn (ph_mode host) (ph_claim host) (claim_next_outbox sha256 owner now binding) s = (res, s')"
        using run Inr Some by (simp add: claim_next_publication_def)
      have a: "atomic_txn (ph_claim host)" using host by (simp add: atomic_pub_host_def)
      show ?thesis
        using a t
      proof (cases rule: run_pub_txn_cases)
        case (ok x)
        then show ?thesis
          using committed[of binding x] executes_claim[OF owner] by (cases x) auto
      next
        case (unchanged e)
        then show ?thesis by simp
      next
        case (unknown x e)
        then show ?thesis using committed by simp
      qed
    qed
  qed
qed

lemma prepare_executes:
  assumes host: "atomic_pub_host host"
    and run: "prepare_next_publication_target host sha256 lease started s = (res, s')"
  shows "case res of
      Inr p \<Rightarrow> executes sha256 w s (WorkerHolding lease) s' (WorkerSubmitting p)
    | Inl _ \<Rightarrow> executes sha256 w s (WorkerHolding lease) s' WorkerIdle"
proof -
  have a: "atomic_txn (ph_prepare host)" using host by (simp add: atomic_pub_host_def)
  from run have t: "run_pub_txn (ph_mode host) (ph_prepare host) (prepare_next sha256 lease started) s = (res, s')"
    by (simp add: prepare_next_publication_target_def)
  show ?thesis
    using a t
  proof (cases rule: run_pub_txn_cases)
    case (ok p)
    then show ?thesis using executes_prepare by simp
  next
    case (unchanged e)
    then show ?thesis using executes_lose by simp
  next
    case (unknown p e)
    then show ?thesis using executes_trans[OF executes_prepare executes_lose] by simp
  qed
qed

lemma record_executes:
  assumes host: "atomic_pub_host host"
    and run: "record_publication_outcome host sha256 p finished outcome delay s = (res, s')"
  shows "executes sha256 w s (WorkerSubmitting p) s' WorkerIdle"
proof (cases "pub_require_writable (ph_mode host)")
  case (Inl e)
  with run show ?thesis using executes_lose by (auto simp: record_publication_outcome_def)
next
  case (Inr u)
  show ?thesis
  proof (cases "record_input_from_prepared sha256 p finished outcome delay")
    case (Inl e)
    with run Inr show ?thesis using executes_lose by (auto simp: record_publication_outcome_def)
  next
    case input: (Inr input)
    have a: "atomic_txn (ph_record host)" using host by (simp add: atomic_pub_host_def)
    have t: "run_pub_txn (ph_mode host) (ph_record host) (record_outcome sha256 input) s = (res, s')"
      using run Inr input by (simp add: record_publication_outcome_def)
    show ?thesis
      using a t by (rule run_pub_txn_cases) (use executes_record[OF input] executes_lose in auto)
  qed
qed

lemma submit_executes:
  assumes host: "atomic_pub_host host"
    and run: "submit_and_record host sha256 world p (s, v) = (res, s', v')"
  shows "executes sha256 w s (WorkerSubmitting p) s' WorkerIdle"
proof -
  from run have "s' = s \<or> (\<exists>finished outcome delay r. record_publication_outcome host sha256 p finished outcome delay s = (r, s'))"
    by (auto simp: submit_and_record_def Let_def split: prod.splits sum.splits)
  then show ?thesis using executes_lose record_executes[OF host] by blast
qed

lemma execute_next_executes:
  assumes host: "atomic_pub_host host" and owner: "pub_owner_ok owner"
    and run: "execute_next_publication host sha256 world owner authority (s, v) = (res, s', v')"
  shows "executes sha256 w s WorkerIdle s' WorkerIdle"
proof -
  obtain wall v1 where w1: "pw_wall_clock world v = (wall, v1)" by (cases "pw_wall_clock world v")
  show ?thesis
  proof (cases "publication_now wall")
    case (Inl e)
    with run w1 show ?thesis by (simp add: execute_next_publication_def)
  next
    case (Inr now)
    obtain r1 s1 v2 where r: "recover_one_expired_publication host sha256 world now authority (s, v1) = (r1, s1, v2)"
      by (cases "recover_one_expired_publication host sha256 world now authority (s, v1)") auto
    note E1 = recover_one_executes[OF host r, of w WorkerIdle]
    obtain r2 s2 where c: "claim_next_publication host sha256 owner now authority s1 = (r2, s2)"
      by (cases "claim_next_publication host sha256 owner now authority s1")
    note E2 = claim_executes[OF host owner c, of w]
    show ?thesis
    proof (cases "\<exists>u lease. r1 = Inr u \<and> r2 = Inr (Some lease)")
      case False
      then have "s' = s1 \<or> s' = s2 \<and> (\<forall>lease. r2 \<noteq> Inr (Some lease))"
        using run w1 Inr r c by (auto simp: execute_next_publication_def split: sum.splits option.splits)
      moreover have "executes sha256 w s1 WorkerIdle s2 WorkerIdle" if "\<forall>lease. r2 \<noteq> Inr (Some lease)"
        using E2 that by (auto split: sum.splits option.splits)
      ultimately show ?thesis using E1 executes_trans[OF E1] by blast
    next
      case True
      then obtain u lease where rr: "r1 = Inr u" "r2 = Inr (Some lease)" by blast
      have E2': "executes sha256 w s1 WorkerIdle s2 (WorkerHolding lease)" using E2 rr by simp
      obtain r3 s3 where p: "prepare_next_publication_target host sha256 lease now s2 = (r3, s3)"
        by (cases "prepare_next_publication_target host sha256 lease now s2")
      note E3 = prepare_executes[OF host p, of w]
      show ?thesis
      proof (cases r3)
        case (Inl e)
        then have "s' = s3" using run w1 Inr r c rr p by (simp add: execute_next_publication_def)
        with E3 Inl executes_trans[OF executes_trans[OF E1 E2']] show ?thesis by simp
      next
        case prep: (Inr q)
        obtain r4 s4 v3 where f: "submit_and_record host sha256 world q (s3, v2) = (r4, s4, v3)"
          by (cases "submit_and_record host sha256 world q (s3, v2)") auto
        have "s' = s4"
          using run w1 Inr r c rr p prep f by (cases r4) (simp_all add: execute_next_publication_def)
        moreover have "executes sha256 w s2 (WorkerHolding lease) s3 (WorkerSubmitting q)" using E3 prep by simp
        ultimately show ?thesis
          using executes_trans[OF executes_trans[OF executes_trans[OF E1 E2']]] submit_executes[OF host f] by blast
      qed
    qed
  qed
qed

end
