(* ===== verification/Publication_Runs.thy ===== *)
theory Publication_Runs
  imports Publication_Executor
begin

text \<open>
  What runs of the publication machine preserve: events and evidence are only appended, accepted
  targets and complete outboxes never change again, and the queue stays within its capacity.
\<close>

section \<open>Growth\<close>

definition grows :: "pub_store \<Rightarrow> pub_store \<Rightarrow> bool" where
  "grows s s' \<longleftrightarrow>
     (\<exists>xs. attempts s' = attempts s @ xs)
   \<and> (\<exists>es. signed_events s' = signed_events s @ es)
   \<and> (\<forall>k i t. target_at k i s = Some t \<longrightarrow> tg_state t = ''accepted'' \<longrightarrow> target_at k i s' = Some t)
   \<and> (\<forall>k r. outbox_at k s = Some r \<longrightarrow> ob_state r = ''complete'' \<longrightarrow> outbox_at k s' = Some r)
   \<and> (\<forall>k r. outbox_at k s = Some r \<longrightarrow>
        (\<exists>r'. outbox_at k s' = Some r' \<and> ob_event_id r' = ob_event_id r \<and> ob_event_sha256 r' = ob_event_sha256 r))"

lemma grows_refl [simp]: "grows s s"
  by (simp add: grows_def)

lemma grows_trans: "grows s s' \<Longrightarrow> grows s' s'' \<Longrightarrow> grows s s''"
  unfolding grows_def by fastforce

lemma grows_outbox:
  assumes "outbox_at (ob_outbox_id r') s = Some r" and "outbox_guard r r'"
  shows "grows s (s\<lparr>outboxes := replace_row ob_outbox_id r' (outboxes s)\<rparr>)"
proof -
  have "ob_state r \<noteq> ''complete''" using outbox_guardD(10)[OF assms(2)] by (auto simp: outbox_transition_def)
  then show ?thesis using assms(1) outbox_guardD(2,3)[OF assms(2)] by (auto simp: grows_def select_key_replace_row)
qed

lemma grows_target:
  assumes "target_at (tg_outbox_id t') (tg_target_ordinal t') s = Some t" and "tg_state t \<noteq> ''accepted''"
  shows "grows s (s\<lparr>targets := replace_row target_key t' (targets s)\<rparr>)"
  using assms by (auto simp: grows_def select_key_replace_row target_key_def)

lemma grows_attempt: "grows s (s\<lparr>attempts := attempts s @ [a]\<rparr>)"
  by (simp add: grows_def)

lemma grows_settle:
  assumes "target_at (tg_outbox_id t) (tg_target_ordinal t) s = Some t" and "tg_state t = ''submitted''"
  shows "grows s (s\<lparr>attempts := attempts s @ [a], targets := replace_row target_key (settled_row st nx f t) (targets s)\<rparr>)"
proof -
  let ?s1 = "s\<lparr>attempts := attempts s @ [a]\<rparr>"
  have "grows ?s1 (?s1\<lparr>targets := replace_row target_key (settled_row st nx f t) (targets ?s1)\<rparr>)"
    by (rule grows_target[of _ _ t]) (use assms in simp_all)
  then show ?thesis using grows_trans[OF grows_attempt[of s a]] by simp
qed

lemma recover_targets_grows:
  assumes "pub_inv sha256 s" and "ob_lease_expires_unix_ms r = Some e"
    and "recover_targets sha256 (outbox_of_row r) owner now delay (map target_of_row ts) s = Inr s'"
  shows "grows s s'"
  using assms
proof (induction ts arbitrary: s)
  case (Cons t ts)
  from Cons.prems(3) obtain s1 where
    one: "recover_target sha256 (outbox_of_row r) owner now delay (target_of_row t) s = Inr s1"
    and rest: "recover_targets sha256 (outbox_of_row r) owner now delay (map target_of_row ts) s1 = Inr s'"
    by auto
  obtain st where settle: "settle_target (recovery_input r owner (nat e) now delay t) s = Inr (st, s1)"
    by (rule recover_targetE[OF one Cons.prems(2)])
  have "grows s s1 \<and> pub_inv sha256 s1"
  proof (rule settle_targetE[OF Cons.prems(1) settle])
    fix x nx
    let ?in = "recovery_input r owner (nat e) now delay t"
    assume x: "target_at (ox_id (pl_outbox (ri_lease ?in))) (int (ri_target_ordinal ?in)) s = Some x"
      "tg_state x = ''submitted''"
      "s1 = s\<lparr>attempts := attempts s @ [attempt_row_of_input ?in],
        targets := replace_row target_key (settled_row st nx (ri_finished_at ?in) x) (targets s)\<rparr>"
      and i: "pub_inv sha256 s1"
    have "target_at (tg_outbox_id x) (tg_target_ordinal x) s = Some x"
      using pub_inv_target(2)[OF Cons.prems(1) select_key_SomeD(1)[OF x(1)]] .
    from grows_settle[OF this x(2)] show ?thesis using x(3) i by simp
  qed
  with Cons.IH[OF _ Cons.prems(2) rest] show ?case using grows_trans by blast
qed simp

lemma release_grows:
  assumes g: "grows s s1" and ob: "outboxes s1 = outboxes s"
    and at: "outbox_at (ob_outbox_id r) s = Some r" and guard: "outbox_guard r (released_row d n r)"
  shows "grows s (s1\<lparr>outboxes := replace_row ob_outbox_id (released_row d n r) (outboxes s)\<rparr>)"
proof -
  have "grows s1 (s1\<lparr>outboxes := replace_row ob_outbox_id (released_row d n r) (outboxes s1)\<rparr>)"
    by (rule grows_outbox[OF _ guard]) (use at ob in simp)
  from grows_trans[OF g this] show ?thesis by (simp only: ob)
qed

lemma record_grows:
  assumes inv: "pub_inv sha256 s" and rec: "record_outcome sha256 input s = Inr (commit, s')"
  shows "grows s s'"
proof (rule record_outcomeE[OF inv rec])
  fix r t st nx s1 d
  assume at: "outbox_at (ob_outbox_id r) s = Some r"
    and t: "target_at (ob_outbox_id r) (int (ri_target_ordinal input)) s = Some t" "tg_state t = ''submitted''"
    and s1: "s1 = s\<lparr>attempts := attempts s @ [attempt_row_of_input input],
      targets := replace_row target_key (settled_row st nx (ri_finished_at input) t) (targets s)\<rparr>"
    and guard: "outbox_guard r (released_row d (ri_finished_at input) r)"
    and s': "s' = s1\<lparr>outboxes := replace_row ob_outbox_id (released_row d (ri_finished_at input) r) (outboxes s)\<rparr>"
  have "target_at (tg_outbox_id t) (tg_target_ordinal t) s = Some t"
    using pub_inv_target(2)[OF inv select_key_SomeD(1)[OF t(1)]] .
  from grows_settle[OF this t(2)] have "grows s s1" using s1 by simp
  from release_grows[OF this _ at guard] show ?thesis using s1 s' by simp
qed simp

lemma recover_grows:
  assumes inv: "pub_inv sha256 s" and rec: "recover_expired sha256 candidate now delay s = Inr (b, s')"
  shows "grows s s'"
proof (rule recover_expiredE[OF inv rec])
  fix r owner e s1 d
  assume at: "outbox_at (ob_outbox_id r) s = Some r" and e: "ob_lease_expires_unix_ms r = Some e"
    and rts: "recover_targets sha256 (outbox_of_row r) owner now delay
       (map target_of_row (filter (\<lambda>t. tg_state t = ''submitted'') (target_rows (ob_outbox_id r) s))) s = Inr s1"
    and ob: "outboxes s1 = outboxes s" and guard: "outbox_guard r (released_row d now r)"
    and s': "s' = s1\<lparr>outboxes := replace_row ob_outbox_id (released_row d now r) (outboxes s)\<rparr>"
  show ?thesis
    unfolding s' by (rule release_grows[OF recover_targets_grows[OF inv e rts] ob at guard])
qed

lemma target_at_rows:
  assumes "pub_inv sha256 s"
  shows "target_at k i s = Some t \<longleftrightarrow> t \<in> set (target_rows k s) \<and> tg_target_ordinal t = i"
  using pub_inv_target(2)[OF assms, of t] select_key_SomeD[of target_key "(k, i)" "targets s" t]
  by (auto simp: target_key_def)

lemma retry_grows:
  assumes inv: "pub_inv sha256 s" and ret: "publication_retry k expected count now s = Inr (receipt, s')"
  shows "grows s s'"
proof (rule publication_retryE[OF inv ret])
  fix r assume r: "outbox_at k s = Some r" "ob_state r = ''blocked''"
    "outbox_at k s' = Some (retry_outbox_set (int now) r)"
    "target_rows k s' = map (retried (int now)) (target_rows k s)" "touches_only k s s'"
    and inv': "pub_inv sha256 s'" and same: "signed_events s' = signed_events s" "attempts s' = attempts s"
  have "target_at k' i s' = Some t" if "target_at k' i s = Some t" "tg_state t = ''accepted''" for k' i t
  proof -
    have t: "t \<in> set (target_rows k' s)" "tg_target_ordinal t = i" using that(1) target_at_rows[OF inv] by blast+
    have "t \<in> set (target_rows k' s')"
    proof (cases "k' = k")
      case True
      then have "retried (int now) t \<in> set (target_rows k' s')" using t(1) r(4) by simp
      then show ?thesis using that(2) by (simp only: retried_def simp_thms if_False)
    qed (use t(1) r(5) in \<open>simp add: touches_only_def\<close>)
    with t(2) show ?thesis using target_at_rows[OF inv'] by blast
  qed
  moreover have "outbox_at k' s' = Some x" if "outbox_at k' s = Some x" "ob_state x = ''complete''" for k' x
    using that r(1,2,5) by (cases "k' = k") (auto simp: touches_only_def)
  moreover have "\<exists>x'. outbox_at k' s' = Some x' \<and> ob_event_id x' = ob_event_id x \<and> ob_event_sha256 x' = ob_event_sha256 x"
    if "outbox_at k' s = Some x" for k' x
    using that r(1,3,5) by (cases "k' = k") (auto simp: touches_only_def retry_outbox_set_def)
  ultimately show ?thesis using same by (simp add: grows_def)
qed

lemma queue_grows:
  assumes "queue_publication event required now s = Inr s'"
  shows "grows s s'"
  using queue_publicationE(1)[OF assms] by (auto simp: grows_def select_key_append)

lemma step_grows:
  assumes inv: "pub_inv sha256 (ps_store sys)" and "pub_step sha256 sys sys'"
  shows "grows (ps_store sys) (ps_store sys')"
  using assms(2)
proof cases
  case (claim w owner now authority lease s')
  have "grows (ps_store sys) s'"
  proof (rule claim_next_outboxE[OF inv claim(3,4)])
    fix r e r'
    assume "outbox_at (ob_outbox_id r) (ps_store sys) = Some r" "outbox_guard r r'" "ob_outbox_id r' = ob_outbox_id r"
      "s' = ps_store sys\<lparr>outboxes := replace_row ob_outbox_id r' (outboxes (ps_store sys))\<rparr>"
    then show ?thesis using grows_outbox[of r' "ps_store sys" r] by simp
  qed simp
  with claim(1) show ?thesis by simp
next
  case (prepare w lease started p s')
  have "grows (ps_store sys) s'"
  proof (rule prepare_nextE[OF inv prepare(3)])
    fix r t t' n
    assume t: "t \<in> set (targets (ps_store sys))" "target_guard t t'"
      "s' = ps_store sys\<lparr>targets := replace_row target_key t' (targets (ps_store sys))\<rparr>"
    note G = target_guardD[OF t(2)]
    show ?thesis
      unfolding t(3) using pub_inv_target(2)[OF inv t(1)] G(2,3,8) by (intro grows_target[of _ _ t]) simp_all
  qed
  with prepare(1) show ?thesis by simp
next
  case (report w p finished outcome delay input commit s')
  then show ?thesis using record_grows[OF inv report(4)] by simp
next
  case (recover candidate now delay b s')
  then show ?thesis using recover_grows[OF inv] by simp
next
  case (lose w)
  then show ?thesis by simp
next
  case (retry workflow expected count now receipt s')
  then show ?thesis using retry_grows[OF inv] by simp
next
  case (queue publication event required now s')
  then show ?thesis using queue_grows by simp
qed

lemma run_grows:
  assumes "pub_sys_inv sha256 sys" and "(pub_step sha256)\<^sup>*\<^sup>* sys sys'"
  shows "grows (ps_store sys) (ps_store sys') \<and> pub_sys_inv sha256 sys'"
  using assms(2,1)
proof (induction rule: rtranclp_induct)
  case (step y z)
  then have "pub_inv sha256 (ps_store y)" by (simp add: pub_sys_inv_def)
  with step grows_trans step_grows pub_sys_inv_step show ?case by blast
qed simp

section \<open>Queue capacity\<close>

definition active_publications :: "pub_store \<Rightarrow> nat" where
  "active_publications s = length (filter (\<lambda>r. ob_state r \<noteq> ''complete'') (outboxes s))"

lemma active_replace:
  assumes inv: "pub_inv sha256 s" and at: "outbox_at (ob_outbox_id r) s = Some r" and guard: "outbox_guard r r'"
    and s': "outboxes s' = replace_row ob_outbox_id r' (outboxes s)"
  shows "active_publications s' \<le> active_publications s"
proof -
  have "ob_state r \<noteq> ''complete''" using outbox_guardD(10)[OF guard] by (auto simp: outbox_transition_def)
  moreover have "r \<in> set (outboxes s)" using select_key_SomeD(1)[OF at] .
  ultimately show ?thesis
    using filter_replace_row[OF pub_invD(5)[OF inv], of r r' "\<lambda>r. ob_state r \<noteq> ''complete''"] outbox_guardD(1)[OF guard]
    by (simp add: active_publications_def s' split: if_splits)
qed

lemma step_active:
  assumes inv: "pub_inv sha256 (ps_store sys)" and "pub_step sha256 sys sys'"
    and "active_publications (ps_store sys) \<le> 65536"
  shows "active_publications (ps_store sys') \<le> 65536"
  using assms(2)
proof cases
  case (claim w owner now authority lease s')
  have "active_publications s' \<le> active_publications (ps_store sys)"
    by (rule claim_next_outboxE[OF inv claim(3,4)]) (auto intro: active_replace[OF inv])
  with claim(1) assms(3) show ?thesis by simp
next
  case (prepare w lease started p s')
  have "outboxes s' = outboxes (ps_store sys)" by (rule prepare_nextE[OF inv prepare(3)]) simp
  with prepare(1) assms(3) show ?thesis by (simp add: active_publications_def)
next
  case (report w p finished outcome delay input commit s')
  have "active_publications s' \<le> active_publications (ps_store sys)"
    by (rule record_outcomeE[OF inv report(4)]) (auto intro: active_replace[OF inv])
  with report(1) assms(3) show ?thesis by simp
next
  case (recover candidate now delay b s')
  have "active_publications s' \<le> active_publications (ps_store sys)"
    by (rule recover_expiredE[OF inv recover(2)]) (auto intro: active_replace[OF inv])
  with recover(1) assms(3) show ?thesis by simp
next
  case (lose w)
  with assms(3) show ?thesis by simp
next
  case (retry workflow expected count now receipt s')
  have "active_publications s' \<le> active_publications (ps_store sys)"
  proof (rule publication_retryE[OF inv retry(2)])
    fix r assume r: "outbox_at workflow (ps_store sys) = Some r" "outbox_guard r (retry_outbox_set (int now) r)"
      "outboxes s' = replace_row ob_outbox_id (retry_outbox_set (int now) r) (outboxes (ps_store sys))"
    have "outbox_at (ob_outbox_id r) (ps_store sys) = Some r" using r(1) select_key_SomeD(2)[OF r(1)] by simp
    from active_replace[OF inv this r(2,3)] show ?thesis .
  qed
  with retry(1) assms(3) show ?thesis by simp
next
  case (queue publication event required now s')
  have "active_publications s' = active_publications (ps_store sys) + 1"
    by (simp add: queue_publicationE(1)[OF queue(5)] active_publications_def queued_outbox_row_def)
  moreover have "active_publications (ps_store sys) < 65536"
    using queue_publicationE(6)[OF queue(5)] required_publication_queueable(2)[OF queue(2-4)]
    by (simp add: active_publications_def)
  ultimately show ?thesis using queue(1) by simp
qed

lemma pub_reach_active:
  assumes "pub_reach sha256 sys"
  shows "active_publications (ps_store sys) \<le> 65536"
  using assms
proof (induction rule: pub_reach.induct)
  case start
  show ?case by (simp add: pub_start_def active_publications_def)
next
  case (step sys sys')
  have "pub_inv sha256 (ps_store sys)" using pub_reach_inv[OF step(1)] by (simp add: pub_sys_inv_def)
  from step_active[OF this step(2,3)] show ?case .
qed

end
