(* ===== verification/Publication_Demo.thy ===== *)
theory Publication_Demo
  imports Publication_Runs
begin

text \<open>
  One concrete publication, with a single required relay, followed through the machine: queued, claimed
  and prepared.  The hash is a constant function, which is enough for a single attempt.
\<close>

definition demo_hash :: "bytes \<Rightarrow> bytes" where
  "demo_hash b = replicate 32 7"

definition demo_owner :: bytes where
  "demo_owner = replicate 16 1"

definition demo_event :: finalization_event where
  "demo_event = \<lparr>fe_event_id = replicate 32 1, fe_statement_sha256 = replicate 32 2,
     fe_event_sha256 = replicate 32 7, fe_issuer_public_key = replicate 32 4,
     fe_authored_at_unix_s = 1, fe_canonical_event_json = [9]\<rparr>"

definition demo_authority :: "nat \<Rightarrow> publication_authority" where
  "demo_authority m = \<lparr>pa_configuration_sha256 = replicate 32 5, pa_mode = PublicationRequired,
     pa_targets = [\<lparr>pt_ordinal = 0, pt_relay_id = ''relay'', pt_required = True\<rparr>],
     pa_retry = Some \<lparr>rp_maximum_attempts = m, rp_initial_backoff_ms = 1000,
       rp_maximum_backoff_ms = 60000, rp_attempt_deadline_ms = 5000\<rparr>,
     pa_queue_capacity = 10, pa_target_set_sha256 = replicate 32 7, pa_authority_sha256 = replicate 32 7\<rparr>"

definition demo_required :: "nat \<Rightarrow> required_publication" where
  "demo_required m = \<lparr>rq_outbox_id = replicate 32 7, rq_authority_sha256 = replicate 32 7,
     rq_target_set_sha256 = replicate 32 7, rq_queue_capacity = 10, rq_maximum_attempts = m,
     rq_initial_backoff_ms = 1000, rq_maximum_backoff_ms = 60000, rq_attempt_deadline_ms = 5000,
     rq_target_count = 1, rq_targets = [\<lparr>ft_ordinal = 0, ft_relay_id = ''relay'', ft_required = True\<rparr>]\<rparr>"

definition demo_binding :: "nat \<Rightarrow> authority_binding" where
  "demo_binding m = \<lparr>ab_authority_sha256 = replicate 32 7, ab_target_set_sha256 = replicate 32 7,
     ab_target_count = 1, ab_required_target_count = 1, ab_max_attempts = m,
     ab_initial_backoff_ms = 1000, ab_maximum_backoff_ms = 60000, ab_attempt_deadline_ms = 5000\<rparr>"

definition demo_row :: "nat \<Rightarrow> outbox_row" where
  "demo_row m = queued_outbox_row demo_event (demo_required m) 1000"

definition demo_target :: target_row where
  "demo_target = queued_target_row (replicate 32 7) 1000
     \<lparr>ft_ordinal = 0, ft_relay_id = ''relay'', ft_required = True\<rparr>"

definition demo_queued :: "nat \<Rightarrow> pub_store" where
  "demo_queued m = \<lparr>signed_events = [queued_event_row demo_event], outboxes = [demo_row m],
     targets = [demo_target], attempts = []\<rparr>"

definition demo_leased_row :: "nat \<Rightarrow> outbox_row" where
  "demo_leased_row m = claim_outbox_set demo_owner 6000 1000 (demo_row m)"

definition demo_lease :: "nat \<Rightarrow> publication_lease" where
  "demo_lease m = \<lparr>pl_outbox = outbox_of_row (demo_leased_row m), pl_owner = demo_owner, pl_expires_at = 6000\<rparr>"

definition demo_claimed :: "nat \<Rightarrow> pub_store" where
  "demo_claimed m = (demo_queued m)\<lparr>outboxes := [demo_leased_row m]\<rparr>"

definition demo_submitted :: target_row where
  "demo_submitted = prepare_target_set (replicate 32 7) 1000 demo_target"

definition demo_prepared :: "nat \<Rightarrow> pub_store" where
  "demo_prepared m = (demo_claimed m)\<lparr>targets := [demo_submitted]\<rparr>"

definition demo_attempt :: "nat \<Rightarrow> prepared_attempt" where
  "demo_attempt m = \<lparr>pp_lease = demo_lease m, pp_target = target_of_row demo_submitted,
     pp_attempt_id = replicate 32 7, pp_started_at = 1000, pp_deadline_at = 6000,
     pp_publication = \<lparr>cp_outbox_id = replicate 32 7, cp_event_id = replicate 32 1,
       cp_event_sha256 = replicate 32 7, cp_exact_signed_event_bytes = [9]\<rparr>\<rparr>"

definition demo_sys :: "pub_store \<Rightarrow> pub_phase \<Rightarrow> pub_system" where
  "demo_sys s p = \<lparr>ps_store = s, ps_phase = (\<lambda>_. WorkerIdle)(0 := p)\<rparr>"

section \<open>Queued\<close>

lemma demo_row_simps [simp]:
  "ob_outbox_id (demo_row m) = replicate 32 7" "ob_state (demo_row m) = ''pending''"
  "ob_next_attempt_unix_ms (demo_row m) = Some 1000" "ob_attempt_deadline_ms (demo_row m) = 5000"
  "ob_updated_at_unix_ms (demo_row m) = 1000" "ob_revision (demo_row m) = 1"
  "ob_max_attempts (demo_row m) = int m" "ob_event_sha256 (demo_row m) = replicate 32 7"
  "ob_event_id (demo_row m) = replicate 32 1"
  by (simp_all add: demo_row_def queued_outbox_row_def demo_required_def demo_event_def)

lemma demo_target_check: "target_row_check demo_target"
  by (simp add: demo_target_def queued_target_row_def target_row_check_def relay_id_char_def sql_logic)

lemma demo_queue:
  assumes "1 \<le> m" and "m \<le> 100"
  shows "queue_publication demo_event (demo_required m) 1000 (ps_store pub_start) = Inr (demo_queued m)"
proof -
  have ev: "events_valid [queued_event_row demo_event]"
    by (simp add: events_valid_def event_row_check_def queued_event_row_def demo_event_def)
  have ob: "outboxes_valid [queued_event_row demo_event] [demo_row m]"
    using assms
    by (simp add: outboxes_valid_def outbox_row_check_def outbox_state_check_def demo_row_def queued_outbox_row_def
        queued_event_row_def demo_event_def demo_required_def)
  have tg: "targets_valid [demo_row m] [demo_target]"
    using demo_target_check by (simp add: targets_valid_def demo_target_def queued_target_row_def)
  have i1: "insert_signed_event demo_event (ps_store pub_start) =
      Inr (ps_store pub_start\<lparr>signed_events := [queued_event_row demo_event]\<rparr>)"
    using ev by (simp add: insert_signed_event_def fin_i64_value_def i64_of_u64_def i64_max_def sql_insert_def
        queued_event_row_def pub_start_def demo_event_def)
  have i2: "insert_outbox demo_event (demo_required m) 1000
      (ps_store pub_start\<lparr>signed_events := [queued_event_row demo_event]\<rparr>) =
      Inr (ps_store pub_start\<lparr>signed_events := [queued_event_row demo_event], outboxes := [demo_row m]\<rparr>)"
    using ob by (simp add: insert_outbox_def fin_i64_value_def i64_of_u64_def i64_max_def sql_insert_def
        demo_row_def queued_outbox_row_def pub_start_def demo_required_def)
  show ?thesis
    using i1 i2 tg
    by (simp add: queue_publication_def require_queue_capacity_def demo_required_def fin_i64_value_def i64_of_u64_def
        i64_max_def sql_insert_def pub_start_def demo_target_def demo_queued_def)
qed

lemma demo_required_from:
  "required_publication_from demo_hash (fe_event_id demo_event) (demo_authority m) = Some (demo_required m)"
  by (simp add: required_publication_from_def demo_authority_def demo_required_def publication_outbox_id_def
      demo_hash_def RHI_PUBLICATION_MAX_TARGETS_def)

lemma demo_reach_queued:
  assumes "1 \<le> m" and "m \<le> 100"
  shows "pub_reach demo_hash (demo_sys (demo_queued m) WorkerIdle)"
proof -
  have "pub_step demo_hash pub_start (pub_start\<lparr>ps_store := demo_queued m\<rparr>)"
    by (rule pub_step.queue[OF _ demo_required_from _ demo_queue[OF assms]])
      (simp_all add: authority_ok_def demo_authority_def demo_hash_def demo_event_def)
  moreover have "pub_start\<lparr>ps_store := demo_queued m\<rparr> = demo_sys (demo_queued m) WorkerIdle"
    by (auto simp: pub_start_def demo_sys_def)
  ultimately show ?thesis using pub_reach.step[OF pub_reach.start] by simp
qed

lemma demo_queued_inv:
  assumes "1 \<le> m" and "m \<le> 100"
  shows "pub_inv demo_hash (demo_queued m)" "pub_sched demo_hash (demo_queued m)"
  using pub_reach_inv[OF demo_reach_queued[OF assms]] by (simp_all add: pub_sys_inv_def demo_sys_def)

section \<open>Claimed\<close>

lemma demo_owner_ok: "pub_owner_ok demo_owner"
  by (simp add: pub_owner_ok_def pub_lease_owner_from_bytes_def demo_owner_def list_all_iff)

lemma demo_authority_valid:
  assumes "1 \<le> m"
  shows "validate_authority (outbox_of_row (demo_row m)) (demo_binding m) = Inr ()"
  by (simp add: validate_authority_def demo_binding_def demo_row_def queued_outbox_row_def demo_required_def)

lemma demo_claim:
  assumes "1 \<le> m" and "m \<le> 100"
  shows "claim_next_outbox demo_hash demo_owner 1000 (demo_binding m) (demo_queued m) =
    Inr (Some (demo_lease m), demo_claimed m)"
proof -
  have sel: "select_min outbox_order (filter (due_outbox (int 1000)) (outboxes (demo_queued m))) = Some (demo_row m)"
    by (simp add: demo_queued_def due_outbox_def)
  have "claim_next_outbox demo_hash demo_owner 1000 (demo_binding m) (demo_queued m) =
      Inr (Some \<lparr>pl_outbox = outbox_of_row (demo_leased_row m), pl_owner = demo_owner, pl_expires_at = 6000\<rparr>,
        (demo_queued m)\<lparr>outboxes := replace_row ob_outbox_id (demo_leased_row m) (outboxes (demo_queued m))\<rparr>)"
    by (rule claim_success[OF demo_queued_inv(1)[OF assms] demo_owner_ok sel demo_authority_valid[OF assms(1)]])
      (simp_all add: i64_max_def demo_leased_row_def)
  then show ?thesis
    by (simp add: demo_lease_def demo_claimed_def demo_queued_def replace_row_def demo_leased_row_def claim_outbox_set_def)
qed

lemma demo_reach_claimed:
  assumes "1 \<le> m" and "m \<le> 100"
  shows "pub_reach demo_hash (demo_sys (demo_claimed m) (WorkerHolding (demo_lease m)))"
proof -
  let ?sys = "demo_sys (demo_queued m) WorkerIdle"
  have "pub_step demo_hash ?sys (?sys\<lparr>ps_store := demo_claimed m, ps_phase := (ps_phase ?sys)(0 := WorkerHolding (demo_lease m))\<rparr>)"
    by (rule pub_step.claim[OF _ demo_owner_ok]) (use demo_claim[OF assms] in \<open>simp_all add: demo_sys_def\<close>)
  then show ?thesis using pub_reach.step[OF demo_reach_queued[OF assms]] by (simp add: demo_sys_def)
qed

lemma demo_claimed_inv:
  assumes "1 \<le> m" and "m \<le> 100"
  shows "pub_inv demo_hash (demo_claimed m)" "pub_sched demo_hash (demo_claimed m)"
  using pub_reach_inv[OF demo_reach_claimed[OF assms]] by (simp_all add: pub_sys_inv_def demo_sys_def)

section \<open>Prepared\<close>

lemma demo_leased_simps [simp]:
  "ob_outbox_id (demo_leased_row m) = replicate 32 7" "ob_state (demo_leased_row m) = ''leased''"
  "ob_lease_owner (demo_leased_row m) = Some demo_owner" "ob_lease_expires_unix_ms (demo_leased_row m) = Some 6000"
  "ob_updated_at_unix_ms (demo_leased_row m) = 1000" "ob_revision (demo_leased_row m) = 2"
  "ob_max_attempts (demo_leased_row m) = int m" "ob_event_sha256 (demo_leased_row m) = replicate 32 7"
  "ob_event_id (demo_leased_row m) = replicate 32 1"
  by (simp_all add: demo_leased_row_def claim_outbox_set_def)

lemma demo_target_simps [simp]:
  "tg_outbox_id demo_target = replicate 32 7" "tg_target_ordinal demo_target = 0" "tg_state demo_target = ''pending''"
  "tg_revision demo_target = 1" "tg_attempt_count demo_target = 0" "tg_next_attempt_unix_ms demo_target = Some 1000"
  "tg_updated_at_unix_ms demo_target = 1000" "tg_required demo_target = 1"
  by (simp_all add: demo_target_def queued_target_row_def)

lemma demo_outbox_at [simp]:
  "outbox_at (replicate 32 7) (demo_claimed m) = Some (demo_leased_row m)"
  "outbox_at (replicate 32 7) (demo_queued m) = Some (demo_row m)"
  by (simp_all add: demo_claimed_def demo_queued_def select_key_def)

lemma demo_rows [simp]:
  "target_rows (replicate 32 7) (demo_claimed m) = [demo_target]"
  "target_rows (replicate 32 7) (demo_queued m) = [demo_target]"
  by (simp_all add: demo_claimed_def demo_queued_def target_rows_def)

lemma demo_prepare:
  assumes "1 \<le> m" and "m \<le> 100"
  shows "prepare_next demo_hash (demo_lease m) 1000 (demo_claimed m) = Inr (demo_attempt m, demo_prepared m)"
proof -
  let ?r = "demo_leased_row m"
  have at: "outbox_at (ob_outbox_id ?r) (demo_claimed m) = Some ?r" by simp
  have due: "due_target ?r (int 1000) demo_target"
    using assms by (simp add: due_target_def target_state_of_def)
  have aid: "attempt_id_of demo_hash ?r i n = replicate 32 7" for i n
    by (simp add: attempt_id_of_def derive_attempt_id_def demo_hash_def)
  have "\<exists>p. prepare_next demo_hash (demo_lease m) 1000 (demo_claimed m) = Inr (p, demo_prepared m)
      \<and> pp_target p = target_of_row demo_submitted \<and> pp_lease p = demo_lease m \<and> pp_started_at p = 1000"
  proof (rule prepare_success[OF demo_claimed_inv(1)[OF assms] at, where t = demo_target])
    show "demo_prepared m = demo_claimed m\<lparr>targets := replace_row target_key demo_submitted (targets (demo_claimed m))\<rparr>"
      by (simp add: demo_prepared_def demo_claimed_def demo_queued_def replace_row_def demo_submitted_def
          prepare_target_set_def target_key_def)
    show "demo_submitted = prepare_target_set
       (attempt_id_of demo_hash ?r (tg_target_ordinal demo_target) (tg_attempt_count demo_target + 1)) (int 1000) demo_target"
      by (simp add: demo_submitted_def aid)
  qed (use due in \<open>simp_all add: demo_lease_def demo_hash_def\<close>)
  then obtain p where p: "prepare_next demo_hash (demo_lease m) 1000 (demo_claimed m) = Inr (p, demo_prepared m)"
    "pp_target p = target_of_row demo_submitted" by blast
  have "p = demo_attempt m"
  proof (rule prepare_nextE[OF demo_claimed_inv(1)[OF assms] p(1)])
    fix r t t' n e
    assume r: "pl_outbox (demo_lease m) = outbox_of_row r" "outbox_at (ob_outbox_id r) (demo_claimed m) = Some r"
      and e: "e \<in> set (signed_events (demo_claimed m))"
      and q: "p = \<lparr>pp_lease = demo_lease m, pp_target = target_of_row t', pp_attempt_id = derive_attempt_id demo_hash
         (ob_outbox_id r) (ob_event_sha256 r) (nat (tg_target_ordinal t)) n,
         pp_started_at = 1000, pp_deadline_at = pl_expires_at (demo_lease m),
         pp_publication = \<lparr>cp_outbox_id = ob_outbox_id r, cp_event_id = ob_event_id r,
           cp_event_sha256 = ob_event_sha256 r, cp_exact_signed_event_bytes = se_canonical_event_json e\<rparr>\<rparr>"
    have "ob_outbox_id r = replicate 32 7"
      using arg_cong[OF r(1), of ox_id] by (simp add: demo_lease_def)
    with r(2) have "r = demo_leased_row m" by simp
    moreover have "e = queued_event_row demo_event" using e by (simp add: demo_claimed_def demo_queued_def)
    ultimately show ?thesis
      using q p(2)
      by (simp add: demo_attempt_def derive_attempt_id_def demo_hash_def demo_lease_def queued_event_row_def demo_event_def)
  qed
  with p(1) show ?thesis by simp
qed

lemma demo_reach_prepared:
  assumes "1 \<le> m" and "m \<le> 100"
  shows "pub_reach demo_hash (demo_sys (demo_prepared m) (WorkerSubmitting (demo_attempt m)))"
proof -
  let ?sys = "demo_sys (demo_claimed m) (WorkerHolding (demo_lease m))"
  have "pub_step demo_hash ?sys (?sys\<lparr>ps_store := demo_prepared m, ps_phase := (ps_phase ?sys)(0 := WorkerSubmitting (demo_attempt m))\<rparr>)"
    by (rule pub_step.prepare) (use demo_prepare[OF assms] in \<open>simp_all add: demo_sys_def\<close>)
  then show ?thesis using pub_reach.step[OF demo_reach_claimed[OF assms]] by (simp add: demo_sys_def)
qed

lemma demo_prepared_inv:
  assumes "1 \<le> m" and "m \<le> 100"
  shows "pub_inv demo_hash (demo_prepared m)" "pub_sched demo_hash (demo_prepared m)"
  using pub_reach_inv[OF demo_reach_prepared[OF assms]] by (simp_all add: pub_sys_inv_def demo_sys_def)

lemma demo_submitted_simps [simp]:
  "tg_outbox_id demo_submitted = replicate 32 7" "tg_target_ordinal demo_submitted = 0"
  "tg_state demo_submitted = ''submitted''" "tg_revision demo_submitted = 2" "tg_attempt_count demo_submitted = 1"
  "tg_next_attempt_unix_ms demo_submitted = None" "tg_last_attempt_id demo_submitted = Some (replicate 32 7)"
  "tg_updated_at_unix_ms demo_submitted = 1000" "tg_required demo_submitted = 1"
  by (simp_all add: demo_submitted_def prepare_target_set_def)

lemma demo_prepared_simps [simp]:
  "outbox_at (replicate 32 7) (demo_prepared m) = Some (demo_leased_row m)"
  "target_rows (replicate 32 7) (demo_prepared m) = [demo_submitted]"
  "target_at (replicate 32 7) 0 (demo_prepared m) = Some demo_submitted" "attempts (demo_prepared m) = []"
  by (simp_all add: demo_prepared_def demo_claimed_def demo_queued_def select_key_def target_rows_def target_key_def)

section \<open>Recorded\<close>

definition demo_input :: "nat \<Rightarrow> attempt_outcome \<Rightarrow> nat \<Rightarrow> record_input" where
  "demo_input m outcome delay = \<lparr>ri_lease = demo_lease m, ri_target_ordinal = 0, ri_target_revision = 2,
     ri_attempt_number = 1, ri_attempt_id = replicate 32 7, ri_started_at = 1000, ri_finished_at = 1000,
     ri_outcome = outcome, ri_retry_delay = delay\<rparr>"

lemma demo_record_input:
  assumes "outcome \<noteq> OutcomeSubmitted"
  shows "record_input_from_prepared demo_hash (demo_attempt m) 1000 outcome delay = Inr (demo_input m outcome delay)"
  using assms
  by (simp add: record_input_from_prepared_def demo_attempt_def attempt_evidence_new_def demo_input_def
      derive_attempt_id_def demo_hash_def RHI_PUBLICATION_TARGET_ORDINAL_MAXIMUM_def
      RHI_PUBLICATION_ATTEMPT_NUMBER_MAXIMUM_def)

lemma demo_record:
  assumes "1 \<le> m" and "m \<le> 100"
    and out: "target_outcome_schedule (demo_input m outcome delay) = Inr (st, nx)"
  shows "\<exists>ost s'. record_outcome demo_hash (demo_input m outcome delay) (demo_prepared m) =
    Inr (commit_of_input (demo_input m outcome delay) st ost, s')"
  by (rule record_success[OF demo_prepared_inv[OF assms(1,2)], where r = "demo_leased_row m" and t = demo_submitted])
    (use out in \<open>simp_all add: demo_input_def demo_lease_def select_key_def[of at_attempt_id]\<close>)

end
