(* ===== verification/Publication_Props.thy ===== *)
theory Publication_Props
  imports Publication_Demo
begin

text \<open>
  The properties of the publication queue and its executor, each with a witness on the concrete
  publication of \<open>Publication_Demo\<close>.
\<close>

section \<open>Every reachable state\<close>

text \<open>
  C17.  At most one relay submission of a publication is in flight, and only while its outbox is
  leased, whatever the interleaving of executors, recoveries, retries and crashes.
\<close>

theorem publication_single_flight:
  assumes "pub_reach sha256 sys" and "outbox_at k (ps_store sys) = Some r"
  shows "length (filter is_submitted (target_rows k (ps_store sys))) \<le> 1
    \<and> (ob_state r \<noteq> ''leased'' \<longrightarrow> filter is_submitted (target_rows k (ps_store sys)) = [])"
  using pub_reach_inv[OF assms(1)] assms(2)
  by (simp add: pub_sys_inv_def pub_sched_def view_ok_def outbox_sched_def)

theorem publication_single_flight_witness:
  "outbox_at (replicate 32 7) (demo_prepared 2) = Some (demo_leased_row 2)
   \<and> filter is_submitted (target_rows (replicate 32 7) (demo_prepared 2)) = [demo_submitted]
   \<and> length (filter is_submitted (target_rows (replicate 32 7) (demo_prepared 2))) \<le> 1"
  using publication_single_flight[OF demo_reach_prepared[of 2], of "replicate 32 7" "demo_leased_row 2"]
  by (simp add: demo_sys_def is_submitted_def)

text \<open>
  C18.  Attempts are accounted for: no target is tried more often than its outbox allows, the evidence
  holds exactly one row for every attempt of a target except the one in flight, and every evidence
  row carries the attempt identity derived from its outbox, event, target and number.
\<close>

theorem publication_attempts_accounted:
  assumes "pub_reach sha256 sys" and "outbox_at k (ps_store sys) = Some r"
    and "t \<in> set (target_rows k (ps_store sys))"
  shows "tg_attempt_count t \<le> ob_max_attempts r
    \<and> recorded_numbers (tg_target_ordinal t) (evidence_rows k (ps_store sys)) =
        (if is_submitted t then {1..<tg_attempt_count t} else {1..tg_attempt_count t})
    \<and> distinct (map (\<lambda>a. (at_target_ordinal a, at_attempt_number a)) (evidence_rows k (ps_store sys)))
    \<and> (\<forall>a \<in> set (evidence_rows k (ps_store sys)).
        at_attempt_id a = derive_attempt_id sha256 k (ob_event_sha256 r)
          (nat (at_target_ordinal a)) (nat (at_attempt_number a))
      \<and> at_event_sha256 a = ob_event_sha256 r)"
proof -
  have inv: "pub_inv sha256 (ps_store sys)" and sch: "pub_sched sha256 (ps_store sys)"
    using pub_reach_inv[OF assms(1)] by (simp_all add: pub_sys_inv_def)
  have id: "ob_outbox_id r = k" using pub_inv_outbox(4)[OF inv assms(2)] .
  have ok: "view_ok sha256 r (target_rows k (ps_store sys)) (evidence_rows k (ps_store sys))"
    using sch assms(2) by (simp add: pub_sched_def)
  have "distinct (map (\<lambda>a. (at_target_ordinal a, at_attempt_number a)) (evidence_rows k (ps_store sys)))"
  proof -
    have "distinct (map (\<lambda>r. (at_outbox_id r, at_target_ordinal r, at_attempt_number r)) (attempts (ps_store sys)))"
      using pub_invD(4)[OF inv] by (simp add: attempts_valid_def)
    then show ?thesis by (auto simp: evidence_rows_def distinct_map inj_on_def)
  qed
  then show ?thesis
    using ok assms(3) by (simp add: view_ok_def target_sched_def settled_numbers_def attempt_id_of_def id)
qed

theorem publication_attempts_accounted_witness:
  "demo_submitted \<in> set (target_rows (replicate 32 7) (demo_prepared 2))
   \<and> tg_attempt_count demo_submitted \<le> ob_max_attempts (demo_leased_row 2)
   \<and> recorded_numbers 0 (evidence_rows (replicate 32 7) (demo_prepared 2)) = {}"
  using publication_attempts_accounted[OF demo_reach_prepared[of 2], of "replicate 32 7" "demo_leased_row 2" demo_submitted]
  by (simp add: demo_sys_def is_submitted_def del: set_target_rows)

text \<open>What the required targets of an outbox say about it.\<close>

definition released_exact :: "outbox_row \<Rightarrow> target_row list \<Rightarrow> bool" where
  "released_exact r ts \<longleftrightarrow>
     (ob_state r = ''complete'' \<longleftrightarrow> (\<forall>t \<in> set ts. tg_required t = 1 \<longrightarrow> tg_state t = ''accepted''))
   \<and> (ob_state r = ''blocked'' \<longleftrightarrow> (\<exists>t \<in> set ts. tg_required t = 1
        \<and> (tg_state t = ''rejected'' \<or> tg_state t = ''auth_required''
           \<or> tg_state t \<in> {''pending'', ''failed'', ''rate_limited'', ''unknown''}
             \<and> ob_max_attempts r \<le> tg_attempt_count t \<and> tg_next_attempt_unix_ms t = None)))
   \<and> (if ob_state r = ''complete'' \<or> ob_state r = ''blocked'' then ob_next_attempt_unix_ms r = None
      else ob_state r = ''pending'' \<and> (\<exists>v. ob_next_attempt_unix_ms r = Some v
        \<and> (\<exists>t \<in> set ts. tg_required t = 1 \<and> tg_next_attempt_unix_ms t = Some v)
        \<and> (\<forall>t \<in> set ts. \<forall>w. tg_required t = 1 \<and> tg_next_attempt_unix_ms t = Some w \<longrightarrow> v \<le> w)))
   \<and> ob_lease_owner r = None \<and> ob_lease_expires_unix_ms r = None"

lemma row_blocking_states:
  assumes "target_row_check t"
  shows "row_blocking r t \<longleftrightarrow> tg_state t = ''rejected'' \<or> tg_state t = ''auth_required''
    \<or> tg_state t \<in> {''pending'', ''failed'', ''rate_limited'', ''unknown''}
      \<and> ob_max_attempts r \<le> tg_attempt_count t \<and> tg_next_attempt_unix_ms t = None"
  using assms
  by (auto simp: row_blocking_def row_retryable_def target_state_of_def target_row_check_def)

lemma disposition_released:
  assumes inv: "pub_inv sha256 s" and at: "outbox_at (ob_outbox_id r) s0 = Some r" "pub_inv sha256 s0"
    and disp: "disposition sha256 (outbox_of_row r) (targets_of (ob_outbox_id r) s) = Inr d"
  shows "released_exact (released_row d n r) (target_rows (ob_outbox_id r) s)"
proof -
  let ?ts = "target_rows (ob_outbox_id r) s"
  note tc = target_rows_facts(2)[OF inv, where k = "ob_outbox_id r"]
  have blk: "(\<exists>t \<in> set ?ts. tg_required t = 1 \<and> (tg_state t = ''rejected'' \<or> tg_state t = ''auth_required''
      \<or> tg_state t \<in> {''pending'', ''failed'', ''rate_limited'', ''unknown''}
        \<and> ob_max_attempts r \<le> tg_attempt_count t \<and> tg_next_attempt_unix_ms t = None))
    \<longleftrightarrow> (\<exists>t \<in> set ?ts. tg_required t = 1 \<and> row_blocking r t)"
    using row_blocking_states[OF tc] by blast
  have acc: "\<not> row_blocking r t" if "tg_state t = ''accepted''" for t
    using that by (simp add: row_blocking_def row_retryable_def target_state_of_def)
  show ?thesis
  proof (rule disposition_cases[OF disp[unfolded targets_of_def] pub_inv_outbox(1)[OF at(2,1)]], goal_cases)
    case (1 t)
    then show ?case by (rule tc)
  next
    case 2
    then show ?case unfolding released_exact_def released_row_simps blk using acc by auto
  next
    case (3 t)
    then show ?case unfolding released_exact_def released_row_simps blk using acc by auto
  next
    case (4 t v)
    then show ?case unfolding released_exact_def released_row_simps blk by auto
  qed
qed

lemma released_at:
  assumes "outbox_at (ob_outbox_id r) s = Some r"
  shows "select_key ob_outbox_id k (replace_row ob_outbox_id (released_row d n r) (outboxes s))
    = (if k = ob_outbox_id r then Some (released_row d n r) else outbox_at k s)"
  using select_key_SomeD[OF assms] by (auto simp: select_key_replace_row)

lemma record_released:
  assumes inv: "pub_inv sha256 s" and rec: "record_outcome sha256 input s = Inr (commit, s')"
  obtains "s' = s"
  | r where "outbox_at (ob_outbox_id r) s' = Some r" "released_exact r (target_rows (ob_outbox_id r) s')"
      "ob_outbox_id r = ox_id (pl_outbox (ri_lease input))"
      "\<And>k. k \<noteq> ob_outbox_id r \<Longrightarrow> outbox_at k s' = outbox_at k s"
proof (rule record_outcomeE[OF inv rec], goal_cases)
  case 1
  then show ?thesis using that(1) by blast
next
  case (2 r t st nx s1 d)
  have "released_exact (released_row d (ri_finished_at input) r) (target_rows (ob_outbox_id r) s1)"
    using disposition_released[OF 2(25) 2(4) inv 2(21)] .
  then show ?thesis using 2 by (intro that(2)[of "released_row d (ri_finished_at input) r"]) (auto simp: released_at[OF 2(4)])
qed

lemma recover_released:
  assumes inv: "pub_inv sha256 s" and rec: "recover_expired sha256 candidate now delay s = Inr (b, s')"
  obtains r where "outbox_at (ob_outbox_id r) s' = Some r" "released_exact r (target_rows (ob_outbox_id r) s')"
    "\<And>k. k \<noteq> ob_outbox_id r \<Longrightarrow> outbox_at k s' = outbox_at k s"
proof (rule recover_expiredE[OF inv rec], goal_cases)
  case (1 r owner e s1 d)
  have "released_exact (released_row d now r) (target_rows (ob_outbox_id r) s1)"
    using disposition_released[OF 1(10) 1(2) inv 1(12)] .
  then show ?thesis using 1 by (intro that[of "released_row d now r"]) (auto simp: released_at[OF 1(2)])
qed



lemma grows_exact:
  assumes "grows s s'" and "prepared_exact sha256 p s"
  shows "prepared_exact sha256 p s'"
proof -
  obtain es where es: "signed_events s' = signed_events s @ es" using assms(1) by (auto simp: grows_def)
  from assms(2) obtain r e where r: "outbox_at (cp_outbox_id (pp_publication p)) s = Some r" "e \<in> set (signed_events s)"
    "se_event_id e = ob_event_id r" "cp_event_id (pp_publication p) = ob_event_id r"
    "cp_event_sha256 (pp_publication p) = ob_event_sha256 r"
    "cp_exact_signed_event_bytes (pp_publication p) = se_canonical_event_json e"
    "sha256 (se_canonical_event_json e) = ob_event_sha256 r"
    "cp_outbox_id (pp_publication p) = ox_id (pl_outbox (pp_lease p))"
    by (auto simp: prepared_exact_def)
  obtain r' where "outbox_at (cp_outbox_id (pp_publication p)) s' = Some r'" "ob_event_id r' = ob_event_id r"
    "ob_event_sha256 r' = ob_event_sha256 r"
    using assms(1) r(1) unfolding grows_def by blast
  then show ?thesis using r es unfolding prepared_exact_def by auto
qed

text \<open>
  C20.  Executors submit exact bytes: what an executor submits under a lease are the stored bytes of the one event
  that the leased outbox names, and their digest is the one the outbox was queued with; and any attempt made for
  the same outbox at any later time, by any executor, submits the same bytes.
\<close>

theorem publication_exact_bytes:
  assumes reach: "pub_reach sha256 sys" and p: "ps_phase sys w = WorkerSubmitting p"
    and run: "(pub_step sha256)\<^sup>*\<^sup>* sys sys'" and q: "ps_phase sys' w' = WorkerSubmitting q"
    and same: "ox_id (pl_outbox (pp_lease p)) = ox_id (pl_outbox (pp_lease q))"
  shows "\<exists>r e. outbox_at (ox_id (pl_outbox (pp_lease q))) (ps_store sys') = Some r
    \<and> e \<in> set (signed_events (ps_store sys')) \<and> se_event_id e = ob_event_id r
    \<and> cp_exact_signed_event_bytes (pp_publication p) = se_canonical_event_json e
    \<and> cp_exact_signed_event_bytes (pp_publication q) = se_canonical_event_json e
    \<and> sha256 (se_canonical_event_json e) = ob_event_sha256 r
    \<and> cp_event_id (pp_publication p) = ob_event_id r \<and> cp_event_id (pp_publication q) = ob_event_id r
    \<and> cp_event_sha256 (pp_publication p) = ob_event_sha256 r \<and> cp_event_sha256 (pp_publication q) = ob_event_sha256 r"
proof -
  note G = run_grows[OF pub_reach_inv[OF reach] run]
  then have "distinct (map se_event_id (signed_events (ps_store sys')))"
    using pub_invD(1) by (auto simp: pub_sys_inv_def events_valid_def)
  then have inj: "inj_on se_event_id (set (signed_events (ps_store sys')))" by (simp add: distinct_map)
  have "prepared_exact sha256 p (ps_store sys)" using pub_reach_inv[OF reach] p by (auto simp: pub_sys_inv_def)
  then have P: "prepared_exact sha256 p (ps_store sys')" using G grows_exact by blast
  have Q: "prepared_exact sha256 q (ps_store sys')" using G q by (auto simp: pub_sys_inv_def)
  from P Q same show ?thesis
    unfolding prepared_exact_def by (metis inj inj_onD option.inject)
qed

theorem publication_exact_bytes_witness:
  "\<exists>r. outbox_at (replicate 32 7) (demo_prepared 2) = Some r \<and> demo_hash [9] = ob_event_sha256 r
     \<and> cp_exact_signed_event_bytes (pp_publication (demo_attempt 2)) = [9]
     \<and> cp_event_id (pp_publication (demo_attempt 2)) = ob_event_id r"
  using publication_exact_bytes[OF demo_reach_prepared[of 2], of 0 "demo_attempt 2"
      "demo_sys (demo_prepared 2) (WorkerSubmitting (demo_attempt 2))" 0 "demo_attempt 2"]
  by (simp add: demo_sys_def) (auto simp: demo_attempt_def demo_lease_def)

text \<open>
  C35.  History is never rewritten: along any run the signed events and the attempt evidence are only
  appended to, an accepted target and a complete outbox never change again.
\<close>

theorem publication_history_kept:
  assumes "pub_reach sha256 sys" and "(pub_step sha256)\<^sup>*\<^sup>* sys sys'"
  shows "(\<exists>xs. attempts (ps_store sys') = attempts (ps_store sys) @ xs)
    \<and> (\<exists>es. signed_events (ps_store sys') = signed_events (ps_store sys) @ es)
    \<and> (\<forall>k i t. target_at k i (ps_store sys) = Some t \<and> tg_state t = ''accepted'' \<longrightarrow>
         target_at k i (ps_store sys') = Some t)
    \<and> (\<forall>k r. outbox_at k (ps_store sys) = Some r \<and> ob_state r = ''complete'' \<longrightarrow>
         outbox_at k (ps_store sys') = Some r)"
  using run_grows[OF pub_reach_inv[OF assms(1)] assms(2)] by (simp add: grows_def)

theorem publication_history_kept_witness:
  "\<exists>es. signed_events (demo_queued 2) = signed_events (ps_store pub_start) @ es \<and> es \<noteq> []"
proof -
  have "pub_step demo_hash pub_start (demo_sys (demo_queued 2) WorkerIdle)"
  proof -
    have "pub_step demo_hash pub_start (pub_start\<lparr>ps_store := demo_queued 2\<rparr>)"
      by (rule pub_step.queue[OF _ demo_required_from _ demo_queue])
        (simp_all add: authority_ok_def demo_authority_def demo_hash_def demo_event_def)
    moreover have "pub_start\<lparr>ps_store := demo_queued 2\<rparr> = demo_sys (demo_queued 2) WorkerIdle"
      by (auto simp: pub_start_def demo_sys_def)
    ultimately show ?thesis by simp
  qed
  from publication_history_kept[OF pub_reach.start r_into_rtranclp[of "pub_step demo_hash", OF this]]
  show ?thesis by (auto simp: demo_sys_def demo_queued_def pub_start_def)
qed

text \<open>
  The publication queue is bounded: with the capacity every admitted configuration has, at most
  65,536 publications are ever not complete.
\<close>

theorem publication_queue_bounded:
  assumes "pub_reach sha256 sys"
  shows "length (filter (\<lambda>r. ob_state r \<noteq> ''complete'') (outboxes (ps_store sys))) \<le> 65536"
  using pub_reach_active[OF assms] by (simp add: active_publications_def)

theorem publication_queue_bounded_witness:
  "length (filter (\<lambda>r. ob_state r \<noteq> ''complete'') (outboxes (demo_prepared 2))) \<le> 65536
   \<and> outboxes (demo_prepared 2) = [demo_leased_row 2]"
  using publication_queue_bounded[OF demo_reach_prepared[of 2]]
  by (simp add: demo_sys_def) (simp add: demo_prepared_def demo_claimed_def)

text \<open>
  C19.  The executor implements the machine: over an all-or-nothing transaction host, one call of
  \<open>execute_next_publication\<close>, for any clock, entropy source and relay and whatever it returns, takes
  the store through steps of one executor that starts and ends idle.
\<close>

theorem executor_refines_machine:
  assumes "atomic_pub_host host" and "pub_owner_ok owner" and "ps_phase sys w = WorkerIdle"
    and "execute_next_publication host sha256 world owner authority (ps_store sys, v) = (res, s', v')"
  shows "(pub_step sha256)\<^sup>*\<^sup>* sys (sys\<lparr>ps_store := s'\<rparr>)"
proof -
  have "executes sha256 w (ps_store sys) WorkerIdle s' WorkerIdle"
    using execute_next_executes[OF assms(1,2,4)] .
  moreover have "sys\<lparr>ps_store := s', ps_phase := (ps_phase sys)(w := WorkerIdle)\<rparr> = sys\<lparr>ps_store := s'\<rparr>"
    using assms(3) by (cases sys) auto
  moreover have "executes sha256 w (ps_store sys) WorkerIdle s' WorkerIdle \<Longrightarrow>
      (pub_step sha256)\<^sup>*\<^sup>* sys (sys\<lparr>ps_store := s', ps_phase := (ps_phase sys)(w := WorkerIdle)\<rparr>)"
    unfolding executes_def using assms(3) by (elim allE[of _ sys]) simp
  ultimately show ?thesis by simp
qed

definition atomic_run :: "('e, 'a, 's) txn" where
  "atomic_run body s = (case body s of Inl e \<Rightarrow> (Inl (OperationFailed e), s) | Inr (a, s') \<Rightarrow> (Inr a, s'))"

lemma atomic_run_atomic: "atomic_txn atomic_run"
  by (auto simp: atomic_txn_def atomic_run_def split: sum.splits)

definition demo_host :: pub_host where
  "demo_host = \<lparr>ph_mode = ReadWriteExisting, ph_claim = atomic_run, ph_prepare = atomic_run,
     ph_record = atomic_run, ph_candidate = atomic_run, ph_recover = atomic_run\<rparr>"

lemma demo_host_atomic: "atomic_pub_host demo_host"
  by (simp add: atomic_pub_host_def demo_host_def atomic_run_atomic)

text \<open>A world with a clock that reads one second, no entropy and a relay that accepts everything.\<close>

definition demo_world :: "unit pub_world" where
  "demo_world = \<lparr>pw_wall_clock = (\<lambda>w. (Some 1, w)), pw_fill_bytes = (\<lambda>w. (None, w)),
     pw_submit_exact = (\<lambda>_ w. (OutcomeAccepted, w))\<rparr>"

lemma demo_binding_from: "authority_binding_from (demo_authority m) = Some (demo_binding m)"
  by (simp add: authority_binding_from_def demo_authority_def demo_binding_def)

lemma demo_run:
  "run_pub_txn (ph_mode demo_host) atomic_run body s =
     (map_err map_pub_transaction_error (fst (atomic_run body s)), snd (atomic_run body s))"
  by (simp add: run_pub_txn_def demo_host_def pub_require_writable_def split_beta)

lemma demo_capabilities:
  "ph_claim demo_host = atomic_run" "ph_prepare demo_host = atomic_run" "ph_record demo_host = atomic_run"
  "ph_candidate demo_host = atomic_run" "pub_require_writable (ph_mode demo_host) = Inr ()"
  "pw_wall_clock demo_world = Pair (Some 1)" "pw_submit_exact demo_world = (\<lambda>_. Pair OutcomeAccepted)"
  by (simp_all add: demo_host_def demo_world_def pub_require_writable_def)

lemma demo_executed:
  "\<exists>commit s'. execute_next_publication demo_host demo_hash demo_world demo_owner (demo_authority 2)
     (demo_queued 2, ()) = (Inr (Some commit), s', ())"
proof -
  have cand: "read_expired_candidate demo_hash 1000 (demo_binding 2) (demo_queued 2) = Inr None"
    by (simp add: read_expired_candidate_def read_expired_outbox_def demo_queued_def pub_i64_value_def i64_of_u64_def i64_max_def)
  have out: "target_outcome_schedule (demo_input 2 OutcomeAccepted 0) = Inr (TargetAccepted, None)"
    by (simp add: target_outcome_schedule_def demo_input_def demo_lease_def)
  obtain ost s' where rec: "record_outcome demo_hash (demo_input 2 OutcomeAccepted 0) (demo_prepared 2) =
      Inr (commit_of_input (demo_input 2 OutcomeAccepted 0) TargetAccepted ost, s')"
    using demo_record[OF _ _ out] by auto
  have now: "publication_now (Some 1) = Inr 1000"
    using now_utc_milliseconds_iff[of "Some 1" 1000]
    by (simp add: publication_now_def publication_unix_ms_new_def i64_max_def)
  have p: "prepare_next_publication_target demo_host demo_hash (demo_lease 2) 1000 (demo_claimed 2) =
      (Inr (demo_attempt 2), demo_prepared 2)"
    using demo_prepare[of 2] by (simp add: prepare_next_publication_target_def demo_capabilities demo_run atomic_run_def)
  have c: "claim_next_publication demo_host demo_hash demo_owner 1000 (demo_authority 2) (demo_queued 2) =
      (Inr (Some (demo_lease 2)), demo_claimed 2)"
    using demo_claim[of 2] by (simp add: claim_next_publication_def demo_capabilities demo_run atomic_run_def demo_binding_from)
  have x: "recover_one_expired_publication demo_host demo_hash demo_world 1000 (demo_authority 2) (demo_queued 2, ()) =
      (Inr False, demo_queued 2, ())"
    using cand by (simp add: recover_one_expired_publication_def demo_capabilities demo_run atomic_run_def demo_binding_from)
  have o: "record_publication_outcome demo_host demo_hash (demo_attempt 2) 1000 OutcomeAccepted 0 (demo_prepared 2) =
      (Inr (commit_of_input (demo_input 2 OutcomeAccepted 0) TargetAccepted ost), s')"
    using rec demo_record_input[of OutcomeAccepted 2 0]
    by (simp add: record_publication_outcome_def demo_capabilities demo_run atomic_run_def)
  show ?thesis
    by (simp add: execute_next_publication_def submit_and_record_def demo_capabilities(6,7) now[simplified] x c p o observed_outcome_def)
qed

theorem executor_refines_machine_witness:
  "\<exists>commit s'. execute_next_publication demo_host demo_hash demo_world demo_owner (demo_authority 2)
       (demo_queued 2, ()) = (Inr (Some commit), s', ())
     \<and> (pub_step demo_hash)\<^sup>*\<^sup>* (demo_sys (demo_queued 2) WorkerIdle) ((demo_sys (demo_queued 2) WorkerIdle)\<lparr>ps_store := s'\<rparr>)"
proof -
  obtain commit s' where e: "execute_next_publication demo_host demo_hash demo_world demo_owner (demo_authority 2)
       (demo_queued 2, ()) = (Inr (Some commit), s', ())"
    using demo_executed by blast
  have "(pub_step demo_hash)\<^sup>*\<^sup>* (demo_sys (demo_queued 2) WorkerIdle) ((demo_sys (demo_queued 2) WorkerIdle)\<lparr>ps_store := s'\<rparr>)"
    by (rule executor_refines_machine[OF demo_host_atomic demo_owner_ok, where w = 0])
      (use e in \<open>simp_all add: demo_sys_def\<close>)
  with e show ?thesis by blast
qed

section \<open>Single operations\<close>

text \<open>
  A claim serves the publication that has been due longest: the lease is on a pending, due outbox
  that no other due outbox precedes in the order of due time, creation time and identity, it expires
  after the attempt deadline of that outbox, and only that outbox changes; when nothing is claimed,
  nothing is due and nothing changes.
\<close>

theorem claim_serves_earliest:
  assumes "pub_reach sha256 sys" and "pub_owner_ok owner"
    and "claim_next_outbox sha256 owner now authority (ps_store sys) = Inr (res, s')"
  shows "case res of
     None \<Rightarrow> s' = ps_store sys \<and> filter (due_outbox (int now)) (outboxes (ps_store sys)) = []
   | Some lease \<Rightarrow> (\<exists>r. outbox_at (ox_id (pl_outbox lease)) (ps_store sys) = Some r \<and> due_outbox (int now) r
       \<and> (\<forall>x \<in> set (outboxes (ps_store sys)). due_outbox (int now) x \<longrightarrow> outbox_order r \<le> outbox_order x)
       \<and> pl_owner lease = owner \<and> pl_expires_at lease = now + nat (ob_attempt_deadline_ms r)
       \<and> s' = (ps_store sys)\<lparr>outboxes := replace_row ob_outbox_id
           (claim_outbox_set owner (int (pl_expires_at lease)) (int now) r) (outboxes (ps_store sys))\<rparr>)"
proof -
  have inv: "pub_inv sha256 (ps_store sys)" using pub_reach_inv[OF assms(1)] by (simp add: pub_sys_inv_def)
  show ?thesis
    by (rule claim_next_outboxE[OF inv assms(2,3)]) auto
qed

theorem claim_serves_earliest_witness:
  "pl_expires_at (demo_lease 2) = 1000 + nat (ob_attempt_deadline_ms (demo_row 2))
   \<and> due_outbox 1000 (demo_row 2)"
  using claim_serves_earliest[OF demo_reach_queued[of 2] demo_owner_ok, of 1000 "demo_binding 2" "Some (demo_lease 2)" "demo_claimed 2"]
    demo_claim[of 2]
  by (simp add: demo_sys_def demo_lease_def due_outbox_def)

text \<open>
  C23.  Work that is due is attempted: when an outbox is due, its authority is the configured one and one
  of its targets is due, the executor's claim leases it and its prepare hands out the first due target
  as a submitted attempt, as long as the clock has not gone back and no counter is exhausted.
\<close>

theorem due_publication_attempted:
  assumes reach: "pub_reach sha256 sys" and owner: "pub_owner_ok owner"
    and len: "\<And>b. length (sha256 b) = 32"
    and r: "select_min outbox_order (filter (due_outbox (int now)) (outboxes (ps_store sys))) = Some r"
    and auth: "validate_authority (outbox_of_row r) authority = Inr ()"
    and t: "find (due_target r (int now)) (target_rows (ob_outbox_id r) (ps_store sys)) = Some t"
    and time: "ob_updated_at_unix_ms r \<le> int now" "tg_updated_at_unix_ms t \<le> int now"
      "now + nat (ob_attempt_deadline_ms r) \<le> i64_max"
    and rev: "ob_revision r < sql_i64_max" "tg_revision t < sql_i64_max"
  shows "\<exists>lease s1 p s2. claim_next_outbox sha256 owner now authority (ps_store sys) = Inr (Some lease, s1)
    \<and> prepare_next sha256 lease now s1 = Inr (p, s2)
    \<and> ox_id (pl_outbox lease) = ob_outbox_id r \<and> tr_ordinal (pp_target p) = nat (tg_target_ordinal t)
    \<and> tr_state (pp_target p) = TargetSubmitted
    \<and> tr_attempt_count (pp_target p) = nat (tg_attempt_count t + 1)"
proof -
  let ?s = "ps_store sys" and ?k = "ob_outbox_id r"
  have inv: "pub_inv sha256 ?s" using pub_reach_inv[OF reach] by (simp add: pub_sys_inv_def)
  define e where "e = now + nat (ob_attempt_deadline_ms r)"
  define r' where "r' = claim_outbox_set owner (int e) (int now) r"
  define lease where "lease = \<lparr>pl_outbox = outbox_of_row r', pl_owner = owner, pl_expires_at = e\<rparr>"
  define s1 where "s1 = ?s\<lparr>outboxes := replace_row ob_outbox_id r' (outboxes ?s)\<rparr>"
  have e: "e \<le> i64_max" using time(3) by (simp add: e_def)
  have claim: "claim_next_outbox sha256 owner now authority ?s = Inr (Some lease, s1)"
    unfolding lease_def s1_def by (rule claim_success[OF inv owner r auth e_def e time(1) rev(1) r'_def])
  have mem: "r \<in> set (outboxes ?s)" using select_min_SomeD(1)[OF r] by simp
  have at: "outbox_at ?k ?s = Some r" using select_key_distinct[OF pub_invD(5)[OF inv] mem] .
  have r's: "ob_outbox_id r' = ?k" "ob_state r' = ''leased''" "ob_lease_owner r' = Some owner"
    "ob_lease_expires_unix_ms r' = Some (int e)" "ob_max_attempts r' = ob_max_attempts r"
    by (simp_all add: r'_def claim_outbox_set_def)
  have at': "outbox_at (ob_outbox_id r') s1 = Some r'"
    using outbox_at_replaced[of r' ?s r] at by (simp add: s1_def r's(1))
  have inv': "pub_inv sha256 s1" by (rule claim_next_outboxE[OF inv owner claim]) simp_all
  have f: "find (due_target r' (int now)) (target_rows (ob_outbox_id r') s1) = Some t"
  proof -
    have "due_target r' = due_target r" by (simp add: due_target_def[abs_def] r's(5))
    moreover have "target_rows ?k s1 = target_rows ?k ?s" by (simp add: s1_def target_rows_def)
    ultimately show ?thesis using t by (simp add: r's(1))
  qed
  have lt: "now < e" using outbox_row_okD(9)[OF pub_inv_outbox(1)[OF inv at]] by (simp add: e_def)
  obtain p s2 where p: "prepare_next sha256 lease now s1 = Inr (p, s2)"
    "pp_target p = target_of_row (prepare_target_set
       (attempt_id_of sha256 r' (tg_target_ordinal t) (tg_attempt_count t + 1)) (int now) t)"
    using prepare_success[OF inv' at' _ r's(2) _ _ _ f time(2) rev(2) len refl refl, of lease] lt
    by (auto simp: lease_def r's(3,4))
  show ?thesis
    using claim p by (auto simp: lease_def r's(1) prepare_target_set_def target_state_of_def)
qed

theorem due_publication_attempted_witness:
  "\<exists>lease s1 p s2. claim_next_outbox demo_hash demo_owner 1000 (demo_binding 2) (demo_queued 2) = Inr (Some lease, s1)
    \<and> prepare_next demo_hash lease 1000 s1 = Inr (p, s2) \<and> tr_attempt_count (pp_target p) = 1"
proof -
  have sel: "select_min outbox_order (filter (due_outbox 1000) (outboxes (demo_queued 2))) = Some (demo_row 2)"
    by (simp add: demo_queued_def due_outbox_def)
  have f: "find (due_target (demo_row 2) 1000) (target_rows (replicate 32 7) (demo_queued 2)) = Some demo_target"
    by (simp add: due_target_def target_state_of_def)
  show ?thesis
    using due_publication_attempted[OF demo_reach_queued[of 2] demo_owner_ok, of 1000 "demo_row 2" "demo_binding 2" demo_target]
      sel f demo_authority_valid[of 2]
    by (auto simp: demo_sys_def demo_hash_def i64_max_def)
qed

end
