(* ===== verification/Publication_Outcomes.thy ===== *)
theory Publication_Outcomes
  imports Publication_Props
begin

text \<open>
  What happens to an attempt after it was handed out: its outcome is recorded once, a lease that is no
  longer current can record nothing, an expired lease is recovered, and the cases where an outcome or a
  manual retry is lost.
\<close>

section \<open>Recording\<close>

text \<open>
  Recording is idempotent: repeating a recording that took effect, as after a commit whose result
  was lost, returns the same commit and changes nothing.
\<close>

theorem outcome_recorded_once:
  assumes "pub_reach sha256 sys" and "record_outcome sha256 input (ps_store sys) = Inr (commit, s')"
  shows "record_outcome sha256 input s' = Inr (commit, s')"
  using record_idempotent[OF _ assms(2)] pub_reach_inv[OF assms(1)] by (simp add: pub_sys_inv_def)

theorem outcome_recorded_once_witness:
  "\<exists>commit s'. record_outcome demo_hash (demo_input 2 OutcomeAccepted 0) (demo_prepared 2) = Inr (commit, s')
    \<and> record_outcome demo_hash (demo_input 2 OutcomeAccepted 0) s' = Inr (commit, s')"
proof -
  have out: "target_outcome_schedule (demo_input 2 OutcomeAccepted 0) = Inr (TargetAccepted, None)"
    by (simp add: target_outcome_schedule_def demo_input_def demo_lease_def)
  obtain commit s' where "record_outcome demo_hash (demo_input 2 OutcomeAccepted 0) (demo_prepared 2) = Inr (commit, s')"
    using demo_record[OF _ _ out] by auto
  then show ?thesis
    using outcome_recorded_once[OF demo_reach_prepared[of 2], of "demo_input 2 OutcomeAccepted 0" commit s']
    by (auto simp: demo_sys_def)
qed

text \<open>
  A lease that is not the current one of its outbox, or that has expired, has no effect: it
  prepares nothing and records no new outcome, and the error says that the lease is lost.
\<close>

theorem stale_publication_lease_rejected:
  assumes reach: "pub_reach sha256 sys"
    and stale: "\<not> (\<exists>r. outbox_at (ox_id (pl_outbox lease)) (ps_store sys) = Some r
        \<and> pl_outbox lease = outbox_of_row r \<and> ob_state r = ''leased''
        \<and> ob_lease_owner r = Some (pl_owner lease)
        \<and> ob_lease_expires_unix_ms r = Some (int (pl_expires_at lease)) \<and> now < pl_expires_at lease)"
    and new: "select_key at_attempt_id (ri_attempt_id input) (attempts (ps_store sys)) = None"
    and input: "ri_lease input = lease" "ri_finished_at input = now"
  shows "prepare_next sha256 lease now (ps_store sys) = Inl PubLeaseLost
    \<and> record_outcome sha256 input (ps_store sys) = Inl PubLeaseLost"
proof -
  have inv: "pub_inv sha256 (ps_store sys)" using pub_reach_inv[OF reach] by (simp add: pub_sys_inv_def)
  have "pub_validate_lease lease now True (ps_store sys) \<noteq> Inr ()"
    using stale by (simp add: pub_validate_lease_iff[OF inv])
  then have "pub_validate_lease lease now True (ps_store sys) = Inl PubLeaseLost"
    using pub_validate_lease_cases[OF inv] by blast
  then show ?thesis using new input by (simp add: prepare_next_def record_outcome_def read_attempt_inv[OF inv])
qed

theorem stale_publication_lease_rejected_witness:
  "prepare_next demo_hash (demo_lease 2) 6000 (demo_prepared 2) = Inl PubLeaseLost
   \<and> record_outcome demo_hash ((demo_input 2 OutcomeAccepted 0)\<lparr>ri_finished_at := 6000\<rparr>) (demo_prepared 2) = Inl PubLeaseLost"
  using stale_publication_lease_rejected[OF demo_reach_prepared[of 2], of "demo_lease 2" 6000
      "(demo_input 2 OutcomeAccepted 0)\<lparr>ri_finished_at := 6000\<rparr>"]
  by (simp add: demo_sys_def demo_input_def demo_lease_def select_key_def[of at_attempt_id])

section \<open>Recovery\<close>

text \<open>
  C22.  An expired lease is recovered: whatever its holder was doing, recovery returns, takes the outbox
  out of the leased state and leaves nothing of it in flight, for every retry delay within the bound,
  as long as the clock has not gone back and the attempt in flight has no evidence yet.
\<close>

theorem expired_lease_recovered:
  assumes reach: "pub_reach sha256 sys"
    and at: "outbox_at k (ps_store sys) = Some r" and leased: "ob_state r = ''leased''"
    and cand: "rc_outbox candidate = outbox_of_row r"
    and exp: "ob_lease_expires_unix_ms r = Some e" "e \<le> int now"
    and time: "ob_updated_at_unix_ms r \<le> int now" "now \<le> i64_max" and rev: "ob_revision r < sql_i64_max"
    and sub: "\<And>t. t \<in> set (target_rows k (ps_store sys)) \<Longrightarrow> is_submitted t \<Longrightarrow>
        tg_updated_at_unix_ms t \<le> int now \<and> tg_revision t < sql_i64_max
      \<and> select_key at_attempt_id (the (tg_last_attempt_id t)) (attempts (ps_store sys)) = None
      \<and> (if nat (tg_attempt_count t) < nat (ob_max_attempts r)
         then delay \<le> retry_upper_bound (outbox_of_row r) (nat (tg_attempt_count t)) \<and> now + delay \<le> i64_max
         else delay = 0)"
  shows "\<exists>s' r'. recover_expired sha256 candidate now delay (ps_store sys) = Inr (True, s')
    \<and> outbox_at k s' = Some r' \<and> ob_state r' \<noteq> ''leased'' \<and> ob_lease_owner r' = None
    \<and> filter is_submitted (target_rows k s') = []"
proof -
  have inv: "pub_inv sha256 (ps_store sys)" and sch: "pub_sched sha256 (ps_store sys)"
    using pub_reach_inv[OF reach] by (simp_all add: pub_sys_inv_def)
  have k: "ob_outbox_id r = k" using pub_inv_outbox(4)[OF inv at] .
  have at': "outbox_at (ob_outbox_id r) (ps_store sys) = Some r" using at k by simp
  obtain s' where s': "recover_expired sha256 candidate now delay (ps_store sys) = Inr (True, s')"
    using recover_success[OF inv sch at' leased cand exp time rev, of delay] sub k by auto
  have idle: "idle k s'" using pub_sched_recover(3)[OF inv sch s'] by (simp add: cand k)
  have "\<exists>r'. outbox_at k s' = Some r' \<and> ob_state r' \<noteq> ''leased'' \<and> ob_lease_owner r' = None"
  proof (rule recover_expiredE[OF inv s'])
    fix x owner e s1 d
    assume x: "outbox_at (ob_outbox_id x) (ps_store sys) = Some x" "rc_outbox candidate = outbox_of_row x"
      and d: "disposition sha256 (outbox_of_row x) (targets_of (ob_outbox_id x) s1) = Inr d"
      and st: "s' = s1\<lparr>outboxes := replace_row ob_outbox_id (released_row d now x) (outboxes (ps_store sys))\<rparr>"
      and ob1: "outboxes s1 = outboxes (ps_store sys)"
    have id: "ob_outbox_id x = k" 
      using arg_cong[OF trans[OF x(2)[symmetric] cand], of ox_id] k by simp
    have "outbox_at k s' = Some (released_row d now x)"
      using outbox_at_replaced[of "released_row d now x" s1 x] x(1) st ob1 id by simp
    moreover have "od_state d \<noteq> OutboxLeased"
      using d by (auto simp: disposition_def Let_def ok_or_def split: if_splits option.splits)
    ultimately show ?thesis by (cases "od_state d") auto
  qed
  with s' idle show ?thesis by (auto simp: idle_def)
qed

theorem expired_lease_recovered_witness:
  "\<exists>s' r'. recover_expired demo_hash \<lparr>rc_outbox = outbox_of_row (demo_leased_row 2), rc_retry_upper_bound = 1000\<rparr>
       6000 500 (demo_prepared 2) = Inr (True, s')
    \<and> outbox_at (replicate 32 7) s' = Some r' \<and> ob_state r' \<noteq> ''leased''"
proof -
  have b: "retry_upper_bound (outbox_of_row (demo_leased_row 2)) 1 = 1000"
    by (simp add: retry_upper_bound_def demo_leased_row_def claim_outbox_set_def demo_row_def queued_outbox_row_def demo_required_def)
  show ?thesis
    using expired_lease_recovered[OF demo_reach_prepared[of 2], of "replicate 32 7" "demo_leased_row 2"
        "\<lparr>rc_outbox = outbox_of_row (demo_leased_row 2), rc_retry_upper_bound = 1000\<rparr>" 6000 6000 500] b[simplified]
    by (auto simp: demo_sys_def i64_max_def select_key_def[of at_attempt_id] simp del: set_target_rows)
qed

section \<open>The retry schedule\<close>

text \<open>
  C29.  The doubling loop computes the capped exponential: for the backoffs every outbox row admits, the
  bound before attempt \<open>n + 1\<close> is the initial backoff doubled \<open>n - 1\<close> times, capped at the maximum, and
  saturation of the product is never reached.
\<close>

theorem publication_backoff_exponential:
  assumes "pub_reach sha256 sys" and "outbox_at k (ps_store sys) = Some r"
  shows "int (retry_upper_bound (outbox_of_row r) n) = min (ob_initial_backoff_ms r * 2 ^ (n - 1)) (ob_maximum_backoff_ms r)"
proof -
  have inv: "pub_inv sha256 (ps_store sys)" using pub_reach_inv[OF assms(1)] by (simp add: pub_sys_inv_def)
  have c: "outbox_row_check r" using pub_inv_outbox(1)[OF inv assms(2)] by (simp add: outbox_row_ok_def)
  have b: "0 \<le> ob_initial_backoff_ms r" "ob_initial_backoff_ms r \<le> ob_maximum_backoff_ms r" "ob_maximum_backoff_ms r \<le> 3600000"
    using c by (auto simp: outbox_row_check_def)
  have "retry_upper_bound (outbox_of_row r) n =
      min (nat (ob_initial_backoff_ms r) * 2 ^ (n - 1)) (nat (ob_maximum_backoff_ms r))"
    using retry_upper_bound_eq[of "outbox_of_row r"] b by simp
  then show ?thesis using b by (simp add: of_nat_min)
qed

theorem publication_backoff_exponential_witness:
  "int (retry_upper_bound (outbox_of_row (demo_row 2)) 4) = 8000"
  using publication_backoff_exponential[OF demo_reach_queued[of 2], of "replicate 32 7" "demo_row 2" 4]
  by (simp add: demo_sys_def) (simp add: demo_row_def queued_outbox_row_def demo_required_def)

section \<open>Lost outcomes\<close>

text \<open>
  C24.  The outcome of the last permitted attempt cannot be recorded with a retry delay: recording fails
  and changes nothing, so a retryable reply to the last attempt, for which the executor draws a delay
  all the same, is dropped unless the delay happens to be zero.
\<close>

theorem last_attempt_outcome_dropped:
  assumes host: "atomic_pub_host host" and reach: "pub_reach sha256 sys"
    and new: "select_key at_attempt_id (pp_attempt_id p) (attempts (ps_store sys)) = None"
    and last: "tr_attempt_count (pp_target p) = ox_max_attempts (pl_outbox (pp_lease p))" and delay: "0 < delay"
  shows "\<exists>e. record_publication_outcome host sha256 p finished outcome delay (ps_store sys) = (Inl e, ps_store sys)"
proof -
  let ?s = "ps_store sys"
  have inv: "pub_inv sha256 ?s" using pub_reach_inv[OF reach] by (simp add: pub_sys_inv_def)
  show ?thesis
  proof (cases "pub_require_writable (ph_mode host)")
    case (Inl e)
    then show ?thesis by (simp add: record_publication_outcome_def)
  next
    case writable: (Inr u)
    show ?thesis
    proof (cases "record_input_from_prepared sha256 p finished outcome delay")
      case (Inl e)
      with writable show ?thesis by (simp add: record_publication_outcome_def)
    next
      case (Inr input)
      then have i: "ri_attempt_id input = pp_attempt_id p" "ri_lease input = pp_lease p" "ri_retry_delay input = delay"
        "ri_attempt_number input = tr_attempt_count (pp_target p)" "ri_outcome input = outcome" "outcome \<noteq> OutcomeSubmitted"
        by (auto simp: record_input_from_prepared_def split: if_splits)
      obtain e where "record_outcome sha256 input ?s = Inl e"
        using record_last_attempt_rejected[OF inv, of input] new last delay i by auto
      moreover obtain r s' where t: "run_pub_txn (ph_mode host) (ph_record host) (record_outcome sha256 input) ?s = (r, s')"
        by (cases "run_pub_txn (ph_mode host) (ph_record host) (record_outcome sha256 input) ?s")
      moreover have "atomic_txn (ph_record host)" using host by (simp add: atomic_pub_host_def)
      ultimately show ?thesis
        using run_pub_txn_cases[OF _ t] writable Inr by (auto simp: record_publication_outcome_def)
    qed
  qed
qed

theorem last_attempt_outcome_dropped_witness:
  "\<exists>e. record_publication_outcome demo_host demo_hash (demo_attempt 1) 1000 OutcomeFailed 700 (demo_prepared 1) =
     (Inl e, demo_prepared 1)"
  using last_attempt_outcome_dropped[OF demo_host_atomic demo_reach_prepared[of 1], of "demo_attempt 1" 700 1000 OutcomeFailed]
  by (simp add: demo_sys_def select_key_def[of at_attempt_id]) (simp add: demo_attempt_def demo_lease_def)

end
