(* ===== verification/Catalog_Evidence.thy ===== *)
theory Catalog_Evidence
  imports Reconciliation_Job
begin

text \<open>
  The evidence tables of the state catalog: \<open>trade_mutations\<close>, \<open>nostr_events\<close> and
  \<open>relay_observations\<close>, which their triggers make append-only, and the compare-and-swap table
  \<open>relay_checkpoints\<close>.  The locale \<open>append_table\<close> is the contract of an append-only table whose rows
  are inserted with \<open>ON CONFLICT DO NOTHING\<close>.
\<close>

section \<open>Rows\<close>

record mutation_row =
  mu_mutation_id :: bytes
  mu_trade_id :: bytes
  mu_contract_id :: string
  mu_schema_version :: int
  mu_event_kind :: int
  mu_author_pubkey :: bytes
  mu_canonical_content :: bytes

record nostr_row =
  ne_event_id :: bytes
  ne_event_signature :: bytes
  ne_mutation_id :: bytes
  ne_author_pubkey :: bytes
  ne_event_kind :: int
  ne_authored_at_unix_s :: int
  ne_canonical_event_json :: bytes

record observation_row =
  ro_source_id :: string
  ro_selector_id :: string
  ro_evidence_policy_sha256 :: bytes
  ro_event_id :: bytes
  ro_event_signature :: bytes
  ro_observed_at_unix_s :: int

record checkpoint_row =
  ck_source_id :: string
  ck_selector_id :: string
  ck_evidence_policy_sha256 :: bytes
  ck_trade_id :: bytes
  ck_cursor_created_at_unix_s :: int
  ck_cursor_event_id :: bytes
  ck_revision :: int
  ck_completed_at_unix_s :: int

type_synonym observation_scope = "string \<times> string \<times> bytes \<times> bytes \<times> bytes \<times> int"

type_synonym checkpoint_scope = "string \<times> string \<times> bytes \<times> bytes"

definition nostr_key :: "nostr_row \<Rightarrow> bytes \<times> bytes" where
  "nostr_key r = (ne_event_id r, ne_event_signature r)"

definition observation_key :: "observation_row \<Rightarrow> observation_scope" where
  "observation_key r = (ro_source_id r, ro_selector_id r, ro_evidence_policy_sha256 r, ro_event_id r,
     ro_event_signature r, ro_observed_at_unix_s r)"

definition checkpoint_key :: "checkpoint_row \<Rightarrow> checkpoint_scope" where
  "checkpoint_key r = (ck_source_id r, ck_selector_id r, ck_evidence_policy_sha256 r, ck_trade_id r)"

section \<open>Constraints\<close>

definition contract_ids :: "string list" where
  "contract_ids = [''radroots.trade.proposal.v1'', ''radroots.trade.decision.v1'',
     ''radroots.trade.revision_proposal.v1'', ''radroots.trade.revision_decision.v1'',
     ''radroots.trade.cancellation.v1'']"

definition mutation_kinds :: "int list" where
  "mutation_kinds = [3470, 3471, 3472, 3473, 3474]"

definition mutation_row_check :: "mutation_row \<Rightarrow> bool" where
  "mutation_row_check r \<longleftrightarrow>
     length (mu_mutation_id r) = 32
   \<and> length (mu_trade_id r) = 16
   \<and> mu_contract_id r \<in> set contract_ids
   \<and> mu_schema_version r = 1
   \<and> mu_event_kind r \<in> set mutation_kinds
   \<and> length (mu_author_pubkey r) = 32
   \<and> 1 \<le> length (mu_canonical_content r) \<and> length (mu_canonical_content r) \<le> 131072"

definition nostr_row_check :: "nostr_row \<Rightarrow> bool" where
  "nostr_row_check r \<longleftrightarrow>
     length (ne_event_id r) = 32
   \<and> length (ne_event_signature r) = 64
   \<and> length (ne_mutation_id r) = 32
   \<and> length (ne_author_pubkey r) = 32
   \<and> ne_event_kind r \<in> set mutation_kinds
   \<and> 0 \<le> ne_authored_at_unix_s r \<and> ne_authored_at_unix_s r \<le> sql_i64_max
   \<and> 1 \<le> length (ne_canonical_event_json r) \<and> length (ne_canonical_event_json r) \<le> 524288"

text \<open>The class \<open>[a-z0-9_-]\<close> of the \<open>GLOB\<close> patterns, and the three checks on a source identity.\<close>

definition ascii_lowercase :: "char \<Rightarrow> bool" where
  "ascii_lowercase c \<longleftrightarrow> 97 \<le> (of_char c :: nat) \<and> (of_char c :: nat) \<le> 122"

definition ascii_digit :: "char \<Rightarrow> bool" where
  "ascii_digit c \<longleftrightarrow> 48 \<le> (of_char c :: nat) \<and> (of_char c :: nat) \<le> 57"

definition source_id_char :: "char \<Rightarrow> bool" where
  "source_id_char c \<longleftrightarrow> ascii_lowercase c \<or> ascii_digit c \<or> c = CHR ''_'' \<or> c = CHR ''-''"

definition source_id_check :: "string \<Rightarrow> bool" where
  "source_id_check s \<longleftrightarrow>
     1 \<le> length s \<and> length s \<le> 64 \<and> list_all source_id_char s
   \<and> (case s of [] \<Rightarrow> False | c # _ \<Rightarrow> ascii_lowercase c)"

definition SOURCE_SELECTOR :: string where
  "SOURCE_SELECTOR = ''trade_mutation_lineage_v1''"

definition observation_row_check :: "observation_row \<Rightarrow> bool" where
  "observation_row_check r \<longleftrightarrow>
     source_id_check (ro_source_id r)
   \<and> ro_selector_id r = ''trade_mutation_lineage_v1''
   \<and> length (ro_evidence_policy_sha256 r) = 32
   \<and> length (ro_event_id r) = 32
   \<and> length (ro_event_signature r) = 64
   \<and> 1 \<le> ro_observed_at_unix_s r \<and> ro_observed_at_unix_s r \<le> sql_i64_max"

definition checkpoint_row_check :: "checkpoint_row \<Rightarrow> bool" where
  "checkpoint_row_check r \<longleftrightarrow>
     source_id_check (ck_source_id r)
   \<and> ck_selector_id r = ''trade_mutation_lineage_v1''
   \<and> length (ck_evidence_policy_sha256 r) = 32
   \<and> length (ck_trade_id r) = 16
   \<and> 0 \<le> ck_cursor_created_at_unix_s r \<and> ck_cursor_created_at_unix_s r \<le> sql_i64_max
   \<and> length (ck_cursor_event_id r) = 32
   \<and> 1 \<le> ck_revision r \<and> ck_revision r \<le> sql_i64_max
   \<and> 1 \<le> ck_completed_at_unix_s r \<and> ck_completed_at_unix_s r \<le> sql_i64_max"

definition checkpoints_valid :: "checkpoint_row list \<Rightarrow> bool" where
  "checkpoints_valid rows \<longleftrightarrow> list_all checkpoint_row_check rows \<and> distinct (map checkpoint_key rows)"

text \<open>The trigger \<open>relay_checkpoints_guard_update\<close> lets this update through.\<close>

definition checkpoint_guard :: "checkpoint_row \<Rightarrow> checkpoint_row \<Rightarrow> bool" where
  "checkpoint_guard old new \<longleftrightarrow>
     ck_source_id new = ck_source_id old
   \<and> ck_selector_id new = ck_selector_id old
   \<and> ck_evidence_policy_sha256 new = ck_evidence_policy_sha256 old
   \<and> ck_trade_id new = ck_trade_id old
   \<and> ck_revision new = ck_revision old + 1
   \<and> ck_completed_at_unix_s old \<le> ck_completed_at_unix_s new
   \<and> ck_cursor_created_at_unix_s old \<le> ck_cursor_created_at_unix_s new
   \<and> \<not> (ck_cursor_created_at_unix_s new = ck_cursor_created_at_unix_s old
        \<and> ck_cursor_event_id new \<le> ck_cursor_event_id old)"

section \<open>Append-only tables\<close>

text \<open>
  \<open>INSERT ... ON CONFLICT (key) DO NOTHING\<close>: the checks come first, then the key, and a foreign key
  is checked for the row that was inserted.  The number is \<open>rows_affected\<close>.
\<close>

definition sql_insert_ignore ::
  "('r \<Rightarrow> bool) \<Rightarrow> ('r \<Rightarrow> bool) \<Rightarrow> ('r \<Rightarrow> 'k) \<Rightarrow> 'r \<Rightarrow> 'r list \<Rightarrow> ('r list \<times> nat) option" where
  "sql_insert_ignore check references key r rows =
     (if \<not> check r then None
      else if key r \<in> key ` set rows then Some (rows, 0)
      else if \<not> references r then None
      else Some (rows @ [r], 1))"

locale append_table =
  fixes check :: "'r \<Rightarrow> bool" and key :: "'r \<Rightarrow> 'k"
    and insert :: "'r \<Rightarrow> 'r list \<Rightarrow> ('r list \<times> nat) option"
  assumes insert_checked: "insert r rows = Some (rows', n) \<Longrightarrow> check r"
    and insert_known: "insert r rows = Some (rows', n) \<Longrightarrow> key r \<in> key ` set rows \<Longrightarrow> rows' = rows \<and> n = 0"
    and insert_fresh: "insert r rows = Some (rows', n) \<Longrightarrow> key r \<notin> key ` set rows \<Longrightarrow> rows' = rows @ [r] \<and> n = 1"
    and insert_again: "check r \<Longrightarrow> key r \<in> key ` set rows \<Longrightarrow> insert r rows = Some (rows, 0)"
begin

lemma insert_cases:
  assumes "insert r rows = Some (rows', n)"
  obtains (known) "key r \<in> key ` set rows" "rows' = rows" "n = 0"
    | (fresh) "key r \<notin> key ` set rows" "rows' = rows @ [r]" "n = 1"
  using insert_known[OF assms] insert_fresh[OF assms] by blast

lemma insert_prefix: "insert r rows = Some (rows', n) \<Longrightarrow> \<exists>new. rows' = rows @ new"
  by (erule insert_cases) auto

lemma insert_count: "insert r rows = Some (rows', n) \<Longrightarrow> length rows' = length rows + n \<and> n \<le> 1"
  by (erule insert_cases) auto

lemma insert_distinct:
  "insert r rows = Some (rows', n) \<Longrightarrow> distinct (map key rows) \<Longrightarrow> distinct (map key rows')"
  by (erule insert_cases) auto

lemma insert_all:
  "insert r rows = Some (rows', n) \<Longrightarrow> list_all check rows \<Longrightarrow> list_all check rows'"
  by (frule insert_checked, erule insert_cases) auto

lemma insert_present: "insert r rows = Some (rows', n) \<Longrightarrow> key r \<in> key ` set rows'"
  by (erule insert_cases) auto

text \<open>A second insertion with the same key is accepted and changes nothing.\<close>

lemma insert_idempotent: "insert r rows = Some (rows', n) \<Longrightarrow> insert r rows' = Some (rows', 0)"
  using insert_present insert_checked insert_again by blast

text \<open>What a key selects stays what it selects.\<close>

lemma insert_stable:
  "insert r rows = Some (rows', n) \<Longrightarrow> select_key key k rows = Some x \<Longrightarrow> select_key key k rows' = Some x"
  by (erule insert_cases) (auto simp: select_key_append)

lemma insert_select:
  assumes "insert r rows = Some (rows', 1)"
  shows "select_key key (key r) rows' = Some r"
  using assms
proof (cases rule: insert_cases[consumes 1])
  case fresh
  then have "select_key key (key r) rows = None" by (simp add: select_key_None_iff)
  with fresh show ?thesis by (simp add: select_key_snoc)
qed simp

end

lemma sql_insert_ignore_table:
  "append_table check key (sql_insert_ignore check references key)"
  by unfold_locales (auto simp: sql_insert_ignore_def split: if_splits)

definition insert_mutation_row :: "mutation_row \<Rightarrow> mutation_row list \<Rightarrow> (mutation_row list \<times> nat) option" where
  "insert_mutation_row = sql_insert_ignore mutation_row_check (\<lambda>_. True) mu_mutation_id"

definition insert_nostr_row ::
  "mutation_row list \<Rightarrow> nostr_row \<Rightarrow> nostr_row list \<Rightarrow> (nostr_row list \<times> nat) option" where
  "insert_nostr_row ms =
     sql_insert_ignore nostr_row_check (\<lambda>r. ne_mutation_id r \<in> mu_mutation_id ` set ms) nostr_key"

definition insert_observation_row ::
  "nostr_row list \<Rightarrow> observation_row \<Rightarrow> observation_row list \<Rightarrow> (observation_row list \<times> nat) option" where
  "insert_observation_row es =
     sql_insert_ignore observation_row_check
       (\<lambda>r. (ro_event_id r, ro_event_signature r) \<in> nostr_key ` set es) observation_key"

interpretation mutation_table: append_table mutation_row_check mu_mutation_id insert_mutation_row
  unfolding insert_mutation_row_def by (rule sql_insert_ignore_table)

interpretation nostr_table: append_table nostr_row_check nostr_key "insert_nostr_row ms" for ms
  unfolding insert_nostr_row_def by (rule sql_insert_ignore_table)

interpretation observation_table: append_table observation_row_check observation_key "insert_observation_row es" for es
  unfolding insert_observation_row_def by (rule sql_insert_ignore_table)

interpretation checkpoint_table: cas_table checkpoint_key ck_revision checkpoint_guard checkpoints_valid
  by unfold_locales (auto simp: checkpoint_guard_def checkpoint_key_def checkpoints_valid_def)

section \<open>The store\<close>

text \<open>The evidence tables beside the dirty generations and the jobs.\<close>

record evidence_store = job_store +
  mutation_rows :: "mutation_row list"
  nostr_rows :: "nostr_row list"
  observation_rows :: "observation_row list"
  checkpoint_rows :: "checkpoint_row list"

end
