(* ===== verification/State_Metadata.thy ===== *)
theory State_Metadata
  imports Publication_Authority Sql_Table
begin

text \<open>
  The digest of the evidence policy of \<open>src/src/state_metadata.rs\<close>: the normalized policy value is
  built from the configuration document and hashed behind a domain.  Every durable evidence fact is
  scoped by this digest.  The accessors on the document are those of \<open>json_view\<close>; the encoding of a
  JSON value and SHA-256 are parameters.
\<close>

datatype metadata_error = MetadataProfile | MetadataPaths | MetadataConfiguration | MetadataEvidencePolicy
  | MetadataIdentity | MetadataDatabase | MetadataInvariant

text \<open>The values \<open>json!\<close> builds.\<close>

datatype json_value = JBool bool | JNumber nat | JString string | JArray "json_value list"
  | JObject "(string \<times> json_value) list"

definition metadata_string :: "'v json_view \<Rightarrow> 'v \<Rightarrow> string \<Rightarrow> (metadata_error, string) result" where
  "metadata_string view value pointer =
     ok_or MetadataEvidencePolicy (Option.bind (jv_pointer view value pointer) (jv_as_str view))"

definition metadata_integer :: "'v json_view \<Rightarrow> 'v \<Rightarrow> string \<Rightarrow> (metadata_error, nat) result" where
  "metadata_integer view value pointer =
     ok_or MetadataEvidencePolicy (Option.bind (jv_pointer view value pointer) (jv_as_u64 view))"

definition metadata_boolean :: "'v json_view \<Rightarrow> 'v \<Rightarrow> string \<Rightarrow> (metadata_error, bool) result" where
  "metadata_boolean view value pointer =
     ok_or MetadataEvidencePolicy (Option.bind (jv_pointer view value pointer) (jv_as_bool view))"

text \<open>\<open>relay_urls\<close>: the map from relay identity to URL; a repeated identity is an error.\<close>

fun relay_url_map ::
  "'v json_view \<Rightarrow> 'v list \<Rightarrow> (string \<Rightarrow> string option) \<Rightarrow> (metadata_error, string \<Rightarrow> string option) result" where
  "relay_url_map view [] urls = Inr urls"
| "relay_url_map view (relay # relays) urls =
     and_then (metadata_string view relay ''/id'') (\<lambda>ident.
     and_then (metadata_string view relay ''/url'') (\<lambda>url.
       if urls ident \<noteq> None then Inl MetadataEvidencePolicy
       else relay_url_map view relays (urls(ident \<mapsto> url))))"

text \<open>One entry of \<open>normalized_sources\<close>, with the identity the entries are sorted by.\<close>

definition normalized_source ::
  "'v json_view \<Rightarrow> (string \<Rightarrow> string option) \<Rightarrow> 'v \<Rightarrow> (metadata_error, string \<times> json_value) result" where
  "normalized_source view urls source =
     and_then (metadata_string view source ''/relay_id'') (\<lambda>relay_id.
     and_then (ok_or MetadataEvidencePolicy (urls relay_id)) (\<lambda>relay_url.
     and_then (metadata_integer view source ''/deadline_ms'') (\<lambda>deadline.
     and_then (metadata_string view source ''/kind'') (\<lambda>kind.
     and_then (metadata_integer view source ''/lookback_seconds'') (\<lambda>lookback.
     and_then (metadata_integer view source ''/overlap_seconds'') (\<lambda>overlap.
     and_then (metadata_boolean view source ''/required'') (\<lambda>required.
     and_then (metadata_string view source ''/selector'') (\<lambda>selector.
     and_then (metadata_string view source ''/source_id'') (\<lambda>source_id.
       Inr (source_id, JObject
         [(''completion'', JString ''nostr_eose_before_deadline''), (''deadline_ms'', JNumber deadline),
          (''kind'', JString kind), (''lookback_seconds'', JNumber lookback),
          (''overlap_seconds'', JNumber overlap), (''relay_id'', JString relay_id),
          (''relay_url'', JString relay_url), (''required'', JBool required),
          (''selector'', JString selector), (''source_id'', JString source_id)]))))))))))"

definition EVIDENCE_POLICY_DIGEST_DOMAIN :: bytes where
  "EVIDENCE_POLICY_DIGEST_DOMAIN = ascii_bytes ''radroots:rhi-evidence-policy:v1'' @ [0]"

definition source_order :: "string \<times> json_value \<Rightarrow> bytes" where
  "source_order entry = ascii_bytes (fst entry)"

definition evidence_policy_value :: "'v json_view \<Rightarrow> 'v \<Rightarrow> (metadata_error, json_value) result" where
  "evidence_policy_value view normalized =
     and_then (ok_or MetadataEvidencePolicy
       (Option.bind (jv_pointer view normalized ''/relays'') (jv_as_array view))) (\<lambda>relays.
     and_then (relay_url_map view relays Map.empty) (\<lambda>urls.
     and_then (ok_or MetadataEvidencePolicy (jv_pointer view normalized ''/evidence'')) (\<lambda>evidence.
     and_then (ok_or MetadataEvidencePolicy
       (Option.bind (jv_pointer view evidence ''/sources'') (jv_as_array view))) (\<lambda>sources.
     and_then (collect (map (normalized_source view urls) sources)) (\<lambda>entries.
     and_then (metadata_string view evidence ''/contract'') (\<lambda>contract.
     and_then (metadata_integer view evidence ''/contract_version'') (\<lambda>version.
     and_then (metadata_string view evidence ''/policy_id'') (\<lambda>policy_id.
       Inr (JObject [(''contract'', JString contract), (''contract_version'', JNumber version),
         (''policy_id'', JString policy_id),
         (''sources'', JArray (map snd (sort_key source_order entries)))])))))))))"

definition evidence_policy_digest ::
  "'v json_view \<Rightarrow> (json_value \<Rightarrow> bytes option) \<Rightarrow> (bytes \<Rightarrow> bytes) \<Rightarrow> 'v \<Rightarrow> (metadata_error, bytes) result" where
  "evidence_policy_digest view to_vec sha256 normalized =
     and_then (evidence_policy_value view normalized) (\<lambda>policy.
     and_then (ok_or MetadataEvidencePolicy (to_vec policy)) (\<lambda>encoded.
       Inr (sha256 (EVIDENCE_POLICY_DIGEST_DOMAIN @ encoded))))"

end
