(* ===== verification/Utf8_Text.thy ===== *)
theory Utf8_Text
  imports Rhi_Prelude
begin

text \<open>
  Rust's text, as far as the admission of events uses it: Unicode scalar values, their UTF-8 bytes,
  and \<open>std::str::from_utf8\<close>.  A \<open>&str\<close> is a byte string that is the encoding of some scalar values.
\<close>

type_synonym scalars = "nat list"

definition is_scalar :: "nat \<Rightarrow> bool" where
  "is_scalar c \<longleftrightarrow> c < 0xD800 \<or> (0xE000 \<le> c \<and> c < 0x110000)"

text \<open>\<open>char::from_u32\<close> and \<open>char::len_utf8\<close>.\<close>

definition char_from_u32 :: "nat \<Rightarrow> nat option" where
  "char_from_u32 c = (if is_scalar c then Some c else None)"

definition len_utf8 :: "nat \<Rightarrow> nat" where
  "len_utf8 c = (if c < 0x80 then 1 else if c < 0x800 then 2 else if c < 0x10000 then 3 else 4)"

definition byte :: "nat \<Rightarrow> 8 word" where
  "byte n = word_of_nat n"

definition utf8_char :: "nat \<Rightarrow> bytes" where
  "utf8_char c =
     (if c < 0x80 then [byte c]
      else if c < 0x800 then [byte (0xC0 + c div 64), byte (0x80 + c mod 64)]
      else if c < 0x10000 then [byte (0xE0 + c div 4096), byte (0x80 + c div 64 mod 64), byte (0x80 + c mod 64)]
      else [byte (0xF0 + c div 262144), byte (0x80 + c div 4096 mod 64), byte (0x80 + c div 64 mod 64),
            byte (0x80 + c mod 64)])"

definition utf8 :: "scalars \<Rightarrow> bytes" where
  "utf8 cs = concat (map utf8_char cs)"

text \<open>The number of bytes of a character, from its first byte.\<close>

definition utf8_width :: "8 word \<Rightarrow> nat" where
  "utf8_width b = (if b < 0x80 then 1 else if b < 0xE0 then 2 else if b < 0xF0 then 3 else 4)"

fun scalar_of :: "bytes \<Rightarrow> nat" where
  "scalar_of [a] = unat a"
| "scalar_of [a, b] = (unat a - 0xC0) * 64 + (unat b - 0x80)"
| "scalar_of [a, b, c] = (unat a - 0xE0) * 4096 + (unat b - 0x80) * 64 + (unat c - 0x80)"
| "scalar_of [a, b, c, d] =
     (unat a - 0xF0) * 262144 + (unat b - 0x80) * 4096 + (unat c - 0x80) * 64 + (unat d - 0x80)"
| "scalar_of _ = 0"

text \<open>
  \<open>std::str::from_utf8\<close>: a character is read and kept when it is a scalar value whose encoding is
  exactly the bytes read, which rejects overlong forms, surrogates and stray continuation bytes.
\<close>

definition next_scalar :: "8 word \<Rightarrow> bytes \<Rightarrow> nat" where
  "next_scalar b bs = scalar_of (take (utf8_width b) (b # bs))"

function from_utf8 :: "bytes \<Rightarrow> scalars option" where
  "from_utf8 [] = Some []"
| "from_utf8 (b # bs) =
     (if is_scalar (next_scalar b bs) \<and> utf8_char (next_scalar b bs) = take (utf8_width b) (b # bs)
      then map_option (Cons (next_scalar b bs)) (from_utf8 (drop (utf8_width b - 1) bs))
      else None)"
  by pat_completeness auto
termination by (relation "measure length") (simp_all add: less_Suc_eq_le)

section \<open>Encoding and decoding\<close>

lemma utf8_simps [simp]: "utf8 [] = []" "utf8 (c # cs) = utf8_char c @ utf8 cs" "utf8 (xs @ ys) = utf8 xs @ utf8 ys"
  by (simp_all add: utf8_def)

lemma length_utf8_char [simp]: "length (utf8_char c) = len_utf8 c"
  by (simp add: utf8_char_def len_utf8_def)

lemma len_utf8_pos [simp]: "0 < len_utf8 c" "len_utf8 c \<noteq> 0"
  by (simp_all add: len_utf8_def)

lemma utf8_char_nonempty [simp]: "utf8_char c \<noteq> []"
  by (simp add: utf8_char_def)

lemma length_utf8: "length (utf8 cs) = sum_list (map len_utf8 cs)"
  by (induction cs) simp_all

lemma unat_byte [simp]: "n < 256 \<Longrightarrow> unat (byte n) = n"
  by (simp add: byte_def unat_of_nat)

lemma byte_less_iff: "n < 256 \<Longrightarrow> byte n < b \<longleftrightarrow> n < unat b"
  by (simp add: word_less_nat_alt)

lemma byte_inject: "n < 256 \<Longrightarrow> m < 256 \<Longrightarrow> byte n = byte m \<longleftrightarrow> n = m"
  by (metis unat_byte)

lemma scalar_less: "is_scalar c \<Longrightarrow> c < 0x110000"
  by (auto simp: is_scalar_def)

lemma utf8_char_cases:
  assumes "is_scalar c"
  obtains "c < 0x80" "utf8_char c = [byte c]"
  | b bs where "0x80 \<le> c" "utf8_char c = b # bs" "0x80 \<le> b" "utf8_width b = len_utf8 c"
proof (cases "c < 0x80")
  case True
  then show ?thesis using that(1) by (simp add: utf8_char_def)
next
  case False
  have c: "c < 0x110000" using scalar_less[OF assms] .
  define n where "n = (if c < 0x800 then 0xC0 + c div 64 else if c < 0x10000 then 0xE0 + c div 4096 else 0xF0 + c div 262144)"
  have n: "n < 256" "0x80 \<le> n" using c by (auto simp: n_def)
  have "utf8_width (byte n) = len_utf8 c"
  proof -
    have "utf8_width (byte n) = (if n < 0x80 then 1 else if n < 0xE0 then 2 else if n < 0xF0 then 3 else 4)"
      using n by (simp add: utf8_width_def byte_less_iff)
    also have "\<dots> = len_utf8 c" using False c by (auto simp: n_def len_utf8_def)
    finally show ?thesis .
  qed
  moreover have "0x80 \<le> byte n" using n by (simp add: word_le_nat_alt)
  moreover have "\<exists>bs. utf8_char c = byte n # bs" using False by (simp add: utf8_char_def n_def)
  ultimately show ?thesis using that(2) False by force
qed

lemma utf8_width_char:
  assumes "is_scalar c"
  shows "utf8_width (hd (utf8_char c)) = len_utf8 c"
  using assms
proof (rule utf8_char_cases)
  assume c: "c < 0x80" "utf8_char c = [byte c]"
  then have "byte c < 0x80" by (simp add: byte_less_iff)
  with c show ?thesis by (simp add: utf8_width_def len_utf8_def)
qed simp

lemma split64_2: "c div 4096 * 4096 + c div 64 mod 64 * 64 + c mod 64 = c" for c :: nat
proof -
  have "c div 4096 = c div 64 div 64" by (simp add: div_mult2_eq[symmetric])
  then have "c div 64 = c div 4096 * 64 + c div 64 mod 64" by simp
  moreover have "c = c div 64 * 64 + c mod 64" by simp
  ultimately show ?thesis by linarith
qed

lemma split64_3: "c div 262144 * 262144 + c div 4096 mod 64 * 4096 + c div 64 mod 64 * 64 + c mod 64 = c" for c :: nat
proof -
  have "c div 262144 = c div 4096 div 64" by (simp add: div_mult2_eq[symmetric])
  then have "c div 4096 = c div 262144 * 64 + c div 4096 mod 64" by simp
  then show ?thesis using split64_2[of c] by linarith
qed

lemma scalar_of_char:
  assumes "is_scalar c"
  shows "scalar_of (utf8_char c) = c"
proof -
  have c: "c < 0x110000" using scalar_less[OF assms] .
  consider "c < 0x80" | "0x80 \<le> c" "c < 0x800" | "0x800 \<le> c" "c < 0x10000" | "0x10000 \<le> c" by linarith
  then show ?thesis
  proof cases
    case 2
    then have "c div 64 < 32" by auto
    then show ?thesis using 2 by (simp add: utf8_char_def)
  next
    case 3
    then have "c div 4096 < 16" by auto
    moreover have "c div 4096 * 4096 + c div 64 mod 64 * 64 + c mod 64 = c" by (rule split64_2)
    ultimately show ?thesis using 3 by (simp add: utf8_char_def)
  next
    case 4
    then have "c div 262144 < 5" using c by auto
    moreover have "c div 262144 * 262144 + c div 4096 mod 64 * 4096 + c div 64 mod 64 * 64 + c mod 64 = c"
      by (rule split64_3)
    ultimately show ?thesis using 4 by (simp add: utf8_char_def)
  qed (simp add: utf8_char_def)
qed

lemma from_utf8_encode:
  assumes "list_all is_scalar cs"
  shows "from_utf8 (utf8 cs) = Some cs"
  using assms
proof (induction cs)
  case (Cons c cs)
  obtain b bs where b: "utf8_char c = b # bs" by (cases "utf8_char c") auto
  have w: "utf8_width b = Suc (length bs)"
    using utf8_width_char[of c] Cons.prems length_utf8_char[of c] b by simp
  have "take (utf8_width b) (b # bs @ utf8 cs) = utf8_char c" using w b by simp
  moreover have "drop (utf8_width b - 1) (bs @ utf8 cs) = utf8 cs" using w by simp
  ultimately show ?case
    using Cons scalar_of_char[of c] by (simp add: b next_scalar_def del: take_Cons')
qed simp

lemma from_utf8_sound: "from_utf8 bs = Some cs \<Longrightarrow> list_all is_scalar cs \<and> bs = utf8 cs"
proof (induction bs arbitrary: cs rule: from_utf8.induct)
  case (2 b bs)
  let ?w = "utf8_width b" and ?c = "next_scalar b bs"
  have ok: "is_scalar ?c" "utf8_char ?c = take ?w (b # bs)"
    using 2(2) by (simp_all only: from_utf8.simps split: if_splits) (simp_all del: take_Cons')
  then obtain cs' where cs: "cs = ?c # cs'" "from_utf8 (drop (?w - 1) bs) = Some cs'"
    using 2(2) by (auto simp del: take_Cons')
  have "list_all is_scalar cs' \<and> drop (?w - 1) bs = utf8 cs'" by (rule 2(1)) (use ok cs in simp_all)
  moreover have "b # bs = take ?w (b # bs) @ drop (?w - 1) bs"
    by (cases ?w) (simp_all add: utf8_width_def split: if_splits)
  ultimately show ?case using ok cs by simp
qed simp

lemma from_utf8_iff: "from_utf8 bs = Some cs \<longleftrightarrow> list_all is_scalar cs \<and> bs = utf8 cs"
  using from_utf8_sound from_utf8_encode by blast

text \<open>A byte below 128 at the front of a text is a whole character.\<close>

lemma utf8_Cons_ascii:
  assumes "list_all is_scalar cs" and "b # bs = utf8 cs" and "b < 0x80"
  obtains cs' where "cs = unat b # cs'" "bs = utf8 cs'" "list_all is_scalar cs'"
proof -
  obtain c cs' where cs: "cs = c # cs'" using assms(2) by (cases cs) auto
  have sc: "is_scalar c" using assms(1) cs by simp
  from sc show ?thesis
  proof (rule utf8_char_cases)
    assume c: "c < 0x80" "utf8_char c = [byte c]"
    then have "b = byte c" "bs = utf8 cs'" using assms(2) cs by simp_all
    then show ?thesis using that[of cs'] c cs assms(1) by simp
  next
    fix x xs assume x: "utf8_char c = x # xs" "0x80 \<le> x"
    then have "b = x" using assms(2) cs by simp
    then show ?thesis using x(2) assms(3) by simp
  qed
qed

lemma utf8_Cons_other:
  assumes "list_all is_scalar cs" and "b # bs = utf8 cs" and "\<not> b < 0x80"
  obtains c cs' where "cs = c # cs'" "is_scalar c" "0x80 \<le> c" "b # bs = utf8_char c @ utf8 cs'"
    "utf8_width b = len_utf8 c" "drop (utf8_width b - 1) bs = utf8 cs'" "list_all is_scalar cs'"
proof -
  obtain c cs' where cs: "cs = c # cs'" using assms(2) by (cases cs) auto
  have sc: "is_scalar c" using assms(1) cs by simp
  from sc show ?thesis
  proof (rule utf8_char_cases)
    assume c: "c < 0x80" "utf8_char c = [byte c]"
    then show ?thesis using assms(2,3) cs by (simp add: byte_less_iff)
  next
    fix x xs assume x: "0x80 \<le> c" "utf8_char c = x # xs" "utf8_width x = len_utf8 c"
    then have e: "b = x" "bs = xs @ utf8 cs'" using assms(2) cs by simp_all
    have "len_utf8 c = Suc (length xs)" using length_utf8_char[of c] x(2) by simp
    then show ?thesis using that[OF cs sc x(1)] e x(2,3) assms(1,2) cs by simp
  qed
qed

end
