(* ===== verification/Json_Text.thy ===== *)
theory Json_Text
  imports Utf8_Text
begin

text \<open>
  The two allocation-free measurements of JSON strings in \<open>trade_ingest.rs\<close>: the decoded length of a
  raw JSON string and the serialized length of a text.  A raw string is held as the bytes from the
  current index to the end of the slice, the closing quote included, so that the loop index is the
  number of bytes already dropped; a slice has fewer than \<open>2 ^ 63\<close> bytes, so no checked addition of
  the loop can fail.
\<close>

section \<open>Decoded length\<close>

definition hex_digit :: "8 word \<Rightarrow> nat option" where
  "hex_digit b =
     (if 48 \<le> b \<and> b \<le> 57 then Some (unat b - 48)
      else if 97 \<le> b \<and> b \<le> 102 then Some (unat b - 97 + 10)
      else if 65 \<le> b \<and> b \<le> 70 then Some (unat b - 65 + 10)
      else None)"

fun parse_hex_fold :: "bytes \<Rightarrow> nat \<Rightarrow> nat option" where
  "parse_hex_fold [] v = Some v"
| "parse_hex_fold (b # bs) v =
     (case hex_digit b of
        None \<Rightarrow> None
      | Some d \<Rightarrow> if v * 16 \<le> 65535 \<and> v * 16 + d \<le> 65535 then parse_hex_fold bs (v * 16 + d) else None)"

definition parse_hex_u16 :: "bytes \<Rightarrow> nat option" where
  "parse_hex_u16 bs = (if length bs \<noteq> 4 then None else parse_hex_fold bs 0)"

text \<open>The bytes after \<open>\\u\<close>: the four digits, and what follows them.\<close>

definition take_hex :: "bytes \<Rightarrow> (nat \<times> bytes) option" where
  "take_hex bs =
     (if length bs < 4 then None else map_option (\<lambda>v. (v, drop 4 bs)) (parse_hex_u16 (take 4 bs)))"

text \<open>One escaped scalar value of the form \<open>\\u\<close>, with its surrogate pair.\<close>

definition unicode_escape :: "bytes \<Rightarrow> (nat \<times> bytes) option" where
  "unicode_escape bs =
     Option.bind (take_hex bs) (\<lambda>(first, rest).
       if 0xD800 \<le> first \<and> first \<le> 0xDBFF then
         (if take 2 rest \<noteq> [92, 117] then None
          else Option.bind (take_hex (drop 2 rest)) (\<lambda>(second, rest).
            if 0xDC00 \<le> second \<and> second \<le> 0xDFFF
            then Some (0x10000 + (first - 0xD800) * 1024 + (second - 0xDC00), rest) else None))
       else if 0xDC00 \<le> first \<and> first \<le> 0xDFFF then None
       else Some (first, rest))"

definition simple_escape :: "8 word \<Rightarrow> bool" where
  "simple_escape b \<longleftrightarrow> b \<in> {34, 92, 47, 98, 102, 110, 114, 116}"

lemma take_hex_shorter: "take_hex bs = Some (v, rest) \<Longrightarrow> length rest < length bs"
  by (auto simp: take_hex_def split: if_splits)

lemma unicode_escape_shorter:
  assumes "unicode_escape bs = Some (c, rest)"
  shows "length rest < length bs"
proof -
  from assms obtain first r where 1: "take_hex bs = Some (first, r)"
    by (auto simp: unicode_escape_def bind_eq_Some_conv)
  from assms 1 have "rest = r \<or> (\<exists>second. take_hex (drop 2 r) = Some (second, rest))"
    by (auto simp: unicode_escape_def bind_eq_Some_conv split: if_splits)
  then show ?thesis using take_hex_shorter[OF 1] take_hex_shorter[of "drop 2 r"] by fastforce
qed

function decoded_loop :: "bytes \<Rightarrow> nat \<Rightarrow> nat option" where
  "decoded_loop [] len = None"
| "decoded_loop [q] len = Some len"
| "decoded_loop (b # c # rest) len =
     (if b = 92 then
        (if simple_escape c then decoded_loop rest (len + 1)
         else if c = 117 then
           (case unicode_escape rest of
              None \<Rightarrow> None
            | Some (scalar, rest') \<Rightarrow>
                (case char_from_u32 scalar of
                   None \<Rightarrow> None
                 | Some ch \<Rightarrow> decoded_loop rest' (len + len_utf8 ch)))
         else None)
      else if b < 0x80 then
        (if b < 0x20 \<or> b = 34 then None else decoded_loop (c # rest) (len + 1))
      else decoded_loop (drop (utf8_width b - 1) (c # rest)) (len + utf8_width b))"
  by pat_completeness auto
termination
  by (relation "measure (\<lambda>(bs, _). length bs)") (auto dest: unicode_escape_shorter simp: utf8_width_def)

definition decoded_json_string_utf8_bytes :: "bytes \<Rightarrow> nat option" where
  "decoded_json_string_utf8_bytes raw =
     (if length raw < 2 \<or> hd raw \<noteq> 34 \<or> last raw \<noteq> 34 then None else decoded_loop (tl raw) 0)"

section \<open>Serialized length\<close>

definition canonical_char_len :: "nat \<Rightarrow> nat" where
  "canonical_char_len c =
     (if c \<in> {34, 92, 10, 13, 9, 8, 12} then 2 else if c \<le> 0x1f then 6 else len_utf8 c)"

text \<open>The saturating fold: the lengths are far below \<open>2 ^ 64\<close> (a text has fewer than \<open>2 ^ 63\<close> bytes).\<close>

definition canonical_json_string_len :: "scalars \<Rightarrow> nat" where
  "canonical_json_string_len value = foldl (\<lambda>length c. min (length + canonical_char_len c) u64_max) 2 value"

section \<open>The grammar of JSON strings\<close>

text \<open>
  What a JSON string literal is (RFC 8259, section 7): a quote, unescaped characters, short escapes,
  \<open>\\uXXXX\<close> escapes outside the surrogate range or surrogate pairs, and a quote.
\<close>

datatype json_piece = Plain nat | Short "8 word" | Unicode bytes | Surrogates bytes bytes

fun piece_ok :: "json_piece \<Rightarrow> bool" where
  "piece_ok (Plain c) \<longleftrightarrow> is_scalar c \<and> 0x20 \<le> c \<and> c \<noteq> 34 \<and> c \<noteq> 92"
| "piece_ok (Short b) \<longleftrightarrow> simple_escape b"
| "piece_ok (Unicode h) \<longleftrightarrow> (\<exists>v. parse_hex_u16 h = Some v \<and> is_scalar v)"
| "piece_ok (Surrogates h l) \<longleftrightarrow>
     (\<exists>v w. parse_hex_u16 h = Some v \<and> parse_hex_u16 l = Some w
        \<and> 0xD800 \<le> v \<and> v \<le> 0xDBFF \<and> 0xDC00 \<le> w \<and> w \<le> 0xDFFF)"

fun piece_bytes :: "json_piece \<Rightarrow> bytes" where
  "piece_bytes (Plain c) = utf8_char c"
| "piece_bytes (Short b) = [92, b]"
| "piece_bytes (Unicode h) = [92, 117] @ h"
| "piece_bytes (Surrogates h l) = [92, 117] @ h @ [92, 117] @ l"

text \<open>The scalar value a piece stands for; only its size matters, and every short escape is one byte.\<close>

fun piece_len :: "json_piece \<Rightarrow> nat" where
  "piece_len (Plain c) = len_utf8 c"
| "piece_len (Short b) = 1"
| "piece_len (Unicode h) = len_utf8 (the (parse_hex_u16 h))"
| "piece_len (Surrogates h l) = 4"

definition json_string_literal :: "json_piece list \<Rightarrow> bytes" where
  "json_string_literal ps = [34] @ concat (map piece_bytes ps) @ [34]"

section \<open>The loop reads the grammar\<close>

lemma parse_hex_u16_length: "parse_hex_u16 h = Some v \<Longrightarrow> length h = 4"
  by (auto simp: parse_hex_u16_def split: if_splits)

lemma parse_hex_fold_bound: "parse_hex_fold h v = Some w \<Longrightarrow> v \<le> 65535 \<Longrightarrow> w \<le> 65535"
  by (induction h arbitrary: v) (auto split: option.splits if_splits)

lemma parse_hex_u16_bound: "parse_hex_u16 h = Some v \<Longrightarrow> v \<le> 65535"
  by (auto simp: parse_hex_u16_def split: if_splits dest: parse_hex_fold_bound)

lemma take_hex_iff: "take_hex bs = Some (v, rest) \<longleftrightarrow> (\<exists>h. parse_hex_u16 h = Some v \<and> bs = h @ rest)"
proof
  assume "take_hex bs = Some (v, rest)"
  then have "parse_hex_u16 (take 4 bs) = Some v" "rest = drop 4 bs" by (auto simp: take_hex_def split: if_splits)
  then show "\<exists>h. parse_hex_u16 h = Some v \<and> bs = h @ rest" by (intro exI[of _ "take 4 bs"]) simp
next
  assume "\<exists>h. parse_hex_u16 h = Some v \<and> bs = h @ rest"
  then show "take_hex bs = Some (v, rest)" using parse_hex_u16_length by (auto simp: take_hex_def)
qed

lemma unicode_escape_single:
  assumes "parse_hex_u16 h = Some v" and "is_scalar v"
  shows "unicode_escape (h @ rest) = Some (v, rest)"
proof -
  have "take_hex (h @ rest) = Some (v, rest)" using assms(1) take_hex_iff by blast
  then show ?thesis using assms(2) by (auto simp: unicode_escape_def is_scalar_def)
qed

lemma unicode_escape_pair:
  assumes "parse_hex_u16 h = Some v" "parse_hex_u16 l = Some w" "0xD800 \<le> v" "v \<le> 0xDBFF" "0xDC00 \<le> w" "w \<le> 0xDFFF"
  shows "unicode_escape (h @ [92, 117] @ l @ rest) = Some (0x10000 + (v - 0xD800) * 1024 + (w - 0xDC00), rest)"
proof -
  have "take_hex (h @ [92, 117] @ l @ rest) = Some (v, [92, 117] @ l @ rest)" using assms(1) take_hex_iff by blast
  moreover have "take_hex (l @ rest) = Some (w, rest)" using assms(2) take_hex_iff by blast
  ultimately show ?thesis using assms(3-) by (simp add: unicode_escape_def)
qed

lemma unicode_escape_cases:
  assumes "unicode_escape bs = Some (c, rest)"
  obtains h where "parse_hex_u16 h = Some c" "bs = h @ rest" "is_scalar c"
  | h l v w where "parse_hex_u16 h = Some v" "parse_hex_u16 l = Some w" "0xD800 \<le> v" "v \<le> 0xDBFF"
      "0xDC00 \<le> w" "w \<le> 0xDFFF" "bs = h @ [92, 117] @ l @ rest" "c = 0x10000 + (v - 0xD800) * 1024 + (w - 0xDC00)"
proof -
  obtain v r where v: "take_hex bs = Some (v, r)" using assms by (auto simp: unicode_escape_def bind_eq_Some_conv)
  then obtain h where h: "parse_hex_u16 h = Some v" "bs = h @ r" using take_hex_iff by blast
  show ?thesis
  proof (cases "0xD800 \<le> v \<and> v \<le> 0xDBFF")
    case True
    with assms v obtain w where w: "take 2 r = [92, 117]" "take_hex (drop 2 r) = Some (w, rest)"
        "0xDC00 \<le> w" "w \<le> 0xDFFF" "c = 0x10000 + (v - 0xD800) * 1024 + (w - 0xDC00)"
      by (auto simp: unicode_escape_def bind_eq_Some_conv split: if_splits)
    then obtain l where "parse_hex_u16 l = Some w" "drop 2 r = l @ rest" using take_hex_iff by blast
    moreover have "r = take 2 r @ drop 2 r" by simp
    ultimately show ?thesis using that(2)[OF h(1), of l w] True w h(2) by simp
  next
    case False
    with assms v have "c = v" "rest = r" "\<not> (0xDC00 \<le> v \<and> v \<le> 0xDFFF)"
      by (auto simp: unicode_escape_def split: if_splits)
    moreover from this have "is_scalar v" using False parse_hex_u16_bound[OF h(1)] by (auto simp: is_scalar_def)
    ultimately show ?thesis using that(1) h by simp
  qed
qed

lemma decoded_loop_plain:
  assumes "is_scalar c" "0x20 \<le> c" "c \<noteq> 34" "c \<noteq> 92" and rest: "rest \<noteq> []"
  shows "decoded_loop (utf8_char c @ rest) n = decoded_loop rest (n + len_utf8 c)"
proof -
  obtain x xs where r: "rest = x # xs" using rest by (cases rest) auto
  show ?thesis
    using assms(1)
  proof (rule utf8_char_cases)
    assume c: "c < 0x80" "utf8_char c = [byte c]"
    have "byte c \<noteq> 92" "byte c \<noteq> 34" "\<not> byte c < 0x20" "byte c < 0x80"
      using c(1) assms(2-4) byte_inject[of c 92] byte_inject[of c 34] by (auto simp: byte_less_iff) (auto simp: byte_def)
    then show ?thesis using c by (simp add: r len_utf8_def)
  next
    fix b bs assume c: "0x80 \<le> c" "utf8_char c = b # bs" "0x80 \<le> b" "utf8_width b = len_utf8 c"
    have l: "len_utf8 c = Suc (length bs)" using length_utf8_char[of c] c(2) by simp
    have "b \<noteq> 92" "\<not> b < 0x80" using c(3) by auto
    moreover obtain y ys where y: "bs @ rest = y # ys" using r by (cases "bs @ rest") auto
    moreover have "drop (utf8_width b - 1) (y # ys) = rest" using c(4) l y[symmetric] by simp
    ultimately show ?thesis using c by simp
  qed
qed

lemma decoded_loop_piece:
  assumes "piece_ok p" and "rest \<noteq> []"
  shows "decoded_loop (piece_bytes p @ rest) n = decoded_loop rest (n + piece_len p)"
  using assms
proof (cases p)
  case (Plain c)
  then show ?thesis using assms decoded_loop_plain by simp
next
  case (Unicode h)
  then obtain v where v: "parse_hex_u16 h = Some v" "is_scalar v" using assms(1) by auto
  then show ?thesis using unicode_escape_single[OF v, of rest]
    by (simp add: Unicode simple_escape_def char_from_u32_def)
next
  case (Surrogates h l)
  then obtain v w where v: "parse_hex_u16 h = Some v" "parse_hex_u16 l = Some w" "0xD800 \<le> v" "v \<le> 0xDBFF"
    "0xDC00 \<le> w" "w \<le> 0xDFFF" using assms(1) by auto
  let ?c = "0x10000 + (v - 0xD800) * 1024 + (w - 0xDC00)"
  have "is_scalar ?c" "len_utf8 ?c = 4" using v by (auto simp: is_scalar_def len_utf8_def)
  then show ?thesis using unicode_escape_pair[OF v, of rest]
    by (simp add: Surrogates simple_escape_def char_from_u32_def)
qed (simp add: simple_escape_def)

lemma decoded_loop_pieces:
  assumes "list_all piece_ok ps"
  shows "decoded_loop (concat (map piece_bytes ps) @ [q]) n = Some (n + sum_list (map piece_len ps))"
  using assms by (induction ps arbitrary: n) (simp_all add: decoded_loop_piece)

text \<open>Conversely, whatever the loop accepts in a text is a sequence of pieces and the last byte.\<close>

lemma hex_digit_ascii: "hex_digit b = Some d \<Longrightarrow> b < 0x80"
  by (auto simp: hex_digit_def word_le_nat_alt word_less_nat_alt split: if_splits)

lemma parse_hex_fold_ascii: "parse_hex_fold h v = Some w \<Longrightarrow> list_all (\<lambda>b. b < 0x80) h"
  by (induction h arbitrary: v) (auto split: option.splits if_splits dest: hex_digit_ascii)

lemma parse_hex_u16_ascii: "parse_hex_u16 h = Some v \<Longrightarrow> list_all (\<lambda>b. b < 0x80) h"
  by (auto simp: parse_hex_u16_def split: if_splits dest: parse_hex_fold_ascii)

definition is_text :: "bytes \<Rightarrow> bool" where
  "is_text bs \<longleftrightarrow> (\<exists>cs. list_all is_scalar cs \<and> bs = utf8 cs)"

lemma is_text_drop_ascii: "is_text (as @ bs) \<Longrightarrow> list_all (\<lambda>b. b < 0x80) as \<Longrightarrow> is_text bs"
proof (induction as)
  case (Cons a as)
  then obtain cs where "list_all is_scalar cs" "a # (as @ bs) = utf8 cs" by (auto simp: is_text_def)
  then obtain cs' where "as @ bs = utf8 cs'" "list_all is_scalar cs'"
    by (rule utf8_Cons_ascii) (use Cons.prems(2) in simp_all)
  then show ?case using Cons by (auto simp: is_text_def)
qed simp

lemma decoded_loop_unicode:
  assumes "unicode_escape bs = Some (c, rest)" and "is_text bs" and "char_from_u32 c = Some ch"
  obtains p where "piece_ok p" "[92, 117] @ bs = piece_bytes p @ rest" "piece_len p = len_utf8 ch" "is_text rest"
proof -
  have ch: "ch = c" "is_scalar c" using assms(3) by (auto simp: char_from_u32_def split: if_splits)
  from assms(1) show ?thesis
  proof (rule unicode_escape_cases)
    fix h assume h: "parse_hex_u16 h = Some c" "bs = h @ rest" "is_scalar c"
    then show ?thesis using that[of "Unicode h"] is_text_drop_ascii[of h rest] parse_hex_u16_ascii[OF h(1)] assms(2) ch by simp
  next
    fix h l v w
    assume h: "parse_hex_u16 h = Some v" "parse_hex_u16 l = Some w" "0xD800 \<le> v" "v \<le> 0xDBFF"
      "0xDC00 \<le> w" "w \<le> 0xDFFF" "bs = h @ [92, 117] @ l @ rest" "c = 0x10000 + (v - 0xD800) * 1024 + (w - 0xDC00)"
    have "is_text rest"
      using is_text_drop_ascii[of "h @ [92, 117] @ l" rest] parse_hex_u16_ascii[OF h(1)] parse_hex_u16_ascii[OF h(2)] assms(2) h(7)
      by simp
    moreover have "len_utf8 ch = 4" using h by (simp add: ch len_utf8_def)
    ultimately show ?thesis using that[of "Surrogates h l"] h by simp
  qed
qed

lemma decoded_loop_sound:
  "decoded_loop bs n = Some m \<Longrightarrow> is_text bs \<Longrightarrow>
     \<exists>ps q. list_all piece_ok ps \<and> bs = concat (map piece_bytes ps) @ [q] \<and> m = n + sum_list (map piece_len ps)"
proof (induction bs n rule: decoded_loop.induct)
  case (2 q n)
  then show ?case by (intro exI[of _ "[]"]) simp
next
  case (3 b c rest n)
  have step: ?case
    if "piece_ok p" "b # c # rest = piece_bytes p @ rest'"
      "\<exists>ps q. list_all piece_ok ps \<and> rest' = concat (map piece_bytes ps) @ [q]
         \<and> m = n + piece_len p + sum_list (map piece_len ps)" for p rest'
  proof -
    from that(3) obtain ps q where "list_all piece_ok ps" "rest' = concat (map piece_bytes ps) @ [q]"
      "m = n + piece_len p + sum_list (map piece_len ps)" by blast
    then show ?thesis using that(1,2) by (intro exI[of _ "p # ps"] exI[of _ q]) simp
  qed
  obtain cs where cs: "list_all is_scalar cs" "b # (c # rest) = utf8 cs" using 3(6) by (auto simp: is_text_def)
  consider (simple) "b = 92" "simple_escape c" | (uni) "b = 92" "\<not> simple_escape c" "c = 117"
    | (ascii) "b \<noteq> 92" "b < 0x80" "\<not> b < 0x20" "b \<noteq> 34" | (other) "\<not> b < 0x80"
    using 3(5) by (auto split: if_splits)
  then show ?case
  proof cases
    case simple
    have "is_text rest"
      using is_text_drop_ascii[of "[b, c]" rest] 3(6) simple by (auto simp: simple_escape_def)
    then show ?thesis using step[of "Short c" rest] 3(1)[OF simple] 3(5) simple by simp
  next
    case uni
    from 3(5) uni obtain v rest' ch where u: "unicode_escape rest = Some (v, rest')" "char_from_u32 v = Some ch"
      "decoded_loop rest' (n + len_utf8 ch) = Some m"
      by (auto split: option.splits prod.splits)
    have t: "is_text rest" using is_text_drop_ascii[of "[b, c]" rest] 3(6) uni by simp
    obtain p where p: "piece_ok p" "[92, 117] @ rest = piece_bytes p @ rest'" "piece_len p = len_utf8 ch" "is_text rest'"
      by (rule decoded_loop_unicode[OF u(1) t u(2)])
    show ?thesis using step[of p rest'] 3(2)[OF uni u(1) refl u(2)] u(3) p uni by simp
  next
    case ascii
    from cs obtain cs' where c: "cs = unat b # cs'" "c # rest = utf8 cs'" "list_all is_scalar cs'"
      by (rule utf8_Cons_ascii) (use ascii in simp_all)
    have "piece_ok (Plain (unat b))"
    proof -
      have "unat b \<noteq> 34" "unat b \<noteq> 92" using ascii(1,4) by (simp_all add: word_unat_eq_iff)
      then show ?thesis using ascii(3) cs(1) c(1) by (simp add: word_less_nat_alt)
    qed
    moreover have "utf8_char (unat b) = [b]" "len_utf8 (unat b) = 1"
      using ascii(2) by (simp_all add: utf8_char_def byte_def len_utf8_def word_less_nat_alt)
    moreover have "is_text (c # rest)" using c(2,3) by (auto simp: is_text_def)
    moreover have "decoded_loop (c # rest) (n + 1) = Some m" using 3(5) ascii by simp
    ultimately show ?thesis
      using step[of "Plain (unat b)" "c # rest"] 3(3)[OF ascii(1,2)] ascii by simp
  next
    case other
    from cs obtain d cs' where d: "cs = d # cs'" "is_scalar d" "0x80 \<le> d" "b # (c # rest) = utf8_char d @ utf8 cs'"
      "utf8_width b = len_utf8 d" "drop (utf8_width b - 1) (c # rest) = utf8 cs'" "list_all is_scalar cs'"
      by (rule utf8_Cons_other) (use other in simp_all)
    have b: "b \<noteq> 92" using other by auto
    have "is_text (drop (utf8_width b - 1) (c # rest))" using d(6,7) by (auto simp: is_text_def)
    moreover have "decoded_loop (drop (utf8_width b - 1) (c # rest)) (n + utf8_width b) = Some m"
      using 3(5) b other by simp
    ultimately have ih: "\<exists>ps q. list_all piece_ok ps \<and> utf8 cs' = concat (map piece_bytes ps) @ [q]
        \<and> m = n + utf8_width b + sum_list (map piece_len ps)"
      using 3(4)[OF b other] unfolding d(6) by blast
    show ?thesis
      by (rule step[of "Plain d" "utf8 cs'"]) (use d(2-4) ih[unfolded d(5)] in simp_all)
  qed
qed simp

section \<open>The serializer\<close>

text \<open>How a JSON serializer writes a scalar value: the short escapes, \<open>\\u00XX\<close> for the other controls.\<close>

definition hex_char :: "nat \<Rightarrow> 8 word" where
  "hex_char d = (if d < 10 then byte (48 + d) else byte (87 + d))"

definition serialize_char :: "nat \<Rightarrow> json_piece" where
  "serialize_char c =
     (if c = 34 then Short 34 else if c = 92 then Short 92 else if c = 10 then Short 110
      else if c = 13 then Short 114 else if c = 9 then Short 116 else if c = 8 then Short 98
      else if c = 12 then Short 102
      else if c < 0x20 then Unicode [48, 48, hex_char (c div 16), hex_char (c mod 16)]
      else Plain c)"

definition serialize_text :: "scalars \<Rightarrow> bytes" where
  "serialize_text cs = json_string_literal (map serialize_char cs)"

lemma control_escape:
  assumes "c < 0x20"
  shows "parse_hex_u16 [48, 48, hex_char (c div 16), hex_char (c mod 16)] = Some c"
proof -
  have "\<forall>c \<in> set [0..<0x20]. parse_hex_u16 [48, 48, hex_char (c div 16), hex_char (c mod 16)] = Some c"
    by (simp add: upt_rec parse_hex_u16_def hex_char_def byte_def hex_digit_def)
  then show ?thesis using assms by simp
qed

lemma serialize_char_ok:
  assumes "is_scalar c"
  shows "piece_ok (serialize_char c)" "length (piece_bytes (serialize_char c)) = canonical_char_len c"
    "piece_len (serialize_char c) = len_utf8 c"
  using assms control_escape[of c]
  by (auto simp: serialize_char_def simple_escape_def canonical_char_len_def len_utf8_def)

lemma canonical_fold:
  assumes "n + sum_list (map canonical_char_len cs) \<le> u64_max"
  shows "foldl (\<lambda>length c. min (length + canonical_char_len c) u64_max) n cs = n + sum_list (map canonical_char_len cs)"
  using assms by (induction cs arbitrary: n) (simp_all add: add.assoc)

end
