(* ===== verification/Trade_Ingest.thy ===== *)
theory Trade_Ingest
  imports Json_Text
begin

text \<open>
  Admission of trade events (\<open>trade_ingest.rs\<close>): the size preflight over the raw JSON text, the
  verification of the event and the authored-time policy.  The JSON tokenizer (\<open>serde_json\<close>), the event
  parser, the signature check and the mutation decoder are parameters.
\<close>

section \<open>Limits and times\<close>

datatype admission_error =
    InvalidLimits | EmptyEvent | EventTooLarge | InvalidEventUtf8 | MalformedEvent | DuplicateEventField
  | EventIdentifierTooLarge | EventContentTooLarge | TooManyTags | TooManyTagElements | TagElementTooLarge
  | TagsTooLarge | TooManyExtraFields | ExtraFieldsTooLarge | InvalidObservationTime | InvalidTimePolicy
  | InvalidAuthoredTime | InvalidEventId | InvalidSignature | UnsupportedKind | InvalidAuthor
  | InvalidMutation | AuthoredTimeRejected

record admission_limits =
  al_wire_bytes :: nat
  al_content_bytes :: nat
  al_tag_count :: nat
  al_tag_total_elements :: nat
  al_tag_element_bytes :: nat
  al_tag_total_bytes :: nat

text \<open>\<open>config_limit\<close> on the value the configuration pointer finds, and \<open>from_config\<close> on the six of them.\<close>

definition config_limit :: "nat option \<Rightarrow> (admission_error, nat) result" where
  "config_limit found = ok_or InvalidLimits (option_filter (\<lambda>value. 0 < value) found)"

definition limits_from_config :: "(string \<Rightarrow> nat option) \<Rightarrow> (admission_error, admission_limits) result" where
  "limits_from_config pointer =
     and_then (config_limit (pointer ''/resource_limits/events/wire_bytes'')) (\<lambda>wire.
     and_then (config_limit (pointer ''/resource_limits/events/content_bytes'')) (\<lambda>content.
     and_then (config_limit (pointer ''/resource_limits/events/tag_count'')) (\<lambda>count.
     and_then (config_limit (pointer ''/resource_limits/events/tag_total_elements'')) (\<lambda>elements.
     and_then (config_limit (pointer ''/resource_limits/events/tag_element_bytes'')) (\<lambda>element.
     and_then (config_limit (pointer ''/resource_limits/events/tag_total_bytes'')) (\<lambda>total.
       Inr \<lparr>al_wire_bytes = wire, al_content_bytes = content, al_tag_count = count,
         al_tag_total_elements = elements, al_tag_element_bytes = element,
         al_tag_total_bytes = total\<rparr>))))))"

definition observed_at_new :: "nat \<Rightarrow> (admission_error, nat) result" where
  "observed_at_new value = (if value = 0 \<or> i64_max < value then Inl InvalidObservationTime else Inr value)"

definition authored_time_policy_new :: "nat \<Rightarrow> (admission_error, nat) result" where
  "authored_time_policy_new maximum_future = (if i64_max < maximum_future then Inl InvalidTimePolicy else Inr maximum_future)"

definition validate_authored_time :: "nat \<Rightarrow> (admission_error, unit) result" where
  "validate_authored_time authored_at = (if i64_max < authored_at then Inl InvalidAuthoredTime else Inr ())"

definition enforce_authored_time_policy :: "nat \<Rightarrow> nat \<Rightarrow> nat \<Rightarrow> (admission_error, unit) result" where
  "enforce_authored_time_policy authored_at observed_at maximum_future =
     (if min (observed_at + maximum_future) u64_max < authored_at then Inl AuthoredTimeRejected else Inr ())"

section \<open>The preflight\<close>

text \<open>
  What the tokenizer reads of an object: its entries up to the end or the first syntax error, a value
  that does not parse being \<open>None\<close>, and whether the object was closed; of an array of tags likewise.
\<close>

datatype tag_item = TagArray "bytes list" bool | TagOther

record json_reader =
  jn_object :: "scalars \<Rightarrow> (scalars \<times> bytes option) list \<times> bool"
  jn_tags :: "bytes \<Rightarrow> tag_item list \<times> bool"
  jn_end :: "bytes \<Rightarrow> bool"
  jn_u64 :: "bytes \<Rightarrow> nat option"
  jn_u32 :: "bytes \<Rightarrow> nat option"

text \<open>\<open>DEFAULT_EXTRA_MAX_FIELDS\<close> and \<open>DEFAULT_EXTRA_TOTAL_JSON_MAX_BYTES\<close>.\<close>

record extra_limits =
  xl_fields :: nat
  xl_json_bytes :: nat

record raw_slots =
  rw_id :: "bytes option"
  rw_pubkey :: "bytes option"
  rw_created_at :: "bytes option"
  rw_kind :: "bytes option"
  rw_tags :: "bytes option"
  rw_content :: "bytes option"
  rw_sig :: "bytes option"

datatype wire_error = DuplicateField | ExtraCount | ExtraBytes | WireSyntax

definition str :: "string \<Rightarrow> scalars" where
  "str s = map of_char s"

definition field_names :: "scalars list" where
  "field_names = map str [''id'', ''pubkey'', ''created_at'', ''kind'', ''tags'', ''content'', ''sig'']"

definition slot :: "scalars \<Rightarrow> raw_slots \<Rightarrow> bytes option" where
  "slot key r =
     (if key = str ''id'' then rw_id r else if key = str ''pubkey'' then rw_pubkey r
      else if key = str ''created_at'' then rw_created_at r else if key = str ''kind'' then rw_kind r
      else if key = str ''tags'' then rw_tags r else if key = str ''content'' then rw_content r
      else rw_sig r)"

definition set_slot :: "scalars \<Rightarrow> bytes \<Rightarrow> raw_slots \<Rightarrow> raw_slots" where
  "set_slot key v r =
     (if key = str ''id'' then r\<lparr>rw_id := Some v\<rparr> else if key = str ''pubkey'' then r\<lparr>rw_pubkey := Some v\<rparr>
      else if key = str ''created_at'' then r\<lparr>rw_created_at := Some v\<rparr>
      else if key = str ''kind'' then r\<lparr>rw_kind := Some v\<rparr>
      else if key = str ''tags'' then r\<lparr>rw_tags := Some v\<rparr>
      else if key = str ''content'' then r\<lparr>rw_content := Some v\<rparr> else r\<lparr>rw_sig := Some v\<rparr>)"

fun visit_map ::
  "extra_limits \<Rightarrow> (scalars \<times> bytes option) list \<Rightarrow> bool \<Rightarrow> raw_slots \<Rightarrow> scalars list \<Rightarrow> nat
     \<Rightarrow> (wire_error, raw_slots) result" where
  "visit_map xl [] closed r extras extra_bytes = (if closed then Inr r else Inl WireSyntax)"
| "visit_map xl ((key, value) # rest) closed r extras extra_bytes =
     (if key \<in> set field_names then
        (if slot key r \<noteq> None then Inl DuplicateField
         else and_then (ok_or WireSyntax value) (\<lambda>v. visit_map xl rest closed (set_slot key v r) extras extra_bytes))
      else if key \<in> set extras then Inl DuplicateField
      else if xl_fields xl < length (key # extras) then Inl ExtraCount
      else and_then (ok_or WireSyntax value) (\<lambda>v.
        and_then (ok_or ExtraBytes (Option.bind (checked_add extra_bytes (canonical_json_string_len key)) (\<lambda>t.
          Option.bind (checked_add t 1) (\<lambda>t. checked_add t (length v))))) (\<lambda>total.
          if xl_json_bytes xl < total then Inl ExtraBytes
          else visit_map xl rest closed r (key # extras) total)))"

definition empty_slots :: raw_slots where
  "empty_slots = \<lparr>rw_id = None, rw_pubkey = None, rw_created_at = None, rw_kind = None, rw_tags = None,
     rw_content = None, rw_sig = None\<rparr>"

record raw_event =
  re_id :: bytes
  re_pubkey :: bytes
  re_created_at :: bytes
  re_kind :: bytes
  re_tags :: bytes
  re_content :: bytes
  re_sig :: bytes

definition require_slots :: "raw_slots \<Rightarrow> (wire_error, raw_event) result" where
  "require_slots r =
     and_then (ok_or WireSyntax (rw_id r)) (\<lambda>i.
     and_then (ok_or WireSyntax (rw_pubkey r)) (\<lambda>p.
     and_then (ok_or WireSyntax (rw_created_at r)) (\<lambda>c.
     and_then (ok_or WireSyntax (rw_kind r)) (\<lambda>k.
     and_then (ok_or WireSyntax (rw_tags r)) (\<lambda>t.
     and_then (ok_or WireSyntax (rw_content r)) (\<lambda>ct.
     and_then (ok_or WireSyntax (rw_sig r)) (\<lambda>s.
       Inr \<lparr>re_id = i, re_pubkey = p, re_created_at = c, re_kind = k, re_tags = t, re_content = ct, re_sig = s\<rparr>)))))))"

fun classify_wire_preflight_error :: "wire_error \<Rightarrow> admission_error" where
  "classify_wire_preflight_error DuplicateField = DuplicateEventField"
| "classify_wire_preflight_error ExtraCount = TooManyExtraFields"
| "classify_wire_preflight_error ExtraBytes = ExtraFieldsTooLarge"
| "classify_wire_preflight_error WireSyntax = MalformedEvent"

definition validate_bounded_string :: "bytes \<Rightarrow> nat \<Rightarrow> admission_error \<Rightarrow> (admission_error, nat) result" where
  "validate_bounded_string raw maximum too_large =
     and_then (ok_or MalformedEvent (decoded_json_string_utf8_bytes raw)) (\<lambda>len.
       if maximum < len then Inl too_large else Inr len)"

subsection \<open>Tags\<close>

datatype tag_error = TagCount | TagElementCount | TagElementBytes | TagTotalBytes | TagSyntax

fun classify_tag_error :: "tag_error \<Rightarrow> admission_error" where
  "classify_tag_error TagCount = TooManyTags"
| "classify_tag_error TagElementCount = TooManyTagElements"
| "classify_tag_error TagElementBytes = TagElementTooLarge"
| "classify_tag_error TagTotalBytes = TagsTooLarge"
| "classify_tag_error TagSyntax = MalformedEvent"

record measurement =
  ms_count :: nat
  ms_elements :: nat
  ms_bytes :: nat

definition string_length_seed :: "nat \<Rightarrow> bytes \<Rightarrow> (tag_error, nat) result" where
  "string_length_seed maximum raw =
     and_then (ok_or TagSyntax (decoded_json_string_utf8_bytes raw)) (\<lambda>len.
       if maximum < len then Inl TagElementBytes else Inr len)"

fun visit_tag :: "nat \<Rightarrow> nat \<Rightarrow> bytes list \<Rightarrow> bool \<Rightarrow> measurement \<Rightarrow> (tag_error, measurement) result" where
  "visit_tag maximum_elements maximum_bytes [] closed result = (if closed then Inr result else Inl TagSyntax)"
| "visit_tag maximum_elements maximum_bytes (raw # rest) closed result =
     (if ms_elements result < maximum_elements then
        and_then (string_length_seed maximum_bytes raw) (\<lambda>len.
        and_then (ok_or TagTotalBytes (checked_add (ms_bytes result) len)) (\<lambda>total.
          visit_tag maximum_elements maximum_bytes rest closed
            (result\<lparr>ms_elements := ms_elements result + 1, ms_bytes := total\<rparr>)))
      else Inl TagElementCount)"

fun visit_tags :: "admission_limits \<Rightarrow> tag_item list \<Rightarrow> bool \<Rightarrow> measurement \<Rightarrow> (tag_error, measurement) result" where
  "visit_tags limits [] closed result = (if closed then Inr result else Inl TagSyntax)"
| "visit_tags limits (item # rest) closed result =
     (if ms_count result < al_tag_count limits then
        (if al_tag_total_elements limits < ms_elements result then Inl TagElementCount
         else (case item of
             TagOther \<Rightarrow> Inl TagSyntax
           | TagArray elements c \<Rightarrow>
               and_then (visit_tag (al_tag_total_elements limits - ms_elements result) (al_tag_element_bytes limits)
                 elements c \<lparr>ms_count = 1, ms_elements = 0, ms_bytes = 0\<rparr>) (\<lambda>tag.
               and_then (ok_or TagElementCount (checked_add (ms_elements result) (ms_elements tag))) (\<lambda>e.
               and_then (ok_or TagTotalBytes (checked_add (ms_bytes result) (ms_bytes tag))) (\<lambda>b.
                 if al_tag_total_bytes limits < b then Inl TagTotalBytes
                 else visit_tags limits rest closed
                   \<lparr>ms_count = ms_count result + 1, ms_elements = e, ms_bytes = b\<rparr>)))))
      else (case item of TagArray _ False \<Rightarrow> Inl TagSyntax | _ \<Rightarrow> Inl TagCount))"

definition measure_tags :: "json_reader \<Rightarrow> bytes \<Rightarrow> admission_limits \<Rightarrow> (admission_error, measurement) result" where
  "measure_tags reader raw limits =
     and_then (map_err classify_tag_error
       (visit_tags limits (fst (jn_tags reader raw)) (snd (jn_tags reader raw))
         \<lparr>ms_count = 0, ms_elements = 0, ms_bytes = 0\<rparr>)) (\<lambda>m.
       if jn_end reader raw then Inr m else Inl MalformedEvent)"

subsection \<open>The whole preflight\<close>

definition preflight_wire ::
  "json_reader \<Rightarrow> extra_limits \<Rightarrow> scalars \<Rightarrow> admission_limits \<Rightarrow> (admission_error, unit) result" where
  "preflight_wire reader xl source limits =
     and_then (map_err classify_wire_preflight_error
       (and_then (visit_map xl (fst (jn_object reader source)) (snd (jn_object reader source)) empty_slots [] 0)
          require_slots)) (\<lambda>raw.
     and_then (ensure (jn_end reader (utf8 source)) MalformedEvent) (\<lambda>_.
     and_then (validate_bounded_string (re_id raw) 64 EventIdentifierTooLarge) (\<lambda>_.
     and_then (validate_bounded_string (re_pubkey raw) 64 EventIdentifierTooLarge) (\<lambda>_.
     and_then (validate_bounded_string (re_sig raw) 128 EventIdentifierTooLarge) (\<lambda>_.
     and_then (validate_bounded_string (re_content raw) (al_content_bytes limits) EventContentTooLarge) (\<lambda>_.
     and_then (ok_or MalformedEvent (jn_u64 reader (re_created_at raw))) (\<lambda>_.
     and_then (ok_or MalformedEvent (jn_u32 reader (re_kind raw))) (\<lambda>_.
     and_then (measure_tags reader (re_tags raw) limits) (\<lambda>_. Inr ())))))))))"

section \<open>Admission\<close>

text \<open>The values the accessors of an event envelope and of a trade mutation return.\<close>

record event_envelope =
  ee_id :: bytes
  ee_sig :: bytes
  ee_author :: bytes
  ee_kind :: nat
  ee_created_at :: nat
  ee_content :: bytes

record trade_mutation =
  tm_trade_id :: bytes
  tm_schema_version :: nat
  tm_contract_id :: string
  tm_mutation_id :: "bytes option"

datatype verification = Verified | IdVerified | IdMismatch | SignatureInvalid | MalformedEnvelope

datatype mutation_error = MutationInvalidKind | MutationAuthorMismatch | MutationOther

record event_codec =
  ec_parse :: "admission_limits \<Rightarrow> extra_limits \<Rightarrow> scalars \<Rightarrow> event_envelope option"
  ec_verify_id :: "event_envelope \<Rightarrow> verification"
  ec_verify :: "event_envelope \<Rightarrow> verification"
  ec_is_trade_kind :: "nat \<Rightarrow> bool"
  ec_mutation :: "event_envelope \<Rightarrow> (mutation_error, trade_mutation) result"

record admitted_event =
  ae_original :: bytes
  ae_event :: event_envelope
  ae_mutation :: trade_mutation
  ae_mutation_id :: bytes
  ae_observed_at :: nat

fun classify_mutation_error :: "mutation_error \<Rightarrow> admission_error" where
  "classify_mutation_error MutationInvalidKind = UnsupportedKind"
| "classify_mutation_error MutationAuthorMismatch = InvalidAuthor"
| "classify_mutation_error MutationOther = InvalidMutation"

definition check_identity :: "verification \<Rightarrow> (admission_error, unit) result" where
  "check_identity v =
     (case v of IdVerified \<Rightarrow> Inr () | IdMismatch \<Rightarrow> Inl InvalidEventId | _ \<Rightarrow> Inl MalformedEvent)"

definition check_signature :: "verification \<Rightarrow> (admission_error, unit) result" where
  "check_signature v =
     (case v of Verified \<Rightarrow> Inr () | IdMismatch \<Rightarrow> Inl InvalidEventId | SignatureInvalid \<Rightarrow> Inl InvalidSignature
      | IdVerified \<Rightarrow> Inl MalformedEvent | MalformedEnvelope \<Rightarrow> Inl MalformedEvent)"

definition admit_rhi_trade_mutation_event ::
  "json_reader \<Rightarrow> event_codec \<Rightarrow> extra_limits \<Rightarrow> admission_limits \<Rightarrow> bytes \<Rightarrow> nat \<Rightarrow> nat
     \<Rightarrow> (admission_error, admitted_event) result" where
  "admit_rhi_trade_mutation_event reader codec xl limits original observed_at maximum_future =
     (if original = [] then Inl EmptyEvent
      else if al_wire_bytes limits < length original then Inl EventTooLarge
      else
     and_then (ok_or InvalidEventUtf8 (from_utf8 original)) (\<lambda>source.
     and_then (preflight_wire reader xl source limits) (\<lambda>_.
     and_then (ok_or MalformedEvent (ec_parse codec limits xl source)) (\<lambda>event.
     and_then (check_identity (ec_verify_id codec event)) (\<lambda>_.
     and_then (check_signature (ec_verify codec event)) (\<lambda>_.
     and_then (validate_authored_time (ee_created_at event)) (\<lambda>_.
     and_then (ensure (ec_is_trade_kind codec (ee_kind event)) UnsupportedKind) (\<lambda>_.
     and_then (map_err classify_mutation_error (ec_mutation codec event)) (\<lambda>mutation.
     and_then (ok_or InvalidMutation (tm_mutation_id mutation)) (\<lambda>mutation_id.
     and_then (enforce_authored_time_policy (ee_created_at event) observed_at maximum_future) (\<lambda>_.
       Inr \<lparr>ae_original = original, ae_event = event, ae_mutation = mutation, ae_mutation_id = mutation_id,
         ae_observed_at = observed_at\<rparr>)))))))))))"

end
