(* ===== verification/State_Trade.thy ===== *)
theory State_Trade
  imports Catalog_Evidence State_Metadata Trade_Ingest
begin

text \<open>
  Persistence of admitted trade evidence, \<open>src/src/state_trade.rs\<close>: one transaction inserts the
  canonical mutation, the signed event and the source observation; a fact that is already there must
  be the same fact.  The NIP-01 encoding of an event envelope belongs to the event crate and is a
  parameter; so is the transaction of the state host.
\<close>

section \<open>Data\<close>

datatype trade_evidence_error = EvInvalidMode | EvInvalidObservation | EvEncoding | EvMutationConflict
  | EvSignedEventConflict | EvStorage | EvCommitOutcomeUnknown

fun trade_evidence_error_code :: "trade_evidence_error \<Rightarrow> string" where
  "trade_evidence_error_code EvInvalidMode = ''trade_evidence_mode_invalid''"
| "trade_evidence_error_code EvInvalidObservation = ''trade_evidence_observation_invalid''"
| "trade_evidence_error_code EvEncoding = ''trade_evidence_encoding_failed''"
| "trade_evidence_error_code EvMutationConflict = ''trade_mutation_conflict''"
| "trade_evidence_error_code EvSignedEventConflict = ''trade_signed_event_conflict''"
| "trade_evidence_error_code EvStorage = ''trade_evidence_storage_failed''"
| "trade_evidence_error_code EvCommitOutcomeUnknown = ''trade_evidence_commit_outcome_unknown''"

datatype persistence_error = PersistMutationConflict | PersistSignedEventConflict | PersistStorage

record trade_observation =
  ts_source_id :: string
  ts_policy :: bytes
  ts_event_id :: bytes
  ts_event_signature :: bytes
  ts_observed_at :: nat

record persistence_record =
  pr_mutation_id :: bytes
  pr_trade_id :: bytes
  pr_contract_id :: string
  pr_schema_version :: nat
  pr_event_id :: bytes
  pr_event_signature :: bytes
  pr_author_pubkey :: bytes
  pr_event_kind :: nat
  pr_authored_at :: nat
  pr_canonical_content :: bytes
  pr_canonical_event_json :: bytes

record persistence_outcome =
  po_mutation_inserted :: bool
  po_signed_event_inserted :: bool
  po_observation_inserted :: bool

section \<open>Observations and records\<close>

text \<open>\<open>configured_source\<close>: the entry of \<open>/evidence/sources\<close> with the given well-formed identity.\<close>

fun source_id_bytes :: "nat \<Rightarrow> string \<Rightarrow> bool" where
  "source_id_bytes index [] = True"
| "source_id_bytes index (c # cs) =
     ((if index = 0 then ascii_lowercase c
       else ascii_lowercase c \<or> ascii_digit c \<or> c = CHR ''_'' \<or> c = CHR ''-'')
      \<and> source_id_bytes (index + 1) cs)"

definition configured_source :: "'v json_view \<Rightarrow> 'v \<Rightarrow> string \<Rightarrow> 'v option" where
  "configured_source view configuration source_id =
     (if source_id = [] \<or> 64 < length source_id \<or> \<not> source_id_bytes 0 source_id then None
      else Option.bind (jv_pointer view configuration ''/evidence/sources'') (\<lambda>list.
           Option.bind (jv_as_array view list) (\<lambda>sources.
             find (\<lambda>source. Option.bind (jv_pointer view source ''/source_id'') (jv_as_str view) = Some source_id)
               sources)))"

text \<open>\<open>from_parts\<close>: the observation of an admitted event.\<close>

definition observation_from_parts :: "string \<Rightarrow> bytes \<Rightarrow> admitted_event \<Rightarrow> trade_observation" where
  "observation_from_parts source_id policy event =
     \<lparr>ts_source_id = source_id, ts_policy = policy, ts_event_id = ee_id (ae_event event),
      ts_event_signature = ee_sig (ae_event event), ts_observed_at = ae_observed_at event\<rparr>"

definition observation_from_config ::
  "'v json_view \<Rightarrow> (json_value \<Rightarrow> bytes option) \<Rightarrow> (bytes \<Rightarrow> bytes) \<Rightarrow> 'v \<Rightarrow> string \<Rightarrow> admitted_event
     \<Rightarrow> (trade_evidence_error, trade_observation) result" where
  "observation_from_config view to_vec sha256 configuration source_id event =
     and_then (ok_or EvInvalidObservation (configured_source view configuration source_id)) (\<lambda>source.
     and_then (ensure (Option.bind (jv_pointer view source ''/kind'') (jv_as_str view) = Some ''nostr_relay''
         \<and> Option.bind (jv_pointer view source ''/selector'') (jv_as_str view) = Some SOURCE_SELECTOR)
       EvInvalidObservation) (\<lambda>_.
     and_then (map_err (\<lambda>_. EvInvalidObservation) (evidence_policy_digest view to_vec sha256 configuration)) (\<lambda>policy.
       Inr (observation_from_parts source_id policy event))))"

definition observation_from_persistence_parts :: "string \<Rightarrow> bytes \<Rightarrow> persistence_record \<Rightarrow> nat \<Rightarrow> trade_observation"
  where
  "observation_from_persistence_parts source_id policy r observed_at =
     \<lparr>ts_source_id = source_id, ts_policy = policy, ts_event_id = pr_event_id r,
      ts_event_signature = pr_event_signature r, ts_observed_at = observed_at\<rparr>"

definition record_from_admitted ::
  "(event_envelope \<Rightarrow> bytes option) \<Rightarrow> admitted_event \<Rightarrow> (trade_evidence_error, persistence_record) result" where
  "record_from_admitted wire admitted =
     (let event = ae_event admitted; mutation = ae_mutation admitted in
     and_then (ok_or EvEncoding (wire event)) (\<lambda>encoded.
     and_then (ensure (encoded \<noteq> [] \<and> length encoded \<le> 524288) EvEncoding) (\<lambda>_.
     and_then (ensure (ee_content event \<noteq> [] \<and> length (ee_content event) \<le> 131072) EvEncoding) (\<lambda>_.
       Inr \<lparr>pr_mutation_id = ae_mutation_id admitted, pr_trade_id = tm_trade_id mutation,
         pr_contract_id = tm_contract_id mutation, pr_schema_version = tm_schema_version mutation,
         pr_event_id = ee_id event, pr_event_signature = ee_sig event, pr_author_pubkey = ee_author event,
         pr_event_kind = ee_kind event, pr_authored_at = ee_created_at event,
         pr_canonical_content = ee_content event, pr_canonical_event_json = encoded\<rparr>))))"

section \<open>Statements\<close>

text \<open>
  A column read as \<open>(length(c), substr(c, 1, maximum + 1))\<close>: between one and \<open>maximum\<close> bytes, all of
  them read.
\<close>

definition bounded_length :: "nat \<Rightarrow> nat \<Rightarrow> (persistence_error, nat) result" where
  "bounded_length n maximum = (if 1 \<le> n \<and> n \<le> maximum then Inr n else Inl PersistStorage)"

definition bounded_blob :: "bytes \<Rightarrow> nat \<Rightarrow> (persistence_error, bytes) result" where
  "bounded_blob column maximum =
     and_then (bounded_length (length column) maximum) (\<lambda>n.
       (let value = take (maximum + 1) column in if length value = n then Inr value else Inl PersistStorage))"

definition exact_blob :: "nat \<Rightarrow> bytes \<Rightarrow> (persistence_error, bytes) result" where
  "exact_blob n column =
     and_then (bounded_blob column n) (\<lambda>value. if length value = n then Inr value else Inl PersistStorage)"

definition bounded_column_text :: "string \<Rightarrow> nat \<Rightarrow> (persistence_error, string) result" where
  "bounded_column_text column maximum =
     and_then (bounded_length (length column) maximum) (\<lambda>n.
       (let value = take (maximum + 1) column in if length value = n then Inr value else Inl PersistStorage))"

definition mutation_row_of :: "persistence_record \<Rightarrow> mutation_row" where
  "mutation_row_of r =
     \<lparr>mu_mutation_id = pr_mutation_id r, mu_trade_id = pr_trade_id r, mu_contract_id = pr_contract_id r,
      mu_schema_version = int (pr_schema_version r), mu_event_kind = int (pr_event_kind r),
      mu_author_pubkey = pr_author_pubkey r, mu_canonical_content = pr_canonical_content r\<rparr>"

text \<open>The conjunction reads its columns from left to right and stops at the first that differs.\<close>

definition mutation_matches :: "persistence_record \<Rightarrow> 'a evidence_store_scheme \<Rightarrow> (persistence_error, bool) result" where
  "mutation_matches expected s =
     and_then (ok_or PersistStorage (select_key mu_mutation_id (pr_mutation_id expected) (mutation_rows s))) (\<lambda>row.
     and_then (exact_blob 16 (mu_trade_id row)) (\<lambda>trade.
     if trade \<noteq> pr_trade_id expected then Inr False else
     and_then (bounded_column_text (mu_contract_id row) 128) (\<lambda>contract.
     if contract \<noteq> pr_contract_id expected \<or> mu_schema_version row \<noteq> int (pr_schema_version expected)
        \<or> mu_event_kind row \<noteq> int (pr_event_kind expected) then Inr False else
     and_then (exact_blob 32 (mu_author_pubkey row)) (\<lambda>author.
     if author \<noteq> pr_author_pubkey expected then Inr False else
     and_then (bounded_blob (mu_canonical_content row) 131072) (\<lambda>content.
       Inr (content = pr_canonical_content expected))))))"

definition insert_mutation ::
  "persistence_record \<Rightarrow> 'a evidence_store_scheme \<Rightarrow> (persistence_error, bool \<times> 'a evidence_store_scheme) result" where
  "insert_mutation r s =
     (case insert_mutation_row (mutation_row_of r) (mutation_rows s) of
        None \<Rightarrow> Inl PersistStorage
      | Some (rows, n) \<Rightarrow>
          let s = s\<lparr>mutation_rows := rows\<rparr> in
          if n = 1 then Inr (True, s)
          else if n = 0 then and_then (mutation_matches r s) (\<lambda>same.
            if same then Inr (False, s) else Inl PersistMutationConflict)
          else Inl PersistStorage)"

definition nostr_row_of :: "persistence_record \<Rightarrow> int \<Rightarrow> nostr_row" where
  "nostr_row_of r authored_at =
     \<lparr>ne_event_id = pr_event_id r, ne_event_signature = pr_event_signature r, ne_mutation_id = pr_mutation_id r,
      ne_author_pubkey = pr_author_pubkey r, ne_event_kind = int (pr_event_kind r),
      ne_authored_at_unix_s = authored_at, ne_canonical_event_json = pr_canonical_event_json r\<rparr>"

definition event_matches :: "persistence_record \<Rightarrow> 'a evidence_store_scheme \<Rightarrow> (persistence_error, bool) result" where
  "event_matches expected s =
     and_then (ok_or PersistStorage
       (select_key nostr_key (pr_event_id expected, pr_event_signature expected) (nostr_rows s))) (\<lambda>row.
     and_then (exact_blob 32 (ne_mutation_id row)) (\<lambda>mutation.
     if mutation \<noteq> pr_mutation_id expected then Inr False else
     and_then (exact_blob 32 (ne_author_pubkey row)) (\<lambda>author.
     if author \<noteq> pr_author_pubkey expected \<or> ne_event_kind row \<noteq> int (pr_event_kind expected)
        \<or> Some (ne_authored_at_unix_s row)
          \<noteq> (if pr_authored_at expected \<le> i64_max then Some (int (pr_authored_at expected)) else None)
     then Inr False else
     and_then (bounded_blob (ne_canonical_event_json row) 524288) (\<lambda>encoded.
       Inr (encoded = pr_canonical_event_json expected)))))"

definition insert_event ::
  "persistence_record \<Rightarrow> 'a evidence_store_scheme \<Rightarrow> (persistence_error, bool \<times> 'a evidence_store_scheme) result" where
  "insert_event r s =
     and_then (i64_of_u64 PersistStorage (pr_authored_at r)) (\<lambda>authored_at.
     (case insert_nostr_row (mutation_rows s) (nostr_row_of r authored_at) (nostr_rows s) of
        None \<Rightarrow> Inl PersistStorage
      | Some (rows, n) \<Rightarrow>
          let s = s\<lparr>nostr_rows := rows\<rparr> in
          if n = 1 then Inr (True, s)
          else if n = 0 then and_then (event_matches r s) (\<lambda>same.
            if same then Inr (False, s) else Inl PersistSignedEventConflict)
          else Inl PersistStorage))"

definition observation_row_of :: "trade_observation \<Rightarrow> int \<Rightarrow> observation_row" where
  "observation_row_of obs observed_at =
     \<lparr>ro_source_id = ts_source_id obs, ro_selector_id = SOURCE_SELECTOR, ro_evidence_policy_sha256 = ts_policy obs,
      ro_event_id = ts_event_id obs, ro_event_signature = ts_event_signature obs,
      ro_observed_at_unix_s = observed_at\<rparr>"

definition insert_observation ::
  "trade_observation \<Rightarrow> 'a evidence_store_scheme \<Rightarrow> (persistence_error, bool \<times> 'a evidence_store_scheme) result" where
  "insert_observation obs s =
     and_then (i64_of_u64 PersistStorage (ts_observed_at obs)) (\<lambda>observed_at.
     (case insert_observation_row (nostr_rows s) (observation_row_of obs observed_at) (observation_rows s) of
        None \<Rightarrow> Inl PersistStorage
      | Some (rows, n) \<Rightarrow>
          if n = 0 then Inr (False, s\<lparr>observation_rows := rows\<rparr>)
          else if n = 1 then Inr (True, s\<lparr>observation_rows := rows\<rparr>)
          else Inl PersistStorage))"

definition persist ::
  "persistence_record \<Rightarrow> trade_observation \<Rightarrow> 'a evidence_store_scheme
     \<Rightarrow> (persistence_error, persistence_outcome \<times> 'a evidence_store_scheme) result" where
  "persist r obs s =
     and_then (insert_mutation r s) (\<lambda>(mutation_inserted, s).
     and_then (insert_event r s) (\<lambda>(event_inserted, s).
     and_then (insert_observation obs s) (\<lambda>(observation_inserted, s).
       Inr (\<lparr>po_mutation_inserted = mutation_inserted, po_signed_event_inserted = event_inserted,
          po_observation_inserted = observation_inserted\<rparr>, s))))"

section \<open>The repository\<close>

fun map_evidence_error :: "persistence_error tx_error \<Rightarrow> trade_evidence_error" where
  "map_evidence_error CommitOutcomeUnknown = EvCommitOutcomeUnknown"
| "map_evidence_error (OperationFailed PersistMutationConflict) = EvMutationConflict"
| "map_evidence_error (OperationFailed PersistSignedEventConflict) = EvSignedEventConflict"
| "map_evidence_error (OperationFailed PersistStorage) = EvStorage"
| "map_evidence_error HostFailed = EvStorage"

definition persist_trade_evidence ::
  "(persistence_error, persistence_outcome, 'a evidence_store_scheme) txn \<Rightarrow> (event_envelope \<Rightarrow> bytes option)
     \<Rightarrow> state_host_mode \<Rightarrow> bytes \<Rightarrow> admitted_event \<Rightarrow> trade_observation \<Rightarrow> 'a evidence_store_scheme
     \<Rightarrow> (trade_evidence_error, persistence_outcome) result \<times> 'a evidence_store_scheme" where
  "persist_trade_evidence txn wire mode policy event obs s =
     (if mode \<noteq> ReadWriteExisting then (Inl EvInvalidMode, s)
      else case record_from_admitted wire event of
        Inl e \<Rightarrow> (Inl e, s)
      | Inr r \<Rightarrow>
          if ts_policy obs \<noteq> policy \<or> ts_event_id obs \<noteq> pr_event_id r
             \<or> ts_event_signature obs \<noteq> pr_event_signature r
          then (Inl EvInvalidObservation, s)
          else (case txn (persist r obs) s of (res, s') \<Rightarrow> (map_err map_evidence_error res, s')))"

end
