(* ===== verification/Source_Fetch.thy ===== *)
theory Source_Fetch
  imports State_Trade "HOL-Library.Product_Lexorder"
begin

text \<open>
  The bounded fetch of one relay source, first half of \<open>src/src/source_ingest.rs\<close>: the configured
  source, the page loop with its event and byte bounds, and the admission of the candidates.  The
  transport crate is the record \<open>relay_transport\<close>: what its constructors accept, and one request to the
  relay, which may change the world.
\<close>

section \<open>Data\<close>

datatype source_completion = Complete | IncompleteTimeout | IncompleteUnavailable | IncompleteResourceLimit
  | IncompleteUnknown | Unsupported

fun source_completion_code :: "source_completion \<Rightarrow> string" where
  "source_completion_code Complete = ''complete''"
| "source_completion_code IncompleteTimeout = ''incomplete_timeout''"
| "source_completion_code IncompleteUnavailable = ''incomplete_unavailable''"
| "source_completion_code IncompleteResourceLimit = ''incomplete_resource_limit''"
| "source_completion_code IncompleteUnknown = ''incomplete_unknown''"
| "source_completion_code Unsupported = ''unsupported''"

definition allows_checkpoint :: "source_completion \<Rightarrow> bool" where
  "allows_checkpoint completion \<longleftrightarrow> completion = Complete"

record source_cursor =
  cu_created_at :: nat
  cu_event_id :: bytes

record source_attempt =
  at_request_id :: scalars
  at_started_at :: nat
  at_observed_at :: nat
  at_maximum_future :: nat

datatype ingest_error = InInvalidMode | InInvalidInput | InInvalidConfiguration | InGenerationConflict
  | InStorage | InCommitOutcomeUnknown

fun ingest_error_code :: "ingest_error \<Rightarrow> string" where
  "ingest_error_code InInvalidMode = ''trade_source_mode_invalid''"
| "ingest_error_code InInvalidInput = ''trade_source_input_invalid''"
| "ingest_error_code InInvalidConfiguration = ''trade_source_configuration_invalid''"
| "ingest_error_code InGenerationConflict = ''trade_source_generation_conflict''"
| "ingest_error_code InStorage = ''trade_source_storage_failed''"
| "ingest_error_code InCommitOutcomeUnknown = ''trade_source_commit_outcome_unknown''"

record source_settings =
  ss_source_id :: string
  ss_relay_url :: string
  ss_policy :: bytes
  ss_deadline_ms :: nat
  ss_lookback_seconds :: nat
  ss_overlap_seconds :: nat
  ss_maximum_events :: nat
  ss_maximum_bytes :: nat
  ss_admission_limits :: admission_limits

text \<open>A \<open>SignedEvent\<close> of the transport: what its accessors return.\<close>

record signed_candidate =
  sc_raw_json :: bytes
  sc_created_at :: nat
  sc_id :: bytes
  sc_sig :: bytes

record fetched_source =
  fs_completion :: source_completion
  fs_received :: nat
  fs_duplicates :: nat
  fs_admitted :: "admitted_event list"
  fs_rejected :: nat
  fs_cursor :: "source_cursor option"

record source_checkpoint =
  sk_cursor :: source_cursor
  sk_revision :: nat
  sk_completed_at :: nat

section \<open>The attempt\<close>

text \<open>\<open>char::is_control\<close> and \<open>char::is_whitespace\<close>.\<close>

definition is_control :: "nat \<Rightarrow> bool" where
  "is_control c \<longleftrightarrow> c \<le> 0x1F \<or> (0x7F \<le> c \<and> c \<le> 0x9F)"

definition is_whitespace :: "nat \<Rightarrow> bool" where
  "is_whitespace c \<longleftrightarrow> (9 \<le> c \<and> c \<le> 13) \<or> (0x2000 \<le> c \<and> c \<le> 0x200A)
     \<or> c \<in> {0x20, 0x85, 0xA0, 0x1680, 0x2028, 0x2029, 0x202F, 0x205F, 0x3000}"

definition trim :: "scalars \<Rightarrow> scalars" where
  "trim cs = rev (dropWhile is_whitespace (rev (dropWhile is_whitespace cs)))"

definition source_attempt_new :: "scalars \<Rightarrow> nat \<Rightarrow> nat \<Rightarrow> nat \<Rightarrow> (ingest_error, source_attempt) result" where
  "source_attempt_new request_id started_at observed_at maximum_future =
     (if request_id = [] \<or> 256 < length (utf8 request_id) \<or> request_id \<noteq> trim request_id
         \<or> list_ex is_control request_id \<or> started_at = 0 \<or> i64_max < started_at \<or> observed_at < started_at
      then Inl InInvalidInput
      else Inr \<lparr>at_request_id = request_id, at_started_at = started_at, at_observed_at = observed_at,
        at_maximum_future = maximum_future\<rparr>)"

section \<open>The configured source\<close>

definition RHI_TRADE_SOURCE_RESULT_MAX_EVENTS :: nat where
  "RHI_TRADE_SOURCE_RESULT_MAX_EVENTS = 4096"

definition RHI_TRADE_SOURCE_RESULT_MAX_BYTES :: nat where
  "RHI_TRADE_SOURCE_RESULT_MAX_BYTES = 8 * 1024 * 1024"

definition exact_u64 :: "'v json_view \<Rightarrow> 'v \<Rightarrow> string \<Rightarrow> nat \<Rightarrow> nat \<Rightarrow> (ingest_error, nat) result" where
  "exact_u64 view value pointer minimum maximum =
     ok_or InInvalidConfiguration (option_filter (\<lambda>v. minimum \<le> v \<and> v \<le> maximum)
       (Option.bind (jv_pointer view value pointer) (jv_as_u64 view)))"

definition find_read_relay :: "'v json_view \<Rightarrow> 'v \<Rightarrow> string \<Rightarrow> 'v option" where
  "find_read_relay view normalized relay_id =
     option_filter (\<lambda>relay. Option.bind (jv_pointer view relay ''/read'') (jv_as_bool view) = Some True)
       (Option.bind (jv_pointer view normalized ''/relays'') (\<lambda>list.
        Option.bind (jv_as_array view list) (\<lambda>relays.
          find (\<lambda>relay. Option.bind (jv_pointer view relay ''/id'') (jv_as_str view) = Some relay_id) relays)))"

definition source_settings_new ::
  "'v json_view \<Rightarrow> (json_value \<Rightarrow> bytes option) \<Rightarrow> (bytes \<Rightarrow> bytes) \<Rightarrow> (string \<Rightarrow> bool) \<Rightarrow> bytes \<Rightarrow> 'v \<Rightarrow> string
     \<Rightarrow> (ingest_error, source_settings) result" where
  "source_settings_new view to_vec sha256 relay_target metadata_policy normalized source_id =
     and_then (ok_or InInvalidConfiguration (configured_source view normalized source_id)) (\<lambda>source.
     and_then (ensure (Option.bind (jv_pointer view source ''/kind'') (jv_as_str view) = Some ''nostr_relay''
         \<and> Option.bind (jv_pointer view source ''/selector'') (jv_as_str view) = Some SOURCE_SELECTOR)
       InInvalidConfiguration) (\<lambda>_.
     and_then (ok_or InInvalidConfiguration
       (Option.bind (jv_pointer view source ''/relay_id'') (jv_as_str view))) (\<lambda>relay_id.
     and_then (ok_or InInvalidConfiguration (find_read_relay view normalized relay_id)) (\<lambda>relay.
     and_then (ok_or InInvalidConfiguration
       (Option.bind (jv_pointer view relay ''/url'') (jv_as_str view))) (\<lambda>relay_url.
     and_then (map_err (\<lambda>_. InInvalidConfiguration) (evidence_policy_digest view to_vec sha256 normalized)) (\<lambda>policy.
     and_then (ensure (policy = metadata_policy) InInvalidConfiguration) (\<lambda>_.
     and_then (exact_u64 view source ''/deadline_ms'' 100 30000) (\<lambda>deadline.
     and_then (exact_u64 view source ''/lookback_seconds'' 60 2678400) (\<lambda>lookback.
     and_then (exact_u64 view source ''/overlap_seconds'' 1 86400) (\<lambda>overlap.
     and_then (ensure (overlap \<le> lookback) InInvalidConfiguration) (\<lambda>_.
     and_then (exact_u64 view normalized ''/resource_limits/source_results/events'' 1
       RHI_TRADE_SOURCE_RESULT_MAX_EVENTS) (\<lambda>maximum_events.
     and_then (exact_u64 view normalized ''/resource_limits/source_results/bytes'' 1
       RHI_TRADE_SOURCE_RESULT_MAX_BYTES) (\<lambda>maximum_bytes.
     and_then (ensure (relay_target relay_url) InInvalidConfiguration) (\<lambda>_.
     and_then (map_err (\<lambda>_. InInvalidConfiguration) (limits_from_config (\<lambda>pointer.
       Option.bind (jv_pointer view normalized pointer) (jv_as_u64 view)))) (\<lambda>limits.
       Inr \<lparr>ss_source_id = source_id, ss_relay_url = relay_url, ss_policy = policy, ss_deadline_ms = deadline,
         ss_lookback_seconds = lookback, ss_overlap_seconds = overlap, ss_maximum_events = maximum_events,
         ss_maximum_bytes = maximum_bytes, ss_admission_limits = limits\<rparr>)))))))))))))))"

section \<open>The transport\<close>

datatype fetch_target_state = TargetComplete | TargetPartial | TargetUnavailable | TargetFailedRetryable
  | TargetFailedTerminal | TargetCancelled

datatype next_page = PageComplete | PageCancelled | PageCursor string

record fetch_page =
  pg_target_outcomes :: "(bytes \<times> fetch_target_state) list"
  pg_events :: "signed_candidate list"
  pg_next :: next_page

record fetch_selector =
  sel_kinds :: "nat list"
  sel_d_tag :: string
  sel_since :: nat

record fetch_request =
  rq_request_id :: scalars
  rq_relay_url :: string
  rq_limit :: nat
  rq_deadline_ms :: nat
  rq_selector :: fetch_selector
  rq_cursor :: "string option"

datatype transport_error = UnsupportedOperation | OtherTransportError

record 'w relay_transport =
  rt_trade_hex :: "bytes \<Rightarrow> string"
  rt_selector_ok :: "fetch_selector \<Rightarrow> bool"
  rt_target_ok :: "string \<Rightarrow> bool"
  rt_fingerprint :: "string \<Rightarrow> bytes"
  rt_bounds_ok :: "nat \<Rightarrow> nat \<Rightarrow> bool"
  rt_request_ok :: "scalars \<Rightarrow> string \<Rightarrow> nat \<Rightarrow> nat \<Rightarrow> bool"
  rt_validate :: "fetch_page \<Rightarrow> fetch_request \<Rightarrow> bool"
  rt_fetch :: "fetch_request \<Rightarrow> 'w \<Rightarrow> (transport_error, fetch_page) result \<times> 'w"

section \<open>The page loop\<close>

text \<open>The \<open>for\<close> loop over the events of one page: the new counts and the candidates it adds.\<close>

fun scan_page ::
  "nat \<Rightarrow> nat \<Rightarrow> signed_candidate list \<Rightarrow> nat \<times> nat \<times> signed_candidate list \<Rightarrow> nat \<times> nat \<times> signed_candidate list" where
  "scan_page maximum_events maximum_bytes [] (received, bytes, candidates) = (received, bytes, candidates)"
| "scan_page maximum_events maximum_bytes (e # es) (received, bytes, candidates) =
     (let received = min (received + 1) u64_max in
      if maximum_events < received then (received, bytes, candidates)
      else case option_filter (\<lambda>v. v \<le> maximum_bytes) (checked_add bytes (length (sc_raw_json e))) of
          None \<Rightarrow> (min (maximum_events + 1) u64_max, bytes, candidates)
        | Some v \<Rightarrow> scan_page maximum_events maximum_bytes es (received, v, candidates @ [e]))"

text \<open>How the state the target reports ends the loop, if it does.\<close>

fun target_stops :: "fetch_target_state \<Rightarrow> source_completion option" where
  "target_stops TargetComplete = None"
| "target_stops TargetPartial = None"
| "target_stops TargetUnavailable = Some IncompleteUnavailable"
| "target_stops TargetFailedRetryable = Some IncompleteUnavailable"
| "target_stops TargetFailedTerminal = Some IncompleteUnknown"
| "target_stops TargetCancelled = Some IncompleteTimeout"

definition page_outcome :: "bytes \<Rightarrow> fetch_page \<Rightarrow> fetch_target_state option" where
  "page_outcome fingerprint page =
     option_filter (\<lambda>_. length (pg_target_outcomes page) = 1)
       (map_option snd (find (\<lambda>outcome. fst outcome = fingerprint) (pg_target_outcomes page)))"

text \<open>What is fixed during the loop.\<close>

record fetch_plan =
  fe_attempt :: source_attempt
  fe_source :: source_settings
  fe_deadline :: nat
  fe_selector :: fetch_selector

definition page_limit :: "nat \<Rightarrow> nat \<Rightarrow> nat" where
  "page_limit maximum_events received = min 1000 (saturating_sub maximum_events received + 1)"

definition page_request :: "fetch_plan \<Rightarrow> nat \<Rightarrow> string option \<Rightarrow> fetch_request" where
  "page_request plan received cursor =
     \<lparr>rq_request_id = at_request_id (fe_attempt plan), rq_relay_url = ss_relay_url (fe_source plan),
      rq_limit = page_limit (ss_maximum_events (fe_source plan)) received,
      rq_deadline_ms = fe_deadline plan, rq_selector = fe_selector plan, rq_cursor = cursor\<rparr>"

text \<open>
  One turn after the page has arrived: the loop ends with a completion, or goes on from a cursor it
  has not seen.
\<close>

datatype page_turn = PageStop source_completion | PageGo string

definition page_step ::
  "'w relay_transport \<Rightarrow> fetch_plan \<Rightarrow> fetch_request \<Rightarrow> fetch_page \<Rightarrow> string list \<Rightarrow> nat \<times> nat \<times> signed_candidate list
     \<Rightarrow> page_turn \<times> (nat \<times> nat \<times> signed_candidate list)" where
  "page_step tr plan request page seen counts =
     (if \<not> rt_validate tr page request then (PageStop IncompleteUnknown, counts)
      else case page_outcome (rt_fingerprint tr (ss_relay_url (fe_source plan))) page of
        None \<Rightarrow> (PageStop IncompleteUnknown, counts)
      | Some state \<Rightarrow>
         (case target_stops state of
            Some completion \<Rightarrow> (PageStop completion, counts)
          | None \<Rightarrow>
            let counts = scan_page (ss_maximum_events (fe_source plan)) (ss_maximum_bytes (fe_source plan))
                           (pg_events page) counts in
            if ss_maximum_events (fe_source plan) < fst counts then (PageStop IncompleteResourceLimit, counts)
            else if state = TargetPartial then (PageStop IncompleteUnknown, counts)
            else (case pg_next page of
                PageComplete \<Rightarrow> (PageStop Complete, counts)
              | PageCancelled \<Rightarrow> (PageStop IncompleteTimeout, counts)
              | PageCursor cursor \<Rightarrow>
                  if pg_events page = [] \<or> cursor \<in> set seen then (PageStop IncompleteUnknown, counts)
                  else (PageGo cursor, counts))))"



partial_function (option) fetch_loop ::
  "'w relay_transport \<Rightarrow> fetch_plan \<Rightarrow> string option \<Rightarrow> string list \<Rightarrow> nat \<times> nat \<times> signed_candidate list \<Rightarrow> 'w
     \<Rightarrow> ((ingest_error, source_completion \<times> (nat \<times> nat \<times> signed_candidate list)) result \<times> 'w) option" where
  "fetch_loop tr plan cursor seen counts w =
     (let request = page_request plan (fst counts) cursor in
      if \<not> rt_bounds_ok tr (rq_limit request) (rq_deadline_ms request)
         \<or> \<not> rt_request_ok tr (rq_request_id request) (rq_relay_url request) (rq_limit request) (rq_deadline_ms request)
      then Some (Inl InInvalidInput, w)
      else case rt_fetch tr request w of
        (Inl UnsupportedOperation, w) \<Rightarrow> Some (Inr (Unsupported, counts), w)
      | (Inl OtherTransportError, w) \<Rightarrow> Some (Inr (IncompleteUnknown, counts), w)
      | (Inr page, w) \<Rightarrow>
         (case page_step tr plan request page seen counts of
            (PageStop completion, counts) \<Rightarrow> Some (Inr (completion, counts), w)
          | (PageGo next, counts) \<Rightarrow> fetch_loop tr plan (Some next) (next # seen) counts w))"

section \<open>Admission of the candidates\<close>

definition candidate_order :: "signed_candidate \<Rightarrow> nat \<times> bytes \<times> bytes" where
  "candidate_order c = (sc_created_at c, sc_id c, sc_sig c)"

text \<open>\<open>compare_cursor(left, right).is_lt()\<close>.\<close>

definition cursor_key :: "source_cursor \<Rightarrow> nat \<times> bytes" where
  "cursor_key c = (cu_created_at c, cu_event_id c)"

definition cursor_lt :: "source_cursor \<Rightarrow> source_cursor \<Rightarrow> bool" where
  "cursor_lt left right \<longleftrightarrow> cursor_key left < cursor_key right"

definition event_cursor :: "admitted_event \<Rightarrow> source_cursor" where
  "event_cursor event = \<lparr>cu_created_at = ee_created_at (ae_event event), cu_event_id = ee_id (ae_event event)\<rparr>"

definition signed_identity :: "admitted_event \<Rightarrow> bytes \<times> bytes" where
  "signed_identity event = (ee_id (ae_event event), ee_sig (ae_event event))"

definition next_cursor :: "source_cursor option \<Rightarrow> source_cursor \<Rightarrow> source_cursor option" where
  "next_cursor candidate cursor =
     Some (case candidate of None \<Rightarrow> cursor | Some current \<Rightarrow> if cursor_lt current cursor then cursor else current)"

record admission_pass =
  ap_duplicates :: nat
  ap_identities :: "(bytes \<times> bytes) list"
  ap_admitted :: "admitted_event list"
  ap_rejected :: nat
  ap_cursor :: "source_cursor option"

fun admit_candidates ::
  "(signed_candidate \<Rightarrow> (admission_error, admitted_event) result) \<Rightarrow> bytes \<Rightarrow> signed_candidate list
     \<Rightarrow> admission_pass \<Rightarrow> admission_pass" where
  "admit_candidates admit trade [] p = p"
| "admit_candidates admit trade (c # cs) p =
     admit_candidates admit trade cs
      (case admit c of
         Inr event \<Rightarrow>
           if tm_trade_id (ae_mutation event) = trade then
             if signed_identity event \<in> set (ap_identities p) then p\<lparr>ap_duplicates := min (ap_duplicates p + 1) u64_max\<rparr>
             else p\<lparr>ap_identities := signed_identity event # ap_identities p,
                    ap_cursor := next_cursor (ap_cursor p) (event_cursor event),
                    ap_admitted := ap_admitted p @ [event]\<rparr>
           else p\<lparr>ap_rejected := min (ap_rejected p + 1) u64_max\<rparr>
       | Inl _ \<Rightarrow> p\<lparr>ap_rejected := min (ap_rejected p + 1) u64_max\<rparr>)"

definition start_pass :: admission_pass where
  "start_pass = \<lparr>ap_duplicates = 0, ap_identities = [], ap_admitted = [], ap_rejected = 0, ap_cursor = None\<rparr>"

definition fetch_since :: "source_settings \<Rightarrow> source_attempt \<Rightarrow> source_checkpoint option \<Rightarrow> nat" where
  "fetch_since source attempt checkpoint =
     (case checkpoint of
        None \<Rightarrow> saturating_sub (at_started_at attempt) (ss_lookback_seconds source)
      | Some value \<Rightarrow> saturating_sub (cu_created_at (sk_cursor value)) (ss_overlap_seconds source))"

definition fetch_deadline :: "source_settings \<Rightarrow> source_attempt \<Rightarrow> nat option" where
  "fetch_deadline source attempt =
     Option.bind (checked_mul (at_started_at attempt) 1000) (\<lambda>value. checked_add value (ss_deadline_ms source))"

definition source_selector :: "'w relay_transport \<Rightarrow> bytes \<Rightarrow> nat \<Rightarrow> fetch_selector" where
  "source_selector tr trade since =
     \<lparr>sel_kinds = [3470, 3471, 3472, 3473, 3474], sel_d_tag = rt_trade_hex tr trade, sel_since = since\<rparr>"

definition fetched_of ::
  "(signed_candidate \<Rightarrow> (admission_error, admitted_event) result) \<Rightarrow> nat \<Rightarrow> bytes \<Rightarrow> source_completion
     \<Rightarrow> nat \<times> nat \<times> signed_candidate list \<Rightarrow> fetched_source" where
  "fetched_of admit maximum_events trade completion counts =
     (let pass = admit_candidates admit trade (sort_key candidate_order (snd (snd counts))) start_pass in
      \<lparr>fs_completion = completion, fs_received = min (fst counts) maximum_events,
       fs_duplicates = ap_duplicates pass, fs_admitted = ap_admitted pass, fs_rejected = ap_rejected pass,
       fs_cursor = ap_cursor pass\<rparr>)"

text \<open>The admission the fetched events go through, under the limits and times of the attempt.\<close>

definition source_admit ::
  "json_reader \<Rightarrow> event_codec \<Rightarrow> extra_limits \<Rightarrow> source_settings \<Rightarrow> source_attempt \<Rightarrow> signed_candidate
     \<Rightarrow> (admission_error, admitted_event) result" where
  "source_admit reader codec xl source attempt c =
     admit_rhi_trade_mutation_event reader codec xl (ss_admission_limits source) (sc_raw_json c)
       (at_observed_at attempt) (at_maximum_future attempt)"

definition fetch_source ::
  "'w relay_transport \<Rightarrow> (signed_candidate \<Rightarrow> (admission_error, admitted_event) result) \<Rightarrow> source_settings \<Rightarrow> bytes
     \<Rightarrow> source_attempt \<Rightarrow> source_checkpoint option \<Rightarrow> 'w \<Rightarrow> ((ingest_error, fetched_source) result \<times> 'w) option" where
  "fetch_source tr admit source trade attempt checkpoint w =
     (case fetch_deadline source attempt of
        None \<Rightarrow> Some (Inl InInvalidInput, w)
      | Some deadline \<Rightarrow>
        (let selector = source_selector tr trade (fetch_since source attempt checkpoint) in
         if \<not> rt_selector_ok tr selector \<or> \<not> rt_target_ok tr (ss_relay_url source)
         then Some (Inl InInvalidConfiguration, w)
         else case fetch_loop tr \<lparr>fe_attempt = attempt, fe_source = source, fe_deadline = deadline,
                  fe_selector = selector\<rparr> None [] (0, 0, []) w of
             None \<Rightarrow> None
           | Some (Inl e, w) \<Rightarrow> Some (Inl e, w)
           | Some (Inr (completion, counts), w) \<Rightarrow>
               Some (Inr (fetched_of admit (ss_maximum_events source) trade completion counts), w)))"

end
