(* ===== verification/Source_Ingest.thy ===== *)
theory Source_Ingest
  imports Source_Fetch
begin

text \<open>
  The generation-fenced commit of a fetched source, second half of \<open>src/src/source_ingest.rs\<close>: the
  checkpoint and the dirty generation are read before the fetch and compared again inside the
  transaction that persists the evidence, advances the dirty generation and writes the checkpoint.
\<close>

section \<open>Data\<close>

record dirty_state =
  ds_generation :: nat
  ds_policy :: bytes
  ds_updated_at :: nat

record initial_state =
  is_checkpoint :: "source_checkpoint option"
  is_dirty :: "dirty_state option"

datatype source_error = SrcGenerationConflict | SrcPersistence persistence_error | SrcStorage

record ingest_outcome =
  io_completion :: source_completion
  io_received :: nat
  io_admitted :: nat
  io_rejected :: nat
  io_duplicates :: nat
  io_inserted_mutations :: nat
  io_inserted_signed_events :: nat
  io_inserted_observations :: nat
  io_checkpoint :: "source_cursor option"
  io_checkpoint_advanced :: bool
  io_dirty_generation :: "nat option"
  io_dirty_generation_advanced :: bool

section \<open>Reading\<close>

definition positive_i64_u64 :: "int \<Rightarrow> (source_error, nat) result" where
  "positive_i64_u64 column = (if 0 < column then Inr (nat column) else Inl SrcStorage)"

definition nonnegative_i64_u64 :: "int \<Rightarrow> (source_error, nat) result" where
  "nonnegative_i64_u64 column = (if 0 \<le> column then Inr (nat column) else Inl SrcStorage)"

definition exact_digest :: "bytes \<Rightarrow> (source_error, bytes) result" where
  "exact_digest column =
     (if length column \<noteq> 32 then Inl SrcStorage
      else if length (take 33 column) \<noteq> 32 then Inl SrcStorage else Inr (take 33 column))"

definition source_read_dirty :: "bytes \<Rightarrow> 'a job_store_scheme \<Rightarrow> (source_error, dirty_state option) result" where
  "source_read_dirty trade s =
     (case select_key dg_trade_id trade (dirty_generations s) of
        None \<Rightarrow> Inr None
      | Some row \<Rightarrow>
          and_then (positive_i64_u64 (dg_generation row)) (\<lambda>generation.
          and_then (exact_digest (dg_evidence_policy_sha256 row)) (\<lambda>policy.
          and_then (nonnegative_i64_u64 (dg_updated_at_unix_s row)) (\<lambda>updated_at.
            Inr (Some \<lparr>ds_generation = generation, ds_policy = policy, ds_updated_at = updated_at\<rparr>)))))"

definition read_checkpoint ::
  "string \<Rightarrow> bytes \<Rightarrow> bytes \<Rightarrow> 'a evidence_store_scheme \<Rightarrow> (source_error, source_checkpoint option) result" where
  "read_checkpoint source_id policy trade s =
     (case select_key checkpoint_key (source_id, SOURCE_SELECTOR, policy, trade) (checkpoint_rows s) of
        None \<Rightarrow> Inr None
      | Some row \<Rightarrow>
          and_then (nonnegative_i64_u64 (ck_cursor_created_at_unix_s row)) (\<lambda>created_at.
          and_then (exact_digest (ck_cursor_event_id row)) (\<lambda>event_id.
          and_then (positive_i64_u64 (ck_revision row)) (\<lambda>revision.
          and_then (positive_i64_u64 (ck_completed_at_unix_s row)) (\<lambda>completed_at.
            Inr (Some \<lparr>sk_cursor = \<lparr>cu_created_at = created_at, cu_event_id = event_id\<rparr>,
              sk_revision = revision, sk_completed_at = completed_at\<rparr>))))))"

definition read_initial ::
  "source_settings \<Rightarrow> bytes \<Rightarrow> 'a evidence_store_scheme
     \<Rightarrow> (source_error, initial_state \<times> 'a evidence_store_scheme) result" where
  "read_initial source trade s =
     and_then (read_checkpoint (ss_source_id source) (ss_policy source) trade s) (\<lambda>checkpoint.
     and_then (source_read_dirty trade s) (\<lambda>dirty.
       Inr (\<lparr>is_checkpoint = checkpoint, is_dirty = dirty\<rparr>, s)))"

section \<open>Writing\<close>

definition insert_dirty :: "dirty_row \<Rightarrow> 'a job_store_scheme \<Rightarrow> 'a job_store_scheme option" where
  "insert_dirty r s =
     map_option (\<lambda>rows. s\<lparr>dirty_generations := rows\<rparr>)
       (sql_insert (\<lambda>_ _. True) dirty_valid r (dirty_generations s))"

definition advance_dirty_where :: "bytes \<Rightarrow> int \<Rightarrow> dirty_row \<Rightarrow> bool" where
  "advance_dirty_where trade generation r \<longleftrightarrow> dg_trade_id r = trade \<and> dg_generation r = generation"

definition advance_dirty_set :: "bytes \<Rightarrow> int \<Rightarrow> dirty_row \<Rightarrow> dirty_row" where
  "advance_dirty_set policy updated_at r =
     r\<lparr>dg_generation := dg_generation r + 1, dg_evidence_policy_sha256 := policy, dg_updated_at_unix_s := updated_at\<rparr>"

definition advance_dirty_generation ::
  "bytes \<Rightarrow> bytes \<Rightarrow> nat \<Rightarrow> dirty_state option \<Rightarrow> 'a job_store_scheme
     \<Rightarrow> (source_error, nat \<times> 'a job_store_scheme) result" where
  "advance_dirty_generation trade policy updated_at expected s =
     and_then (i64_of_u64 SrcStorage updated_at) (\<lambda>updated_value.
     (case expected of
        None \<Rightarrow>
          (case insert_dirty \<lparr>dg_trade_id = trade, dg_generation = 1, dg_evidence_policy_sha256 = policy,
                  dg_updated_at_unix_s = updated_value\<rparr> s of
             None \<Rightarrow> Inl SrcStorage
           | Some s \<Rightarrow> Inr (1, s))
      | Some current \<Rightarrow>
          if ds_policy current = policy \<and> ds_updated_at current \<le> updated_at then
            and_then (ok_or SrcStorage (option_filter (\<lambda>value. value \<le> i64_max)
              (checked_add (ds_generation current) 1))) (\<lambda>next.
            and_then (i64_of_u64 SrcStorage (ds_generation current)) (\<lambda>generation.
            (case sql_update dirty_guard dirty_valid (advance_dirty_where trade generation)
                    (advance_dirty_set policy updated_value) (dirty_generations s) of
               None \<Rightarrow> Inl SrcStorage
             | Some (rows, n) \<Rightarrow>
                 if n \<noteq> 1 then Inl SrcGenerationConflict
                 else Inr (next, s\<lparr>dirty_generations := rows\<rparr>))))
          else Inl SrcGenerationConflict))"

definition new_checkpoint_row :: "string \<Rightarrow> bytes \<Rightarrow> bytes \<Rightarrow> int \<Rightarrow> bytes \<Rightarrow> int \<Rightarrow> checkpoint_row" where
  "new_checkpoint_row source_id policy trade created_at event_id completed_at =
     \<lparr>ck_source_id = source_id, ck_selector_id = SOURCE_SELECTOR, ck_evidence_policy_sha256 = policy,
      ck_trade_id = trade, ck_cursor_created_at_unix_s = created_at, ck_cursor_event_id = event_id,
      ck_revision = 1, ck_completed_at_unix_s = completed_at\<rparr>"

definition checkpoint_where :: "string \<Rightarrow> bytes \<Rightarrow> bytes \<Rightarrow> int \<Rightarrow> checkpoint_row \<Rightarrow> bool" where
  "checkpoint_where source_id policy trade revision r \<longleftrightarrow>
     checkpoint_key r = (source_id, SOURCE_SELECTOR, policy, trade) \<and> ck_revision r = revision"

definition checkpoint_set :: "int \<Rightarrow> bytes \<Rightarrow> int \<Rightarrow> checkpoint_row \<Rightarrow> checkpoint_row" where
  "checkpoint_set created_at event_id completed_at r =
     r\<lparr>ck_cursor_created_at_unix_s := created_at, ck_cursor_event_id := event_id,
       ck_revision := ck_revision r + 1, ck_completed_at_unix_s := completed_at\<rparr>"

definition write_checkpoint ::
  "string \<Rightarrow> bytes \<Rightarrow> bytes \<Rightarrow> source_checkpoint option \<Rightarrow> source_cursor \<Rightarrow> nat \<Rightarrow> 'a evidence_store_scheme
     \<Rightarrow> (source_error, 'a evidence_store_scheme) result" where
  "write_checkpoint source_id policy trade current next completed_at s =
     and_then (i64_of_u64 SrcStorage (cu_created_at next)) (\<lambda>created_value.
     and_then (i64_of_u64 SrcStorage completed_at) (\<lambda>completed_value.
     (case current of
        None \<Rightarrow>
          (case sql_insert (\<lambda>_ _. True) checkpoints_valid
                  (new_checkpoint_row source_id policy trade created_value (cu_event_id next) completed_value)
                  (checkpoint_rows s) of
             None \<Rightarrow> Inl SrcStorage
           | Some rows \<Rightarrow> Inr (s\<lparr>checkpoint_rows := rows\<rparr>))
      | Some value \<Rightarrow>
          and_then (i64_of_u64 SrcStorage (sk_revision value)) (\<lambda>revision.
          (case sql_update checkpoint_guard checkpoints_valid (checkpoint_where source_id policy trade revision)
                  (checkpoint_set created_value (cu_event_id next) completed_value) (checkpoint_rows s) of
             None \<Rightarrow> Inl SrcStorage
           | Some (rows, n) \<Rightarrow>
               if n = 1 then Inr (s\<lparr>checkpoint_rows := rows\<rparr>) else Inl SrcGenerationConflict)))))"

section \<open>The commit\<close>

text \<open>The counters of inserted facts are \<open>u32\<close>.\<close>

definition count_inserted :: "nat \<Rightarrow> bool \<Rightarrow> (source_error, nat) result" where
  "count_inserted n inserted =
     (if n + of_bool inserted \<le> 4294967295 then Inr (n + of_bool inserted) else Inl SrcStorage)"

fun persist_admitted ::
  "(event_envelope \<Rightarrow> bytes option) \<Rightarrow> string \<Rightarrow> bytes \<Rightarrow> admitted_event list \<Rightarrow> nat \<times> nat \<times> nat
     \<Rightarrow> 'a evidence_store_scheme \<Rightarrow> (source_error, (nat \<times> nat \<times> nat) \<times> 'a evidence_store_scheme) result" where
  "persist_admitted wire source_id policy [] counts s = Inr (counts, s)"
| "persist_admitted wire source_id policy (event # events) (mutations, signeds, observed) s =
     and_then (map_err (\<lambda>_. SrcStorage) (record_from_admitted wire event)) (\<lambda>r.
     and_then (map_err SrcPersistence (persist r (observation_from_parts source_id policy event) s)) (\<lambda>(out, s).
     and_then (count_inserted mutations (po_mutation_inserted out)) (\<lambda>mutations.
     and_then (count_inserted signeds (po_signed_event_inserted out)) (\<lambda>signeds.
     and_then (count_inserted observed (po_observation_inserted out)) (\<lambda>observed.
       persist_admitted wire source_id policy events (mutations, signeds, observed) s)))))"

definition advance_if_new ::
  "bool \<Rightarrow> bytes \<Rightarrow> bytes \<Rightarrow> nat \<Rightarrow> dirty_state option \<Rightarrow> 'a job_store_scheme
     \<Rightarrow> (source_error, nat option \<times> 'a job_store_scheme) result" where
  "advance_if_new new_evidence trade policy updated_at dirty s =
     (if new_evidence then
        and_then (advance_dirty_generation trade policy updated_at dirty s) (\<lambda>(generation, s).
          Inr (Some generation, s))
      else Inr (map_option ds_generation dirty, s))"

definition checkpoint_eligible :: "source_completion \<Rightarrow> source_cursor option \<Rightarrow> source_checkpoint option \<Rightarrow> bool" where
  "checkpoint_eligible completion candidate checkpoint \<longleftrightarrow>
     allows_checkpoint completion
   \<and> (case candidate of
        None \<Rightarrow> False
      | Some cursor \<Rightarrow> (case checkpoint of None \<Rightarrow> True | Some current \<Rightarrow> cursor_lt (sk_cursor current) cursor))"

definition advance_checkpoint ::
  "source_settings \<Rightarrow> bytes \<Rightarrow> nat \<Rightarrow> initial_state \<Rightarrow> fetched_source \<Rightarrow> 'a evidence_store_scheme
     \<Rightarrow> (source_error, (source_cursor option \<times> bool) \<times> 'a evidence_store_scheme) result" where
  "advance_checkpoint source trade observed_at initial fetched s =
     (if checkpoint_eligible (fs_completion fetched) (fs_cursor fetched) (is_checkpoint initial) then
        (case fs_cursor fetched of
           None \<Rightarrow> Inl SrcStorage
         | Some candidate \<Rightarrow>
             and_then (write_checkpoint (ss_source_id source) (ss_policy source) trade (is_checkpoint initial)
               candidate observed_at s) (\<lambda>s. Inr ((Some candidate, True), s)))
      else Inr ((map_option sk_cursor (is_checkpoint initial), False), s))"

definition commit_source ::
  "(event_envelope \<Rightarrow> bytes option) \<Rightarrow> source_settings \<Rightarrow> bytes \<Rightarrow> nat \<Rightarrow> initial_state \<Rightarrow> fetched_source
     \<Rightarrow> 'a evidence_store_scheme \<Rightarrow> (source_error, ingest_outcome \<times> 'a evidence_store_scheme) result" where
  "commit_source wire source trade observed_at initial fetched s =
     and_then (read_checkpoint (ss_source_id source) (ss_policy source) trade s) (\<lambda>checkpoint.
     if checkpoint \<noteq> is_checkpoint initial then Inl SrcGenerationConflict else
     and_then (source_read_dirty trade s) (\<lambda>dirty.
     if dirty \<noteq> is_dirty initial then Inl SrcGenerationConflict else
     and_then (ensure (length (fs_admitted fetched) \<le> 4294967295) SrcStorage) (\<lambda>_.
     and_then (persist_admitted wire (ss_source_id source) (ss_policy source) (fs_admitted fetched) (0, 0, 0) s)
       (\<lambda>((mutations, signeds, observed), s).
     and_then (advance_if_new (mutations \<noteq> 0 \<or> signeds \<noteq> 0) trade (ss_policy source) observed_at (is_dirty initial) s)
       (\<lambda>(generation, s).
     and_then (advance_checkpoint source trade observed_at initial fetched s) (\<lambda>((cursor, advanced), s).
     and_then (ensure (fs_received fetched \<le> 4294967295 \<and> fs_rejected fetched \<le> 4294967295
         \<and> fs_duplicates fetched \<le> 4294967295) SrcStorage) (\<lambda>_.
       Inr (\<lparr>io_completion = fs_completion fetched, io_received = fs_received fetched,
          io_admitted = length (fs_admitted fetched), io_rejected = fs_rejected fetched,
          io_duplicates = fs_duplicates fetched, io_inserted_mutations = mutations,
          io_inserted_signed_events = signeds, io_inserted_observations = observed,
          io_checkpoint = cursor, io_checkpoint_advanced = advanced, io_dirty_generation = generation,
          io_dirty_generation_advanced = (mutations \<noteq> 0 \<or> signeds \<noteq> 0)\<rparr>, s))))))))"

section \<open>The operations\<close>

fun map_source_error :: "source_error tx_error \<Rightarrow> ingest_error" where
  "map_source_error CommitOutcomeUnknown = InCommitOutcomeUnknown"
| "map_source_error (OperationFailed SrcGenerationConflict) = InGenerationConflict"
| "map_source_error (OperationFailed (SrcPersistence e)) = InStorage"
| "map_source_error (OperationFailed SrcStorage) = InStorage"
| "map_source_error HostFailed = InStorage"

text \<open>What the ingestion reaches outside the state: the two transactions, the document, the crates.\<close>

record ('v, 's) ingest_env =
  ie_initial :: "(source_error, initial_state, 's) txn"
  ie_commit :: "(source_error, ingest_outcome, 's) txn"
  ie_mode :: state_host_mode
  ie_policy :: bytes
  ie_view :: "'v json_view"
  ie_to_vec :: "json_value \<Rightarrow> bytes option"
  ie_sha256 :: "bytes \<Rightarrow> bytes"
  ie_relay_target :: "string \<Rightarrow> bool"
  ie_reader :: json_reader
  ie_codec :: event_codec
  ie_extra :: extra_limits
  ie_wire :: "event_envelope \<Rightarrow> bytes option"

definition env_settings :: "('v, 's) ingest_env \<Rightarrow> 'v \<Rightarrow> string \<Rightarrow> (ingest_error, source_settings) result" where
  "env_settings env normalized source_id =
     source_settings_new (ie_view env) (ie_to_vec env) (ie_sha256 env) (ie_relay_target env) (ie_policy env)
       normalized source_id"

definition commit_source_result ::
  "('v, 'a evidence_store_scheme) ingest_env \<Rightarrow> source_settings \<Rightarrow> bytes \<Rightarrow> source_attempt \<Rightarrow> initial_state
     \<Rightarrow> fetched_source \<Rightarrow> 'a evidence_store_scheme \<Rightarrow> (ingest_error, ingest_outcome) result \<times> 'a evidence_store_scheme"
  where
  "commit_source_result env source trade attempt initial fetched s =
     (case ie_commit env (commit_source (ie_wire env) source trade (at_observed_at attempt) initial fetched) s of
        (res, s') \<Rightarrow> (map_err map_source_error res, s'))"

text \<open>
  The fetch runs between the two transactions.  Other writers may commit meanwhile, so the commit
  starts from the state \<open>between\<close> makes of the one the first transaction left.
\<close>

definition ingest_rhi_trade_source ::
  "('v, 'a evidence_store_scheme) ingest_env \<Rightarrow> 'w relay_transport
     \<Rightarrow> ('a evidence_store_scheme \<Rightarrow> 'a evidence_store_scheme) \<Rightarrow> 'v \<Rightarrow> string \<Rightarrow> bytes \<Rightarrow> source_attempt
     \<Rightarrow> 'a evidence_store_scheme \<Rightarrow> 'w
     \<Rightarrow> ((ingest_error, ingest_outcome) result \<times> 'a evidence_store_scheme \<times> 'w) option" where
  "ingest_rhi_trade_source env tr between normalized source_id trade attempt s w =
     (if ie_mode env \<noteq> ReadWriteExisting then Some (Inl InInvalidMode, s, w)
      else case env_settings env normalized source_id of
        Inl e \<Rightarrow> Some (Inl e, s, w)
      | Inr source \<Rightarrow>
         (case ie_initial env (read_initial source trade) s of
            (Inl e, s) \<Rightarrow> Some (Inl (map_source_error e), s, w)
          | (Inr initial, s) \<Rightarrow>
             (case fetch_source tr (source_admit (ie_reader env) (ie_codec env) (ie_extra env) source attempt)
                     source trade attempt (is_checkpoint initial) w of
                None \<Rightarrow> None
              | Some (Inl e, w) \<Rightarrow> Some (Inl e, between s, w)
              | Some (Inr fetched, w) \<Rightarrow>
                 (case commit_source_result env source trade attempt initial fetched (between s) of
                    (res, s) \<Rightarrow> Some (res, s, w)))))"

definition ingest_rhi_subscribed_trade_event ::
  "('v, 'a evidence_store_scheme) ingest_env \<Rightarrow> ('a evidence_store_scheme \<Rightarrow> 'a evidence_store_scheme) \<Rightarrow> 'v
     \<Rightarrow> string \<Rightarrow> admitted_event \<Rightarrow> source_attempt \<Rightarrow> 'a evidence_store_scheme
     \<Rightarrow> (ingest_error, ingest_outcome) result \<times> 'a evidence_store_scheme" where
  "ingest_rhi_subscribed_trade_event env between normalized source_id admitted attempt s =
     (if ie_mode env \<noteq> ReadWriteExisting then (Inl InInvalidMode, s)
      else case env_settings env normalized source_id of
        Inl e \<Rightarrow> (Inl e, s)
      | Inr source \<Rightarrow>
         (let trade = tm_trade_id (ae_mutation admitted) in
          if ss_maximum_bytes source < length (ae_original admitted) \<or> ss_maximum_events source = 0
          then (Inl InInvalidInput, s)
          else (case ie_initial env (read_initial source trade) s of
              (Inl e, s) \<Rightarrow> (Inl (map_source_error e), s)
            | (Inr initial, s) \<Rightarrow>
                commit_source_result env source trade attempt initial
                  \<lparr>fs_completion = Complete, fs_received = 1, fs_duplicates = 0, fs_admitted = [admitted],
                   fs_rejected = 0, fs_cursor = Some (event_cursor admitted)\<rparr> (between s))))"

end
