(* ===== verification/State_Config.thy ===== *)
theory State_Config
  imports Source_Ingest
begin

text \<open>
  The configuration-binding history of \<open>src/src/state_config.rs\<close> and its table in the state catalog:
  the first binding, the verification at every open, and the application of a new configuration,
  which moves every trade to the new evidence policy.  The key parser and the constructor of a build
  identity belong to other crates and are the predicates \<open>key_ok\<close> and \<open>build_ok\<close>.
\<close>

section \<open>Data\<close>

datatype config_apply_error = CfgInvalidInput | CfgBinding | CfgResourceExhausted | CfgTransaction
  | CfgCommitOutcomeUnknown | CfgClose

fun config_apply_error_code :: "config_apply_error \<Rightarrow> string" where
  "config_apply_error_code CfgInvalidInput = ''config_apply_input_invalid''"
| "config_apply_error_code CfgBinding = ''config_apply_binding_invalid''"
| "config_apply_error_code CfgResourceExhausted = ''resource_exhausted''"
| "config_apply_error_code CfgTransaction = ''config_apply_transaction_failed''"
| "config_apply_error_code CfgCommitOutcomeUnknown = ''config_apply_commit_outcome_unknown''"
| "config_apply_error_code CfgClose = ''config_apply_close_failed''"

datatype config_error = ConfigInvalidInput | ConfigBindingInvalid | ConfigResourceExhausted | ConfigStorage

record config_apply_outcome =
  ca_generation :: nat
  ca_changed :: bool

record config_binding =
  cb_normalized_config_sha256 :: bytes
  cb_evidence_policy_sha256 :: bytes
  cb_service_public_key :: string
  cb_config_contract_version :: nat
  cb_state_contract_version :: nat
  cb_admin_contract_version :: nat
  cb_status_contract_version :: nat
  cb_provider_contract_version :: nat

text \<open>\<open>MigrationBuildIdentity\<close>: what its accessors return.\<close>

record build_identity =
  bi_service_version :: string
  bi_service_commit :: string
  bi_lib_revision :: string
  bi_rust_version :: string
  bi_target :: string
  bi_feature_profile :: string
  bi_config_contract_version :: nat
  bi_state_contract_version :: nat
  bi_admin_contract_version :: nat
  bi_status_contract_version :: nat
  bi_provider_contract_version :: nat

record history_entry =
  he_generation :: nat
  he_binding :: config_binding
  he_applied_at :: nat
  he_build :: build_identity

record binding_row =
  br_generation :: int
  br_normalized_config_sha256 :: bytes
  br_evidence_policy_sha256 :: bytes
  br_service_public_key :: string
  br_config_contract_version :: int
  br_state_contract_version :: int
  br_admin_contract_version :: int
  br_status_contract_version :: int
  br_provider_contract_version :: int
  br_applied_at_unix_s :: int
  br_service_version :: string
  br_service_commit :: string
  br_lib_revision :: string
  br_rust_version :: string
  br_target :: string
  br_feature_profile :: string

record config_store = evidence_store +
  binding_rows :: "binding_row list"

section \<open>The table\<close>

definition ascii_hex_lower :: "char \<Rightarrow> bool" where
  "ascii_hex_lower c \<longleftrightarrow> ascii_digit c \<or> (97 \<le> (of_char c :: nat) \<and> (of_char c :: nat) \<le> 102)"

definition sql_version :: "int \<Rightarrow> bool" where
  "sql_version v \<longleftrightarrow> 1 \<le> v \<and> v \<le> 4294967295"

definition binding_row_check :: "binding_row \<Rightarrow> bool" where
  "binding_row_check r \<longleftrightarrow>
     1 \<le> br_generation r \<and> br_generation r \<le> 1024
   \<and> length (br_normalized_config_sha256 r) = 32
   \<and> length (br_evidence_policy_sha256 r) = 32
   \<and> length (br_service_public_key r) = 64 \<and> list_all ascii_hex_lower (br_service_public_key r)
   \<and> sql_version (br_config_contract_version r) \<and> sql_version (br_state_contract_version r)
   \<and> sql_version (br_admin_contract_version r) \<and> sql_version (br_status_contract_version r)
   \<and> sql_version (br_provider_contract_version r)
   \<and> 0 \<le> br_applied_at_unix_s r \<and> br_applied_at_unix_s r \<le> sql_i64_max
   \<and> 1 \<le> length (br_service_version r) \<and> length (br_service_version r) \<le> 128
   \<and> length (br_service_commit r) = 40
   \<and> length (br_lib_revision r) = 40
   \<and> 1 \<le> length (br_rust_version r) \<and> length (br_rust_version r) \<le> 128
   \<and> 1 \<le> length (br_target r) \<and> length (br_target r) \<le> 128
   \<and> 1 \<le> length (br_feature_profile r) \<and> length (br_feature_profile r) \<le> 128"

definition bindings_valid :: "binding_row list \<Rightarrow> bool" where
  "bindings_valid rows \<longleftrightarrow> list_all binding_row_check rows \<and> distinct (map br_generation rows)"

text \<open>\<open>COALESCE(MAX(column), d)\<close>.\<close>

definition sql_max :: "int \<Rightarrow> int list \<Rightarrow> int" where
  "sql_max d xs = (if xs = [] then d else Max (set xs))"

text \<open>The trigger \<open>rhi_config_bindings_guard_insert\<close> lets this row through.\<close>

definition binding_insert_guard :: "binding_row list \<Rightarrow> binding_row \<Rightarrow> bool" where
  "binding_insert_guard rows r \<longleftrightarrow>
     br_generation r = sql_max 0 (map br_generation rows) + 1
   \<and> length rows < 1024
   \<and> sql_max 0 (map br_applied_at_unix_s rows) \<le> br_applied_at_unix_s r"

section \<open>Bindings\<close>

definition is_governed :: "config_binding \<Rightarrow> bool" where
  "is_governed b \<longleftrightarrow>
     cb_config_contract_version b = 1
   \<and> 1 \<le> cb_state_contract_version b \<and> cb_state_contract_version b \<le> 11
   \<and> cb_admin_contract_version b = 1
   \<and> cb_status_contract_version b = 1
   \<and> cb_provider_contract_version b = 1"

definition same_except_state_version :: "config_binding \<Rightarrow> config_binding \<Rightarrow> bool" where
  "same_except_state_version b other \<longleftrightarrow>
     cb_normalized_config_sha256 b = cb_normalized_config_sha256 other
   \<and> cb_evidence_policy_sha256 b = cb_evidence_policy_sha256 other
   \<and> cb_service_public_key b = cb_service_public_key other
   \<and> cb_config_contract_version b = cb_config_contract_version other
   \<and> cb_admin_contract_version b = cb_admin_contract_version other
   \<and> cb_status_contract_version b = cb_status_contract_version other
   \<and> cb_provider_contract_version b = cb_provider_contract_version other
   \<and> cb_state_contract_version b < cb_state_contract_version other"

section \<open>Reading the history\<close>

definition config_exact_digest :: "bytes \<Rightarrow> (config_error, bytes) result" where
  "config_exact_digest column = (if length column = 32 then Inr column else Inl ConfigBindingInvalid)"

definition config_bounded_text :: "string \<Rightarrow> nat \<Rightarrow> nat \<Rightarrow> (config_error, string) result" where
  "config_bounded_text column minimum maximum =
     (if minimum \<le> length column \<and> length column \<le> maximum then
        (let value = take (maximum + 1) column in
         if length value \<noteq> length column then Inl ConfigBindingInvalid else Inr value)
      else Inl ConfigBindingInvalid)"

definition config_bounded_u16 :: "int \<Rightarrow> nat \<Rightarrow> nat \<Rightarrow> (config_error, nat) result" where
  "config_bounded_u16 column minimum maximum =
     (if 0 \<le> column \<and> column \<le> 65535 \<and> minimum \<le> nat column \<and> nat column \<le> maximum
      then Inr (nat column) else Inl ConfigBindingInvalid)"

definition config_positive_u32 :: "int \<Rightarrow> (config_error, nat) result" where
  "config_positive_u32 column =
     (if 0 \<le> column \<and> column \<le> 4294967295 \<and> nat column \<noteq> 0 then Inr (nat column) else Inl ConfigBindingInvalid)"

definition config_nonnegative_u64 :: "int \<Rightarrow> (config_error, nat) result" where
  "config_nonnegative_u64 column = (if 0 \<le> column then Inr (nat column) else Inl ConfigBindingInvalid)"

definition decode_entry ::
  "(string \<Rightarrow> bool) \<Rightarrow> (build_identity \<Rightarrow> bool) \<Rightarrow> binding_row \<Rightarrow> (config_error, history_entry) result" where
  "decode_entry key_ok build_ok row =
     and_then (config_bounded_u16 (br_generation row) 1 1024) (\<lambda>generation.
     and_then (config_exact_digest (br_normalized_config_sha256 row)) (\<lambda>normalized.
     and_then (config_exact_digest (br_evidence_policy_sha256 row)) (\<lambda>policy.
     and_then (config_bounded_text (br_service_public_key row) 64 64) (\<lambda>key.
     and_then (ensure (list_all ascii_hex_lower key \<and> key_ok key) ConfigBindingInvalid) (\<lambda>_.
     and_then (config_positive_u32 (br_config_contract_version row)) (\<lambda>config_version.
     and_then (config_positive_u32 (br_state_contract_version row)) (\<lambda>state_version.
     and_then (config_positive_u32 (br_admin_contract_version row)) (\<lambda>admin_version.
     and_then (config_positive_u32 (br_status_contract_version row)) (\<lambda>status_version.
     and_then (config_positive_u32 (br_provider_contract_version row)) (\<lambda>provider_version.
     and_then (config_nonnegative_u64 (br_applied_at_unix_s row)) (\<lambda>applied_at.
     and_then (config_bounded_text (br_service_version row) 1 128) (\<lambda>service_version.
     and_then (config_bounded_text (br_service_commit row) 40 40) (\<lambda>service_commit.
     and_then (config_bounded_text (br_lib_revision row) 40 40) (\<lambda>lib_revision.
     and_then (config_bounded_text (br_rust_version row) 1 128) (\<lambda>rust_version.
     and_then (config_bounded_text (br_target row) 1 128) (\<lambda>target.
     and_then (config_bounded_text (br_feature_profile row) 1 128) (\<lambda>feature_profile.
     (let build = \<lparr>bi_service_version = service_version, bi_service_commit = service_commit,
            bi_lib_revision = lib_revision, bi_rust_version = rust_version, bi_target = target,
            bi_feature_profile = feature_profile, bi_config_contract_version = config_version,
            bi_state_contract_version = state_version, bi_admin_contract_version = admin_version,
            bi_status_contract_version = status_version, bi_provider_contract_version = provider_version\<rparr> in
      if \<not> build_ok build then Inl ConfigBindingInvalid
      else Inr \<lparr>he_generation = generation,
        he_binding = \<lparr>cb_normalized_config_sha256 = normalized, cb_evidence_policy_sha256 = policy,
          cb_service_public_key = key, cb_config_contract_version = config_version,
          cb_state_contract_version = state_version, cb_admin_contract_version = admin_version,
          cb_status_contract_version = status_version, cb_provider_contract_version = provider_version\<rparr>,
        he_applied_at = applied_at, he_build = build\<rparr>))))))))))))))))))"

definition read_history ::
  "(string \<Rightarrow> bool) \<Rightarrow> (build_identity \<Rightarrow> bool) \<Rightarrow> 'a config_store_scheme \<Rightarrow> (config_error, history_entry list) result"
  where
  "read_history key_ok build_ok s =
     (let rows = take 1025 (sort_key br_generation (binding_rows s)) in
      if 1024 < length rows then Inl ConfigResourceExhausted
      else collect (map (decode_entry key_ok build_ok) rows))"

fun validate_history_from :: "nat \<Rightarrow> nat \<Rightarrow> history_entry list \<Rightarrow> (config_error, unit) result" where
  "validate_history_from index previous_time [] = Inr ()"
| "validate_history_from index previous_time (entry # entries) =
     (if he_generation entry \<noteq> index + 1 \<or> he_applied_at entry < previous_time \<or> \<not> is_governed (he_binding entry)
         \<or> bi_config_contract_version (he_build entry) \<noteq> cb_config_contract_version (he_binding entry)
         \<or> bi_state_contract_version (he_build entry) \<noteq> cb_state_contract_version (he_binding entry)
         \<or> bi_admin_contract_version (he_build entry) \<noteq> cb_admin_contract_version (he_binding entry)
         \<or> bi_status_contract_version (he_build entry) \<noteq> cb_status_contract_version (he_binding entry)
         \<or> bi_provider_contract_version (he_build entry) \<noteq> cb_provider_contract_version (he_binding entry)
      then Inl ConfigBindingInvalid
      else validate_history_from (index + 1) (he_applied_at entry) entries)"

definition validate_history :: "history_entry list \<Rightarrow> (config_error, unit) result" where
  "validate_history history = validate_history_from 0 0 history"

definition latest_entry :: "history_entry list \<Rightarrow> history_entry option" where
  "latest_entry history = (if history = [] then None else Some (last history))"

section \<open>Writing\<close>

definition binding_row_of :: "nat \<Rightarrow> config_binding \<Rightarrow> int \<Rightarrow> build_identity \<Rightarrow> binding_row" where
  "binding_row_of generation b applied_at build =
     \<lparr>br_generation = int generation, br_normalized_config_sha256 = cb_normalized_config_sha256 b,
      br_evidence_policy_sha256 = cb_evidence_policy_sha256 b, br_service_public_key = cb_service_public_key b,
      br_config_contract_version = int (cb_config_contract_version b),
      br_state_contract_version = int (cb_state_contract_version b),
      br_admin_contract_version = int (cb_admin_contract_version b),
      br_status_contract_version = int (cb_status_contract_version b),
      br_provider_contract_version = int (cb_provider_contract_version b), br_applied_at_unix_s = applied_at,
      br_service_version = bi_service_version build, br_service_commit = bi_service_commit build,
      br_lib_revision = bi_lib_revision build, br_rust_version = bi_rust_version build, br_target = bi_target build,
      br_feature_profile = bi_feature_profile build\<rparr>"

definition insert_binding ::
  "nat \<Rightarrow> config_binding \<Rightarrow> nat \<Rightarrow> build_identity \<Rightarrow> 'a config_store_scheme
     \<Rightarrow> (config_error, 'a config_store_scheme) result" where
  "insert_binding generation b applied_at build s =
     and_then (i64_of_u64 ConfigInvalidInput applied_at) (\<lambda>applied_value.
     (case sql_insert binding_insert_guard bindings_valid (binding_row_of generation b applied_value build)
             (binding_rows s) of
        None \<Rightarrow> Inl ConfigStorage
      | Some rows \<Rightarrow> Inr (s\<lparr>binding_rows := rows\<rparr>)))"

definition other_policy :: "bytes \<Rightarrow> dirty_row \<Rightarrow> bool" where
  "other_policy policy r \<longleftrightarrow> dg_evidence_policy_sha256 r \<noteq> policy"

definition advance_dirty_policy ::
  "bytes \<Rightarrow> nat \<Rightarrow> 'a job_store_scheme \<Rightarrow> (config_error, 'a job_store_scheme) result" where
  "advance_dirty_policy policy updated_at s =
     (let others = filter (other_policy policy) (dirty_generations s);
          exhausted = length (filter (\<lambda>r. sql_i64_max \<le> dg_generation r) others) in
     and_then (u64_of_i64 ConfigStorage (sql_max 0 (map dg_updated_at_unix_s others))) (\<lambda>latest.
     if exhausted \<noteq> 0 then Inl ConfigResourceExhausted
     else if updated_at < latest then Inl ConfigInvalidInput
     else and_then (i64_of_u64 ConfigInvalidInput updated_at) (\<lambda>updated_value.
       (case sql_update dirty_guard dirty_valid (other_policy policy) (advance_dirty_set policy updated_value)
               (dirty_generations s) of
          None \<Rightarrow> Inl ConfigStorage
        | Some (rows, _) \<Rightarrow> Inr (s\<lparr>dirty_generations := rows\<rparr>)))))"

section \<open>Operations\<close>

definition bind_or_verify ::
  "(string \<Rightarrow> bool) \<Rightarrow> (build_identity \<Rightarrow> bool) \<Rightarrow> config_binding \<Rightarrow> nat \<Rightarrow> build_identity
     \<Rightarrow> 'a config_store_scheme \<Rightarrow> (config_error, unit \<times> 'a config_store_scheme) result" where
  "bind_or_verify key_ok build_ok expected applied_at build s =
     and_then (read_history key_ok build_ok s) (\<lambda>history.
     and_then
       (if history = [] then
          and_then (insert_binding 1 expected applied_at build s) (\<lambda>s.
          and_then (read_history key_ok build_ok s) (\<lambda>history. Inr (history, s)))
        else Inr (history, s)) (\<lambda>(history, s).
     and_then (validate_history history) (\<lambda>_.
     (case latest_entry history of
        None \<Rightarrow> Inl ConfigBindingInvalid
      | Some actual \<Rightarrow>
          if he_binding actual = expected then Inr ((), s)
          else if same_except_state_version (he_binding actual) expected then
            if 1024 \<le> he_generation actual then Inl ConfigResourceExhausted
            else if applied_at < he_applied_at actual then Inl ConfigInvalidInput
            else and_then (insert_binding (he_generation actual + 1) expected applied_at build s) (\<lambda>s. Inr ((), s))
          else Inl ConfigBindingInvalid))))"

definition verify_binding ::
  "(string \<Rightarrow> bool) \<Rightarrow> (build_identity \<Rightarrow> bool) \<Rightarrow> config_binding \<Rightarrow> 'a config_store_scheme
     \<Rightarrow> (config_error, unit \<times> 'a config_store_scheme) result" where
  "verify_binding key_ok build_ok expected s =
     and_then (read_history key_ok build_ok s) (\<lambda>history.
     and_then (validate_history history) (\<lambda>_.
     (case latest_entry history of
        None \<Rightarrow> Inl ConfigBindingInvalid
      | Some actual \<Rightarrow> if he_binding actual = expected then Inr ((), s) else Inl ConfigBindingInvalid)))"

definition current_generation ::
  "(string \<Rightarrow> bool) \<Rightarrow> (build_identity \<Rightarrow> bool) \<Rightarrow> 'a config_store_scheme
     \<Rightarrow> (config_error, nat \<times> 'a config_store_scheme) result" where
  "current_generation key_ok build_ok s =
     and_then (read_history key_ok build_ok s) (\<lambda>history.
     and_then (validate_history history) (\<lambda>_.
     and_then (ok_or ConfigBindingInvalid (map_option he_generation (latest_entry history))) (\<lambda>generation.
       Inr (generation, s))))"

definition append_configuration ::
  "(string \<Rightarrow> bool) \<Rightarrow> (build_identity \<Rightarrow> bool) \<Rightarrow> config_binding \<Rightarrow> config_binding \<Rightarrow> nat \<Rightarrow> build_identity
     \<Rightarrow> 'a config_store_scheme \<Rightarrow> (config_error, config_apply_outcome \<times> 'a config_store_scheme) result" where
  "append_configuration key_ok build_ok current candidate applied_at build s =
     and_then (read_history key_ok build_ok s) (\<lambda>history.
     and_then (validate_history history) (\<lambda>_.
     and_then (ok_or ConfigBindingInvalid (latest_entry history)) (\<lambda>latest.
     if he_binding latest \<noteq> current then Inl ConfigBindingInvalid
     else if he_binding latest = candidate then
       Inr (\<lparr>ca_generation = he_generation latest, ca_changed = False\<rparr>, s)
     else if 1024 \<le> he_generation latest then Inl ConfigResourceExhausted
     else if applied_at < he_applied_at latest then Inl ConfigInvalidInput
     else
     and_then
       (if cb_evidence_policy_sha256 (he_binding latest) \<noteq> cb_evidence_policy_sha256 candidate
        then advance_dirty_policy (cb_evidence_policy_sha256 candidate) applied_at s else Inr s) (\<lambda>s.
     and_then (insert_binding (he_generation latest + 1) candidate applied_at build s) (\<lambda>s.
     and_then (read_history key_ok build_ok s) (\<lambda>updated.
     and_then (validate_history updated) (\<lambda>_.
     and_then (ok_or ConfigBindingInvalid (latest_entry updated)) (\<lambda>actual.
     if he_generation actual \<noteq> he_generation latest + 1 \<or> he_binding actual \<noteq> candidate
     then Inl ConfigBindingInvalid
     else Inr (\<lparr>ca_generation = he_generation latest + 1, ca_changed = True\<rparr>, s)))))))))"

fun map_config_error :: "config_error tx_error \<Rightarrow> config_apply_error" where
  "map_config_error CommitOutcomeUnknown = CfgCommitOutcomeUnknown"
| "map_config_error (OperationFailed ConfigInvalidInput) = CfgInvalidInput"
| "map_config_error (OperationFailed ConfigBindingInvalid) = CfgBinding"
| "map_config_error (OperationFailed ConfigResourceExhausted) = CfgResourceExhausted"
| "map_config_error (OperationFailed ConfigStorage) = CfgTransaction"
| "map_config_error HostFailed = CfgTransaction"

text \<open>The operations as their callers see them: one transaction each, its error mapped.\<close>

definition run_config_txn ::
  "(config_error, 'r, 's) txn \<Rightarrow> ('s \<Rightarrow> (config_error, 'r \<times> 's) result) \<Rightarrow> 's \<Rightarrow> (config_apply_error, 'r) result \<times> 's" where
  "run_config_txn txn body s = (case txn body s of (r, s') \<Rightarrow> (map_err map_config_error r, s'))"

definition host_bind_or_verify where
  "host_bind_or_verify txn key_ok build_ok expected applied_at build s =
     run_config_txn txn (bind_or_verify key_ok build_ok expected applied_at build) s"

definition host_verify_binding where
  "host_verify_binding txn key_ok build_ok expected s = run_config_txn txn (verify_binding key_ok build_ok expected) s"

definition host_current_generation where
  "host_current_generation txn key_ok build_ok s = run_config_txn txn (current_generation key_ok build_ok) s"

definition host_append_configuration where
  "host_append_configuration txn key_ok build_ok current candidate applied_at build s =
     run_config_txn txn (append_configuration key_ok build_ok current candidate applied_at build) s"

end
