(* ===== verification/State_Trade_Props.thy ===== *)
theory State_Trade_Props
  imports State_Trade
begin

text \<open>
  Persistence of trade evidence is exact and idempotent.  The three insertions go through the
  append-only contract of their tables; the lemmas here add what the comparison with a stored fact
  establishes, and put the three together.
\<close>

section \<open>Columns\<close>

lemma bounded_blob_iff [simp]: "bounded_blob b n = Inr v \<longleftrightarrow> v = b \<and> 1 \<le> length b \<and> length b \<le> n"
  by (auto simp: bounded_blob_def bounded_length_def Let_def split: if_splits)

lemma exact_blob_iff [simp]: "exact_blob n b = Inr v \<longleftrightarrow> v = b \<and> length b = n \<and> 1 \<le> n"
  by (auto simp: exact_blob_def)

lemma bounded_column_text_iff [simp]:
  "bounded_column_text b n = Inr v \<longleftrightarrow> v = b \<and> 1 \<le> length b \<and> length b \<le> n"
  by (auto simp: bounded_column_text_def bounded_length_def Let_def split: if_splits)

section \<open>Comparison with the stored fact\<close>

lemma mutation_matches_iff:
  assumes "select_key mu_mutation_id (pr_mutation_id r) (mutation_rows s) = Some row" and "mutation_row_check row"
  shows "mutation_matches r s = Inr b \<longleftrightarrow> b = (row = mutation_row_of r)"
proof -
  have key: "mu_mutation_id row = pr_mutation_id r" using assms(1) by (rule select_key_SomeD)
  have lens: "length (mu_trade_id row) = 16" "length (mu_author_pubkey row) = 32"
    "1 \<le> length (mu_canonical_content row)" "length (mu_canonical_content row) \<le> 131072"
    using assms(2) by (simp_all add: mutation_row_check_def)
  have "mu_contract_id row \<in> set contract_ids" using assms(2) by (simp add: mutation_row_check_def)
  then have txt_len: "1 \<le> length (mu_contract_id row)" "length (mu_contract_id row) \<le> 128"
    by (auto simp: contract_ids_def)
  have "exact_blob 16 (mu_trade_id row) = Inr (mu_trade_id row)"
    "exact_blob 32 (mu_author_pubkey row) = Inr (mu_author_pubkey row)"
    "bounded_blob (mu_canonical_content row) 131072 = Inr (mu_canonical_content row)"
    "bounded_column_text (mu_contract_id row) 128 = Inr (mu_contract_id row)"
    using lens txt_len by simp_all
  with assms(1) key show ?thesis
    by (cases row) (auto simp: mutation_matches_def mutation_row_of_def)
qed

lemma event_matches_iff:
  assumes "select_key nostr_key (pr_event_id r, pr_event_signature r) (nostr_rows s) = Some row"
    and "nostr_row_check row" and "pr_authored_at r \<le> i64_max"
  shows "event_matches r s = Inr b \<longleftrightarrow> b = (row = nostr_row_of r (int (pr_authored_at r)))"
proof -
  have key: "ne_event_id row = pr_event_id r" "ne_event_signature row = pr_event_signature r"
    using select_key_SomeD(2)[OF assms(1)] by (simp_all add: nostr_key_def)
  have "length (ne_mutation_id row) = 32" "length (ne_author_pubkey row) = 32"
    "1 \<le> length (ne_canonical_event_json row)" "length (ne_canonical_event_json row) \<le> 524288"
    using assms(2) by (simp_all add: nostr_row_check_def)
  then have "exact_blob 32 (ne_mutation_id row) = Inr (ne_mutation_id row)"
    "exact_blob 32 (ne_author_pubkey row) = Inr (ne_author_pubkey row)"
    "bounded_blob (ne_canonical_event_json row) 524288 = Inr (ne_canonical_event_json row)"
    by simp_all
  with assms key show ?thesis
    by (cases row) (auto simp: event_matches_def nostr_row_of_def)
qed

section \<open>The invariant\<close>

definition evidence_inv :: "'a evidence_store_scheme \<Rightarrow> bool" where
  "evidence_inv s \<longleftrightarrow>
     list_all mutation_row_check (mutation_rows s) \<and> distinct (map mu_mutation_id (mutation_rows s))
   \<and> list_all nostr_row_check (nostr_rows s) \<and> distinct (map nostr_key (nostr_rows s))
   \<and> list_all (\<lambda>r. ne_mutation_id r \<in> mu_mutation_id ` set (mutation_rows s)) (nostr_rows s)
   \<and> list_all observation_row_check (observation_rows s) \<and> distinct (map observation_key (observation_rows s))
   \<and> list_all (\<lambda>r. (ro_event_id r, ro_event_signature r) \<in> nostr_key ` set (nostr_rows s)) (observation_rows s)"

lemma select_key_checked: "list_all check rows \<Longrightarrow> select_key key k rows = Some r \<Longrightarrow> check r"
  using select_key_SomeD(1) by (fastforce simp: list_all_iff)

section \<open>The three insertions\<close>

text \<open>The rows an insertion that reports \<open>b\<close> leaves.\<close>

abbreviation appended :: "'r list \<Rightarrow> bool \<Rightarrow> 'r \<Rightarrow> 'r list" where
  "appended rows b r \<equiv> rows @ (if b then [r] else [])"

lemma insert_mutation_iff:
  assumes "evidence_inv s"
  shows "insert_mutation r s = Inr (b, s') \<longleftrightarrow>
    mutation_row_check (mutation_row_of r)
    \<and> b = (pr_mutation_id r \<notin> mu_mutation_id ` set (mutation_rows s))
    \<and> s' = s\<lparr>mutation_rows := appended (mutation_rows s) b (mutation_row_of r)\<rparr>
    \<and> mutation_row_of r \<in> set (mutation_rows s')"
proof (cases "select_key mu_mutation_id (pr_mutation_id r) (mutation_rows s)")
  case None
  then have "pr_mutation_id r \<notin> mu_mutation_id ` set (mutation_rows s)" by (simp add: select_key_None_iff)
  then show ?thesis
    by (auto simp: insert_mutation_def insert_mutation_row_def sql_insert_ignore_def mutation_row_of_def)
next
  case (Some row)
  have mem: "row \<in> set (mutation_rows s)" "mu_mutation_id row = pr_mutation_id r"
    using select_key_SomeD[OF Some] by simp_all
  then have in_keys: "pr_mutation_id r \<in> mu_mutation_id ` set (mutation_rows s)" by (metis image_eqI)
  have chk: "mutation_row_check row"
    using assms mem by (auto simp: evidence_inv_def list_all_iff)
  note m = mutation_matches_iff[OF Some chk]
  have uniq: "x = row" if "x \<in> set (mutation_rows s)" "mu_mutation_id x = pr_mutation_id r" for x
    using that mem assms by (auto simp: evidence_inv_def distinct_map inj_on_def)
  have mrow: "mutation_row_of r \<in> set (mutation_rows s) \<longleftrightarrow> row = mutation_row_of r"
    using uniq[of "mutation_row_of r"] mem by (auto simp: mutation_row_of_def)
  have ins: "insert_mutation_row (mutation_row_of r) (mutation_rows s) =
      (if mutation_row_check (mutation_row_of r) then Some (mutation_rows s, 0) else None)"
    using in_keys by (simp add: insert_mutation_row_def sql_insert_ignore_def mutation_row_of_def)
  have "insert_mutation r s = Inr (b, s') \<longleftrightarrow>
      mutation_row_check (mutation_row_of r) \<and> mutation_matches r s = Inr True \<and> \<not> b \<and> s' = s"
    by (auto simp: insert_mutation_def ins Let_def split: if_splits)
  then show ?thesis using m[of True] mrow in_keys by auto
qed

lemma insert_event_iff:
  assumes "evidence_inv s"
  shows "insert_event r s = Inr (b, s') \<longleftrightarrow>
    pr_authored_at r \<le> i64_max \<and> nostr_row_check (nostr_row_of r (int (pr_authored_at r)))
    \<and> b = ((pr_event_id r, pr_event_signature r) \<notin> nostr_key ` set (nostr_rows s))
    \<and> (b \<longrightarrow> pr_mutation_id r \<in> mu_mutation_id ` set (mutation_rows s))
    \<and> s' = s\<lparr>nostr_rows := appended (nostr_rows s) b (nostr_row_of r (int (pr_authored_at r)))\<rparr>
    \<and> nostr_row_of r (int (pr_authored_at r)) \<in> set (nostr_rows s')"
proof (cases "pr_authored_at r \<le> i64_max")
  case False
  then show ?thesis by (auto simp: insert_event_def)
next
  case time: True
  let ?row = "nostr_row_of r (int (pr_authored_at r))"
  have key: "nostr_key ?row = (pr_event_id r, pr_event_signature r)" "ne_mutation_id ?row = pr_mutation_id r"
    by (simp_all add: nostr_key_def nostr_row_of_def)
  show ?thesis
  proof (cases "select_key nostr_key (pr_event_id r, pr_event_signature r) (nostr_rows s)")
    case None
    then have "(pr_event_id r, pr_event_signature r) \<notin> nostr_key ` set (nostr_rows s)"
      by (simp add: select_key_None_iff)
    then have "insert_nostr_row (mutation_rows s) ?row (nostr_rows s) =
        (if nostr_row_check ?row \<and> pr_mutation_id r \<in> mu_mutation_id ` set (mutation_rows s)
         then Some (nostr_rows s @ [?row], 1) else None)"
      by (simp add: insert_nostr_row_def sql_insert_ignore_def key)
    then show ?thesis using time \<open>_ \<notin> _\<close>
      by (auto simp: insert_event_def split: if_splits)
  next
    case (Some row)
    have mem: "row \<in> set (nostr_rows s)" "nostr_key row = (pr_event_id r, pr_event_signature r)"
      using select_key_SomeD[OF Some] by simp_all
    then have in_keys: "(pr_event_id r, pr_event_signature r) \<in> nostr_key ` set (nostr_rows s)" by (metis image_eqI)
    have chk: "nostr_row_check row" using assms mem by (auto simp: evidence_inv_def list_all_iff)
    note m = event_matches_iff[OF Some chk time]
    have uniq: "x = row" if "x \<in> set (nostr_rows s)" "nostr_key x = nostr_key row" for x
      using that mem assms by (auto simp: evidence_inv_def distinct_map inj_on_def)
    have mrow: "?row \<in> set (nostr_rows s) \<longleftrightarrow> row = ?row"
      using uniq[of ?row] mem key by auto
    have ins: "insert_nostr_row (mutation_rows s) ?row (nostr_rows s) =
        (if nostr_row_check ?row then Some (nostr_rows s, 0) else None)"
      using in_keys by (simp add: insert_nostr_row_def sql_insert_ignore_def key)
    have "insert_event r s = Inr (b, s') \<longleftrightarrow>
        nostr_row_check ?row \<and> event_matches r s = Inr True \<and> \<not> b \<and> s' = s"
      using time by (auto simp: insert_event_def ins Let_def split: if_splits)
    then show ?thesis using m[of True] mrow in_keys time by auto
  qed
qed

lemma insert_observation_iff:
  "insert_observation obs s = Inr (b, s') \<longleftrightarrow>
    ts_observed_at obs \<le> i64_max \<and> observation_row_check (observation_row_of obs (int (ts_observed_at obs)))
    \<and> b = (observation_row_of obs (int (ts_observed_at obs)) \<notin> set (observation_rows s))
    \<and> (b \<longrightarrow> (ts_event_id obs, ts_event_signature obs) \<in> nostr_key ` set (nostr_rows s))
    \<and> s' = s\<lparr>observation_rows := appended (observation_rows s) b (observation_row_of obs (int (ts_observed_at obs)))\<rparr>"
proof -
  let ?row = "observation_row_of obs (int (ts_observed_at obs))"
  have key: "observation_key x = observation_key y \<longleftrightarrow> x = (y :: observation_row)" for x y
    by (cases x; cases y) (auto simp: observation_key_def)
  have mem: "observation_key ?row \<in> observation_key ` set (observation_rows s) \<longleftrightarrow> ?row \<in> set (observation_rows s)"
    using key by (metis (no_types, lifting) image_iff)
  have fk: "(ro_event_id ?row, ro_event_signature ?row) = (ts_event_id obs, ts_event_signature obs)"
    by (simp add: observation_row_of_def)
  show ?thesis
    by (auto simp: insert_observation_def insert_observation_row_def sql_insert_ignore_def mem fk split: if_splits)
qed

section \<open>The transaction\<close>

text \<open>The rows of a record and of its observation.\<close>

abbreviation event_of :: "persistence_record \<Rightarrow> nostr_row" where
  "event_of r \<equiv> nostr_row_of r (int (pr_authored_at r))"

abbreviation observed_of :: "trade_observation \<Rightarrow> observation_row" where
  "observed_of obs \<equiv> observation_row_of obs (int (ts_observed_at obs))"

definition evidence_recorded :: "persistence_record \<Rightarrow> trade_observation \<Rightarrow> 'a evidence_store_scheme \<Rightarrow> bool" where
  "evidence_recorded r obs s \<longleftrightarrow>
     mutation_row_of r \<in> set (mutation_rows s) \<and> event_of r \<in> set (nostr_rows s)
   \<and> observed_of obs \<in> set (observation_rows s)"

definition with_evidence ::
  "persistence_record \<Rightarrow> trade_observation \<Rightarrow> persistence_outcome \<Rightarrow> 'a evidence_store_scheme \<Rightarrow> 'a evidence_store_scheme"
  where
  "with_evidence r obs out s =
     s\<lparr>mutation_rows := appended (mutation_rows s) (po_mutation_inserted out) (mutation_row_of r),
       nostr_rows := appended (nostr_rows s) (po_signed_event_inserted out) (event_of r),
       observation_rows := appended (observation_rows s) (po_observation_inserted out) (observed_of obs)\<rparr>"

lemma insert_mutation_inv:
  assumes "evidence_inv s" and "insert_mutation r s = Inr (b, s')"
  shows "evidence_inv s'"
  using assms unfolding insert_mutation_iff[OF assms(1)]
  by (auto simp: evidence_inv_def list_all_iff mutation_row_of_def)

lemma insert_event_inv:
  assumes "evidence_inv s" and "insert_event r s = Inr (b, s')"
  shows "evidence_inv s'"
proof -
  have "nostr_key (event_of r) = (pr_event_id r, pr_event_signature r)" "ne_mutation_id (event_of r) = pr_mutation_id r"
    by (simp_all add: nostr_key_def nostr_row_of_def)
  with assms show ?thesis
    unfolding insert_event_iff[OF assms(1)] by (auto simp: evidence_inv_def list_all_iff)
qed

lemma insert_observation_inv:
  assumes "evidence_inv s" and "insert_observation obs s = Inr (b, s')"
  shows "evidence_inv s'"
proof -
  have "(ro_event_id (observed_of obs), ro_event_signature (observed_of obs)) = (ts_event_id obs, ts_event_signature obs)"
    by (simp add: observation_row_of_def)
  moreover have "observation_key x = observation_key y \<longleftrightarrow> x = (y :: observation_row)" for x y
    by (cases x; cases y) (auto simp: observation_key_def)
  ultimately show ?thesis
    using assms unfolding insert_observation_iff by (auto simp: evidence_inv_def list_all_iff)
qed

lemma persistE:
  assumes "persist r obs s = Inr (out, s')"
  obtains s1 s2 where "insert_mutation r s = Inr (po_mutation_inserted out, s1)"
    "insert_event r s1 = Inr (po_signed_event_inserted out, s2)"
    "insert_observation obs s2 = Inr (po_observation_inserted out, s')"
  using assms by (auto simp: persist_def)

lemma persist_inv:
  assumes "evidence_inv s" and "persist r obs s = Inr (out, s')"
  shows "evidence_inv s'"
  using assms(2) by (rule persistE) (use assms(1) in \<open>blast dest: insert_mutation_inv insert_event_inv insert_observation_inv\<close>)

lemma persist_effect:
  assumes inv: "evidence_inv s" and p: "persist r obs s = Inr (out, s')"
  shows "s' = with_evidence r obs out s"
    and "evidence_recorded r obs s'"
    and "po_mutation_inserted out \<longleftrightarrow> pr_mutation_id r \<notin> mu_mutation_id ` set (mutation_rows s)"
    and "po_signed_event_inserted out \<longleftrightarrow> (pr_event_id r, pr_event_signature r) \<notin> nostr_key ` set (nostr_rows s)"
    and "po_observation_inserted out \<longleftrightarrow> observed_of obs \<notin> set (observation_rows s)"
proof -
  from p obtain s1 s2 where st: "insert_mutation r s = Inr (po_mutation_inserted out, s1)"
    "insert_event r s1 = Inr (po_signed_event_inserted out, s2)"
    "insert_observation obs s2 = Inr (po_observation_inserted out, s')" by (rule persistE)
  note inv1 = insert_mutation_inv[OF inv st(1)]
  note E = st(1)[unfolded insert_mutation_iff[OF inv]] st(2)[unfolded insert_event_iff[OF inv1]]
    st(3)[unfolded insert_observation_iff]
  have s1: "s1 = s\<lparr>mutation_rows := appended (mutation_rows s) (po_mutation_inserted out) (mutation_row_of r)\<rparr>"
    and s2: "s2 = s1\<lparr>nostr_rows := appended (nostr_rows s1) (po_signed_event_inserted out) (event_of r)\<rparr>"
    and s3: "s' = s2\<lparr>observation_rows := appended (observation_rows s2) (po_observation_inserted out) (observed_of obs)\<rparr>"
    using E by blast+
  show "s' = with_evidence r obs out s" by (simp add: with_evidence_def s1 s2 s3)
  have "mutation_rows s' = mutation_rows s1" by (simp add: s3 s2)
  then have "mutation_row_of r \<in> set (mutation_rows s')" using E(1) by metis
  moreover have "nostr_rows s' = nostr_rows s2" by (simp add: s3)
  then have "event_of r \<in> set (nostr_rows s')" using E(2) by metis
  moreover have "observed_of obs \<in> set (observation_rows s')" using E(3) by (cases "po_observation_inserted out") auto
  ultimately show "evidence_recorded r obs s'" by (simp add: evidence_recorded_def)
  show "po_mutation_inserted out \<longleftrightarrow> pr_mutation_id r \<notin> mu_mutation_id ` set (mutation_rows s)" using E(1) by blast
  show "po_signed_event_inserted out \<longleftrightarrow> (pr_event_id r, pr_event_signature r) \<notin> nostr_key ` set (nostr_rows s)"
    using E(2) by (simp add: s1)
  show "po_observation_inserted out \<longleftrightarrow> observed_of obs \<notin> set (observation_rows s)"
    using E(3) by (simp add: s1 s2)
qed

text \<open>What a record and its observation must satisfy for the tables to take them.\<close>

definition persistable :: "persistence_record \<Rightarrow> trade_observation \<Rightarrow> bool" where
  "persistable r obs \<longleftrightarrow>
     mutation_row_check (mutation_row_of r) \<and> pr_authored_at r \<le> i64_max \<and> nostr_row_check (event_of r)
   \<and> ts_observed_at obs \<le> i64_max \<and> observation_row_check (observed_of obs)
   \<and> ts_event_id obs = pr_event_id r \<and> ts_event_signature obs = pr_event_signature r"

definition no_conflict :: "persistence_record \<Rightarrow> 'a evidence_store_scheme \<Rightarrow> bool" where
  "no_conflict r s \<longleftrightarrow>
     (\<forall>row \<in> set (mutation_rows s). mu_mutation_id row = pr_mutation_id r \<longrightarrow> row = mutation_row_of r)
   \<and> (\<forall>row \<in> set (nostr_rows s). nostr_key row = (pr_event_id r, pr_event_signature r) \<longrightarrow> row = event_of r)"

lemma persist_succeeds:
  assumes inv: "evidence_inv s" and "persistable r obs" and "no_conflict r s"
  shows "\<exists>out s'. persist r obs s = Inr (out, s')"
proof -
  let ?m = "pr_mutation_id r \<notin> mu_mutation_id ` set (mutation_rows s)"
  let ?e = "(pr_event_id r, pr_event_signature r) \<notin> nostr_key ` set (nostr_rows s)"
  let ?o = "observed_of obs \<notin> set (observation_rows s)"
  let ?s1 = "s\<lparr>mutation_rows := appended (mutation_rows s) ?m (mutation_row_of r)\<rparr>"
  let ?s2 = "?s1\<lparr>nostr_rows := appended (nostr_rows s) ?e (event_of r)\<rparr>"
  have key: "mu_mutation_id (mutation_row_of r) = pr_mutation_id r" "nostr_key (event_of r) = (pr_event_id r, pr_event_signature r)"
    by (simp_all add: mutation_row_of_def nostr_key_def nostr_row_of_def)
  have m: "insert_mutation r s = Inr (?m, ?s1)"
    using assms unfolding insert_mutation_iff[OF inv] by (auto simp: persistable_def no_conflict_def key)
  have "pr_mutation_id r \<in> mu_mutation_id ` set (mutation_rows ?s1)" by (cases ?m) (simp_all add: key)
  then have e: "insert_event r ?s1 = Inr (?e, ?s2)"
    using assms unfolding insert_event_iff[OF insert_mutation_inv[OF inv m]]
    by (auto simp: persistable_def no_conflict_def key)
  have "(ts_event_id obs, ts_event_signature obs) \<in> nostr_key ` set (nostr_rows ?s2)"
    using assms(2) by (cases ?e) (simp_all add: persistable_def key)
  then have "insert_observation obs ?s2 = Inr (?o, ?s2\<lparr>observation_rows := appended (observation_rows s) ?o (observed_of obs)\<rparr>)"
    using assms(2) unfolding insert_observation_iff by (auto simp: persistable_def)
  with m e show ?thesis by (auto simp: persist_def)
qed

section \<open>Property\<close>

lemma persistable_of_persist:
  assumes inv: "evidence_inv s" and p: "persist r obs s = Inr (out, s')"
    and bound: "ts_event_id obs = pr_event_id r" "ts_event_signature obs = pr_event_signature r"
  shows "persistable r obs"
  using p
proof (rule persistE)
  fix s1 s2
  assume "insert_mutation r s = Inr (po_mutation_inserted out, s1)"
    "insert_event r s1 = Inr (po_signed_event_inserted out, s2)"
    "insert_observation obs s2 = Inr (po_observation_inserted out, s')"
  with inv bound show ?thesis
    using insert_mutation_inv[OF inv] insert_mutation_iff[OF inv] insert_event_iff[of s1] insert_observation_iff
    unfolding persistable_def by metis
qed

lemma recorded_no_conflict:
  assumes "evidence_inv s" and "evidence_recorded r obs s"
  shows "no_conflict r s"
proof -
  have "mu_mutation_id (mutation_row_of r) = pr_mutation_id r" "nostr_key (event_of r) = (pr_event_id r, pr_event_signature r)"
    by (simp_all add: mutation_row_of_def nostr_key_def nostr_row_of_def)
  with assms show ?thesis
    unfolding no_conflict_def evidence_inv_def evidence_recorded_def distinct_map inj_on_def by metis
qed

lemma persist_conflict_free:
  assumes "evidence_inv s" and "persist r obs s = Inr (out, s')"
  shows "no_conflict r s"
proof -
  have "no_conflict r s'" by (rule recorded_no_conflict[OF persist_inv[OF assms] persist_effect(2)[OF assms]])
  moreover have "set (mutation_rows s) \<subseteq> set (mutation_rows s')" "set (nostr_rows s) \<subseteq> set (nostr_rows s')"
    unfolding persist_effect(1)[OF assms] by (auto simp: with_evidence_def)
  ultimately show ?thesis unfolding no_conflict_def by blast
qed

lemma persist_again:
  assumes inv: "evidence_inv s" and p: "persist r obs s = Inr (out, s')"
    and bound: "ts_event_id obs = pr_event_id r" "ts_event_signature obs = pr_event_signature r"
  shows "persist r obs s' = Inr (\<lparr>po_mutation_inserted = False, po_signed_event_inserted = False,
      po_observation_inserted = False\<rparr>, s')"
proof -
  note inv' = persist_inv[OF inv p] and rec = persist_effect(2)[OF inv p]
  from persist_succeeds[OF inv' persistable_of_persist[OF inv p bound] recorded_no_conflict[OF inv' rec]]
  obtain out2 s2 where p2: "persist r obs s' = Inr (out2, s2)" by blast
  note E = persist_effect[OF inv' p2]
  have "mutation_row_of r \<in> set (mutation_rows s')" "event_of r \<in> set (nostr_rows s')" "observed_of obs \<in> set (observation_rows s')"
    using rec by (simp_all add: evidence_recorded_def)
  then have "pr_mutation_id r \<in> mu_mutation_id ` set (mutation_rows s')"
    "(pr_event_id r, pr_event_signature r) \<in> nostr_key ` set (nostr_rows s')"
    by (force simp: mutation_row_of_def nostr_key_def nostr_row_of_def image_iff)+
  with E(3-5) \<open>observed_of obs \<in> _\<close> have none: "\<not> po_mutation_inserted out2" "\<not> po_signed_event_inserted out2"
    "\<not> po_observation_inserted out2" by blast+
  then have "s2 = s'" using E(1) by (simp add: with_evidence_def)
  with p2 none show ?thesis by (cases out2) simp
qed

section \<open>Storing several facts\<close>

text \<open>Rows stored one after the other, each unless a row with its key is there already.\<close>

fun store_new :: "('r \<Rightarrow> 'k) \<Rightarrow> 'r list \<Rightarrow> 'r list \<Rightarrow> 'r list" where
  "store_new key rows [] = rows"
| "store_new key rows (x # xs) = store_new key (if key x \<in> key ` set rows then rows else rows @ [x]) xs"

text \<open>Exactly these rows were stored, and every one of them is in its table.\<close>

definition evidence_stored ::
  "mutation_row list \<Rightarrow> nostr_row list \<Rightarrow> observation_row list \<Rightarrow> 'a evidence_store_scheme \<Rightarrow> 'a evidence_store_scheme \<Rightarrow> bool"
  where
  "evidence_stored ms es os s s' \<longleftrightarrow>
     mutation_rows s' = store_new mu_mutation_id (mutation_rows s) ms
   \<and> nostr_rows s' = store_new nostr_key (nostr_rows s) es
   \<and> observation_rows s' = store_new (\<lambda>r. r) (observation_rows s) os
   \<and> set ms \<subseteq> set (mutation_rows s') \<and> set es \<subseteq> set (nostr_rows s') \<and> set os \<subseteq> set (observation_rows s')"

lemma store_new_append: "store_new key rows (xs @ ys) = store_new key (store_new key rows xs) ys"
  by (induction xs arbitrary: rows) auto

lemma store_new_grows: "set rows \<subseteq> set (store_new key rows xs)"
proof (induction xs arbitrary: rows)
  case (Cons x xs)
  have "set rows \<subseteq> set (if key x \<in> key ` set rows then rows else rows @ [x])" by auto
  with Cons[of "if key x \<in> key ` set rows then rows else rows @ [x]"] show ?case by simp
qed simp

lemma evidence_stored_refl: "evidence_stored [] [] [] s s"
  by (simp add: evidence_stored_def)

lemma evidence_stored_trans:
  assumes "evidence_stored ms es os s s1" and "evidence_stored ms' es' os' s1 s2"
  shows "evidence_stored (ms @ ms') (es @ es') (os @ os') s s2"
proof -
  have "set (mutation_rows s1) \<subseteq> set (mutation_rows s2)" "set (nostr_rows s1) \<subseteq> set (nostr_rows s2)"
    "set (observation_rows s1) \<subseteq> set (observation_rows s2)"
    using assms(2) store_new_grows[of "mutation_rows s1"] store_new_grows[of "nostr_rows s1"] store_new_grows[of "observation_rows s1"]
    by (simp_all add: evidence_stored_def)
  with assms show ?thesis unfolding evidence_stored_def store_new_append set_append by (intro conjI) (simp, simp, simp, blast+)
qed

lemma evidence_stored_cong:
  assumes "mutation_rows s = mutation_rows t" "nostr_rows s = nostr_rows t" "observation_rows s = observation_rows t"
    and "mutation_rows s' = mutation_rows t'" "nostr_rows s' = nostr_rows t'" "observation_rows s' = observation_rows t'"
  shows "evidence_stored ms es os s s' \<longleftrightarrow> evidence_stored ms es os t t'"
  unfolding evidence_stored_def assms ..

lemma persist_stored:
  assumes "evidence_inv s" and "persist r obs s = Inr (out, s')"
  shows "evidence_stored [mutation_row_of r] [event_of r] [observed_of obs] s s'"
  using persist_effect[OF assms]
  by (simp add: evidence_stored_def evidence_recorded_def with_evidence_def mutation_row_of_def nostr_row_of_def nostr_key_def)

text \<open>
  C38.  Evidence is stored exactly once and never altered: on a governed store, persisting a record and
  its observation succeeds if and only if the tables admit the rows and no stored fact of the same
  identity differs; it then appends exactly the facts it reports as new, the three facts are stored,
  and repeating it reports nothing new and changes nothing.
\<close>

theorem persist_evidence_exact:
  assumes inv: "evidence_inv s" and "ts_event_id obs = pr_event_id r" and "ts_event_signature obs = pr_event_signature r"
  shows "(case persist r obs s of
      Inl _ \<Rightarrow> \<not> (persistable r obs \<and> no_conflict r s)
    | Inr (out, s') \<Rightarrow>
        persistable r obs \<and> no_conflict r s \<and> evidence_inv s' \<and> s' = with_evidence r obs out s
      \<and> evidence_recorded r obs s'
      \<and> po_mutation_inserted out = (pr_mutation_id r \<notin> mu_mutation_id ` set (mutation_rows s))
      \<and> po_signed_event_inserted out = ((pr_event_id r, pr_event_signature r) \<notin> nostr_key ` set (nostr_rows s))
      \<and> po_observation_inserted out = (observed_of obs \<notin> set (observation_rows s))
      \<and> persist r obs s' = Inr (\<lparr>po_mutation_inserted = False, po_signed_event_inserted = False,
          po_observation_inserted = False\<rparr>, s'))"
proof (cases "persist r obs s")
  case (Inl e)
  with persist_succeeds[OF inv] show ?thesis by fastforce
next
  case (Inr a)
  obtain out s' where p: "persist r obs s = Inr (out, s')" using Inr by (cases a) auto
  show ?thesis
    using persistable_of_persist[OF inv p assms(2,3)] persist_conflict_free[OF inv p] persist_inv[OF inv p]
      persist_effect[OF inv p] persist_again[OF inv p assms(2,3)]
    by (simp add: p)
qed

definition demo_evidence_record :: persistence_record where
  "demo_evidence_record = \<lparr>pr_mutation_id = replicate 32 1, pr_trade_id = replicate 16 2,
     pr_contract_id = ''radroots.trade.proposal.v1'', pr_schema_version = 1, pr_event_id = replicate 32 3,
     pr_event_signature = replicate 64 4, pr_author_pubkey = replicate 32 5, pr_event_kind = 3470,
     pr_authored_at = 90, pr_canonical_content = [123, 125], pr_canonical_event_json = [123, 125]\<rparr>"

definition demo_observation :: trade_observation where
  "demo_observation = \<lparr>ts_source_id = ''relay-a'', ts_policy = replicate 32 6, ts_event_id = replicate 32 3,
     ts_event_signature = replicate 64 4, ts_observed_at = 100\<rparr>"

definition no_evidence :: evidence_store where
  "no_evidence = \<lparr>dirty_generations = [], jobs = [], mutation_rows = [], nostr_rows = [], observation_rows = [],
     checkpoint_rows = []\<rparr>"

lemma demo_persistable: "persistable demo_evidence_record demo_observation"
  by (simp add: persistable_def demo_evidence_record_def demo_observation_def mutation_row_of_def nostr_row_of_def
      observation_row_of_def mutation_row_check_def nostr_row_check_def observation_row_check_def contract_ids_def
      mutation_kinds_def source_id_check_def source_id_char_def ascii_lowercase_def ascii_digit_def
      SOURCE_SELECTOR_def i64_max_def)

theorem persist_evidence_exact_witness:
  "\<exists>out s. persist demo_evidence_record demo_observation no_evidence = Inr (out, s) \<and> po_mutation_inserted out
     \<and> evidence_recorded demo_evidence_record demo_observation s
     \<and> persist demo_evidence_record demo_observation s = Inr (\<lparr>po_mutation_inserted = False, po_signed_event_inserted = False,
         po_observation_inserted = False\<rparr>, s)"
proof -
  have "evidence_inv no_evidence" "no_conflict demo_evidence_record no_evidence"
    by (simp_all add: evidence_inv_def no_conflict_def no_evidence_def)
  with persist_evidence_exact[of no_evidence demo_observation demo_evidence_record] demo_persistable show ?thesis
    by (auto simp: demo_evidence_record_def demo_observation_def no_evidence_def split: sum.splits)
qed

end
