(* ===== verification/Trade_Ingest_Props.thy ===== *)
theory Trade_Ingest_Props
  imports Trade_Ingest
begin

text \<open>
  Properties of the admission of trade events: the two allocation-free string measurements are exact,
  the tag limits are enforced exactly, and what is admitted was verified and lies within the limits.
\<close>

section \<open>JSON strings\<close>

text \<open>
  The allocation-free measurement of a raw JSON string agrees with the JSON grammar: on a UTF-8
  text it returns a length exactly when the text is a string literal, and the length is the number of
  UTF-8 bytes of the decoded string.
\<close>

theorem json_string_length_exact:
  assumes utf: "from_utf8 raw = Some cs"
  shows "decoded_json_string_utf8_bytes raw = Some n \<longleftrightarrow>
    (\<exists>ps. list_all piece_ok ps \<and> raw = json_string_literal ps \<and> n = sum_list (map piece_len ps))"
proof
  assume "\<exists>ps. list_all piece_ok ps \<and> raw = json_string_literal ps \<and> n = sum_list (map piece_len ps)"
  then show "decoded_json_string_utf8_bytes raw = Some n"
    using decoded_loop_pieces[where n = 0 and q = 34]
    by (auto simp: decoded_json_string_utf8_bytes_def json_string_literal_def)
next
  assume d: "decoded_json_string_utf8_bytes raw = Some n"
  then obtain bs where raw: "raw = 34 # bs" "bs \<noteq> []" "last bs = 34" and loop: "decoded_loop bs 0 = Some n"
    by (cases raw) (auto simp: decoded_json_string_utf8_bytes_def split: if_splits)
  have "is_text raw" using utf from_utf8_iff by (auto simp: is_text_def)
  then have "is_text bs" using is_text_drop_ascii[of "[34]" bs] raw(1) by simp
  from decoded_loop_sound[OF loop this] obtain ps q where ps: "list_all piece_ok ps"
    "bs = concat (map piece_bytes ps) @ [q]" "n = sum_list (map piece_len ps)" by auto
  then have "raw = json_string_literal ps" using raw by (simp add: json_string_literal_def)
  with ps show "\<exists>ps. list_all piece_ok ps \<and> raw = json_string_literal ps \<and> n = sum_list (map piece_len ps)" by blast
qed

theorem json_string_length_exact_witness:
  "decoded_json_string_utf8_bytes (json_string_literal [Plain 97, Short 110, Unicode [48, 48, 101, 57]]) = Some 4"
proof -
  let ?ps = "[Plain 97, Short 110, Unicode [48, 48, 101, 57]]"
  have hex: "parse_hex_u16 [48, 48, 101, 57] = Some 233" by (simp add: parse_hex_u16_def hex_digit_def)
  have raw: "json_string_literal ?ps = utf8 [34, 97, 92, 110, 92, 117, 48, 48, 101, 57, 34]"
    by (simp add: json_string_literal_def utf8_char_def byte_def)
  have "from_utf8 (json_string_literal ?ps) = Some [34, 97, 92, 110, 92, 117, 48, 48, 101, 57, 34]"
    unfolding raw by (rule from_utf8_encode) (simp add: is_scalar_def)
  moreover have "\<exists>ps. list_all piece_ok ps \<and> json_string_literal ?ps = json_string_literal ps \<and> 4 = sum_list (map piece_len ps)"
    by (rule exI[of _ ?ps]) (simp add: is_scalar_def simple_escape_def hex len_utf8_def)
  ultimately show ?thesis using json_string_length_exact by blast
qed

text \<open>
  Serialized text is measured exactly both ways: for every text, the predicted length is the length
  of its JSON serialization, and measuring that serialization gives back the number of UTF-8 bytes of
  the text.
\<close>

theorem json_text_roundtrip:
  assumes scalars: "list_all is_scalar cs" and size: "length (serialize_text cs) \<le> u64_max"
  shows "canonical_json_string_len cs = length (serialize_text cs)
    \<and> decoded_json_string_utf8_bytes (serialize_text cs) = Some (length (utf8 cs))"
proof -
  have ok: "list_all piece_ok (map serialize_char cs)" and len: "sum_list (map (length \<circ> piece_bytes \<circ> serialize_char) cs) = sum_list (map canonical_char_len cs)"
    and dec: "sum_list (map (piece_len \<circ> serialize_char) cs) = length (utf8 cs)"
    using scalars by (induction cs) (simp_all add: serialize_char_ok)
  have total: "length (serialize_text cs) = 2 + sum_list (map canonical_char_len cs)"
    using len by (simp add: serialize_text_def json_string_literal_def length_concat comp_assoc)
  moreover have "canonical_json_string_len cs = 2 + sum_list (map canonical_char_len cs)"
    unfolding canonical_json_string_len_def by (rule canonical_fold) (use total size in simp)
  moreover have "decoded_json_string_utf8_bytes (serialize_text cs) = Some (length (utf8 cs))"
    using decoded_loop_pieces[OF ok, where n = 0 and q = 34] dec
    by (simp add: serialize_text_def json_string_literal_def decoded_json_string_utf8_bytes_def)
  ultimately show ?thesis by simp
qed

theorem json_text_roundtrip_witness:
  "canonical_json_string_len [97, 10, 0xe9, 1] = 13 \<and> decoded_json_string_utf8_bytes (serialize_text [97, 10, 0xe9, 1]) = Some 5"
  using json_text_roundtrip[of "[97, 10, 0xe9, 1]"]
  by (simp add: is_scalar_def u64_max_def serialize_text_def json_string_literal_def serialize_char_def utf8_char_def)

section \<open>Tags\<close>

text \<open>The sizes of the elements of a tag, when it is an array of strings.\<close>

definition tag_sizes :: "tag_item \<Rightarrow> nat list \<Rightarrow> bool" where
  "tag_sizes item ns \<longleftrightarrow> (\<exists>es. item = TagArray es True \<and> map decoded_json_string_utf8_bytes es = map Some ns)"

lemma visit_tag_iff:
  assumes "ms_elements m \<le> maximum" and "ms_bytes m \<le> u64_max"
  shows "visit_tag maximum limit es closed m = Inr r \<longleftrightarrow>
    closed \<and> (\<exists>ns. map decoded_json_string_utf8_bytes es = map Some ns \<and> (\<forall>n \<in> set ns. n \<le> limit)
      \<and> ms_elements m + length ns \<le> maximum \<and> ms_bytes m + sum_list ns \<le> u64_max
      \<and> r = m\<lparr>ms_elements := ms_elements m + length ns, ms_bytes := ms_bytes m + sum_list ns\<rparr>)"
  using assms
proof (induction es arbitrary: m)
  case Nil
  then show ?case by auto
next
  case (Cons e es)
  show ?case
  proof (cases "ms_elements m < maximum")
    case False
    then show ?thesis by (auto simp: Cons_eq_map_conv)
  next
    case True
    show ?thesis
    proof (cases "decoded_json_string_utf8_bytes e")
      case None
      then show ?thesis using True by (auto simp: string_length_seed_def)
    next
      case (Some n)
      let ?m = "m\<lparr>ms_elements := ms_elements m + 1, ms_bytes := ms_bytes m + n\<rparr>"
      have step: "visit_tag maximum limit (e # es) closed m = Inr r \<longleftrightarrow>
          n \<le> limit \<and> ms_bytes m + n \<le> u64_max \<and> visit_tag maximum limit es closed ?m = Inr r"
        using True Some by (auto simp: string_length_seed_def)
      have "map decoded_json_string_utf8_bytes (e # es) = map Some ks \<longleftrightarrow>
          (\<exists>ns. ks = n # ns \<and> map decoded_json_string_utf8_bytes es = map Some ns)" for ks
        using Some by (cases ks) auto
      then show ?thesis
        unfolding step using Cons.IH[of ?m] True
        by (auto simp: add.assoc)
    qed
  qed
qed

lemma if_Inr_iff: "(if c then Inl e else m) = Inr r \<longleftrightarrow> \<not> c \<and> m = Inr r"
  by simp

definition tags_within :: "admission_limits \<Rightarrow> measurement \<Rightarrow> nat list list \<Rightarrow> bool" where
  "tags_within limits m ls \<longleftrightarrow>
     (\<forall>ns \<in> set ls. \<forall>n \<in> set ns. n \<le> al_tag_element_bytes limits)
   \<and> ms_count m + length ls \<le> al_tag_count limits
   \<and> ms_elements m + sum_list (map length ls) \<le> al_tag_total_elements limits
   \<and> ms_bytes m + sum_list (map sum_list ls) \<le> al_tag_total_bytes limits"

definition measured :: "measurement \<Rightarrow> nat list list \<Rightarrow> measurement" where
  "measured m ls = \<lparr>ms_count = ms_count m + length ls, ms_elements = ms_elements m + sum_list (map length ls),
     ms_bytes = ms_bytes m + sum_list (map sum_list ls)\<rparr>"

lemma tags_within_Cons:
  "tags_within limits m (ns # ls) \<longleftrightarrow> (\<forall>n \<in> set ns. n \<le> al_tag_element_bytes limits) \<and> tags_within limits (measured m [ns]) ls"
  by (simp add: tags_within_def measured_def add.assoc)

lemma measured_Cons: "measured m (ns # ls) = measured (measured m [ns]) ls"
  by (simp add: measured_def add.assoc)

lemma tags_within_bound:
  "tags_within limits (measured m [ns]) ls \<Longrightarrow>
     ms_count m < al_tag_count limits \<and> ms_elements m + length ns \<le> al_tag_total_elements limits
   \<and> ms_bytes m + sum_list ns \<le> al_tag_total_bytes limits"
  by (simp add: tags_within_def measured_def)

lemma visit_tags_step:
  assumes lim: "al_tag_total_elements limits \<le> u64_max" "al_tag_total_bytes limits \<le> u64_max"
    and m: "ms_count m < al_tag_count limits" "ms_elements m \<le> al_tag_total_elements limits"
  shows "visit_tags limits (item # items) closed m = Inr r \<longleftrightarrow>
    (\<exists>ns. tag_sizes item ns \<and> (\<forall>n \<in> set ns. n \<le> al_tag_element_bytes limits)
      \<and> ms_elements m + length ns \<le> al_tag_total_elements limits
      \<and> ms_bytes m + sum_list ns \<le> al_tag_total_bytes limits
      \<and> visit_tags limits items closed (measured m [ns]) = Inr r)"
proof (cases item)
  case (TagArray es c)
  let ?left = "al_tag_total_elements limits - ms_elements m" and ?zero = "\<lparr>ms_count = 1, ms_elements = 0, ms_bytes = 0\<rparr>"
  have tag: "visit_tag ?left (al_tag_element_bytes limits) es c ?zero = Inr t \<longleftrightarrow>
      (\<exists>ns. tag_sizes item ns \<and> (\<forall>n \<in> set ns. n \<le> al_tag_element_bytes limits) \<and> ms_elements m + length ns \<le> al_tag_total_elements limits
        \<and> sum_list ns \<le> u64_max \<and> t = \<lparr>ms_count = 1, ms_elements = length ns, ms_bytes = sum_list ns\<rparr>)" for t
    using visit_tag_iff[of ?zero ?left "al_tag_element_bytes limits" es c t] m(2)
    by (auto simp: tag_sizes_def TagArray le_diff_conv2 add.commute)
  show ?thesis (is "?l \<longleftrightarrow> ?r")
  proof
    assume ?l
    then obtain t where "visit_tag ?left (al_tag_element_bytes limits) es c ?zero = Inr t"
      "ms_bytes m + ms_bytes t \<le> al_tag_total_bytes limits"
      "visit_tags limits items closed \<lparr>ms_count = ms_count m + 1, ms_elements = ms_elements m + ms_elements t,
         ms_bytes = ms_bytes m + ms_bytes t\<rparr> = Inr r"
      using m by (auto simp: TagArray if_Inr_iff not_less)
    then show ?r unfolding tag by (auto simp: measured_def)
  next
    assume ?r
    then obtain ns where ns: "tag_sizes item ns" "\<forall>n \<in> set ns. n \<le> al_tag_element_bytes limits"
      "ms_elements m + length ns \<le> al_tag_total_elements limits" "ms_bytes m + sum_list ns \<le> al_tag_total_bytes limits"
      "visit_tags limits items closed (measured m [ns]) = Inr r" by blast
    have "visit_tag ?left (al_tag_element_bytes limits) es c ?zero = Inr \<lparr>ms_count = 1, ms_elements = length ns, ms_bytes = sum_list ns\<rparr>"
      unfolding tag using ns lim(2) by auto
    then show ?l using ns m lim by (simp add: TagArray measured_def)
  qed
qed (use m in \<open>simp add: tag_sizes_def\<close>)

lemma visit_tags_iff:
  assumes lim: "al_tag_total_elements limits \<le> u64_max" "al_tag_total_bytes limits \<le> u64_max"
  shows "ms_count m \<le> al_tag_count limits \<Longrightarrow> ms_elements m \<le> al_tag_total_elements limits \<Longrightarrow>
    ms_bytes m \<le> al_tag_total_bytes limits \<Longrightarrow>
    visit_tags limits items closed m = Inr r \<longleftrightarrow>
      closed \<and> (\<exists>ls. list_all2 tag_sizes items ls \<and> tags_within limits m ls \<and> r = measured m ls)"
proof (induction items arbitrary: m)
  case Nil
  then show ?case by (auto simp: tags_within_def measured_def)
next
  case (Cons item items)
  show ?case
  proof (cases "ms_count m < al_tag_count limits")
    case False
    then have "\<not> tags_within limits m (ns # ls)" for ns ls by (simp add: tags_within_def)
    then show ?thesis using False by (auto simp: list_all2_Cons1 split: tag_item.splits bool.splits)
  next
    case True
    have ih: "visit_tags limits items closed (measured m [ns]) = Inr r \<longleftrightarrow>
        closed \<and> (\<exists>ls. list_all2 tag_sizes items ls \<and> tags_within limits (measured m [ns]) ls \<and> r = measured (measured m [ns]) ls)"
      if "ms_elements m + length ns \<le> al_tag_total_elements limits" "ms_bytes m + sum_list ns \<le> al_tag_total_bytes limits" for ns
      by (rule Cons.IH) (use True that in \<open>simp_all add: measured_def\<close>)
    have "(\<exists>ls. list_all2 tag_sizes (item # items) ls \<and> tags_within limits m ls \<and> r = measured m ls) \<longleftrightarrow>
        (\<exists>ns ls. tag_sizes item ns \<and> list_all2 tag_sizes items ls \<and> tags_within limits m (ns # ls) \<and> r = measured m (ns # ls))"
      unfolding list_all2_Cons1 by blast
    then show ?thesis
      unfolding visit_tags_step[OF lim True Cons.prems(2)] tags_within_Cons measured_Cons[of m _ "_ # _"]
      using ih tags_within_bound measured_Cons by (smt (verit, best))
  qed
qed

text \<open>
  The tag limits are enforced exactly: measuring the tags succeeds if and only if they are an array
  of arrays of strings within the configured number of tags, total number of elements, size of an
  element and total size, and the measurement counts them.
\<close>

lemma measure_tags_exact:
  assumes "al_tag_total_elements limits \<le> u64_max" and "al_tag_total_bytes limits \<le> u64_max"
  shows "measure_tags reader raw limits = Inr m \<longleftrightarrow>
    snd (jn_tags reader raw) \<and> jn_end reader raw
    \<and> (\<exists>ls. list_all2 tag_sizes (fst (jn_tags reader raw)) ls
      \<and> (\<forall>ns \<in> set ls. \<forall>n \<in> set ns. n \<le> al_tag_element_bytes limits)
      \<and> length ls \<le> al_tag_count limits \<and> sum_list (map length ls) \<le> al_tag_total_elements limits
      \<and> sum_list (map sum_list ls) \<le> al_tag_total_bytes limits
      \<and> m = \<lparr>ms_count = length ls, ms_elements = sum_list (map length ls), ms_bytes = sum_list (map sum_list ls)\<rparr>)"
  using visit_tags_iff[OF assms, of "\<lparr>ms_count = 0, ms_elements = 0, ms_bytes = 0\<rparr>"]
  by (auto simp: measure_tags_def tags_within_def measured_def)

definition small_limits :: admission_limits where
  "small_limits = \<lparr>al_wire_bytes = 64, al_content_bytes = 8, al_tag_count = 1, al_tag_total_elements = 2,
     al_tag_element_bytes = 4, al_tag_total_bytes = 6\<rparr>"

definition one_tag_reader :: json_reader where
  "one_tag_reader = \<lparr>jn_object = (\<lambda>_. ([(str ''id'', Some [34, 34]), (str ''pubkey'', Some [34, 34]),
       (str ''created_at'', Some [49]), (str ''kind'', Some [49]), (str ''tags'', Some [91]),
       (str ''content'', Some [34, 97, 34]), (str ''sig'', Some [34, 34])], True)),
     jn_tags = (\<lambda>_. ([TagArray [[34, 100, 34], [34, 120, 121, 34]] True], True)), jn_end = (\<lambda>_. True),
     jn_u64 = (\<lambda>_. Some 1), jn_u32 = (\<lambda>_. Some 3470)\<rparr>"

lemma measure_tags_sample:
  "measure_tags one_tag_reader [91] small_limits = Inr \<lparr>ms_count = 1, ms_elements = 2, ms_bytes = 3\<rparr>"
proof -
  have "list_all2 tag_sizes [TagArray [[34, 100, 34], [34, 120, 121, 34]] True] [[1, 2]]"
    by (simp add: tag_sizes_def decoded_json_string_utf8_bytes_def)
  then have "\<exists>ls. list_all2 tag_sizes (fst (jn_tags one_tag_reader [91])) ls
      \<and> (\<forall>ns \<in> set ls. \<forall>n \<in> set ns. n \<le> al_tag_element_bytes small_limits)
      \<and> length ls \<le> al_tag_count small_limits \<and> sum_list (map length ls) \<le> al_tag_total_elements small_limits
      \<and> sum_list (map sum_list ls) \<le> al_tag_total_bytes small_limits
      \<and> \<lparr>ms_count = 1, ms_elements = 2, ms_bytes = 3\<rparr> =
        \<lparr>ms_count = length ls, ms_elements = sum_list (map length ls), ms_bytes = sum_list (map sum_list ls)\<rparr>"
    by (intro exI[of _ "[[1, 2]]"]) (simp add: one_tag_reader_def small_limits_def)
  then show ?thesis
    using measure_tags_exact[of small_limits one_tag_reader "[91]" "\<lparr>ms_count = 1, ms_elements = 2, ms_bytes = 3\<rparr>"]
    by (simp add: one_tag_reader_def small_limits_def u64_max_def)
qed

section \<open>Admission\<close>

text \<open>The members of the event object: the named fields go to their slots, the others count as extra.\<close>

lemma slot_set_slot: "k \<in> set field_names \<Longrightarrow> k' \<in> set field_names \<Longrightarrow> slot k (set_slot k' v r) = (if k = k' then Some v else slot k r)"
  by (auto simp: slot_def set_slot_def field_names_def str_def)

lemma visit_map_slot:
  assumes "visit_map xl ms closed r extras b = Inr r'" and "k \<in> set field_names" and "slot k r' = Some v"
  shows "slot k r = Some v \<or> (k, Some v) \<in> set ms"
  using assms
  by (induction xl ms closed r extras b rule: visit_map.induct)
    (fastforce simp: slot_set_slot split: if_splits)+

lemma visit_map_distinct:
  assumes "visit_map xl ms closed r extras b = Inr r'"
  shows "distinct (map fst ms) \<and> (\<forall>k \<in> fst ` set ms. if k \<in> set field_names then slot k r = None else k \<notin> set extras)"
  using assms
  by (induction xl ms closed r extras b rule: visit_map.induct)
    (fastforce simp: slot_set_slot split: if_splits)+

definition extra_members :: "(scalars \<times> bytes option) list \<Rightarrow> (scalars \<times> bytes option) list" where
  "extra_members ms = filter (\<lambda>m. fst m \<notin> set field_names) ms"

definition extra_size :: "(scalars \<times> bytes option) list \<Rightarrow> nat" where
  "extra_size ms = sum_list (map (\<lambda>m. canonical_json_string_len (fst m) + 1 + length (the (snd m))) (extra_members ms))"

lemma visit_map_extras:
  assumes "visit_map xl ms closed r extras b = Inr r'" and "length extras \<le> xl_fields xl" and "b \<le> xl_json_bytes xl"
  shows "length extras + length (extra_members ms) \<le> xl_fields xl \<and> b + extra_size ms \<le> xl_json_bytes xl"
  using assms
proof (induction ms arbitrary: r extras b)
  case Nil
  then show ?case by (simp add: extra_members_def extra_size_def)
next
  case (Cons entry rest)
  obtain key val where m: "entry = (key, val)" by (cases entry)
  show ?case
  proof (cases "key \<in> set field_names")
    case True
    then show ?thesis using Cons by (auto simp: m extra_members_def extra_size_def split: if_splits)
  next
    case False
    from Cons.prems(1) False obtain v where v: "val = Some v" "length (key # extras) \<le> xl_fields xl"
      "b + canonical_json_string_len key + 1 + length v \<le> xl_json_bytes xl"
      "visit_map xl rest closed r (key # extras) (b + canonical_json_string_len key + 1 + length v) = Inr r'"
      by (auto simp: m checked_add_def bind_eq_Some_conv split: if_splits)
    have "length (key # extras) + length (extra_members rest) \<le> xl_fields xl
        \<and> b + canonical_json_string_len key + 1 + length v + extra_size rest \<le> xl_json_bytes xl"
      by (rule Cons.IH[OF v(4,2,3)])
    then show ?thesis using False v(1) by (simp add: m extra_members_def extra_size_def)
  qed
qed

text \<open>
  C33.  Nothing unverified is admitted: an admitted event has a verified identity and signature, a trade
  kind and a decoded mutation with an identity, and is authored no later than the observation plus the
  permitted skew and at a representable time.  It is within every configured limit: its bytes, its decoded content,
  the number of its tags, the total number and the total size of their elements, the size of each element, and the
  number and the size of its extra members; and no member of the event object is given twice.
\<close>

theorem admission_sound:
  assumes "admit_rhi_trade_mutation_event reader codec xl limits original observed_at maximum_future = Inr a"
    and "al_tag_total_elements limits \<le> u64_max" and "al_tag_total_bytes limits \<le> u64_max"
  shows "ec_verify_id codec (ae_event a) = IdVerified \<and> ec_verify codec (ae_event a) = Verified
    \<and> ec_is_trade_kind codec (ee_kind (ae_event a))
    \<and> ec_mutation codec (ae_event a) = Inr (ae_mutation a) \<and> tm_mutation_id (ae_mutation a) = Some (ae_mutation_id a)
    \<and> ee_created_at (ae_event a) \<le> i64_max \<and> ee_created_at (ae_event a) \<le> observed_at + maximum_future
    \<and> ae_original a = original \<and> ae_observed_at a = observed_at
    \<and> 0 < length original \<and> length original \<le> al_wire_bytes limits
    \<and> (\<exists>source content tags n ls. from_utf8 original = Some source \<and> ec_parse codec limits xl source = Some (ae_event a)
        \<and> distinct (map fst (fst (jn_object reader source)))
        \<and> (str ''content'', Some content) \<in> set (fst (jn_object reader source))
        \<and> decoded_json_string_utf8_bytes content = Some n \<and> n \<le> al_content_bytes limits
        \<and> (str ''tags'', Some tags) \<in> set (fst (jn_object reader source))
        \<and> list_all2 tag_sizes (fst (jn_tags reader tags)) ls
        \<and> length ls \<le> al_tag_count limits \<and> sum_list (map length ls) \<le> al_tag_total_elements limits
        \<and> (\<forall>ns \<in> set ls. \<forall>n \<in> set ns. n \<le> al_tag_element_bytes limits)
        \<and> sum_list (map sum_list ls) \<le> al_tag_total_bytes limits
        \<and> length (extra_members (fst (jn_object reader source))) \<le> xl_fields xl
        \<and> extra_size (fst (jn_object reader source)) \<le> xl_json_bytes xl)"
proof -
  from assms(1) obtain source where src: "from_utf8 original = Some source"
    and pre: "preflight_wire reader xl source limits = Inr ()"
    and par: "ec_parse codec limits xl source = Some (ae_event a)"
    and rest: "ec_verify_id codec (ae_event a) = IdVerified" "ec_verify codec (ae_event a) = Verified"
      "ec_is_trade_kind codec (ee_kind (ae_event a))" "ec_mutation codec (ae_event a) = Inr (ae_mutation a)"
      "tm_mutation_id (ae_mutation a) = Some (ae_mutation_id a)" "ee_created_at (ae_event a) \<le> i64_max"
      "ee_created_at (ae_event a) \<le> observed_at + maximum_future" "ae_original a = original"
      "ae_observed_at a = observed_at" "original \<noteq> []" "length original \<le> al_wire_bytes limits"
    by (auto simp: admit_rhi_trade_mutation_event_def check_identity_def check_signature_def validate_authored_time_def
        enforce_authored_time_policy_def split: if_splits verification.splits)
  let ?ms = "fst (jn_object reader source)"
  from pre obtain slots raw n m where
    v: "visit_map xl ?ms (snd (jn_object reader source)) empty_slots [] 0 = Inr slots" and raw: "require_slots slots = Inr raw"
    and c: "decoded_json_string_utf8_bytes (re_content raw) = Some n" "n \<le> al_content_bytes limits"
    and t: "measure_tags reader (re_tags raw) limits = Inr m"
    by (auto simp: preflight_wire_def validate_bounded_string_def split: if_splits)
  have none: "slot k empty_slots = None" for k by (simp add: slot_def empty_slots_def)
  have "rw_tags slots = Some (re_tags raw)" "rw_content slots = Some (re_content raw)"
    using raw by (auto simp: require_slots_def)
  then have "slot (str ''tags'') slots = Some (re_tags raw)" "slot (str ''content'') slots = Some (re_content raw)"
    by (simp_all add: slot_def str_def)
  then have f: "(str ''tags'', Some (re_tags raw)) \<in> set ?ms" "(str ''content'', Some (re_content raw)) \<in> set ?ms"
    using visit_map_slot[OF v] none by (auto simp: field_names_def)
  obtain ls where "list_all2 tag_sizes (fst (jn_tags reader (re_tags raw))) ls"
    "\<forall>ns \<in> set ls. \<forall>n \<in> set ns. n \<le> al_tag_element_bytes limits"
    "length ls \<le> al_tag_count limits" "sum_list (map length ls) \<le> al_tag_total_elements limits"
    "sum_list (map sum_list ls) \<le> al_tag_total_bytes limits"
    using t unfolding measure_tags_exact[OF assms(2,3)] by blast
  with f c visit_map_distinct[OF v] visit_map_extras[OF v] src par rest show ?thesis by auto
qed

definition demo_codec :: event_codec where
  "demo_codec = \<lparr>ec_parse = (\<lambda>_ _ _. Some \<lparr>ee_id = replicate 32 1, ee_sig = replicate 64 2, ee_author = replicate 32 3,
       ee_kind = 3470, ee_created_at = 90, ee_content = [97]\<rparr>),
     ec_verify_id = (\<lambda>_. IdVerified), ec_verify = (\<lambda>_. Verified), ec_is_trade_kind = (\<lambda>k. k = 3470),
     ec_mutation = (\<lambda>_. Inr \<lparr>tm_trade_id = replicate 16 4, tm_schema_version = 1,
       tm_contract_id = ''radroots.trade.proposal.v1'', tm_mutation_id = Some (replicate 32 5)\<rparr>)\<rparr>"

theorem admission_sound_witness:
  "\<exists>a. admit_rhi_trade_mutation_event one_tag_reader demo_codec \<lparr>xl_fields = 4, xl_json_bytes = 64\<rparr> small_limits
      [123] 80 20 = Inr a \<and> ee_created_at (ae_event a) = 90 \<and> ee_created_at (ae_event a) \<le> 80 + 20"
proof -
  have src: "from_utf8 [123] = Some [123]"
    using from_utf8_encode[of "[123]"] by (simp add: is_scalar_def utf8_char_def byte_def)
  have tags: "measure_tags one_tag_reader [91] small_limits = Inr \<lparr>ms_count = 1, ms_elements = 2, ms_bytes = 3\<rparr>"
    by (simp add: measure_tags_def one_tag_reader_def small_limits_def string_length_seed_def
        decoded_json_string_utf8_bytes_def u64_max_def)
  have pre: "preflight_wire one_tag_reader \<lparr>xl_fields = 4, xl_json_bytes = 64\<rparr> [123] small_limits = Inr ()"
    using tags
    by (simp add: preflight_wire_def one_tag_reader_def field_names_def str_def slot_def set_slot_def empty_slots_def
        require_slots_def validate_bounded_string_def decoded_json_string_utf8_bytes_def small_limits_def)
  have times: "validate_authored_time 90 = Inr ()" "enforce_authored_time_policy 90 80 20 = Inr ()"
    by (simp_all add: validate_authored_time_def enforce_authored_time_policy_def i64_max_def u64_max_def)
  have wire: "al_wire_bytes small_limits = 64" by (simp add: small_limits_def)
  obtain a where a: "admit_rhi_trade_mutation_event one_tag_reader demo_codec \<lparr>xl_fields = 4, xl_json_bytes = 64\<rparr>
      small_limits [123] 80 20 = Inr a" "ee_created_at (ae_event a) = 90"
    using src pre times
    by (simp add: admit_rhi_trade_mutation_event_def demo_codec_def check_identity_def check_signature_def wire
        del: from_utf8.simps)
  have "al_tag_total_elements small_limits \<le> u64_max" "al_tag_total_bytes small_limits \<le> u64_max"
    by (simp_all add: small_limits_def u64_max_def)
  with admission_sound[OF a(1)] a show ?thesis by auto
qed

end
