(* ===== verification/Source_Fetch_Props.thy ===== *)
theory Source_Fetch_Props
  imports Source_Fetch Trade_Ingest_Props "HOL-Library.Multiset"
begin

text \<open>
  Properties of the fetch of a source: the page loop ends within its bounds whatever the relay
  answers, a complete fetch took every event of every page, and the admission pass accounts for every
  candidate.
\<close>

section \<open>Counts\<close>

abbreviation candidate_bytes :: "signed_candidate list \<Rightarrow> nat" where
  "candidate_bytes cs \<equiv> sum_list (map (\<lambda>c. length (sc_raw_json c)) cs)"

text \<open>The counters agree with the candidates as long as no bound was exceeded.\<close>

definition counts_ok :: "nat \<Rightarrow> nat \<Rightarrow> nat \<times> nat \<times> signed_candidate list \<Rightarrow> bool" where
  "counts_ok me mb counts \<longleftrightarrow>
     (case counts of (received, bytes, candidates) \<Rightarrow>
        bytes = candidate_bytes candidates \<and> bytes \<le> mb \<and> length candidates \<le> me \<and> length candidates \<le> received
      \<and> received \<le> me + 1 \<and> (received \<le> me \<longrightarrow> received = length candidates))"

lemma scan_page_counts:
  assumes "me < u64_max"
  shows "counts_ok me mb counts \<Longrightarrow> fst counts \<le> me \<Longrightarrow>
    counts_ok me mb (scan_page me mb es counts)
    \<and> (fst (scan_page me mb es counts) \<le> me \<longrightarrow>
         fst (scan_page me mb es counts) = fst counts + length es
       \<and> snd (snd (scan_page me mb es counts)) = snd (snd counts) @ es)"
proof (induction es arbitrary: counts)
  case Nil
  then show ?case by (cases counts) simp
next
  case (Cons e es)
  obtain received bytes cs where c: "counts = (received, bytes, cs)" by (cases counts)
  have inv: "bytes = candidate_bytes cs" "bytes \<le> mb" "received = length cs" "received \<le> me"
    using Cons.prems by (auto simp: c counts_ok_def)
  show ?case
  proof (cases "received < me \<and> bytes + length (sc_raw_json e) \<le> mb \<and> bytes + length (sc_raw_json e) \<le> u64_max")
    case True
    then have step: "scan_page me mb (e # es) counts =
        scan_page me mb es (received + 1, bytes + length (sc_raw_json e), cs @ [e])"
      using assms by (simp add: c checked_add_def min_def)
    have "counts_ok me mb (received + 1, bytes + length (sc_raw_json e), cs @ [e])"
      using True inv by (auto simp: counts_ok_def)
    from Cons.IH[OF this] True show ?thesis unfolding step by (simp add: c)
  next
    case False
    then have "scan_page me mb (e # es) counts = (me + 1, bytes, cs)"
      using assms inv(4) by (auto simp: c min_def checked_add_def Let_def)
    then show ?thesis using inv by (simp add: counts_ok_def)
  qed
qed

lemma page_step_counts:
  assumes "ss_maximum_events (fe_source plan) < u64_max"
    and "counts_ok (ss_maximum_events (fe_source plan)) (ss_maximum_bytes (fe_source plan)) counts"
    and "fst counts \<le> ss_maximum_events (fe_source plan)"
  shows "counts_ok (ss_maximum_events (fe_source plan)) (ss_maximum_bytes (fe_source plan))
      (snd (page_step tr plan request page seen counts))"
    and "page_step tr plan request page seen counts = (PageGo c, counts') \<Longrightarrow>
      fst counts < fst counts' \<and> fst counts' \<le> ss_maximum_events (fe_source plan)
      \<and> snd (snd counts') = snd (snd counts) @ pg_events page \<and> pg_next page = PageCursor c
      \<and> page_outcome (rt_fingerprint tr (ss_relay_url (fe_source plan))) page = Some TargetComplete
      \<and> rt_validate tr page request \<and> c \<notin> set seen"
    and "page_step tr plan request page seen counts = (PageStop Complete, counts') \<Longrightarrow>
      snd (snd counts') = snd (snd counts) @ pg_events page \<and> pg_next page = PageComplete
      \<and> fst counts' \<le> ss_maximum_events (fe_source plan)
      \<and> page_outcome (rt_fingerprint tr (ss_relay_url (fe_source plan))) page = Some TargetComplete
      \<and> rt_validate tr page request"
proof -
  let ?me = "ss_maximum_events (fe_source plan)" and ?mb = "ss_maximum_bytes (fe_source plan)"
  note S = scan_page_counts[OF assms, of "pg_events page"]
  have state: "target_stops st = None \<longleftrightarrow> st = TargetComplete \<or> st = TargetPartial"
    "target_stops st \<noteq> Some Complete" for st by (cases st; simp)+
  show "counts_ok ?me ?mb (snd (page_step tr plan request page seen counts))"
    using S assms(2) by (auto simp: page_step_def Let_def split: option.splits next_page.splits)
  show "fst counts < fst counts' \<and> fst counts' \<le> ?me
      \<and> snd (snd counts') = snd (snd counts) @ pg_events page \<and> pg_next page = PageCursor c
      \<and> page_outcome (rt_fingerprint tr (ss_relay_url (fe_source plan))) page = Some TargetComplete
      \<and> rt_validate tr page request \<and> c \<notin> set seen"
    if "page_step tr plan request page seen counts = (PageGo c, counts')"
    using that S state by (auto simp: page_step_def Let_def split: if_splits option.splits next_page.splits)
  show "snd (snd counts') = snd (snd counts) @ pg_events page \<and> pg_next page = PageComplete
      \<and> fst counts' \<le> ?me
      \<and> page_outcome (rt_fingerprint tr (ss_relay_url (fe_source plan))) page = Some TargetComplete
      \<and> rt_validate tr page request"
    if "page_step tr plan request page seen counts = (PageStop Complete, counts')"
    using that S state by (auto simp: page_step_def Let_def split: if_splits option.splits next_page.splits)
qed

section \<open>The loop\<close>

text \<open>A transport that keeps count of its requests.\<close>

definition counts_requests :: "'w relay_transport \<Rightarrow> ('w \<Rightarrow> nat) \<Rightarrow> bool" where
  "counts_requests tr calls \<longleftrightarrow> (\<forall>request w. calls (snd (rt_fetch tr request w)) = calls w + 1)"

lemma fetch_loop_bounded:
  assumes me: "ss_maximum_events (fe_source plan) < u64_max"
  shows "counts_ok (ss_maximum_events (fe_source plan)) (ss_maximum_bytes (fe_source plan)) counts \<Longrightarrow>
    fst counts \<le> ss_maximum_events (fe_source plan) \<Longrightarrow>
    \<exists>res w'. fetch_loop tr plan cursor seen counts w = Some (res, w')
      \<and> (counts_requests tr calls \<longrightarrow> calls w' \<le> calls w + (ss_maximum_events (fe_source plan) + 1 - fst counts))
      \<and> (\<forall>completion counts'. res = Inr (completion, counts') \<longrightarrow>
           counts_ok (ss_maximum_events (fe_source plan)) (ss_maximum_bytes (fe_source plan)) counts')"
proof (induction "ss_maximum_events (fe_source plan) + 1 - fst counts" arbitrary: cursor seen counts w
    rule: less_induct)
  case less
  let ?me = "ss_maximum_events (fe_source plan)"
  let ?rq = "page_request plan (fst counts) cursor"
  let ?ok = "rt_bounds_ok tr (rq_limit ?rq) (rq_deadline_ms ?rq)
     \<and> rt_request_ok tr (rq_request_id ?rq) (rq_relay_url ?rq) (rq_limit ?rq) (rq_deadline_ms ?rq)"
  obtain res w1 where fetch: "rt_fetch tr ?rq w = (res, w1)" by fastforce
  have w1: "counts_requests tr calls \<Longrightarrow> calls w1 = calls w + 1" using fetch by (metis counts_requests_def snd_conv)
  note P = page_step_counts[OF me less.prems, of tr ?rq _ seen]
  show ?case
  proof (cases "\<not> ?ok \<or> (\<exists>e. res = Inl e)")
    case True
    then show ?thesis
      using less.prems w1 fetch
      by (subst fetch_loop.simps) (auto simp: Let_def split: transport_error.splits)
  next
    case False
    then obtain page where page: "res = Inr page" and ok: ?ok by (cases res) auto
    obtain st counts' where ps: "page_step tr plan ?rq page seen counts = (st, counts')" by (rule prod.exhaust)
    have inv': "counts_ok ?me (ss_maximum_bytes (fe_source plan)) counts'" using P(1)[of page] ps by simp
    show ?thesis
    proof (cases st)
      case (PageStop completion)
      then show ?thesis
        using ok fetch page ps w1 inv' less.prems(2) by (subst fetch_loop.simps) (auto simp: Let_def)
    next
      case (PageGo c)
      from P(2)[of page c counts'] ps PageGo have up: "fst counts < fst counts'" "fst counts' \<le> ?me" by auto
      have eq: "fetch_loop tr plan cursor seen counts w = fetch_loop tr plan (Some c) (c # seen) counts' w1"
        using ok fetch page ps PageGo by (subst fetch_loop.simps) (simp add: Let_def)
      have "?me + 1 - fst counts' < ?me + 1 - fst counts" using up by simp
      from less.hyps[OF this inv' up(2), of "Some c" "c # seen" w1] up w1 show ?thesis
        unfolding eq by fastforce
    qed
  qed
qed

lemma fetch_loop_counts:
  assumes "ss_maximum_events (fe_source plan) < u64_max"
    and "fetch_loop tr plan cursor seen counts w = Some (Inr (completion, counts'), w')"
    and "counts_ok (ss_maximum_events (fe_source plan)) (ss_maximum_bytes (fe_source plan)) counts"
    and "fst counts \<le> ss_maximum_events (fe_source plan)"
  shows "counts_ok (ss_maximum_events (fe_source plan)) (ss_maximum_bytes (fe_source plan)) counts'"
  using fetch_loop_bounded[OF assms(1,3,4), of tr cursor seen w "\<lambda>_. 0"] assms(2) by (cases counts') auto

section \<open>Traces\<close>

text \<open>The pages the relay delivered to a loop that has already taken \<open>taken\<close> events.\<close>

inductive page_trace ::
  "'w relay_transport \<Rightarrow> (nat \<Rightarrow> string option \<Rightarrow> fetch_request) \<Rightarrow> nat \<Rightarrow> string option \<Rightarrow> 'w \<Rightarrow> fetch_page list \<Rightarrow> 'w \<Rightarrow> bool"
  for tr :: "'w relay_transport" and ask :: "nat \<Rightarrow> string option \<Rightarrow> fetch_request" where
  trace_last: "rt_fetch tr (ask taken cursor) w = (Inr page, w') \<Longrightarrow> rt_validate tr page (ask taken cursor) \<Longrightarrow>
     pg_next page = PageComplete \<Longrightarrow> page_trace tr ask taken cursor w [page] w'"
| trace_more: "rt_fetch tr (ask taken cursor) w = (Inr page, w1) \<Longrightarrow> rt_validate tr page (ask taken cursor) \<Longrightarrow>
     pg_next page = PageCursor next \<Longrightarrow> page_trace tr ask (taken + length (pg_events page)) (Some next) w1 pages w' \<Longrightarrow>
     page_trace tr ask taken cursor w (page # pages) w'"

text \<open>A page with a single outcome: the target asked confirms that it is complete.\<close>

definition exact_page :: "'w relay_transport \<Rightarrow> source_settings \<Rightarrow> fetch_page \<Rightarrow> bool" where
  "exact_page tr source page \<longleftrightarrow> pg_target_outcomes page = [(rt_fingerprint tr (ss_relay_url source), TargetComplete)]"

lemma page_outcome_exact:
  "page_outcome (rt_fingerprint tr (ss_relay_url source)) page = Some TargetComplete \<longleftrightarrow> exact_page tr source page"
  by (auto simp: page_outcome_def exact_page_def option_filter_def length_Suc_conv split: option.splits if_splits)

lemma page_step_validated:
  assumes "page_step tr plan request page seen counts = (turn, counts1)" and "turn = PageStop Complete \<or> turn = PageGo c"
  shows "rt_validate tr page request"
  using assms by (auto simp: page_step_def split: if_splits)

lemma fetch_loop_complete:
  assumes me: "ss_maximum_events (fe_source plan) < u64_max"
  shows "fetch_loop tr plan cursor seen counts w = Some (Inr (Complete, counts'), w') \<Longrightarrow>
    counts_ok (ss_maximum_events (fe_source plan)) (ss_maximum_bytes (fe_source plan)) counts \<Longrightarrow>
    fst counts \<le> ss_maximum_events (fe_source plan) \<Longrightarrow>
    \<exists>pages. page_trace tr (page_request plan) (fst counts) cursor w pages w' \<and> list_all (exact_page tr (fe_source plan)) pages
      \<and> snd (snd counts') = snd (snd counts) @ concat (map pg_events pages)"
proof (induction "ss_maximum_events (fe_source plan) + 1 - fst counts" arbitrary: cursor seen counts w
    rule: less_induct)
  case less
  let ?me = "ss_maximum_events (fe_source plan)"
  let ?rq = "page_request plan (fst counts) cursor"
  obtain res w1 where fetch: "rt_fetch tr ?rq w = (res, w1)" by fastforce
  from less.prems(1) obtain page where page: "res = Inr page"
    by (subst (asm) fetch_loop.simps) (auto simp: Let_def fetch split: if_splits sum.splits transport_error.splits)
  obtain st counts1 where ps: "page_step tr plan ?rq page seen counts = (st, counts1)" by (rule prod.exhaust)
  have run: "(case st of PageStop completion \<Rightarrow> Some (Inr (completion, counts1), w1)
      | PageGo next \<Rightarrow> fetch_loop tr plan (Some next) (next # seen) counts1 w1) = Some (Inr (Complete, counts'), w')"
    using less.prems(1)
    by (subst (asm) fetch_loop.simps) (auto simp: Let_def fetch page ps split: if_splits)
  note P = page_step_counts[OF me less.prems(2,3), of tr ?rq page seen]
  show ?case
  proof (cases st)
    case (PageStop completion)
    with run have c: "completion = Complete" "counts1 = counts'" "w1 = w'" by auto
    have v: "rt_validate tr page ?rq" using page_step_validated[OF ps] PageStop c(1) by simp
    from c P(3)[of counts'] ps PageStop have "snd (snd counts') = snd (snd counts) @ pg_events page"
      "pg_next page = PageComplete" "exact_page tr (fe_source plan) page"
      by (auto simp: page_outcome_exact)
    with fetch page v c(3) show ?thesis
      by (intro exI[of _ "[page]"]) (auto intro: trace_last)
  next
    case (PageGo c)
    have v: "rt_validate tr page ?rq" using page_step_validated[OF ps] PageGo by simp
    from PageGo P(2)[of c counts1] ps have up: "fst counts < fst counts1" "fst counts1 \<le> ?me"
      "snd (snd counts1) = snd (snd counts) @ pg_events page" "pg_next page = PageCursor c" "exact_page tr (fe_source plan) page"
      by (auto simp: page_outcome_exact)
    have inv1: "counts_ok ?me (ss_maximum_bytes (fe_source plan)) counts1" using P(1) ps by simp
    have taken: "fst counts1 = fst counts + length (pg_events page)"
      using inv1 less.prems(2,3) up by (auto simp: counts_ok_def split: prod.splits)
    have "?me + 1 - fst counts1 < ?me + 1 - fst counts" using up by simp
    from less.hyps[OF this _ inv1 up(2), of "Some c" "c # seen" w1] run PageGo obtain pages where
      "page_trace tr (page_request plan) (fst counts1) (Some c) w1 pages w'" "list_all (exact_page tr (fe_source plan)) pages"
      "snd (snd counts') = snd (snd counts1) @ concat (map pg_events pages)" by auto
    with fetch page v up taken show ?thesis
      by (intro exI[of _ "page # pages"]) (auto intro: trace_more)
  qed
qed

section \<open>The admission pass\<close>

text \<open>The events of a list of candidates that are admitted for a trade, in their order.\<close>

definition admissible ::
  "(signed_candidate \<Rightarrow> (admission_error, admitted_event) result) \<Rightarrow> bytes \<Rightarrow> signed_candidate list \<Rightarrow> admitted_event list"
  where
  "admissible admit trade cs =
     concat (map (\<lambda>c. case admit c of Inl _ \<Rightarrow> []
       | Inr event \<Rightarrow> if tm_trade_id (ae_mutation event) = trade then [event] else []) cs)"

definition pass_ok :: "admission_pass \<Rightarrow> bool" where
  "pass_ok p \<longleftrightarrow>
     distinct (map signed_identity (ap_admitted p))
   \<and> set (ap_identities p) = signed_identity ` set (ap_admitted p)
   \<and> (case ap_cursor p of None \<Rightarrow> ap_admitted p = []
      | Some cursor \<Rightarrow> cursor \<in> event_cursor ` set (ap_admitted p)
          \<and> (\<forall>event \<in> set (ap_admitted p). \<not> cursor_lt cursor (event_cursor event)))"

lemma pass_ok_counters [simp]:
  "pass_ok (p\<lparr>ap_rejected := n\<rparr>) = pass_ok p" "pass_ok (p\<lparr>ap_duplicates := n\<rparr>) = pass_ok p"
  by (cases "ap_cursor p"; simp add: pass_ok_def)+

lemma pass_ok_admit:
  assumes "pass_ok p" and "signed_identity event \<notin> set (ap_identities p)"
  shows "pass_ok (p\<lparr>ap_identities := signed_identity event # ap_identities p,
      ap_cursor := next_cursor (ap_cursor p) (event_cursor event), ap_admitted := ap_admitted p @ [event]\<rparr>)"
  using assms by (cases "ap_cursor p") (auto simp: pass_ok_def next_cursor_def cursor_lt_def not_less)

lemma admit_candidates_pass:
  "pass_ok p \<Longrightarrow> length (ap_admitted p) + ap_duplicates p + ap_rejected p + length cs \<le> u64_max \<Longrightarrow>
    let q = admit_candidates admit trade cs p in
    pass_ok q
    \<and> length (ap_admitted q) + ap_duplicates q + ap_rejected q
      = length (ap_admitted p) + ap_duplicates p + ap_rejected p + length cs
    \<and> set (ap_admitted q) \<subseteq> set (ap_admitted p) \<union> set (admissible admit trade cs)
    \<and> signed_identity ` set (ap_admitted q)
      = signed_identity ` (set (ap_admitted p) \<union> set (admissible admit trade cs))"
proof (induction cs arbitrary: p)
  case Nil
  then show ?case by (simp add: admissible_def)
next
  case (Cons c cs)
  show ?case
  proof (cases "\<exists>event. admit c = Inr event \<and> tm_trade_id (ae_mutation event) = trade")
    case False
    then have step: "admit_candidates admit trade (c # cs) p =
        admit_candidates admit trade cs (p\<lparr>ap_rejected := ap_rejected p + 1\<rparr>)"
      and none: "admissible admit trade (c # cs) = admissible admit trade cs"
      using Cons.prems(2) by (auto simp: admissible_def split: sum.split)
    have "pass_ok (p\<lparr>ap_rejected := ap_rejected p + 1\<rparr>)" using Cons.prems(1) by simp
    from Cons.IH[OF this] Cons.prems(2) show ?thesis unfolding step none by (simp add: Let_def)
  next
    case True
    then obtain event where e: "admit c = Inr event" "tm_trade_id (ae_mutation event) = trade" by blast
    have adm: "admissible admit trade (c # cs) = event # admissible admit trade cs" by (simp add: admissible_def e)
    show ?thesis
    proof (cases "signed_identity event \<in> set (ap_identities p)")
      case known: True
      then have step: "admit_candidates admit trade (c # cs) p =
          admit_candidates admit trade cs (p\<lparr>ap_duplicates := ap_duplicates p + 1\<rparr>)"
        using Cons.prems(2) e by simp
      have id: "signed_identity event \<in> signed_identity ` set (ap_admitted p)"
        using known Cons.prems(1) by (simp add: pass_ok_def)
      have "pass_ok (p\<lparr>ap_duplicates := ap_duplicates p + 1\<rparr>)" using Cons.prems(1) by simp
      from Cons.IH[OF this] Cons.prems(2) id show ?thesis unfolding step adm by (auto simp: Let_def)
    next
      case fresh: False
      let ?p = "p\<lparr>ap_identities := signed_identity event # ap_identities p,
        ap_cursor := next_cursor (ap_cursor p) (event_cursor event), ap_admitted := ap_admitted p @ [event]\<rparr>"
      have step: "admit_candidates admit trade (c # cs) p = admit_candidates admit trade cs ?p"
        using e fresh by simp
      from Cons.IH[OF pass_ok_admit[OF Cons.prems(1) fresh]] Cons.prems(2) show ?thesis
        unfolding step adm by (auto simp: Let_def)
    qed
  qed
qed

abbreviation original_bytes :: "admitted_event list \<Rightarrow> nat" where
  "original_bytes events \<equiv> sum_list (map (\<lambda>event. length (ae_original event)) events)"

lemma admit_candidates_bytes:
  assumes "\<And>c event. admit c = Inr event \<Longrightarrow> ae_original event = sc_raw_json c"
  shows "original_bytes (ap_admitted (admit_candidates admit trade cs p)) \<le> original_bytes (ap_admitted p) + candidate_bytes cs"
proof (induction cs arbitrary: p)
  case Nil
  then show ?case by simp
next
  case (Cons c cs)
  obtain q where q: "admit_candidates admit trade (c # cs) p = admit_candidates admit trade cs q"
    and "original_bytes (ap_admitted q) \<le> original_bytes (ap_admitted p) + length (sc_raw_json c)"
  proof (rule that[OF admit_candidates.simps(2)])
  qed (cases "admit c"; simp add: assms)
  with Cons.IH[of q] show ?case by simp
qed

lemma source_admit_original: "source_admit reader codec xl source attempt c = Inr event \<Longrightarrow> ae_original event = sc_raw_json c"
  by (auto simp: source_admit_def admit_rhi_trade_mutation_event_def split: if_splits)

lemma sum_list_sort_key: "sum_list (map f (sort_key key xs)) = (sum_list (map f xs) :: nat)"
  by (simp only: sum_mset_sum_list[symmetric] mset_map mset_sort)

lemma pass_ok_start: "pass_ok start_pass"
  by (simp add: pass_ok_def start_pass_def)

lemma set_admissible_cong: "set cs = set cs' \<Longrightarrow> set (admissible admit trade cs) = set (admissible admit trade cs')"
  by (simp add: admissible_def)

lemma fetched_of_accounts:
  assumes "length candidates \<le> u64_max"
    and "f = fetched_of admit maximum_events trade completion (received, bytes, candidates)"
  shows "length (fs_admitted f) + fs_duplicates f + fs_rejected f = length candidates
    \<and> distinct (map signed_identity (fs_admitted f))
    \<and> set (fs_admitted f) \<subseteq> set (admissible admit trade candidates)
    \<and> signed_identity ` set (fs_admitted f) = signed_identity ` set (admissible admit trade candidates)
    \<and> (fs_cursor f = None \<longleftrightarrow> fs_admitted f = [])
    \<and> (\<forall>cursor. fs_cursor f = Some cursor \<longrightarrow> cursor \<in> event_cursor ` set (fs_admitted f)
        \<and> (\<forall>event \<in> set (fs_admitted f). cursor_key (event_cursor event) \<le> cursor_key cursor))"
proof -
  let ?cs = "sort_key candidate_order candidates"
  let ?q = "admit_candidates admit trade ?cs start_pass"
  have len: "length (ap_admitted start_pass) + ap_duplicates start_pass + ap_rejected start_pass + length ?cs \<le> u64_max"
    using assms(1) by (simp add: start_pass_def)
  note A = admit_candidates_pass[OF pass_ok_start len, of admit trade, unfolded Let_def]
  have adm: "set (admissible admit trade ?cs) = set (admissible admit trade candidates)"
    by (rule set_admissible_cong) simp
  have f: "fs_admitted f = ap_admitted ?q" "fs_duplicates f = ap_duplicates ?q" "fs_rejected f = ap_rejected ?q"
    "fs_cursor f = ap_cursor ?q"
    by (simp_all add: assms(2) fetched_of_def Let_def)
  have p: "pass_ok ?q" using A by blast
  have start: "ap_admitted start_pass = []" "ap_duplicates start_pass = 0" "ap_rejected start_pass = 0"
    by (simp_all add: start_pass_def)
  have "length (fs_admitted f) + fs_duplicates f + fs_rejected f = length candidates"
    "set (fs_admitted f) \<subseteq> set (admissible admit trade candidates)"
    "signed_identity ` set (fs_admitted f) = signed_identity ` set (admissible admit trade candidates)"
    using A unfolding f start adm by auto
  moreover have "fs_cursor f = None \<longleftrightarrow> fs_admitted f = []"
    "fs_cursor f = Some cursor \<Longrightarrow> cursor \<in> event_cursor ` set (fs_admitted f)
      \<and> (\<forall>event \<in> set (fs_admitted f). cursor_key (event_cursor event) \<le> cursor_key cursor)" for cursor
    using p unfolding f pass_ok_def cursor_lt_def by (auto split: option.splits simp: not_less)
  moreover have "distinct (map signed_identity (fs_admitted f))" using p by (simp add: f pass_ok_def)
  ultimately show ?thesis by blast
qed

section \<open>Properties\<close>

text \<open>
  The admission pass accounts for every candidate: each is admitted, a duplicate or rejected; the
  admitted events are exactly one for each signed identity among the candidates that the boundary
  admits for the trade; and the cursor is the greatest of the admitted ones.
\<close>

theorem fetched_source_accounts:
  assumes "length candidates \<le> u64_max"
    and "f = fetched_of admit maximum_events trade completion (received, bytes, candidates)"
  shows "length (fs_admitted f) + fs_duplicates f + fs_rejected f = length candidates
    \<and> distinct (map signed_identity (fs_admitted f))
    \<and> set (fs_admitted f) \<subseteq> set (admissible admit trade candidates)
    \<and> signed_identity ` set (fs_admitted f) = signed_identity ` set (admissible admit trade candidates)
    \<and> (fs_cursor f = None \<longleftrightarrow> fs_admitted f = [])
    \<and> (\<forall>cursor. fs_cursor f = Some cursor \<longrightarrow> cursor \<in> event_cursor ` set (fs_admitted f)
        \<and> (\<forall>event \<in> set (fs_admitted f). cursor_key (event_cursor event) \<le> cursor_key cursor))"
  by (rule fetched_of_accounts[OF assms])

text \<open>
  C36.  The page loop ends whatever the relay answers: a fetch returns after at most one request more
  than the configured number of events, and what it admits stays within the configured number of
  events and bytes.
\<close>

theorem fetch_source_bounded:
  assumes "ss_maximum_events source \<le> RHI_TRADE_SOURCE_RESULT_MAX_EVENTS" and "counts_requests tr calls"
  shows "\<exists>res w'. fetch_source tr (source_admit reader codec xl source attempt) source trade attempt checkpoint w = Some (res, w')
    \<and> calls w' \<le> calls w + (ss_maximum_events source + 1)
    \<and> (\<forall>f. res = Inr f \<longrightarrow> fs_received f \<le> ss_maximum_events source
        \<and> length (fs_admitted f) + fs_duplicates f + fs_rejected f \<le> ss_maximum_events source
        \<and> original_bytes (fs_admitted f) \<le> ss_maximum_bytes source)"
proof (cases "\<exists>e. fetch_source tr (source_admit reader codec xl source attempt) source trade attempt checkpoint w = Some (Inl e, w)")
  case True
  then show ?thesis by auto
next
  case False
  let ?admit = "source_admit reader codec xl source attempt"
  let ?plan = "\<lambda>deadline. \<lparr>fe_attempt = attempt, fe_source = source, fe_deadline = deadline,
    fe_selector = source_selector tr trade (fetch_since source attempt checkpoint)\<rparr>"
  have small: "ss_maximum_events source < u64_max"
    using assms(1) by (simp add: RHI_TRADE_SOURCE_RESULT_MAX_EVENTS_def u64_max_def)
  from False obtain deadline where dl: "fetch_deadline source attempt = Some deadline"
    and ok: "rt_selector_ok tr (source_selector tr trade (fetch_since source attempt checkpoint))"
      "rt_target_ok tr (ss_relay_url source)"
    by (cases "fetch_deadline source attempt") (auto simp: fetch_source_def Let_def split: if_splits)
  have "counts_ok (ss_maximum_events source) (ss_maximum_bytes source) (0, 0, [])" by (simp add: counts_ok_def)
  with fetch_loop_bounded[of "?plan deadline" "(0, 0, [])" tr None "[]" w calls] small assms(2)
  obtain res w' where loop: "fetch_loop tr (?plan deadline) None [] (0, 0, []) w = Some (res, w')"
    "calls w' \<le> calls w + (ss_maximum_events source + 1)"
    "\<And>completion counts'. res = Inr (completion, counts') \<Longrightarrow>
       counts_ok (ss_maximum_events source) (ss_maximum_bytes source) counts'"
    by auto
  show ?thesis
  proof (cases res)
    case (Inl e)
    then show ?thesis using loop(1,2) dl ok by (simp add: fetch_source_def Let_def)
  next
    case (Inr a)
    then obtain completion received total candidates where a: "res = Inr (completion, received, total, candidates)"
      by (cases a) auto
    let ?f = "fetched_of ?admit (ss_maximum_events source) trade completion (received, total, candidates)"
    have inv: "length candidates \<le> ss_maximum_events source" "candidate_bytes candidates \<le> ss_maximum_bytes source"
      using loop(3)[OF a] by (auto simp: counts_ok_def)
    have "length candidates \<le> u64_max" using inv small by simp
    from fetched_of_accounts[OF this refl]
    have "length (fs_admitted ?f) + fs_duplicates ?f + fs_rejected ?f = length candidates" by blast
    moreover have "ae_original event = sc_raw_json c" if "?admit c = Inr event" for c event
      using that by (rule source_admit_original)
    then have "original_bytes (fs_admitted ?f) \<le> original_bytes (ap_admitted start_pass)
        + candidate_bytes (sort_key candidate_order candidates)"
      unfolding fetched_of_def Let_def by (simp del: map_map add: admit_candidates_bytes)
    moreover have "candidate_bytes (sort_key candidate_order candidates) = candidate_bytes candidates"
      by (rule sum_list_sort_key)
    ultimately show ?thesis
      using loop(1,2) dl ok a inv by (auto simp: fetch_source_def Let_def start_pass_def fetched_of_def)
  qed
qed

text \<open>The request for the next page, from where the source stands to its deadline.\<close>

definition trade_page_request ::
  "'w relay_transport \<Rightarrow> source_settings \<Rightarrow> bytes \<Rightarrow> source_attempt \<Rightarrow> nat \<Rightarrow> nat \<Rightarrow> string option \<Rightarrow> fetch_request" where
  "trade_page_request tr source trade attempt since taken cursor =
     \<lparr>rq_request_id = at_request_id attempt, rq_relay_url = ss_relay_url source,
      rq_limit = min 1000 (ss_maximum_events source - taken + 1),
      rq_deadline_ms = at_started_at attempt * 1000 + ss_deadline_ms source,
      rq_selector = \<lparr>sel_kinds = [3470, 3471, 3472, 3473, 3474], sel_d_tag = rt_trade_hex tr trade, sel_since = since\<rparr>,
      rq_cursor = cursor\<rparr>"

text \<open>
  C37.  A fetch is complete only when nothing was left out.  Asked for the five trade kinds of the trade since the
  checkpoint less the overlap, or since the start less the lookback where there is no checkpoint, and until the
  deadline of the source, the relay delivered a chain of validated pages, each followed by the next through its
  cursor and the last one ending the result; each page carries a single outcome, which is that of the configured
  target and says complete; and the admitted events are, one for each signed identity, those of all these pages that
  the boundary admits for the trade.
\<close>

theorem complete_fetch_exact:
  assumes "ss_maximum_events source \<le> RHI_TRADE_SOURCE_RESULT_MAX_EVENTS"
    and run: "fetch_source tr admit source trade attempt checkpoint w = Some (Inr f, w')" and "fs_completion f = Complete"
  shows "\<exists>since pages. since = (case checkpoint of None \<Rightarrow> at_started_at attempt - ss_lookback_seconds source
        | Some value \<Rightarrow> cu_created_at (sk_cursor value) - ss_overlap_seconds source)
    \<and> page_trace tr (trade_page_request tr source trade attempt since) 0 None w pages w'
    \<and> (\<forall>page \<in> set pages. pg_target_outcomes page = [(rt_fingerprint tr (ss_relay_url source), TargetComplete)])
    \<and> set (fs_admitted f) \<subseteq> set (admissible admit trade (concat (map pg_events pages)))
    \<and> signed_identity ` set (fs_admitted f)
      = signed_identity ` set (admissible admit trade (concat (map pg_events pages)))
    \<and> distinct (map signed_identity (fs_admitted f))"
proof -
  from run obtain deadline completion counts' where
    loop: "fetch_loop tr \<lparr>fe_attempt = attempt, fe_source = source, fe_deadline = deadline,
       fe_selector = source_selector tr trade (fetch_since source attempt checkpoint)\<rparr> None [] (0, 0, []) w
       = Some (Inr (completion, counts'), w')" and dl: "fetch_deadline source attempt = Some deadline"
    and f: "f = fetched_of admit (ss_maximum_events source) trade completion counts'"
    by (auto simp: fetch_source_def Let_def split: option.splits if_splits prod.splits sum.splits)
  let ?plan = "\<lparr>fe_attempt = attempt, fe_source = source, fe_deadline = deadline,
       fe_selector = source_selector tr trade (fetch_since source attempt checkpoint)\<rparr>"
  have "deadline = at_started_at attempt * 1000 + ss_deadline_ms source"
    using dl by (auto simp: fetch_deadline_def checked_mul_def checked_add_def split: if_splits)
  then have ask: "page_request ?plan = trade_page_request tr source trade attempt (fetch_since source attempt checkpoint)"
    by (simp add: fun_eq_iff page_request_def trade_page_request_def page_limit_def saturating_sub_def source_selector_def)
  have small: "ss_maximum_events source < u64_max"
    using assms(1) by (simp add: RHI_TRADE_SOURCE_RESULT_MAX_EVENTS_def u64_max_def)
  have c: "completion = Complete" using f assms(3) by (simp add: fetched_of_def Let_def)
  have ok: "counts_ok (ss_maximum_events source) (ss_maximum_bytes source) (0, 0, [])" by (simp add: counts_ok_def)
  from fetch_loop_complete[OF _ loop[unfolded c]] small ok obtain pages where
    pages: "page_trace tr (page_request ?plan) 0 None w pages w'" "list_all (exact_page tr source) pages"
      "snd (snd counts') = concat (map pg_events pages)" by auto
  have len: "length (snd (snd counts')) \<le> u64_max"
    using fetch_loop_counts[OF _ loop] small ok by (fastforce simp: counts_ok_def)
  obtain received total where counts': "counts' = (received, total, concat (map pg_events pages))"
    using pages(3) by (cases counts') auto
  have "signed_identity ` set (fs_admitted f) = signed_identity ` set (admissible admit trade (concat (map pg_events pages)))"
    "set (fs_admitted f) \<subseteq> set (admissible admit trade (concat (map pg_events pages)))" "distinct (map signed_identity (fs_admitted f))"
    using fetched_of_accounts[OF _ f[unfolded counts']] len by (simp_all add: counts')
  moreover have "fetch_since source attempt checkpoint = (case checkpoint of None \<Rightarrow> at_started_at attempt - ss_lookback_seconds source
        | Some value \<Rightarrow> cu_created_at (sk_cursor value) - ss_overlap_seconds source)"
    by (simp add: fetch_since_def saturating_sub_def split: option.split)
  ultimately show ?thesis
    using pages(1,2) unfolding ask
    by (intro exI[of _ "fetch_since source attempt checkpoint"] exI[of _ pages]) (simp add: list_all_iff exact_page_def)
qed

section \<open>Witnesses\<close>

text \<open>
  A relay that answers in two pages of one event each, the second the same signed event as the first,
  and a source and an attempt to fetch it with.
\<close>

definition demo_candidate :: signed_candidate where
  "demo_candidate = \<lparr>sc_raw_json = [123], sc_created_at = 90, sc_id = replicate 32 1, sc_sig = replicate 64 2\<rparr>"

definition demo_page :: "next_page \<Rightarrow> fetch_page" where
  "demo_page next = \<lparr>pg_target_outcomes = [([7], TargetComplete)], pg_events = [demo_candidate], pg_next = next\<rparr>"

definition demo_transport :: "nat relay_transport" where
  "demo_transport = \<lparr>rt_trade_hex = (\<lambda>_. ''04''), rt_selector_ok = (\<lambda>_. True), rt_target_ok = (\<lambda>_. True),
     rt_fingerprint = (\<lambda>_. [7]), rt_bounds_ok = (\<lambda>_ _. True), rt_request_ok = (\<lambda>_ _ _ _. True),
     rt_validate = (\<lambda>_ _. True),
     rt_fetch = (\<lambda>request w. (Inr (demo_page (if rq_cursor request = None then PageCursor ''next'' else PageComplete)), w + 1))\<rparr>"

definition demo_settings :: source_settings where
  "demo_settings = \<lparr>ss_source_id = ''relay-a'', ss_relay_url = ''wss://relay.example'', ss_policy = replicate 32 6,
     ss_deadline_ms = 100, ss_lookback_seconds = 60, ss_overlap_seconds = 1, ss_maximum_events = 4,
     ss_maximum_bytes = 64, ss_admission_limits = small_limits\<rparr>"

definition demo_fetch_attempt :: source_attempt where
  "demo_fetch_attempt = \<lparr>at_request_id = [114], at_started_at = 80, at_observed_at = 80, at_maximum_future = 20\<rparr>"

definition demo_trade :: bytes where
  "demo_trade = replicate 16 4"

abbreviation demo_admit :: "signed_candidate \<Rightarrow> (admission_error, admitted_event) result" where
  "demo_admit \<equiv> source_admit one_tag_reader demo_codec \<lparr>xl_fields = 4, xl_json_bytes = 64\<rparr> demo_settings demo_fetch_attempt"

definition demo_admitted :: admitted_event where
  "demo_admitted = \<lparr>ae_original = [123], ae_event = \<lparr>ee_id = replicate 32 1, ee_sig = replicate 64 2,
       ee_author = replicate 32 3, ee_kind = 3470, ee_created_at = 90, ee_content = [97]\<rparr>,
     ae_mutation = \<lparr>tm_trade_id = replicate 16 4, tm_schema_version = 1, tm_contract_id = ''radroots.trade.proposal.v1'',
       tm_mutation_id = Some (replicate 32 5)\<rparr>,
     ae_mutation_id = replicate 32 5, ae_observed_at = 80\<rparr>"

lemma demo_preflight:
  "preflight_wire one_tag_reader \<lparr>xl_fields = 4, xl_json_bytes = 64\<rparr> [123] small_limits = Inr ()"
proof -
  have "measure_tags one_tag_reader [91] small_limits = Inr \<lparr>ms_count = 1, ms_elements = 2, ms_bytes = 3\<rparr>"
    by (simp add: measure_tags_def one_tag_reader_def small_limits_def string_length_seed_def
        decoded_json_string_utf8_bytes_def u64_max_def)
  then show ?thesis
    by (simp add: preflight_wire_def one_tag_reader_def field_names_def str_def slot_def set_slot_def empty_slots_def
        require_slots_def validate_bounded_string_def decoded_json_string_utf8_bytes_def small_limits_def)
qed

lemma demo_admits: "demo_admit demo_candidate = Inr demo_admitted"
proof -
  have src: "from_utf8 [123] = Some [123]"
    using from_utf8_encode[of "[123]"] by (simp add: is_scalar_def utf8_char_def byte_def)
  have times: "validate_authored_time 90 = Inr ()" "enforce_authored_time_policy 90 80 20 = Inr ()"
    by (simp_all add: validate_authored_time_def enforce_authored_time_policy_def i64_max_def u64_max_def)
  have wire: "al_wire_bytes small_limits = 64" by (simp add: small_limits_def)
  show ?thesis
    using src demo_preflight times
    by (simp add: source_admit_def admit_rhi_trade_mutation_event_def demo_codec_def check_identity_def
        check_signature_def wire demo_candidate_def demo_settings_def demo_fetch_attempt_def demo_admitted_def
        del: from_utf8.simps)
qed

lemma demo_fetched:
  "fetched_of demo_admit 4 demo_trade Complete (2, 2, [demo_candidate, demo_candidate]) =
     \<lparr>fs_completion = Complete, fs_received = 2, fs_duplicates = 1, fs_admitted = [demo_admitted], fs_rejected = 0,
      fs_cursor = Some (event_cursor demo_admitted)\<rparr>"
  by (simp add: fetched_of_def Let_def demo_admits start_pass_def demo_trade_def demo_admitted_def next_cursor_def u64_max_def)

lemma demo_fetch:
  "fetch_source demo_transport demo_admit demo_settings demo_trade demo_fetch_attempt None 0 =
     Some (Inr (fetched_of demo_admit 4 demo_trade Complete (2, 2, [demo_candidate, demo_candidate])), 2)"
proof -
  let ?plan = "\<lparr>fe_attempt = demo_fetch_attempt, fe_source = demo_settings, fe_deadline = 80100,
    fe_selector = source_selector demo_transport demo_trade (fetch_since demo_settings demo_fetch_attempt None)\<rparr>"
  have page: "page_outcome [7] (demo_page nxt) = Some TargetComplete" for nxt
    by (simp add: page_outcome_def demo_page_def)
  have scan: "scan_page 4 64 [demo_candidate] (0, 0, []) = (1, 1, [demo_candidate])"
    "scan_page 4 64 [demo_candidate] (1, 1, [demo_candidate]) = (2, 2, [demo_candidate, demo_candidate])"
    by (simp_all add: demo_candidate_def u64_max_def checked_add_def)
  have s1: "page_step demo_transport ?plan request (demo_page (PageCursor ''next'')) [] (0, 0, [])
      = (PageGo ''next'', (1, 1, [demo_candidate]))" for request
    using page scan by (simp add: page_step_def demo_transport_def demo_settings_def Let_def) (simp add: demo_page_def scan)
  have s2: "page_step demo_transport ?plan request (demo_page PageComplete) [''next''] (1, 1, [demo_candidate])
      = (PageStop Complete, (2, 2, [demo_candidate, demo_candidate]))" for request
    using page scan by (simp add: page_step_def demo_transport_def demo_settings_def Let_def) (simp add: demo_page_def scan)
  have fetch: "rt_fetch demo_transport request w =
      (Inr (demo_page (if rq_cursor request = None then PageCursor ''next'' else PageComplete)), w + 1)" for request w
    by (simp add: demo_transport_def)
  have tr: "rt_bounds_ok demo_transport a b" "rt_request_ok demo_transport c d a b" for a b c d
    by (simp_all add: demo_transport_def)
  have l2: "fetch_loop demo_transport ?plan (Some ''next'') [''next''] (1, 1, [demo_candidate]) 1
      = Some (Inr (Complete, (2, 2, [demo_candidate, demo_candidate])), 2)"
    by (subst fetch_loop.simps) (simp add: Let_def tr s2 fetch page_request_def del: One_nat_def)
  have l1: "fetch_loop demo_transport ?plan None [] (0, 0, []) 0
      = fetch_loop demo_transport ?plan (Some ''next'') [''next''] (1, 1, [demo_candidate]) 1"
    by (subst fetch_loop.simps) (simp add: Let_def tr s1 fetch page_request_def del: One_nat_def)
  have "fetch_deadline demo_settings demo_fetch_attempt = Some 80100" "ss_maximum_events demo_settings = 4"
    by (simp_all add: fetch_deadline_def demo_settings_def demo_fetch_attempt_def checked_mul_def u64_max_def)
  moreover have "rt_selector_ok demo_transport x" "rt_target_ok demo_transport y" for x y
    by (simp_all add: demo_transport_def)
  ultimately show ?thesis by (simp add: fetch_source_def Let_def l1 l2 del: One_nat_def)
qed

theorem fetched_source_accounts_witness:
  "(let f = fetched_of demo_admit 4 demo_trade Complete (2, 2, [demo_candidate, demo_candidate]) in
     length (fs_admitted f) + fs_duplicates f + fs_rejected f = 2 \<and> fs_duplicates f = 1
     \<and> fs_cursor f = Some (event_cursor demo_admitted))"
  using fetched_source_accounts[of "[demo_candidate, demo_candidate]" _ demo_admit 4 demo_trade Complete 2 2] demo_fetched
  by (simp add: u64_max_def)

theorem fetch_source_bounded_witness:
  "\<exists>res w'. fetch_source demo_transport demo_admit demo_settings demo_trade demo_fetch_attempt None 0 = Some (res, w')
     \<and> w' \<le> 5 \<and> (\<exists>f. res = Inr f \<and> length (fs_admitted f) + fs_duplicates f + fs_rejected f \<le> 4)"
proof -
  have "counts_requests demo_transport (\<lambda>w. w)" by (simp add: counts_requests_def demo_transport_def)
  moreover have "ss_maximum_events demo_settings \<le> RHI_TRADE_SOURCE_RESULT_MAX_EVENTS" "ss_maximum_events demo_settings = 4"
    by (simp_all add: demo_settings_def RHI_TRADE_SOURCE_RESULT_MAX_EVENTS_def)
  ultimately show ?thesis
    using fetch_source_bounded[of demo_settings demo_transport "\<lambda>w. w" one_tag_reader demo_codec
        "\<lparr>xl_fields = 4, xl_json_bytes = 64\<rparr>" demo_fetch_attempt demo_trade None 0] demo_fetch
    by auto
qed

theorem complete_fetch_exact_witness:
  "\<exists>since pages. page_trace demo_transport (trade_page_request demo_transport demo_settings demo_trade demo_fetch_attempt since) 0 None 0 pages 2
     \<and> {signed_identity demo_admitted} = signed_identity ` set (admissible demo_admit demo_trade (concat (map pg_events pages)))"
proof -
  have "ss_maximum_events demo_settings \<le> RHI_TRADE_SOURCE_RESULT_MAX_EVENTS"
    by (simp add: demo_settings_def RHI_TRADE_SOURCE_RESULT_MAX_EVENTS_def)
  from complete_fetch_exact[OF this demo_fetch] demo_fetched show ?thesis by auto
qed

end
