(* ===== verification/Source_Ingest_Props.thy ===== *)
theory Source_Ingest_Props
  imports Source_Ingest State_Trade_Props Source_Fetch_Props Reconciliation_Job_Machine
begin

text \<open>
  Properties of the ingestion commit: it is fenced by the checkpoint and the dirty generation read
  before the fetch, appends evidence, advances the dirty generation exactly when evidence is new and
  the checkpoint exactly when the fetch was complete and its cursor newer, and it is the step of the
  dirty generations the job repository relies on.
\<close>

section \<open>Reading\<close>

definition ingest_inv :: "'a evidence_store_scheme \<Rightarrow> bool" where
  "ingest_inv s \<longleftrightarrow> evidence_inv s \<and> checkpoints_valid (checkpoint_rows s) \<and> dirty_valid (dirty_generations s)"

definition dirty_of_row :: "dirty_row \<Rightarrow> dirty_state" where
  "dirty_of_row r = \<lparr>ds_generation = nat (dg_generation r), ds_policy = dg_evidence_policy_sha256 r,
     ds_updated_at = nat (dg_updated_at_unix_s r)\<rparr>"

definition checkpoint_of_row :: "checkpoint_row \<Rightarrow> source_checkpoint" where
  "checkpoint_of_row r = \<lparr>sk_cursor = \<lparr>cu_created_at = nat (ck_cursor_created_at_unix_s r), cu_event_id = ck_cursor_event_id r\<rparr>,
     sk_revision = nat (ck_revision r), sk_completed_at = nat (ck_completed_at_unix_s r)\<rparr>"

abbreviation dirty_at :: "bytes \<Rightarrow> 'a job_store_scheme \<Rightarrow> dirty_row option" where
  "dirty_at trade s \<equiv> select_key dg_trade_id trade (dirty_generations s)"

abbreviation checkpoint_at :: "checkpoint_scope \<Rightarrow> 'a evidence_store_scheme \<Rightarrow> checkpoint_row option" where
  "checkpoint_at k s \<equiv> select_key checkpoint_key k (checkpoint_rows s)"

lemma exact_digest_ok [simp]: "length b = 32 \<Longrightarrow> exact_digest b = Inr b"
  by (simp add: exact_digest_def)

lemma source_read_dirty_ok:
  assumes "dirty_valid (dirty_generations s)"
  shows "source_read_dirty trade s = Inr (map_option dirty_of_row (dirty_at trade s))"
proof (cases "dirty_at trade s")
  case (Some row)
  have "dirty_row_check row"
    using assms select_key_SomeD(1)[OF Some] by (auto simp: dirty_valid_def list_all_iff)
  with Some show ?thesis
    by (simp add: source_read_dirty_def dirty_row_check_def positive_i64_u64_def nonnegative_i64_u64_def dirty_of_row_def)
qed (simp add: source_read_dirty_def)

lemma read_checkpoint_ok:
  assumes "checkpoints_valid (checkpoint_rows s)"
  shows "read_checkpoint source_id policy trade s =
    Inr (map_option checkpoint_of_row (checkpoint_at (source_id, SOURCE_SELECTOR, policy, trade) s))"
proof (cases "checkpoint_at (source_id, SOURCE_SELECTOR, policy, trade) s")
  case (Some row)
  have "checkpoint_row_check row"
    using assms select_key_SomeD(1)[OF Some] by (auto simp: checkpoints_valid_def list_all_iff)
  with Some show ?thesis
    by (simp add: read_checkpoint_def checkpoint_row_check_def positive_i64_u64_def nonnegative_i64_u64_def checkpoint_of_row_def)
qed (simp add: read_checkpoint_def)

section \<open>Persisting the admitted events\<close>

text \<open>A store with more evidence and nothing else changed.\<close>

definition evidence_grows :: "nat \<times> nat \<times> nat \<Rightarrow> 'a evidence_store_scheme \<Rightarrow> 'a evidence_store_scheme \<Rightarrow> bool" where
  "evidence_grows counts s s' \<longleftrightarrow>
     (\<exists>ms es os. s' = s\<lparr>mutation_rows := mutation_rows s @ ms, nostr_rows := nostr_rows s @ es,
         observation_rows := observation_rows s @ os\<rparr>
       \<and> counts = (length ms, length es, length os))"

lemma evidence_grows_refl: "evidence_grows (0, 0, 0) s s"
  by (auto simp: evidence_grows_def intro: exI[of _ "[]"])

lemma evidence_grows_trans:
  assumes "evidence_grows (a, b, c) s s1" and "evidence_grows (a', b', c') s1 s2"
  shows "evidence_grows (a + a', b + b', c + c') s s2"
proof -
  from assms obtain ms es os ms' es' os' where
    "s1 = s\<lparr>mutation_rows := mutation_rows s @ ms, nostr_rows := nostr_rows s @ es, observation_rows := observation_rows s @ os\<rparr>"
    "s2 = s1\<lparr>mutation_rows := mutation_rows s1 @ ms', nostr_rows := nostr_rows s1 @ es', observation_rows := observation_rows s1 @ os'\<rparr>"
    "a = length ms" "b = length es" "c = length os" "a' = length ms'" "b' = length es'" "c' = length os'"
    by (auto simp: evidence_grows_def)
  then show ?thesis
    by (auto simp: evidence_grows_def intro!: exI[of _ "ms @ ms'"] exI[of _ "es @ es'"] exI[of _ "os @ os'"])
qed

lemma persist_grows:
  assumes "evidence_inv s" and "persist r obs s = Inr (out, s')"
  shows "evidence_grows (of_bool (po_mutation_inserted out), of_bool (po_signed_event_inserted out),
    of_bool (po_observation_inserted out)) s s'"
proof -
  let ?if = "\<lambda>b x. if b then [x] else []"
  have "s' = s\<lparr>mutation_rows := mutation_rows s @ ?if (po_mutation_inserted out) (mutation_row_of r),
      nostr_rows := nostr_rows s @ ?if (po_signed_event_inserted out) (event_of r),
      observation_rows := observation_rows s @ ?if (po_observation_inserted out) (observed_of obs)\<rparr>"
    using persist_effect(1)[OF assms] by (simp only: with_evidence_def)
  then show ?thesis
    unfolding evidence_grows_def
    by (intro exI[of _ "?if (po_mutation_inserted out) (mutation_row_of r)"]
        exI[of _ "?if (po_signed_event_inserted out) (event_of r)"]
        exI[of _ "?if (po_observation_inserted out) (observed_of obs)"]) simp
qed

lemma persist_admitted_grows:
  "persist_admitted wire source_id policy events (m, e, n) s = Inr ((m', e', n'), s') \<Longrightarrow> evidence_inv s \<Longrightarrow>
    evidence_inv s' \<and> m \<le> m' \<and> e \<le> e' \<and> n \<le> n' \<and> evidence_grows (m' - m, e' - e, n' - n) s s'"
proof (induction events arbitrary: m e n s)
  case Nil
  then show ?case by (simp add: evidence_grows_refl)
next
  case (Cons event events)
  from Cons.prems(1) obtain r out s1 where p: "persist r (observation_from_parts source_id policy event) s = Inr (out, s1)"
    and rest: "persist_admitted wire source_id policy events (m + of_bool (po_mutation_inserted out),
      e + of_bool (po_signed_event_inserted out), n + of_bool (po_observation_inserted out)) s1 = Inr ((m', e', n'), s')"
    by (auto simp: count_inserted_def split: if_splits)
  note IH = Cons.IH[OF rest persist_inv[OF Cons.prems(2) p]]
  have "evidence_grows (of_bool (po_mutation_inserted out) + (m' - (m + of_bool (po_mutation_inserted out))),
      of_bool (po_signed_event_inserted out) + (e' - (e + of_bool (po_signed_event_inserted out))),
      of_bool (po_observation_inserted out) + (n' - (n + of_bool (po_observation_inserted out)))) s s'"
    using evidence_grows_trans persist_grows[OF Cons.prems(2) p] IH by blast
  moreover have "of_bool (po_mutation_inserted out) + (m' - (m + of_bool (po_mutation_inserted out))) = m' - m"
    "of_bool (po_signed_event_inserted out) + (e' - (e + of_bool (po_signed_event_inserted out))) = e' - e"
    "of_bool (po_observation_inserted out) + (n' - (n + of_bool (po_observation_inserted out))) = n' - n"
    using IH by auto
  ultimately show ?case using IH by simp
qed

text \<open>The rows of an admitted event, column by column.\<close>

definition admitted_mutation_row :: "admitted_event \<Rightarrow> mutation_row" where
  "admitted_mutation_row event =
     \<lparr>mu_mutation_id = ae_mutation_id event, mu_trade_id = tm_trade_id (ae_mutation event),
      mu_contract_id = tm_contract_id (ae_mutation event), mu_schema_version = int (tm_schema_version (ae_mutation event)),
      mu_event_kind = int (ee_kind (ae_event event)), mu_author_pubkey = ee_author (ae_event event),
      mu_canonical_content = ee_content (ae_event event)\<rparr>"

definition admitted_event_row :: "(event_envelope \<Rightarrow> bytes option) \<Rightarrow> admitted_event \<Rightarrow> nostr_row" where
  "admitted_event_row wire event =
     \<lparr>ne_event_id = ee_id (ae_event event), ne_event_signature = ee_sig (ae_event event), ne_mutation_id = ae_mutation_id event,
      ne_author_pubkey = ee_author (ae_event event), ne_event_kind = int (ee_kind (ae_event event)),
      ne_authored_at_unix_s = int (ee_created_at (ae_event event)), ne_canonical_event_json = the (wire (ae_event event))\<rparr>"

definition admitted_observation_row :: "string \<Rightarrow> bytes \<Rightarrow> admitted_event \<Rightarrow> observation_row" where
  "admitted_observation_row source_id policy event =
     \<lparr>ro_source_id = source_id, ro_selector_id = SOURCE_SELECTOR, ro_evidence_policy_sha256 = policy,
      ro_event_id = ee_id (ae_event event), ro_event_signature = ee_sig (ae_event event),
      ro_observed_at_unix_s = int (ae_observed_at event)\<rparr>"

text \<open>Every admitted event is stored, in the order of delivery.\<close>

lemma persist_admitted_stored:
  "persist_admitted wire source_id policy events counts s = Inr (counts', s') \<Longrightarrow> evidence_inv s \<Longrightarrow>
    evidence_stored (map admitted_mutation_row events) (map (admitted_event_row wire) events)
      (map (admitted_observation_row source_id policy) events) s s'"
proof (induction events arbitrary: counts s)
  case Nil
  then show ?case by (simp add: evidence_stored_refl)
next
  case (Cons event events)
  from Cons.prems(1) obtain r out s1 counts1 where r: "record_from_admitted wire event = Inr r"
    and p: "persist r (observation_from_parts source_id policy event) s = Inr (out, s1)"
    and rest: "persist_admitted wire source_id policy events counts1 s1 = Inr (counts', s')"
    by (cases counts) auto
  from r have "mutation_row_of r = admitted_mutation_row event" "event_of r = admitted_event_row wire event"
    by (auto simp: record_from_admitted_def Let_def mutation_row_of_def nostr_row_of_def admitted_mutation_row_def admitted_event_row_def)
  with persist_stored[OF Cons.prems(2) p]
  have "evidence_stored [admitted_mutation_row event] [admitted_event_row wire event] [admitted_observation_row source_id policy event] s s1"
    by (simp add: observation_row_of_def observation_from_parts_def admitted_observation_row_def)
  from evidence_stored_trans[OF this Cons.IH[OF rest persist_inv[OF Cons.prems(2) p]]] show ?case by simp
qed

section \<open>The dirty generation\<close>

text \<open>The generation of a trade, zero before its first.\<close>

definition generation_of :: "bytes \<Rightarrow> 'a job_store_scheme \<Rightarrow> int" where
  "generation_of trade s = (case dirty_at trade s of None \<Rightarrow> 0 | Some r \<Rightarrow> dg_generation r)"

lemma advance_dirty_effect:
  assumes valid: "dirty_valid (dirty_generations s)"
    and adv: "advance_dirty_generation trade policy updated_at (map_option dirty_of_row (dirty_at trade s)) s = Inr (n, s')"
  shows "\<exists>rows. s' = s\<lparr>dirty_generations := rows\<rparr> \<and> dirty_valid rows
      \<and> set (map dg_trade_id (dirty_generations s)) \<subseteq> set (map dg_trade_id rows)"
    and "int n = generation_of trade s + 1"
    and "generation_of t s' = generation_of t s + of_bool (t = trade)"
proof -
  have all: "(\<exists>rows. s' = s\<lparr>dirty_generations := rows\<rparr> \<and> dirty_valid rows
      \<and> set (map dg_trade_id (dirty_generations s)) \<subseteq> set (map dg_trade_id rows))
    \<and> int n = generation_of trade s + 1 \<and> (\<forall>t. generation_of t s' = generation_of t s + of_bool (t = trade))"
  proof (cases "dirty_at trade s")
    case None
    let ?row = "\<lparr>dg_trade_id = trade, dg_generation = 1, dg_evidence_policy_sha256 = policy,
      dg_updated_at_unix_s = int updated_at\<rparr>"
    from adv None have ins: "sql_insert (\<lambda>_ _. True) dirty_valid ?row (dirty_generations s) = Some (dirty_generations s')"
      and s': "s' = s\<lparr>dirty_generations := dirty_generations s'\<rparr>" and n: "n = 1"
      by (auto simp: advance_dirty_generation_def insert_dirty_def split: option.splits)
    note I = sql_insert_SomeD[OF ins]
    have "generation_of t s' = generation_of t s + of_bool (t = trade)" for t
      using None by (auto simp: generation_of_def I(1) select_key_snoc split: option.split)
    with s' I n None show ?thesis by (auto simp: generation_of_def)
  next
    case (Some row)
    let ?p = "advance_dirty_where trade (dg_generation row)" and ?f = "advance_dirty_set policy (int updated_at)"
    have chk: "dirty_row_check row"
      using valid select_key_SomeD(1)[OF Some] by (auto simp: dirty_valid_def list_all_iff)
    then have gen: "0 \<le> dg_generation row" by (simp add: dirty_row_check_def)
    from adv Some have upd: "sql_update dirty_guard dirty_valid ?p ?f (dirty_generations s) = Some (dirty_generations s', 1)"
      and s': "s' = s\<lparr>dirty_generations := dirty_generations s'\<rparr>" and n: "n = nat (dg_generation row) + 1"
      by (auto simp: advance_dirty_generation_def dirty_of_row_def gen split: option.splits if_splits)
    have key: "\<And>r. ?p r \<Longrightarrow> dg_trade_id r = trade" by (simp add: advance_dirty_where_def)
    from dirty.cas_select[OF upd valid key] Some
    have sel: "dirty_at trade s' = Some (?f row)" "\<And>t. t \<noteq> trade \<Longrightarrow> dirty_at t s' = dirty_at t s"
      by (metis option.inject)+
    have "generation_of t s' = generation_of t s + of_bool (t = trade)" for t
      using sel Some by (cases "t = trade") (simp_all add: generation_of_def advance_dirty_set_def)
    moreover have "map dg_trade_id (dirty_generations s') = map dg_trade_id (dirty_generations s)"
      by (rule dirty.update_keys[OF upd])
    moreover have "int n = generation_of trade s + 1" using Some n gen by (simp add: generation_of_def)
    ultimately show ?thesis using s' sql_update_SomeD(3)[OF upd] by (metis subset_refl)
  qed
  then show "\<exists>rows. s' = s\<lparr>dirty_generations := rows\<rparr> \<and> dirty_valid rows
      \<and> set (map dg_trade_id (dirty_generations s)) \<subseteq> set (map dg_trade_id rows)"
    "int n = generation_of trade s + 1" "generation_of t s' = generation_of t s + of_bool (t = trade)" by blast+
qed

section \<open>The checkpoint\<close>

definition cursor_at :: "checkpoint_scope \<Rightarrow> 'a evidence_store_scheme \<Rightarrow> source_cursor option" where
  "cursor_at k s = map_option (\<lambda>r. sk_cursor (checkpoint_of_row r)) (checkpoint_at k s)"

lemma write_checkpoint_effect:
  assumes valid: "checkpoints_valid (checkpoint_rows s)"
    and w: "write_checkpoint source_id policy trade
      (map_option checkpoint_of_row (checkpoint_at (source_id, SOURCE_SELECTOR, policy, trade) s)) cursor completed_at s = Inr s'"
  shows "\<exists>rows. s' = s\<lparr>checkpoint_rows := rows\<rparr> \<and> checkpoints_valid rows"
    and "cursor_at k s' = (if k = (source_id, SOURCE_SELECTOR, policy, trade) then Some cursor else cursor_at k s)"
    and "k \<noteq> (source_id, SOURCE_SELECTOR, policy, trade) \<Longrightarrow> checkpoint_at k s' = checkpoint_at k s"
proof -
  let ?k = "(source_id, SOURCE_SELECTOR, policy, trade)"
  have "(\<exists>rows. s' = s\<lparr>checkpoint_rows := rows\<rparr> \<and> checkpoints_valid rows)
    \<and> (\<forall>k. cursor_at k s' = (if k = ?k then Some cursor else cursor_at k s))
    \<and> (\<forall>k. k \<noteq> ?k \<longrightarrow> checkpoint_at k s' = checkpoint_at k s)"
  proof (cases "checkpoint_at ?k s")
    case None
    let ?row = "new_checkpoint_row source_id policy trade (int (cu_created_at cursor)) (cu_event_id cursor) (int completed_at)"
    from w None have ins: "sql_insert (\<lambda>_ _. True) checkpoints_valid ?row (checkpoint_rows s) = Some (checkpoint_rows s')"
      and s': "s' = s\<lparr>checkpoint_rows := checkpoint_rows s'\<rparr>"
      by (auto simp: write_checkpoint_def split: option.splits)
    note I = sql_insert_SomeD[OF ins]
    have row: "checkpoint_key ?row = ?k" "sk_cursor (checkpoint_of_row ?row) = cursor"
      by (simp_all add: checkpoint_key_def new_checkpoint_row_def checkpoint_of_row_def)
    have "cursor_at k s' = (if k = ?k then Some cursor else cursor_at k s)" for k
      using None row by (auto simp: cursor_at_def I(1) select_key_snoc split: option.split)
    moreover have "checkpoint_at k s' = checkpoint_at k s" if "k \<noteq> ?k" for k
      using that row by (auto simp: I(1) select_key_snoc split: option.split)
    ultimately show ?thesis using s' I by blast
  next
    case (Some row)
    let ?p = "checkpoint_where source_id policy trade (ck_revision row)"
    let ?f = "checkpoint_set (int (cu_created_at cursor)) (cu_event_id cursor) (int completed_at)"
    have "checkpoint_row_check row"
      using valid select_key_SomeD(1)[OF Some] by (auto simp: checkpoints_valid_def list_all_iff)
    then have rev: "0 \<le> ck_revision row" by (simp add: checkpoint_row_check_def)
    from w Some have upd: "sql_update checkpoint_guard checkpoints_valid ?p ?f (checkpoint_rows s) = Some (checkpoint_rows s', 1)"
      and s': "s' = s\<lparr>checkpoint_rows := checkpoint_rows s'\<rparr>"
      by (auto simp: write_checkpoint_def checkpoint_of_row_def rev split: option.splits if_splits)
    have key: "\<And>r. ?p r \<Longrightarrow> checkpoint_key r = ?k" by (simp add: checkpoint_where_def)
    from checkpoint_table.cas_select[OF upd valid key] Some
    have sel: "checkpoint_at ?k s' = Some (?f row)" "\<And>k. k \<noteq> ?k \<Longrightarrow> checkpoint_at k s' = checkpoint_at k s"
      by (metis option.inject)+
    have "cursor_at k s' = (if k = ?k then Some cursor else cursor_at k s)" for k
      using sel by (simp add: cursor_at_def checkpoint_of_row_def checkpoint_set_def)
    with s' sel(2) sql_update_SomeD(3)[OF upd] show ?thesis by blast
  qed
  then show "\<exists>rows. s' = s\<lparr>checkpoint_rows := rows\<rparr> \<and> checkpoints_valid rows"
    "cursor_at k s' = (if k = ?k then Some cursor else cursor_at k s)"
    "k \<noteq> ?k \<Longrightarrow> checkpoint_at k s' = checkpoint_at k s" by blast+
qed

section \<open>The commit\<close>

text \<open>What was read before the fetch is what the store still holds.\<close>

definition fence_holds :: "source_settings \<Rightarrow> bytes \<Rightarrow> initial_state \<Rightarrow> 'a evidence_store_scheme \<Rightarrow> bool" where
  "fence_holds source trade initial s \<longleftrightarrow>
     is_checkpoint initial = map_option checkpoint_of_row
       (checkpoint_at (ss_source_id source, SOURCE_SELECTOR, ss_policy source, trade) s)
   \<and> is_dirty initial = map_option dirty_of_row (dirty_at trade s)"

lemma commit_source_fenced:
  assumes "ingest_inv s" and "\<not> fence_holds source trade initial s"
  shows "commit_source wire source trade observed_at initial fetched s = Inl SrcGenerationConflict"
  using assms by (auto simp: commit_source_def ingest_inv_def fence_holds_def read_checkpoint_ok source_read_dirty_ok)

definition new_evidence :: "ingest_outcome \<Rightarrow> bool" where
  "new_evidence out \<longleftrightarrow> io_inserted_mutations out \<noteq> 0 \<or> io_inserted_signed_events out \<noteq> 0"

lemma commit_sourceE:
  assumes "commit_source wire source trade observed_at initial fetched s = Inr (out, s')" and "ingest_inv s"
  obtains s1 s2 generation cursor where "fence_holds source trade initial s"
    "persist_admitted wire (ss_source_id source) (ss_policy source) (fs_admitted fetched) (0, 0, 0) s
       = Inr ((io_inserted_mutations out, io_inserted_signed_events out, io_inserted_observations out), s1)"
    "advance_if_new (new_evidence out) trade (ss_policy source) observed_at (is_dirty initial) s1 = Inr (io_dirty_generation out, s2)"
    "advance_checkpoint source trade observed_at initial fetched s2
       = Inr ((io_checkpoint out, io_checkpoint_advanced out), s')"
    "io_dirty_generation_advanced out = new_evidence out" "io_completion out = fs_completion fetched"
    "io_admitted out = length (fs_admitted fetched)" "io_rejected out = fs_rejected fetched"
    "io_duplicates out = fs_duplicates fetched" "io_received out = fs_received fetched"
  using assms
  by (auto simp: commit_source_def ingest_inv_def fence_holds_def read_checkpoint_ok source_read_dirty_ok
      new_evidence_def split: if_splits)

lemma evidence_grows_frame:
  assumes "evidence_grows counts s s'"
  shows "dirty_generations s' = dirty_generations s" "jobs s' = jobs s" "checkpoint_rows s' = checkpoint_rows s"
  using assms by (auto simp: evidence_grows_def)

lemma advance_if_new_effect:
  assumes valid: "dirty_valid (dirty_generations s)"
    and adv: "advance_if_new new trade policy updated_at (map_option dirty_of_row (dirty_at trade s)) s = Inr (g, s')"
  shows "\<exists>rows. s' = s\<lparr>dirty_generations := rows\<rparr> \<and> dirty_valid rows
      \<and> set (map dg_trade_id (dirty_generations s)) \<subseteq> set (map dg_trade_id rows)"
    and "generation_of t s' = generation_of t s + of_bool (t = trade \<and> new)"
    and "map_option int g = (if generation_of trade s' = 0 then None else Some (generation_of trade s'))"
proof -
  have pos: "0 \<le> generation_of trade s" "dirty_at trade s \<noteq> None \<longleftrightarrow> generation_of trade s \<noteq> 0"
    using valid select_key_SomeD(1)[of dg_trade_id trade "dirty_generations s"]
    by (fastforce simp: generation_of_def dirty_valid_def list_all_iff dirty_row_check_def split: option.splits)+
  show "\<exists>rows. s' = s\<lparr>dirty_generations := rows\<rparr> \<and> dirty_valid rows
      \<and> set (map dg_trade_id (dirty_generations s)) \<subseteq> set (map dg_trade_id rows)"
    using adv advance_dirty_effect(1)[OF valid] valid
    by (auto simp: advance_if_new_def split: if_splits) (rule exI[of _ "dirty_generations s"], simp)
  show gen: "generation_of t s' = generation_of t s + of_bool (t = trade \<and> new)" for t
    using adv advance_dirty_effect(3)[OF valid] by (auto simp: advance_if_new_def split: if_splits)
  show "map_option int g = (if generation_of trade s' = 0 then None else Some (generation_of trade s'))"
  proof (cases new)
    case True
    with adv obtain n where "advance_dirty_generation trade policy updated_at (map_option dirty_of_row (dirty_at trade s)) s = Inr (n, s')"
      and "g = Some n" by (auto simp: advance_if_new_def)
    with advance_dirty_effect(2)[OF valid] gen[of trade] True pos show ?thesis by auto
  next
    case False
    with adv have "g = map_option (\<lambda>r. nat (dg_generation r)) (dirty_at trade s)" "s' = s"
      by (auto simp: advance_if_new_def dirty_of_row_def option.map_comp comp_def)
    with pos show ?thesis by (cases "dirty_at trade s") (auto simp: generation_of_def)
  qed
qed

lemma advance_checkpoint_effect:
  assumes valid: "checkpoints_valid (checkpoint_rows s)"
    and init: "is_checkpoint initial = map_option checkpoint_of_row
      (checkpoint_at (ss_source_id source, SOURCE_SELECTOR, ss_policy source, trade) s)"
    and adv: "advance_checkpoint source trade observed_at initial fetched s = Inr ((cursor, advanced), s')"
  shows "\<exists>rows. s' = s\<lparr>checkpoint_rows := rows\<rparr> \<and> checkpoints_valid rows"
    and "advanced = checkpoint_eligible (fs_completion fetched) (fs_cursor fetched) (is_checkpoint initial)"
    and "cursor_at k s' = (if k = (ss_source_id source, SOURCE_SELECTOR, ss_policy source, trade) \<and> advanced
      then fs_cursor fetched else cursor_at k s)"
    and "cursor = cursor_at (ss_source_id source, SOURCE_SELECTOR, ss_policy source, trade) s'"
proof -
  let ?k = "(ss_source_id source, SOURCE_SELECTOR, ss_policy source, trade)"
  have "(\<exists>rows. s' = s\<lparr>checkpoint_rows := rows\<rparr> \<and> checkpoints_valid rows)
    \<and> advanced = checkpoint_eligible (fs_completion fetched) (fs_cursor fetched) (is_checkpoint initial)
    \<and> (\<forall>k. cursor_at k s' = (if k = ?k \<and> advanced then fs_cursor fetched else cursor_at k s))
    \<and> cursor = cursor_at ?k s'"
  proof (cases "checkpoint_eligible (fs_completion fetched) (fs_cursor fetched) (is_checkpoint initial)")
    case False
    with adv have "s' = s" "\<not> advanced" "cursor = map_option sk_cursor (is_checkpoint initial)"
      by (auto simp: advance_checkpoint_def)
    then show ?thesis
      using False valid init
      by (auto simp: cursor_at_def option.map_comp comp_def intro: exI[of _ "checkpoint_rows s"])
  next
    case True
    with adv obtain candidate where c: "fs_cursor fetched = Some candidate" "cursor = Some candidate" "advanced"
      and w: "write_checkpoint (ss_source_id source) (ss_policy source) trade (is_checkpoint initial) candidate observed_at s = Inr s'"
      by (auto simp: advance_checkpoint_def split: option.splits)
    note W = write_checkpoint_effect[OF valid w[unfolded init]]
    show ?thesis using True c W by simp
  qed
  then show "\<exists>rows. s' = s\<lparr>checkpoint_rows := rows\<rparr> \<and> checkpoints_valid rows"
    "advanced = checkpoint_eligible (fs_completion fetched) (fs_cursor fetched) (is_checkpoint initial)"
    "cursor_at k s' = (if k = ?k \<and> advanced then fs_cursor fetched else cursor_at k s)"
    "cursor = cursor_at ?k s'" by blast+
qed

section \<open>Properties\<close>

abbreviation source_key :: "source_settings \<Rightarrow> bytes \<Rightarrow> checkpoint_scope" where
  "source_key source trade \<equiv> (ss_source_id source, SOURCE_SELECTOR, ss_policy source, trade)"

definition newer_than :: "source_cursor option \<Rightarrow> source_cursor option \<Rightarrow> bool" where
  "newer_than old new \<longleftrightarrow> (\<exists>c. new = Some c \<and> (\<forall>c0. old = Some c0 \<longrightarrow> cursor_key c0 < cursor_key c))"

text \<open>What a commit that reports \<open>out\<close> does to the store.\<close>

definition ingest_effect ::
  "(event_envelope \<Rightarrow> bytes option) \<Rightarrow> source_settings \<Rightarrow> bytes \<Rightarrow> fetched_source \<Rightarrow> ingest_outcome \<Rightarrow> 'a evidence_store_scheme \<Rightarrow> 'a evidence_store_scheme \<Rightarrow> bool"
  where
  "ingest_effect wire source trade fetched out s s' \<longleftrightarrow>
     jobs s' = jobs s
   \<and> evidence_stored (map admitted_mutation_row (fs_admitted fetched)) (map (admitted_event_row wire) (fs_admitted fetched))
       (map (admitted_observation_row (ss_source_id source) (ss_policy source)) (fs_admitted fetched)) s s'
   \<and> length (mutation_rows s') = length (mutation_rows s) + io_inserted_mutations out
   \<and> length (nostr_rows s') = length (nostr_rows s) + io_inserted_signed_events out
   \<and> length (observation_rows s') = length (observation_rows s) + io_inserted_observations out
   \<and> io_dirty_generation_advanced out = new_evidence out
   \<and> (\<forall>t. generation_of t s' = generation_of t s + of_bool (t = trade \<and> new_evidence out))
   \<and> io_checkpoint_advanced out
      = (fs_completion fetched = Complete \<and> newer_than (cursor_at (source_key source trade) s) (fs_cursor fetched))
   \<and> (\<forall>k. cursor_at k s' = (if k = source_key source trade \<and> io_checkpoint_advanced out then fs_cursor fetched
        else cursor_at k s))
   \<and> io_completion out = fs_completion fetched \<and> io_checkpoint out = cursor_at (source_key source trade) s'
   \<and> io_admitted out = length (fs_admitted fetched)"

lemma checkpoint_eligible_newer:
  "checkpoint_eligible completion candidate checkpoint \<longleftrightarrow>
     completion = Complete \<and> newer_than (map_option sk_cursor checkpoint) candidate"
  by (auto simp: checkpoint_eligible_def allows_checkpoint_def newer_than_def cursor_lt_def split: option.splits)

lemma commit_source_effect:
  assumes inv: "ingest_inv s" and run: "commit_source wire source trade observed_at initial fetched s = Inr (out, s')"
  shows "fence_holds source trade initial s" and "ingest_inv s'" and "ingest_effect wire source trade fetched out s s'"
    and "dirty_advance (dirty_generations s) (dirty_generations s')"
proof -
  from run inv obtain s1 s2 where fence: "fence_holds source trade initial s"
    and p: "persist_admitted wire (ss_source_id source) (ss_policy source) (fs_admitted fetched) (0, 0, 0) s
       = Inr ((io_inserted_mutations out, io_inserted_signed_events out, io_inserted_observations out), s1)"
    and d: "advance_if_new (new_evidence out) trade (ss_policy source) observed_at (is_dirty initial) s1 = Inr (io_dirty_generation out, s2)"
    and c: "advance_checkpoint source trade observed_at initial fetched s2
       = Inr ((io_checkpoint out, io_checkpoint_advanced out), s')"
    and o: "io_dirty_generation_advanced out = new_evidence out" "io_completion out = fs_completion fetched"
      "io_admitted out = length (fs_admitted fetched)"
    by (rule commit_sourceE)
  show "fence_holds source trade initial s" by (rule fence)
  have ev: "evidence_inv s" "dirty_valid (dirty_generations s)" "checkpoints_valid (checkpoint_rows s)"
    using inv by (simp_all add: ingest_inv_def)
  note P = persist_admitted_grows[OF p ev(1)]
  then have grows: "evidence_grows (io_inserted_mutations out, io_inserted_signed_events out, io_inserted_observations out) s s1"
    by simp
  note F = evidence_grows_frame[OF grows]
  have v1: "dirty_valid (dirty_generations s1)" by (simp add: F ev)
  have init1: "is_dirty initial = map_option dirty_of_row (dirty_at trade s1)" using fence by (simp add: fence_holds_def F)
  note D = advance_if_new_effect[OF v1 d[unfolded init1]]
  from D(1) obtain rows where s2: "s2 = s1\<lparr>dirty_generations := rows\<rparr>" "dirty_valid rows"
    "set (map dg_trade_id (dirty_generations s1)) \<subseteq> set (map dg_trade_id rows)" by blast
  have v2: "checkpoints_valid (checkpoint_rows s2)" by (simp add: s2 F ev)
  have init2: "is_checkpoint initial = map_option checkpoint_of_row (checkpoint_at (source_key source trade) s2)"
    using fence by (simp add: fence_holds_def s2 F)
  note C = advance_checkpoint_effect[OF v2 init2 c]
  from C(1) obtain cps where s3: "s' = s2\<lparr>checkpoint_rows := cps\<rparr>" "checkpoints_valid cps" by blast
  show "ingest_inv s'"
    using P s2 s3 by (simp add: ingest_inv_def evidence_inv_def)
  show "dirty_advance (dirty_generations s) (dirty_generations s')"
    using s2 s3 F by (simp add: dirty_advance_def)
  have gen: "generation_of t s' = generation_of t s + of_bool (t = trade \<and> new_evidence out)" for t
    using D(2)[of t] s3 F by (simp add: generation_of_def)
  have cur: "cursor_at k s2 = cursor_at k s" for k by (simp add: cursor_at_def s2 F)
  have old: "map_option sk_cursor (is_checkpoint initial) = cursor_at (source_key source trade) s"
    by (simp add: init2 cursor_at_def s2 F option.map_comp comp_def)
  have adv: "io_checkpoint_advanced out
      = (fs_completion fetched = Complete \<and> newer_than (cursor_at (source_key source trade) s) (fs_cursor fetched))"
    using C(2) by (simp add: checkpoint_eligible_newer old)
  have rows: "length (mutation_rows s') = length (mutation_rows s) + io_inserted_mutations out"
    "length (nostr_rows s') = length (nostr_rows s) + io_inserted_signed_events out"
    "length (observation_rows s') = length (observation_rows s) + io_inserted_observations out"
    using grows by (auto simp: evidence_grows_def s2 s3)
  have stored: "evidence_stored (map admitted_mutation_row (fs_admitted fetched)) (map (admitted_event_row wire) (fs_admitted fetched))
       (map (admitted_observation_row (ss_source_id source) (ss_policy source)) (fs_admitted fetched)) s s'"
    using persist_admitted_stored[OF p ev(1)] by (subst evidence_stored_cong[of s s s' s1]) (simp_all add: s2 s3)
  have "jobs s' = jobs s" by (simp add: s2 s3 F)
  then show "ingest_effect wire source trade fetched out s s'"
    unfolding ingest_effect_def using rows stored o gen adv C(3,4) cur by simp
qed

text \<open>
  C34.  Ingestion commits against the state it read: if the checkpoint or the dirty generation of the
  trade has moved since the fetch began, the commit is a generation conflict; otherwise a commit
  stores the mutation, the signed event and the observation of every admitted event, each unless it is there already and
  none besides, counts the new ones, advances the dirty generation of the trade by one exactly
  when a mutation or a signed event is new, moves the checkpoint of the source exactly when the fetch
  was complete and its greatest cursor is newer, and leaves every other generation and checkpoint.
\<close>

theorem ingest_commit_exact:
  assumes "ingest_inv s"
  shows "(case commit_source wire source trade observed_at initial fetched s of
      Inl e \<Rightarrow> \<not> fence_holds source trade initial s \<longrightarrow> e = SrcGenerationConflict
    | Inr (out, s') \<Rightarrow> fence_holds source trade initial s \<and> ingest_inv s' \<and> ingest_effect wire source trade fetched out s s')"
  using commit_source_fenced[OF assms] commit_source_effect[OF assms] by (auto split: sum.split)

text \<open>
  Ingestion is the step of the dirty generations the job repository was verified against: on the
  part of the store the jobs live in, every commit is such a step, and the invariant of the jobs stays.
\<close>

theorem ingest_refines_dirty_step:
  assumes "ingest_inv s" and "job_store_inv sha256 s"
    and "commit_source wire source trade observed_at initial fetched s = Inr (out, s')"
  shows "job_step sha256 (job_store.truncate s) DirtyAdvanced (job_store.truncate s') \<and> job_store_inv sha256 s'"
proof -
  note E = commit_source_effect[OF assms(1,3)]
  have jobs: "jobs s' = jobs s" using E(3) by (simp add: ingest_effect_def)
  have t: "job_store.truncate s' = (job_store.truncate s)\<lparr>dirty_generations := dirty_generations s'\<rparr>"
    by (simp add: job_store.truncate_def jobs)
  have "job_step sha256 (job_store.truncate s) DirtyAdvanced ((job_store.truncate s)\<lparr>dirty_generations := dirty_generations s'\<rparr>)"
    by (rule step_dirty) (use E(4) in \<open>simp add: job_store.truncate_def\<close>)
  moreover have "job_store_inv sha256 (s\<lparr>dirty_generations := dirty_generations s'\<rparr>)"
    by (rule dirty_advance_inv[OF assms(2) E(4)])
  then have "job_store_inv sha256 s'" by (simp add: job_store_inv_def jobs)
  ultimately show ?thesis by (simp add: t)
qed

text \<open>
  C40.  An event delivered by a subscription moves the checkpoint as a complete fetch would: the commit reports the
  source complete although no end of stored events was seen; the checkpoint of the source becomes the cursor of that
  one event exactly when this cursor is newer than the stored one, and stays where it is otherwise; and a fetch that
  starts from the moved checkpoint asks only for events since the overlap before that one event.  The contract of the
  source ingestion allows a checkpoint only after the end of stored events of the exact target.
\<close>

theorem subscription_moves_checkpoint:
  assumes txns: "atomic_txn (ie_initial env)" "atomic_txn (ie_commit env)"
    and settings: "env_settings env normalized source_id = Inr source"
    and inv: "ingest_inv (between s)"
    and run: "ingest_rhi_subscribed_trade_event env between normalized source_id admitted attempt s = (Inr out, s')"
  shows "let key = source_key source (tm_trade_id (ae_mutation admitted));
             newer = (case cursor_at key (between s) of None \<Rightarrow> True
               | Some stored \<Rightarrow> (cu_created_at stored, cu_event_id stored) < (ee_created_at (ae_event admitted), ee_id (ae_event admitted)))
         in io_completion out = Complete \<and> io_checkpoint_advanced out = newer
    \<and> cursor_at key s' = (if newer then Some \<lparr>cu_created_at = ee_created_at (ae_event admitted), cu_event_id = ee_id (ae_event admitted)\<rparr>
        else cursor_at key (between s))
    \<and> (newer \<longrightarrow> (\<exists>checkpoint. read_checkpoint (ss_source_id source) (ss_policy source) (tm_trade_id (ae_mutation admitted)) s' = Inr (Some checkpoint)
        \<and> (\<forall>later. fetch_since source later (Some checkpoint)
            = saturating_sub (ee_created_at (ae_event admitted)) (ss_overlap_seconds source))))"
proof -
  let ?trade = "tm_trade_id (ae_mutation admitted)"
  let ?fetched = "\<lparr>fs_completion = Complete, fs_received = 1, fs_duplicates = 0, fs_admitted = [admitted],
     fs_rejected = 0, fs_cursor = Some (event_cursor admitted)\<rparr>"
  obtain r1 s1 where first: "ie_initial env (read_initial source ?trade) s = (r1, s1)" by (rule prod.exhaust)
  have "s1 = s" using atomic_txn_state[OF txns(1) first] by (auto simp: read_initial_def)
  with run first settings obtain initial res where
    c: "ie_commit env (commit_source (ie_wire env) source ?trade (at_observed_at attempt) initial ?fetched) (between s) = (res, s')"
    and "map_err map_source_error res = Inr out"
    by (auto simp: ingest_rhi_subscribed_trade_event_def commit_source_result_def Let_def
        split: if_splits sum.splits prod.splits)
  then have "res = Inr out" by simp
  with atomic_txnD(1)[OF txns(2)] c
  have com: "commit_source (ie_wire env) source ?trade (at_observed_at attempt) initial ?fetched (between s) = Inr (out, s')"
    by blast
  note E = commit_source_effect[OF inv com]
  let ?key = "source_key source ?trade" and ?cursor = "event_cursor admitted"
  define newer where "newer = (case cursor_at ?key (between s) of None \<Rightarrow> True
      | Some stored \<Rightarrow> (cu_created_at stored, cu_event_id stored) < (ee_created_at (ae_event admitted), ee_id (ae_event admitted)))"
  have newer: "newer_than (cursor_at ?key (between s)) (Some ?cursor) = newer"
    by (simp add: newer_def newer_than_def cursor_lt_def cursor_key_def event_cursor_def split: option.split)
  have adv: "io_completion out = Complete" "io_checkpoint_advanced out = newer"
    using E(3) by (simp_all add: ingest_effect_def newer)
  have cur: "cursor_at ?key s' = (if newer then Some ?cursor else cursor_at ?key (between s))"
    using E(3) adv by (simp add: ingest_effect_def)
  have "\<exists>checkpoint. read_checkpoint (ss_source_id source) (ss_policy source) ?trade s' = Inr (Some checkpoint)
      \<and> (\<forall>later. fetch_since source later (Some checkpoint)
            = saturating_sub (ee_created_at (ae_event admitted)) (ss_overlap_seconds source))" if newer
  proof -
    from cur that obtain row where row: "checkpoint_at ?key s' = Some row"
      "sk_cursor (checkpoint_of_row row) = ?cursor" by (auto simp: cursor_at_def)
    have "read_checkpoint (ss_source_id source) (ss_policy source) ?trade s' = Inr (Some (checkpoint_of_row row))"
      using E(2) row(1) by (simp add: ingest_inv_def read_checkpoint_ok)
    then show ?thesis using row(2) by (auto simp: fetch_since_def event_cursor_def)
  qed
  then show ?thesis using adv cur by (simp add: Let_def newer_def event_cursor_def)
qed

section \<open>Witnesses\<close>

definition demo_wire :: "event_envelope \<Rightarrow> bytes option" where
  "demo_wire = (\<lambda>_. Some [123, 125])"

definition demo_initial :: initial_state where
  "demo_initial = \<lparr>is_checkpoint = None, is_dirty = None\<rparr>"

definition demo_result :: fetched_source where
  "demo_result = \<lparr>fs_completion = Complete, fs_received = 1, fs_duplicates = 0, fs_admitted = [demo_admitted],
     fs_rejected = 0, fs_cursor = Some (event_cursor demo_admitted)\<rparr>"

lemma no_evidence_inv: "ingest_inv no_evidence"
  by (simp add: ingest_inv_def evidence_inv_def checkpoints_valid_def dirty_valid_def no_evidence_def)

lemmas row_checks = mutation_row_check_def nostr_row_check_def observation_row_check_def checkpoint_row_check_def
  dirty_row_check_def contract_ids_def mutation_kinds_def source_id_check_def source_id_char_def ascii_lowercase_def
  ascii_digit_def SOURCE_SELECTOR_def

lemma demo_commit:
  assumes "ss_source_id source = ''relay-a''" and "ss_policy source = replicate 32 6"
  shows "\<exists>out s. commit_source demo_wire source demo_trade 80 demo_initial demo_result no_evidence = Inr (out, s)
    \<and> new_evidence out"
  using assms
  by (simp add: commit_source_def read_checkpoint_def source_read_dirty_def no_evidence_def select_key_def demo_initial_def
      demo_result_def demo_wire_def record_from_admitted_def demo_admitted_def Let_def persist_def insert_mutation_def
      insert_mutation_row_def sql_insert_ignore_def mutation_row_of_def row_checks insert_event_def i64_of_u64_def
      i64_max_def insert_nostr_row_def nostr_row_of_def insert_observation_def insert_observation_row_def
      observation_row_of_def observation_from_parts_def nostr_key_def count_inserted_def advance_if_new_def
      advance_dirty_generation_def insert_dirty_def sql_insert_def dirty_valid_def demo_trade_def
      advance_checkpoint_def checkpoint_eligible_def allows_checkpoint_def event_cursor_def write_checkpoint_def
      checkpoints_valid_def new_checkpoint_row_def new_evidence_def)

lemma demo_commit_run:
  obtains out s where "commit_source demo_wire demo_settings demo_trade 80 demo_initial demo_result no_evidence = Inr (out, s)"
    and "new_evidence out"
  using demo_commit[of demo_settings] by (auto simp: demo_settings_def)

theorem ingest_commit_exact_witness:
  "\<exists>out s. commit_source demo_wire demo_settings demo_trade 80 demo_initial demo_result no_evidence = Inr (out, s)
     \<and> new_evidence out \<and> ingest_inv s \<and> ingest_effect demo_wire demo_settings demo_trade demo_result out no_evidence s"
proof -
  obtain out s where run: "commit_source demo_wire demo_settings demo_trade 80 demo_initial demo_result no_evidence = Inr (out, s)"
    "new_evidence out" by (rule demo_commit_run)
  then show ?thesis
    using ingest_commit_exact[OF no_evidence_inv, where wire = demo_wire and source = demo_settings
        and trade = demo_trade and observed_at = 80 and initial = demo_initial and fetched = demo_result] by simp
qed

lemma no_evidence_jobs: "job_store_inv sha256 no_evidence"
  by (simp add: job_store_inv_def dirty_valid_def jobs_governed_def jobs_valid_def no_evidence_def)

theorem ingest_refines_dirty_step_witness:
  "\<exists>out s. new_evidence out \<and> job_step (\<lambda>x. x) (job_store.truncate no_evidence) DirtyAdvanced (job_store.truncate s)
     \<and> commit_source demo_wire demo_settings demo_trade 80 demo_initial demo_result no_evidence = Inr (out, s)"
proof -
  obtain out s where run: "commit_source demo_wire demo_settings demo_trade 80 demo_initial demo_result no_evidence = Inr (out, s)"
    "new_evidence out" by (rule demo_commit_run)
  then show ?thesis using ingest_refines_dirty_step[OF no_evidence_inv no_evidence_jobs run(1)] by blast
qed

text \<open>A configuration document with one source and one relay, and transactions that commit at once.\<close>

definition demo_view :: "string json_view" where
  "demo_view = \<lparr>jv_pointer = (\<lambda>_ pointer. Some
       (if pointer = ''/kind'' then ''nostr_relay'' else if pointer = ''/selector'' then SOURCE_SELECTOR
        else if pointer = ''/source_id'' then ''relay-a'' else ''r'')),
     jv_as_str = Some, jv_as_u64 = (\<lambda>_. Some 100), jv_as_bool = (\<lambda>_. Some True), jv_as_array = (\<lambda>_. Some [''r''])\<rparr>"

definition demo_env :: "(string, evidence_store) ingest_env" where
  "demo_env = \<lparr>ie_initial = committing_txn, ie_commit = committing_txn, ie_mode = ReadWriteExisting, ie_policy = replicate 32 6,
     ie_view = demo_view, ie_to_vec = (\<lambda>_. Some []), ie_sha256 = (\<lambda>_. replicate 32 6), ie_relay_target = (\<lambda>_. True),
     ie_reader = one_tag_reader, ie_codec = demo_codec, ie_extra = \<lparr>xl_fields = 4, xl_json_bytes = 64\<rparr>,
     ie_wire = demo_wire\<rparr>"

lemma demo_env_settings:
  obtains source where "env_settings demo_env ''doc'' ''relay-a'' = Inr source" "ss_source_id source = ''relay-a''"
    "ss_policy source = replicate 32 6" "ss_maximum_bytes source = 100" "ss_maximum_events source = 100"
    "ss_overlap_seconds source = 100"
  by (simp add: env_settings_def demo_env_def demo_view_def source_settings_new_def configured_source_def
      ascii_lowercase_def ascii_digit_def find_read_relay_def evidence_policy_digest_def evidence_policy_value_def
      metadata_string_def metadata_integer_def metadata_boolean_def normalized_source_def exact_u64_def
      RHI_TRADE_SOURCE_RESULT_MAX_EVENTS_def RHI_TRADE_SOURCE_RESULT_MAX_BYTES_def limits_from_config_def config_limit_def)

theorem subscription_moves_checkpoint_witness:
  "\<exists>out s source. ingest_rhi_subscribed_trade_event demo_env (\<lambda>s. s) ''doc'' ''relay-a'' demo_admitted demo_fetch_attempt no_evidence = (Inr out, s)
     \<and> env_settings demo_env ''doc'' ''relay-a'' = Inr source \<and> io_completion out = Complete
     \<and> cursor_at (source_key source demo_trade) s = Some (event_cursor demo_admitted)"
proof -
  obtain source where set: "env_settings demo_env ''doc'' ''relay-a'' = Inr source" "ss_source_id source = ''relay-a''"
    "ss_policy source = replicate 32 6" "ss_maximum_bytes source = 100" "ss_maximum_events source = 100"
    by (rule demo_env_settings)
  have trade: "tm_trade_id (ae_mutation demo_admitted) = demo_trade" by (simp add: demo_admitted_def demo_trade_def)
  obtain out s where run: "commit_source demo_wire source demo_trade 80 demo_initial demo_result no_evidence = Inr (out, s)"
    using demo_commit[OF set(2,3)] by blast
  have first: "read_initial source demo_trade no_evidence = Inr (demo_initial, no_evidence)"
    by (simp add: read_initial_def read_checkpoint_def source_read_dirty_def no_evidence_def select_key_def demo_initial_def)
  have "ingest_rhi_subscribed_trade_event demo_env (\<lambda>s. s) ''doc'' ''relay-a'' demo_admitted demo_fetch_attempt no_evidence = (Inr out, s)"
    using run set first
    by (simp add: ingest_rhi_subscribed_trade_event_def trade commit_source_result_def demo_env_def committing_txn_def
        Let_def demo_result_def demo_fetch_attempt_def) (simp add: demo_admitted_def)
  moreover have "cursor_at k no_evidence = None" for k by (simp add: cursor_at_def no_evidence_def select_key_def)
  moreover have "atomic_txn (ie_initial demo_env)" "atomic_txn (ie_commit demo_env)"
    by (simp_all add: demo_env_def committing_txn_atomic)
  ultimately show ?thesis
    using subscription_moves_checkpoint[OF _ _ set(1), of "\<lambda>s. s" no_evidence demo_admitted demo_fetch_attempt out s]
      no_evidence_inv set(1) by (simp add: trade event_cursor_def)
qed

end
