(* ===== verification/State_Config_Props.thy ===== *)
theory State_Config_Props
  imports State_Config Source_Ingest_Props
begin

text \<open>
  The configuration history is a gap-free sequence, and every dirty generation carries the evidence
  policy of its latest entry, whatever bindings, configuration changes and ingestions were committed.
\<close>

section \<open>The sequence of bindings\<close>

definition binding_sequence :: "binding_row list \<Rightarrow> bool" where
  "binding_sequence rows \<longleftrightarrow>
     bindings_valid rows \<and> map br_generation rows = map int [1..<Suc (length rows)] \<and> length rows \<le> 1024"

definition binding_of_row :: "binding_row \<Rightarrow> config_binding" where
  "binding_of_row r =
     \<lparr>cb_normalized_config_sha256 = br_normalized_config_sha256 r, cb_evidence_policy_sha256 = br_evidence_policy_sha256 r,
      cb_service_public_key = br_service_public_key r,
      cb_config_contract_version = nat (br_config_contract_version r),
      cb_state_contract_version = nat (br_state_contract_version r),
      cb_admin_contract_version = nat (br_admin_contract_version r),
      cb_status_contract_version = nat (br_status_contract_version r),
      cb_provider_contract_version = nat (br_provider_contract_version r)\<rparr>"

lemma binding_of_row_of: "binding_of_row (binding_row_of generation b applied_at build) = b"
  by (simp add: binding_of_row_def binding_row_of_def)

lemma generations_upt: "map br_generation rows = map int [1..<Suc (length rows)] \<Longrightarrow> i < length rows \<Longrightarrow> br_generation (rows ! i) = int (i + 1)"
  by (metis add.commute length_map length_upt nth_map nth_upt plus_1_eq_Suc diff_Suc_1 less_diff_conv add_Suc_right)

lemma binding_sequence_max:
  assumes "map br_generation rows = map int [1..<Suc (length rows)]"
  shows "sql_max 0 (map br_generation rows) = int (length rows)"
proof (cases rows)
  case (Cons r rs)
  have "Max (int ` {1..length rows}) = int (length rows)"
    by (rule Max_eqI) (auto simp: Cons intro!: image_eqI[of _ _ "length rows"])
  moreover have "set (map int [1..<Suc (length rows)]) = int ` {1..length rows}" by auto
  ultimately show ?thesis using assms Cons by (simp add: sql_max_def del: upt_Suc)
qed (simp add: sql_max_def)

lemma insert_binding_sequence:
  assumes seq: "binding_sequence (binding_rows s)" and ins: "insert_binding generation b applied_at build s = Inr s'"
  shows "s' = s\<lparr>binding_rows := binding_rows s @ [binding_row_of generation b (int applied_at) build]\<rparr>"
    and "binding_sequence (binding_rows s')"
    and "generation = length (binding_rows s) + 1"
proof -
  let ?row = "binding_row_of generation b (int applied_at) build" and ?rows = "binding_rows s"
  from ins obtain rows where r: "sql_insert binding_insert_guard bindings_valid ?row ?rows = Some rows"
    and s': "s' = s\<lparr>binding_rows := rows\<rparr>"
    by (auto simp: insert_binding_def split: option.splits)
  note I = sql_insert_SomeD[OF r]
  show e: "s' = s\<lparr>binding_rows := ?rows @ [?row]\<rparr>" using s' I(1) by simp
  have gens: "map br_generation ?rows = map int [1..<Suc (length ?rows)]" using seq by (simp add: binding_sequence_def)
  have g: "br_generation ?row = int (length ?rows) + 1" "length ?rows < 1024"
    using I(2) binding_sequence_max[OF gens] by (simp_all add: binding_insert_guard_def)
  then show "generation = length ?rows + 1" by (simp add: binding_row_of_def)
  have "map br_generation (?rows @ [?row]) = map int [1..<Suc (length (?rows @ [?row]))]"
    using gens g(1) by simp
  then show "binding_sequence (binding_rows s')"
    using I(1,3) g(2) e by (simp add: binding_sequence_def del: upt_Suc)
qed

section \<open>Reading\<close>

lemma config_bounded_text_iff [simp]:
  "config_bounded_text t lo hi = Inr v \<longleftrightarrow> v = t \<and> lo \<le> length t \<and> length t \<le> hi"
  by (auto simp: config_bounded_text_def Let_def)

lemma decode_entryD:
  assumes "decode_entry key_ok build_ok row = Inr e"
  shows "he_binding e = binding_of_row row" "he_generation e = nat (br_generation row)"
    "he_applied_at e = nat (br_applied_at_unix_s row)"
  using assms
  by (auto simp: decode_entry_def binding_of_row_def config_exact_digest_def config_bounded_u16_def config_positive_u32_def
      config_nonnegative_u64_def Let_def split: if_splits)

lemma collect_InrD: "collect ms = Inr as \<Longrightarrow> list_all2 (\<lambda>m a. m = Inr a) ms as"
  by (induction ms arbitrary: as) auto

lemma sort_key_sorted_id: "sorted (map key xs) \<Longrightarrow> sort_key key xs = xs"
  by (induction xs) (auto simp: insort_is_Cons)

lemma read_historyD:
  assumes seq: "binding_sequence (binding_rows s)" and r: "read_history key_ok build_ok s = Inr history"
  shows "map he_binding history = map binding_of_row (binding_rows s)"
    and "map he_generation history = map (nat \<circ> br_generation) (binding_rows s)"
proof -
  let ?rows = "binding_rows s"
  have "sorted (map br_generation ?rows)" using seq by (simp add: binding_sequence_def sorted_map del: upt_Suc)
  then have "sort_key br_generation ?rows = ?rows" by (rule sort_key_sorted_id)
  with r seq have "collect (map (decode_entry key_ok build_ok) ?rows) = Inr history"
    by (auto simp: read_history_def Let_def binding_sequence_def split: if_splits)
  then have "list_all2 (\<lambda>m a. m = Inr a) (map (decode_entry key_ok build_ok) ?rows) history" by (rule collect_InrD)
  then have "list_all2 (\<lambda>row e. decode_entry key_ok build_ok row = Inr e) ?rows history"
    by (simp add: list_all2_map1)
  then show "map he_binding history = map binding_of_row ?rows"
    "map he_generation history = map (nat \<circ> br_generation) ?rows"
    by (induction rule: list_all2_induct) (simp_all add: decode_entryD)
qed

definition current_binding :: "'a config_store_scheme \<Rightarrow> config_binding option" where
  "current_binding s = (if binding_rows s = [] then None else Some (binding_of_row (last (binding_rows s))))"

lemma insert_binding_current:
  assumes "binding_sequence (binding_rows s)" and "insert_binding generation b applied_at build s = Inr s'"
  shows "current_binding s' = Some b"
  by (simp add: insert_binding_sequence(1)[OF assms] current_binding_def binding_of_row_of)

lemma latest_entry_binding:
  assumes "binding_sequence (binding_rows s)" and "read_history key_ok build_ok s = Inr history"
    and "latest_entry history = Some entry"
  shows "current_binding s = Some (he_binding entry)" and "he_generation entry = length (binding_rows s)"
proof -
  note H = read_historyD[OF assms(1,2)]
  have ne: "history \<noteq> []" "entry = last history" using assms(3) by (auto simp: latest_entry_def split: if_splits)
  with H(1) have rows: "binding_rows s \<noteq> []" by (metis map_is_Nil_conv)
  then show "current_binding s = Some (he_binding entry)"
    using ne H(1) by (simp add: current_binding_def) (metis last_map)
  have "he_generation entry = nat (br_generation (last (binding_rows s)))"
    using ne rows H(2) by (metis comp_apply last_map)
  moreover have "br_generation (last (binding_rows s)) = int (length (binding_rows s))"
  proof -
    have "last (map br_generation (binding_rows s)) = last (map int [1..<Suc (length (binding_rows s))])"
      using assms(1) by (simp add: binding_sequence_def del: upt_Suc)
    then show ?thesis using rows by (simp add: last_map del: upt_Suc)
  qed
  ultimately show "he_generation entry = length (binding_rows s)" by simp
qed

section \<open>The policy of the dirty generations\<close>

definition known_trade :: "bytes \<Rightarrow> 'a job_store_scheme \<Rightarrow> bool" where
  "known_trade trade s \<longleftrightarrow> trade \<in> dg_trade_id ` set (dirty_generations s)"

definition policy_everywhere :: "bytes \<Rightarrow> 'a job_store_scheme \<Rightarrow> bool" where
  "policy_everywhere policy s \<longleftrightarrow> list_all (\<lambda>r. dg_evidence_policy_sha256 r = policy) (dirty_generations s)"

lemma advance_dirty_policies:
  assumes "advance_dirty_generation trade policy updated_at expected s = Inr (n, s')" and "policy_everywhere policy s"
  shows "policy_everywhere policy s'"
  using assms
  by (auto simp: advance_dirty_generation_def insert_dirty_def policy_everywhere_def sql_insert_def sql_update_def Let_def
      list_all_iff advance_dirty_set_def split: option.splits if_splits)

lemma commit_source_policies:
  assumes inv: "ingest_inv s" and run: "commit_source wire source trade observed_at initial fetched s = Inr (out, s')"
    and pol: "policy_everywhere (ss_policy source) s"
  shows "policy_everywhere (ss_policy source) s'" and "evidence_store.more s' = evidence_store.more s"
proof -
  from run inv obtain s1 s2 where fence: "fence_holds source trade initial s"
    and p: "persist_admitted wire (ss_source_id source) (ss_policy source) (fs_admitted fetched) (0, 0, 0) s
       = Inr ((io_inserted_mutations out, io_inserted_signed_events out, io_inserted_observations out), s1)"
    and d: "advance_if_new (new_evidence out) trade (ss_policy source) observed_at (is_dirty initial) s1 = Inr (io_dirty_generation out, s2)"
    and c: "advance_checkpoint source trade observed_at initial fetched s2
       = Inr ((io_checkpoint out, io_checkpoint_advanced out), s')"
    by (rule commit_sourceE)
  have ev: "evidence_inv s" "dirty_valid (dirty_generations s)" using inv by (simp_all add: ingest_inv_def)
  from persist_admitted_grows[OF p ev(1)]
  have grows: "evidence_grows (io_inserted_mutations out, io_inserted_signed_events out, io_inserted_observations out) s s1"
    by simp
  then have m1: "evidence_store.more s1 = evidence_store.more s" by (auto simp: evidence_grows_def)
  note F = evidence_grows_frame[OF grows]
  have d': "advance_if_new (new_evidence out) trade (ss_policy source) observed_at
      (map_option dirty_of_row (dirty_at trade s1)) s1 = Inr (io_dirty_generation out, s2)"
    using d fence by (simp add: fence_holds_def F)
  have "dirty_valid (dirty_generations s1)" by (simp add: F ev)
  from advance_if_new_effect(1)[OF this d'] have m2: "evidence_store.more s2 = evidence_store.more s1" by auto
  have p2: "policy_everywhere (ss_policy source) s2"
  proof -
    have "policy_everywhere (ss_policy source) s1" using pol by (simp add: policy_everywhere_def F)
    with d show ?thesis by (auto simp: advance_if_new_def intro: advance_dirty_policies split: if_splits)
  qed
  from c obtain cps where s': "s' = s2\<lparr>checkpoint_rows := cps\<rparr>"
    by (auto simp: advance_checkpoint_def write_checkpoint_def Let_def intro: that[of "checkpoint_rows s2"]
        split: if_splits option.splits)
  show "policy_everywhere (ss_policy source) s'" using p2 by (simp add: s' policy_everywhere_def)
  show "evidence_store.more s' = evidence_store.more s" by (simp add: s' m1 m2)
qed

lemma advance_dirty_policy_effect:
  assumes valid: "dirty_valid (dirty_generations s)" and run: "advance_dirty_policy policy updated_at s = Inr s'"
  shows "\<exists>rows. s' = s\<lparr>dirty_generations := rows\<rparr> \<and> dirty_valid rows"
    and "policy_everywhere policy s'"
    and "generation_of t s' = generation_of t s + of_bool (\<exists>r. dirty_at t s = Some r \<and> other_policy policy r)"
proof -
  let ?f = "advance_dirty_set policy (int updated_at)"
  let ?g = "\<lambda>r. if other_policy policy r then ?f r else r"
  from run obtain rows n where upd: "sql_update dirty_guard dirty_valid (other_policy policy) ?f (dirty_generations s) = Some (rows, n)"
    and s': "s' = s\<lparr>dirty_generations := rows\<rparr>"
    by (auto simp: advance_dirty_policy_def Let_def split: if_splits option.splits)
  note U = sql_update_SomeD[OF upd]
  show "\<exists>rows. s' = s\<lparr>dirty_generations := rows\<rparr> \<and> dirty_valid rows" using s' U(3) by blast
  show "policy_everywhere policy s'"
    by (auto simp: policy_everywhere_def s' U(1) list_all_iff advance_dirty_set_def other_policy_def)
  have "select_key dg_trade_id t (map ?g rs) = map_option ?g (select_key dg_trade_id t rs)" for rs
    by (induction rs) (auto simp: select_key_def advance_dirty_set_def)
  then show "generation_of t s' = generation_of t s + of_bool (\<exists>r. dirty_at t s = Some r \<and> other_policy policy r)"
    by (cases "dirty_at t s") (auto simp: generation_of_def s' U(1) advance_dirty_set_def)
qed

lemma bind_or_verify_effect:
  assumes seq: "binding_sequence (binding_rows s)"
    and run: "bind_or_verify key_ok build_ok expected applied_at build s = Inr ((), s')"
  shows "\<exists>rows. s' = s\<lparr>binding_rows := rows\<rparr> \<and> binding_sequence rows"
    and "current_binding s' = Some expected"
    and "current_binding s = Some b \<Longrightarrow> cb_evidence_policy_sha256 b = cb_evidence_policy_sha256 expected"
proof -
  from run obtain history0 where h0: "read_history key_ok build_ok s = Inr history0" by (auto simp: bind_or_verify_def)
  note H0 = read_historyD[OF seq h0]
  from run h0 obtain history s1 where
    first: "(if history0 = [] then insert_binding 1 expected applied_at build s = Inr s1 \<and> read_history key_ok build_ok s1 = Inr history
       else s1 = s \<and> history = history0)"
    and rest: "(case latest_entry history of
        None \<Rightarrow> Inl ConfigBindingInvalid
      | Some actual \<Rightarrow>
          if he_binding actual = expected then Inr ((), s1)
          else if same_except_state_version (he_binding actual) expected then
            if 1024 \<le> he_generation actual then Inl ConfigResourceExhausted
            else if applied_at < he_applied_at actual then Inl ConfigInvalidInput
            else and_then (insert_binding (he_generation actual + 1) expected applied_at build s1) (\<lambda>s. Inr ((), s))
          else Inl ConfigBindingInvalid) = Inr ((), s')"
    by (auto simp: bind_or_verify_def split: if_splits)
  have "(\<exists>rows. s1 = s\<lparr>binding_rows := rows\<rparr> \<and> binding_sequence rows) \<and> read_history key_ok build_ok s1 = Inr history"
  proof (cases "history0 = []")
    case True
    then have ins: "insert_binding 1 expected applied_at build s = Inr s1" and h1: "read_history key_ok build_ok s1 = Inr history"
      using first by simp_all
    note I = insert_binding_sequence(1,2)[OF seq ins]
    from I(1) have "binding_rows s1 = binding_rows s @ [binding_row_of 1 expected (int applied_at) build]" by simp
    with I h1 show ?thesis by metis
  next
    case False
    then have "s1 = s\<lparr>binding_rows := binding_rows s\<rparr>" "history = history0" "s1 = s" using first by simp_all
    with seq h0 show ?thesis by metis
  qed
  then have s1: "\<exists>rows. s1 = s\<lparr>binding_rows := rows\<rparr> \<and> binding_sequence rows" "read_history key_ok build_ok s1 = Inr history"
    by blast+
  then have seq1: "binding_sequence (binding_rows s1)" by auto
  from rest obtain actual where a: "latest_entry history = Some actual" by (auto split: option.splits)
  note L = latest_entry_binding[OF seq1 s1(2) a]
  have ended: "(he_binding actual = expected \<and> s' = s1) \<or>
      (same_except_state_version (he_binding actual) expected \<and> insert_binding (he_generation actual + 1) expected applied_at build s1 = Inr s')"
    using rest a by (auto split: if_splits)
  then show "\<exists>rows. s' = s\<lparr>binding_rows := rows\<rparr> \<and> binding_sequence rows"
    using s1(1) insert_binding_sequence(1,2)[OF seq1] by fastforce
  show "current_binding s' = Some expected"
    using ended L(1) insert_binding_current[OF seq1] by blast
  assume b: "current_binding s = Some b"
  then have "history0 \<noteq> []" using H0(1) by (auto simp: current_binding_def split: if_splits)
  then have "b = he_binding actual" using first b L(1) by simp
  with ended show "cb_evidence_policy_sha256 b = cb_evidence_policy_sha256 expected"
    by (auto simp: same_except_state_version_def)
qed

lemma unchanged_dirty:
  "dirty_valid (dirty_generations s) \<Longrightarrow> \<exists>rows. s = s\<lparr>dirty_generations := rows\<rparr> \<and> dirty_valid rows"
  by (intro exI[of _ "dirty_generations s"]) simp

lemma policy_change_effect:
  assumes valid: "dirty_valid (dirty_generations s)" and pol: "policy_everywhere old s" and new: "old \<noteq> policy"
    and run: "advance_dirty_policy policy updated_at s = Inr s'"
  shows "\<exists>rows. s' = s\<lparr>dirty_generations := rows\<rparr> \<and> dirty_valid rows" and "policy_everywhere policy s'"
    and "generation_of t s' = generation_of t s + of_bool (known_trade t s)"
proof -
  note E = advance_dirty_policy_effect[OF valid run]
  show "\<exists>rows. s' = s\<lparr>dirty_generations := rows\<rparr> \<and> dirty_valid rows" "policy_everywhere policy s'" by (rule E)+
  have "(\<exists>r. dirty_at t s = Some r \<and> other_policy policy r) \<longleftrightarrow> known_trade t s"
  proof (cases "dirty_at t s")
    case None
    then have "\<not> known_trade t s" by (simp add: known_trade_def select_key_None_iff)
    with None show ?thesis by simp
  next
    case (Some r)
    with pol new select_key_SomeD[OF Some] show ?thesis
      by (auto simp: known_trade_def other_policy_def policy_everywhere_def list_all_iff)
  qed
  then show "generation_of t s' = generation_of t s + of_bool (known_trade t s)" using E(3)[of t] by simp
qed

lemma append_configurationE:
  assumes "append_configuration key_ok build_ok current candidate applied_at build s = Inr (out, s')"
  obtains history entry where "read_history key_ok build_ok s = Inr history" "latest_entry history = Some entry"
    "he_binding entry = current" "current = candidate" "out = \<lparr>ca_generation = he_generation entry, ca_changed = False\<rparr>" "s' = s"
  | history entry s1 where "read_history key_ok build_ok s = Inr history" "latest_entry history = Some entry"
    "he_binding entry = current" "current \<noteq> candidate"
    "(if cb_evidence_policy_sha256 current \<noteq> cb_evidence_policy_sha256 candidate
        then advance_dirty_policy (cb_evidence_policy_sha256 candidate) applied_at s = Inr s1 else s1 = s)"
    "insert_binding (he_generation entry + 1) candidate applied_at build s1 = Inr s'"
    "out = \<lparr>ca_generation = he_generation entry + 1, ca_changed = True\<rparr>"
  using assms
  by (fastforce simp: append_configuration_def ok_or_def split: if_splits option.splits)

text \<open>What applying a configuration does: it is recorded, and a new policy reaches every known trade at once.\<close>

lemma append_configuration_effect:
  assumes seq: "binding_sequence (binding_rows s)" and valid: "dirty_valid (dirty_generations s)"
    and pol: "policy_everywhere (cb_evidence_policy_sha256 current) s"
    and run: "append_configuration key_ok build_ok current candidate applied_at build s = Inr (out, s')"
  shows "\<exists>rows bs. s' = s\<lparr>dirty_generations := rows, binding_rows := bs\<rparr> \<and> dirty_valid rows \<and> binding_sequence bs"
    and "current_binding s = Some current" and "current_binding s' = Some candidate"
    and "policy_everywhere (cb_evidence_policy_sha256 candidate) s'"
    and "generation_of t s' = generation_of t s
      + of_bool (known_trade t s \<and> cb_evidence_policy_sha256 current \<noteq> cb_evidence_policy_sha256 candidate)"
    and "ca_changed out = (current \<noteq> candidate)" and "ca_generation out = length (binding_rows s')"
    and "length (binding_rows s') = length (binding_rows s) + of_bool (current \<noteq> candidate)"
proof -
  let ?new = "cb_evidence_policy_sha256 current \<noteq> cb_evidence_policy_sha256 candidate"
  have "(\<exists>rows bs. s' = s\<lparr>dirty_generations := rows, binding_rows := bs\<rparr> \<and> dirty_valid rows \<and> binding_sequence bs)
    \<and> current_binding s = Some current \<and> current_binding s' = Some candidate
    \<and> policy_everywhere (cb_evidence_policy_sha256 candidate) s'
    \<and> (\<forall>t. generation_of t s' = generation_of t s + of_bool (known_trade t s \<and> ?new))
    \<and> ca_changed out = (current \<noteq> candidate) \<and> ca_generation out = length (binding_rows s')
    \<and> length (binding_rows s') = length (binding_rows s) + of_bool (current \<noteq> candidate)"
    using run
  proof (cases rule: append_configurationE)
    case (1 history entry)
    note L = latest_entry_binding[OF seq 1(1,2)]
    have "s' = s\<lparr>dirty_generations := dirty_generations s, binding_rows := binding_rows s\<rparr>" using 1(6) by simp
    with seq valid have "\<exists>rows bs. s' = s\<lparr>dirty_generations := rows, binding_rows := bs\<rparr> \<and> dirty_valid rows \<and> binding_sequence bs"
      by blast
    with 1 L pol show ?thesis by simp
  next
    case (2 history entry s1)
    note L = latest_entry_binding[OF seq 2(1,2)]
    have s1: "\<exists>rows. s1 = s\<lparr>dirty_generations := rows\<rparr> \<and> dirty_valid rows"
      "policy_everywhere (cb_evidence_policy_sha256 candidate) s1"
      "\<And>t. generation_of t s1 = generation_of t s + of_bool (known_trade t s \<and> ?new)"
      using 2(5) valid pol policy_change_effect[of s "cb_evidence_policy_sha256 current" "cb_evidence_policy_sha256 candidate"]
      by (auto simp: unchanged_dirty split: if_splits)
    from s1(1) obtain rows where r: "s1 = s\<lparr>dirty_generations := rows\<rparr>" "dirty_valid rows" by blast
    then have seq1: "binding_sequence (binding_rows s1)" using seq by simp
    note I = insert_binding_sequence[OF seq1 2(6)]
    obtain bs where bs: "s' = s1\<lparr>binding_rows := bs\<rparr>" "bs = binding_rows s1 @ [binding_row_of (he_generation entry + 1) candidate (int applied_at) build]"
      using I(1) by blast
    have "\<exists>rows bs. s' = s\<lparr>dirty_generations := rows, binding_rows := bs\<rparr> \<and> dirty_valid rows \<and> binding_sequence bs"
      using I(2) r bs by auto
    moreover have "generation_of t s' = generation_of t s1" for t by (simp add: bs generation_of_def)
    moreover have "policy_everywhere (cb_evidence_policy_sha256 candidate) s'" using s1(2) by (simp add: bs policy_everywhere_def)
    moreover have "length (binding_rows s') = length (binding_rows s) + 1" by (simp add: bs r)
    ultimately show ?thesis using 2(3,4,7) L insert_binding_current[OF seq1 2(6)] s1(3) by simp
  qed
  then show "\<exists>rows bs. s' = s\<lparr>dirty_generations := rows, binding_rows := bs\<rparr> \<and> dirty_valid rows \<and> binding_sequence bs"
    "current_binding s = Some current" "current_binding s' = Some candidate"
    "policy_everywhere (cb_evidence_policy_sha256 candidate) s'"
    "generation_of t s' = generation_of t s + of_bool (known_trade t s \<and> ?new)"
    "ca_changed out = (current \<noteq> candidate)" "ca_generation out = length (binding_rows s')"
    "length (binding_rows s') = length (binding_rows s) + of_bool (current \<noteq> candidate)" by blast+
qed

section \<open>Reachable configurations\<close>

inductive config_reach ::
  "(string \<Rightarrow> bool) \<Rightarrow> (build_identity \<Rightarrow> bool) \<Rightarrow> (event_envelope \<Rightarrow> bytes option) \<Rightarrow> config_store \<Rightarrow> bool"
  for key_ok build_ok wire where
  reach_empty: "binding_rows s = [] \<Longrightarrow> dirty_generations s = [] \<Longrightarrow> ingest_inv s \<Longrightarrow> config_reach key_ok build_ok wire s"
| reach_bind: "config_reach key_ok build_ok wire s \<Longrightarrow>
    bind_or_verify key_ok build_ok expected applied_at build s = Inr ((), s') \<Longrightarrow> config_reach key_ok build_ok wire s'"
| reach_apply: "config_reach key_ok build_ok wire s \<Longrightarrow>
    append_configuration key_ok build_ok current candidate applied_at build s = Inr (out, s') \<Longrightarrow>
    config_reach key_ok build_ok wire s'"
| reach_ingest: "config_reach key_ok build_ok wire s \<Longrightarrow> current_binding s = Some b \<Longrightarrow>
    ss_policy source = cb_evidence_policy_sha256 b \<Longrightarrow>
    commit_source wire source trade observed_at initial fetched s = Inr (outcome, s') \<Longrightarrow> config_reach key_ok build_ok wire s'"

definition config_inv :: "'a config_store_scheme \<Rightarrow> bool" where
  "config_inv s \<longleftrightarrow> ingest_inv s \<and> binding_sequence (binding_rows s)
   \<and> (case current_binding s of None \<Rightarrow> dirty_generations s = []
      | Some b \<Rightarrow> policy_everywhere (cb_evidence_policy_sha256 b) s)"

lemma ingest_inv_frame:
  assumes "ingest_inv s" and "dirty_valid rows"
  shows "ingest_inv (s\<lparr>dirty_generations := rows, binding_rows := bs\<rparr>)"
  using assms by (simp add: ingest_inv_def evidence_inv_def)

lemma config_inv_bind:
  assumes inv: "config_inv s" and run: "bind_or_verify key_ok build_ok expected applied_at build s = Inr ((), s')"
  shows "config_inv s'"
proof -
  have seq: "binding_sequence (binding_rows s)" using inv by (simp add: config_inv_def)
  note E = bind_or_verify_effect[OF seq run]
  from E(1) obtain rows where s': "s' = s\<lparr>binding_rows := rows\<rparr>" "binding_sequence rows" by blast
  have "policy_everywhere (cb_evidence_policy_sha256 expected) s"
    using inv E(3) by (cases "current_binding s") (auto simp: config_inv_def policy_everywhere_def)
  then have "policy_everywhere (cb_evidence_policy_sha256 expected) s'" by (simp add: s' policy_everywhere_def)
  then show ?thesis
    using inv s' E(2) by (simp add: config_inv_def ingest_inv_def evidence_inv_def)
qed

lemma config_inv_apply:
  assumes inv: "config_inv s" and run: "append_configuration key_ok build_ok current candidate applied_at build s = Inr (out, s')"
  shows "policy_everywhere (cb_evidence_policy_sha256 current) s" and "config_inv s'"
proof -
  have seq: "binding_sequence (binding_rows s)" and valid: "dirty_valid (dirty_generations s)"
    using inv by (simp_all add: config_inv_def ingest_inv_def)
  have "current_binding s = Some current"
    using run by (cases rule: append_configurationE) (use latest_entry_binding(1)[OF seq] in auto)
  then show pol: "policy_everywhere (cb_evidence_policy_sha256 current) s" using inv by (simp add: config_inv_def)
  note E = append_configuration_effect[OF seq valid pol run]
  from E(1) obtain rows bs where s': "s' = s\<lparr>dirty_generations := rows, binding_rows := bs\<rparr>" "dirty_valid rows" "binding_sequence bs"
    by blast
  have "ingest_inv s'" using ingest_inv_frame[of s rows bs] inv s' by (simp add: config_inv_def)
  then show "config_inv s'" using s' E(3,4) by (simp add: config_inv_def)
qed

lemma config_inv_ingest:
  assumes inv: "config_inv s" and cur: "current_binding s = Some b" and pol: "ss_policy source = cb_evidence_policy_sha256 b"
    and run: "commit_source wire source trade observed_at initial fetched s = Inr (outcome, s')"
  shows "config_inv s'"
proof -
  have "ingest_inv s" "policy_everywhere (ss_policy source) s" using inv cur pol by (simp_all add: config_inv_def)
  note C = commit_source_policies[OF this(1) run this(2)] commit_source_effect(2)[OF this(1) run]
  have "binding_rows s' = binding_rows s" using C(2) by (cases s; cases s') simp
  moreover from this have "current_binding s' = Some b" using cur by (simp add: current_binding_def split: if_splits)
  ultimately show ?thesis using inv cur pol C(1,3) by (simp add: config_inv_def)
qed

lemma config_reach_inv: "config_reach key_ok build_ok wire s \<Longrightarrow> config_inv s"
proof (induction rule: config_reach.induct)
  case (reach_empty s)
  then show ?case by (simp add: config_inv_def current_binding_def binding_sequence_def bindings_valid_def)
qed (rule config_inv_bind config_inv_apply(2) config_inv_ingest, assumption+)+

text \<open>
  C39.  However configurations are bound, applied and ingested under, the recorded bindings are
  numbered one to their count without a gap, and every dirty generation carries the evidence policy
  of the latest binding; applying a configuration succeeds only against the latest binding, records
  the new one exactly when it differs, and advances the generation of every known trade by one exactly
  when the policy changes.
\<close>

theorem dirty_policy_current:
  assumes "config_reach key_ok build_ok wire s"
  shows "map br_generation (binding_rows s) = map int [1..<Suc (length (binding_rows s))]
    \<and> (\<forall>r \<in> set (dirty_generations s). \<exists>b. current_binding s = Some b
        \<and> dg_evidence_policy_sha256 r = cb_evidence_policy_sha256 b)
    \<and> (case append_configuration key_ok build_ok current candidate applied_at build s of
         Inl e \<Rightarrow> True
       | Inr (out, s') \<Rightarrow> current_binding s = Some current \<and> current_binding s' = Some candidate
           \<and> ca_changed out = (current \<noteq> candidate)
           \<and> length (binding_rows s') = length (binding_rows s) + of_bool (current \<noteq> candidate)
           \<and> (\<forall>t. generation_of t s' = generation_of t s
                + of_bool (known_trade t s \<and> cb_evidence_policy_sha256 current \<noteq> cb_evidence_policy_sha256 candidate)))"
proof -
  have inv: "config_inv s" by (rule config_reach_inv[OF assms])
  then have seq: "binding_sequence (binding_rows s)" and valid: "dirty_valid (dirty_generations s)"
    by (simp_all add: config_inv_def ingest_inv_def)
  have "\<forall>r \<in> set (dirty_generations s). \<exists>b. current_binding s = Some b \<and> dg_evidence_policy_sha256 r = cb_evidence_policy_sha256 b"
    using inv by (cases "current_binding s") (auto simp: config_inv_def policy_everywhere_def list_all_iff)
  moreover have "map br_generation (binding_rows s) = map int [1..<Suc (length (binding_rows s))]"
    using seq by (simp add: binding_sequence_def)
  moreover note append_configuration_effect(2,3,5,6,8)[OF seq valid config_inv_apply(1)[OF inv]]
  ultimately show ?thesis by (auto split: sum.split)
qed

section \<open>Witness\<close>

definition demo_config_binding :: "8 word \<Rightarrow> config_binding" where
  "demo_config_binding policy =
     \<lparr>cb_normalized_config_sha256 = replicate 32 policy, cb_evidence_policy_sha256 = replicate 32 policy,
      cb_service_public_key = replicate 64 (CHR ''a''), cb_config_contract_version = 1, cb_state_contract_version = 11,
      cb_admin_contract_version = 1, cb_status_contract_version = 1, cb_provider_contract_version = 1\<rparr>"

definition demo_build :: build_identity where
  "demo_build =
     \<lparr>bi_service_version = ''1'', bi_service_commit = replicate 40 (CHR ''b''), bi_lib_revision = replicate 40 (CHR ''c''),
      bi_rust_version = ''1'', bi_target = ''t'', bi_feature_profile = ''f'', bi_config_contract_version = 1,
      bi_state_contract_version = 11, bi_admin_contract_version = 1, bi_status_contract_version = 1,
      bi_provider_contract_version = 1\<rparr>"

definition no_configuration :: config_store where
  "no_configuration = \<lparr>dirty_generations = [], jobs = [], mutation_rows = [], nostr_rows = [], observation_rows = [],
     checkpoint_rows = [], binding_rows = []\<rparr>"

abbreviation demo_config_row :: "nat \<Rightarrow> 8 word \<Rightarrow> binding_row" where
  "demo_config_row generation policy \<equiv> binding_row_of generation (demo_config_binding policy) 70 demo_build"

lemmas binding_evaluation = binding_row_of_def demo_config_binding_def demo_build_def insert_binding_def sql_insert_def
  binding_insert_guard_def bindings_valid_def binding_row_check_def sql_version_def sql_max_def i64_of_u64_def i64_max_def
  decode_entry_def config_bounded_u16_def config_exact_digest_def config_positive_u32_def config_nonnegative_u64_def
  ascii_hex_lower_def ascii_digit_def latest_entry_def validate_history_def is_governed_def read_history_def Let_def list_all_iff

lemma demo_bind:
  "bind_or_verify (\<lambda>_. True) (\<lambda>_. True) (demo_config_binding 6) 70 demo_build no_configuration
     = Inr ((), no_configuration\<lparr>binding_rows := [demo_config_row 1 6]\<rparr>)"
  by (simp add: bind_or_verify_def no_configuration_def binding_evaluation)

lemma demo_bound_ingest:
  "\<exists>out s. commit_source demo_wire demo_settings demo_trade 80 demo_initial demo_result
       (no_configuration\<lparr>binding_rows := rows\<rparr>) = Inr (out, s)
     \<and> binding_rows s = rows
     \<and> dirty_generations s = [\<lparr>dg_trade_id = demo_trade, dg_generation = 1, dg_evidence_policy_sha256 = replicate 32 6,
          dg_updated_at_unix_s = 80\<rparr>]"
  by (simp add: demo_settings_def commit_source_def read_checkpoint_def source_read_dirty_def no_configuration_def select_key_def
      demo_initial_def demo_result_def demo_wire_def record_from_admitted_def demo_admitted_def Let_def persist_def
      insert_mutation_def insert_mutation_row_def sql_insert_ignore_def mutation_row_of_def row_checks insert_event_def
      i64_of_u64_def i64_max_def insert_nostr_row_def nostr_row_of_def insert_observation_def insert_observation_row_def
      observation_row_of_def observation_from_parts_def nostr_key_def count_inserted_def advance_if_new_def
      advance_dirty_generation_def insert_dirty_def sql_insert_def dirty_valid_def demo_trade_def
      advance_checkpoint_def checkpoint_eligible_def allows_checkpoint_def event_cursor_def write_checkpoint_def
      checkpoints_valid_def new_checkpoint_row_def new_evidence_def)

lemma demo_apply:
  assumes "binding_rows s = [demo_config_row 1 6]"
    and "dirty_generations s = [\<lparr>dg_trade_id = demo_trade, dg_generation = 1, dg_evidence_policy_sha256 = replicate 32 6,
          dg_updated_at_unix_s = 80\<rparr>]"
  shows "\<exists>out s'. append_configuration (\<lambda>_. True) (\<lambda>_. True) (demo_config_binding 6) (demo_config_binding 7) 90 demo_build s = Inr (out, s')"
  by (simp add: assms append_configuration_def binding_evaluation advance_dirty_policy_def other_policy_def u64_of_i64_def
      sql_update_def dirty_guard_def advance_dirty_set_def dirty_valid_def dirty_row_check_def demo_trade_def ok_or_def)

theorem dirty_policy_current_witness:
  "\<exists>s s' out. config_reach (\<lambda>_. True) (\<lambda>_. True) demo_wire s \<and> known_trade demo_trade s
     \<and> append_configuration (\<lambda>_. True) (\<lambda>_. True) (demo_config_binding 6) (demo_config_binding 7) 90 demo_build s = Inr (out, s')
     \<and> current_binding s' = Some (demo_config_binding 7) \<and> generation_of demo_trade s' = 2"
proof -
  let ?s0 = "no_configuration" and ?s1 = "no_configuration\<lparr>binding_rows := [demo_config_row 1 6]\<rparr>"
  have "ingest_inv ?s0"
    by (simp add: ingest_inv_def evidence_inv_def checkpoints_valid_def dirty_valid_def no_configuration_def)
  then have "config_reach (\<lambda>_. True) (\<lambda>_. True) demo_wire ?s0" by (intro reach_empty) (simp_all add: no_configuration_def)
  then have r1: "config_reach (\<lambda>_. True) (\<lambda>_. True) demo_wire ?s1" by (rule reach_bind) (rule demo_bind)
  obtain outcome s where c: "commit_source demo_wire demo_settings demo_trade 80 demo_initial demo_result ?s1 = Inr (outcome, s)"
    and b: "binding_rows s = [demo_config_row 1 6]"
    and d: "dirty_generations s = [\<lparr>dg_trade_id = demo_trade, dg_generation = 1, dg_evidence_policy_sha256 = replicate 32 6,
          dg_updated_at_unix_s = 80\<rparr>]"
    using demo_bound_ingest by blast
  have cur: "current_binding ?s1 = Some (demo_config_binding 6)" by (simp add: current_binding_def binding_of_row_of)
  have r: "config_reach (\<lambda>_. True) (\<lambda>_. True) demo_wire s"
    by (rule reach_ingest[OF r1 cur _ c]) (simp add: demo_settings_def demo_config_binding_def)
  from demo_apply[OF b d] obtain out s' where
    a: "append_configuration (\<lambda>_. True) (\<lambda>_. True) (demo_config_binding 6) (demo_config_binding 7) 90 demo_build s = Inr (out, s')" by blast
  have k: "known_trade demo_trade s" "generation_of demo_trade s = 1"
    by (simp_all add: known_trade_def d generation_of_def select_key_def)
  have "cb_evidence_policy_sha256 (demo_config_binding 6) \<noteq> cb_evidence_policy_sha256 (demo_config_binding 7)"
    by (simp add: demo_config_binding_def)
  then have "current_binding s' = Some (demo_config_binding 7)" "generation_of demo_trade s' = 2"
    using dirty_policy_current[OF r, of "demo_config_binding 6" "demo_config_binding 7" 90 demo_build] a k by simp_all
  with r a k show ?thesis by blast
qed

end
