(* ===== verification/Reconciliation_Attempt.thy ===== *)
theory Reconciliation_Attempt
  imports Source_Ingest
begin

text \<open>
  Planning of one reconciliation attempt, \<open>src/src/reconciliation_attempt.rs\<close>: the per-source requests of
  a claimed job with their deadlines and identities, and the validation of what a source returned.  The
  accessors of the configuration document, its canonical encoding and SHA-256 are parameters.
\<close>

section \<open>Data\<close>

datatype attempt_error = AttemptInvalidInput | AttemptInvalidConfiguration | AttemptPolicyMismatch
  | AttemptLeaseExpired | AttemptResultInventory

fun attempt_error_code :: "attempt_error \<Rightarrow> string" where
  "attempt_error_code AttemptInvalidInput = ''reconciliation_attempt_input_invalid''"
| "attempt_error_code AttemptInvalidConfiguration = ''reconciliation_attempt_configuration_invalid''"
| "attempt_error_code AttemptPolicyMismatch = ''reconciliation_attempt_policy_mismatch''"
| "attempt_error_code AttemptLeaseExpired = ''reconciliation_attempt_lease_expired''"
| "attempt_error_code AttemptResultInventory = ''reconciliation_attempt_result_inventory_invalid''"

record source_request =
  rq_id :: bytes
  rq_source_id :: string
  rq_trade_id :: bytes
  rq_required :: bool
  rq_selector_digest :: bytes
  rq_attempt_started_at :: nat
  rq_deadline :: nat
  rq_lookback_seconds :: nat
  rq_maximum_events :: nat
  rq_maximum_bytes :: nat

record attempt_plan =
  ap_id :: bytes
  ap_job_id :: bytes
  ap_input_generation :: nat
  ap_policy_digest :: bytes
  ap_attempt_started_at :: nat
  ap_deadline :: nat
  ap_requests :: "source_request list"

record source_result =
  sr_request_id :: bytes
  sr_outcome :: source_completion
  sr_started_at :: nat
  sr_finished_at :: nat
  sr_accepted_event_count :: nat
  sr_accepted_event_bytes :: nat

record attempt_results =
  ar_attempt_id :: bytes
  ar_results :: "source_result list"

definition RHI_RECONCILIATION_ATTEMPT_MAX_SOURCES :: nat where
  "RHI_RECONCILIATION_ATTEMPT_MAX_SOURCES = 16"

section \<open>Identities\<close>

definition RECONCILIATION_ATTEMPT_DOMAIN :: bytes where
  "RECONCILIATION_ATTEMPT_DOMAIN = ascii_bytes ''radroots.rhi.reconciliation_attempt.v1'' @ [0]"

definition SELECTOR_DIGEST_DOMAIN :: bytes where
  "SELECTOR_DIGEST_DOMAIN = ascii_bytes ''radroots.rhi.reconciliation_selector.v1'' @ [0]"

definition REQUEST_ID_DOMAIN :: bytes where
  "REQUEST_ID_DOMAIN = ascii_bytes ''radroots.rhi.reconciliation_source_request.v1'' @ [0]"

definition EVENT_KINDS :: "nat list" where
  "EVENT_KINDS = [3470, 3471, 3472, 3473, 3474]"

text \<open>A length of eight bytes, then the bytes.\<close>

definition hash_framed :: "bytes \<Rightarrow> bytes" where
  "hash_framed b = to_be_bytes 8 (min (length b) u64_max) @ b"

definition attempt_id :: "(bytes \<Rightarrow> bytes) \<Rightarrow> bytes \<Rightarrow> nat \<Rightarrow> bytes" where
  "attempt_id sha256 job attempt_count = sha256 (RECONCILIATION_ATTEMPT_DOMAIN @ job @ to_be_bytes 2 attempt_count)"

definition selector_digest :: "(bytes \<Rightarrow> bytes) \<Rightarrow> bytes \<Rightarrow> bytes" where
  "selector_digest sha256 trade =
     sha256 (SELECTOR_DIGEST_DOMAIN @ hash_framed (ascii_bytes SOURCE_SELECTOR) @ to_be_bytes 4 5
       @ concat (map (to_be_bytes 4) EVENT_KINDS) @ ascii_bytes ''d'' @ trade)"

definition request_id ::
  "(bytes \<Rightarrow> bytes) \<Rightarrow> bytes \<Rightarrow> string \<Rightarrow> bool \<Rightarrow> bytes \<Rightarrow> nat \<Rightarrow> nat \<Rightarrow> nat \<Rightarrow> nat \<Rightarrow> nat \<Rightarrow> bytes" where
  "request_id sha256 attempt source_id required selector started_at deadline lookback maximum_events maximum_bytes =
     sha256 (REQUEST_ID_DOMAIN @ attempt @ hash_framed (ascii_bytes source_id) @ [of_bool required] @ selector
       @ to_be_bytes 8 started_at @ to_be_bytes 8 deadline @ to_be_bytes 8 lookback
       @ to_be_bytes 4 maximum_events @ to_be_bytes 8 maximum_bytes)"

section \<open>Reading the configuration\<close>

definition bounded_source_id :: "'v json_view \<Rightarrow> 'v \<Rightarrow> (attempt_error, string) result" where
  "bounded_source_id view source =
     ok_or AttemptInvalidConfiguration
       (option_filter (\<lambda>value. value \<noteq> [] \<and> length value \<le> 64 \<and> source_id_bytes 0 value)
         (Option.bind (jv_pointer view source ''/source_id'') (jv_as_str view)))"

definition bounded_integer :: "'v json_view \<Rightarrow> 'v \<Rightarrow> string \<Rightarrow> nat \<Rightarrow> nat \<Rightarrow> (attempt_error, nat) result" where
  "bounded_integer view value pointer minimum maximum =
     ok_or AttemptInvalidConfiguration (option_filter (\<lambda>v. minimum \<le> v \<and> v \<le> maximum)
       (Option.bind (jv_pointer view value pointer) (jv_as_u64 view)))"

definition absolute_deadline :: "nat \<Rightarrow> nat \<Rightarrow> nat \<Rightarrow> (attempt_error, nat) result" where
  "absolute_deadline started_at duration ceiling =
     and_then (ok_or AttemptInvalidInput
       (option_filter (\<lambda>value. started_at < value)
         (map_option (\<lambda>value. min value ceiling)
           (option_filter (\<lambda>value. value \<le> i64_max) (checked_add started_at duration))))) (\<lambda>deadline.
     map_err (\<lambda>_. AttemptInvalidInput) (unix_milliseconds_new deadline))"

section \<open>The plan\<close>

text \<open>What every request of an attempt shares.\<close>

record attempt_frame =
  af_attempt_id :: bytes
  af_trade_id :: bytes
  af_selector_digest :: bytes
  af_started_at :: nat
  af_attempt_deadline_ms :: nat
  af_deadline :: nat
  af_maximum_events :: nat
  af_maximum_bytes :: nat

definition plan_request ::
  "'v json_view \<Rightarrow> (bytes \<Rightarrow> bytes) \<Rightarrow> attempt_frame \<Rightarrow> string option \<Rightarrow> 'v \<Rightarrow> (attempt_error, source_request) result" where
  "plan_request view sha256 frame prior source =
     and_then (bounded_source_id view source) (\<lambda>source_id.
     if (case prior of None \<Rightarrow> False | Some p \<Rightarrow> ascii_bytes source_id \<le> ascii_bytes p)
        \<or> Option.bind (jv_pointer view source ''/kind'') (jv_as_str view) \<noteq> Some ''nostr_relay''
        \<or> Option.bind (jv_pointer view source ''/selector'') (jv_as_str view) \<noteq> Some SOURCE_SELECTOR
     then Inl AttemptInvalidConfiguration else
     and_then (ok_or AttemptInvalidConfiguration
       (Option.bind (jv_pointer view source ''/required'') (jv_as_bool view))) (\<lambda>required.
     and_then (bounded_integer view source ''/deadline_ms'' 100 30000) (\<lambda>source_deadline_ms.
     if af_attempt_deadline_ms frame < source_deadline_ms then Inl AttemptInvalidConfiguration else
     and_then (absolute_deadline (af_started_at frame) source_deadline_ms (af_deadline frame)) (\<lambda>source_deadline.
     and_then (bounded_integer view source ''/lookback_seconds'' 60 2678400) (\<lambda>lookback.
       Inr \<lparr>rq_id = request_id sha256 (af_attempt_id frame) source_id required (af_selector_digest frame)
              (af_started_at frame) source_deadline lookback (af_maximum_events frame) (af_maximum_bytes frame),
          rq_source_id = source_id, rq_trade_id = af_trade_id frame, rq_required = required,
          rq_selector_digest = af_selector_digest frame, rq_attempt_started_at = af_started_at frame,
          rq_deadline = source_deadline, rq_lookback_seconds = lookback,
          rq_maximum_events = af_maximum_events frame, rq_maximum_bytes = af_maximum_bytes frame\<rparr>)))))"

fun plan_requests ::
  "'v json_view \<Rightarrow> (bytes \<Rightarrow> bytes) \<Rightarrow> attempt_frame \<Rightarrow> string option \<Rightarrow> 'v list \<Rightarrow> (attempt_error, source_request list) result"
  where
  "plan_requests view sha256 frame prior [] = Inr []"
| "plan_requests view sha256 frame prior (source # sources) =
     and_then (plan_request view sha256 frame prior source) (\<lambda>request.
     and_then (plan_requests view sha256 frame (Some (rq_source_id request)) sources) (\<lambda>requests.
       Inr (request # requests)))"

definition attempt_plan_from_claim ::
  "'v json_view \<Rightarrow> (json_value \<Rightarrow> bytes option) \<Rightarrow> (bytes \<Rightarrow> bytes) \<Rightarrow> job_lease \<Rightarrow> 'v \<Rightarrow> nat
     \<Rightarrow> (attempt_error, attempt_plan) result" where
  "attempt_plan_from_claim view to_vec sha256 lease normalized started_at =
     (let job = lease_job lease in
     if job_state job \<noteq> Leased \<or> job_attempt_count job = 0 then Inl AttemptInvalidInput
     else if lease_expires lease \<le> started_at then Inl AttemptLeaseExpired else
     and_then (map_err (\<lambda>_. AttemptInvalidConfiguration) (evidence_policy_digest view to_vec sha256 normalized)) (\<lambda>policy.
     if policy \<noteq> job_policy_digest job then Inl AttemptPolicyMismatch else
     and_then (map_err (\<lambda>_. AttemptInvalidConfiguration)
       (job_policy_from_configuration (\<lambda>p. Option.bind (jv_pointer view normalized p) (jv_as_u64 view)))) (\<lambda>configured.
     if \<not> attempt_policy_matches job configured then Inl AttemptPolicyMismatch else
     and_then (bounded_integer view normalized ''/reconciliation/attempt_deadline_ms'' 100 30000) (\<lambda>attempt_deadline_ms.
     and_then (absolute_deadline started_at attempt_deadline_ms (lease_expires lease)) (\<lambda>deadline.
     and_then (bounded_integer view normalized ''/resource_limits/source_results/events'' 1
       RHI_TRADE_SOURCE_RESULT_MAX_EVENTS) (\<lambda>maximum_events.
     and_then (ensure (maximum_events \<le> 4294967295) AttemptInvalidConfiguration) (\<lambda>_.
     and_then (bounded_integer view normalized ''/resource_limits/source_results/bytes'' 1
       RHI_TRADE_SOURCE_RESULT_MAX_BYTES) (\<lambda>maximum_bytes.
     and_then (ok_or AttemptInvalidConfiguration
       (option_filter (\<lambda>sources. sources \<noteq> [] \<and> length sources \<le> RHI_RECONCILIATION_ATTEMPT_MAX_SOURCES)
         (Option.bind (jv_pointer view normalized ''/evidence/sources'') (jv_as_array view)))) (\<lambda>sources.
     (let ident = attempt_id sha256 (job_ident job) (job_attempt_count job) in
     and_then (plan_requests view sha256
       \<lparr>af_attempt_id = ident, af_trade_id = job_trade_id job,
        af_selector_digest = selector_digest sha256 (job_trade_id job), af_started_at = started_at,
        af_attempt_deadline_ms = attempt_deadline_ms, af_deadline = deadline,
        af_maximum_events = maximum_events, af_maximum_bytes = maximum_bytes\<rparr> None sources) (\<lambda>requests.
       Inr \<lparr>ap_id = ident, ap_job_id = job_ident job, ap_input_generation = job_input_generation job,
          ap_policy_digest = policy, ap_attempt_started_at = started_at, ap_deadline = deadline,
          ap_requests = requests\<rparr>)))))))))))"

section \<open>Results\<close>

definition source_result_new ::
  "source_request \<Rightarrow> source_completion \<Rightarrow> nat \<Rightarrow> nat \<Rightarrow> nat \<Rightarrow> nat \<Rightarrow> (attempt_error, source_result) result" where
  "source_result_new request outcome started_at finished_at event_count event_bytes =
     (let before_deadline = finished_at < rq_deadline request in
      if started_at < rq_attempt_started_at request
         \<or> finished_at < started_at
         \<or> rq_deadline request \<le> started_at
         \<or> (outcome = IncompleteTimeout \<and> before_deadline)
         \<or> (outcome \<noteq> IncompleteTimeout \<and> \<not> before_deadline)
         \<or> rq_maximum_events request < event_count
         \<or> rq_maximum_bytes request < event_bytes
         \<or> (event_count = 0) \<noteq> (event_bytes = 0)
         \<or> (outcome = Unsupported \<and> (event_count \<noteq> 0 \<or> event_bytes \<noteq> 0))
      then Inl AttemptInvalidInput
      else Inr \<lparr>sr_request_id = rq_id request, sr_outcome = outcome, sr_started_at = started_at,
        sr_finished_at = finished_at, sr_accepted_event_count = event_count,
        sr_accepted_event_bytes = event_bytes\<rparr>)"

definition attempt_results_new :: "attempt_plan \<Rightarrow> source_result list \<Rightarrow> (attempt_error, attempt_results) result" where
  "attempt_results_new plan results =
     (let results = take (length (ap_requests plan) + 1) results in
      if length results \<noteq> length (ap_requests plan)
         \<or> list_ex (\<lambda>(result, request). sr_request_id result \<noteq> rq_id request) (zip results (ap_requests plan))
      then Inl AttemptResultInventory
      else Inr \<lparr>ar_attempt_id = ap_id plan, ar_results = results\<rparr>)"

end
