(* ===== verification/Reconciliation_Replay.thy ===== *)
theory Reconciliation_Replay
  imports Reconciliation_Attempt
begin

text \<open>
  The replay of one source request, \<open>src/src/reconciliation_replay.rs\<close>: the overlap window behind the prior
  cursor, the bounded intake of admitted events, and their canonicalization, which drops repeated
  observations and refuses an identity that is reused for another content.
\<close>

section \<open>Data\<close>

datatype replay_error = ReplayInvalidInput | ReplayInvalidConfiguration | ReplayPolicyMismatch
  | ReplayResourceLimit | ReplayMutationConflict | ReplaySignedEventConflict

fun replay_error_code :: "replay_error \<Rightarrow> string" where
  "replay_error_code ReplayInvalidInput = ''reconciliation_replay_input_invalid''"
| "replay_error_code ReplayInvalidConfiguration = ''reconciliation_replay_configuration_invalid''"
| "replay_error_code ReplayPolicyMismatch = ''reconciliation_replay_policy_mismatch''"
| "replay_error_code ReplayResourceLimit = ''reconciliation_replay_resource_limit''"
| "replay_error_code ReplayMutationConflict = ''reconciliation_replay_mutation_conflict''"
| "replay_error_code ReplaySignedEventConflict = ''reconciliation_replay_signed_event_conflict''"

record cursor_evidence =
  ce_source_id :: string
  ce_trade_id :: bytes
  ce_policy_digest :: bytes
  ce_selector_digest :: bytes
  ce_cursor :: source_cursor

record replay_plan =
  rp_id :: bytes
  rp_request_id :: bytes
  rp_source_id :: string
  rp_trade_id :: bytes
  rp_required :: bool
  rp_policy_digest :: bytes
  rp_selector_digest :: bytes
  rp_prior_cursor :: "cursor_evidence option"
  rp_overlap_seconds :: nat
  rp_since_unix_seconds :: nat

record replay_fact =
  rf_record :: persistence_record
  rf_original_bytes :: nat
  rf_observed_at :: nat

record canonical_replay =
  cr_facts :: "replay_fact list"
  cr_duplicate_observations :: nat
  cr_accepted_original_bytes :: nat
  cr_cursor_candidate :: "source_cursor option"
  cr_first_observed_at :: "nat option"

record source_replay =
  rr_plan :: replay_plan
  rr_result :: source_result
  rr_duplicate_observations :: nat
  rr_accepted_original_bytes :: nat
  rr_cursor_candidate :: "source_cursor option"
  rr_first_observed_at :: "nat option"
  rr_facts :: "replay_fact list"

record commit_fact =
  cf_record :: persistence_record
  cf_observed_at :: nat

record commit_parts =
  cp_replay_id :: bytes
  cp_request_id :: bytes
  cp_source_id :: string
  cp_trade_id :: bytes
  cp_required :: bool
  cp_policy_digest :: bytes
  cp_selector_digest :: bytes
  cp_prior_cursor :: "source_cursor option"
  cp_overlap_seconds :: nat
  cp_since_unix_seconds :: nat
  cp_result :: source_result
  cp_duplicate_observations :: nat
  cp_cursor_candidate :: "source_cursor option"
  cp_eligible_cursor :: "source_cursor option"
  cp_first_observed_at :: "nat option"
  cp_facts :: "commit_fact list"

section \<open>Cursors\<close>

definition REPLAY_ID_DOMAIN :: bytes where
  "REPLAY_ID_DOMAIN = ascii_bytes ''radroots.rhi.reconciliation_source_replay.v1'' @ [0]"

definition replay_id :: "(bytes \<Rightarrow> bytes) \<Rightarrow> bytes \<Rightarrow> source_cursor option \<Rightarrow> nat \<Rightarrow> nat \<Rightarrow> bytes" where
  "replay_id sha256 request prior overlap since =
     sha256 (REPLAY_ID_DOMAIN @ request
       @ (case prior of None \<Rightarrow> [0] | Some cursor \<Rightarrow> [1] @ to_be_bytes 8 (cu_created_at cursor) @ cu_event_id cursor)
       @ to_be_bytes 8 overlap @ to_be_bytes 8 since)"

definition cursor_scope_matches :: "cursor_evidence \<Rightarrow> string \<Rightarrow> bytes \<Rightarrow> bytes \<Rightarrow> bytes \<Rightarrow> bool" where
  "cursor_scope_matches evidence source_id trade policy selector \<longleftrightarrow>
     ce_source_id evidence = source_id \<and> ce_trade_id evidence = trade
   \<and> ce_policy_digest evidence = policy \<and> ce_selector_digest evidence = selector"

definition resume_since :: "source_cursor \<Rightarrow> nat \<Rightarrow> nat" where
  "resume_since cursor overlap = saturating_sub (cu_created_at cursor) overlap"

definition eligible_cursor ::
  "source_completion \<Rightarrow> source_cursor option \<Rightarrow> source_cursor option \<Rightarrow> source_cursor option" where
  "eligible_cursor outcome candidate prior =
     (if outcome \<noteq> Complete then None
      else option_filter (\<lambda>c. case prior of None \<Rightarrow> True | Some p \<Rightarrow> cursor_lt p c) candidate)"

text \<open>The transaction of \<open>read_committed_reconciliation_cursor\<close>.\<close>

definition read_committed_cursor ::
  "source_request \<Rightarrow> bytes \<Rightarrow> 'a evidence_store_scheme \<Rightarrow> (source_error, cursor_evidence option \<times> 'a evidence_store_scheme) result"
  where
  "read_committed_cursor request policy s =
     and_then (read_checkpoint (rq_source_id request) policy (rq_trade_id request) s) (\<lambda>checkpoint.
       Inr (map_option (\<lambda>c. \<lparr>ce_source_id = rq_source_id request, ce_trade_id = rq_trade_id request,
         ce_policy_digest = policy, ce_selector_digest = rq_selector_digest request, ce_cursor = sk_cursor c\<rparr>) checkpoint, s))"

section \<open>The plan of a replay\<close>

definition replay_plan_from_request ::
  "'v json_view \<Rightarrow> (json_value \<Rightarrow> bytes option) \<Rightarrow> (bytes \<Rightarrow> bytes) \<Rightarrow> attempt_plan \<Rightarrow> source_request \<Rightarrow> 'v
     \<Rightarrow> cursor_evidence option \<Rightarrow> (replay_error, replay_plan) result" where
  "replay_plan_from_request view to_vec sha256 attempt request normalized prior =
     (if \<not> list_ex (\<lambda>candidate. rq_id candidate = rq_id request) (ap_requests attempt) then Inl ReplayInvalidInput else
     and_then (map_err (\<lambda>_. ReplayInvalidConfiguration) (evidence_policy_digest view to_vec sha256 normalized)) (\<lambda>policy.
     if policy \<noteq> ap_policy_digest attempt then Inl ReplayPolicyMismatch
     else if (case prior of None \<Rightarrow> False | Some evidence \<Rightarrow>
         \<not> cursor_scope_matches evidence (rq_source_id request) (rq_trade_id request) policy (rq_selector_digest request))
     then Inl ReplayPolicyMismatch else
     and_then (ok_or ReplayInvalidConfiguration
       (option_filter (\<lambda>source. Option.bind (jv_pointer view source ''/kind'') (jv_as_str view) = Some ''nostr_relay''
           \<and> Option.bind (jv_pointer view source ''/selector'') (jv_as_str view) = Some SOURCE_SELECTOR)
         (Option.bind (jv_pointer view normalized ''/evidence/sources'') (\<lambda>list.
          Option.bind (jv_as_array view list) (\<lambda>sources.
            find (\<lambda>source. Option.bind (jv_pointer view source ''/source_id'') (jv_as_str view)
              = Some (rq_source_id request)) sources))))) (\<lambda>source.
     and_then (ok_or ReplayInvalidConfiguration (option_filter (\<lambda>v. 1 \<le> v \<and> v \<le> 86400)
       (Option.bind (jv_pointer view source ''/overlap_seconds'') (jv_as_u64 view)))) (\<lambda>overlap.
     and_then (ok_or ReplayInvalidConfiguration (option_filter (\<lambda>v. v = rq_lookback_seconds request \<and> overlap \<le> v)
       (Option.bind (jv_pointer view source ''/lookback_seconds'') (jv_as_u64 view)))) (\<lambda>lookback.
     (let raw_prior = map_option ce_cursor prior;
          since = (case raw_prior of None \<Rightarrow> saturating_sub (rq_attempt_started_at request div 1000) lookback
            | Some cursor \<Rightarrow> resume_since cursor overlap) in
       Inr \<lparr>rp_id = replay_id sha256 (rq_id request) raw_prior overlap since, rp_request_id = rq_id request,
          rp_source_id = rq_source_id request, rp_trade_id = rq_trade_id request, rp_required = rq_required request,
          rp_policy_digest = policy, rp_selector_digest = rq_selector_digest request, rp_prior_cursor = prior,
          rp_overlap_seconds = overlap, rp_since_unix_seconds = since\<rparr>))))))"

section \<open>Intake\<close>

definition replay_fact_of ::
  "(event_envelope \<Rightarrow> bytes option) \<Rightarrow> source_request \<Rightarrow> nat \<Rightarrow> nat \<Rightarrow> admitted_event \<Rightarrow> (replay_error, replay_fact) result"
  where
  "replay_fact_of wire request started_at finished_at event =
     (if tm_trade_id (ae_mutation event) \<noteq> rq_trade_id request then Inl ReplayInvalidInput else
     and_then (ensure (length (ae_original event) \<le> u64_max) ReplayResourceLimit) (\<lambda>_.
     and_then (ok_or ReplayInvalidInput (checked_mul (ae_observed_at event) 1000)) (\<lambda>observed_ms.
     and_then (ok_or ReplayInvalidInput (checked_add observed_ms 999)) (\<lambda>observed_end.
     if observed_end < started_at \<or> finished_at < observed_ms then Inl ReplayInvalidInput else
     and_then (map_err (\<lambda>_. ReplayInvalidInput) (record_from_admitted wire event)) (\<lambda>r.
       Inr \<lparr>rf_record = r, rf_original_bytes = length (ae_original event), rf_observed_at = ae_observed_at event\<rparr>)))))"

text \<open>The loop over the lazy iterator: \<open>bounded\<close> holds the facts taken so far in reverse.\<close>

fun ingest_loop ::
  "nat \<Rightarrow> nat \<Rightarrow> nat \<Rightarrow> replay_fact list \<Rightarrow> (replay_error, replay_fact) result list \<Rightarrow> (replay_error, replay_fact list) result"
  where
  "ingest_loop maximum_events maximum_bytes accepted bounded [] = Inr (rev bounded)"
| "ingest_loop maximum_events maximum_bytes accepted bounded (item # items) =
     (if length bounded = maximum_events then Inl ReplayResourceLimit else
      and_then item (\<lambda>taken.
      and_then (ok_or ReplayResourceLimit (option_filter (\<lambda>v. v \<le> maximum_bytes)
        (checked_add accepted (rf_original_bytes taken)))) (\<lambda>accepted.
        ingest_loop maximum_events maximum_bytes accepted (taken # bounded) items)))"

definition ingest_bounded_facts ::
  "nat \<Rightarrow> nat \<Rightarrow> (replay_error, replay_fact) result list \<Rightarrow> (replay_error, replay_fact list) result" where
  "ingest_bounded_facts maximum_events maximum_bytes facts =
     ingest_loop maximum_events maximum_bytes 0 [] (take (maximum_events + 1) facts)"

section \<open>Canonicalization\<close>

definition fact_key :: "replay_fact \<Rightarrow> nat \<times> bytes \<times> bytes \<times> nat \<times> nat" where
  "fact_key f = (pr_authored_at (rf_record f), pr_event_id (rf_record f), pr_event_signature (rf_record f),
     rf_observed_at f, rf_original_bytes f)"

definition same_mutation :: "persistence_record \<Rightarrow> persistence_record \<Rightarrow> bool" where
  "same_mutation left right \<longleftrightarrow>
     pr_mutation_id left = pr_mutation_id right \<and> pr_trade_id left = pr_trade_id right
   \<and> pr_contract_id left = pr_contract_id right \<and> pr_schema_version left = pr_schema_version right
   \<and> pr_event_kind left = pr_event_kind right \<and> pr_author_pubkey left = pr_author_pubkey right
   \<and> pr_canonical_content left = pr_canonical_content right"

definition same_event :: "persistence_record \<Rightarrow> persistence_record \<Rightarrow> bool" where
  "same_event left right \<longleftrightarrow>
     same_mutation left right \<and> pr_event_id left = pr_event_id right
   \<and> pr_event_signature left = pr_event_signature right \<and> pr_event_kind left = pr_event_kind right
   \<and> pr_authored_at left = pr_authored_at right
   \<and> pr_canonical_event_json left = pr_canonical_event_json right"

record canonical_state =
  cs_event_indexes :: "bytes \<times> bytes \<Rightarrow> nat option"
  cs_mutation_indexes :: "bytes \<Rightarrow> nat option"
  cs_canonical :: canonical_replay

definition replay_event_key :: "persistence_record \<Rightarrow> bytes \<times> bytes" where
  "replay_event_key r = (pr_event_id r, pr_event_signature r)"

definition record_cursor :: "persistence_record \<Rightarrow> source_cursor" where
  "record_cursor r = \<lparr>cu_created_at = pr_authored_at r, cu_event_id = pr_event_id r\<rparr>"

definition canonicalize_step :: "canonical_state \<Rightarrow> replay_fact \<Rightarrow> (replay_error, canonical_state) result" where
  "canonicalize_step st candidate =
     (let c = cs_canonical st; r = rf_record candidate; key = replay_event_key r in
      case cs_event_indexes st key of
        Some index \<Rightarrow>
          if \<not> same_event (rf_record (cr_facts c ! index)) r then Inl ReplaySignedEventConflict
          else if cr_duplicate_observations c + 1 \<le> 4294967295
          then Inr (st\<lparr>cs_canonical := c\<lparr>cr_duplicate_observations := cr_duplicate_observations c + 1\<rparr>\<rparr>)
          else Inl ReplayResourceLimit
      | None \<Rightarrow>
          if (case cs_mutation_indexes st (pr_mutation_id r) of None \<Rightarrow> False
              | Some index \<Rightarrow> \<not> same_mutation (rf_record (cr_facts c ! index)) r)
          then Inl ReplayMutationConflict else
          and_then (ok_or ReplayResourceLimit
            (checked_add (cr_accepted_original_bytes c) (rf_original_bytes candidate))) (\<lambda>accepted.
          (let cursor = record_cursor r; index = length (cr_facts c) in
           Inr \<lparr>cs_event_indexes = (cs_event_indexes st)(key \<mapsto> index),
             cs_mutation_indexes = (case cs_mutation_indexes st (pr_mutation_id r) of
                 None \<Rightarrow> (cs_mutation_indexes st)(pr_mutation_id r \<mapsto> index) | Some _ \<Rightarrow> cs_mutation_indexes st),
             cs_canonical =
               \<lparr>cr_facts = cr_facts c @ [candidate], cr_duplicate_observations = cr_duplicate_observations c,
                cr_accepted_original_bytes = accepted,
                cr_cursor_candidate = Some (case cr_cursor_candidate c of None \<Rightarrow> cursor
                  | Some current \<Rightarrow> if cursor_lt current cursor then cursor else current),
                cr_first_observed_at = Some (case cr_first_observed_at c of None \<Rightarrow> rf_observed_at candidate
                  | Some current \<Rightarrow> if rf_observed_at candidate < current then rf_observed_at candidate else current)\<rparr>\<rparr>)))"

fun canonicalize_loop :: "canonical_state \<Rightarrow> replay_fact list \<Rightarrow> (replay_error, canonical_state) result" where
  "canonicalize_loop st [] = Inr st"
| "canonicalize_loop st (candidate # candidates) =
     and_then (canonicalize_step st candidate) (\<lambda>st. canonicalize_loop st candidates)"

definition canonical_start :: canonical_state where
  "canonical_start = \<lparr>cs_event_indexes = (\<lambda>_. None), cs_mutation_indexes = (\<lambda>_. None),
     cs_canonical = \<lparr>cr_facts = [], cr_duplicate_observations = 0, cr_accepted_original_bytes = 0,
       cr_cursor_candidate = None, cr_first_observed_at = None\<rparr>\<rparr>"

definition canonicalize :: "replay_fact list \<Rightarrow> (replay_error, canonical_replay) result" where
  "canonicalize candidates =
     and_then (canonicalize_loop canonical_start (sort_key fact_key candidates)) (\<lambda>st. Inr (cs_canonical st))"

section \<open>Finishing a replay\<close>

definition replay_finish ::
  "(event_envelope \<Rightarrow> bytes option) \<Rightarrow> replay_plan \<Rightarrow> source_request \<Rightarrow> source_completion \<Rightarrow> nat \<Rightarrow> nat
     \<Rightarrow> admitted_event list \<Rightarrow> (replay_error, source_replay) result" where
  "replay_finish wire plan request outcome started_at finished_at events =
     (if rq_id request \<noteq> rp_request_id plan then Inl ReplayInvalidInput else
     and_then (map_err (\<lambda>_. ReplayInvalidInput) (source_result_new request outcome started_at finished_at 0 0)) (\<lambda>_.
     and_then (ingest_bounded_facts (rq_maximum_events request) (rq_maximum_bytes request)
       (map (replay_fact_of wire request started_at finished_at) events)) (\<lambda>candidates.
     and_then (canonicalize candidates) (\<lambda>c.
     and_then (ensure (length (cr_facts c) \<le> 4294967295) ReplayResourceLimit) (\<lambda>_.
     and_then (map_err (\<lambda>_. ReplayInvalidInput)
       (source_result_new request outcome started_at finished_at (length (cr_facts c)) (cr_accepted_original_bytes c)))
       (\<lambda>result.
       Inr \<lparr>rr_plan = plan, rr_result = result, rr_duplicate_observations = cr_duplicate_observations c,
          rr_accepted_original_bytes = cr_accepted_original_bytes c, rr_cursor_candidate = cr_cursor_candidate c,
          rr_first_observed_at = cr_first_observed_at c, rr_facts = cr_facts c\<rparr>))))))"

definition replay_eligible_cursor :: "source_replay \<Rightarrow> source_cursor option" where
  "replay_eligible_cursor replay =
     eligible_cursor (sr_outcome (rr_result replay)) (rr_cursor_candidate replay)
       (map_option ce_cursor (rp_prior_cursor (rr_plan replay)))"

definition into_commit_parts :: "source_replay \<Rightarrow> commit_parts" where
  "into_commit_parts replay =
     (let plan = rr_plan replay in
      \<lparr>cp_replay_id = rp_id plan, cp_request_id = rp_request_id plan, cp_source_id = rp_source_id plan,
       cp_trade_id = rp_trade_id plan, cp_required = rp_required plan, cp_policy_digest = rp_policy_digest plan,
       cp_selector_digest = rp_selector_digest plan, cp_prior_cursor = map_option ce_cursor (rp_prior_cursor plan),
       cp_overlap_seconds = rp_overlap_seconds plan, cp_since_unix_seconds = rp_since_unix_seconds plan,
       cp_result = rr_result replay, cp_duplicate_observations = rr_duplicate_observations replay,
       cp_cursor_candidate = rr_cursor_candidate replay, cp_eligible_cursor = replay_eligible_cursor replay,
       cp_first_observed_at = rr_first_observed_at replay,
       cp_facts = map (\<lambda>f. \<lparr>cf_record = rf_record f, cf_observed_at = rf_observed_at f\<rparr>) (rr_facts replay)\<rparr>)"

end
