(* ===== verification/Reconciliation_Manifest.thy ===== *)
theory Reconciliation_Manifest
  imports Reconciliation_Replay
begin

text \<open>
  The evidence manifest of one committed attempt, \<open>src/src/reconciliation_manifest.rs\<close>, with the inventory
  digest of \<open>src/src/reconciliation_commit.rs\<close>.  The manifest type itself belongs to the trade crate: the
  record \<open>manifest_crate\<close> holds its constructors and accessors.
\<close>

section \<open>Ordered maps\<close>

text \<open>\<open>BTreeMap::entry(k).and_modify(f).or_insert_with(v)\<close> on the sorted list of entries.\<close>

fun btree_entry :: "'k::linorder \<Rightarrow> ('v \<Rightarrow> 'v) \<Rightarrow> 'v \<Rightarrow> ('k \<times> 'v) list \<Rightarrow> ('k \<times> 'v) list" where
  "btree_entry k modify fresh [] = [(k, fresh)]"
| "btree_entry k modify fresh ((k', v) # entries) =
     (if k < k' then (k, fresh) # (k', v) # entries
      else if k = k' then (k', modify v) # entries
      else (k', v) # btree_entry k modify fresh entries)"

section \<open>Data\<close>

datatype scope_prerequisites = PrerequisitesSatisfied | PrerequisitesUnsatisfied

datatype manifest_error = ManifestInvalidObservationTime | ManifestInvalidCommittedInventory

fun manifest_error_code :: "manifest_error \<Rightarrow> string" where
  "manifest_error_code ManifestInvalidObservationTime = ''reconciliation_manifest_observation_time_invalid''"
| "manifest_error_code ManifestInvalidCommittedInventory = ''reconciliation_manifest_inventory_invalid''"

text \<open>The vocabulary of the trade crate that the code names.\<close>

datatype evidence_completion = EvidenceComplete | EvidenceIncomplete | EvidenceUnsupported

datatype evidence_coverage = CoverageMissing | CoveragePartial | CoverageScopeSatisfied | CoverageUnsupported

record manifest_source =
  ms_source_id :: string
  ms_required :: bool
  ms_completion :: evidence_completion
  ms_event_count :: nat
  ms_result_digest :: bytes

record manifest_observation =
  mo_source_id :: string
  mo_mutation_id :: bytes
  mo_event_id :: bytes
  mo_signed_event_digest :: bytes
  mo_provenance_digest :: bytes

record mutation_material =
  mm_mutation_id :: bytes
  mm_event_id :: bytes
  mm_canonical_content :: bytes

record manifest_material =
  ma_attempt_id :: bytes
  ma_job_id :: bytes
  ma_trade_id :: bytes
  ma_generation :: nat
  ma_policy_digest :: bytes
  ma_latest_finished_unix_ms :: nat
  ma_sources :: "manifest_source list"
  ma_observations :: "manifest_observation list"
  ma_reducer_mutations :: "mutation_material list"

text \<open>
  \<open>RadrootsTradeEvidenceManifestV1\<close> and its parts: which source identities and results parse, the
  constructor with its arguments in order, and the accessors of a manifest.
\<close>

record 'm manifest_crate =
  mc_source_id_ok :: "string \<Rightarrow> bool"
  mc_result_ok :: "bool \<Rightarrow> evidence_completion \<Rightarrow> nat \<Rightarrow> bool"
  mc_new :: "bytes \<Rightarrow> nat \<Rightarrow> bytes \<Rightarrow> nat \<Rightarrow> scope_prerequisites \<Rightarrow> manifest_source list \<Rightarrow> manifest_observation list \<Rightarrow> 'm option"
  mc_trade_id :: "'m \<Rightarrow> bytes"
  mc_policy_digest :: "'m \<Rightarrow> bytes"
  mc_observed_at :: "'m \<Rightarrow> nat"
  mc_observations :: "'m \<Rightarrow> manifest_observation list"
  mc_coverage :: "'m \<Rightarrow> evidence_coverage"
  mc_digest :: "'m \<Rightarrow> bytes"
  mc_trade_generation :: "'m \<Rightarrow> nat"
  mc_canonical_bytes :: "'m \<Rightarrow> bytes"
  mc_sources :: "'m \<Rightarrow> manifest_source list"

record 'm reconciliation_manifest =
  rm_inner :: 'm
  rm_attempt_id :: bytes
  rm_job_id :: bytes
  rm_reducer_mutations :: "mutation_material list"

definition RHI_REDUCER_MAXIMUM_MUTATIONS :: nat where
  "RHI_REDUCER_MAXIMUM_MUTATIONS = 65536"

definition RHI_REDUCER_MAXIMUM_MUTATION_MATERIAL_BYTES :: nat where
  "RHI_REDUCER_MAXIMUM_MUTATION_MATERIAL_BYTES = 134217728"

section \<open>Digests\<close>

definition SOURCE_INVENTORY_DIGEST_DOMAIN :: bytes where
  "SOURCE_INVENTORY_DIGEST_DOMAIN = ascii_bytes ''radroots.rhi.reconciliation_source_inventory.v1'' @ [0]"

definition SOURCE_RESULT_DIGEST_DOMAIN :: bytes where
  "SOURCE_RESULT_DIGEST_DOMAIN = ascii_bytes ''radroots.rhi.reconciliation_manifest_source_result.v1'' @ [0]"

definition PROVENANCE_DIGEST_DOMAIN :: bytes where
  "PROVENANCE_DIGEST_DOMAIN = ascii_bytes ''radroots.rhi.evidence_provenance.v1'' @ [0]"

text \<open>\<open>update_framed\<close>: what is fed to the digest, or nothing when the length has no \<open>u64\<close>.\<close>

definition update_framed :: "bytes \<Rightarrow> bytes option" where
  "update_framed b = (if length b \<le> u64_max then Some (to_be_bytes 8 (length b) @ b) else None)"

definition inventory_fact_bytes :: "commit_fact \<Rightarrow> bytes option" where
  "inventory_fact_bytes f =
     (let r = cf_record f in
     Option.bind (update_framed (ascii_bytes (pr_contract_id r))) (\<lambda>contract.
     Option.bind (update_framed (pr_canonical_content r)) (\<lambda>content.
     Option.bind (update_framed (pr_canonical_event_json r)) (\<lambda>json.
       Some (pr_mutation_id r @ pr_trade_id r @ contract @ to_be_bytes 2 (pr_schema_version r)
         @ pr_event_id r @ pr_event_signature r @ pr_author_pubkey r @ to_be_bytes 4 (pr_event_kind r)
         @ to_be_bytes 8 (pr_authored_at r) @ content @ json @ to_be_bytes 8 (cf_observed_at f))))))"

fun inventory_facts_bytes :: "commit_fact list \<Rightarrow> bytes option" where
  "inventory_facts_bytes [] = Some []"
| "inventory_facts_bytes (f # fs) =
     Option.bind (inventory_fact_bytes f) (\<lambda>b. map_option (\<lambda>rest. b @ rest) (inventory_facts_bytes fs))"

definition accepted_inventory_digest :: "(bytes \<Rightarrow> bytes) \<Rightarrow> commit_fact list \<Rightarrow> bytes option" where
  "accepted_inventory_digest sha256 facts =
     (if 4294967295 < length facts then None
      else map_option (\<lambda>b. sha256 (SOURCE_INVENTORY_DIGEST_DOMAIN @ to_be_bytes 4 (length facts) @ b))
        (inventory_facts_bytes facts))"

definition optional_u64_bytes :: "nat option \<Rightarrow> bytes" where
  "optional_u64_bytes value = (case value of None \<Rightarrow> [0] | Some v \<Rightarrow> [1] @ to_be_bytes 8 v)"

definition optional_cursor_bytes :: "source_cursor option \<Rightarrow> bytes" where
  "optional_cursor_bytes value =
     (case value of None \<Rightarrow> [0] | Some c \<Rightarrow> [1] @ to_be_bytes 8 (cu_created_at c) @ cu_event_id c)"

definition source_result_digest ::
  "(bytes \<Rightarrow> bytes) \<Rightarrow> attempt_plan \<Rightarrow> nat \<Rightarrow> commit_parts \<Rightarrow> bytes \<Rightarrow> bytes option" where
  "source_result_digest sha256 plan ordinal part inventory_digest =
     (let result = cp_result part in
     if 4294967295 < ordinal then None else
     Option.bind (update_framed (ascii_bytes (cp_source_id part))) (\<lambda>source_id.
     Option.bind (update_framed (ascii_bytes (source_completion_code (sr_outcome result)))) (\<lambda>completion.
       Some (sha256 (SOURCE_RESULT_DIGEST_DOMAIN @ ap_id plan @ to_be_bytes 4 ordinal @ cp_request_id part @ source_id
         @ cp_trade_id part @ [of_bool (cp_required part)] @ cp_policy_digest part @ cp_selector_digest part
         @ cp_replay_id part @ completion @ to_be_bytes 8 (sr_started_at result) @ to_be_bytes 8 (sr_finished_at result)
         @ to_be_bytes 4 (sr_accepted_event_count result) @ to_be_bytes 8 (sr_accepted_event_bytes result)
         @ inventory_digest @ to_be_bytes 4 (cp_duplicate_observations part)
         @ optional_u64_bytes (cp_first_observed_at part) @ optional_cursor_bytes (cp_prior_cursor part)
         @ to_be_bytes 8 (cp_overlap_seconds part) @ to_be_bytes 8 (cp_since_unix_seconds part)
         @ optional_cursor_bytes (cp_cursor_candidate part) @ [of_bool (cp_eligible_cursor part \<noteq> None)])))))"

definition manifest_observation_of ::
  "(bytes \<Rightarrow> bytes) \<Rightarrow> commit_parts \<Rightarrow> commit_fact \<Rightarrow> manifest_observation option" where
  "manifest_observation_of sha256 part f =
     (let r = cf_record f in
     Option.bind (update_framed (ascii_bytes (cp_source_id part))) (\<lambda>source_id.
     Option.bind (update_framed (ascii_bytes SOURCE_SELECTOR)) (\<lambda>selector.
       Some \<lparr>mo_source_id = cp_source_id part, mo_mutation_id = pr_mutation_id r, mo_event_id = pr_event_id r,
          mo_signed_event_digest = sha256 (pr_canonical_event_json r),
          mo_provenance_digest = sha256 (PROVENANCE_DIGEST_DOMAIN @ source_id @ selector @ cp_policy_digest part
            @ pr_event_id r @ pr_event_signature r @ to_be_bytes 8 (cf_observed_at f))\<rparr>)))"

section \<open>Material\<close>

fun map_completion :: "source_completion \<Rightarrow> evidence_completion" where
  "map_completion Complete = EvidenceComplete"
| "map_completion Unsupported = EvidenceUnsupported"
| "map_completion IncompleteTimeout = EvidenceIncomplete"
| "map_completion IncompleteUnavailable = EvidenceIncomplete"
| "map_completion IncompleteResourceLimit = EvidenceIncomplete"
| "map_completion IncompleteUnknown = EvidenceIncomplete"

definition material_of :: "persistence_record \<Rightarrow> mutation_material" where
  "material_of r = \<lparr>mm_mutation_id = pr_mutation_id r, mm_event_id = pr_event_id r,
     mm_canonical_content = pr_canonical_content r\<rparr>"

text \<open>The mutation keeps the material of its least event.\<close>

definition note_mutation :: "persistence_record \<Rightarrow> (bytes \<times> mutation_material) list \<Rightarrow> (bytes \<times> mutation_material) list" where
  "note_mutation r mutations =
     btree_entry (pr_mutation_id r)
       (\<lambda>current. if pr_event_id r < mm_event_id current
         then current\<lparr>mm_event_id := pr_event_id r, mm_canonical_content := pr_canonical_content r\<rparr> else current)
       (material_of r) mutations"

fun note_facts ::
  "(bytes \<Rightarrow> bytes) \<Rightarrow> commit_parts \<Rightarrow> commit_fact list \<Rightarrow> manifest_observation list \<times> (bytes \<times> mutation_material) list
     \<Rightarrow> (manifest_observation list \<times> (bytes \<times> mutation_material) list) option" where
  "note_facts sha256 part [] acc = Some acc"
| "note_facts sha256 part (f # fs) (observations, mutations) =
     Option.bind (manifest_observation_of sha256 part f) (\<lambda>observation.
       note_facts sha256 part fs (observations @ [observation], note_mutation (cf_record f) mutations))"

record material_state =
  mt_latest :: nat
  mt_sources :: "manifest_source list"
  mt_observations :: "manifest_observation list"
  mt_mutations :: "(bytes \<times> mutation_material) list"

definition note_part ::
  "(bytes \<Rightarrow> bytes) \<Rightarrow> 'm manifest_crate \<Rightarrow> attempt_plan \<Rightarrow> bytes \<Rightarrow> nat \<Rightarrow> commit_parts \<Rightarrow> material_state \<Rightarrow> material_state option"
  where
  "note_part sha256 crate plan trade ordinal part st =
     (if cp_trade_id part \<noteq> trade \<or> cp_policy_digest part \<noteq> ap_policy_digest plan then None
      else if \<not> mc_source_id_ok crate (cp_source_id part) then None
      else if \<not> mc_result_ok crate (cp_required part) (map_completion (sr_outcome (cp_result part)))
          (sr_accepted_event_count (cp_result part)) then None else
     Option.bind (accepted_inventory_digest sha256 (cp_facts part)) (\<lambda>inventory.
     Option.bind (source_result_digest sha256 plan ordinal part inventory) (\<lambda>result_digest.
     Option.bind (note_facts sha256 part (cp_facts part) (mt_observations st, mt_mutations st))
       (\<lambda>(observations, mutations).
       Some \<lparr>mt_latest = max (mt_latest st) (sr_finished_at (cp_result part)),
         mt_sources = mt_sources st @
           [\<lparr>ms_source_id = cp_source_id part, ms_required = cp_required part,
             ms_completion = map_completion (sr_outcome (cp_result part)),
             ms_event_count = sr_accepted_event_count (cp_result part), ms_result_digest = result_digest\<rparr>],
         mt_observations = observations, mt_mutations = mutations\<rparr>))))"

fun note_parts ::
  "(bytes \<Rightarrow> bytes) \<Rightarrow> 'm manifest_crate \<Rightarrow> attempt_plan \<Rightarrow> bytes \<Rightarrow> nat \<Rightarrow> commit_parts list \<Rightarrow> material_state
     \<Rightarrow> material_state option" where
  "note_parts sha256 crate plan trade ordinal [] st = Some st"
| "note_parts sha256 crate plan trade ordinal (part # parts) st =
     Option.bind (note_part sha256 crate plan trade ordinal part st) (\<lambda>st.
       note_parts sha256 crate plan trade (ordinal + 1) parts st)"

text \<open>\<open>try_fold(0_usize, checked_add)\<close>; a \<open>usize\<close> has 64 bits.\<close>

fun checked_sum :: "nat \<Rightarrow> nat list \<Rightarrow> nat option" where
  "checked_sum acc [] = Some acc"
| "checked_sum acc (n # ns) = Option.bind (checked_add acc n) (\<lambda>acc. checked_sum acc ns)"

definition committed_manifest_material ::
  "(bytes \<Rightarrow> bytes) \<Rightarrow> 'm manifest_crate \<Rightarrow> attempt_plan \<Rightarrow> commit_parts list \<Rightarrow> manifest_material option" where
  "committed_manifest_material sha256 crate plan parts =
     (case parts of [] \<Rightarrow> None | first # _ \<Rightarrow>
     (let trade = cp_trade_id first in
     if ap_input_generation plan = 0 then None else
     Option.bind (checked_sum 0 (map (\<lambda>part. length (cp_facts part)) parts)) (\<lambda>_.
     Option.bind (note_parts sha256 crate plan trade 0 parts
       \<lparr>mt_latest = 0, mt_sources = [], mt_observations = [], mt_mutations = []\<rparr>) (\<lambda>st.
     (let mutations = map snd (mt_mutations st) in
     if RHI_REDUCER_MAXIMUM_MUTATIONS < length mutations
        \<or> (case checked_sum 0 (map (\<lambda>m. length (mm_canonical_content m)) mutations) of None \<Rightarrow> True
           | Some bytes \<Rightarrow> RHI_REDUCER_MAXIMUM_MUTATION_MATERIAL_BYTES < bytes)
     then None
     else Some \<lparr>ma_attempt_id = ap_id plan, ma_job_id = ap_job_id plan, ma_trade_id = trade,
       ma_generation = ap_input_generation plan, ma_policy_digest = ap_policy_digest plan,
       ma_latest_finished_unix_ms = mt_latest st, ma_sources = mt_sources st,
       ma_observations = mt_observations st, ma_reducer_mutations = mutations\<rparr>)))))"

text \<open>\<open>u64::div_ceil\<close>.\<close>

definition div_ceil :: "nat \<Rightarrow> nat \<Rightarrow> nat" where
  "div_ceil a b = a div b + of_bool (a mod b \<noteq> 0)"

definition freeze_manifest ::
  "'m manifest_crate \<Rightarrow> manifest_material \<Rightarrow> nat \<Rightarrow> scope_prerequisites \<Rightarrow> (manifest_error, 'm reconciliation_manifest) result"
  where
  "freeze_manifest crate material observed_at prerequisites =
     (if observed_at < div_ceil (ma_latest_finished_unix_ms material) 1000 \<or> i64_max < observed_at
      then Inl ManifestInvalidObservationTime else
     and_then (ok_or ManifestInvalidCommittedInventory
       (mc_new crate (ma_trade_id material) (ma_generation material) (ma_policy_digest material) observed_at
         prerequisites (ma_sources material) (ma_observations material))) (\<lambda>inner.
       Inr \<lparr>rm_inner = inner, rm_attempt_id = ma_attempt_id material, rm_job_id = ma_job_id material,
          rm_reducer_mutations = ma_reducer_mutations material\<rparr>))"

end
