(* ===== verification/Reconciliation_Reducer.thy ===== *)
theory Reconciliation_Reducer
  imports Reconciliation_Manifest
begin

text \<open>
  Reduction of a manifest to a projection and the evaluation of one agreement claim against it,
  \<open>src/src/reconciliation_reducer.rs\<close>.  The trade reducer, the parser of a canonical mutation and SHA-256
  belong to other crates: the first two are the record \<open>reducer_crate\<close>.
\<close>

section \<open>Data\<close>

datatype reducer_error = ReducerInvalidManifest | ReducerProjectionUnavailable

fun reducer_error_code :: "reducer_error \<Rightarrow> string" where
  "reducer_error_code ReducerInvalidManifest = ''reconciliation_reducer_manifest_invalid''"
| "reducer_error_code ReducerProjectionUnavailable = ''reconciliation_reducer_projection_unavailable''"

datatype evidence_state = EvidenceStateMissing | EvidenceStateQueryPartial | EvidenceStateUnsupportedVersion
  | EvidenceStateComplete

datatype evidence_outcome = OutcomeValid | OutcomeInvalid | OutcomeIndeterminate

datatype reason_code = RequiredEvidenceMissing | RequiredSourceIncomplete | RequiredSourceUnsupported
  | ProjectionDigestUnavailable | GoverningSchemaUnsupported | ReducerIssueUnresolved | AgreementClaimMissing
  | AgreementClaimUnresolved | ScopeSatisfied | AgreementClaimCancelled

fun reason_code_text :: "reason_code \<Rightarrow> string" where
  "reason_code_text RequiredEvidenceMissing = ''required_evidence_missing''"
| "reason_code_text RequiredSourceIncomplete = ''required_source_incomplete''"
| "reason_code_text RequiredSourceUnsupported = ''required_source_unsupported''"
| "reason_code_text ProjectionDigestUnavailable = ''projection_digest_unavailable''"
| "reason_code_text GoverningSchemaUnsupported = ''governing_schema_unsupported''"
| "reason_code_text ReducerIssueUnresolved = ''reducer_issue_unresolved''"
| "reason_code_text AgreementClaimMissing = ''agreement_claim_missing''"
| "reason_code_text AgreementClaimUnresolved = ''agreement_claim_unresolved''"
| "reason_code_text ScopeSatisfied = ''scope_satisfied''"
| "reason_code_text AgreementClaimCancelled = ''agreement_claim_cancelled''"

text \<open>A projection of the trade crate: what its accessors return.\<close>

record shared_projection =
  sp_reducer_contract_id :: string
  sp_reducer_version :: nat
  sp_trade_id :: bytes
  sp_projection_digest :: string
  sp_evidence_state :: evidence_state
  sp_issue_count :: nat
  sp_agreement_claims :: "bytes list"
  sp_active_agreement_claims :: "bytes list"
  sp_contested_claims :: "bytes list"
  sp_cancelled_claims :: "bytes list"
  sp_agreement_agreed :: bool

record 't parsed_mutation =
  pm_mutation_id :: "bytes option"
  pm_trade_id :: bytes
  pm_body :: 't

record 't reducer_crate =
  rc_contract_id :: string
  rc_version :: nat
  rc_parse :: "bytes \<Rightarrow> 't parsed_mutation option"
  rc_reduce :: "bytes \<Rightarrow> (bytes \<times> 't parsed_mutation) list \<Rightarrow> evidence_state \<Rightarrow> nat \<Rightarrow> shared_projection"

record 'm reconciliation_projection =
  rj_manifest :: "'m reconciliation_manifest"
  rj_shared :: shared_projection
  rj_shared_digest :: "bytes option"
  rj_digest :: "bytes option"

record 'm reconciliation_evaluation =
  re_projection :: "'m reconciliation_projection"
  re_claim_mutation_id :: bytes
  re_coverage :: evidence_coverage
  re_outcome :: evidence_outcome
  re_reason_codes :: "reason_code list"

record evaluation_facts =
  ef_coverage :: evidence_coverage
  ef_shared_evidence :: evidence_state
  ef_projection_digest_available :: bool
  ef_reducer_issue_present :: bool
  ef_claim_present :: bool
  ef_claim_active :: bool
  ef_claim_contested :: bool
  ef_claim_cancelled :: bool
  ef_agreement_agreed :: bool

section \<open>The digest\<close>

text \<open>A byte of the text, as \<open>value - b'0'\<close> or \<open>value - b'a' + 10\<close>.\<close>

definition decode_lower_hex :: "char \<Rightarrow> nat option" where
  "decode_lower_hex c =
     (let value = of_char c :: nat in
      if 48 \<le> value \<and> value \<le> 57 then Some (value - 48)
      else if 97 \<le> value \<and> value \<le> 102 then Some (value - 97 + 10) else None)"

text \<open>The two checked operations are on \<open>u8\<close>.\<close>

fun decode_hex_pairs :: "string \<Rightarrow> bytes option" where
  "decode_hex_pairs (high # low # rest) =
     Option.bind (decode_lower_hex high) (\<lambda>h.
     Option.bind (if h * 16 \<le> 255 then Some (h * 16) else None) (\<lambda>h.
     Option.bind (decode_lower_hex low) (\<lambda>l.
     Option.bind (if h + l \<le> 255 then Some (h + l) else None) (\<lambda>byte.
       map_option (\<lambda>rest. word_of_nat byte # rest) (decode_hex_pairs rest)))))"
| "decode_hex_pairs _ = Some []"

definition decode_lower_hex_32 :: "string \<Rightarrow> bytes option" where
  "decode_lower_hex_32 value = (if length value \<noteq> 64 then None else decode_hex_pairs value)"

definition PROJECTION_DIGEST_DOMAIN :: bytes where
  "PROJECTION_DIGEST_DOMAIN = ascii_bytes ''radroots.rhi.reconciliation_projection.v1'' @ [0]"

definition projection_digest ::
  "(bytes \<Rightarrow> bytes) \<Rightarrow> 'm manifest_crate \<Rightarrow> 't reducer_crate \<Rightarrow> 'm reconciliation_manifest \<Rightarrow> bytes \<Rightarrow> bytes option" where
  "projection_digest sha256 crate reducer manifest shared =
     (if u64_max < length (rc_contract_id reducer) then None
      else Some (sha256 (PROJECTION_DIGEST_DOMAIN @ to_be_bytes 4 1 @ to_be_bytes 8 (length (rc_contract_id reducer))
        @ ascii_bytes (rc_contract_id reducer) @ to_be_bytes 2 (rc_version reducer)
        @ mc_digest crate (rm_inner manifest) @ mc_policy_digest crate (rm_inner manifest) @ shared)))"

section \<open>Reduction\<close>

text \<open>
  \<open>binary_search_by_key\<close> of the standard library: \<open>base\<close> and \<open>len\<close> halve the slice, then one comparison
  decides.  \<open>Inl\<close> is \<open>Err\<close>.
\<close>

function binary_search_loop :: "('a \<Rightarrow> 'k::linorder) \<Rightarrow> 'k \<Rightarrow> 'a list \<Rightarrow> nat \<Rightarrow> nat \<Rightarrow> nat" where
  "binary_search_loop key k xs base len =
     (if len \<le> 1 then base
      else let half = len div 2; mid = base + half in
        binary_search_loop key k xs (if k < key (xs ! mid) then base else mid) (len - half))"
  by pat_completeness auto
termination by (relation "measure (\<lambda>(key, k, xs, base, len). len)") auto

declare binary_search_loop.simps [simp del]

definition binary_search_by_key :: "('a \<Rightarrow> 'k::linorder) \<Rightarrow> 'k \<Rightarrow> 'a list \<Rightarrow> nat + nat" where
  "binary_search_by_key key k xs =
     (if xs = [] then Inl 0
      else let base = binary_search_loop key k xs 0 (length xs) in
        if key (xs ! base) = k then Inr base
        else Inl (base + of_bool (key (xs ! base) < k)))"

definition material_lengths_within_bounds :: "nat \<Rightarrow> nat list \<Rightarrow> bool" where
  "material_lengths_within_bounds n lengths \<longleftrightarrow>
     n \<le> RHI_REDUCER_MAXIMUM_MUTATIONS
   \<and> (case checked_sum 0 lengths of None \<Rightarrow> False
      | Some bytes \<Rightarrow> bytes \<le> RHI_REDUCER_MAXIMUM_MUTATION_MATERIAL_BYTES)"

definition mutation_material_within_bounds :: "mutation_material list \<Rightarrow> bool" where
  "mutation_material_within_bounds materials \<longleftrightarrow>
     material_lengths_within_bounds (length materials) (map (\<lambda>m. length (mm_canonical_content m)) materials)"

fun evidence_state_of :: "evidence_coverage \<Rightarrow> evidence_state" where
  "evidence_state_of CoverageMissing = EvidenceStateMissing"
| "evidence_state_of CoveragePartial = EvidenceStateQueryPartial"
| "evidence_state_of CoverageScopeSatisfied = EvidenceStateComplete"
| "evidence_state_of CoverageUnsupported = EvidenceStateUnsupportedVersion"

definition inventory_of :: "manifest_observation list \<Rightarrow> (bytes \<times> bytes) list" where
  "inventory_of observations = map (\<lambda>observation. (mo_mutation_id observation, mo_event_id observation)) observations"

text \<open>\<open>core::str::from_utf8\<close> and the parser, for one mutation of the manifest.\<close>

definition reduce_material ::
  "'t reducer_crate \<Rightarrow> bytes \<Rightarrow> (bytes \<times> bytes) list \<Rightarrow> mutation_material
     \<Rightarrow> (reducer_error, bytes \<times> 't parsed_mutation) result" where
  "reduce_material reducer trade inventory material =
     (if (mm_mutation_id material, mm_event_id material) \<notin> set inventory then Inl ReducerInvalidManifest else
     and_then (ensure (from_utf8 (mm_canonical_content material) \<noteq> None) ReducerInvalidManifest) (\<lambda>_.
     and_then (ok_or ReducerInvalidManifest (rc_parse reducer (mm_canonical_content material))) (\<lambda>mutation.
     if pm_mutation_id mutation \<noteq> Some (mm_mutation_id material) \<or> pm_trade_id mutation \<noteq> trade
     then Inl ReducerInvalidManifest
     else Inr (mm_event_id material, mutation))))"

definition reduce_rhi_reconciliation_manifest ::
  "(bytes \<Rightarrow> bytes) \<Rightarrow> 'm manifest_crate \<Rightarrow> 't reducer_crate \<Rightarrow> 'm reconciliation_manifest
     \<Rightarrow> (reducer_error, 'm reconciliation_projection) result" where
  "reduce_rhi_reconciliation_manifest sha256 crate reducer manifest =
     (let inner = rm_inner manifest; materials = rm_reducer_mutations manifest;
          observations = mc_observations crate inner in
     if \<not> mutation_material_within_bounds materials then Inl ReducerInvalidManifest
     else if list_ex (\<lambda>observation.
         \<not> is_ok (binary_search_by_key mm_mutation_id (mo_mutation_id observation) materials)) observations
     then Inl ReducerInvalidManifest else
     and_then (collect (map (reduce_material reducer (mc_trade_id crate inner) (inventory_of observations)) materials))
       (\<lambda>mutations.
     (let shared = rc_reduce reducer (mc_trade_id crate inner) mutations (evidence_state_of (mc_coverage crate inner))
            (mc_observed_at crate inner) in
     if sp_reducer_contract_id shared \<noteq> rc_contract_id reducer \<or> sp_reducer_version shared \<noteq> rc_version reducer
        \<or> sp_trade_id shared \<noteq> mc_trade_id crate inner
     then Inl ReducerProjectionUnavailable
     else (let shared_digest = decode_lower_hex_32 (sp_projection_digest shared) in
       Inr \<lparr>rj_manifest = manifest, rj_shared = shared, rj_shared_digest = shared_digest,
         rj_digest = Option.bind shared_digest (projection_digest sha256 crate reducer manifest)\<rparr>))))"

section \<open>Evaluation\<close>

definition classify_evaluation :: "evaluation_facts \<Rightarrow> evidence_outcome \<times> reason_code" where
  "classify_evaluation facts =
     (case ef_coverage facts of
        CoverageMissing \<Rightarrow> (OutcomeIndeterminate, RequiredEvidenceMissing)
      | CoveragePartial \<Rightarrow> (OutcomeIndeterminate, RequiredSourceIncomplete)
      | CoverageUnsupported \<Rightarrow> (OutcomeIndeterminate, RequiredSourceUnsupported)
      | CoverageScopeSatisfied \<Rightarrow>
         if \<not> ef_projection_digest_available facts then (OutcomeIndeterminate, ProjectionDigestUnavailable)
         else (case ef_shared_evidence facts of
             EvidenceStateMissing \<Rightarrow> (OutcomeIndeterminate, RequiredEvidenceMissing)
           | EvidenceStateQueryPartial \<Rightarrow> (OutcomeIndeterminate, RequiredSourceIncomplete)
           | EvidenceStateUnsupportedVersion \<Rightarrow> (OutcomeIndeterminate, GoverningSchemaUnsupported)
           | EvidenceStateComplete \<Rightarrow>
              if ef_reducer_issue_present facts \<or> ef_claim_contested facts
                 \<or> (ef_claim_active facts \<and> ef_claim_cancelled facts)
              then (OutcomeIndeterminate, ReducerIssueUnresolved)
              else if \<not> ef_claim_present facts then (OutcomeIndeterminate, AgreementClaimMissing)
              else if ef_claim_active facts \<and> ef_agreement_agreed facts then (OutcomeValid, ScopeSatisfied)
              else if ef_claim_cancelled facts \<and> \<not> ef_claim_active facts
              then (OutcomeInvalid, AgreementClaimCancelled)
              else (OutcomeIndeterminate, AgreementClaimUnresolved)))"

definition evaluation_facts_of ::
  "'m manifest_crate \<Rightarrow> 'm reconciliation_projection \<Rightarrow> bytes \<Rightarrow> evaluation_facts" where
  "evaluation_facts_of crate projection claim =
     (let shared = rj_shared projection in
      \<lparr>ef_coverage = mc_coverage crate (rm_inner (rj_manifest projection)),
       ef_shared_evidence = sp_evidence_state shared,
       ef_projection_digest_available = (rj_digest projection \<noteq> None),
       ef_reducer_issue_present = (sp_issue_count shared \<noteq> 0),
       ef_claim_present = (claim \<in> set (sp_agreement_claims shared)),
       ef_claim_active = (claim \<in> set (sp_active_agreement_claims shared)),
       ef_claim_contested = (claim \<in> set (sp_contested_claims shared)),
       ef_claim_cancelled = (claim \<in> set (sp_cancelled_claims shared)),
       ef_agreement_agreed = sp_agreement_agreed shared\<rparr>)"

definition evaluate_rhi_reconciliation_claim ::
  "'m manifest_crate \<Rightarrow> 'm reconciliation_projection \<Rightarrow> bytes \<Rightarrow> 'm reconciliation_evaluation" where
  "evaluate_rhi_reconciliation_claim crate projection claim =
     (let facts = evaluation_facts_of crate projection claim; (outcome, reason) = classify_evaluation facts in
      \<lparr>re_projection = projection, re_claim_mutation_id = claim, re_coverage = ef_coverage facts,
       re_outcome = outcome, re_reason_codes = [reason]\<rparr>)"

end
