(* ===== verification/Reconciliation_Commit.thy ===== *)
theory Reconciliation_Commit
  imports Reconciliation_Reducer
begin

text \<open>
  The atomic commit of the source results of one attempt, \<open>src/src/reconciliation_commit.rs\<close>, and the two
  append-only tables it writes: \<open>evidence_reconciliations\<close> and \<open>evidence_reconciliation_sources\<close>.  The commit
  is fenced by the exact lease, the dirty generation and the prior cursors, and a repeated commit is
  recognised by the rows it left.
\<close>

section \<open>Tables\<close>

record reconciliation_row =
  ea_attempt_id :: bytes
  ea_job_id :: bytes
  ea_trade_id :: bytes
  ea_input_generation :: int
  ea_evidence_policy_sha256 :: bytes
  ea_attempt_started_unix_ms :: int
  ea_deadline_unix_ms :: int
  ea_source_count :: int

record source_row =
  es_attempt_id :: bytes
  es_request_id :: bytes
  es_source_ordinal :: int
  es_source_id :: string
  es_trade_id :: bytes
  es_required :: int
  es_selector_sha256 :: bytes
  es_replay_id :: bytes
  es_completion :: string
  es_started_unix_ms :: int
  es_finished_unix_ms :: int
  es_accepted_event_count :: int
  es_accepted_event_bytes :: int
  es_accepted_inventory_sha256 :: bytes
  es_duplicate_observation_count :: int
  es_first_observed_unix_s :: "int option"
  es_prior_cursor_created_at_unix_s :: "int option"
  es_prior_cursor_event_id :: "bytes option"
  es_overlap_seconds :: int
  es_inclusive_since_unix_s :: int
  es_candidate_created_at_unix_s :: "int option"
  es_candidate_event_id :: "bytes option"
  es_checkpoint_advanced :: int

record commit_store = evidence_store +
  attempt_rows :: "reconciliation_row list"
  source_rows :: "source_row list"

definition sql_range :: "int \<Rightarrow> int \<Rightarrow> int \<Rightarrow> bool" where
  "sql_range v low high \<longleftrightarrow> low \<le> v \<and> v \<le> high"

definition reconciliation_row_check :: "reconciliation_row \<Rightarrow> bool" where
  "reconciliation_row_check r \<longleftrightarrow>
     length (ea_attempt_id r) = 32 \<and> length (ea_job_id r) = 32 \<and> length (ea_trade_id r) = 16
   \<and> sql_range (ea_input_generation r) 1 sql_i64_max
   \<and> length (ea_evidence_policy_sha256 r) = 32
   \<and> sql_range (ea_attempt_started_unix_ms r) 0 sql_i64_max
   \<and> sql_range (ea_deadline_unix_ms r) (ea_attempt_started_unix_ms r + 1) sql_i64_max
   \<and> sql_range (ea_source_count r) 1 16"

definition reconciliations_valid :: "job_row list \<Rightarrow> reconciliation_row list \<Rightarrow> bool" where
  "reconciliations_valid job_rows rows \<longleftrightarrow>
     list_all reconciliation_row_check rows \<and> distinct (map ea_attempt_id rows)
   \<and> set (map ea_job_id rows) \<subseteq> set (map jr_job_id job_rows)"

definition completion_codes :: "string list" where
  "completion_codes = [''complete'', ''incomplete_timeout'', ''incomplete_unavailable'', ''incomplete_resource_limit'',
     ''incomplete_unknown'', ''unsupported'']"

text \<open>A check on a nullable column holds of \<open>NULL\<close>.\<close>

definition source_row_check :: "source_row \<Rightarrow> bool" where
  "source_row_check r \<longleftrightarrow>
     length (es_attempt_id r) = 32 \<and> length (es_request_id r) = 32
   \<and> sql_range (es_source_ordinal r) 0 15
   \<and> source_id_check (es_source_id r)
   \<and> length (es_trade_id r) = 16
   \<and> sql_range (es_required r) 0 1
   \<and> length (es_selector_sha256 r) = 32 \<and> length (es_replay_id r) = 32
   \<and> es_completion r \<in> set completion_codes
   \<and> sql_range (es_started_unix_ms r) 0 sql_i64_max
   \<and> sql_range (es_finished_unix_ms r) (es_started_unix_ms r) sql_i64_max
   \<and> sql_range (es_accepted_event_count r) 0 4096
   \<and> sql_range (es_accepted_event_bytes r) 0 8388608
   \<and> length (es_accepted_inventory_sha256 r) = 32
   \<and> sql_range (es_duplicate_observation_count r) 0 4096
   \<and> pred_option (\<lambda>v. sql_range v 0 sql_i64_max) (es_first_observed_unix_s r)
   \<and> pred_option (\<lambda>v. sql_range v 0 sql_i64_max) (es_prior_cursor_created_at_unix_s r)
   \<and> pred_option (\<lambda>b. length b = 32) (es_prior_cursor_event_id r)
   \<and> sql_range (es_overlap_seconds r) 1 86400
   \<and> sql_range (es_inclusive_since_unix_s r) 0 sql_i64_max
   \<and> pred_option (\<lambda>v. sql_range v 0 sql_i64_max) (es_candidate_created_at_unix_s r)
   \<and> pred_option (\<lambda>b. length b = 32) (es_candidate_event_id r)
   \<and> sql_range (es_checkpoint_advanced r) 0 1
   \<and> (es_accepted_event_count r = 0) = (es_accepted_event_bytes r = 0)
   \<and> (es_accepted_event_count r = 0) = (es_first_observed_unix_s r = None)
   \<and> (es_accepted_event_count r = 0) = (es_candidate_created_at_unix_s r = None)
   \<and> (es_candidate_created_at_unix_s r = None) = (es_candidate_event_id r = None)
   \<and> (es_prior_cursor_created_at_unix_s r = None) = (es_prior_cursor_event_id r = None)
   \<and> (es_checkpoint_advanced r = 0 \<or> es_completion r = ''complete'')
   \<and> (es_checkpoint_advanced r = 0 \<or> es_candidate_event_id r \<noteq> None)"

definition sources_valid :: "reconciliation_row list \<Rightarrow> source_row list \<Rightarrow> bool" where
  "sources_valid attempts rows \<longleftrightarrow>
     list_all source_row_check rows
   \<and> distinct (map (\<lambda>r. (es_attempt_id r, es_request_id r)) rows)
   \<and> distinct (map (\<lambda>r. (es_attempt_id r, es_source_ordinal r)) rows)
   \<and> set (map es_attempt_id rows) \<subseteq> set (map ea_attempt_id attempts)"

section \<open>Data\<close>

datatype commit_error_kind = CommitInvalidMode | CommitInvalidInput | CommitLeaseLost | CommitGenerationConflict
  | CommitConflict | CommitStorage | CommitUnknownOutcome

fun commit_error_code :: "commit_error_kind \<Rightarrow> string" where
  "commit_error_code CommitInvalidMode = ''reconciliation_commit_mode_invalid''"
| "commit_error_code CommitInvalidInput = ''reconciliation_commit_input_invalid''"
| "commit_error_code CommitLeaseLost = ''reconciliation_commit_lease_lost''"
| "commit_error_code CommitGenerationConflict = ''reconciliation_commit_generation_conflict''"
| "commit_error_code CommitConflict = ''reconciliation_commit_conflict''"
| "commit_error_code CommitStorage = ''reconciliation_commit_storage_failed''"
| "commit_error_code CommitUnknownOutcome = ''reconciliation_commit_outcome_unknown''"

datatype commit_operation_error = CoLeaseLost | CoGenerationConflict | CoConflict | CoStorage

record raw_commit_outcome =
  rw_created :: bool
  rw_source_result_count :: nat
  rw_checkpoint_advance_count :: nat
  rw_dirty_generation_advanced :: bool
  rw_cursor_scopes :: "cursor_evidence list"

record commit_outcome =
  oc_created :: bool
  oc_source_result_count :: nat
  oc_checkpoint_advance_count :: nat
  oc_dirty_generation_advanced :: bool
  oc_committed_cursors :: "cursor_evidence list"
  oc_manifest_material :: manifest_material

fun commit_persistence_error :: "persistence_error \<Rightarrow> commit_operation_error" where
  "commit_persistence_error PersistMutationConflict = CoConflict"
| "commit_persistence_error PersistSignedEventConflict = CoConflict"
| "commit_persistence_error PersistStorage = CoStorage"

fun commit_source_error :: "source_error \<Rightarrow> commit_operation_error" where
  "commit_source_error SrcGenerationConflict = CoGenerationConflict"
| "commit_source_error (SrcPersistence e) = commit_persistence_error e"
| "commit_source_error SrcStorage = CoStorage"

fun commit_lease_error :: "lease_validation_error \<Rightarrow> commit_operation_error" where
  "commit_lease_error ValidationLeaseLost = CoLeaseLost"
| "commit_lease_error ValidationStorage = CoStorage"

fun map_commit_error :: "commit_operation_error tx_error \<Rightarrow> commit_error_kind" where
  "map_commit_error CommitOutcomeUnknown = CommitUnknownOutcome"
| "map_commit_error (OperationFailed CoLeaseLost) = CommitLeaseLost"
| "map_commit_error (OperationFailed CoGenerationConflict) = CommitGenerationConflict"
| "map_commit_error (OperationFailed CoConflict) = CommitConflict"
| "map_commit_error (OperationFailed CoStorage) = CommitStorage"
| "map_commit_error HostFailed = CommitStorage"

section \<open>Rows of an attempt\<close>

text \<open>The bound columns of \<open>INSERT_ATTEMPT_SQL\<close> and of \<open>MATCH_ATTEMPT_SQL\<close>.\<close>

definition reconciliation_row_of :: "attempt_plan \<Rightarrow> (commit_operation_error, reconciliation_row) result" where
  "reconciliation_row_of plan =
     (case ap_requests plan of [] \<Rightarrow> Inl CoStorage
      | first # _ \<Rightarrow>
     and_then (i64_of_u64 CoStorage (ap_input_generation plan)) (\<lambda>generation.
     and_then (i64_of_u64 CoStorage (ap_attempt_started_at plan)) (\<lambda>started_at.
     and_then (i64_of_u64 CoStorage (ap_deadline plan)) (\<lambda>deadline.
     and_then (i64_of_u64 CoStorage (length (ap_requests plan))) (\<lambda>source_count.
       Inr \<lparr>ea_attempt_id = ap_id plan, ea_job_id = ap_job_id plan, ea_trade_id = rq_trade_id first,
         ea_input_generation = generation, ea_evidence_policy_sha256 = ap_policy_digest plan,
         ea_attempt_started_unix_ms = started_at, ea_deadline_unix_ms = deadline, ea_source_count = source_count\<rparr>)))))"

definition i64_option :: "nat option \<Rightarrow> (commit_operation_error, int option) result" where
  "i64_option value = transpose (map_option (i64_of_u64 CoStorage) value)"

definition source_row_of ::
  "(bytes \<Rightarrow> bytes) \<Rightarrow> bytes \<Rightarrow> nat \<Rightarrow> commit_parts \<Rightarrow> (commit_operation_error, source_row) result" where
  "source_row_of sha256 attempt ordinal part =
     (let result = cp_result part in
     and_then (i64_option (map_option cu_created_at (cp_prior_cursor part))) (\<lambda>prior_created.
     and_then (i64_option (map_option cu_created_at (cp_cursor_candidate part))) (\<lambda>candidate_created.
     and_then (ok_or CoStorage (accepted_inventory_digest sha256 (cp_facts part))) (\<lambda>inventory.
     and_then (i64_of_u64 CoStorage ordinal) (\<lambda>source_ordinal.
     and_then (i64_of_u64 CoStorage (sr_started_at result)) (\<lambda>started_at.
     and_then (i64_of_u64 CoStorage (sr_finished_at result)) (\<lambda>finished_at.
     and_then (i64_of_u64 CoStorage (sr_accepted_event_bytes result)) (\<lambda>event_bytes.
     and_then (i64_option (cp_first_observed_at part)) (\<lambda>first_observed.
     and_then (i64_of_u64 CoStorage (cp_overlap_seconds part)) (\<lambda>overlap.
     and_then (i64_of_u64 CoStorage (cp_since_unix_seconds part)) (\<lambda>since.
       Inr \<lparr>es_attempt_id = attempt, es_request_id = cp_request_id part, es_source_ordinal = source_ordinal,
         es_source_id = cp_source_id part, es_trade_id = cp_trade_id part, es_required = of_bool (cp_required part),
         es_selector_sha256 = cp_selector_digest part, es_replay_id = cp_replay_id part,
         es_completion = source_completion_code (sr_outcome result), es_started_unix_ms = started_at,
         es_finished_unix_ms = finished_at, es_accepted_event_count = int (sr_accepted_event_count result),
         es_accepted_event_bytes = event_bytes, es_accepted_inventory_sha256 = inventory,
         es_duplicate_observation_count = int (cp_duplicate_observations part),
         es_first_observed_unix_s = first_observed, es_prior_cursor_created_at_unix_s = prior_created,
         es_prior_cursor_event_id = map_option cu_event_id (cp_prior_cursor part), es_overlap_seconds = overlap,
         es_inclusive_since_unix_s = since, es_candidate_created_at_unix_s = candidate_created,
         es_candidate_event_id = map_option cu_event_id (cp_cursor_candidate part),
         es_checkpoint_advanced = of_bool (cp_eligible_cursor part \<noteq> None)\<rparr>)))))))))))"

text \<open>The number of rows whose columns are those bound; \<open>IS\<close> compares \<open>NULL\<close> as a value.\<close>

definition match_attempt :: "attempt_plan \<Rightarrow> 'a commit_store_scheme \<Rightarrow> (commit_operation_error, nat) result" where
  "match_attempt plan s = and_then (reconciliation_row_of plan) (\<lambda>row. Inr (length (filter (\<lambda>r. r = row) (attempt_rows s))))"

definition match_source_result ::
  "(bytes \<Rightarrow> bytes) \<Rightarrow> bytes \<Rightarrow> nat \<Rightarrow> commit_parts \<Rightarrow> 'a commit_store_scheme \<Rightarrow> (commit_operation_error, nat) result" where
  "match_source_result sha256 attempt ordinal part s =
     and_then (source_row_of sha256 attempt ordinal part) (\<lambda>row. Inr (length (filter (\<lambda>r. r = row) (source_rows s))))"

definition commit_insert_attempt ::
  "attempt_plan \<Rightarrow> 'a commit_store_scheme \<Rightarrow> (commit_operation_error, 'a commit_store_scheme) result" where
  "commit_insert_attempt plan s =
     and_then (reconciliation_row_of plan) (\<lambda>row.
     (case sql_insert (\<lambda>_ _. True) (reconciliations_valid (jobs s)) row (attempt_rows s) of
        None \<Rightarrow> Inl CoStorage
      | Some rows \<Rightarrow> Inr (s\<lparr>attempt_rows := rows\<rparr>)))"

definition insert_source_result ::
  "(bytes \<Rightarrow> bytes) \<Rightarrow> bytes \<Rightarrow> nat \<Rightarrow> commit_parts \<Rightarrow> 'a commit_store_scheme
     \<Rightarrow> (commit_operation_error, 'a commit_store_scheme) result" where
  "insert_source_result sha256 attempt ordinal part s =
     and_then (source_row_of sha256 attempt ordinal part) (\<lambda>row.
     (case sql_insert (\<lambda>_ _. True) (sources_valid (attempt_rows s)) row (source_rows s) of
        None \<Rightarrow> Inl CoStorage
      | Some rows \<Rightarrow> Inr (s\<lparr>source_rows := rows\<rparr>)))"

section \<open>Recognising a repeated commit\<close>

fun reconcile_sources ::
  "(bytes \<Rightarrow> bytes) \<Rightarrow> attempt_plan \<Rightarrow> nat \<Rightarrow> commit_parts list \<Rightarrow> 'a commit_store_scheme
     \<Rightarrow> (commit_operation_error, bool) result" where
  "reconcile_sources sha256 plan ordinal [] s = Inr True"
| "reconcile_sources sha256 plan ordinal (part # parts) s =
     and_then (match_source_result sha256 (ap_id plan) ordinal part s) (\<lambda>n.
     if n \<noteq> 1 then Inl CoConflict else
     and_then
       (case cp_eligible_cursor part of
          None \<Rightarrow> Inr ()
        | Some candidate \<Rightarrow>
            and_then (map_err commit_source_error
              (read_checkpoint (cp_source_id part) (ap_policy_digest plan) (cp_trade_id part) s)) (\<lambda>found.
            and_then (ok_or CoConflict found) (\<lambda>checkpoint.
              if cursor_lt (sk_cursor checkpoint) candidate then Inl CoConflict else Inr ()))) (\<lambda>_.
       reconcile_sources sha256 plan (ordinal + 1) parts s))"

definition reconcile_existing ::
  "(bytes \<Rightarrow> bytes) \<Rightarrow> attempt_plan \<Rightarrow> commit_parts list \<Rightarrow> 'a commit_store_scheme \<Rightarrow> (commit_operation_error, bool) result"
  where
  "reconcile_existing sha256 plan parts s =
     (let n = length (filter (\<lambda>r. ea_attempt_id r = ap_id plan) (attempt_rows s)) in
     if n = 0 then Inr False
     else if n \<noteq> 1 then Inl CoConflict else
     and_then (match_attempt plan s) (\<lambda>matching.
     if matching \<noteq> 1 then Inl CoConflict
     else if length (filter (\<lambda>r. es_attempt_id r = ap_id plan) (source_rows s)) \<noteq> length parts then Inl CoConflict
     else reconcile_sources sha256 plan 0 parts s))"

section \<open>The commit\<close>

definition part_scope :: "commit_parts \<Rightarrow> cursor_evidence option" where
  "part_scope part = map_option (\<lambda>cursor. \<lparr>ce_source_id = cp_source_id part, ce_trade_id = cp_trade_id part,
     ce_policy_digest = cp_policy_digest part, ce_selector_digest = cp_selector_digest part, ce_cursor = cursor\<rparr>)
     (cp_eligible_cursor part)"

definition raw_outcome :: "bool \<Rightarrow> bool \<Rightarrow> commit_parts list \<Rightarrow> (commit_operation_error, raw_commit_outcome) result" where
  "raw_outcome created dirty_advanced parts =
     (let scopes = List.map_filter part_scope parts in
     and_then (ensure (length parts \<le> 4294967295) CoStorage) (\<lambda>_.
     and_then (ensure (length scopes \<le> 4294967295) CoStorage) (\<lambda>_.
       Inr \<lparr>rw_created = created, rw_source_result_count = length parts, rw_checkpoint_advance_count = length scopes,
         rw_dirty_generation_advanced = dirty_advanced, rw_cursor_scopes = scopes\<rparr>)))"

fun read_checkpoints ::
  "bytes \<Rightarrow> commit_parts list \<Rightarrow> 'a evidence_store_scheme \<Rightarrow> (commit_operation_error, source_checkpoint option list) result" where
  "read_checkpoints policy [] s = Inr []"
| "read_checkpoints policy (part # parts) s =
     and_then (map_err commit_source_error (read_checkpoint (cp_source_id part) policy (cp_trade_id part) s)) (\<lambda>checkpoint.
     if map_option sk_cursor checkpoint \<noteq> cp_prior_cursor part then Inl CoGenerationConflict else
     and_then (read_checkpoints policy parts s) (\<lambda>rest. Inr (checkpoint # rest)))"

fun persist_facts ::
  "string \<Rightarrow> bytes \<Rightarrow> commit_fact list \<Rightarrow> bool \<Rightarrow> 'a evidence_store_scheme
     \<Rightarrow> (commit_operation_error, bool \<times> 'a evidence_store_scheme) result" where
  "persist_facts source_id policy [] new_evidence s = Inr (new_evidence, s)"
| "persist_facts source_id policy (f # fs) new_evidence s =
     and_then (map_err commit_persistence_error (persist (cf_record f)
       (observation_from_persistence_parts source_id policy (cf_record f) (cf_observed_at f)) s)) (\<lambda>(out, s).
       persist_facts source_id policy fs (new_evidence \<or> po_mutation_inserted out \<or> po_signed_event_inserted out) s)"

fun persist_parts ::
  "bytes \<Rightarrow> commit_parts list \<Rightarrow> bool \<Rightarrow> 'a evidence_store_scheme
     \<Rightarrow> (commit_operation_error, bool \<times> 'a evidence_store_scheme) result" where
  "persist_parts policy [] new_evidence s = Inr (new_evidence, s)"
| "persist_parts policy (part # parts) new_evidence s =
     and_then (persist_facts (cp_source_id part) policy (cp_facts part) new_evidence s) (\<lambda>(new_evidence, s).
       persist_parts policy parts new_evidence s)"

text \<open>\<open>parts.iter().map(finished_at / 1000).max()\<close>.\<close>

definition latest_finish :: "commit_parts list \<Rightarrow> nat option" where
  "latest_finish parts =
     (if parts = [] then None else Some (Max ((\<lambda>part. sr_finished_at (cp_result part) div 1000) ` set parts)))"

fun write_results ::
  "(bytes \<Rightarrow> bytes) \<Rightarrow> attempt_plan \<Rightarrow> nat \<Rightarrow> (commit_parts \<times> source_checkpoint option) list \<Rightarrow> 'a commit_store_scheme
     \<Rightarrow> (commit_operation_error, 'a commit_store_scheme) result" where
  "write_results sha256 plan ordinal [] s = Inr s"
| "write_results sha256 plan ordinal ((part, checkpoint) # rest) s =
     and_then
       (case cp_eligible_cursor part of
          None \<Rightarrow> Inr s
        | Some candidate \<Rightarrow> map_err commit_source_error (write_checkpoint (cp_source_id part) (ap_policy_digest plan)
            (cp_trade_id part) checkpoint candidate (sr_finished_at (cp_result part) div 1000) s)) (\<lambda>s.
     and_then (insert_source_result sha256 (ap_id plan) ordinal part s) (\<lambda>s.
       write_results sha256 plan (ordinal + 1) rest s))"

definition commit_replays ::
  "(bytes \<Rightarrow> bytes) \<Rightarrow> job_lease \<Rightarrow> attempt_plan \<Rightarrow> commit_parts list \<Rightarrow> 'a commit_store_scheme
     \<Rightarrow> (commit_operation_error, raw_commit_outcome \<times> 'a commit_store_scheme) result" where
  "commit_replays sha256 lease plan parts s =
     and_then (reconcile_existing sha256 plan parts s) (\<lambda>existing.
     if existing then and_then (raw_outcome False False parts) (\<lambda>out. Inr (out, s)) else
     and_then (map_err commit_lease_error (validate_exact_lease sha256 lease s)) (\<lambda>_.
     (let policy = ap_policy_digest plan; trade = job_trade_id (lease_job lease) in
     and_then (map_err commit_source_error (source_read_dirty trade s)) (\<lambda>found.
     and_then (ok_or CoGenerationConflict
       (option_filter (\<lambda>st. ds_generation st = ap_input_generation plan \<and> ds_policy st = policy) found)) (\<lambda>dirty.
     and_then (read_checkpoints policy parts s) (\<lambda>checkpoints.
     and_then (commit_insert_attempt plan s) (\<lambda>s.
     and_then (persist_parts policy parts False s) (\<lambda>(new_evidence, s).
     and_then
       (if new_evidence then
          and_then (ok_or CoStorage (latest_finish parts)) (\<lambda>updated_at.
          and_then (map_err commit_source_error (advance_dirty_generation trade policy updated_at (Some dirty) s))
            (\<lambda>(_, s). Inr s))
        else Inr s) (\<lambda>s.
     and_then (write_results sha256 plan 0 (zip parts checkpoints) s) (\<lambda>s.
     and_then (raw_outcome True new_evidence parts) (\<lambda>out. Inr (out, s))))))))))))"

definition parts_match :: "job_lease \<Rightarrow> attempt_plan \<Rightarrow> commit_parts \<times> source_request \<Rightarrow> bool" where
  "parts_match lease plan = (\<lambda>(replay, request).
     cp_request_id replay = rq_id request
   \<and> sr_request_id (cp_result replay) = rq_id request
   \<and> cp_source_id replay = rq_source_id request
   \<and> cp_trade_id replay = rq_trade_id request
   \<and> cp_required replay = rq_required request
   \<and> cp_trade_id replay = job_trade_id (lease_job lease)
   \<and> cp_policy_digest replay = ap_policy_digest plan
   \<and> cp_selector_digest replay = rq_selector_digest request
   \<and> sr_finished_at (cp_result replay) < lease_expires lease
   \<and> length (cp_facts replay) = sr_accepted_event_count (cp_result replay)
   \<and> \<not> (cp_eligible_cursor replay \<noteq> None \<and> sr_finished_at (cp_result replay) div 1000 = 0))"

definition commit_source_replays ::
  "(commit_operation_error, raw_commit_outcome, 'a commit_store_scheme) txn \<Rightarrow> (bytes \<Rightarrow> bytes) \<Rightarrow> 'm manifest_crate
     \<Rightarrow> state_host_mode \<Rightarrow> job_lease \<Rightarrow> attempt_plan \<Rightarrow> source_replay list \<Rightarrow> 'a commit_store_scheme
     \<Rightarrow> (commit_error_kind, commit_outcome) result \<times> 'a commit_store_scheme" where
  "commit_source_replays txn sha256 crate mode lease plan replays s =
     (if mode \<noteq> ReadWriteExisting then (Inl CommitInvalidMode, s) else
     (let replays = take (length (ap_requests plan) + 1) replays; job = lease_job lease in
     if length replays \<noteq> length (ap_requests plan) \<or> ap_job_id plan \<noteq> job_ident job
        \<or> ap_input_generation plan \<noteq> job_input_generation job \<or> ap_policy_digest plan \<noteq> job_policy_digest job
        \<or> lease_expires lease < ap_deadline plan
     then (Inl CommitInvalidInput, s) else
     (let parts = map into_commit_parts replays in
     if \<not> list_all (parts_match lease plan) (zip parts (ap_requests plan)) then (Inl CommitInvalidInput, s) else
     (case committed_manifest_material sha256 crate plan parts of
        None \<Rightarrow> (Inl CommitInvalidInput, s)
      | Some material \<Rightarrow>
         (case txn (commit_replays sha256 lease plan parts) s of
            (Inl e, s') \<Rightarrow> (Inl (map_commit_error e), s')
          | (Inr raw, s') \<Rightarrow>
              (Inr \<lparr>oc_created = rw_created raw, oc_source_result_count = rw_source_result_count raw,
                 oc_checkpoint_advance_count = rw_checkpoint_advance_count raw,
                 oc_dirty_generation_advanced = rw_dirty_generation_advanced raw,
                 oc_committed_cursors = rw_cursor_scopes raw, oc_manifest_material = material\<rparr>, s'))))))"

end
