(* ===== verification/Reconciliation_Attempt_Props.thy ===== *)
theory Reconciliation_Attempt_Props
  imports Reconciliation_Commit Reconciliation_Job_Witness
begin

text \<open>
  A plan is well formed: it is the plan of the leased job, it ends within the lease, and its requests are
  bounded, of one trade and strictly ordered by source, so that no two of them write one checkpoint.
\<close>

section \<open>Well-formed plans\<close>

definition request_wf :: "job_lease \<Rightarrow> attempt_plan \<Rightarrow> source_request \<Rightarrow> bool" where
  "request_wf lease plan rq \<longleftrightarrow>
     source_id_check (rq_source_id rq) \<and> rq_trade_id rq = job_trade_id (lease_job lease)
   \<and> rq_attempt_started_at rq = ap_attempt_started_at plan
   \<and> ap_attempt_started_at plan < rq_deadline rq \<and> rq_deadline rq \<le> ap_deadline plan
   \<and> 60 \<le> rq_lookback_seconds rq \<and> rq_lookback_seconds rq \<le> 2678400
   \<and> 1 \<le> rq_maximum_events rq \<and> rq_maximum_events rq \<le> RHI_TRADE_SOURCE_RESULT_MAX_EVENTS
   \<and> 1 \<le> rq_maximum_bytes rq \<and> rq_maximum_bytes rq \<le> RHI_TRADE_SOURCE_RESULT_MAX_BYTES"

definition plan_wf :: "job_lease \<Rightarrow> attempt_plan \<Rightarrow> bool" where
  "plan_wf lease plan \<longleftrightarrow>
     ap_job_id plan = job_ident (lease_job lease) \<and> ap_input_generation plan = job_input_generation (lease_job lease)
   \<and> ap_policy_digest plan = job_policy_digest (lease_job lease)
   \<and> ap_attempt_started_at plan < ap_deadline plan \<and> ap_deadline plan \<le> lease_expires lease
   \<and> ap_deadline plan \<le> ap_attempt_started_at plan + 30000 \<and> ap_deadline plan \<le> i64_max
   \<and> 1 \<le> length (ap_requests plan) \<and> length (ap_requests plan) \<le> RHI_RECONCILIATION_ATTEMPT_MAX_SOURCES
   \<and> list_all (request_wf lease plan) (ap_requests plan)
   \<and> sorted_wrt (<) (map (\<lambda>rq. ascii_bytes (rq_source_id rq)) (ap_requests plan))"

lemma absolute_deadline_bounds:
  "absolute_deadline started duration ceiling = Inr deadline \<Longrightarrow>
     started < deadline \<and> deadline \<le> ceiling \<and> deadline \<le> started + duration \<and> deadline \<le> i64_max"
  by (auto simp: absolute_deadline_def ok_or_def unix_milliseconds_new_def checked_add_def split: option.splits if_splits)

lemma source_id_bytes_later: "0 < n \<Longrightarrow> source_id_bytes n cs \<longleftrightarrow> list_all source_id_char cs"
  by (induction cs arbitrary: n) (auto simp: source_id_char_def)

lemma source_id_bytes_check: "v \<noteq> [] \<Longrightarrow> length v \<le> 64 \<Longrightarrow> source_id_bytes 0 v \<Longrightarrow> source_id_check v"
  by (cases v) (auto simp: source_id_check_def source_id_bytes_later source_id_char_def)

definition request_in :: "attempt_frame \<Rightarrow> source_request \<Rightarrow> bool" where
  "request_in frame rq \<longleftrightarrow> source_id_check (rq_source_id rq) \<and> rq_trade_id rq = af_trade_id frame
   \<and> rq_attempt_started_at rq = af_started_at frame \<and> af_started_at frame < rq_deadline rq
   \<and> rq_deadline rq \<le> af_deadline frame \<and> 60 \<le> rq_lookback_seconds rq \<and> rq_lookback_seconds rq \<le> 2678400
   \<and> rq_maximum_events rq = af_maximum_events frame \<and> rq_maximum_bytes rq = af_maximum_bytes frame"

lemma plan_request_in:
  assumes "plan_request view sha256 frame prior source = Inr rq"
  shows "request_in frame rq" and "prior = Some p \<Longrightarrow> ascii_bytes p < ascii_bytes (rq_source_id rq)"
  using assms absolute_deadline_bounds
  by (fastforce simp: plan_request_def request_in_def bounded_source_id_def bounded_integer_def ok_or_def source_id_bytes_check
      split: option.splits if_splits)+

lemma plan_requests_in:
  "plan_requests view sha256 frame prior sources = Inr requests \<Longrightarrow>
     length requests = length sources \<and> list_all (request_in frame) requests
   \<and> sorted_wrt (<) (map (\<lambda>rq. ascii_bytes (rq_source_id rq)) requests)
   \<and> (\<forall>p. prior = Some p \<longrightarrow> (\<forall>rq \<in> set requests. ascii_bytes p < ascii_bytes (rq_source_id rq)))"
proof (induction sources arbitrary: prior requests)
  case (Cons source sources)
  from Cons.prems obtain rq rest where rq: "plan_request view sha256 frame prior source = Inr rq"
    and rest: "plan_requests view sha256 frame (Some (rq_source_id rq)) sources = Inr rest" and eq: "requests = rq # rest"
    by auto
  show ?case using Cons.IH[OF rest] plan_request_in[OF rq] eq by (auto intro: less_trans)
qed simp

lemma parts_match_distinct:
  assumes "sorted_wrt (<) (map (\<lambda>rq. ascii_bytes (rq_source_id rq)) requests)"
    and "length parts = length requests" and "list_all (parts_match lease plan) (zip parts requests)"
  shows "distinct (map (\<lambda>part. (cp_source_id part, SOURCE_SELECTOR, policy, cp_trade_id part)) parts)"
proof -
  have "distinct (map rq_source_id requests)"
    using assms(1) by (auto simp: strict_sorted_iff distinct_map inj_on_def)
  moreover have "map cp_source_id parts = map rq_source_id requests"
    using assms(2,3) by (induction parts requests rule: list_induct2) (auto simp: parts_match_def)
  ultimately have "distinct (map cp_source_id parts)" by metis
  then show ?thesis by (auto simp: distinct_map inj_on_def)
qed

text \<open>
  C13.  A plan made from a claim is well formed: it is the plan of the leased job at its generation and
  policy, it starts before its deadline and ends within the lease and thirty seconds, and has one to sixteen
  requests, each of the trade of the job, with a checked source id, a deadline within the plan and bounded
  limits, strictly ordered by source id.  Therefore the results that match a plan name pairwise different
  checkpoints, which is what their commit relies on.
\<close>

theorem attempt_plan_sound:
  assumes "attempt_plan_from_claim view to_vec sha256 lease normalized started_at = Inr plan"
  shows "plan_wf lease plan \<and> ap_id plan = attempt_id sha256 (job_ident (lease_job lease)) (job_attempt_count (lease_job lease))
    \<and> (\<forall>parts. length parts = length (ap_requests plan) \<and> list_all (parts_match lease plan) (zip parts (ap_requests plan))
        \<longrightarrow> distinct (map (\<lambda>part. (cp_source_id part, SOURCE_SELECTOR, ap_policy_digest plan, cp_trade_id part)) parts))"
proof -
  let ?job = "lease_job lease"
  from assms obtain ms events bytes sources requests deadline where
    req: "plan_requests view sha256 \<lparr>af_attempt_id = attempt_id sha256 (job_ident ?job) (job_attempt_count ?job),
        af_trade_id = job_trade_id ?job, af_selector_digest = selector_digest sha256 (job_trade_id ?job),
        af_started_at = started_at, af_attempt_deadline_ms = ms, af_deadline = deadline,
        af_maximum_events = events, af_maximum_bytes = bytes\<rparr> None sources = Inr requests"
    and n: "sources \<noteq> []" "length sources \<le> RHI_RECONCILIATION_ATTEMPT_MAX_SOURCES"
    and limits: "1 \<le> events" "events \<le> RHI_TRADE_SOURCE_RESULT_MAX_EVENTS" "1 \<le> bytes" "bytes \<le> RHI_TRADE_SOURCE_RESULT_MAX_BYTES"
    and d: "ms \<le> 30000" "absolute_deadline started_at ms (lease_expires lease) = Inr deadline"
    and plan: "plan = \<lparr>ap_id = attempt_id sha256 (job_ident ?job) (job_attempt_count ?job), ap_job_id = job_ident ?job,
        ap_input_generation = job_input_generation ?job, ap_policy_digest = job_policy_digest ?job,
        ap_attempt_started_at = started_at, ap_deadline = deadline, ap_requests = requests\<rparr>"
    by (auto simp: attempt_plan_from_claim_def Let_def bounded_integer_def ok_or_def ensure_def split: option.splits if_splits)
  note R = plan_requests_in[OF req]
  have "plan_wf lease plan"
    using R n limits absolute_deadline_bounds[OF d(2)] d(1)
    by (auto simp: plan plan_wf_def request_wf_def request_in_def list_all_iff Suc_le_eq)
  moreover have "sorted_wrt (<) (map (\<lambda>rq. ascii_bytes (rq_source_id rq)) (ap_requests plan))" using R by (simp add: plan)
  ultimately show ?thesis using parts_match_distinct by (intro conjI allI impI) (auto simp: plan)
qed

text \<open>A configuration document for the policy of the witness job, with one source.\<close>

definition plan_view :: "string json_view" where
  "plan_view = \<lparr>jv_pointer = (\<lambda>_ pointer. Some
       (if pointer = ''/kind'' then ''nostr_relay'' else if pointer = ''/selector'' then SOURCE_SELECTOR
        else if pointer = ''/source_id'' then ''relay-a'' else if take 15 pointer = ''/reconciliation'' then pointer else ''r'')),
     jv_as_str = Some,
     jv_as_u64 = (\<lambda>pointer. Some
       (if pointer = ''/reconciliation/lease_ms'' then 30000 else if pointer = ''/reconciliation/lease_renewal_ms'' then 10000
        else if pointer = ''/reconciliation/max_attempts'' then 2 else if pointer = ''/reconciliation/initial_backoff_ms'' then 250
        else if pointer = ''/reconciliation/maximum_backoff_ms'' then 30000 else 100)),
     jv_as_bool = (\<lambda>_. Some True), jv_as_array = (\<lambda>_. Some [''r''])\<rparr>"

definition plan_hash :: "bytes \<Rightarrow> bytes" where "plan_hash b = wit_digest"

lemma wit_plan: "\<exists>plan. attempt_plan_from_claim plan_view (\<lambda>_. Some []) plan_hash wit_lease ''doc'' 2000 = Inr plan"
  by (simp add: attempt_plan_from_claim_def plan_view_def plan_hash_def wit_lease_def wit_leased_row_def claim_set_def wit_row_def
      new_job_row_def job_of_row_def job_state_of_def Let_def evidence_policy_digest_def evidence_policy_value_def metadata_string_def metadata_integer_def
      metadata_boolean_def normalized_source_def wit_policy_def job_policy_from_configuration_def job_policy_new_def
      attempt_policy_matches_def row_policy_def bounded_integer_def absolute_deadline_def checked_add_def u64_max_def i64_max_def
      unix_milliseconds_new_def RHI_TRADE_SOURCE_RESULT_MAX_EVENTS_def RHI_TRADE_SOURCE_RESULT_MAX_BYTES_def ensure_def
      RHI_RECONCILIATION_ATTEMPT_MAX_SOURCES_def RHI_RECONCILIATION_JOB_MAX_ACTIVE_def plan_request_def bounded_source_id_def ascii_lowercase_def ascii_digit_def)

theorem attempt_plan_sound_witness:
  "\<exists>plan. attempt_plan_from_claim plan_view (\<lambda>_. Some []) plan_hash wit_lease ''doc'' 2000 = Inr plan \<and> plan_wf wit_lease plan"
proof -
  obtain plan where "attempt_plan_from_claim plan_view (\<lambda>_. Some []) plan_hash wit_lease ''doc'' 2000 = Inr plan"
    using wit_plan by blast
  with attempt_plan_sound[OF this] show ?thesis by blast
qed

end
