(* ===== verification/Reconciliation_Replay_Props.thy ===== *)
theory Reconciliation_Replay_Props
  imports Reconciliation_Replay Source_Ingest_Props "HOL-Library.Multiset"
begin

text \<open>
  Canonicalization against its specification: the kept facts are the earliest observation of every signed
  event, in the order of their keys, whatever order the source delivered them in.
\<close>

section \<open>Specification\<close>

abbreviation ekey :: "replay_fact \<Rightarrow> bytes \<times> bytes" where
  "ekey f \<equiv> replay_event_key (rf_record f)"

abbreviation mkey :: "replay_fact \<Rightarrow> bytes" where
  "mkey f \<equiv> pr_mutation_id (rf_record f)"

text \<open>No identity is used for two contents.\<close>

definition consistent :: "replay_fact set \<Rightarrow> bool" where
  "consistent F \<longleftrightarrow> (\<forall>f \<in> F. \<forall>g \<in> F. (ekey f = ekey g \<longrightarrow> rf_record f = rf_record g)
     \<and> (mkey f = mkey g \<longrightarrow> same_mutation (rf_record f) (rf_record g)))"

definition earliest :: "replay_fact set \<Rightarrow> replay_fact set" where
  "earliest F = {f \<in> F. \<forall>g \<in> F. ekey g = ekey f \<longrightarrow> fact_key f \<le> fact_key g}"

lemma same_event_iff: "same_event a b \<longleftrightarrow> a = b"
  by (cases a; cases b) (auto simp: same_event_def same_mutation_def)

lemma same_mutation_refl [simp]: "same_mutation a a"
  by (simp add: same_mutation_def)

lemma same_mutation_sym: "same_mutation a b \<Longrightarrow> same_mutation b a"
  by (simp add: same_mutation_def)

lemma same_mutation_trans: "same_mutation a b \<Longrightarrow> same_mutation b c \<Longrightarrow> same_mutation a c"
  by (simp add: same_mutation_def)

lemma consistentD:
  assumes "consistent F" and "f \<in> F" and "g \<in> F"
  shows "ekey f = ekey g \<Longrightarrow> rf_record f = rf_record g"
    and "mkey f = mkey g \<Longrightarrow> same_mutation (rf_record f) (rf_record g)"
  using assms by (auto simp: consistent_def)

lemma consistent_mono: "consistent G \<Longrightarrow> F \<subseteq> G \<Longrightarrow> consistent F"
  by (auto simp: consistent_def)

text \<open>A new fact is consistent with the rest when it agrees with one representative of each identity.\<close>

lemma consistent_insert_known:
  assumes "consistent F" and "g \<in> F" and "rf_record x = rf_record g"
  shows "consistent (insert x F)"
  using assms by (auto simp: consistent_def)

lemma consistent_insert_fresh:
  assumes c: "consistent F" and e: "ekey x \<notin> ekey ` F"
    and m: "\<And>g. g \<in> F \<Longrightarrow> mkey g = mkey x \<Longrightarrow> \<exists>h \<in> F. mkey h = mkey x \<and> same_mutation (rf_record h) (rf_record x)"
  shows "consistent (insert x F)"
proof -
  have sm: "same_mutation (rf_record g) (rf_record x)" if "g \<in> F" "mkey g = mkey x" for g
  proof -
    from m[OF that] obtain h where h: "h \<in> F" "mkey h = mkey x" "same_mutation (rf_record h) (rf_record x)" by blast
    then have "same_mutation (rf_record g) (rf_record h)" using consistentD(2)[OF c that(1) h(1)] that(2) by simp
    then show ?thesis using h(3) by (rule same_mutation_trans)
  qed
  show ?thesis
    unfolding consistent_def
  proof (intro ballI conjI impI)
    fix f g assume fg: "f \<in> insert x F" "g \<in> insert x F"
    show "rf_record f = rf_record g" if "ekey f = ekey g"
      using fg that e consistentD(1)[OF c] by (auto 0 3 simp: image_iff)
    show "same_mutation (rf_record f) (rf_record g)" if "mkey f = mkey g"
      using fg that sm same_mutation_sym consistentD(2)[OF c] by auto
  qed
qed

section \<open>The loop\<close>

definition index_of :: "(replay_fact \<Rightarrow> 'k) \<Rightarrow> replay_fact list \<Rightarrow> ('k \<Rightarrow> nat option) \<Rightarrow> bool" where
  "index_of key facts m \<longleftrightarrow> (\<forall>k. case m k of None \<Rightarrow> k \<notin> key ` set facts
     | Some i \<Rightarrow> i < length facts \<and> key (facts ! i) = k)"

lemma index_of_SomeD:
  assumes "index_of key facts m" and "m k = Some i"
  shows "i < length facts" and "key (facts ! i) = k" and "facts ! i \<in> set facts"
  using assms by (auto simp: index_of_def dest: spec[of _ k])

lemma index_of_NoneD:
  assumes "index_of key facts m" and "m k = None"
  shows "k \<notin> key ` set facts"
  using assms by (auto simp: index_of_def dest: spec[of _ k])

lemma index_of_snoc_new:
  assumes "index_of key facts m"
  shows "index_of key (facts @ [x]) (m(key x \<mapsto> length facts))"
  unfolding index_of_def
proof (intro allI)
  fix k
  show "case (m(key x \<mapsto> length facts)) k of None \<Rightarrow> k \<notin> key ` set (facts @ [x])
     | Some i \<Rightarrow> i < length (facts @ [x]) \<and> key ((facts @ [x]) ! i) = k"
    using index_of_SomeD[OF assms] index_of_NoneD[OF assms, of k]
    by (cases "k = key x"; cases "m k") (auto simp: nth_append intro: less_SucI)
qed

lemma index_of_snoc_known:
  assumes "index_of key facts m" and "m (key x) = Some j"
  shows "index_of key (facts @ [x]) m"
  unfolding index_of_def
proof (intro allI)
  fix k
  show "case m k of None \<Rightarrow> k \<notin> key ` set (facts @ [x])
     | Some i \<Rightarrow> i < length (facts @ [x]) \<and> key ((facts @ [x]) ! i) = k"
    using index_of_SomeD[OF assms(1)] index_of_NoneD[OF assms(1), of k] assms(2)
    by (cases "m k") (auto simp: nth_append intro: less_SucI)
qed

text \<open>What the loop has computed from the facts it has kept.\<close>

definition replay_measured :: "canonical_replay \<Rightarrow> bool" where
  "replay_measured c \<longleftrightarrow>
     cr_accepted_original_bytes c = sum_list (map rf_original_bytes (cr_facts c))
   \<and> map_option cursor_key (cr_cursor_candidate c)
      = (if cr_facts c = [] then None else Some (Max ((\<lambda>f. cursor_key (record_cursor (rf_record f))) ` set (cr_facts c))))
   \<and> cr_first_observed_at c = (if cr_facts c = [] then None else Some (Min (rf_observed_at ` set (cr_facts c))))"

definition canonical_inv :: "replay_fact list \<Rightarrow> canonical_state \<Rightarrow> bool" where
  "canonical_inv seen st \<longleftrightarrow>
     (let c = cs_canonical st; facts = cr_facts c in
      index_of ekey facts (cs_event_indexes st) \<and> index_of mkey facts (cs_mutation_indexes st)
    \<and> set facts \<subseteq> set seen \<and> distinct (map ekey facts)
    \<and> (\<forall>g \<in> set seen. \<exists>f \<in> set facts. ekey f = ekey g \<and> fact_key f \<le> fact_key g)
    \<and> sorted (map fact_key facts) \<and> cr_duplicate_observations c + length facts = length seen
    \<and> consistent (set seen) \<and> replay_measured c)"

lemma canonical_inv_start: "canonical_inv [] canonical_start"
  by (simp add: canonical_inv_def canonical_start_def index_of_def consistent_def replay_measured_def Let_def)

lemma Max_insert_option:
  fixes a :: "'a::linorder"
  assumes "finite A"
  shows "Max (insert a A) = (if A = {} then a else if Max A < a then a else Max A)"
  using assms by (auto simp: max_def simp del: Max_less_iff)

lemma Min_insert_option:
  fixes a :: "'a::linorder"
  assumes "finite A"
  shows "Min (insert a A) = (if A = {} then a else if a < Min A then a else Min A)"
  using assms by (auto simp: min_def simp del: Min_gr_iff Min_ge_iff)

lemma replay_measured_snoc:
  assumes "replay_measured c"
  shows "replay_measured \<lparr>cr_facts = cr_facts c @ [x], cr_duplicate_observations = d,
      cr_accepted_original_bytes = cr_accepted_original_bytes c + rf_original_bytes x,
      cr_cursor_candidate = Some (case cr_cursor_candidate c of None \<Rightarrow> record_cursor (rf_record x)
        | Some current \<Rightarrow> if cursor_lt current (record_cursor (rf_record x)) then record_cursor (rf_record x) else current),
      cr_first_observed_at = Some (case cr_first_observed_at c of None \<Rightarrow> rf_observed_at x
        | Some current \<Rightarrow> if rf_observed_at x < current then rf_observed_at x else current)\<rparr>"
  using assms
  by (cases "cr_facts c = []"; cases "cr_cursor_candidate c")
    (auto simp: replay_measured_def cursor_lt_def Max_insert_option Min_insert_option
      simp del: Max_insert Min_insert Max_less_iff Min_gr_iff split: if_splits)

lemma canonicalize_step_inv:
  assumes inv: "canonical_inv seen st" and sort: "sorted (map fact_key (seen @ [x]))"
    and len: "length seen < 4294967295"
    and bytes: "cr_accepted_original_bytes (cs_canonical st) + rf_original_bytes x \<le> u64_max"
  shows "case canonicalize_step st x of
      Inl e \<Rightarrow> \<not> consistent (insert x (set seen)) \<and> (e = ReplaySignedEventConflict \<or> e = ReplayMutationConflict)
    | Inr st' \<Rightarrow> canonical_inv (seen @ [x]) st'"
proof -
  let ?c = "cs_canonical st" and ?facts = "cr_facts (cs_canonical st)"
  note I = inv[unfolded canonical_inv_def Let_def]
  have ei: "index_of ekey ?facts (cs_event_indexes st)" and mi: "index_of mkey ?facts (cs_mutation_indexes st)"
    and sub: "set ?facts \<subseteq> set seen" and cons: "consistent (set seen)" using I by blast+
  have le: "fact_key f \<le> fact_key x" if "f \<in> set seen" for f using sort that by (auto simp: sorted_append)
  show ?thesis
  proof (cases "cs_event_indexes st (ekey x)")
    case (Some i)
    note K = index_of_SomeD[OF ei Some]
    show ?thesis
    proof (cases "rf_record (?facts ! i) = rf_record x")
      case True
      have dup: "cr_duplicate_observations ?c + 1 \<le> 4294967295" using I len by linarith
      have "consistent (set (seen @ [x]))" using consistent_insert_known[OF cons] K(3) sub True by auto
      moreover have "\<exists>f \<in> set ?facts. ekey f = ekey x \<and> fact_key f \<le> fact_key x" using K sub le by blast
      ultimately show ?thesis
        using Some True dup I by (auto simp: canonicalize_step_def canonical_inv_def same_event_iff Let_def replay_measured_def)
    next
      case False
      then have "\<not> consistent (insert x (set seen))"
        using K sub consistentD(1)[of "insert x (set seen)" "?facts ! i" x] by blast
      with Some False show ?thesis by (simp add: canonicalize_step_def same_event_iff Let_def)
    qed
  next
    case None
    have fresh: "ekey x \<notin> ekey ` set seen"
    proof
      assume "ekey x \<in> ekey ` set seen"
      then have "ekey x \<in> ekey ` set ?facts" using I by (metis (no_types, lifting) image_iff)
      with index_of_NoneD[OF ei None] show False by blast
    qed
    show ?thesis
    proof (cases "\<exists>i. cs_mutation_indexes st (mkey x) = Some i \<and> \<not> same_mutation (rf_record (?facts ! i)) (rf_record x)")
      case True
      then obtain i where i: "cs_mutation_indexes st (mkey x) = Some i" "\<not> same_mutation (rf_record (?facts ! i)) (rf_record x)" by blast
      note K = index_of_SomeD[OF mi i(1)]
      have "\<not> consistent (insert x (set seen))"
        using K sub i(2) consistentD(2)[of "insert x (set seen)" "?facts ! i" x] by blast
      with None i show ?thesis by (simp add: canonicalize_step_def Let_def)
    next
      case False
      have "consistent (insert x (set seen))"
      proof (rule consistent_insert_fresh[OF cons fresh])
        fix g assume g: "g \<in> set seen" "mkey g = mkey x"
        then obtain f where f: "f \<in> set ?facts" "ekey f = ekey g" using I by blast
        then have "mkey f = mkey x" using consistentD(1)[OF cons] sub g by (metis subsetD)
        then have "mkey x \<in> mkey ` set ?facts" using f(1) by (metis imageI)
        then obtain i where i: "cs_mutation_indexes st (mkey x) = Some i"
          using index_of_NoneD[OF mi, of "mkey x"] by (cases "cs_mutation_indexes st (mkey x)") blast+
        with False index_of_SomeD[OF mi i] sub
        show "\<exists>h \<in> set seen. mkey h = mkey x \<and> same_mutation (rf_record h) (rf_record x)" by blast
      qed
      then have cons': "consistent (set (seen @ [x]))" by simp
      have mi': "index_of mkey (?facts @ [x]) (case cs_mutation_indexes st (mkey x) of
          None \<Rightarrow> (cs_mutation_indexes st)(mkey x \<mapsto> length ?facts) | Some _ \<Rightarrow> cs_mutation_indexes st)"
        using index_of_snoc_new[OF mi, of x] index_of_snoc_known[OF mi] by (auto split: option.split)
      have sorted': "sorted (map fact_key (?facts @ [x]))" using I le sub by (auto simp: sorted_append)
      have dist': "distinct (map ekey (?facts @ [x]))" using I fresh sub by auto
      let ?c' = "\<lparr>cr_facts = ?facts @ [x], cr_duplicate_observations = cr_duplicate_observations ?c,
        cr_accepted_original_bytes = cr_accepted_original_bytes ?c + rf_original_bytes x,
        cr_cursor_candidate = Some (case cr_cursor_candidate ?c of None \<Rightarrow> record_cursor (rf_record x)
          | Some current \<Rightarrow> if cursor_lt current (record_cursor (rf_record x)) then record_cursor (rf_record x) else current),
        cr_first_observed_at = Some (case cr_first_observed_at ?c of None \<Rightarrow> rf_observed_at x
          | Some current \<Rightarrow> if rf_observed_at x < current then rf_observed_at x else current)\<rparr>"
      let ?m' = "case cs_mutation_indexes st (mkey x) of
          None \<Rightarrow> (cs_mutation_indexes st)(mkey x \<mapsto> length ?facts) | Some _ \<Rightarrow> cs_mutation_indexes st"
      let ?st' = "\<lparr>cs_event_indexes = (cs_event_indexes st)(ekey x \<mapsto> length ?facts), cs_mutation_indexes = ?m', cs_canonical = ?c'\<rparr>"
      have step: "canonicalize_step st x = Inr ?st'"
        using None False bytes by (cases "cs_mutation_indexes st (mkey x)") (auto simp: canonicalize_step_def Let_def checked_add_def)
      have "replay_measured ?c'" using replay_measured_snoc I by blast
      moreover have "\<forall>g \<in> set (seen @ [x]). \<exists>f \<in> set (?facts @ [x]). ekey f = ekey g \<and> fact_key f \<le> fact_key g"
        using I by auto
      ultimately have "canonical_inv (seen @ [x]) ?st'"
        using I cons' mi' sorted' dist' index_of_snoc_new[OF ei, of x] unfolding canonical_inv_def Let_def by auto
      with step show ?thesis by (metis (no_types, lifting) sum.case(2))
    qed
  qed
qed

lemma canonicalize_step_bytes:
  "canonicalize_step st x = Inr st' \<Longrightarrow>
     cr_accepted_original_bytes (cs_canonical st') \<le> cr_accepted_original_bytes (cs_canonical st) + rf_original_bytes x"
  by (auto simp: canonicalize_step_def Let_def split: option.splits if_splits)

lemma canonicalize_loop_inv:
  assumes "canonical_inv seen st" and "sorted (map fact_key (seen @ xs))"
    and "length seen + length xs \<le> 4294967295"
    and "cr_accepted_original_bytes (cs_canonical st) + sum_list (map rf_original_bytes xs) \<le> u64_max"
  shows "case canonicalize_loop st xs of
      Inl e \<Rightarrow> \<not> consistent (set (seen @ xs)) \<and> (e = ReplaySignedEventConflict \<or> e = ReplayMutationConflict)
    | Inr st' \<Rightarrow> canonical_inv (seen @ xs) st'"
  using assms
proof (induction xs arbitrary: seen st)
  case (Cons x xs)
  have "sorted (map fact_key (seen @ [x]))" "length seen < 4294967295"
    "cr_accepted_original_bytes (cs_canonical st) + rf_original_bytes x \<le> u64_max"
    using Cons.prems by (auto simp: sorted_append)
  note step = canonicalize_step_inv[OF Cons.prems(1) this]
  show ?case
  proof (cases "canonicalize_step st x")
    case (Inl e)
    with step consistent_mono[of "set (seen @ x # xs)" "insert x (set seen)"] show ?thesis by auto
  next
    case (Inr st')
    with step have "canonical_inv (seen @ [x]) st'" by simp
    moreover have "sorted (map fact_key ((seen @ [x]) @ xs))" "length (seen @ [x]) + length xs \<le> 4294967295"
      using Cons.prems by simp_all
    moreover have "cr_accepted_original_bytes (cs_canonical st') + sum_list (map rf_original_bytes xs) \<le> u64_max"
      using canonicalize_step_bytes[OF Inr] Cons.prems(4) by simp
    ultimately have "case canonicalize_loop st' xs of
        Inl e \<Rightarrow> \<not> consistent (set ((seen @ [x]) @ xs)) \<and> (e = ReplaySignedEventConflict \<or> e = ReplayMutationConflict)
      | Inr st' \<Rightarrow> canonical_inv ((seen @ [x]) @ xs) st'" by (rule Cons.IH)
    then show ?thesis by (simp add: Inr split: sum.splits)
  qed
qed simp

text \<open>The kept facts, from the invariant at the end of the loop.\<close>

lemma canonical_inv_facts:
  assumes inv: "canonical_inv seen st"
  shows "set (cr_facts (cs_canonical st)) = earliest (set seen)"
    and "sorted_wrt (\<lambda>f g. fact_key f < fact_key g) (cr_facts (cs_canonical st))"
proof -
  let ?facts = "cr_facts (cs_canonical st)"
  note I = inv[unfolded canonical_inv_def Let_def]
  have cons: "consistent (set seen)" and sub: "set ?facts \<subseteq> set seen" and d: "distinct (map ekey ?facts)"
    and cover: "\<And>g. g \<in> set seen \<Longrightarrow> \<exists>f \<in> set ?facts. ekey f = ekey g \<and> fact_key f \<le> fact_key g" using I by blast+
  have inj: "f = g" if "f \<in> set seen" "g \<in> set seen" "fact_key f = fact_key g" for f g
  proof -
    have "ekey f = ekey g" using that(3) by (simp add: fact_key_def replay_event_key_def)
    then have "rf_record f = rf_record g" by (rule consistentD(1)[OF cons that(1,2)])
    then show ?thesis using that(3) by (cases f; cases g) (simp add: fact_key_def)
  qed
  show "set ?facts = earliest (set seen)"
  proof (intro equalityI subsetI)
    fix f assume f: "f \<in> set ?facts"
    have "fact_key f \<le> fact_key g" if g: "g \<in> set seen" "ekey g = ekey f" for g
    proof -
      from cover[OF g(1)] obtain h where h: "h \<in> set ?facts" "ekey h = ekey g" "fact_key h \<le> fact_key g" by blast
      with d f g(2) have "h = f" by (simp add: distinct_map inj_on_def)
      with h(3) show ?thesis by simp
    qed
    with f sub show "f \<in> earliest (set seen)" by (auto simp: earliest_def)
  next
    fix f assume f: "f \<in> earliest (set seen)"
    then obtain h where h: "h \<in> set ?facts" "ekey h = ekey f" "fact_key h \<le> fact_key f"
      using cover[of f] by (auto simp: earliest_def)
    then have "fact_key f \<le> fact_key h" using f sub by (auto simp: earliest_def)
    with h have "f = h" using inj[of f h] f sub by (auto simp: earliest_def)
    with h show "f \<in> set ?facts" by simp
  qed
  have "inj_on fact_key (set ?facts)" by (rule inj_onI) (use sub inj in blast)
  then have "distinct (map fact_key ?facts)" using d by (simp add: distinct_map)
  then have "sorted_wrt (<) (map fact_key ?facts)"
    using I by (simp add: strict_sorted_iff)
  then show "sorted_wrt (\<lambda>f g. fact_key f < fact_key g) ?facts" by (simp add: sorted_wrt_map)
qed

lemma earliest_observed:
  assumes "consistent F" and "finite F" and "f \<in> F"
  shows "\<exists>g \<in> earliest F. ekey g = ekey f \<and> rf_record g = rf_record f \<and> rf_observed_at g \<le> rf_observed_at f"
proof -
  let ?K = "{g \<in> F. ekey g = ekey f}"
  have fin: "finite (fact_key ` ?K)" "fact_key ` ?K \<noteq> {}" using assms by auto
  then obtain g where g: "g \<in> ?K" "fact_key g = Min (fact_key ` ?K)" using Min_in[OF fin] by (metis (lifting) imageE)
  then have g': "fact_key g \<le> fact_key h" if "h \<in> ?K" for h using that Min_le[OF fin(1)] by simp
  then have "g \<in> earliest F" using g(1) by (auto simp: earliest_def)
  moreover have r: "rf_record g = rf_record f" using consistentD(1)[OF assms(1)] g(1) assms(3) by blast
  moreover have "fact_key g \<le> fact_key f" using g' assms(3) by blast
  then have "rf_observed_at g \<le> rf_observed_at f" by (auto simp: fact_key_def r less_eq_prod_def)
  ultimately show ?thesis using g(1) by blast
qed

lemma replay_measured_earliest:
  assumes c: "replay_measured c" and f: "set (cr_facts c) = earliest F" and cons: "consistent F" and fin: "finite F"
  shows "map_option cursor_key (cr_cursor_candidate c)
      = (if F = {} then None else Some (Max ((\<lambda>f. cursor_key (record_cursor (rf_record f))) ` F)))"
    and "cr_first_observed_at c = (if F = {} then None else Some (Min (rf_observed_at ` F)))"
proof -
  have sub: "earliest F \<subseteq> F" by (auto simp: earliest_def)
  have "earliest F = {} \<longleftrightarrow> F = {}" using earliest_observed[OF cons fin] sub by blast
  then have empty: "cr_facts c = [] \<longleftrightarrow> F = {}" using f by (metis set_empty)
  have "(\<lambda>f. cursor_key (record_cursor (rf_record f))) ` earliest F = (\<lambda>f. cursor_key (record_cursor (rf_record f))) ` F"
  proof (rule equalityI[OF image_mono[OF sub]], rule subsetI)
    fix k assume "k \<in> (\<lambda>f. cursor_key (record_cursor (rf_record f))) ` F"
    then obtain x where x: "x \<in> F" "k = cursor_key (record_cursor (rf_record x))" by blast
    with earliest_observed[OF cons fin x(1)] obtain g where "g \<in> earliest F" "rf_record g = rf_record x" by blast
    with x(2) show "k \<in> (\<lambda>f. cursor_key (record_cursor (rf_record f))) ` earliest F" by (metis (lifting) imageI)
  qed
  then show "map_option cursor_key (cr_cursor_candidate c)
      = (if F = {} then None else Some (Max ((\<lambda>f. cursor_key (record_cursor (rf_record f))) ` F)))"
    using c by (simp add: replay_measured_def empty f)
  have "Min (rf_observed_at ` earliest F) = Min (rf_observed_at ` F)" if "F \<noteq> {}"
  proof (rule antisym)
    have "Min (rf_observed_at ` F) \<in> rf_observed_at ` F" using that fin by simp
    then obtain x where x: "x \<in> F" "rf_observed_at x = Min (rf_observed_at ` F)" by auto
    then obtain g where g: "g \<in> earliest F" "rf_observed_at g \<le> Min (rf_observed_at ` F)"
      using earliest_observed[OF cons fin x(1)] by auto
    have "finite (earliest F)" using sub fin by (rule finite_subset)
    then have "Min (rf_observed_at ` earliest F) \<le> rf_observed_at g" using g(1) by simp
    with g(2) show "Min (rf_observed_at ` earliest F) \<le> Min (rf_observed_at ` F)" by simp
    have "rf_observed_at ` earliest F \<noteq> {}" using g(1) by blast
    then show "Min (rf_observed_at ` F) \<le> Min (rf_observed_at ` earliest F)"
      using sub fin by (intro Min_antimono) (auto intro: finite_imageI)
  qed
  then show "cr_first_observed_at c = (if F = {} then None else Some (Min (rf_observed_at ` F)))"
    using c by (simp add: replay_measured_def empty f)
qed

lemma canonicalize_result:
  assumes "length candidates \<le> 4294967295" and "sum_list (map rf_original_bytes candidates) \<le> u64_max"
  shows "case canonicalize candidates of
      Inl e \<Rightarrow> \<not> consistent (set candidates) \<and> (e = ReplaySignedEventConflict \<or> e = ReplayMutationConflict)
    | Inr c \<Rightarrow> consistent (set candidates) \<and> set (cr_facts c) = earliest (set candidates)
        \<and> sorted_wrt (\<lambda>f g. fact_key f < fact_key g) (cr_facts c)
        \<and> cr_duplicate_observations c + length (cr_facts c) = length candidates
        \<and> cr_accepted_original_bytes c = sum_list (map rf_original_bytes (cr_facts c))
        \<and> map_option cursor_key (cr_cursor_candidate c)
            = (if candidates = [] then None
               else Some (Max ((\<lambda>f. cursor_key (record_cursor (rf_record f))) ` set candidates)))
        \<and> cr_first_observed_at c = (if candidates = [] then None else Some (Min (rf_observed_at ` set candidates)))"
proof -
  let ?xs = "sort_key fact_key candidates"
  have "mset (map rf_original_bytes ?xs) = mset (map rf_original_bytes candidates)" by simp
  then have "sum_list (map rf_original_bytes ?xs) = sum_list (map rf_original_bytes candidates)"
    by (metis sum_mset_sum_list)
  then have "case canonicalize_loop canonical_start ?xs of
      Inl e \<Rightarrow> \<not> consistent (set ([] @ ?xs)) \<and> (e = ReplaySignedEventConflict \<or> e = ReplayMutationConflict)
    | Inr st' \<Rightarrow> canonical_inv ([] @ ?xs) st'"
    using assms by (intro canonicalize_loop_inv canonical_inv_start) (simp_all add: canonical_start_def)
  then show ?thesis
  proof (cases "canonicalize_loop canonical_start ?xs")
    case (Inr st)
    with \<open>case canonicalize_loop canonical_start ?xs of Inl e \<Rightarrow> _ e | Inr st' \<Rightarrow> _ st'\<close>
    have inv: "canonical_inv ?xs st" by simp
    note F = canonical_inv_facts[OF inv, simplified]
    have m: "replay_measured (cs_canonical st)" "consistent (set candidates)"
      "cr_duplicate_observations (cs_canonical st) + length (cr_facts (cs_canonical st)) = length candidates"
      using inv by (simp_all add: canonical_inv_def Let_def)
    show ?thesis
      using F m replay_measured_earliest[OF m(1) F(1) m(2)] by (simp add: canonicalize_def Inr replay_measured_def)
  qed (simp add: canonicalize_def)
qed

lemma sorted_wrt_key_unique:
  fixes key :: "'a \<Rightarrow> 'k::linorder"
  assumes "set xs = set ys" and "sorted_wrt (\<lambda>a b. key a < key b) xs" and "sorted_wrt (\<lambda>a b. key a < key b) ys"
  shows "xs = ys"
proof -
  have s: "sorted_wrt (<) (map key xs)" "sorted_wrt (<) (map key ys)" using assms(2,3) by (simp_all add: sorted_wrt_map)
  then have "map key xs = map key ys" using assms(1) strict_sorted_equal by (metis set_map)
  moreover have "inj_on key (set xs)" using s(1) by (simp add: strict_sorted_iff distinct_map)
  ultimately show ?thesis using assms(1) by (metis inj_on_Un_image_eq_iff list.inj_map_strong inj_onD)
qed

lemma cursor_key_inj: "cursor_key a = cursor_key b \<Longrightarrow> a = b"
  by (cases a; cases b) (simp add: cursor_key_def)

text \<open>
  C14.  Canonicalization of a replay fails exactly when a signed-event or mutation identity is used for two
  contents.  Otherwise it keeps the earliest observation of every signed event, in the order of
  authored time, event and signature, counts every other observation as a duplicate, sums the bytes of
  what it keeps, and reports the greatest cursor and the earliest observation of all of them; the
  order in which the source delivered the events does not matter.
\<close>

theorem canonicalize_exact:
  assumes "length candidates \<le> 4294967295" and "sum_list (map rf_original_bytes candidates) \<le> u64_max"
    and "mset candidates = mset delivered"
  shows "case canonicalize candidates of
      Inl e \<Rightarrow> \<not> consistent (set candidates) \<and> (e = ReplaySignedEventConflict \<or> e = ReplayMutationConflict)
    | Inr c \<Rightarrow> consistent (set candidates) \<and> set (cr_facts c) = earliest (set candidates)
        \<and> sorted_wrt (\<lambda>f g. fact_key f < fact_key g) (cr_facts c)
        \<and> cr_duplicate_observations c + length (cr_facts c) = length candidates
        \<and> cr_accepted_original_bytes c = sum_list (map rf_original_bytes (cr_facts c))
        \<and> map_option cursor_key (cr_cursor_candidate c)
            = (if candidates = [] then None
               else Some (Max ((\<lambda>f. cursor_key (record_cursor (rf_record f))) ` set candidates)))
        \<and> cr_first_observed_at c = (if candidates = [] then None else Some (Min (rf_observed_at ` set candidates)))
        \<and> canonicalize delivered = Inr c"
proof -
  have same: "length delivered = length candidates" "set delivered = set candidates" "delivered = [] \<longleftrightarrow> candidates = []"
    using assms(3) by (metis size_mset, metis set_mset_mset, metis mset_zero_iff)
  have "sum_list (map rf_original_bytes delivered) = sum_list (map rf_original_bytes candidates)"
    using assms(3) by (metis mset_map sum_mset_sum_list)
  then have D: "length delivered \<le> 4294967295" "sum_list (map rf_original_bytes delivered) \<le> u64_max"
    using assms(1,2) same(1) by simp_all
  note R = canonicalize_result[OF assms(1,2)] and R' = canonicalize_result[OF D, unfolded same]
  show ?thesis
  proof (cases "canonicalize candidates")
    case (Inr c)
    with R R' obtain c' where c': "canonicalize delivered = Inr c'" by (cases "canonicalize delivered") auto
    have "cr_facts c' = cr_facts c"
      using R R' Inr c' by (intro sorted_wrt_key_unique[where key = fact_key]) simp_all
    moreover have "map_option cursor_key (cr_cursor_candidate c') = map_option cursor_key (cr_cursor_candidate c)"
      using R R' Inr c' by simp
    then have "cr_cursor_candidate c' = cr_cursor_candidate c"
      by (cases "cr_cursor_candidate c"; cases "cr_cursor_candidate c'") (auto dest: cursor_key_inj)
    ultimately have "c' = c" using R R' Inr c' by (cases c; cases c') simp
    with R Inr c' show ?thesis by simp
  qed (use R in simp)
qed

section \<open>Witness\<close>

definition demo_fact :: "nat \<Rightarrow> nat \<Rightarrow> replay_fact" where
  "demo_fact observed original =
     \<lparr>rf_record = demo_evidence_record, rf_original_bytes = original, rf_observed_at = observed\<rparr>"

theorem canonicalize_exact_witness:
  "\<exists>c. canonicalize [demo_fact 202 12, demo_fact 200 10] = Inr c \<and> cr_facts c = [demo_fact 200 10]
     \<and> canonicalize [demo_fact 200 10, demo_fact 202 12] = Inr c \<and> cr_first_observed_at c = Some 200"
proof -
  let ?xs = "[demo_fact 202 12, demo_fact 200 10]" and ?ys = "[demo_fact 200 10, demo_fact 202 12]"
  have c: "canonicalize ?xs = Inr \<lparr>cr_facts = [demo_fact 200 10], cr_duplicate_observations = 1,
      cr_accepted_original_bytes = 10, cr_cursor_candidate = Some (record_cursor demo_evidence_record),
      cr_first_observed_at = Some 200\<rparr>"
    by (simp add: canonicalize_def fact_key_def demo_fact_def canonicalize_step_def canonical_start_def Let_def
        checked_add_def u64_max_def same_event_iff)
  have "length ?xs \<le> 4294967295" "sum_list (map rf_original_bytes ?xs) \<le> u64_max" "mset ?xs = mset ?ys"
    by (simp_all add: demo_fact_def u64_max_def)
  from canonicalize_exact[OF this] c show ?thesis by simp
qed

end
