(* ===== verification/Reconciliation_Finalization.thy ===== *)
theory Reconciliation_Finalization
  imports Reconciliation_Commit
begin

text \<open>
  The generation-fenced preflight of finalization, \<open>src/src/reconciliation_finalization.rs\<close>: an evaluation
  is bound to the leased job it was made for, and the fence is checked against the exact lease, the dirty
  generation and the committed attempt.
\<close>

section \<open>Data\<close>

datatype finalization_error = FinalInvalidMode | FinalInvalidInput | FinalLeaseLost | FinalGenerationConflict
  | FinalAttemptUnavailable | FinalProjectionUnavailable | FinalStorage | FinalCommitUnknown

fun finalization_error_code :: "finalization_error \<Rightarrow> string" where
  "finalization_error_code FinalInvalidMode = ''reconciliation_finalization_mode_invalid''"
| "finalization_error_code FinalInvalidInput = ''reconciliation_finalization_input_invalid''"
| "finalization_error_code FinalLeaseLost = ''reconciliation_finalization_lease_lost''"
| "finalization_error_code FinalGenerationConflict = ''reconciliation_finalization_generation_conflict''"
| "finalization_error_code FinalAttemptUnavailable = ''reconciliation_finalization_attempt_unavailable''"
| "finalization_error_code FinalProjectionUnavailable = ''reconciliation_finalization_projection_unavailable''"
| "finalization_error_code FinalStorage = ''reconciliation_finalization_storage_failed''"
| "finalization_error_code FinalCommitUnknown = ''reconciliation_finalization_outcome_unknown''"

record finalization_identity =
  fi_attempt_id :: bytes
  fi_job_id :: bytes
  fi_trade_id :: bytes
  fi_generation :: nat
  fi_policy_digest :: bytes

record 'm finalization_fence =
  ff_lease :: job_lease
  ff_identity :: finalization_identity
  ff_evaluation :: "'m reconciliation_evaluation"

datatype fence_error = FenceLeaseLost | FenceGenerationConflict | FenceAttemptUnavailable | FenceStorage

section \<open>The identity of a finalization\<close>

definition finalization_identity_of ::
  "(bytes \<Rightarrow> bytes) \<Rightarrow> 'm manifest_crate \<Rightarrow> job_lease \<Rightarrow> 'm reconciliation_evaluation \<Rightarrow> nat
     \<Rightarrow> (finalization_error, finalization_identity) result" where
  "finalization_identity_of sha256 crate lease evaluation now =
     (let job = lease_job lease; manifest = rj_manifest (re_projection evaluation); inner = rm_inner manifest in
     if job_state job \<noteq> Leased \<or> job_attempt_count job = 0 \<or> rm_job_id manifest \<noteq> job_ident job
        \<or> rm_attempt_id manifest \<noteq> attempt_id sha256 (job_ident job) (job_attempt_count job)
        \<or> mc_trade_id crate inner \<noteq> job_trade_id job
        \<or> mc_trade_generation crate inner \<noteq> job_input_generation job
        \<or> mc_policy_digest crate inner \<noteq> job_policy_digest job
     then Inl FinalInvalidInput
     else if lease_expires lease \<le> now then Inl FinalLeaseLost
     else if rj_digest (re_projection evaluation) = None then Inl FinalProjectionUnavailable
     else Inr \<lparr>fi_attempt_id = rm_attempt_id manifest, fi_job_id = rm_job_id manifest, fi_trade_id = job_trade_id job,
       fi_generation = job_input_generation job, fi_policy_digest = job_policy_digest job\<rparr>)"

section \<open>The fence\<close>

fun fence_lease_error :: "lease_validation_error \<Rightarrow> fence_error" where
  "fence_lease_error ValidationLeaseLost = FenceLeaseLost"
| "fence_lease_error ValidationStorage = FenceStorage"

fun fence_source_error :: "source_error \<Rightarrow> fence_error" where
  "fence_source_error SrcGenerationConflict = FenceGenerationConflict"
| "fence_source_error (SrcPersistence e) = FenceStorage"
| "fence_source_error SrcStorage = FenceStorage"

text \<open>\<open>MATCH_COMMITTED_ATTEMPT_SQL\<close>.\<close>

definition committed_attempts :: "finalization_identity \<Rightarrow> int \<Rightarrow> 'a commit_store_scheme \<Rightarrow> nat" where
  "committed_attempts identity generation s =
     length (filter (\<lambda>r. ea_attempt_id r = fi_attempt_id identity \<and> ea_job_id r = fi_job_id identity
       \<and> ea_trade_id r = fi_trade_id identity \<and> ea_input_generation r = generation
       \<and> ea_evidence_policy_sha256 r = fi_policy_digest identity) (attempt_rows s))"

definition validate_finalization_identity ::
  "(bytes \<Rightarrow> bytes) \<Rightarrow> job_lease \<Rightarrow> finalization_identity \<Rightarrow> nat \<Rightarrow> 'a commit_store_scheme \<Rightarrow> (fence_error, unit) result"
  where
  "validate_finalization_identity sha256 lease identity now s =
     (if lease_expires lease \<le> now then Inl FenceLeaseLost else
     and_then (map_err fence_lease_error (validate_exact_lease sha256 lease s)) (\<lambda>_.
     and_then (map_err fence_source_error (source_read_dirty (fi_trade_id identity) s)) (\<lambda>found.
     and_then (ok_or FenceGenerationConflict (option_filter (\<lambda>dirty. ds_generation dirty = fi_generation identity
       \<and> ds_policy dirty = fi_policy_digest identity) found)) (\<lambda>_.
     and_then (i64_of_u64 FenceStorage (fi_generation identity)) (\<lambda>generation.
       if committed_attempts identity generation s = 1 then Inr () else Inl FenceAttemptUnavailable)))))"

definition validate_finalization_fence ::
  "(bytes \<Rightarrow> bytes) \<Rightarrow> 'm finalization_fence \<Rightarrow> nat \<Rightarrow> 'a commit_store_scheme \<Rightarrow> (fence_error, unit) result" where
  "validate_finalization_fence sha256 fence now s =
     validate_finalization_identity sha256 (ff_lease fence) (ff_identity fence) now s"

fun map_finalization_error :: "fence_error tx_error \<Rightarrow> finalization_error" where
  "map_finalization_error CommitOutcomeUnknown = FinalCommitUnknown"
| "map_finalization_error (OperationFailed FenceLeaseLost) = FinalLeaseLost"
| "map_finalization_error (OperationFailed FenceGenerationConflict) = FinalGenerationConflict"
| "map_finalization_error (OperationFailed FenceAttemptUnavailable) = FinalAttemptUnavailable"
| "map_finalization_error (OperationFailed FenceStorage) = FinalStorage"
| "map_finalization_error HostFailed = FinalStorage"

definition prepare_finalization ::
  "(fence_error, 'm finalization_fence, 'a commit_store_scheme) txn \<Rightarrow> (bytes \<Rightarrow> bytes) \<Rightarrow> 'm manifest_crate
     \<Rightarrow> state_host_mode \<Rightarrow> job_lease \<Rightarrow> 'm reconciliation_evaluation \<Rightarrow> nat \<Rightarrow> 'a commit_store_scheme
     \<Rightarrow> (finalization_error, 'm finalization_fence) result \<times> 'a commit_store_scheme" where
  "prepare_finalization txn sha256 crate mode lease evaluation now s =
     (if mode \<noteq> ReadWriteExisting then (Inl FinalInvalidMode, s) else
     (case finalization_identity_of sha256 crate lease evaluation now of
        Inl e \<Rightarrow> (Inl e, s)
      | Inr identity \<Rightarrow>
          (let fence = \<lparr>ff_lease = lease, ff_identity = identity, ff_evaluation = evaluation\<rparr> in
          (case txn (\<lambda>s. and_then (validate_finalization_fence sha256 fence now s) (\<lambda>_. Inr (fence, s))) s of
             (Inl e, s') \<Rightarrow> (Inl (map_finalization_error e), s')
           | (Inr fence, s') \<Rightarrow> (Inr fence, s')))))"

end
