(* ===== verification/Reconciliation_Attestation.thy ===== *)
theory Reconciliation_Attestation
  imports Reconciliation_Finalization
begin

text \<open>
  Construction, signing and independent verification of one attestation,
  \<open>src/src/reconciliation_attestation.rs\<close>.  The report, the attestation codec, the NIP-01 event and the
  signature belong to other crates: the record \<open>attestation_crate\<close> holds the operations the code calls, and
  \<open>decrypted_identity\<close> the public key and the signing operation of the identity.
\<close>

section \<open>Data\<close>

datatype attestation_error = AttInvalidInput | AttIdentityMismatch | AttEntropyUnavailable | AttReportInvalid
  | AttEventPlanInvalid | AttSigningFailed | AttVerificationFailed | AttSupersessionInvalid

fun attestation_error_code :: "attestation_error \<Rightarrow> string" where
  "attestation_error_code AttInvalidInput = ''reconciliation_attestation_input_invalid''"
| "attestation_error_code AttIdentityMismatch = ''reconciliation_attestation_identity_mismatch''"
| "attestation_error_code AttEntropyUnavailable = ''reconciliation_attestation_entropy_unavailable''"
| "attestation_error_code AttReportInvalid = ''reconciliation_attestation_report_invalid''"
| "attestation_error_code AttEventPlanInvalid = ''reconciliation_attestation_event_plan_invalid''"
| "attestation_error_code AttSigningFailed = ''reconciliation_attestation_signing_failed''"
| "attestation_error_code AttVerificationFailed = ''reconciliation_attestation_verification_failed''"
| "attestation_error_code AttSupersessionInvalid = ''reconciliation_attestation_supersession_invalid''"

definition RHI_RECONCILIATION_SIGNED_ATTESTATION_MAX_BYTES :: nat where
  "RHI_RECONCILIATION_SIGNED_ATTESTATION_MAX_BYTES = 32 * 1024"

text \<open>\<open>EventWireLimits\<close>, \<open>AuthoredEventBody\<close>, \<open>AuthoredEventPlan\<close> and \<open>UnsignedEvent\<close>.\<close>

record wire_limits =
  wl_raw_json_bytes :: nat
  wl_content_bytes :: nat
  wl_tag_count :: nat
  wl_tag_elements :: nat
  wl_tag_element_bytes :: nat
  wl_tag_bytes :: nat
  wl_extra_fields :: nat
  wl_extra_json_bytes :: nat

record authored_body =
  ab_kind :: nat
  ab_tags :: "string list list"
  ab_content :: bytes

record authored_plan =
  pl_body :: authored_body
  pl_created_at :: nat
  pl_author :: bytes
  pl_expected_event_id :: bytes

record unsigned_event =
  ue_kind :: nat
  ue_tags :: "string list list"
  ue_content :: bytes
  ue_created_at :: nat
  ue_author :: bytes

record signed_envelope = event_envelope +
  sv_tags :: "string list list"

record 'e decrypted_identity =
  di_public_hex :: string
  di_sign :: "unsigned_event \<Rightarrow> bytes \<Rightarrow> 'e option"

record ('m, 'r, 't, 'e) attestation_crate =
  tc_parse_reason :: "string \<Rightarrow> string option"
  tc_parse_key :: "string \<Rightarrow> bytes option"
  tc_report_new :: "bytes \<Rightarrow> bytes \<Rightarrow> evidence_outcome \<Rightarrow> string list \<Rightarrow> bytes \<Rightarrow> 'm \<Rightarrow> (bytes \<times> bytes) option \<Rightarrow> 'r option"
  tc_report_parse :: "bytes \<Rightarrow> 'r option"
  tc_validates :: "'r \<Rightarrow> 'm \<Rightarrow> bool"
  tc_content :: "'r \<Rightarrow> bytes"
  tc_trade_id :: "'r \<Rightarrow> bytes"
  tc_statement :: "'r \<Rightarrow> bytes"
  tc_issuer :: "'r \<Rightarrow> bytes"
  tc_claim :: "'r \<Rightarrow> bytes"
  tc_observed_at :: "'r \<Rightarrow> nat"
  tc_supersession :: "'r \<Rightarrow> (bytes \<times> bytes) option"
  tc_attestation :: "bytes \<Rightarrow> 't option"
  tc_supersedes :: "'t \<Rightarrow> bytes \<Rightarrow> 't \<Rightarrow> bool"
  tc_body :: "'t \<Rightarrow> authored_body option"
  tc_bind :: "authored_body \<Rightarrow> nat \<Rightarrow> string \<Rightarrow> authored_plan option"
  tc_tag_ok :: "string list \<Rightarrow> bool"
  tc_nostr_key :: "string \<Rightarrow> bytes option"
  tc_event_id :: "unsigned_event \<Rightarrow> bytes"
  tc_to_vec :: "'e \<Rightarrow> bytes option"
  tc_parse_wire :: "wire_limits \<Rightarrow> bytes \<Rightarrow> signed_envelope option"
  tc_verify_id :: "signed_envelope \<Rightarrow> bool"
  tc_verify :: "signed_envelope \<Rightarrow> bool"
  tc_typed_content :: "signed_envelope \<Rightarrow> bytes option"
  tc_report_maximum_bytes :: nat

record 'r attestation_supersession =
  as_report :: 'r
  as_event_id :: bytes

record ('m, 'r) signed_attestation =
  sa_fence :: "'m finalization_fence"
  sa_report :: 'r
  sa_event_id :: bytes
  sa_signed_event_bytes :: bytes
  sa_signed_event_sha256 :: bytes
  sa_created_at :: nat

section \<open>Verification\<close>

definition signed_event_limits :: "('m, 'r, 't, 'e) attestation_crate \<Rightarrow> wire_limits" where
  "signed_event_limits crate =
     \<lparr>wl_raw_json_bytes = RHI_RECONCILIATION_SIGNED_ATTESTATION_MAX_BYTES, wl_content_bytes = tc_report_maximum_bytes crate,
      wl_tag_count = 7, wl_tag_elements = 21, wl_tag_element_bytes = 128, wl_tag_bytes = 1024,
      wl_extra_fields = 0, wl_extra_json_bytes = 0\<rparr>"

text \<open>\<open>core::str::from_utf8\<close> and the two parsing steps, which the code reports with one error.\<close>

definition parse_signed_event :: "('m, 'r, 't, 'e) attestation_crate \<Rightarrow> bytes \<Rightarrow> signed_envelope option" where
  "parse_signed_event crate b =
     (if from_utf8 b = None then None else tc_parse_wire crate (signed_event_limits crate) b)"

definition verify_signed_event_plan ::
  "('m, 'r, 't, 'e) attestation_crate \<Rightarrow> authored_plan \<Rightarrow> bytes \<Rightarrow> (attestation_error, signed_envelope) result" where
  "verify_signed_event_plan crate plan b =
     (if b = [] \<or> RHI_RECONCILIATION_SIGNED_ATTESTATION_MAX_BYTES < length b then Inl AttVerificationFailed else
     and_then (ok_or AttVerificationFailed (parse_signed_event crate b)) (\<lambda>event.
     if \<not> tc_verify_id crate event \<or> \<not> tc_verify crate event then Inl AttVerificationFailed
     else if ee_id event \<noteq> pl_expected_event_id plan \<or> ee_author event \<noteq> pl_author plan
        \<or> ee_created_at event \<noteq> pl_created_at plan \<or> ee_kind event \<noteq> ab_kind (pl_body plan)
        \<or> sv_tags event \<noteq> ab_tags (pl_body plan) \<or> ee_content event \<noteq> ab_content (pl_body plan)
     then Inl AttVerificationFailed else Inr event))"

definition verify_signed_event ::
  "('m, 'r, 't, 'e) attestation_crate \<Rightarrow> authored_plan \<Rightarrow> 'r \<Rightarrow> 'm \<Rightarrow> bytes \<Rightarrow> (attestation_error, signed_envelope) result" where
  "verify_signed_event crate plan report manifest b =
     and_then (verify_signed_event_plan crate plan b) (\<lambda>event.
     and_then (ok_or AttVerificationFailed (tc_typed_content crate event)) (\<lambda>typed.
     if typed \<noteq> tc_content crate report then Inl AttVerificationFailed else
     and_then (ok_or AttVerificationFailed (tc_report_parse crate (ee_content event))) (\<lambda>reparsed.
     and_then (ensure (tc_validates crate reparsed manifest) AttVerificationFailed) (\<lambda>_.
     if reparsed \<noteq> report then Inl AttVerificationFailed else Inr event))))"

section \<open>Signing\<close>

definition report_reason :: "('m, 'r, 't, 'e) attestation_crate \<Rightarrow> reason_code \<Rightarrow> (attestation_error, string) result" where
  "report_reason crate reason = ok_or AttReportInvalid (tc_parse_reason crate (reason_code_text reason))"

definition sign_plan ::
  "('m, 'r, 't, 'e) attestation_crate \<Rightarrow> 'e decrypted_identity \<Rightarrow> authored_plan \<Rightarrow> bytes \<Rightarrow> (attestation_error, 'e) result" where
  "sign_plan crate identity plan auxiliary =
     (let body = pl_body plan in
     and_then (ensure (ab_kind body \<le> 65535) AttEventPlanInvalid) (\<lambda>_.
     and_then (ensure (list_all (tc_tag_ok crate) (ab_tags body)) AttEventPlanInvalid) (\<lambda>_.
     and_then (ok_or AttIdentityMismatch (tc_nostr_key crate (di_public_hex identity))) (\<lambda>author.
     (let unsigned = \<lparr>ue_kind = ab_kind body, ue_tags = ab_tags body, ue_content = ab_content body,
        ue_created_at = pl_created_at plan, ue_author = author\<rparr> in
     if tc_event_id crate unsigned \<noteq> pl_expected_event_id plan then Inl AttEventPlanInvalid
     else ok_or AttSigningFailed (di_sign identity unsigned auxiliary))))))"

definition check_supersession ::
  "('m, 'r, 't, 'e) attestation_crate \<Rightarrow> 'r attestation_supersession option \<Rightarrow> 't \<Rightarrow> (attestation_error, unit) result" where
  "check_supersession crate supersession attestation =
     (case supersession of
        None \<Rightarrow> Inr ()
      | Some prior \<Rightarrow>
          and_then (ok_or AttSupersessionInvalid (tc_attestation crate (tc_content crate (as_report prior)))) (\<lambda>current.
            ensure (tc_supersedes crate current (as_event_id prior) attestation) AttSupersessionInvalid))"

definition build_rhi_signed_evidence_attestation ::
  "(bytes \<Rightarrow> bytes) \<Rightarrow> ('m, 'r, 't, 'e) attestation_crate \<Rightarrow> 'm finalization_fence \<Rightarrow> 'e decrypted_identity \<Rightarrow> nat
     \<Rightarrow> (nat \<Rightarrow> bytes option) \<Rightarrow> 'r attestation_supersession option \<Rightarrow> (attestation_error, ('m, 'r) signed_attestation) result"
  where
  "build_rhi_signed_evidence_attestation sha256 crate fence identity created_at entropy supersession =
     (let evaluation = ff_evaluation fence; projection = re_projection evaluation; inner = rm_inner (rj_manifest projection) in
     and_then (ok_or AttInvalidInput (rj_digest projection)) (\<lambda>projection_digest.
     and_then (ok_or AttIdentityMismatch (tc_parse_key crate (di_public_hex identity))) (\<lambda>issuer.
     and_then (collect (map (report_reason crate) (re_reason_codes evaluation))) (\<lambda>reasons.
     and_then (ok_or AttReportInvalid (tc_report_new crate issuer (re_claim_mutation_id evaluation) (re_outcome evaluation)
       reasons projection_digest inner
       (map_option (\<lambda>prior. (tc_statement crate (as_report prior), as_event_id prior)) supersession))) (\<lambda>report.
     and_then (ensure (tc_validates crate report inner) AttReportInvalid) (\<lambda>_.
     and_then (ok_or AttReportInvalid (tc_attestation crate (tc_content crate report))) (\<lambda>attestation.
     and_then (check_supersession crate supersession attestation) (\<lambda>_.
     and_then (ok_or AttEventPlanInvalid (tc_body crate attestation)) (\<lambda>body.
     and_then (ok_or AttEventPlanInvalid (tc_bind crate body created_at (di_public_hex identity))) (\<lambda>plan.
     and_then (ok_or AttEntropyUnavailable (entropy 32)) (\<lambda>auxiliary.
     and_then (sign_plan crate identity plan auxiliary) (\<lambda>signed.
     and_then (ok_or AttSigningFailed (tc_to_vec crate signed)) (\<lambda>b.
     if RHI_RECONCILIATION_SIGNED_ATTESTATION_MAX_BYTES < length b then Inl AttSigningFailed else
     and_then (verify_signed_event crate plan report inner b) (\<lambda>verified.
       Inr \<lparr>sa_fence = fence, sa_report = report, sa_event_id = ee_id verified, sa_signed_event_bytes = b,
         sa_signed_event_sha256 = sha256 b, sa_created_at = created_at\<rparr>))))))))))))))"

section \<open>Supersession\<close>

definition supersession_from_attestation :: "('m, 'r) signed_attestation \<Rightarrow> 'r attestation_supersession" where
  "supersession_from_attestation attestation = \<lparr>as_report = sa_report attestation, as_event_id = sa_event_id attestation\<rparr>"

definition supersession_from_persisted ::
  "('m, 'r, 't, 'e) attestation_crate \<Rightarrow> bytes \<Rightarrow> bytes \<Rightarrow> bytes \<Rightarrow> bytes \<Rightarrow> bytes
     \<Rightarrow> (attestation_error, 'r attestation_supersession) result" where
  "supersession_from_persisted crate trade_id statement_sha256 event_id canonical_report canonical_event_json =
     and_then (ok_or AttSupersessionInvalid (tc_report_parse crate canonical_report)) (\<lambda>report.
     if tc_trade_id crate report \<noteq> trade_id \<or> tc_statement crate report \<noteq> statement_sha256
     then Inl AttSupersessionInvalid else
     and_then (ok_or AttSupersessionInvalid (parse_signed_event crate canonical_event_json)) (\<lambda>event.
     if \<not> tc_verify_id crate event \<or> \<not> tc_verify crate event \<or> ee_id event \<noteq> event_id
        \<or> ee_author event \<noteq> tc_issuer crate report
     then Inl AttSupersessionInvalid else
     and_then (ok_or AttSupersessionInvalid (tc_typed_content crate event)) (\<lambda>typed.
     if typed \<noteq> tc_content crate report then Inl AttSupersessionInvalid
     else Inr \<lparr>as_report = report, as_event_id = event_id\<rparr>)))"

end
