(* ===== verification/Finalization_Commit.thy ===== *)
theory Finalization_Commit
  imports Reconciliation_Attestation Publication_Queue Reconciliation_Job_Machine
begin

text \<open>
  The atomic finalization of one verified attestation, \<open>src/src/reconciliation_finalization_commit.rs\<close>, and
  the three append-only tables it writes before the signed event and the outbox: \<open>evidence_manifests\<close>,
  \<open>trade_projections\<close> and \<open>attestation_reports\<close>.  The last statement completes the job.
\<close>

section \<open>Tables\<close>

record manifest_row =
  mf_manifest_sha256 :: bytes
  mf_attempt_id :: bytes
  mf_trade_id :: bytes
  mf_trade_generation :: int
  mf_evidence_policy_sha256 :: bytes
  mf_canonical_manifest :: bytes
  mf_observed_at_unix_s :: int
  mf_source_count :: int
  mf_observation_count :: int

record projection_row =
  pj_projection_sha256 :: bytes
  pj_manifest_sha256 :: bytes
  pj_shared_projection_sha256 :: bytes
  pj_reducer_contract :: string
  pj_reducer_contract_version :: int
  pj_issue_count :: int

record report_row =
  rep_statement_sha256 :: bytes
  rep_manifest_sha256 :: bytes
  rep_projection_sha256 :: bytes
  rep_trade_id :: bytes
  rep_claim_mutation_id :: bytes
  rep_issuer_public_key :: bytes
  rep_outcome :: string
  rep_canonical_report :: bytes
  rep_observed_at_unix_s :: int
  rep_supersedes_statement_sha256 :: "bytes option"
  rep_supersedes_event_id :: "bytes option"

record final_store = commit_store +
  manifest_rows :: "manifest_row list"
  projection_rows :: "projection_row list"
  report_rows :: "report_row list"
  publications :: pub_store

definition manifest_row_check :: "manifest_row \<Rightarrow> bool" where
  "manifest_row_check r \<longleftrightarrow>
     length (mf_manifest_sha256 r) = 32 \<and> length (mf_attempt_id r) = 32 \<and> length (mf_trade_id r) = 16
   \<and> sql_range (mf_trade_generation r) 1 sql_i64_max \<and> length (mf_evidence_policy_sha256 r) = 32
   \<and> sql_range (int (length (mf_canonical_manifest r))) 1 16777216
   \<and> sql_range (mf_observed_at_unix_s r) 0 sql_i64_max
   \<and> sql_range (mf_source_count r) 1 16 \<and> sql_range (mf_observation_count r) 0 65536"

definition manifests_valid :: "reconciliation_row list \<Rightarrow> manifest_row list \<Rightarrow> bool" where
  "manifests_valid known rows \<longleftrightarrow>
     list_all manifest_row_check rows \<and> distinct (map mf_manifest_sha256 rows) \<and> distinct (map mf_attempt_id rows)
   \<and> set (map mf_attempt_id rows) \<subseteq> set (map ea_attempt_id known)"

definition projection_row_check :: "projection_row \<Rightarrow> bool" where
  "projection_row_check r \<longleftrightarrow>
     length (pj_projection_sha256 r) = 32 \<and> length (pj_manifest_sha256 r) = 32
   \<and> length (pj_shared_projection_sha256 r) = 32 \<and> pj_reducer_contract r = ''radroots.trade.reducer.v1''
   \<and> pj_reducer_contract_version r = 1 \<and> sql_range (pj_issue_count r) 0 65536"

definition projections_valid :: "manifest_row list \<Rightarrow> projection_row list \<Rightarrow> bool" where
  "projections_valid manifests rows \<longleftrightarrow>
     list_all projection_row_check rows \<and> distinct (map pj_projection_sha256 rows)
   \<and> distinct (map pj_manifest_sha256 rows)
   \<and> set (map pj_manifest_sha256 rows) \<subseteq> set (map mf_manifest_sha256 manifests)"

definition report_row_check :: "report_row \<Rightarrow> bool" where
  "report_row_check r \<longleftrightarrow>
     length (rep_statement_sha256 r) = 32 \<and> length (rep_manifest_sha256 r) = 32
   \<and> length (rep_projection_sha256 r) = 32 \<and> length (rep_trade_id r) = 16
   \<and> length (rep_claim_mutation_id r) = 32 \<and> length (rep_issuer_public_key r) = 32
   \<and> rep_outcome r \<in> {''valid'', ''invalid'', ''indeterminate''}
   \<and> sql_range (int (length (rep_canonical_report r))) 1 16384
   \<and> sql_range (rep_observed_at_unix_s r) 0 sql_i64_max
   \<and> pred_option (\<lambda>b. length b = 32) (rep_supersedes_statement_sha256 r)
   \<and> pred_option (\<lambda>b. length b = 32) (rep_supersedes_event_id r)
   \<and> (rep_supersedes_statement_sha256 r = None) = (rep_supersedes_event_id r = None)"

text \<open>The partial unique index \<open>attestation_reports_one_successor\<close> and the foreign keys.\<close>

definition reports_valid :: "manifest_row list \<Rightarrow> projection_row list \<Rightarrow> report_row list \<Rightarrow> bool" where
  "reports_valid manifests projections rows \<longleftrightarrow>
     list_all report_row_check rows \<and> distinct (map rep_statement_sha256 rows)
   \<and> set (map rep_manifest_sha256 rows) \<subseteq> set (map mf_manifest_sha256 manifests)
   \<and> set (map rep_projection_sha256 rows) \<subseteq> set (map pj_projection_sha256 projections)
   \<and> set (List.map_filter rep_supersedes_statement_sha256 rows) \<subseteq> set (map rep_statement_sha256 rows)
   \<and> distinct (List.map_filter rep_supersedes_statement_sha256 rows)"

section \<open>Data\<close>

datatype finalization_commit_error = FcInvalidMode | FcInvalidInput | FcLeaseLost | FcGenerationConflict
  | FcAttemptUnavailable | FcPublicationQueueFull | FcConflict | FcStorage | FcCommitUnknown

fun finalization_commit_error_code :: "finalization_commit_error \<Rightarrow> string" where
  "finalization_commit_error_code FcInvalidMode = ''reconciliation_finalization_commit_mode_invalid''"
| "finalization_commit_error_code FcInvalidInput = ''reconciliation_finalization_commit_input_invalid''"
| "finalization_commit_error_code FcLeaseLost = ''reconciliation_finalization_commit_lease_lost''"
| "finalization_commit_error_code FcGenerationConflict = ''reconciliation_finalization_commit_generation_conflict''"
| "finalization_commit_error_code FcAttemptUnavailable = ''reconciliation_finalization_commit_attempt_unavailable''"
| "finalization_commit_error_code FcPublicationQueueFull = ''reconciliation_publication_queue_full''"
| "finalization_commit_error_code FcConflict = ''reconciliation_finalization_commit_conflict''"
| "finalization_commit_error_code FcStorage = ''reconciliation_finalization_commit_storage_failed''"
| "finalization_commit_error_code FcCommitUnknown = ''reconciliation_finalization_commit_outcome_unknown''"

record finalization_outcome =
  fo_created :: bool
  fo_publication_mode :: publication_mode
  fo_target_count :: nat
  fo_outbox_id :: "bytes option"

record finalization_source =
  fx_source_id :: string
  fx_required :: bool
  fx_completion :: evidence_completion
  fx_admitted_event_count :: nat

datatype finalization_publication = FinDisabled | FinRequired required_publication

record finalization_record =
  fr_lease :: job_lease
  fr_identity :: finalization_identity
  fr_now :: nat
  fr_manifest_sha256 :: bytes
  fr_canonical_manifest :: bytes
  fr_observed_at_unix_s :: nat
  fr_source_count :: nat
  fr_sources :: "finalization_source list"
  fr_observation_count :: nat
  fr_projection_sha256 :: bytes
  fr_shared_projection_sha256 :: bytes
  fr_issue_count :: nat
  fr_claim_mutation_id :: bytes
  fr_outcome :: string
  fr_canonical_report :: bytes
  fr_supersession :: "(bytes \<times> bytes) option"
  fr_event :: finalization_event
  fr_publication :: finalization_publication

fun final_outcome_code :: "evidence_outcome \<Rightarrow> string" where
  "final_outcome_code OutcomeValid = ''valid''"
| "final_outcome_code OutcomeInvalid = ''invalid''"
| "final_outcome_code OutcomeIndeterminate = ''indeterminate''"

section \<open>The record\<close>

definition finalization_publication_from ::
  "(bytes \<Rightarrow> bytes) \<Rightarrow> bytes \<Rightarrow> publication_authority \<Rightarrow> finalization_publication option" where
  "finalization_publication_from sha256 event_id publication =
     (case pa_mode publication of
        PublicationDisabled \<Rightarrow>
          if pa_targets publication \<noteq> [] \<or> pa_retry publication \<noteq> None then None else Some FinDisabled
      | PublicationRequired \<Rightarrow> map_option FinRequired (required_publication_from sha256 event_id publication))"

definition finalization_record_from_inputs ::
  "(bytes \<Rightarrow> bytes) \<Rightarrow> 'm manifest_crate \<Rightarrow> ('m, 'r, 't, 'e) attestation_crate \<Rightarrow> ('m, 'r) signed_attestation
     \<Rightarrow> publication_authority \<Rightarrow> nat \<Rightarrow> finalization_record option" where
  "finalization_record_from_inputs sha256 crate codec attestation publication now =
     (let fence = sa_fence attestation; evaluation = ff_evaluation fence; projection = re_projection evaluation;
          inner = rm_inner (rj_manifest projection); report = sa_report attestation;
          sources = mc_sources crate inner; observed_at = mc_observed_at crate inner in
     Option.bind (rj_digest projection) (\<lambda>projection_sha256.
     Option.bind (rj_shared_digest projection) (\<lambda>shared_sha256.
     if 255 < length sources \<or> 4294967295 < length (mc_observations crate inner)
        \<or> 4294967295 < sp_issue_count (rj_shared projection) then None
     else if tc_observed_at codec report \<noteq> observed_at
        \<or> list_ex (\<lambda>v. i64_max < v) [now, observed_at, sa_created_at attestation, mc_trade_generation crate inner] then None
     else Option.bind (finalization_publication_from sha256 (sa_event_id attestation) publication) (\<lambda>chosen.
       Some \<lparr>fr_lease = ff_lease fence, fr_identity = ff_identity fence, fr_now = now,
         fr_manifest_sha256 = mc_digest crate inner, fr_canonical_manifest = mc_canonical_bytes crate inner,
         fr_observed_at_unix_s = observed_at, fr_source_count = length sources,
         fr_sources = map (\<lambda>source. \<lparr>fx_source_id = ms_source_id source, fx_required = ms_required source,
           fx_completion = ms_completion source, fx_admitted_event_count = ms_event_count source\<rparr>) sources,
         fr_observation_count = length (mc_observations crate inner), fr_projection_sha256 = projection_sha256,
         fr_shared_projection_sha256 = shared_sha256, fr_issue_count = sp_issue_count (rj_shared projection),
         fr_claim_mutation_id = tc_claim codec report, fr_outcome = final_outcome_code (re_outcome evaluation),
         fr_canonical_report = tc_content codec report, fr_supersession = tc_supersession codec report,
         fr_event = \<lparr>fe_event_id = sa_event_id attestation, fe_statement_sha256 = tc_statement codec report,
           fe_event_sha256 = sa_signed_event_sha256 attestation, fe_issuer_public_key = tc_issuer codec report,
           fe_authored_at_unix_s = sa_created_at attestation,
           fe_canonical_event_json = sa_signed_event_bytes attestation\<rparr>,
         fr_publication = chosen\<rparr>))))"

definition finalization_outcome_of :: "finalization_record \<Rightarrow> bool \<Rightarrow> finalization_outcome" where
  "finalization_outcome_of rec created =
     (case fr_publication rec of
        FinDisabled \<Rightarrow> \<lparr>fo_created = created, fo_publication_mode = PublicationDisabled, fo_target_count = 0, fo_outbox_id = None\<rparr>
      | FinRequired required \<Rightarrow> \<lparr>fo_created = created, fo_publication_mode = PublicationRequired,
          fo_target_count = rq_target_count required, fo_outbox_id = Some (rq_outbox_id required)\<rparr>)"

text \<open>The columns bound by the three insertions and compared by the matching queries.\<close>

definition manifest_row_of :: "finalization_record \<Rightarrow> (finalization_op_error, manifest_row) result" where
  "manifest_row_of rec =
     (let identity = fr_identity rec in
     and_then (fin_i64_value (fi_generation identity)) (\<lambda>generation.
     and_then (fin_i64_value (fr_observed_at_unix_s rec)) (\<lambda>observed_at.
       Inr \<lparr>mf_manifest_sha256 = fr_manifest_sha256 rec, mf_attempt_id = fi_attempt_id identity,
         mf_trade_id = fi_trade_id identity, mf_trade_generation = generation,
         mf_evidence_policy_sha256 = fi_policy_digest identity, mf_canonical_manifest = fr_canonical_manifest rec,
         mf_observed_at_unix_s = observed_at, mf_source_count = int (fr_source_count rec),
         mf_observation_count = int (fr_observation_count rec)\<rparr>)))"

definition projection_row_of :: "finalization_record \<Rightarrow> projection_row" where
  "projection_row_of rec =
     \<lparr>pj_projection_sha256 = fr_projection_sha256 rec, pj_manifest_sha256 = fr_manifest_sha256 rec,
      pj_shared_projection_sha256 = fr_shared_projection_sha256 rec,
      pj_reducer_contract = ''radroots.trade.reducer.v1'', pj_reducer_contract_version = 1,
      pj_issue_count = int (fr_issue_count rec)\<rparr>"

definition report_row_of :: "finalization_record \<Rightarrow> (finalization_op_error, report_row) result" where
  "report_row_of rec =
     and_then (fin_i64_value (fr_observed_at_unix_s rec)) (\<lambda>observed_at.
       Inr \<lparr>rep_statement_sha256 = fe_statement_sha256 (fr_event rec), rep_manifest_sha256 = fr_manifest_sha256 rec,
         rep_projection_sha256 = fr_projection_sha256 rec, rep_trade_id = fi_trade_id (fr_identity rec),
         rep_claim_mutation_id = fr_claim_mutation_id rec, rep_issuer_public_key = fe_issuer_public_key (fr_event rec),
         rep_outcome = fr_outcome rec, rep_canonical_report = fr_canonical_report rec,
         rep_observed_at_unix_s = observed_at, rep_supersedes_statement_sha256 = map_option fst (fr_supersession rec),
         rep_supersedes_event_id = map_option snd (fr_supersession rec)\<rparr>)"

section \<open>Checks against the store\<close>

text \<open>\<open>SELECT COUNT(*)\<close> and \<open>match_count\<close>.\<close>

definition sql_count :: "('r \<Rightarrow> bool) \<Rightarrow> 'r list \<Rightarrow> nat" where
  "sql_count p rows = length (filter p rows)"

definition match_count :: "('r \<Rightarrow> bool) \<Rightarrow> 'r list \<Rightarrow> bool" where
  "match_count p rows \<longleftrightarrow> sql_count p rows = 1"

fun completion_matches :: "evidence_completion \<Rightarrow> string \<Rightarrow> bool" where
  "completion_matches EvidenceComplete c = (c = ''complete'')"
| "completion_matches EvidenceUnsupported c = (c = ''unsupported'')"
| "completion_matches EvidenceIncomplete c = (c \<in> {''incomplete_timeout'', ''incomplete_unavailable'',
     ''incomplete_resource_limit'', ''incomplete_unknown''})"

fun sources_match :: "bytes \<Rightarrow> nat \<Rightarrow> finalization_source list \<Rightarrow> source_row list \<Rightarrow> (finalization_op_error, unit) result" where
  "sources_match attempt ordinal [] rows = Inr ()"
| "sources_match attempt ordinal (source # sources) rows =
     and_then (i64_of_u64 FinStorage ordinal) (\<lambda>ordinal_value.
     if \<not> match_count (\<lambda>r. es_attempt_id r = attempt \<and> es_source_ordinal r = ordinal_value
          \<and> es_source_id r = fx_source_id source \<and> es_required r = of_bool (fx_required source)
          \<and> es_accepted_event_count r = int (fx_admitted_event_count source)
          \<and> completion_matches (fx_completion source) (es_completion r)) rows
     then Inl FinAttemptUnavailable
     else sources_match attempt (ordinal + 1) sources rows)"

definition validate_source_inventory ::
  "finalization_record \<Rightarrow> 'a final_store_scheme \<Rightarrow> (finalization_op_error, unit) result" where
  "validate_source_inventory rec s =
     (let attempt = fi_attempt_id (fr_identity rec) in
     if \<not> match_count (\<lambda>r. ea_attempt_id r = attempt \<and> ea_source_count r = int (fr_source_count rec)) (attempt_rows s)
     then Inl FinAttemptUnavailable
     else if sql_count (\<lambda>r. es_attempt_id r = attempt) (source_rows s) \<noteq> fr_source_count rec
     then Inl FinAttemptUnavailable
     else sources_match attempt 0 (fr_sources rec) (source_rows s))"

text \<open>
  One advanced source row of the left join: a row of nulls when no checkpoint joins it, which is bad, and
  otherwise one row per checkpoint, bad when the cursor differs.  A comparison with \<open>NULL\<close> is not true.
\<close>

definition bad_checkpoints :: "bytes \<Rightarrow> checkpoint_row list \<Rightarrow> source_row \<Rightarrow> nat" where
  "bad_checkpoints policy checkpoints source =
     (let joined = filter (\<lambda>c. ck_source_id c = es_source_id source \<and> ck_evidence_policy_sha256 c = policy
        \<and> ck_trade_id c = es_trade_id source) checkpoints in
     if joined = [] then 1
     else sql_count (\<lambda>c. (case es_candidate_created_at_unix_s source of None \<Rightarrow> False
            | Some at \<Rightarrow> ck_cursor_created_at_unix_s c \<noteq> at)
        \<or> (case es_candidate_event_id source of None \<Rightarrow> False | Some event \<Rightarrow> ck_cursor_event_id c \<noteq> event)) joined)"

definition validate_advanced_checkpoints ::
  "finalization_record \<Rightarrow> 'a final_store_scheme \<Rightarrow> (finalization_op_error, unit) result" where
  "validate_advanced_checkpoints rec s =
     (if sum_list (map (bad_checkpoints (fi_policy_digest (fr_identity rec)) (checkpoint_rows s))
         (filter (\<lambda>r. es_attempt_id r = fi_attempt_id (fr_identity rec) \<and> es_checkpoint_advanced r = 1) (source_rows s))) = 0
      then Inr () else Inl FinGenerationConflict)"

text \<open>The pairs of the join of reports and signed events.\<close>

definition validate_supersession ::
  "finalization_record \<Rightarrow> 'a final_store_scheme \<Rightarrow> (finalization_op_error, unit) result" where
  "validate_supersession rec s =
     (case fr_supersession rec of
        None \<Rightarrow> Inr ()
      | Some (statement, event_id) \<Rightarrow>
          if match_count (\<lambda>(report, event). rep_statement_sha256 report = statement \<and> se_event_id event = event_id
               \<and> se_statement_sha256 event = rep_statement_sha256 report)
             (List.product (report_rows s) (signed_events (publications s)))
          then Inr () else Inl FinConflict)"

section \<open>Recognising a repeated commit\<close>

definition footprint :: "finalization_record \<Rightarrow> 'a final_store_scheme \<Rightarrow> nat" where
  "footprint rec s =
     (let event = fr_event rec in
       sql_count (\<lambda>r. mf_manifest_sha256 r = fr_manifest_sha256 rec \<or> mf_attempt_id r = fi_attempt_id (fr_identity rec)) (manifest_rows s)
     + sql_count (\<lambda>r. pj_projection_sha256 r = fr_projection_sha256 rec \<or> pj_manifest_sha256 r = fr_manifest_sha256 rec) (projection_rows s)
     + sql_count (\<lambda>r. rep_statement_sha256 r = fe_statement_sha256 event) (report_rows s)
     + sql_count (\<lambda>r. se_event_id r = fe_event_id event \<or> se_statement_sha256 r = fe_statement_sha256 event
         \<or> se_event_sha256 r = fe_event_sha256 event) (signed_events (publications s))
     + sql_count (\<lambda>r. ob_event_id r = fe_event_id event) (outboxes (publications s))
     + sql_count (\<lambda>r. jr_job_id r = fi_job_id (fr_identity rec) \<and> jr_state r = ''completed'') (jobs s))"

definition manifest_matches :: "finalization_record \<Rightarrow> 'a final_store_scheme \<Rightarrow> (finalization_op_error, bool) result" where
  "manifest_matches rec s = and_then (manifest_row_of rec) (\<lambda>row. Inr (match_count (\<lambda>r. r = row) (manifest_rows s)))"

definition projection_matches :: "finalization_record \<Rightarrow> 'a final_store_scheme \<Rightarrow> (finalization_op_error, bool) result" where
  "projection_matches rec s = Inr (match_count (\<lambda>r. r = projection_row_of rec) (projection_rows s))"

definition report_matches :: "finalization_record \<Rightarrow> 'a final_store_scheme \<Rightarrow> (finalization_op_error, bool) result" where
  "report_matches rec s = and_then (report_row_of rec) (\<lambda>row. Inr (match_count (\<lambda>r. r = row) (report_rows s)))"

definition final_event_matches :: "finalization_record \<Rightarrow> 'a final_store_scheme \<Rightarrow> (finalization_op_error, bool) result" where
  "final_event_matches rec s =
     (let event = fr_event rec in
     and_then (fin_i64_value (fe_authored_at_unix_s event)) (\<lambda>authored.
       Inr (match_count (\<lambda>r. se_event_id r = fe_event_id event \<and> se_statement_sha256 r = fe_statement_sha256 event
         \<and> se_event_sha256 r = fe_event_sha256 event \<and> se_issuer_public_key r = fe_issuer_public_key event
         \<and> se_authored_at_unix_s r = authored \<and> se_canonical_event_json r = fe_canonical_event_json event)
         (signed_events (publications s)))))"

text \<open>The columns of the outbox that no later step of the publication changes.\<close>

definition outbox_matches ::
  "finalization_event \<Rightarrow> required_publication \<Rightarrow> pub_store \<Rightarrow> (finalization_op_error, bool) result" where
  "outbox_matches event required p =
     and_then (fin_i64_value (rq_initial_backoff_ms required)) (\<lambda>initial.
     and_then (fin_i64_value (rq_maximum_backoff_ms required)) (\<lambda>maximum.
     and_then (fin_i64_value (rq_attempt_deadline_ms required)) (\<lambda>deadline.
       Inr (match_count (\<lambda>r. ob_outbox_id r = rq_outbox_id required \<and> ob_event_id r = fe_event_id event
         \<and> ob_event_sha256 r = fe_event_sha256 event
         \<and> ob_publication_authority_sha256 r = rq_authority_sha256 required
         \<and> ob_target_set_sha256 r = rq_target_set_sha256 required
         \<and> ob_target_count r = int (length (rq_targets required))
         \<and> ob_required_target_count r = int (length (filter ft_required (rq_targets required)))
         \<and> ob_max_attempts r = int (rq_maximum_attempts required) \<and> ob_initial_backoff_ms r = initial
         \<and> ob_maximum_backoff_ms r = maximum \<and> ob_attempt_deadline_ms r = deadline) (outboxes p)))))"

definition target_matches :: "bytes \<Rightarrow> finalization_target \<Rightarrow> pub_store \<Rightarrow> bool" where
  "target_matches outbox_id t p =
     match_count (\<lambda>r. tg_outbox_id r = outbox_id \<and> tg_target_ordinal r = int (ft_ordinal t)
       \<and> tg_relay_id r = ft_relay_id t \<and> tg_required r = of_bool (ft_required t)) (targets p)"

definition publication_matches :: "finalization_record \<Rightarrow> 'a final_store_scheme \<Rightarrow> (finalization_op_error, bool) result" where
  "publication_matches rec s =
     (let p = publications s in
     (case fr_publication rec of
        FinDisabled \<Rightarrow> Inr (sql_count (\<lambda>r. ob_event_id r = fe_event_id (fr_event rec)) (outboxes p) = 0)
      | FinRequired required \<Rightarrow>
          and_then (outbox_matches (fr_event rec) required p) (\<lambda>found.
          Inr (found
             \<and> sql_count (\<lambda>r. tg_outbox_id r = rq_outbox_id required) (targets p) = length (rq_targets required)
             \<and> list_all (\<lambda>t. target_matches (rq_outbox_id required) t p) (rq_targets required)))))"

definition completed_job_matches :: "finalization_record \<Rightarrow> 'a final_store_scheme \<Rightarrow> (finalization_op_error, bool) result" where
  "completed_job_matches rec s =
     (let job = lease_job (fr_lease rec); identity = fr_identity rec in
     and_then (fin_i64_value (fi_generation identity)) (\<lambda>generation.
     and_then (ok_or FinStorage (checked_add (job_revision job) 1)) (\<lambda>revision.
     and_then (fin_i64_value revision) (\<lambda>revision_value.
       Inr (match_count (\<lambda>r. jr_job_id r = fi_job_id identity \<and> jr_trade_id r = fi_trade_id identity
         \<and> jr_input_generation r = generation \<and> jr_evidence_policy_sha256 r = fi_policy_digest identity
         \<and> jr_state r = ''completed'' \<and> jr_revision r = revision_value
         \<and> jr_attempt_count r = int (job_attempt_count job) \<and> jr_failure_count r = int (job_failure_count job)
         \<and> jr_max_attempts r = int (max_attempts (job_policy job)) \<and> jr_next_attempt_unix_ms r = None
         \<and> jr_lease_owner r = None \<and> jr_lease_expires_unix_ms r = None) (jobs s))))))"

text \<open>\<open>a.await? && b.await?\<close>: the second query runs only when the first matched.\<close>

definition both :: "(finalization_op_error, bool) result \<Rightarrow> (finalization_op_error, bool) result \<Rightarrow> (finalization_op_error, bool) result" where
  "both a b = and_then a (\<lambda>x. if x then b else Inr False)"

datatype existing_state = ExistingAbsent | ExistingExact

definition final_reconcile_existing ::
  "finalization_record \<Rightarrow> 'a final_store_scheme \<Rightarrow> (finalization_op_error, existing_state) result" where
  "final_reconcile_existing rec s =
     (if footprint rec s = 0 then Inr ExistingAbsent else
     and_then (both (manifest_matches rec s) (both (projection_matches rec s) (both (report_matches rec s)
       (both (final_event_matches rec s) (both (publication_matches rec s) (completed_job_matches rec s)))))) (\<lambda>exact.
     if exact then
       and_then (validate_source_inventory rec s) (\<lambda>_.
       and_then (validate_supersession rec s) (\<lambda>_. Inr ExistingExact))
     else Inl FinConflict))"

section \<open>The commit\<close>

definition insert_manifest :: "finalization_record \<Rightarrow> 'a final_store_scheme \<Rightarrow> (finalization_op_error, 'a final_store_scheme) result" where
  "insert_manifest rec s =
     and_then (manifest_row_of rec) (\<lambda>row.
     (case sql_insert (\<lambda>_ _. True) (manifests_valid (attempt_rows s)) row (manifest_rows s) of
        None \<Rightarrow> Inl FinStorage | Some rows \<Rightarrow> Inr (s\<lparr>manifest_rows := rows\<rparr>)))"

definition insert_projection :: "finalization_record \<Rightarrow> 'a final_store_scheme \<Rightarrow> (finalization_op_error, 'a final_store_scheme) result" where
  "insert_projection rec s =
     (case sql_insert (\<lambda>_ _. True) (projections_valid (manifest_rows s)) (projection_row_of rec) (projection_rows s) of
        None \<Rightarrow> Inl FinStorage | Some rows \<Rightarrow> Inr (s\<lparr>projection_rows := rows\<rparr>))"

definition insert_report :: "finalization_record \<Rightarrow> 'a final_store_scheme \<Rightarrow> (finalization_op_error, 'a final_store_scheme) result" where
  "insert_report rec s =
     and_then (report_row_of rec) (\<lambda>row.
     (case sql_insert (\<lambda>_ _. True) (reports_valid (manifest_rows s) (projection_rows s)) row (report_rows s) of
        None \<Rightarrow> Inl FinStorage | Some rows \<Rightarrow> Inr (s\<lparr>report_rows := rows\<rparr>)))"

text \<open>The signed event, with its foreign key into the reports, and the outbox of a required publication.\<close>

definition insert_publication :: "finalization_record \<Rightarrow> 'a final_store_scheme \<Rightarrow> (finalization_op_error, 'a final_store_scheme) result" where
  "insert_publication rec s =
     (if fe_statement_sha256 (fr_event rec) \<notin> set (map rep_statement_sha256 (report_rows s)) then Inl FinStorage else
     and_then (insert_signed_event (fr_event rec) (publications s)) (\<lambda>p.
     and_then
       (case fr_publication rec of
          FinDisabled \<Rightarrow> Inr p
        | FinRequired required \<Rightarrow>
            and_then (insert_outbox (fr_event rec) required (fr_now rec) p) (\<lambda>p.
              insert_publication_targets (rq_outbox_id required) (fr_now rec) (rq_targets required) p)) (\<lambda>p.
       Inr (s\<lparr>publications := p\<rparr>))))"

definition insert_finalization :: "finalization_record \<Rightarrow> 'a final_store_scheme \<Rightarrow> (finalization_op_error, 'a final_store_scheme) result" where
  "insert_finalization rec s =
     and_then (insert_manifest rec s) (\<lambda>s. and_then (insert_projection rec s) (\<lambda>s.
     and_then (insert_report rec s) (\<lambda>s. insert_publication rec s)))"

fun final_fence_error :: "fence_error \<Rightarrow> finalization_op_error" where
  "final_fence_error FenceLeaseLost = FinLeaseLost"
| "final_fence_error FenceGenerationConflict = FinGenerationConflict"
| "final_fence_error FenceAttemptUnavailable = FinAttemptUnavailable"
| "final_fence_error FenceStorage = FinStorage"

text \<open>The update either fails in the database or changes a number of rows; only one row is success.\<close>

fun final_complete_error :: "operation_error \<Rightarrow> finalization_op_error" where
  "final_complete_error OpLeaseLost = FinLeaseLost"
| "final_complete_error _ = FinStorage"

definition commit_finalization_record ::
  "(bytes \<Rightarrow> bytes) \<Rightarrow> finalization_record \<Rightarrow> 'a final_store_scheme
     \<Rightarrow> (finalization_op_error, finalization_outcome \<times> 'a final_store_scheme) result" where
  "commit_finalization_record sha256 rec s =
     and_then (final_reconcile_existing rec s) (\<lambda>existing.
     if existing = ExistingExact then Inr (finalization_outcome_of rec False, s) else
     and_then (map_err final_fence_error (validate_finalization_identity sha256 (fr_lease rec) (fr_identity rec) (fr_now rec) s)) (\<lambda>_.
     and_then (validate_source_inventory rec s) (\<lambda>_.
     and_then (validate_advanced_checkpoints rec s) (\<lambda>_.
     and_then (validate_supersession rec s) (\<lambda>_.
     and_then (case fr_publication rec of FinDisabled \<Rightarrow> Inr ()
       | FinRequired required \<Rightarrow> require_queue_capacity required (publications s)) (\<lambda>_.
     and_then (insert_finalization rec s) (\<lambda>s.
     and_then (map_err final_complete_error (complete_job (fi_job_id (fr_identity rec)) (fr_lease rec) (fr_now rec) s)) (\<lambda>s.
       Inr (finalization_outcome_of rec True, s)))))))))"

fun map_finalization_commit_error :: "finalization_op_error tx_error \<Rightarrow> finalization_commit_error" where
  "map_finalization_commit_error CommitOutcomeUnknown = FcCommitUnknown"
| "map_finalization_commit_error (OperationFailed FinLeaseLost) = FcLeaseLost"
| "map_finalization_commit_error (OperationFailed FinGenerationConflict) = FcGenerationConflict"
| "map_finalization_commit_error (OperationFailed FinAttemptUnavailable) = FcAttemptUnavailable"
| "map_finalization_commit_error (OperationFailed FinQueueFull) = FcPublicationQueueFull"
| "map_finalization_commit_error (OperationFailed FinConflict) = FcConflict"
| "map_finalization_commit_error (OperationFailed FinStorage) = FcStorage"
| "map_finalization_commit_error HostFailed = FcStorage"

definition commit_finalization ::
  "(finalization_op_error, finalization_outcome, 'a final_store_scheme) txn \<Rightarrow> (bytes \<Rightarrow> bytes) \<Rightarrow> 'm manifest_crate
     \<Rightarrow> ('m, 'r, 't, 'e) attestation_crate \<Rightarrow> state_host_mode \<Rightarrow> bytes \<Rightarrow> ('m, 'r) signed_attestation \<Rightarrow> publication_authority
     \<Rightarrow> nat \<Rightarrow> 'a final_store_scheme \<Rightarrow> (finalization_commit_error, finalization_outcome) result \<times> 'a final_store_scheme" where
  "commit_finalization txn sha256 crate codec mode configuration attestation publication now s =
     (if mode \<noteq> ReadWriteExisting then (Inl FcInvalidMode, s)
      else if pa_configuration_sha256 publication \<noteq> configuration then (Inl FcInvalidInput, s) else
     (case finalization_record_from_inputs sha256 crate codec attestation publication now of
        None \<Rightarrow> (Inl FcInvalidInput, s)
      | Some rec \<Rightarrow>
         (case txn (commit_finalization_record sha256 rec) s of
            (Inl e, s') \<Rightarrow> (Inl (map_finalization_commit_error e), s')
          | (Inr out, s') \<Rightarrow> (Inr out, s'))))"

end
