(* ===== verification/Reconciliation_Reducer_Props.thy ===== *)
theory Reconciliation_Reducer_Props
  imports Reconciliation_Reducer Reconciliation_Replay_Props
begin

text \<open>
  The binary search of the standard library, the material a commit freezes, and the reduction of it: a
  manifest made from committed parts is never refused for its inventory.
\<close>

section \<open>Binary search\<close>

lemma binary_search_loop_inv:
  assumes "sorted (map key xs)" and "base + len \<le> length xs" and "0 < len"
    and "\<And>i. i < base \<Longrightarrow> key (xs ! i) \<le> key (xs ! base)"
    and "\<And>j. j < length xs \<Longrightarrow> key (xs ! j) = k \<Longrightarrow> \<exists>i. base \<le> i \<and> i < base + len \<and> key (xs ! i) = k"
  shows "binary_search_loop key k xs base len < length xs
    \<and> (\<forall>j < length xs. key (xs ! j) = k \<longrightarrow> key (xs ! binary_search_loop key k xs base len) = k)"
  using assms
proof (induction key k xs base len rule: binary_search_loop.induct)
  case (1 key k xs base len)
  show ?case
  proof (cases "len \<le> 1")
    case True
    then have "len = 1" using 1 by simp
    then have "key (xs ! base) = k" if "j < length xs" "key (xs ! j) = k" for j
      using 1(6)[OF that] \<open>len = 1\<close> by (metis Suc_eq_plus1 le_antisym less_Suc_eq_le)
    then show ?thesis using 1 True by (subst (1 2) binary_search_loop.simps) (auto simp: binary_search_loop.simps)
  next
    case False
    let ?half = "len div 2" and ?mid = "base + len div 2"
    let ?base = "if k < key (xs ! ?mid) then base else ?mid"
    have eq: "binary_search_loop key k xs base len = binary_search_loop key k xs ?base (len - ?half)"
      using False by (subst binary_search_loop.simps) (simp add: Let_def)
    have mono: "key (xs ! i) \<le> key (xs ! j)" if "i \<le> j" "j < length xs" for i j
      using sorted_nth_mono[OF 1(2), of i j] that by simp
    have mid: "?mid < length xs" using 1(3) False by linarith
    have "binary_search_loop key k xs ?base (len - ?half) < length xs
      \<and> (\<forall>j < length xs. key (xs ! j) = k \<longrightarrow> key (xs ! binary_search_loop key k xs ?base (len - ?half)) = k)"
    proof (rule "1.IH"[OF False refl refl "1.prems"(1)])
      show "?base + (len - ?half) \<le> length xs" using 1(3) by auto
      show "0 < len - ?half" using False by auto
      show "key (xs ! i) \<le> key (xs ! ?base)" if "i < ?base" for i using that mid mono by (auto split: if_splits)
      fix j assume j: "j < length xs" "key (xs ! j) = k"
      then obtain i where i: "base \<le> i" "i < base + len" "key (xs ! i) = k" using 1(6) by blast
      show "\<exists>i \<ge> ?base. i < ?base + (len - ?half) \<and> key (xs ! i) = k"
      proof (cases "k < key (xs ! ?mid)")
        case True
        have "i < ?mid" using mono[of ?mid i] i 1(3) True by (metis leD leI less_le_trans)
        then show ?thesis using True i by (intro exI[of _ i]) auto
      next
        case lower: False
        show ?thesis
        proof (cases "i < ?mid")
          case True
          then have "k \<le> key (xs ! ?mid)" using mono[of i ?mid] mid i by simp
          with lower have "key (xs ! ?mid) = k" by simp
          then show ?thesis using lower False by (intro exI[of _ ?mid]) auto
        qed (use lower i in \<open>intro exI[of _ i], auto\<close>)
      qed
    qed
    then show ?thesis unfolding eq .
  qed
qed

lemma binary_search_exact:
  assumes "sorted (map key xs)"
  shows "is_ok (binary_search_by_key key k xs) \<longleftrightarrow> k \<in> key ` set xs"
proof (cases "xs = []")
  case False
  have "binary_search_loop key k xs 0 (length xs) < length xs
    \<and> (\<forall>j < length xs. key (xs ! j) = k \<longrightarrow> key (xs ! binary_search_loop key k xs 0 (length xs)) = k)"
    using False by (intro binary_search_loop_inv assms) auto
  then show ?thesis
    using False by (auto simp: binary_search_by_key_def Let_def in_set_conv_nth) (metis imageI nth_mem)
qed (simp add: binary_search_by_key_def)

section \<open>Ordered maps\<close>

abbreviation keys_sorted :: "('k::linorder \<times> 'v) list \<Rightarrow> bool" where
  "keys_sorted m \<equiv> sorted_wrt (<) (map fst m)"

lemma btree_entry_keys: "fst ` set (btree_entry k modify fresh m) = insert k (fst ` set m)"
  by (induction k modify fresh m rule: btree_entry.induct) auto

lemma btree_entry_sorted: "keys_sorted m \<Longrightarrow> keys_sorted (btree_entry k modify fresh m)"
proof (induction k modify fresh m rule: btree_entry.induct)
  case (2 k modify fresh k' v entries)
  then show ?case using btree_entry_keys[of k modify fresh entries] by auto
qed simp

lemma btree_entry_lookup:
  "keys_sorted m \<Longrightarrow> (k', v) \<in> set (btree_entry k modify fresh m) \<longleftrightarrow>
     (if k' = k then (case map_of m k of None \<Rightarrow> v = fresh | Some old \<Rightarrow> v = modify old) else (k', v) \<in> set m)"
proof (induction k modify fresh m rule: btree_entry.induct)
  case (2 k modify fresh k0 v0 entries)
  have "map_of entries k = None" if "k < k0 \<or> k = k0"
    using that "2.prems" by (auto simp: map_of_eq_None_iff)
  then show ?case using 2 by (auto dest: order_less_imp_not_eq split: option.splits)
qed auto

section \<open>The material of a commit\<close>

lemma checked_sum_eq: "checked_sum acc ns = (if acc + sum_list ns \<le> u64_max then Some (acc + sum_list ns) else None)"
  if "acc \<le> u64_max"
  using that by (induction acc ns rule: checked_sum.induct) (auto simp: checked_add_def)

text \<open>The committed facts the material speaks of.\<close>

definition committed_records :: "commit_parts list \<Rightarrow> persistence_record list" where
  "committed_records parts = concat (map (\<lambda>part. map cf_record (cp_facts part)) parts)"

definition material_inv ::
  "persistence_record list \<Rightarrow> manifest_observation list \<Rightarrow> (bytes \<times> mutation_material) list \<Rightarrow> bool" where
  "material_inv records observations mutations \<longleftrightarrow>
     keys_sorted mutations
   \<and> map (\<lambda>r. (pr_mutation_id r, pr_event_id r)) records = inventory_of observations
   \<and> fst ` set mutations = pr_mutation_id ` set records
   \<and> (\<forall>(k, m) \<in> set mutations. mm_mutation_id m = k
       \<and> (\<exists>r \<in> set records. pr_mutation_id r = k \<and> pr_event_id r = mm_event_id m
            \<and> pr_canonical_content r = mm_canonical_content m)
       \<and> (\<forall>r \<in> set records. pr_mutation_id r = k \<longrightarrow> mm_event_id m \<le> pr_event_id r))"

lemma note_mutation_inv:
  assumes inv: "material_inv records observations mutations"
    and obs: "(mo_mutation_id observation, mo_event_id observation) = (pr_mutation_id r, pr_event_id r)"
  shows "material_inv (records @ [r]) (observations @ [observation]) (note_mutation r mutations)"
proof -
  let ?new = "note_mutation r mutations" and ?k = "pr_mutation_id r"
  have s: "keys_sorted mutations" using inv by (simp add: material_inv_def)
  have lookup: "(k, m) \<in> set ?new \<longleftrightarrow>
     (if k = ?k then (case map_of mutations ?k of None \<Rightarrow> m = material_of r
        | Some old \<Rightarrow> m = (if pr_event_id r < mm_event_id old
            then old\<lparr>mm_event_id := pr_event_id r, mm_canonical_content := pr_canonical_content r\<rparr> else old))
      else (k, m) \<in> set mutations)" for k m
    unfolding note_mutation_def by (rule btree_entry_lookup[OF s])
  have old: "mm_mutation_id m = k \<and> (\<exists>r \<in> set records. pr_mutation_id r = k \<and> pr_event_id r = mm_event_id m
        \<and> pr_canonical_content r = mm_canonical_content m)
      \<and> (\<forall>r \<in> set records. pr_mutation_id r = k \<longrightarrow> mm_event_id m \<le> pr_event_id r)" if "(k, m) \<in> set mutations" for k m
    using inv that by (fastforce simp: material_inv_def)
  have new: "mm_mutation_id m = k \<and> (\<exists>r' \<in> set (records @ [r]). pr_mutation_id r' = k \<and> pr_event_id r' = mm_event_id m
        \<and> pr_canonical_content r' = mm_canonical_content m)
      \<and> (\<forall>r' \<in> set (records @ [r]). pr_mutation_id r' = k \<longrightarrow> mm_event_id m \<le> pr_event_id r')" if m: "(k, m) \<in> set ?new" for k m
  proof (cases "k = ?k")
    case False
    with m lookup have "(k, m) \<in> set mutations" by simp
    from old[OF this] False show ?thesis by auto
  next
    case True
    show ?thesis
    proof (cases "map_of mutations ?k")
      case None
      then have "?k \<notin> pr_mutation_id ` set records" using inv by (auto simp: material_inv_def map_of_eq_None_iff)
      moreover have "m = material_of r" using m lookup True None by simp
      ultimately show ?thesis using True by (auto simp: material_of_def image_iff)
    next
      case (Some o')
      then have o: "(?k, o') \<in> set mutations" by (rule map_of_SomeD)
      have "m = (if pr_event_id r < mm_event_id o'
          then o'\<lparr>mm_event_id := pr_event_id r, mm_canonical_content := pr_canonical_content r\<rparr> else o')"
        using m lookup True Some by simp
      with old[OF o] True show ?thesis by (auto simp: not_less intro: order.trans)
    qed
  qed
  have "fst ` set ?new = pr_mutation_id ` set (records @ [r])"
    using inv by (simp add: note_mutation_def btree_entry_keys material_inv_def)
  with new inv obs s show ?thesis
    by (auto simp: material_inv_def inventory_of_def note_mutation_def btree_entry_sorted)
qed

lemma note_facts_inv:
  assumes "note_facts sha256 part fs (observations, mutations) = Some (observations', mutations')"
    and "material_inv records observations mutations"
  shows "material_inv (records @ map cf_record fs) observations' mutations'"
  using assms
proof (induction fs arbitrary: records observations mutations)
  case (Cons f fs)
  then obtain observation where o: "manifest_observation_of sha256 part f = Some observation"
    and rest: "note_facts sha256 part fs (observations @ [observation], note_mutation (cf_record f) mutations)
      = Some (observations', mutations')" by (auto simp: bind_eq_Some_conv)
  from o have "(mo_mutation_id observation, mo_event_id observation) = (pr_mutation_id (cf_record f), pr_event_id (cf_record f))"
    by (auto simp: manifest_observation_of_def Let_def bind_eq_Some_conv)
  from Cons.IH[OF rest note_mutation_inv[OF Cons.prems(2) this]] show ?case by simp
qed simp

lemma note_parts_inv:
  assumes "note_parts sha256 crate plan trade ordinal parts st = Some st'"
    and "material_inv records (mt_observations st) (mt_mutations st)"
  shows "material_inv (records @ committed_records parts) (mt_observations st') (mt_mutations st')
    \<and> (\<forall>part \<in> set parts. cp_trade_id part = trade \<and> sr_finished_at (cp_result part) \<le> mt_latest st')
    \<and> mt_latest st \<le> mt_latest st'"
  using assms
proof (induction parts arbitrary: ordinal st records)
  case (Cons part parts)
  from Cons.prems(1) obtain st1 where st1: "note_part sha256 crate plan trade ordinal part st = Some st1"
    and rest: "note_parts sha256 crate plan trade (ordinal + 1) parts st1 = Some st'" by (auto simp: bind_eq_Some_conv)
  from st1 have f: "note_facts sha256 part (cp_facts part) (mt_observations st, mt_mutations st)
        = Some (mt_observations st1, mt_mutations st1)" and t: "cp_trade_id part = trade"
    and l: "mt_latest st1 = max (mt_latest st) (sr_finished_at (cp_result part))"
    by (auto simp: note_part_def bind_eq_Some_conv split: if_splits)
  note IH = Cons.IH[OF rest note_facts_inv[OF f Cons.prems(2)]]
  then show ?case using t l by (auto simp: committed_records_def)
qed (simp add: committed_records_def)

lemma material_frozen:
  assumes "committed_manifest_material sha256 crate plan parts = Some material"
  shows "sorted_wrt (<) (map mm_mutation_id (ma_reducer_mutations material))"
    and "inventory_of (ma_observations material) = map (\<lambda>r. (pr_mutation_id r, pr_event_id r)) (committed_records parts)"
    and "mm_mutation_id ` set (ma_reducer_mutations material) = pr_mutation_id ` set (committed_records parts)"
    and "\<And>m. m \<in> set (ma_reducer_mutations material) \<Longrightarrow>
        \<exists>r \<in> set (committed_records parts). pr_mutation_id r = mm_mutation_id m \<and> pr_event_id r = mm_event_id m
          \<and> pr_canonical_content r = mm_canonical_content m"
    and "mutation_material_within_bounds (ma_reducer_mutations material)"
    and "\<And>part. part \<in> set parts \<Longrightarrow> cp_trade_id part = ma_trade_id material
        \<and> sr_finished_at (cp_result part) \<le> ma_latest_finished_unix_ms material"
proof -
  let ?start = "\<lparr>mt_latest = 0, mt_sources = [], mt_observations = [], mt_mutations = []\<rparr>"
  from assms obtain st where st: "note_parts sha256 crate plan (ma_trade_id material) 0 parts ?start = Some st"
    and m: "ma_reducer_mutations material = map snd (mt_mutations st)" "ma_observations material = mt_observations st"
      "ma_latest_finished_unix_ms material = mt_latest st"
    and bound: "mutation_material_within_bounds (map snd (mt_mutations st))"
    by (auto simp: committed_manifest_material_def Let_def bind_eq_Some_conv mutation_material_within_bounds_def
        material_lengths_within_bounds_def split: list.splits if_splits option.splits)
  have "material_inv [] (mt_observations ?start) (mt_mutations ?start)" by (simp add: material_inv_def inventory_of_def)
  note I = note_parts_inv[OF st this]
  then have inv: "material_inv (committed_records parts) (mt_observations st) (mt_mutations st)" by simp
  have key: "map mm_mutation_id (map snd (mt_mutations st)) = map fst (mt_mutations st)"
    using inv by (auto simp: material_inv_def)
  show "sorted_wrt (<) (map mm_mutation_id (ma_reducer_mutations material))"
    using inv by (simp only: m key) (simp add: material_inv_def)
  show "inventory_of (ma_observations material) = map (\<lambda>r. (pr_mutation_id r, pr_event_id r)) (committed_records parts)"
    using inv by (simp add: m material_inv_def)
  have "set (map mm_mutation_id (map snd (mt_mutations st))) = set (map fst (mt_mutations st))" by (simp only: key)
  then show "mm_mutation_id ` set (ma_reducer_mutations material) = pr_mutation_id ` set (committed_records parts)"
    using inv by (simp add: m material_inv_def image_image)
  show "\<exists>r \<in> set (committed_records parts). pr_mutation_id r = mm_mutation_id x \<and> pr_event_id r = mm_event_id x
      \<and> pr_canonical_content r = mm_canonical_content x" if "x \<in> set (ma_reducer_mutations material)" for x
    using that inv by (fastforce simp: m material_inv_def)
  show "mutation_material_within_bounds (ma_reducer_mutations material)" using bound by (simp add: m)
  show "cp_trade_id part = ma_trade_id material \<and> sr_finished_at (cp_result part) \<le> ma_latest_finished_unix_ms material"
    if "part \<in> set parts" for part using I that by (simp add: m)
qed

section \<open>Reducing a committed manifest\<close>

text \<open>The manifest type returns what it was built from.\<close>

definition manifest_crate_faithful :: "'m manifest_crate \<Rightarrow> bool" where
  "manifest_crate_faithful crate \<longleftrightarrow>
     (\<forall>trade generation policy observed_at pre sources observations inner.
        mc_new crate trade generation policy observed_at pre sources observations = Some inner \<longrightarrow>
        mc_trade_id crate inner = trade \<and> mc_policy_digest crate inner = policy
      \<and> mc_observed_at crate inner = observed_at \<and> set (mc_observations crate inner) = set observations)"

text \<open>The trade reducer names its contract and the trade it was given.\<close>

definition reducer_crate_faithful :: "'t reducer_crate \<Rightarrow> bool" where
  "reducer_crate_faithful reducer \<longleftrightarrow>
     (\<forall>trade mutations state observed_at.
        sp_reducer_contract_id (rc_reduce reducer trade mutations state observed_at) = rc_contract_id reducer
      \<and> sp_reducer_version (rc_reduce reducer trade mutations state observed_at) = rc_version reducer
      \<and> sp_trade_id (rc_reduce reducer trade mutations state observed_at) = trade)"

text \<open>The content of a committed fact is the canonical text of its mutation.\<close>

definition canonical_record :: "'t reducer_crate \<Rightarrow> bytes \<Rightarrow> persistence_record \<Rightarrow> bool" where
  "canonical_record reducer trade r \<longleftrightarrow>
     from_utf8 (pr_canonical_content r) \<noteq> None
   \<and> (\<exists>p. rc_parse reducer (pr_canonical_content r) = Some p \<and> pm_mutation_id p = Some (pr_mutation_id r)
        \<and> pm_trade_id p = trade)"

lemma div_ceil_le:
  assumes "\<not> n < div_ceil a b" and "0 < b"
  shows "a \<le> n * b"
proof -
  have "a \<le> div_ceil a b * b"
  proof (cases "a mod b = 0")
    case False
    have "a = a div b * b + a mod b" by simp
    also have "\<dots> \<le> a div b * b + b" by (rule add_left_mono[OF less_imp_le[OF mod_less_divisor[OF assms(2)]]])
    finally show ?thesis using False by (simp add: div_ceil_def)
  qed (auto simp: div_ceil_def)
  also have "\<dots> \<le> n * b" using assms(1) by (intro mult_right_mono) auto
  finally show ?thesis .
qed

lemma frozen_manifest:
  assumes "manifest_crate_faithful crate" and "freeze_manifest crate material observed_at pre = Inr manifest"
  shows "mc_trade_id crate (rm_inner manifest) = ma_trade_id material"
    and "set (mc_observations crate (rm_inner manifest)) = set (ma_observations material)"
    and "rm_reducer_mutations manifest = ma_reducer_mutations material"
    and "ma_latest_finished_unix_ms material \<le> observed_at * 1000"
proof -
  from assms(2) obtain inner where "mc_new crate (ma_trade_id material) (ma_generation material) (ma_policy_digest material)
      observed_at pre (ma_sources material) (ma_observations material) = Some inner" "rm_inner manifest = inner"
    "rm_reducer_mutations manifest = ma_reducer_mutations material" "\<not> observed_at < div_ceil (ma_latest_finished_unix_ms material) 1000"
    by (auto simp: freeze_manifest_def split: if_splits)
  with assms(1) show "mc_trade_id crate (rm_inner manifest) = ma_trade_id material"
    "set (mc_observations crate (rm_inner manifest)) = set (ma_observations material)"
    "rm_reducer_mutations manifest = ma_reducer_mutations material"
    "ma_latest_finished_unix_ms material \<le> observed_at * 1000"
    unfolding manifest_crate_faithful_def
    by (blast, blast, blast, simp add: div_ceil_le)
qed

text \<open>
  C15.  A manifest frozen from committed parts reduces: its material is sorted by mutation, so that the
  binary search finds every observed mutation, and the content of each mutation is that of one of its
  committed events; the reducer refuses nothing, and the manifest is not dated before the last source
  finished.
\<close>

theorem committed_manifest_reduces:
  assumes crate: "manifest_crate_faithful crate" and reducer: "reducer_crate_faithful reducer"
    and material: "committed_manifest_material sha256 crate plan parts = Some material"
    and frozen: "freeze_manifest crate material observed_at pre = Inr manifest"
    and canonical: "list_all (canonical_record reducer (ma_trade_id material)) (committed_records parts)"
  shows "\<exists>projection. reduce_rhi_reconciliation_manifest sha256 crate reducer manifest = Inr projection
      \<and> rj_manifest projection = manifest
      \<and> (\<forall>part \<in> set parts. sr_finished_at (cp_result part) \<le> observed_at * 1000)"
proof -
  let ?materials = "ma_reducer_mutations material" and ?obs = "mc_observations crate (rm_inner manifest)"
  note M = material_frozen[OF material] and F = frozen_manifest[OF crate frozen]
  have sorted: "sorted (map mm_mutation_id ?materials)" using M(1) by (simp add: strict_sorted_imp_sorted)
  have inv: "set (inventory_of ?obs) = (\<lambda>r. (pr_mutation_id r, pr_event_id r)) ` set (committed_records parts)"
    using M(2) F(2) by (metis (no_types, lifting) inventory_of_def list.set_map)
  have found: "is_ok (binary_search_by_key mm_mutation_id (mo_mutation_id o') ?materials)" if "o' \<in> set ?obs" for o'
  proof -
    have "(mo_mutation_id o', mo_event_id o') \<in> set (inventory_of ?obs)" using that by (simp add: inventory_of_def)
    then have "mo_mutation_id o' \<in> pr_mutation_id ` set (committed_records parts)" unfolding inv by auto
    then show ?thesis by (simp add: binary_search_exact[OF sorted] M(3))
  qed
  have each: "\<exists>p. reduce_material reducer (ma_trade_id material) (inventory_of ?obs) m = Inr (mm_event_id m, p)"
    if m: "m \<in> set ?materials" for m
  proof -
    from M(4)[OF m] obtain r where r: "r \<in> set (committed_records parts)" "pr_mutation_id r = mm_mutation_id m"
      "pr_event_id r = mm_event_id m" "pr_canonical_content r = mm_canonical_content m" by blast
    then have "(mm_mutation_id m, mm_event_id m) \<in> set (inventory_of ?obs)" unfolding inv by force
    moreover have "canonical_record reducer (ma_trade_id material) r" using canonical r(1) by (simp add: list_all_iff)
    then obtain p where "rc_parse reducer (mm_canonical_content m) = Some p" "pm_mutation_id p = Some (mm_mutation_id m)"
      "pm_trade_id p = ma_trade_id material" "from_utf8 (mm_canonical_content m) \<noteq> None"
      unfolding canonical_record_def r(2,4) by blast
    ultimately show ?thesis by (intro exI[of _ p]) (simp add: reduce_material_def)
  qed
  then have "collect (map (reduce_material reducer (ma_trade_id material) (inventory_of ?obs)) ?materials)
      = Inr (map (\<lambda>m. (mm_event_id m, SOME p. reduce_material reducer (ma_trade_id material) (inventory_of ?obs) m
          = Inr (mm_event_id m, p))) ?materials)"
    by (intro collect_Inr_map) (rule someI_ex)
  moreover have "\<not> list_ex (\<lambda>o'. \<not> is_ok (binary_search_by_key mm_mutation_id (mo_mutation_id o') ?materials)) ?obs"
    using found by (auto simp: list_ex_iff)
  ultimately have "\<exists>projection. reduce_rhi_reconciliation_manifest sha256 crate reducer manifest = Inr projection
      \<and> rj_manifest projection = manifest"
    using M(5) reducer by (simp add: reduce_rhi_reconciliation_manifest_def Let_def F(1,3) reducer_crate_faithful_def)
  moreover have "sr_finished_at (cp_result part) \<le> observed_at * 1000" if "part \<in> set parts" for part
    using M(6)[OF that] F(4) by simp
  ultimately show ?thesis by blast
qed

section \<open>Verdicts\<close>

text \<open>The evidence is enough to judge any claim, and the record of one claim does not contradict itself.\<close>

definition evidence_conclusive :: "'m manifest_crate \<Rightarrow> 'm reconciliation_projection \<Rightarrow> bool" where
  "evidence_conclusive crate projection \<longleftrightarrow>
     mc_coverage crate (rm_inner (rj_manifest projection)) = CoverageScopeSatisfied
   \<and> rj_digest projection \<noteq> None \<and> sp_evidence_state (rj_shared projection) = EvidenceStateComplete"

definition claim_consistent :: "'m reconciliation_projection \<Rightarrow> bytes \<Rightarrow> bool" where
  "claim_consistent projection claim \<longleftrightarrow>
     sp_issue_count (rj_shared projection) = 0 \<and> claim \<notin> set (sp_contested_claims (rj_shared projection))
   \<and> (claim \<notin> set (sp_active_agreement_claims (rj_shared projection)) \<or> claim \<notin> set (sp_cancelled_claims (rj_shared projection)))"

text \<open>When each verdict is due, one condition for each reason.\<close>

fun reason_due :: "'m manifest_crate \<Rightarrow> 'm reconciliation_projection \<Rightarrow> bytes \<Rightarrow> reason_code \<Rightarrow> bool" where
  "reason_due crate p claim RequiredEvidenceMissing \<longleftrightarrow>
     mc_coverage crate (rm_inner (rj_manifest p)) = CoverageMissing
   \<or> mc_coverage crate (rm_inner (rj_manifest p)) = CoverageScopeSatisfied \<and> rj_digest p \<noteq> None
     \<and> sp_evidence_state (rj_shared p) = EvidenceStateMissing"
| "reason_due crate p claim RequiredSourceIncomplete \<longleftrightarrow>
     mc_coverage crate (rm_inner (rj_manifest p)) = CoveragePartial
   \<or> mc_coverage crate (rm_inner (rj_manifest p)) = CoverageScopeSatisfied \<and> rj_digest p \<noteq> None
     \<and> sp_evidence_state (rj_shared p) = EvidenceStateQueryPartial"
| "reason_due crate p claim RequiredSourceUnsupported \<longleftrightarrow> mc_coverage crate (rm_inner (rj_manifest p)) = CoverageUnsupported"
| "reason_due crate p claim ProjectionDigestUnavailable \<longleftrightarrow>
     mc_coverage crate (rm_inner (rj_manifest p)) = CoverageScopeSatisfied \<and> rj_digest p = None"
| "reason_due crate p claim GoverningSchemaUnsupported \<longleftrightarrow>
     mc_coverage crate (rm_inner (rj_manifest p)) = CoverageScopeSatisfied \<and> rj_digest p \<noteq> None
   \<and> sp_evidence_state (rj_shared p) = EvidenceStateUnsupportedVersion"
| "reason_due crate p claim ReducerIssueUnresolved \<longleftrightarrow> evidence_conclusive crate p \<and> \<not> claim_consistent p claim"
| "reason_due crate p claim AgreementClaimMissing \<longleftrightarrow>
     evidence_conclusive crate p \<and> claim_consistent p claim \<and> claim \<notin> set (sp_agreement_claims (rj_shared p))"
| "reason_due crate p claim ScopeSatisfied \<longleftrightarrow>
     evidence_conclusive crate p \<and> claim_consistent p claim \<and> claim \<in> set (sp_agreement_claims (rj_shared p))
   \<and> claim \<in> set (sp_active_agreement_claims (rj_shared p)) \<and> sp_agreement_agreed (rj_shared p)"
| "reason_due crate p claim AgreementClaimCancelled \<longleftrightarrow>
     evidence_conclusive crate p \<and> claim_consistent p claim \<and> claim \<in> set (sp_agreement_claims (rj_shared p))
   \<and> claim \<in> set (sp_cancelled_claims (rj_shared p))"
| "reason_due crate p claim AgreementClaimUnresolved \<longleftrightarrow>
     evidence_conclusive crate p \<and> claim_consistent p claim \<and> claim \<in> set (sp_agreement_claims (rj_shared p))
   \<and> claim \<notin> set (sp_cancelled_claims (rj_shared p))
   \<and> \<not> (claim \<in> set (sp_active_agreement_claims (rj_shared p)) \<and> sp_agreement_agreed (rj_shared p))"

text \<open>
  C16.  The verdict on a claim is closed.  It is valid exactly when the evidence covers the scope, the digest of
  the projection is there, the reducer finds the evidence complete and no issue, and the claim is present,
  active, agreed, and neither contested nor cancelled; it is invalid exactly when under the same evidence the
  claim is present, cancelled, not active and not contested; everything else is indeterminate.  Exactly one
  reason is reported, and each of the ten reasons is reported exactly under its own condition.
\<close>

theorem verdict_exact:
  "let e = evaluate_rhi_reconciliation_claim crate projection claim; shared = rj_shared projection in
      (re_outcome e = OutcomeValid \<longleftrightarrow> evidence_conclusive crate projection \<and> sp_issue_count shared = 0
        \<and> claim \<notin> set (sp_contested_claims shared) \<and> claim \<in> set (sp_agreement_claims shared)
        \<and> claim \<in> set (sp_active_agreement_claims shared) \<and> claim \<notin> set (sp_cancelled_claims shared) \<and> sp_agreement_agreed shared)
    \<and> (re_outcome e = OutcomeInvalid \<longleftrightarrow> evidence_conclusive crate projection \<and> sp_issue_count shared = 0
        \<and> claim \<notin> set (sp_contested_claims shared) \<and> claim \<in> set (sp_agreement_claims shared)
        \<and> claim \<notin> set (sp_active_agreement_claims shared) \<and> claim \<in> set (sp_cancelled_claims shared))
    \<and> (\<forall>reason. re_reason_codes e = [reason] \<longleftrightarrow> reason_due crate projection claim reason)
    \<and> re_coverage e = mc_coverage crate (rm_inner (rj_manifest projection)) \<and> re_projection e = projection
    \<and> re_claim_mutation_id e = claim \<and> length (re_reason_codes e) = 1"
proof -
  let ?e = "evaluate_rhi_reconciliation_claim crate projection claim"
  note defs = evaluate_rhi_reconciliation_claim_def classify_evaluation_def evaluation_facts_of_def Let_def
    evidence_conclusive_def claim_consistent_def
  have "re_reason_codes ?e = [reason] \<longleftrightarrow> reason_due crate projection claim reason" for reason
    by (cases reason) (auto simp: defs split: evidence_coverage.splits evidence_state.splits)
  then show ?thesis
    by (auto simp: defs split: evidence_coverage.splits evidence_state.splits)
qed

section \<open>Digests in hexadecimal\<close>

definition lower_hex_char :: "nat \<Rightarrow> char" where
  "lower_hex_char n = char_of (if n < 10 then n + 48 else n + 87)"

definition lower_hex :: "bytes \<Rightarrow> string" where
  "lower_hex bs = concat (map (\<lambda>b. [lower_hex_char (unat b div 16), lower_hex_char (unat b mod 16)]) bs)"

lemma decode_hex_digit: "n < 16 \<Longrightarrow> decode_lower_hex (lower_hex_char n) = Some n"
  by (simp add: decode_lower_hex_def lower_hex_char_def Let_def)

lemma decode_lower_hexD:
  assumes "decode_lower_hex c = Some n"
  shows "n < 16" and "c = lower_hex_char n"
proof -
  have c: "c = char_of (of_char c :: nat)" by simp
  from assms show "n < 16" by (auto simp: decode_lower_hex_def Let_def split: if_splits)
  show "c = lower_hex_char n" using assms by (subst c) (auto simp: decode_lower_hex_def lower_hex_char_def Let_def split: if_splits)
qed

lemma decode_hex_pairs_lower_hex: "decode_hex_pairs (lower_hex bs) = Some bs"
proof (induction bs)
  case (Cons b bs)
  have u: "unat b < 256" using unsigned_less[of b, where ?'a = nat] by simp
  then have b: "unat b div 16 < 16" by (simp add: less_mult_imp_div_less)
  have "decode_hex_pairs (lower_hex (b # bs)) = Some (word_of_nat (unat b div 16 * 16 + unat b mod 16) # bs)"
    using Cons.IH b u by (simp add: lower_hex_def decode_hex_digit)
  then show ?case by (simp only: div_mult_mod_eq) simp
qed (simp add: lower_hex_def)

lemma decode_hex_pairsD:
  assumes "decode_hex_pairs s = Some bs" and "even (length s)"
  shows "s = lower_hex bs"
  using assms
proof (induction s arbitrary: bs rule: decode_hex_pairs.induct)
  case (1 high low rest)
  from 1(2) obtain h l bs' where h: "decode_lower_hex high = Some h" and l: "decode_lower_hex low = Some l"
    and bs: "bs = word_of_nat (h * 16 + l) # bs'" and rest: "decode_hex_pairs rest = Some bs'"
    by (auto simp: bind_eq_Some_conv split: if_splits)
  note H = decode_lower_hexD[OF h] and L = decode_lower_hexD[OF l]
  have "unat (word_of_nat (h * 16 + l) :: 8 word) = h * 16 + l"
    using H(1) L(1) by (simp add: unat_of_nat take_bit_nat_eq_self del: of_nat_add of_nat_mult)
  moreover have "(h * 16 + l) div 16 = h" "(h * 16 + l) mod 16 = l" using L(1) by simp_all
  moreover have "rest = lower_hex bs'"
    using "1.IH"[of h "h * 16" l "h * 16 + l" bs'] 1(3) H(1) L(1) h l rest by simp
  ultimately show ?case using H(2) L(2) bs by (simp add: lower_hex_def)
qed (auto simp: lower_hex_def)

lemma length_lower_hex [simp]: "length (lower_hex bs) = 2 * length bs"
  by (induction bs) (simp_all add: lower_hex_def)

text \<open>
  The digest decoder is the inverse of lower-case hexadecimal: it returns the thirty-two bytes whose
  lower-case text it is given, and nothing for any other text.
\<close>

theorem decode_lower_hex_32_exact:
  "decode_lower_hex_32 value = Some bs \<longleftrightarrow> length bs = 32 \<and> value = lower_hex bs"
proof
  assume "decode_lower_hex_32 value = Some bs"
  then have "length value = 64" "decode_hex_pairs value = Some bs"
    by (simp_all add: decode_lower_hex_32_def split: if_splits)
  moreover from this have "value = lower_hex bs" by (intro decode_hex_pairsD) simp_all
  ultimately show "length bs = 32 \<and> value = lower_hex bs" by simp
qed (simp add: decode_lower_hex_32_def decode_hex_pairs_lower_hex)

section \<open>Witnesses\<close>

type_synonym demo_manifest = "bytes \<times> bytes \<times> nat \<times> manifest_observation list"

definition demo_manifest_crate :: "demo_manifest manifest_crate" where
  "demo_manifest_crate = \<lparr>mc_source_id_ok = (\<lambda>_. True), mc_result_ok = (\<lambda>_ _ _. True),
     mc_new = (\<lambda>trade generation policy observed_at pre sources observations. Some (trade, policy, observed_at, observations)),
     mc_trade_id = (\<lambda>(t, p, n, os). t), mc_policy_digest = (\<lambda>(t, p, n, os). p), mc_observed_at = (\<lambda>(t, p, n, os). n),
     mc_observations = (\<lambda>(t, p, n, os). os), mc_coverage = (\<lambda>_. CoverageScopeSatisfied), mc_digest = (\<lambda>_. []),
     mc_trade_generation = (\<lambda>_. 1), mc_canonical_bytes = (\<lambda>_. []), mc_sources = (\<lambda>_. [])\<rparr>"

definition demo_reducer :: "unit reducer_crate" where
  "demo_reducer = \<lparr>rc_contract_id = ''c'', rc_version = 1,
     rc_parse = (\<lambda>_. Some \<lparr>pm_mutation_id = Some (replicate 32 1), pm_trade_id = replicate 16 2, pm_body = ()\<rparr>),
     rc_reduce = (\<lambda>trade mutations state observed_at.
       \<lparr>sp_reducer_contract_id = ''c'', sp_reducer_version = 1, sp_trade_id = trade, sp_projection_digest = [],
        sp_evidence_state = state, sp_issue_count = 0, sp_agreement_claims = [], sp_active_agreement_claims = [],
        sp_contested_claims = [], sp_cancelled_claims = [], sp_agreement_agreed = False\<rparr>)\<rparr>"

definition demo_plan :: attempt_plan where
  "demo_plan = \<lparr>ap_id = replicate 32 8, ap_job_id = replicate 32 9, ap_input_generation = 1,
     ap_policy_digest = replicate 32 6, ap_attempt_started_at = 80000, ap_deadline = 90000, ap_requests = []\<rparr>"

definition demo_parts :: commit_parts where
  "demo_parts = \<lparr>cp_replay_id = replicate 32 7, cp_request_id = replicate 32 7, cp_source_id = ''relay-a'',
     cp_trade_id = replicate 16 2, cp_required = True, cp_policy_digest = replicate 32 6,
     cp_selector_digest = replicate 32 5, cp_prior_cursor = None, cp_overlap_seconds = 1, cp_since_unix_seconds = 20,
     cp_result = \<lparr>sr_request_id = replicate 32 7, sr_outcome = Complete, sr_started_at = 80000, sr_finished_at = 81000,
       sr_accepted_event_count = 1, sr_accepted_event_bytes = 2\<rparr>,
     cp_duplicate_observations = 0, cp_cursor_candidate = Some (record_cursor demo_evidence_record),
     cp_eligible_cursor = Some (record_cursor demo_evidence_record), cp_first_observed_at = Some 80,
     cp_facts = [\<lparr>cf_record = demo_evidence_record, cf_observed_at = 80\<rparr>]\<rparr>"

theorem committed_manifest_reduces_witness:
  "\<exists>material manifest projection.
     committed_manifest_material (\<lambda>b. b) demo_manifest_crate demo_plan [demo_parts] = Some material
   \<and> freeze_manifest demo_manifest_crate material 81 PrerequisitesSatisfied = Inr manifest
   \<and> reduce_rhi_reconciliation_manifest (\<lambda>b. b) demo_manifest_crate demo_reducer manifest = Inr projection
   \<and> rj_manifest projection = manifest"
proof -
  have crate: "manifest_crate_faithful demo_manifest_crate"
    by (simp add: manifest_crate_faithful_def demo_manifest_crate_def)
  have reducer: "reducer_crate_faithful demo_reducer" by (simp add: reducer_crate_faithful_def demo_reducer_def)
  have "\<exists>material. committed_manifest_material (\<lambda>b. b) demo_manifest_crate demo_plan [demo_parts] = Some material
      \<and> ma_trade_id material = replicate 16 2 \<and> ma_latest_finished_unix_ms material = 81000"
    by (simp add: committed_manifest_material_def demo_parts_def demo_plan_def demo_manifest_crate_def note_part_def
        accepted_inventory_digest_def inventory_fact_bytes_def update_framed_def demo_evidence_record_def u64_max_def
        ascii_bytes_def source_result_digest_def manifest_observation_of_def note_mutation_def material_of_def
        checked_add_def Let_def RHI_REDUCER_MAXIMUM_MUTATIONS_def RHI_REDUCER_MAXIMUM_MUTATION_MATERIAL_BYTES_def
        SOURCE_SELECTOR_def)
  then obtain material where m: "committed_manifest_material (\<lambda>b. b) demo_manifest_crate demo_plan [demo_parts] = Some material"
    "ma_trade_id material = replicate 16 2" "ma_latest_finished_unix_ms material = 81000" by blast
  then obtain manifest where f: "freeze_manifest demo_manifest_crate material 81 PrerequisitesSatisfied = Inr manifest"
    by (auto simp: freeze_manifest_def demo_manifest_crate_def div_ceil_def i64_max_def)
  have "list_all (canonical_record demo_reducer (ma_trade_id material)) (committed_records [demo_parts])"
    by (simp add: m committed_records_def demo_parts_def canonical_record_def demo_reducer_def demo_evidence_record_def
        from_utf8.simps next_scalar_def utf8_width_def is_scalar_def utf8_char_def byte_def)
  from committed_manifest_reduces[OF crate reducer m(1) f this] m(1) f show ?thesis by blast
qed

end
