(* ===== verification/Reconciliation_Commit_Props.thy ===== *)
theory Reconciliation_Commit_Props
  imports Reconciliation_Commit Reconciliation_Reducer_Props Reconciliation_Job_Witness
begin

text \<open>
  A commit of source results is exact and happens once: it holds the lease, the generation and the cursors
  it was planned against, writes the evidence, the generation, the cursors and the result rows together,
  and a repetition finds the rows and changes nothing.
\<close>

section \<open>Invariant\<close>

definition commit_inv :: "'a commit_store_scheme \<Rightarrow> bool" where
  "commit_inv s \<longleftrightarrow> ingest_inv s \<and> reconciliations_valid (jobs s) (attempt_rows s)
   \<and> sources_valid (attempt_rows s) (source_rows s)"

abbreviation part_key :: "bytes \<Rightarrow> commit_parts \<Rightarrow> checkpoint_scope" where
  "part_key policy part \<equiv> (cp_source_id part, SOURCE_SELECTOR, policy, cp_trade_id part)"

abbreviation part_checkpoint :: "bytes \<Rightarrow> 'a evidence_store_scheme \<Rightarrow> commit_parts \<Rightarrow> source_checkpoint option" where
  "part_checkpoint policy s part \<equiv> map_option checkpoint_of_row (checkpoint_at (part_key policy part) s)"

section \<open>Reading and persisting\<close>

lemma read_checkpoints_ok:
  assumes "checkpoints_valid (checkpoint_rows s)"
  shows "read_checkpoints policy parts s =
    (if \<forall>part \<in> set parts. cursor_at (part_key policy part) s = cp_prior_cursor part
     then Inr (map (part_checkpoint policy s) parts) else Inl CoGenerationConflict)"
  by (induction parts) (auto simp: read_checkpoint_ok[OF assms] cursor_at_def option.map_comp comp_def)

lemma persist_facts_grows:
  "persist_facts source_id policy fs new s = Inr (new', s') \<Longrightarrow> evidence_inv s \<Longrightarrow>
     evidence_inv s' \<and> (\<exists>m e n. evidence_grows (m, e, n) s s' \<and> new' = (new \<or> m \<noteq> 0 \<or> e \<noteq> 0))"
proof (induction fs arbitrary: new s)
  case Nil
  then show ?case using evidence_grows_refl[of s] by auto
next
  case (Cons f fs)
  from Cons.prems(1) obtain out s1 where p: "persist (cf_record f)
      (observation_from_persistence_parts source_id policy (cf_record f) (cf_observed_at f)) s = Inr (out, s1)"
    and rest: "persist_facts source_id policy fs (new \<or> po_mutation_inserted out \<or> po_signed_event_inserted out) s1 = Inr (new', s')"
    by auto
  note g = persist_grows[OF Cons.prems(2) p]
  from Cons.IH[OF rest persist_inv[OF Cons.prems(2) p]] obtain m e n where IH: "evidence_inv s'"
    "evidence_grows (m, e, n) s1 s'" "new' = (new \<or> po_mutation_inserted out \<or> po_signed_event_inserted out \<or> m \<noteq> 0 \<or> e \<noteq> 0)"
    by blast
  from evidence_grows_trans[OF g IH(2)] IH(1,3) show ?case by (intro conjI exI) (assumption, auto)
qed

lemma persist_parts_grows:
  "persist_parts policy parts new s = Inr (new', s') \<Longrightarrow> evidence_inv s \<Longrightarrow>
     evidence_inv s' \<and> (\<exists>m e n. evidence_grows (m, e, n) s s' \<and> new' = (new \<or> m \<noteq> 0 \<or> e \<noteq> 0))"
proof (induction parts arbitrary: new s)
  case Nil
  then show ?case using evidence_grows_refl[of s] by auto
next
  case (Cons part parts)
  from Cons.prems(1) obtain new1 s1 where p: "persist_facts (cp_source_id part) policy (cp_facts part) new s = Inr (new1, s1)"
    and rest: "persist_parts policy parts new1 s1 = Inr (new', s')" by auto
  from persist_facts_grows[OF p Cons.prems(2)] obtain m e n where g: "evidence_inv s1" "evidence_grows (m, e, n) s s1"
    "new1 = (new \<or> m \<noteq> 0 \<or> e \<noteq> 0)" by blast
  from Cons.IH[OF rest g(1)] obtain m' e' n' where IH: "evidence_inv s'" "evidence_grows (m', e', n') s1 s'"
    "new' = (new1 \<or> m' \<noteq> 0 \<or> e' \<noteq> 0)" by blast
  from evidence_grows_trans[OF g(2) IH(2)] IH(1,3) g(3) show ?case by (intro conjI exI) (assumption, auto)
qed

text \<open>The rows of the facts of the parts, in the order of the plan and of delivery.\<close>

definition fact_observation_row :: "string \<Rightarrow> bytes \<Rightarrow> commit_fact \<Rightarrow> observation_row" where
  "fact_observation_row source_id policy f =
     \<lparr>ro_source_id = source_id, ro_selector_id = SOURCE_SELECTOR, ro_evidence_policy_sha256 = policy,
      ro_event_id = pr_event_id (cf_record f), ro_event_signature = pr_event_signature (cf_record f),
      ro_observed_at_unix_s = int (cf_observed_at f)\<rparr>"

definition part_mutation_rows :: "commit_parts list \<Rightarrow> mutation_row list" where
  "part_mutation_rows parts = concat (map (\<lambda>part. map (\<lambda>f. mutation_row_of (cf_record f)) (cp_facts part)) parts)"

definition part_event_rows :: "commit_parts list \<Rightarrow> nostr_row list" where
  "part_event_rows parts = concat (map (\<lambda>part. map (\<lambda>f. event_of (cf_record f)) (cp_facts part)) parts)"

definition part_observation_rows :: "bytes \<Rightarrow> commit_parts list \<Rightarrow> observation_row list" where
  "part_observation_rows policy parts =
     concat (map (\<lambda>part. map (fact_observation_row (cp_source_id part) policy) (cp_facts part)) parts)"

lemma persist_facts_stored:
  "persist_facts source_id policy fs new s = Inr (new', s') \<Longrightarrow> evidence_inv s \<Longrightarrow>
     evidence_inv s' \<and> evidence_stored (map (\<lambda>f. mutation_row_of (cf_record f)) fs) (map (\<lambda>f. event_of (cf_record f)) fs)
       (map (fact_observation_row source_id policy) fs) s s'"
proof (induction fs arbitrary: new s)
  case Nil
  then show ?case by (simp add: evidence_stored_refl)
next
  case (Cons f fs)
  from Cons.prems(1) obtain out s1 new1 where p: "persist (cf_record f)
      (observation_from_persistence_parts source_id policy (cf_record f) (cf_observed_at f)) s = Inr (out, s1)"
    and rest: "persist_facts source_id policy fs new1 s1 = Inr (new', s')" by auto
  have "evidence_stored [mutation_row_of (cf_record f)] [event_of (cf_record f)] [fact_observation_row source_id policy f] s s1"
    using persist_stored[OF Cons.prems(2) p]
    by (simp add: observation_row_of_def observation_from_persistence_parts_def fact_observation_row_def)
  from evidence_stored_trans[OF this] Cons.IH[OF rest persist_inv[OF Cons.prems(2) p]] show ?case by fastforce
qed

lemma persist_parts_stored:
  "persist_parts policy parts new s = Inr (new', s') \<Longrightarrow> evidence_inv s \<Longrightarrow>
     evidence_stored (part_mutation_rows parts) (part_event_rows parts) (part_observation_rows policy parts) s s'"
proof (induction parts arbitrary: new s)
  case Nil
  then show ?case by (simp add: evidence_stored_refl part_mutation_rows_def part_event_rows_def part_observation_rows_def)
next
  case (Cons part parts)
  from Cons.prems(1) obtain new1 s1 where p: "persist_facts (cp_source_id part) policy (cp_facts part) new s = Inr (new1, s1)"
    and rest: "persist_parts policy parts new1 s1 = Inr (new', s')" by auto
  note F = persist_facts_stored[OF p Cons.prems(2)]
  from evidence_stored_trans[OF conjunct2[OF F] Cons.IH[OF rest conjunct1[OF F]]] show ?case
    by (simp add: part_mutation_rows_def part_event_rows_def part_observation_rows_def)
qed

section \<open>Writing the results\<close>

text \<open>The rows a list of parts leaves, from a first ordinal on.\<close>

definition result_rows :: "(bytes \<Rightarrow> bytes) \<Rightarrow> bytes \<Rightarrow> nat \<Rightarrow> commit_parts list \<Rightarrow> source_row list \<Rightarrow> bool" where
  "result_rows sha256 attempt ordinal parts rows \<longleftrightarrow>
     list_all2 (\<lambda>(i, part) row. source_row_of sha256 attempt i part = Inr row) (zip [ordinal..<ordinal + length parts] parts) rows"

lemma source_row_of_attempt: "source_row_of sha256 attempt ordinal part = Inr row \<Longrightarrow> es_attempt_id row = attempt"
  by (auto simp: source_row_of_def Let_def)

lemma result_rows_Cons:
  "result_rows sha256 attempt ordinal (part # parts) rows \<longleftrightarrow>
     (\<exists>row rest. rows = row # rest \<and> source_row_of sha256 attempt ordinal part = Inr row
        \<and> result_rows sha256 attempt (Suc ordinal) parts rest)"
  unfolding result_rows_def by (simp add: upt_conv_Cons list_all2_Cons1 del: upt_Suc)

lemma result_rows_length: "result_rows sha256 attempt ordinal parts rows \<Longrightarrow> length rows = length parts"
  unfolding result_rows_def by (auto dest: list_all2_lengthD)

lemma result_rows_attempt: "result_rows sha256 attempt ordinal parts rows \<Longrightarrow> row \<in> set rows \<Longrightarrow> es_attempt_id row = attempt"
  by (induction parts arbitrary: ordinal rows)
    (auto simp: result_rows_Cons source_row_of_attempt, auto simp: result_rows_def)

lemma write_results_effect:
  assumes "write_results sha256 plan ordinal (zip parts (map (part_checkpoint (ap_policy_digest plan) s) parts)) s = Inr s'"
    and "checkpoints_valid (checkpoint_rows s)" and "sources_valid (attempt_rows s) (source_rows s)"
    and "distinct (map (part_key (ap_policy_digest plan)) parts)"
  shows "\<exists>cps rows. s' = s\<lparr>checkpoint_rows := cps, source_rows := source_rows s @ rows\<rparr>
      \<and> checkpoints_valid cps \<and> sources_valid (attempt_rows s) (source_rows s @ rows)
      \<and> result_rows sha256 (ap_id plan) ordinal parts rows
      \<and> (\<forall>k. cursor_at k s' = (case find (\<lambda>part. part_key (ap_policy_digest plan) part = k) parts of
            Some part \<Rightarrow> (case cp_eligible_cursor part of Some c \<Rightarrow> Some c | None \<Rightarrow> cursor_at k s)
          | None \<Rightarrow> cursor_at k s))"
  using assms
proof (induction parts arbitrary: ordinal s)
  case Nil
  then show ?case by (intro exI[of _ "checkpoint_rows s"] exI[of _ "[]"]) (simp add: result_rows_def)
next
  case (Cons part parts)
  let ?policy = "ap_policy_digest plan"
  let ?moved = "case cp_eligible_cursor part of None \<Rightarrow> Inr s
      | Some candidate \<Rightarrow> map_err commit_source_error (write_checkpoint (cp_source_id part) ?policy (cp_trade_id part)
          (part_checkpoint ?policy s part) candidate (sr_finished_at (cp_result part) div 1000) s)"
  from Cons.prems(1) obtain s1 s2 where w: "?moved = Inr s1"
    and i: "insert_source_result sha256 (ap_id plan) ordinal part s1 = Inr s2"
    and rest: "write_results sha256 plan (ordinal + 1) (zip parts (map (part_checkpoint ?policy s) parts)) s2 = Inr s'"
    by auto
  have s1: "\<exists>cps. s1 = s\<lparr>checkpoint_rows := cps\<rparr> \<and> checkpoints_valid cps"
    "\<And>k. cursor_at k s1 = (if k = part_key ?policy part then (case cp_eligible_cursor part of Some c \<Rightarrow> Some c | None \<Rightarrow> cursor_at k s)
       else cursor_at k s)"
    "\<And>k. k \<noteq> part_key ?policy part \<Longrightarrow> checkpoint_at k s1 = checkpoint_at k s"
    using w write_checkpoint_effect[OF Cons.prems(2)] Cons.prems(2)
    by (cases "cp_eligible_cursor part"; auto intro!: exI[of _ "checkpoint_rows s"])+
  from s1(1) obtain cps1 where c1: "s1 = s\<lparr>checkpoint_rows := cps1\<rparr>" "checkpoints_valid cps1" by blast
  from i obtain row where row: "source_row_of sha256 (ap_id plan) ordinal part = Inr row"
    and s2: "s2 = s1\<lparr>source_rows := source_rows s @ [row]\<rparr>" "sources_valid (attempt_rows s) (source_rows s @ [row])"
    by (auto simp: insert_source_result_def c1 dest: sql_insert_SomeD split: option.splits)
  have ck: "checkpoint_at k s2 = checkpoint_at k s1" "cursor_at k s2 = cursor_at k s1" for k
    by (simp_all add: s2 cursor_at_def)
  have other: "part_key ?policy p \<noteq> part_key ?policy part" if "p \<in> set parts" for p
    using Cons.prems(4) that by (auto simp: image_iff)
  have "map (part_checkpoint ?policy s2) parts = map (part_checkpoint ?policy s) parts"
    using other s1(3) ck(1) by (intro map_cong) auto
  with rest have "write_results sha256 plan (ordinal + 1) (zip parts (map (part_checkpoint ?policy s2) parts)) s2 = Inr s'" by metis
  from Cons.IH[OF this] c1 s2 Cons.prems(4)
  obtain cps rows where IH: "s' = s2\<lparr>checkpoint_rows := cps, source_rows := source_rows s2 @ rows\<rparr>" "checkpoints_valid cps"
    "sources_valid (attempt_rows s2) (source_rows s2 @ rows)" "result_rows sha256 (ap_id plan) (ordinal + 1) parts rows"
    "\<And>k. cursor_at k s' = (case find (\<lambda>part. part_key ?policy part = k) parts of
            Some part \<Rightarrow> (case cp_eligible_cursor part of Some c \<Rightarrow> Some c | None \<Rightarrow> cursor_at k s2)
          | None \<Rightarrow> cursor_at k s2)" by auto
  have "find (\<lambda>p. part_key ?policy p = part_key ?policy part) parts = None"
    using other by (auto simp: find_None_iff)
  then have "cursor_at k s' = (case find (\<lambda>part. part_key ?policy part = k) (part # parts) of
            Some part \<Rightarrow> (case cp_eligible_cursor part of Some c \<Rightarrow> Some c | None \<Rightarrow> cursor_at k s)
          | None \<Rightarrow> cursor_at k s)" for k
    using IH(5)[of k] ck(2)[of k] s1(2)[of k] unfolding find.simps by (cases "part_key ?policy part = k") (simp_all split: option.splits)
  moreover have "s' = s\<lparr>checkpoint_rows := cps, source_rows := source_rows s @ (row # rows)\<rparr>"
    using IH(1) s2 c1 by simp
  moreover have "sources_valid (attempt_rows s) (source_rows s @ (row # rows))" using IH(3) s2 c1 by simp
  moreover have "result_rows sha256 (ap_id plan) ordinal (part # parts) (row # rows)"
    using row IH(4) by (auto simp: result_rows_Cons)
  ultimately show ?case using IH(2) by blast
qed

section \<open>The commit\<close>

text \<open>The row that holds a lease: leased, at the revision of the lease and until its expiry.\<close>

definition lease_stored :: "job_lease \<Rightarrow> 'a job_store_scheme \<Rightarrow> bool" where
  "lease_stored lease s \<longleftrightarrow>
     (\<exists>r. job_at (job_ident (lease_job lease)) s = Some r \<and> jr_state r = ''leased''
        \<and> jr_trade_id r = job_trade_id (lease_job lease) \<and> jr_revision r = int (job_revision (lease_job lease))
        \<and> jr_lease_owner r = job_lease_owner (lease_job lease)
        \<and> jr_lease_expires_unix_ms r = Some (int (lease_expires lease)))"

lemma positive_u64_InrD: "positive_u64 c = Inr v \<Longrightarrow> c = int v"
  by (auto simp: positive_u64_def bounded_u64_def u64_of_i64_def split: if_splits)

lemma optional_millis_InrD: "optional_millis c = Inr v \<Longrightarrow> c = map_option int v"
  by (auto simp: optional_millis_def transpose_def u64_of_i64_def split: if_splits option.splits sum.splits)

lemma optional_owner_InrD: "optional_owner c = Inr v \<Longrightarrow> c = v"
  by (auto simp: optional_owner_def lease_owner_from_bytes_def split: if_splits option.splits sum.splits)

lemma decode_job_fields:
  assumes "decode_job sha256 r = Inr job" and "job_state job = Leased"
  shows "jr_state r = ''leased''" "jr_trade_id r = job_trade_id job" "jr_revision r = int (job_revision job)"
    "jr_lease_owner r = job_lease_owner job" "jr_lease_expires_unix_ms r = map_option int (job_lease_expires job)"
  using assms
  by (auto simp: decode_job_def decode_job_state_def bounded_text_def exact_bytes_def split: if_splits
      dest: positive_u64_InrD optional_millis_InrD optional_owner_InrD)

lemma validate_exact_lease_stored:
  assumes "validate_exact_lease sha256 lease s = Inr ()"
  shows "lease_stored lease s"
proof -
  let ?job = "lease_job lease"
  from assms have l: "read_job sha256 (job_ident ?job) s = Inr (Some ?job)" "job_state ?job = Leased"
    "job_lease_expires ?job = Some (lease_expires lease)"
    by (auto simp: validate_exact_lease_def split: sum.splits if_splits)
  from l(1) obtain r where r: "job_at (job_ident ?job) s = Some r" "decode_job sha256 r = Inr ?job"
    by (auto simp: read_job_def transpose_def split: option.splits sum.splits)
  show ?thesis using decode_job_fields[OF r(2) l(2)] r(1) l(3) by (auto simp: lease_stored_def)
qed

text \<open>What the commit was planned against still holds.\<close>

definition commit_fenced :: "(bytes \<Rightarrow> bytes) \<Rightarrow> job_lease \<Rightarrow> attempt_plan \<Rightarrow> commit_parts list \<Rightarrow> 'a commit_store_scheme \<Rightarrow> bool" where
  "commit_fenced sha256 lease plan parts s \<longleftrightarrow>
     validate_exact_lease sha256 lease s = Inr () \<and> lease_stored lease s
   \<and> (\<exists>row. dirty_at (job_trade_id (lease_job lease)) s = Some row
        \<and> dg_generation row = int (ap_input_generation plan) \<and> dg_evidence_policy_sha256 row = ap_policy_digest plan)
   \<and> (\<forall>part \<in> set parts. cursor_at (part_key (ap_policy_digest plan) part) s = cp_prior_cursor part)"

definition commit_effect ::
  "(bytes \<Rightarrow> bytes) \<Rightarrow> job_lease \<Rightarrow> attempt_plan \<Rightarrow> commit_parts list \<Rightarrow> bool \<Rightarrow> 'a commit_store_scheme \<Rightarrow> 'a commit_store_scheme \<Rightarrow> bool"
  where
  "commit_effect sha256 lease plan parts new s s' \<longleftrightarrow>
     jobs s' = jobs s
   \<and> (\<exists>row. reconciliation_row_of plan = Inr row \<and> attempt_rows s' = attempt_rows s @ [row])
   \<and> (\<exists>rows. result_rows sha256 (ap_id plan) 0 parts rows \<and> source_rows s' = source_rows s @ rows)
   \<and> evidence_stored (part_mutation_rows parts) (part_event_rows parts) (part_observation_rows (ap_policy_digest plan) parts) s s'
   \<and> new = (mutation_rows s' \<noteq> mutation_rows s \<or> nostr_rows s' \<noteq> nostr_rows s)
   \<and> (\<forall>t. generation_of t s' = generation_of t s + of_bool (t = job_trade_id (lease_job lease) \<and> new))
   \<and> (\<forall>part \<in> set parts. \<forall>c. cp_eligible_cursor part = Some c \<longrightarrow>
        cursor_at (part_key (ap_policy_digest plan) part) s' = Some c)
   \<and> (\<forall>k. (\<forall>part \<in> set parts. part_key (ap_policy_digest plan) part = k \<longrightarrow> cp_eligible_cursor part = None) \<longrightarrow>
        cursor_at k s' = cursor_at k s)"

lemma reconciliation_row_of_id: "reconciliation_row_of plan = Inr row \<Longrightarrow> ea_attempt_id row = ap_id plan"
  by (auto simp: reconciliation_row_of_def split: list.splits)

lemma reconcile_existing_known:
  assumes "reconcile_existing sha256 plan parts s = Inr known"
  shows "known \<longleftrightarrow> ap_id plan \<in> ea_attempt_id ` set (attempt_rows s)"
proof -
  have n: "length (filter (\<lambda>r. ea_attempt_id r = ap_id plan) (attempt_rows s)) = 0 \<longleftrightarrow> ap_id plan \<notin> ea_attempt_id ` set (attempt_rows s)"
    by (auto simp: filter_empty_conv image_iff)
  have "reconcile_sources sha256 plan i parts s = Inr k \<Longrightarrow> k" for i k
    by (induction parts arbitrary: i) (auto split: if_splits)
  then show ?thesis using assms n by (auto simp: reconcile_existing_def Let_def split: if_splits)
qed

lemma cursor_find:
  assumes d: "distinct (map (part_key policy) parts)" and part: "part \<in> set parts"
  shows "find (\<lambda>p. part_key policy p = part_key policy part) parts = Some part"
  using assms by (induction parts) (auto simp: image_iff)

lemma commit_replaysE:
  assumes inv: "commit_inv s" and run: "commit_replays sha256 lease plan parts s = Inr (out, s')"
  obtains (known) "reconcile_existing sha256 plan parts s = Inr True" "raw_outcome False False parts = Inr out" "s' = s"
  | (fresh) dirty s1 s2 s3 new where "reconcile_existing sha256 plan parts s = Inr False"
      "commit_fenced sha256 lease plan parts s"
      "dirty = dirty_at (job_trade_id (lease_job lease)) s"
      "commit_insert_attempt plan s = Inr s1" "persist_parts (ap_policy_digest plan) parts False s1 = Inr (new, s2)"
      "if new then \<exists>n at. advance_dirty_generation (job_trade_id (lease_job lease)) (ap_policy_digest plan) at
          (map_option dirty_of_row dirty) s2 = Inr (n, s3) else s3 = s2"
      "write_results sha256 plan 0 (zip parts (map (part_checkpoint (ap_policy_digest plan) s) parts)) s3 = Inr s'"
      "raw_outcome True new parts = Inr out"
proof -
  have v: "dirty_valid (dirty_generations s)" "checkpoints_valid (checkpoint_rows s)"
    using inv by (simp_all add: commit_inv_def ingest_inv_def)
  from run obtain existing where e: "reconcile_existing sha256 plan parts s = Inr existing"
    by (auto simp: commit_replays_def)
  show thesis
  proof (cases existing)
    case True
    then show ?thesis using run e by (intro known) (auto simp: commit_replays_def)
  next
    case False
    let ?trade = "job_trade_id (lease_job lease)" and ?policy = "ap_policy_digest plan"
    from run e False obtain dirty where
      l: "validate_exact_lease sha256 lease s = Inr ()"
      and d: "map_option dirty_of_row (dirty_at ?trade s) = Some dirty" "ds_generation dirty = ap_input_generation plan"
        "ds_policy dirty = ?policy"
      by (auto simp: commit_replays_def Let_def source_read_dirty_ok[OF v(1)])
    from d(1) obtain row where row: "dirty_at ?trade s = Some row" "dirty = dirty_of_row row" by auto
    then have "dirty_row_check row" using v(1) select_key_SomeD(1)[OF row(1)] by (auto simp: dirty_valid_def list_all_iff)
    then have g: "dg_generation row = int (ap_input_generation plan)" "dg_evidence_policy_sha256 row = ?policy"
      using d(2,3) row(2) by (auto simp: dirty_of_row_def dirty_row_check_def)
    let ?advance = "\<lambda>new s2. if new then and_then (ok_or CoStorage (latest_finish parts)) (\<lambda>updated_at.
          and_then (map_err commit_source_error (advance_dirty_generation ?trade ?policy updated_at (Some dirty) s2))
            (\<lambda>(_, s). Inr s)) else Inr s2"
    have c: "\<forall>part \<in> set parts. cursor_at (part_key ?policy part) s = cp_prior_cursor part"
      using run e False d l by (auto simp: commit_replays_def Let_def source_read_dirty_ok[OF v(1)] read_checkpoints_ok[OF v(2)]
          split: if_splits)
    have "and_then (commit_insert_attempt plan s) (\<lambda>s1. and_then (persist_parts ?policy parts False s1) (\<lambda>(new, s2).
        and_then (?advance new s2) (\<lambda>s3.
        and_then (write_results sha256 plan 0 (zip parts (map (part_checkpoint ?policy s) parts)) s3) (\<lambda>s'.
        and_then (raw_outcome True new parts) (\<lambda>out. Inr (out, s')))))) = Inr (out, s')"
      using run e False d l c by (simp add: commit_replays_def Let_def source_read_dirty_ok[OF v(1)] read_checkpoints_ok[OF v(2)])
    then obtain s1 x where i: "commit_insert_attempt plan s = Inr s1"
      and p: "persist_parts ?policy parts False s1 = Inr x" and r: "(case x of (new, s2) \<Rightarrow>
        and_then (?advance new s2) (\<lambda>s3.
        and_then (write_results sha256 plan 0 (zip parts (map (part_checkpoint ?policy s) parts)) s3) (\<lambda>s'.
        and_then (raw_outcome True new parts) (\<lambda>out. Inr (out, s'))))) = Inr (out, s')"
      by (auto simp only: and_then_Inr_iff)
    obtain new s2 where x: "x = (new, s2)" by force
    from r obtain s3 where a: "?advance new s2 = Inr s3"
      and w: "write_results sha256 plan 0 (zip parts (map (part_checkpoint ?policy s) parts)) s3 = Inr s'"
      and o: "raw_outcome True new parts = Inr out"
      unfolding x prod.case and_then_Inr_iff by auto
    note p = p[unfolded x]
    from a have a: "if new then \<exists>n at. advance_dirty_generation ?trade ?policy at (Some dirty) s2 = Inr (n, s3) else s3 = s2"
      by (cases new) auto
    have "commit_fenced sha256 lease plan parts s" using l validate_exact_lease_stored[OF l] row g c by (auto simp: commit_fenced_def)
    from fresh[OF _ this refl i p a[folded d(1)] w o] e False show ?thesis by simp
  qed
qed

lemma commit_fresh_effect:
  assumes inv: "commit_inv s" and d: "distinct (map (part_key (ap_policy_digest plan)) parts)"
    and i: "commit_insert_attempt plan s = Inr s1" and p: "persist_parts (ap_policy_digest plan) parts False s1 = Inr (new, s2)"
    and a: "if new then \<exists>n at. advance_dirty_generation (job_trade_id (lease_job lease)) (ap_policy_digest plan) at
          (map_option dirty_of_row (dirty_at (job_trade_id (lease_job lease)) s)) s2 = Inr (n, s3) else s3 = s2"
    and w: "write_results sha256 plan 0 (zip parts (map (part_checkpoint (ap_policy_digest plan) s) parts)) s3 = Inr s'"
  shows "commit_inv s' \<and> commit_effect sha256 lease plan parts new s s'"
proof -
  let ?trade = "job_trade_id (lease_job lease)" and ?policy = "ap_policy_digest plan"
  have v: "evidence_inv s" "dirty_valid (dirty_generations s)" "checkpoints_valid (checkpoint_rows s)"
    "sources_valid (attempt_rows s) (source_rows s)"
    using inv by (simp_all add: commit_inv_def ingest_inv_def)
  from i obtain row where row: "reconciliation_row_of plan = Inr row"
    and s1: "s1 = s\<lparr>attempt_rows := attempt_rows s @ [row]\<rparr>" "reconciliations_valid (jobs s) (attempt_rows s @ [row])"
    by (auto simp: commit_insert_attempt_def dest: sql_insert_SomeD split: option.splits)
  have inv1: "evidence_inv s1" using v(1) by (simp add: s1 evidence_inv_def)
  from persist_parts_grows[OF p this] obtain m e n where s2: "evidence_inv s2" "evidence_grows (m, e, n) s1 s2"
    "new = (m \<noteq> 0 \<or> e \<noteq> 0)" by auto
  then obtain ms es os where s2': "s2 = s1\<lparr>mutation_rows := mutation_rows s @ ms, nostr_rows := nostr_rows s @ es,
      observation_rows := observation_rows s @ os\<rparr>" "new = (ms \<noteq> [] \<or> es \<noteq> [])"
    by (auto simp: evidence_grows_def s1)
  have stored: "evidence_stored (part_mutation_rows parts) (part_event_rows parts) (part_observation_rows ?policy parts) s1 s2"
    by (rule persist_parts_stored[OF p inv1])
  have dirty: "dirty_valid (dirty_generations s2)" "dirty_at t s2 = dirty_at t s" for t by (simp_all add: s2' s1 v)
  obtain g at where "advance_if_new new ?trade ?policy at (map_option dirty_of_row (dirty_at ?trade s)) s2 = Inr (g, s3)"
    using a by (auto simp: advance_if_new_def split: if_splits)
  note adv = advance_if_new_effect[OF dirty(1) this[folded dirty(2)]]
  from adv(1) obtain rows where s3: "s3 = s2\<lparr>dirty_generations := rows\<rparr>" "dirty_valid rows" by blast
  have gen: "generation_of t s3 = generation_of t s + of_bool (t = ?trade \<and> new)" for t
    using adv(2)[of t] dirty(2) by (simp add: generation_of_def)
  have ck: "checkpoint_at k s3 = checkpoint_at k s" "cursor_at k s3 = cursor_at k s" for k
    by (simp_all add: s3 s2' s1 cursor_at_def)
  have v3: "checkpoints_valid (checkpoint_rows s3)" "sources_valid (attempt_rows s3) (source_rows s3)"
    using v by (auto simp: s3 s2' s1 sources_valid_def)
  from write_results_effect[OF w[folded ck(1)] v3 d] obtain cps srows where
    s': "s' = s3\<lparr>checkpoint_rows := cps, source_rows := source_rows s3 @ srows\<rparr>" "checkpoints_valid cps"
    "sources_valid (attempt_rows s3) (source_rows s3 @ srows)" "result_rows sha256 (ap_id plan) 0 parts srows"
    and cur: "\<And>k. cursor_at k s' = (case find (\<lambda>part. part_key ?policy part = k) parts of
            Some part \<Rightarrow> (case cp_eligible_cursor part of Some c \<Rightarrow> Some c | None \<Rightarrow> cursor_at k s3)
          | None \<Rightarrow> cursor_at k s3)" by blast
  have "cursor_at (part_key ?policy part) s' = Some c" if "part \<in> set parts" "cp_eligible_cursor part = Some c" for part c
    using cur[of "part_key ?policy part"] cursor_find[OF d that(1)] that(2) by simp
  moreover have "cursor_at k s' = cursor_at k s"
    if "\<forall>part \<in> set parts. part_key ?policy part = k \<longrightarrow> cp_eligible_cursor part = None" for k
    using cur[of k] that ck(2)[of k] by (auto simp: find_Some_iff split: option.splits)
  moreover have "commit_inv s'"
    using s2(1) s1(2) s3 s' v by (simp add: commit_inv_def ingest_inv_def evidence_inv_def s2' s1)
  moreover have "generation_of t s' = generation_of t s + of_bool (t = ?trade \<and> new)" for t
    using gen[of t] by (simp add: generation_of_def s')
  moreover have "evidence_stored (part_mutation_rows parts) (part_event_rows parts) (part_observation_rows ?policy parts) s s'"
    using stored by (subst evidence_stored_cong[of s s1 s' s2]) (simp_all add: s' s3 s1)
  ultimately show ?thesis
    using row s'(4) s2'(2) by (auto simp: commit_effect_def s' s3 s2' s1)
qed

lemma raw_outcome_fields:
  assumes "raw_outcome created advanced parts = Inr out"
  shows "rw_created out = created" "rw_dirty_generation_advanced out = advanced"
    "rw_source_result_count out = length parts" "rw_cursor_scopes out = List.map_filter part_scope parts"
    "rw_checkpoint_advance_count out = length (List.map_filter part_scope parts)"
  using assms by (auto simp: raw_outcome_def Let_def ensure_def split: if_splits)

lemma commit_replays_inv:
  assumes "commit_inv s" and "distinct (map (part_key (ap_policy_digest plan)) parts)"
    and "commit_replays sha256 lease plan parts s = Inr (out, s')"
  shows "commit_inv s'"
proof (rule commit_replaysE[OF assms(1,3)], goal_cases)
  case fresh: (2 dirty s1 s2 s3 new)
  show ?case using commit_fresh_effect[OF assms(1,2) fresh(4,5) fresh(6)[unfolded fresh(3)] fresh(7)] by simp
qed (simp add: assms(1))

text \<open>
  C7.  A commit of source results is atomic and fenced.  When it reports creation, the attempt was new, the
  exact lease, the dirty generation and every prior cursor it was planned against still held, and one step
  added the attempt, one result row per source in the order of the plan, the mutation, the signed event and the observation
  of every fact of every source (each unless it was there already, and none besides), at most one generation (exactly when a mutation or a signed event was new) and exactly the eligible cursors.  When it
  reports no creation, the attempt was recorded before and nothing changes.
\<close>

theorem commit_exact:
  assumes "commit_inv s" and "distinct (map (part_key (ap_policy_digest plan)) parts)"
    and "commit_replays sha256 lease plan parts s = Inr (out, s')"
  shows "commit_inv s'
    \<and> rw_source_result_count out = length parts \<and> rw_cursor_scopes out = List.map_filter part_scope parts
    \<and> (if rw_created out
       then ap_id plan \<notin> ea_attempt_id ` set (attempt_rows s) \<and> commit_fenced sha256 lease plan parts s
         \<and> commit_effect sha256 lease plan parts (rw_dirty_generation_advanced out) s s'
       else ap_id plan \<in> ea_attempt_id ` set (attempt_rows s) \<and> s' = s \<and> \<not> rw_dirty_generation_advanced out)"
proof (rule commit_replaysE[OF assms(1,3)], goal_cases)
  case known: 1
  then show ?thesis using reconcile_existing_known[OF known(1)] raw_outcome_fields[OF known(2)] assms(1) by simp
next
  case fresh: (2 dirty s1 s2 s3 new)
  then show ?thesis
    using reconcile_existing_known[OF fresh(1)] raw_outcome_fields[OF fresh(8)]
      commit_fresh_effect[OF assms(1,2) fresh(4,5) fresh(6)[unfolded fresh(3)] fresh(7)] by simp
qed

section \<open>Repeating the commit\<close>

text \<open>
  A later store: the rows of the attempt are append-only, so they stay, and the checkpoints of a source
  only move forward.
\<close>

definition keeps_commit :: "bytes \<Rightarrow> 'a commit_store_scheme \<Rightarrow> 'b commit_store_scheme \<Rightarrow> bool" where
  "keeps_commit attempt s t \<longleftrightarrow>
     filter (\<lambda>r. ea_attempt_id r = attempt) (attempt_rows t) = filter (\<lambda>r. ea_attempt_id r = attempt) (attempt_rows s)
   \<and> filter (\<lambda>r. es_attempt_id r = attempt) (source_rows t) = filter (\<lambda>r. es_attempt_id r = attempt) (source_rows s)
   \<and> (\<forall>k c. cursor_at k s = Some c \<longrightarrow> (\<exists>c'. cursor_at k t = Some c' \<and> \<not> cursor_lt c' c))"

lemma filter_refine: "(\<And>x. P x \<Longrightarrow> Q x) \<Longrightarrow> filter P xs = filter P (filter Q xs)"
  by (induction xs) auto

lemma filter_eq_distinct: "distinct xs \<Longrightarrow> x \<in> set xs \<Longrightarrow> length (filter (\<lambda>y. y = x) xs) = 1"
  by (induction xs) (auto simp: filter_empty_conv)

lemma reconcile_sources_found:
  assumes "checkpoints_valid (checkpoint_rows t)"
    and "result_rows sha256 (ap_id plan) ordinal parts rows"
    and "\<And>row. row \<in> set rows \<Longrightarrow> length (filter (\<lambda>r. r = row) (source_rows t)) = 1"
    and "\<And>part c. part \<in> set parts \<Longrightarrow> cp_eligible_cursor part = Some c \<Longrightarrow>
      \<exists>c'. cursor_at (part_key (ap_policy_digest plan) part) t = Some c' \<and> \<not> cursor_lt c' c"
  shows "reconcile_sources sha256 plan ordinal parts t = Inr True"
  using assms(2-4)
proof (induction parts arbitrary: ordinal rows)
  case (Cons part parts)
  from Cons.prems(1) obtain row rest where row: "rows = row # rest" "source_row_of sha256 (ap_id plan) ordinal part = Inr row"
    "result_rows sha256 (ap_id plan) (Suc ordinal) parts rest" by (auto simp: result_rows_Cons)
  have "reconcile_sources sha256 plan (Suc ordinal) parts t = Inr True"
    using Cons.prems(2,3) by (intro Cons.IH[OF row(3)]) (auto simp: row(1))
  then show ?case using row Cons.prems(2)[of row] Cons.prems(3)[of part]
    by (cases "cp_eligible_cursor part") (auto simp: match_source_result_def read_checkpoint_ok[OF assms(1)] cursor_at_def ok_or_def split: option.splits)
qed simp

text \<open>
  C8.  A commit happens once: after a commit that created its rows, the same commit in any later store, under
  any lease, finds the attempt and every result row, reports the same counts and cursors without creation,
  and changes nothing.
\<close>

theorem commit_once:
  assumes inv: "commit_inv s" and d: "distinct (map (part_key (ap_policy_digest plan)) parts)"
    and run: "commit_replays sha256 lease plan parts s = Inr (out, s')" and created: "rw_created out"
    and t: "checkpoints_valid (checkpoint_rows t)" "keeps_commit (ap_id plan) s' t"
  shows "commit_replays sha256 lease' plan parts t
    = Inr (out\<lparr>rw_created := False, rw_dirty_generation_advanced := False\<rparr>, t)"
proof (rule commit_replaysE[OF inv run], goal_cases)
  case 1
  then show ?case using created raw_outcome_fields(1)[OF 1(2)] by simp
next
  case fresh: (2 dirty s1 s2 s3 new)
  let ?a = "ap_id plan"
  note E = commit_fresh_effect[OF inv d fresh(4,5) fresh(6)[unfolded fresh(3)] fresh(7)]
  then obtain row rows where row: "reconciliation_row_of plan = Inr row" "attempt_rows s' = attempt_rows s @ [row]"
    and rows: "result_rows sha256 ?a 0 parts rows" "source_rows s' = source_rows s @ rows"
    unfolding commit_effect_def by blast
  have sv: "sources_valid (attempt_rows s) (source_rows s)" "sources_valid (attempt_rows s') (source_rows s')"
    using inv E by (simp_all add: commit_inv_def)
  have new: "?a \<notin> ea_attempt_id ` set (attempt_rows s)" using reconcile_existing_known[OF fresh(1)] by simp
  then have fa: "filter (\<lambda>r. ea_attempt_id r = ?a) (attempt_rows t) = [row]"
    using t(2) reconciliation_row_of_id[OF row(1)] by (auto simp: keeps_commit_def row(2) image_iff filter_empty_conv)
  have "filter (\<lambda>r. es_attempt_id r = ?a) (source_rows s) = []"
    unfolding filter_empty_conv
  proof
    fix r
    assume "r \<in> set (source_rows s)"
    then have "es_attempt_id r \<in> ea_attempt_id ` set (attempt_rows s)" using sv(1) by (auto simp: sources_valid_def)
    then show "es_attempt_id r \<noteq> ?a" using new by metis
  qed
  then have fs: "filter (\<lambda>r. es_attempt_id r = ?a) (source_rows t) = rows"
    using t(2) result_rows_attempt[OF rows(1)] by (simp add: keeps_commit_def rows(2) filter_id_conv)
  have "distinct rows" using sv(2) by (auto simp: sources_valid_def rows(2) distinct_map)
  then have one: "length (filter (\<lambda>r. r = x) (source_rows t)) = 1" if "x \<in> set rows" for x
    using filter_eq_distinct[OF _ that] fs result_rows_attempt[OF rows(1) that]
      filter_refine[of "\<lambda>r. r = x" "\<lambda>r. es_attempt_id r = ?a" "source_rows t"] by simp
  have "length (filter (\<lambda>r. r = row) (attempt_rows t)) = 1"
    using filter_refine[of "\<lambda>r. r = row" "\<lambda>r. ea_attempt_id r = ?a" "attempt_rows t"] fa
      reconciliation_row_of_id[OF row(1)] by simp
  moreover have "reconcile_sources sha256 plan 0 parts t = Inr True"
    using E t(2) by (intro reconcile_sources_found[OF t(1) rows(1) one]) (auto simp: commit_effect_def keeps_commit_def)
  ultimately have "reconcile_existing sha256 plan parts t = Inr True"
    using fa fs result_rows_length[OF rows(1)] row(1) by (simp add: reconcile_existing_def match_attempt_def)
  then show ?case using fresh(8) by (auto simp: commit_replays_def raw_outcome_def Let_def ensure_def split: if_splits)
qed

section \<open>Witnesses\<close>

text \<open>The claimed job of the witness store, with no evidence yet, and one source that delivered one event.\<close>

definition commit_request :: source_request where
  "commit_request = \<lparr>rq_id = replicate 32 7, rq_source_id = ''relay-a'', rq_trade_id = wit_trade, rq_required = True,
     rq_selector_digest = replicate 32 5, rq_attempt_started_at = 2000, rq_deadline = 12000,
     rq_lookback_seconds = 60, rq_maximum_events = 16, rq_maximum_bytes = 4096\<rparr>"

definition commit_plan :: attempt_plan where
  "commit_plan = \<lparr>ap_id = replicate 32 8, ap_job_id = wit_ident, ap_input_generation = 3, ap_policy_digest = wit_digest,
     ap_attempt_started_at = 2000, ap_deadline = 12000, ap_requests = [commit_request]\<rparr>"

definition commit_part :: commit_parts where
  "commit_part = demo_parts\<lparr>cp_trade_id := wit_trade, cp_policy_digest := wit_digest,
     cp_facts := [\<lparr>cf_record = demo_evidence_record\<lparr>pr_trade_id := wit_trade\<rparr>, cf_observed_at = 80\<rparr>]\<rparr>"

definition wit_commit_store :: commit_store where
  "wit_commit_store = \<lparr>dirty_generations = wit_dirty, jobs = [wit_leased_row], mutation_rows = [], nostr_rows = [],
     observation_rows = [], checkpoint_rows = [], attempt_rows = [], source_rows = []\<rparr>"

lemma wit_commit_inv: "commit_inv wit_commit_store"
  using wit_claimed_inv
  by (simp add: commit_inv_def ingest_inv_def wit_commit_store_def evidence_inv_def checkpoints_valid_def
      reconciliations_valid_def sources_valid_def job_store_inv_def wit_claimed_def)

lemma wit_commit_lease: "validate_exact_lease wit_hash wit_lease wit_commit_store = Inr ()"
  using wit_validates by (simp add: validate_exact_lease_def read_job_def wit_commit_store_def wit_claimed_def)

lemma wit_commit_dirty:
  "source_read_dirty wit_trade wit_commit_store = Inr (Some \<lparr>ds_generation = 3, ds_policy = wit_digest, ds_updated_at = 10\<rparr>)"
  by (simp add: source_read_dirty_def wit_commit_store_def wit_dirty_def select_key_def positive_i64_u64_def nonnegative_i64_u64_def)

lemma wit_lease_trade: "job_trade_id (lease_job wit_lease) = wit_trade"
  by (simp add: wit_lease_def wit_leased_row_def claim_set_def wit_row_def new_job_row_def job_of_row_def)

lemma wit_commit_run:
  "\<exists>out s. commit_replays wit_hash wit_lease commit_plan [commit_part] wit_commit_store = Inr (out, s)
     \<and> rw_created out \<and> rw_dirty_generation_advanced out"
  unfolding commit_replays_def Let_def wit_commit_lease wit_lease_trade wit_commit_dirty
  by (simp add: commit_insert_attempt_def reconciliation_row_of_def commit_plan_def commit_request_def
      wit_commit_store_def sql_insert_def reconciliations_valid_def reconciliation_row_check_def sql_range_def
      i64_of_u64_def i64_max_def u64_max_def wit_leased_fields reconcile_existing_def read_checkpoint_def wit_dirty_def
      select_key_def commit_part_def demo_parts_def demo_evidence_record_def Let_def persist_def insert_mutation_def
      insert_mutation_row_def sql_insert_ignore_def mutation_row_of_def row_checks insert_event_def
      insert_nostr_row_def nostr_row_of_def insert_observation_def insert_observation_row_def
      observation_row_of_def observation_from_persistence_parts_def nostr_key_def latest_finish_def
      advance_dirty_generation_def sql_update_def dirty_valid_def checked_add_def record_cursor_def write_checkpoint_def
      checkpoints_valid_def new_checkpoint_row_def raw_outcome_def ensure_def ok_or_def option_filter_def
      advance_dirty_where_def dirty_guard_def advance_dirty_set_def part_scope_def insert_source_result_def source_row_of_def
      i64_option_def accepted_inventory_digest_def inventory_fact_bytes_def update_framed_def sources_valid_def source_row_check_def
      completion_codes_def map_filter_simps ascii_bytes_def wit_hash_def)

theorem commit_exact_witness:
  "\<exists>out s. commit_replays wit_hash wit_lease commit_plan [commit_part] wit_commit_store = Inr (out, s)
     \<and> commit_fenced wit_hash wit_lease commit_plan [commit_part] wit_commit_store \<and> commit_inv s
     \<and> commit_effect wit_hash wit_lease commit_plan [commit_part] True wit_commit_store s"
proof -
  obtain out s where run: "commit_replays wit_hash wit_lease commit_plan [commit_part] wit_commit_store = Inr (out, s)"
    "rw_created out" "rw_dirty_generation_advanced out" using wit_commit_run by blast
  from commit_exact[OF wit_commit_inv _ run(1)] run show ?thesis by auto
qed

theorem commit_once_witness:
  "\<exists>out s. commit_replays wit_hash wit_lease commit_plan [commit_part] wit_commit_store = Inr (out, s) \<and> rw_created out
     \<and> commit_replays wit_hash wit_lease commit_plan [commit_part] s
         = Inr (out\<lparr>rw_created := False, rw_dirty_generation_advanced := False\<rparr>, s)"
proof -
  obtain out s where run: "commit_replays wit_hash wit_lease commit_plan [commit_part] wit_commit_store = Inr (out, s)"
    "rw_created out" using wit_commit_run by blast
  have "keeps_commit (ap_id commit_plan) s s" by (auto simp: keeps_commit_def cursor_lt_def)
  moreover have "checkpoints_valid (checkpoint_rows s)"
    using commit_replays_inv[OF wit_commit_inv _ run(1)] by (simp add: commit_inv_def ingest_inv_def)
  ultimately show ?thesis using commit_once[OF wit_commit_inv _ run] run by auto
qed

end
