(* ===== verification/Finalization_Props.thy ===== *)
theory Finalization_Props
  imports Finalization_Commit Publication_Writers Source_Ingest_Props
    Reconciliation_Commit_Props
begin

text \<open>
  Finalization is fenced, atomic and happens once: it completes the leased job and appends the manifest, the
  projection, the report, the signed event and the publication of one attestation, or changes nothing.
\<close>

section \<open>Invariant\<close>

definition publications_valid :: "pub_store \<Rightarrow> bool" where
  "publications_valid p \<longleftrightarrow> events_valid (signed_events p) \<and> outboxes_valid (signed_events p) (outboxes p)
   \<and> targets_valid (outboxes p) (targets p)"

definition final_inv :: "(bytes \<Rightarrow> bytes) \<Rightarrow> 'a final_store_scheme \<Rightarrow> bool" where
  "final_inv sha256 s \<longleftrightarrow>
     commit_inv s \<and> job_store_inv sha256 s \<and> manifests_valid (attempt_rows s) (manifest_rows s)
   \<and> projections_valid (manifest_rows s) (projection_rows s)
   \<and> reports_valid (manifest_rows s) (projection_rows s) (report_rows s)
   \<and> publications_valid (publications s)
   \<and> set (map se_statement_sha256 (signed_events (publications s))) \<subseteq> set (map rep_statement_sha256 (report_rows s))"

section \<open>The fence and the effect\<close>

text \<open>
  The committed sources are those of the manifest: as many rows as sources, and the row at each position names the
  source, its requirement, its number of admitted events and its completion.
\<close>

definition sources_committed :: "finalization_record \<Rightarrow> source_row list \<Rightarrow> bool" where
  "sources_committed rec rows \<longleftrightarrow>
     length (filter (\<lambda>r. es_attempt_id r = fi_attempt_id (fr_identity rec)) rows) = fr_source_count rec
   \<and> (\<forall>i < length (fr_sources rec). \<exists>r \<in> set rows.
        es_attempt_id r = fi_attempt_id (fr_identity rec) \<and> es_source_ordinal r = int i
      \<and> es_source_id r = fx_source_id (fr_sources rec ! i)
      \<and> (es_required r = 1 \<longleftrightarrow> fx_required (fr_sources rec ! i))
      \<and> es_accepted_event_count r = int (fx_admitted_event_count (fr_sources rec ! i))
      \<and> (es_completion r = ''complete'' \<longleftrightarrow> fx_completion (fr_sources rec ! i) = EvidenceComplete)
      \<and> (es_completion r = ''unsupported'' \<longleftrightarrow> fx_completion (fr_sources rec ! i) = EvidenceUnsupported))"

text \<open>Every checkpoint that the attempt advanced stands where the attempt put it.\<close>

definition checkpoints_stand :: "finalization_record \<Rightarrow> 'a final_store_scheme \<Rightarrow> bool" where
  "checkpoints_stand rec s \<longleftrightarrow>
     (\<forall>r \<in> set (source_rows s). es_attempt_id r = fi_attempt_id (fr_identity rec) \<and> es_checkpoint_advanced r = 1 \<longrightarrow>
        (\<exists>c \<in> set (checkpoint_rows s). ck_source_id c = es_source_id r
           \<and> ck_evidence_policy_sha256 c = fi_policy_digest (fr_identity rec) \<and> ck_trade_id c = es_trade_id r
           \<and> es_candidate_created_at_unix_s r = Some (ck_cursor_created_at_unix_s c)
           \<and> es_candidate_event_id r = Some (ck_cursor_event_id c)))"

text \<open>The superseded report and its signed event are stored.\<close>

definition superseded_stored :: "finalization_record \<Rightarrow> 'a final_store_scheme \<Rightarrow> bool" where
  "superseded_stored rec s \<longleftrightarrow>
     (\<forall>statement event_id. fr_supersession rec = Some (statement, event_id) \<longrightarrow>
        (\<exists>report \<in> set (report_rows s). rep_statement_sha256 report = statement)
      \<and> (\<exists>event \<in> set (signed_events (publications s)). se_event_id event = event_id \<and> se_statement_sha256 event = statement))"

definition finalization_fenced :: "(bytes \<Rightarrow> bytes) \<Rightarrow> finalization_record \<Rightarrow> 'a final_store_scheme \<Rightarrow> bool" where
  "finalization_fenced sha256 rec s \<longleftrightarrow>
     fr_now rec < lease_expires (fr_lease rec) \<and> validate_exact_lease sha256 (fr_lease rec) s = Inr () \<and> lease_stored (fr_lease rec) s
   \<and> (\<exists>row. dirty_at (fi_trade_id (fr_identity rec)) s = Some row
        \<and> dg_generation row = int (fi_generation (fr_identity rec))
        \<and> dg_evidence_policy_sha256 row = fi_policy_digest (fr_identity rec))
   \<and> (\<exists>row \<in> set (attempt_rows s). ea_attempt_id row = fi_attempt_id (fr_identity rec)
        \<and> ea_job_id row = fi_job_id (fr_identity rec) \<and> ea_source_count row = int (fr_source_count rec))
   \<and> sources_committed rec (source_rows s) \<and> checkpoints_stand rec s \<and> superseded_stored rec s"

definition finalization_effect :: "(bytes \<Rightarrow> bytes) \<Rightarrow> finalization_record \<Rightarrow> 'a final_store_scheme \<Rightarrow> 'a final_store_scheme \<Rightarrow> bool" where
  "finalization_effect sha256 rec s s' \<longleftrightarrow>
     (\<exists>m r p js. manifest_row_of rec = Inr m \<and> report_row_of rec = Inr r
      \<and> s' = s\<lparr>jobs := js, manifest_rows := manifest_rows s @ [m],
          projection_rows := projection_rows s @ [projection_row_of rec],
          report_rows := report_rows s @ [r], publications := p\<rparr>
      \<and> job_step sha256 s (Finished (fr_lease rec) (fr_now rec)) (s\<lparr>jobs := js\<rparr>)
      \<and> (case fr_publication rec of
           FinDisabled \<Rightarrow> p = (publications s)\<lparr>signed_events := signed_events (publications s) @ [queued_event_row (fr_event rec)]\<rparr>
         | FinRequired required \<Rightarrow> queue_publication (fr_event rec) required (fr_now rec) (publications s) = Inr p
             \<and> length (filter (\<lambda>r. ob_state r \<noteq> ''complete'') (outboxes (publications s))) < rq_queue_capacity required
             \<and> p = (publications s)\<lparr>signed_events := signed_events (publications s) @ [queued_event_row (fr_event rec)],
                 outboxes := outboxes (publications s) @ [queued_outbox_row (fr_event rec) required (int (fr_now rec))],
                 targets := targets (publications s)
                   @ map (queued_target_row (rq_outbox_id required) (int (fr_now rec))) (rq_targets required)\<rparr>))"

lemma insert_signed_eventD:
  assumes "insert_signed_event event p = Inr p'"
  shows "p' = p\<lparr>signed_events := signed_events p @ [queued_event_row event]\<rparr>"
    and "events_valid (signed_events p @ [queued_event_row event])" and "fe_authored_at_unix_s event \<le> i64_max"
  using assms by (auto simp: insert_signed_event_def fin_i64_value_def queued_event_row_def sql_insert_def
      i64_of_u64_def split: option.splits if_splits)

lemma complete_job_frame:
  "complete_job ident lease now (s\<lparr>manifest_rows := a, projection_rows := b, report_rows := c, publications := d\<rparr>)
   = map_sum id (\<lambda>s'. s'\<lparr>manifest_rows := a, projection_rows := b, report_rows := c, publications := d\<rparr>) (complete_job ident lease now s)"
  by (auto simp: complete_job_def update_jobs_def and_then_def Let_def ensure_def split: sum.splits option.splits)

lemma insert_finalizationE:
  assumes run: "insert_finalization rec s = Inr s'"
  obtains m r p where "manifest_row_of rec = Inr m" "report_row_of rec = Inr r"
    "s' = s\<lparr>manifest_rows := manifest_rows s @ [m], projection_rows := projection_rows s @ [projection_row_of rec],
       report_rows := report_rows s @ [r], publications := p\<rparr>"
    "manifests_valid (attempt_rows s) (manifest_rows s')" "projections_valid (manifest_rows s') (projection_rows s')"
    "reports_valid (manifest_rows s') (projection_rows s') (report_rows s')" "events_valid (signed_events p)"
    "signed_events p = signed_events (publications s) @ [queued_event_row (fr_event rec)]"
    "fe_authored_at_unix_s (fr_event rec) \<le> i64_max"
    "case fr_publication rec of
       FinDisabled \<Rightarrow> p = (publications s)\<lparr>signed_events := signed_events (publications s) @ [queued_event_row (fr_event rec)]\<rparr>
     | FinRequired required \<Rightarrow> require_queue_capacity required (publications s) = Inr () \<longrightarrow>
         queue_publication (fr_event rec) required (fr_now rec) (publications s) = Inr p"
proof -
  from run obtain s1 s2 s3 where i: "insert_manifest rec s = Inr s1" "insert_projection rec s1 = Inr s2"
    "insert_report rec s2 = Inr s3" "insert_publication rec s3 = Inr s'" by (auto simp: insert_finalization_def)
  from i(1) obtain m where m: "manifest_row_of rec = Inr m" "s1 = s\<lparr>manifest_rows := manifest_rows s @ [m]\<rparr>"
    "manifests_valid (attempt_rows s) (manifest_rows s @ [m])"
    by (auto simp: insert_manifest_def dest: sql_insert_SomeD split: option.splits)
  from i(2) have p: "s2 = s1\<lparr>projection_rows := projection_rows s @ [projection_row_of rec]\<rparr>"
    "projections_valid (manifest_rows s1) (projection_rows s @ [projection_row_of rec])"
    by (auto simp: insert_projection_def m dest: sql_insert_SomeD split: option.splits)
  from i(3) obtain r where r: "report_row_of rec = Inr r" "s3 = s2\<lparr>report_rows := report_rows s @ [r]\<rparr>"
    "reports_valid (manifest_rows s2) (projection_rows s2) (report_rows s @ [r])"
    by (auto simp: insert_report_def m p dest: sql_insert_SomeD split: option.splits)
  from i(4) obtain p1 p2 where q: "insert_signed_event (fr_event rec) (publications s) = Inr p1"
    "(case fr_publication rec of FinDisabled \<Rightarrow> Inr p1
      | FinRequired required \<Rightarrow> and_then (insert_outbox (fr_event rec) required (fr_now rec) p1) (\<lambda>p.
          insert_publication_targets (rq_outbox_id required) (fr_now rec) (rq_targets required) p)) = Inr p2"
    "s' = s3\<lparr>publications := p2\<rparr>"
    by (auto simp: insert_publication_def r p m split: if_splits)
  note e = insert_signed_eventD[OF q(1)]
  have sig: "signed_events p2 = signed_events p1"
    using q(2) by (auto simp: insert_outbox_def fin_i64_value_def split: finalization_publication.splits option.splits
        dest!: insert_publication_targetsD(1))
  show ?thesis
  proof (rule that[OF m(1) r(1)])
    show "case fr_publication rec of
       FinDisabled \<Rightarrow> p2 = (publications s)\<lparr>signed_events := signed_events (publications s) @ [queued_event_row (fr_event rec)]\<rparr>
     | FinRequired required \<Rightarrow> require_queue_capacity required (publications s) = Inr () \<longrightarrow>
         queue_publication (fr_event rec) required (fr_now rec) (publications s) = Inr p2"
      using q(1,2) e(1) by (auto simp: queue_publication_def split: finalization_publication.splits)
  qed (use m r p q e sig in simp_all)
qed

section \<open>The commit\<close>

lemma match_count_member: "match_count p rows \<Longrightarrow> \<exists>r \<in> set rows. p r"
  by (auto simp: match_count_def sql_count_def length_Suc_conv filter_eq_Cons_iff)

lemma completion_matches_codes:
  assumes "completion_matches c code"
  shows "(code = ''complete'' \<longleftrightarrow> c = EvidenceComplete) \<and> (code = ''unsupported'' \<longleftrightarrow> c = EvidenceUnsupported)"
  using assms by (cases c) auto

lemma sources_matchD:
  assumes "sources_match attempt k sources rows = Inr ()" and "i < length sources"
  shows "\<exists>r \<in> set rows. es_attempt_id r = attempt \<and> es_source_ordinal r = int (k + i)
    \<and> es_source_id r = fx_source_id (sources ! i) \<and> es_required r = of_bool (fx_required (sources ! i))
    \<and> es_accepted_event_count r = int (fx_admitted_event_count (sources ! i))
    \<and> completion_matches (fx_completion (sources ! i)) (es_completion r)"
  using assms
proof (induction sources arbitrary: k i)
  case Nil
  then show ?case by simp
next
  case (Cons source sources)
  show ?case
  proof (cases i)
    case 0
    then show ?thesis using Cons.prems
      by (auto simp: i64_of_u64_def dest!: match_count_member split: if_splits)
  next
    case (Suc j)
    with Cons.prems have "sources_match attempt (k + 1) sources rows = Inr ()" "j < length sources"
      by (auto split: if_splits)
    from Cons.IH[OF this] show ?thesis by (simp add: Suc)
  qed
qed

lemma validate_source_inventoryD:
  assumes "validate_source_inventory rec s = Inr ()"
  shows "sources_committed rec (source_rows s)"
proof -
  from assms have v: "sql_count (\<lambda>r. es_attempt_id r = fi_attempt_id (fr_identity rec)) (source_rows s) = fr_source_count rec"
    "sources_match (fi_attempt_id (fr_identity rec)) 0 (fr_sources rec) (source_rows s) = Inr ()"
    by (auto simp: validate_source_inventory_def Let_def split: if_splits)
  have "\<exists>r \<in> set (source_rows s). es_attempt_id r = fi_attempt_id (fr_identity rec) \<and> es_source_ordinal r = int i
      \<and> es_source_id r = fx_source_id (fr_sources rec ! i)
      \<and> (es_required r = 1 \<longleftrightarrow> fx_required (fr_sources rec ! i))
      \<and> es_accepted_event_count r = int (fx_admitted_event_count (fr_sources rec ! i))
      \<and> (es_completion r = ''complete'' \<longleftrightarrow> fx_completion (fr_sources rec ! i) = EvidenceComplete)
      \<and> (es_completion r = ''unsupported'' \<longleftrightarrow> fx_completion (fr_sources rec ! i) = EvidenceUnsupported)"
    if "i < length (fr_sources rec)" for i
    using sources_matchD[OF v(2) that] completion_matches_codes by fastforce
  with v(1) show ?thesis by (simp add: sources_committed_def sql_count_def)
qed

lemma bad_checkpoints_none:
  assumes "bad_checkpoints policy checkpoints r = 0" and "es_candidate_created_at_unix_s r \<noteq> None" "es_candidate_event_id r \<noteq> None"
  shows "\<exists>c \<in> set checkpoints. ck_source_id c = es_source_id r \<and> ck_evidence_policy_sha256 c = policy
    \<and> ck_trade_id c = es_trade_id r \<and> es_candidate_created_at_unix_s r = Some (ck_cursor_created_at_unix_s c)
    \<and> es_candidate_event_id r = Some (ck_cursor_event_id c)"
  using assms by (auto simp: bad_checkpoints_def Let_def sql_count_def filter_empty_conv split: if_splits)

lemma validate_advanced_checkpointsD:
  assumes v: "sources_valid (attempt_rows s) (source_rows s)" and "validate_advanced_checkpoints rec s = Inr ()"
  shows "checkpoints_stand rec s"
proof -
  have "bad_checkpoints (fi_policy_digest (fr_identity rec)) (checkpoint_rows s) r = 0"
    if "r \<in> set (source_rows s)" "es_attempt_id r = fi_attempt_id (fr_identity rec)" "es_checkpoint_advanced r = 1" for r
    using assms(2) that by (auto simp: validate_advanced_checkpoints_def split: if_splits)
  moreover have "es_candidate_created_at_unix_s r \<noteq> None \<and> es_candidate_event_id r \<noteq> None"
    if "r \<in> set (source_rows s)" "es_checkpoint_advanced r = 1" for r
  proof -
    have "source_row_check r" using v that(1) by (auto simp: sources_valid_def list_all_iff)
    then show ?thesis using that(2) by (auto simp: source_row_check_def)
  qed
  ultimately show ?thesis unfolding checkpoints_stand_def by (blast intro: bad_checkpoints_none)
qed

lemma validate_supersessionD:
  assumes "validate_supersession rec s = Inr ()"
  shows "superseded_stored rec s"
  using assms
  by (fastforce simp: validate_supersession_def superseded_stored_def split: if_splits option.splits dest!: match_count_member)

lemma validate_finalization_identityD:
  assumes inv: "commit_inv s" and run: "validate_finalization_identity sha256 lease identity now s = Inr ()"
  shows "now < lease_expires lease" and "validate_exact_lease sha256 lease s = Inr ()"
    and "\<exists>row. dirty_at (fi_trade_id identity) s = Some row \<and> dg_generation row = int (fi_generation identity)
        \<and> dg_evidence_policy_sha256 row = fi_policy_digest identity"
    and "\<exists>row \<in> set (attempt_rows s). ea_attempt_id row = fi_attempt_id identity \<and> ea_job_id row = fi_job_id identity"
proof -
  have v: "dirty_valid (dirty_generations s)" using inv by (simp add: commit_inv_def ingest_inv_def)
  from run obtain dirty where l: "now < lease_expires lease" "validate_exact_lease sha256 lease s = Inr ()"
    and d: "map_option dirty_of_row (dirty_at (fi_trade_id identity) s) = Some dirty" "ds_generation dirty = fi_generation identity"
      "ds_policy dirty = fi_policy_digest identity"
    and a: "committed_attempts identity (int (fi_generation identity)) s = 1"
    by (auto simp: validate_finalization_identity_def source_read_dirty_ok[OF v] split: if_splits)
  show "now < lease_expires lease" "validate_exact_lease sha256 lease s = Inr ()" by (fact l)+
  from d(1) obtain row where row: "dirty_at (fi_trade_id identity) s = Some row" "dirty = dirty_of_row row" by auto
  then have "dirty_row_check row" using v select_key_SomeD(1)[OF row(1)] by (auto simp: dirty_valid_def list_all_iff)
  then show "\<exists>row. dirty_at (fi_trade_id identity) s = Some row \<and> dg_generation row = int (fi_generation identity)
        \<and> dg_evidence_policy_sha256 row = fi_policy_digest identity"
    using row d(2,3) by (auto simp: dirty_of_row_def dirty_row_check_def)
  from a show "\<exists>row \<in> set (attempt_rows s). ea_attempt_id row = fi_attempt_id identity \<and> ea_job_id row = fi_job_id identity"
    by (auto simp: committed_attempts_def length_Suc_conv filter_eq_Cons_iff)
qed

lemma final_reconcile_absent: "final_reconcile_existing rec s = Inr ExistingAbsent \<longleftrightarrow> footprint rec s = 0"
  by (auto simp: final_reconcile_existing_def split: if_splits)

lemma commit_finalization_recordE:
  assumes run: "commit_finalization_record sha256 rec s = Inr (out, s')"
  obtains (known) "final_reconcile_existing rec s = Inr ExistingExact" "out = finalization_outcome_of rec False" "s' = s"
  | (fresh) s1 where "footprint rec s = 0"
      "validate_finalization_identity sha256 (fr_lease rec) (fr_identity rec) (fr_now rec) s = Inr ()"
      "validate_source_inventory rec s = Inr ()" "validate_advanced_checkpoints rec s = Inr ()"
      "validate_supersession rec s = Inr ()"
      "\<And>required. fr_publication rec = FinRequired required \<Longrightarrow> require_queue_capacity required (publications s) = Inr ()"
      "insert_finalization rec s = Inr s1"
      "complete_job (fi_job_id (fr_identity rec)) (fr_lease rec) (fr_now rec) s1 = Inr s'"
      "out = finalization_outcome_of rec True"
proof -
  from run obtain existing where e: "final_reconcile_existing rec s = Inr existing"
    by (auto simp: commit_finalization_record_def)
  show thesis
  proof (cases existing)
    case ExistingExact
    then show ?thesis using run e by (intro known) (auto simp: commit_finalization_record_def)
  next
    case ExistingAbsent
    have "footprint rec s = 0" using e ExistingAbsent final_reconcile_absent by blast
    then show ?thesis using run e ExistingAbsent
      by (auto simp: commit_finalization_record_def split: finalization_publication.splits intro!: fresh)
  qed
qed

lemma commit_fresh_finalization:
  assumes inv: "final_inv sha256 s" and job: "fi_job_id (fr_identity rec) = job_ident (lease_job (fr_lease rec))"
    and cap: "\<And>required. fr_publication rec = FinRequired required \<Longrightarrow> require_queue_capacity required (publications s) = Inr ()"
    and i: "insert_finalization rec s = Inr s1" and c: "complete_job (fi_job_id (fr_identity rec)) (fr_lease rec) (fr_now rec) s1 = Inr s'"
  shows "final_inv sha256 s' \<and> finalization_effect sha256 rec s s'"
proof (rule insert_finalizationE[OF i], goal_cases)
  case I: (1 m r p)
  have jinv: "job_store_inv sha256 s" using inv by (simp add: final_inv_def)
  from c obtain s0 where c0: "complete_job (job_ident (lease_job (fr_lease rec))) (fr_lease rec) (fr_now rec) s = Inr s0"
    "s' = s0\<lparr>manifest_rows := manifest_rows s @ [m], projection_rows := projection_rows s @ [projection_row_of rec],
       report_rows := report_rows s @ [r], publications := p\<rparr>"
    unfolding I(3) complete_job_frame job by (cases "complete_job (job_ident (lease_job (fr_lease rec))) (fr_lease rec) (fr_now rec) s") auto
  from jinv c0(1) obtain row where row: "job_store_inv sha256 s0"
    "s0 = s\<lparr>jobs := replace_row jr_job_id (complete_set (int (fr_now rec)) row) (jobs s)\<rparr>"
    by (rule complete_jobE)
  have step: "job_step sha256 s (Finished (fr_lease rec) (fr_now rec)) s0" using c0(1) by (rule step_complete)
  have s': "s' = s\<lparr>jobs := jobs s0, manifest_rows := manifest_rows s @ [m], projection_rows := projection_rows s @ [projection_row_of rec],
       report_rows := report_rows s @ [r], publications := p\<rparr>"
    using c0(2) row(2) by simp
  have "map jr_job_id (jobs s0) = map jr_job_id (jobs s)" using row(2) by simp
  from arg_cong[OF this, of set] have keys: "jr_job_id ` set (jobs s0) = jr_job_id ` set (jobs s)" by simp
  have "commit_inv s'"
    using inv keys by (simp add: final_inv_def s' commit_inv_def ingest_inv_def evidence_inv_def reconciliations_valid_def)
  moreover have "job_store_inv sha256 s'" using row by (simp add: s' job_store_inv_def)
  moreover have "rep_statement_sha256 r = se_statement_sha256 (queued_event_row (fr_event rec))"
    using I(2) by (auto simp: report_row_of_def queued_event_row_def)
  moreover have "publications_valid p"
  proof (cases "fr_publication rec")
    case FinDisabled
    then show ?thesis using inv I(7,10)
      by (auto simp: final_inv_def publications_valid_def outboxes_valid_def list_all_iff)
  next
    case (FinRequired required)
    then have "queue_publication (fr_event rec) required (fr_now rec) (publications s) = Inr p" using I(10) cap by simp
    from queue_publicationE(2,3,5)[OF this] show ?thesis by (simp add: publications_valid_def)
  qed
  ultimately have "final_inv sha256 s'" using inv I(3-8) by (auto simp: final_inv_def s')
  moreover have "case fr_publication rec of
       FinDisabled \<Rightarrow> p = (publications s)\<lparr>signed_events := signed_events (publications s) @ [queued_event_row (fr_event rec)]\<rparr>
     | FinRequired required \<Rightarrow> queue_publication (fr_event rec) required (fr_now rec) (publications s) = Inr p
         \<and> length (filter (\<lambda>r. ob_state r \<noteq> ''complete'') (outboxes (publications s))) < rq_queue_capacity required
         \<and> p = (publications s)\<lparr>signed_events := signed_events (publications s) @ [queued_event_row (fr_event rec)],
             outboxes := outboxes (publications s) @ [queued_outbox_row (fr_event rec) required (int (fr_now rec))],
             targets := targets (publications s)
               @ map (queued_target_row (rq_outbox_id required) (int (fr_now rec))) (rq_targets required)\<rparr>"
  proof (cases "fr_publication rec")
    case FinDisabled
    then show ?thesis using I(10) by simp
  next
    case (FinRequired required)
    then have "queue_publication (fr_event rec) required (fr_now rec) (publications s) = Inr p" using I(10) cap by simp
    from this queue_publicationE(1,6)[OF this] FinRequired show ?thesis by simp
  qed
  then have "finalization_effect sha256 rec s s'"
    unfolding finalization_effect_def
    using I(1,2) s' step row(2) by (intro exI[of _ m] exI[of _ r] exI[of _ p] exI[of _ "jobs s0"]) (auto split: finalization_publication.splits)
  ultimately show ?case by blast
qed


end
