(* ===== verification/Finalization_Once.thy ===== *)
theory Finalization_Once
  imports Finalization_Props
begin

text \<open>
  A repeated finalization finds the rows of the first in any later store: the four evidence tables are
  append-only, a completed job never changes, and the publication of the event keeps its identity columns.
\<close>

section \<open>Counting\<close>

lemma match_countI:
  assumes "distinct rows" and "r \<in> set rows" and "p r" and "\<And>x. x \<in> set rows \<Longrightarrow> p x \<Longrightarrow> x = r"
  shows "match_count p rows"
proof -
  have "filter p rows = filter (\<lambda>x. x = r) rows" using assms(3,4) by (intro filter_cong) auto
  then show ?thesis using filter_eq_distinct[OF assms(1,2)] by (simp add: match_count_def sql_count_def)
qed

lemma match_count_keyed:
  assumes "distinct (map key rows)" and "r \<in> set rows" and "p r" and "\<And>x. p x \<Longrightarrow> key x = key r"
  shows "match_count p rows"
  using assms by (intro match_countI[of rows r]) (auto simp: distinct_map dest: inj_onD)

text \<open>A count that looks only at some columns of some rows.\<close>

lemma sql_count_columns:
  assumes "\<And>r. p r \<longleftrightarrow> f r \<and> q (columns r)"
    and "map columns (filter f rows) = map columns (filter f rows')"
  shows "sql_count p rows = sql_count p rows'"
proof -
  have eq: "filter p xs = filter (\<lambda>r. q (columns r)) (filter f xs)" for xs using assms(1) by (induction xs) auto
  have "length (filter (\<lambda>r. q (columns r)) ys) = length (filter q (map columns ys))" for ys by (simp add: filter_map comp_def)
  then show ?thesis using assms(2) by (simp only: sql_count_def eq)
qed

lemma match_count_filter:
  assumes "\<And>r. p r \<Longrightarrow> f r" and "filter f rows = filter f rows'"
  shows "match_count p rows = match_count p rows'"
proof -
  have "sql_count p rows = sql_count p rows'" by (rule sql_count_columns[of p f p id]) (use assms in auto)
  then show ?thesis by (simp add: match_count_def)
qed

section \<open>Later stores\<close>

definition outbox_columns :: "outbox_row \<Rightarrow> bytes \<times> bytes \<times> bytes \<times> bytes \<times> bytes \<times> int \<times> int \<times> int \<times> int \<times> int \<times> int" where
  "outbox_columns r = (ob_outbox_id r, ob_event_id r, ob_event_sha256 r, ob_publication_authority_sha256 r, ob_target_set_sha256 r,
     ob_target_count r, ob_required_target_count r, ob_max_attempts r, ob_initial_backoff_ms r, ob_maximum_backoff_ms r,
     ob_attempt_deadline_ms r)"

definition target_columns :: "target_row \<Rightarrow> bytes \<times> int \<times> string \<times> int" where
  "target_columns r = (tg_outbox_id r, tg_target_ordinal r, tg_relay_id r, tg_required r)"

definition keeps_finalization :: "finalization_record \<Rightarrow> 'a final_store_scheme \<Rightarrow> 'b final_store_scheme \<Rightarrow> bool" where
  "keeps_finalization rec s t \<longleftrightarrow>
     (let attempt = fi_attempt_id (fr_identity rec); job = fi_job_id (fr_identity rec); event = fe_event_id (fr_event rec) in
     set (manifest_rows s) \<subseteq> set (manifest_rows t) \<and> set (projection_rows s) \<subseteq> set (projection_rows t)
   \<and> set (report_rows s) \<subseteq> set (report_rows t) \<and> set (signed_events (publications s)) \<subseteq> set (signed_events (publications t))
   \<and> filter (\<lambda>r. ea_attempt_id r = attempt) (attempt_rows t) = filter (\<lambda>r. ea_attempt_id r = attempt) (attempt_rows s)
   \<and> filter (\<lambda>r. es_attempt_id r = attempt) (source_rows t) = filter (\<lambda>r. es_attempt_id r = attempt) (source_rows s)
   \<and> job_at job t = job_at job s
   \<and> map outbox_columns (filter (\<lambda>r. ob_event_id r = event) (outboxes (publications t)))
       = map outbox_columns (filter (\<lambda>r. ob_event_id r = event) (outboxes (publications s)))
   \<and> (\<forall>required. fr_publication rec = FinRequired required \<longrightarrow>
       map target_columns (filter (\<lambda>r. tg_outbox_id r = rq_outbox_id required) (targets (publications t)))
         = map target_columns (filter (\<lambda>r. tg_outbox_id r = rq_outbox_id required) (targets (publications s)))))"

lemma sources_match_filter:
  assumes "filter (\<lambda>r. es_attempt_id r = attempt) rows = filter (\<lambda>r. es_attempt_id r = attempt) rows'"
  shows "sources_match attempt ordinal sources rows = sources_match attempt ordinal sources rows'"
proof (induction sources arbitrary: ordinal)
  case (Cons source sources)
  have "match_count (\<lambda>r. es_attempt_id r = attempt \<and> es_source_ordinal r = v
          \<and> es_source_id r = fx_source_id source \<and> es_required r = of_bool (fx_required source)
          \<and> es_accepted_event_count r = int (fx_admitted_event_count source)
          \<and> completion_matches (fx_completion source) (es_completion r)) rows
      = match_count (\<lambda>r. es_attempt_id r = attempt \<and> es_source_ordinal r = v
          \<and> es_source_id r = fx_source_id source \<and> es_required r = of_bool (fx_required source)
          \<and> es_accepted_event_count r = int (fx_admitted_event_count source)
          \<and> completion_matches (fx_completion source) (es_completion r)) rows'" for v
    by (rule match_count_filter[OF _ assms]) simp
  then show ?case unfolding sources_match.simps by (simp only: Cons)
qed simp

lemma validate_source_inventory_keeps:
  assumes "keeps_finalization rec s t"
  shows "validate_source_inventory rec t = validate_source_inventory rec s"
proof -
  let ?a = "fi_attempt_id (fr_identity rec)"
  have f: "filter (\<lambda>r. ea_attempt_id r = ?a) (attempt_rows t) = filter (\<lambda>r. ea_attempt_id r = ?a) (attempt_rows s)"
    "filter (\<lambda>r. es_attempt_id r = ?a) (source_rows t) = filter (\<lambda>r. es_attempt_id r = ?a) (source_rows s)"
    using assms by (simp_all add: keeps_finalization_def Let_def)
  have "match_count (\<lambda>r. ea_attempt_id r = ?a \<and> ea_source_count r = n) (attempt_rows t)
      = match_count (\<lambda>r. ea_attempt_id r = ?a \<and> ea_source_count r = n) (attempt_rows s)" for n
    by (rule match_count_filter[OF _ f(1)]) simp
  then show ?thesis using sources_match_filter[OF f(2)] f(2) by (simp add: validate_source_inventory_def Let_def sql_count_def)
qed

lemma final_inv_distinct:
  assumes "final_inv sha256 s"
  shows "distinct (map mf_manifest_sha256 (manifest_rows s))" "distinct (map pj_projection_sha256 (projection_rows s))"
    "distinct (map rep_statement_sha256 (report_rows s))" "distinct (map se_event_id (signed_events (publications s)))"
    "distinct (map jr_job_id (jobs s))"
  using assms job_store_inv_distinct[of sha256 s]
  by (simp_all add: final_inv_def manifests_valid_def projections_valid_def reports_valid_def publications_valid_def events_valid_def)

lemma validate_supersession_mono:
  fixes s :: "'a final_store_scheme" and t :: "'b final_store_scheme"
  assumes inv: "final_inv sha256 t" and keeps: "set (report_rows s) \<subseteq> set (report_rows t)"
      "set (signed_events (publications s)) \<subseteq> set (signed_events (publications t))"
    and ok: "validate_supersession rec s = Inr ()"
  shows "validate_supersession rec t = Inr ()"
proof (cases "fr_supersession rec")
  case (Some pair)
  obtain statement event_id where pair: "pair = (statement, event_id)" by force
  let ?p = "\<lambda>(report, event). rep_statement_sha256 report = statement \<and> se_event_id event = event_id
               \<and> se_statement_sha256 event = rep_statement_sha256 report"
  from ok Some pair have "match_count ?p (List.product (report_rows s) (signed_events (publications s)))"
    by (simp add: validate_supersession_def split: if_splits)
  from match_count_member[OF this] obtain report event where r: "report \<in> set (report_rows s)"
    "event \<in> set (signed_events (publications s))" "?p (report, event)" by auto
  note D = final_inv_distinct[OF inv]
  have sub: "report \<in> set (report_rows t)" "event \<in> set (signed_events (publications t))"
    using r keeps by auto
  have "match_count ?p (List.product (report_rows t) (signed_events (publications t)))"
  proof (rule match_countI[of _ "(report, event)"])
    show "distinct (List.product (report_rows t) (signed_events (publications t)))"
      using D(3,4) by (intro distinct_product) (auto dest: distinct_map[THEN iffD1])
  next
    fix x assume "x \<in> set (List.product (report_rows t) (signed_events (publications t)))" "?p x"
    then show "x = (report, event)" using r(3) sub D(3,4) by (auto simp: distinct_map dest: inj_onD)
  qed (use sub r(3) in auto)
  then show ?thesis using Some pair by (simp add: validate_supersession_def)
qed (simp add: validate_supersession_def)

section \<open>The rows of the first commit\<close>

text \<open>The record names the job, the trade, the generation and the policy of its lease.\<close>

definition sealed_record :: "finalization_record \<Rightarrow> bool" where
  "sealed_record rec \<longleftrightarrow>
     fi_job_id (fr_identity rec) = job_ident (lease_job (fr_lease rec))
   \<and> fi_trade_id (fr_identity rec) = job_trade_id (lease_job (fr_lease rec))
   \<and> fi_generation (fr_identity rec) = job_input_generation (lease_job (fr_lease rec))
   \<and> fi_policy_digest (fr_identity rec) = job_policy_digest (lease_job (fr_lease rec))"

lemma prepared_record_sealed:
  assumes "finalization_identity_of sha256 crate lease evaluation now = Inr identity"
    and "finalization_record_from_inputs sha256 crate codec attestation publication now' = Some rec"
    and "ff_lease (sa_fence attestation) = lease" and "ff_identity (sa_fence attestation) = identity"
  shows "sealed_record rec"
proof -
  have "fr_lease rec = lease" "fr_identity rec = identity"
    using assms(2-4) by (auto simp: finalization_record_from_inputs_def Let_def bind_eq_Some_conv split: if_splits)
  moreover have "fi_job_id identity = job_ident (lease_job lease)" "fi_trade_id identity = job_trade_id (lease_job lease)"
    "fi_generation identity = job_input_generation (lease_job lease)" "fi_policy_digest identity = job_policy_digest (lease_job lease)"
    using assms(1) by (auto simp: finalization_identity_of_def Let_def split: if_splits)
  ultimately show ?thesis by (simp add: sealed_record_def)
qed

lemma outbox_matches_queued:
  assumes v: "publications_valid p'" and q: "queue_publication event required now p = Inr p'"
    and cols: "map outbox_columns (filter (\<lambda>r. ob_event_id r = fe_event_id event) (outboxes p''))
      = map outbox_columns (filter (\<lambda>r. ob_event_id r = fe_event_id event) (outboxes p'))"
  shows "outbox_matches event required p'' = Inr True"
proof -
  let ?row = "queued_outbox_row event required (int now)"
  let ?c = "outbox_columns ?row"
  have b: "rq_initial_backoff_ms required \<le> i64_max" "rq_maximum_backoff_ms required \<le> i64_max" "rq_attempt_deadline_ms required \<le> i64_max"
    using q by (auto simp: queue_publication_def insert_outbox_def fin_i64_value_def i64_of_u64_def split: if_splits)
  have out: "outboxes p' = outboxes p @ [?row]" using queue_publicationE(1)[OF q] by simp
  have "sql_count (\<lambda>r. outbox_columns r = ?c) (outboxes p'') = sql_count (\<lambda>r. outbox_columns r = ?c) (outboxes p')"
    by (rule sql_count_columns[of _ "\<lambda>r. ob_event_id r = fe_event_id event" "\<lambda>c. c = ?c" outbox_columns])
      (use cols in \<open>auto simp: outbox_columns_def queued_outbox_row_def\<close>)
  moreover have "match_count (\<lambda>r. outbox_columns r = ?c) (outboxes p')"
    by (rule match_count_keyed[of ob_outbox_id _ ?row])
      (use v in \<open>auto simp: out outbox_columns_def publications_valid_def outboxes_valid_def\<close>)
  ultimately show ?thesis
    using b by (simp add: outbox_matches_def fin_i64_value_def i64_of_u64_def match_count_def outbox_columns_def queued_outbox_row_def)
qed

lemma target_matches_queued:
  assumes v: "publications_valid p'" and q: "queue_publication event required now p = Inr p'"
    and t: "t \<in> set (rq_targets required)"
    and cols: "map target_columns (filter (\<lambda>r. tg_outbox_id r = rq_outbox_id required) (targets p''))
      = map target_columns (filter (\<lambda>r. tg_outbox_id r = rq_outbox_id required) (targets p'))"
  shows "target_matches (rq_outbox_id required) t p''"
proof -
  let ?row = "queued_target_row (rq_outbox_id required) (int now) t"
  let ?c = "target_columns ?row"
  have out: "targets p' = targets p @ map (queued_target_row (rq_outbox_id required) (int now)) (rq_targets required)"
    using queue_publicationE(1)[OF q] by simp
  have "sql_count (\<lambda>r. target_columns r = ?c) (targets p'') = sql_count (\<lambda>r. target_columns r = ?c) (targets p')"
    by (rule sql_count_columns[of _ "\<lambda>r. tg_outbox_id r = rq_outbox_id required" "\<lambda>c. c = ?c" target_columns])
      (use cols in \<open>auto simp: target_columns_def queued_target_row_def\<close>)
  moreover have "match_count (\<lambda>r. target_columns r = ?c) (targets p')"
    by (rule match_count_keyed[of target_key _ ?row])
      (use v t in \<open>auto simp: out target_columns_def target_key_def publications_valid_def targets_valid_def\<close>)
  ultimately show ?thesis
    by (simp add: target_matches_def match_count_def target_columns_def queued_target_row_def of_bool_def)
qed

lemma publication_matches_keeps:
  assumes inv: "final_inv sha256 s" "final_inv sha256 s'" and none: "footprint rec s = 0"
    and eff: "finalization_effect sha256 rec s s'" and keeps: "keeps_finalization rec s' t"
  shows "publication_matches rec t = Inr True"
proof -
  let ?ev = "fe_event_id (fr_event rec)"
  have cols: "map outbox_columns (filter (\<lambda>r. ob_event_id r = ?ev) (outboxes (publications t)))
      = map outbox_columns (filter (\<lambda>r. ob_event_id r = ?ev) (outboxes (publications s')))"
    using keeps by (simp add: keeps_finalization_def Let_def)
  show ?thesis
  proof (cases "fr_publication rec")
    case FinDisabled
    then have "outboxes (publications s') = outboxes (publications s)" using eff by (auto simp: finalization_effect_def)
    moreover have "filter (\<lambda>r. ob_event_id r = ?ev) (outboxes (publications s)) = []"
      using none by (simp add: footprint_def Let_def sql_count_def)
    ultimately show ?thesis using cols FinDisabled by (simp add: publication_matches_def sql_count_def Let_def)
  next
    case (FinRequired required)
    let ?id = "rq_outbox_id required"
    from eff FinRequired have q: "queue_publication (fr_event rec) required (fr_now rec) (publications s) = Inr (publications s')"
      by (auto simp: finalization_effect_def)
    have v: "publications_valid (publications s)" "publications_valid (publications s')" using inv by (simp_all add: final_inv_def)
    note E = queue_publicationE(1)[OF q]
    have tcols: "map target_columns (filter (\<lambda>r. tg_outbox_id r = ?id) (targets (publications t)))
      = map target_columns (filter (\<lambda>r. tg_outbox_id r = ?id) (targets (publications s')))"
      using keeps FinRequired by (simp add: keeps_finalization_def Let_def)
    have "?id \<notin> set (map ob_outbox_id (outboxes (publications s)))"
      using v(2) E by (auto simp: publications_valid_def outboxes_valid_def queued_outbox_row_def)
    then have "filter (\<lambda>r. tg_outbox_id r = ?id) (targets (publications s)) = []"
      using v(1) by (force simp: publications_valid_def targets_valid_def list_all_iff filter_empty_conv)
    then have "length (filter (\<lambda>r. tg_outbox_id r = ?id) (targets (publications s'))) = length (rq_targets required)"
      using E by (simp add: queued_target_row_def filter_map comp_def)
    then have "sql_count (\<lambda>r. tg_outbox_id r = ?id) (targets (publications t)) = length (rq_targets required)"
      using arg_cong[OF tcols, of length] by (simp add: sql_count_def)
    then show ?thesis
      using FinRequired outbox_matches_queued[OF v(2) q cols] target_matches_queued[OF v(2) q _ tcols]
      by (simp add: publication_matches_def Let_def list_all_iff)
  qed
qed

lemma completed_job_matches_keeps:
  assumes inv: "final_inv sha256 s" "final_inv sha256 t" and sealed: "sealed_record rec"
    and lease: "validate_exact_lease sha256 (fr_lease rec) s = Inr ()"
    and step: "job_step sha256 s (Finished (fr_lease rec) (fr_now rec)) (s\<lparr>jobs := js\<rparr>)"
    and js: "jobs s' = js" and keeps: "keeps_finalization rec s' t"
  shows "completed_job_matches rec t = Inr True"
proof -
  let ?job = "lease_job (fr_lease rec)"
  have jinv: "job_store_inv sha256 s" "job_store_inv sha256 t" using inv by (simp_all add: final_inv_def)
  from step have c: "complete_job (job_ident ?job) (fr_lease rec) (fr_now rec) s = Inr (s\<lparr>jobs := js\<rparr>)"
    by (cases rule: job_step.cases) auto
  from jinv(1) c obtain r where r: "job_at (job_ident ?job) s = Some r"
    "complete_where (job_ident ?job) (int (job_revision ?job)) (lease_owner (fr_lease rec)) (int (lease_expires (fr_lease rec))) (int (fr_now rec)) r"
    and at: "job_at (job_ident ?job) (s\<lparr>jobs := js\<rparr>) = Some (complete_set (int (fr_now rec)) r)"
    by (rule complete_jobE)
  let ?row = "complete_set (int (fr_now rec)) r"
  have at': "job_at (job_ident ?job) t = Some ?row"
    using keeps at js sealed by (simp add: keeps_finalization_def sealed_record_def Let_def)
  have job: "job_of_row r = ?job"
    using lease r(1) by (auto simp: validate_exact_lease_def read_job_inv[OF jinv(1)] split: if_splits)
  have ok: "job_row_ok sha256 r" "job_row_ok sha256 ?row" using job_at_ok[OF jinv(1) r(1)] job_at_ok[OF jinv(2) at'] .
  have f: "jr_revision r = int (job_revision ?job)" "int (job_attempt_count ?job) = jr_attempt_count r"
    "int (job_failure_count ?job) = jr_failure_count r" "int (max_attempts (job_policy ?job)) = jr_max_attempts r"
    "int (job_input_generation ?job) = jr_input_generation r" "job_trade_id ?job = jr_trade_id r"
    "job_policy_digest ?job = jr_evidence_policy_sha256 r" "job_ident ?job = jr_job_id r"
    using r(2) ok(1) job_of_row_simps[of r] unfolding job[symmetric]
    by (auto simp: complete_where_def job_row_ok_def job_row_check_def row_policy_def)
  have b: "job_revision ?job + 1 \<le> i64_max" "job_input_generation ?job \<le> i64_max"
    using ok f(1,5) by (auto simp: job_row_ok_def job_row_check_def complete_set_def i64_max_def)
  have "match_count (\<lambda>r. jr_job_id r = job_ident ?job \<and> jr_trade_id r = job_trade_id ?job
         \<and> jr_input_generation r = int (job_input_generation ?job) \<and> jr_evidence_policy_sha256 r = job_policy_digest ?job
         \<and> jr_state r = ''completed'' \<and> jr_revision r = int (job_revision ?job + 1)
         \<and> jr_attempt_count r = int (job_attempt_count ?job) \<and> jr_failure_count r = int (job_failure_count ?job)
         \<and> jr_max_attempts r = int (max_attempts (job_policy ?job)) \<and> jr_next_attempt_unix_ms r = None
         \<and> jr_lease_owner r = None \<and> jr_lease_expires_unix_ms r = None) (jobs t)"
    by (rule match_count_keyed[of jr_job_id _ ?row])
      (use select_key_SomeD(1)[OF at'] final_inv_distinct(5)[OF inv(2)] f in \<open>simp_all add: complete_set_def\<close>)
  then show ?thesis
    using b sealed by (simp add: completed_job_matches_def sealed_record_def Let_def fin_i64_value_def i64_of_u64_def checked_add_def
        u64_max_def i64_max_def)
qed

lemma event_row_eq_iff:
  "r = e \<longleftrightarrow> se_event_id r = se_event_id e \<and> se_statement_sha256 r = se_statement_sha256 e
     \<and> se_event_sha256 r = se_event_sha256 e \<and> se_issuer_public_key r = se_issuer_public_key e
     \<and> se_authored_at_unix_s r = se_authored_at_unix_s e \<and> se_canonical_event_json r = se_canonical_event_json e"
  for r e :: event_row
  by (auto intro: event_row.equality)

text \<open>
  C10.  A finalization happens once: after a commit that reported creation, the same commit in any later store
  finds every row of the first and the completed job, reports the same publication without creation and
  changes nothing, whatever became of the lease, the generation or the publication since.
\<close>

theorem finalization_once:
  assumes inv: "final_inv sha256 s" "final_inv sha256 t" and sealed: "sealed_record rec"
    and run: "commit_finalization_record sha256 rec s = Inr (out, s')" and created: "fo_created out"
    and keeps: "keeps_finalization rec s' t"
  shows "commit_finalization_record sha256 rec t = Inr (out\<lparr>fo_created := False\<rparr>, t)"
proof (rule commit_finalization_recordE[OF run], goal_cases)
  case 1
  then show ?case using created by (simp add: finalization_outcome_of_def split: finalization_publication.splits)
next
  case fresh: (2 s1)
  have job: "fi_job_id (fr_identity rec) = job_ident (lease_job (fr_lease rec))" using sealed by (simp add: sealed_record_def)
  have cinv: "commit_inv s" using inv by (simp add: final_inv_def)
  have E: "final_inv sha256 s' \<and> finalization_effect sha256 rec s s'"
    using commit_fresh_finalization[OF inv(1) job _ fresh(7,8)] fresh(6) by blast
  from E obtain m r p js where rows: "manifest_row_of rec = Inr m" "report_row_of rec = Inr r"
    "s' = s\<lparr>jobs := js, manifest_rows := manifest_rows s @ [m], projection_rows := projection_rows s @ [projection_row_of rec],
       report_rows := report_rows s @ [r], publications := p\<rparr>"
    "job_step sha256 s (Finished (fr_lease rec) (fr_now rec)) (s\<lparr>jobs := js\<rparr>)" unfolding finalization_effect_def by blast
  have at: "fe_authored_at_unix_s (fr_event rec) \<le> i64_max" by (rule insert_finalizationE[OF fresh(7)]) simp
  have sig: "signed_events (publications s') = signed_events (publications s) @ [queued_event_row (fr_event rec)]"
    using E by (cases "fr_publication rec") (auto simp: finalization_effect_def dest!: queue_publicationE(1))
  then have in_t: "m \<in> set (manifest_rows t)" "projection_row_of rec \<in> set (projection_rows t)" "r \<in> set (report_rows t)"
    "queued_event_row (fr_event rec) \<in> set (signed_events (publications t))"
    using keeps by (auto simp: keeps_finalization_def Let_def rows(3))
  note D = final_inv_distinct[OF inv(2)]
  have "manifest_matches rec t = Inr True" "projection_matches rec t = Inr True" "report_matches rec t = Inr True"
    using in_t D by (simp_all add: manifest_matches_def projection_matches_def report_matches_def rows match_count_keyed)
  moreover have "match_count (\<lambda>r. r = queued_event_row (fr_event rec)) (signed_events (publications t))"
    using in_t(4) D(4) by (simp add: match_count_keyed)
  then have "final_event_matches rec t = Inr True"
    using at by (simp add: final_event_matches_def Let_def fin_i64_value_def i64_of_u64_def event_row_eq_iff queued_event_row_def)
  moreover have "publication_matches rec t = Inr True"
    using publication_matches_keeps[OF inv(1) _ fresh(1) _ keeps] E by blast
  moreover have "completed_job_matches rec t = Inr True"
    using completed_job_matches_keeps[OF inv sealed validate_finalization_identityD(2)[OF cinv fresh(2)] rows(4) _ keeps]
    by (simp add: rows(3))
  moreover have "validate_source_inventory rec t = Inr ()"
    unfolding validate_source_inventory_keeps[OF keeps] fresh(3)[symmetric] rows(3) by (simp add: validate_source_inventory_def Let_def)
  moreover have "validate_supersession rec t = Inr ()"
    using keeps sig by (intro validate_supersession_mono[OF inv(2) _ _ fresh(5)]) (auto simp: keeps_finalization_def Let_def rows(3))
  moreover have "mf_manifest_sha256 m = fr_manifest_sha256 rec" using rows(1) by (auto simp: manifest_row_of_def Let_def)
  with in_t(1) have "footprint rec t \<noteq> 0" by (auto simp: footprint_def Let_def sql_count_def filter_empty_conv)
  ultimately have "final_reconcile_existing rec t = Inr ExistingExact"
    by (simp add: final_reconcile_existing_def both_def)
  then show ?case using fresh(9)
    by (simp add: commit_finalization_record_def finalization_outcome_of_def split: finalization_publication.split)
qed

end
