(* ===== verification/Finalization_Witness.thy ===== *)
theory Finalization_Witness
  imports Finalization_Once Publication_Demo
begin

text \<open>One finalization on a concrete store: the claimed job of the job witness, its committed attempt and one relay.\<close>

definition final_attempt :: bytes where "final_attempt = replicate 32 8"

definition final_attempt_row :: reconciliation_row where
  "final_attempt_row = \<lparr>ea_attempt_id = final_attempt, ea_job_id = wit_ident, ea_trade_id = wit_trade, ea_input_generation = 3,
     ea_evidence_policy_sha256 = wit_digest, ea_attempt_started_unix_ms = 2000, ea_deadline_unix_ms = 12000, ea_source_count = 1\<rparr>"

definition final_source_row :: source_row where
  "final_source_row = \<lparr>es_attempt_id = final_attempt, es_request_id = replicate 32 7, es_source_ordinal = 0,
     es_source_id = ''relay-a'', es_trade_id = wit_trade, es_required = 1, es_selector_sha256 = replicate 32 5,
     es_replay_id = replicate 32 6, es_completion = ''complete'', es_started_unix_ms = 2000, es_finished_unix_ms = 2500,
     es_accepted_event_count = 0, es_accepted_event_bytes = 0, es_accepted_inventory_sha256 = replicate 32 4,
     es_duplicate_observation_count = 0, es_first_observed_unix_s = None, es_prior_cursor_created_at_unix_s = None,
     es_prior_cursor_event_id = None, es_overlap_seconds = 60, es_inclusive_since_unix_s = 0,
     es_candidate_created_at_unix_s = None, es_candidate_event_id = None, es_checkpoint_advanced = 0\<rparr>"

definition final_start :: final_store where
  "final_start = \<lparr>dirty_generations = wit_dirty, jobs = [wit_leased_row], mutation_rows = [], nostr_rows = [],
     observation_rows = [], checkpoint_rows = [], attempt_rows = [final_attempt_row], source_rows = [final_source_row],
     manifest_rows = [], projection_rows = [], report_rows = [], publications = ps_store pub_start\<rparr>"

definition final_rec :: finalization_record where
  "final_rec = \<lparr>fr_lease = wit_lease, fr_identity = \<lparr>fi_attempt_id = final_attempt, fi_job_id = wit_ident, fi_trade_id = wit_trade,
       fi_generation = 3, fi_policy_digest = wit_digest\<rparr>, fr_now = 3000, fr_manifest_sha256 = replicate 32 3,
     fr_canonical_manifest = [1], fr_observed_at_unix_s = 2, fr_source_count = 1,
     fr_sources = [\<lparr>fx_source_id = ''relay-a'', fx_required = True, fx_completion = EvidenceComplete, fx_admitted_event_count = 0\<rparr>],
     fr_observation_count = 0, fr_projection_sha256 = replicate 32 4, fr_shared_projection_sha256 = replicate 32 5,
     fr_issue_count = 0, fr_claim_mutation_id = replicate 32 6, fr_outcome = ''valid'', fr_canonical_report = [2],
     fr_supersession = None, fr_event = demo_event, fr_publication = FinRequired (demo_required 2)\<rparr>"

lemma wit_lease_job: "job_ident (lease_job wit_lease) = wit_ident" "job_trade_id (lease_job wit_lease) = wit_trade"
  "job_input_generation (lease_job wit_lease) = 3" "job_policy_digest (lease_job wit_lease) = wit_digest"
  "job_revision (lease_job wit_lease) = 2" "lease_owner wit_lease = wit_owner" "lease_expires wit_lease = 32000"
  by (simp_all add: wit_lease_def wit_leased_row_def claim_set_def wit_row_def new_job_row_def job_of_row_def)

lemma final_rec_sealed: "sealed_record final_rec"
  by (simp add: sealed_record_def final_rec_def wit_lease_job)

lemma final_start_inv: "final_inv wit_hash final_start"
  using wit_claimed_inv
  by (simp add: final_inv_def commit_inv_def ingest_inv_def final_start_def evidence_inv_def checkpoints_valid_def
      reconciliations_valid_def sources_valid_def job_store_inv_def wit_claimed_def final_attempt_row_def final_source_row_def
      reconciliation_row_check_def source_row_check_def sql_range_def final_attempt_def completion_codes_def
      source_id_check_def source_id_char_def ascii_lowercase_def
      wit_leased_fields manifests_valid_def projections_valid_def reports_valid_def publications_valid_def
      pub_start_def events_valid_def outboxes_valid_def targets_valid_def map_filter_simps)

lemma final_start_lease: "validate_exact_lease wit_hash wit_lease final_start = Inr ()"
  using wit_validates by (simp add: validate_exact_lease_def read_job_def final_start_def wit_claimed_def)

lemma final_start_fence:
  "validate_finalization_identity wit_hash (fr_lease final_rec) (fr_identity final_rec) (fr_now final_rec) final_start = Inr ()"
  by (simp add: validate_finalization_identity_def final_rec_def final_start_lease wit_lease_job)
    (simp add: source_read_dirty_def final_start_def wit_dirty_def select_key_def positive_i64_u64_def nonnegative_i64_u64_def
      committed_attempts_def final_attempt_row_def option_filter_def ok_or_def i64_of_u64_def i64_max_def)

lemma final_queue: "queue_publication demo_event (demo_required 2) 3000 (ps_store pub_start) =
   Inr \<lparr>signed_events = [queued_event_row demo_event], outboxes = [queued_outbox_row demo_event (demo_required 2) 3000],
     targets = [queued_target_row (replicate 32 7) 3000 \<lparr>ft_ordinal = 0, ft_relay_id = ''relay'', ft_required = True\<rparr>], attempts = []\<rparr>"
  by (simp add: queue_publication_def require_queue_capacity_def demo_required_def fin_i64_value_def i64_of_u64_def
        i64_max_def sql_insert_def pub_start_def insert_signed_event_def events_valid_def event_row_check_def queued_event_row_def
        demo_event_def insert_outbox_def outboxes_valid_def outbox_row_check_def outbox_state_check_def queued_outbox_row_def
        targets_valid_def queued_target_row_def target_row_check_def relay_id_char_def sql_logic)

lemma final_complete: "\<exists>s. complete_job wit_ident wit_lease 3000 wit_claimed = Inr s"
proof -
  let ?r' = "complete_set 3000 wit_leased_row"
  note st = wit_leased_fields
  have ok: "job_row_ok wit_hash wit_leased_row" using job_at_ok[OF wit_claimed_inv wit_claimed_at] .
  have shape: "\<not> job_shape_violation ?r'"
    by (simp add: job_shape_violation_def complete_set_def st sql_logic job_is_terminal_def)
  have "check_holds (job_state_check ?r')" by (simp add: job_state_check_def complete_set_def st sql_logic job_is_terminal_def)
  then have check: "job_row_check ?r'"
    using ok by (simp add: job_row_ok_def job_row_check_def complete_set_def st job_is_terminal_def)
  have guard: "job_guard wit_leased_row ?r'"
    using shape by (simp add: job_guard_def job_guard_update_def complete_set_def st job_transition_def)
  have p: "complete_where wit_ident 2 wit_owner 32000 3000 wit_leased_row"
    using wit_holds st by (simp add: holds_lease_def complete_where_def wit_lease_def)
  have "update_jobs (complete_where wit_ident 2 wit_owner 32000 3000) (complete_set 3000) wit_claimed
      = Inr (wit_claimed\<lparr>jobs := replace_row jr_job_id ?r' (jobs wit_claimed)\<rparr>, 1)"
    using wit_claimed_inv wit_claimed_at
    by (rule update_jobs_keyed) (use p st guard check in \<open>auto simp: complete_where_def complete_set_def job_is_active_def\<close>)
  then show ?thesis by (simp add: complete_job_def Let_def wit_lease_job i64_value_def i64_of_u64_def i64_max_def)
qed

lemma final_insert: "\<exists>a b c d. insert_finalization final_rec final_start
    = Inr (final_start\<lparr>manifest_rows := a, projection_rows := b, report_rows := c, publications := d\<rparr>)"
proof -
  have q: "and_then (insert_signed_event demo_event (ps_store pub_start)) (\<lambda>p.
      and_then (insert_outbox demo_event (demo_required 2) 3000 p) (\<lambda>p.
        insert_publication_targets (rq_outbox_id (demo_required 2)) 3000 (rq_targets (demo_required 2)) p))
    = queue_publication demo_event (demo_required 2) 3000 (ps_store pub_start)"
    by (simp add: queue_publication_def require_queue_capacity_def demo_required_def pub_start_def)
  then show ?thesis unfolding final_queue
    by (auto simp: insert_finalization_def insert_manifest_def manifest_row_of_def insert_projection_def projection_row_of_def
        insert_report_def report_row_of_def insert_publication_def final_rec_def final_start_def sql_insert_def fin_i64_value_def
        i64_of_u64_def i64_max_def manifests_valid_def manifest_row_check_def sql_range_def final_attempt_def final_attempt_row_def
        projections_valid_def projection_row_check_def reports_valid_def report_row_check_def map_filter_simps demo_event_def)
qed

lemma final_run: "\<exists>out s. commit_finalization_record wit_hash final_rec final_start = Inr (out, s) \<and> fo_created out"
proof -
  from final_insert obtain a b c d where i: "insert_finalization final_rec final_start
    = Inr (final_start\<lparr>manifest_rows := a, projection_rows := b, report_rows := c, publications := d\<rparr>)" by blast
  from final_complete obtain s where "complete_job wit_ident wit_lease 3000 wit_claimed = Inr s" by blast
  then have "\<exists>s. complete_job wit_ident wit_lease 3000 final_start = Inr s"
    by (auto simp: complete_job_def update_jobs_def wit_claimed_def final_start_def Let_def split: option.splits)
  then obtain s0 where c: "complete_job wit_ident wit_lease 3000 final_start = Inr s0" by blast
  have rest: "final_reconcile_existing final_rec final_start = Inr ExistingAbsent" "validate_source_inventory final_rec final_start = Inr ()"
    "validate_advanced_checkpoints final_rec final_start = Inr ()" "validate_supersession final_rec final_start = Inr ()"
    "require_queue_capacity (demo_required 2) (publications final_start) = Inr ()"
    by (simp_all add: final_reconcile_absent footprint_def validate_source_inventory_def validate_advanced_checkpoints_def
        validate_supersession_def require_queue_capacity_def final_rec_def final_start_def sql_count_def match_count_def
        final_attempt_row_def final_source_row_def wit_leased_fields pub_start_def demo_required_def i64_of_u64_def i64_max_def)
  have f: "fr_publication final_rec = FinRequired (demo_required 2)" "fr_lease final_rec = wit_lease" "fr_now final_rec = 3000"
    "fi_job_id (fr_identity final_rec) = wit_ident" by (simp_all add: final_rec_def)
  show ?thesis
    using final_start_fence by (simp add: commit_finalization_record_def rest i f complete_job_frame c finalization_outcome_of_def)
qed


theorem finalization_once_witness:
  "\<exists>out s. commit_finalization_record wit_hash final_rec final_start = Inr (out, s) \<and> fo_created out
     \<and> commit_finalization_record wit_hash final_rec s = Inr (out\<lparr>fo_created := False\<rparr>, s)"
proof -
  obtain out s where run: "commit_finalization_record wit_hash final_rec final_start = Inr (out, s)" "fo_created out"
    using final_run by blast
  have "final_inv wit_hash s"
    using run final_rec_sealed by (auto elim!: commit_finalization_recordE simp: sealed_record_def final_start_inv
        intro: commit_fresh_finalization[THEN conjunct1, OF final_start_inv])
  moreover have "keeps_finalization final_rec s s" by (simp add: keeps_finalization_def Let_def)
  ultimately show ?thesis using finalization_once[OF final_start_inv _ final_rec_sealed run] run by blast
qed

end
