(* ===== verification/Attestation_Props.thy ===== *)
theory Attestation_Props
  imports Finalization_Commit Reconciliation_Reducer_Props Reconciliation_Job_Witness
    Publication_Demo
begin

text \<open>
  A signed attestation is verified independently of the signer, and what finalization stores of it is what a
  later attestation accepts as the one it supersedes.
\<close>

section \<open>Verification\<close>

definition attestation_accepted ::
  "('m, 'r, 't, 'e) attestation_crate \<Rightarrow> authored_plan \<Rightarrow> ('m, 'r) signed_attestation \<Rightarrow> signed_envelope \<Rightarrow> bool" where
  "attestation_accepted crate plan attestation event \<longleftrightarrow>
     (let b = sa_signed_event_bytes attestation; report = sa_report attestation;
          inner = rm_inner (rj_manifest (re_projection (ff_evaluation (sa_fence attestation)))) in
     b \<noteq> [] \<and> length b \<le> RHI_RECONCILIATION_SIGNED_ATTESTATION_MAX_BYTES
   \<and> parse_signed_event crate b = Some event \<and> tc_verify_id crate event \<and> tc_verify crate event
   \<and> ee_id event = sa_event_id attestation \<and> ee_id event = pl_expected_event_id plan
   \<and> ee_author event = pl_author plan \<and> ee_created_at event = pl_created_at plan
   \<and> ee_kind event = ab_kind (pl_body plan) \<and> sv_tags event = ab_tags (pl_body plan) \<and> ee_content event = ab_content (pl_body plan)
   \<and> tc_typed_content crate event = Some (tc_content crate report)
   \<and> tc_report_parse crate (ee_content event) = Some report \<and> tc_validates crate report inner)"

lemma verify_signed_eventD:
  assumes "verify_signed_event crate plan report manifest b = Inr event"
  shows "b \<noteq> []" "length b \<le> RHI_RECONCILIATION_SIGNED_ATTESTATION_MAX_BYTES" "parse_signed_event crate b = Some event"
    "tc_verify_id crate event" "tc_verify crate event" "ee_id event = pl_expected_event_id plan" "ee_author event = pl_author plan"
    "ee_created_at event = pl_created_at plan" "ee_kind event = ab_kind (pl_body plan)" "sv_tags event = ab_tags (pl_body plan)"
    "ee_content event = ab_content (pl_body plan)" "tc_typed_content crate event = Some (tc_content crate report)"
    "tc_report_parse crate (ee_content event) = Some report" "tc_validates crate report manifest"
  using assms
  by (auto simp: verify_signed_event_def verify_signed_event_plan_def ok_or_def ensure_def split: if_splits option.splits)

lemma attestationE:
  assumes "build_rhi_signed_evidence_attestation sha256 crate fence identity created_at entropy supersession = Inr attestation"
  obtains projection_digest issuer reasons report typed body plan auxiliary signed b event where
    "rj_digest (re_projection (ff_evaluation fence)) = Some projection_digest"
    "tc_parse_key crate (di_public_hex identity) = Some issuer"
    "tc_report_new crate issuer (re_claim_mutation_id (ff_evaluation fence)) (re_outcome (ff_evaluation fence)) reasons projection_digest
       (rm_inner (rj_manifest (re_projection (ff_evaluation fence))))
       (map_option (\<lambda>prior. (tc_statement crate (as_report prior), as_event_id prior)) supersession) = Some report"
    "tc_attestation crate (tc_content crate report) = Some typed" "check_supersession crate supersession typed = Inr ()"
    "tc_body crate typed = Some body" "tc_bind crate body created_at (di_public_hex identity) = Some plan"
    "entropy 32 = Some auxiliary" "sign_plan crate identity plan auxiliary = Inr signed" "tc_to_vec crate signed = Some b"
    "verify_signed_event crate plan report (rm_inner (rj_manifest (re_projection (ff_evaluation fence)))) b = Inr event"
    "attestation = \<lparr>sa_fence = fence, sa_report = report, sa_event_id = ee_id event, sa_signed_event_bytes = b,
       sa_signed_event_sha256 = sha256 b, sa_created_at = created_at\<rparr>"
proof -
  from assms show ?thesis
    by (auto simp: build_rhi_signed_evidence_attestation_def Let_def ok_or_def ensure_def
        split: if_splits option.splits intro!: that)
qed

text \<open>
  C11.  Whatever the signer returned, an attestation that is handed on was verified from its bytes: they are
  nonempty and at most 32768, parse to an event whose id and signature verify and which is, field by field, the
  plan bound to the body, the time and the key of the identity; and its content parses to the report that was
  built, which validates against the manifest of the fence.
\<close>

theorem attestation_verified:
  assumes "build_rhi_signed_evidence_attestation sha256 crate fence identity created_at entropy supersession = Inr attestation"
  shows "\<exists>typed body plan event.
       tc_attestation crate (tc_content crate (sa_report attestation)) = Some typed \<and> tc_body crate typed = Some body
     \<and> tc_bind crate body created_at (di_public_hex identity) = Some plan
     \<and> check_supersession crate supersession typed = Inr ()
     \<and> attestation_accepted crate plan attestation event
     \<and> sa_fence attestation = fence \<and> sa_created_at attestation = created_at
     \<and> sa_signed_event_sha256 attestation = sha256 (sa_signed_event_bytes attestation)"
proof (rule attestationE[OF assms], goal_cases)
  case (1 projection_digest issuer reasons report typed body plan auxiliary signed b event)
  then show ?case using verify_signed_eventD[OF 1(11)]
    by (intro exI[of _ typed] exI[of _ body] exI[of _ plan] exI[of _ event]) (simp add: attestation_accepted_def Let_def)
qed

section \<open>Supersession\<close>

lemma finalization_identity_fields:
  assumes "finalization_identity_of sha256 manifests lease evaluation now = Inr identity"
  shows "fi_trade_id identity = mc_trade_id manifests (rm_inner (rj_manifest (re_projection evaluation)))"
    and "fi_generation identity = mc_trade_generation manifests (rm_inner (rj_manifest (re_projection evaluation)))"
  using assms by (auto simp: finalization_identity_of_def Let_def split: if_splits)

text \<open>
  C12.  The columns that finalization stores of an attestation are accepted as the superseded one: given that
  the report codec reads back what it wrote, that a new report carries the issuer and the trade of its
  manifest, and that a plan is bound to the key in its argument, the persisted trade, statement, event id,
  report and event rebuild exactly the report and the event id.
\<close>

theorem attestation_persisted_roundtrip:
  assumes built: "build_rhi_signed_evidence_attestation sha256 crate fence identity created_at entropy supersession = Inr attestation"
    and fenced: "finalization_identity_of sha256 manifests (ff_lease fence) (ff_evaluation fence) now = Inr (ff_identity fence)"
    and rec: "finalization_record_from_inputs sha256 manifests crate attestation publication now' = Some rec"
    and codec: "\<And>report. tc_report_parse crate (tc_content crate report) = Some report"
    and report: "\<And>issuer claim outcome reasons digest inner prior report.
      tc_report_new crate issuer claim outcome reasons digest inner prior = Some report \<Longrightarrow>
      tc_issuer crate report = issuer \<and> tc_trade_id crate report = mc_trade_id manifests inner"
    and bind: "\<And>body at key plan. tc_bind crate body at key = Some plan \<Longrightarrow> tc_parse_key crate key = Some (pl_author plan)"
  shows "supersession_from_persisted crate (fi_trade_id (fr_identity rec)) (fe_statement_sha256 (fr_event rec)) (fe_event_id (fr_event rec))
     (fr_canonical_report rec) (fe_canonical_event_json (fr_event rec)) = Inr (supersession_from_attestation attestation)"
proof (rule attestationE[OF built], goal_cases)
  case (1 projection_digest issuer reasons rep typed body plan auxiliary signed b event)
  let ?inner = "rm_inner (rj_manifest (re_projection (ff_evaluation fence)))"
  have R: "fr_identity rec = ff_identity fence" "fe_statement_sha256 (fr_event rec) = tc_statement crate rep"
    "fe_event_id (fr_event rec) = ee_id event" "fr_canonical_report rec = tc_content crate rep"
    "fe_canonical_event_json (fr_event rec) = b"
    using rec 1(12) by (auto simp: finalization_record_from_inputs_def Let_def bind_eq_Some_conv split: if_splits)
  have "tc_trade_id crate rep = fi_trade_id (ff_identity fence)" "tc_issuer crate rep = pl_author plan"
    using report[OF 1(3)] bind[OF 1(7)] 1(2) finalization_identity_fields(1)[OF fenced] by simp_all
  then show ?case using verify_signed_eventD[OF 1(11)] 1(12)
    by (simp add: supersession_from_persisted_def R codec ok_or_def supersession_from_attestation_def)
qed

section \<open>Witnesses\<close>

text \<open>A report is the issuer followed by the trade, and the wire form of an event is its content.\<close>

definition att_key :: string where "att_key = replicate 32 (CHR ''a'')"

definition att_envelope :: "bytes \<Rightarrow> signed_envelope" where
  "att_envelope b = \<lparr>ee_id = replicate 32 1, ee_sig = [], ee_author = take 32 b, ee_kind = 1, ee_created_at = 5,
     ee_content = b, sv_tags = []\<rparr>"

definition att_codec :: "(demo_manifest, bytes, bytes, unsigned_event) attestation_crate" where
  "att_codec = \<lparr>tc_parse_reason = Some, tc_parse_key = (\<lambda>key. Some (ascii_bytes key)),
     tc_report_new = (\<lambda>issuer claim outcome reasons digest inner prior.
       if length issuer = 32 then Some (issuer @ mc_trade_id demo_manifest_crate inner) else None),
     tc_report_parse = Some, tc_validates = (\<lambda>_ _. True), tc_content = (\<lambda>report. report), tc_trade_id = drop 32,
     tc_statement = (\<lambda>_. replicate 32 2), tc_issuer = take 32, tc_claim = (\<lambda>_. replicate 32 3), tc_observed_at = (\<lambda>_. 81),
     tc_supersession = (\<lambda>_. None), tc_attestation = Some, tc_supersedes = (\<lambda>_ _ _. True),
     tc_body = (\<lambda>content. Some \<lparr>ab_kind = 1, ab_tags = [], ab_content = content\<rparr>),
     tc_bind = (\<lambda>body at key. Some \<lparr>pl_body = body, pl_created_at = at, pl_author = ascii_bytes key,
       pl_expected_event_id = replicate 32 1\<rparr>),
     tc_tag_ok = (\<lambda>_. True), tc_nostr_key = (\<lambda>key. Some (ascii_bytes key)), tc_event_id = (\<lambda>_. replicate 32 1),
     tc_to_vec = (\<lambda>event. Some (ue_content event)), tc_parse_wire = (\<lambda>limits b. Some (att_envelope b)),
     tc_verify_id = (\<lambda>_. True), tc_verify = (\<lambda>_. True), tc_typed_content = (\<lambda>event. Some (ee_content event)),
     tc_report_maximum_bytes = 16384\<rparr>"

lemma att_codec_laws:
  "tc_report_parse att_codec (tc_content att_codec report) = Some report"
  "tc_report_new att_codec issuer claim outcome reasons digest inner prior = Some report \<Longrightarrow>
     tc_issuer att_codec report = issuer \<and> tc_trade_id att_codec report = mc_trade_id demo_manifest_crate inner"
  "tc_bind att_codec body at key = Some plan \<Longrightarrow> tc_parse_key att_codec key = Some (pl_author plan)"
  by (auto simp: att_codec_def split: if_splits)

definition att_identity :: "unsigned_event decrypted_identity" where
  "att_identity = \<lparr>di_public_hex = att_key, di_sign = (\<lambda>event _. Some event)\<rparr>"

definition att_fence :: "demo_manifest finalization_fence" where
  "att_fence = \<lparr>ff_lease = \<lparr>lease_job = (job_of_row wit_leased_row)\<lparr>job_trade_id := replicate 16 2, job_policy_digest := replicate 32 6,
         job_input_generation := 1\<rparr>, lease_owner = wit_owner, lease_expires = 32000\<rparr>,
     ff_identity = \<lparr>fi_attempt_id = replicate 32 7, fi_job_id = wit_ident, fi_trade_id = replicate 16 2, fi_generation = 1,
       fi_policy_digest = replicate 32 6\<rparr>,
     ff_evaluation = \<lparr>re_projection = \<lparr>rj_manifest = \<lparr>rm_inner = (replicate 16 2, replicate 32 6, 81, []),
           rm_attempt_id = replicate 32 7, rm_job_id = wit_ident, rm_reducer_mutations = []\<rparr>,
         rj_shared = \<lparr>sp_reducer_contract_id = ''c'', sp_reducer_version = 1, sp_trade_id = replicate 16 2, sp_projection_digest = [],
           sp_evidence_state = EvidenceStateComplete, sp_issue_count = 0, sp_agreement_claims = [], sp_active_agreement_claims = [],
           sp_contested_claims = [], sp_cancelled_claims = [], sp_agreement_agreed = False\<rparr>,
         rj_shared_digest = Some (replicate 32 5), rj_digest = Some (replicate 32 4)\<rparr>,
       re_claim_mutation_id = replicate 32 3, re_coverage = CoverageScopeSatisfied, re_outcome = OutcomeValid, re_reason_codes = []\<rparr>\<rparr>"

lemma demo_build:
  obtains attestation where "build_rhi_signed_evidence_attestation demo_hash att_codec att_fence att_identity 5
      (\<lambda>n. Some (replicate n 1)) None = Inr attestation"
    "finalization_record_from_inputs demo_hash demo_manifest_crate att_codec attestation
      (demo_authority 2) 3000 \<noteq> None"
proof -
  have "from_utf8 (utf8 (replicate 32 97 @ replicate 16 2)) = Some (replicate 32 97 @ replicate 16 2)"
    by (rule from_utf8_encode) (simp add: list_all_iff is_scalar_def)
  moreover have "utf8 (replicate 32 97 @ replicate 16 2) = ascii_bytes att_key @ replicate 16 2"
    by (simp add: utf8_def utf8_char_def byte_def att_key_def ascii_bytes_def)
  ultimately have ascii: "from_utf8 (ascii_bytes att_key @ replicate 16 2) \<noteq> None" by simp
  have len: "length (ascii_bytes att_key) = 32" by (simp add: att_key_def ascii_bytes_def)
  show ?thesis
    by (rule that)
      (use ascii in \<open>simp add: build_rhi_signed_evidence_attestation_def Let_def att_fence_def att_identity_def att_codec_def
        ok_or_def ensure_def check_supersession_def sign_plan_def verify_signed_event_def verify_signed_event_plan_def
        parse_signed_event_def att_envelope_def len demo_manifest_crate_def RHI_RECONCILIATION_SIGNED_ATTESTATION_MAX_BYTES_def\<close>,
       simp add: finalization_record_from_inputs_def Let_def att_fence_def att_codec_def demo_manifest_crate_def i64_max_def
         finalization_publication_from_def demo_authority_def required_publication_from_def RHI_PUBLICATION_MAX_TARGETS_def)
qed

theorem attestation_verified_witness:
  "\<exists>attestation plan event. build_rhi_signed_evidence_attestation demo_hash att_codec att_fence att_identity 5
      (\<lambda>n. Some (replicate n 1)) None = Inr attestation \<and> attestation_accepted att_codec plan attestation event"
  by (rule demo_build) (use attestation_verified in blast)

theorem attestation_persisted_roundtrip_witness:
  "\<exists>attestation rec. finalization_record_from_inputs demo_hash demo_manifest_crate att_codec attestation (demo_authority 2) 3000 = Some rec
     \<and> supersession_from_persisted att_codec (fi_trade_id (fr_identity rec)) (fe_statement_sha256 (fr_event rec))
         (fe_event_id (fr_event rec)) (fr_canonical_report rec) (fe_canonical_event_json (fr_event rec))
       = Inr (supersession_from_attestation attestation)"
proof (rule demo_build)
  fix attestation
  assume built: "build_rhi_signed_evidence_attestation demo_hash att_codec att_fence att_identity 5
      (\<lambda>n. Some (replicate n 1)) None = Inr attestation"
    and "finalization_record_from_inputs demo_hash demo_manifest_crate att_codec attestation (demo_authority 2) 3000 \<noteq> None"
  then obtain rec where rec: "finalization_record_from_inputs demo_hash demo_manifest_crate att_codec attestation
      (demo_authority 2) 3000 = Some rec" by blast
  have fenced: "finalization_identity_of demo_hash demo_manifest_crate (ff_lease att_fence) (ff_evaluation att_fence) 3000
      = Inr (ff_identity att_fence)"
    by (simp add: finalization_identity_of_def att_fence_def demo_manifest_crate_def attempt_id_def demo_hash_def wit_leased_row_def
        claim_set_def wit_row_def new_job_row_def job_of_row_def Let_def job_state_of_def)
  show ?thesis
    by (intro exI conjI, rule rec, rule attestation_persisted_roundtrip[OF built fenced rec])
      (fact att_codec_laws(1), erule att_codec_laws(2), erule att_codec_laws(3))
qed

end
