(* ===== verification/Presence_Desired.thy ===== *)
theory Presence_Desired
  imports State_Config Publication_Authority
begin

text \<open>
  The desired state of the service presence, \<open>src/src/presence_desired.rs\<close>, and its table of one row.  The
  authority is derived from the configuration document; the committed state is compared and swapped under
  the current configuration binding.  The key parser and the configuration digest are parameters.
\<close>

section \<open>Data\<close>

datatype presence_mode = PresenceDisabled | PresenceEnabled

fun presence_mode_code :: "presence_mode \<Rightarrow> string" where
  "presence_mode_code PresenceDisabled = ''disabled''"
| "presence_mode_code PresenceEnabled = ''enabled''"

datatype presence_kind = ServiceProfile | ApplicationHandler

fun presence_kind_code :: "presence_kind \<Rightarrow> string" where
  "presence_kind_code ServiceProfile = ''service_profile''"
| "presence_kind_code ApplicationHandler = ''application_handler''"

record presence_target =
  pst_ordinal :: nat
  pst_relay_id :: string
  pst_required :: bool

record presence_authority =
  pra_configuration_sha256 :: bytes
  pra_service_public_key :: string
  pra_mode :: presence_mode
  pra_document_kinds :: "presence_kind list"
  pra_targets :: "presence_target list"
  pra_queue_capacity :: nat
  pra_target_set_sha256 :: bytes
  pra_desired_sha256 :: bytes

record desired_state =
  dst_generation :: nat
  dst_mode :: presence_mode
  dst_profile :: bool
  dst_application_handler :: bool
  dst_target_set_sha256 :: bytes
  dst_target_count :: nat
  dst_required_target_count :: nat
  dst_queue_capacity :: nat
  dst_desired_sha256 :: bytes

record desired_outcome =
  do_state :: desired_state
  do_changed :: bool

datatype desired_error = DesiredInvalidConfiguration | DesiredTargetInventory | DesiredInvalidMode | DesiredBinding
  | DesiredResourceExhausted | DesiredStorage | DesiredCommitOutcomeUnknown

fun desired_error_code :: "desired_error \<Rightarrow> string" where
  "desired_error_code DesiredInvalidConfiguration = ''presence_desired_configuration_invalid''"
| "desired_error_code DesiredTargetInventory = ''presence_desired_target_inventory_invalid''"
| "desired_error_code DesiredInvalidMode = ''presence_desired_mode_invalid''"
| "desired_error_code DesiredBinding = ''presence_desired_binding_invalid''"
| "desired_error_code DesiredResourceExhausted = ''resource_exhausted''"
| "desired_error_code DesiredStorage = ''presence_desired_storage_failed''"
| "desired_error_code DesiredCommitOutcomeUnknown = ''presence_desired_commit_outcome_unknown''"

datatype desired_op_error = DopInvalidInput | DopBinding | DopResourceExhausted | DopStorage

definition RHI_PRESENCE_DESIRED_MAX_TARGETS :: nat where
  "RHI_PRESENCE_DESIRED_MAX_TARGETS = 32"

section \<open>The table\<close>

record desired_row =
  dr_singleton :: int
  dr_generation :: int
  dr_enabled :: int
  dr_profile :: int
  dr_application_handler :: int
  dr_target_set_sha256 :: bytes
  dr_target_count :: int
  dr_required_target_count :: int
  dr_queue_capacity :: int
  dr_desired_sha256 :: bytes

record desired_store = config_store +
  desired_rows :: "desired_row list"

definition desired_row_check :: "desired_row \<Rightarrow> bool" where
  "desired_row_check r \<longleftrightarrow>
     dr_singleton r = 1
   \<and> 1 \<le> dr_generation r \<and> dr_generation r \<le> sql_i64_max
   \<and> dr_enabled r \<in> {0, 1} \<and> dr_profile r \<in> {0, 1} \<and> dr_application_handler r \<in> {0, 1}
   \<and> length (dr_target_set_sha256 r) = 32
   \<and> 0 \<le> dr_target_count r \<and> dr_target_count r \<le> 32
   \<and> 0 \<le> dr_required_target_count r \<and> dr_required_target_count r \<le> dr_target_count r
   \<and> 0 \<le> dr_queue_capacity r \<and> dr_queue_capacity r \<le> 4096
   \<and> length (dr_desired_sha256 r) = 32
   \<and> ((dr_enabled r = 0 \<and> dr_profile r = 0 \<and> dr_application_handler r = 0 \<and> dr_target_count r = 0
         \<and> dr_required_target_count r = 0 \<and> dr_queue_capacity r = 0)
      \<or> (dr_enabled r = 1 \<and> (dr_profile r = 1 \<or> dr_application_handler r = 1)
         \<and> 1 \<le> dr_target_count r \<and> dr_target_count r \<le> 32
         \<and> 1 \<le> dr_queue_capacity r \<and> dr_queue_capacity r \<le> 4096))"

definition desired_valid :: "desired_row list \<Rightarrow> bool" where
  "desired_valid rows \<longleftrightarrow>
     list_all desired_row_check rows \<and> distinct (map dr_singleton rows) \<and> distinct (map dr_desired_sha256 rows)"

text \<open>The two triggers let these changes through.\<close>

definition desired_insert_guard :: "desired_row list \<Rightarrow> desired_row \<Rightarrow> bool" where
  "desired_insert_guard rows r \<longleftrightarrow> dr_generation r = 1 \<and> rows = []"

definition desired_update_guard :: "desired_row \<Rightarrow> desired_row \<Rightarrow> bool" where
  "desired_update_guard old new \<longleftrightarrow>
     dr_singleton new = dr_singleton old \<and> dr_generation old < sql_i64_max
   \<and> dr_generation new = dr_generation old + 1 \<and> dr_desired_sha256 new \<noteq> dr_desired_sha256 old"

section \<open>Derivation\<close>

definition valid_public_key :: "(string \<Rightarrow> bool) \<Rightarrow> string \<Rightarrow> bool" where
  "valid_public_key key_ok value \<longleftrightarrow> length value = 64 \<and> list_all ascii_hex_lower value \<and> key_ok value"

definition presence_boolean :: "'v json_view \<Rightarrow> 'v \<Rightarrow> string \<Rightarrow> (desired_error, bool) result" where
  "presence_boolean jv document pointer =
     ok_or DesiredInvalidConfiguration (Option.bind (jv_pointer jv document pointer) (jv_as_bool jv))"

definition presence_integer :: "'v json_view \<Rightarrow> 'v \<Rightarrow> string \<Rightarrow> (desired_error, nat) result" where
  "presence_integer jv document pointer =
     ok_or DesiredInvalidConfiguration (Option.bind (jv_pointer jv document pointer) (jv_as_u64 jv))"

definition PRESENCE_TARGET_SET_DOMAIN :: bytes where
  "PRESENCE_TARGET_SET_DOMAIN = ascii_bytes ''radroots.rhi.presence_target_set.v1'' @ [0]"

definition DESIRED_STATE_DOMAIN :: bytes where
  "DESIRED_STATE_DOMAIN = ascii_bytes ''radroots.rhi.presence_desired_state.v1'' @ [0]"

definition presence_target_bytes :: "presence_target list \<Rightarrow> bytes" where
  "presence_target_bytes ts =
     to_be_bytes 4 (length ts) @ concat (map (\<lambda>t. target_bytes (pst_ordinal t) (pst_relay_id t) (pst_required t)) ts)"

definition presence_targets_sized :: "presence_target list \<Rightarrow> bool" where
  "presence_targets_sized ts \<longleftrightarrow> length ts \<le> 4294967295 \<and> list_all (\<lambda>t. length (pst_relay_id t) \<le> u64_max) ts"

definition presence_target_set_digest :: "(bytes \<Rightarrow> bytes) \<Rightarrow> presence_target list \<Rightarrow> (desired_error, bytes) result" where
  "presence_target_set_digest sha256 ts =
     and_then (ensure (presence_targets_sized ts) DesiredTargetInventory) (\<lambda>_.
       Inr (sha256 (PRESENCE_TARGET_SET_DOMAIN @ presence_target_bytes ts)))"

fun document_kind_byte :: "presence_kind \<Rightarrow> 8 word" where
  "document_kind_byte ServiceProfile = 0"
| "document_kind_byte ApplicationHandler = 1"

definition desired_state_digest ::
  "(bytes \<Rightarrow> bytes) \<Rightarrow> presence_mode \<Rightarrow> presence_kind list \<Rightarrow> presence_target list \<Rightarrow> nat \<Rightarrow> string
     \<Rightarrow> (desired_error, bytes) result" where
  "desired_state_digest sha256 mode kinds ts capacity key =
     and_then (ensure (length kinds \<le> 4294967295) DesiredInvalidConfiguration) (\<lambda>_.
     and_then (ensure (presence_targets_sized ts) DesiredTargetInventory) (\<lambda>_.
     and_then (ensure (length key \<le> u64_max) DesiredInvalidConfiguration) (\<lambda>_.
       Inr (sha256 (DESIRED_STATE_DOMAIN @ [case mode of PresenceDisabled \<Rightarrow> 0 | PresenceEnabled \<Rightarrow> 1]
         @ to_be_bytes 4 (length kinds) @ map document_kind_byte kinds @ presence_target_bytes ts
         @ to_be_bytes 4 capacity @ to_be_bytes 8 (length key) @ ascii_bytes key)))))"

definition derive_presence_target ::
  "'v json_view \<Rightarrow> 'v list \<Rightarrow> presence_target list \<Rightarrow> nat \<Rightarrow> 'v \<Rightarrow> (desired_error, presence_target) result" where
  "derive_presence_target jv relays ts ordinal target_id =
     and_then (ok_or DesiredTargetInventory (option_filter valid_relay_id (jv_as_str jv target_id))) (\<lambda>relay_id.
     and_then (ensure (\<not> list_ex (\<lambda>t. pst_relay_id t = relay_id) ts) DesiredTargetInventory) (\<lambda>_.
     and_then (ok_or DesiredTargetInventory
       (find (\<lambda>relay. Option.bind (jv_pointer jv relay ''/id'') (jv_as_str jv) = Some relay_id) relays)) (\<lambda>relay.
     and_then (ensure (Option.bind (jv_pointer jv relay ''/write'') (jv_as_bool jv) = Some True) DesiredTargetInventory) (\<lambda>_.
     and_then (ensure (ordinal \<le> 255) DesiredTargetInventory) (\<lambda>_.
     and_then (ok_or DesiredTargetInventory (Option.bind (jv_pointer jv relay ''/required'') (jv_as_bool jv))) (\<lambda>required.
       Inr \<lparr>pst_ordinal = ordinal, pst_relay_id = relay_id, pst_required = required\<rparr>))))))"

fun derive_presence_targets_from ::
  "'v json_view \<Rightarrow> 'v list \<Rightarrow> presence_target list \<Rightarrow> nat \<Rightarrow> 'v list \<Rightarrow> (desired_error, presence_target list) result" where
  "derive_presence_targets_from jv relays ts ordinal [] = Inr ts"
| "derive_presence_targets_from jv relays ts ordinal (target_id # rest) =
     and_then (derive_presence_target jv relays ts ordinal target_id) (\<lambda>t.
       derive_presence_targets_from jv relays (ts @ [t]) (ordinal + 1) rest)"

definition derive_presence_targets ::
  "'v json_view \<Rightarrow> 'v \<Rightarrow> string \<Rightarrow> (desired_error, presence_target list) result" where
  "derive_presence_targets jv document pointer =
     and_then (ok_or DesiredTargetInventory (Option.bind (jv_pointer jv document pointer) (jv_as_array jv))) (\<lambda>ids.
     and_then (ensure (ids \<noteq> [] \<and> length ids \<le> RHI_PRESENCE_DESIRED_MAX_TARGETS) DesiredTargetInventory) (\<lambda>_.
     and_then (ok_or DesiredTargetInventory (Option.bind (jv_pointer jv document ''/relays'') (jv_as_array jv))) (\<lambda>relays.
       derive_presence_targets_from jv relays [] 0 ids)))"

definition derive_presence_authority ::
  "(bytes \<Rightarrow> bytes) \<Rightarrow> ('p \<Rightarrow> 'v \<Rightarrow> bytes option) \<Rightarrow> (string \<Rightarrow> bool) \<Rightarrow> 'v json_view \<Rightarrow> 'p \<Rightarrow> 'v
     \<Rightarrow> (desired_error, presence_authority) result" where
  "derive_presence_authority sha256 config_digest key_ok jv profile document =
     and_then (ok_or DesiredInvalidConfiguration (config_digest profile document)) (\<lambda>configuration.
     and_then (ok_or DesiredInvalidConfiguration (option_filter (valid_public_key key_ok)
       (Option.bind (jv_pointer jv document ''/identity/service/expected_public_key'') (jv_as_str jv)))) (\<lambda>key.
     and_then (presence_boolean jv document ''/presence/enabled'') (\<lambda>enabled.
     and_then (presence_boolean jv document ''/presence/profile'') (\<lambda>profile_document.
     and_then (presence_boolean jv document ''/presence/application_handler'') (\<lambda>application_handler.
     and_then (presence_integer jv document ''/resource_limits/queues/presence'') (\<lambda>queue.
     and_then (ensure (queue \<le> 4294967295) DesiredInvalidConfiguration) (\<lambda>_.
     and_then (ensure (\<not> (queue = 0 \<or> 4096 < queue)) DesiredInvalidConfiguration) (\<lambda>_.
     (let mode = (if enabled then PresenceEnabled else PresenceDisabled);
          kinds = (case mode of PresenceDisabled \<Rightarrow> []
            | PresenceEnabled \<Rightarrow> (if profile_document then [ServiceProfile] else [])
                @ (if application_handler then [ApplicationHandler] else [])) in
     and_then
       (case mode of
          PresenceDisabled \<Rightarrow>
            if profile_document \<or> application_handler \<or> jv_pointer jv document ''/presence/target_relay_ids'' \<noteq> None
            then Inl DesiredInvalidConfiguration else Inr ([], 0)
        | PresenceEnabled \<Rightarrow>
            if kinds = [] then Inl DesiredInvalidConfiguration
            else and_then (derive_presence_targets jv document ''/presence/target_relay_ids'') (\<lambda>ts. Inr (ts, queue)))
       (\<lambda>(ts, capacity).
     and_then (presence_target_set_digest sha256 ts) (\<lambda>target_set.
     and_then (desired_state_digest sha256 mode kinds ts capacity key) (\<lambda>desired.
       Inr \<lparr>pra_configuration_sha256 = configuration, pra_service_public_key = key, pra_mode = mode,
         pra_document_kinds = kinds, pra_targets = ts, pra_queue_capacity = capacity,
         pra_target_set_sha256 = target_set, pra_desired_sha256 = desired\<rparr>))))))))))))"

definition validate_presence_authority ::
  "(bytes \<Rightarrow> bytes) \<Rightarrow> ('p \<Rightarrow> 'v \<Rightarrow> bytes option) \<Rightarrow> (string \<Rightarrow> bool) \<Rightarrow> 'v json_view \<Rightarrow> 'p \<Rightarrow> 'v
     \<Rightarrow> presence_authority \<Rightarrow> (desired_error, unit) result" where
  "validate_presence_authority sha256 config_digest key_ok jv profile document authority =
     and_then (derive_presence_authority sha256 config_digest key_ok jv profile document) (\<lambda>expected.
       ensure (expected = authority) DesiredBinding)"

section \<open>Reading\<close>

definition desired_digest :: "bytes \<Rightarrow> (desired_op_error, bytes) result" where
  "desired_digest column = (if length column = 32 then Inr column else Inl DopBinding)"

definition desired_positive_u64 :: "int \<Rightarrow> (desired_op_error, nat) result" where
  "desired_positive_u64 column = (if 0 \<le> column \<and> nat column \<noteq> 0 then Inr (nat column) else Inl DopBinding)"

definition desired_boolean_i64 :: "int \<Rightarrow> (desired_op_error, bool) result" where
  "desired_boolean_i64 column = (if column = 0 then Inr False else if column = 1 then Inr True else Inl DopBinding)"

definition desired_count_u8 :: "int \<Rightarrow> nat \<Rightarrow> (desired_op_error, nat) result" where
  "desired_count_u8 column maximum =
     (if 0 \<le> column \<and> column \<le> 255 \<and> nat column \<le> maximum then Inr (nat column) else Inl DopBinding)"

definition decode_desired :: "desired_row \<Rightarrow> (desired_op_error, desired_state) result" where
  "decode_desired row =
     and_then (ensure (dr_singleton row = 1) DopBinding) (\<lambda>_.
     and_then (desired_positive_u64 (dr_generation row)) (\<lambda>generation.
     and_then (desired_boolean_i64 (dr_enabled row)) (\<lambda>enabled.
     and_then (desired_boolean_i64 (dr_profile row)) (\<lambda>profile.
     and_then (desired_boolean_i64 (dr_application_handler row)) (\<lambda>application_handler.
     and_then (desired_digest (dr_target_set_sha256 row)) (\<lambda>target_set.
     and_then (desired_count_u8 (dr_target_count row) RHI_PRESENCE_DESIRED_MAX_TARGETS) (\<lambda>target_count.
     and_then (desired_count_u8 (dr_required_target_count row) target_count) (\<lambda>required_target_count.
     and_then (if 0 \<le> dr_queue_capacity row \<and> dr_queue_capacity row \<le> 4294967295 \<and> nat (dr_queue_capacity row) \<le> 4096
       then Inr (nat (dr_queue_capacity row)) else Inl DopBinding) (\<lambda>capacity.
     and_then (desired_digest (dr_desired_sha256 row)) (\<lambda>desired.
     and_then (ensure
       (if enabled then (profile \<or> application_handler) \<and> 0 < target_count \<and> 0 < capacity
        else \<not> profile \<and> \<not> application_handler \<and> target_count = 0 \<and> required_target_count = 0 \<and> capacity = 0)
       DopBinding) (\<lambda>_.
       Inr \<lparr>dst_generation = generation, dst_mode = (if enabled then PresenceEnabled else PresenceDisabled),
         dst_profile = profile, dst_application_handler = application_handler, dst_target_set_sha256 = target_set,
         dst_target_count = target_count, dst_required_target_count = required_target_count,
         dst_queue_capacity = capacity, dst_desired_sha256 = desired\<rparr>)))))))))))"

definition read_desired :: "'a desired_store_scheme \<Rightarrow> (desired_op_error, desired_state option) result" where
  "read_desired s =
     (case take 2 (desired_rows s) of
        [] \<Rightarrow> Inr None
      | [row] \<Rightarrow> and_then (decode_desired row) (\<lambda>state. Inr (Some state))
      | _ \<Rightarrow> Inl DopBinding)"

definition require_current_config ::
  "(string \<Rightarrow> bool) \<Rightarrow> presence_authority \<Rightarrow> 'a config_store_scheme \<Rightarrow> (desired_op_error, unit) result" where
  "require_current_config key_ok authority s =
     (case select_min (\<lambda>r. - br_generation r) (binding_rows s) of
        None \<Rightarrow> Inl DopBinding
      | Some row \<Rightarrow>
          and_then (desired_digest (br_normalized_config_sha256 row)) (\<lambda>configuration.
          and_then (ensure (length (br_service_public_key row) = 64) DopBinding) (\<lambda>_.
          (let key = take 65 (br_service_public_key row) in
           if length key \<noteq> length (br_service_public_key row) \<or> \<not> valid_public_key key_ok key
              \<or> configuration \<noteq> pra_configuration_sha256 authority \<or> key \<noteq> pra_service_public_key authority
           then Inl DopBinding else Inr ()))))"

section \<open>The commit\<close>

definition has_document :: "presence_authority \<Rightarrow> presence_kind \<Rightarrow> bool" where
  "has_document authority kind \<longleftrightarrow> kind \<in> set (pra_document_kinds authority)"

definition required_presence_targets :: "presence_authority \<Rightarrow> nat" where
  "required_presence_targets authority = length (filter pst_required (pra_targets authority))"

definition matches_authority :: "desired_state \<Rightarrow> presence_authority \<Rightarrow> bool" where
  "matches_authority state authority \<longleftrightarrow>
     dst_mode state = pra_mode authority
   \<and> dst_profile state = has_document authority ServiceProfile
   \<and> dst_application_handler state = has_document authority ApplicationHandler
   \<and> dst_target_set_sha256 state = pra_target_set_sha256 authority
   \<and> dst_target_count state = length (pra_targets authority)
   \<and> dst_required_target_count state = required_presence_targets authority
   \<and> dst_queue_capacity state = pra_queue_capacity authority
   \<and> dst_desired_sha256 state = pra_desired_sha256 authority"

definition bool_i64 :: "bool \<Rightarrow> int" where
  "bool_i64 value = (if value then 1 else 0)"

definition desired_i64_count :: "nat \<Rightarrow> (desired_op_error, int) result" where
  "desired_i64_count value = i64_of_u64 DopInvalidInput value"

text \<open>The values bound by both statements, on a row of the given generation.\<close>

definition desired_row_of :: "presence_authority \<Rightarrow> int \<Rightarrow> int \<Rightarrow> int \<Rightarrow> desired_row" where
  "desired_row_of authority generation target_count required_count =
     \<lparr>dr_singleton = 1, dr_generation = generation, dr_enabled = bool_i64 (pra_mode authority = PresenceEnabled),
      dr_profile = bool_i64 (has_document authority ServiceProfile),
      dr_application_handler = bool_i64 (has_document authority ApplicationHandler),
      dr_target_set_sha256 = pra_target_set_sha256 authority, dr_target_count = target_count,
      dr_required_target_count = required_count, dr_queue_capacity = int (pra_queue_capacity authority),
      dr_desired_sha256 = pra_desired_sha256 authority\<rparr>"

definition update_desired_where :: "int \<Rightarrow> bytes \<Rightarrow> desired_row \<Rightarrow> bool" where
  "update_desired_where generation desired r \<longleftrightarrow>
     dr_singleton r = 1 \<and> dr_generation r = generation \<and> dr_desired_sha256 r = desired"

definition update_desired_set :: "presence_authority \<Rightarrow> int \<Rightarrow> int \<Rightarrow> desired_row \<Rightarrow> desired_row" where
  "update_desired_set authority target_count required_count r =
     (desired_row_of authority (dr_generation r + 1) target_count required_count)\<lparr>dr_singleton := dr_singleton r\<rparr>"

definition write_desired ::
  "presence_authority \<Rightarrow> desired_state option \<Rightarrow> 'a desired_store_scheme \<Rightarrow> (desired_op_error, 'a desired_store_scheme) result"
  where
  "write_desired authority current s =
     (case current of
        Some current \<Rightarrow>
          if dst_generation current = i64_max then Inl DopResourceExhausted else
          and_then (desired_i64_count (length (pra_targets authority))) (\<lambda>target_count.
          and_then (desired_i64_count (required_presence_targets authority)) (\<lambda>required_count.
          and_then (i64_of_u64 DopResourceExhausted (dst_generation current)) (\<lambda>generation.
          (case sql_update desired_update_guard desired_valid (update_desired_where generation (dst_desired_sha256 current))
                  (update_desired_set authority target_count required_count) (desired_rows s) of
             None \<Rightarrow> Inl DopStorage
           | Some (rows, n) \<Rightarrow> if n \<noteq> 1 then Inl DopBinding else Inr (s\<lparr>desired_rows := rows\<rparr>)))))
      | None \<Rightarrow>
          and_then (desired_i64_count (length (pra_targets authority))) (\<lambda>target_count.
          and_then (desired_i64_count (required_presence_targets authority)) (\<lambda>required_count.
          (case sql_insert desired_insert_guard desired_valid (desired_row_of authority 1 target_count required_count)
                  (desired_rows s) of
             None \<Rightarrow> Inl DopStorage
           | Some rows \<Rightarrow> Inr (s\<lparr>desired_rows := rows\<rparr>)))))"

definition commit_desired ::
  "(string \<Rightarrow> bool) \<Rightarrow> presence_authority \<Rightarrow> 'a desired_store_scheme
     \<Rightarrow> (desired_op_error, desired_outcome \<times> 'a desired_store_scheme) result" where
  "commit_desired key_ok authority s =
     and_then (require_current_config key_ok authority s) (\<lambda>_.
     and_then (read_desired s) (\<lambda>current.
     (case option_filter (\<lambda>state. matches_authority state authority) current of
        Some state \<Rightarrow> Inr (\<lparr>do_state = state, do_changed = False\<rparr>, s)
      | None \<Rightarrow>
          and_then (write_desired authority current s) (\<lambda>s.
          and_then (read_desired s) (\<lambda>found.
          and_then (ok_or DopBinding (option_filter (\<lambda>state. matches_authority state authority) found)) (\<lambda>committed.
            Inr (\<lparr>do_state = committed, do_changed = True\<rparr>, s)))))))"

fun map_desired_error :: "desired_op_error tx_error \<Rightarrow> desired_error" where
  "map_desired_error CommitOutcomeUnknown = DesiredCommitOutcomeUnknown"
| "map_desired_error (OperationFailed DopInvalidInput) = DesiredInvalidConfiguration"
| "map_desired_error (OperationFailed DopBinding) = DesiredBinding"
| "map_desired_error (OperationFailed DopResourceExhausted) = DesiredResourceExhausted"
| "map_desired_error (OperationFailed DopStorage) = DesiredStorage"
| "map_desired_error HostFailed = DesiredStorage"

definition commit_presence_desired ::
  "(desired_op_error, desired_outcome, 'a desired_store_scheme) txn \<Rightarrow> (string \<Rightarrow> bool) \<Rightarrow> state_host_mode
     \<Rightarrow> presence_authority \<Rightarrow> 'a desired_store_scheme \<Rightarrow> (desired_error, desired_outcome) result \<times> 'a desired_store_scheme" where
  "commit_presence_desired txn key_ok mode authority s =
     (if mode \<noteq> ReadWriteExisting then (Inl DesiredInvalidMode, s)
      else (case txn (commit_desired key_ok authority) s of
          (Inl e, s') \<Rightarrow> (Inl (map_desired_error e), s')
        | (Inr out, s') \<Rightarrow> (Inr out, s')))"

definition current_presence_desired ::
  "(desired_op_error, desired_state option, 'a desired_store_scheme) txn \<Rightarrow> 'a desired_store_scheme
     \<Rightarrow> (desired_error, desired_state option) result \<times> 'a desired_store_scheme" where
  "current_presence_desired txn s =
     (case txn (\<lambda>s. and_then (read_desired s) (\<lambda>state. Inr (state, s))) s of
        (Inl e, s') \<Rightarrow> (Inl (map_desired_error e), s')
      | (Inr state, s') \<Rightarrow> (Inr state, s'))"

end
