(* ===== verification/Presence_Desired_Props.thy ===== *)
theory Presence_Desired_Props
  imports Presence_Desired
begin

text \<open>
  The desired state is one row: a commit leaves it describing exactly the authority, moves the generation by
  one when the description changes and not otherwise, and an authority derived from an admitted
  configuration always fits the table.
\<close>

section \<open>The row\<close>

definition desired_of_row :: "desired_row \<Rightarrow> desired_state" where
  "desired_of_row r = \<lparr>dst_generation = nat (dr_generation r),
     dst_mode = (if dr_enabled r = 1 then PresenceEnabled else PresenceDisabled),
     dst_profile = (dr_profile r = 1), dst_application_handler = (dr_application_handler r = 1),
     dst_target_set_sha256 = dr_target_set_sha256 r, dst_target_count = nat (dr_target_count r),
     dst_required_target_count = nat (dr_required_target_count r), dst_queue_capacity = nat (dr_queue_capacity r),
     dst_desired_sha256 = dr_desired_sha256 r\<rparr>"

lemma desired_of_row_simps [simp]:
  "dst_generation (desired_of_row r) = nat (dr_generation r)" "dst_desired_sha256 (desired_of_row r) = dr_desired_sha256 r"
  by (simp_all add: desired_of_row_def)

lemma desired_boolean_i64_ok: "v \<in> {0, 1} \<Longrightarrow> desired_boolean_i64 v = Inr (v = 1)"
  by (auto simp: desired_boolean_i64_def)

lemma decode_desired_checked:
  assumes "desired_row_check r"
  shows "decode_desired r = Inr (desired_of_row r)"
proof -
  have b: "desired_boolean_i64 (dr_enabled r) = Inr (dr_enabled r = 1)" "desired_boolean_i64 (dr_profile r) = Inr (dr_profile r = 1)"
    "desired_boolean_i64 (dr_application_handler r) = Inr (dr_application_handler r = 1)"
    using assms by (simp_all only: desired_row_check_def desired_boolean_i64_ok)
  have c: "dr_singleton r = 1" "desired_positive_u64 (dr_generation r) = Inr (nat (dr_generation r))"
    "desired_digest (dr_target_set_sha256 r) = Inr (dr_target_set_sha256 r)" "desired_digest (dr_desired_sha256 r) = Inr (dr_desired_sha256 r)"
    "desired_count_u8 (dr_target_count r) RHI_PRESENCE_DESIRED_MAX_TARGETS = Inr (nat (dr_target_count r))"
    "desired_count_u8 (dr_required_target_count r) (nat (dr_target_count r)) = Inr (nat (dr_required_target_count r))"
    "0 \<le> dr_queue_capacity r \<and> dr_queue_capacity r \<le> 4294967295 \<and> nat (dr_queue_capacity r) \<le> 4096"
    using assms by (simp_all add: desired_row_check_def desired_positive_u64_def desired_digest_def desired_count_u8_def
        RHI_PRESENCE_DESIRED_MAX_TARGETS_def nat_le_iff)
  have shape: "if dr_enabled r = 1 then (dr_profile r = 1 \<or> dr_application_handler r = 1) \<and> 0 < nat (dr_target_count r) \<and> 0 < nat (dr_queue_capacity r)
        else dr_profile r \<noteq> 1 \<and> dr_application_handler r \<noteq> 1 \<and> nat (dr_target_count r) = 0 \<and> nat (dr_required_target_count r) = 0
          \<and> nat (dr_queue_capacity r) = 0"
    using assms by (cases "dr_enabled r = 1") (simp_all add: desired_row_check_def)
  show ?thesis by (simp only: decode_desired_def b c ensure_def if_True and_then_simps HOL.simp_thms if_P[OF shape] desired_of_row_def)
qed

lemma desired_valid_cases:
  assumes "desired_valid rows"
  obtains (absent) "rows = []" | (stored) r where "rows = [r]" "desired_row_check r"
proof (cases rows)
  case (Cons r rest)
  have "dr_singleton ` set rows \<subseteq> {1}" "distinct (map dr_singleton rows)"
    using assms by (auto simp: desired_valid_def list_all_iff desired_row_check_def)
  then have "length rows \<le> card {1 :: int}" using distinct_card[of "map dr_singleton rows"] card_mono[of "{1}" "dr_singleton ` set rows"] by simp
  then have "rest = []" using Cons by simp
  then show ?thesis using stored assms Cons by (simp add: desired_valid_def)
qed (use absent in simp)

lemma read_desired_none: "desired_rows s = [] \<Longrightarrow> read_desired s = Inr None"
  by (simp add: read_desired_def)

lemma read_desired_one: "desired_rows s = [r] \<Longrightarrow> desired_row_check r \<Longrightarrow> read_desired s = Inr (Some (desired_of_row r))"
  by (simp add: read_desired_def decode_desired_checked)

lemma read_desired_generation:
  assumes "desired_valid (desired_rows s)" and "desired_rows s = [r]" and "read_desired s = Inr (Some state)"
  shows "dst_generation state = nat (dr_generation r)"
proof -
  have "desired_row_check r" using assms(1,2) by (simp add: desired_valid_def)
  then have "state = desired_of_row r" using read_desired_one[OF assms(2)] assms(3) by simp
  then show ?thesis by (simp add: desired_of_row_def)
qed

lemma write_desiredE:
  assumes run: "write_desired authority current s = Inr s'"
  obtains (first) t q where "current = None"
    "sql_insert desired_insert_guard desired_valid (desired_row_of authority 1 t q) (desired_rows s) = Some (desired_rows s')"
    "s' = s\<lparr>desired_rows := desired_rows s'\<rparr>"
  | (later) prior t q where "current = Some prior" "dst_generation prior < i64_max"
    "sql_update desired_update_guard desired_valid (update_desired_where (int (dst_generation prior)) (dst_desired_sha256 prior))
       (update_desired_set authority t q) (desired_rows s) = Some (desired_rows s', 1)"
    "s' = s\<lparr>desired_rows := desired_rows s'\<rparr>"
proof (cases current)
  case None
  with run obtain t q where "(case sql_insert desired_insert_guard desired_valid (desired_row_of authority 1 t q) (desired_rows s) of
      None \<Rightarrow> Inl DopStorage | Some rows \<Rightarrow> Inr (s\<lparr>desired_rows := rows\<rparr>)) = Inr s'"
    by (auto simp: write_desired_def)
  then show ?thesis using None by (intro first) (auto split: option.splits)
next
  case (Some prior)
  with run obtain t q where g: "dst_generation prior < i64_max"
    and u: "(case sql_update desired_update_guard desired_valid (update_desired_where (int (dst_generation prior)) (dst_desired_sha256 prior))
        (update_desired_set authority t q) (desired_rows s) of
      None \<Rightarrow> Inl DopStorage | Some (rows, n) \<Rightarrow> if n \<noteq> 1 then Inl DopBinding else Inr (s\<lparr>desired_rows := rows\<rparr>)) = Inr s'"
    by (auto simp: write_desired_def i64_of_u64_def split: if_splits)
  show ?thesis
  proof (cases "sql_update desired_update_guard desired_valid (update_desired_where (int (dst_generation prior)) (dst_desired_sha256 prior))
        (update_desired_set authority t q) (desired_rows s)")
    case (Some pair)
    then show ?thesis using u g \<open>current = Some prior\<close> by (cases pair) (auto intro!: later split: if_splits)
  qed (use u in simp)
qed

lemma write_desired_some:
  assumes "dst_generation st < i64_max" and "length (pra_targets authority) \<le> i64_max" and "required_presence_targets authority \<le> i64_max"
  shows "write_desired authority (Some st) s =
    (case sql_update desired_update_guard desired_valid (update_desired_where (int (dst_generation st)) (dst_desired_sha256 st))
        (update_desired_set authority (int (length (pra_targets authority))) (int (required_presence_targets authority))) (desired_rows s) of
       None \<Rightarrow> Inl DopStorage
     | Some (rows, n) \<Rightarrow> if n \<noteq> 1 then Inl DopBinding else Inr (s\<lparr>desired_rows := rows\<rparr>))"
  using assms by (simp add: write_desired_def desired_i64_count_def i64_of_u64_def)

lemma write_desired_valid:
  assumes "write_desired authority current s = Inr s'"
  shows "desired_valid (desired_rows s')" and "s' = s\<lparr>desired_rows := desired_rows s'\<rparr>"
  using assms by (auto elim!: write_desiredE dest: sql_update_SomeD(3) sql_insert_SomeD(3))

text \<open>The state that an authority asks for, and the binding that an authority was derived under.\<close>

definition authority_state :: "nat \<Rightarrow> presence_authority \<Rightarrow> desired_state" where
  "authority_state g authority = \<lparr>dst_generation = g, dst_mode = pra_mode authority,
     dst_profile = (ServiceProfile \<in> set (pra_document_kinds authority)),
     dst_application_handler = (ApplicationHandler \<in> set (pra_document_kinds authority)),
     dst_target_set_sha256 = pra_target_set_sha256 authority, dst_target_count = length (pra_targets authority),
     dst_required_target_count = length (filter pst_required (pra_targets authority)),
     dst_queue_capacity = pra_queue_capacity authority, dst_desired_sha256 = pra_desired_sha256 authority\<rparr>"

definition authority_current :: "presence_authority \<Rightarrow> binding_row list \<Rightarrow> bool" where
  "authority_current authority rows \<longleftrightarrow>
     (\<exists>row \<in> set rows. (\<forall>r \<in> set rows. br_generation r \<le> br_generation row)
        \<and> br_normalized_config_sha256 row = pra_configuration_sha256 authority
        \<and> br_service_public_key row = pra_service_public_key authority)"

lemma matches_authority_state: "matches_authority state authority \<longleftrightarrow> state = authority_state (dst_generation state) authority"
  by (cases state) (auto simp: matches_authority_def authority_state_def has_document_def required_presence_targets_def)

lemma require_current_configD:
  assumes "require_current_config key_ok authority s = Inr ()"
  shows "authority_current authority (binding_rows s)"
proof -
  from assms obtain row where row: "select_min (\<lambda>r. - br_generation r) (binding_rows s) = Some row"
    "br_normalized_config_sha256 row = pra_configuration_sha256 authority" "br_service_public_key row = pra_service_public_key authority"
    by (auto simp: require_current_config_def Let_def ensure_def desired_digest_def split: option.split_asm if_splits)
  then show ?thesis using select_min_SomeD[OF row(1)] by (force simp: authority_current_def)
qed

text \<open>The stored row read back, over a valid table.\<close>

lemma read_desired_rows:
  assumes "desired_valid (desired_rows s)"
  shows "read_desired s = Inr (map_option desired_of_row (case desired_rows s of [] \<Rightarrow> None | row # _ \<Rightarrow> Some row))"
    and "length (desired_rows s) \<le> 1"
  using assms by (auto elim!: desired_valid_cases simp: read_desired_none read_desired_one)

lemma commit_desiredE:
  assumes inv: "desired_valid (desired_rows s)" and run: "commit_desired key_ok authority s = Inr (out, s')"
  obtains (same) prior where "read_desired s = Inr (Some prior)" "matches_authority prior authority" "s' = s"
      "out = \<lparr>do_state = prior, do_changed = False\<rparr>"
  | (other) current where "read_desired s = Inr current" "\<And>prior. current = Some prior \<Longrightarrow> \<not> matches_authority prior authority"
      "write_desired authority current s = Inr s'" "read_desired s' = Inr (Some (do_state out))"
      "matches_authority (do_state out) authority" "do_changed out"
proof -
  from run obtain current where r: "require_current_config key_ok authority s = Inr ()" "read_desired s = Inr current"
    by (auto simp: commit_desired_def)
  show thesis
  proof (cases "option_filter (\<lambda>state. matches_authority state authority) current")
    case (Some prior)
    then have "current = Some prior" "matches_authority prior authority" by (auto simp: option_filter_def split: option.splits if_splits)
    then show ?thesis using run r by (intro same) (auto simp: commit_desired_def option_filter_def)
  next
    case None
    then obtain found where w: "write_desired authority current s = Inr s'" "read_desired s' = Inr found"
        "option_filter (\<lambda>state. matches_authority state authority) found = Some (do_state out)" "do_changed out"
      using run r by (auto simp: commit_desired_def ok_or_def split: option.splits)
    then show ?thesis using r None by (intro other[of current]) (auto simp: option_filter_def split: option.splits if_splits)
  qed
qed

lemma write_desired_generation:
  assumes inv: "desired_valid (desired_rows s)" and r: "read_desired s = Inr current"
    and w: "write_desired authority current s = Inr s'" and found: "read_desired s' = Inr (Some state)"
  shows "dst_generation state = (case current of None \<Rightarrow> 1 | Some prior \<Rightarrow> dst_generation prior + 1)"
proof (rule write_desiredE[OF w], goal_cases)
  case (1 t q)
  then have "desired_rows s' = [desired_row_of authority 1 t q]" by (auto simp: sql_insert_def desired_insert_guard_def split: if_splits)
  from read_desired_generation[OF write_desired_valid(1)[OF w] this found] 1(1) show ?case by (simp add: desired_row_of_def)
next
  case (2 prior t q)
  have "desired_rows s \<noteq> []" using sql_update_SomeD(2)[OF 2(3)] by auto
  with inv obtain row where row: "desired_rows s = [row]" "desired_row_check row" by (auto elim: desired_valid_cases)
  then have c: "prior = desired_of_row row" using r read_desired_one[OF row] 2(1) by simp
  have "update_desired_where (int (dst_generation prior)) (dst_desired_sha256 prior) row"
    using row(2) by (simp add: c update_desired_where_def desired_of_row_def desired_row_check_def)
  then have "desired_rows s' = [update_desired_set authority t q row]" using sql_update_SomeD(1)[OF 2(3)] row(1) by simp
  from read_desired_generation[OF write_desired_valid(1)[OF w] this found] have "dst_generation state = nat (dr_generation row + 1)"
    by (simp add: update_desired_set_def desired_row_of_def)
  then show ?case using row(2) 2(1) by (simp add: c desired_of_row_def desired_row_check_def nat_add_distrib)
qed

text \<open>
  C28.  A commit of the desired presence ends with one stored row that describes exactly the authority: its mode, its two
  document kinds, the digest and the numbers of its targets, its queue capacity and its digest; and it is a
  compare-and-swap: a row that already describes the authority is left alone, another one gets the next
  generation, and the first one generation 1.  No other table is touched, and the authority carries the digest and
  the key of the latest binding.
\<close>

theorem presence_desired_cas:
  assumes inv: "desired_valid (desired_rows s)" and run: "commit_desired key_ok authority s = Inr (out, s')"
  shows "authority_current authority (binding_rows s) \<and> s' = s\<lparr>desired_rows := desired_rows s'\<rparr>
    \<and> (\<exists>g row. do_state out = authority_state g authority \<and> desired_rows s' = [row]
        \<and> desired_of_row row = authority_state g authority \<and> desired_valid (desired_rows s')
        \<and> (case desired_rows s of
             [] \<Rightarrow> do_changed out \<and> g = 1
           | prior # _ \<Rightarrow>
               if desired_of_row prior = authority_state (nat (dr_generation prior)) authority
               then g = nat (dr_generation prior) \<and> \<not> do_changed out \<and> s' = s
               else g = nat (dr_generation prior) + 1 \<and> do_changed out))"
proof -
  have cfg: "authority_current authority (binding_rows s)"
    using run require_current_configD by (auto simp: commit_desired_def)
  note rd = read_desired_rows[OF inv]
  show ?thesis
  proof (rule commit_desiredE[OF inv run], goal_cases)
    case (1 prior)
    from inv 1(1) obtain row where row: "desired_rows s = [row]" "prior = desired_of_row row"
      by (auto elim!: desired_valid_cases simp: read_desired_none read_desired_one)
    have m: "desired_of_row row = authority_state (nat (dr_generation row)) authority"
      using 1(2)[unfolded matches_authority_state] row(2) by simp
    show ?case using cfg 1(3,4) row m inv by (intro conjI exI[of _ "nat (dr_generation row)"] exI[of _ row]) simp_all
  next
    case (2 current)
    note v = write_desired_valid[OF 2(3)]
    obtain row where row: "desired_rows s' = [row]" "do_state out = desired_of_row row"
      using v(1) 2(4) by (auto elim!: desired_valid_cases simp: read_desired_none read_desired_one)
    define g where "g = dst_generation (do_state out)"
    have st: "do_state out = authority_state g authority" using 2(5)[unfolded matches_authority_state] by (simp add: g_def)
    have gen: "g = (case current of None \<Rightarrow> 1 | Some prior \<Rightarrow> dst_generation prior + 1)"
      using write_desired_generation[OF inv 2(1,3,4)] by (simp add: g_def)
    have "case desired_rows s of [] \<Rightarrow> do_changed out \<and> g = 1
        | prior # _ \<Rightarrow> if desired_of_row prior = authority_state (nat (dr_generation prior)) authority
            then g = nat (dr_generation prior) \<and> \<not> do_changed out \<and> s' = s
            else g = nat (dr_generation prior) + 1 \<and> do_changed out"
    proof (cases "desired_rows s")
      case Nil
      then show ?thesis using rd(1) 2(1,6) gen by simp
    next
      case (Cons prior rest)
      then have c: "current = Some (desired_of_row prior)" using rd(1) 2(1) by simp
      have "desired_of_row prior \<noteq> authority_state (nat (dr_generation prior)) authority"
        using 2(2)[OF c] by (simp add: matches_authority_state)
      then show ?thesis using Cons gen c 2(6) by simp
    qed
    then show ?case using cfg v row st by (intro conjI exI[of _ g] exI[of _ row]) simp_all
  qed
qed

section \<open>Derived authorities fit the table\<close>

definition presence_authority_fits :: "presence_authority \<Rightarrow> bool" where
  "presence_authority_fits authority \<longleftrightarrow>
     (case pra_mode authority of
        PresenceDisabled \<Rightarrow> pra_document_kinds authority = [] \<and> pra_targets authority = [] \<and> pra_queue_capacity authority = 0
      | PresenceEnabled \<Rightarrow> pra_document_kinds authority \<noteq> [] \<and> pra_targets authority \<noteq> []
          \<and> 1 \<le> pra_queue_capacity authority \<and> pra_queue_capacity authority \<le> 4096)
   \<and> length (pra_targets authority) \<le> 32
   \<and> map pst_ordinal (pra_targets authority) = [0..<length (pra_targets authority)]
   \<and> distinct (map pst_relay_id (pra_targets authority))
   \<and> list_all (\<lambda>t. valid_relay_id (pst_relay_id t)) (pra_targets authority)
   \<and> length (pra_target_set_sha256 authority) = 32 \<and> length (pra_desired_sha256 authority) = 32"

lemma derive_presence_targets_from_shape:
  assumes "derive_presence_targets_from jv relays ts ordinal ids = Inr ts'" and "ordinal = length ts"
    and "map pst_ordinal ts = [0..<length ts]" and "distinct (map pst_relay_id ts)"
    and "list_all (\<lambda>t. valid_relay_id (pst_relay_id t)) ts"
  shows "length ts' = length ts + length ids \<and> map pst_ordinal ts' = [0..<length ts'] \<and> distinct (map pst_relay_id ts')
    \<and> list_all (\<lambda>t. valid_relay_id (pst_relay_id t)) ts'"
  using assms
proof (induction jv relays ts ordinal ids rule: derive_presence_targets_from.induct)
  case (2 jv relays ts ordinal target_id rest)
  from 2(2) obtain t where t: "derive_presence_target jv relays ts ordinal target_id = Inr t"
    "derive_presence_targets_from jv relays (ts @ [t]) (ordinal + 1) rest = Inr ts'" by auto
  have "pst_ordinal t = ordinal" "pst_relay_id t \<notin> set (map pst_relay_id ts)" "valid_relay_id (pst_relay_id t)"
    using t(1) by (auto simp: derive_presence_target_def ok_or_def ensure_def option_filter_def list_ex_iff split: option.splits if_splits)
  with 2(1)[OF t(2)] 2(3-6) show ?case by simp
qed simp

lemma derived_presence_fits:
  assumes sha: "\<And>b. length (sha256 b) = 32"
    and run: "derive_presence_authority sha256 config_digest key_ok jv profile document = Inr authority"
  shows "presence_authority_fits authority"
proof -
  note defs = derive_presence_authority_def Let_def presence_target_set_digest_def desired_state_digest_def ensure_def ok_or_def
  show ?thesis
  proof (cases "pra_mode authority")
    case PresenceDisabled
    then show ?thesis using run sha by (auto simp: defs presence_authority_fits_def split: option.splits if_splits)
  next
    case PresenceEnabled
    from run PresenceEnabled obtain q where
      ts: "derive_presence_targets jv document ''/presence/target_relay_ids'' = Inr (pra_targets authority)"
      and q: "pra_queue_capacity authority = q" "0 < q" "q \<le> 4096" "pra_document_kinds authority \<noteq> []"
        "length (pra_target_set_sha256 authority) = 32" "length (pra_desired_sha256 authority) = 32"
      using sha by (auto simp: defs split: option.splits if_splits)
    from ts obtain ids relays where "derive_presence_targets_from jv relays [] 0 ids = Inr (pra_targets authority)"
      "ids \<noteq> []" "length ids \<le> 32"
      by (auto simp: derive_presence_targets_def ensure_def ok_or_def RHI_PRESENCE_DESIRED_MAX_TARGETS_def split: option.splits if_splits)
    from derive_presence_targets_from_shape[OF this(1)] this(2,3) q PresenceEnabled show ?thesis
      by (auto simp: presence_authority_fits_def)
  qed
qed


lemma fits_row_check:
  assumes fits: "presence_authority_fits authority" and g: "1 \<le> g" "g \<le> sql_i64_max"
  shows "desired_row_check (desired_row_of authority g (int (length (pra_targets authority))) (int (required_presence_targets authority)))"
proof -
  have le: "required_presence_targets authority \<le> length (pra_targets authority)" by (simp add: required_presence_targets_def)
  have kinds: "pra_document_kinds authority \<noteq> [] \<Longrightarrow> has_document authority ServiceProfile \<or> has_document authority ApplicationHandler"
    by (cases "pra_document_kinds authority"; cases "hd (pra_document_kinds authority)") (auto simp: has_document_def)
  show ?thesis
  proof (cases "pra_mode authority")
    case PresenceDisabled
    then show ?thesis using fits g
      by (simp add: desired_row_check_def desired_row_of_def presence_authority_fits_def bool_i64_def has_document_def required_presence_targets_def)
  next
    case PresenceEnabled
    then have "has_document authority ServiceProfile \<or> has_document authority ApplicationHandler"
      using fits kinds by (simp add: presence_authority_fits_def)
    then show ?thesis using fits g le PresenceEnabled
      by (auto simp: desired_row_check_def desired_row_of_def presence_authority_fits_def bool_i64_def Suc_le_eq)
  qed
qed

lemma fits_row_matches:
  assumes "presence_authority_fits authority"
  shows "matches_authority (desired_of_row (desired_row_of authority g (int (length (pra_targets authority)))
           (int (required_presence_targets authority)))) authority"
  by (cases "pra_mode authority") (simp_all add: matches_authority_def desired_of_row_def desired_row_of_def bool_i64_def)

text \<open>
  Every authority derived from an admitted configuration can be committed under its own binding: the
  write satisfies the checks and the triggers of the table, unless the generations are exhausted or the
  stored state has the same desired digest and yet another description, which is a collision of the hash.
\<close>

theorem presence_desired_commits:
  assumes sha: "\<And>b. length (sha256 b) = 32"
    and derived: "derive_presence_authority sha256 config_digest key_ok jv profile document = Inr authority"
    and inv: "desired_valid (desired_rows s)" and bound: "require_current_config key_ok authority s = Inr ()"
    and room: "\<And>prior. read_desired s = Inr (Some prior) \<Longrightarrow> dst_generation prior < i64_max"
    and fresh: "\<And>prior. read_desired s = Inr (Some prior) \<Longrightarrow> dst_desired_sha256 prior = pra_desired_sha256 authority
      \<Longrightarrow> matches_authority prior authority"
  shows "\<exists>out s'. commit_desired key_ok authority s = Inr (out, s')"
proof -
  have fits: "presence_authority_fits authority" using derived_presence_fits[OF sha derived] .
  have counts: "length (pra_targets authority) \<le> i64_max" "required_presence_targets authority \<le> i64_max"
    using fits le_trans[OF length_filter_le, of "pra_targets authority" 32 pst_required]
    by (auto simp: presence_authority_fits_def required_presence_targets_def i64_max_def)
  let ?row = "\<lambda>g. desired_row_of authority g (int (length (pra_targets authority))) (int (required_presence_targets authority))"
  show ?thesis
  proof (rule desired_valid_cases[OF inv], goal_cases)
    case 1
    have ok: "desired_row_check (?row 1)" by (rule fits_row_check[OF fits]) simp_all
    then have "write_desired authority None s = Inr (s\<lparr>desired_rows := [?row 1]\<rparr>)"
      using 1 counts by (simp add: write_desired_def desired_i64_count_def i64_of_u64_def sql_insert_def desired_insert_guard_def
          desired_valid_def desired_row_of_def)
    then show ?case using 1 bound fits_row_matches[OF fits] read_desired_one[of "s\<lparr>desired_rows := [?row 1]\<rparr>", OF _ ok]
      by (simp add: commit_desired_def read_desired_none option_filter_def ok_or_def)
  next
    case (2 r)
    have rd: "read_desired s = Inr (Some (desired_of_row r))" using 2 by (rule read_desired_one)
    show ?case
    proof (cases "matches_authority (desired_of_row r) authority")
      case False
      have g: "dr_generation r < sql_i64_max" using room[OF rd] 2(2) by (simp add: desired_of_row_def desired_row_check_def i64_max_def)
      have ok: "desired_row_check (?row (dr_generation r + 1))"
        by (rule fits_row_check[OF fits]) (use g 2(2) in \<open>simp_all add: desired_row_check_def\<close>)
      have set: "update_desired_set authority (int (length (pra_targets authority))) (int (required_presence_targets authority)) r
          = ?row (dr_generation r + 1)"
        using 2(2) by (simp add: update_desired_set_def desired_row_of_def desired_row_check_def)
      have sing: "dr_singleton r = 1" using 2(2) by (simp add: desired_row_check_def)
      have "dr_desired_sha256 r \<noteq> pra_desired_sha256 authority" using False fresh[OF rd] by auto
      then have guard: "desired_update_guard r (?row (dr_generation r + 1))"
        using g sing by (simp add: desired_update_guard_def desired_row_of_def)
      have u: "sql_update desired_update_guard desired_valid
          (update_desired_where (dr_generation r) (dr_desired_sha256 r))
          (update_desired_set authority (int (length (pra_targets authority))) (int (required_presence_targets authority))) [r]
        = Some ([?row (dr_generation r + 1)], 1)"
        using ok by (simp add: sql_update_def update_desired_where_def set desired_valid_def guard sing)
      have b: "int (nat (dr_generation r)) = dr_generation r" using 2(2) by (simp add: desired_row_check_def)
      have "write_desired authority (Some (desired_of_row r)) s = Inr (s\<lparr>desired_rows := [?row (dr_generation r + 1)]\<rparr>)"
        using write_desired_some[of "desired_of_row r" authority s] room[OF rd] counts by (simp add: 2(1) b u del: int_nat_eq)
      then show ?thesis using bound rd False fits_row_matches[OF fits]
          read_desired_one[of "s\<lparr>desired_rows := [?row (dr_generation r + 1)]\<rparr>", OF _ ok]
        by (simp add: commit_desired_def option_filter_def ok_or_def)
    qed (use bound rd in \<open>simp add: commit_desired_def option_filter_def\<close>)
  qed
qed


section \<open>Witnesses\<close>

text \<open>A document in which every pointer leads to itself: presence is enabled, with both documents and one relay.\<close>

definition desired_key :: string where "desired_key = replicate 64 (CHR ''a'')"

definition desired_view :: "string json_view" where
  "desired_view = \<lparr>jv_pointer = (\<lambda>_ pointer. Some pointer),
     jv_as_str = (\<lambda>v. if v = ''/identity/service/expected_public_key'' then Some desired_key else Some ''relay''),
     jv_as_u64 = (\<lambda>_. Some 16), jv_as_bool = (\<lambda>_. Some True), jv_as_array = (\<lambda>_. Some [''relay''])\<rparr>"

definition desired_hash :: "bytes \<Rightarrow> bytes" where "desired_hash b = replicate 32 7"

definition desired_target :: presence_target where
  "desired_target = \<lparr>pst_ordinal = 0, pst_relay_id = ''relay'', pst_required = True\<rparr>"

definition desired_authority :: presence_authority where
  "desired_authority = \<lparr>pra_configuration_sha256 = replicate 32 1, pra_service_public_key = desired_key, pra_mode = PresenceEnabled,
     pra_document_kinds = [ServiceProfile, ApplicationHandler], pra_targets = [desired_target], pra_queue_capacity = 16,
     pra_target_set_sha256 = replicate 32 7, pra_desired_sha256 = replicate 32 7\<rparr>"

definition desired_binding_row :: binding_row where
  "desired_binding_row = \<lparr>br_generation = 1, br_normalized_config_sha256 = replicate 32 1, br_evidence_policy_sha256 = replicate 32 2,
     br_service_public_key = desired_key, br_config_contract_version = 1, br_state_contract_version = 11,
     br_admin_contract_version = 1, br_status_contract_version = 1, br_provider_contract_version = 1, br_applied_at_unix_s = 5,
     br_service_version = ''1'', br_service_commit = replicate 40 (CHR ''c''), br_lib_revision = replicate 40 (CHR ''d''),
     br_rust_version = ''1'', br_target = ''t'', br_feature_profile = ''f''\<rparr>"

definition desired_start :: desired_store where
  "desired_start = \<lparr>dirty_generations = [], jobs = [], mutation_rows = [], nostr_rows = [], observation_rows = [],
     checkpoint_rows = [], binding_rows = [desired_binding_row], desired_rows = []\<rparr>"

lemma desired_key_ok: "valid_public_key (\<lambda>_. True) desired_key"
  by (simp add: valid_public_key_def desired_key_def list_all_iff ascii_hex_lower_def ascii_digit_def)

lemma desired_derived:
  "derive_presence_authority desired_hash (\<lambda>_ _. Some (replicate 32 1)) (\<lambda>_. True) desired_view () ''document'' = Inr desired_authority"
  by (simp add: derive_presence_authority_def desired_view_def desired_key_ok presence_boolean_def presence_integer_def ok_or_def
      option_filter_def ensure_def derive_presence_targets_def derive_presence_target_def valid_relay_id_def is_ascii_lowercase_def
      relay_id_byte_def RHI_PRESENCE_DESIRED_MAX_TARGETS_def presence_target_set_digest_def presence_targets_sized_def
      desired_state_digest_def desired_hash_def desired_authority_def desired_target_def u64_max_def)
    (simp add: desired_key_def)

lemma desired_bound: "require_current_config (\<lambda>_. True) desired_authority desired_start = Inr ()"
  using desired_key_ok
  by (simp add: require_current_config_def desired_start_def desired_binding_row_def desired_authority_def desired_digest_def
      ensure_def Let_def desired_key_def)

lemma desired_run: "\<exists>out s. commit_desired (\<lambda>_. True) desired_authority desired_start = Inr (out, s) \<and> do_changed out"
proof -
  have "write_desired desired_authority None desired_start
      = Inr (desired_start\<lparr>desired_rows := [desired_row_of desired_authority 1 1 1]\<rparr>)"
    by (simp add: write_desired_def desired_i64_count_def i64_of_u64_def i64_max_def sql_insert_def desired_insert_guard_def desired_valid_def
        desired_row_check_def desired_row_of_def desired_authority_def required_presence_targets_def desired_target_def bool_i64_def
        has_document_def desired_start_def)
  then show ?thesis using desired_bound
    by (simp add: commit_desired_def read_desired_def desired_start_def option_filter_def)
      (simp add: decode_desired_def desired_row_of_def desired_authority_def ensure_def desired_positive_u64_def desired_boolean_i64_def
        bool_i64_def has_document_def desired_digest_def desired_count_u8_def RHI_PRESENCE_DESIRED_MAX_TARGETS_def matches_authority_def
        required_presence_targets_def desired_target_def ok_or_def)
qed

theorem presence_desired_cas_witness:
  "\<exists>out s. commit_desired (\<lambda>_. True) desired_authority desired_start = Inr (out, s)
     \<and> do_state out = authority_state 1 desired_authority"
proof -
  obtain out s where run: "commit_desired (\<lambda>_. True) desired_authority desired_start = Inr (out, s)" using desired_run by blast
  have "desired_valid (desired_rows desired_start)" by (simp add: desired_valid_def desired_start_def)
  from presence_desired_cas[OF this run] run show ?thesis by (auto simp: desired_start_def)
qed

theorem presence_desired_commits_witness:
  "\<exists>out s. commit_desired (\<lambda>_. True) desired_authority desired_start = Inr (out, s)"
  by (rule presence_desired_commits[OF _ desired_derived _ desired_bound])
    (simp_all add: desired_hash_def desired_valid_def desired_start_def read_desired_def)

end
