(* ===== verification/Catalog_Presence.thy ===== *)
theory Catalog_Presence
  imports Presence_Desired Catalog_Publication "HOL-Library.Char_ord"
begin

text \<open>
  The three tables of the presence delivery, \<open>presence_outbox\<close>, \<open>presence_targets\<close> and \<open>presence_attempts\<close> of
  \<open>src/src/state_catalog.rs\<close>, with their checks, keys and update guards.
\<close>

record presence_outbox_row =
  pox_outbox_id :: bytes
  pox_desired_generation :: int
  pox_document_kind :: string
  pox_desired_sha256 :: bytes
  pox_target_set_sha256 :: bytes
  pox_event_id :: bytes
  pox_event_sha256 :: bytes
  pox_exact_signed_event_bytes :: bytes
  pox_authored_at_unix_s :: int
  pox_service_public_key :: string
  pox_target_count :: int
  pox_required_target_count :: int
  pox_max_attempts :: int
  pox_initial_backoff_ms :: int
  pox_maximum_backoff_ms :: int
  pox_attempt_deadline_ms :: int
  pox_state :: string
  pox_revision :: int
  pox_next_attempt_unix_ms :: "int option"
  pox_lease_owner :: "bytes option"
  pox_lease_expires_unix_ms :: "int option"
  pox_created_at_unix_ms :: int
  pox_updated_at_unix_ms :: int

record presence_target_row =
  ptx_outbox_id :: bytes
  ptx_target_ordinal :: int
  ptx_relay_id :: string
  ptx_required :: int
  ptx_state :: string
  ptx_revision :: int
  ptx_attempt_count :: int
  ptx_next_attempt_unix_ms :: "int option"
  ptx_last_attempt_id :: "bytes option"
  ptx_updated_at_unix_ms :: int

record presence_attempt_row =
  pax_attempt_id :: bytes
  pax_outbox_id :: bytes
  pax_target_ordinal :: int
  pax_attempt_number :: int
  pax_event_sha256 :: bytes
  pax_lease_owner :: bytes
  pax_started_at_unix_ms :: int
  pax_finished_at_unix_ms :: int
  pax_outcome :: string
  pax_result_code :: string

record presence_store = desired_store +
  presence_outboxes :: "presence_outbox_row list"
  presence_target_rows :: "presence_target_row list"
  presence_attempt_rows :: "presence_attempt_row list"

section \<open>Outboxes\<close>

definition nullable_instant :: "int \<Rightarrow> int option \<Rightarrow> bool" where
  "nullable_instant low column \<longleftrightarrow> pred_option (\<lambda>v. low \<le> v \<and> v \<le> sql_i64_max) column"

definition presence_outbox_shape :: "presence_outbox_row \<Rightarrow> bool" where
  "presence_outbox_shape r \<longleftrightarrow>
     (pox_state r = ''pending'' \<and> pox_next_attempt_unix_ms r \<noteq> None
        \<and> pox_lease_owner r = None \<and> pox_lease_expires_unix_ms r = None)
   \<or> (pox_state r = ''leased'' \<and> pox_next_attempt_unix_ms r = None
        \<and> pox_lease_owner r \<noteq> None \<and> pox_lease_expires_unix_ms r \<noteq> None)
   \<or> (pox_state r \<in> {''complete'', ''blocked'', ''superseded''} \<and> pox_next_attempt_unix_ms r = None
        \<and> pox_lease_owner r = None \<and> pox_lease_expires_unix_ms r = None)"

definition presence_outbox_check :: "presence_outbox_row \<Rightarrow> bool" where
  "presence_outbox_check r \<longleftrightarrow>
     length (pox_outbox_id r) = 32
   \<and> 1 \<le> pox_desired_generation r \<and> pox_desired_generation r \<le> sql_i64_max
   \<and> pox_document_kind r \<in> {''service_profile'', ''application_handler''}
   \<and> length (pox_desired_sha256 r) = 32 \<and> length (pox_target_set_sha256 r) = 32
   \<and> length (pox_event_id r) = 32 \<and> length (pox_event_sha256 r) = 32
   \<and> 1 \<le> length (pox_exact_signed_event_bytes r) \<and> length (pox_exact_signed_event_bytes r) \<le> 32768
   \<and> 0 \<le> pox_authored_at_unix_s r \<and> pox_authored_at_unix_s r \<le> sql_i64_max
   \<and> length (pox_service_public_key r) = 64 \<and> list_all ascii_hex_lower (pox_service_public_key r)
   \<and> 1 \<le> pox_target_count r \<and> pox_target_count r \<le> 32
   \<and> 0 \<le> pox_required_target_count r \<and> pox_required_target_count r \<le> pox_target_count r
   \<and> pox_max_attempts r = 100 \<and> pox_initial_backoff_ms r = 250
   \<and> pox_maximum_backoff_ms r = 30000 \<and> pox_attempt_deadline_ms r = 15000
   \<and> pox_state r \<in> {''pending'', ''leased'', ''complete'', ''blocked'', ''superseded''}
   \<and> 1 \<le> pox_revision r
   \<and> nullable_instant 0 (pox_next_attempt_unix_ms r)
   \<and> pred_option (\<lambda>b. length b = 16) (pox_lease_owner r)
   \<and> nullable_instant 1 (pox_lease_expires_unix_ms r)
   \<and> 0 \<le> pox_created_at_unix_ms r \<and> pox_created_at_unix_ms r \<le> sql_i64_max
   \<and> pox_created_at_unix_ms r \<le> pox_updated_at_unix_ms r \<and> pox_updated_at_unix_ms r \<le> sql_i64_max
   \<and> presence_outbox_shape r"

definition presence_outboxes_valid :: "presence_outbox_row list \<Rightarrow> bool" where
  "presence_outboxes_valid rows \<longleftrightarrow>
     list_all presence_outbox_check rows \<and> distinct (map pox_outbox_id rows)
   \<and> distinct (map (\<lambda>r. (pox_desired_generation r, pox_document_kind r)) rows)"

definition presence_outbox_transition :: "string \<Rightarrow> string \<Rightarrow> bool" where
  "presence_outbox_transition old new \<longleftrightarrow>
     (old = ''pending'' \<and> new \<in> {''leased'', ''superseded''})
   \<or> (old = ''leased'' \<and> new \<in> {''pending'', ''complete'', ''blocked'', ''superseded''})
   \<or> (old = ''blocked'' \<and> new \<in> {''pending'', ''superseded''})"

definition presence_outbox_guard :: "presence_outbox_row \<Rightarrow> presence_outbox_row \<Rightarrow> bool" where
  "presence_outbox_guard old new \<longleftrightarrow>
     pox_outbox_id new = pox_outbox_id old \<and> pox_desired_generation new = pox_desired_generation old
   \<and> pox_document_kind new = pox_document_kind old \<and> pox_desired_sha256 new = pox_desired_sha256 old
   \<and> pox_target_set_sha256 new = pox_target_set_sha256 old \<and> pox_event_id new = pox_event_id old
   \<and> pox_event_sha256 new = pox_event_sha256 old
   \<and> pox_exact_signed_event_bytes new = pox_exact_signed_event_bytes old
   \<and> pox_authored_at_unix_s new = pox_authored_at_unix_s old \<and> pox_service_public_key new = pox_service_public_key old
   \<and> pox_target_count new = pox_target_count old \<and> pox_required_target_count new = pox_required_target_count old
   \<and> pox_max_attempts new = pox_max_attempts old \<and> pox_initial_backoff_ms new = pox_initial_backoff_ms old
   \<and> pox_maximum_backoff_ms new = pox_maximum_backoff_ms old \<and> pox_attempt_deadline_ms new = pox_attempt_deadline_ms old
   \<and> pox_created_at_unix_ms new = pox_created_at_unix_ms old \<and> pox_revision new = pox_revision old + 1
   \<and> pox_updated_at_unix_ms old \<le> pox_updated_at_unix_ms new
   \<and> presence_outbox_transition (pox_state old) (pox_state new)"

section \<open>Targets\<close>

definition presence_relay_check :: "string \<Rightarrow> bool" where
  "presence_relay_check v \<longleftrightarrow> 1 \<le> length v \<and> length v \<le> 64 \<and> list_all relay_id_byte v \<and> is_ascii_lowercase (hd v)"

definition presence_target_shape :: "presence_target_row \<Rightarrow> bool" where
  "presence_target_shape r \<longleftrightarrow>
     (ptx_state r = ''pending'' \<and> ptx_attempt_count r = 0
        \<and> ptx_next_attempt_unix_ms r \<noteq> None \<and> ptx_last_attempt_id r = None)
   \<or> (ptx_state r \<in> {''submitted'', ''accepted'', ''rejected'', ''auth_required''}
        \<and> 1 \<le> ptx_attempt_count r \<and> ptx_attempt_count r \<le> 100
        \<and> ptx_next_attempt_unix_ms r = None \<and> ptx_last_attempt_id r \<noteq> None)
   \<or> (ptx_state r \<in> {''rate_limited'', ''failed'', ''unknown''}
        \<and> 1 \<le> ptx_attempt_count r \<and> ptx_attempt_count r \<le> 99
        \<and> ptx_next_attempt_unix_ms r \<noteq> None \<and> ptx_last_attempt_id r \<noteq> None)
   \<or> (ptx_state r \<in> {''rate_limited'', ''failed'', ''unknown''} \<and> ptx_attempt_count r = 100
        \<and> ptx_next_attempt_unix_ms r = None \<and> ptx_last_attempt_id r \<noteq> None)"

definition presence_target_check :: "presence_target_row \<Rightarrow> bool" where
  "presence_target_check r \<longleftrightarrow>
     length (ptx_outbox_id r) = 32 \<and> 0 \<le> ptx_target_ordinal r \<and> ptx_target_ordinal r \<le> 31
   \<and> presence_relay_check (ptx_relay_id r) \<and> ptx_required r \<in> {0, 1}
   \<and> ptx_state r \<in> {''pending'', ''submitted'', ''accepted'', ''rejected'', ''rate_limited'', ''auth_required'', ''failed'', ''unknown''}
   \<and> 1 \<le> ptx_revision r \<and> 0 \<le> ptx_attempt_count r \<and> ptx_attempt_count r \<le> 100
   \<and> nullable_instant 0 (ptx_next_attempt_unix_ms r)
   \<and> pred_option (\<lambda>b. length b = 32) (ptx_last_attempt_id r)
   \<and> 0 \<le> ptx_updated_at_unix_ms r \<and> ptx_updated_at_unix_ms r \<le> sql_i64_max
   \<and> presence_target_shape r"

definition presence_targets_valid :: "presence_outbox_row list \<Rightarrow> presence_target_row list \<Rightarrow> bool" where
  "presence_targets_valid outbox_rows rows \<longleftrightarrow>
     list_all presence_target_check rows
   \<and> distinct (map (\<lambda>r. (ptx_outbox_id r, ptx_target_ordinal r)) rows)
   \<and> distinct (map (\<lambda>r. (ptx_outbox_id r, ptx_relay_id r)) rows)
   \<and> set (map ptx_outbox_id rows) \<subseteq> set (map pox_outbox_id outbox_rows)"

text \<open>The trigger aborts only when its condition is true, and a comparison with \<open>NULL\<close> is not false.\<close>

definition presence_target_transition :: "presence_target_row \<Rightarrow> presence_target_row \<Rightarrow> bool" where
  "presence_target_transition old new \<longleftrightarrow>
     (ptx_state old \<in> {''pending'', ''rate_limited'', ''failed'', ''unknown''} \<and> ptx_state new = ''submitted''
        \<and> ptx_attempt_count new = ptx_attempt_count old + 1
        \<and> ptx_last_attempt_id new \<noteq> None \<and> ptx_last_attempt_id new \<noteq> ptx_last_attempt_id old)
   \<or> (ptx_state old = ''submitted''
        \<and> ptx_state new \<in> {''accepted'', ''rejected'', ''rate_limited'', ''auth_required'', ''failed'', ''unknown''}
        \<and> ptx_attempt_count new = ptx_attempt_count old
        \<and> (ptx_last_attempt_id new = None \<or> ptx_last_attempt_id old = None \<or> ptx_last_attempt_id new = ptx_last_attempt_id old))"

definition presence_target_guard :: "presence_target_row \<Rightarrow> presence_target_row \<Rightarrow> bool" where
  "presence_target_guard old new \<longleftrightarrow>
     ptx_outbox_id new = ptx_outbox_id old \<and> ptx_target_ordinal new = ptx_target_ordinal old
   \<and> ptx_relay_id new = ptx_relay_id old \<and> ptx_required new = ptx_required old
   \<and> ptx_revision new = ptx_revision old + 1 \<and> ptx_updated_at_unix_ms old \<le> ptx_updated_at_unix_ms new
   \<and> presence_target_transition old new"

section \<open>Attempts\<close>

definition presence_attempt_check :: "presence_attempt_row \<Rightarrow> bool" where
  "presence_attempt_check r \<longleftrightarrow>
     length (pax_attempt_id r) = 32 \<and> length (pax_outbox_id r) = 32
   \<and> 0 \<le> pax_target_ordinal r \<and> pax_target_ordinal r \<le> 31
   \<and> 1 \<le> pax_attempt_number r \<and> pax_attempt_number r \<le> 100
   \<and> length (pax_event_sha256 r) = 32 \<and> length (pax_lease_owner r) = 16
   \<and> 0 \<le> pax_started_at_unix_ms r \<and> pax_started_at_unix_ms r \<le> sql_i64_max
   \<and> pax_started_at_unix_ms r \<le> pax_finished_at_unix_ms r \<and> pax_finished_at_unix_ms r \<le> sql_i64_max
   \<and> pax_outcome r \<in> {''accepted'', ''rejected'', ''rate_limited'', ''auth_required'', ''failed'', ''unknown''}
   \<and> 1 \<le> length (pax_result_code r) \<and> length (pax_result_code r) \<le> 64"

definition presence_attempts_valid :: "presence_target_row list \<Rightarrow> presence_attempt_row list \<Rightarrow> bool" where
  "presence_attempts_valid target_rows rows \<longleftrightarrow>
     list_all presence_attempt_check rows \<and> distinct (map pax_attempt_id rows)
   \<and> distinct (map (\<lambda>r. (pax_outbox_id r, pax_target_ordinal r, pax_attempt_number r)) rows)
   \<and> set (map (\<lambda>r. (pax_outbox_id r, pax_target_ordinal r)) rows)
       \<subseteq> set (map (\<lambda>r. (ptx_outbox_id r, ptx_target_ordinal r)) target_rows)"

end
