(* ===== verification/Presence_Documents.thy ===== *)
theory Presence_Documents
  imports Presence_Desired Reconciliation_Attestation
begin

text \<open>
  Rendering, signing and independent verification of the presence documents, first part of
  \<open>src/src/presence_publication.rs\<close>.  The profile, the application handler, the NIP-01 event and the signature
  belong to other crates: \<open>presence_crate\<close> holds the operations the code calls.
\<close>

section \<open>Data\<close>

datatype presence_error = PresInvalidMode | PresInvalidInput | PresDesiredStateMismatch | PresIdentityMismatch
  | PresEntropyUnavailable | PresRenderingFailed | PresVerificationFailed | PresNotReady | PresLeaseLost
  | PresInvariant | PresClockUnavailable | PresStorage | PresCommitOutcomeUnknown

fun presence_error_code :: "presence_error \<Rightarrow> string" where
  "presence_error_code PresInvalidMode = ''presence_publication_mode_invalid''"
| "presence_error_code PresInvalidInput = ''presence_publication_input_invalid''"
| "presence_error_code PresDesiredStateMismatch = ''presence_publication_desired_state_mismatch''"
| "presence_error_code PresIdentityMismatch = ''presence_publication_identity_mismatch''"
| "presence_error_code PresEntropyUnavailable = ''presence_publication_entropy_unavailable''"
| "presence_error_code PresRenderingFailed = ''presence_publication_rendering_failed''"
| "presence_error_code PresVerificationFailed = ''presence_publication_verification_failed''"
| "presence_error_code PresNotReady = ''presence_publication_not_ready''"
| "presence_error_code PresLeaseLost = ''presence_publication_lease_lost''"
| "presence_error_code PresInvariant = ''presence_publication_invariant_failed''"
| "presence_error_code PresClockUnavailable = ''presence_publication_clock_unavailable''"
| "presence_error_code PresStorage = ''presence_publication_storage_failed''"
| "presence_error_code PresCommitOutcomeUnknown = ''presence_publication_commit_outcome_unknown''"

definition RHI_PRESENCE_SIGNED_EVENT_MAX_BYTES :: nat where
  "RHI_PRESENCE_SIGNED_EVENT_MAX_BYTES = 32 * 1024"

definition PROFILE_NAME :: string where "PROFILE_NAME = ''rhi''"

definition PROFILE_DISPLAY_NAME :: string where "PROFILE_DISPLAY_NAME = ''Radroots RHI''"

definition PROFILE_ABOUT :: string where
  "PROFILE_ABOUT = ''Radroots evidence reconciliation and attestation service''"

definition APPLICATION_HANDLER_IDENTIFIER :: string where "APPLICATION_HANDLER_IDENTIFIER = ''rhi''"

definition APPLICATION_HANDLER_KINDS :: "nat list" where "APPLICATION_HANDLER_KINDS = [3441]"

record ('b, 'e) presence_crate =
  xc_profile_plan :: "string \<Rightarrow> string \<Rightarrow> string \<Rightarrow> bool \<Rightarrow> nat \<Rightarrow> string \<Rightarrow> authored_plan option"
  xc_metadata_json :: "string \<Rightarrow> string \<Rightarrow> bytes option"
  xc_build_handler :: "nat list \<Rightarrow> string \<Rightarrow> string \<Rightarrow> string \<Rightarrow> 'b option"
  xc_nostr_key :: "string \<Rightarrow> bytes option"
  xc_request_id :: "'b \<Rightarrow> nat \<Rightarrow> bytes \<Rightarrow> bytes option"
  xc_handler_kind :: nat
  xc_generic_plan :: "string \<Rightarrow> nat \<Rightarrow> nat \<Rightarrow> string list list \<Rightarrow> bytes \<Rightarrow> string \<Rightarrow> authored_plan option"
  xc_tag_ok :: "string list \<Rightarrow> bool"
  xc_event_id :: "unsigned_event \<Rightarrow> bytes"
  xc_to_vec :: "'e \<Rightarrow> bytes option"
  xc_parse_wire :: "wire_limits \<Rightarrow> bytes \<Rightarrow> signed_envelope option"
  xc_verify_id :: "signed_envelope \<Rightarrow> bool"
  xc_verify :: "signed_envelope \<Rightarrow> bool"
  xc_author_hex :: "bytes \<Rightarrow> string"

record signed_document =
  sd_kind :: presence_kind
  sd_event_id :: bytes
  sd_signed_event_sha256 :: bytes
  sd_signed_event_bytes :: bytes
  sd_created_at :: nat

record signed_documents =
  ss_desired_state :: desired_state
  ss_service_public_key :: string
  ss_targets :: "presence_target list"
  ss_documents :: "signed_document list"

section \<open>Rendering and verification\<close>

definition presence_plan ::
  "('b, 'e) presence_crate \<Rightarrow> presence_kind \<Rightarrow> string \<Rightarrow> nat \<Rightarrow> (presence_error, authored_plan) result" where
  "presence_plan crate kind author created_at =
     (case kind of
        ServiceProfile \<Rightarrow> ok_or PresRenderingFailed
          (xc_profile_plan crate PROFILE_NAME PROFILE_DISPLAY_NAME PROFILE_ABOUT True created_at author)
      | ApplicationHandler \<Rightarrow>
          and_then (ok_or PresRenderingFailed (xc_metadata_json crate PROFILE_DISPLAY_NAME PROFILE_ABOUT)) (\<lambda>content.
          and_then (ok_or PresRenderingFailed (xc_build_handler crate APPLICATION_HANDLER_KINDS
            APPLICATION_HANDLER_IDENTIFIER PROFILE_DISPLAY_NAME PROFILE_ABOUT)) (\<lambda>builder.
          and_then (ok_or PresIdentityMismatch (xc_nostr_key crate author)) (\<lambda>key.
          and_then (ok_or PresRenderingFailed (xc_request_id crate builder created_at key)) (\<lambda>request_id.
          and_then (ok_or PresRenderingFailed (xc_generic_plan crate ''radroots.application.handler.v1''
            (xc_handler_kind crate) created_at [[''d'', APPLICATION_HANDLER_IDENTIFIER], [''k'', ''3441'']] content author)) (\<lambda>plan.
          if request_id \<noteq> pl_expected_event_id plan then Inl PresRenderingFailed else Inr plan))))))"

definition presence_sign_plan ::
  "('b, 'e) presence_crate \<Rightarrow> 'e decrypted_identity \<Rightarrow> authored_plan \<Rightarrow> bytes \<Rightarrow> (presence_error, 'e) result" where
  "presence_sign_plan crate identity plan auxiliary =
     (let body = pl_body plan in
     and_then (ensure (ab_kind body \<le> 65535) PresRenderingFailed) (\<lambda>_.
     and_then (ensure (list_all (xc_tag_ok crate) (ab_tags body)) PresRenderingFailed) (\<lambda>_.
     and_then (ok_or PresIdentityMismatch (xc_nostr_key crate (di_public_hex identity))) (\<lambda>author.
     (let unsigned = \<lparr>ue_kind = ab_kind body, ue_tags = ab_tags body, ue_content = ab_content body,
        ue_created_at = pl_created_at plan, ue_author = author\<rparr> in
     if xc_event_id crate unsigned \<noteq> pl_expected_event_id plan then Inl PresRenderingFailed
     else ok_or PresRenderingFailed (di_sign identity unsigned auxiliary))))))"

definition presence_wire_limits :: wire_limits where
  "presence_wire_limits =
     \<lparr>wl_raw_json_bytes = RHI_PRESENCE_SIGNED_EVENT_MAX_BYTES, wl_content_bytes = 4 * 1024, wl_tag_count = 4,
      wl_tag_elements = 8, wl_tag_element_bytes = 64, wl_tag_bytes = 256, wl_extra_fields = 0, wl_extra_json_bytes = 0\<rparr>"

definition validate_signed_document ::
  "('b, 'e) presence_crate \<Rightarrow> presence_kind \<Rightarrow> string \<Rightarrow> nat \<Rightarrow> bytes \<Rightarrow> (presence_error, signed_envelope) result" where
  "validate_signed_document crate kind author created_at b =
     (if b = [] \<or> RHI_PRESENCE_SIGNED_EVENT_MAX_BYTES < length b \<or> from_utf8 b = None
      then Inl PresVerificationFailed else
     and_then (ok_or PresVerificationFailed (xc_parse_wire crate presence_wire_limits b)) (\<lambda>event.
     if \<not> xc_verify_id crate event \<or> \<not> xc_verify crate event
        \<or> xc_author_hex crate (ee_author event) \<noteq> author \<or> ee_created_at event \<noteq> created_at
     then Inl PresVerificationFailed else
     and_then (presence_plan crate kind author created_at) (\<lambda>expected.
     if ee_id event \<noteq> pl_expected_event_id expected \<or> ee_kind event \<noteq> ab_kind (pl_body expected)
        \<or> sv_tags event \<noteq> ab_tags (pl_body expected) \<or> ee_content event \<noteq> ab_content (pl_body expected)
     then Inl PresVerificationFailed else Inr event)))"

section \<open>The document set\<close>

text \<open>One turn of the loop: 32 bytes of entropy per document.\<close>

definition build_document ::
  "(bytes \<Rightarrow> bytes) \<Rightarrow> ('b, 'e) presence_crate \<Rightarrow> 'e decrypted_identity \<Rightarrow> nat \<Rightarrow> ('w \<Rightarrow> bytes option \<times> 'w)
     \<Rightarrow> presence_kind \<Rightarrow> 'w \<Rightarrow> (presence_error, signed_document) result \<times> 'w" where
  "build_document sha256 crate identity created_at fill_bytes kind w =
     (let author = di_public_hex identity in
     (case presence_plan crate kind author created_at of
        Inl e \<Rightarrow> (Inl e, w)
      | Inr plan \<Rightarrow>
     (case fill_bytes w of
        (None, w) \<Rightarrow> (Inl PresEntropyUnavailable, w)
      | (Some auxiliary, w) \<Rightarrow>
          (and_then (presence_sign_plan crate identity plan auxiliary) (\<lambda>event.
           and_then (ok_or PresRenderingFailed (xc_to_vec crate event)) (\<lambda>b.
           and_then (validate_signed_document crate kind author created_at b) (\<lambda>verified.
             Inr \<lparr>sd_kind = kind, sd_event_id = ee_id verified, sd_signed_event_sha256 = sha256 b,
               sd_signed_event_bytes = b, sd_created_at = created_at\<rparr>))), w))))"

fun build_documents ::
  "(bytes \<Rightarrow> bytes) \<Rightarrow> ('b, 'e) presence_crate \<Rightarrow> 'e decrypted_identity \<Rightarrow> nat \<Rightarrow> ('w \<Rightarrow> bytes option \<times> 'w)
     \<Rightarrow> presence_kind list \<Rightarrow> 'w \<Rightarrow> (presence_error, signed_document list) result \<times> 'w" where
  "build_documents sha256 crate identity created_at fill_bytes [] w = (Inr [], w)"
| "build_documents sha256 crate identity created_at fill_bytes (kind # kinds) w =
     (case build_document sha256 crate identity created_at fill_bytes kind w of
        (Inl e, w) \<Rightarrow> (Inl e, w)
      | (Inr document, w) \<Rightarrow>
          (case build_documents sha256 crate identity created_at fill_bytes kinds w of
             (Inl e, w) \<Rightarrow> (Inl e, w)
           | (Inr documents, w) \<Rightarrow> (Inr (document # documents), w)))"

definition build_rhi_signed_presence_documents ::
  "(bytes \<Rightarrow> bytes) \<Rightarrow> ('b, 'e) presence_crate \<Rightarrow> desired_outcome \<Rightarrow> presence_authority \<Rightarrow> 'e decrypted_identity \<Rightarrow> nat
     \<Rightarrow> ('w \<Rightarrow> bytes option \<times> 'w) \<Rightarrow> 'w \<Rightarrow> (presence_error, signed_documents) result \<times> 'w" where
  "build_rhi_signed_presence_documents sha256 crate desired authority identity created_at fill_bytes w =
     (let state = do_state desired in
     if i64_max < created_at then (Inl PresInvalidInput, w)
     else if \<not> matches_authority state authority then (Inl PresDesiredStateMismatch, w)
     else if di_public_hex identity \<noteq> pra_service_public_key authority then (Inl PresIdentityMismatch, w)
     else (case build_documents sha256 crate identity created_at fill_bytes (pra_document_kinds authority) w of
         (Inl e, w) \<Rightarrow> (Inl e, w)
       | (Inr documents, w) \<Rightarrow>
           if (dst_mode state = PresenceDisabled \<and> documents \<noteq> [])
              \<or> (dst_mode state = PresenceEnabled \<and> length documents \<noteq> length (pra_document_kinds authority))
           then (Inl PresInvariant, w)
           else (Inr \<lparr>ss_desired_state = state, ss_service_public_key = pra_service_public_key authority,
             ss_targets = pra_targets authority, ss_documents = documents\<rparr>, w)))"

fun validate_each_document ::
  "(bytes \<Rightarrow> bytes) \<Rightarrow> ('b, 'e) presence_crate \<Rightarrow> presence_authority \<Rightarrow> (signed_document \<times> presence_kind) list
     \<Rightarrow> (presence_error, unit) result" where
  "validate_each_document sha256 crate authority [] = Inr ()"
| "validate_each_document sha256 crate authority ((document, kind) # rest) =
     (if sd_kind document \<noteq> kind \<or> sha256 (sd_signed_event_bytes document) \<noteq> sd_signed_event_sha256 document
      then Inl PresVerificationFailed else
     and_then (validate_signed_document crate (sd_kind document) (pra_service_public_key authority)
       (sd_created_at document) (sd_signed_event_bytes document)) (\<lambda>verified.
     if ee_id verified \<noteq> sd_event_id document then Inl PresVerificationFailed
     else validate_each_document sha256 crate authority rest))"

definition validate_rhi_signed_presence_documents ::
  "(bytes \<Rightarrow> bytes) \<Rightarrow> ('b, 'e) presence_crate \<Rightarrow> signed_documents \<Rightarrow> presence_authority \<Rightarrow> (presence_error, unit) result" where
  "validate_rhi_signed_presence_documents sha256 crate documents authority =
     (if \<not> matches_authority (ss_desired_state documents) authority
         \<or> ss_service_public_key documents \<noteq> pra_service_public_key authority
         \<or> ss_targets documents \<noteq> pra_targets authority
         \<or> length (ss_documents documents) \<noteq> length (pra_document_kinds authority)
      then Inl PresDesiredStateMismatch
      else validate_each_document sha256 crate authority (zip (ss_documents documents) (pra_document_kinds authority)))"

end
