(* ===== verification/Presence_Records.thy ===== *)
theory Presence_Records
  imports Catalog_Presence Presence_Documents Runtime_Adapters
begin

text \<open>
  The decoded records of the presence delivery and the reads of \<open>src/src/presence_publication.rs\<close>: states,
  outcomes, identities, row decoding, the current desired binding and the inventory of targets.
\<close>

section \<open>Data\<close>

definition RHI_PRESENCE_MAX_ATTEMPTS :: nat where "RHI_PRESENCE_MAX_ATTEMPTS = 100"
definition INITIAL_BACKOFF_MILLISECONDS :: nat where "INITIAL_BACKOFF_MILLISECONDS = 250"
definition MAXIMUM_BACKOFF_MILLISECONDS :: nat where "MAXIMUM_BACKOFF_MILLISECONDS = 30000"
definition ATTEMPT_DEADLINE_MILLISECONDS :: nat where "ATTEMPT_DEADLINE_MILLISECONDS = 15000"

datatype presence_outbox_state = PoPending | PoLeased | PoComplete | PoBlocked | PoSuperseded

fun presence_outbox_state_code :: "presence_outbox_state \<Rightarrow> string" where
  "presence_outbox_state_code PoPending = ''pending''"
| "presence_outbox_state_code PoLeased = ''leased''"
| "presence_outbox_state_code PoComplete = ''complete''"
| "presence_outbox_state_code PoBlocked = ''blocked''"
| "presence_outbox_state_code PoSuperseded = ''superseded''"

datatype presence_target_state = PtPending | PtSubmitted | PtAccepted | PtRejected | PtRateLimited | PtAuthRequired
  | PtFailed | PtUnknown

fun presence_target_state_code :: "presence_target_state \<Rightarrow> string" where
  "presence_target_state_code PtPending = ''pending''"
| "presence_target_state_code PtSubmitted = ''submitted''"
| "presence_target_state_code PtAccepted = ''accepted''"
| "presence_target_state_code PtRejected = ''rejected''"
| "presence_target_state_code PtRateLimited = ''rate_limited''"
| "presence_target_state_code PtAuthRequired = ''auth_required''"
| "presence_target_state_code PtFailed = ''failed''"
| "presence_target_state_code PtUnknown = ''unknown''"

datatype presence_outcome = PrSubmitted | PrAccepted | PrRejected | PrRateLimited | PrAuthRequired | PrFailed | PrUnknown

fun presence_outcome_code :: "presence_outcome \<Rightarrow> string" where
  "presence_outcome_code PrSubmitted = ''submitted''"
| "presence_outcome_code PrAccepted = ''accepted''"
| "presence_outcome_code PrRejected = ''rejected''"
| "presence_outcome_code PrRateLimited = ''rate_limited''"
| "presence_outcome_code PrAuthRequired = ''auth_required''"
| "presence_outcome_code PrFailed = ''failed''"
| "presence_outcome_code PrUnknown = ''unknown''"

datatype presence_op_error = PopInvalidInput | PopDesiredStateMismatch | PopVerificationFailed | PopNotReady | PopLeaseLost
  | PopInvariant | PopStorage

record presence_target_record =
  qt_ordinal :: nat
  qt_relay_id :: string
  qt_required :: bool
  qt_state :: presence_target_state
  qt_revision :: nat
  qt_attempt_count :: nat
  qt_next_attempt :: "nat option"
  qt_last_attempt_id :: "bytes option"
  qt_updated_at :: nat

record presence_outbox_record =
  qo_id :: bytes
  qo_desired_generation :: nat
  qo_document_kind :: presence_kind
  qo_desired_sha256 :: bytes
  qo_target_set_sha256 :: bytes
  qo_event_id :: bytes
  qo_event_sha256 :: bytes
  qo_exact_signed_event_bytes :: bytes
  qo_authored_at :: nat
  qo_service_public_key :: string
  qo_target_count :: nat
  qo_required_target_count :: nat
  qo_max_attempts :: nat
  qo_state :: presence_outbox_state
  qo_revision :: nat
  qo_next_attempt :: "nat option"
  qo_lease_owner :: "bytes option"
  qo_lease_expires :: "nat option"
  qo_created_at :: nat
  qo_updated_at :: nat
  qo_targets :: "presence_target_record list"

record presence_attempt_record =
  qa_attempt_id :: bytes
  qa_outbox_id :: bytes
  qa_target_ordinal :: nat
  qa_attempt_number :: nat
  qa_event_sha256 :: bytes
  qa_owner :: bytes
  qa_started_at :: nat
  qa_finished_at :: nat
  qa_outcome :: presence_outcome

record presence_lease =
  ql_outbox :: presence_outbox_record
  ql_owner :: bytes
  ql_expires_at :: nat

record prepared_presence =
  qp_lease :: presence_lease
  qp_target :: presence_target_record
  qp_attempt_id :: bytes
  qp_started_at :: nat
  qp_deadline_at :: nat
  qp_exact_signed_event_bytes :: bytes

record presence_input =
  qi_outbox_id :: bytes
  qi_outbox_revision :: nat
  qi_event_sha256 :: bytes
  qi_owner :: bytes
  qi_lease_expires :: nat
  qi_target_ordinal :: nat
  qi_target_revision :: nat
  qi_attempt_number :: nat
  qi_attempt_id :: bytes
  qi_started_at :: nat
  qi_finished_at :: nat
  qi_outcome :: presence_outcome
  qi_retry_delay :: nat

record presence_attempt_commit =
  qc_outbox_id :: bytes
  qc_attempt_id :: bytes
  qc_target_ordinal :: nat
  qc_attempt_number :: nat
  qc_outcome :: presence_outcome
  qc_target_state :: presence_target_state
  qc_outbox_state :: presence_outbox_state

record presence_commit_outcome =
  pco_desired_state :: desired_state
  pco_document_count :: nat
  pco_changed :: bool

record presence_disposition =
  pd_state :: presence_outbox_state
  pd_next_attempt :: "nat option"

record presence_recovery =
  pv_outbox :: presence_outbox_record
  pv_retry_upper_bound :: nat
  pv_current_desired :: bool

section \<open>Validated inputs and identities\<close>

definition presence_unix_ms_new :: "nat \<Rightarrow> (presence_error, nat) result" where
  "presence_unix_ms_new v = (if i64_max < v then Inl PresInvalidInput else Inr v)"

definition presence_retry_delay_new :: "nat \<Rightarrow> (presence_error, nat) result" where
  "presence_retry_delay_new v = (if MAXIMUM_BACKOFF_MILLISECONDS < v then Inl PresInvalidInput else Inr v)"

definition presence_owner_from_bytes :: "bytes \<Rightarrow> (presence_error, bytes) result" where
  "presence_owner_from_bytes b = (if list_all (\<lambda>x. x = 0) b then Inl PresInvalidInput else Inr b)"

definition PRESENCE_OUTBOX_ID_DOMAIN :: bytes where
  "PRESENCE_OUTBOX_ID_DOMAIN = ascii_bytes ''radroots.rhi.presence_outbox.v1'' @ [0]"

definition PRESENCE_ATTEMPT_ID_DOMAIN :: bytes where
  "PRESENCE_ATTEMPT_ID_DOMAIN = ascii_bytes ''radroots.rhi.presence_attempt.v1'' @ [0]"

definition derive_outbox_id :: "(bytes \<Rightarrow> bytes) \<Rightarrow> nat \<Rightarrow> presence_kind \<Rightarrow> bytes \<Rightarrow> bytes \<Rightarrow> bytes" where
  "derive_outbox_id sha256 generation kind desired event =
     sha256 (PRESENCE_OUTBOX_ID_DOMAIN @ to_be_bytes 8 generation @ [document_kind_byte kind] @ desired @ event)"

definition presence_attempt_id :: "(bytes \<Rightarrow> bytes) \<Rightarrow> bytes \<Rightarrow> bytes \<Rightarrow> nat \<Rightarrow> nat \<Rightarrow> bytes" where
  "presence_attempt_id sha256 outbox event ordinal number =
     sha256 (PRESENCE_ATTEMPT_ID_DOMAIN @ outbox @ event @ to_be_bytes 1 ordinal @ to_be_bytes 2 number)"

definition presence_i64_value :: "nat \<Rightarrow> (presence_op_error, int) result" where
  "presence_i64_value v = i64_of_u64 PopInvalidInput v"

definition presence_optional_i64 :: "nat option \<Rightarrow> (presence_op_error, int option) result" where
  "presence_optional_i64 v = transpose (map_option presence_i64_value v)"

section \<open>Decoding rows\<close>

definition presence_blob :: "nat \<Rightarrow> bytes \<Rightarrow> (presence_op_error, bytes) result" where
  "presence_blob n column = (if length column = n then Inr column else Inl PopInvariant)"

text \<open>The length column and \<open>substr(value, 1, maximum + 1)\<close>.\<close>

definition presence_text :: "string \<Rightarrow> nat \<Rightarrow> (presence_op_error, string) result" where
  "presence_text column maximum =
     (if 0 < length column \<and> length column \<le> maximum \<and> length (take (maximum + 1) column) = length column
      then Inr (take (maximum + 1) column) else Inl PopInvariant)"

definition presence_u8 :: "int \<Rightarrow> nat \<Rightarrow> (presence_op_error, nat) result" where
  "presence_u8 column maximum =
     (if 0 \<le> column \<and> column \<le> 255 \<and> nat column \<le> maximum then Inr (nat column) else Inl PopInvariant)"

definition presence_u16 :: "int \<Rightarrow> nat \<Rightarrow> (presence_op_error, nat) result" where
  "presence_u16 column maximum =
     (if 0 \<le> column \<and> column \<le> 65535 \<and> nat column \<le> maximum then Inr (nat column) else Inl PopInvariant)"

definition presence_u64 :: "int \<Rightarrow> nat \<Rightarrow> (presence_op_error, nat) result" where
  "presence_u64 column maximum = (if 0 \<le> column \<and> nat column \<le> maximum then Inr (nat column) else Inl PopInvariant)"

definition presence_nonnegative :: "int \<Rightarrow> (presence_op_error, nat) result" where
  "presence_nonnegative column = (if 0 \<le> column then Inr (nat column) else Inl PopInvariant)"

definition presence_positive :: "int \<Rightarrow> (presence_op_error, nat) result" where
  "presence_positive column =
     and_then (presence_nonnegative column) (\<lambda>v. if v \<noteq> 0 then Inr v else Inl PopInvariant)"

definition presence_bool :: "int \<Rightarrow> (presence_op_error, bool) result" where
  "presence_bool column = (if column = 0 then Inr False else if column = 1 then Inr True else Inl PopInvariant)"

definition presence_millis :: "int option \<Rightarrow> (presence_op_error, nat option) result" where
  "presence_millis column = transpose (map_option presence_nonnegative column)"

definition presence_owner :: "bytes option \<Rightarrow> (presence_op_error, bytes option) result" where
  "presence_owner column =
     (case column of
        None \<Rightarrow> Inr None
      | Some b \<Rightarrow>
          if length b = 16 \<and> length (take 17 b) = 16 \<and> \<not> list_all (\<lambda>x. x = 0) (take 17 b)
          then Inr (Some (take 17 b)) else Inl PopInvariant)"

definition presence_attempt_ident :: "bytes option \<Rightarrow> (presence_op_error, bytes option) result" where
  "presence_attempt_ident column =
     (case column of
        None \<Rightarrow> Inr None
      | Some b \<Rightarrow> if length b = 32 \<and> length (take 33 b) = 32 then Inr (Some (take 33 b)) else Inl PopInvariant)"

definition decode_document_kind :: "string \<Rightarrow> (presence_op_error, presence_kind) result" where
  "decode_document_kind v =
     (if v = ''service_profile'' then Inr ServiceProfile
      else if v = ''application_handler'' then Inr ApplicationHandler else Inl PopInvariant)"

definition decode_presence_outbox_state :: "string \<Rightarrow> (presence_op_error, presence_outbox_state) result" where
  "decode_presence_outbox_state v =
     (if v = ''pending'' then Inr PoPending else if v = ''leased'' then Inr PoLeased
      else if v = ''complete'' then Inr PoComplete else if v = ''blocked'' then Inr PoBlocked
      else if v = ''superseded'' then Inr PoSuperseded else Inl PopInvariant)"

definition decode_presence_target_state :: "string \<Rightarrow> (presence_op_error, presence_target_state) result" where
  "decode_presence_target_state v =
     (if v = ''pending'' then Inr PtPending else if v = ''submitted'' then Inr PtSubmitted
      else if v = ''accepted'' then Inr PtAccepted else if v = ''rejected'' then Inr PtRejected
      else if v = ''rate_limited'' then Inr PtRateLimited else if v = ''auth_required'' then Inr PtAuthRequired
      else if v = ''failed'' then Inr PtFailed else if v = ''unknown'' then Inr PtUnknown else Inl PopInvariant)"

fun valid_presence_outbox_shape :: "presence_outbox_state \<Rightarrow> nat option \<Rightarrow> bytes option \<Rightarrow> nat option \<Rightarrow> bool" where
  "valid_presence_outbox_shape PoPending next owner expires \<longleftrightarrow> next \<noteq> None \<and> owner = None \<and> expires = None"
| "valid_presence_outbox_shape PoLeased next owner expires \<longleftrightarrow> next = None \<and> owner \<noteq> None \<and> expires \<noteq> None"
| "valid_presence_outbox_shape _ next owner expires \<longleftrightarrow> next = None \<and> owner = None \<and> expires = None"

definition valid_presence_target_shape :: "presence_target_state \<Rightarrow> nat \<Rightarrow> nat option \<Rightarrow> bytes option \<Rightarrow> bool" where
  "valid_presence_target_shape state attempt_count next_attempt last_attempt_id =
     (case state of
        PtPending \<Rightarrow> attempt_count = 0 \<and> next_attempt \<noteq> None \<and> last_attempt_id = None
      | PtRateLimited \<Rightarrow> 0 < attempt_count \<and> last_attempt_id \<noteq> None
          \<and> (if attempt_count < RHI_PRESENCE_MAX_ATTEMPTS then next_attempt \<noteq> None else next_attempt = None)
      | PtFailed \<Rightarrow> 0 < attempt_count \<and> last_attempt_id \<noteq> None
          \<and> (if attempt_count < RHI_PRESENCE_MAX_ATTEMPTS then next_attempt \<noteq> None else next_attempt = None)
      | PtUnknown \<Rightarrow> 0 < attempt_count \<and> last_attempt_id \<noteq> None
          \<and> (if attempt_count < RHI_PRESENCE_MAX_ATTEMPTS then next_attempt \<noteq> None else next_attempt = None)
      | _ \<Rightarrow> 0 < attempt_count \<and> next_attempt = None \<and> last_attempt_id \<noteq> None)"

definition decode_presence_target :: "presence_target_row \<Rightarrow> (presence_op_error, presence_target_record) result" where
  "decode_presence_target row =
     and_then (presence_u8 (ptx_target_ordinal row) (RHI_PRESENCE_DESIRED_MAX_TARGETS - 1)) (\<lambda>ordinal.
     and_then (presence_text (ptx_relay_id row) 64) (\<lambda>relay_id.
     and_then (presence_bool (ptx_required row)) (\<lambda>required.
     and_then (and_then (presence_text (ptx_state row) 13) decode_presence_target_state) (\<lambda>state.
     and_then (presence_positive (ptx_revision row)) (\<lambda>revision.
     and_then (presence_u16 (ptx_attempt_count row) RHI_PRESENCE_MAX_ATTEMPTS) (\<lambda>attempt_count.
     and_then (presence_millis (ptx_next_attempt_unix_ms row)) (\<lambda>next_attempt.
     and_then (presence_attempt_ident (ptx_last_attempt_id row)) (\<lambda>last_attempt_id.
     and_then (presence_nonnegative (ptx_updated_at_unix_ms row)) (\<lambda>updated_at.
     if \<not> valid_relay_id relay_id \<or> \<not> valid_presence_target_shape state attempt_count next_attempt last_attempt_id
     then Inl PopInvariant
     else Inr \<lparr>qt_ordinal = ordinal, qt_relay_id = relay_id, qt_required = required, qt_state = state, qt_revision = revision,
       qt_attempt_count = attempt_count, qt_next_attempt = next_attempt, qt_last_attempt_id = last_attempt_id,
       qt_updated_at = updated_at\<rparr>)))))))))"

text \<open>\<open>decode_outbox\<close>; the targets are read afterwards.\<close>

definition decode_presence_outbox ::
  "(bytes \<Rightarrow> bytes) \<Rightarrow> (string \<Rightarrow> bool) \<Rightarrow> presence_outbox_row \<Rightarrow> (presence_op_error, presence_outbox_record) result" where
  "decode_presence_outbox sha256 key_ok row =
     and_then (presence_blob 32 (pox_outbox_id row)) (\<lambda>ident.
     and_then (presence_positive (pox_desired_generation row)) (\<lambda>generation.
     and_then (and_then (presence_text (pox_document_kind row) 19) decode_document_kind) (\<lambda>kind.
     and_then (presence_blob 32 (pox_desired_sha256 row)) (\<lambda>desired.
     and_then (presence_blob 32 (pox_target_set_sha256 row)) (\<lambda>target_set.
     and_then (presence_blob 32 (pox_event_id row)) (\<lambda>event_id.
     and_then (presence_blob 32 (pox_event_sha256 row)) (\<lambda>event_sha256.
     and_then (ensure (0 < length (pox_exact_signed_event_bytes row)
       \<and> length (pox_exact_signed_event_bytes row) \<le> RHI_PRESENCE_SIGNED_EVENT_MAX_BYTES) PopInvariant) (\<lambda>_.
     (let exact = take 32769 (pox_exact_signed_event_bytes row) in
     and_then (presence_nonnegative (pox_authored_at_unix_s row)) (\<lambda>authored_at.
     and_then (presence_text (pox_service_public_key row) 64) (\<lambda>key.
     and_then (presence_u8 (pox_target_count row) RHI_PRESENCE_DESIRED_MAX_TARGETS) (\<lambda>target_count.
     and_then (presence_u8 (pox_required_target_count row) target_count) (\<lambda>required_count.
     and_then (presence_u16 (pox_max_attempts row) RHI_PRESENCE_MAX_ATTEMPTS) (\<lambda>max_attempts.
     and_then (presence_u64 (pox_initial_backoff_ms row) INITIAL_BACKOFF_MILLISECONDS) (\<lambda>initial.
     and_then (presence_u64 (pox_maximum_backoff_ms row) MAXIMUM_BACKOFF_MILLISECONDS) (\<lambda>maximum.
     and_then (presence_u64 (pox_attempt_deadline_ms row) ATTEMPT_DEADLINE_MILLISECONDS) (\<lambda>deadline.
     and_then (and_then (presence_text (pox_state row) 10) decode_presence_outbox_state) (\<lambda>state.
     and_then (presence_positive (pox_revision row)) (\<lambda>revision.
     and_then (presence_millis (pox_next_attempt_unix_ms row)) (\<lambda>next_attempt.
     and_then (presence_owner (pox_lease_owner row)) (\<lambda>owner.
     and_then (presence_millis (pox_lease_expires_unix_ms row)) (\<lambda>expires.
     and_then (presence_nonnegative (pox_created_at_unix_ms row)) (\<lambda>created_at.
     and_then (presence_nonnegative (pox_updated_at_unix_ms row)) (\<lambda>updated_at.
     if length exact \<noteq> length (pox_exact_signed_event_bytes row) \<or> exact = [] \<or> sha256 exact \<noteq> event_sha256
        \<or> \<not> valid_public_key key_ok key \<or> max_attempts \<noteq> RHI_PRESENCE_MAX_ATTEMPTS
        \<or> initial \<noteq> INITIAL_BACKOFF_MILLISECONDS \<or> maximum \<noteq> MAXIMUM_BACKOFF_MILLISECONDS
        \<or> deadline \<noteq> ATTEMPT_DEADLINE_MILLISECONDS \<or> maximum < initial \<or> updated_at < created_at
        \<or> \<not> valid_presence_outbox_shape state next_attempt owner expires
     then Inl PopInvariant
     else Inr \<lparr>qo_id = ident, qo_desired_generation = generation, qo_document_kind = kind, qo_desired_sha256 = desired,
       qo_target_set_sha256 = target_set, qo_event_id = event_id, qo_event_sha256 = event_sha256,
       qo_exact_signed_event_bytes = exact, qo_authored_at = authored_at, qo_service_public_key = key,
       qo_target_count = target_count, qo_required_target_count = required_count, qo_max_attempts = max_attempts,
       qo_state = state, qo_revision = revision, qo_next_attempt = next_attempt, qo_lease_owner = owner,
       qo_lease_expires = expires, qo_created_at = created_at, qo_updated_at = updated_at, qo_targets = []\<rparr>))))))))))))))))))))))))"

definition decode_presence_outcome :: "string \<Rightarrow> (presence_op_error, presence_outcome) result" where
  "decode_presence_outcome v =
     (if v = ''submitted'' then Inr PrSubmitted else if v = ''accepted'' then Inr PrAccepted else if v = ''rejected'' then Inr PrRejected
      else if v = ''rate_limited'' then Inr PrRateLimited else if v = ''auth_required'' then Inr PrAuthRequired
      else if v = ''failed'' then Inr PrFailed else if v = ''unknown'' then Inr PrUnknown else Inl PopInvariant)"

definition decode_presence_attempt :: "presence_attempt_row \<Rightarrow> (presence_op_error, presence_attempt_record) result" where
  "decode_presence_attempt row =
     and_then (presence_blob 32 (pax_attempt_id row)) (\<lambda>attempt_id.
     and_then (presence_blob 32 (pax_outbox_id row)) (\<lambda>outbox_id.
     and_then (presence_u8 (pax_target_ordinal row) (RHI_PRESENCE_DESIRED_MAX_TARGETS - 1)) (\<lambda>ordinal.
     and_then (presence_u16 (pax_attempt_number row) RHI_PRESENCE_MAX_ATTEMPTS) (\<lambda>number.
     and_then (presence_blob 32 (pax_event_sha256 row)) (\<lambda>event_sha256.
     and_then (presence_blob 16 (pax_lease_owner row)) (\<lambda>owner.
     and_then (presence_nonnegative (pax_started_at_unix_ms row)) (\<lambda>started_at.
     and_then (presence_nonnegative (pax_finished_at_unix_ms row)) (\<lambda>finished_at.
     and_then (and_then (presence_text (pax_outcome row) 13) decode_presence_outcome) (\<lambda>outcome.
     and_then (presence_text (pax_result_code row) 64) (\<lambda>result_code.
     if list_all (\<lambda>x. x = 0) owner \<or> finished_at < started_at \<or> result_code \<noteq> presence_outcome_code outcome
     then Inl PopInvariant
     else Inr \<lparr>qa_attempt_id = attempt_id, qa_outbox_id = outbox_id, qa_target_ordinal = ordinal, qa_attempt_number = number,
       qa_event_sha256 = event_sha256, qa_owner = owner, qa_started_at = started_at, qa_finished_at = finished_at,
       qa_outcome = outcome\<rparr>))))))))))"

section \<open>Reads\<close>

definition presence_zero_or_one :: "'r list \<Rightarrow> (presence_op_error, 'r option) result" where
  "presence_zero_or_one rows = (case rows of [] \<Rightarrow> Inr None | [r] \<Rightarrow> Inr (Some r) | _ \<Rightarrow> Inl PopInvariant)"

text \<open>\<open>PresenceDesiredBinding\<close> has the fields of the desired state, decoded by the same checks with one error.\<close>

definition read_desired_binding :: "'a desired_store_scheme \<Rightarrow> (presence_op_error, desired_state) result" where
  "read_desired_binding s =
     (case take 2 (desired_rows s) of
        [row] \<Rightarrow> map_err (\<lambda>_. PopInvariant) (decode_desired row)
      | _ \<Rightarrow> Inl PopDesiredStateMismatch)"

definition binding_document_kinds :: "desired_state \<Rightarrow> presence_kind list" where
  "binding_document_kinds desired =
     (if dst_profile desired then [ServiceProfile] else []) @ (if dst_application_handler desired then [ApplicationHandler] else [])"

definition read_presence_targets :: "bytes \<Rightarrow> 'a presence_store_scheme \<Rightarrow> (presence_op_error, presence_target_record list) result" where
  "read_presence_targets outbox_id s =
     (let rows = take 33 (sort_key ptx_target_ordinal (filter (\<lambda>r. ptx_outbox_id r = outbox_id) (presence_target_rows s))) in
      if RHI_PRESENCE_DESIRED_MAX_TARGETS < length rows then Inl PopInvariant
      else collect (map decode_presence_target rows))"

definition decode_with_targets ::
  "(bytes \<Rightarrow> bytes) \<Rightarrow> (string \<Rightarrow> bool) \<Rightarrow> 'a presence_store_scheme \<Rightarrow> presence_outbox_row
     \<Rightarrow> (presence_op_error, presence_outbox_record) result" where
  "decode_with_targets sha256 key_ok s row =
     and_then (decode_presence_outbox sha256 key_ok row) (\<lambda>outbox.
     and_then (read_presence_targets (qo_id outbox) s) (\<lambda>ts. Inr (outbox\<lparr>qo_targets := ts\<rparr>)))"

definition read_presence_outbox ::
  "(bytes \<Rightarrow> bytes) \<Rightarrow> (string \<Rightarrow> bool) \<Rightarrow> bytes \<Rightarrow> 'a presence_store_scheme
     \<Rightarrow> (presence_op_error, presence_outbox_record option) result" where
  "read_presence_outbox sha256 key_ok outbox_id s =
     and_then (presence_zero_or_one (take 2 (filter (\<lambda>r. pox_outbox_id r = outbox_id) (presence_outboxes s)))) (\<lambda>row.
       transpose (map_option (decode_with_targets sha256 key_ok s) row))"

definition kind_rank :: "string \<Rightarrow> nat" where
  "kind_rank kind = (if kind = ''service_profile'' then 0 else if kind = ''application_handler'' then 1 else 2)"

definition read_generation_outboxes ::
  "(bytes \<Rightarrow> bytes) \<Rightarrow> (string \<Rightarrow> bool) \<Rightarrow> nat \<Rightarrow> 'a presence_store_scheme
     \<Rightarrow> (presence_op_error, presence_outbox_record list) result" where
  "read_generation_outboxes sha256 key_ok generation s =
     and_then (presence_i64_value generation) (\<lambda>generation_value.
     (let rows = take 3 (sort_key (\<lambda>r. kind_rank (pox_document_kind r))
        (filter (\<lambda>r. pox_desired_generation r = generation_value) (presence_outboxes s))) in
      if 2 < length rows then Inl PopInvariant
      else collect (map (decode_with_targets sha256 key_ok s) rows)))"

definition read_presence_attempt :: "bytes \<Rightarrow> 'a presence_store_scheme \<Rightarrow> (presence_op_error, presence_attempt_record option) result" where
  "read_presence_attempt ident s =
     and_then (presence_zero_or_one (take 2 (filter (\<lambda>r. pax_attempt_id r = ident) (presence_attempt_rows s)))) (\<lambda>row.
       transpose (map_option decode_presence_attempt row))"

text \<open>The join with the desired state keeps the outboxes of the current generation.\<close>

definition read_claimable_presence :: "int \<Rightarrow> 'a presence_store_scheme \<Rightarrow> presence_outbox_row option" where
  "read_claimable_presence now s =
     select_min (\<lambda>r. (pox_next_attempt_unix_ms r, pox_created_at_unix_ms r, kind_rank (pox_document_kind r), pox_outbox_id r))
       (filter (\<lambda>r. list_ex (\<lambda>d. dr_singleton d = 1 \<and> dr_generation d = pox_desired_generation r
              \<and> dr_desired_sha256 d = pox_desired_sha256 r) (desired_rows s)
            \<and> pox_state r = ''pending'' \<and> sql_le (pox_next_attempt_unix_ms r) now) (presence_outboxes s))"

definition read_expired_presence :: "int \<Rightarrow> 'a presence_store_scheme \<Rightarrow> presence_outbox_row option" where
  "read_expired_presence now s =
     select_min (\<lambda>r. (pox_lease_expires_unix_ms r, pox_created_at_unix_ms r, pox_document_kind r, pox_outbox_id r))
       (filter (\<lambda>r. pox_state r = ''leased'' \<and> sql_le (pox_lease_expires_unix_ms r) now) (presence_outboxes s))"

end
