(* ===== verification/Presence_Operations.thy ===== *)
theory Presence_Operations
  imports Presence_Records
begin

text \<open>
  The statements, the six transaction bodies and the public operations of \<open>src/src/presence_publication.rs\<close>.
\<close>

section \<open>Writes\<close>

definition update_presence_outboxes ::
  "(presence_outbox_row \<Rightarrow> bool) \<Rightarrow> (presence_outbox_row \<Rightarrow> presence_outbox_row) \<Rightarrow> 'a presence_store_scheme
     \<Rightarrow> (presence_op_error, 'a presence_store_scheme \<times> nat) result" where
  "update_presence_outboxes p f s =
     (case sql_update presence_outbox_guard presence_outboxes_valid p f (presence_outboxes s) of
        None \<Rightarrow> Inl PopStorage
      | Some (rows, n) \<Rightarrow> Inr (s\<lparr>presence_outboxes := rows\<rparr>, n))"

definition update_presence_targets ::
  "(presence_target_row \<Rightarrow> bool) \<Rightarrow> (presence_target_row \<Rightarrow> presence_target_row) \<Rightarrow> 'a presence_store_scheme
     \<Rightarrow> (presence_op_error, 'a presence_store_scheme \<times> nat) result" where
  "update_presence_targets p f s =
     (case sql_update presence_target_guard (presence_targets_valid (presence_outboxes s)) p f (presence_target_rows s) of
        None \<Rightarrow> Inl PopStorage
      | Some (rows, n) \<Rightarrow> Inr (s\<lparr>presence_target_rows := rows\<rparr>, n))"

definition insert_outbox_row ::
  "bytes \<Rightarrow> int \<Rightarrow> signed_document \<Rightarrow> desired_state \<Rightarrow> int \<Rightarrow> string \<Rightarrow> int \<Rightarrow> presence_outbox_row" where
  "insert_outbox_row ident generation document desired authored key committed =
     \<lparr>pox_outbox_id = ident, pox_desired_generation = generation,
      pox_document_kind = presence_kind_code (sd_kind document), pox_desired_sha256 = dst_desired_sha256 desired,
      pox_target_set_sha256 = dst_target_set_sha256 desired, pox_event_id = sd_event_id document,
      pox_event_sha256 = sd_signed_event_sha256 document, pox_exact_signed_event_bytes = sd_signed_event_bytes document,
      pox_authored_at_unix_s = authored, pox_service_public_key = key,
      pox_target_count = int (dst_target_count desired), pox_required_target_count = int (dst_required_target_count desired),
      pox_max_attempts = 100, pox_initial_backoff_ms = 250, pox_maximum_backoff_ms = 30000,
      pox_attempt_deadline_ms = 15000, pox_state = ''pending'', pox_revision = 1,
      pox_next_attempt_unix_ms = Some committed, pox_lease_owner = None, pox_lease_expires_unix_ms = None,
      pox_created_at_unix_ms = committed, pox_updated_at_unix_ms = committed\<rparr>"

definition insert_target_row :: "bytes \<Rightarrow> presence_target \<Rightarrow> int \<Rightarrow> presence_target_row" where
  "insert_target_row ident target committed =
     \<lparr>ptx_outbox_id = ident, ptx_target_ordinal = int (pst_ordinal target), ptx_relay_id = pst_relay_id target,
      ptx_required = bool_i64 (pst_required target), ptx_state = ''pending'', ptx_revision = 1, ptx_attempt_count = 0,
      ptx_next_attempt_unix_ms = Some committed, ptx_last_attempt_id = None, ptx_updated_at_unix_ms = committed\<rparr>"

definition supersede_outbox_where :: "int \<Rightarrow> int \<Rightarrow> presence_outbox_row \<Rightarrow> bool" where
  "supersede_outbox_where generation now r \<longleftrightarrow>
     pox_desired_generation r \<noteq> generation \<and> pox_state r \<in> {''pending'', ''blocked''} \<and> pox_updated_at_unix_ms r \<le> now"

text \<open>Superseding, releasing and recovering set the same columns.\<close>

definition release_presence_set :: "string \<Rightarrow> int option \<Rightarrow> int \<Rightarrow> presence_outbox_row \<Rightarrow> presence_outbox_row" where
  "release_presence_set state next now r =
     r\<lparr>pox_state := state, pox_revision := pox_revision r + 1, pox_next_attempt_unix_ms := next,
       pox_lease_owner := None, pox_lease_expires_unix_ms := None, pox_updated_at_unix_ms := now\<rparr>"

definition claim_presence_where :: "bytes \<Rightarrow> int \<Rightarrow> int \<Rightarrow> presence_outbox_row \<Rightarrow> bool" where
  "claim_presence_where ident revision now r \<longleftrightarrow>
     pox_outbox_id r = ident \<and> pox_revision r = revision \<and> pox_state r = ''pending''
   \<and> sql_le (pox_next_attempt_unix_ms r) now \<and> pox_updated_at_unix_ms r \<le> now"

definition claim_presence_set :: "bytes \<Rightarrow> int \<Rightarrow> int \<Rightarrow> presence_outbox_row \<Rightarrow> presence_outbox_row" where
  "claim_presence_set owner expires now r =
     r\<lparr>pox_state := ''leased'', pox_revision := pox_revision r + 1, pox_next_attempt_unix_ms := None,
       pox_lease_owner := Some owner, pox_lease_expires_unix_ms := Some expires, pox_updated_at_unix_ms := now\<rparr>"

definition prepare_presence_where :: "bytes \<Rightarrow> int \<Rightarrow> int \<Rightarrow> int \<Rightarrow> int \<Rightarrow> presence_target_row \<Rightarrow> bool" where
  "prepare_presence_where ident ordinal revision maximum started r \<longleftrightarrow>
     ptx_outbox_id r = ident \<and> ptx_target_ordinal r = ordinal \<and> ptx_revision r = revision
   \<and> ptx_state r \<in> {''pending'', ''failed'', ''rate_limited'', ''unknown''}
   \<and> ptx_attempt_count r < maximum \<and> sql_le (ptx_next_attempt_unix_ms r) started
   \<and> ptx_updated_at_unix_ms r \<le> started"

definition prepare_presence_set :: "bytes \<Rightarrow> int \<Rightarrow> presence_target_row \<Rightarrow> presence_target_row" where
  "prepare_presence_set ident started r =
     r\<lparr>ptx_state := ''submitted'', ptx_revision := ptx_revision r + 1, ptx_attempt_count := ptx_attempt_count r + 1,
       ptx_next_attempt_unix_ms := None, ptx_last_attempt_id := Some ident, ptx_updated_at_unix_ms := started\<rparr>"

definition presence_outcome_where :: "bytes \<Rightarrow> int \<Rightarrow> int \<Rightarrow> int \<Rightarrow> bytes \<Rightarrow> presence_target_row \<Rightarrow> bool" where
  "presence_outcome_where outbox ordinal revision number ident r \<longleftrightarrow>
     ptx_outbox_id r = outbox \<and> ptx_target_ordinal r = ordinal \<and> ptx_revision r = revision
   \<and> ptx_state r = ''submitted'' \<and> ptx_attempt_count r = number \<and> ptx_last_attempt_id r = Some ident"

definition presence_outcome_set :: "string \<Rightarrow> int option \<Rightarrow> int \<Rightarrow> presence_target_row \<Rightarrow> presence_target_row" where
  "presence_outcome_set state next finished r =
     r\<lparr>ptx_state := state, ptx_revision := ptx_revision r + 1, ptx_next_attempt_unix_ms := next,
       ptx_updated_at_unix_ms := finished\<rparr>"

definition leased_presence_where :: "bytes \<Rightarrow> int \<Rightarrow> bytes \<Rightarrow> int \<Rightarrow> int \<Rightarrow> presence_outbox_row \<Rightarrow> bool" where
  "leased_presence_where ident revision owner expires now r \<longleftrightarrow>
     pox_outbox_id r = ident \<and> pox_revision r = revision \<and> pox_state r = ''leased''
   \<and> pox_lease_owner r = Some owner \<and> pox_lease_expires_unix_ms r = Some expires \<and> pox_updated_at_unix_ms r \<le> now"

definition presence_after_attempt_where :: "bytes \<Rightarrow> int \<Rightarrow> bytes \<Rightarrow> int \<Rightarrow> int \<Rightarrow> presence_outbox_row \<Rightarrow> bool" where
  "presence_after_attempt_where ident revision owner expires now r \<longleftrightarrow>
     leased_presence_where ident revision owner expires now r \<and> sql_gt (pox_lease_expires_unix_ms r) now"

definition presence_recovery_where :: "bytes \<Rightarrow> int \<Rightarrow> bytes \<Rightarrow> int \<Rightarrow> int \<Rightarrow> presence_outbox_row \<Rightarrow> bool" where
  "presence_recovery_where ident revision owner expires now r \<longleftrightarrow>
     leased_presence_where ident revision owner expires now r \<and> sql_le (pox_lease_expires_unix_ms r) now"

definition insert_presence_attempt ::
  "presence_input \<Rightarrow> 'a presence_store_scheme \<Rightarrow> (presence_op_error, 'a presence_store_scheme) result" where
  "insert_presence_attempt input s =
     and_then (presence_i64_value (qi_started_at input)) (\<lambda>started.
     and_then (presence_i64_value (qi_finished_at input)) (\<lambda>finished.
       case sql_insert (\<lambda>_ _. True) (presence_attempts_valid (presence_target_rows s))
          \<lparr>pax_attempt_id = qi_attempt_id input, pax_outbox_id = qi_outbox_id input,
           pax_target_ordinal = int (qi_target_ordinal input), pax_attempt_number = int (qi_attempt_number input),
           pax_event_sha256 = qi_event_sha256 input, pax_lease_owner = qi_owner input,
           pax_started_at_unix_ms = started, pax_finished_at_unix_ms = finished,
           pax_outcome = presence_outcome_code (qi_outcome input),
           pax_result_code = presence_outcome_code (qi_outcome input)\<rparr> (presence_attempt_rows s) of
         None \<Rightarrow> Inl PopStorage
       | Some rows \<Rightarrow> Inr (s\<lparr>presence_attempt_rows := rows\<rparr>)))"

section \<open>Inventory and schedule\<close>

fun duplicate_presence_relay :: "presence_target_record list \<Rightarrow> bool" where
  "duplicate_presence_relay [] = False"
| "duplicate_presence_relay (t # ts) \<longleftrightarrow>
     list_ex (\<lambda>later. qt_relay_id later = qt_relay_id t) ts \<or> duplicate_presence_relay ts"

definition record_target :: "presence_target_record \<Rightarrow> presence_target" where
  "record_target t = \<lparr>pst_ordinal = qt_ordinal t, pst_relay_id = qt_relay_id t, pst_required = qt_required t\<rparr>"

definition operation_target_set_digest :: "(bytes \<Rightarrow> bytes) \<Rightarrow> presence_target list \<Rightarrow> (presence_op_error, bytes) result" where
  "operation_target_set_digest sha256 ts =
     and_then (ensure (presence_targets_sized ts) PopInvariant) (\<lambda>_.
       Inr (sha256 (PRESENCE_TARGET_SET_DOMAIN @ presence_target_bytes ts)))"

definition validate_presence_targets ::
  "(bytes \<Rightarrow> bytes) \<Rightarrow> presence_outbox_record \<Rightarrow> presence_target_record list \<Rightarrow> (presence_op_error, unit) result" where
  "validate_presence_targets sha256 outbox ts =
     (if length ts \<noteq> qo_target_count outbox \<or> ts = [] \<or> RHI_PRESENCE_DESIRED_MAX_TARGETS < length ts
         \<or> length (filter qt_required ts) \<noteq> qo_required_target_count outbox
         \<or> map qt_ordinal ts \<noteq> [0..<length ts] \<or> duplicate_presence_relay ts
      then Inl PopInvariant
      else and_then (operation_target_set_digest sha256 (map record_target ts)) (\<lambda>digest.
        if digest \<noteq> qo_target_set_sha256 outbox then Inl PopInvariant else Inr ()))"

fun presence_retryable_state :: "presence_target_state \<Rightarrow> bool" where
  "presence_retryable_state PtPending = True"
| "presence_retryable_state PtFailed = True"
| "presence_retryable_state PtRateLimited = True"
| "presence_retryable_state PtUnknown = True"
| "presence_retryable_state _ = False"

fun presence_retryable_outcome :: "presence_outcome \<Rightarrow> bool" where
  "presence_retryable_outcome PrRateLimited = True"
| "presence_retryable_outcome PrFailed = True"
| "presence_retryable_outcome PrUnknown = True"
| "presence_retryable_outcome _ = False"

definition presence_target_blocking :: "nat \<Rightarrow> presence_target_record \<Rightarrow> bool" where
  "presence_target_blocking maximum t \<longleftrightarrow>
     qt_state t = PtRejected \<or> qt_state t = PtAuthRequired
   \<or> (presence_retryable_state (qt_state t) \<and> maximum \<le> qt_attempt_count t \<and> qt_next_attempt t = None)"

definition presence_target_due :: "nat \<Rightarrow> nat \<Rightarrow> presence_target_record \<Rightarrow> bool" where
  "presence_target_due maximum now t \<longleftrightarrow>
     presence_retryable_state (qt_state t) \<and> qt_attempt_count t < maximum
   \<and> (case qt_next_attempt t of None \<Rightarrow> False | Some next \<Rightarrow> next \<le> now)"

definition presence_dispose ::
  "(bytes \<Rightarrow> bytes) \<Rightarrow> presence_outbox_record \<Rightarrow> presence_target_record list
     \<Rightarrow> (presence_op_error, presence_disposition) result" where
  "presence_dispose sha256 outbox ts =
     and_then (validate_presence_targets sha256 outbox ts) (\<lambda>_.
       let required = filter qt_required ts in
       if list_all (\<lambda>t. qt_state t = PtAccepted) required
       then Inr \<lparr>pd_state = PoComplete, pd_next_attempt = None\<rparr>
       else if list_ex (presence_target_blocking (qo_max_attempts outbox)) required
       then Inr \<lparr>pd_state = PoBlocked, pd_next_attempt = None\<rparr>
       else and_then (ok_or PopInvariant (select_min id (List.map_filter qt_next_attempt required)))
         (\<lambda>next. Inr \<lparr>pd_state = PoPending, pd_next_attempt = Some next\<rparr>))"

fun presence_retry_loop :: "nat \<Rightarrow> nat \<Rightarrow> nat" where
  "presence_retry_loop bound 0 = bound"
| "presence_retry_loop bound (Suc turns) =
     presence_retry_loop (min (saturating_mul bound 2) MAXIMUM_BACKOFF_MILLISECONDS) turns"

definition presence_retry_upper_bound :: "nat \<Rightarrow> nat" where
  "presence_retry_upper_bound number =
     min (presence_retry_loop INITIAL_BACKOFF_MILLISECONDS (number - 1)) MAXIMUM_BACKOFF_MILLISECONDS"

fun presence_state_for_outcome :: "presence_outcome \<Rightarrow> (presence_op_error, presence_target_state) result" where
  "presence_state_for_outcome PrSubmitted = Inl PopInvalidInput"
| "presence_state_for_outcome PrAccepted = Inr PtAccepted"
| "presence_state_for_outcome PrRejected = Inr PtRejected"
| "presence_state_for_outcome PrRateLimited = Inr PtRateLimited"
| "presence_state_for_outcome PrAuthRequired = Inr PtAuthRequired"
| "presence_state_for_outcome PrFailed = Inr PtFailed"
| "presence_state_for_outcome PrUnknown = Inr PtUnknown"

definition presence_outcome_schedule ::
  "presence_input \<Rightarrow> (presence_op_error, presence_target_state \<times> nat option) result" where
  "presence_outcome_schedule input =
     and_then (presence_state_for_outcome (qi_outcome input)) (\<lambda>state.
     if presence_retryable_outcome (qi_outcome input) \<and> qi_attempt_number input < RHI_PRESENCE_MAX_ATTEMPTS
     then if presence_retry_upper_bound (qi_attempt_number input) < qi_retry_delay input then Inl PopInvalidInput
          else and_then (ok_or PopInvalidInput (option_filter (\<lambda>v. v \<le> i64_max)
                 (checked_add (qi_finished_at input) (qi_retry_delay input)))) (\<lambda>next. Inr (state, Some next))
     else if qi_retry_delay input \<noteq> 0 then Inl PopInvalidInput
     else Inr (state, None))"

definition same_presence_identity :: "presence_outbox_record \<Rightarrow> presence_outbox_record \<Rightarrow> bool" where
  "same_presence_identity current prior \<longleftrightarrow>
     qo_id current = qo_id prior \<and> qo_desired_generation current = qo_desired_generation prior
   \<and> qo_document_kind current = qo_document_kind prior \<and> qo_desired_sha256 current = qo_desired_sha256 prior
   \<and> qo_target_set_sha256 current = qo_target_set_sha256 prior \<and> qo_event_id current = qo_event_id prior
   \<and> qo_event_sha256 current = qo_event_sha256 prior
   \<and> qo_exact_signed_event_bytes current = qo_exact_signed_event_bytes prior
   \<and> qo_authored_at current = qo_authored_at prior \<and> qo_service_public_key current = qo_service_public_key prior
   \<and> qo_target_count current = qo_target_count prior
   \<and> qo_required_target_count current = qo_required_target_count prior
   \<and> qo_max_attempts current = qo_max_attempts prior \<and> qo_created_at current = qo_created_at prior"

definition same_presence_outbox :: "presence_outbox_record \<Rightarrow> presence_outbox_record \<Rightarrow> bool" where
  "same_presence_outbox current prior \<longleftrightarrow>
     same_presence_identity current prior \<and> qo_state current = qo_state prior \<and> qo_revision current = qo_revision prior
   \<and> qo_next_attempt current = qo_next_attempt prior \<and> qo_lease_owner current = qo_lease_owner prior
   \<and> qo_lease_expires current = qo_lease_expires prior \<and> qo_updated_at current = qo_updated_at prior
   \<and> qo_targets current = qo_targets prior"

section \<open>The desired generation and the lease\<close>

definition desired_matches_outbox :: "desired_state \<Rightarrow> presence_outbox_record \<Rightarrow> bool" where
  "desired_matches_outbox desired outbox \<longleftrightarrow>
     dst_mode desired = PresenceEnabled \<and> dst_generation desired = qo_desired_generation outbox
   \<and> dst_desired_sha256 desired = qo_desired_sha256 outbox
   \<and> dst_target_set_sha256 desired = qo_target_set_sha256 outbox
   \<and> dst_target_count desired = qo_target_count outbox
   \<and> dst_required_target_count desired = qo_required_target_count outbox
   \<and> list_ex (\<lambda>kind. kind = qo_document_kind outbox) (binding_document_kinds desired)"

definition validate_current_desired ::
  "presence_outbox_record \<Rightarrow> 'a presence_store_scheme \<Rightarrow> (presence_op_error, unit) result" where
  "validate_current_desired outbox s =
     and_then (read_desired_binding s) (\<lambda>desired.
       if \<not> desired_matches_outbox desired outbox then Inl PopDesiredStateMismatch else Inr ())"

definition presence_validate_lease ::
  "(bytes \<Rightarrow> bytes) \<Rightarrow> (string \<Rightarrow> bool) \<Rightarrow> presence_lease \<Rightarrow> nat \<Rightarrow> bool \<Rightarrow> 'a presence_store_scheme
     \<Rightarrow> (presence_op_error, unit) result" where
  "presence_validate_lease sha256 key_ok lease now require_unexpired s =
     and_then (read_presence_outbox sha256 key_ok (qo_id (ql_outbox lease)) s) (\<lambda>found.
     and_then (ok_or PopLeaseLost (option_filter (\<lambda>current. same_presence_outbox current (ql_outbox lease)) found)) (\<lambda>current.
     and_then (validate_current_desired current s) (\<lambda>_.
       if qo_state current \<noteq> PoLeased \<or> qo_lease_owner current \<noteq> Some (ql_owner lease)
          \<or> qo_lease_expires current \<noteq> Some (ql_expires_at lease)
          \<or> (require_unexpired \<and> ql_expires_at lease \<le> now)
       then Inl PopLeaseLost else Inr ())))"

definition presence_validate_input_lease ::
  "(bytes \<Rightarrow> bytes) \<Rightarrow> (string \<Rightarrow> bool) \<Rightarrow> presence_input \<Rightarrow> bool \<Rightarrow> 'a presence_store_scheme
     \<Rightarrow> (presence_op_error, unit) result" where
  "presence_validate_input_lease sha256 key_ok input require_unexpired s =
     and_then (read_presence_outbox sha256 key_ok (qi_outbox_id input) s) (\<lambda>found.
     and_then (ok_or PopLeaseLost found) (\<lambda>current.
     and_then (validate_current_desired current s) (\<lambda>_.
       if qo_revision current \<noteq> qi_outbox_revision input \<or> qo_event_sha256 current \<noteq> qi_event_sha256 input
          \<or> qo_state current \<noteq> PoLeased \<or> qo_lease_owner current \<noteq> Some (qi_owner input)
          \<or> qo_lease_expires current \<noteq> Some (qi_lease_expires input)
          \<or> (require_unexpired \<and> qi_lease_expires input \<le> qi_finished_at input)
       then Inl PopLeaseLost else Inr ())))"

section \<open>Committing the signed documents\<close>

fun validate_document_list ::
  "(bytes \<Rightarrow> bytes) \<Rightarrow> ('b, 'e) presence_crate \<Rightarrow> string \<Rightarrow> (signed_document \<times> presence_kind) list
     \<Rightarrow> (presence_op_error, unit) result" where
  "validate_document_list sha256 crate key [] = Inr ()"
| "validate_document_list sha256 crate key ((document, kind) # rest) =
     (if sd_kind document \<noteq> kind \<or> sd_signed_event_bytes document = []
         \<or> RHI_PRESENCE_SIGNED_EVENT_MAX_BYTES < length (sd_signed_event_bytes document)
         \<or> sha256 (sd_signed_event_bytes document) \<noteq> sd_signed_event_sha256 document
      then Inl PopVerificationFailed else
     and_then (map_err (\<lambda>_. PopVerificationFailed) (validate_signed_document crate (sd_kind document) key
       (sd_created_at document) (sd_signed_event_bytes document))) (\<lambda>event.
     if ee_id event \<noteq> sd_event_id document then Inl PopVerificationFailed
     else validate_document_list sha256 crate key rest))"

text \<open>
  The disjunction of the source reads the digest only after the comparisons before it are false.
\<close>

definition validate_document_set ::
  "(bytes \<Rightarrow> bytes) \<Rightarrow> (string \<Rightarrow> bool) \<Rightarrow> ('b, 'e) presence_crate \<Rightarrow> signed_documents \<Rightarrow> desired_state
     \<Rightarrow> (presence_op_error, unit) result" where
  "validate_document_set sha256 key_ok crate documents desired =
     (if ss_desired_state documents \<noteq> desired
         \<or> length (ss_targets documents) \<noteq> dst_target_count desired
         \<or> length (ss_documents documents) \<noteq> length (binding_document_kinds desired)
      then Inl PopDesiredStateMismatch
      else and_then (operation_target_set_digest sha256 (ss_targets documents)) (\<lambda>digest.
        if digest \<noteq> dst_target_set_sha256 desired \<or> \<not> valid_public_key key_ok (ss_service_public_key documents)
        then Inl PopDesiredStateMismatch
        else validate_document_list sha256 crate (ss_service_public_key documents)
          (zip (ss_documents documents) (binding_document_kinds desired))))"

definition outbox_matches_document ::
  "(bytes \<Rightarrow> bytes) \<Rightarrow> signed_documents \<Rightarrow> signed_document \<Rightarrow> presence_outbox_record \<Rightarrow> bool" where
  "outbox_matches_document sha256 documents document outbox \<longleftrightarrow>
     (let state = ss_desired_state documents in
      qo_desired_generation outbox = dst_generation state \<and> qo_desired_sha256 outbox = dst_desired_sha256 state
    \<and> qo_target_set_sha256 outbox = dst_target_set_sha256 state \<and> qo_target_count outbox = dst_target_count state
    \<and> qo_required_target_count outbox = dst_required_target_count state
    \<and> qo_id outbox = derive_outbox_id sha256 (qo_desired_generation outbox) (sd_kind document)
        (qo_desired_sha256 outbox) (sd_signed_event_sha256 document)
    \<and> sd_kind document = qo_document_kind outbox \<and> sd_event_id document = qo_event_id outbox
    \<and> sd_signed_event_sha256 document = qo_event_sha256 outbox
    \<and> sd_signed_event_bytes document = qo_exact_signed_event_bytes outbox
    \<and> sd_created_at document = qo_authored_at outbox \<and> ss_service_public_key documents = qo_service_public_key outbox
    \<and> \<not> list_ex (\<lambda>(expected, actual). pst_ordinal expected \<noteq> qt_ordinal actual
         \<or> pst_relay_id expected \<noteq> qt_relay_id actual \<or> pst_required expected \<noteq> qt_required actual)
         (zip (ss_targets documents) (qo_targets outbox)))"

fun generation_matches_each ::
  "(bytes \<Rightarrow> bytes) \<Rightarrow> signed_documents \<Rightarrow> (signed_document \<times> presence_outbox_record) list
     \<Rightarrow> (presence_op_error, bool) result" where
  "generation_matches_each sha256 documents [] = Inr True"
| "generation_matches_each sha256 documents ((document, outbox) # rest) =
     (if \<not> outbox_matches_document sha256 documents document outbox then Inr False
      else and_then (validate_presence_targets sha256 outbox (qo_targets outbox)) (\<lambda>_.
        generation_matches_each sha256 documents rest))"

definition generation_matches ::
  "(bytes \<Rightarrow> bytes) \<Rightarrow> signed_documents \<Rightarrow> presence_outbox_record list \<Rightarrow> (presence_op_error, bool) result" where
  "generation_matches sha256 documents current =
     (if length (ss_documents documents) \<noteq> length current then Inr False
      else generation_matches_each sha256 documents (zip (ss_documents documents) current))"

text \<open>\<open>READ_MAX_AUTHORED_SQL\<close>: the aggregate is one row, \<open>NULL\<close> for no outbox of the kind.\<close>

definition max_authored :: "presence_kind \<Rightarrow> 'a presence_store_scheme \<Rightarrow> int option" where
  "max_authored kind s =
     (case filter (\<lambda>r. pox_document_kind r = presence_kind_code kind) (presence_outboxes s) of
        [] \<Rightarrow> None
      | r # rs \<Rightarrow> Some (fold max (map pox_authored_at_unix_s rs) (pox_authored_at_unix_s r)))"

fun authored_later ::
  "signed_document list \<Rightarrow> 'a presence_store_scheme \<Rightarrow> (presence_op_error, unit) result" where
  "authored_later [] s = Inr ()"
| "authored_later (document # rest) s =
     (case max_authored (sd_kind document) s of
        None \<Rightarrow> authored_later rest s
      | Some previous \<Rightarrow>
          if previous < 0 then Inl PopInvariant
          else if sd_created_at document \<le> nat previous then Inl PopInvalidInput
          else authored_later rest s)"

definition stale_leases :: "int \<Rightarrow> 'a presence_store_scheme \<Rightarrow> nat" where
  "stale_leases generation s =
     length (filter (\<lambda>r. pox_desired_generation r \<noteq> generation \<and> pox_state r = ''leased'') (presence_outboxes s))"

fun insert_presence_targets ::
  "bytes \<Rightarrow> nat \<Rightarrow> presence_target list \<Rightarrow> 'a presence_store_scheme
     \<Rightarrow> (presence_op_error, 'a presence_store_scheme) result" where
  "insert_presence_targets ident committed [] s = Inr s"
| "insert_presence_targets ident committed (t # ts) s =
     and_then (presence_i64_value committed) (\<lambda>committed_ms.
     case sql_insert (\<lambda>_ _. True) (presence_targets_valid (presence_outboxes s))
        (insert_target_row ident t committed_ms) (presence_target_rows s) of
       None \<Rightarrow> Inl PopStorage
     | Some rows \<Rightarrow> insert_presence_targets ident committed ts (s\<lparr>presence_target_rows := rows\<rparr>))"

definition insert_presence_document ::
  "(bytes \<Rightarrow> bytes) \<Rightarrow> signed_documents \<Rightarrow> desired_state \<Rightarrow> nat \<Rightarrow> signed_document \<Rightarrow> 'a presence_store_scheme
     \<Rightarrow> (presence_op_error, 'a presence_store_scheme) result" where
  "insert_presence_document sha256 documents desired committed document s =
     (let ident = derive_outbox_id sha256 (dst_generation desired) (sd_kind document) (dst_desired_sha256 desired)
        (sd_signed_event_sha256 document) in
     and_then (presence_i64_value (dst_generation desired)) (\<lambda>generation.
     and_then (presence_i64_value (sd_created_at document)) (\<lambda>authored.
     and_then (presence_i64_value committed) (\<lambda>committed_ms.
     case sql_insert (\<lambda>_ _. True) presence_outboxes_valid
        (insert_outbox_row ident generation document desired authored (ss_service_public_key documents) committed_ms)
        (presence_outboxes s) of
       None \<Rightarrow> Inl PopStorage
     | Some rows \<Rightarrow> insert_presence_targets ident committed (ss_targets documents) (s\<lparr>presence_outboxes := rows\<rparr>)))))"

fun insert_presence_documents ::
  "(bytes \<Rightarrow> bytes) \<Rightarrow> signed_documents \<Rightarrow> desired_state \<Rightarrow> nat \<Rightarrow> signed_document list \<Rightarrow> 'a presence_store_scheme
     \<Rightarrow> (presence_op_error, 'a presence_store_scheme) result" where
  "insert_presence_documents sha256 documents desired committed [] s = Inr s"
| "insert_presence_documents sha256 documents desired committed (d # ds) s =
     and_then (insert_presence_document sha256 documents desired committed d s)
       (insert_presence_documents sha256 documents desired committed ds)"

definition commit_outcome_of :: "signed_documents \<Rightarrow> bool \<Rightarrow> (presence_op_error, presence_commit_outcome) result" where
  "commit_outcome_of documents changed =
     (if length (ss_documents documents) \<le> 255
      then Inr \<lparr>pco_desired_state = ss_desired_state documents, pco_document_count = length (ss_documents documents),
        pco_changed = changed\<rparr>
      else Inl PopInvariant)"

definition commit_signed ::
  "(bytes \<Rightarrow> bytes) \<Rightarrow> (string \<Rightarrow> bool) \<Rightarrow> ('b, 'e) presence_crate \<Rightarrow> signed_documents \<Rightarrow> nat \<Rightarrow> 'a presence_store_scheme
     \<Rightarrow> (presence_op_error, presence_commit_outcome \<times> 'a presence_store_scheme) result" where
  "commit_signed sha256 key_ok crate documents committed s =
     and_then (read_desired_binding s) (\<lambda>desired.
     and_then (validate_document_set sha256 key_ok crate documents desired) (\<lambda>_.
     and_then (read_generation_outboxes sha256 key_ok (dst_generation desired) s) (\<lambda>current.
     and_then (if current \<noteq> [] then generation_matches sha256 documents current else Inr False) (\<lambda>present.
     if present then and_then (commit_outcome_of documents False) (\<lambda>out. Inr (out, s))
     else if current \<noteq> [] then Inl PopInvariant
     else
       and_then (if dst_mode (ss_desired_state documents) = PresenceEnabled
         then authored_later (ss_documents documents) s else Inr ()) (\<lambda>_.
       and_then (presence_i64_value (dst_generation desired)) (\<lambda>generation.
       if stale_leases generation s \<noteq> 0 then Inl PopNotReady
       else
         and_then (presence_i64_value committed) (\<lambda>committed_ms.
         and_then (update_presence_outboxes (supersede_outbox_where generation committed_ms)
           (release_presence_set ''superseded'' None committed_ms) s) (\<lambda>(s, superseded).
         and_then (insert_presence_documents sha256 documents desired committed (ss_documents documents) s) (\<lambda>s.
         and_then (read_generation_outboxes sha256 key_ok (dst_generation desired) s) (\<lambda>stored.
         and_then (generation_matches sha256 documents stored) (\<lambda>matching.
         if \<not> matching then Inl PopInvariant
         else and_then (commit_outcome_of documents (ss_documents documents \<noteq> [] \<or> superseded \<noteq> 0)) (\<lambda>out.
           Inr (out, s)))))))))))))"

section \<open>Claiming and preparing\<close>

definition presence_claim_next ::
  "(bytes \<Rightarrow> bytes) \<Rightarrow> (string \<Rightarrow> bool) \<Rightarrow> bytes \<Rightarrow> nat \<Rightarrow> 'a presence_store_scheme
     \<Rightarrow> (presence_op_error, presence_lease option \<times> 'a presence_store_scheme) result" where
  "presence_claim_next sha256 key_ok owner now s =
     and_then (presence_i64_value now) (\<lambda>now_ms.
     case read_claimable_presence now_ms s of
       None \<Rightarrow> Inr (None, s)
     | Some row \<Rightarrow>
         and_then (presence_blob 32 (pox_outbox_id row)) (\<lambda>ident.
         and_then (read_presence_outbox sha256 key_ok ident s) (\<lambda>found.
         and_then (ok_or PopInvariant found) (\<lambda>outbox.
         and_then (validate_current_desired outbox s) (\<lambda>_.
         and_then (validate_presence_targets sha256 outbox (qo_targets outbox)) (\<lambda>_.
         and_then (ok_or PopInvalidInput (option_filter (\<lambda>v. v \<le> i64_max)
           (checked_add now ATTEMPT_DEADLINE_MILLISECONDS))) (\<lambda>expires.
         and_then (presence_i64_value expires) (\<lambda>expires_ms.
         and_then (presence_i64_value (qo_revision outbox)) (\<lambda>revision.
         and_then (update_presence_outboxes (claim_presence_where (qo_id outbox) revision now_ms)
           (claim_presence_set owner expires_ms now_ms) s) (\<lambda>(s, n).
           if n \<noteq> 1 then Inl PopLeaseLost
           else and_then (read_presence_outbox sha256 key_ok ident s) (\<lambda>found.
             and_then (ok_or PopInvariant (option_filter (\<lambda>r. qo_state r = PoLeased
               \<and> qo_lease_owner r = Some owner \<and> qo_lease_expires r = Some expires) found)) (\<lambda>leased.
               Inr (Some \<lparr>ql_outbox = leased, ql_owner = owner, ql_expires_at = expires\<rparr>, s)))))))))))))"

definition submit_presence_target ::
  "(bytes \<Rightarrow> bytes) \<Rightarrow> (string \<Rightarrow> bool) \<Rightarrow> presence_lease \<Rightarrow> nat \<Rightarrow> presence_target_record \<Rightarrow> nat \<Rightarrow> bytes
     \<Rightarrow> 'a presence_store_scheme \<Rightarrow> (presence_op_error, presence_target_record \<times> 'a presence_store_scheme) result" where
  "submit_presence_target sha256 key_ok lease started candidate number ident s =
     and_then (presence_i64_value started) (\<lambda>started_ms.
     and_then (presence_i64_value (qt_revision candidate)) (\<lambda>revision.
     and_then (update_presence_targets
       (prepare_presence_where (qo_id (ql_outbox lease)) (int (qt_ordinal candidate)) revision
         (int (qo_max_attempts (ql_outbox lease))) started_ms)
       (prepare_presence_set ident started_ms) s) (\<lambda>(s, n).
       if n \<noteq> 1 then Inl PopLeaseLost
       else and_then (read_presence_outbox sha256 key_ok (qo_id (ql_outbox lease)) s) (\<lambda>found.
         and_then (ok_or PopInvariant found) (\<lambda>current.
         if \<not> same_presence_identity current (ql_outbox lease) then Inl PopLeaseLost
         else and_then (ok_or PopInvariant (option_filter (\<lambda>t. qt_state t = PtSubmitted
           \<and> qt_attempt_count t = number \<and> qt_last_attempt_id t = Some ident \<and> qt_updated_at t = started)
           (find (\<lambda>t. qt_ordinal t = qt_ordinal candidate) (qo_targets current)))) (\<lambda>t. Inr (t, s)))))))"

definition presence_prepare_next ::
  "(bytes \<Rightarrow> bytes) \<Rightarrow> (string \<Rightarrow> bool) \<Rightarrow> ('b, 'e) presence_crate \<Rightarrow> presence_lease \<Rightarrow> nat \<Rightarrow> 'a presence_store_scheme
     \<Rightarrow> (presence_op_error, prepared_presence \<times> 'a presence_store_scheme) result" where
  "presence_prepare_next sha256 key_ok crate lease started s =
     (let outbox = ql_outbox lease in
     and_then (presence_validate_lease sha256 key_ok lease started True s) (\<lambda>_.
     and_then (ok_or PopNotReady (find (presence_target_due (qo_max_attempts outbox) started) (qo_targets outbox))) (\<lambda>candidate.
     and_then (ok_or PopInvariant (option_filter (\<lambda>v. v \<le> qo_max_attempts outbox)
       (if qt_attempt_count candidate + 1 \<le> 65535 then Some (qt_attempt_count candidate + 1) else None))) (\<lambda>number.
     (let ident = presence_attempt_id sha256 (qo_id outbox) (qo_event_sha256 outbox) (qt_ordinal candidate) number in
     and_then (submit_presence_target sha256 key_ok lease started candidate number ident s) (\<lambda>(target, s).
     and_then (map_err (\<lambda>_. PopInvariant) (validate_signed_document crate (qo_document_kind outbox)
       (qo_service_public_key outbox) (qo_authored_at outbox) (qo_exact_signed_event_bytes outbox))) (\<lambda>_.
       Inr (\<lparr>qp_lease = lease, qp_target = target, qp_attempt_id = ident, qp_started_at = started,
         qp_deadline_at = ql_expires_at lease, qp_exact_signed_event_bytes = qo_exact_signed_event_bytes outbox\<rparr>, s))))))))"

section \<open>Recording and recovery\<close>

definition presence_attempt_from_input :: "presence_input \<Rightarrow> presence_attempt_record" where
  "presence_attempt_from_input input =
     \<lparr>qa_attempt_id = qi_attempt_id input, qa_outbox_id = qi_outbox_id input, qa_target_ordinal = qi_target_ordinal input,
      qa_attempt_number = qi_attempt_number input, qa_event_sha256 = qi_event_sha256 input, qa_owner = qi_owner input,
      qa_started_at = qi_started_at input, qa_finished_at = qi_finished_at input, qa_outcome = qi_outcome input\<rparr>"

definition presence_reconcile_recorded ::
  "(bytes \<Rightarrow> bytes) \<Rightarrow> (string \<Rightarrow> bool) \<Rightarrow> presence_input \<Rightarrow> presence_attempt_record \<Rightarrow> 'a presence_store_scheme
     \<Rightarrow> (presence_op_error, presence_attempt_commit) result" where
  "presence_reconcile_recorded sha256 key_ok input existing s =
     and_then (ensure (existing = presence_attempt_from_input input) PopInvariant) (\<lambda>_.
     and_then (read_presence_outbox sha256 key_ok (qi_outbox_id input) s) (\<lambda>found.
     and_then (ok_or PopInvariant found) (\<lambda>outbox.
     and_then (ok_or PopInvariant (checked_add (qi_outbox_revision input) 1)) (\<lambda>revision.
     and_then (ensure (qo_revision outbox = revision \<and> qo_updated_at outbox = qi_finished_at input
         \<and> qo_lease_owner outbox = None \<and> qo_lease_expires outbox = None
         \<and> qo_event_sha256 outbox = qi_event_sha256 input) PopInvariant) (\<lambda>_.
     and_then (validate_presence_targets sha256 outbox (qo_targets outbox)) (\<lambda>_.
     and_then (presence_outcome_schedule input) (\<lambda>(expected_state, expected_next).
     and_then (ok_or PopInvariant (checked_add (qi_target_revision input) 1)) (\<lambda>target_revision.
     and_then (ok_or PopInvariant (option_filter (\<lambda>t. qt_revision t = target_revision
         \<and> qt_attempt_count t = qi_attempt_number input \<and> qt_last_attempt_id t = Some (qi_attempt_id input)
         \<and> qt_state t = expected_state \<and> qt_next_attempt t = expected_next \<and> qt_updated_at t = qi_finished_at input)
       (find (\<lambda>t. qt_ordinal t = qi_target_ordinal input) (qo_targets outbox)))) (\<lambda>target.
     and_then (presence_dispose sha256 outbox (qo_targets outbox)) (\<lambda>expected.
       if qo_state outbox \<noteq> pd_state expected \<or> qo_next_attempt outbox \<noteq> pd_next_attempt expected
       then Inl PopInvariant
       else Inr \<lparr>qc_outbox_id = qo_id outbox, qc_attempt_id = qi_attempt_id input,
         qc_target_ordinal = qi_target_ordinal input, qc_attempt_number = qi_attempt_number input,
         qc_outcome = qi_outcome input, qc_target_state = qt_state target, qc_outbox_state = qo_state outbox\<rparr>))))))))))"

text \<open>Recording and recovery insert the evidence and settle the target alike.\<close>

definition settle_presence_target ::
  "presence_input \<Rightarrow> 'a presence_store_scheme
     \<Rightarrow> (presence_op_error, presence_target_state \<times> 'a presence_store_scheme) result" where
  "settle_presence_target input s =
     and_then (insert_presence_attempt input s) (\<lambda>s.
     and_then (presence_outcome_schedule input) (\<lambda>(next_state, next_attempt).
     and_then (presence_optional_i64 next_attempt) (\<lambda>next_ms.
     and_then (presence_i64_value (qi_finished_at input)) (\<lambda>finished.
     and_then (presence_i64_value (qi_target_revision input)) (\<lambda>revision.
     and_then (update_presence_targets
       (presence_outcome_where (qi_outbox_id input) (int (qi_target_ordinal input)) revision
         (int (qi_attempt_number input)) (qi_attempt_id input))
       (presence_outcome_set (presence_target_state_code next_state) next_ms finished) s) (\<lambda>(s, n).
       if n \<noteq> 1 then Inl PopLeaseLost else Inr (next_state, s)))))))"

definition release_presence ::
  "(bytes \<Rightarrow> int \<Rightarrow> bytes \<Rightarrow> int \<Rightarrow> int \<Rightarrow> presence_outbox_row \<Rightarrow> bool) \<Rightarrow> bytes \<Rightarrow> nat \<Rightarrow> bytes \<Rightarrow> nat \<Rightarrow> nat
     \<Rightarrow> presence_disposition \<Rightarrow> 'a presence_store_scheme \<Rightarrow> (presence_op_error, 'a presence_store_scheme) result" where
  "release_presence released_where ident revision owner expires now disp s =
     and_then (presence_optional_i64 (pd_next_attempt disp)) (\<lambda>next_ms.
     and_then (presence_i64_value now) (\<lambda>now_ms.
     and_then (presence_i64_value revision) (\<lambda>revision.
     and_then (presence_i64_value expires) (\<lambda>expires_ms.
     and_then (update_presence_outboxes (released_where ident revision owner expires_ms now_ms)
       (release_presence_set (presence_outbox_state_code (pd_state disp)) next_ms now_ms) s) (\<lambda>(s, n).
       if n \<noteq> 1 then Inl PopLeaseLost else Inr s)))))"

definition presence_record_outcome ::
  "(bytes \<Rightarrow> bytes) \<Rightarrow> (string \<Rightarrow> bool) \<Rightarrow> presence_input \<Rightarrow> 'a presence_store_scheme
     \<Rightarrow> (presence_op_error, presence_attempt_commit \<times> 'a presence_store_scheme) result" where
  "presence_record_outcome sha256 key_ok input s =
     and_then (read_presence_attempt (qi_attempt_id input) s) (\<lambda>recorded.
     case recorded of
       Some existing \<Rightarrow>
         and_then (presence_reconcile_recorded sha256 key_ok input existing s) (\<lambda>commit. Inr (commit, s))
     | None \<Rightarrow>
         and_then (presence_validate_input_lease sha256 key_ok input True s) (\<lambda>_.
         and_then (read_presence_outbox sha256 key_ok (qi_outbox_id input) s) (\<lambda>found.
         and_then (ok_or PopInvariant found) (\<lambda>outbox.
         and_then (ok_or PopInvariant (find (\<lambda>t. qt_ordinal t = qi_target_ordinal input) (qo_targets outbox))) (\<lambda>target.
         and_then (ensure (qt_state target = PtSubmitted \<and> qt_revision target = qi_target_revision input
             \<and> qt_attempt_count target = qi_attempt_number input
             \<and> qt_last_attempt_id target = Some (qi_attempt_id input)
             \<and> qt_updated_at target = qi_started_at input) PopLeaseLost) (\<lambda>_.
         and_then (settle_presence_target input s) (\<lambda>(next_state, s).
         and_then (read_presence_targets (qi_outbox_id input) s) (\<lambda>ts.
         and_then (presence_dispose sha256 outbox ts) (\<lambda>disp.
         and_then (release_presence presence_after_attempt_where (qi_outbox_id input) (qi_outbox_revision input)
           (qi_owner input) (qi_lease_expires input) (qi_finished_at input) disp s) (\<lambda>s.
           Inr (\<lparr>qc_outbox_id = qi_outbox_id input, qc_attempt_id = qi_attempt_id input,
             qc_target_ordinal = qi_target_ordinal input, qc_attempt_number = qi_attempt_number input,
             qc_outcome = qi_outcome input, qc_target_state = next_state, qc_outbox_state = pd_state disp\<rparr>, s)))))))))))"

definition read_expired_presence_candidate ::
  "(bytes \<Rightarrow> bytes) \<Rightarrow> (string \<Rightarrow> bool) \<Rightarrow> nat \<Rightarrow> 'a presence_store_scheme
     \<Rightarrow> (presence_op_error, presence_recovery option) result" where
  "read_expired_presence_candidate sha256 key_ok now s =
     and_then (presence_i64_value now) (\<lambda>now_ms.
     case read_expired_presence now_ms s of
       None \<Rightarrow> Inr None
     | Some row \<Rightarrow>
         and_then (presence_blob 32 (pox_outbox_id row)) (\<lambda>ident.
         and_then (read_presence_outbox sha256 key_ok ident s) (\<lambda>found.
         and_then (ok_or PopInvariant found) (\<lambda>outbox.
         and_then (read_desired_binding s) (\<lambda>desired.
         (let current_desired = desired_matches_outbox desired outbox in
         and_then (validate_presence_targets sha256 outbox (qo_targets outbox)) (\<lambda>_.
         let submitted = map qt_attempt_count (filter (\<lambda>t. qt_state t = PtSubmitted) (qo_targets outbox)) in
         if 1 < length submitted then Inl PopInvariant
         else Inr (Some \<lparr>pv_outbox = outbox, pv_retry_upper_bound =
           (if current_desired
            then (case submitted of
                [] \<Rightarrow> 0
              | number # _ \<Rightarrow> if number < qo_max_attempts outbox then presence_retry_upper_bound number else 0)
            else 0), pv_current_desired = current_desired\<rparr>)))))))) "

definition recover_presence_target ::
  "presence_outbox_record \<Rightarrow> bytes \<Rightarrow> nat \<Rightarrow> nat \<Rightarrow> nat \<Rightarrow> presence_target_record \<Rightarrow> 'a presence_store_scheme
     \<Rightarrow> (presence_op_error, 'a presence_store_scheme) result" where
  "recover_presence_target current owner expires now delay target s =
     and_then (ok_or PopInvariant (qt_last_attempt_id target)) (\<lambda>ident.
     and_then (read_presence_attempt ident s) (\<lambda>recorded.
     and_then (ensure (recorded = None) PopInvariant) (\<lambda>_.
     and_then (settle_presence_target
       \<lparr>qi_outbox_id = qo_id current, qi_outbox_revision = qo_revision current, qi_event_sha256 = qo_event_sha256 current,
        qi_owner = owner, qi_lease_expires = expires, qi_target_ordinal = qt_ordinal target,
        qi_target_revision = qt_revision target, qi_attempt_number = qt_attempt_count target, qi_attempt_id = ident,
        qi_started_at = qt_updated_at target, qi_finished_at = now, qi_outcome = PrUnknown, qi_retry_delay = delay\<rparr> s)
       (\<lambda>(_, s). Inr s))))"

fun recover_presence_targets ::
  "presence_outbox_record \<Rightarrow> bytes \<Rightarrow> nat \<Rightarrow> nat \<Rightarrow> nat \<Rightarrow> presence_target_record list \<Rightarrow> 'a presence_store_scheme
     \<Rightarrow> (presence_op_error, 'a presence_store_scheme) result" where
  "recover_presence_targets current owner expires now delay [] s = Inr s"
| "recover_presence_targets current owner expires now delay (t # ts) s =
     and_then (recover_presence_target current owner expires now delay t s)
       (recover_presence_targets current owner expires now delay ts)"

definition presence_recover_expired ::
  "(bytes \<Rightarrow> bytes) \<Rightarrow> (string \<Rightarrow> bool) \<Rightarrow> presence_recovery \<Rightarrow> nat \<Rightarrow> nat \<Rightarrow> 'a presence_store_scheme
     \<Rightarrow> (presence_op_error, bool \<times> 'a presence_store_scheme) result" where
  "presence_recover_expired sha256 key_ok candidate now delay s =
     and_then (read_presence_outbox sha256 key_ok (qo_id (pv_outbox candidate)) s) (\<lambda>found.
     and_then (ok_or PopLeaseLost (option_filter (\<lambda>current. same_presence_outbox current (pv_outbox candidate)) found)) (\<lambda>current.
     if qo_state current \<noteq> PoLeased
        \<or> (case qo_lease_expires current of None \<Rightarrow> True | Some expires \<Rightarrow> now < expires)
     then Inl PopLeaseLost
     else and_then (ok_or PopInvariant (qo_lease_owner current)) (\<lambda>owner.
       and_then (ok_or PopInvariant (qo_lease_expires current)) (\<lambda>expires.
       and_then (recover_presence_targets current owner expires now delay
         (filter (\<lambda>t. qt_state t = PtSubmitted) (qo_targets current)) s) (\<lambda>s.
       and_then (read_presence_targets (qo_id current) s) (\<lambda>ts.
       and_then (if pv_current_desired candidate then presence_dispose sha256 current ts
         else Inr \<lparr>pd_state = PoSuperseded, pd_next_attempt = None\<rparr>) (\<lambda>disp.
       and_then (release_presence presence_recovery_where (qo_id current) (qo_revision current) owner expires now disp s) (\<lambda>s.
         Inr (True, s)))))))))"

end
