(* ===== verification/Presence_Executor.thy ===== *)
theory Presence_Executor
  imports Presence_Operations
begin

text \<open>
  The public operations of the presence outbox and \<open>execute_next_presence\<close> of \<open>src/src/presence_publication.rs\<close>,
  over the host's transactions, the wall clock, the entropy source and the injected sink.
\<close>

section \<open>Public operations\<close>

definition presence_require_writable :: "state_host_mode \<Rightarrow> (presence_error, unit) result" where
  "presence_require_writable mode = (if mode = ReadWriteExisting then Inr () else Inl PresInvalidMode)"

fun map_presence_error :: "presence_op_error tx_error \<Rightarrow> presence_error" where
  "map_presence_error CommitOutcomeUnknown = PresCommitOutcomeUnknown"
| "map_presence_error (OperationFailed PopInvalidInput) = PresInvalidInput"
| "map_presence_error (OperationFailed PopDesiredStateMismatch) = PresDesiredStateMismatch"
| "map_presence_error (OperationFailed PopVerificationFailed) = PresVerificationFailed"
| "map_presence_error (OperationFailed PopNotReady) = PresNotReady"
| "map_presence_error (OperationFailed PopLeaseLost) = PresLeaseLost"
| "map_presence_error (OperationFailed PopInvariant) = PresInvariant"
| "map_presence_error (OperationFailed PopStorage) = PresStorage"
| "map_presence_error HostFailed = PresStorage"

record presence_host =
  sh_mode :: state_host_mode
  sh_commit :: "(presence_op_error, presence_commit_outcome, presence_store) txn"
  sh_claim :: "(presence_op_error, presence_lease option, presence_store) txn"
  sh_prepare :: "(presence_op_error, prepared_presence, presence_store) txn"
  sh_record :: "(presence_op_error, presence_attempt_commit, presence_store) txn"
  sh_candidate :: "(presence_op_error, presence_recovery option, presence_store) txn"
  sh_recover :: "(presence_op_error, bool, presence_store) txn"

definition run_presence_txn ::
  "state_host_mode \<Rightarrow> (presence_op_error, 'a, presence_store) txn
     \<Rightarrow> (presence_store \<Rightarrow> (presence_op_error, 'a \<times> presence_store) result) \<Rightarrow> presence_store
     \<Rightarrow> (presence_error, 'a) result \<times> presence_store" where
  "run_presence_txn mode txn body s =
     (case presence_require_writable mode of
        Inl e \<Rightarrow> (Inl e, s)
      | Inr _ \<Rightarrow> (case txn body s of (r, s') \<Rightarrow> (map_err map_presence_error r, s')))"

text \<open>The digest, the key check and the presence crate, which every operation shares.\<close>

record ('b, 'e) presence_env =
  en_sha256 :: "bytes \<Rightarrow> bytes"
  en_key_ok :: "string \<Rightarrow> bool"
  en_crate :: "('b, 'e) presence_crate"

definition commit_signed_presence ::
  "presence_host \<Rightarrow> ('b, 'e) presence_env \<Rightarrow> signed_documents \<Rightarrow> nat \<Rightarrow> presence_store
     \<Rightarrow> (presence_error, presence_commit_outcome) result \<times> presence_store" where
  "commit_signed_presence host env documents committed s =
     run_presence_txn (sh_mode host) (sh_commit host)
       (commit_signed (en_sha256 env) (en_key_ok env) (en_crate env) documents committed) s"

definition claim_next_presence ::
  "presence_host \<Rightarrow> ('b, 'e) presence_env \<Rightarrow> bytes \<Rightarrow> nat \<Rightarrow> presence_store
     \<Rightarrow> (presence_error, presence_lease option) result \<times> presence_store" where
  "claim_next_presence host env owner now s =
     run_presence_txn (sh_mode host) (sh_claim host)
       (presence_claim_next (en_sha256 env) (en_key_ok env) owner now) s"

definition prepare_next_presence_target ::
  "presence_host \<Rightarrow> ('b, 'e) presence_env \<Rightarrow> presence_lease \<Rightarrow> nat \<Rightarrow> presence_store
     \<Rightarrow> (presence_error, prepared_presence) result \<times> presence_store" where
  "prepare_next_presence_target host env lease started s =
     run_presence_txn (sh_mode host) (sh_prepare host)
       (presence_prepare_next (en_sha256 env) (en_key_ok env) (en_crate env) lease started) s"

definition presence_input_from_prepared ::
  "(bytes \<Rightarrow> bytes) \<Rightarrow> prepared_presence \<Rightarrow> nat \<Rightarrow> presence_outcome \<Rightarrow> nat \<Rightarrow> (presence_error, presence_input) result" where
  "presence_input_from_prepared sha256 prepared finished outcome delay =
     (let outbox = ql_outbox (qp_lease prepared); target = qp_target prepared in
     if finished < qp_started_at prepared \<or> outcome = PrSubmitted then Inl PresInvalidInput
     else if presence_attempt_id sha256 (qo_id outbox) (qo_event_sha256 outbox) (qt_ordinal target) (qt_attempt_count target)
       \<noteq> qp_attempt_id prepared then Inl PresInvariant
     else Inr \<lparr>qi_outbox_id = qo_id outbox, qi_outbox_revision = qo_revision outbox, qi_event_sha256 = qo_event_sha256 outbox,
       qi_owner = ql_owner (qp_lease prepared), qi_lease_expires = ql_expires_at (qp_lease prepared),
       qi_target_ordinal = qt_ordinal target, qi_target_revision = qt_revision target,
       qi_attempt_number = qt_attempt_count target, qi_attempt_id = qp_attempt_id prepared,
       qi_started_at = qp_started_at prepared, qi_finished_at = finished, qi_outcome = outcome, qi_retry_delay = delay\<rparr>)"

definition record_presence_outcome ::
  "presence_host \<Rightarrow> ('b, 'e) presence_env \<Rightarrow> prepared_presence \<Rightarrow> nat \<Rightarrow> presence_outcome \<Rightarrow> nat \<Rightarrow> presence_store
     \<Rightarrow> (presence_error, presence_attempt_commit) result \<times> presence_store" where
  "record_presence_outcome host env prepared finished outcome delay s =
     (case presence_require_writable (sh_mode host) of
        Inl e \<Rightarrow> (Inl e, s)
      | Inr _ \<Rightarrow>
          (case presence_input_from_prepared (en_sha256 env) prepared finished outcome delay of
             Inl e \<Rightarrow> (Inl e, s)
           | Inr input \<Rightarrow> run_presence_txn (sh_mode host) (sh_record host)
               (presence_record_outcome (en_sha256 env) (en_key_ok env) input) s))"

section \<open>The executor\<close>

record 'w presence_world =
  sw_wall_clock :: "'w \<Rightarrow> nat option \<times> 'w"
  sw_fill_bytes :: "'w \<Rightarrow> bytes option \<times> 'w"
  sw_submit_exact :: "prepared_presence \<Rightarrow> 'w \<Rightarrow> presence_outcome \<times> 'w"

definition presence_now :: "nat option \<Rightarrow> (presence_error, nat) result" where
  "presence_now wall =
     and_then (map_err (\<lambda>_. PresClockUnavailable) (now_utc_milliseconds wall)) (\<lambda>v.
       map_err (\<lambda>_. PresClockUnavailable) (presence_unix_ms_new v))"

definition presence_sample_delay ::
  "('w \<Rightarrow> bytes option \<times> 'w) \<Rightarrow> nat \<Rightarrow> 'w \<Rightarrow> (presence_error, nat) result \<times> 'w" where
  "presence_sample_delay fill_bytes cap w =
     (if cap = 0 then (Inr 0, w)
      else (case jitter_bound_new (word_of_nat cap) of
          Inl _ \<Rightarrow> (Inl PresInvalidInput, w)
        | Inr bound \<Rightarrow>
            (case sample_full_jitter fill_bytes bound w of
               (Inl _, w') \<Rightarrow> (Inl PresEntropyUnavailable, w')
             | (Inr delay, w') \<Rightarrow> (Inr (unat delay), w'))))"

definition recover_one_expired_presence ::
  "presence_host \<Rightarrow> ('b, 'e) presence_env \<Rightarrow> 'w presence_world \<Rightarrow> nat \<Rightarrow> presence_store \<times> 'w
     \<Rightarrow> (presence_error, bool) result \<times> presence_store \<times> 'w" where
  "recover_one_expired_presence host env world now sw =
     (case sw of (s, w) \<Rightarrow>
      (case run_presence_txn (sh_mode host) (sh_candidate host)
         (\<lambda>s. and_then (read_expired_presence_candidate (en_sha256 env) (en_key_ok env) now s) (\<lambda>c. Inr (c, s))) s of
         (Inl e, s1) \<Rightarrow> (Inl e, s1, w)
       | (Inr None, s1) \<Rightarrow> (Inr False, s1, w)
       | (Inr (Some candidate), s1) \<Rightarrow>
           (case presence_sample_delay (sw_fill_bytes world) (pv_retry_upper_bound candidate) w of
              (Inl e, w1) \<Rightarrow> (Inl e, s1, w1)
            | (Inr delay, w1) \<Rightarrow>
                (case run_presence_txn (sh_mode host) (sh_recover host)
                   (presence_recover_expired (en_sha256 env) (en_key_ok env) candidate now delay) s1 of
                   (r, s2) \<Rightarrow> (r, s2, w1)))))"

definition presence_observed :: "presence_outcome \<Rightarrow> presence_outcome" where
  "presence_observed outcome = (if outcome = PrSubmitted then PrUnknown else outcome)"

text \<open>The part of \<open>execute_next_presence\<close> after a successful preparation.\<close>

definition presence_submit_and_record ::
  "presence_host \<Rightarrow> ('b, 'e) presence_env \<Rightarrow> 'w presence_world \<Rightarrow> prepared_presence \<Rightarrow> presence_store \<times> 'w
     \<Rightarrow> (presence_error, presence_attempt_commit) result \<times> presence_store \<times> 'w" where
  "presence_submit_and_record host env world prepared sw =
     (case sw of (s, w) \<Rightarrow>
      (case sw_submit_exact world prepared w of (reply, w1) \<Rightarrow>
       let outcome = presence_observed reply in
      (case sw_wall_clock world w1 of (wall, w2) \<Rightarrow>
      (case presence_now wall of
         Inl e \<Rightarrow> (Inl e, s, w2)
       | Inr finished \<Rightarrow>
           (case (if presence_retryable_outcome outcome
                  then presence_sample_delay (sw_fill_bytes world)
                    (presence_retry_upper_bound (qt_attempt_count (qp_target prepared))) w2
                  else (Inr 0, w2)) of
              (Inl e, w3) \<Rightarrow> (Inl e, s, w3)
            | (Inr delay, w3) \<Rightarrow>
                (case record_presence_outcome host env prepared finished outcome delay s of
                   (r, s1) \<Rightarrow> (r, s1, w3)))))))"

definition execute_next_presence ::
  "presence_host \<Rightarrow> ('b, 'e) presence_env \<Rightarrow> 'w presence_world \<Rightarrow> bytes \<Rightarrow> presence_store \<times> 'w
     \<Rightarrow> (presence_error, presence_attempt_commit option) result \<times> presence_store \<times> 'w" where
  "execute_next_presence host env world owner sw =
     (case sw of (s, w) \<Rightarrow>
      (case sw_wall_clock world w of (wall, w1) \<Rightarrow>
      (case presence_now wall of
         Inl e \<Rightarrow> (Inl e, s, w1)
       | Inr now \<Rightarrow>
      (case recover_one_expired_presence host env world now (s, w1) of
         (Inl e, s1, w2) \<Rightarrow> (Inl e, s1, w2)
       | (Inr _, s1, w2) \<Rightarrow>
      (case claim_next_presence host env owner now s1 of
         (Inl e, s2) \<Rightarrow> (Inl e, s2, w2)
       | (Inr None, s2) \<Rightarrow> (Inr None, s2, w2)
       | (Inr (Some lease), s2) \<Rightarrow>
      (case prepare_next_presence_target host env lease now s2 of
         (Inl e, s3) \<Rightarrow> (Inl e, s3, w2)
       | (Inr prepared, s3) \<Rightarrow>
           (case presence_submit_and_record host env world prepared (s3, w2) of
              (Inl e, s4, w3) \<Rightarrow> (Inl e, s4, w3)
            | (Inr commit, s4, w3) \<Rightarrow> (Inr (Some commit), s4, w3))))))))"

end
