(* ===== verification/Presence_Rules.thy ===== *)
theory Presence_Rules
  imports Presence_Executor
begin

text \<open>
  What the reads and the transaction bodies of the presence delivery say when they succeed.
\<close>

section \<open>Rows and records\<close>

text \<open>A decoded outbox repeats its row.\<close>

definition outbox_row_agrees :: "(bytes \<Rightarrow> bytes) \<Rightarrow> presence_outbox_row \<Rightarrow> presence_outbox_record \<Rightarrow> bool" where
  "outbox_row_agrees sha256 r b \<longleftrightarrow>
     pox_outbox_id r = qo_id b \<and> pox_desired_generation r = int (qo_desired_generation b)
   \<and> pox_document_kind r = presence_kind_code (qo_document_kind b) \<and> pox_desired_sha256 r = qo_desired_sha256 b
   \<and> pox_exact_signed_event_bytes r = qo_exact_signed_event_bytes b \<and> pox_event_sha256 r = qo_event_sha256 b
   \<and> pox_event_id r = qo_event_id b \<and> sha256 (qo_exact_signed_event_bytes b) = qo_event_sha256 b
   \<and> pox_state r = presence_outbox_state_code (qo_state b) \<and> pox_lease_owner r = qo_lease_owner b
   \<and> pox_lease_expires_unix_ms r = map_option int (qo_lease_expires b)
   \<and> pox_authored_at_unix_s r = int (qo_authored_at b) \<and> pox_service_public_key r = qo_service_public_key b"

definition target_row_agrees :: "presence_target_row \<Rightarrow> presence_target_record \<Rightarrow> bool" where
  "target_row_agrees r t \<longleftrightarrow>
     ptx_target_ordinal r = int (qt_ordinal t) \<and> ptx_relay_id r = qt_relay_id t
   \<and> ptx_required r = bool_i64 (qt_required t) \<and> ptx_state r = presence_target_state_code (qt_state t)
   \<and> ptx_revision r = int (qt_revision t) \<and> ptx_attempt_count r = int (qt_attempt_count t)
   \<and> ptx_next_attempt_unix_ms r = map_option int (qt_next_attempt t) \<and> ptx_last_attempt_id r = qt_last_attempt_id t
   \<and> ptx_updated_at_unix_ms r = int (qt_updated_at t)"

named_theorems presence_decodes \<open>inversion of the column decoders\<close>

lemma presence_blob_iff [presence_decodes]: "presence_blob n c = Inr v \<longleftrightarrow> length c = n \<and> v = c"
  by (auto simp: presence_blob_def)

lemma presence_text_iff [presence_decodes]:
  "presence_text c m = Inr v \<longleftrightarrow> 0 < length c \<and> length c \<le> m \<and> v = c"
  by (auto simp: presence_text_def)

lemma presence_nonnegative_iff [presence_decodes]: "presence_nonnegative c = Inr v \<longleftrightarrow> c = int v"
  by (auto simp: presence_nonnegative_def)

lemma presence_positive_iff [presence_decodes]: "presence_positive c = Inr v \<longleftrightarrow> c = int v \<and> 0 < v"
  by (auto simp: presence_positive_def presence_nonnegative_iff)

lemma presence_u8_iff [presence_decodes]: "presence_u8 c m = Inr v \<longleftrightarrow> c = int v \<and> v \<le> 255 \<and> v \<le> m"
  by (auto simp: presence_u8_def)

lemma presence_u16_iff [presence_decodes]: "presence_u16 c m = Inr v \<longleftrightarrow> c = int v \<and> v \<le> 65535 \<and> v \<le> m"
  by (auto simp: presence_u16_def)

lemma presence_u64_iff [presence_decodes]: "presence_u64 c m = Inr v \<longleftrightarrow> c = int v \<and> v \<le> m"
  by (auto simp: presence_u64_def)

lemma presence_bool_iff [presence_decodes]: "presence_bool c = Inr v \<longleftrightarrow> c = bool_i64 v"
  by (cases v) (auto simp: presence_bool_def bool_i64_def)

lemma presence_millis_iff [presence_decodes]: "presence_millis c = Inr v \<longleftrightarrow> c = map_option int v"
  by (cases c; cases v) (auto simp: presence_millis_def presence_nonnegative_def)

lemma presence_owner_iff [presence_decodes]:
  "presence_owner c = Inr v \<longleftrightarrow> v = c \<and> pred_option (\<lambda>b. length b = 16 \<and> \<not> list_all (\<lambda>x. x = 0) b) c"
  by (cases c) (auto simp: presence_owner_def)

lemma presence_attempt_ident_iff [presence_decodes]:
  "presence_attempt_ident c = Inr v \<longleftrightarrow> v = c \<and> pred_option (\<lambda>b. length b = 32) c"
  by (cases c) (auto simp: presence_attempt_ident_def)

lemma decode_document_kind_iff [presence_decodes]: "decode_document_kind c = Inr v \<longleftrightarrow> c = presence_kind_code v"
  by (cases v) (auto simp: decode_document_kind_def)

lemma decode_presence_outbox_state_iff [presence_decodes]:
  "decode_presence_outbox_state c = Inr v \<longleftrightarrow> c = presence_outbox_state_code v"
  by (cases v) (auto simp: decode_presence_outbox_state_def)

lemma decode_presence_target_state_iff [presence_decodes]:
  "decode_presence_target_state c = Inr v \<longleftrightarrow> c = presence_target_state_code v"
  by (cases v) (auto simp: decode_presence_target_state_def)

lemma decode_presence_targetD:
  "decode_presence_target r = Inr t \<Longrightarrow> target_row_agrees r t"
  by (auto simp: decode_presence_target_def target_row_agrees_def presence_decodes split: if_splits)

lemma decode_presence_outboxD:
  "decode_presence_outbox sha256 key_ok r = Inr b \<Longrightarrow> outbox_row_agrees sha256 r b"
  by (auto simp: decode_presence_outbox_def outbox_row_agrees_def presence_decodes Let_def
      RHI_PRESENCE_SIGNED_EVENT_MAX_BYTES_def split: if_splits)

lemma collect_map_memD: "collect (map f xs) = Inr ys \<Longrightarrow> y \<in> set ys \<Longrightarrow> \<exists>x \<in> set xs. f x = Inr y"
  by (induction xs arbitrary: ys) auto

lemma read_presence_targetsD:
  assumes "read_presence_targets k s = Inr ts" and "t \<in> set ts"
  shows "\<exists>r \<in> set (presence_target_rows s). ptx_outbox_id r = k \<and> target_row_agrees r t"
proof -
  let ?rows = "take 33 (sort_key ptx_target_ordinal (filter (\<lambda>r. ptx_outbox_id r = k) (presence_target_rows s)))"
  have "collect (map decode_presence_target ?rows) = Inr ts"
    using assms(1) by (auto simp: read_presence_targets_def Let_def split: if_splits)
  from collect_map_memD[OF this assms(2)] obtain r where r: "r \<in> set ?rows" "decode_presence_target r = Inr t" by blast
  then have "r \<in> set (filter (\<lambda>r. ptx_outbox_id r = k) (presence_target_rows s))"
    by (metis in_set_takeD set_sort)
  then show ?thesis using decode_presence_targetD[OF r(2)] by auto
qed

lemma outbox_row_agrees_targets [simp]: "outbox_row_agrees sha256 r (b\<lparr>qo_targets := ts\<rparr>) \<longleftrightarrow> outbox_row_agrees sha256 r b"
  by (simp add: outbox_row_agrees_def)

lemma read_presence_outboxE:
  assumes "read_presence_outbox sha256 key_ok k s = Inr (Some b)"
  obtains r ts where "take 2 (filter (\<lambda>r. pox_outbox_id r = k) (presence_outboxes s)) = [r]"
    "r \<in> set (presence_outboxes s)" "outbox_row_agrees sha256 r b" "qo_id b = k"
    "read_presence_targets k s = Inr (qo_targets b)"
proof -
  let ?rows = "take 2 (filter (\<lambda>r. pox_outbox_id r = k) (presence_outboxes s))"
  from assms obtain r where rows: "?rows = [r]" and d: "decode_with_targets sha256 key_ok s r = Inr b"
    by (auto simp: read_presence_outbox_def presence_zero_or_one_def transpose_def
        split: list.split_asm option.split_asm sum.split_asm)
  have in_rows: "r \<in> set (presence_outboxes s)" "pox_outbox_id r = k"
    using in_set_takeD[of r 2 "filter (\<lambda>r. pox_outbox_id r = k) (presence_outboxes s)"] rows by auto
  from d obtain b0 ts where b: "decode_presence_outbox sha256 key_ok r = Inr b0" "b = b0\<lparr>qo_targets := ts\<rparr>"
    "read_presence_targets (qo_id b0) s = Inr ts"
    by (auto simp: decode_with_targets_def)
  have agrees: "outbox_row_agrees sha256 r b" using decode_presence_outboxD[OF b(1)] b(2) by simp
  then have "qo_id b = k" using in_rows(2) by (simp add: outbox_row_agrees_def)
  with agrees rows in_rows b show thesis by (intro that) auto
qed

lemma read_generation_mem:
  assumes "read_generation_outboxes sha256 key_ok g s = Inr stored" and "b \<in> set stored"
  shows "\<exists>r \<in> set (presence_outboxes s). outbox_row_agrees sha256 r b"
proof -
  let ?rows = "take 3 (sort_key (\<lambda>r. kind_rank (pox_document_kind r))
    (filter (\<lambda>r. pox_desired_generation r = int g) (presence_outboxes s)))"
  have "collect (map (decode_with_targets sha256 key_ok s) ?rows) = Inr stored"
    using assms(1) by (auto simp: read_generation_outboxes_def presence_i64_value_def Let_def split: if_splits)
  from collect_map_memD[OF this assms(2)] obtain r where r: "r \<in> set ?rows" "decode_with_targets sha256 key_ok s r = Inr b"
    by blast
  have "r \<in> set (presence_outboxes s)" using in_set_takeD[OF r(1)] by simp
  then show ?thesis using r(2) decode_presence_outboxD by (fastforce simp: decode_with_targets_def)
qed

section \<open>The desired generation\<close>

text \<open>The outbox is of the generation, and of the digest, that is desired now, and presence is enabled.\<close>

definition desired_now :: "'a desired_store_scheme \<Rightarrow> presence_outbox_row \<Rightarrow> bool" where
  "desired_now s r \<longleftrightarrow>
     (\<exists>d \<in> set (desired_rows s). dr_enabled d = 1 \<and> dr_generation d = pox_desired_generation r
        \<and> dr_desired_sha256 d = pox_desired_sha256 r)"

lemma validate_current_desiredD:
  assumes "validate_current_desired b s = Inr ()" and agrees: "outbox_row_agrees sha256 r b"
  shows "desired_now s r"
proof -
  from assms(1) obtain desired where d: "read_desired_binding s = Inr desired" "desired_matches_outbox desired b"
    by (auto simp: validate_current_desired_def split: if_splits)
  from d(1) obtain row where row: "take 2 (desired_rows s) = [row]" "decode_desired row = Inr desired"
    by (auto simp: read_desired_binding_def split: list.split_asm)
  have "row \<in> set (desired_rows s)" using in_set_takeD[of row 2 "desired_rows s"] row(1) by simp
  moreover have "dr_enabled row = 1 \<and> dr_generation row = int (dst_generation desired)
      \<and> dr_desired_sha256 row = dst_desired_sha256 desired"
    using row(2) d(2)
    by (auto simp: decode_desired_def desired_matches_outbox_def desired_positive_u64_def desired_boolean_i64_def
        desired_digest_def split: if_splits)
  ultimately show ?thesis
    using d(2) agrees by (auto simp: desired_now_def desired_matches_outbox_def outbox_row_agrees_def)
qed

lemma desired_now_cong: "desired_rows s' = desired_rows s \<Longrightarrow> desired_now s' r = desired_now s r"
  by (simp add: desired_now_def)

section \<open>Preparation\<close>

lemma update_presence_targets_frame:
  assumes "update_presence_targets p f s = Inr (s', n)"
  shows "presence_outboxes s' = presence_outboxes s" "desired_rows s' = desired_rows s"
    "presence_attempt_rows s' = presence_attempt_rows s"
  using assms by (auto simp: update_presence_targets_def split: option.split_asm prod.split_asm)

lemma same_presence_agrees:
  assumes "same_presence_outbox b b'" and "outbox_row_agrees sha256 r b"
  shows "outbox_row_agrees sha256 r b'"
  using assms by (auto simp: same_presence_outbox_def same_presence_identity_def outbox_row_agrees_def)

lemma presence_validate_leaseE:
  assumes "presence_validate_lease sha256 key_ok lease now True s = Inr u"
  obtains r where "r \<in> set (presence_outboxes s)" "outbox_row_agrees sha256 r (ql_outbox lease)"
    "desired_now s r" "qo_state (ql_outbox lease) = PoLeased" "qo_lease_owner (ql_outbox lease) = Some (ql_owner lease)"
    "qo_lease_expires (ql_outbox lease) = Some (ql_expires_at lease)" "now < ql_expires_at lease"
proof -
  from assms obtain b where b: "read_presence_outbox sha256 key_ok (qo_id (ql_outbox lease)) s = Inr (Some b)"
      "same_presence_outbox b (ql_outbox lease)" "validate_current_desired b s = Inr ()"
      "qo_state b = PoLeased" "qo_lease_owner b = Some (ql_owner lease)" "qo_lease_expires b = Some (ql_expires_at lease)"
      "now < ql_expires_at lease"
    by (auto simp: presence_validate_lease_def split: if_splits)
  from b(1) obtain r where r: "r \<in> set (presence_outboxes s)" "outbox_row_agrees sha256 r b"
    by (rule read_presence_outboxE)
  show thesis
    using that[OF r(1) same_presence_agrees[OF b(2) r(2)] validate_current_desiredD[OF b(3) r(2)]] b
    by (simp add: same_presence_outbox_def)
qed

lemma submit_presence_targetE:
  assumes "submit_presence_target sha256 key_ok lease started candidate number ident s = Inr (t, s')"
  obtains r where "r \<in> set (presence_target_rows s')" "ptx_outbox_id r = qo_id (ql_outbox lease)"
    "target_row_agrees r t" "qt_state t = PtSubmitted" "qt_attempt_count t = number"
    "qt_last_attempt_id t = Some ident" "qt_updated_at t = started" "qt_ordinal t = qt_ordinal candidate"
    "presence_outboxes s' = presence_outboxes s" "desired_rows s' = desired_rows s"
    "presence_attempt_rows s' = presence_attempt_rows s"
proof -
  from assms obtain p f n b where u: "update_presence_targets p f s = Inr (s', n)"
      and b: "read_presence_outbox sha256 key_ok (qo_id (ql_outbox lease)) s' = Inr (Some b)"
      and t: "find (\<lambda>t. qt_ordinal t = qt_ordinal candidate) (qo_targets b) = Some t"
      "qt_state t = PtSubmitted" "qt_attempt_count t = number" "qt_last_attempt_id t = Some ident" "qt_updated_at t = started"
    by (auto simp: submit_presence_target_def split: if_splits prod.split_asm)
  have in_ts: "t \<in> set (qo_targets b)" "qt_ordinal t = qt_ordinal candidate"
    using t(1) by (auto simp: find_Some_iff)
  from b obtain r0 where "read_presence_targets (qo_id (ql_outbox lease)) s' = Inr (qo_targets b)"
    by (rule read_presence_outboxE)
  from read_presence_targetsD[OF this in_ts(1)] obtain r where "r \<in> set (presence_target_rows s')"
      "ptx_outbox_id r = qo_id (ql_outbox lease)" "target_row_agrees r t" by blast
  with t in_ts update_presence_targets_frame[OF u] show thesis by (intro that) auto
qed

end
