(* ===== verification/Presence_Props.thy ===== *)
theory Presence_Props
  imports Presence_Rules
begin

text \<open>
  The delivery of presence documents: committed once and exactly, prepared durably before the sink sees them, of
  the generation that is desired, and the outcome of the last attempt.
\<close>

section \<open>Committing\<close>

lemma update_presence_outboxes_frame:
  assumes "update_presence_outboxes p f s = Inr (s', n)"
  shows "read_desired_binding s' = read_desired_binding s"
  using assms by (auto simp: update_presence_outboxes_def read_desired_binding_def split: option.split_asm prod.split_asm)

lemma insert_presence_targets_frame:
  "insert_presence_targets k c ts s = Inr s' \<Longrightarrow> read_desired_binding s' = read_desired_binding s"
  by (induction ts arbitrary: s) (auto simp: read_desired_binding_def split: option.split_asm)

lemma insert_presence_document_frame:
  "insert_presence_document sha256 docs desired c d s = Inr s' \<Longrightarrow> read_desired_binding s' = read_desired_binding s"
  by (auto simp: insert_presence_document_def Let_def read_desired_binding_def
      dest!: insert_presence_targets_frame split: option.split_asm)

lemma insert_presence_documents_frame:
  "insert_presence_documents sha256 docs desired c ds s = Inr s' \<Longrightarrow> read_desired_binding s' = read_desired_binding s"
  by (induction ds arbitrary: s) (auto dest!: insert_presence_document_frame)

lemma generation_matches_eachD:
  assumes "generation_matches_each sha256 docs pairs = Inr True" and "(d, b) \<in> set pairs"
  shows "outbox_matches_document sha256 docs d b" and "validate_presence_targets sha256 b (qo_targets b) = Inr ()"
  using assms by (induction sha256 docs pairs rule: generation_matches_each.induct) (auto split: if_splits)

text \<open>What a successful commit leaves: the desired state it was for, validated documents and their outboxes.\<close>

lemma commit_signedE:
  assumes "commit_signed sha256 key_ok crate docs c s = Inr (out, s')"
  obtains desired stored where "read_desired_binding s' = Inr desired"
    "validate_document_set sha256 key_ok crate docs desired = Inr ()"
    "read_generation_outboxes sha256 key_ok (dst_generation desired) s' = Inr stored"
    "generation_matches sha256 docs stored = Inr True" "commit_outcome_of docs (pco_changed out) = Inr out"
proof -
  have "\<exists>desired stored changed. read_desired_binding s' = Inr desired
      \<and> validate_document_set sha256 key_ok crate docs desired = Inr ()
      \<and> read_generation_outboxes sha256 key_ok (dst_generation desired) s' = Inr stored
      \<and> generation_matches sha256 docs stored = Inr True \<and> commit_outcome_of docs changed = Inr out"
    using assms
    by (auto simp: commit_signed_def dest!: update_presence_outboxes_frame insert_presence_documents_frame
        split: if_split_asm prod.split_asm)
  moreover have "commit_outcome_of docs changed = Inr out \<Longrightarrow> commit_outcome_of docs (pco_changed out) = Inr out" for changed
    by (auto simp: commit_outcome_of_def split: if_splits)
  ultimately show thesis by (blast intro: that)
qed

text \<open>The row that a document is stored in.\<close>

definition document_row :: "(bytes \<Rightarrow> bytes) \<Rightarrow> signed_documents \<Rightarrow> signed_document \<Rightarrow> presence_outbox_row \<Rightarrow> bool" where
  "document_row sha256 docs d r \<longleftrightarrow>
     pox_exact_signed_event_bytes r = sd_signed_event_bytes d
   \<and> pox_event_sha256 r = sha256 (sd_signed_event_bytes d) \<and> pox_event_id r = sd_event_id d
   \<and> pox_document_kind r = presence_kind_code (sd_kind d)
   \<and> pox_desired_generation r = int (dst_generation (ss_desired_state docs))
   \<and> pox_authored_at_unix_s r = int (sd_created_at d) \<and> pox_service_public_key r = ss_service_public_key docs"

text \<open>The rows of one generation, the profile before the handler.\<close>

definition generation_rows :: "nat \<Rightarrow> presence_outbox_row list \<Rightarrow> presence_outbox_row list" where
  "generation_rows g rows =
     sort_key (\<lambda>r. kind_rank (pox_document_kind r)) (filter (\<lambda>r. pox_desired_generation r = int g) rows)"

text \<open>What a commit does to a row of an earlier generation: if it waits or is blocked, it is superseded.\<close>

definition superseded_row :: "nat \<Rightarrow> nat \<Rightarrow> presence_outbox_row \<Rightarrow> presence_outbox_row" where
  "superseded_row g now r =
     (if pox_desired_generation r \<noteq> int g \<and> (pox_state r = ''pending'' \<or> pox_state r = ''blocked'')
         \<and> pox_updated_at_unix_ms r \<le> int now
      then r\<lparr>pox_state := ''superseded'', pox_revision := pox_revision r + 1, pox_next_attempt_unix_ms := None,
        pox_lease_owner := None, pox_lease_expires_unix_ms := None, pox_updated_at_unix_ms := int now\<rparr>
      else r)"

lemma collect_map_list_all2: "collect (map f xs) = Inr ys \<Longrightarrow> list_all2 (\<lambda>x y. f x = Inr y) xs ys"
  by (induction xs arbitrary: ys) auto

lemma read_generation_rows:
  assumes "read_generation_outboxes sha256 key_ok g s = Inr stored"
  shows "list_all2 (outbox_row_agrees sha256) (generation_rows g (presence_outboxes s)) stored"
proof -
  let ?rows = "take 3 (generation_rows g (presence_outboxes s))"
  from assms have c: "collect (map (decode_with_targets sha256 key_ok s) ?rows) = Inr stored" "\<not> 2 < length ?rows"
    by (auto simp: read_generation_outboxes_def presence_i64_value_def Let_def generation_rows_def split: if_splits)
  have "?rows = generation_rows g (presence_outboxes s)" using c(2) by simp
  with collect_map_list_all2[OF c(1)] show ?thesis
    by (auto elim!: list_all2_mono dest!: decode_presence_outboxD simp: decode_with_targets_def outbox_row_agrees_def)
qed

lemma generation_matches_all:
  assumes "generation_matches sha256 docs stored = Inr True"
  shows "list_all2 (outbox_matches_document sha256 docs) (ss_documents docs) stored"
proof -
  from assms have m: "length (ss_documents docs) = length stored"
    "generation_matches_each sha256 docs (zip (ss_documents docs) stored) = Inr True"
    by (auto simp: generation_matches_def split: if_splits)
  then show ?thesis using generation_matches_eachD(1)[OF m(2)] by (auto simp: list_all2_iff)
qed

lemma presence_i64_iff: "presence_i64_value n = Inr v \<longleftrightarrow> n \<le> i64_max \<and> v = int n"
  by (auto simp: presence_i64_value_def i64_of_u64_def)

lemma insert_presence_targets_rows:
  assumes "insert_presence_targets k c ts s = Inr s'"
  shows "s' = s\<lparr>presence_target_rows := presence_target_rows s @ map (\<lambda>t. insert_target_row k t (int c)) ts\<rparr>"
  using assms
proof (induction ts arbitrary: s)
  case (Cons t ts)
  from Cons.prems obtain rows where "sql_insert (\<lambda>_ _. True) (presence_targets_valid (presence_outboxes s))
      (insert_target_row k t (int c)) (presence_target_rows s) = Some rows"
    and "insert_presence_targets k c ts (s\<lparr>presence_target_rows := rows\<rparr>) = Inr s'"
    by (auto simp: presence_i64_iff split: option.split_asm)
  with Cons.IH[of "s\<lparr>presence_target_rows := rows\<rparr>"] show ?case by (auto dest!: sql_insert_SomeD(1))
qed simp

lemma insert_presence_documents_rows:
  assumes "insert_presence_documents sha256 docs desired c ds s = Inr s'"
  shows "\<exists>rows. s' = s\<lparr>presence_outboxes := presence_outboxes s @ rows, presence_target_rows := presence_target_rows s
        @ concat (map (\<lambda>r. map (\<lambda>t. insert_target_row (pox_outbox_id r) t (int c)) (ss_targets docs)) rows)\<rparr>
    \<and> length rows = length ds \<and> (\<forall>r \<in> set rows. pox_desired_generation r = int (dst_generation desired)
        \<and> pox_state r = ''pending'' \<and> pox_next_attempt_unix_ms r = Some (int c))"
  using assms
proof (induction ds arbitrary: s)
  case Nil
  then show ?case by (intro exI[of _ "[]"]) simp
next
  case (Cons d ds)
  from Cons.prems obtain s1 where s1: "insert_presence_document sha256 docs desired c d s = Inr s1"
    "insert_presence_documents sha256 docs desired c ds s1 = Inr s'" by auto
  let ?row = "insert_outbox_row (derive_outbox_id sha256 (dst_generation desired) (sd_kind d) (dst_desired_sha256 desired)
      (sd_signed_event_sha256 d)) (int (dst_generation desired)) d desired (int (sd_created_at d)) (ss_service_public_key docs) (int c)"
  have e1: "s1 = s\<lparr>presence_outboxes := presence_outboxes s @ [?row], presence_target_rows := presence_target_rows s
      @ map (\<lambda>t. insert_target_row (pox_outbox_id ?row) t (int c)) (ss_targets docs)\<rparr>"
    using s1(1) by (auto simp: insert_presence_document_def Let_def presence_i64_iff insert_outbox_row_def
        dest!: sql_insert_SomeD(1) insert_presence_targets_rows split: option.split_asm if_splits)
  from Cons.IH[OF s1(2)] obtain rows where rows: "s' = s1\<lparr>presence_outboxes := presence_outboxes s1 @ rows,
      presence_target_rows := presence_target_rows s1
        @ concat (map (\<lambda>r. map (\<lambda>t. insert_target_row (pox_outbox_id r) t (int c)) (ss_targets docs)) rows)\<rparr>"
    "length rows = length ds" "\<forall>r \<in> set rows. pox_desired_generation r = int (dst_generation desired)
        \<and> pox_state r = ''pending'' \<and> pox_next_attempt_unix_ms r = Some (int c)" by blast
  show ?case by (intro exI[of _ "?row # rows"]) (use rows in \<open>simp add: e1 insert_outbox_row_def\<close>)
qed

text \<open>The store after a commit that was not known before.\<close>

definition documents_added :: "signed_documents \<Rightarrow> nat \<Rightarrow> 'a presence_store_scheme \<Rightarrow> 'a presence_store_scheme \<Rightarrow> bool" where
  "documents_added docs now s s' \<longleftrightarrow>
     (let g = dst_generation (ss_desired_state docs) in
       (\<forall>r \<in> set (presence_outboxes s). pox_desired_generation r \<noteq> int g)
     \<and> (\<exists>rows. s' = s\<lparr>presence_outboxes := map (superseded_row g now) (presence_outboxes s) @ rows,
            presence_target_rows := presence_target_rows s
              @ concat (map (\<lambda>r. map (\<lambda>t. insert_target_row (pox_outbox_id r) t (int now)) (ss_targets docs)) rows)\<rparr>
          \<and> length rows = length (ss_documents docs)
          \<and> (\<forall>r \<in> set rows. pox_desired_generation r = int g \<and> pox_state r = ''pending''
              \<and> pox_next_attempt_unix_ms r = Some (int now))))"

lemma commit_signed_added:
  assumes run: "commit_signed sha256 key_ok crate docs c s = Inr (out, s')" and docs: "ss_documents docs \<noteq> []"
  shows "if pco_changed out then documents_added docs c s s' else s' = s"
proof -
  from run obtain desired current where d: "validate_document_set sha256 key_ok crate docs desired = Inr ()"
    "read_generation_outboxes sha256 key_ok (dst_generation desired) s = Inr current" "read_desired_binding s = Inr desired"
    by (auto simp: commit_signed_def)
  have g: "desired = ss_desired_state docs" using d(1) by (auto simp: validate_document_set_def split: if_splits)
  have rows: "list_all2 (outbox_row_agrees sha256) (generation_rows (dst_generation desired) (presence_outboxes s)) current"
    by (rule read_generation_rows[OF d(2)])
  show ?thesis
  proof (cases "current = []")
    case False
    then show ?thesis using run d g by (auto simp: commit_signed_def commit_outcome_of_def split: if_splits)
  next
    case True
    with rows have "filter (\<lambda>r. pox_desired_generation r = int (dst_generation desired)) (presence_outboxes s) = []"
      by (simp add: generation_rows_def) (metis length_0_conv length_sort)
    then have none: "\<forall>r \<in> set (presence_outboxes s). pox_desired_generation r \<noteq> int (dst_generation desired)"
      by (simp add: filter_empty_conv)
    from run d True docs obtain s1 n where
      u: "update_presence_outboxes (supersede_outbox_where (int (dst_generation desired)) (int c))
        (release_presence_set ''superseded'' None (int c)) s = Inr (s1, n)"
      and i: "insert_presence_documents sha256 docs desired c (ss_documents docs) s1 = Inr s'" and ch: "pco_changed out"
      by (auto simp: commit_signed_def presence_i64_iff commit_outcome_of_def split: if_splits prod.split_asm)
    have "s1 = s\<lparr>presence_outboxes := map (superseded_row (dst_generation desired) c) (presence_outboxes s)\<rparr>"
      using u by (auto simp: update_presence_outboxes_def superseded_row_def supersede_outbox_where_def release_presence_set_def
          dest!: sql_update_SomeD(1) split: option.split_asm prod.split_asm)
    then show ?thesis
      using insert_presence_documents_rows[OF i] none ch by (auto simp: documents_added_def Let_def g)
  qed
qed

text \<open>
  C27.  Signed presence documents are committed exactly and once.  After a successful commit of a non-empty set, the
  outbox rows of the desired generation, the profile before the handler, are one row for each document, with its
  exact bytes, digest, identity, kind, time and key.  A commit that reports a change found no row of the generation,
  adds exactly these rows with their targets and supersedes the waiting and blocked rows of earlier generations; one
  that reports none changes nothing; and committing the same documents again, at any time, reports that nothing
  changed and changes nothing.
\<close>

theorem presence_commit_once:
  assumes run: "commit_signed sha256 key_ok crate docs committed s = Inr (out, s')" and docs: "ss_documents docs \<noteq> []"
  shows "commit_signed sha256 key_ok crate docs again s' = Inr (out\<lparr>pco_changed := False\<rparr>, s')
    \<and> list_all2 (document_row sha256 docs) (ss_documents docs)
        (generation_rows (dst_generation (ss_desired_state docs)) (presence_outboxes s'))
    \<and> (if pco_changed out then documents_added docs committed s s' else s' = s)"
proof -
  from run obtain desired stored where d: "read_desired_binding s' = Inr desired"
      "validate_document_set sha256 key_ok crate docs desired = Inr ()"
      "read_generation_outboxes sha256 key_ok (dst_generation desired) s' = Inr stored"
      "generation_matches sha256 docs stored = Inr True" "commit_outcome_of docs (pco_changed out) = Inr out"
    by (rule commit_signedE)
  have g: "desired = ss_desired_state docs" using d(2) by (auto simp: validate_document_set_def split: if_splits)
  note m = generation_matches_all[OF d(4)]
  have "stored \<noteq> []" using m docs by auto
  moreover have "commit_outcome_of docs False = Inr (out\<lparr>pco_changed := False\<rparr>)"
    using d(5) by (cases out) (auto simp: commit_outcome_of_def split: if_splits)
  ultimately have again: "commit_signed sha256 key_ok crate docs again s' = Inr (out\<lparr>pco_changed := False\<rparr>, s')"
    using d by (simp add: commit_signed_def)
  have "list_all2 (document_row sha256 docs) (ss_documents docs) (generation_rows (dst_generation desired) (presence_outboxes s'))"
    unfolding list_all2_conv_all_nth
  proof (intro conjI allI impI)
    note r = read_generation_rows[OF d(3)]
    show "length (ss_documents docs) = length (generation_rows (dst_generation desired) (presence_outboxes s'))"
      using list_all2_lengthD[OF m] list_all2_lengthD[OF r] by simp
    fix i assume i: "i < length (ss_documents docs)"
    have "outbox_matches_document sha256 docs (ss_documents docs ! i) (stored ! i)" by (rule list_all2_nthD[OF m i])
    moreover have "outbox_row_agrees sha256 (generation_rows (dst_generation desired) (presence_outboxes s') ! i) (stored ! i)"
      by (rule list_all2_nthD2[OF r]) (use i list_all2_lengthD[OF m] in simp)
    ultimately show "document_row sha256 docs (ss_documents docs ! i)
        (generation_rows (dst_generation desired) (presence_outboxes s') ! i)"
      by (simp add: outbox_matches_document_def outbox_row_agrees_def document_row_def Let_def)
  qed
  with again commit_signed_added[OF run docs] show ?thesis by (simp add: g)
qed

section \<open>Preparing\<close>

text \<open>
  C25.  An attempt is durable before it is exposed.  When a target is prepared, the store already holds the target in the
  submitted state under the attempt's identity and number, its outbox is leased to the caller for longer than the start,
  belongs to the enabled desired state of the moment, and the bytes handed out are the stored bytes of that outbox, with
  the stored digest and verified again against the service's key and rendering.
\<close>

theorem presence_prepared_exact:
  assumes run: "presence_prepare_next sha256 key_ok crate lease started s = Inr (prepared, s')"
  shows "\<exists>r \<in> set (presence_outboxes s'). \<exists>t \<in> set (presence_target_rows s').
      desired_now s' r \<and> pox_state r = ''leased'' \<and> pox_lease_owner r = Some (ql_owner lease)
    \<and> pox_lease_expires_unix_ms r = Some (int (ql_expires_at lease)) \<and> started < ql_expires_at lease
    \<and> qp_exact_signed_event_bytes prepared = pox_exact_signed_event_bytes r
    \<and> sha256 (qp_exact_signed_event_bytes prepared) = pox_event_sha256 r
    \<and> (\<exists>event. validate_signed_document crate (qo_document_kind (ql_outbox lease)) (pox_service_public_key r)
         (nat (pox_authored_at_unix_s r)) (qp_exact_signed_event_bytes prepared) = Inr event)
    \<and> ptx_outbox_id t = pox_outbox_id r \<and> ptx_state t = ''submitted''
    \<and> ptx_target_ordinal t = int (qt_ordinal (qp_target prepared))
    \<and> ptx_last_attempt_id t = Some (qp_attempt_id prepared)
    \<and> qp_attempt_id prepared = presence_attempt_id sha256 (pox_outbox_id r) (pox_event_sha256 r)
        (qt_ordinal (qp_target prepared)) (nat (ptx_attempt_count t))
    \<and> ptx_attempt_count t \<le> int (qo_max_attempts (ql_outbox lease))"
proof -
  let ?b = "ql_outbox lease"
  from run obtain candidate number event where v: "presence_validate_lease sha256 key_ok lease started True s = Inr ()"
      and n: "number \<le> qo_max_attempts ?b"
      and sub: "submit_presence_target sha256 key_ok lease started candidate number
        (presence_attempt_id sha256 (qo_id ?b) (qo_event_sha256 ?b) (qt_ordinal candidate) number) s = Inr (qp_target prepared, s')"
      and ev: "validate_signed_document crate (qo_document_kind ?b) (qo_service_public_key ?b) (qo_authored_at ?b)
        (qo_exact_signed_event_bytes ?b) = Inr event"
      and p: "qp_exact_signed_event_bytes prepared = qo_exact_signed_event_bytes ?b"
        "qp_attempt_id prepared = presence_attempt_id sha256 (qo_id ?b) (qo_event_sha256 ?b) (qt_ordinal candidate) number"
    by (auto simp: presence_prepare_next_def Let_def split: if_splits prod.split_asm)
  from v obtain r where r: "r \<in> set (presence_outboxes s)" "outbox_row_agrees sha256 r ?b" "desired_now s r"
      "qo_state ?b = PoLeased" "qo_lease_owner ?b = Some (ql_owner lease)"
      "qo_lease_expires ?b = Some (ql_expires_at lease)" "started < ql_expires_at lease"
    by (rule presence_validate_leaseE)
  from sub obtain t where t: "t \<in> set (presence_target_rows s')" "ptx_outbox_id t = qo_id ?b"
      "target_row_agrees t (qp_target prepared)" "qt_state (qp_target prepared) = PtSubmitted"
      "qt_attempt_count (qp_target prepared) = number" "qt_last_attempt_id (qp_target prepared) = Some (qp_attempt_id prepared)"
      "qt_ordinal (qp_target prepared) = qt_ordinal candidate"
      "presence_outboxes s' = presence_outboxes s" "desired_rows s' = desired_rows s"
    by (rule submit_presence_targetE) (use p in auto)
  show ?thesis
    using r t p n ev desired_now_cong[OF t(9)]
    by (intro bexI[of _ r] bexI[of _ t]) (auto simp: outbox_row_agrees_def target_row_agrees_def)
qed

section \<open>The executor\<close>

text \<open>What the sink may rely on.\<close>

definition presence_verified :: "('b, 'e) presence_env \<Rightarrow> prepared_presence \<Rightarrow> bool" where
  "presence_verified env p \<longleftrightarrow>
     (let b = ql_outbox (qp_lease p) in
      en_sha256 env (qp_exact_signed_event_bytes p) = qo_event_sha256 b
    \<and> is_ok (validate_signed_document (en_crate env) (qo_document_kind b) (qo_service_public_key b) (qo_authored_at b)
        (qp_exact_signed_event_bytes p))
    \<and> qp_started_at p < qp_deadline_at p
    \<and> qp_attempt_id p = presence_attempt_id (en_sha256 env) (qo_id b) (qo_event_sha256 b) (qt_ordinal (qp_target p))
        (qt_attempt_count (qp_target p))
    \<and> qt_attempt_count (qp_target p) \<le> qo_max_attempts b)"

lemma presence_prepare_verified:
  assumes run: "presence_prepare_next (en_sha256 env) key_ok (en_crate env) lease started s = Inr (p, s')"
  shows "presence_verified env p"
proof -
  let ?b = "ql_outbox lease"
  from run obtain candidate number event where
      v: "presence_validate_lease (en_sha256 env) key_ok lease started True s = Inr ()" and n: "number \<le> qo_max_attempts ?b"
      and sub: "submit_presence_target (en_sha256 env) key_ok lease started candidate number
        (presence_attempt_id (en_sha256 env) (qo_id ?b) (qo_event_sha256 ?b) (qt_ordinal candidate) number) s = Inr (qp_target p, s')"
      and ev: "validate_signed_document (en_crate env) (qo_document_kind ?b) (qo_service_public_key ?b) (qo_authored_at ?b)
        (qo_exact_signed_event_bytes ?b) = Inr event"
      and p: "qp_lease p = lease" "qp_exact_signed_event_bytes p = qo_exact_signed_event_bytes ?b"
        "qp_started_at p = started" "qp_deadline_at p = ql_expires_at lease"
        "qp_attempt_id p = presence_attempt_id (en_sha256 env) (qo_id ?b) (qo_event_sha256 ?b) (qt_ordinal candidate) number"
    by (auto simp: presence_prepare_next_def Let_def split: if_splits prod.split_asm)
  from v have "started < ql_expires_at lease" "en_sha256 env (qo_exact_signed_event_bytes ?b) = qo_event_sha256 ?b"
    by (auto elim!: presence_validate_leaseE simp: outbox_row_agrees_def)
  moreover from sub have "qt_attempt_count (qp_target p) = number" "qt_ordinal (qp_target p) = qt_ordinal candidate"
    by (auto elim!: submit_presence_targetE)
  ultimately show ?thesis using p n ev by (simp add: presence_verified_def)
qed

text \<open>
  C26.  The sink is shown nothing but verified attempts.  Over a transaction host whose preparations are all or nothing,
  a call of the executor has the same result, the same store and the same effect on the world for any two sinks that
  agree on the attempts whose bytes have the stored digest, pass the independent verification, carry the derived attempt
  identity within the permitted number of attempts and start before their deadline.
\<close>

theorem presence_sink_sees_verified:
  assumes host: "atomic_txn (sh_prepare host)"
    and agree: "\<And>p w. presence_verified env p \<Longrightarrow> sw_submit_exact world p w = submit p w"
  shows "execute_next_presence host env world owner sw =
    execute_next_presence host env (world\<lparr>sw_submit_exact := submit\<rparr>) owner sw"
proof -
  let ?world = "world\<lparr>sw_submit_exact := submit\<rparr>"
  have same: "sw_wall_clock world = sw_wall_clock ?world" "sw_fill_bytes world = sw_fill_bytes ?world" by simp_all
  have sub: "presence_submit_and_record host env world p sv = presence_submit_and_record host env ?world p sv"
    if "prepare_next_presence_target host env lease now s = (Inr p, s')" for lease now s s' p sv
  proof -
    have "presence_prepare_next (en_sha256 env) (en_key_ok env) (en_crate env) lease now s = Inr (p, s')"
      using that atomic_txnD(1)[OF host]
      by (auto simp: prepare_next_presence_target_def run_presence_txn_def split: sum.split_asm prod.split_asm)
    then have "sw_submit_exact world p = sw_submit_exact ?world p" by (auto intro!: ext agree presence_prepare_verified)
    then show ?thesis unfolding presence_submit_and_record_def same by simp
  qed
  have rec: "recover_one_expired_presence host env world = recover_one_expired_presence host env ?world"
    unfolding recover_one_expired_presence_def fun_eq_iff same by simp
  obtain s w where sw: "sw = (s, w)" by (cases sw)
  obtain wall w1 where wall: "sw_wall_clock ?world w = (wall, w1)" by (cases "sw_wall_clock ?world w")
  show ?thesis
  proof (cases "presence_now wall")
    case (Inl e)
    then show ?thesis using sw wall by (simp add: execute_next_presence_def)
  next
    case now: (Inr now)
    obtain r s1 w2 where r: "recover_one_expired_presence host env ?world now (s, w1) = (r, s1, w2)" by (rule prod_cases3)
    obtain l s2 where l: "claim_next_presence host env owner now s1 = (l, s2)" by (rule prod.exhaust)
    note known = sw wall now r l
    show ?thesis
    proof (cases "\<exists>b lease. r = Inr b \<and> l = Inr (Some lease)")
      case False
      then show ?thesis using known
        by (cases r; cases l; cases "projr l") (auto simp: execute_next_presence_def rec)
    next
      case True
      then obtain b lease where rl: "r = Inr b" "l = Inr (Some lease)" by blast
      obtain q s3 where q: "prepare_next_presence_target host env lease now s2 = (q, s3)" by (rule prod.exhaust)
      show ?thesis using known rl q sub by (cases q) (auto simp: execute_next_presence_def rec)
    qed
  qed
qed

section \<open>The last attempt\<close>

lemma presence_retry_loop_capped: "presence_retry_loop 30000 turns = 30000"
  by (induction turns) (simp_all add: saturating_mul_def u64_max_def MAXIMUM_BACKOFF_MILLISECONDS_def)

lemma presence_retry_loop_seven: "presence_retry_loop 250 (Suc (Suc (Suc (Suc (Suc (Suc (Suc turns))))))) = 30000"
  by (simp add: saturating_mul_def u64_max_def MAXIMUM_BACKOFF_MILLISECONDS_def presence_retry_loop_capped)

lemma presence_retry_upper_bound_last: "presence_retry_upper_bound RHI_PRESENCE_MAX_ATTEMPTS = 30000"
  using presence_retry_loop_seven[of 92]
  by (simp add: presence_retry_upper_bound_def RHI_PRESENCE_MAX_ATTEMPTS_def INITIAL_BACKOFF_MILLISECONDS_def
      MAXIMUM_BACKOFF_MILLISECONDS_def)

lemma presence_record_last_rejected:
  assumes "qi_attempt_id input \<notin> pax_attempt_id ` set (presence_attempt_rows s)"
    and "qi_attempt_number input = RHI_PRESENCE_MAX_ATTEMPTS" and "0 < qi_retry_delay input"
  shows "presence_record_outcome sha256 key_ok input s \<noteq> Inr (commit, s')"
proof -
  have none: "filter (\<lambda>r. pax_attempt_id r = qi_attempt_id input) (presence_attempt_rows s) = []"
    using assms(1) by (force simp: filter_empty_conv)
  have "settle_presence_target input s \<noteq> Inr x" for x
    using assms(2,3) by (cases x) (auto simp: settle_presence_target_def presence_outcome_schedule_def)
  with none show ?thesis
    by (auto simp: presence_record_outcome_def read_presence_attempt_def presence_zero_or_one_def)
qed

lemma record_presence_last_dropped:
  assumes host: "atomic_txn (sh_record host)"
    and new: "qp_attempt_id p \<notin> pax_attempt_id ` set (presence_attempt_rows s)"
    and last: "qt_attempt_count (qp_target p) = RHI_PRESENCE_MAX_ATTEMPTS" and delay: "0 < delay"
  shows "\<exists>e. record_presence_outcome host env p finished outcome delay s = (Inl e, s)"
proof (cases "presence_input_from_prepared (en_sha256 env) p finished outcome delay")
  case (Inl e)
  then show ?thesis by (auto simp: record_presence_outcome_def split: sum.split)
next
  case (Inr input)
  then have i: "qi_attempt_id input = qp_attempt_id p" "qi_attempt_number input = RHI_PRESENCE_MAX_ATTEMPTS"
      "qi_retry_delay input = delay"
    using last by (auto simp: presence_input_from_prepared_def Let_def split: if_splits)
  let ?body = "presence_record_outcome (en_sha256 env) (en_key_ok env) input"
  have none: "?body s \<noteq> Inr (commit, s')" for commit s'
    by (rule presence_record_last_rejected) (use new delay i in auto)
  obtain r s' where t: "sh_record host ?body s = (r, s')" by (cases "sh_record host ?body s")
  have "s' = s" using atomic_txn_state[OF host t] none by auto
  moreover have "\<exists>e. r = Inl e" using atomic_txnD(1)[OF host, of ?body s] t none by (cases r) blast+
  ultimately show ?thesis
    using Inr t by (auto simp: record_presence_outcome_def run_presence_txn_def split: sum.split)
qed

text \<open>
  C29.  The executor loses the outcome of the last permitted presence attempt.  When the relay answers the submission of
  the last attempt with a retryable outcome, the executor draws a delay up to 30,000 milliseconds as for any other
  attempt, and with every positive draw it reports an error and leaves the store as it was before the submission: the
  outcome is not recorded and the target stays submitted.
\<close>

theorem presence_last_outcome_dropped:
  assumes host: "atomic_txn (sh_record host)"
    and new: "qp_attempt_id p \<notin> pax_attempt_id ` set (presence_attempt_rows s)"
    and last: "qt_attempt_count (qp_target p) = RHI_PRESENCE_MAX_ATTEMPTS"
    and reply: "sw_submit_exact world p w = (reply, w1)" "presence_observed reply \<in> {PrRateLimited, PrFailed, PrUnknown}"
    and clock: "sw_wall_clock world w1 = (wall, w2)" "presence_now wall = Inr finished"
    and draw: "sample_full_jitter (sw_fill_bytes world) 30000 w2 = (Inr delay, w3)" "delay \<noteq> 0"
  shows "\<exists>e. presence_submit_and_record host env world p (s, w) = (Inl e, s, w3)"
proof -
  have "presence_retry_upper_bound (qt_attempt_count (qp_target p)) = 30000" using last presence_retry_upper_bound_last by simp
  then have "presence_sample_delay (sw_fill_bytes world) (presence_retry_upper_bound (qt_attempt_count (qp_target p))) w2 = (Inr (unat delay), w3)"
    using draw(1) by (simp add: presence_sample_delay_def jitter_bound_new_def RHI_RUNTIME_JITTER_MAX_MILLISECONDS_def)
  moreover have "presence_retryable_outcome (presence_observed reply)" using reply(2) by auto
  moreover have "0 < unat delay" using draw(2) by (simp add: unat_gt_0)
  then obtain e where "record_presence_outcome host env p finished (presence_observed reply) (unat delay) s = (Inl e, s)"
    using record_presence_last_dropped[OF host new last] by blast
  ultimately show ?thesis using reply(1) clock by (simp add: presence_submit_and_record_def Let_def)
qed

end
