(* ===== verification/Presence_Demo.thy ===== *)
theory Presence_Demo
  imports Presence_Props Presence_Desired_Props
begin

text \<open>
  One relay and one service profile: the instances at which the properties of the presence delivery are applied.
\<close>

definition pdemo_bytes :: bytes where "pdemo_bytes = [97]"

definition pdemo_body :: authored_body where "pdemo_body = \<lparr>ab_kind = 0, ab_tags = [], ab_content = [98]\<rparr>"

definition pdemo_event :: signed_envelope where
  "pdemo_event = \<lparr>ee_id = replicate 32 9, ee_sig = [], ee_author = [], ee_kind = 0, ee_created_at = 5, ee_content = [98], sv_tags = []\<rparr>"

definition pdemo_crate :: "(unit, unit) presence_crate" where
  "pdemo_crate = \<lparr>
     xc_profile_plan = (\<lambda>_ _ _ _ created _. Some \<lparr>pl_body = pdemo_body, pl_created_at = created, pl_author = [],
       pl_expected_event_id = replicate 32 9\<rparr>),
     xc_metadata_json = (\<lambda>_ _. None), xc_build_handler = (\<lambda>_ _ _ _. None), xc_nostr_key = (\<lambda>_. None),
     xc_request_id = (\<lambda>_ _ _. None), xc_handler_kind = 31990, xc_generic_plan = (\<lambda>_ _ _ _ _ _. None),
     xc_tag_ok = (\<lambda>_. True), xc_event_id = (\<lambda>_. replicate 32 9), xc_to_vec = (\<lambda>_. Some pdemo_bytes),
     xc_parse_wire = (\<lambda>_ _. Some pdemo_event), xc_verify_id = (\<lambda>_. True), xc_verify = (\<lambda>_. True),
     xc_author_hex = (\<lambda>_. desired_key)\<rparr>"

lemma pdemo_utf8: "from_utf8 [97] \<noteq> None"
proof -
  have "utf8 [97] = [97]" by (simp add: utf8_def utf8_char_def byte_def)
  moreover have "from_utf8 (utf8 [97]) = Some [97]" by (rule from_utf8_encode) (simp add: is_scalar_def)
  ultimately show ?thesis by (simp del: from_utf8.simps)
qed

lemma pdemo_validated: "validate_signed_document pdemo_crate ServiceProfile desired_key 5 pdemo_bytes = Inr pdemo_event"
  using pdemo_utf8
  by (simp del: from_utf8.simps add: validate_signed_document_def pdemo_bytes_def RHI_PRESENCE_SIGNED_EVENT_MAX_BYTES_def pdemo_crate_def
      pdemo_event_def presence_plan_def pdemo_body_def)

definition pdemo_desired_row :: desired_row where
  "pdemo_desired_row = \<lparr>dr_singleton = 1, dr_generation = 1, dr_enabled = 1, dr_profile = 1, dr_application_handler = 0,
     dr_target_set_sha256 = replicate 32 7, dr_target_count = 1, dr_required_target_count = 1, dr_queue_capacity = 16,
     dr_desired_sha256 = replicate 32 7\<rparr>"

definition pdemo_state :: desired_state where
  "pdemo_state = \<lparr>dst_generation = 1, dst_mode = PresenceEnabled, dst_profile = True, dst_application_handler = False,
     dst_target_set_sha256 = replicate 32 7, dst_target_count = 1, dst_required_target_count = 1, dst_queue_capacity = 16,
     dst_desired_sha256 = replicate 32 7\<rparr>"

lemma pdemo_decoded: "decode_desired pdemo_desired_row = Inr pdemo_state"
  by (simp add: decode_desired_def pdemo_desired_row_def pdemo_state_def desired_positive_u64_def desired_boolean_i64_def
      desired_digest_def desired_count_u8_def RHI_PRESENCE_DESIRED_MAX_TARGETS_def)

definition pdemo_document :: signed_document where
  "pdemo_document = \<lparr>sd_kind = ServiceProfile, sd_event_id = replicate 32 9, sd_signed_event_sha256 = replicate 32 7,
     sd_signed_event_bytes = pdemo_bytes, sd_created_at = 5\<rparr>"

definition pdemo_documents :: signed_documents where
  "pdemo_documents = \<lparr>ss_desired_state = pdemo_state, ss_service_public_key = desired_key, ss_targets = [desired_target],
     ss_documents = [pdemo_document]\<rparr>"

definition pdemo_store :: "presence_outbox_row list \<Rightarrow> presence_target_row list \<Rightarrow> presence_store" where
  "pdemo_store outbox_rows target_rows =
     \<lparr>dirty_generations = [], jobs = [], mutation_rows = [], nostr_rows = [], observation_rows = [],
      checkpoint_rows = [], binding_rows = [desired_binding_row], desired_rows = [pdemo_desired_row],
      presence_outboxes = outbox_rows, presence_target_rows = target_rows, presence_attempt_rows = []\<rparr>"

lemma pdemo_store_simps [simp]:
  "desired_rows (pdemo_store os ts) = [pdemo_desired_row]" "presence_outboxes (pdemo_store os ts) = os"
  "presence_target_rows (pdemo_store os ts) = ts" "presence_attempt_rows (pdemo_store os ts) = []"
  "pdemo_store os ts\<lparr>presence_outboxes := os'\<rparr> = pdemo_store os' ts"
  "pdemo_store os ts\<lparr>presence_target_rows := ts'\<rparr> = pdemo_store os ts'"
  by (simp_all add: pdemo_store_def)

definition pdemo_outbox_row :: "string \<Rightarrow> int \<Rightarrow> int option \<Rightarrow> bytes option \<Rightarrow> int option \<Rightarrow> presence_outbox_row" where
  "pdemo_outbox_row state revision next owner expires =
     (insert_outbox_row (replicate 32 7) 1 pdemo_document pdemo_state 5 desired_key 1000)
       \<lparr>pox_state := state, pox_revision := revision, pox_next_attempt_unix_ms := next, pox_lease_owner := owner,
        pox_lease_expires_unix_ms := expires\<rparr>"

definition pdemo_target_row :: presence_target_row where
  "pdemo_target_row = insert_target_row (replicate 32 7) desired_target 1000"

definition pdemo_target :: presence_target_record where
  "pdemo_target = \<lparr>qt_ordinal = 0, qt_relay_id = ''relay'', qt_required = True, qt_state = PtPending, qt_revision = 1,
     qt_attempt_count = 0, qt_next_attempt = Some 1000, qt_last_attempt_id = None, qt_updated_at = 1000\<rparr>"

definition pdemo_outbox ::
  "presence_outbox_state \<Rightarrow> nat \<Rightarrow> nat option \<Rightarrow> bytes option \<Rightarrow> nat option \<Rightarrow> presence_target_record list \<Rightarrow> presence_outbox_record" where
  "pdemo_outbox state revision next owner expires ts =
     \<lparr>qo_id = replicate 32 7, qo_desired_generation = 1, qo_document_kind = ServiceProfile, qo_desired_sha256 = replicate 32 7,
      qo_target_set_sha256 = replicate 32 7, qo_event_id = replicate 32 9, qo_event_sha256 = replicate 32 7,
      qo_exact_signed_event_bytes = pdemo_bytes, qo_authored_at = 5, qo_service_public_key = desired_key, qo_target_count = 1,
      qo_required_target_count = 1, qo_max_attempts = 100, qo_state = state, qo_revision = revision, qo_next_attempt = next,
      qo_lease_owner = owner, qo_lease_expires = expires, qo_created_at = 1000, qo_updated_at = 1000, qo_targets = ts\<rparr>"

lemma pdemo_target_decoded: "decode_presence_target pdemo_target_row = Inr pdemo_target"
  by (simp add: decode_presence_target_def pdemo_target_row_def insert_target_row_def desired_target_def pdemo_target_def
      presence_u8_def presence_u16_def presence_text_def presence_bool_def bool_i64_def decode_presence_target_state_def
      presence_positive_def presence_nonnegative_def presence_millis_def presence_attempt_ident_def
      RHI_PRESENCE_DESIRED_MAX_TARGETS_def RHI_PRESENCE_MAX_ATTEMPTS_def valid_relay_id_def relay_id_byte_def is_ascii_lowercase_def
      valid_presence_target_shape_def)

lemma pdemo_outbox_decoded:
  assumes "decode_presence_outbox_state state = Inr v" "length state \<le> 10" "state \<noteq> ''''" "0 < revision"
    "pred_option (\<lambda>b. length b = 16 \<and> \<not> list_all (\<lambda>x. x = 0) b) owner" "valid_presence_outbox_shape v next owner expires"
  shows "decode_presence_outbox desired_hash (\<lambda>_. True)
      (pdemo_outbox_row state (int revision) (map_option int next) owner (map_option int expires))
    = Inr (pdemo_outbox v revision next owner expires [])"
proof -
  have "presence_owner owner = Inr owner" using assms(5) by (simp add: presence_owner_iff)
  moreover have "presence_text state 10 = Inr state" using assms(2,3) by (simp add: presence_text_iff)
  moreover have "presence_millis (map_option int next) = Inr next" "presence_millis (map_option int expires) = Inr expires"
    by (simp_all add: presence_millis_iff)
  moreover have "presence_text desired_key 64 = Inr desired_key" by (simp add: presence_text_iff desired_key_def)
  ultimately show ?thesis using assms(1,4,6) desired_key_ok
    by (simp add: decode_presence_outbox_def pdemo_outbox_row_def insert_outbox_row_def pdemo_document_def pdemo_state_def
        presence_blob_def presence_positive_def presence_nonnegative_def presence_text_def[of "''service_profile''"]
        decode_document_kind_def RHI_PRESENCE_SIGNED_EVENT_MAX_BYTES_def pdemo_bytes_def presence_u8_def
        RHI_PRESENCE_DESIRED_MAX_TARGETS_def presence_u16_def RHI_PRESENCE_MAX_ATTEMPTS_def presence_u64_def
        INITIAL_BACKOFF_MILLISECONDS_def MAXIMUM_BACKOFF_MILLISECONDS_def ATTEMPT_DEADLINE_MILLISECONDS_def desired_hash_def
        pdemo_outbox_def)
qed

section \<open>Committing\<close>

definition pdemo_committed :: presence_store where
  "pdemo_committed = pdemo_store [pdemo_outbox_row ''pending'' 1 (Some 1000) None None] [pdemo_target_row]"

lemma pdemo_read_targets [simp]:
  "read_presence_targets (replicate 32 7) (pdemo_store rows [pdemo_target_row]) = Inr [pdemo_target]"
  by (simp add: read_presence_targets_def RHI_PRESENCE_DESIRED_MAX_TARGETS_def pdemo_target_decoded)
    (simp add: pdemo_target_row_def insert_target_row_def pdemo_target_decoded)

lemma pdemo_targets_valid:
  "validate_presence_targets desired_hash (pdemo_outbox v n x b e us) [pdemo_target] = Inr ()"
  by (simp add: validate_presence_targets_def pdemo_outbox_def pdemo_target_def RHI_PRESENCE_DESIRED_MAX_TARGETS_def
      operation_target_set_digest_def presence_targets_sized_def record_target_def u64_max_def desired_hash_def)

lemma pdemo_binding [simp]: "read_desired_binding (pdemo_store rows ts) = Inr pdemo_state"
  by (simp add: read_desired_binding_def pdemo_decoded)

lemma pdemo_documents_valid:
  "validate_document_set desired_hash (\<lambda>_. True) pdemo_crate pdemo_documents pdemo_state = Inr ()"
  using pdemo_validated desired_key_ok
  by (simp add: validate_document_set_def pdemo_documents_def pdemo_state_def binding_document_kinds_def
      operation_target_set_digest_def presence_targets_sized_def desired_target_def desired_hash_def u64_max_def
      pdemo_document_def RHI_PRESENCE_SIGNED_EVENT_MAX_BYTES_def pdemo_event_def)
    (simp add: pdemo_bytes_def)

lemma pdemo_pending_decoded:
  "decode_presence_outbox desired_hash (\<lambda>_. True) (pdemo_outbox_row ''pending'' 1 (Some 1000) None None)
     = Inr (pdemo_outbox PoPending 1 (Some 1000) None None [])"
  using pdemo_outbox_decoded[of "''pending''" PoPending 1 None "Some 1000" None]
  by (simp add: decode_presence_outbox_state_def)

lemma pdemo_stored:
  "read_generation_outboxes desired_hash (\<lambda>_. True) 1 pdemo_committed
     = Inr [pdemo_outbox PoPending 1 (Some 1000) None None [pdemo_target]]"
proof -
  have "decode_with_targets desired_hash (\<lambda>_. True) pdemo_committed (pdemo_outbox_row ''pending'' 1 (Some 1000) None None)
      = Inr (pdemo_outbox PoPending 1 (Some 1000) None None [pdemo_target])"
    by (simp add: decode_with_targets_def pdemo_pending_decoded pdemo_committed_def pdemo_outbox_def[of PoPending])
  then show ?thesis
    by (simp add: read_generation_outboxes_def presence_i64_value_def i64_of_u64_def i64_max_def pdemo_committed_def)
      (simp add: pdemo_outbox_row_def insert_outbox_row_def)
qed

lemma pdemo_docs: "ss_documents pdemo_documents = [pdemo_document]" "ss_targets pdemo_documents = [desired_target]"
    "ss_desired_state pdemo_documents = pdemo_state" "ss_service_public_key pdemo_documents = desired_key"
  by (simp_all add: pdemo_documents_def)

lemma pdemo_matches:
  "generation_matches desired_hash pdemo_documents [pdemo_outbox PoPending 1 (Some 1000) None None [pdemo_target]] = Inr True"
proof -
  have "outbox_matches_document desired_hash pdemo_documents pdemo_document
      (pdemo_outbox PoPending 1 (Some 1000) None None [pdemo_target])"
    by (simp add: outbox_matches_document_def pdemo_documents_def pdemo_outbox_def pdemo_state_def pdemo_document_def
        pdemo_target_def desired_target_def derive_outbox_id_def desired_hash_def)
  moreover have "qo_targets (pdemo_outbox PoPending 1 (Some 1000) None None [pdemo_target]) = [pdemo_target]"
    by (simp add: pdemo_outbox_def)
  ultimately show ?thesis by (simp add: generation_matches_def pdemo_docs pdemo_targets_valid)
qed

lemma pdemo_outbox_row_ok: "presence_outbox_check (pdemo_outbox_row ''pending'' 1 (Some 1000) None None)"
  by (simp add: presence_outbox_check_def pdemo_outbox_row_def insert_outbox_row_def pdemo_document_def pdemo_state_def
      pdemo_bytes_def desired_key_def ascii_hex_lower_def ascii_digit_def nullable_instant_def
      presence_outbox_shape_def list_all_iff)

lemma pdemo_target_row_ok: "presence_target_check pdemo_target_row"
  by (simp add: presence_target_check_def pdemo_target_row_def insert_target_row_def desired_target_def presence_relay_check_def
      relay_id_byte_def is_ascii_lowercase_def bool_i64_def nullable_instant_def presence_target_shape_def)

lemma pdemo_inserted:
  "insert_presence_documents desired_hash pdemo_documents pdemo_state 1000 [pdemo_document] (pdemo_store [] []) = Inr pdemo_committed"
proof -
  have g: "dst_generation pdemo_state = 1" "sd_created_at pdemo_document = 5" by (simp_all add: pdemo_state_def pdemo_document_def)
  have row: "insert_outbox_row (replicate 32 7) 1 pdemo_document pdemo_state 5 desired_key 1000
      = pdemo_outbox_row ''pending'' 1 (Some 1000) None None"
    by (simp add: pdemo_outbox_row_def insert_outbox_row_def)
  have id: "pox_outbox_id (pdemo_outbox_row ''pending'' 1 (Some 1000) None None) = replicate 32 7"
      "ptx_outbox_id pdemo_target_row = replicate 32 7"
    by (simp_all add: pdemo_outbox_row_def insert_outbox_row_def pdemo_target_row_def insert_target_row_def)
  show ?thesis
    using pdemo_outbox_row_ok pdemo_target_row_ok
    by (simp add: insert_presence_document_def g presence_i64_value_def i64_of_u64_def i64_max_def derive_outbox_id_def
        desired_hash_def pdemo_docs row sql_insert_def presence_outboxes_valid_def presence_targets_valid_def id
        pdemo_committed_def flip: pdemo_target_row_def)
qed

lemma pdemo_commit: "\<exists>out. commit_signed desired_hash (\<lambda>_. True) pdemo_crate pdemo_documents 1000 (pdemo_store [] []) = Inr (out, pdemo_committed)"
proof -
  have g: "dst_generation pdemo_state = 1" by (simp add: pdemo_state_def)
  have "read_generation_outboxes desired_hash (\<lambda>_. True) 1 (pdemo_store [] []) = Inr []"
    by (simp add: read_generation_outboxes_def presence_i64_value_def i64_of_u64_def i64_max_def)
  moreover have "authored_later [pdemo_document] (pdemo_store [] []) = Inr ()" by (simp add: max_authored_def)
  moreover have "stale_leases n (pdemo_store [] []) = 0" for n by (simp add: stale_leases_def)
  moreover have "update_presence_outboxes p f (pdemo_store [] []) = Inr (pdemo_store [] [], 0)" for p f
    by (simp add: update_presence_outboxes_def sql_update_def presence_outboxes_valid_def)
  moreover have "presence_i64_value 1 = Inr 1" "presence_i64_value 1000 = Inr 1000"
    by (simp_all add: presence_i64_value_def i64_of_u64_def i64_max_def)
  moreover have "\<exists>out. commit_outcome_of pdemo_documents True = Inr out" by (simp add: commit_outcome_of_def pdemo_docs)
  ultimately show ?thesis
    using pdemo_documents_valid pdemo_stored pdemo_matches pdemo_inserted
    by (simp add: commit_signed_def g pdemo_docs)
qed

theorem presence_commit_once_witness:
  "\<exists>out. commit_signed desired_hash (\<lambda>_. True) pdemo_crate pdemo_documents 2000 pdemo_committed
       = Inr (out\<lparr>pco_changed := False\<rparr>, pdemo_committed)
     \<and> length (generation_rows (dst_generation (ss_desired_state pdemo_documents)) (presence_outboxes pdemo_committed)) = 1"
proof -
  obtain out where run: "commit_signed desired_hash (\<lambda>_. True) pdemo_crate pdemo_documents 1000 (pdemo_store [] [])
      = Inr (out, pdemo_committed)" using pdemo_commit by blast
  note once = presence_commit_once[OF run, of 2000]
  have "ss_documents pdemo_documents = [pdemo_document]" by (simp add: pdemo_docs)
  with once show ?thesis by (auto dest!: list_all2_lengthD)
qed

section \<open>Preparing\<close>

definition pdemo_owner :: bytes where "pdemo_owner = replicate 16 1"

definition pdemo_leased_row :: presence_outbox_row where
  "pdemo_leased_row = pdemo_outbox_row ''leased'' 2 None (Some pdemo_owner) (Some 16000)"

definition pdemo_leased :: presence_store where
  "pdemo_leased = pdemo_store [pdemo_leased_row] [pdemo_target_row]"

definition pdemo_lease :: presence_lease where
  "pdemo_lease = \<lparr>ql_outbox = pdemo_outbox PoLeased 2 None (Some pdemo_owner) (Some 16000) [pdemo_target],
     ql_owner = pdemo_owner, ql_expires_at = 16000\<rparr>"

definition pdemo_submitted_row :: presence_target_row where
  "pdemo_submitted_row = prepare_presence_set (replicate 32 7) 1000 pdemo_target_row"

definition pdemo_submitted :: presence_target_record where
  "pdemo_submitted = pdemo_target\<lparr>qt_state := PtSubmitted, qt_revision := 2, qt_attempt_count := 1, qt_next_attempt := None,
     qt_last_attempt_id := Some (replicate 32 7)\<rparr>"

definition pdemo_prepared :: presence_store where
  "pdemo_prepared = pdemo_store [pdemo_leased_row] [pdemo_submitted_row]"

definition pdemo_attempt :: prepared_presence where
  "pdemo_attempt = \<lparr>qp_lease = pdemo_lease, qp_target = pdemo_submitted, qp_attempt_id = replicate 32 7, qp_started_at = 1000,
     qp_deadline_at = 16000, qp_exact_signed_event_bytes = pdemo_bytes\<rparr>"

lemma pdemo_submitted_decoded: "decode_presence_target pdemo_submitted_row = Inr pdemo_submitted"
  by (simp add: decode_presence_target_def pdemo_submitted_row_def prepare_presence_set_def pdemo_target_row_def
      insert_target_row_def desired_target_def pdemo_target_def pdemo_submitted_def
      presence_u8_def presence_u16_def presence_text_def presence_bool_def bool_i64_def decode_presence_target_state_def
      presence_positive_def presence_nonnegative_def presence_millis_def presence_attempt_ident_def
      RHI_PRESENCE_DESIRED_MAX_TARGETS_def RHI_PRESENCE_MAX_ATTEMPTS_def valid_relay_id_def relay_id_byte_def is_ascii_lowercase_def
      valid_presence_target_shape_def)

lemma pdemo_leased_decoded:
  "decode_presence_outbox desired_hash (\<lambda>_. True) pdemo_leased_row
     = Inr (pdemo_outbox PoLeased 2 None (Some pdemo_owner) (Some 16000) [])"
  using pdemo_outbox_decoded[of "''leased''" PoLeased 2 "Some pdemo_owner" None "Some 16000"]
  by (simp add: decode_presence_outbox_state_def pdemo_owner_def pdemo_leased_row_def list_all_iff)

lemma pdemo_ids: "pox_outbox_id pdemo_leased_row = replicate 32 7" "ptx_outbox_id pdemo_target_row = replicate 32 7"
    "ptx_outbox_id pdemo_submitted_row = replicate 32 7"
  by (simp_all add: pdemo_leased_row_def pdemo_outbox_row_def insert_outbox_row_def pdemo_target_row_def insert_target_row_def
      pdemo_submitted_row_def prepare_presence_set_def)

lemma pdemo_read_leased:
  assumes "read_presence_targets (replicate 32 7) (pdemo_store [pdemo_leased_row] ts) = Inr us"
  shows "read_presence_outbox desired_hash (\<lambda>_. True) (replicate 32 7) (pdemo_store [pdemo_leased_row] ts)
     = Inr (Some (pdemo_outbox PoLeased 2 None (Some pdemo_owner) (Some 16000) us))"
  using assms
  by (simp add: read_presence_outbox_def pdemo_ids presence_zero_or_one_def decode_with_targets_def pdemo_leased_decoded)
    (simp add: pdemo_outbox_def)

lemma pdemo_update:
  "update_presence_targets (prepare_presence_where (replicate 32 7) 0 1 100 1000) (prepare_presence_set (replicate 32 7) 1000)
     pdemo_leased = Inr (pdemo_prepared, 1)"
proof -
  have "prepare_presence_where (replicate 32 7) 0 1 100 1000 pdemo_target_row"
    by (simp add: prepare_presence_where_def pdemo_target_row_def insert_target_row_def desired_target_def)
  moreover have "presence_target_guard pdemo_target_row pdemo_submitted_row"
    by (simp add: presence_target_guard_def presence_target_transition_def pdemo_submitted_row_def prepare_presence_set_def
        pdemo_target_row_def insert_target_row_def)
  moreover have "presence_target_check pdemo_submitted_row"
    using pdemo_target_row_ok
    by (simp add: presence_target_check_def pdemo_submitted_row_def prepare_presence_set_def pdemo_target_row_def
        insert_target_row_def presence_target_shape_def nullable_instant_def)
  ultimately show ?thesis
    by (simp add: update_presence_targets_def pdemo_leased_def sql_update_def presence_targets_valid_def pdemo_ids pdemo_prepared_def
        flip: pdemo_submitted_row_def)
qed

lemma pdemo_prepare:
  "presence_prepare_next desired_hash (\<lambda>_. True) pdemo_crate pdemo_lease 1000 pdemo_leased = Inr (pdemo_attempt, pdemo_prepared)"
proof -
  let ?b = "pdemo_outbox PoLeased 2 None (Some pdemo_owner) (Some 16000)"
  have lease: "ql_outbox pdemo_lease = ?b [pdemo_target]" "ql_owner pdemo_lease = pdemo_owner" "ql_expires_at pdemo_lease = 16000"
    by (simp_all add: pdemo_lease_def)
  have b: "qo_id (?b us) = replicate 32 7" "qo_max_attempts (?b us) = 100" "qo_event_sha256 (?b us) = replicate 32 7"
      "qo_targets (?b us) = us" "qo_document_kind (?b us) = ServiceProfile" "qo_service_public_key (?b us) = desired_key"
      "qo_authored_at (?b us) = 5" "qo_exact_signed_event_bytes (?b us) = pdemo_bytes" "qo_state (?b us) = PoLeased"
      "qo_lease_owner (?b us) = Some pdemo_owner" "qo_lease_expires (?b us) = Some 16000" for us
    by (simp_all add: pdemo_outbox_def)
  have "validate_current_desired (?b us) pdemo_leased = Inr ()" for us
    by (simp add: validate_current_desired_def pdemo_leased_def desired_matches_outbox_def)
      (simp add: pdemo_outbox_def pdemo_state_def binding_document_kinds_def)
  then have "presence_validate_lease desired_hash (\<lambda>_. True) pdemo_lease 1000 True pdemo_leased = Inr ()"
    using pdemo_read_leased[OF pdemo_read_targets]
    by (simp add: presence_validate_lease_def lease b pdemo_leased_def[symmetric] same_presence_outbox_def same_presence_identity_def)
  moreover have "find (presence_target_due 100 1000) [pdemo_target] = Some pdemo_target"
    by (simp add: presence_target_due_def pdemo_target_def)
  moreover have "submit_presence_target desired_hash (\<lambda>_. True) pdemo_lease 1000 pdemo_target 1 (replicate 32 7) pdemo_leased
      = Inr (pdemo_submitted, pdemo_prepared)"
  proof -
    have r: "read_presence_targets (replicate 32 7) pdemo_prepared = Inr [pdemo_submitted]"
      by (simp add: read_presence_targets_def pdemo_prepared_def pdemo_ids RHI_PRESENCE_DESIRED_MAX_TARGETS_def pdemo_submitted_decoded)
    have q: "qt_ordinal pdemo_target = 0" "qt_revision pdemo_target = 1" "qt_ordinal pdemo_submitted = 0"
        "qt_state pdemo_submitted = PtSubmitted" "qt_attempt_count pdemo_submitted = 1" "qt_updated_at pdemo_submitted = 1000"
        "qt_last_attempt_id pdemo_submitted = Some (replicate 32 7)"
      by (simp_all add: pdemo_target_def pdemo_submitted_def)
    have "same_presence_identity (?b us) (?b vs)" for us vs by (simp add: same_presence_identity_def pdemo_outbox_def)
    then show ?thesis
      using pdemo_update pdemo_read_leased[OF r[unfolded pdemo_prepared_def], folded pdemo_prepared_def]
      by (simp add: submit_presence_target_def lease b q presence_i64_value_def i64_of_u64_def i64_max_def)
  qed
  moreover have "qt_attempt_count pdemo_target = 0" "qt_ordinal pdemo_target = 0" by (simp_all add: pdemo_target_def)
  ultimately show ?thesis
    using pdemo_validated
    by (simp add: presence_prepare_next_def lease b presence_attempt_id_def desired_hash_def pdemo_attempt_def)
qed

theorem presence_prepared_exact_witness:
  "\<exists>r \<in> set (presence_outboxes pdemo_prepared). \<exists>t \<in> set (presence_target_rows pdemo_prepared).
      desired_now pdemo_prepared r \<and> qp_exact_signed_event_bytes pdemo_attempt = pox_exact_signed_event_bytes r
    \<and> ptx_state t = ''submitted'' \<and> ptx_last_attempt_id t = Some (qp_attempt_id pdemo_attempt)"
  using presence_prepared_exact[OF pdemo_prepare] by blast

section \<open>Executing\<close>

definition pdemo_host :: presence_host where
  "pdemo_host = \<lparr>sh_mode = ReadWriteExisting, sh_commit = committing_txn, sh_claim = committing_txn, sh_prepare = committing_txn,
     sh_record = committing_txn, sh_candidate = committing_txn, sh_recover = committing_txn\<rparr>"

definition pdemo_env :: "(unit, unit) presence_env" where
  "pdemo_env = \<lparr>en_sha256 = desired_hash, en_key_ok = (\<lambda>_. True), en_crate = pdemo_crate\<rparr>"

text \<open>One sink accepts everything, the other rejects what is not verified.\<close>

definition pdemo_world :: "unit presence_world" where
  "pdemo_world = \<lparr>sw_wall_clock = (\<lambda>w. (Some 1, w)), sw_fill_bytes = (\<lambda>w. (None, w)),
     sw_submit_exact = (\<lambda>_ w. (PrAccepted, w))\<rparr>"

definition pdemo_sink :: "prepared_presence \<Rightarrow> unit \<Rightarrow> presence_outcome \<times> unit" where
  "pdemo_sink p w = (if presence_verified pdemo_env p then PrAccepted else PrRejected, w)"

theorem presence_sink_sees_verified_witness:
  "execute_next_presence pdemo_host pdemo_env pdemo_world pdemo_owner (pdemo_committed, ()) =
    execute_next_presence pdemo_host pdemo_env (pdemo_world\<lparr>sw_submit_exact := pdemo_sink\<rparr>) pdemo_owner (pdemo_committed, ())"
  by (rule presence_sink_sees_verified) (simp_all add: pdemo_host_def committing_txn_atomic pdemo_world_def pdemo_sink_def)

text \<open>A relay that fails every submission, and entropy whose draw is the largest delay.\<close>

definition pdemo_failing :: "unit presence_world" where
  "pdemo_failing = \<lparr>sw_wall_clock = (\<lambda>w. (Some 1, w)), sw_fill_bytes = (\<lambda>w. (Some (replicate 8 255), w)),
     sw_submit_exact = (\<lambda>_ w. (PrFailed, w))\<rparr>"

lemma pdemo_largest_delay: "sample_full_jitter (sw_fill_bytes pdemo_failing) 30000 () = (Inr 30000, ())"
proof -
  have "jitter_draw 30001 (u64_from_be_bytes (replicate 8 255)) = Some 30000" by code_simp
  then show ?thesis
    by (simp add: sample_full_jitter_def pdemo_failing_def RHI_RUNTIME_JITTER_MAX_ENTROPY_DRAWS_def eval_nat_numeral)
qed

lemma pdemo_clock: "presence_now (Some 1) = Inr 1000"
  by (simp add: presence_now_def now_utc_milliseconds_def now_utc_def checked_mul_def u64_max_def presence_unix_ms_new_def
      i64_max_def ok_or_def option_filter_def del: and_then_Inr_iff)

theorem presence_last_outcome_dropped_witness:
  "\<exists>e. presence_submit_and_record pdemo_host pdemo_env pdemo_failing
     (pdemo_attempt\<lparr>qp_target := pdemo_submitted\<lparr>qt_attempt_count := 100\<rparr>\<rparr>) (pdemo_prepared, ()) = (Inl e, pdemo_prepared, ())"
  by (rule presence_last_outcome_dropped[OF _ _ _ _ _ _ pdemo_clock pdemo_largest_delay, where reply = PrFailed])
    (simp_all add: pdemo_host_def committing_txn_atomic pdemo_prepared_def RHI_PRESENCE_MAX_ATTEMPTS_def pdemo_failing_def
      presence_observed_def)

end
