(* ===== verification/Admin_Models.thy ===== *)
theory Admin_Models
  imports Publication_Authority Utf8_Text "HOL-Library.Char_ord"
begin

text \<open>
  The routes and the documents of the administrative interface, \<open>src/src/admin_v1.rs\<close>: the route inventory, the
  admission of query strings, request models and response models against the operator contract, and the dispatch of a
  request.  A Rust string is a \<open>string\<close> whose characters are its UTF-8 bytes.
\<close>

section \<open>Routes\<close>

datatype admin_method = MethodGet | MethodPost

datatype admin_route = RouteStatus | RouteEffectiveConfig | RouteIdentityStatus | RouteIdentityPublic | RouteStateStatus
  | RouteStateBackup | RouteMetricsSnapshot | RouteReconciliationStatus | RouteReconciliationJobs
  | RouteReconciliationRefresh | RouteSources | RouteTradeProjection | RouteTradeReportCurrent | RouteTradeReports
  | RoutePublicationBacklog | RoutePublicationTargets | RoutePublicationRetry | RoutePresenceDesired | RoutePresenceRender
  | RoutePresenceRefresh

definition admin_routes :: "admin_route list" where
  "admin_routes = [RouteStatus, RouteEffectiveConfig, RouteIdentityStatus, RouteIdentityPublic, RouteStateStatus,
     RouteStateBackup, RouteMetricsSnapshot, RouteReconciliationStatus, RouteReconciliationJobs, RouteReconciliationRefresh,
     RouteSources, RouteTradeProjection, RouteTradeReportCurrent, RouteTradeReports, RoutePublicationBacklog,
     RoutePublicationTargets, RoutePublicationRetry, RoutePresenceDesired, RoutePresenceRender, RoutePresenceRefresh]"

fun route_method :: "admin_route \<Rightarrow> admin_method" where
  "route_method RouteStateBackup = MethodPost"
| "route_method RouteReconciliationRefresh = MethodPost"
| "route_method RoutePublicationRetry = MethodPost"
| "route_method RoutePresenceRender = MethodPost"
| "route_method RoutePresenceRefresh = MethodPost"
| "route_method _ = MethodGet"

fun route_path :: "admin_route \<Rightarrow> string" where
  "route_path RouteStatus = ''/v1/status''"
| "route_path RouteEffectiveConfig = ''/v1/config/effective''"
| "route_path RouteIdentityStatus = ''/v1/identity/status''"
| "route_path RouteIdentityPublic = ''/v1/identity/public''"
| "route_path RouteStateStatus = ''/v1/state/status''"
| "route_path RouteStateBackup = ''/v1/state/backup''"
| "route_path RouteMetricsSnapshot = ''/v1/metrics/snapshot''"
| "route_path RouteReconciliationStatus = ''/v1/reconciliation/status''"
| "route_path RouteReconciliationJobs = ''/v1/reconciliation/jobs''"
| "route_path RouteReconciliationRefresh = ''/v1/reconciliation/refresh''"
| "route_path RouteSources = ''/v1/sources''"
| "route_path RouteTradeProjection = ''/v1/trades/{trade_id}/projection''"
| "route_path RouteTradeReportCurrent = ''/v1/trades/{trade_id}/reports/current''"
| "route_path RouteTradeReports = ''/v1/trades/{trade_id}/reports''"
| "route_path RoutePublicationBacklog = ''/v1/publication/backlog''"
| "route_path RoutePublicationTargets = ''/v1/publication/targets''"
| "route_path RoutePublicationRetry = ''/v1/publication/retry''"
| "route_path RoutePresenceDesired = ''/v1/presence/desired''"
| "route_path RoutePresenceRender = ''/v1/presence/render''"
| "route_path RoutePresenceRefresh = ''/v1/presence/refresh''"

fun route_operation_id :: "admin_route \<Rightarrow> string" where
  "route_operation_id RouteStatus = ''radroots.rhi.status.get.v1''"
| "route_operation_id RouteEffectiveConfig = ''radroots.rhi.config.effective.get.v1''"
| "route_operation_id RouteIdentityStatus = ''radroots.rhi.identity.status.get.v1''"
| "route_operation_id RouteIdentityPublic = ''radroots.rhi.identity.public.get.v1''"
| "route_operation_id RouteStateStatus = ''radroots.rhi.state.status.get.v1''"
| "route_operation_id RouteStateBackup = ''radroots.rhi.state.backup.create.v1''"
| "route_operation_id RouteMetricsSnapshot = ''radroots.rhi.metrics.snapshot.get.v1''"
| "route_operation_id RouteReconciliationStatus = ''radroots.rhi.reconciliation.status.get.v1''"
| "route_operation_id RouteReconciliationJobs = ''radroots.rhi.reconciliation.jobs.list.v1''"
| "route_operation_id RouteReconciliationRefresh = ''radroots.rhi.reconciliation.refresh.v1''"
| "route_operation_id RouteSources = ''radroots.rhi.sources.list.v1''"
| "route_operation_id RouteTradeProjection = ''radroots.rhi.trade.projection.get.v1''"
| "route_operation_id RouteTradeReportCurrent = ''radroots.rhi.trade.report.current.get.v1''"
| "route_operation_id RouteTradeReports = ''radroots.rhi.trade.reports.list.v1''"
| "route_operation_id RoutePublicationBacklog = ''radroots.rhi.publication.backlog.list.v1''"
| "route_operation_id RoutePublicationTargets = ''radroots.rhi.publication.targets.list.v1''"
| "route_operation_id RoutePublicationRetry = ''radroots.rhi.publication.retry.v1''"
| "route_operation_id RoutePresenceDesired = ''radroots.rhi.presence.desired.get.v1''"
| "route_operation_id RoutePresenceRender = ''radroots.rhi.presence.render.v1''"
| "route_operation_id RoutePresenceRefresh = ''radroots.rhi.presence.refresh.v1''"

fun route_request_model :: "admin_route \<Rightarrow> string" where
  "route_request_model RouteIdentityStatus = ''identity_status_query_v1''"
| "route_request_model RouteIdentityPublic = ''identity_public_query_v1''"
| "route_request_model RouteStateBackup = ''state_backup_request_v1''"
| "route_request_model RouteReconciliationJobs = ''reconciliation_jobs_query_v1''"
| "route_request_model RouteReconciliationRefresh = ''reconciliation_refresh_request_v1''"
| "route_request_model RouteSources = ''sources_query_v1''"
| "route_request_model RouteTradeReports = ''reports_query_v1''"
| "route_request_model RoutePublicationBacklog = ''publication_backlog_query_v1''"
| "route_request_model RoutePublicationTargets = ''publication_targets_query_v1''"
| "route_request_model RoutePublicationRetry = ''publication_retry_request_v1''"
| "route_request_model RoutePresenceRender = ''presence_render_request_v1''"
| "route_request_model RoutePresenceRefresh = ''presence_refresh_request_v1''"
| "route_request_model _ = ''empty''"

fun route_response_model :: "admin_route \<Rightarrow> string" where
  "route_response_model RouteStatus = ''service_status_v1''"
| "route_response_model RouteEffectiveConfig = ''effective_config_v1''"
| "route_response_model RouteIdentityStatus = ''identity_status_v1''"
| "route_response_model RouteIdentityPublic = ''identity_public_v1''"
| "route_response_model RouteStateStatus = ''state_status_v1''"
| "route_response_model RouteStateBackup = ''state_backup_receipt_v1''"
| "route_response_model RouteMetricsSnapshot = ''metrics_snapshot_v1''"
| "route_response_model RouteReconciliationStatus = ''reconciliation_status_v1''"
| "route_response_model RouteReconciliationJobs = ''reconciliation_jobs_page_v1''"
| "route_response_model RouteReconciliationRefresh = ''reconciliation_refresh_receipt_v1''"
| "route_response_model RouteSources = ''sources_page_v1''"
| "route_response_model RouteTradeProjection = ''trade_projection_v1''"
| "route_response_model RouteTradeReportCurrent = ''report_detail_v1''"
| "route_response_model RouteTradeReports = ''reports_page_v1''"
| "route_response_model RoutePublicationBacklog = ''publication_backlog_page_v1''"
| "route_response_model RoutePublicationTargets = ''publication_targets_page_v1''"
| "route_response_model RoutePublicationRetry = ''publication_retry_receipt_v1''"
| "route_response_model RoutePresenceDesired = ''presence_desired_v1''"
| "route_response_model RoutePresenceRender = ''presence_render_receipt_v1''"
| "route_response_model RoutePresenceRefresh = ''presence_refresh_receipt_v1''"

definition is_mutation :: "admin_route \<Rightarrow> bool" where
  "is_mutation route \<longleftrightarrow> route_method route = MethodPost"

fun parameter_binding :: "admin_route \<Rightarrow> (string \<times> string) option" where
  "parameter_binding RouteTradeProjection = Some (''trade_id'', ''trade_id'')"
| "parameter_binding RouteTradeReportCurrent = Some (''trade_id'', ''trade_id'')"
| "parameter_binding RouteTradeReports = Some (''trade_id'', ''trade_id'')"
| "parameter_binding _ = None"

section \<open>JSON values\<close>

text \<open>
  \<open>serde_json::Value\<close>: an object is its entries in key order; a floating-point number stands for its value in the type
  \<open>'f\<close>.  A \<open>raw_json\<close> is what the deserializer feeds to the visitor: the entries of an object in document order,
  repeated names included, with \<open>RawBad\<close> where the text stops being JSON.
\<close>

datatype 'f json = JNull | JBool bool | JUnsigned nat | JNegative int | JFloat 'f | JString string
  | JArray "'f json list" | JObject "(string \<times> 'f json) list"

datatype 'f raw_json = RawNull | RawBool bool | RawUnsigned nat | RawNegative int | RawFloat 'f | RawString string
  | RawArray "'f raw_json list" | RawObject "(string \<times> 'f raw_json) list" | RawBad

fun json_get :: "string \<Rightarrow> 'f json \<Rightarrow> 'f json option" where
  "json_get key (JObject entries) = map_of entries key"
| "json_get key _ = None"

fun as_u64 :: "'f json \<Rightarrow> nat option" where
  "as_u64 (JUnsigned n) = Some n"
| "as_u64 _ = None"

fun as_str :: "'f json \<Rightarrow> string option" where
  "as_str (JString s) = Some s"
| "as_str _ = None"

fun as_bool :: "'f json \<Rightarrow> bool option" where
  "as_bool (JBool b) = Some b"
| "as_bool _ = None"

fun as_array :: "'f json \<Rightarrow> 'f json list option" where
  "as_array (JArray vs) = Some vs"
| "as_array _ = None"

fun as_object :: "'f json \<Rightarrow> (string \<times> 'f json) list option" where
  "as_object (JObject entries) = Some entries"
| "as_object _ = None"

fun entry_insert :: "string \<Rightarrow> 'v \<Rightarrow> (string \<times> 'v) list \<Rightarrow> (string \<times> 'v) list" where
  "entry_insert key v [] = [(key, v)]"
| "entry_insert key v ((k, w) # entries) =
     (if key = k then (k, v) # entries
      else if key < k then (key, v) # (k, w) # entries
      else (k, w) # entry_insert key v entries)"

definition get_str :: "string \<Rightarrow> 'f json \<Rightarrow> string option" where
  "get_str key v = Option.bind (json_get key v) as_str"

definition get_u64 :: "string \<Rightarrow> 'f json \<Rightarrow> nat option" where
  "get_u64 key v = Option.bind (json_get key v) as_u64"

section \<open>Documents\<close>

datatype document_error = DocTooLarge | DocMalformed | DocDuplicateField | DocNullForbidden | DocNonCanonical | DocInvalidModel

datatype handler_error = HandlerInvalidCursor | HandlerOperationIdConflict | HandlerNotFound | HandlerConflict
  | HandlerUnavailable | HandlerInternal

definition RHI_ADMIN_RESPONSE_BODY_MAX_UTF8_BYTES :: nat where
  "RHI_ADMIN_RESPONSE_BODY_MAX_UTF8_BYTES = 1048576"

text \<open>
  What the code takes from the operator contract (the type descriptors, the fields of the models and the parts of the
  route inventory), from \<open>serde_json\<close> (the parser and the compact serializer) and from the URL parser.
\<close>

record 'f admin_crate =
  ac_type :: "string \<Rightarrow> 'f json option"
  ac_model_fields :: "string \<Rightarrow> 'f json option"
  ac_routes :: "'f json list option"
  ac_model_count :: "nat option"
  ac_body_maximum :: "nat option"
  ac_parse :: "bytes \<Rightarrow> 'f raw_json \<times> bool"
  ac_to_vec :: "'f json \<Rightarrow> bytes option"
  ac_url_scheme :: "string \<Rightarrow> string option"

record admin_document_request =
  dq_route :: admin_route
  dq_operation_id :: "string option"
  dq_correlation_id :: string
  dq_parameter :: "(string \<times> string) option"
  dq_model_bytes :: bytes

record 'f response_document =
  rd_route :: admin_route
  rd_canonical_bytes :: bytes
  rd_value :: "'f json"

section \<open>Strict values\<close>

text \<open>\<open>StrictValueVisitor\<close>: the first null, repeated name or syntax error in document order.\<close>

fun strict_value :: "'f raw_json \<Rightarrow> (document_error, 'f json) result"
  and strict_values :: "'f raw_json list \<Rightarrow> (document_error, 'f json list) result"
  and strict_entries :: "(string \<times> 'f raw_json) list \<Rightarrow> (string \<times> 'f json) list
     \<Rightarrow> (document_error, (string \<times> 'f json) list) result" where
  "strict_value RawNull = Inl DocNullForbidden"
| "strict_value (RawBool b) = Inr (JBool b)"
| "strict_value (RawUnsigned n) = Inr (JUnsigned n)"
| "strict_value (RawNegative i) = Inr (JNegative i)"
| "strict_value (RawFloat f) = Inr (JFloat f)"
| "strict_value (RawString s) = Inr (JString s)"
| "strict_value (RawArray vs) = and_then (strict_values vs) (\<lambda>vs. Inr (JArray vs))"
| "strict_value (RawObject entries) = and_then (strict_entries entries []) (\<lambda>entries. Inr (JObject entries))"
| "strict_value RawBad = Inl DocMalformed"
| "strict_values [] = Inr []"
| "strict_values (v # vs) =
     and_then (strict_value v) (\<lambda>v. and_then (strict_values vs) (\<lambda>vs. Inr (v # vs)))"
| "strict_entries [] acc = Inr acc"
| "strict_entries ((key, v) # entries) acc =
     (if map_of acc key \<noteq> None then Inl DocDuplicateField
      else and_then (strict_value v) (\<lambda>v. strict_entries entries (entry_insert key v acc)))"

definition strict_json :: "'f admin_crate \<Rightarrow> bytes \<Rightarrow> (document_error, 'f json) result" where
  "strict_json crate b =
     (case ac_parse crate b of (raw, at_end) \<Rightarrow>
      and_then (strict_value raw) (\<lambda>v. if at_end then Inr v else Inl DocMalformed))"

section \<open>String types\<close>

definition is_ascii_alphanumeric :: "char \<Rightarrow> bool" where
  "is_ascii_alphanumeric c \<longleftrightarrow> is_ascii_digit c \<or> is_ascii_lowercase c \<or> (65 \<le> (of_char c :: nat) \<and> (of_char c :: nat) \<le> 90)"

definition bounded_id :: "string \<Rightarrow> bool" where
  "bounded_id v \<longleftrightarrow> 1 \<le> length v \<and> length v \<le> 128 \<and> v \<noteq> [] \<and> is_ascii_alphanumeric (hd v)
   \<and> list_all (\<lambda>c. is_ascii_alphanumeric c \<or> c \<in> {CHR ''.'', CHR ''_'', CHR '':'', CHR ''-''}) v"

definition safe_code :: "string \<Rightarrow> bool" where
  "safe_code v \<longleftrightarrow> 1 \<le> length v \<and> length v \<le> 64 \<and> v \<noteq> [] \<and> is_ascii_lowercase (hd v)
   \<and> list_all (\<lambda>c. is_ascii_lowercase c \<or> is_ascii_digit c \<or> c = CHR ''_'') v"

definition stable_id :: "string \<Rightarrow> bool" where
  "stable_id v \<longleftrightarrow> 1 \<le> length v \<and> length v \<le> 64 \<and> v \<noteq> [] \<and> is_ascii_lowercase (hd v)
   \<and> list_all (\<lambda>c. is_ascii_lowercase c \<or> is_ascii_digit c \<or> c \<in> {CHR ''_'', CHR ''-''}) v"

definition admin_lower_hex :: "string \<Rightarrow> nat \<Rightarrow> bool" where
  "admin_lower_hex v exact \<longleftrightarrow> length v = exact
   \<and> list_all (\<lambda>c. is_ascii_digit c \<or> (97 \<le> (of_char c :: nat) \<and> (of_char c :: nat) \<le> 102)) v"

definition sextet :: "char \<Rightarrow> nat option" where
  "sextet c =
     (let n = of_char c :: nat in
      if 65 \<le> n \<and> n \<le> 90 then Some (n - 65)
      else if 97 \<le> n \<and> n \<le> 122 then Some (n - 97 + 26)
      else if 48 \<le> n \<and> n \<le> 57 then Some (n - 48 + 52)
      else if c = CHR ''-'' then Some 62
      else if c = CHR ''_'' then Some 63
      else None)"

definition canonical_base64url_no_padding :: "string \<Rightarrow> bool" where
  "canonical_base64url_no_padding v =
     (if v = [] \<or> length v mod 4 = 1 then False
      else if list_ex (\<lambda>c. sextet c = None) v then False
      else (case sextet (last v) of
          None \<Rightarrow> False
        | Some n \<Rightarrow>
            if length v mod 4 = 0 then True
            else if length v mod 4 = 2 then n mod 16 = 0
            else if length v mod 4 = 3 then n mod 4 = 0
            else False))"

text \<open>\<open>char::char_is_control\<close>: the general category Cc.\<close>

definition char_is_control :: "nat \<Rightarrow> bool" where
  "char_is_control c \<longleftrightarrow> c < 32 \<or> (127 \<le> c \<and> c < 160)"

definition has_control :: "string \<Rightarrow> bool" where
  "has_control v = (case from_utf8 (ascii_bytes v) of None \<Rightarrow> False | Some cs \<Rightarrow> list_ex char_is_control cs)"

definition pattern_valid :: "string \<Rightarrow> string \<Rightarrow> bool" where
  "pattern_valid pattern v =
     (if pattern = ''^[A-Za-z0-9][A-Za-z0-9._:-]*$'' then bounded_id v
      else if pattern = ''^[a-z][a-z0-9_]*$'' then safe_code v
      else if pattern = ''^[a-z][a-z0-9_-]*$'' then stable_id v
      else if pattern = ''^[0-9a-f]{32}$'' then admin_lower_hex v 32
      else if pattern = ''^[0-9a-f]{64}$'' then admin_lower_hex v 64
      else if pattern = ''^[0-9a-f]{40}$'' then admin_lower_hex v 40
      else if pattern = ''^/'' then take 1 v = ''/''
      else False)"

definition unwrap_or :: "'a \<Rightarrow> 'a option \<Rightarrow> 'a" where
  "unwrap_or d x = (case x of None \<Rightarrow> d | Some a \<Rightarrow> a)"

definition validate_integer :: "'f json \<Rightarrow> 'f json \<Rightarrow> (document_error, unit) result" where
  "validate_integer descriptor value =
     and_then (ok_or DocInvalidModel (as_u64 value)) (\<lambda>number.
       ensure (unwrap_or 0 (get_u64 ''minimum'' descriptor) \<le> number
         \<and> number \<le> unwrap_or u64_max (get_u64 ''maximum'' descriptor)) DocInvalidModel)"

definition validate_string :: "'f admin_crate \<Rightarrow> 'f json \<Rightarrow> 'f json \<Rightarrow> (document_error, unit) result" where
  "validate_string crate descriptor value =
     and_then (ok_or DocInvalidModel (as_str value)) (\<lambda>s.
     and_then (ensure (pred_option (\<lambda>exact. length s = exact) (get_u64 ''utf8_bytes'' descriptor)
       \<and> unwrap_or 0 (get_u64 ''minimum_utf8_bytes'' descriptor) \<le> length s
       \<and> length s \<le> unwrap_or u64_max (get_u64 ''maximum_utf8_bytes'' descriptor)
       \<and> \<not> has_control s) DocInvalidModel) (\<lambda>_.
     and_then (ensure (pred_option (\<lambda>pattern. pattern_valid pattern s) (get_str ''pattern'' descriptor)) DocInvalidModel) (\<lambda>_.
     and_then (ensure (\<not> (get_str ''encoding'' descriptor = Some ''canonical_base64url_no_padding''
       \<and> \<not> canonical_base64url_no_padding s)) DocInvalidModel) (\<lambda>_.
     (case Option.bind (json_get ''allowed_schemes'' descriptor) as_array of
        None \<Rightarrow> Inr ()
      | Some schemes \<Rightarrow>
          and_then (ok_or DocInvalidModel (ac_url_scheme crate s)) (\<lambda>scheme.
            ensure (list_ex (\<lambda>v. as_str v = Some scheme) schemes) DocInvalidModel))))))"

fun digits_value :: "nat \<Rightarrow> string \<Rightarrow> nat" where
  "digits_value n [] = n"
| "digits_value n (c # cs) = digits_value (n * 10 + (of_char c - 48)) cs"

definition strip_prefix :: "string \<Rightarrow> string \<Rightarrow> string option" where
  "strip_prefix p s = (if take (length p) s = p then Some (drop (length p) s) else None)"

definition validate_string_union :: "'f json \<Rightarrow> 'f json \<Rightarrow> (document_error, unit) result" where
  "validate_string_union descriptor value =
     and_then (ok_or DocInvalidModel (as_str value)) (\<lambda>s.
     if (case Option.bind (json_get ''simple_values'' descriptor) as_array of
           None \<Rightarrow> False | Some values \<Rightarrow> list_ex (\<lambda>v. as_str v = Some s) values)
     then Inr ()
     else and_then (ok_or DocInvalidModel (strip_prefix ''sign_event:kind:'' s)) (\<lambda>kind.
       ensure (\<not> (kind = [] \<or> (1 < length kind \<and> take 1 kind = ''0'') \<or> \<not> list_all is_ascii_digit kind
         \<or> 4294967295 < digits_value 0 kind
         \<or> unwrap_or 0 (get_u64 ''maximum_utf8_bytes'' descriptor) < length s)) DocInvalidModel))"

section \<open>Structured types\<close>

type_synonym 'f validator = "string \<Rightarrow> 'f json \<Rightarrow> (document_error, unit) result"

fun validate_each :: "'f validator \<Rightarrow> string \<Rightarrow> 'f json list \<Rightarrow> (document_error, unit) result" where
  "validate_each check name [] = Inr ()"
| "validate_each check name (v # vs) = and_then (check name v) (\<lambda>_. validate_each check name vs)"

fun unique_encoded :: "'f admin_crate \<Rightarrow> bytes set \<Rightarrow> 'f json list \<Rightarrow> (document_error, unit) result" where
  "unique_encoded crate seen [] = Inr ()"
| "unique_encoded crate seen (v # vs) =
     and_then (ok_or DocInvalidModel (ac_to_vec crate v)) (\<lambda>encoded.
       if encoded \<in> seen then Inl DocInvalidModel else unique_encoded crate (insert encoded seen) vs)"

fun adjacent_less :: "string list \<Rightarrow> bool" where
  "adjacent_less (a # b # rest) \<longleftrightarrow> a < b \<and> adjacent_less (b # rest)"
| "adjacent_less _ \<longleftrightarrow> True"

definition validate_array ::
  "'f admin_crate \<Rightarrow> 'f validator \<Rightarrow> 'f json \<Rightarrow> 'f json \<Rightarrow> (document_error, unit) result" where
  "validate_array crate check descriptor value =
     and_then (ok_or DocInvalidModel (as_array value)) (\<lambda>values.
     and_then (ensure (length values \<le> unwrap_or 0 (get_u64 ''maximum_items'' descriptor)) DocInvalidModel) (\<lambda>_.
     and_then (ok_or DocInvalidModel (get_str ''items'' descriptor)) (\<lambda>item_type.
     and_then (validate_each check item_type values) (\<lambda>_.
     and_then (if Option.bind (json_get ''unique'' descriptor) as_bool = Some True
       then unique_encoded crate {} values else Inr ()) (\<lambda>_.
     if json_get ''canonical_sort'' descriptor \<noteq> None
     then and_then (collect (map (\<lambda>v. ok_or DocInvalidModel (as_str v)) values)) (\<lambda>rendered.
       ensure (adjacent_less rendered) DocInvalidModel)
     else Inr ())))))"

text \<open>\<open>str::split\<close> at a delimiter of one byte.\<close>

fun split_at :: "char \<Rightarrow> string \<Rightarrow> string list" where
  "split_at d [] = [[]]"
| "split_at d (c # cs) =
     (if c = d then [] # split_at d cs
      else (case split_at d cs of [] \<Rightarrow> [[c]] | item # rest \<Rightarrow> (c # item) # rest))"

definition validate_delimited_set :: "'f validator \<Rightarrow> 'f json \<Rightarrow> 'f json \<Rightarrow> (document_error, unit) result" where
  "validate_delimited_set check descriptor value =
     and_then (ok_or DocInvalidModel (as_str value)) (\<lambda>rendered.
     and_then (ensure (length rendered \<le> unwrap_or 0 (get_u64 ''maximum_utf8_bytes'' descriptor)) DocInvalidModel) (\<lambda>_.
     if rendered = []
     then ensure (Option.bind (json_get ''empty_allowed'' descriptor) as_bool = Some True) DocInvalidModel
     else and_then (ok_or DocInvalidModel (option_filter (\<lambda>d. length d = 1) (get_str ''delimiter'' descriptor))) (\<lambda>delimiter.
       (let items = split_at (hd delimiter) rendered in
       and_then (ensure (items \<noteq> [] \<and> length items \<le> unwrap_or 0 (get_u64 ''maximum_items'' descriptor)
         \<and> \<not> list_ex (\<lambda>i. i = []) items \<and> adjacent_less items) DocInvalidModel) (\<lambda>_.
       and_then (ok_or DocInvalidModel (get_str ''items'' descriptor)) (\<lambda>item_type.
         validate_each check item_type (map JString items)))))))"

fun validate_entries :: "'f validator \<Rightarrow> string \<Rightarrow> string \<Rightarrow> (string \<times> 'f json) list \<Rightarrow> (document_error, unit) result" where
  "validate_entries check key_type value_type [] = Inr ()"
| "validate_entries check key_type value_type ((key, v) # entries) =
     and_then (check key_type (JString key)) (\<lambda>_.
     and_then (check value_type v) (\<lambda>_. validate_entries check key_type value_type entries))"

definition validate_map :: "'f validator \<Rightarrow> 'f json \<Rightarrow> 'f json \<Rightarrow> (document_error, unit) result" where
  "validate_map check descriptor value =
     and_then (ok_or DocInvalidModel (as_object value)) (\<lambda>entries.
     and_then (ensure (length entries \<le> unwrap_or 0 (get_u64 ''maximum_entries'' descriptor)) DocInvalidModel) (\<lambda>_.
     and_then (ok_or DocInvalidModel (get_str ''key'' descriptor)) (\<lambda>key_type.
     and_then (ok_or DocInvalidModel (get_str ''value'' descriptor)) (\<lambda>value_type.
       validate_entries check key_type value_type entries))))"

definition type_descriptor :: "'f admin_crate \<Rightarrow> string \<Rightarrow> (document_error, 'f json) result" where
  "type_descriptor crate name = ok_or DocInvalidModel (ac_type crate name)"

fun validate_fields ::
  "'f admin_crate \<Rightarrow> 'f validator \<Rightarrow> (string \<times> 'f json) list \<Rightarrow> (string \<times> 'f json) list \<Rightarrow> (document_error, unit) result" where
  "validate_fields crate check values [] = Inr ()"
| "validate_fields crate check values ((field, type_value) # field_list) =
     and_then (ok_or DocInvalidModel (as_str type_value)) (\<lambda>type_name.
     and_then (case map_of values field of
         Some v \<Rightarrow> check type_name v
       | None \<Rightarrow> and_then (type_descriptor crate type_name) (\<lambda>d.
           ensure (get_str ''kind'' d = Some ''optional'') DocInvalidModel)) (\<lambda>_.
       validate_fields crate check values field_list))"

definition validate_closed_object ::
  "'f admin_crate \<Rightarrow> 'f validator \<Rightarrow> 'f json \<Rightarrow> 'f json \<Rightarrow> (document_error, unit) result" where
  "validate_closed_object crate check descriptor value =
     and_then (ok_or DocInvalidModel (as_object value)) (\<lambda>values.
     and_then (ok_or DocInvalidModel (Option.bind (json_get ''fields'' descriptor) as_object)) (\<lambda>field_list.
     and_then (ensure (list_all (\<lambda>(key, _). map_of field_list key \<noteq> None) values) DocInvalidModel) (\<lambda>_.
       validate_fields crate check values field_list)))"

fun select_variant ::
  "'f admin_crate \<Rightarrow> string \<Rightarrow> 'f json \<Rightarrow> string option \<Rightarrow> 'f json list \<Rightarrow> (document_error, string option) result" where
  "select_variant crate discriminator selected matched [] = Inr matched"
| "select_variant crate discriminator selected matched (v # variants) =
     and_then (ok_or DocInvalidModel (as_str v)) (\<lambda>variant.
     and_then (type_descriptor crate variant) (\<lambda>d.
     and_then (ok_or DocInvalidModel (Option.bind (json_get ''fields'' d) as_object)) (\<lambda>field_list.
     and_then (ok_or DocInvalidModel (Option.bind (map_of field_list discriminator) as_str)) (\<lambda>discriminator_type.
     and_then (type_descriptor crate discriminator_type) (\<lambda>t.
       if json_get ''value'' t = Some selected
       then if matched \<noteq> None then Inl DocInvalidModel
            else select_variant crate discriminator selected (Some variant) variants
       else select_variant crate discriminator selected matched variants)))))"

definition validate_tagged_union ::
  "'f admin_crate \<Rightarrow> 'f validator \<Rightarrow> 'f json \<Rightarrow> 'f json \<Rightarrow> (document_error, unit) result" where
  "validate_tagged_union crate check descriptor value =
     and_then (ok_or DocInvalidModel (as_object value)) (\<lambda>entries.
     and_then (ok_or DocInvalidModel (get_str ''discriminator'' descriptor)) (\<lambda>discriminator.
     and_then (ok_or DocInvalidModel (map_of entries discriminator)) (\<lambda>selected.
     and_then (ok_or DocInvalidModel (Option.bind (json_get ''variants'' descriptor) as_array)) (\<lambda>variants.
     and_then (select_variant crate discriminator selected None variants) (\<lambda>matched.
     and_then (ok_or DocInvalidModel matched) (\<lambda>variant. check variant value))))))"

definition validate_json_object :: "'f admin_crate \<Rightarrow> 'f json \<Rightarrow> 'f json \<Rightarrow> (document_error, unit) result" where
  "validate_json_object crate descriptor value =
     ensure (as_object value \<noteq> None
       \<and> (case ac_to_vec crate value of
            None \<Rightarrow> False
          | Some b \<Rightarrow> length b \<le> unwrap_or 0 (get_u64 ''maximum_utf8_bytes'' descriptor))) DocInvalidModel"

definition validate_kind ::
  "'f admin_crate \<Rightarrow> 'f validator \<Rightarrow> 'f json \<Rightarrow> 'f json \<Rightarrow> (document_error, unit) result" where
  "validate_kind crate check descriptor value =
     (case get_str ''kind'' descriptor of
        None \<Rightarrow> Inl DocInvalidModel
      | Some kind \<Rightarrow>
          if kind = ''literal'' then ensure (json_get ''value'' descriptor = Some value) DocInvalidModel
          else if kind = ''boolean'' then ensure (as_bool value \<noteq> None) DocInvalidModel
          else if kind = ''integer'' then validate_integer descriptor value
          else if kind = ''string'' then validate_string crate descriptor value
          else if kind = ''enum'' then ensure (case Option.bind (json_get ''values'' descriptor) as_array of
              None \<Rightarrow> False | Some values \<Rightarrow> value \<in> set values) DocInvalidModel
          else if kind = ''string_union'' then validate_string_union descriptor value
          else if kind = ''array'' then validate_array crate check descriptor value
          else if kind = ''canonical_delimited_set'' then validate_delimited_set check descriptor value
          else if kind = ''map'' then validate_map check descriptor value
          else if kind = ''closed_object'' then validate_closed_object crate check descriptor value
          else if kind = ''tagged_union'' then validate_tagged_union crate check descriptor value
          else if kind = ''alias''
            then and_then (ok_or DocInvalidModel (get_str ''target'' descriptor)) (\<lambda>target. check target value)
          else if kind = ''optional''
            then and_then (ok_or DocInvalidModel (get_str ''value'' descriptor)) (\<lambda>target. check target value)
          else if kind = ''canonical_json_object'' then validate_json_object crate descriptor value
          else Inl DocInvalidModel)"

text \<open>
  \<open>validate_type\<close>, which gives up below depth 24: the first argument is 25 less the depth.
\<close>

primrec validate_type :: "nat \<Rightarrow> 'f admin_crate \<Rightarrow> 'f validator" where
  "validate_type 0 crate name value = Inl (if value = JNull then DocNullForbidden else DocInvalidModel)"
| "validate_type (Suc left) crate name value =
     (if value = JNull then Inl DocNullForbidden
      else and_then (type_descriptor crate name) (\<lambda>descriptor.
        validate_kind crate (validate_type left crate) descriptor value))"

definition validate_at_top :: "'f admin_crate \<Rightarrow> 'f validator" where
  "validate_at_top crate = validate_type 25 crate"

fun validate_model_fields ::
  "'f admin_crate \<Rightarrow> (string \<times> 'f json) list \<Rightarrow> (string \<times> 'f json) list \<Rightarrow> (document_error, unit) result" where
  "validate_model_fields crate entries [] = Inr ()"
| "validate_model_fields crate entries ((name, field) # field_list) =
     and_then (ok_or DocInvalidModel (get_str ''type'' field)) (\<lambda>type_name.
     and_then (case map_of entries name of
         Some v \<Rightarrow> validate_at_top crate type_name v
       | None \<Rightarrow> ensure (get_str ''presence'' field \<noteq> Some ''required'') DocInvalidModel) (\<lambda>_.
       validate_model_fields crate entries field_list))"

definition model_fields :: "'f admin_crate \<Rightarrow> string \<Rightarrow> (document_error, (string \<times> 'f json) list) result" where
  "model_fields crate name = ok_or DocInvalidModel (Option.bind (ac_model_fields crate name) as_object)"

definition validate_model :: "'f admin_crate \<Rightarrow> string \<Rightarrow> 'f json \<Rightarrow> (document_error, unit) result" where
  "validate_model crate name value =
     and_then (ok_or DocInvalidModel (as_object value)) (\<lambda>entries.
     and_then (model_fields crate name) (\<lambda>field_list.
     and_then (ensure (list_all (\<lambda>(key, _). map_of field_list key \<noteq> None) entries) DocInvalidModel) (\<lambda>_.
       validate_model_fields crate entries field_list)))"

definition response_from_canonical_bytes ::
  "'f admin_crate \<Rightarrow> admin_route \<Rightarrow> bytes \<Rightarrow> (document_error, 'f response_document) result" where
  "response_from_canonical_bytes crate route b =
     (if b = [] then Inl DocMalformed
      else if RHI_ADMIN_RESPONSE_BODY_MAX_UTF8_BYTES < length b then Inl DocTooLarge
      else and_then (strict_json crate b) (\<lambda>value.
        and_then (validate_model crate (route_response_model route) value) (\<lambda>_.
        and_then (ok_or DocMalformed (ac_to_vec crate value)) (\<lambda>canonical.
          if canonical \<noteq> b then Inl DocNonCanonical
          else Inr \<lparr>rd_route = route, rd_canonical_bytes = canonical, rd_value = value\<rparr>))))"

definition admit_admin_response_value ::
  "'f admin_crate \<Rightarrow> admin_route \<Rightarrow> 'f json \<Rightarrow> (document_error, bytes) result" where
  "admit_admin_response_value crate route value =
     and_then (ok_or DocMalformed (ac_to_vec crate value)) (\<lambda>b.
     and_then (response_from_canonical_bytes crate route b) (\<lambda>document. Inr (rd_canonical_bytes document)))"

definition operator_route_inventory_is_exact :: "'f admin_crate \<Rightarrow> bool" where
  "operator_route_inventory_is_exact crate =
     (case ac_routes crate of
        None \<Rightarrow> False
      | Some routes \<Rightarrow>
          length routes = length admin_routes \<and> ac_model_count crate = Some 33
        \<and> ac_body_maximum crate = Some RHI_ADMIN_RESPONSE_BODY_MAX_UTF8_BYTES
        \<and> list_all (\<lambda>(wire, route).
            get_str ''method'' wire = Some (case route_method route of MethodGet \<Rightarrow> ''GET'' | MethodPost \<Rightarrow> ''POST'')
          \<and> get_str ''path'' wire = Some (route_path route)
          \<and> get_str ''operation_id'' wire = Some (route_operation_id route)
          \<and> get_str ''request_model'' wire = Some (route_request_model route)
          \<and> get_str ''response_model'' wire = Some (route_response_model route)
          \<and> Option.bind (json_get ''mutation'' wire) as_bool = Some (is_mutation route)) (zip routes admin_routes))"

end
