(* ===== verification/Admin_Requests.thy ===== *)
theory Admin_Requests
  imports Admin_Models
begin

text \<open>
  Requests of the administrative interface, second part of \<open>src/src/admin_v1.rs\<close>: the decoding of a query string, the
  request document and its dispatch to a handler.
\<close>

section \<open>Percent encoding\<close>

definition is_ascii_hexdigit :: "char \<Rightarrow> bool" where
  "is_ascii_hexdigit c \<longleftrightarrow> is_ascii_digit c \<or> (97 \<le> (of_char c :: nat) \<and> (of_char c :: nat) \<le> 102)
   \<or> (65 \<le> (of_char c :: nat) \<and> (of_char c :: nat) \<le> 70)"

definition hex_nibble :: "char \<Rightarrow> nat option" where
  "hex_nibble c =
     (let n = of_char c :: nat in
      if 48 \<le> n \<and> n \<le> 57 then Some (n - 48)
      else if 97 \<le> n \<and> n \<le> 102 then Some (n - 97 + 10)
      else if 65 \<le> n \<and> n \<le> 70 then Some (n - 65 + 10)
      else None)"

fun valid_percent_encoding :: "string \<Rightarrow> bool" where
  "valid_percent_encoding [] = True"
| "valid_percent_encoding (c # cs) =
     (if c = CHR ''%'' then
        (case cs of
           a # b # rest \<Rightarrow> is_ascii_hexdigit a \<and> is_ascii_hexdigit b \<and> valid_percent_encoding rest
         | _ \<Rightarrow> False)
      else valid_percent_encoding cs)"

text \<open>
  The loop of \<open>percent_decode\<close>; \<open>None\<close> is the panic of an index beyond the end of the text.
\<close>

fun percent_bytes :: "string \<Rightarrow> (document_error, string) result option" where
  "percent_bytes [] = Some (Inr [])"
| "percent_bytes (c # cs) =
     (if c = CHR ''%'' then
        (case cs of
           [] \<Rightarrow> None
         | a # as \<Rightarrow>
             (case hex_nibble a of
                None \<Rightarrow> Some (Inl DocInvalidModel)
              | Some high \<Rightarrow>
                  (case as of
                     [] \<Rightarrow> None
                   | b # rest \<Rightarrow>
                       (case hex_nibble b of
                          None \<Rightarrow> Some (Inl DocInvalidModel)
                        | Some low \<Rightarrow>
                            map_option (\<lambda>r. and_then r (\<lambda>decoded. Inr (char_of (high * 16 + low) # decoded))) (percent_bytes rest)))))
      else map_option (\<lambda>r. and_then r (\<lambda>decoded. Inr ((if c = CHR ''+'' then CHR '' '' else c) # decoded))) (percent_bytes cs))"

definition percent_decode :: "string \<Rightarrow> (document_error, string) result option" where
  "percent_decode v =
     map_option (\<lambda>r. and_then r (\<lambda>decoded. if from_utf8 (ascii_bytes decoded) = None then Inl DocInvalidModel else Inr decoded))
       (percent_bytes v)"

section \<open>Query strings\<close>

definition query_scalar :: "'f admin_crate \<Rightarrow> string \<Rightarrow> string \<Rightarrow> (document_error, 'f json) result" where
  "query_scalar crate type_name v =
     and_then (type_descriptor crate type_name) (\<lambda>descriptor.
     (case get_str ''kind'' descriptor of
        Some kind \<Rightarrow>
          if kind = ''integer'' then
            (if v = ''0'' \<or> (v \<noteq> [] \<and> is_ascii_digit (hd v) \<and> hd v \<noteq> CHR ''0'' \<and> list_all is_ascii_digit v)
             then if digits_value 0 v \<le> u64_max then Inr (JUnsigned (digits_value 0 v)) else Inl DocInvalidModel
             else Inl DocInvalidModel)
          else if kind = ''boolean'' then
            (if v = ''true'' then Inr (JBool True) else if v = ''false'' then Inr (JBool False) else Inl DocInvalidModel)
          else Inr (JString v)
      | None \<Rightarrow> Inr (JString v)))"

fun split_once :: "char \<Rightarrow> string \<Rightarrow> (string \<times> string) option" where
  "split_once d [] = None"
| "split_once d (c # cs) = (if c = d then Some ([], cs) else map_option (\<lambda>(a, b). (c # a, b)) (split_once d cs))"

definition query_item ::
  "'f admin_crate \<Rightarrow> (string \<times> 'f json) list \<Rightarrow> (string \<times> 'f json) list \<Rightarrow> string
     \<Rightarrow> (document_error, (string \<times> 'f json) list) result option" where
  "query_item crate field_list output item =
     (case split_once (CHR ''='') item of
        None \<Rightarrow> Some (Inl DocInvalidModel)
      | Some (raw_key, raw_value) \<Rightarrow>
          if raw_key = [] \<or> \<not> valid_percent_encoding raw_key \<or> \<not> valid_percent_encoding raw_value
          then Some (Inl DocInvalidModel)
          else (case percent_decode raw_key of
              None \<Rightarrow> None
            | Some (Inl e) \<Rightarrow> Some (Inl e)
            | Some (Inr key) \<Rightarrow>
          (case percent_decode raw_value of
              None \<Rightarrow> None
            | Some (Inl e) \<Rightarrow> Some (Inl e)
            | Some (Inr v) \<Rightarrow> Some (
                if map_of output key \<noteq> None then Inl DocDuplicateField
                else and_then (ok_or DocInvalidModel (map_of field_list key)) (\<lambda>descriptor.
                  and_then (ok_or DocInvalidModel (get_str ''type'' descriptor)) (\<lambda>type_name.
                  and_then (query_scalar crate type_name v) (\<lambda>scalar. Inr (entry_insert key scalar output))))))))"

fun query_items ::
  "'f admin_crate \<Rightarrow> (string \<times> 'f json) list \<Rightarrow> (string \<times> 'f json) list \<Rightarrow> string list
     \<Rightarrow> (document_error, (string \<times> 'f json) list) result option" where
  "query_items crate field_list output [] = Some (Inr output)"
| "query_items crate field_list output (item # items) =
     (case query_item crate field_list output item of
        None \<Rightarrow> None
      | Some (Inl e) \<Rightarrow> Some (Inl e)
      | Some (Inr output) \<Rightarrow> query_items crate field_list output items)"

definition query_model :: "'f admin_crate \<Rightarrow> admin_route \<Rightarrow> string option \<Rightarrow> (document_error, 'f json) result option" where
  "query_model crate route query =
     (case query of
        None \<Rightarrow> Some (Inr (JObject []))
      | Some q \<Rightarrow>
          if q = [] then Some (Inl DocInvalidModel)
          else (case model_fields crate (route_request_model route) of
              Inl e \<Rightarrow> Some (Inl e)
            | Inr field_list \<Rightarrow>
                map_option (\<lambda>r. and_then r (\<lambda>output. Inr (JObject output)))
                  (query_items crate field_list [] (split_at (CHR ''&'') q))))"

section \<open>Requests\<close>

text \<open>
  An admitted request of the shared server: its query, its path parameters, the decoded mutation envelope and its
  correlation.
\<close>

record 'f admin_request =
  rq_query :: "string option"
  rq_parameter :: "string \<Rightarrow> string option"
  rq_envelope :: "(string \<times> 'f json) option"
  rq_correlation_id :: string

definition request_parameter ::
  "'f admin_crate \<Rightarrow> admin_route \<Rightarrow> 'f admin_request \<Rightarrow> (document_error, (string \<times> string) option) result" where
  "request_parameter crate route request =
     transpose (map_option (\<lambda>(name, type_name).
       and_then (ok_or DocInvalidModel (rq_parameter request name)) (\<lambda>v.
       and_then (validate_at_top crate type_name (JString v)) (\<lambda>_. Inr (name, v)))) (parameter_binding route))"

definition request_model_value ::
  "'f admin_crate \<Rightarrow> admin_route \<Rightarrow> 'f admin_request \<Rightarrow> (document_error, string option \<times> 'f json) result option" where
  "request_model_value crate route request =
     (case route_method route of
        MethodGet \<Rightarrow> map_option (\<lambda>r. and_then r (\<lambda>v. Inr (None, v))) (query_model crate route (rq_query request))
      | MethodPost \<Rightarrow> Some (and_then (ok_or DocMalformed (rq_envelope request)) (\<lambda>(operation, v). Inr (Some operation, v))))"

definition request_document ::
  "'f admin_crate \<Rightarrow> admin_route \<Rightarrow> 'f admin_request \<Rightarrow> (document_error, admin_document_request) result option" where
  "request_document crate route request =
     map_option (\<lambda>r. and_then r (\<lambda>(operation_id, value).
       and_then (validate_model crate (route_request_model route) value) (\<lambda>_.
       and_then (ok_or DocMalformed (ac_to_vec crate value)) (\<lambda>model_bytes.
       and_then (request_parameter crate route request) (\<lambda>parameter.
         Inr \<lparr>dq_route = route, dq_operation_id = operation_id, dq_correlation_id = rq_correlation_id request,
           dq_parameter = parameter, dq_model_bytes = model_bytes\<rparr>)))))
       (request_model_value crate route request)"

datatype failure_status = StatusBadRequest | StatusConflict | StatusNotFound | StatusUnavailable | StatusInternal

definition admin_failure :: "handler_error \<Rightarrow> bool \<Rightarrow> failure_status \<times> string \<times> string" where
  "admin_failure kind invalid_request =
     (if invalid_request then (StatusBadRequest, ''invalid_request'', ''admin request does not match the route model'')
      else (case kind of
          HandlerInvalidCursor \<Rightarrow> (StatusBadRequest, ''invalid_cursor'', ''admin pagination cursor is invalid'')
        | HandlerOperationIdConflict \<Rightarrow>
            (StatusConflict, ''operation_id_conflict'', ''admin operation identity conflicts with retained state'')
        | HandlerNotFound \<Rightarrow> (StatusNotFound, ''not_found'', ''admin resource was not found'')
        | HandlerConflict \<Rightarrow> (StatusConflict, ''operation_conflict'', ''admin operation conflicts with current state'')
        | HandlerUnavailable \<Rightarrow>
            (StatusUnavailable, ''service_unavailable'', ''admin operation is temporarily unavailable'')
        | HandlerInternal \<Rightarrow> (StatusInternal, ''internal_error'', ''admin operation failed internally'')))"

text \<open>
  One request on one route: the handler changes the state of the service, the envelope of a success is encoded by the
  shared server and may exceed its limit.  \<open>None\<close> is a panic.
\<close>

definition dispatch_route ::
  "'f admin_crate \<Rightarrow> (admin_document_request \<Rightarrow> 's \<Rightarrow> (handler_error, 'f response_document) result \<times> 's)
     \<Rightarrow> ('f json \<Rightarrow> 'o option) \<Rightarrow> admin_route \<Rightarrow> 'f admin_request \<Rightarrow> 's
     \<Rightarrow> ((failure_status \<times> string \<times> string, 'o) result \<times> 's) option" where
  "dispatch_route crate handle success route request s =
     (case request_document crate route request of
        None \<Rightarrow> None
      | Some (Inl _) \<Rightarrow> Some (Inl (admin_failure HandlerConflict True), s)
      | Some (Inr document) \<Rightarrow>
          (case handle document s of
             (Inl e, s') \<Rightarrow> Some (Inl (admin_failure e False), s')
           | (Inr response, s') \<Rightarrow>
               if rd_route response = route
               then Some (case success (rd_value response) of
                   Some outcome \<Rightarrow> (Inr outcome, s') | None \<Rightarrow> (Inl (admin_failure HandlerInternal False), s'))
               else Some (Inl (admin_failure HandlerInternal False), s')))"

end
