(* ===== verification/Admin_Props.thy ===== *)
theory Admin_Props
  imports Admin_Requests
begin

text \<open>
  The administrative interface: a request is dispatched without a panic whatever its query string, and the admitted
  base64url texts are the encodings.
\<close>

section \<open>Dispatch\<close>

lemma hex_nibble_hexdigit: "is_ascii_hexdigit c \<longleftrightarrow> hex_nibble c \<noteq> None"
  by (auto simp: is_ascii_hexdigit_def hex_nibble_def is_ascii_digit_def Let_def)

lemma percent_bytes_valid: "valid_percent_encoding v \<Longrightarrow> \<exists>d. percent_bytes v = Some (Inr d)"
proof (induction v rule: valid_percent_encoding.induct)
  case (2 c cs)
  show ?case
  proof (cases "c = CHR ''%''")
    case True
    then obtain a b rest where cs: "cs = a # b # rest" "is_ascii_hexdigit a" "is_ascii_hexdigit b" "valid_percent_encoding rest"
      using 2(3) by (cases cs rule: list.exhaust; cases "tl cs") auto
    then obtain high low where "hex_nibble a = Some high" "hex_nibble b = Some low" by (auto simp: hex_nibble_hexdigit)
    then show ?thesis using 2(1)[OF True cs(1) refl cs(4)] True cs(1) by auto
  next
    case False
    then show ?thesis using 2 by auto
  qed
qed simp

lemma percent_decode_valid: "valid_percent_encoding v \<Longrightarrow> percent_decode v \<noteq> None"
  using percent_bytes_valid by (fastforce simp: percent_decode_def)

lemma query_item_total: "query_item crate field_list acc item \<noteq> None"
  by (auto simp: query_item_def dest: percent_decode_valid split: option.split prod.split sum.split)

lemma query_items_total: "query_items crate field_list acc items \<noteq> None"
  by (induction items arbitrary: acc) (auto simp: query_item_total split: option.split sum.split)

lemma request_document_total: "request_document crate route request \<noteq> None"
  using query_items_total
  by (auto simp: request_document_def request_model_value_def query_model_def split: admin_method.split option.split sum.split)

text \<open>
  The dispatch of a request never indexes beyond the text of its query, whatever bytes the query has, and a request
  that does not match the model of its route is refused before the handler runs: the state of the service is unchanged.
\<close>

theorem admin_dispatch_total:
  "\<exists>outcome s'. dispatch_route crate handle success route request s = Some (outcome, s')
    \<and> (\<forall>e. request_document crate route request = Some (Inl e) \<longrightarrow>
         s' = s \<and> outcome = Inl (StatusBadRequest, ''invalid_request'', ''admin request does not match the route model''))"
proof -
  obtain r where r: "request_document crate route request = Some r" using request_document_total by fast
  show ?thesis
  proof (cases r)
    case (Inl e)
    then show ?thesis using r by (simp add: dispatch_route_def admin_failure_def)
  next
    case (Inr document)
    then show ?thesis using r
      by (cases "handle document s") (auto simp: dispatch_route_def split: sum.split option.split)
  qed
qed

section \<open>Base64url\<close>

definition base64url_char :: "nat \<Rightarrow> char" where
  "base64url_char n =
     char_of (if n < 26 then n + 65 else if n < 52 then n + 71 else if n < 62 then n - 4 else if n = 62 then 45 else 95 :: nat)"

text \<open>RFC 4648, section 5, without padding.\<close>

fun base64url :: "nat list \<Rightarrow> string" where
  "base64url [] = []"
| "base64url [a] = [base64url_char (a div 4), base64url_char (a mod 4 * 16)]"
| "base64url [a, b] =
     [base64url_char (a div 4), base64url_char (a mod 4 * 16 + b div 16), base64url_char (b mod 16 * 4)]"
| "base64url (a # b # c # rest) =
     [base64url_char (a div 4), base64url_char (a mod 4 * 16 + b div 16), base64url_char (b mod 16 * 4 + c div 64),
      base64url_char (c mod 64)] @ base64url rest"

lemma base64url_signs: "CHR ''-'' = char_of (45 :: nat)" "CHR ''_'' = char_of (95 :: nat)"
  by code_simp+

lemma sextet_char: "n < 64 \<Longrightarrow> sextet (base64url_char n) = Some n"
  unfolding sextet_def base64url_char_def base64url_signs Let_def by auto

lemma char_sextet:
  assumes "sextet c = Some n"
  shows "n < 64 \<and> base64url_char n = c"
proof -
  have "c = char_of (of_char c :: nat)" by simp
  then show ?thesis using assms unfolding sextet_def base64url_char_def base64url_signs Let_def
    by (auto split: if_split_asm)
qed

lemma base64url_empty_iff [simp]: "base64url b = [] \<longleftrightarrow> b = []"
  by (cases b rule: base64url.cases) auto

text \<open>Whole groups of four characters stand for groups of three bytes.\<close>

lemma canonical_group:
  assumes "list_all (\<lambda>c. sextet c \<noteq> None) w" "length w = 4" "v \<noteq> []"
  shows "canonical_base64url_no_padding (w @ v) \<longleftrightarrow> canonical_base64url_no_padding v"
proof -
  have "\<not> list_ex (\<lambda>c. sextet c = None) w" using assms(1) by (auto simp: list_all_iff list_ex_iff)
  moreover have "length (w @ v) mod 4 = length v mod 4" using assms(2) by simp
  ultimately show ?thesis using assms(3) unfolding canonical_base64url_no_padding_def list_ex_append
    by (simp del: length_append split: option.split)
qed

lemma canonical_encoding:
  "list_all (\<lambda>x. x < 256) b \<Longrightarrow> b \<noteq> [] \<Longrightarrow> canonical_base64url_no_padding (base64url b)"
proof (induction b rule: base64url.induct)
  case (2 a)
  then have "a div 4 < 64" "a mod 4 * 16 < 64" by (simp; linarith)+
  then show ?case by (simp add: canonical_base64url_no_padding_def sextet_char)
next
  case (3 a b)
  then have "a div 4 < 64" "a mod 4 * 16 + b div 16 < 64" "b mod 16 * 4 < 64" by (simp; linarith)+
  then show ?case by (simp add: canonical_base64url_no_padding_def sextet_char)
next
  case (4 a b c rest)
  then have n: "a div 4 < 64" "a mod 4 * 16 + b div 16 < 64" "b mod 16 * 4 + c div 64 < 64" "c mod 64 < 64" by (simp; linarith)+
  show ?case
  proof (cases "rest = []")
    case True
    then show ?thesis using n by (simp add: canonical_base64url_no_padding_def sextet_char)
  next
    case False
    with 4 have "canonical_base64url_no_padding (base64url rest)" by simp
    then show ?thesis using canonical_group[of "take 4 (base64url (a # b # c # rest))" "base64url rest"] n False
      by (simp add: sextet_char)
  qed
qed simp

lemma digit_split: "r < k \<Longrightarrow> (q * k + r) div k = q" "r < k \<Longrightarrow> (q * k + r) mod k = (r :: nat)"
  by simp_all

lemma sextet_parts: "n < 64 \<Longrightarrow> n div 16 < 4" "n < 64 \<Longrightarrow> n div 4 < 16" "n mod 16 < 16" "n mod 4 < (4 :: nat)"
  by simp_all

lemma decode_group:
  assumes "n1 < 64" "n2 < 64" "n3 < 64" "n4 < (64 :: nat)"
  shows "\<exists>a b c. a < 256 \<and> b < 256 \<and> c < 256 \<and> base64url [a, b, c] = map base64url_char [n1, n2, n3, n4]"
proof (intro exI conjI)
  let ?a = "n1 * 4 + n2 div 16" and ?b = "n2 mod 16 * 16 + n3 div 4" and ?c = "n3 mod 4 * 64 + n4"
  show "?a < 256" "?b < 256" "?c < 256" using assms by linarith+
  have "?a div 4 = n1" "?a mod 4 = n2 div 16" "?b div 16 = n2 mod 16" "?b mod 16 = n3 div 4" "?c div 64 = n3 mod 4" "?c mod 64 = n4"
    using digit_split sextet_parts assms by blast+
  then show "base64url [?a, ?b, ?c] = map base64url_char [n1, n2, n3, n4]"
    by (simp only: base64url.simps append_Nil2 list.simps(9) list.simps(8) div_mult_mod_eq)
qed

lemma decode_pair:
  assumes "n1 < 64" "n2 < (64 :: nat)" "n2 mod 16 = 0"
  shows "\<exists>a. a < 256 \<and> base64url [a] = map base64url_char [n1, n2]"
proof (intro exI conjI)
  let ?a = "n1 * 4 + n2 div 16"
  show "?a < 256" using assms by linarith
  have "?a div 4 = n1" "?a mod 4 = n2 div 16" using digit_split sextet_parts assms by blast+
  moreover have "n2 div 16 * 16 = n2" using div_mult_mod_eq[of n2 16] assms(3) by linarith
  ultimately show "base64url [?a] = map base64url_char [n1, n2]" by (simp only: base64url.simps list.simps)
qed

lemma decode_triple:
  assumes "n1 < 64" "n2 < 64" "n3 < (64 :: nat)" "n3 mod 4 = 0"
  shows "\<exists>a b. a < 256 \<and> b < 256 \<and> base64url [a, b] = map base64url_char [n1, n2, n3]"
proof (intro exI conjI)
  let ?a = "n1 * 4 + n2 div 16" and ?b = "n2 mod 16 * 16 + n3 div 4"
  show "?a < 256" "?b < 256" using assms by linarith+
  have "?a div 4 = n1" "?a mod 4 = n2 div 16" "?b div 16 = n2 mod 16" "?b mod 16 = n3 div 4"
    using digit_split sextet_parts assms by blast+
  moreover have "n3 div 4 * 4 = n3" using div_mult_mod_eq[of n3 4] assms(4) by linarith
  ultimately show "base64url [?a, ?b] = map base64url_char [n1, n2, n3]"
    by (simp only: base64url.simps list.simps div_mult_mod_eq)
qed

lemma canonical_decodes:
  "canonical_base64url_no_padding v \<Longrightarrow> \<exists>b. b \<noteq> [] \<and> list_all (\<lambda>x. x < 256) b \<and> v = base64url b"
proof (induction v rule: measure_induct_rule[of length])
  case (less v)
  have s: "list_all (\<lambda>c. sextet c \<noteq> None) v" and v: "v \<noteq> []" "length v mod 4 \<noteq> 1"
    using less.prems by (auto simp: canonical_base64url_no_padding_def list_all_iff list_ex_iff split: if_split_asm)
  show ?case
  proof (cases "4 \<le> length v")
    case True
    then have "Suc (Suc (Suc (Suc 0))) \<le> length v" by simp
    then obtain c1 c2 c3 c4 rest where e: "v = c1 # c2 # c3 # c4 # rest" by (auto simp: Suc_le_length_iff)
    with s obtain n1 n2 n3 n4 where n: "sextet c1 = Some n1" "sextet c2 = Some n2" "sextet c3 = Some n3" "sextet c4 = Some n4" by auto
    note c = n[THEN char_sextet]
    then obtain x y z where g: "x < 256" "y < 256" "z < 256" "base64url [x, y, z] = [c1, c2, c3, c4]"
      using decode_group[of n1 n2 n3 n4] by auto
    show ?thesis
    proof (cases "rest = []")
      case True
      then show ?thesis using g e by (intro exI[of _ "[x, y, z]"]) simp
    next
      case False
      then have "canonical_base64url_no_padding rest"
        using canonical_group[of "[c1, c2, c3, c4]" rest] n less.prems e by simp
      then obtain b where "b \<noteq> []" "list_all (\<lambda>x. x < 256) b" "rest = base64url b" using less.IH[of rest] e by auto
      then show ?thesis using g e by (intro exI[of _ "x # y # z # b"]) simp
    qed
  next
    case False
    with v consider "length v = 2" | "length v = 3" by (cases "length v"; force)
    then show ?thesis
    proof cases
      case 1
      then obtain c1 c2 where e: "v = [c1, c2]" by (metis (no_types) One_nat_def Suc_1 length_0_conv length_Suc_conv)
      with s obtain n1 n2 where n: "sextet c1 = Some n1" "sextet c2 = Some n2" by auto
      with less.prems e have "n2 mod 16 = 0" by (simp add: canonical_base64url_no_padding_def)
      then obtain x where "x < 256" "base64url [x] = [c1, c2]"
        using decode_pair[of n1 n2] n[THEN char_sextet] by auto
      then show ?thesis using e by (intro exI[of _ "[x]"]) simp
    next
      case 2
      then obtain c1 c2 c3 where e: "v = [c1, c2, c3]" by (metis length_0_conv length_Suc_conv numeral_3_eq_3)
      with s obtain n1 n2 n3 where n: "sextet c1 = Some n1" "sextet c2 = Some n2" "sextet c3 = Some n3" by auto
      with less.prems e have "n3 mod 4 = 0" by (simp add: canonical_base64url_no_padding_def)
      then obtain x y where "x < 256" "y < 256" "base64url [x, y] = [c1, c2, c3]"
        using decode_triple[of n1 n2 n3] n[THEN char_sextet] by auto
      then show ?thesis using e by (intro exI[of _ "[x, y]"]) simp
    qed
  qed
qed

text \<open>
  C32.  The hand-written check of \<open>canonical_base64url_no_padding\<close> admits exactly the texts that encode at least one byte in
  the URL-safe alphabet of RFC 4648 without padding, so a cursor that is admitted has one meaning only.
\<close>

theorem admin_base64url_exact:
  "canonical_base64url_no_padding v \<longleftrightarrow> (\<exists>b :: bytes. b \<noteq> [] \<and> v = base64url (map unat b))"
proof
  assume "canonical_base64url_no_padding v"
  then obtain b where b: "b \<noteq> []" "list_all (\<lambda>x. x < 256) b" "v = base64url b" using canonical_decodes by blast
  have "map unat (map (of_nat :: nat \<Rightarrow> 8 word) b) = b"
    using b(2) by (induction b) (auto simp: unat_of_nat take_bit_eq_mod)
  then show "\<exists>b :: bytes. b \<noteq> [] \<and> v = base64url (map unat b)" using b(1,3)
    by (intro exI[of _ "map of_nat b"]) simp
next
  assume "\<exists>b :: bytes. b \<noteq> [] \<and> v = base64url (map unat b)"
  then obtain b :: bytes where b: "b \<noteq> []" "v = base64url (map unat b)" by blast
  have "list_all (\<lambda>x. x < 256) (map unat b)" using unsigned_less[where ?'b = 8] by (auto simp: list_all_iff)
  then show "canonical_base64url_no_padding v" using canonical_encoding[of "map unat b"] b by simp
qed

end
