(* ===== verification/State_Admin.thy ===== *)
theory State_Admin
  imports Admin_Requests Sql_Table
begin

text \<open>
  The journal of administrative mutations, \<open>src/src/state_admin.rs\<close>, with its table in
  \<open>src/src/state_catalog.rs\<close>: admission, completion, exact replay, expiry, and the atomic execution of a mutation of
  the database together with its receipt.
\<close>

section \<open>Data\<close>

definition RHI_ADMIN_OPERATION_ID_MAX_BYTES :: nat where "RHI_ADMIN_OPERATION_ID_MAX_BYTES = 128"
definition RHI_ADMIN_OPERATION_RESPONSE_MODEL_MAX_BYTES :: nat where "RHI_ADMIN_OPERATION_RESPONSE_MODEL_MAX_BYTES = 8192"
definition RHI_ADMIN_OPERATION_COMPLETED_LIMIT :: nat where "RHI_ADMIN_OPERATION_COMPLETED_LIMIT = 4096"
definition RHI_ADMIN_OPERATION_PREPARED_LIMIT :: nat where "RHI_ADMIN_OPERATION_PREPARED_LIMIT = 128"
definition RHI_ADMIN_OPERATION_DEFAULT_RETENTION_MS :: nat where "RHI_ADMIN_OPERATION_DEFAULT_RETENTION_MS = 604800000"
definition PRUNE_LIMIT :: nat where "PRUNE_LIMIT = 4096"

definition REQUEST_DIGEST_DOMAIN :: bytes where
  "REQUEST_DIGEST_DOMAIN = ascii_bytes ''radroots.rhi.admin_operation_request.v1'' @ [0]"

datatype admin_operation_error = AdminInvalidMode | AdminInvalidInput | AdminOperationConflict | AdminOutcomeUnknown
  | AdminResourceExhausted | AdminBinding | AdminTransaction | AdminCommitOutcomeUnknown

datatype journal_error = JournalInvalidInput | JournalConflict | JournalOutcomeUnknown | JournalResourceExhausted
  | JournalBinding | JournalStorage

record prepared_operation =
  po_operation_id :: string
  po_route :: admin_route
  po_request_sha256 :: bytes
  po_prepared_at :: nat

datatype 'f admission = AdmissionPrepared prepared_operation | AdmissionReplay "'f response_document"

datatype completion = CompletionCompleted | CompletionExactReplay

record request_binding =
  rb_operation_id :: string
  rb_route :: admin_route
  rb_request_sha256 :: bytes

datatype stored_operation =
    StoredPrepared admin_route bytes nat
  | StoredCompleted admin_route bytes bytes bytes nat nat nat

section \<open>The table\<close>

record admin_row =
  aor_operation_id :: string
  aor_route :: string
  aor_request_sha256 :: bytes
  aor_state :: string
  aor_response_model :: "bytes option"
  aor_response_sha256 :: "bytes option"
  aor_prepared_at_unix_ms :: int
  aor_completed_at_unix_ms :: "int option"
  aor_expires_at_unix_ms :: "int option"

text \<open>The journal beside the other tables of the database.\<close>

record 's admin_store =
  admin_rows :: "admin_row list"
  other_tables :: 's

definition operation_id_char :: "char \<Rightarrow> bool" where
  "operation_id_char c \<longleftrightarrow> is_ascii_alphanumeric c \<or> c \<in> {CHR ''.'', CHR ''_'', CHR '':'', CHR ''-''}"

definition admin_row_shape :: "admin_row \<Rightarrow> bool" where
  "admin_row_shape r \<longleftrightarrow>
     (aor_state r = ''prepared'' \<and> aor_response_model r = None \<and> aor_response_sha256 r = None
        \<and> aor_completed_at_unix_ms r = None \<and> aor_expires_at_unix_ms r = None)
   \<or> (aor_state r = ''completed'' \<and> aor_response_model r \<noteq> None \<and> aor_response_sha256 r \<noteq> None
        \<and> aor_completed_at_unix_ms r \<noteq> None \<and> aor_expires_at_unix_ms r \<noteq> None)"

definition admin_row_check :: "admin_row \<Rightarrow> bool" where
  "admin_row_check r \<longleftrightarrow>
     1 \<le> length (aor_operation_id r) \<and> length (aor_operation_id r) \<le> 128
   \<and> is_ascii_alphanumeric (hd (aor_operation_id r)) \<and> list_all operation_id_char (aor_operation_id r)
   \<and> 1 \<le> length (aor_route r) \<and> length (aor_route r) \<le> 128
   \<and> length (aor_request_sha256 r) = 32
   \<and> aor_state r \<in> {''prepared'', ''completed''}
   \<and> pred_option (\<lambda>b. 1 \<le> length b \<and> length b \<le> 8192) (aor_response_model r)
   \<and> pred_option (\<lambda>b. length b = 32) (aor_response_sha256 r)
   \<and> 0 \<le> aor_prepared_at_unix_ms r \<and> aor_prepared_at_unix_ms r \<le> sql_i64_max
   \<and> pred_option (\<lambda>t. aor_prepared_at_unix_ms r \<le> t \<and> t \<le> sql_i64_max) (aor_completed_at_unix_ms r)
   \<and> pred_option (\<lambda>t. pred_option (\<lambda>c. c \<le> t) (aor_completed_at_unix_ms r) \<and> t \<le> sql_i64_max) (aor_expires_at_unix_ms r)
   \<and> admin_row_shape r"

definition admin_rows_valid :: "admin_row list \<Rightarrow> bool" where
  "admin_rows_valid rows \<longleftrightarrow> list_all admin_row_check rows \<and> distinct (map aor_operation_id rows)"

definition admin_row_guard :: "admin_row \<Rightarrow> admin_row \<Rightarrow> bool" where
  "admin_row_guard old new \<longleftrightarrow>
     aor_state old = ''prepared'' \<and> aor_state new = ''completed''
   \<and> aor_operation_id new = aor_operation_id old \<and> aor_route new = aor_route old
   \<and> aor_request_sha256 new = aor_request_sha256 old
   \<and> aor_prepared_at_unix_ms new = aor_prepared_at_unix_ms old
   \<and> aor_response_model new \<noteq> None \<and> aor_response_sha256 new \<noteq> None
   \<and> aor_completed_at_unix_ms new \<noteq> None \<and> aor_expires_at_unix_ms new \<noteq> None"

section \<open>Bindings\<close>

definition operation_id_binding :: "string \<Rightarrow> (admin_operation_error, string) result" where
  "operation_id_binding v =
     (if v \<noteq> [] \<and> length v \<le> RHI_ADMIN_OPERATION_ID_MAX_BYTES \<and> is_ascii_alphanumeric (hd v) \<and> list_all operation_id_char v
      then Inr v else Inl AdminInvalidInput)"

definition admin_time_new :: "nat \<Rightarrow> (admin_operation_error, nat) result" where
  "admin_time_new v = (if v \<le> i64_max then Inr v else Inl AdminInvalidInput)"

definition hash_field :: "bytes \<Rightarrow> bytes" where
  "hash_field b = to_be_bytes 8 (length b) @ b"

definition request_digest :: "(bytes \<Rightarrow> bytes) \<Rightarrow> admin_document_request \<Rightarrow> bytes" where
  "request_digest sha256 request =
     sha256 (REQUEST_DIGEST_DOMAIN @ hash_field (ascii_bytes (route_operation_id (dq_route request))) @ [0]
       @ hash_field (dq_model_bytes request))"

definition request_binding_from ::
  "(bytes \<Rightarrow> bytes) \<Rightarrow> admin_document_request \<Rightarrow> (admin_operation_error, request_binding) result" where
  "request_binding_from sha256 request =
     and_then (ensure (is_mutation (dq_route request)) AdminInvalidInput) (\<lambda>_.
     and_then (ok_or AdminInvalidInput (dq_operation_id request)) (\<lambda>ident.
     and_then (operation_id_binding ident) (\<lambda>ident.
       Inr \<lparr>rb_operation_id = ident, rb_route = dq_route request, rb_request_sha256 = request_digest sha256 request\<rparr>)))"

section \<open>Reading\<close>

definition parse_route :: "string \<Rightarrow> admin_route option" where
  "parse_route v = find (\<lambda>route. is_mutation route \<and> route_operation_id route = v) admin_routes"

definition journal_time :: "int \<Rightarrow> (journal_error, nat) result" where
  "journal_time v =
     and_then (u64_of_i64 JournalBinding v) (\<lambda>t. map_err (\<lambda>_. JournalBinding) (admin_time_new t))"

definition journal_digest :: "bytes \<Rightarrow> (journal_error, bytes) result" where
  "journal_digest b = (if length b = 32 then Inr b else Inl JournalBinding)"

definition decode_operation :: "admin_row \<Rightarrow> (journal_error, stored_operation) result" where
  "decode_operation row =
     and_then (ok_or JournalBinding (Option.bind
       (if 1 \<le> length (aor_route row) \<and> length (aor_route row) \<le> 128 then Some (aor_route row) else None) parse_route)) (\<lambda>route.
     and_then (journal_digest (aor_request_sha256 row)) (\<lambda>request_sha256.
     and_then (ensure (length (aor_state row) \<le> 16) JournalBinding) (\<lambda>_.
     and_then (journal_time (aor_prepared_at_unix_ms row)) (\<lambda>prepared_at.
     if aor_state row = ''prepared'' then
       (if aor_response_model row = None \<and> aor_response_sha256 row = None \<and> aor_completed_at_unix_ms row = None
           \<and> aor_expires_at_unix_ms row = None
        then Inr (StoredPrepared route request_sha256 prepared_at) else Inl JournalBinding)
     else if aor_state row = ''completed'' then
       (case (aor_response_model row, aor_response_sha256 row, aor_completed_at_unix_ms row, aor_expires_at_unix_ms row) of
          (Some response, Some response_sha256, Some completed_at, Some expires_at) \<Rightarrow>
            and_then (ensure (1 \<le> length response \<and> length response \<le> 8192) JournalBinding) (\<lambda>_.
            and_then (journal_digest response_sha256) (\<lambda>response_sha256.
            and_then (journal_time completed_at) (\<lambda>completed_at.
            and_then (journal_time expires_at) (\<lambda>expires_at.
              Inr (StoredCompleted route request_sha256 response response_sha256 prepared_at completed_at expires_at)))))
        | _ \<Rightarrow> Inl JournalBinding)
     else Inl JournalBinding))))"

definition read_operation :: "string \<Rightarrow> 's admin_store \<Rightarrow> (journal_error, stored_operation option) result" where
  "read_operation ident s =
     (case take 2 (filter (\<lambda>r. aor_operation_id r = ident) (admin_rows s)) of
        [] \<Rightarrow> Inr None
      | [row] \<Rightarrow> and_then (decode_operation row) (\<lambda>operation. Inr (Some operation))
      | _ \<Rightarrow> Inl JournalBinding)"

definition read_counts :: "'s admin_store \<Rightarrow> nat \<times> nat" where
  "read_counts s =
     (length (filter (\<lambda>r. aor_state r = ''completed'') (admin_rows s)),
      length (filter (\<lambda>r. aor_state r = ''prepared'') (admin_rows s)))"

section \<open>Writing\<close>

definition expired_operations :: "int \<Rightarrow> admin_row list \<Rightarrow> string list" where
  "expired_operations now rows =
     map aor_operation_id (take PRUNE_LIMIT (sort_key (\<lambda>r. (aor_expires_at_unix_ms r, aor_operation_id r))
       (filter (\<lambda>r. aor_state r = ''completed'' \<and> sql_le (aor_expires_at_unix_ms r) now) rows)))"

definition prune_expired :: "nat \<Rightarrow> 's admin_store \<Rightarrow> 's admin_store" where
  "prune_expired now s =
     s\<lparr>admin_rows := filter (\<lambda>r. aor_operation_id r \<notin> set (expired_operations (int now) (admin_rows s))) (admin_rows s)\<rparr>"

definition insert_prepared :: "request_binding \<Rightarrow> nat \<Rightarrow> 's admin_store \<Rightarrow> (journal_error, 's admin_store) result" where
  "insert_prepared binding observed s =
     (case sql_insert (\<lambda>_ _. True) admin_rows_valid
        \<lparr>aor_operation_id = rb_operation_id binding, aor_route = route_operation_id (rb_route binding),
         aor_request_sha256 = rb_request_sha256 binding, aor_state = ''prepared'', aor_response_model = None,
         aor_response_sha256 = None, aor_prepared_at_unix_ms = int observed, aor_completed_at_unix_ms = None,
         aor_expires_at_unix_ms = None\<rparr> (admin_rows s) of
        None \<Rightarrow> Inl JournalStorage
      | Some rows \<Rightarrow> Inr (s\<lparr>admin_rows := rows\<rparr>))"

definition complete_operation_where :: "string \<Rightarrow> admin_row \<Rightarrow> bool" where
  "complete_operation_where ident r \<longleftrightarrow> aor_operation_id r = ident \<and> aor_state r = ''prepared''"

definition complete_operation_set :: "bytes \<Rightarrow> bytes \<Rightarrow> int \<Rightarrow> int \<Rightarrow> admin_row \<Rightarrow> admin_row" where
  "complete_operation_set response digest completed expires r =
     r\<lparr>aor_state := ''completed'', aor_response_model := Some response, aor_response_sha256 := Some digest,
       aor_completed_at_unix_ms := Some completed, aor_expires_at_unix_ms := Some expires\<rparr>"

definition admit_existing ::
  "(bytes \<Rightarrow> bytes) \<Rightarrow> 'f admin_crate \<Rightarrow> request_binding \<Rightarrow> stored_operation \<Rightarrow> (journal_error, 'f admission) result" where
  "admit_existing sha256 crate binding existing =
     (case existing of
        StoredPrepared route request_sha256 _ \<Rightarrow>
          if route = rb_route binding \<and> request_sha256 = rb_request_sha256 binding
          then Inl JournalOutcomeUnknown else Inl JournalConflict
      | StoredCompleted route request_sha256 response response_sha256 _ _ _ \<Rightarrow>
          if route = rb_route binding \<and> request_sha256 = rb_request_sha256 binding
          then if sha256 response \<noteq> response_sha256 then Inl JournalBinding
               else map_err (\<lambda>_. JournalBinding)
                 (and_then (response_from_canonical_bytes crate route response) (\<lambda>d. Inr (AdmissionReplay d)))
          else Inl JournalConflict)"

definition prepare_operation ::
  "(bytes \<Rightarrow> bytes) \<Rightarrow> 'f admin_crate \<Rightarrow> request_binding \<Rightarrow> nat \<Rightarrow> 's admin_store
     \<Rightarrow> (journal_error, 'f admission \<times> 's admin_store) result" where
  "prepare_operation sha256 crate binding observed s =
     (let s = prune_expired observed s in
     and_then (read_operation (rb_operation_id binding) s) (\<lambda>found.
     case found of
       Some existing \<Rightarrow> and_then (admit_existing sha256 crate binding existing) (\<lambda>a. Inr (a, s))
     | None \<Rightarrow>
         (case read_counts s of (completed, prepared) \<Rightarrow>
          and_then (ok_or JournalBinding (checked_add completed prepared)) (\<lambda>reserved.
          if RHI_ADMIN_OPERATION_COMPLETED_LIMIT \<le> reserved \<or> RHI_ADMIN_OPERATION_PREPARED_LIMIT \<le> prepared
          then Inl JournalResourceExhausted
          else and_then (insert_prepared binding observed s) (\<lambda>s.
            and_then (read_operation (rb_operation_id binding) s) (\<lambda>found.
            case found of
              Some (StoredPrepared route request_sha256 prepared_at) \<Rightarrow>
                if route = rb_route binding \<and> request_sha256 = rb_request_sha256 binding \<and> prepared_at = observed
                then Inr (AdmissionPrepared \<lparr>po_operation_id = rb_operation_id binding, po_route = route,
                  po_request_sha256 = request_sha256, po_prepared_at = prepared_at\<rparr>, s)
                else Inl JournalBinding
            | _ \<Rightarrow> Inl JournalBinding))))))"

definition complete_prepared ::
  "(bytes \<Rightarrow> bytes) \<Rightarrow> prepared_operation \<Rightarrow> bytes \<Rightarrow> nat \<Rightarrow> nat \<Rightarrow> 's admin_store
     \<Rightarrow> (journal_error, completion \<times> 's admin_store) result" where
  "complete_prepared sha256 prepared response completed_at expires_at s =
     (if RHI_ADMIN_OPERATION_COMPLETED_LIMIT \<le> fst (read_counts s) then Inl JournalResourceExhausted
      else and_then (i64_of_u64 JournalInvalidInput expires_at) (\<lambda>expires.
      (case sql_update admin_row_guard admin_rows_valid (complete_operation_where (po_operation_id prepared))
         (complete_operation_set response (sha256 response) (int completed_at) expires) (admin_rows s) of
         None \<Rightarrow> Inl JournalStorage
       | Some (rows, n) \<Rightarrow>
           if n \<noteq> 1 then Inl JournalStorage
           else (let s = s\<lparr>admin_rows := rows\<rparr> in
             and_then (read_operation (po_operation_id prepared) s) (\<lambda>found.
             if found = Some (StoredCompleted (po_route prepared) (po_request_sha256 prepared) response (sha256 response)
               (po_prepared_at prepared) completed_at expires_at)
             then Inr (CompletionCompleted, s) else Inl JournalBinding)))))"

definition complete_operation ::
  "(bytes \<Rightarrow> bytes) \<Rightarrow> prepared_operation \<Rightarrow> bytes \<Rightarrow> nat \<Rightarrow> nat \<Rightarrow> 's admin_store
     \<Rightarrow> (journal_error, completion \<times> 's admin_store) result" where
  "complete_operation sha256 prepared response completed_at expires_at s =
     and_then (read_operation (po_operation_id prepared) s) (\<lambda>found.
     case found of
       None \<Rightarrow> Inl JournalBinding
     | Some (StoredCompleted route request_sha256 existing existing_sha256 _ _ _) \<Rightarrow>
         if route = po_route prepared \<and> request_sha256 = po_request_sha256 prepared \<and> existing = response
            \<and> existing_sha256 = sha256 response
         then Inr (CompletionExactReplay, s) else Inl JournalConflict
     | Some (StoredPrepared route request_sha256 prepared_at) \<Rightarrow>
         if route = po_route prepared \<and> request_sha256 = po_request_sha256 prepared \<and> prepared_at = po_prepared_at prepared
         then complete_prepared sha256 prepared response completed_at expires_at s
         else Inl JournalConflict)"

section \<open>The repository\<close>

definition journal_expiry :: "nat \<Rightarrow> nat \<Rightarrow> (admin_operation_error, nat) result" where
  "journal_expiry completed_at retention =
     ok_or AdminInvalidInput (option_filter (\<lambda>v. v \<le> i64_max) (checked_add completed_at retention))"

definition execute_operation ::
  "(bytes \<Rightarrow> bytes) \<Rightarrow> 'f admin_crate \<Rightarrow> request_binding \<Rightarrow> nat \<Rightarrow> nat
     \<Rightarrow> ('s \<Rightarrow> (journal_error, 'f response_document \<times> 's) result) \<Rightarrow> 's admin_store
     \<Rightarrow> (journal_error, 'f response_document \<times> 's admin_store) result" where
  "execute_operation sha256 crate binding completed_at expires_at operation s =
     and_then (prepare_operation sha256 crate binding completed_at s) (\<lambda>(admitted, s).
     case admitted of
       AdmissionReplay response \<Rightarrow> Inr (response, s)
     | AdmissionPrepared prepared \<Rightarrow>
         and_then (operation (other_tables s)) (\<lambda>(response, tables).
         let b = rd_canonical_bytes response; s = s\<lparr>other_tables := tables\<rparr> in
         if rd_route response \<noteq> rb_route binding \<or> b = [] \<or> RHI_ADMIN_OPERATION_RESPONSE_MODEL_MAX_BYTES < length b
         then Inl JournalInvalidInput
         else and_then (complete_operation sha256 prepared b completed_at expires_at s) (\<lambda>(_, s). Inr (response, s))))"

fun map_journal_error :: "journal_error tx_error \<Rightarrow> admin_operation_error" where
  "map_journal_error CommitOutcomeUnknown = AdminCommitOutcomeUnknown"
| "map_journal_error (OperationFailed JournalInvalidInput) = AdminInvalidInput"
| "map_journal_error (OperationFailed JournalConflict) = AdminOperationConflict"
| "map_journal_error (OperationFailed JournalOutcomeUnknown) = AdminOutcomeUnknown"
| "map_journal_error (OperationFailed JournalResourceExhausted) = AdminResourceExhausted"
| "map_journal_error (OperationFailed JournalBinding) = AdminBinding"
| "map_journal_error (OperationFailed JournalStorage) = AdminTransaction"
| "map_journal_error HostFailed = AdminTransaction"

definition journal_run ::
  "(journal_error, 'a, 's) txn \<Rightarrow> ('s \<Rightarrow> (journal_error, 'a \<times> 's) result) \<Rightarrow> 's \<Rightarrow> (admin_operation_error, 'a) result \<times> 's" where
  "journal_run txn body s = (case txn body s of (r, s') \<Rightarrow> (map_err map_journal_error r, s'))"

definition execute_database_admin_operation ::
  "state_host_mode \<Rightarrow> (journal_error, 'f response_document, 's admin_store) txn \<Rightarrow> (bytes \<Rightarrow> bytes) \<Rightarrow> 'f admin_crate
     \<Rightarrow> admin_document_request \<Rightarrow> nat \<Rightarrow> nat \<Rightarrow> ('s \<Rightarrow> (journal_error, 'f response_document \<times> 's) result) \<Rightarrow> 's admin_store
     \<Rightarrow> (admin_operation_error, 'f response_document) result \<times> 's admin_store" where
  "execute_database_admin_operation mode txn sha256 crate request completed_at retention operation s =
     (if mode \<noteq> ReadWriteExisting then (Inl AdminInvalidMode, s)
      else (case and_then (request_binding_from sha256 request) (\<lambda>binding.
          and_then (journal_expiry completed_at retention) (\<lambda>expires. Inr (binding, expires))) of
          Inl e \<Rightarrow> (Inl e, s)
        | Inr (binding, expires) \<Rightarrow>
            journal_run txn (execute_operation sha256 crate binding completed_at expires operation) s))"

definition prepare_admin_operation ::
  "state_host_mode \<Rightarrow> (journal_error, 'f admission, 's admin_store) txn \<Rightarrow> (bytes \<Rightarrow> bytes) \<Rightarrow> 'f admin_crate
     \<Rightarrow> admin_document_request \<Rightarrow> nat \<Rightarrow> 's admin_store \<Rightarrow> (admin_operation_error, 'f admission) result \<times> 's admin_store" where
  "prepare_admin_operation mode txn sha256 crate request observed s =
     (if mode \<noteq> ReadWriteExisting then (Inl AdminInvalidMode, s)
      else (case request_binding_from sha256 request of
          Inl e \<Rightarrow> (Inl e, s)
        | Inr binding \<Rightarrow> journal_run txn (prepare_operation sha256 crate binding observed) s))"

definition complete_admin_operation ::
  "state_host_mode \<Rightarrow> (journal_error, completion, 's admin_store) txn \<Rightarrow> (bytes \<Rightarrow> bytes) \<Rightarrow> prepared_operation
     \<Rightarrow> 'f response_document \<Rightarrow> nat \<Rightarrow> nat \<Rightarrow> 's admin_store \<Rightarrow> (admin_operation_error, completion) result \<times> 's admin_store" where
  "complete_admin_operation mode txn sha256 prepared response completed_at retention s =
     (if mode \<noteq> ReadWriteExisting then (Inl AdminInvalidMode, s)
      else if rd_route response \<noteq> po_route prepared \<or> rd_canonical_bytes response = []
        \<or> RHI_ADMIN_OPERATION_RESPONSE_MODEL_MAX_BYTES < length (rd_canonical_bytes response)
        \<or> completed_at < po_prepared_at prepared then (Inl AdminInvalidInput, s)
      else (case journal_expiry completed_at retention of
          Inl e \<Rightarrow> (Inl e, s)
        | Inr expires \<Rightarrow>
            journal_run txn (complete_operation sha256 prepared (rd_canonical_bytes response) completed_at expires) s))"

end
