(* ===== verification/State_Admin_Props.thy ===== *)
theory State_Admin_Props
  imports State_Admin
begin

text \<open>
  The administrative journal: a mutation of the database is executed once per operation identity and replayed for as long
  as its receipt is retained, and the journal stays within its bounds.
\<close>

section \<open>Rows\<close>

lemma filter_absent: "k \<notin> f ` set xs \<Longrightarrow> filter (\<lambda>x. f x = k) xs = []"
  by (induction xs) auto

lemma admin_rows_valid_filter: "admin_rows_valid rows \<Longrightarrow> admin_rows_valid (filter p rows)"
  by (auto simp: admin_rows_valid_def list_all_iff distinct_map_filter)

lemma filter_operation:
  assumes "admin_rows_valid rows" and "r \<in> set rows"
  shows "filter (\<lambda>x. aor_operation_id x = aor_operation_id r) rows = [r]"
  using assms
proof (induction rows)
  case (Cons a rows)
  then have d: "aor_operation_id a \<notin> aor_operation_id ` set rows" "admin_rows_valid rows"
    by (auto simp: admin_rows_valid_def)
  show ?case
  proof (cases "r = a")
    case True
    have "filter (\<lambda>x. aor_operation_id x = aor_operation_id a) rows = []" using d(1) by (rule filter_absent)
    with True show ?thesis by simp
  next
    case False
    then have "r \<in> set rows" "aor_operation_id a \<noteq> aor_operation_id r" using Cons.prems(2) d(1) by force+
    then show ?thesis using Cons.IH d(2) by simp
  qed
qed simp

lemma same_operation:
  assumes "admin_rows_valid rows" "q \<in> set rows" "r \<in> set rows" "aor_operation_id q = aor_operation_id r"
  shows "q = r"
  using assms by (auto simp: admin_rows_valid_def distinct_map inj_on_def)

lemma read_operation_row:
  assumes "admin_rows_valid (admin_rows s)" and "r \<in> set (admin_rows s)"
  shows "read_operation (aor_operation_id r) s = and_then (decode_operation r) (\<lambda>operation. Inr (Some operation))"
  using filter_operation[OF assms] by (simp add: read_operation_def)

lemma read_operation_SomeE:
  assumes "read_operation k s = Inr (Some operation)"
  obtains r where "r \<in> set (admin_rows s)" "aor_operation_id r = k" "decode_operation r = Inr operation"
proof -
  from assms obtain r where r: "take 2 (filter (\<lambda>r. aor_operation_id r = k) (admin_rows s)) = [r]" "decode_operation r = Inr operation"
    by (auto simp: read_operation_def split: list.split_asm)
  then have "r \<in> set (filter (\<lambda>r. aor_operation_id r = k) (admin_rows s))"
    using in_set_takeD[of r 2] by (metis list.set_intros(1))
  with r that show thesis by auto
qed

lemma decode_completedD:
  assumes "decode_operation r = Inr (StoredCompleted route request response digest p t e)"
  shows "aor_state r = ''completed''" "aor_expires_at_unix_ms r = Some (int e)"
  using assms
  by (auto simp: decode_operation_def journal_time_def admin_time_new_def split: if_split_asm option.split_asm)

section \<open>Effects\<close>

lemma prune_expired_simps [simp]:
  "other_tables (prune_expired t s) = other_tables s"
  by (simp add: prune_expired_def)

lemma prune_subset: "set (admin_rows (prune_expired t s)) \<subseteq> set (admin_rows s)"
  by (auto simp: prune_expired_def)

lemma prune_valid: "admin_rows_valid (admin_rows s) \<Longrightarrow> admin_rows_valid (admin_rows (prune_expired t s))"
  by (simp add: prune_expired_def admin_rows_valid_filter)

text \<open>A receipt that has not expired survives a pruning.\<close>

lemma prune_keeps:
  assumes valid: "admin_rows_valid (admin_rows s)" and r: "r \<in> set (admin_rows s)"
    and x: "aor_expires_at_unix_ms r = Some x" "int t < x"
  shows "r \<in> set (admin_rows (prune_expired t s))"
proof -
  have "aor_operation_id r \<notin> set (expired_operations (int t) (admin_rows s))"
  proof
    assume "aor_operation_id r \<in> set (expired_operations (int t) (admin_rows s))"
    then obtain q where q: "q \<in> set (admin_rows s)" "aor_operation_id q = aor_operation_id r" "sql_le (aor_expires_at_unix_ms q) (int t)"
      unfolding expired_operations_def by (auto dest!: in_set_takeD)
    have "q = r" using same_operation[OF valid q(1) r q(2)] .
    with q(3) x show False by simp
  qed
  then show ?thesis using r by (simp add: prune_expired_def)
qed

text \<open>What an admission does to the table: it prunes, and a new operation gets one prepared row.\<close>

lemma prepare_operationE:
  assumes "prepare_operation sha256 crate binding t s = Inr (a, s')"
  obtains (replay) d existing where "a = AdmissionReplay d" "s' = prune_expired t s"
      "read_operation (rb_operation_id binding) (prune_expired t s) = Inr (Some existing)"
  | (new) row where "s' = (prune_expired t s)\<lparr>admin_rows := admin_rows (prune_expired t s) @ [row]\<rparr>"
      "aor_state row = ''prepared''" "aor_operation_id row = rb_operation_id binding" "admin_rows_valid (admin_rows s')"
      "a = AdmissionPrepared \<lparr>po_operation_id = rb_operation_id binding, po_route = rb_route binding,
         po_request_sha256 = rb_request_sha256 binding, po_prepared_at = t\<rparr>"
      "length (filter (\<lambda>r. aor_state r = ''completed'') (admin_rows (prune_expired t s)))
        + length (filter (\<lambda>r. aor_state r = ''prepared'') (admin_rows (prune_expired t s))) < RHI_ADMIN_OPERATION_COMPLETED_LIMIT"
      "length (filter (\<lambda>r. aor_state r = ''prepared'') (admin_rows (prune_expired t s))) < RHI_ADMIN_OPERATION_PREPARED_LIMIT"
proof -
  let ?p = "prune_expired t s"
  from assms obtain found where found: "read_operation (rb_operation_id binding) ?p = Inr found"
    by (auto simp: prepare_operation_def Let_def)
  show thesis
  proof (cases found)
    case (Some existing)
    with assms found have "admit_existing sha256 crate binding existing = Inr a" "s' = ?p"
      by (auto simp: prepare_operation_def Let_def)
    then show thesis
      using replay found Some by (auto simp: admit_existing_def split: stored_operation.split_asm if_split_asm)
  next
    case None
    let ?row = "\<lparr>aor_operation_id = rb_operation_id binding, aor_route = route_operation_id (rb_route binding),
         aor_request_sha256 = rb_request_sha256 binding, aor_state = ''prepared'', aor_response_model = None,
         aor_response_sha256 = None, aor_prepared_at_unix_ms = int t, aor_completed_at_unix_ms = None,
         aor_expires_at_unix_ms = None\<rparr>"
    let ?c = "length (filter (\<lambda>r. aor_state r = ''completed'') (admin_rows ?p))"
    let ?n = "length (filter (\<lambda>r. aor_state r = ''prepared'') (admin_rows ?p))"
    from assms found None obtain s1 found' where ins: "insert_prepared binding t ?p = Inr s1"
        and again: "read_operation (rb_operation_id binding) s1 = Inr found'"
        and bounds: "?c + ?n < RHI_ADMIN_OPERATION_COMPLETED_LIMIT" "?n < RHI_ADMIN_OPERATION_PREPARED_LIMIT"
        and rest: "(case found' of
              Some (StoredPrepared route request_sha256 prepared_at) \<Rightarrow>
                if route = rb_route binding \<and> request_sha256 = rb_request_sha256 binding \<and> prepared_at = t
                then Inr (AdmissionPrepared \<lparr>po_operation_id = rb_operation_id binding, po_route = route,
                  po_request_sha256 = request_sha256, po_prepared_at = prepared_at\<rparr>, s1)
                else Inl JournalBinding
            | _ \<Rightarrow> Inl JournalBinding) = Inr (a, s')"
      by (simp add: prepare_operation_def Let_def read_counts_def split: if_split_asm) blast
    from rest have "s1 = s'" and "a = AdmissionPrepared \<lparr>po_operation_id = rb_operation_id binding, po_route = rb_route binding,
           po_request_sha256 = rb_request_sha256 binding, po_prepared_at = t\<rparr>"
      by (auto split: option.split_asm stored_operation.split_asm if_split_asm)
    with ins bounds have "insert_prepared binding t ?p = Inr s'
        \<and> a = AdmissionPrepared \<lparr>po_operation_id = rb_operation_id binding, po_route = rb_route binding,
           po_request_sha256 = rb_request_sha256 binding, po_prepared_at = t\<rparr>
        \<and> ?c + ?n < RHI_ADMIN_OPERATION_COMPLETED_LIMIT \<and> ?n < RHI_ADMIN_OPERATION_PREPARED_LIMIT" by simp
    then have e: "a = AdmissionPrepared \<lparr>po_operation_id = rb_operation_id binding, po_route = rb_route binding,
           po_request_sha256 = rb_request_sha256 binding, po_prepared_at = t\<rparr>"
        "?c + ?n < RHI_ADMIN_OPERATION_COMPLETED_LIMIT" "?n < RHI_ADMIN_OPERATION_PREPARED_LIMIT"
        "sql_insert (\<lambda>_ _. True) admin_rows_valid ?row (admin_rows ?p) = Some (admin_rows s')"
        "s' = ?p\<lparr>admin_rows := admin_rows s'\<rparr>"
      by (auto simp: insert_prepared_def split: option.split_asm)
    note i = sql_insert_SomeD[OF e(4)]
    show thesis by (rule new[of ?row]) (use e i in simp_all)
  qed
qed

text \<open>A completion turns the one prepared row of its identity into a receipt, or finds it there.\<close>

lemma complete_operationE:
  assumes "complete_operation sha256 p response t e s = Inr (c, s')"
  obtains (replay) row where "s' = s" "row \<in> set (admin_rows s)" "aor_operation_id row = po_operation_id p"
      "aor_state row = ''completed''"
  | (receipt) row where "s' = s\<lparr>admin_rows := map (\<lambda>r. if complete_operation_where (po_operation_id p) r
          then complete_operation_set response (sha256 response) (int t) (int e) r else r) (admin_rows s)\<rparr>"
      "admin_rows_valid (admin_rows s')" "row \<in> set (admin_rows s')" "aor_operation_id row = po_operation_id p"
      "decode_operation row = Inr (StoredCompleted (po_route p) (po_request_sha256 p) response (sha256 response)
         (po_prepared_at p) t e)"
proof -
  from assms obtain found where found: "read_operation (po_operation_id p) s = Inr (Some found)"
    by (auto simp: complete_operation_def split: option.split_asm)
  show thesis
  proof (cases found)
    case (StoredCompleted a b c d e f g)
    with assms found have "s' = s" by (auto simp: complete_operation_def split: if_split_asm)
    with found StoredCompleted show thesis by (metis replay read_operation_SomeE decode_completedD(1))
  next
    case (StoredPrepared a b d)
    with assms found have "complete_prepared sha256 p response t e s = Inr (c, s')"
      by (auto simp: complete_operation_def split: if_split_asm)
    then obtain rows n where u: "sql_update admin_row_guard admin_rows_valid (complete_operation_where (po_operation_id p))
         (complete_operation_set response (sha256 response) (int t) (int e)) (admin_rows s) = Some (rows, n)"
        and s': "s' = s\<lparr>admin_rows := rows\<rparr>"
        and r: "read_operation (po_operation_id p) s' = Inr (Some (StoredCompleted (po_route p) (po_request_sha256 p) response
           (sha256 response) (po_prepared_at p) t e))"
      by (auto simp: complete_prepared_def Let_def split: if_split_asm option.split_asm prod.split_asm)
    from r obtain row where "row \<in> set (admin_rows s')" "aor_operation_id row = po_operation_id p"
        "decode_operation row = Inr (StoredCompleted (po_route p) (po_request_sha256 p) response (sha256 response)
           (po_prepared_at p) t e)"
      by (rule read_operation_SomeE)
    then show thesis using receipt sql_update_SomeD(1,3)[OF u] s' by auto
  qed
qed

section \<open>Runs\<close>

text \<open>
  A committed change of the database by the service: an admission, a completion, an executed mutation, each at a time, or
  any change of the other tables.
\<close>

inductive journal_step :: "(bytes \<Rightarrow> bytes) \<Rightarrow> 'f admin_crate \<Rightarrow> nat \<Rightarrow> 's admin_store \<Rightarrow> 's admin_store \<Rightarrow> bool"
  for sha256 crate where
  step_prepare: "prepare_operation sha256 crate binding t s = Inr (a, s') \<Longrightarrow> journal_step sha256 crate t s s'"
| step_complete: "complete_operation sha256 p response t e s = Inr (c, s') \<Longrightarrow> journal_step sha256 crate t s s'"
| step_execute: "execute_operation sha256 crate binding t e operation s = Inr (d, s') \<Longrightarrow> journal_step sha256 crate t s s'"
| step_other: "journal_step sha256 crate t s (s\<lparr>other_tables := tables\<rparr>)"

inductive journal_steps :: "(bytes \<Rightarrow> bytes) \<Rightarrow> 'f admin_crate \<Rightarrow> nat \<Rightarrow> 's admin_store \<Rightarrow> 's admin_store \<Rightarrow> bool"
  for sha256 crate until where
  steps_refl: "journal_steps sha256 crate until s s"
| steps_step: "journal_steps sha256 crate until s s' \<Longrightarrow> journal_step sha256 crate t s' s'' \<Longrightarrow> t < until
    \<Longrightarrow> journal_steps sha256 crate until s s''"

text \<open>An executed mutation is an admission that replays, or one followed by the mutation and the completion.\<close>

lemma execute_operationE:
  assumes "execute_operation sha256 crate binding t e operation s = Inr (d, s')"
  obtains (replay) "prepare_operation sha256 crate binding t s = Inr (AdmissionReplay d, s')"
  | (fresh) p s1 c tables where "prepare_operation sha256 crate binding t s = Inr (AdmissionPrepared p, s1)"
      "operation (other_tables s1) = Inr (d, tables)" "rd_route d = rb_route binding"
      "complete_operation sha256 p (rd_canonical_bytes d) t e (s1\<lparr>other_tables := tables\<rparr>) = Inr (c, s')"
proof -
  from assms obtain a s1 where p: "prepare_operation sha256 crate binding t s = Inr (a, s1)"
      and rest: "(case a of AdmissionReplay response \<Rightarrow> Inr (response, s1)
         | AdmissionPrepared prepared \<Rightarrow>
             and_then (operation (other_tables s1)) (\<lambda>(response, tables).
             let b = rd_canonical_bytes response; s = s1\<lparr>other_tables := tables\<rparr> in
             if rd_route response \<noteq> rb_route binding \<or> b = [] \<or> RHI_ADMIN_OPERATION_RESPONSE_MODEL_MAX_BYTES < length b
             then Inl JournalInvalidInput
             else and_then (complete_operation sha256 prepared b t e s) (\<lambda>(_, s). Inr (response, s)))) = Inr (d, s')"
    by (auto simp: execute_operation_def)
  show thesis
  proof (cases a)
    case (AdmissionReplay response)
    then show thesis using p rest replay by simp
  next
    case (AdmissionPrepared prepared)
    with rest obtain tables c where "operation (other_tables s1) = Inr (d, tables)" "rd_route d = rb_route binding"
        "complete_operation sha256 prepared (rd_canonical_bytes d) t e (s1\<lparr>other_tables := tables\<rparr>) = Inr (c, s')"
      by (auto simp: Let_def split: if_split_asm prod.split_asm)
    then show thesis using fresh p AdmissionPrepared by blast
  qed
qed

text \<open>A property that the three effects keep is kept by every step and every run.\<close>

lemma journal_steps_keep:
  assumes steps: "journal_steps sha256 crate until s s'" and start: "P s"
    and prep: "\<And>binding t a x y. t < until \<Longrightarrow> P x \<Longrightarrow> prepare_operation sha256 crate binding t x = Inr (a, y) \<Longrightarrow> P y"
    and comp: "\<And>p response t e c x y. P x \<Longrightarrow> complete_operation sha256 p response t e x = Inr (c, y) \<Longrightarrow> P y"
    and other: "\<And>x tables. P x \<Longrightarrow> P (x\<lparr>other_tables := tables\<rparr>)"
  shows "P s'"
  using steps start
proof (induction rule: journal_steps.induct)
  case (steps_step s s' t s'')
  from steps_step.hyps(2) steps_step.IH[OF steps_step.prems] steps_step.hyps(3) show ?case
  proof (cases rule: journal_step.cases)
    case (step_execute binding e operation d)
    from this(1) show ?thesis
    proof (cases rule: execute_operationE)
      case replay
      then show ?thesis using prep steps_step by blast
    next
      case (fresh p s1 c tables)
      then show ?thesis using prep comp other steps_step by metis
    qed
  qed (auto intro: prep comp other)
qed simp

section \<open>Exactly once\<close>

lemma prepare_valid:
  assumes "admin_rows_valid (admin_rows s)" and "prepare_operation sha256 crate binding t s = Inr (a, s')"
  shows "admin_rows_valid (admin_rows s')"
  using assms(2) by (cases rule: prepare_operationE) (use assms(1) prune_valid in auto)

lemma complete_valid:
  assumes "admin_rows_valid (admin_rows s)" and "complete_operation sha256 p response t e s = Inr (c, s')"
  shows "admin_rows_valid (admin_rows s')"
  using assms(2) by (cases rule: complete_operationE) (use assms(1) in auto)

text \<open>A receipt is neither changed nor lost before it expires.\<close>

lemma prepare_keeps_receipt:
  assumes "admin_rows_valid (admin_rows s)" "r \<in> set (admin_rows s)" "aor_expires_at_unix_ms r = Some x" "int t < x"
    and "prepare_operation sha256 crate binding t s = Inr (a, s')"
  shows "r \<in> set (admin_rows s')"
  using assms(5) by (cases rule: prepare_operationE) (use prune_keeps[OF assms(1-4)] in auto)

lemma complete_keeps_receipt:
  assumes "r \<in> set (admin_rows s)" "aor_state r = ''completed''" and "complete_operation sha256 p response t e s = Inr (c, s')"
  shows "r \<in> set (admin_rows s')"
  using assms(3)
proof (cases rule: complete_operationE)
  case replay
  then show ?thesis using assms(1) by simp
next
  case (receipt row)
  have "\<not> complete_operation_where (po_operation_id p) r" using assms(2) by (simp add: complete_operation_where_def)
  then show ?thesis using assms(1) receipt(1) by (auto simp: image_iff intro!: bexI[of _ r])
qed

lemma receipt_survives:
  assumes "journal_steps sha256 crate until s s'" and "admin_rows_valid (admin_rows s)" "r \<in> set (admin_rows s)"
    "aor_state r = ''completed''" "aor_expires_at_unix_ms r = Some (int until)"
  shows "admin_rows_valid (admin_rows s') \<and> r \<in> set (admin_rows s')"
  using assms(1)
proof (rule journal_steps_keep[where P = "\<lambda>s. admin_rows_valid (admin_rows s) \<and> r \<in> set (admin_rows s)"])
  fix binding t a and x y :: "'b admin_store"
  assume "t < until" and P: "admin_rows_valid (admin_rows x) \<and> r \<in> set (admin_rows x)"
    and p: "prepare_operation sha256 crate binding t x = Inr (a, y)"
  then have "int t < int until" by simp
  then show "admin_rows_valid (admin_rows y) \<and> r \<in> set (admin_rows y)"
    using prepare_valid[OF _ p] prepare_keeps_receipt[OF _ _ assms(5) _ p] P by simp
next
  fix p response t e c and x y :: "'b admin_store"
  assume "admin_rows_valid (admin_rows x) \<and> r \<in> set (admin_rows x)"
    and c: "complete_operation sha256 p response t e x = Inr (c, y)"
  then show "admin_rows_valid (admin_rows y) \<and> r \<in> set (admin_rows y)"
    using complete_valid[OF _ c] complete_keeps_receipt[OF _ assms(4) c] by simp
qed (use assms(2,3) in simp_all)

text \<open>
  C30.  A mutation of the database is executed exactly once per operation identity.  After the first execution under an
  identity has committed, every repetition of the request before the receipt expires, whatever else the service did in
  between, returns the same response and leaves every other table as it was, without running the mutation again.
\<close>

theorem admin_operation_once:
  assumes valid: "admin_rows_valid (admin_rows s)"
    and new: "rb_operation_id binding \<notin> aor_operation_id ` set (admin_rows s)"
    and run: "execute_operation sha256 crate binding t expires operation s = Inr (response, s')"
    and sealed: "\<And>x r x'. operation x = Inr (r, x') \<Longrightarrow> response_from_canonical_bytes crate (rd_route r) (rd_canonical_bytes r) = Inr r"
    and later: "journal_steps sha256 crate expires s' s''" and before: "t' < expires"
  shows "\<exists>s3. execute_operation sha256 crate binding t' expires' operation' s'' = Inr (response, s3)
    \<and> other_tables s3 = other_tables s''"
proof -
  have pruned_new: "rb_operation_id binding \<notin> aor_operation_id ` set (admin_rows (prune_expired t s))"
    using new prune_subset[of t s] by blast
  from run obtain p s1 c tables where prep: "prepare_operation sha256 crate binding t s = Inr (AdmissionPrepared p, s1)"
      and op: "operation (other_tables s1) = Inr (response, tables)" "rd_route response = rb_route binding"
      and comp: "complete_operation sha256 p (rd_canonical_bytes response) t expires (s1\<lparr>other_tables := tables\<rparr>) = Inr (c, s')"
  proof (cases rule: execute_operationE)
    case replay
    have "read_operation (rb_operation_id binding) (prune_expired t s) = Inr None"
      using filter_absent[OF pruned_new] by (simp add: read_operation_def)
    with replay show ?thesis by (auto elim: prepare_operationE)
  qed blast
  have p: "po_operation_id p = rb_operation_id binding" "po_route p = rb_route binding"
      "po_request_sha256 p = rb_request_sha256 binding"
    using prep by (cases rule: prepare_operationE; simp)+
  obtain row where row: "row \<in> set (admin_rows s')" "aor_operation_id row = rb_operation_id binding"
      "decode_operation row = Inr (StoredCompleted (rb_route binding) (rb_request_sha256 binding) (rd_canonical_bytes response)
         (sha256 (rd_canonical_bytes response)) (po_prepared_at p) t expires)"
      and valid': "admin_rows_valid (admin_rows s')"
    using comp
  proof (cases rule: complete_operationE)
    case (replay row)
    obtain row' where "row' \<in> set (admin_rows s1)" "aor_state row' = ''prepared''" "aor_operation_id row' = rb_operation_id binding"
        "admin_rows_valid (admin_rows s1)"
      using prep by (cases rule: prepare_operationE) auto
    with replay p(1) have "row' = row" using same_operation[of "admin_rows s1" row' row] by simp
    with replay(4) \<open>aor_state row' = ''prepared''\<close> show ?thesis by simp
  next
    case (receipt row)
    then show ?thesis using that p by auto
  qed
  have later_row: "admin_rows_valid (admin_rows s'')" "row \<in> set (admin_rows s'')"
    using receipt_survives[OF later valid' row(1) decode_completedD[OF row(3)]] by auto
  let ?s = "prune_expired t' s''"
  have "row \<in> set (admin_rows ?s)" "admin_rows_valid (admin_rows ?s)"
    using prune_keeps[OF later_row decode_completedD(2)[OF row(3)]] before later_row prune_valid by auto
  then have "prepare_operation sha256 crate binding t' s'' = Inr (AdmissionReplay response, ?s)"
    using read_operation_row[of ?s row] row sealed[OF op(1)] op(2)
    by (simp add: prepare_operation_def Let_def admit_existing_def)
  then show ?thesis by (simp add: execute_operation_def)
qed

section \<open>Bounds\<close>

definition journal_bounded :: "'s admin_store \<Rightarrow> bool" where
  "journal_bounded s \<longleftrightarrow> admin_rows_valid (admin_rows s) \<and> length (admin_rows s) \<le> RHI_ADMIN_OPERATION_COMPLETED_LIMIT
   \<and> length (filter (\<lambda>r. aor_state r = ''prepared'') (admin_rows s)) \<le> RHI_ADMIN_OPERATION_PREPARED_LIMIT"

lemma states_partition:
  assumes "admin_rows_valid rows"
  shows "length rows = length (filter (\<lambda>r. aor_state r = ''completed'') rows) + length (filter (\<lambda>r. aor_state r = ''prepared'') rows)"
  using assms by (induction rows) (auto simp: admin_rows_valid_def admin_row_check_def)

lemma length_filter_filter_le: "length (filter p (filter q xs)) \<le> length (filter p xs)"
  by (induction xs) auto

lemma prune_bounded: "journal_bounded s \<Longrightarrow> journal_bounded (prune_expired t s)"
  using prune_valid[of s t]
  by (auto simp: journal_bounded_def prune_expired_def intro: le_trans[OF length_filter_le] le_trans[OF length_filter_filter_le]
      simp del: filter_filter)

lemma prepare_bounded:
  assumes "journal_bounded s" and "prepare_operation sha256 crate binding t s = Inr (a, s')"
  shows "journal_bounded s'"
  using assms(2)
proof (cases rule: prepare_operationE)
  case (replay d existing)
  then show ?thesis using prune_bounded assms(1) by simp
next
  case (new row)
  have "admin_rows_valid (admin_rows (prune_expired t s))" using prune_bounded[OF assms(1)] by (simp add: journal_bounded_def)
  from states_partition[OF this] show ?thesis using new by (simp add: journal_bounded_def)
qed

lemma complete_bounded:
  assumes "journal_bounded s" and "complete_operation sha256 p response t e s = Inr (c, s')"
  shows "journal_bounded s'"
  using assms(2)
proof (cases rule: complete_operationE)
  case (replay row)
  then show ?thesis using assms(1) by simp
next
  case (receipt row)
  have "length (filter (\<lambda>r. aor_state r = ''prepared'') (map (\<lambda>r. if complete_operation_where k r then complete_operation_set a b c' d r else r) rows))
      \<le> length (filter (\<lambda>r. aor_state r = ''prepared'') rows)" for k a b c' d and rows
    by (induction rows) (auto simp: complete_operation_set_def)
  from le_trans[OF this] show ?thesis using receipt(1,2) assms(1) by (simp add: journal_bounded_def)
qed

text \<open>A journal within its bounds has nothing expired left after a pruning: one pruning takes every expired receipt.\<close>

lemma prune_removes_expired:
  assumes "journal_bounded s" and r: "r \<in> set (admin_rows (prune_expired t s))" and x: "aor_expires_at_unix_ms r = Some x"
  shows "int t < x"
proof (rule ccontr)
  assume "\<not> int t < x"
  let ?expired = "filter (\<lambda>r. aor_state r = ''completed'' \<and> sql_le (aor_expires_at_unix_ms r) (int t)) (admin_rows s)"
  have in_s: "r \<in> set (admin_rows s)" using r prune_subset by blast
  then have "admin_row_check r" using assms(1) by (auto simp: journal_bounded_def admin_rows_valid_def list_all_iff)
  then have "r \<in> set ?expired" using in_s x \<open>\<not> int t < x\<close> by (auto simp: admin_row_check_def admin_row_shape_def)
  moreover have "length ?expired \<le> PRUNE_LIMIT"
    by (rule le_trans[OF length_filter_le])
      (use assms(1) in \<open>simp add: journal_bounded_def PRUNE_LIMIT_def RHI_ADMIN_OPERATION_COMPLETED_LIMIT_def\<close>)
  ultimately have "aor_operation_id r \<in> set (expired_operations (int t) (admin_rows s))" by (simp add: expired_operations_def)
  with r show False by (simp add: prune_expired_def)
qed

text \<open>
  C31.  From an empty table, whatever the service does, the journal never holds more than 4,096 operations, of which at most
  128 are unfinished, one row per operation identity; and an admission leaves no expired receipt behind, so that a journal
  full of receipts admits again once one of them has expired.
\<close>

theorem admin_journal_bounds:
  assumes "journal_steps sha256 crate until s s'" and "admin_rows s = []"
  shows "length (admin_rows s') \<le> 4096 \<and> length (filter (\<lambda>r. aor_state r = ''prepared'') (admin_rows s')) \<le> 128
    \<and> distinct (map aor_operation_id (admin_rows s'))
    \<and> (\<forall>sha256 crate binding t a s2 r x. prepare_operation sha256 crate binding t s' = Inr (a :: 'g admission, s2)
         \<longrightarrow> r \<in> set (admin_rows s2) \<longrightarrow> aor_expires_at_unix_ms r = Some x \<longrightarrow> int t < x)"
proof -
  have "journal_bounded s'" using assms(1)
  proof (rule journal_steps_keep[where P = journal_bounded])
    show "journal_bounded s" by (simp add: journal_bounded_def admin_rows_valid_def assms(2))
    show "journal_bounded (x\<lparr>other_tables := tables\<rparr>)" if "journal_bounded x" for x :: "'b admin_store" and tables
      using that by (simp add: journal_bounded_def)
  qed (blast intro: prepare_bounded complete_bounded)+
  moreover have "int t < x" if p: "prepare_operation sha256 crate binding t s' = Inr (a :: 'g admission, s2)"
      and r: "r \<in> set (admin_rows s2)" "aor_expires_at_unix_ms r = Some x" for sha256 crate binding t a s2 r x
    using p
  proof (cases rule: prepare_operationE)
    case (replay d existing)
    then show ?thesis using prune_removes_expired[OF \<open>journal_bounded s'\<close>] r by simp
  next
    case (new row)
    have "aor_expires_at_unix_ms row = None"
      using new(1-4) by (auto simp: admin_rows_valid_def admin_row_check_def admin_row_shape_def)
    then show ?thesis using prune_removes_expired[OF \<open>journal_bounded s'\<close>] r new(1) by auto
  qed
  ultimately show ?thesis
    by (simp add: journal_bounded_def admin_rows_valid_def RHI_ADMIN_OPERATION_COMPLETED_LIMIT_def
        RHI_ADMIN_OPERATION_PREPARED_LIMIT_def)
qed

end
