(* ===== verification/Admin_Journal_Demo.thy ===== *)
theory Admin_Journal_Demo
  imports State_Admin_Props
begin

text \<open>A journal with one operation executed twice, the second time after another operation.\<close>

definition demo_admin_crate :: "unit admin_crate" where
  "demo_admin_crate = \<lparr>ac_type = (\<lambda>_. None), ac_model_fields = (\<lambda>_. Some (JObject [])), ac_routes = None,
     ac_model_count = None, ac_body_maximum = None, ac_parse = (\<lambda>_. (RawObject [], True)), ac_to_vec = (\<lambda>_. Some [123, 125]),
     ac_url_scheme = (\<lambda>_. None)\<rparr>"

definition demo_admin_sha256 :: "bytes \<Rightarrow> bytes" where
  "demo_admin_sha256 b = replicate 32 7"

definition demo_admin_binding :: "string \<Rightarrow> request_binding" where
  "demo_admin_binding k = \<lparr>rb_operation_id = k, rb_route = RoutePublicationRetry, rb_request_sha256 = replicate 32 1\<rparr>"

definition demo_admin_response :: "unit response_document" where
  "demo_admin_response = \<lparr>rd_route = RoutePublicationRetry, rd_canonical_bytes = [123, 125], rd_value = JObject []\<rparr>"

definition demo_admin_operation :: "nat \<Rightarrow> (journal_error, unit response_document \<times> nat) result" where
  "demo_admin_operation n = Inr (demo_admin_response, Suc n)"

definition demo_admin_row :: "string \<Rightarrow> int \<Rightarrow> admin_row" where
  "demo_admin_row k t = \<lparr>aor_operation_id = k, aor_route = ''radroots.rhi.publication.retry.v1'',
     aor_request_sha256 = replicate 32 1, aor_state = ''completed'', aor_response_model = Some [123, 125],
     aor_response_sha256 = Some (replicate 32 7), aor_prepared_at_unix_ms = t, aor_completed_at_unix_ms = Some t,
     aor_expires_at_unix_ms = Some (t + 100)\<rparr>"

lemmas demo_admin_defs = demo_admin_crate_def demo_admin_sha256_def demo_admin_binding_def demo_admin_response_def
  demo_admin_operation_def demo_admin_row_def execute_operation_def prepare_operation_def Let_def prune_expired_def
  expired_operations_def PRUNE_LIMIT_def read_operation_def read_counts_def insert_prepared_def sql_insert_def
  admin_rows_valid_def admin_row_check_def admin_row_shape_def admin_row_guard_def operation_id_char_def
  is_ascii_alphanumeric_def is_ascii_digit_def is_ascii_lowercase_def decode_operation_def parse_route_def admin_routes_def
  is_mutation_def journal_digest_def journal_time_def admin_time_new_def complete_operation_def complete_prepared_def
  complete_operation_where_def complete_operation_set_def sql_update_def i64_max_def u64_max_def
  RHI_ADMIN_OPERATION_RESPONSE_MODEL_MAX_BYTES_def RHI_ADMIN_OPERATION_COMPLETED_LIMIT_def RHI_ADMIN_OPERATION_PREPARED_LIMIT_def

lemma demo_first:
  "execute_operation demo_admin_sha256 demo_admin_crate (demo_admin_binding ''op-1'') 10 110 demo_admin_operation
     \<lparr>admin_rows = [], other_tables = 0\<rparr>
   = Inr (demo_admin_response, \<lparr>admin_rows = [demo_admin_row ''op-1'' 10], other_tables = 1\<rparr>)"
  by (simp add: demo_admin_defs)

lemma demo_second:
  "execute_operation demo_admin_sha256 demo_admin_crate (demo_admin_binding ''op-2'') 20 120 demo_admin_operation
     \<lparr>admin_rows = [demo_admin_row ''op-1'' 10], other_tables = 1\<rparr>
   = Inr (demo_admin_response, \<lparr>admin_rows = [demo_admin_row ''op-1'' 10, demo_admin_row ''op-2'' 20], other_tables = 2\<rparr>)"
  by (simp add: demo_admin_defs)

lemma demo_sealed:
  "demo_admin_operation x = Inr (r, x') \<Longrightarrow>
   response_from_canonical_bytes demo_admin_crate (rd_route r) (rd_canonical_bytes r) = Inr r"
  by (auto simp: demo_admin_operation_def demo_admin_response_def demo_admin_crate_def response_from_canonical_bytes_def
      strict_json_def validate_model_def model_fields_def RHI_ADMIN_RESPONSE_BODY_MAX_UTF8_BYTES_def)

lemma demo_steps:
  "journal_steps demo_admin_sha256 demo_admin_crate 110 \<lparr>admin_rows = [demo_admin_row ''op-1'' 10], other_tables = 1 :: nat\<rparr>
     \<lparr>admin_rows = [demo_admin_row ''op-1'' 10, demo_admin_row ''op-2'' 20], other_tables = 2\<rparr>"
  by (rule steps_step[OF steps_refl step_execute[OF demo_second]]) simp

lemma demo_journal_run:
  "journal_steps demo_admin_sha256 demo_admin_crate 110 \<lparr>admin_rows = [], other_tables = 0 :: nat\<rparr>
     \<lparr>admin_rows = [demo_admin_row ''op-1'' 10, demo_admin_row ''op-2'' 20], other_tables = 2\<rparr>"
  by (rule steps_step[OF steps_step[OF steps_refl step_execute[OF demo_first]] step_execute[OF demo_second]]) simp_all

text \<open>Witness: \<open>op-1\<close> again, after \<open>op-2\<close>, with a handler that would fail.\<close>

theorem admin_operation_once_witness:
  "\<exists>s3. execute_operation demo_admin_sha256 demo_admin_crate (demo_admin_binding ''op-1'') 50 150 (\<lambda>_. Inl JournalStorage)
       \<lparr>admin_rows = [demo_admin_row ''op-1'' 10, demo_admin_row ''op-2'' 20], other_tables = 2 :: nat\<rparr> = Inr (demo_admin_response, s3)
    \<and> other_tables s3 = 2"
proof -
  have "rb_operation_id (demo_admin_binding ''op-1'') \<notin> aor_operation_id ` set (admin_rows \<lparr>admin_rows = [], other_tables = 0 :: nat\<rparr>)"
    by simp
  from admin_operation_once[OF _ this demo_first demo_sealed demo_steps, where t' = 50]
  show ?thesis by (simp add: admin_rows_valid_def)
qed

text \<open>Witness: the journal of both operations.\<close>

theorem admin_journal_bounds_witness:
  "\<exists>s' :: nat admin_store. length (admin_rows s') = 2 \<and> length (admin_rows s') \<le> 4096
    \<and> (\<forall>sha256 crate binding t a s2 r x. prepare_operation sha256 crate binding t s' = Inr (a :: unit admission, s2)
         \<longrightarrow> r \<in> set (admin_rows s2) \<longrightarrow> aor_expires_at_unix_ms r = Some x \<longrightarrow> int t < x)"
  using admin_journal_bounds[OF demo_journal_run, where ?'g = unit]
  by (intro exI[of _ "\<lparr>admin_rows = [demo_admin_row ''op-1'' 10, demo_admin_row ''op-2'' 20], other_tables = 2\<rparr>"]) simp

end
