(* ===== verification/Spec2Isabelle.thy ===== *)
theory Spec2Isabelle
  imports Reconciliation_Job_Witness Runtime_Adapters Publication_Outcomes State_Config_Props
    Reconciliation_Attempt_Props Reconciliation_Replay_Props Finalization_Witness Attestation_Props
    Presence_Desired_Props Presence_Demo Admin_Props Admin_Journal_Demo
begin

text \<open>
  Verification development of RHI, a trade-attestation service written in Rust under \<open>src/src\<close>.  The service admits
  signed trade events from relays into a local SQLite database, marks the trades they touch as dirty, reconciles every
  dirty trade in durable leased jobs, reduces the committed evidence to a verdict, signs an attestation of it, and
  publishes the signed event through an outbox; beside this it keeps its own presence documents published, and offers
  an administrative interface whose mutations are journalled.

  \<^bold>\<open>How the parts interact.\<close>  All parts share one store.  Ingestion (\<open>source_ingest.rs\<close>, over \<open>trade_ingest.rs\<close> and
  \<open>state_trade.rs\<close>) appends evidence, moves the checkpoint of a source and advances the dirty generation of a trade.
  The job repository (\<open>reconciliation_job.rs\<close>) schedules one job for a dirty generation, leases it to a worker and
  supersedes it when the generation moves.  Under the lease a worker plans the requests (\<open>reconciliation_attempt.rs\<close>),
  replays the sources (\<open>reconciliation_replay.rs\<close>), commits their results (\<open>reconciliation_commit.rs\<close>), freezes a manifest
  (\<open>reconciliation_manifest.rs\<close>), reduces it and evaluates a claim (\<open>reconciliation_reducer.rs\<close>), fences the evaluation
  (\<open>reconciliation_finalization.rs\<close>), signs and verifies the attestation (\<open>reconciliation_attestation.rs\<close>), and commits
  all of it with the completion of the job and the queued publication (\<open>reconciliation_finalization_commit.rs\<close>).  The
  publication executor (\<open>publication_execution.rs\<close>, with \<open>publication.rs\<close>, \<open>publication_submission.rs\<close> and
  \<open>publication_attempt.rs\<close>) claims an outbox, prepares one target durably, submits the exact bytes, and records the outcome
  or recovers an expired lease.  Presence (\<open>presence_desired.rs\<close>, \<open>presence_publication.rs\<close>) does the same for the
  service's own documents, fenced by a desired generation.  Every configuration is bound in a history
  (\<open>state_config.rs\<close>) whose evidence policy governs all dirty generations.  Administrative mutations go through a
  journal (\<open>state_admin.rs\<close>).

  \<^bold>\<open>Foundations.\<close>
  \<^item> \<open>Rhi_Prelude\<close>: results and options as sums and options, the integer conversions, all-or-nothing transactions
    (\<open>atomic_txn\<close>), and the lemmas and simplification rules the components share.
  \<^item> \<open>Sql_Table\<close>: a table is the list of its rows under a guard, a validity and keys; \<open>sql_update\<close>, \<open>sql_insert\<close>
    and SQLite's three-valued logic; the locale \<open>cas_table\<close> is the contract of a row replaced by compare-and-swap on
    its revision.
  \<^item> \<open>Catalog_Jobs\<close>, \<open>Catalog_Evidence\<close>, \<open>Catalog_Publication\<close>, \<open>Catalog_Presence\<close>: the tables, checks, keys and
    triggers of \<open>state_catalog.rs\<close>.  \<open>cas_table\<close> is interpreted at the dirty generations, the jobs, the checkpoints, the
    outboxes and the targets; the locale \<open>append_table\<close> (insert once, never change) at the three evidence tables.
  \<^item> \<open>Utf8_Text\<close>, \<open>Json_Text\<close>: UTF-8 and the two measurements of JSON strings.

  \<^bold>\<open>Components and what is shown of them.\<close>
  \<^item> Jobs: \<open>Reconciliation_Job\<close> is the model; \<open>_Inv\<close>, \<open>_Ops\<close> and \<open>_Machine\<close> hold the invariant, the rule of
    every operation and the machine of committed transactions; \<open>_Props\<close> and \<open>_Witness\<close> the properties: exclusive live
    leases, refused stale leases, counted and bounded claims, progress with the exact row that is stored, atomicity and
    the refusal of every operation on a read-only host.
  \<^item> \<open>Runtime_Adapters\<close>: clock, deadline and jitter at 64 and 128 bits; the sampled jitter is uniform.
  \<^item> Ingestion: \<open>Trade_Ingest\<close>, \<open>State_Trade\<close>, \<open>Source_Fetch\<close>, \<open>Source_Ingest\<close> with their \<open>_Props\<close>: admitted events are
    verified and within every limit, persistence is exact and idempotent, the page loop ends and a complete fetch left
    nothing out, the commit is fenced and stores exactly the evidence of the admitted events, and what a subscribed
    event does to the checkpoint.
  \<^item> Configuration: \<open>State_Metadata\<close>, \<open>State_Config\<close>, \<open>State_Config_Props\<close>: the history has no gap and its policy
    governs every dirty generation.
  \<^item> Reconciliation: \<open>Reconciliation_Attempt\<close>, \<open>_Replay\<close>, \<open>_Commit\<close>, \<open>_Manifest\<close>, \<open>_Reducer\<close>, \<open>_Finalization\<close>,
    \<open>_Attestation\<close> with their \<open>_Props\<close>: plans are well formed, canonicalization meets its specification, a commit is
    fenced, exact and happens once, committed material reduces, the verdict and its reason are decided by exact
    conditions, an attestation is verified independently of the signer and survives its columns.
  \<^item> Finalization: \<open>Finalization_Commit\<close>, \<open>_Props\<close>, \<open>_Once\<close>, \<open>_Witness\<close>: fenced by the lease, the generation, the
    committed sources, the standing checkpoints and the superseded report, atomic, and recognised when repeated.
  \<^item> Publication: \<open>Publication_Authority\<close>, \<open>_Submission\<close>, \<open>_Execution\<close>, \<open>_Operations\<close>, \<open>_Queue\<close> are the model;
    \<open>_Inv\<close>, \<open>_Store\<close>, \<open>_Rules\<close>, \<open>_View\<close>, \<open>_Sched\<close>, \<open>_Writers\<close>, \<open>_Progress\<close> the invariants; \<open>_Machine\<close>, \<open>_Runs\<close> and
    \<open>_Executor\<close> a step relation of any number of executors, the administrator and the finalization, and the refinement
    of the executor to it; \<open>_Props\<close>, \<open>_Outcomes\<close>, \<open>_Facts\<close>, \<open>_Demo\<close> the properties: one submission in flight, accounted
    attempts, exact bytes in every attempt, the state an outbox is released in, progress and recovery, an append-only
    history, and the loss of the last outcome.
  \<^item> Presence: \<open>Presence_Desired\<close>, \<open>_Records\<close>, \<open>_Documents\<close>, \<open>_Operations\<close>, \<open>_Executor\<close> are the model; \<open>_Rules\<close>,
    \<open>_Desired_Props\<close>, \<open>_Props\<close>, \<open>_Demo\<close> the properties: the desired state is a compare-and-swap to exactly the
    authority, a document set is stored once, attempts are durable and verified before the sink sees them, and the loss
    of the last outcome.
  \<^item> Administration: \<open>Admin_Models\<close>, \<open>Admin_Requests\<close>, \<open>Admin_Props\<close>: routes, documents and dispatch; \<open>State_Admin\<close>,
    \<open>State_Admin_Props\<close>, \<open>Admin_Journal_Demo\<close>: the journal runs a mutation once and stays within its bounds.

  \<^bold>\<open>Reading the model.\<close>  A Rust function is a HOL function of the same name, prefixed where two modules share a name; an
  \<open>Err\<close> is an \<open>Inl\<close>; a transaction body takes and returns the store, and the public operation runs it through a
  transaction host that is a parameter, assumed only to be all or nothing (a commit whose outcome is unknown may or may not
  have happened).  Code of other crates is a parameter: SHA-256, the serde_json reader and serializer, the event codec,
  signature and key checks, the manifest, report and reducer crates, the relay transport, the clock and the entropy source.
  Unsigned integers are natural numbers with their bound written out at every conversion and checked operation, columns
  are integers, and the jitter arithmetic is on words.  Loops of the source are structural recursions, except the page
  loop of the fetch, a partial function that is shown to return within one request more than the number of events that
  the configuration admits, and the jitter, whose fuel is the sixteen draws of the source.  The recursion of
  \<open>from_utf8\<close> decreases the length of the text; the type check of the administrative documents carries the
  nesting limit of the source.

  \<^bold>\<open>Not modelled.\<close>  Opening, locking, migrating and backing up the database (\<open>state_repository.rs\<close>, \<open>state_host.rs\<close>,
  \<open>state_maintenance.rs\<close>): calls into the SQLite crate and the file system.  The configuration documents
  (\<open>config_v1.rs\<close>, \<open>config_loader.rs\<close>): serde derivations and file reading; operations take what they read as a
  parameter.  Identity files (\<open>identity_envelope.rs\<close>, \<open>identity_credential.rs\<close>): cryptography and file permissions.  The
  relay adapter (\<open>transport_nostr_adapter.rs\<close>), the asynchronous runtime graph, the command line and process, the
  read-only diagnostics and status reports, the socket server and the read-only routes of \<open>runtime_admin.rs\<close>, and the
  build tooling.

  \<^bold>\<open>Properties.\<close>  They are the theorems marked C1 to C40, each at the end of the theory of its component, with a
  witness at a concrete store wherever a theorem has a hypothesis.
\<close>

end
